(* ===== verification/Prelude.thy ===== *)
theory Prelude
  imports Main "HOL-Library.Word"
begin

text \<open>
  Shared vocabulary of the development: the widths of the C integer types, the faults a C
  function can end in, the conversions the C code relies on (sign extension, truncation, the
  int value of a condition), byte memories with the \<open>memcpy\<close> the code uses, and generic
  lemmas about bit operations on words that several components need.
\<close>

unbundle bit_operations_syntax

section \<open>C types, faults and results\<close>

type_synonym u8 = "8 word"
type_synonym u16 = "16 word"
type_synonym u32 = "32 word"
type_synonym u64 = "64 word"

text \<open>
  The ways a call can fail to return: \<open>abort ()\<close>, a panic (its message and number, then
  \<open>abort ()\<close>), \<open>exit (EXIT_FAILURE)\<close>, a failed \<open>assert\<close>, an access outside an array, the deliberate endless
  loop after a fatal message, and the TLB shutdown machine check.
\<close>

datatype fault = Aborted | Panicked string u32 | Exited | AssertFailed | OutOfBounds | Hung | TlbShutdown

type_synonym 'a res = "fault + 'a"

definition bind_res :: "'a res \<Rightarrow> ('a \<Rightarrow> 'b res) \<Rightarrow> 'b res" where
  "bind_res m f = (case m of Inl e \<Rightarrow> Inl e | Inr x \<Rightarrow> f x)"

lemma bind_res_simps [simp]:
  "bind_res (Inl e) f = Inl e"
  "bind_res (Inr x) f = f x"
  by (simp_all add: bind_res_def)

lemma bind_res_eq_Inr: "bind_res m f = Inr y \<longleftrightarrow> (\<exists>x. m = Inr x \<and> f x = Inr y)"
  by (cases m) auto

lemma bind_res_assoc: "bind_res (bind_res m f) g = bind_res m (\<lambda>x. bind_res (f x) g)"
  by (cases m) auto

lemma bind_res_cong: "m = m' \<Longrightarrow> (\<And>x. m' = Inr x \<Longrightarrow> f x = g x) \<Longrightarrow> bind_res m f = bind_res m' g"
  by (cases m') auto

text \<open>A loop over \<open>xs\<close> that ends at the first failure.\<close>

fun fold_res :: "('x \<Rightarrow> 'a \<Rightarrow> 'a res) \<Rightarrow> 'x list \<Rightarrow> 'a \<Rightarrow> 'a res" where
  "fold_res f [] a = Inr a"
| "fold_res f (x # xs) a = bind_res (f x a) (fold_res f xs)"

lemma fold_res_append: "fold_res f (xs @ ys) a = bind_res (fold_res f xs a) (fold_res f ys)"
  by (induction xs arbitrary: a) (auto simp: bind_res_def split: sum.split)

lemma fold_res_keeps:
  assumes "fold_res f xs a = Inr b" and "P a" and "\<And>x a b. P a \<Longrightarrow> f x a = Inr b \<Longrightarrow> P b"
  shows "P b"
  using assms(1,2)
proof (induction xs arbitrary: a)
  case Nil
  then show ?case by simp
next
  case (Cons x xs)
  then show ?case using assms(3) by (auto simp: bind_res_eq_Inr)
qed

text \<open>A loop whose body keeps an invariant returns and keeps it.\<close>

lemma fold_res_inv:
  assumes "P a" and "\<And>x a. x \<in> set xs \<Longrightarrow> P a \<Longrightarrow> \<exists>b. f x a = Inr b \<and> P b"
  shows "\<exists>b. fold_res f xs a = Inr b \<and> P b"
  using assms
proof (induction xs arbitrary: a)
  case Nil
  then show ?case by simp
next
  case (Cons x xs)
  obtain b where b: "f x a = Inr b" "P b" using Cons.prems(1,2) by (meson list.set_intros(1))
  have "\<exists>d. fold_res f xs b = Inr d \<and> P d"
    by (rule Cons.IH [OF b(2)]) (meson Cons.prems(2) list.set_intros(2))
  then show ?case using b(1) by simp
qed

definition c_bool :: "bool \<Rightarrow> u32" where
  "c_bool b = (if b then 1 else 0)"

lemma c_bool_simps [simp]: "c_bool True = 1" "c_bool False = 0" "(c_bool b = 0) = (\<not> b)"
  by (simp_all add: c_bool_def)

section \<open>Automation shared by the components\<close>

named_theorems word_fold \<comment> \<open>bit-level readings of the word operations\<close>
named_theorems inv_intro \<comment> \<open>an operation keeps its component's invariant\<close>

lemmas bitwise = bit_and_iff bit_or_iff bit_xor_iff bit_not_iff bit_push_bit_iff
  bit_drop_bit_eq bit_mask_iff

lemma word_bit_ext:
  fixes x y :: "'a::len word"
  assumes "\<And>n. n < LENGTH('a) \<Longrightarrow> bit x n = bit y n"
  shows "x = y"
  by (rule bit_word_eqI) (rule assms)

lemma and_not_or_self [word_fold]:
  fixes x m :: "'a::len word"
  shows "(x AND NOT m) OR (x AND m) = x"
  by (rule word_bit_ext) (auto simp: bitwise)

lemma and_not_and_self [word_fold]:
  fixes x m :: "'a::len word"
  shows "(x AND NOT m) AND m = 0"
  by (rule word_bit_ext) (auto simp: bitwise)

lemma or_self_and [word_fold]:
  fixes x m :: "'a::len word"
  shows "(x OR m) AND m = m"
  by (rule word_bit_ext) (auto simp: bitwise)

lemma xor_zero_eq: "(x XOR y = 0) = (x = y)" for x y :: "'a::len word"
proof
  assume "x XOR y = 0"
  then have "(x XOR y) XOR y = y" by simp
  then show "x = y" by (simp add: xor.assoc)
qed simp

text \<open>Clearing a single bit that is not set changes nothing; setting one that is set neither.\<close>

lemma and_not_unset:
  fixes x m :: "'a::len word"
  assumes "x AND m = 0"
  shows "x AND NOT m = x"
proof (rule word_bit_ext)
  fix n
  assume "n < LENGTH('a)"
  moreover have "bit (x AND m) n = bit (0 :: 'a word) n"
    using assms by simp
  ultimately show "bit (x AND NOT m) n = bit x n"
    by (auto simp: bitwise)
qed

text \<open>Testing one bit.\<close>

lemma and_bit_test:
  fixes x :: "'a::len word"
  assumes "n < LENGTH('a)"
  shows "(x AND push_bit n 1 = 0) = (\<not> bit x n)"
proof
  assume "x AND push_bit n 1 = 0"
  then have "bit (x AND push_bit n 1) n = bit (0 :: 'a word) n" by (rule arg_cong)
  with assms show "\<not> bit x n" by (simp add: bitwise bit_1_iff del: push_bit_of_1)
next
  assume "\<not> bit x n"
  then show "x AND push_bit n 1 = 0"
    by (intro word_bit_ext) (auto simp: bitwise bit_1_iff simp del: push_bit_of_1)
qed

section \<open>Byte memories\<close>

type_synonym memory = "u64 \<Rightarrow> u8"

text \<open>
  \<open>memcpy (dst, src, n)\<close> for blocks that do not overlap: the bytes of the image \<open>img\<close> at the
  offsets below \<open>n\<close>, everything else as before.
\<close>

definition store_bytes :: "u64 \<Rightarrow> nat \<Rightarrow> (nat \<Rightarrow> u8) \<Rightarrow> memory \<Rightarrow> memory" where
  "store_bytes dst n img m = (\<lambda>a. if unat (a - dst) < n then img (unat (a - dst)) else m a)"

definition load_bytes :: "u64 \<Rightarrow> memory \<Rightarrow> nat \<Rightarrow> u8" where
  "load_bytes src m = (\<lambda>k. m (src + of_nat k))"

definition in_block :: "u64 \<Rightarrow> nat \<Rightarrow> u64 \<Rightarrow> bool" where
  "in_block dst n a = (unat (a - dst) < n)"

lemma store_bytes_outside: "\<not> in_block dst n a \<Longrightarrow> store_bytes dst n img m a = m a"
  by (simp add: store_bytes_def in_block_def)

lemma store_bytes_inside: "in_block dst n a \<Longrightarrow> store_bytes dst n img m a = img (unat (a - dst))"
  by (simp add: store_bytes_def in_block_def)

lemma store_load_same: "store_bytes dst n (load_bytes dst m) m = m"
  by (rule ext) (simp add: store_bytes_def load_bytes_def )

lemma store_bytes_mem: "store_bytes d n img m a = (if in_block d n a then img (unat (a - d)) else m a)"
  by (simp add: store_bytes_def in_block_def)

lemma load_bytes_at: "load_bytes d m (unat (a - d)) = m a"
  by (simp add: load_bytes_def)

lemma in_block_apart:
  assumes "in_block (d + of_nat j) n a" and "n \<le> j" and "j + n \<le> 2 ^ 64"
  shows "\<not> in_block d n a"
proof
  assume "in_block d n a"
  then have x: "unat (a - d) < n" by (simp add: in_block_def)
  have "unat (of_nat j :: u64) = j \<or> n = 0"
    using assms(2,3) by (cases "n = 0") (auto simp: unat_of_nat)
  moreover have "unat (a - d - of_nat j) < n"
    using assms(1) by (simp add: in_block_def diff_diff_eq)
  ultimately show False
    using x assms(2,3) by (auto simp: unat_sub_if_size word_size split: if_splits)
qed

text \<open>Bits at and above a bound are clear in a word below the bound's power of two.\<close>

lemma small_take_bit:
  fixes x :: "'a::len word"
  assumes "unat x < 2 ^ w"
  shows "take_bit w x = x"
  by (rule word_unat_eq_iff [THEN iffD2]) (simp add: unsigned_take_bit_eq take_bit_nat_eq_self assms)

lemma small_word_bit:
  fixes x :: "'a::len word"
  assumes "unat x < 2 ^ w" and "w \<le> i"
  shows "\<not> bit x i"
  using assms(2) by (subst small_take_bit [OF assms(1), symmetric]) (simp add: bit_take_bit_iff)

section \<open>Values in memory\<close>

text \<open>The value of bytes, the least significant first, and the bytes of a value.\<close>

fun le_value :: "u8 list \<Rightarrow> u64" where
  "le_value [] = 0"
| "le_value (b # bs) = ucast b OR push_bit 8 (le_value bs)"

definition le_bytes :: "nat \<Rightarrow> u64 \<Rightarrow> u8 list" where
  "le_bytes n v = map (\<lambda>k. ucast (drop_bit (8 * k) v)) [0..<n]"

lemma length_le_bytes [simp]: "length (le_bytes n v) = n"
  by (simp add: le_bytes_def)

lemma le_value_bit:
  "bit (le_value bs) i \<longleftrightarrow> i < 64 \<and> i < 8 * length bs \<and> bit (bs ! (i div 8)) (i mod 8)"
proof (induction bs arbitrary: i)
  case Nil
  then show ?case by simp
next
  case (Cons b bs)
  show ?case
  proof (cases "i < 8")
    case True
    then show ?thesis by (auto simp: bitwise bit_ucast_iff)
  next
    case False
    then have "i div 8 = Suc ((i - 8) div 8)" "(i - 8) mod 8 = i mod 8"
      by (simp_all add: le_div_geq le_mod_geq)
    with False show ?thesis
      by (auto simp: bitwise bit_ucast_iff Cons.IH dest: bit_imp_le_length)
  qed
qed

lemma le_roundtrip:
  assumes "n \<le> 8"
  shows "le_value (le_bytes n v) = take_bit (8 * n) v"
proof (rule word_bit_ext)
  fix i assume "i < LENGTH(64)"
  have "i div 8 < n" if "i < 8 * n" using that by auto
  then show "bit (le_value (le_bytes n v)) i = bit (take_bit (8 * n) v) i"
    by (auto simp: le_value_bit le_bytes_def bit_take_bit_iff bit_ucast_iff bitwise
        dest: bit_imp_le_length)
qed

section \<open>Signed values\<close>

text \<open>Signed values that stay in range.\<close>

lemma sint_in_range: "sint x < 2 ^ (LENGTH('a) - 1)" "- (2 ^ (LENGTH('a) - 1)) \<le> sint (x :: 'a::len word)"
  using sint_range_size [of x] by (simp_all add: word_size)

lemma sint_plus_in_range:
  assumes "- (2 ^ (LENGTH('a) - 1)) \<le> sint x + k" and "sint x + k < 2 ^ (LENGTH('a) - 1)"
  shows "sint (x + of_int k :: 'a::len word) = sint x + k"
  using assms sint_sbintrunc' [of "sint x + k", where 'a = 'a] by (simp add: signed_take_bit_int_eq_self)

lemma sint_plus_one: "sint x < sint (y :: 'a word) \<Longrightarrow> sint (x + 1 :: 'a::len word) = sint x + 1"
  using sint_in_range(1) [of y] sint_in_range(2) [of x] sint_plus_in_range [of x 1] by simp

lemma uint_nonneg_sint: "0 \<le> sint x \<Longrightarrow> int (unat (x :: 'a::len word)) = sint x"
  using less_le_trans [OF sint_in_range(1) [of x] power_increasing [of "LENGTH('a) - 1" "LENGTH('a)" "2 :: int"]]
  by (simp add: uint_sint take_bit_int_eq_self)

end
