(* ===== verification/Sbmips.thy ===== *)
theory Sbmips
  imports Prelude
begin

text \<open>
  The bit-field macros and the CP0 register fields of \<open>include/sibyte/sbmips.h\<close> that the modelled
  sources use. The \<open>_MM_\<close> macros work on C \<open>int\<close> (here 32-bit words), their \<open>_64\<close> variants on
  \<open>uint64_t\<close>. The lemmas are the laws of a field: reading back what was made, and fields that do
  not overlap staying apart.
\<close>

unbundle bit_operations_syntax

section \<open>Bit-field macros\<close>

definition mm_makemask1 :: "nat \<Rightarrow> u32" where
  "mm_makemask1 n = push_bit n 1"

definition mm_makemask1_64 :: "nat \<Rightarrow> u64" where
  "mm_makemask1_64 n = push_bit n 1"

definition mm_makemask :: "nat \<Rightarrow> nat \<Rightarrow> u32" where
  "mm_makemask v n = push_bit n (push_bit v 1 - 1)"

definition mm_makemask_64 :: "nat \<Rightarrow> nat \<Rightarrow> u64" where
  "mm_makemask_64 v n = push_bit n (push_bit v 1 - 1)"

definition mm_makevalue :: "u32 \<Rightarrow> nat \<Rightarrow> u32" where
  "mm_makevalue v n = push_bit n v"

definition mm_makevalue_64 :: "u64 \<Rightarrow> nat \<Rightarrow> u64" where
  "mm_makevalue_64 v n = push_bit n v"

definition mm_getvalue :: "u32 \<Rightarrow> nat \<Rightarrow> u32 \<Rightarrow> u32" where
  "mm_getvalue v n m = drop_bit n (v AND m)"

definition mm_getvalue_64 :: "u64 \<Rightarrow> nat \<Rightarrow> u64 \<Rightarrow> u64" where
  "mm_getvalue_64 v n m = drop_bit n (v AND m)"

lemma push_bit_1_minus_1: "(push_bit v 1 - 1 :: 'a::len word) = mask v"
  by (simp add: mask_eq_exp_minus_1 push_bit_eq_mult)

lemma mm_makemask_bit [word_fold]:
  "bit (mm_makemask v n) i \<longleftrightarrow> n \<le> i \<and> i < n + v \<and> i < 32"
  unfolding mm_makemask_def push_bit_1_minus_1 by (auto simp: bitwise)

lemma mm_makemask_64_bit [word_fold]:
  "bit (mm_makemask_64 v n) i \<longleftrightarrow> n \<le> i \<and> i < n + v \<and> i < 64"
  unfolding mm_makemask_64_def push_bit_1_minus_1 by (auto simp: bitwise)

lemma mm_makemask1_bit [word_fold]: "bit (mm_makemask1 n) i \<longleftrightarrow> i = n \<and> i < 32"
  by (auto simp: mm_makemask1_def bitwise bit_1_iff simp del: push_bit_of_1)

lemma mm_makemask1_test [word_fold]: "n < 32 \<Longrightarrow> (x AND mm_makemask1 n = 0) = (\<not> bit x n)"
  using and_bit_test [of n x] by (simp add: mm_makemask1_def del: push_bit_of_1)

lemma mm_getvalue_64_bit [word_fold]:
  "bit (mm_getvalue_64 x n m) i \<longleftrightarrow> bit x (n + i) \<and> bit m (n + i)"
  by (simp add: mm_getvalue_64_def bitwise)

lemma mm_makevalue_64_bit [word_fold]:
  "bit (mm_makevalue_64 x n) i \<longleftrightarrow> n \<le> i \<and> i < 64 \<and> bit x (i - n)"
  by (auto simp: mm_makevalue_64_def bitwise)

lemma small_and_mask:
  fixes x :: "'a::len word"
  assumes "unat x < 2 ^ w"
  shows "x AND mask w = x"
  by (simp add: small_take_bit [OF assms] flip: take_bit_eq_mask)

lemma field_64_roundtrip:
  assumes "unat v < 2 ^ w" and "w + n \<le> 64"
  shows "mm_getvalue_64 (mm_makevalue_64 v n) n (mm_makemask_64 w n) = v"
proof (rule word_bit_ext)
  fix i assume "i < LENGTH(64)"
  show "bit (mm_getvalue_64 (mm_makevalue_64 v n) n (mm_makemask_64 w n)) i = bit v i"
  proof (cases "i < w")
    case True
    with assms(2) show ?thesis by (auto simp: word_fold)
  next
    case False
    with small_word_bit [OF assms(1), of i] show ?thesis by (auto simp: word_fold)
  qed
qed

section \<open>Status and Cause\<close>

definition M_SR_IE :: u32 where "M_SR_IE = mm_makemask1 0"
definition M_SR_EXL :: u32 where "M_SR_EXL = mm_makemask1 1"
definition M_SR_ERL :: u32 where "M_SR_ERL = mm_makemask1 2"
definition S_SR_IMASK :: nat where "S_SR_IMASK = 8"
definition M_SR_IMASK :: u32 where "M_SR_IMASK = mm_makemask 8 8"
definition M_SR_BEV :: u32 where "M_SR_BEV = mm_makemask1 22"
definition M_SR_MX :: u32 where "M_SR_MX = mm_makemask1 24"
definition M_CAUSE_BD :: u32 where "M_CAUSE_BD = mm_makemask1 31"
definition M_CAUSE_IV :: u32 where "M_CAUSE_IV = mm_makemask1 23"
definition S_CAUSE_IPMASK :: nat where "S_CAUSE_IPMASK = 8"
definition M_CAUSE_IPMASK :: u32 where "M_CAUSE_IPMASK = mm_makemask 8 S_CAUSE_IPMASK"
definition K_CAUSE_EXC_INT :: u32 where "K_CAUSE_EXC_INT = 0"
definition K_CAUSE_EXC_ADEL :: u32 where "K_CAUSE_EXC_ADEL = 4"
definition K_CAUSE_EXC_ADES :: u32 where "K_CAUSE_EXC_ADES = 5"

lemmas sr_mask_defs = M_SR_IE_def M_SR_EXL_def M_SR_ERL_def S_SR_IMASK_def M_SR_IMASK_def M_SR_BEV_def
  M_SR_MX_def M_CAUSE_BD_def M_CAUSE_IV_def S_CAUSE_IPMASK_def M_CAUSE_IPMASK_def

lemma single_bit_read [word_fold]:
  "bit M_SR_IE i \<longleftrightarrow> i = 0" "bit M_SR_EXL i \<longleftrightarrow> i = 1" "bit M_SR_BEV i \<longleftrightarrow> i = 22"
  "bit M_CAUSE_IV i \<longleftrightarrow> i = 23"
  by (auto simp: sr_mask_defs mm_makemask1_bit)

lemma single_bit_test [word_fold]:
  "(x AND M_SR_IE = 0) = (\<not> bit x 0)" "(x AND M_SR_EXL = 0) = (\<not> bit x 1)"
  "(x AND M_SR_BEV = 0) = (\<not> bit x 22)" "(x AND M_CAUSE_IV = 0) = (\<not> bit x 23)"
  by (simp_all add: sr_mask_defs mm_makemask1_test)

section \<open>Config\<close>

definition G_CFG_AT :: "u32 \<Rightarrow> u32" where
  "G_CFG_AT x = mm_getvalue x 13 (mm_makemask 2 13)"
definition K_CFG_AT_MIPS64_32 :: u32 where "K_CFG_AT_MIPS64_32 = 1"
definition K_CFG_AT_MIPS64 :: u32 where "K_CFG_AT_MIPS64 = 2"
definition M_CFG_FP :: u32 where "M_CFG_FP = mm_makemask1 0"
definition G_CFG_K0COH :: "u32 \<Rightarrow> u32" where
  "G_CFG_K0COH x = mm_getvalue x 0 (mm_makemask 3 0)"

section \<open>TLB entry fields\<close>

definition K_NTLBENTRIES :: nat where "K_NTLBENTRIES = 64"

definition S_TLBHI_VPN2 :: nat where "S_TLBHI_VPN2 = 13"
definition V_TLBHI_ASID :: "u64 \<Rightarrow> u64" where "V_TLBHI_ASID x = mm_makevalue_64 x 0"
definition G_TLBHI_ASID :: "u64 \<Rightarrow> u64" where
  "G_TLBHI_ASID x = mm_getvalue_64 x 0 (mm_makemask_64 8 0)"
definition V_TLBHI_VPN2 :: "u64 \<Rightarrow> u64" where "V_TLBHI_VPN2 x = mm_makevalue_64 x S_TLBHI_VPN2"
definition G_TLBHI_VPN2 :: "u64 \<Rightarrow> u64" where
  "G_TLBHI_VPN2 x = mm_getvalue_64 x S_TLBHI_VPN2 (mm_makemask_64 31 S_TLBHI_VPN2)"
definition V_TLBLO_G :: "u64 \<Rightarrow> u64" where "V_TLBLO_G x = mm_makevalue_64 x 0"
definition G_TLBLO_G :: "u64 \<Rightarrow> u64" where "G_TLBLO_G x = mm_getvalue_64 x 0 (mm_makemask1_64 0)"
definition V_TLBLO_V :: "u64 \<Rightarrow> u64" where "V_TLBLO_V x = mm_makevalue_64 x 1"
definition G_TLBLO_V :: "u64 \<Rightarrow> u64" where "G_TLBLO_V x = mm_getvalue_64 x 1 (mm_makemask1_64 1)"
definition V_TLBLO_D :: "u64 \<Rightarrow> u64" where "V_TLBLO_D x = mm_makevalue_64 x 2"
definition G_TLBLO_D :: "u64 \<Rightarrow> u64" where "G_TLBLO_D x = mm_getvalue_64 x 2 (mm_makemask1_64 2)"
definition V_TLBLO_CALG :: "u64 \<Rightarrow> u64" where "V_TLBLO_CALG x = mm_makevalue_64 x 3"
definition G_TLBLO_CALG :: "u64 \<Rightarrow> u64" where
  "G_TLBLO_CALG x = mm_getvalue_64 x 3 (mm_makemask_64 3 3)"
definition V_TLBLO_PFNMASK :: "u64 \<Rightarrow> u64" where "V_TLBLO_PFNMASK x = mm_makevalue_64 x 6"
definition G_TLBLO_PFNMASK :: "u64 \<Rightarrow> u64" where
  "G_TLBLO_PFNMASK x = mm_getvalue_64 x 6 (mm_makemask_64 28 6)"
definition V_TLB_PGMSK :: "u32 \<Rightarrow> u32" where "V_TLB_PGMSK x = mm_makevalue x 13"
definition G_TLB_PGMSK :: "u32 \<Rightarrow> u32" where
  "G_TLB_PGMSK x = mm_getvalue x 13 (mm_makemask 14 13)"

section \<open>Address spaces\<close>

definition K0BASE :: u64 where "K0BASE = 0xffffffff80000000"
definition K0SIZE :: u64 where "K0SIZE = 0x20000000"
definition K1BASE :: u64 where "K1BASE = 0xffffffffa0000000"
definition K1SIZE :: u64 where "K1SIZE = 0x20000000"
definition USIZE :: u64 where "USIZE = 0x80000000"
definition PHYS_TO_K0 :: "u64 \<Rightarrow> u64" where "PHYS_TO_K0 pa = K0BASE OR pa"
definition PHYS_TO_K1 :: "u64 \<Rightarrow> u64" where "PHYS_TO_K1 pa = K1BASE OR pa"
definition K0_TO_PHYS :: "u64 \<Rightarrow> u64" where "K0_TO_PHYS va = va AND (K0SIZE - 1)"
definition K1_TO_PHYS :: "u64 \<Rightarrow> u64" where "K1_TO_PHYS va = va AND (K1SIZE - 1)"
definition K0_TO_K1 :: "u64 \<Rightarrow> u64" where "K0_TO_K1 va = va OR K1SIZE"
definition K1_TO_K0 :: "u64 \<Rightarrow> u64" where "K1_TO_K0 va = va AND NOT K1SIZE"

lemma phys_mask: "K0SIZE - 1 = mask 29" "K1SIZE - 1 = mask 29"
  by (simp_all add: K0SIZE_def K1SIZE_def mask_eq_exp_minus_1)

lemma K0_phys_roundtrip:
  assumes "unat pa < 2 ^ 29"
  shows "K0_TO_PHYS (PHYS_TO_K0 pa) = pa"
proof -
  have "K0BASE AND mask 29 = 0" by (simp add: K0BASE_def mask_eq_exp_minus_1)
  then have "(K0BASE OR pa) AND mask 29 = pa AND mask 29"
    by (simp add: bit.conj_disj_distrib2)
  with small_and_mask [OF assms] show ?thesis
    by (simp add: K0_TO_PHYS_def PHYS_TO_K0_def phys_mask)
qed

end
