(* ===== verification/Exlib.thy ===== *)
theory Exlib
  imports Sbmips
begin

text \<open>
  The exception library: \<open>libexception/libexception/exlib.c\<close>, the handlers of
  \<open>exhandler_*.c\<close>, \<open>exlib_set_common_handlers.c\<close>, \<open>exlib_panic.c\<close>, and the entry and return
  paths of \<open>exlib_vectors.S\<close>. The state holds the processor registers the library touches, the
  byte memory, and the library's static variables; \<open>hw_trace\<close> records the writes to Status and
  Cause and the stores to the vectors in the order the code makes them. The preprocessor's
  choices are the record \<open>build_config\<close>, and the assembled vector code is the record
  \<open>vec_images\<close>.
\<close>

unbundle bit_operations_syntax

section \<open>State\<close>

record build_config =
  b_mips64 :: bool      \<comment> \<open>\<open>__mips64\<close> is defined\<close>
  b_soft_float :: bool  \<comment> \<open>\<open>__mips_soft_float\<close> is defined\<close>
  b_fpr64 :: bool       \<comment> \<open>\<open>__mips_fpr == 64\<close>\<close>

record vec_images =
  img_cerr_mips64 :: "nat \<Rightarrow> u8"
  img_cerr_mips32 :: "nat \<Rightarrow> u8"
  img_gen_mips64 :: "nat \<Rightarrow> u8"
  img_gen_mips32 :: "nat \<Rightarrow> u8"

record exframe =
  ef_regs :: "nat \<Rightarrow> u64"
  ef_hi :: u64
  ef_lo :: u64
  ef_status :: u32
  ef_cause :: u32
  ef_fpsavemask :: u32
  ef_fcsr :: u32
  ef_fpregs :: "nat \<Rightarrow> u64"
  ef_mdmxacc :: "nat \<Rightarrow> u64"

abbreviation ef_pc :: "exframe \<Rightarrow> u64" where
  "ef_pc ef \<equiv> ef_regs ef 0"

datatype exhandler = NullHandler | ExhandlerAbort | ExhandlerPanic | ExhandlerMdmxenable
  | ExhandlerIntr | UserHandler nat

datatype hw_event = WriteStatus u32 | WriteCause u32 | StoreBlock u64 | FlushCache u64

record hentry =
  h_func :: exhandler
  h_fpsavemask :: u32

record machine =
  c0_status :: u32
  c0_cause :: u32
  c0_config :: u32
  c0_config1 :: u32
  c0_epc :: u64
  c0_errorepc :: u64
  pc :: u64
  gpr :: "nat \<Rightarrow> u64"
  r_hi :: u64
  r_lo :: u64
  cp1_fcsr :: u32
  cp1_fpr :: "nat \<Rightarrow> u64"
  mdmx_acc :: "nat \<Rightarrow> u64"   \<comment> \<open>high, middle, low\<close>
  mem :: memory
  hw_trace :: "hw_event list"

record xstate = machine +
  exlib_initted :: bool
  exlib_mips64 :: bool
  exlib_fpu :: bool
  exlib_mdmx :: bool
  orig_status_bev_was_set :: bool
  orig_cause_iv_was_set :: bool
  old_vec_tlb :: "nat \<Rightarrow> u8"
  old_vec_xtlb :: "nat \<Rightarrow> u8"
  old_vec_gen :: "nat \<Rightarrow> u8"
  handlers :: "nat \<Rightarrow> hentry"

section \<open>Register and vector access\<close>

definition mtc0_status :: "u32 \<Rightarrow> 'a machine_scheme \<Rightarrow> 'a machine_scheme" where
  "mtc0_status v s = s\<lparr>c0_status := v, hw_trace := hw_trace s @ [WriteStatus v]\<rparr>"

definition mtc0_cause :: "u32 \<Rightarrow> 'a machine_scheme \<Rightarrow> 'a machine_scheme" where
  "mtc0_cause v s = s\<lparr>c0_cause := v, hw_trace := hw_trace s @ [WriteCause v]\<rparr>"

definition EXVEC_SIZE :: nat where "EXVEC_SIZE = 0x80"
definition EXVEC_ADDR_TLB :: u64 where "EXVEC_ADDR_TLB = 0xffffffff80000000"
definition EXVEC_ADDR_XTLB :: u64 where "EXVEC_ADDR_XTLB = 0xffffffff80000080"
definition EXVEC_ADDR_CERR :: u64 where "EXVEC_ADDR_CERR = 0xffffffff80000100"
definition EXVEC_ADDR_CERR_K1 :: u64 where "EXVEC_ADDR_CERR_K1 = 0xffffffffa0000100"
definition EXVEC_ADDR_GEN :: u64 where "EXVEC_ADDR_GEN = 0xffffffff80000180"

definition memcpy_vector :: "u64 \<Rightarrow> (nat \<Rightarrow> u8) \<Rightarrow> 'a machine_scheme \<Rightarrow> 'a machine_scheme" where
  "memcpy_vector dest code s =
     s\<lparr>mem := store_bytes dest EXVEC_SIZE code (mem s), hw_trace := hw_trace s @ [StoreBlock dest]\<rparr>"

definition flush_cache :: "u64 \<Rightarrow> 'a machine_scheme \<Rightarrow> 'a machine_scheme" where
  "flush_cache dest s = s\<lparr>hw_trace := hw_trace s @ [FlushCache dest]\<rparr>"

text \<open>\<open>INSTALL_VECTOR\<close> with a vector address as its destination.\<close>

definition INSTALL_VECTOR :: "u64 \<Rightarrow> (nat \<Rightarrow> u8) \<Rightarrow> 'a machine_scheme \<Rightarrow> 'a machine_scheme" where
  "INSTALL_VECTOR dest code s = flush_cache dest (memcpy_vector dest code s)"

text \<open>\<open>INSTALL_VECTOR\<close> with one of the static save arrays as its destination: the bytes read.\<close>

definition read_vector :: "u64 \<Rightarrow> 'a machine_scheme \<Rightarrow> nat \<Rightarrow> u8" where
  "read_vector src s = load_bytes src (mem s)"

section \<open>The handler table\<close>

definition EXCODE_NCODES :: u32 where "EXCODE_NCODES = 32"

definition EXFPSAVEMASK_NONE :: u32 where "EXFPSAVEMASK_NONE = 0"
definition EXFPSAVEMASK_FCSR :: u32 where "EXFPSAVEMASK_FCSR = 0x1"
definition EXFPSAVEMASK_CALLER :: u32 where "EXFPSAVEMASK_CALLER = 0x2"
definition EXFPSAVEMASK_CALLEE :: u32 where "EXFPSAVEMASK_CALLEE = 0x4"
definition EXFPSAVEMASK_MDMXACC :: u32 where "EXFPSAVEMASK_MDMXACC = 0x8"
definition EXFPSAVEMASK_ALL :: u32 where
  "EXFPSAVEMASK_ALL = EXFPSAVEMASK_FCSR OR EXFPSAVEMASK_CALLER OR EXFPSAVEMASK_CALLEE
     OR EXFPSAVEMASK_MDMXACC"

lemmas exfp_mask_defs = EXFPSAVEMASK_NONE_def EXFPSAVEMASK_FCSR_def EXFPSAVEMASK_CALLER_def
  EXFPSAVEMASK_CALLEE_def EXFPSAVEMASK_MDMXACC_def EXFPSAVEMASK_ALL_def

definition exlib_set_handler :: "u32 \<Rightarrow> exhandler \<Rightarrow> 'a xstate_scheme \<Rightarrow> int \<times> 'a xstate_scheme" where
  "exlib_set_handler excode f s =
     (if EXCODE_NCODES \<le> excode then (-1, s)
      else (0, s\<lparr>handlers := (handlers s)
                   (unat excode := (handlers s (unat excode))\<lparr>h_func := f\<rparr>)\<rparr>))"

definition exlib_get_handler :: "u32 \<Rightarrow> 'a xstate_scheme \<Rightarrow> exhandler" where
  "exlib_get_handler excode s =
     (if EXCODE_NCODES \<le> excode then ExhandlerAbort else h_func (handlers s (unat excode)))"

definition exlib_set_fpsavemask :: "u32 \<Rightarrow> u32 \<Rightarrow> 'a xstate_scheme \<Rightarrow> int \<times> 'a xstate_scheme" where
  "exlib_set_fpsavemask excode fpsavemask s =
     (if EXCODE_NCODES \<le> excode then (-1, s)
      else
        let m1 = (if \<not> exlib_fpu s then EXFPSAVEMASK_NONE else fpsavemask);
            m2 = (if \<not> exlib_mdmx s then m1 AND NOT EXFPSAVEMASK_MDMXACC else m1)
        in (0, s\<lparr>handlers := (handlers s)
                   (unat excode := (handlers s (unat excode))\<lparr>h_fpsavemask := m2\<rparr>)\<rparr>))"

definition exlib_get_fpsavemask :: "u32 \<Rightarrow> 'a xstate_scheme \<Rightarrow> u32" where
  "exlib_get_fpsavemask excode s =
     (if EXCODE_NCODES \<le> excode then EXFPSAVEMASK_NONE
      else h_fpsavemask (handlers s (unat excode)))"

text \<open>\<open>exlib_set_common_handlers\<close>: the loop over all codes, then the MDMX handler at 0x16.\<close>

definition common_handler_iter :: "nat \<Rightarrow> 'a xstate_scheme \<Rightarrow> 'a xstate_scheme" where
  "common_handler_iter i s =
     snd (exlib_set_fpsavemask (of_nat i) EXFPSAVEMASK_ALL
       (snd (exlib_set_handler (of_nat i) ExhandlerPanic s)))"

definition exlib_set_common_handlers :: "'a xstate_scheme \<Rightarrow> 'a xstate_scheme" where
  "exlib_set_common_handlers s =
     snd (exlib_set_fpsavemask 0x16 EXFPSAVEMASK_NONE
       (snd (exlib_set_handler 0x16 ExhandlerMdmxenable
         (fold common_handler_iter [0..<unat EXCODE_NCODES] s))))"

section \<open>Initialisation and shutdown\<close>

definition install_cerr_stub :: "vec_images \<Rightarrow> 'a xstate_scheme \<Rightarrow> 'a xstate_scheme" where
  "install_cerr_stub v s =
     (if exlib_mips64 s
      then memcpy_vector EXVEC_ADDR_CERR_K1 (img_cerr_mips64 v)
             (INSTALL_VECTOR EXVEC_ADDR_CERR (img_cerr_mips64 v) s)
      else memcpy_vector EXVEC_ADDR_CERR_K1 (img_cerr_mips32 v)
             (INSTALL_VECTOR EXVEC_ADDR_CERR (img_cerr_mips32 v) s))"

definition save_old_vectors :: "'a xstate_scheme \<Rightarrow> 'a xstate_scheme" where
  "save_old_vectors s =
     s\<lparr>old_vec_tlb := read_vector EXVEC_ADDR_TLB s,
       old_vec_xtlb := read_vector EXVEC_ADDR_XTLB s,
       old_vec_gen := read_vector EXVEC_ADDR_GEN s\<rparr>"

definition install_new_vectors :: "vec_images \<Rightarrow> 'a xstate_scheme \<Rightarrow> 'a xstate_scheme" where
  "install_new_vectors v s =
     (let g = (if exlib_mips64 s then img_gen_mips64 v else img_gen_mips32 v)
      in INSTALL_VECTOR EXVEC_ADDR_GEN g
           (INSTALL_VECTOR EXVEC_ADDR_XTLB g (INSTALL_VECTOR EXVEC_ADDR_TLB g s)))"

text \<open>
  \<open>exlib_init\<close>. The \<open>if (status_ie_was_set);\<close> of the source ends in a stray semicolon, so the
  block that clears Status:IE runs on every call.
\<close>

definition exlib_detect :: "'a xstate_scheme \<Rightarrow> 'a xstate_scheme" where
  "exlib_detect s =
     (let at = G_CFG_AT (c0_config s)
      in s\<lparr>exlib_mips64 := (at = K_CFG_AT_MIPS64_32 \<or> at = K_CFG_AT_MIPS64),
           exlib_fpu := (c0_config1 s AND M_CFG_FP \<noteq> 0),
           exlib_mdmx := (c0_config1 s AND push_bit 5 1 \<noteq> 0)\<rparr>)"

definition exlib_init_vectors :: "vec_images \<Rightarrow> u32 \<Rightarrow> 'a xstate_scheme \<Rightarrow> 'a xstate_scheme" where
  "exlib_init_vectors v status s =
     (let s1 = s\<lparr>orig_status_bev_was_set := (status AND M_SR_BEV \<noteq> 0)\<rparr>;
          s2 = (if orig_status_bev_was_set s1 then install_cerr_stub v s1 else save_old_vectors s1)
      in install_new_vectors v (exlib_set_common_handlers s2))"

definition exlib_init :: "build_config \<Rightarrow> vec_images \<Rightarrow> 'a xstate_scheme \<Rightarrow> 'a xstate_scheme res" where
  "exlib_init b v s =
     (if exlib_initted s then Inr s
      else
        let s1 = exlib_detect (s\<lparr>exlib_initted := True\<rparr>)
        in if b_mips64 b \<and> \<not> exlib_mips64 s1 then Inl Aborted
           else if \<not> b_soft_float b \<and> (\<not> exlib_fpu s1 \<or> (b_fpr64 b \<and> \<not> exlib_mips64 s1))
           then Inl Aborted
           else
             let ie_was_set = (c0_status s1 AND M_SR_IE \<noteq> 0);
                 status1 = c0_status s1 AND NOT M_SR_IE;
                 s2 = mtc0_status status1 s1;
                 s3 = exlib_init_vectors v status1 s2;
                 status2 = status1 AND NOT M_SR_BEV;
                 s4 = mtc0_status status2 s3;
                 cause = c0_cause s4;
                 s5 = s4\<lparr>orig_cause_iv_was_set := (cause AND M_CAUSE_IV \<noteq> 0)\<rparr>;
                 s6 = mtc0_cause (cause AND NOT M_CAUSE_IV) s5
             in Inr (if ie_was_set then mtc0_status (status2 OR M_SR_IE) s6 else s6))"

definition restore_old_vectors :: "'a xstate_scheme \<Rightarrow> 'a xstate_scheme" where
  "restore_old_vectors s =
     INSTALL_VECTOR EXVEC_ADDR_GEN (old_vec_gen s)
       (INSTALL_VECTOR EXVEC_ADDR_XTLB (old_vec_xtlb s)
         (INSTALL_VECTOR EXVEC_ADDR_TLB (old_vec_tlb s) s))"

definition exlib_shutdown :: "'a xstate_scheme \<Rightarrow> 'a xstate_scheme" where
  "exlib_shutdown s =
     (if \<not> exlib_initted s then s
      else
        let s1 = s\<lparr>exlib_initted := False\<rparr>;
            ie_was_set = (c0_status s1 AND M_SR_IE \<noteq> 0);
            status1 = (if ie_was_set then c0_status s1 AND NOT M_SR_IE else c0_status s1);
            s2 = (if ie_was_set then mtc0_status status1 s1 else s1);
            status2 = (if orig_status_bev_was_set s2 then status1 OR M_SR_BEV else status1);
            s3 = (if orig_status_bev_was_set s2 then mtc0_status status2 s2
                  else restore_old_vectors s2);
            s4 = (if orig_cause_iv_was_set s3 then mtc0_cause (c0_cause s3 OR M_CAUSE_IV) s3 else s3)
        in if ie_was_set then mtc0_status (status2 OR M_SR_IE) s4 else s4)"

section \<open>The handler table as an interface\<close>

text \<open>
  What the interrupt layer relies on: a lookup after an update, the two columns of the table
  being independent, and the mask the hardware can honour being stable.
\<close>

locale exc_table =
  fixes set_handler :: "u32 \<Rightarrow> exhandler \<Rightarrow> 's \<Rightarrow> int \<times> 's"
    and get_handler :: "u32 \<Rightarrow> 's \<Rightarrow> exhandler"
    and set_mask :: "u32 \<Rightarrow> u32 \<Rightarrow> 's \<Rightarrow> int \<times> 's"
    and get_mask :: "u32 \<Rightarrow> 's \<Rightarrow> u32"
    and avail :: "'s \<Rightarrow> u32 \<Rightarrow> u32"
  assumes get_set_handler:
      "c < 32 \<Longrightarrow> get_handler d (snd (set_handler c f s)) = (if d = c then f else get_handler d s)"
    and get_set_mask:
      "c < 32 \<Longrightarrow> get_mask d (snd (set_mask c m s)) = (if d = c then avail s m else get_mask d s)"
    and mask_set_handler: "get_mask d (snd (set_handler c f s)) = get_mask d s"
    and handler_set_mask: "get_handler d (snd (set_mask c m s)) = get_handler d s"
    and avail_set_handler: "avail (snd (set_handler c f s)) = avail s"
    and avail_set_mask: "avail (snd (set_mask c m s)) = avail s"
    and avail_idem: "avail s (avail s m) = avail s m"
begin

text \<open>Taking a code over and putting the saved entry back restores every entry.\<close>

lemma takeover_restore:
  assumes "c < 32" and "avail s (get_mask c s) = get_mask c s"
    and "s1 = snd (set_mask c m (snd (set_handler c f s)))"
    and "s2 = snd (set_mask c (get_mask c s) (snd (set_handler c (get_handler c s) s1)))"
  shows "get_handler d s2 = get_handler d s" and "get_mask d s2 = get_mask d s"
  using assms
  by (auto simp: get_set_handler get_set_mask mask_set_handler handler_set_mask
      avail_set_handler avail_set_mask)

lemma set_mask_settles:
  assumes "c < 32"
  shows "avail s (get_mask c (snd (set_mask c m s))) = get_mask c (snd (set_mask c m s))"
  using assms by (simp add: get_set_mask avail_idem)

end

definition avail_mask :: "'a xstate_scheme \<Rightarrow> u32 \<Rightarrow> u32" where
  "avail_mask s m =
     (let m1 = (if exlib_fpu s then m else EXFPSAVEMASK_NONE)
      in if exlib_mdmx s then m1 else m1 AND NOT EXFPSAVEMASK_MDMXACC)"

lemma unat_code_eq: "c < 32 \<Longrightarrow> (unat d = unat c) = (d = c)" for c d :: u32
  by (simp add: word_unat_eq_iff)

interpretation xt: exc_table exlib_set_handler exlib_get_handler exlib_set_fpsavemask
  exlib_get_fpsavemask avail_mask
  by unfold_locales
    (auto simp: exlib_set_handler_def exlib_get_handler_def exlib_set_fpsavemask_def
      exlib_get_fpsavemask_def avail_mask_def EXCODE_NCODES_def unat_code_eq Let_def fun_eq_iff
      exfp_mask_defs and.assoc not_le)

section \<open>The default table\<close>

definition common_entry :: "'a xstate_scheme \<Rightarrow> nat \<Rightarrow> hentry" where
  "common_entry s i =
     (if i = 0x16 then \<lparr>h_func = ExhandlerMdmxenable, h_fpsavemask = avail_mask s EXFPSAVEMASK_NONE\<rparr>
      else \<lparr>h_func = ExhandlerPanic, h_fpsavemask = avail_mask s EXFPSAVEMASK_ALL\<rparr>)"

lemma hentry_collapse [simp]:
  "e\<lparr>h_func := f, h_fpsavemask := m\<rparr> = \<lparr>h_func = f, h_fpsavemask = m\<rparr>" for e :: hentry
  by (cases e) simp

lemma exlib_set_fpsavemask_eq:
  "exlib_set_fpsavemask c m s =
     (if EXCODE_NCODES \<le> c then (-1, s)
      else (0, s\<lparr>handlers := (handlers s)
                   (unat c := (handlers s (unat c))\<lparr>h_fpsavemask := avail_mask s m\<rparr>)\<rparr>))"
  by (simp add: exlib_set_fpsavemask_def avail_mask_def Let_def)

lemma avail_mask_handlers [simp]:
  "avail_mask (s\<lparr>handlers := t\<rparr>) = avail_mask s"
  by (simp add: avail_mask_def fun_eq_iff)

lemma common_handler_iter_eq:
  assumes "i < 32"
  shows "common_handler_iter i s =
    s\<lparr>handlers := (handlers s)(i := \<lparr>h_func = ExhandlerPanic,
                                     h_fpsavemask = avail_mask s EXFPSAVEMASK_ALL\<rparr>)\<rparr>"
proof -
  have u: "unat (of_nat i :: u32) = i" using assms by (simp add: unat_of_nat)
  then have "\<not> EXCODE_NCODES \<le> of_nat i"
    using assms by (simp add: EXCODE_NCODES_def word_le_nat_alt)
  with u show ?thesis
    by (simp add: common_handler_iter_def exlib_set_handler_def exlib_set_fpsavemask_eq)
qed

lemma fold_common_handler_iter:
  assumes "n \<le> 32"
  shows "fold common_handler_iter [0..<n] s =
    s\<lparr>handlers := (\<lambda>i. if i < n then \<lparr>h_func = ExhandlerPanic,
                                     h_fpsavemask = avail_mask s EXFPSAVEMASK_ALL\<rparr>
                      else handlers s i)\<rparr>"
  using assms
proof (induction n)
  case 0
  show ?case by simp
next
  case (Suc n)
  let ?e = "\<lparr>h_func = ExhandlerPanic, h_fpsavemask = avail_mask s EXFPSAVEMASK_ALL\<rparr>"
  have "fold common_handler_iter [0..<Suc n] s =
      s\<lparr>handlers := (\<lambda>i. if i < n then ?e else handlers s i)(n := ?e)\<rparr>"
    using Suc by (simp add: common_handler_iter_eq)
  moreover have "(\<lambda>i. if i < n then ?e else handlers s i)(n := ?e)
      = (\<lambda>i. if i < Suc n then ?e else handlers s i)"
    by (rule ext) (simp add: less_Suc_eq)
  ultimately show ?case by simp
qed

lemma exlib_set_common_handlers_eq:
  "exlib_set_common_handlers s =
     s\<lparr>handlers := (\<lambda>i. if i < 32 then common_entry s i else handlers s i)\<rparr>"
proof -
  let ?t = "\<lambda>i. if i < 32 then \<lparr>h_func = ExhandlerPanic,
                             h_fpsavemask = avail_mask s EXFPSAVEMASK_ALL\<rparr> else handlers s i"
  let ?m = "\<lparr>h_func = ExhandlerMdmxenable, h_fpsavemask = avail_mask s EXFPSAVEMASK_NONE\<rparr>"
  have "unat EXCODE_NCODES = 32" "\<not> EXCODE_NCODES \<le> 0x16" by (simp_all add: EXCODE_NCODES_def)
  then have "exlib_set_common_handlers s = s\<lparr>handlers := ?t(0x16 := ?m)\<rparr>"
    by (simp only: exlib_set_common_handlers_def fold_common_handler_iter order_refl)
      (simp add: exlib_set_handler_def exlib_set_fpsavemask_eq)
  moreover have "?t(0x16 := ?m) = (\<lambda>i. if i < 32 then common_entry s i else handlers s i)"
    by (rule ext) (simp add: common_entry_def)
  ultimately show ?thesis by simp
qed

text \<open>
  The invariant of the table: no entry asks for floating-point state the processor lacks.
\<close>

definition masks_available :: "'a xstate_scheme \<Rightarrow> bool" where
  "masks_available s = (\<forall>i\<in>{..<32}. avail_mask s (h_fpsavemask (handlers s i)) = h_fpsavemask (handlers s i))"

lemma avail_mask_idem [simp]: "avail_mask s (avail_mask s m) = avail_mask s m"
  by (rule xt.avail_idem)

lemma masks_available_set_handler [inv_intro]:
  "masks_available s \<Longrightarrow> masks_available (snd (exlib_set_handler c f s))"
  by (simp add: masks_available_def xt.avail_set_handler) (simp add: exlib_set_handler_def)

lemma masks_available_set_fpsavemask [inv_intro]:
  "masks_available s \<Longrightarrow> masks_available (snd (exlib_set_fpsavemask c m s))"
  by (simp add: masks_available_def xt.avail_set_mask)
    (simp add: exlib_set_fpsavemask_eq)

lemma masks_available_common [inv_intro]: "masks_available (exlib_set_common_handlers s)"
proof -
  have "avail_mask (exlib_set_common_handlers s) = avail_mask s"
    by (simp add: exlib_set_common_handlers_eq avail_mask_def fun_eq_iff)
  then show ?thesis
    by (simp add: masks_available_def) (simp add: exlib_set_common_handlers_eq common_entry_def)
qed

section \<open>Initialisation and shutdown\<close>

text \<open>Interrupts are off (Status:IE clear) at every store to a vector in a run of events.\<close>

fun stores_masked :: "u32 \<Rightarrow> hw_event list \<Rightarrow> bool" where
  "stores_masked st [] = True"
| "stores_masked st (WriteStatus v # es) = stores_masked v es"
| "stores_masked st (WriteCause v # es) = stores_masked st es"
| "stores_masked st (StoreBlock a # es) = (st AND M_SR_IE = 0 \<and> stores_masked st es)"
| "stores_masked st (FlushCache a # es) = stores_masked st es"

lemmas vector_ops = INSTALL_VECTOR_def flush_cache_def memcpy_vector_def mtc0_status_def
  mtc0_cause_def read_vector_def

lemmas init_steps = install_cerr_stub_def save_old_vectors_def install_new_vectors_def
  restore_old_vectors_def vector_ops

lemma IE_cleared [simp]: "(x AND NOT M_SR_IE) AND M_SR_IE = 0"
  by (rule and_not_and_self)

lemma exlib_init_events:
  assumes "\<not> exlib_initted s" and "exlib_init b v s = Inr s'"
  shows "\<exists>es. hw_trace s' = hw_trace s @ es \<and> stores_masked (c0_status s) es"
  using assms
  by (auto simp: exlib_init_def Let_def exlib_detect_def exlib_init_vectors_def
      exlib_set_common_handlers_eq init_steps split: if_splits)

lemma exlib_shutdown_events:
  "\<exists>es. hw_trace (exlib_shutdown s) = hw_trace s @ es \<and> stores_masked (c0_status s) es"
  by (auto simp: exlib_shutdown_def Let_def init_steps)

text \<open>What a successful \<open>exlib_init\<close> leaves in the registers and the saved flags.\<close>

lemma exlib_init_vectors_regs [simp]:
  "c0_status (exlib_init_vectors v st s) = c0_status s"
  "c0_cause (exlib_init_vectors v st s) = c0_cause s"
  "exlib_initted (exlib_init_vectors v st s) = exlib_initted s"
  "exlib_mips64 (exlib_init_vectors v st s) = exlib_mips64 s"
  "orig_status_bev_was_set (exlib_init_vectors v st s) = (st AND M_SR_BEV \<noteq> 0)"
  by (simp_all add: exlib_init_vectors_def exlib_set_common_handlers_eq init_steps Let_def)

definition init_masked :: "'a xstate_scheme \<Rightarrow> 'a xstate_scheme" where
  "init_masked s = mtc0_status (c0_status s AND NOT M_SR_IE) (exlib_detect (s\<lparr>exlib_initted := True\<rparr>))"

definition init_unmask :: "u32 \<Rightarrow> 'a xstate_scheme \<Rightarrow> 'a xstate_scheme" where
  "init_unmask st s =
     (let status2 = (st AND NOT M_SR_IE) AND NOT M_SR_BEV;
          s4 = mtc0_status status2 s;
          s6 = mtc0_cause (c0_cause s AND NOT M_CAUSE_IV)
                 (s4\<lparr>orig_cause_iv_was_set := (c0_cause s AND M_CAUSE_IV \<noteq> 0)\<rparr>)
      in if st AND M_SR_IE \<noteq> 0 then mtc0_status (status2 OR M_SR_IE) s6 else s6)"

lemma exlib_init_steps:
  assumes "\<not> exlib_initted s" and "exlib_init b v s = Inr s'"
  shows "s' = init_unmask (c0_status s)
                (exlib_init_vectors v (c0_status s AND NOT M_SR_IE) (init_masked s))"
  using assms
  by (simp add: exlib_init_def Let_def init_masked_def init_unmask_def exlib_detect_def
      mtc0_status_def split: if_splits)

lemma init_masked_simps [simp]:
  "c0_status (init_masked s) = c0_status s AND NOT M_SR_IE"
  "c0_cause (init_masked s) = c0_cause s"
  "exlib_initted (init_masked s)"
  "mem (init_masked s) = mem s"
  by (simp_all add: init_masked_def mtc0_status_def exlib_detect_def Let_def)

lemma init_unmask_simps [simp]:
  "c0_status (init_unmask st s) = st AND NOT M_SR_BEV"
  "c0_cause (init_unmask st s) = c0_cause s AND NOT M_CAUSE_IV"
  "orig_status_bev_was_set (init_unmask st s) = orig_status_bev_was_set s"
  "orig_cause_iv_was_set (init_unmask st s) = (c0_cause s AND M_CAUSE_IV \<noteq> 0)"
  "exlib_initted (init_unmask st s) = exlib_initted s"
  "exlib_mips64 (init_unmask st s) = exlib_mips64 s"
  "mem (init_unmask st s) = mem s"
  "old_vec_tlb (init_unmask st s) = old_vec_tlb s"
  "old_vec_xtlb (init_unmask st s) = old_vec_xtlb s"
  "old_vec_gen (init_unmask st s) = old_vec_gen s"
  "handlers (init_unmask st s) = handlers s"
  by (auto simp: init_unmask_def mtc0_status_def mtc0_cause_def Let_def single_bit_test
      bitwise single_bit_read intro!: word_bit_ext gr0I)

lemma exlib_init_regs:
  assumes "\<not> exlib_initted s" and "exlib_init b v s = Inr s'"
  shows "c0_status s' = c0_status s AND NOT M_SR_BEV"
    and "c0_cause s' = c0_cause s AND NOT M_CAUSE_IV"
    and "orig_status_bev_was_set s' = (c0_status s AND M_SR_BEV \<noteq> 0)"
    and "orig_cause_iv_was_set s' = (c0_cause s AND M_CAUSE_IV \<noteq> 0)"
    and "exlib_initted s'"
  by (simp_all add: exlib_init_steps [OF assms] single_bit_test bitwise single_bit_read)

definition in_vectors :: "u64 \<Rightarrow> bool" where
  "in_vectors a = (in_block EXVEC_ADDR_TLB EXVEC_SIZE a \<or> in_block EXVEC_ADDR_XTLB EXVEC_SIZE a
     \<or> in_block EXVEC_ADDR_GEN EXVEC_SIZE a)"

definition in_cerr :: "u64 \<Rightarrow> bool" where
  "in_cerr a = (in_block EXVEC_ADDR_CERR EXVEC_SIZE a \<or> in_block EXVEC_ADDR_CERR_K1 EXVEC_SIZE a)"

lemma init_vectors_mem:
  shows "\<not> in_vectors a \<Longrightarrow> \<not> (in_cerr a \<and> st AND M_SR_BEV \<noteq> 0) \<Longrightarrow>
           mem (exlib_init_vectors v st s) a = mem s a"
    and "st AND M_SR_BEV = 0 \<Longrightarrow>
           old_vec_tlb (exlib_init_vectors v st s) = load_bytes EXVEC_ADDR_TLB (mem s)"
    and "st AND M_SR_BEV = 0 \<Longrightarrow>
           old_vec_xtlb (exlib_init_vectors v st s) = load_bytes EXVEC_ADDR_XTLB (mem s)"
    and "st AND M_SR_BEV = 0 \<Longrightarrow>
           old_vec_gen (exlib_init_vectors v st s) = load_bytes EXVEC_ADDR_GEN (mem s)"
  by (auto simp: exlib_init_vectors_def exlib_set_common_handlers_eq init_steps Let_def
      in_vectors_def in_cerr_def store_bytes_mem)

lemma exlib_init_mem:
  assumes "\<not> exlib_initted s" and "exlib_init b v s = Inr s'"
  shows "\<not> in_vectors a \<Longrightarrow> \<not> (in_cerr a \<and> c0_status s AND M_SR_BEV \<noteq> 0) \<Longrightarrow> mem s' a = mem s a"
    and "c0_status s AND M_SR_BEV = 0 \<Longrightarrow> old_vec_tlb s' = load_bytes EXVEC_ADDR_TLB (mem s)"
    and "c0_status s AND M_SR_BEV = 0 \<Longrightarrow> old_vec_xtlb s' = load_bytes EXVEC_ADDR_XTLB (mem s)"
    and "c0_status s AND M_SR_BEV = 0 \<Longrightarrow> old_vec_gen s' = load_bytes EXVEC_ADDR_GEN (mem s)"
proof -
  have b: "((c0_status s AND NOT M_SR_IE) AND M_SR_BEV = 0) = (c0_status s AND M_SR_BEV = 0)"
    by (simp add: single_bit_test bitwise single_bit_read)
  note m = init_vectors_mem [where st = "c0_status s AND NOT M_SR_IE", unfolded b]
  show "\<not> in_vectors a \<Longrightarrow> \<not> (in_cerr a \<and> c0_status s AND M_SR_BEV \<noteq> 0) \<Longrightarrow> mem s' a = mem s a"
    by (simp add: exlib_init_steps [OF assms] m(1))
  show "c0_status s AND M_SR_BEV = 0 \<Longrightarrow> old_vec_tlb s' = load_bytes EXVEC_ADDR_TLB (mem s)"
    "c0_status s AND M_SR_BEV = 0 \<Longrightarrow> old_vec_xtlb s' = load_bytes EXVEC_ADDR_XTLB (mem s)"
    "c0_status s AND M_SR_BEV = 0 \<Longrightarrow> old_vec_gen s' = load_bytes EXVEC_ADDR_GEN (mem s)"
    by (simp_all add: exlib_init_steps [OF assms] m(2-4))
qed

lemma vector_blocks_apart:
  "in_block EXVEC_ADDR_XTLB EXVEC_SIZE a \<Longrightarrow> \<not> in_block EXVEC_ADDR_TLB EXVEC_SIZE a"
  "in_block EXVEC_ADDR_GEN EXVEC_SIZE a \<Longrightarrow> \<not> in_block EXVEC_ADDR_TLB EXVEC_SIZE a"
  "in_block EXVEC_ADDR_GEN EXVEC_SIZE a \<Longrightarrow> \<not> in_block EXVEC_ADDR_XTLB EXVEC_SIZE a"
  using in_block_apart [of EXVEC_ADDR_TLB 128 EXVEC_SIZE a]
    in_block_apart [of EXVEC_ADDR_TLB 384 EXVEC_SIZE a]
    in_block_apart [of EXVEC_ADDR_XTLB 256 EXVEC_SIZE a]
  by (simp_all add: EXVEC_SIZE_def EXVEC_ADDR_TLB_def EXVEC_ADDR_XTLB_def EXVEC_ADDR_GEN_def)

lemma exlib_init_images:
  assumes "\<not> exlib_initted s" and "exlib_init b v s = Inr s'"
    and "base \<in> {EXVEC_ADDR_TLB, EXVEC_ADDR_XTLB, EXVEC_ADDR_GEN}" and "in_block base EXVEC_SIZE a"
  shows "mem s' a = (if exlib_mips64 s' then img_gen_mips64 v else img_gen_mips32 v) (unat (a - base))"
  using assms(3,4) vector_blocks_apart [of a]
  by (auto simp: exlib_init_steps [OF assms(1,2)] exlib_init_vectors_def init_steps
      exlib_set_common_handlers_eq Let_def store_bytes_mem)


lemma shutdown_after_init:
  assumes "\<not> exlib_initted s" and "exlib_init b v s = Inr s'"
  shows "c0_status (exlib_shutdown (s'\<lparr>handlers := t\<rparr>)) = c0_status s"
    and "c0_cause (exlib_shutdown (s'\<lparr>handlers := t\<rparr>)) = c0_cause s"
    and "\<not> exlib_initted (exlib_shutdown (s'\<lparr>handlers := t\<rparr>))"
proof -
  note r = exlib_init_regs [OF assms(1,2)]
  show "c0_status (exlib_shutdown (s'\<lparr>handlers := t\<rparr>)) = c0_status s"
    by (rule word_bit_ext)
     (auto simp: exlib_shutdown_def Let_def init_steps r single_bit_test bitwise single_bit_read)
  show "c0_cause (exlib_shutdown (s'\<lparr>handlers := t\<rparr>)) = c0_cause s"
    by (rule word_bit_ext)
     (auto simp: exlib_shutdown_def Let_def init_steps r single_bit_test bitwise single_bit_read)
  show "\<not> exlib_initted (exlib_shutdown (s'\<lparr>handlers := t\<rparr>))"
    by (simp add: exlib_shutdown_def Let_def init_steps r)
qed

lemma shutdown_after_init_mem:
  assumes "\<not> exlib_initted s" and "exlib_init b v s = Inr s'" and b: "c0_status s AND M_SR_BEV = 0"
  shows "mem (exlib_shutdown (s'\<lparr>handlers := t\<rparr>)) = mem s"
proof
  fix a
  note m = exlib_init_mem [OF assms(1,2)] and r = exlib_init_regs [OF assms(1,2)]
  have "in_vectors a \<or> mem s' a = mem s a" using m(1) b by blast
  then show "mem (exlib_shutdown (s'\<lparr>handlers := t\<rparr>)) a = mem s a"
    by (auto simp: exlib_shutdown_def Let_def init_steps r b m(2-4) store_bytes_mem load_bytes_at in_vectors_def)
qed

text \<open>The two configurations \<open>exlib_init\<close> refuses, and its result otherwise.\<close>

definition bad_setup :: "build_config \<Rightarrow> 'a xstate_scheme \<Rightarrow> bool" where
  "bad_setup b s =
     (let s1 = exlib_detect s
      in b_mips64 b \<and> \<not> exlib_mips64 s1 \<or>
         \<not> b_soft_float b \<and> (\<not> exlib_fpu s1 \<or> b_fpr64 b \<and> \<not> exlib_mips64 s1))"

lemma exlib_init_ok:
  assumes "\<not> exlib_initted s" and "\<not> bad_setup b s"
  shows "\<exists>s'. exlib_init b v s = Inr s'"
  using assms by (auto simp: exlib_init_def Let_def bad_setup_def exlib_detect_def)

lemma exlib_init_handlers:
  assumes "\<not> exlib_initted s" and "exlib_init b v s = Inr s'" and "i < 32"
  shows "handlers s' i = common_entry s' i"
  using assms(3)
  by (simp add: exlib_init_steps [OF assms(1,2)] exlib_init_vectors_def init_steps
      exlib_set_common_handlers_eq common_entry_def avail_mask_def init_unmask_def Let_def)

lemma exlib_init_masks [inv_intro]:
  assumes "\<not> exlib_initted s" and "exlib_init b v s = Inr s'"
  shows "masks_available s'"
  using exlib_init_handlers [OF assms] by (auto simp: masks_available_def common_entry_def)

section \<open>Properties\<close>

text \<open>
  A machine on which the properties are exercised: a MIPS64 processor with an FPU and MDMX, out
  of reset with interrupts on and the RAM vectors in use.
\<close>

definition sb1_build :: build_config where
  "sb1_build = \<lparr>b_mips64 = True, b_soft_float = False, b_fpr64 = True\<rparr>"

definition sb1_images :: vec_images where
  "sb1_images = \<lparr>img_cerr_mips64 = (\<lambda>k. 1), img_cerr_mips32 = (\<lambda>k. 2),
                 img_gen_mips64 = (\<lambda>k. 3), img_gen_mips32 = (\<lambda>k. 4)\<rparr>"

definition sb1_state :: xstate where
  "sb1_state =
    \<lparr>c0_status = 1, c0_cause = 0, c0_config = 0x2000, c0_config1 = 0x21, c0_epc = 0,
     c0_errorepc = 0, pc = 0, gpr = (\<lambda>_. 0), r_hi = 0, r_lo = 0, cp1_fcsr = 0,
     cp1_fpr = (\<lambda>_. 0), mdmx_acc = (\<lambda>_. 0), mem = (\<lambda>_. 0), hw_trace = [],
     exlib_initted = False, exlib_mips64 = False, exlib_fpu = False, exlib_mdmx = False,
     orig_status_bev_was_set = False, orig_cause_iv_was_set = False,
     old_vec_tlb = (\<lambda>_. 0), old_vec_xtlb = (\<lambda>_. 0), old_vec_gen = (\<lambda>_. 0),
     handlers = (\<lambda>_. \<lparr>h_func = NullHandler, h_fpsavemask = 0\<rparr>)\<rparr>"

lemma sb1_init: "\<exists>s'. exlib_init sb1_build sb1_images sb1_state = Inr s'"
  by (rule exlib_init_ok)
    (simp_all add: sb1_state_def bad_setup_def exlib_detect_def sb1_build_def G_CFG_AT_def
      K_CFG_AT_MIPS64_32_def mm_getvalue_def mm_makemask_def M_CFG_FP_def mm_makemask1_def)

text \<open>
  C7: Whatever handlers are installed in between, \<open>exlib_shutdown\<close> undoes a successful
  \<open>exlib_init\<close>: Status (BEV and IE included) and Cause (IV included) are what they were, the
  library can be initialised again, and if the RAM vectors were in use (Status:BEV clear) every
  byte of memory is back.
\<close>

theorem exlib_init_shutdown_roundtrip:
  assumes "\<not> exlib_initted s" and "exlib_init b v s = Inr s'"
  shows "c0_status (exlib_shutdown (s'\<lparr>handlers := t\<rparr>)) = c0_status s \<and>
         c0_cause (exlib_shutdown (s'\<lparr>handlers := t\<rparr>)) = c0_cause s \<and>
         \<not> exlib_initted (exlib_shutdown (s'\<lparr>handlers := t\<rparr>)) \<and>
         (c0_status s AND M_SR_BEV = 0 \<longrightarrow> mem (exlib_shutdown (s'\<lparr>handlers := t\<rparr>)) = mem s)"
  using shutdown_after_init [OF assms] shutdown_after_init_mem [OF assms] by blast

lemma exlib_init_shutdown_roundtrip_witness:
  "\<exists>s'. exlib_init sb1_build sb1_images sb1_state = Inr s' \<and>
     c0_status (exlib_shutdown (s'\<lparr>handlers := \<lambda>_. \<lparr>h_func = UserHandler 0, h_fpsavemask = 0\<rparr>\<rparr>)) = 1 \<and>
     mem (exlib_shutdown (s'\<lparr>handlers := \<lambda>_. \<lparr>h_func = UserHandler 0, h_fpsavemask = 0\<rparr>\<rparr>)) = (\<lambda>_. 0)"
proof -
  obtain s' where s': "exlib_init sb1_build sb1_images sb1_state = Inr s'" using sb1_init by blast
  have "\<not> exlib_initted sb1_state" "c0_status sb1_state AND M_SR_BEV = 0"
    by (simp_all add: sb1_state_def sr_mask_defs mm_makemask1_def)
  with exlib_init_shutdown_roundtrip [OF _ s'] s' show ?thesis
    by (auto simp: sb1_state_def)
qed

text \<open>
  A successful \<open>exlib_init\<close> leaves Status with only BEV cleared and Cause with only IV
  cleared, the general vector code of the processor's ISA at all three vectors, the default
  handlers in all 32 entries, and no other memory touched outside the cache-error stub (which is
  written only when the ROM vectors were in use).
\<close>

theorem exlib_init_effect:
  assumes "\<not> exlib_initted s" and "exlib_init b v s = Inr s'"
  shows "c0_status s' = c0_status s AND NOT M_SR_BEV \<and>
         c0_cause s' = c0_cause s AND NOT M_CAUSE_IV \<and>
         (\<forall>base\<in>{EXVEC_ADDR_TLB, EXVEC_ADDR_XTLB, EXVEC_ADDR_GEN}. \<forall>a. in_block base EXVEC_SIZE a \<longrightarrow>
            mem s' a = (if exlib_mips64 s' then img_gen_mips64 v else img_gen_mips32 v) (unat (a - base))) \<and>
         (\<forall>a. \<not> in_vectors a \<longrightarrow> \<not> (in_cerr a \<and> c0_status s AND M_SR_BEV \<noteq> 0) \<longrightarrow> mem s' a = mem s a) \<and>
         (\<forall>i<32. h_func (handlers s' i) = (if i = 0x16 then ExhandlerMdmxenable else ExhandlerPanic))"
  using exlib_init_regs(1,2) [OF assms] exlib_init_images [OF assms] exlib_init_mem(1) [OF assms]
    exlib_init_handlers [OF assms]
  by (auto simp: common_entry_def)

lemma exlib_init_effect_witness:
  "\<exists>s'. exlib_init sb1_build sb1_images sb1_state = Inr s' \<and> h_func (handlers s' 4) = ExhandlerPanic \<and>
     mem s' EXVEC_ADDR_GEN = 3"
proof -
  obtain s' where s': "exlib_init sb1_build sb1_images sb1_state = Inr s'" using sb1_init by blast
  have i: "\<not> exlib_initted sb1_state" by (simp add: sb1_state_def)
  have "exlib_mips64 s'"
    by (simp add: exlib_init_steps [OF i s'] init_masked_def mtc0_status_def exlib_detect_def
        sb1_state_def G_CFG_AT_def mm_getvalue_def mm_makemask_def K_CFG_AT_MIPS64_32_def Let_def)
  with exlib_init_effect [OF i s'] s' show ?thesis
    by (auto simp: in_block_def EXVEC_SIZE_def sb1_images_def)
qed

text \<open>
  Both \<open>exlib_init\<close> and \<open>exlib_shutdown\<close> store to the exception vectors only while
  Status:IE is clear, so no interrupt is taken through a half-written vector.
\<close>

theorem exlib_vectors_written_masked:
  assumes "\<not> exlib_initted s" and "exlib_init b v s = Inr s'"
  shows "(\<exists>es. hw_trace s' = hw_trace s @ es \<and> stores_masked (c0_status s) es) \<and>
         (\<exists>es. hw_trace (exlib_shutdown s') = hw_trace s' @ es \<and> stores_masked (c0_status s') es)"
  using exlib_init_events [OF assms] exlib_shutdown_events by blast

lemma exlib_vectors_written_masked_witness:
  "\<exists>s' es. exlib_init sb1_build sb1_images sb1_state = Inr s' \<and> hw_trace s' = es \<and> stores_masked 1 es"
proof -
  obtain s' where s': "exlib_init sb1_build sb1_images sb1_state = Inr s'" using sb1_init by blast
  have "\<not> exlib_initted sb1_state" "c0_status sb1_state = 1" "hw_trace sb1_state = []"
    by (simp_all add: sb1_state_def)
  with exlib_vectors_written_masked [OF _ s'] s' show ?thesis by auto
qed

text \<open>
  No table entry ever asks for floating-point state the processor lacks: the masks are
  within what was detected after a successful \<open>exlib_init\<close>, and setting handlers, setting masks
  and restoring the default table keep it so, for any code and any requested mask.
\<close>

theorem handler_masks_within_hardware:
  assumes "masks_available s"
  shows "masks_available (snd (exlib_set_handler c f s)) \<and>
         masks_available (snd (exlib_set_fpsavemask c m s)) \<and>
         masks_available (exlib_set_common_handlers s) \<and>
         (\<forall>b v. \<forall>s'. exlib_init b v (s\<lparr>exlib_initted := False\<rparr>) = Inr s' \<longrightarrow> masks_available s')"
  using assms by (auto intro!: inv_intro intro: exlib_init_masks [rotated])

lemma handler_masks_within_hardware_witness:
  "masks_available sb1_state \<and> masks_available (snd (exlib_set_fpsavemask 4 EXFPSAVEMASK_ALL sb1_state))"
proof -
  have "masks_available sb1_state"
    by (simp add: masks_available_def avail_mask_def sb1_state_def exfp_mask_defs)
  then show ?thesis using handler_masks_within_hardware by blast
qed

end
