(* ===== verification/Exdispatch.thy ===== *)
theory Exdispatch
  imports Exlib
begin

text \<open>
  Exception delivery: the floating-point part of the frame (\<open>exframe_save_fp\<close> and
  \<open>exframe_restore_fp\<close> of \<open>exlib.c\<close>), the stock handlers, \<open>exlib_dispatch\<close>, and the entry and
  return code of \<open>exlib_vectors.S\<close> (its mips64 expansion). What a user handler or the interrupt
  handler does is the argument \<open>ext\<close> of the dispatcher.
\<close>

unbundle bit_operations_syntax

section \<open>Saving and restoring the floating-point state\<close>

text \<open>
  The register lists of the \<open>SAVE_FPREG\<close> and \<open>RESTORE_FPREG\<close> sequences, and the frame slot of a
  register: \<open>r\<close> itself with 32 registers, \<open>r >> 1\<close> with the 16 even ones.
\<close>

definition fp_caller_regs :: "bool \<Rightarrow> nat list" where
  "fp_caller_regs fpr64 =
     (if fpr64
      then [0, 1, 2, 3, 4, 5, 6, 7, 8, 9, 10, 11, 12, 13, 14, 15, 16, 17, 18, 19,
            21, 23, 25, 27, 29, 31]
      else [0, 2, 4, 6, 8, 10, 12, 14, 16, 18])"

definition fp_callee_regs :: "nat list" where
  "fp_callee_regs = [20, 22, 24, 26, 28, 30]"

definition fp_slot :: "bool \<Rightarrow> nat \<Rightarrow> nat" where
  "fp_slot fpr64 r = (if fpr64 then r else r div 2)"

definition save_fpreg :: "bool \<Rightarrow> 'a machine_scheme \<Rightarrow> nat \<Rightarrow> exframe \<Rightarrow> exframe" where
  "save_fpreg fpr64 s r ef = ef\<lparr>ef_fpregs := (ef_fpregs ef)(fp_slot fpr64 r := cp1_fpr s r)\<rparr>"

definition restore_fpreg :: "bool \<Rightarrow> exframe \<Rightarrow> nat \<Rightarrow> 'a machine_scheme \<Rightarrow> 'a machine_scheme" where
  "restore_fpreg fpr64 ef r s = s\<lparr>cp1_fpr := (cp1_fpr s)(r := ef_fpregs ef (fp_slot fpr64 r))\<rparr>"

definition save_mdmx :: "'a machine_scheme \<Rightarrow> exframe \<Rightarrow> exframe" where
  "save_mdmx s ef =
     ef\<lparr>ef_mdmxacc := (ef_mdmxacc ef)(0 := mdmx_acc s 0, 1 := mdmx_acc s 1, 2 := mdmx_acc s 2)\<rparr>"

definition restore_mdmx :: "exframe \<Rightarrow> 'a machine_scheme \<Rightarrow> 'a machine_scheme" where
  "restore_mdmx ef s =
     s\<lparr>mdmx_acc := (mdmx_acc s)(1 := ef_mdmxacc ef 1, 2 := ef_mdmxacc ef 2, 0 := ef_mdmxacc ef 0)\<rparr>"

definition exframe_save_fp :: "build_config \<Rightarrow> exframe \<Rightarrow> u32 \<Rightarrow> 'a machine_scheme \<Rightarrow> exframe" where
  "exframe_save_fp b ef fpsavemask s =
     (let (ef1, a1) = (if fpsavemask AND EXFPSAVEMASK_FCSR \<noteq> 0
                       then (ef\<lparr>ef_fcsr := cp1_fcsr s\<rparr>, EXFPSAVEMASK_FCSR) else (ef, 0));
          (ef2, a2) = (if fpsavemask AND EXFPSAVEMASK_CALLER \<noteq> 0
                       then (fold (save_fpreg (b_fpr64 b) s) (fp_caller_regs (b_fpr64 b)) ef1,
                             a1 OR EXFPSAVEMASK_CALLER) else (ef1, a1));
          (ef3, a3) = (if fpsavemask AND EXFPSAVEMASK_CALLEE \<noteq> 0
                       then (fold (save_fpreg (b_fpr64 b) s) fp_callee_regs ef2,
                             a2 OR EXFPSAVEMASK_CALLEE) else (ef2, a2));
          (ef4, a4) = (if b_fpr64 b \<and> fpsavemask AND EXFPSAVEMASK_MDMXACC \<noteq> 0
                          \<and> ef_status ef3 AND M_SR_MX \<noteq> 0
                       then (save_mdmx s ef3, a3 OR EXFPSAVEMASK_MDMXACC) else (ef3, a3))
      in ef4\<lparr>ef_fpsavemask := a4\<rparr>)"

definition exframe_restore_fp :: "build_config \<Rightarrow> exframe \<Rightarrow> 'a machine_scheme \<Rightarrow> 'a machine_scheme" where
  "exframe_restore_fp b ef s =
     (if ef_fpsavemask ef = EXFPSAVEMASK_NONE then s
      else
        let s1 = (if ef_fpsavemask ef AND EXFPSAVEMASK_FCSR \<noteq> 0
                  then s\<lparr>cp1_fcsr := ef_fcsr ef\<rparr> else s);
            s2 = (if ef_fpsavemask ef AND EXFPSAVEMASK_CALLER \<noteq> 0
                  then fold (restore_fpreg (b_fpr64 b) ef) (fp_caller_regs (b_fpr64 b)) s1 else s1);
            s3 = (if ef_fpsavemask ef AND EXFPSAVEMASK_CALLEE \<noteq> 0
                  then fold (restore_fpreg (b_fpr64 b) ef) fp_callee_regs s2 else s2)
        in if b_fpr64 b \<and> ef_fpsavemask ef AND EXFPSAVEMASK_MDMXACC \<noteq> 0
           then restore_mdmx ef s3 else s3)"

section \<open>Stock handlers and panics\<close>

definition codestrs :: "string list" where
  "codestrs =
    [''Int'',    ''Mod'',    ''TLBL'',     ''TLBS'',
     ''AdEL'',   ''AdES'',   ''IBE'',      ''DBE'',
     ''Sys'',    ''Bp'',     ''RI'',       ''CpU'',
     ''Ov'',     ''Tr'',     ''Rsvd14'',   ''FPE'',
     ''Rsvd16'', ''Rsvd17'', ''C2E'',      ''Rsvd19'',
     ''Rsvd20'', ''Rsvd20'', ''MDMX'',     ''WATCH'',
     ''MCheck'', ''Rsvd25'', ''Rsvd26'',   ''Rsvd27'',
     ''Rsvd28'', ''Rsvd29'', ''CacheErr'', ''Rsvd31'']"

text \<open>\<open>exlib_panic\<close> prints the message and the frame and calls \<open>abort\<close>.\<close>

definition exlib_panic :: "string \<Rightarrow> u32 \<Rightarrow> 'a res" where
  "exlib_panic msg arg = Inl (Panicked msg arg)"

definition exhandler_panic :: "u32 \<Rightarrow> 'a res" where
  "exhandler_panic code =
     exlib_panic (''fatal '' @ (if code < EXCODE_NCODES then codestrs ! unat code else ''UNKNOWN'')
                  @ '' exception'') code"

definition exhandler_abort :: "'a res" where
  "exhandler_abort = Inl Aborted"

definition exhandler_mdmxenable :: "u32 \<Rightarrow> exframe \<Rightarrow> 'a xstate_scheme \<Rightarrow> (exframe \<times> 'a xstate_scheme) res" where
  "exhandler_mdmxenable code ef s =
     (if \<not> exlib_mdmx s then exhandler_panic code
      else if ef_status ef AND M_SR_MX \<noteq> 0 then exhandler_panic code
      else Inr (ef\<lparr>ef_status := ef_status ef OR M_SR_MX\<rparr>, s))"

section \<open>Entry, dispatch and return\<close>

type_synonym 'a handler_sem =
  "exhandler \<Rightarrow> u32 \<Rightarrow> exframe \<Rightarrow> 'a xstate_scheme \<Rightarrow> (exframe \<times> 'a xstate_scheme) res"

definition call_handler :: "'a handler_sem \<Rightarrow> 'a handler_sem" where
  "call_handler ext h code ef s =
     (case h of
        ExhandlerAbort \<Rightarrow> exhandler_abort
      | ExhandlerPanic \<Rightarrow> exhandler_panic code
      | ExhandlerMdmxenable \<Rightarrow> exhandler_mdmxenable code ef s
      | NullHandler \<Rightarrow> Inl OutOfBounds
      | ExhandlerIntr \<Rightarrow> ext ExhandlerIntr code ef s
      | UserHandler n \<Rightarrow> ext (UserHandler n) code ef s)"

text \<open>
  \<open>exlib_vec_general\<close> puts Cause:ExcCode in \<open>k1\<close>; \<open>exlib_dispatch_asm\<close> builds the frame (slot 0 is
  the exception PC, slot 26 zero, slot 27 the code) and clears Status:EXL and Status:IE.
\<close>

definition exlib_vec_general :: "'a machine_scheme \<Rightarrow> u32" where
  "exlib_vec_general s = drop_bit 2 (c0_cause s) AND 0x1f"

definition exlib_dispatch_asm :: "exframe \<Rightarrow> 'a machine_scheme \<Rightarrow> exframe \<times> 'a machine_scheme" where
  "exlib_dispatch_asm junk s =
     (let k1 = exlib_vec_general s;
          ef = junk\<lparr>ef_regs := (gpr s)(0 := c0_epc s, 26 := 0, 27 := ucast k1),
                    ef_hi := r_hi s, ef_lo := r_lo s,
                    ef_status := c0_status s, ef_cause := c0_cause s\<rparr>;
          k0 = (c0_status s OR (M_SR_EXL OR M_SR_IE)) XOR (M_SR_EXL OR M_SR_IE)
      in (ef, mtc0_status k0 s))"

text \<open>
  \<open>exlib_return\<close>: Status with EXL forced, the floating-point state, then every general register
  but \<open>k0\<close> (it holds the frame's address) and \<open>k1\<close> (left with LO), and \<open>eret\<close>.
\<close>

definition eret :: "'a machine_scheme \<Rightarrow> 'a machine_scheme" where
  "eret s =
     (if c0_status s AND M_SR_ERL \<noteq> 0
      then s\<lparr>pc := c0_errorepc s, c0_status := c0_status s AND NOT M_SR_ERL\<rparr>
      else s\<lparr>pc := c0_epc s, c0_status := c0_status s AND NOT M_SR_EXL\<rparr>)"

definition exlib_return :: "build_config \<Rightarrow> u64 \<Rightarrow> exframe \<Rightarrow> 'a machine_scheme \<Rightarrow> 'a machine_scheme" where
  "exlib_return b frame_addr ef s =
     (let s1 = mtc0_status (ef_status ef OR M_SR_EXL) s;
          s2 = (if b_soft_float b then s1 else exframe_restore_fp b ef s1);
          s3 = s2\<lparr>c0_epc := ef_pc ef,
                  gpr := (\<lambda>r. if r = 0 then gpr s2 0 else if r = 26 then frame_addr
                              else if r = 27 then ef_lo ef else ef_regs ef r),
                  r_hi := ef_hi ef, r_lo := ef_lo ef\<rparr>
      in eret s3)"

definition exlib_dispatch_call ::
  "build_config \<Rightarrow> 'a handler_sem \<Rightarrow> exframe \<Rightarrow> 'a xstate_scheme \<Rightarrow> (exframe \<times> 'a xstate_scheme) res" where
  "exlib_dispatch_call b ext ef s =
     (let excode = ef_regs ef 27
      in if 32 \<le> excode then Inl OutOfBounds
         else
           let h = handlers s (unat excode);
               ef1 = (if b_soft_float b then ef
                      else if h_fpsavemask h \<noteq> EXFPSAVEMASK_NONE
                      then exframe_save_fp b ef (h_fpsavemask h) s
                      else ef\<lparr>ef_fpsavemask := EXFPSAVEMASK_NONE\<rparr>)
           in call_handler ext (h_func h) (ucast excode) ef1 s)"

definition exlib_dispatch ::
  "build_config \<Rightarrow> 'a handler_sem \<Rightarrow> u64 \<Rightarrow> exframe \<Rightarrow> 'a xstate_scheme \<Rightarrow> 'a xstate_scheme res" where
  "exlib_dispatch b ext frame_addr ef s =
     bind_res (exlib_dispatch_call b ext ef s) (\<lambda>(ef', s'). Inr (exlib_return b frame_addr ef' s'))"

text \<open>A whole exception: entry, dispatch, and return to the interrupted code.\<close>

definition exception ::
  "build_config \<Rightarrow> 'a handler_sem \<Rightarrow> u64 \<Rightarrow> exframe \<Rightarrow> 'a xstate_scheme \<Rightarrow> 'a xstate_scheme res" where
  "exception b ext frame_addr junk s =
     (let (ef, s1) = exlib_dispatch_asm junk s in exlib_dispatch b ext frame_addr ef s1)"

section \<open>Round trip of the floating-point state\<close>

lemma save_fpreg_fpregs [simp]:
  "ef_fpregs (save_fpreg f s r ef) = (ef_fpregs ef)(fp_slot f r := cp1_fpr s r)"
  by (simp add: save_fpreg_def)

lemma fold_save_fpreg_other:
  "(\<forall>r\<in>set rs. fp_slot f r \<noteq> k) \<Longrightarrow> ef_fpregs (fold (save_fpreg f s) rs ef) k = ef_fpregs ef k"
  by (induction rs arbitrary: ef) auto

lemma fold_save_fpreg_saved:
  assumes "inj_on (fp_slot f) (set rs)" and "r \<in> set rs"
  shows "ef_fpregs (fold (save_fpreg f s) rs ef) (fp_slot f r) = cp1_fpr s r"
  using assms
proof (induction rs arbitrary: ef)
  case Nil
  then show ?case by simp
next
  case (Cons q rs)
  show ?case
  proof (cases "r \<in> set rs")
    case True
    with Cons show ?thesis by simp
  next
    case False
    then have "\<forall>q\<in>set rs. fp_slot f q \<noteq> fp_slot f r"
      using Cons.prems by (auto simp: inj_on_def)
    moreover have "r = q" using False Cons.prems by simp
    ultimately show ?thesis by (simp add: fold_save_fpreg_other)
  qed
qed

lemma fold_save_fpreg_frame [simp]:
  "ef_fcsr (fold (save_fpreg f s) rs ef) = ef_fcsr ef"
  "ef_status (fold (save_fpreg f s) rs ef) = ef_status ef"
  "ef_mdmxacc (fold (save_fpreg f s) rs ef) = ef_mdmxacc ef"
  "ef_regs (fold (save_fpreg f s) rs ef) = ef_regs ef"
  "ef_hi (fold (save_fpreg f s) rs ef) = ef_hi ef"
  "ef_lo (fold (save_fpreg f s) rs ef) = ef_lo ef"
  "ef_cause (fold (save_fpreg f s) rs ef) = ef_cause ef"
  by (induction rs arbitrary: ef; simp add: save_fpreg_def)+

lemma fold_restore_fpreg:
  "fold (restore_fpreg f ef) rs s =
     s\<lparr>cp1_fpr := (\<lambda>r. if r \<in> set rs then ef_fpregs ef (fp_slot f r) else cp1_fpr s r)\<rparr>"
proof (induction rs arbitrary: s)
  case Nil
  show ?case by simp
next
  case (Cons q rs)
  let ?s = "restore_fpreg f ef q s"
  have "(\<lambda>r. if r \<in> set rs then ef_fpregs ef (fp_slot f r) else cp1_fpr ?s r)
      = (\<lambda>r. if r \<in> set (q # rs) then ef_fpregs ef (fp_slot f r) else cp1_fpr s r)"
    by (rule ext) (simp add: restore_fpreg_def)
  moreover have "?s\<lparr>cp1_fpr := g\<rparr> = s\<lparr>cp1_fpr := g\<rparr>" for g
    by (simp add: restore_fpreg_def)
  ultimately show ?case by (simp only: fold_simps Cons.IH)
qed

lemma fp_slots_distinct:
  "inj_on (fp_slot f) (set (fp_caller_regs f) \<union> set fp_callee_regs)"
  by (cases f) (auto simp: inj_on_def fp_slot_def fp_caller_regs_def fp_callee_regs_def)

lemma fp_regs_disjoint: "set (fp_caller_regs f) \<inter> set fp_callee_regs = {}"
  by (cases f) (auto simp: fp_caller_regs_def fp_callee_regs_def)

lemma fp_regs_all: "r < 32 \<Longrightarrow> r \<in> set (fp_caller_regs True) \<or> r \<in> set fp_callee_regs"
proof -
  have "list_all (\<lambda>r. r \<in> set (fp_caller_regs True) \<or> r \<in> set fp_callee_regs) [0..<32]"
    by code_simp
  then show "r < 32 \<Longrightarrow> ?thesis" by (simp add: list_all_iff)
qed

definition saved_reg :: "bool \<Rightarrow> u32 \<Rightarrow> nat \<Rightarrow> bool" where
  "saved_reg f m r = (m AND EXFPSAVEMASK_CALLER \<noteq> 0 \<and> r \<in> set (fp_caller_regs f) \<or>
                      m AND EXFPSAVEMASK_CALLEE \<noteq> 0 \<and> r \<in> set fp_callee_regs)"

definition saves_acc :: "build_config \<Rightarrow> u32 \<Rightarrow> u32 \<Rightarrow> bool" where
  "saves_acc b m st = (b_fpr64 b \<and> m AND EXFPSAVEMASK_MDMXACC \<noteq> 0 \<and> st AND M_SR_MX \<noteq> 0)"

lemma mask_bits:
  "(m AND EXFPSAVEMASK_FCSR = 0) = (\<not> bit m 0)"
  "(m AND EXFPSAVEMASK_CALLER = 0) = (\<not> bit m 1)"
  "(m AND EXFPSAVEMASK_CALLEE = 0) = (\<not> bit m 2)"
  "(m AND EXFPSAVEMASK_MDMXACC = 0) = (\<not> bit m 3)"
  using mm_makemask1_test [of 0 m] mm_makemask1_test [of 1 m] mm_makemask1_test [of 2 m]
    mm_makemask1_test [of 3 m]
  by (simp_all add: exfp_mask_defs mm_makemask1_def)

definition frame_mask :: "build_config \<Rightarrow> u32 \<Rightarrow> u32 \<Rightarrow> u32" where
  "frame_mask b m st =
     (if m AND EXFPSAVEMASK_FCSR \<noteq> 0 then EXFPSAVEMASK_FCSR else 0) OR
     (if m AND EXFPSAVEMASK_CALLER \<noteq> 0 then EXFPSAVEMASK_CALLER else 0) OR
     (if m AND EXFPSAVEMASK_CALLEE \<noteq> 0 then EXFPSAVEMASK_CALLEE else 0) OR
     (if saves_acc b m st then EXFPSAVEMASK_MDMXACC else 0)"

lemma frame_mask_bits:
  "frame_mask b m st AND EXFPSAVEMASK_FCSR = 0 \<longleftrightarrow> m AND EXFPSAVEMASK_FCSR = 0"
  "frame_mask b m st AND EXFPSAVEMASK_CALLER = 0 \<longleftrightarrow> m AND EXFPSAVEMASK_CALLER = 0"
  "frame_mask b m st AND EXFPSAVEMASK_CALLEE = 0 \<longleftrightarrow> m AND EXFPSAVEMASK_CALLEE = 0"
  "frame_mask b m st AND EXFPSAVEMASK_MDMXACC = 0 \<longleftrightarrow> \<not> saves_acc b m st"
  by (simp_all add: frame_mask_def exfp_mask_defs)

lemma exframe_save_fp_frame:
  "ef_fpsavemask (exframe_save_fp b ef m s) = frame_mask b m (ef_status ef)"
  "ef_status (exframe_save_fp b ef m s) = ef_status ef"
  "ef_regs (exframe_save_fp b ef m s) = ef_regs ef"
  "ef_hi (exframe_save_fp b ef m s) = ef_hi ef"
  "ef_lo (exframe_save_fp b ef m s) = ef_lo ef"
  "ef_cause (exframe_save_fp b ef m s) = ef_cause ef"
  by (simp_all add: exframe_save_fp_def Let_def save_mdmx_def frame_mask_def saves_acc_def
      exfp_mask_defs)

lemma exframe_save_fp_values:
  "m AND EXFPSAVEMASK_FCSR \<noteq> 0 \<Longrightarrow> ef_fcsr (exframe_save_fp b ef m s) = cp1_fcsr s"
  "saved_reg (b_fpr64 b) m r \<Longrightarrow>
     ef_fpregs (exframe_save_fp b ef m s) (fp_slot (b_fpr64 b) r) = cp1_fpr s r"
  "saves_acc b m (ef_status ef) \<Longrightarrow> k < 3 \<Longrightarrow>
     ef_mdmxacc (exframe_save_fp b ef m s) k = mdmx_acc s k"
proof -
  show "m AND EXFPSAVEMASK_FCSR \<noteq> 0 \<Longrightarrow> ef_fcsr (exframe_save_fp b ef m s) = cp1_fcsr s"
    by (simp add: exframe_save_fp_def Let_def save_mdmx_def)
  show "saves_acc b m (ef_status ef) \<Longrightarrow> k < 3 \<Longrightarrow>
     ef_mdmxacc (exframe_save_fp b ef m s) k = mdmx_acc s k"
    by (auto simp: exframe_save_fp_def Let_def save_mdmx_def saves_acc_def less_Suc_eq numeral_3_eq_3)
  let ?f = "b_fpr64 b"
  assume r: "saved_reg ?f m r"
  have inj: "inj_on (fp_slot ?f) (set (fp_caller_regs ?f))" "inj_on (fp_slot ?f) (set fp_callee_regs)"
    using fp_slots_distinct [of ?f] by (auto intro: inj_on_subset)
  have other: "\<forall>q\<in>set fp_callee_regs. fp_slot ?f q \<noteq> fp_slot ?f r" if "r \<in> set (fp_caller_regs ?f)"
    using that fp_slots_distinct [of ?f] fp_regs_disjoint [of ?f] by (auto simp: inj_on_def)
  show "ef_fpregs (exframe_save_fp b ef m s) (fp_slot ?f r) = cp1_fpr s r"
    using r other inj
    by (auto simp: exframe_save_fp_def Let_def save_mdmx_def saved_reg_def fold_save_fpreg_saved
        fold_save_fpreg_other)
qed

definition fp_restored :: "build_config \<Rightarrow> u32 \<Rightarrow> u32 \<Rightarrow> 'a machine_scheme \<Rightarrow> 'b machine_scheme \<Rightarrow> 'b machine_scheme" where
  "fp_restored b m st s t =
     t\<lparr>cp1_fcsr := (if m AND EXFPSAVEMASK_FCSR \<noteq> 0 then cp1_fcsr s else cp1_fcsr t),
       cp1_fpr := (\<lambda>r. if saved_reg (b_fpr64 b) m r then cp1_fpr s r else cp1_fpr t r),
       mdmx_acc := (\<lambda>k. if saves_acc b m st \<and> k < 3 then mdmx_acc s k else mdmx_acc t k)\<rparr>"

lemma restore_mdmx_acc:
  "restore_mdmx ef s = s\<lparr>mdmx_acc := (\<lambda>k. if k < 3 then ef_mdmxacc ef k else mdmx_acc s k)\<rparr>"
proof -
  have "(mdmx_acc s)(1 := ef_mdmxacc ef 1, 2 := ef_mdmxacc ef 2, 0 := ef_mdmxacc ef 0)
      = (\<lambda>k. if k < 3 then ef_mdmxacc ef k else mdmx_acc s k)"
    by (rule ext) (auto simp: less_Suc_eq numeral_3_eq_3 numeral_2_eq_2)
  then show ?thesis by (simp add: restore_mdmx_def)
qed

lemma frame_mask_none: "frame_mask b m st = EXFPSAVEMASK_NONE \<Longrightarrow>
   m AND EXFPSAVEMASK_FCSR = 0 \<and> m AND EXFPSAVEMASK_CALLER = 0 \<and> m AND EXFPSAVEMASK_CALLEE = 0 \<and>
   \<not> saves_acc b m st"
  using frame_mask_bits [of b m st] by (simp add: EXFPSAVEMASK_NONE_def)

lemma exframe_restore_fp_eq:
  "exframe_restore_fp b ef t =
    t\<lparr>cp1_fcsr := (if ef_fpsavemask ef AND EXFPSAVEMASK_FCSR \<noteq> 0 then ef_fcsr ef else cp1_fcsr t),
      cp1_fpr := (\<lambda>r. if saved_reg (b_fpr64 b) (ef_fpsavemask ef) r
                      then ef_fpregs ef (fp_slot (b_fpr64 b) r) else cp1_fpr t r),
      mdmx_acc := (\<lambda>k. if b_fpr64 b \<and> ef_fpsavemask ef AND EXFPSAVEMASK_MDMXACC \<noteq> 0 \<and> k < 3
                       then ef_mdmxacc ef k else mdmx_acc t k)\<rparr>"
proof (cases "ef_fpsavemask ef = EXFPSAVEMASK_NONE")
  case True
  then show ?thesis
    by (simp add: exframe_restore_fp_def EXFPSAVEMASK_NONE_def saved_reg_def)
next
  case False
  then show ?thesis
    by (intro machine.equality; auto simp: exframe_restore_fp_def Let_def fold_restore_fpreg
        restore_mdmx_acc saved_reg_def fun_eq_iff)
qed

lemma exframe_fp_roundtrip:
  "exframe_restore_fp b (exframe_save_fp b ef m s) t = fp_restored b m (ef_status ef) s t"
proof -
  let ?ef = "exframe_save_fp b ef m s" and ?m = "frame_mask b m (ef_status ef)"
  have r: "saved_reg (b_fpr64 b) ?m r = saved_reg (b_fpr64 b) m r" for r
    by (simp add: saved_reg_def frame_mask_bits)
  show ?thesis
    unfolding exframe_restore_fp_eq fp_restored_def exframe_save_fp_frame r frame_mask_bits
    by (intro machine.equality)
     (auto simp: exframe_save_fp_values saves_acc_def)
qed

section \<open>A whole exception\<close>

lemma exlib_vec_general_bound: "exlib_vec_general s < 32"
proof -
  have "exlib_vec_general s = take_bit 5 (drop_bit 2 (c0_cause s))"
    by (simp add: exlib_vec_general_def take_bit_eq_mask mask_eq_exp_minus_1)
  then show ?thesis by (simp add: word_less_nat_alt unsigned_take_bit_eq take_bit_nat_def)
qed

text \<open>The frame and the state a handler is entered with.\<close>

definition handler_entry :: "build_config \<Rightarrow> exframe \<Rightarrow> 'a xstate_scheme \<Rightarrow> exframe \<times> 'a xstate_scheme" where
  "handler_entry b junk s =
     (let (ef, s1) = exlib_dispatch_asm junk s;
          m = h_fpsavemask (handlers s (unat (exlib_vec_general s)))
      in (if b_soft_float b then ef
          else if m \<noteq> EXFPSAVEMASK_NONE then exframe_save_fp b ef m s1
          else ef\<lparr>ef_fpsavemask := EXFPSAVEMASK_NONE\<rparr>, s1))"

lemma ucast_code: "unat (ucast k :: u64) = unat k" "ucast (ucast k :: u64) = k" for k :: u32
proof -
  have "unat k < 2 ^ 64" by (rule order_less_le_trans [OF unsigned_less]) simp
  then show u: "unat (ucast k :: u64) = unat k"
    by (simp add: unsigned_ucast_eq take_bit_nat_eq_self)
  show "ucast (ucast k :: u64) = k"
    by (rule word_bit_ext) (auto simp: bit_ucast_iff)
qed

lemma exception_eq:
  "exception b ext fa junk s =
     bind_res (call_handler ext (h_func (handlers s (unat (exlib_vec_general s))))
                 (exlib_vec_general s) (fst (handler_entry b junk s)) (snd (handler_entry b junk s)))
       (\<lambda>(ef', s'). Inr (exlib_return b fa ef' s'))"
proof -
  let ?k = "exlib_vec_general s"
  have lt: "unat ?k < 32" using exlib_vec_general_bound [of s] by (simp add: word_less_nat_alt)
  then have u: "unat (ucast ?k :: u64) = unat ?k" "(ucast (ucast ?k :: u64) :: u32) = ?k"
    by (simp_all only: ucast_code)
  have "\<not> (32 :: u64) \<le> ucast ?k" using lt u(1) by (simp add: word_le_nat_alt)
  then show ?thesis
    by (simp add: exception_def exlib_dispatch_def exlib_dispatch_call_def exlib_dispatch_asm_def
        handler_entry_def Let_def u mtc0_status_def)
qed

lemma handler_entry_frame:
  "ef_regs (fst (handler_entry b junk s)) =
     (gpr s)(0 := c0_epc s, 26 := 0, 27 := ucast (exlib_vec_general s))"
  "ef_hi (fst (handler_entry b junk s)) = r_hi s"
  "ef_lo (fst (handler_entry b junk s)) = r_lo s"
  "ef_status (fst (handler_entry b junk s)) = c0_status s"
  "c0_status (snd (handler_entry b junk s)) AND (M_SR_EXL OR M_SR_IE) = 0"
  by (simp_all add: handler_entry_def exlib_dispatch_asm_def Let_def exframe_save_fp_frame)
    (rule word_bit_ext; auto simp: mtc0_status_def bitwise)

lemma fp_restored_mtc0 [simp]: "fp_restored b m st (mtc0_status k s) t = fp_restored b m st s t"
  by (intro machine.equality) (simp_all add: fp_restored_def mtc0_status_def fun_eq_iff)

lemma fp_restored_none [simp]: "fp_restored b 0 st s t = t"
  by (simp add: fp_restored_def saved_reg_def saves_acc_def)

lemma handler_entry_fp:
  assumes "\<not> b_soft_float b"
  shows "exframe_restore_fp b (fst (handler_entry b junk s)) t =
    fp_restored b (h_fpsavemask (handlers s (unat (exlib_vec_general s)))) (c0_status s) s t"
proof (cases "h_fpsavemask (handlers s (unat (exlib_vec_general s))) = EXFPSAVEMASK_NONE")
  case True
  with assms show ?thesis
    by (simp add: handler_entry_def Let_def split_beta exframe_restore_fp_def)
      (simp add: EXFPSAVEMASK_NONE_def)
next
  case False
  with assms show ?thesis
    by (simp add: handler_entry_def Let_def split_beta exframe_fp_roundtrip)
      (simp add: exlib_dispatch_asm_def Let_def)
qed

definition interrupted_restored :: "build_config \<Rightarrow> u32 \<Rightarrow> 'a xstate_scheme \<Rightarrow> 'a xstate_scheme \<Rightarrow> bool" where
  "interrupted_restored b m s u =
     (pc u = c0_epc s \<and> c0_status u = c0_status s AND NOT M_SR_EXL \<and>
      r_hi u = r_hi s \<and> r_lo u = r_lo s \<and> (\<forall>r. r \<noteq> 0 \<and> r \<noteq> 26 \<and> r \<noteq> 27 \<longrightarrow> gpr u r = gpr s r) \<and>
      (\<not> b_soft_float b \<longrightarrow>
         (m AND EXFPSAVEMASK_FCSR \<noteq> 0 \<longrightarrow> cp1_fcsr u = cp1_fcsr s) \<and>
         (\<forall>r. saved_reg (b_fpr64 b) m r \<longrightarrow> cp1_fpr u r = cp1_fpr s r) \<and>
         (\<forall>k<3. saves_acc b m (c0_status s) \<longrightarrow> mdmx_acc u k = mdmx_acc s k)))"

lemma or_and_not_self: "(x OR m) AND NOT m = x AND NOT m" for x m :: "'a::len word"
  by (rule word_bit_ext) (auto simp: bitwise)

lemma ERL_frame: "((x OR M_SR_EXL) AND M_SR_ERL = 0) = (x AND M_SR_ERL = 0)"
  by (simp add: sr_mask_defs mm_makemask1_test bitwise mm_makemask1_bit)

lemma eret_simps:
  assumes "c0_status s AND M_SR_ERL = 0"
  shows "eret s = s\<lparr>pc := c0_epc s, c0_status := c0_status s AND NOT M_SR_EXL\<rparr>"
  using assms by (simp add: eret_def)

lemma exlib_return_restores:
  assumes "c0_status s AND M_SR_ERL = 0"
    and "u = exlib_return b fa (fst (handler_entry b junk s)) t"
    and "m = h_fpsavemask (handlers s (unat (exlib_vec_general s)))"
  shows "interrupted_restored b m s u"
proof (cases "b_soft_float b")
  case True
  then show ?thesis unfolding assms(2,3)
    by (simp add: exlib_return_def Let_def handler_entry_frame mtc0_status_def interrupted_restored_def
        eret_simps ERL_frame assms(1) or_and_not_self)
next
  case False
  then show ?thesis unfolding assms(2,3)
    by (simp add: exlib_return_def Let_def handler_entry_fp handler_entry_frame mtc0_status_def
        interrupted_restored_def fp_restored_def eret_simps ERL_frame assms(1) or_and_not_self)
qed

lemma exlib_return_pc_status:
  assumes "ef_status ef AND M_SR_ERL = 0"
  shows "pc (exlib_return b fa ef t) = ef_pc ef \<and> c0_status (exlib_return b fa ef t) = ef_status ef AND NOT M_SR_EXL"
  by (simp add: exlib_return_def Let_def exframe_restore_fp_eq mtc0_status_def eret_simps
      ERL_frame assms or_and_not_self)

lemma MX_frame: "((x OR M_SR_MX) AND M_SR_ERL = 0) = (x AND M_SR_ERL = 0)"
  by (simp add: sr_mask_defs mm_makemask1_test bitwise mm_makemask1_bit)

lemma handler_entry_mdmx [simp]: "exlib_mdmx (snd (handler_entry b junk s)) = exlib_mdmx s"
  by (simp add: handler_entry_def exlib_dispatch_asm_def Let_def mtc0_status_def)

lemma default_handler_at:
  assumes "\<not> exlib_initted s0" and "exlib_init b v s0 = Inr s"
  shows "h_func (handlers s (unat (exlib_vec_general t))) =
    (if exlib_vec_general t = 0x16 then ExhandlerMdmxenable else ExhandlerPanic)"
proof -
  have "unat (exlib_vec_general t) < 32"
    using exlib_vec_general_bound [of t] by (simp add: word_less_nat_alt)
  moreover have "(unat (exlib_vec_general t) = 22) = (exlib_vec_general t = 0x16)"
    by (simp add: word_unat_eq_iff)
  ultimately show ?thesis
    using exlib_init_handlers [OF assms] by (simp add: common_entry_def)
qed

section \<open>Properties\<close>


text \<open>
  C1: A handler that returns the frame it was given is transparent to the interrupted program,
  whatever it does to the registers itself: execution resumes at the exception PC with
  Status:EXL cleared and Status otherwise unchanged, HI, LO and every general register but the
  kernel's \<open>k0\<close> and \<open>k1\<close> are back, and so is all the floating-point state its mask asked for.
\<close>

theorem exception_transparent:
  assumes "c0_status s AND M_SR_ERL = 0"
    and "\<And>code ef t. \<exists>t'. call_handler ext (h_func (handlers s (unat (exlib_vec_general s)))) code ef t = Inr (ef, t')"
  shows "\<exists>u. exception b ext fa junk s = Inr u \<and>
           interrupted_restored b (h_fpsavemask (handlers s (unat (exlib_vec_general s)))) s u"
proof -
  obtain t' where "call_handler ext (h_func (handlers s (unat (exlib_vec_general s))))
      (exlib_vec_general s) (fst (handler_entry b junk s)) (snd (handler_entry b junk s)) =
      Inr (fst (handler_entry b junk s), t')"
    using assms(2) by blast
  then show ?thesis using exlib_return_restores [OF assms(1)] by (auto simp: exception_eq)
qed

lemma exception_transparent_witness:
  "\<exists>u. exception sb1_build (\<lambda>h code ef t. Inr (ef, t\<lparr>gpr := \<lambda>_. 99, cp1_fpr := \<lambda>_. 7\<rparr>)) 0
         \<lparr>ef_regs = (\<lambda>_. 0), ef_hi = 0, ef_lo = 0, ef_status = 0, ef_cause = 0, ef_fpsavemask = 0,
          ef_fcsr = 0, ef_fpregs = (\<lambda>_. 0), ef_mdmxacc = (\<lambda>_. 0)\<rparr>
         (sb1_state\<lparr>gpr := \<lambda>r. of_nat r, cp1_fpr := \<lambda>r. of_nat r, c0_epc := 0x1234,
            handlers := \<lambda>_. \<lparr>h_func = UserHandler 0, h_fpsavemask = EXFPSAVEMASK_ALL\<rparr>\<rparr>) = Inr u \<and>
     pc u = 0x1234 \<and> gpr u 5 = 5 \<and> cp1_fpr u 20 = 20"
proof -
  let ?s = "sb1_state\<lparr>gpr := \<lambda>r. of_nat r, cp1_fpr := \<lambda>r. of_nat r, c0_epc := 0x1234,
            handlers := \<lambda>_. \<lparr>h_func = UserHandler 0, h_fpsavemask = EXFPSAVEMASK_ALL\<rparr>\<rparr>"
  have "c0_status ?s AND M_SR_ERL = 0"
    by (simp add: sb1_state_def sr_mask_defs mm_makemask1_def)
  then obtain u where "exception sb1_build (\<lambda>h code ef t. Inr (ef, t\<lparr>gpr := \<lambda>_. 99, cp1_fpr := \<lambda>_. 7\<rparr>)) 0
         \<lparr>ef_regs = (\<lambda>_. 0), ef_hi = 0, ef_lo = 0, ef_status = 0, ef_cause = 0, ef_fpsavemask = 0,
          ef_fcsr = 0, ef_fpregs = (\<lambda>_. 0), ef_mdmxacc = (\<lambda>_. 0)\<rparr> ?s = Inr u"
    "interrupted_restored sb1_build EXFPSAVEMASK_ALL ?s u"
    using exception_transparent [of ?s "\<lambda>h code ef t. Inr (ef, t\<lparr>gpr := \<lambda>_. 99, cp1_fpr := \<lambda>_. 7\<rparr>)"]
    by (fastforce simp: call_handler_def)
  moreover have "saved_reg (b_fpr64 sb1_build) EXFPSAVEMASK_ALL 20"
    by (simp add: saved_reg_def sb1_build_def exfp_mask_defs fp_callee_regs_def)
  ultimately show ?thesis
    by (intro exI [of _ u]) (auto simp: interrupted_restored_def sb1_build_def)
qed

text \<open>
  With a mask that asks for everything on a 64-bit FPU, saving and restoring through the
  frame brings back FCSR, all 32 floating-point registers and (when MDMX is enabled) the
  accumulator, whatever was in the registers in between; with any mask the registers it does not
  name keep their current values.
\<close>

theorem fp_frame_roundtrip:
  "(\<forall>r. cp1_fpr (exframe_restore_fp b (exframe_save_fp b ef m s) t) r =
          (if saved_reg (b_fpr64 b) m r then cp1_fpr s r else cp1_fpr t r)) \<and>
   cp1_fcsr (exframe_restore_fp b (exframe_save_fp b ef m s) t) =
     (if m AND EXFPSAVEMASK_FCSR \<noteq> 0 then cp1_fcsr s else cp1_fcsr t) \<and>
   (\<forall>k<3. mdmx_acc (exframe_restore_fp b (exframe_save_fp b ef m s) t) k =
          (if saves_acc b m (ef_status ef) then mdmx_acc s k else mdmx_acc t k)) \<and>
   (\<forall>r<32. saved_reg True EXFPSAVEMASK_ALL r)"
  using fp_regs_all by (auto simp: exframe_fp_roundtrip fp_restored_def saved_reg_def exfp_mask_defs)

lemma fp_frame_roundtrip_witness:
  "cp1_fpr (exframe_restore_fp sb1_build
     (exframe_save_fp sb1_build
        \<lparr>ef_regs = (\<lambda>_. 0), ef_hi = 0, ef_lo = 0, ef_status = 0x01000000, ef_cause = 0, ef_fpsavemask = 0,
         ef_fcsr = 0, ef_fpregs = (\<lambda>_. 0), ef_mdmxacc = (\<lambda>_. 0)\<rparr>
        EXFPSAVEMASK_ALL (sb1_state\<lparr>cp1_fpr := \<lambda>r. of_nat r + 1\<rparr>))
     sb1_state) 20 = 21"
proof -
  have "saved_reg True EXFPSAVEMASK_ALL 20"
    by (simp add: saved_reg_def exfp_mask_defs fp_callee_regs_def)
  then show ?thesis by (simp add: fp_frame_roundtrip sb1_build_def)
qed

text \<open>
  After a successful \<open>exlib_init\<close>, before any handler is set, every exception but the MDMX
  one ends in a panic that carries its code. The MDMX exception sets Status:MX and retries the
  instruction when the processor has MDMX and it was off, and panics otherwise.
\<close>

theorem default_exceptions:
  assumes "\<not> exlib_initted s0" and "exlib_init b v s0 = Inr s" and "c0_status s1 AND M_SR_ERL = 0"
    and "handlers s1 = handlers s" and "exlib_mdmx s1 = exlib_mdmx s"
  shows "(exlib_vec_general s1 \<noteq> 0x16 \<longrightarrow>
            (\<exists>msg. exception b ext fa junk s1 = Inl (Panicked msg (exlib_vec_general s1)))) \<and>
         (exlib_vec_general s1 = 0x16 \<and> (\<not> exlib_mdmx s \<or> c0_status s1 AND M_SR_MX \<noteq> 0) \<longrightarrow>
            exception b ext fa junk s1 = Inl (Panicked ''fatal MDMX exception'' 0x16)) \<and>
         (exlib_vec_general s1 = 0x16 \<and> exlib_mdmx s \<and> c0_status s1 AND M_SR_MX = 0 \<longrightarrow>
            (\<exists>u. exception b ext fa junk s1 = Inr u \<and> pc u = c0_epc s1 \<and>
                 c0_status u = (c0_status s1 OR M_SR_MX) AND NOT M_SR_EXL))"
proof -
  note h = default_handler_at [OF assms(1,2), of s1]
  then have h22: "exlib_vec_general s1 = 0x16 \<Longrightarrow> h_func (handlers s 0x16) = ExhandlerMdmxenable"
    by simp
  have "\<exists>msg. exception b ext fa junk s1 = Inl (Panicked msg (exlib_vec_general s1))"
    if "exlib_vec_general s1 \<noteq> 0x16"
    using that by (simp add: exception_eq assms(4) h call_handler_def exhandler_panic_def exlib_panic_def)
  moreover have "exception b ext fa junk s1 = Inl (Panicked ''fatal MDMX exception'' 0x16)"
    if "exlib_vec_general s1 = 0x16" "\<not> exlib_mdmx s \<or> c0_status s1 AND M_SR_MX \<noteq> 0"
    using that
    by (auto simp: exception_eq assms(4,5) h22 call_handler_def exhandler_mdmxenable_def
        handler_entry_frame exhandler_panic_def exlib_panic_def EXCODE_NCODES_def codestrs_def)
  moreover have "\<exists>u. exception b ext fa junk s1 = Inr u \<and> pc u = c0_epc s1 \<and>
                 c0_status u = (c0_status s1 OR M_SR_MX) AND NOT M_SR_EXL"
    if "exlib_vec_general s1 = 0x16" "exlib_mdmx s" "c0_status s1 AND M_SR_MX = 0"
    using that assms(3)
    by (auto simp: exception_eq assms(4,5) h22 call_handler_def exhandler_mdmxenable_def
        handler_entry_frame exlib_return_pc_status MX_frame)
  ultimately show ?thesis by blast
qed

lemma default_exceptions_witness:
  "\<exists>s msg. exlib_init sb1_build sb1_images sb1_state = Inr s \<and>
     exception sb1_build (\<lambda>h code ef t. Inr (ef, t)) 0
         \<lparr>ef_regs = (\<lambda>_. 0), ef_hi = 0, ef_lo = 0, ef_status = 0, ef_cause = 0, ef_fpsavemask = 0,
          ef_fcsr = 0, ef_fpregs = (\<lambda>_. 0), ef_mdmxacc = (\<lambda>_. 0)\<rparr>
       (s\<lparr>c0_cause := 0x10, c0_status := 2\<rparr>) = Inl (Panicked msg 4)"
proof -
  obtain s where s: "exlib_init sb1_build sb1_images sb1_state = Inr s" using sb1_init by blast
  have "\<not> exlib_initted sb1_state" "c0_status (s\<lparr>c0_cause := 0x10, c0_status := 2\<rparr>) AND M_SR_ERL = 0"
    "exlib_vec_general (s\<lparr>c0_cause := 0x10, c0_status := 2\<rparr>) = 4"
    by (simp_all add: sb1_state_def sr_mask_defs mm_makemask1_def exlib_vec_general_def)
  with default_exceptions [OF _ s, of "s\<lparr>c0_cause := 0x10, c0_status := 2\<rparr>"] s show ?thesis
    by simp
qed

end
