(* ===== verification/Unaligned.thy ===== *)
theory Unaligned
  imports Exdispatch
begin

text \<open>
  The unaligned load and store handlers, \<open>unaligned/unhandler.c\<close>, over the port macros of
  \<open>unhandler_exlib.h\<close>. The port's choices (register width, width of \<open>long\<close>, byte order, what
  \<open>COPYIN\<close> and \<open>COPYOUT\<close> can reach) are the record \<open>un_config\<close>; the exlib port copies with
  \<open>memcpy\<close> and never fails. C integers narrower than 64 bits are kept as their value extended to
  64 bits, so the comparisons that detect a truncated pointer read as in the source.
\<close>

unbundle bit_operations_syntax

section \<open>The port\<close>

record un_config =
  un_mips64 :: bool
  un_long64 :: bool
  un_soft_float :: bool
  un_big_endian :: bool
  un_readable :: "u64 \<Rightarrow> nat \<Rightarrow> bool"
  un_writable :: "u64 \<Rightarrow> nat \<Rightarrow> bool"

definition exlib_port :: "bool \<Rightarrow> bool \<Rightarrow> bool \<Rightarrow> un_config" where
  "exlib_port m64 l64 be =
     \<lparr>un_mips64 = m64, un_long64 = l64, un_soft_float = False, un_big_endian = be,
      un_readable = (\<lambda>_ _. True), un_writable = (\<lambda>_ _. True)\<rparr>"

definition sext16 :: "u64 \<Rightarrow> u64" where "sext16 x = scast (ucast x :: u16)"
definition sext32 :: "u64 \<Rightarrow> u64" where "sext32 x = scast (ucast x :: u32)"

text \<open>Conversion to \<open>EXC_INTPTR_TYPE\<close> (\<open>long\<close>) and to \<open>REGISTER_TYPE\<close>.\<close>

definition intptr :: "un_config \<Rightarrow> u64 \<Rightarrow> u64" where
  "intptr cfg x = (if un_long64 cfg then x else sext32 x)"

definition reg_type :: "un_config \<Rightarrow> u64 \<Rightarrow> u64" where
  "reg_type cfg x = (if un_mips64 cfg then x else sext32 x)"

definition GET_EXC_REG :: "exframe \<Rightarrow> nat \<Rightarrow> u64" where
  "GET_EXC_REG ef r = (if r = 0 then 0 else ef_regs ef r)"

definition SET_EXC_REG :: "nat \<Rightarrow> u64 \<Rightarrow> exframe \<Rightarrow> exframe" where
  "SET_EXC_REG r v ef = (if r \<noteq> 0 then ef\<lparr>ef_regs := (ef_regs ef)(r := v)\<rparr> else ef)"

definition SET_EXC_PC :: "u64 \<Rightarrow> exframe \<Rightarrow> exframe" where
  "SET_EXC_PC v ef = ef\<lparr>ef_regs := (ef_regs ef)(0 := v)\<rparr>"

definition GET_EXC_FP_COND_CODES :: "un_config \<Rightarrow> exframe \<Rightarrow> u32" where
  "GET_EXC_FP_COND_CODES cfg ef =
     (if un_soft_float cfg then 0
      else (drop_bit 23 (ef_fcsr ef) AND 0x1) OR (drop_bit 24 (ef_fcsr ef) AND 0xfe))"

text \<open>An object of \<open>n\<close> bytes in memory, read and written in the processor's byte order.\<close>

definition COPYIN :: "un_config \<Rightarrow> u64 \<Rightarrow> nat \<Rightarrow> memory \<Rightarrow> u64 option" where
  "COPYIN cfg src n m =
     (if un_readable cfg src n
      then let bs = map (\<lambda>k. m (src + of_nat k)) [0..<n]
           in Some (le_value (if un_big_endian cfg then rev bs else bs))
      else None)"

definition COPYOUT :: "un_config \<Rightarrow> u64 \<Rightarrow> nat \<Rightarrow> u64 \<Rightarrow> memory \<Rightarrow> memory option" where
  "COPYOUT cfg dest n v m =
     (if un_writable cfg dest n
      then let bs = (if un_big_endian cfg then rev (le_bytes n v) else le_bytes n v)
           in Some (store_bytes dest n (\<lambda>k. bs ! k) m)
      else None)"

section \<open>Instruction fields\<close>

definition INSN_OPCODE :: "u32 \<Rightarrow> u32" where "INSN_OPCODE insn = drop_bit 26 insn AND 0x3f"
definition INSN_I_IMMEDIATE :: "u32 \<Rightarrow> u32" where "INSN_I_IMMEDIATE insn = insn AND 0xffff"
definition INSN_I_RT :: "u32 \<Rightarrow> u32" where "INSN_I_RT insn = drop_bit 16 insn AND 0x1f"
definition INSN_I_RS :: "u32 \<Rightarrow> u32" where "INSN_I_RS insn = drop_bit 21 insn AND 0x1f"
definition INSN_J_INSTR_INDEX :: "u32 \<Rightarrow> u32" where "INSN_J_INSTR_INDEX insn = insn AND 0x3ffffff"
definition INSN_R_FUNCTION :: "u32 \<Rightarrow> u32" where "INSN_R_FUNCTION insn = insn AND 0x3f"

definition imm_offset :: "u32 \<Rightarrow> u64" where
  "imm_offset insn = sext16 (ucast (INSN_I_IMMEDIATE insn))"

definition rs_reg :: "exframe \<Rightarrow> u32 \<Rightarrow> u64" where
  "rs_reg ef insn = GET_EXC_REG ef (unat (INSN_I_RS insn))"

definition rt_reg :: "exframe \<Rightarrow> u32 \<Rightarrow> u64" where
  "rt_reg ef insn = GET_EXC_REG ef (unat (INSN_I_RT insn))"

section \<open>\<open>calculate_next_pc\<close>\<close>

text \<open>
  The branch found in the word before a delay slot: its condition and whether a taken branch
  links. None is the \<open>fail\<close> label.
\<close>

definition regimm_condition :: "un_config \<Rightarrow> exframe \<Rightarrow> u32 \<Rightarrow> (bool \<times> bool) option" where
  "regimm_condition cfg ef insn =
     (let rt = INSN_I_RT insn; rs_val = reg_type cfg (rs_reg ef insn)
      in if rt = 0x00 then Some (rs_val <s 0, False)
         else if rt = 0x01 then Some (0 \<le>s rs_val, False)
         else if rt = 0x02 \<or> rt = 0x03 then Some (True, False)
         else if rt = 0x10 then Some (rs_val <s 0, True)
         else if rt = 0x11 then Some (0 \<le>s rs_val, True)
         else if rt = 0x12 \<or> rt = 0x13 then Some (True, True)
         else None)"

definition cop1_condition :: "un_config \<Rightarrow> exframe \<Rightarrow> u32 \<Rightarrow> (bool \<times> bool) option" where
  "cop1_condition cfg ef insn =
     (let rs = INSN_I_RS insn; rt = INSN_I_RT insn
      in if rs \<noteq> 0xa \<and> rs \<noteq> 0x9 \<and> rs \<noteq> 0x8 then None
         else
           let c0 = (1 :: u32);
               c1 = (if rs = 0xa then push_bit 2 c0 else c0);
               c2 = (if rs = 0xa \<or> rs = 0x9 then push_bit 1 c1 else c1);
               ccmask = push_bit 1 c2 - 1
           in if rt AND 0x02 \<noteq> 0
              then if ccmask \<noteq> 1 then None else Some (True, False)
              else
                let ccmask' = push_bit (unat (drop_bit 2 rt AND 0x7)) ccmask;
                    ccodes = GET_EXC_FP_COND_CODES cfg ef;
                    ccodes' = (if rt AND 0x01 = 0 then NOT ccodes else ccodes)
                in Some (ccodes' AND ccmask' \<noteq> 0, False))"

definition cmp_condition :: "un_config \<Rightarrow> exframe \<Rightarrow> u32 \<Rightarrow> bool" where
  "cmp_condition cfg ef insn =
     (let opcode = INSN_OPCODE insn;
          rs_val = reg_type cfg (rs_reg ef insn); rt_val = reg_type cfg (rt_reg ef insn)
      in (opcode = 0x04 \<and> rs_val = rt_val) \<or> (opcode = 0x05 \<and> rs_val \<noteq> rt_val) \<or>
         (opcode = 0x06 \<and> rs_val \<le>s 0) \<or> (opcode = 0x07 \<and> 0 <s rs_val))"

definition cond_branch :: "un_config \<Rightarrow> u64 \<Rightarrow> u32 \<Rightarrow> bool \<times> bool \<Rightarrow> u64 \<times> bool" where
  "cond_branch cfg old_pc insn c =
     (if \<not> fst c then (intptr cfg (old_pc + 8), False)
      else (intptr cfg (old_pc + 4 + push_bit 2 (imm_offset insn)), snd c))"

definition branch_next_pc :: "un_config \<Rightarrow> exframe \<Rightarrow> u64 \<Rightarrow> u32 \<Rightarrow> (u64 \<times> bool) option" where
  "branch_next_pc cfg ef old_pc insn =
     (let opcode = INSN_OPCODE insn
      in if opcode = 0x00 then
           if INSN_R_FUNCTION insn = 0x08
           then Some (intptr cfg (reg_type cfg (rs_reg ef insn)), False)
           else if INSN_R_FUNCTION insn = 0x09
           then Some (intptr cfg (reg_type cfg (rs_reg ef insn)), True)
           else None
         else if opcode = 0x01 then
           map_option (cond_branch cfg old_pc insn) (regimm_condition cfg ef insn)
         else if opcode = 0x02 \<or> opcode = 0x03 then
           Some ((intptr cfg (old_pc + 4) AND NOT 0xfffffff) OR
                   push_bit 2 (ucast (INSN_J_INSTR_INDEX insn)), opcode = 0x03)
         else if opcode = 0x04 \<or> opcode = 0x05 \<or> opcode = 0x06 \<or> opcode = 0x07 then
           Some (cond_branch cfg old_pc insn (cmp_condition cfg ef insn, False))
         else if opcode = 0x11 then
           map_option (cond_branch cfg old_pc insn) (cop1_condition cfg ef insn)
         else if opcode = 0x14 \<or> opcode = 0x15 \<or> opcode = 0x16 \<or> opcode = 0x17 then
           Some (cond_branch cfg old_pc insn (True, False))
         else None)"

definition calculate_next_pc ::
  "un_config \<Rightarrow> exframe \<Rightarrow> memory \<Rightarrow> u64 \<Rightarrow> bool \<Rightarrow> (u64 \<times> bool) option" where
  "calculate_next_pc cfg ef m old_pc bd =
     (if \<not> bd then Some (intptr cfg (old_pc + 4), False)
      else case COPYIN cfg old_pc 4 m of
             None \<Rightarrow> None
           | Some insn \<Rightarrow> branch_next_pc cfg ef old_pc (ucast insn))"

section \<open>The handlers\<close>

text \<open>The value a load leaves in its register, None for the opcodes that are fatal.\<close>

definition load_value :: "un_config \<Rightarrow> memory \<Rightarrow> u32 \<Rightarrow> u64 \<Rightarrow> u64 option" where
  "load_value cfg m opcode ea =
     (if opcode = 0x21 then map_option sext16 (COPYIN cfg ea 2 m)
      else if opcode = 0x23 then map_option sext32 (COPYIN cfg ea 4 m)
      else if opcode = 0x25 then COPYIN cfg ea 2 m
      else if opcode = 0x27 \<and> un_mips64 cfg then COPYIN cfg ea 4 m
      else if opcode = 0x37 \<and> un_mips64 cfg then COPYIN cfg ea 8 m
      else None)"

definition store_value :: "un_config \<Rightarrow> memory \<Rightarrow> u32 \<Rightarrow> u64 \<Rightarrow> u64 \<Rightarrow> memory option" where
  "store_value cfg m opcode ea v =
     (if opcode = 0x29 then COPYOUT cfg ea 2 v m
      else if opcode = 0x2b then COPYOUT cfg ea 4 v m
      else if opcode = 0x3f \<and> un_mips64 cfg then COPYOUT cfg ea 8 v m
      else None)"

text \<open>The \<open>handled\<close> label: link, then leave at the new PC.\<close>

definition leave_handled :: "bool \<Rightarrow> u64 \<Rightarrow> exframe \<Rightarrow> exframe" where
  "leave_handled need_new_ra new_pc ef =
     SET_EXC_PC new_pc (if need_new_ra then SET_EXC_REG 31 (ef_pc ef + 8) ef else ef)"

definition unaligned_load_handler ::
  "un_config \<Rightarrow> u32 \<Rightarrow> exframe \<Rightarrow> memory \<Rightarrow> (exframe \<times> memory) res" where
  "unaligned_load_handler cfg code ef m =
     (let pc = intptr cfg (ef_pc ef); bd = (ef_cause ef AND M_CAUSE_BD \<noteq> 0)
      in if pc \<noteq> ef_pc ef then exhandler_panic code
         else if ef_pc ef AND 0x3 \<noteq> 0 then exhandler_panic code
         else case calculate_next_pc cfg ef m pc bd of
             None \<Rightarrow> exhandler_panic code
           | Some (new_pc, need_new_ra) \<Rightarrow>
               (case COPYIN cfg (if bd then intptr cfg (pc + 4) else pc) 4 m of
                  None \<Rightarrow> exhandler_panic code
                | Some w \<Rightarrow>
                    (let insn = ucast w; base = intptr cfg (rs_reg ef insn)
                     in if base \<noteq> rs_reg ef insn then exhandler_panic code
                        else case load_value cfg m (INSN_OPCODE insn) (intptr cfg (base + imm_offset insn)) of
                            None \<Rightarrow> exhandler_panic code
                          | Some v \<Rightarrow>
                              Inr (leave_handled need_new_ra new_pc
                                     (SET_EXC_REG (unat (INSN_I_RT insn)) v ef), m))))"

definition unaligned_store_handler ::
  "un_config \<Rightarrow> u32 \<Rightarrow> exframe \<Rightarrow> memory \<Rightarrow> (exframe \<times> memory) res" where
  "unaligned_store_handler cfg code ef m =
     (let pc = intptr cfg (ef_pc ef); bd = (ef_cause ef AND M_CAUSE_BD \<noteq> 0)
      in if pc \<noteq> ef_pc ef then exhandler_panic code
         else case calculate_next_pc cfg ef m pc bd of
             None \<Rightarrow> exhandler_panic code
           | Some (new_pc, need_new_ra) \<Rightarrow>
               (case COPYIN cfg (if bd then intptr cfg (pc + 4) else pc) 4 m of
                  None \<Rightarrow> exhandler_panic code
                | Some w \<Rightarrow>
                    (let insn = ucast w; base = intptr cfg (rs_reg ef insn)
                     in if base \<noteq> rs_reg ef insn then exhandler_panic code
                        else case store_value cfg m (INSN_OPCODE insn) (intptr cfg (base + imm_offset insn))
                                    (rt_reg ef insn) of
                            None \<Rightarrow> exhandler_panic code
                          | Some m' \<Rightarrow> Inr (leave_handled need_new_ra new_pc ef, m'))))"

section \<open>Bytes in memory\<close>

lemma map_nth_block:
  assumes "length bs = n" and "n \<le> 8"
  shows "map (\<lambda>k. store_bytes a n (\<lambda>k. bs ! k) m (a + of_nat k)) [0..<n] = bs"
proof (rule nth_equalityI)
  fix k assume "k < length (map (\<lambda>k. store_bytes a n (\<lambda>k. bs ! k) m (a + of_nat k)) [0..<n])"
  then have k: "k < n" by simp
  then have "unat (of_nat k :: u64) = k" using assms(2) by (simp add: unat_of_nat)
  with k show "map (\<lambda>k. store_bytes a n (\<lambda>k. bs ! k) m (a + of_nat k)) [0..<n] ! k = bs ! k"
    by (simp add: store_bytes_def)
qed (simp add: assms)

lemma COPYOUT_COPYIN:
  assumes "COPYOUT cfg a n v m = Some m'" and "un_readable cfg a n" and "n \<le> 8"
  shows "COPYIN cfg a n m' = Some (take_bit (8 * n) v)"
  using assms map_nth_block [of "le_bytes n v" n a m] map_nth_block [of "rev (le_bytes n v)" n a m]
  by (auto simp: COPYOUT_def COPYIN_def le_roundtrip Let_def split: if_splits)

lemma COPYOUT_outside:
  assumes "COPYOUT cfg a n v m = Some m'" and "\<not> in_block a n b"
  shows "m' b = m b"
  using assms by (auto simp: COPYOUT_def Let_def store_bytes_mem split: if_splits)

section \<open>Instruction encodings\<close>

text \<open>The branches of the architecture, with their operands.\<close>

datatype branch =
    J "26 word" | JAL "26 word" | JR "5 word" | JALR "5 word" "5 word"
  | BEQ "5 word" "5 word" u16 | BNE "5 word" "5 word" u16 | BLEZ "5 word" u16 | BGTZ "5 word" u16
  | BEQL "5 word" "5 word" u16 | BNEL "5 word" "5 word" u16 | BLEZL "5 word" u16 | BGTZL "5 word" u16
  | BLTZ "5 word" u16 | BGEZ "5 word" u16 | BLTZAL "5 word" u16 | BGEZAL "5 word" u16

definition itype :: "6 word \<Rightarrow> 5 word \<Rightarrow> 5 word \<Rightarrow> u16 \<Rightarrow> u32" where
  "itype opc rs rt imm =
     push_bit 26 (ucast opc) OR push_bit 21 (ucast rs) OR push_bit 16 (ucast rt) OR ucast imm"

definition jtype :: "6 word \<Rightarrow> 26 word \<Rightarrow> u32" where
  "jtype opc idx = push_bit 26 (ucast opc) OR ucast idx"

fun encode_branch :: "branch \<Rightarrow> u32" where
  "encode_branch (J idx) = jtype 0x02 idx"
| "encode_branch (JAL idx) = jtype 0x03 idx"
| "encode_branch (JR rs) = itype 0 rs 0 0x08"
| "encode_branch (JALR rd rs) = itype 0 rs 0 (push_bit 11 (ucast rd) OR 0x09)"
| "encode_branch (BEQ rs rt off) = itype 0x04 rs rt off"
| "encode_branch (BNE rs rt off) = itype 0x05 rs rt off"
| "encode_branch (BLEZ rs off) = itype 0x06 rs 0 off"
| "encode_branch (BGTZ rs off) = itype 0x07 rs 0 off"
| "encode_branch (BEQL rs rt off) = itype 0x14 rs rt off"
| "encode_branch (BNEL rs rt off) = itype 0x15 rs rt off"
| "encode_branch (BLEZL rs off) = itype 0x16 rs 0 off"
| "encode_branch (BGTZL rs off) = itype 0x17 rs 0 off"
| "encode_branch (BLTZ rs off) = itype 0x01 rs 0x00 off"
| "encode_branch (BGEZ rs off) = itype 0x01 rs 0x01 off"
| "encode_branch (BLTZAL rs off) = itype 0x01 rs 0x10 off"
| "encode_branch (BGEZAL rs off) = itype 0x01 rs 0x11 off"

lemma itype_fields:
  "INSN_OPCODE (itype opc rs rt imm) = ucast opc"
  "INSN_I_RS (itype opc rs rt imm) = ucast rs"
  "INSN_I_RT (itype opc rs rt imm) = ucast rt"
  "INSN_I_IMMEDIATE (itype opc rs rt imm) = ucast imm"
  "INSN_R_FUNCTION (itype opc rs rt imm) = ucast imm AND 0x3f"
proof -
  have m: "(0x3f :: u32) = mask 6" "(0x1f :: u32) = mask 5" "(0xffff :: u32) = mask 16"
    by (simp_all add: mask_eq_exp_minus_1)
  note b = bitwise bit_ucast_iff
  show "INSN_OPCODE (itype opc rs rt imm) = ucast opc"
    unfolding INSN_OPCODE_def itype_def m by (rule word_bit_ext) (auto simp: b dest: bit_imp_le_length)
  show "INSN_I_RS (itype opc rs rt imm) = ucast rs"
    unfolding INSN_I_RS_def itype_def m by (rule word_bit_ext) (auto simp: b dest: bit_imp_le_length)
  show "INSN_I_RT (itype opc rs rt imm) = ucast rt"
    unfolding INSN_I_RT_def itype_def m by (rule word_bit_ext) (auto simp: b dest: bit_imp_le_length)
  show "INSN_I_IMMEDIATE (itype opc rs rt imm) = ucast imm"
    unfolding INSN_I_IMMEDIATE_def itype_def m
    by (rule word_bit_ext) (auto simp: b dest: bit_imp_le_length)
  show "INSN_R_FUNCTION (itype opc rs rt imm) = ucast imm AND 0x3f"
    unfolding INSN_R_FUNCTION_def itype_def m
    by (rule word_bit_ext) (auto simp: b)
qed

lemma jtype_fields:
  "INSN_OPCODE (jtype opc idx) = ucast opc"
  "INSN_J_INSTR_INDEX (jtype opc idx) = ucast idx"
proof -
  have m: "(0x3f :: u32) = mask 6" "(0x3ffffff :: u32) = mask 26"
    by (simp_all add: mask_eq_exp_minus_1)
  note b = bitwise bit_ucast_iff
  show "INSN_OPCODE (jtype opc idx) = ucast opc"
    unfolding INSN_OPCODE_def jtype_def m by (rule word_bit_ext) (auto simp: b dest: bit_imp_le_length)
  show "INSN_J_INSTR_INDEX (jtype opc idx) = ucast idx"
    unfolding INSN_J_INSTR_INDEX_def jtype_def m
    by (rule word_bit_ext) (auto simp: b dest: bit_imp_le_length)
qed

section \<open>What the architecture says of a branch\<close>

definition reg5 :: "exframe \<Rightarrow> 5 word \<Rightarrow> u64" where
  "reg5 ef r = GET_EXC_REG ef (unat r)"

text \<open>
  The address executed after the delay slot of a branch at \<open>a\<close>; the delay slot of a
  branch-likely is only executed when the branch is taken.
\<close>

definition rel_target :: "u64 \<Rightarrow> u16 \<Rightarrow> u64" where
  "rel_target a off = a + 4 + 4 * scast off"

fun isa_taken :: "exframe \<Rightarrow> branch \<Rightarrow> bool" where
  "isa_taken ef (BEQ rs rt off) = (reg5 ef rs = reg5 ef rt)"
| "isa_taken ef (BNE rs rt off) = (reg5 ef rs \<noteq> reg5 ef rt)"
| "isa_taken ef (BLEZ rs off) = (sint (reg5 ef rs) \<le> 0)"
| "isa_taken ef (BGTZ rs off) = (0 < sint (reg5 ef rs))"
| "isa_taken ef (BLTZ rs off) = (sint (reg5 ef rs) < 0)"
| "isa_taken ef (BGEZ rs off) = (0 \<le> sint (reg5 ef rs))"
| "isa_taken ef (BLTZAL rs off) = (sint (reg5 ef rs) < 0)"
| "isa_taken ef (BGEZAL rs off) = (0 \<le> sint (reg5 ef rs))"
| "isa_taken ef b = True"

fun isa_target :: "exframe \<Rightarrow> u64 \<Rightarrow> branch \<Rightarrow> u64" where
  "isa_target ef a (J idx) = ((a + 4) AND NOT (mask 28)) OR 4 * ucast idx"
| "isa_target ef a (JAL idx) = ((a + 4) AND NOT (mask 28)) OR 4 * ucast idx"
| "isa_target ef a (JR rs) = reg5 ef rs"
| "isa_target ef a (JALR rd rs) = reg5 ef rs"
| "isa_target ef a (BEQ rs rt off) = rel_target a off"
| "isa_target ef a (BNE rs rt off) = rel_target a off"
| "isa_target ef a (BLEZ rs off) = rel_target a off"
| "isa_target ef a (BGTZ rs off) = rel_target a off"
| "isa_target ef a (BEQL rs rt off) = rel_target a off"
| "isa_target ef a (BNEL rs rt off) = rel_target a off"
| "isa_target ef a (BLEZL rs off) = rel_target a off"
| "isa_target ef a (BGTZL rs off) = rel_target a off"
| "isa_target ef a (BLTZ rs off) = rel_target a off"
| "isa_target ef a (BGEZ rs off) = rel_target a off"
| "isa_target ef a (BLTZAL rs off) = rel_target a off"
| "isa_target ef a (BGEZAL rs off) = rel_target a off"

definition isa_next_pc :: "exframe \<Rightarrow> u64 \<Rightarrow> branch \<Rightarrow> u64" where
  "isa_next_pc ef a b = (if isa_taken ef b then isa_target ef a b else a + 8)"

text \<open>The register that receives the return address, taken or not.\<close>

fun isa_link :: "branch \<Rightarrow> (5 word) option" where
  "isa_link (JAL idx) = Some 31"
| "isa_link (JALR rd rs) = Some rd"
| "isa_link (BLTZAL rs off) = Some 31"
| "isa_link (BGEZAL rs off) = Some 31"
| "isa_link b = None"

lemma imm_offset_itype: "push_bit 2 (imm_offset (itype opc rs rt off)) = 4 * scast off"
proof -
  have "(ucast (ucast (ucast off :: u32) :: u64) :: u16) = off"
    by (rule word_bit_ext) (auto simp: bit_ucast_iff)
  then show ?thesis by (simp add: imm_offset_def itype_fields sext16_def push_bit_eq_mult)
qed

lemma itype_regs:
  "rs_reg ef (itype opc rs rt imm) = reg5 ef rs"
  "rt_reg ef (itype opc rs rt imm) = reg5 ef rt"
proof -
  have u: "unat (ucast r :: u32) = unat r" for r :: "5 word"
    by (simp add: unsigned_ucast_eq take_bit_nat_eq_self order_less_le_trans [OF unsigned_less])
  show "rs_reg ef (itype opc rs rt imm) = reg5 ef rs" "rt_reg ef (itype opc rs rt imm) = reg5 ef rt"
    by (simp_all add: rs_reg_def rt_reg_def itype_fields reg5_def u)
qed

lemma signed_tests:
  "(x <s 0) = (sint x < 0)" "(0 \<le>s x) = (0 \<le> sint x)" "(x \<le>s 0) = (sint x \<le> 0)" "(0 <s x) = (0 < sint x)"
  for x :: u64
  by (simp_all add: word_sless_alt word_sle_eq)

lemma function_jalr: "((push_bit 11 (ucast (rd :: 5 word)) OR 9 :: u16)) AND 0x3f = 9"
proof -
  have "(0x3f :: u16) = mask 6" by (simp add: mask_eq_exp_minus_1)
  moreover have "push_bit 11 (ucast rd :: u16) AND mask 6 = 0"
    by (rule word_bit_ext) (auto simp: bitwise)
  ultimately show ?thesis by (simp add: bit.conj_disj_distrib2)
qed

lemma function_jalr32: "(ucast (push_bit 11 (ucast (rd :: 5 word)) OR 9 :: u16) :: u32) AND 0x3f = 9"
proof -
  have "(ucast (push_bit 11 (ucast (rd :: 5 word)) OR 9 :: u16) :: u32) AND 0x3f =
        ucast ((push_bit 11 (ucast rd) OR 9 :: u16) AND 0x3f)"
  proof -
    have m: "(0x3f :: u32) = mask 6" "(0x3f :: u16) = mask 6" by (simp_all add: mask_eq_exp_minus_1)
    show ?thesis unfolding m by (rule word_bit_ext) (auto simp: bitwise bit_ucast_iff)
  qed
  then show ?thesis by (simp add: function_jalr)
qed

lemma jump_target:
  "(a AND - 268435456) OR push_bit 2 (ucast (ucast (idx :: 26 word) :: u32)) =
   (a AND NOT (mask 28)) OR 4 * ucast idx" for a :: u64
proof -
  have "(- 268435456 :: u64) = NOT (mask 28)" by (simp add: mask_eq_exp_minus_1)
  moreover have "(ucast (ucast idx :: u32) :: u64) = ucast idx"
    by (rule word_bit_ext) (auto simp: bit_ucast_iff dest: bit_imp_le_length)
  ultimately show ?thesis by (simp add: push_bit_eq_mult mult.commute)
qed

lemma branch_next_pc_isa:
  assumes "un_mips64 cfg" and "un_long64 cfg"
  shows "branch_next_pc cfg ef a (encode_branch b) =
    Some (isa_next_pc ef a b, isa_link b \<noteq> None \<and> isa_taken ef b)"
proof -
  have t: "reg_type cfg x = x" "intptr cfg x = x" for x
    using assms by (simp_all add: reg_type_def intptr_def)
  show ?thesis
    by (cases b) (simp_all add: branch_next_pc_def itype_fields jtype_fields t cond_branch_def
        regimm_condition_def cmp_condition_def itype_regs imm_offset_itype isa_next_pc_def
        rel_target_def signed_tests function_jalr32 jump_target)
qed

section \<open>The handlers on a 64-bit port\<close>

definition insn_at :: "un_config \<Rightarrow> memory \<Rightarrow> u64 \<Rightarrow> u32 \<Rightarrow> bool" where
  "insn_at cfg m a insn = (COPYIN cfg a 4 m = Some (ucast insn))"

text \<open>
  The frame of a fault at \<open>insn\<close>, straight-line or in the delay slot of a branch; execution goes
  on at \<open>next_pc\<close>, and \<open>link\<close> says that the branch is a taken linking one.
\<close>

definition fault_at :: "un_config \<Rightarrow> exframe \<Rightarrow> memory \<Rightarrow> u32 \<Rightarrow> u64 \<Rightarrow> bool \<Rightarrow> bool" where
  "fault_at cfg ef m insn next_pc link =
     ((ef_cause ef AND M_CAUSE_BD = 0 \<and> insn_at cfg m (ef_pc ef) insn \<and>
       next_pc = ef_pc ef + 4 \<and> \<not> link) \<or>
      (\<exists>b. ef_cause ef AND M_CAUSE_BD \<noteq> 0 \<and> insn_at cfg m (ef_pc ef) (encode_branch b) \<and>
           insn_at cfg m (ef_pc ef + 4) insn \<and>
           next_pc = isa_next_pc ef (ef_pc ef) b \<and> link = (isa_link b \<noteq> None \<and> isa_taken ef b)))"

definition after_insn :: "exframe \<Rightarrow> u64 \<Rightarrow> bool \<Rightarrow> nat \<Rightarrow> u64 \<Rightarrow> exframe" where
  "after_insn ef next_pc link r v =
     ef\<lparr>ef_regs := (\<lambda>k. if k = 0 then next_pc else if k = 31 \<and> link then ef_pc ef + 8
                        else if k = r then v else ef_regs ef k)\<rparr>"

lemma ucast_u32_u64 [simp]: "ucast (ucast x :: u64) = x" for x :: u32
  by (rule ucast_code(2))

lemma ucast5_unat [simp]: "unat (ucast r :: u32) = unat r" for r :: "5 word"
  by (simp add: unsigned_ucast_eq take_bit_nat_eq_self order_less_le_trans [OF unsigned_less])

lemma leave_handled_eq:
  "leave_handled link next_pc (SET_EXC_REG r v ef) = after_insn ef next_pc link r v"
  by (auto simp: leave_handled_def SET_EXC_PC_def SET_EXC_REG_def after_insn_def fun_eq_iff
      intro!: exframe.equality)

lemma next_pc_fault:
  assumes "un_mips64 cfg" and "un_long64 cfg" and "fault_at cfg ef m insn next_pc link"
  shows "calculate_next_pc cfg ef m (ef_pc ef) (ef_cause ef AND M_CAUSE_BD \<noteq> 0) = Some (next_pc, link)"
    and "COPYIN cfg (if ef_cause ef AND M_CAUSE_BD \<noteq> 0 then ef_pc ef + 4 else ef_pc ef) 4 m = Some (ucast insn)"
  using assms(2,3)
  by (auto simp: fault_at_def calculate_next_pc_def insn_at_def intptr_def branch_next_pc_isa [OF assms(1,2)])

lemma imm_offset_value: "imm_offset (itype opc rs rt off) = scast off"
proof -
  have "(ucast (ucast (ucast off :: u32) :: u64) :: u16) = off"
    by (rule word_bit_ext) (auto simp: bit_ucast_iff)
  then show ?thesis by (simp add: imm_offset_def itype_fields sext16_def)
qed

lemma load_handler_eq:
  assumes "un_mips64 cfg" and "un_long64 cfg" and "ef_pc ef AND 3 = 0"
    and "fault_at cfg ef m (itype opc rs rt off) next_pc link"
  shows "unaligned_load_handler cfg code ef m =
    (case load_value cfg m (ucast opc) (reg5 ef rs + scast off) of
       None \<Rightarrow> exhandler_panic code
     | Some v \<Rightarrow> Inr (after_insn ef next_pc link (unat rt) v, m))"
  using next_pc_fault [OF assms(1,2,4)] assms(2,3)
  by (cases "ef_cause ef AND M_CAUSE_BD = 0")
    (simp_all add: unaligned_load_handler_def Let_def intptr_def itype_regs itype_fields imm_offset_value
      leave_handled_eq split: option.split)

lemma store_handler_eq:
  assumes "un_mips64 cfg" and "un_long64 cfg"
    and "fault_at cfg ef m (itype opc rs rt off) next_pc link"
  shows "unaligned_store_handler cfg code ef m =
    (case store_value cfg m (ucast opc) (reg5 ef rs + scast off) (reg5 ef rt) of
       None \<Rightarrow> exhandler_panic code
     | Some m' \<Rightarrow> Inr (after_insn ef next_pc link 0 0, m'))"
  using next_pc_fault [OF assms(1-3)] assms(2) leave_handled_eq [of link next_pc 0 0 ef]
  by (cases "ef_cause ef AND M_CAUSE_BD = 0")
    (simp_all add: unaligned_store_handler_def Let_def intptr_def itype_regs itype_fields imm_offset_value
      SET_EXC_REG_def split: option.split)

section \<open>Properties\<close>

text \<open>
  A faulting \<open>lw $2, 1($3)\<close> or \<open>sw $2, 1($3)\<close> at 0x1000 in the delay slot of \<open>beq $0, $0, +4\<close>
  at 0xffc, with \<open>lw $4, 1($3)\<close> after it.
\<close>

definition demo_cfg :: un_config where "demo_cfg = exlib_port True True False"

definition demo_frame :: exframe where
  "demo_frame = \<lparr>ef_regs = (\<lambda>r. if r = 0 then 0xffc else if r = 3 then 0x2000 else of_nat r),
     ef_hi = 0, ef_lo = 0, ef_status = 0, ef_cause = 0x80000000, ef_fpsavemask = 0, ef_fcsr = 0,
     ef_fpregs = (\<lambda>_. 0), ef_mdmxacc = (\<lambda>_. 0)\<rparr>"

definition demo_next :: exframe where
  "demo_next = demo_frame\<lparr>ef_regs := (ef_regs demo_frame)(0 := 0x1004), ef_cause := 0\<rparr>"

definition demo_sw :: u32 where "demo_sw = itype 0x2b 3 2 1"

definition demo_mem :: "u32 \<Rightarrow> memory" where
  "demo_mem insn = (let b = le_bytes 4 (ucast (encode_branch (BEQ 0 0 4))) @ le_bytes 4 (ucast insn)
                            @ le_bytes 4 (ucast (itype 0x23 3 4 1))
     in (\<lambda>a. if unat (a - 0xffc) < 12 then b ! unat (a - 0xffc)
             else if a = 0x2001 then 0xfe else if a = 0x2002 then 0xff else if a = 0x2003 then 0xff
             else if a = 0x2004 then 0x80 else 0))"

lemma upt4: "[0..<4] = [0, 1, 2, 3 :: nat]" by (simp add: upt_rec)

lemma demo_insns:
  "insn_at demo_cfg (demo_mem insn) 0xffc (encode_branch (BEQ 0 0 4))"
  "insn_at demo_cfg (demo_mem insn) 0x1000 insn"
  "insn_at demo_cfg (demo_mem insn) 0x1004 (itype 0x23 3 4 1)"
proof -
  have l: "le_value (le_bytes 4 (ucast x)) = ucast x" for x :: u32
  proof -
    have "take_bit 32 (ucast x :: u64) = ucast x"
      by (rule word_bit_ext) (auto simp: bit_take_bit_iff bit_ucast_iff dest: bit_imp_le_length)
    then show ?thesis by (simp add: le_roundtrip)
  qed
  have b: "le_bytes 4 x = [ucast x, ucast (drop_bit 8 x), ucast (drop_bit 16 x), ucast (drop_bit 24 x)]" for x
    by (simp add: le_bytes_def upt4)
  show "insn_at demo_cfg (demo_mem insn) 0xffc (encode_branch (BEQ 0 0 4))"
    "insn_at demo_cfg (demo_mem insn) 0x1000 insn"
    "insn_at demo_cfg (demo_mem insn) 0x1004 (itype 0x23 3 4 1)"
    using l [of "encode_branch (BEQ 0 0 4)"] l [of insn] l [of "itype 0x23 3 4 1"]
    by (simp_all add: insn_at_def COPYIN_def demo_cfg_def exlib_port_def demo_mem_def b upt4 Let_def
        del: le_value.simps encode_branch.simps)
qed

lemma demo_fault: "fault_at demo_cfg demo_frame (demo_mem insn) insn 0x1010 False"
proof -
  have "isa_next_pc demo_frame (ef_pc demo_frame) (BEQ 0 0 4) = 0x1010"
    by (simp add: isa_next_pc_def rel_target_def demo_frame_def)
  then show ?thesis unfolding fault_at_def
    using demo_insns [of insn]
    by (intro disjI2 exI [of _ "BEQ 0 0 4"])
      (simp add: demo_frame_def M_CAUSE_BD_def mm_makemask1_def del: encode_branch.simps)
qed



text \<open>
  C9: On a 64-bit port an unaligned store writes the low 2, 4 or 8 bytes of its register at the
  effective address, which \<open>COPYIN\<close> reads back, and no other byte of memory; the registers are
  unchanged but the PC (and \<open>$31\<close> for a taken linking branch). Every other opcode is a panic.
\<close>

theorem unaligned_store_emulates:
  assumes "un_mips64 cfg" and "un_long64 cfg"
    and "fault_at cfg ef m (itype opc rs rt off) next_pc link"
    and "n = (if opc = 0x29 then 2 else if opc = 0x2b then 4 else 8)"
    and "un_writable cfg (reg5 ef rs + scast off) n" and "un_readable cfg (reg5 ef rs + scast off) n"
  shows "if opc \<in> {0x29, 0x2b, 0x3f}
    then \<exists>m'. unaligned_store_handler cfg code ef m =
           Inr (ef\<lparr>ef_regs := (\<lambda>k. if k = 0 then next_pc else if k = 31 \<and> link then ef_pc ef + 8
                              else ef_regs ef k)\<rparr>, m') \<and>
         COPYIN cfg (reg5 ef rs + scast off) n m' = Some (take_bit (8 * n) (reg5 ef rt)) \<and>
         (\<forall>a. \<not> in_block (reg5 ef rs + scast off) n a \<longrightarrow> m' a = m a)
    else unaligned_store_handler cfg code ef m = exhandler_panic code"
proof -
  let ?ea = "reg5 ef rs + scast off"
  have inj: "(ucast opc = (ucast c :: u32)) = (opc = c)" for c :: "6 word"
  proof -
    have "(ucast (ucast x :: u32) :: 6 word) = x" for x :: "6 word"
      by (rule word_bit_ext) (auto simp: bit_ucast_iff)
    then show ?thesis by metis
  qed
  have "store_value cfg m (ucast opc) ?ea (reg5 ef rt) =
      (if opc \<in> {0x29, 0x2b, 0x3f} then COPYOUT cfg ?ea n (reg5 ef rt) m else None)"
    using inj [of "0x29"] inj [of "0x2b"] inj [of "0x3f"] assms(1,4) by (simp add: store_value_def)
  moreover have "\<exists>m'. COPYOUT cfg ?ea n (reg5 ef rt) m = Some m'"
    using assms(5) by (simp add: COPYOUT_def Let_def)
  moreover have "n \<le> 8" using assms(4) by simp
  ultimately show ?thesis
    using COPYOUT_COPYIN [of cfg ?ea n "reg5 ef rt" m] COPYOUT_outside [of cfg ?ea n "reg5 ef rt" m] assms(6)
    by (auto simp: store_handler_eq [OF assms(1-3)] after_insn_def fun_eq_iff intro!: exframe.equality)
qed

lemma unaligned_store_emulates_witness:
  "\<exists>m' f. unaligned_store_handler demo_cfg 5 demo_frame (demo_mem demo_sw) = Inr (f, m') \<and>
     ef_pc f = 0x1010 \<and> COPYIN demo_cfg 0x2001 4 m' = Some 2 \<and> m' 0x2000 = 0"
proof -
  have c: "un_mips64 demo_cfg" "un_long64 demo_cfg"
    "un_writable demo_cfg (reg5 demo_frame 3 + scast (1 :: u16)) 4"
    "un_readable demo_cfg (reg5 demo_frame 3 + scast (1 :: u16)) 4"
    by (simp_all add: demo_cfg_def exlib_port_def)
  have f: "fault_at demo_cfg demo_frame (demo_mem demo_sw) (itype 0x2b 3 2 1) 0x1010 False"
    using demo_fault [of demo_sw] by (simp add: demo_sw_def)
  have r: "reg5 demo_frame 3 + scast (1 :: u16) = 0x2001" "reg5 demo_frame 2 = 2"
    by (simp_all add: reg5_def GET_EXC_REG_def demo_frame_def)
  have t: "take_bit 32 (2 :: u64) = 2" by (simp add: take_bit_eq_mask mask_eq_exp_minus_1)
  have o: "\<not> in_block 0x2001 4 0x2000" "demo_mem demo_sw 0x2000 = 0"
    by (simp_all add: in_block_def demo_mem_def Let_def unsigned_minus_1_eq_mask mask_eq_exp_minus_1)
  show ?thesis
    using unaligned_store_emulates [OF c(1,2) f, where n = 4 and code = 5, OF _ c(3,4)] unfolding r
    by (fastforce simp: t o)
qed

text \<open>
  C11: An unaligned store followed by an unaligned load of the same width at the same effective
  address gives the register its value back: its low 16 or 32 bits sign-extended for \<open>sh\<close>/\<open>lh\<close>
  and \<open>sw\<close>/\<open>lw\<close>, all 64 bits for \<open>sd\<close>/\<open>ld\<close>, in either byte order.
\<close>

theorem unaligned_store_load_roundtrip:
  assumes "un_mips64 cfg" and "un_long64 cfg" and "un_readable cfg ea n"
    and "(sop, lop, n, ext) \<in> {(0x29, 0x21, 2, sext16), (0x2b, 0x23, 4, sext32), (0x3f, 0x37, 8, id)}"
    and "fault_at cfg ef m (itype sop rs rt off) next1 link1" and "ea = reg5 ef rs + scast off"
    and "unaligned_store_handler cfg code ef m = Inr (ef', m')"
    and "fault_at cfg ef2 m' (itype lop rs2 rt2 off2) next2 link2" and "ea = reg5 ef2 rs2 + scast off2"
    and "ef_pc ef2 AND 3 = 0" and "rt2 \<noteq> 0" and "rt2 \<noteq> 31"
  shows "\<exists>ef3. unaligned_load_handler cfg code2 ef2 m' = Inr (ef3, m') \<and> reg5 ef3 rt2 = ext (reg5 ef rt)"
proof -
  have "COPYOUT cfg ea n (reg5 ef rt) m = Some m'"
    using assms(1,4,7) unfolding store_handler_eq [OF assms(1,2,5)] assms(6)
    by (auto simp: store_value_def exhandler_panic_def exlib_panic_def split: option.splits)
  moreover have "n \<le> 8" using assms(4) by auto
  ultimately have c: "COPYIN cfg ea n m' = Some (take_bit (8 * n) (reg5 ef rt))"
    using COPYOUT_COPYIN assms(3) by blast
  have u: "(ucast (take_bit 16 v) :: u16) = ucast v" "(ucast (take_bit 32 v) :: u32) = ucast v"
    "take_bit 64 v = v" for v :: u64
    by (auto intro!: word_bit_ext simp: bit_ucast_iff bit_take_bit_iff)
  have e: "sext16 (take_bit 16 v) = sext16 v" "sext32 (take_bit 32 v) = sext32 v" for v
    by (simp_all add: sext16_def sext32_def u)
  have "load_value cfg m' (ucast lop) ea = Some (ext (reg5 ef rt))"
    using assms(1,4) c e [of "reg5 ef rt"] u(3) [of "reg5 ef rt"] by (auto simp: load_value_def)
  moreover have "unat rt2 \<noteq> 0" "unat rt2 \<noteq> 31"
    using assms(11,12) by (auto simp: word_unat_eq_iff)
  ultimately show ?thesis
    unfolding load_handler_eq [OF assms(1,2,10,8)] assms(9) [symmetric]
    by (simp add: after_insn_def reg5_def GET_EXC_REG_def)
qed

lemma unaligned_store_load_roundtrip_witness:
  "\<exists>f m' g. unaligned_store_handler demo_cfg 5 demo_frame (demo_mem demo_sw) = Inr (f, m') \<and>
     unaligned_load_handler demo_cfg 4 demo_next m' = Inr (g, m') \<and> reg5 g 4 = 2"
proof -
  have c: "un_mips64 demo_cfg" "un_long64 demo_cfg" "un_readable demo_cfg 0x2001 4"
    by (simp_all add: demo_cfg_def exlib_port_def)
  have f: "fault_at demo_cfg demo_frame (demo_mem demo_sw) (itype 0x2b 3 2 1) 0x1010 False"
    using demo_fault [of demo_sw] by (simp add: demo_sw_def)
  have r: "reg5 demo_frame 3 + scast (1 :: u16) = 0x2001" "reg5 demo_frame 2 = 2"
    "reg5 demo_next 3 + scast (1 :: u16) = 0x2001" "ef_pc demo_next = 0x1004"
    by (simp_all add: reg5_def GET_EXC_REG_def demo_frame_def demo_next_def)
  have r3: "reg5 demo_frame 3 = 0x2000" "reg5 demo_next 3 = 0x2000"
    by (simp_all add: reg5_def GET_EXC_REG_def demo_frame_def demo_next_def)
  have store: "store_value demo_cfg (demo_mem demo_sw) 0x2b 0x2001 2 = COPYOUT demo_cfg 0x2001 4 2 (demo_mem demo_sw)"
    by (simp add: store_value_def)
  obtain m' where m': "COPYOUT demo_cfg 0x2001 4 2 (demo_mem demo_sw) = Some m'"
    by (simp add: COPYOUT_def demo_cfg_def exlib_port_def Let_def)
  then obtain g where g: "unaligned_store_handler demo_cfg 5 demo_frame (demo_mem demo_sw) = Inr (g, m')"
    using store_handler_eq [OF c(1,2) f, of 5] unfolding r by (simp add: store)
  have "\<not> in_block 0x2001 4 0x1004" "\<not> in_block 0x2001 4 0x1005" "\<not> in_block 0x2001 4 0x1006"
    "\<not> in_block 0x2001 4 0x1007"
    unfolding in_block_def unat_sub_if_size by (simp_all add: word_size)
  then have "m' 0x1004 = demo_mem demo_sw 0x1004" "m' 0x1005 = demo_mem demo_sw 0x1005"
    "m' 0x1006 = demo_mem demo_sw 0x1006" "m' 0x1007 = demo_mem demo_sw 0x1007"
    by (auto intro: COPYOUT_outside [OF m'])
  then have "COPYIN demo_cfg 0x1004 4 m' = COPYIN demo_cfg 0x1004 4 (demo_mem demo_sw)"
    by (simp add: COPYIN_def upt4)
  then have "insn_at demo_cfg m' (ef_pc demo_next) (itype 0x23 3 4 1)"
    using demo_insns(3) [of demo_sw] unfolding r by (simp add: insn_at_def)
  then have f2: "fault_at demo_cfg demo_next m' (itype 0x23 3 4 1) (ef_pc demo_next + 4) False"
    by (simp add: fault_at_def demo_next_def)
  have "\<exists>ef3. unaligned_load_handler demo_cfg 4 demo_next m' = Inr (ef3, m') \<and> reg5 ef3 4 = sext32 (reg5 demo_frame 2)"
    by (rule unaligned_store_load_roundtrip [OF c _ f _ g f2]) (simp_all add: r r3)
  moreover have "sext32 2 = 2" unfolding sext32_def by code_simp
  ultimately show ?thesis using g unfolding r by auto
qed



end
