(* ===== verification/Intr.thy ===== *)
theory Intr
  imports Exdispatch
begin

text \<open>
  The interrupt layer, \<open>libexception/libexception/intr.c\<close>: eight chains of \<open>struct ihand\<close> in
  client memory (the heap \<open>ihands\<close>, by address, with 0 for NULL), the handler that walks them,
  and the operations on Status and Cause. The pointer-to-pointer walks of the C code are
  \<open>partial_function\<close>s over locations, so that a walk over a cyclic chain is None. What the
  client's interrupt functions do is the argument \<open>ifn\<close>.
\<close>

unbundle bit_operations_syntax

section \<open>State\<close>

record ihand =
  ih_next :: u64
  ih_func :: nat
  ih_arg :: u64
  ih_fpsavemask :: u32

record istate = xstate +
  intr_initted :: bool
  orig_handler :: exhandler
  orig_fpsavemask :: u32
  handler_chains :: "nat \<Rightarrow> u64"
  intr_fpsavemask :: u32
  orig_ie_bits :: u32
  ihands :: "u64 \<Rightarrow> ihand"

text \<open>A place that holds a \<open>struct ihand *\<close>: a slot of \<open>handler_chains\<close> or an \<open>ih_next\<close> field.\<close>

datatype ihp = Chain nat | Next u64

fun deref :: "'a istate_scheme \<Rightarrow> ihp \<Rightarrow> u64" where
  "deref s (Chain i) = handler_chains s i"
| "deref s (Next a) = ih_next (ihands s a)"

fun assign :: "ihp \<Rightarrow> u64 \<Rightarrow> 'a istate_scheme \<Rightarrow> 'a istate_scheme" where
  "assign (Chain i) v s = s\<lparr>handler_chains := (handler_chains s)(i := v)\<rparr>"
| "assign (Next a) v s = s\<lparr>ihands := (ihands s)(a := (ihands s a)\<lparr>ih_next := v\<rparr>)\<rparr>"

section \<open>Status and Cause bits\<close>

definition mod_cause_bits :: "bool \<Rightarrow> u32 \<Rightarrow> 'a machine_scheme \<Rightarrow> u32 \<times> 'a machine_scheme" where
  "mod_cause_bits on bits s =
     (let old = c0_cause s AND bits;
          cause = (if on then c0_cause s OR bits else c0_cause s AND NOT bits)
      in (old, mtc0_cause cause s))"

definition mod_status_bits ::
  "exframe option \<Rightarrow> bool \<Rightarrow> u32 \<Rightarrow> 'a machine_scheme \<Rightarrow> u32 \<times> exframe option \<times> 'a machine_scheme" where
  "mod_status_bits ef on bits s =
     (case ef of
        Some f \<Rightarrow>
          (ef_status f AND bits,
           Some (f\<lparr>ef_status := (if on then ef_status f OR bits else ef_status f AND NOT bits)\<rparr>), s)
      | None \<Rightarrow>
          (let old = c0_status s AND bits;
               status = (if on then c0_status s OR bits else c0_status s AND NOT bits)
           in (old, None, mtc0_status status s)))"

type_synonym 'a bits_result = "u32 \<times> exframe option \<times> 'a machine_scheme"

definition intr_set_ie :: "exframe option \<Rightarrow> 'a machine_scheme \<Rightarrow> 'a bits_result" where
  "intr_set_ie ef s = (let (old, r) = mod_status_bits ef True M_SR_IE s in (c_bool (old \<noteq> 0), r))"

definition intr_clear_ie :: "exframe option \<Rightarrow> 'a machine_scheme \<Rightarrow> 'a bits_result" where
  "intr_clear_ie ef s = (let (old, r) = mod_status_bits ef False M_SR_IE s in (c_bool (old \<noteq> 0), r))"

definition intr_enable_int :: "exframe option \<Rightarrow> u32 \<Rightarrow> 'a machine_scheme \<Rightarrow> 'a bits_result" where
  "intr_enable_int ef i s =
     (if 8 \<le> i then (0, ef, s)
      else let (old, r) = mod_status_bits ef True (push_bit (unat i + S_SR_IMASK) 1) s
           in (c_bool (old \<noteq> 0), r))"

definition intr_disable_int :: "exframe option \<Rightarrow> u32 \<Rightarrow> 'a machine_scheme \<Rightarrow> 'a bits_result" where
  "intr_disable_int ef i s =
     (if 8 \<le> i then (0, ef, s)
      else let (old, r) = mod_status_bits ef False (push_bit (unat i + S_SR_IMASK) 1) s
           in (c_bool (old \<noteq> 0), r))"

definition intr_set_softint :: "u32 \<Rightarrow> 'a machine_scheme \<Rightarrow> u32 \<times> 'a machine_scheme" where
  "intr_set_softint i s =
     (if 2 \<le> i then (0, s)
      else let (old, s') = mod_cause_bits True (push_bit (unat i + S_CAUSE_IPMASK) 1) s
           in (c_bool (old \<noteq> 0), s'))"

definition intr_clear_softint :: "u32 \<Rightarrow> 'a machine_scheme \<Rightarrow> u32 \<times> 'a machine_scheme" where
  "intr_clear_softint i s =
     (if 2 \<le> i then (0, s)
      else let (old, s') = mod_cause_bits False (push_bit (unat i + S_CAUSE_IPMASK) 1) s
           in (c_bool (old \<noteq> 0), s'))"

text \<open>\<open>mod_status_bits (NULL, \<dots>)\<close>, as the layer's own code calls it.\<close>

definition status_bits :: "bool \<Rightarrow> u32 \<Rightarrow> 'a machine_scheme \<Rightarrow> u32 \<times> 'a machine_scheme" where
  "status_bits on bits s = (let (old, _, s') = mod_status_bits None on bits s in (old, s'))"

section \<open>Initialisation and shutdown\<close>

definition intr_init :: "build_config \<Rightarrow> vec_images \<Rightarrow> 'a istate_scheme \<Rightarrow> 'a istate_scheme res" where
  "intr_init b v s =
     (if intr_initted s then Inr s
      else
        bind_res (exlib_init b v (s\<lparr>intr_initted := True\<rparr>)) (\<lambda>s1.
          let s2 = s1\<lparr>orig_handler := exlib_get_handler K_CAUSE_EXC_INT s1,
                      orig_fpsavemask := exlib_get_fpsavemask K_CAUSE_EXC_INT s1\<rparr>;
              (old, s3) = status_bits False (M_SR_IE OR M_SR_IMASK) s2;
              s4 = s3\<lparr>orig_ie_bits := old\<rparr>;
              s5 = snd (exlib_set_handler K_CAUSE_EXC_INT ExhandlerIntr s4)
          in Inr (snd (exlib_set_fpsavemask K_CAUSE_EXC_INT (intr_fpsavemask s5) s5))))"

definition intr_shutdown :: "'a istate_scheme \<Rightarrow> 'a istate_scheme" where
  "intr_shutdown s =
     (if \<not> intr_initted s then s
      else
        let s1 = s\<lparr>intr_initted := False\<rparr>;
            s2 = snd (exlib_set_handler K_CAUSE_EXC_INT (orig_handler s1) s1);
            s3 = snd (exlib_set_fpsavemask K_CAUSE_EXC_INT (orig_fpsavemask s2) s2);
            s4 = snd (status_bits False (M_SR_IE OR M_SR_IMASK) s3)
        in snd (status_bits True (orig_ie_bits s4) s4))"

section \<open>The chains\<close>

partial_function (option) add_walk :: "'a istate_scheme \<Rightarrow> ihp \<Rightarrow> ihp option" where
  "add_walk s p = (if deref s p = 0 then Some p else add_walk s (Next (deref s p)))"

partial_function (option) remove_walk :: "'a istate_scheme \<Rightarrow> u64 \<Rightarrow> ihp \<Rightarrow> ihp option" where
  "remove_walk s ih p =
     (if deref s p \<noteq> ih \<and> deref s p \<noteq> 0 then remove_walk s ih (Next (deref s p)) else Some p)"

partial_function (option) chain_mask :: "'a istate_scheme \<Rightarrow> u64 \<Rightarrow> u32 \<Rightarrow> u32 option" where
  "chain_mask s ih m =
     (if ih = 0 then Some m
      else chain_mask s (ih_next (ihands s ih)) (m OR ih_fpsavemask (ihands s ih)))"

fun recalc_mask :: "'a istate_scheme \<Rightarrow> nat list \<Rightarrow> u32 \<Rightarrow> u32 option" where
  "recalc_mask s [] m = Some m"
| "recalc_mask s (i # is) m =
     (case chain_mask s (handler_chains s i) m of None \<Rightarrow> None | Some m' \<Rightarrow> recalc_mask s is m')"

definition intr_handler_add :: "nat \<Rightarrow> u64 \<Rightarrow> 'a istate_scheme \<Rightarrow> 'a istate_scheme res" where
  "intr_handler_add intr ih s =
     (if 8 \<le> intr then Inl OutOfBounds
      else
        let (old_ie, s1) = status_bits False M_SR_IE s
        in case add_walk s1 (Chain intr) of
             None \<Rightarrow> Inl Hung
           | Some p \<Rightarrow>
               (let s2 = assign p ih (assign (Next ih) 0 s1);
                    m = ih_fpsavemask (ihands s2 ih);
                    s3 = (if m AND intr_fpsavemask s2 \<noteq> m
                          then let s' = s2\<lparr>intr_fpsavemask := intr_fpsavemask s2 OR m\<rparr>
                               in snd (exlib_set_fpsavemask K_CAUSE_EXC_INT (intr_fpsavemask s') s')
                          else s2)
                in Inr (snd (status_bits True old_ie s3))))"

definition intr_handler_remove :: "nat \<Rightarrow> u64 \<Rightarrow> 'a istate_scheme \<Rightarrow> 'a istate_scheme res" where
  "intr_handler_remove intr ih s =
     (if 8 \<le> intr then Inl OutOfBounds
      else
        let (old_ie, s1) = status_bits False M_SR_IE s
        in case remove_walk s1 ih (Chain intr) of
             None \<Rightarrow> Inl Hung
           | Some p \<Rightarrow>
               if deref s1 p = 0 then Inr (snd (status_bits True old_ie s1))
               else
                 let s2 = assign p (ih_next (ihands s1 ih)) s1;
                     s3 = assign (Next ih) 0 s2
                 in if ih_fpsavemask (ihands s3 ih) \<noteq> EXFPSAVEMASK_NONE
                    then case recalc_mask s3 [0..<8] EXFPSAVEMASK_NONE of
                           None \<Rightarrow> Inl Hung
                         | Some m \<Rightarrow>
                             (let s4 = s3\<lparr>intr_fpsavemask := m\<rparr>;
                                  s5 = snd (exlib_set_fpsavemask K_CAUSE_EXC_INT (intr_fpsavemask s4) s4)
                              in Inr (snd (status_bits True old_ie s5)))
                    else Inr (snd (status_bits True old_ie s3)))"

section \<open>Dispatch\<close>

type_synonym 'a intr_sem =
  "nat \<Rightarrow> u64 \<Rightarrow> exframe \<Rightarrow> 'a istate_scheme \<Rightarrow> (u32 \<times> exframe \<times> 'a istate_scheme) res"

partial_function (option) intr_chain_loop ::
  "'a intr_sem \<Rightarrow> u64 \<Rightarrow> u32 \<Rightarrow> exframe \<Rightarrow> 'a istate_scheme \<Rightarrow> (u32 \<times> exframe \<times> 'a istate_scheme) res option" where
  "intr_chain_loop ifn ih handled ef s =
     (if ih = 0 then Some (Inr (handled, ef, s))
      else
        let next_ih = ih_next (ihands s ih)
        in case ifn (ih_func (ihands s ih)) (ih_arg (ihands s ih)) ef s of
             Inl e \<Rightarrow> Some (Inl e)
           | Inr r \<Rightarrow> intr_chain_loop ifn next_ih (handled OR fst r) (fst (snd r)) (snd (snd r)))"

definition run_intr_chain ::
  "'a intr_sem \<Rightarrow> nat \<Rightarrow> exframe \<Rightarrow> 'a istate_scheme \<Rightarrow> (exframe \<times> 'a istate_scheme) res" where
  "run_intr_chain ifn i ef s =
     (case intr_chain_loop ifn (handler_chains s i) 0 ef s of
        None \<Rightarrow> Inl Hung
      | Some r \<Rightarrow> bind_res r (\<lambda>(handled, ef', s').
          if handled = 0 then exlib_panic ''unhandled interrupt'' (of_nat i) else Inr (ef', s')))"

fun run_intr_lines ::
  "'a intr_sem \<Rightarrow> u32 \<Rightarrow> nat list \<Rightarrow> exframe \<Rightarrow> 'a istate_scheme \<Rightarrow> (exframe \<times> 'a istate_scheme) res" where
  "run_intr_lines ifn todo [] ef s = Inr (ef, s)"
| "run_intr_lines ifn todo (i # is) ef s =
     (if todo AND push_bit i 1 \<noteq> 0
      then bind_res (run_intr_chain ifn i ef s) (\<lambda>(ef', s'). run_intr_lines ifn todo is ef' s')
      else run_intr_lines ifn todo is ef s)"

definition intrs_to_process :: "exframe \<Rightarrow> u32" where
  "intrs_to_process ef =
     (let cause_ready = drop_bit S_CAUSE_IPMASK (ef_cause ef AND M_CAUSE_IPMASK);
          status_enabled = drop_bit S_SR_IMASK (ef_status ef AND M_SR_IMASK)
      in cause_ready AND status_enabled)"

definition exhandler_intr ::
  "'a intr_sem \<Rightarrow> u32 \<Rightarrow> exframe \<Rightarrow> 'a istate_scheme \<Rightarrow> (exframe \<times> 'a istate_scheme) res" where
  "exhandler_intr ifn excode ef s = run_intr_lines ifn (intrs_to_process ef) (rev [0..<8]) ef s"

section \<open>Chains as lists\<close>

text \<open>\<open>seg h p xs q\<close>: following \<open>ih_next\<close> from \<open>p\<close> visits \<open>xs\<close> and arrives at \<open>q\<close>.\<close>

fun seg :: "(u64 \<Rightarrow> ihand) \<Rightarrow> u64 \<Rightarrow> u64 list \<Rightarrow> u64 \<Rightarrow> bool" where
  "seg h p [] q = (p = q)"
| "seg h p (x # xs) q = (p = x \<and> x \<noteq> 0 \<and> seg h (ih_next (h x)) xs q)"

definition loc_after :: "ihp \<Rightarrow> u64 list \<Rightarrow> ihp" where
  "loc_after p xs = (if xs = [] then p else Next (last xs))"

lemma seg_append: "seg h p (xs @ ys) q \<longleftrightarrow> (\<exists>r. seg h p xs r \<and> seg h r ys q)"
  by (induction xs arbitrary: p) auto

lemma seg_cong: "(\<And>a. a \<in> set xs \<Longrightarrow> ih_next (h a) = ih_next (g a)) \<Longrightarrow> seg h p xs q = seg g p xs q"
  by (induction xs arbitrary: p) auto

lemma seg_nonzero: "seg h p xs q \<Longrightarrow> 0 \<notin> set xs"
  by (induction xs arbitrary: p) auto

lemma loc_after_Cons: "loc_after p (x # xs) = loc_after (Next x) xs"
  by (simp add: loc_after_def)

lemma deref_loc_after: "seg (ihands s) (deref s p) xs q \<Longrightarrow> deref s (loc_after p xs) = q"
  by (induction xs arbitrary: p) (auto simp: loc_after_Cons, auto simp: loc_after_def)

lemma add_walk_end: "seg (ihands s) (deref s p) xs 0 \<Longrightarrow> add_walk s p = Some (loc_after p xs)"
proof (induction xs arbitrary: p)
  case Nil
  then show ?case by (subst add_walk.simps) (simp add: loc_after_def)
next
  case (Cons x xs)
  then show ?case by (subst add_walk.simps) (simp add: loc_after_Cons)
qed

lemma remove_walk_stops:
  "seg (ihands s) (deref s p) xs q \<Longrightarrow> ih \<notin> set xs \<Longrightarrow> q = ih \<or> q = 0 \<Longrightarrow>
   remove_walk s ih p = Some (loc_after p xs)"
proof (induction xs arbitrary: p)
  case Nil
  then show ?case by (subst remove_walk.simps) (auto simp: loc_after_def)
next
  case (Cons x xs)
  then show ?case by (subst remove_walk.simps) (auto simp: loc_after_Cons)
qed

lemma chain_mask_bits:
  "seg (ihands s) p xs 0 \<Longrightarrow> \<exists>m'. chain_mask s p m = Some m' \<and>
     (\<forall>n. bit m' n \<longleftrightarrow> bit m n \<or> (\<exists>a\<in>set xs. bit (ih_fpsavemask (ihands s a)) n))"
proof (induction xs arbitrary: p m)
  case Nil
  then show ?case by (subst chain_mask.simps) simp
next
  case (Cons x xs)
  then have "seg (ihands s) (ih_next (ihands s x)) xs 0" by simp
  from Cons.IH [OF this, of "m OR ih_fpsavemask (ihands s x)"] Cons.prems show ?case
    by (subst chain_mask.simps) (auto simp: bitwise)
qed

lemma recalc_mask_bits:
  "\<forall>i\<in>set is. seg (ihands s) (handler_chains s i) (cs i) 0 \<Longrightarrow> \<exists>m'. recalc_mask s is m = Some m' \<and>
     (\<forall>n. bit m' n \<longleftrightarrow> bit m n \<or> (\<exists>i\<in>set is. \<exists>a\<in>set (cs i). bit (ih_fpsavemask (ihands s a)) n))"
proof (induction "is" arbitrary: m)
  case Nil
  then show ?case by simp
next
  case (Cons i "is")
  then have "seg (ihands s) (handler_chains s i) (cs i) 0" by simp
  then obtain m1 where m1: "chain_mask s (handler_chains s i) m = Some m1"
    "\<forall>n. bit m1 n \<longleftrightarrow> bit m n \<or> (\<exists>a\<in>set (cs i). bit (ih_fpsavemask (ihands s a)) n)"
    using chain_mask_bits by blast
  from Cons.IH [of m1] Cons.prems m1 show ?case by auto
qed

lemma assign_data [simp]:
  "ih_fpsavemask (ihands (assign p v s) a) = ih_fpsavemask (ihands s a)"
  "ih_func (ihands (assign p v s) a) = ih_func (ihands s a)"
  "ih_arg (ihands (assign p v s) a) = ih_arg (ihands s a)"
  "c0_status (assign p v s) = c0_status s"
  "handlers (assign p v s) = handlers s"
  "intr_fpsavemask (assign p v s) = intr_fpsavemask s"
  "intr_initted (assign p v s) = intr_initted s"
  "exlib_fpu (assign p v s) = exlib_fpu s"
  "exlib_mdmx (assign p v s) = exlib_mdmx s"
  by (cases p; simp)+

text \<open>Storing at the end of a segment redirects it, and nothing that shares no node with it.\<close>

lemma seg_assign_next_other:
  "a \<notin> set xs \<Longrightarrow> seg (ihands (assign (Next a) v s)) p xs q = seg (ihands s) p xs q"
  by (rule seg_cong) auto

lemma seg_assign_end:
  assumes "seg (ihands s) (handler_chains s i) xs q" and "distinct xs"
    and "s' = assign (loc_after (Chain i) xs) v s"
  shows "seg (ihands s') (handler_chains s' i) xs v"
proof (cases xs rule: rev_cases)
  case Nil
  then show ?thesis using assms by (simp add: loc_after_def)
next
  case (snoc ys y)
  then have "seg (ihands s) (handler_chains s i) ys y" "y \<noteq> 0" "y \<notin> set ys"
    using assms(1,2) by (auto simp: seg_append)
  then show ?thesis using snoc seg_assign_next_other [of y ys v s] assms(3)
    by (auto simp: loc_after_def seg_append)
qed

lemma seg_assign_end_other:
  assumes "set zs \<inter> set xs = {}"
  shows "seg (ihands (assign (loc_after (Chain i) xs) v s)) p zs q = seg (ihands s) p zs q"
proof (cases "xs = []")
  case True
  then show ?thesis by (simp add: loc_after_def)
next
  case False
  with assms have "last xs \<notin> set zs" using last_in_set by blast
  with False show ?thesis by (simp add: loc_after_def seg_assign_next_other del: assign.simps)
qed

lemma chains_assign_end_other:
  "j \<noteq> i \<Longrightarrow> handler_chains (assign (loc_after (Chain i) xs) v s) j = handler_chains s j"
  by (cases "xs = []") (auto simp: loc_after_def)

lemma chains_assign_next [simp]: "handler_chains (assign (Next a) v s) = handler_chains s"
  by simp

section \<open>The invariant\<close>

definition chains_wf :: "(nat \<Rightarrow> u64 list) \<Rightarrow> 'a istate_scheme \<Rightarrow> bool" where
  "chains_wf cs s =
     ((\<forall>i<8. seg (ihands s) (handler_chains s i) (cs i) 0 \<and> distinct (cs i)) \<and>
      (\<forall>i<8. \<forall>j<8. i \<noteq> j \<longrightarrow> set (cs i) \<inter> set (cs j) = {}))"

definition mask_is_union :: "(nat \<Rightarrow> u64 list) \<Rightarrow> 'a istate_scheme \<Rightarrow> bool" where
  "mask_is_union cs s =
     (\<forall>n<32. bit (intr_fpsavemask s) n =
        (\<exists>i<8. \<exists>a\<in>set (cs i). bit (ih_fpsavemask (ihands s a)) n))"

definition intr_live :: "'a istate_scheme \<Rightarrow> bool" where
  "intr_live s =
     (exlib_get_handler K_CAUSE_EXC_INT s = ExhandlerIntr \<and>
      exlib_get_fpsavemask K_CAUSE_EXC_INT s = avail_mask s (intr_fpsavemask s))"

definition intr_inv :: "(nat \<Rightarrow> u64 list) \<Rightarrow> 'a istate_scheme \<Rightarrow> bool" where
  "intr_inv cs s = (chains_wf cs s \<and> mask_is_union cs s \<and> (intr_initted s \<longrightarrow> intr_live s))"

lemma status_bits_eq:
  "status_bits on b s = (c0_status s AND b,
     mtc0_status (if on then c0_status s OR b else c0_status s AND NOT b) s)"
  by (simp add: status_bits_def mod_status_bits_def)

lemma avail_mask_cong: "exlib_fpu s = exlib_fpu t \<Longrightarrow> exlib_mdmx s = exlib_mdmx t \<Longrightarrow> avail_mask s = avail_mask t"
  by (simp add: avail_mask_def fun_eq_iff)

text \<open>The parts of the state the invariant reads.\<close>

lemma chains_wf_cong:
  "ihands s = ihands t \<Longrightarrow> handler_chains s = handler_chains t \<Longrightarrow> chains_wf cs s = chains_wf cs t"
  by (simp add: chains_wf_def)

lemma chains_wf_add:
  assumes "chains_wf cs s" and "i < 8" and "ih \<noteq> 0" and "\<forall>j<8. ih \<notin> set (cs j)"
  shows "chains_wf (cs(i := cs i @ [ih])) (assign (loc_after (Chain i) (cs i)) ih (assign (Next ih) 0 s))"
    (is "chains_wf ?cs ?s2")
proof -
  let ?s1 = "assign (Next ih) 0 s"
  have s1: "seg (ihands ?s1) (handler_chains ?s1 j) (cs j) 0" if "j < 8" for j
    using assms(1,4) that by (simp add: seg_assign_next_other chains_wf_def del: assign.simps)
  have d: "distinct (cs i)" using assms(1,2) by (simp add: chains_wf_def)
  have "seg (ihands ?s2) (handler_chains ?s2 i) (cs i) ih"
    using seg_assign_end [OF s1 [OF assms(2)] d refl] .
  moreover have "seg (ihands ?s2) ih [ih] 0"
    using assms(2-4) by (subst seg_assign_end_other) auto
  ultimately have i: "seg (ihands ?s2) (handler_chains ?s2 i) (cs i @ [ih]) 0"
    unfolding seg_append by blast
  have "seg (ihands ?s2) (handler_chains ?s2 j) (cs j) 0" if "j < 8" "j \<noteq> i" for j
  proof -
    have "set (cs j) \<inter> set (cs i) = {}" using assms(1,2) that by (simp add: chains_wf_def)
    then show ?thesis
      using s1 [OF that(1)] that(2)
      by (simp add: chains_assign_end_other seg_assign_end_other del: assign.simps)
  qed
  with i assms show ?thesis by (auto simp: chains_wf_def)
qed

lemma chains_wf_remove:
  assumes "chains_wf cs s" and "i < 8" and "cs i = ys @ ih # zs"
  shows "chains_wf (cs(i := ys @ zs))
    (assign (Next ih) 0 (assign (loc_after (Chain i) ys) (ih_next (ihands s ih)) s))"
    (is "chains_wf ?cs (assign _ _ ?s2)")
proof -
  have d: "distinct (ys @ ih # zs)" and seg: "seg (ihands s) (handler_chains s i) (ys @ ih # zs) 0"
    using assms(1,2) unfolding assms(3) [symmetric] by (simp_all add: chains_wf_def)
  from seg have y: "seg (ihands s) (handler_chains s i) ys ih" and z: "seg (ihands s) (ih_next (ihands s ih)) zs 0"
    by (auto simp: seg_append)
  have "seg (ihands ?s2) (handler_chains ?s2 i) ys (ih_next (ihands s ih))"
    using seg_assign_end [OF y _ refl] d by simp
  moreover have "seg (ihands ?s2) (ih_next (ihands s ih)) zs 0"
    using z d by (subst seg_assign_end_other) auto
  ultimately have i: "seg (ihands ?s2) (handler_chains ?s2 i) (ys @ zs) 0"
    unfolding seg_append by blast
  have j: "seg (ihands ?s2) (handler_chains ?s2 j) (cs j) 0 \<and> ih \<notin> set (cs j)" if "j < 8" "j \<noteq> i" for j
  proof -
    have dj: "set (cs j) \<inter> set (cs i) = {}" using assms(1,2) that by (simp add: chains_wf_def)
    then have "set (cs j) \<inter> set ys = {}" using assms(3) by auto
    moreover have "seg (ihands s) (handler_chains s j) (cs j) 0" using assms(1) that by (simp add: chains_wf_def)
    ultimately show ?thesis using dj assms(3) that(2)
      by (simp add: chains_assign_end_other seg_assign_end_other del: assign.simps)
  qed
  have "seg (ihands (assign (Next ih) 0 ?s2)) (handler_chains ?s2 k) (?cs k) 0" if "k < 8" for k
    using that i j d by (subst seg_assign_next_other) (auto simp del: assign.simps)
  moreover have "distinct (?cs k)" if "k < 8" for k
    using that d assms(1) by (auto simp: chains_wf_def)
  moreover have "set (?cs k) \<inter> set (?cs l) = {}" if "k < 8" "l < 8" "k \<noteq> l" for k l
  proof -
    have "set (?cs k) \<subseteq> set (cs k)" "set (?cs l) \<subseteq> set (cs l)" using assms(3) by auto
    moreover have "set (cs k) \<inter> set (cs l) = {}" using that assms(1) by (simp add: chains_wf_def)
    ultimately show ?thesis by blast
  qed
  ultimately show ?thesis unfolding chains_wf_def chains_assign_next by blast
qed

text \<open>What one \<open>status_bits\<close> pair around an update leaves.\<close>

lemma status_bits_pair:
  "(x AND NOT m) OR (x AND m) = x" for x m :: u32
  by (rule and_not_or_self)

lemma intr_live_update:
  "exlib_get_handler K_CAUSE_EXC_INT s = ExhandlerIntr \<Longrightarrow>
   intr_live (snd (exlib_set_fpsavemask K_CAUSE_EXC_INT (intr_fpsavemask s) s))"
proof -
  have "(K_CAUSE_EXC_INT :: u32) < 32" by (simp add: K_CAUSE_EXC_INT_def)
  moreover have "intr_fpsavemask (snd (exlib_set_fpsavemask c m s)) = intr_fpsavemask s" for c m
    by (simp add: exlib_set_fpsavemask_eq)
  ultimately show "exlib_get_handler K_CAUSE_EXC_INT s = ExhandlerIntr \<Longrightarrow> ?thesis"
    by (simp add: intr_live_def xt.get_set_mask xt.handler_set_mask xt.avail_set_mask)
qed

lemma intr_live_cong:
  "handlers s = handlers t \<Longrightarrow> intr_fpsavemask s = intr_fpsavemask t \<Longrightarrow> exlib_fpu s = exlib_fpu t \<Longrightarrow>
   exlib_mdmx s = exlib_mdmx t \<Longrightarrow> intr_live s = intr_live t"
  by (simp add: intr_live_def exlib_get_handler_def exlib_get_fpsavemask_def avail_mask_cong [of s t])

lemma set_fpsavemask_frame [simp]:
  "ihands (snd (exlib_set_fpsavemask c m s)) = ihands s"
  "handler_chains (snd (exlib_set_fpsavemask c m s)) = handler_chains s"
  "intr_fpsavemask (snd (exlib_set_fpsavemask c m s)) = intr_fpsavemask s"
  "intr_initted (snd (exlib_set_fpsavemask c m s)) = intr_initted s"
  "c0_status (snd (exlib_set_fpsavemask c m s)) = c0_status s"
  "orig_handler (snd (exlib_set_fpsavemask c m s)) = orig_handler s"
  "orig_fpsavemask (snd (exlib_set_fpsavemask c m s)) = orig_fpsavemask s"
  "orig_ie_bits (snd (exlib_set_fpsavemask c m s)) = orig_ie_bits s"
  "exlib_fpu (snd (exlib_set_fpsavemask c m s)) = exlib_fpu s"
  "exlib_mdmx (snd (exlib_set_fpsavemask c m s)) = exlib_mdmx s"
  by (simp_all add: exlib_set_fpsavemask_eq)

lemma mtc0_status_frame [simp]:
  "ihands (mtc0_status v s) = ihands s"
  "handler_chains (mtc0_status v s) = handler_chains s"
  "intr_fpsavemask (mtc0_status v s) = intr_fpsavemask s"
  "intr_initted (mtc0_status v s) = intr_initted s"
  "c0_status (mtc0_status v s) = v"
  "handlers (mtc0_status v s) = handlers s"
  "orig_handler (mtc0_status v s) = orig_handler s"
  "orig_fpsavemask (mtc0_status v s) = orig_fpsavemask s"
  "orig_ie_bits (mtc0_status v s) = orig_ie_bits s"
  "exlib_fpu (mtc0_status v s) = exlib_fpu s"
  "exlib_mdmx (mtc0_status v s) = exlib_mdmx s"
  by (simp_all add: mtc0_status_def)

lemma mask_bits_subset: "m AND x = m \<Longrightarrow> bit m n \<Longrightarrow> bit x n" for m x :: "'a::len word"
  by (metis bit_and_iff)

lemma mask_is_union_add:
  assumes "mask_is_union cs s" and "i < 8"
    and "\<And>a. ih_fpsavemask (ihands t a) = ih_fpsavemask (ihands s a)"
    and "\<And>n. bit (intr_fpsavemask t) n = (bit (intr_fpsavemask s) n \<or> bit (ih_fpsavemask (ihands s ih)) n)"
  shows "mask_is_union (cs(i := cs i @ [ih])) t"
  unfolding mask_is_union_def
proof (intro allI impI)
  fix n :: nat assume "n < 32"
  then have "bit (intr_fpsavemask s) n = (\<exists>i<8. \<exists>a\<in>set (cs i). bit (ih_fpsavemask (ihands s a)) n)"
    using assms(1) by (simp add: mask_is_union_def)
  then show "bit (intr_fpsavemask t) n =
      (\<exists>j<8. \<exists>a\<in>set ((cs(i := cs i @ [ih])) j). bit (ih_fpsavemask (ihands t a)) n)"
    unfolding assms(3,4) using assms(2) by (auto split: if_splits)
qed

lemma intr_handler_add_correct:
  assumes inv: "intr_inv cs s" and i: "i < 8" and ih: "ih \<noteq> 0" "\<forall>j<8. ih \<notin> set (cs j)"
  shows "\<exists>s'. intr_handler_add i ih s = Inr s' \<and> intr_inv (cs(i := cs i @ [ih])) s' \<and>
              c0_status s' = c0_status s"
proof -
  let ?s1 = "mtc0_status (c0_status s AND NOT M_SR_IE) s"
  let ?s2 = "assign (loc_after (Chain i) (cs i)) ih (assign (Next ih) 0 ?s1)"
  let ?m = "ih_fpsavemask (ihands s ih)"
  let ?u = "?s2\<lparr>intr_fpsavemask := intr_fpsavemask s OR ?m\<rparr>"
  let ?s3 = "if ?m AND intr_fpsavemask s \<noteq> ?m
             then snd (exlib_set_fpsavemask K_CAUSE_EXC_INT (intr_fpsavemask ?u) ?u) else ?s2"
  let ?s4 = "mtc0_status (c0_status ?s3 OR (c0_status s AND M_SR_IE)) ?s3"
  let ?cs = "cs(i := cs i @ [ih])"
  have wf1: "chains_wf cs ?s1" using inv by (subst chains_wf_cong [of _ s]) (simp_all add: intr_inv_def)
  then have "seg (ihands ?s1) (deref ?s1 (Chain i)) (cs i) 0" using i by (simp add: chains_wf_def)
  then have walk: "add_walk ?s1 (Chain i) = Some (loc_after (Chain i) (cs i))" by (rule add_walk_end)
  have eq: "intr_handler_add i ih s = Inr ?s4"
    using i by (simp add: intr_handler_add_def status_bits_eq walk Let_def del: assign.simps)
  have "chains_wf ?cs ?s4"
    using chains_wf_add [OF wf1 i ih] by (simp add: chains_wf_def del: assign.simps)
  moreover have "mask_is_union ?cs ?s4"
  proof (rule mask_is_union_add)
    show "mask_is_union cs s" using inv by (simp add: intr_inv_def)
    show "bit (intr_fpsavemask ?s4) n = (bit (intr_fpsavemask s) n \<or> bit ?m n)" for n
      using mask_bits_subset [of ?m "intr_fpsavemask s" n] by (auto simp: bitwise simp del: assign.simps)
  qed (use i in \<open>simp_all del: assign.simps\<close>)
  moreover have "intr_initted ?s4 \<longrightarrow> intr_live ?s4"
  proof
    assume "intr_initted ?s4"
    then have live: "intr_live s" using inv by (simp add: intr_inv_def del: assign.simps split: if_splits)
    then have "intr_live ?s3"
      using intr_live_cong [of ?s2 s] intr_live_update [of ?u]
      by (auto simp: intr_live_def exlib_get_handler_def simp del: assign.simps)
    then show "intr_live ?s4" using intr_live_cong [of ?s4 ?s3] by (simp del: assign.simps)
  qed
  moreover have "c0_status ?s4 = c0_status s" by (simp add: status_bits_pair del: assign.simps)
  ultimately show ?thesis using eq unfolding intr_inv_def by blast
qed

lemma mask_is_union_sub:
  assumes "mask_is_union cs s" and "\<And>a. ih_fpsavemask (ihands t a) = ih_fpsavemask (ihands s a)"
    and "intr_fpsavemask t = intr_fpsavemask s" and "cs i = ys @ ih # zs"
    and "ih_fpsavemask (ihands s ih) = 0"
  shows "mask_is_union (cs(i := ys @ zs)) t"
proof -
  have "(\<exists>a\<in>set ((cs(i := ys @ zs)) j). bit (ih_fpsavemask (ihands s a)) n) =
        (\<exists>a\<in>set (cs j). bit (ih_fpsavemask (ihands s a)) n)" for n j
    using assms(4,5) by (cases "j = i") auto
  then show ?thesis using assms(1) by (simp add: mask_is_union_def assms(2,3) del: fun_upd_apply)
qed

lemma mask_is_union_recalc:
  assumes "chains_wf cs s" and "recalc_mask s [0..<8] 0 = Some m"
  shows "mask_is_union cs (s\<lparr>intr_fpsavemask := m\<rparr>)"
proof -
  have "\<forall>i\<in>set [0..<8]. seg (ihands s) (handler_chains s i) (cs i) 0"
    using assms(1) by (simp add: chains_wf_def)
  from recalc_mask_bits [OF this, of 0] assms(2) show ?thesis
    by (simp add: mask_is_union_def) (metis atLeast0LessThan lessThan_iff)
qed

lemma intr_handler_remove_absent:
  assumes inv: "intr_inv cs s" and i: "i < 8" and ih: "ih \<notin> set (cs i)"
  shows "\<exists>s'. intr_handler_remove i ih s = Inr s' \<and> intr_inv cs s' \<and> c0_status s' = c0_status s"
proof -
  let ?s1 = "mtc0_status (c0_status s AND NOT M_SR_IE) s"
  let ?s4 = "mtc0_status (c0_status ?s1 OR (c0_status s AND M_SR_IE)) ?s1"
  have seg: "seg (ihands ?s1) (deref ?s1 (Chain i)) (cs i) 0"
    using inv i by (simp add: intr_inv_def chains_wf_def)
  then have "remove_walk ?s1 ih (Chain i) = Some (loc_after (Chain i) (cs i))"
    using ih by (rule remove_walk_stops) simp
  moreover have "deref ?s1 (loc_after (Chain i) (cs i)) = 0" by (rule deref_loc_after [OF seg])
  ultimately have "intr_handler_remove i ih s = Inr ?s4"
    using i by (simp add: intr_handler_remove_def status_bits_eq Let_def)
  moreover have "intr_inv cs ?s4"
    using inv chains_wf_cong [of ?s4 s cs] intr_live_cong [of ?s4 s]
    by (simp add: intr_inv_def mask_is_union_def)
  ultimately show ?thesis by (simp add: status_bits_pair)
qed

lemma intr_handler_remove_present:
  assumes inv: "intr_inv cs s" and i: "i < 8" and cs: "cs i = ys @ ih # zs"
  shows "\<exists>s'. intr_handler_remove i ih s = Inr s' \<and> intr_inv (cs(i := ys @ zs)) s' \<and>
              c0_status s' = c0_status s"
proof -
  let ?s1 = "mtc0_status (c0_status s AND NOT M_SR_IE) s"
  let ?s3 = "assign (Next ih) 0 (assign (loc_after (Chain i) ys) (ih_next (ihands ?s1 ih)) ?s1)"
  let ?cs = "cs(i := ys @ zs)"
  have wf1: "chains_wf cs ?s1" using inv by (subst chains_wf_cong [of _ s]) (simp_all add: intr_inv_def)
  then have seg: "seg (ihands ?s1) (handler_chains ?s1 i) (ys @ ih # zs) 0" and d: "distinct (ys @ ih # zs)"
    using i unfolding cs [symmetric] by (simp_all add: chains_wf_def)
  then have y: "seg (ihands ?s1) (deref ?s1 (Chain i)) ys ih" and nz: "ih \<noteq> 0" by (auto simp: seg_append)
  have walk: "remove_walk ?s1 ih (Chain i) = Some (loc_after (Chain i) ys)"
    using d by (intro remove_walk_stops [OF y]) auto
  have at: "deref ?s1 (loc_after (Chain i) ys) = ih" by (rule deref_loc_after [OF y])
  have wf3: "chains_wf ?cs ?s3" by (rule chains_wf_remove [OF wf1 i cs])
  have finish: ?thesis if "intr_handler_remove i ih s = Inr (mtc0_status (c0_status t OR (c0_status s AND M_SR_IE)) t)"
    "ihands t = ihands ?s3" "handler_chains t = handler_chains ?s3" "mask_is_union ?cs t"
    "c0_status t = c0_status s AND NOT M_SR_IE" "intr_initted t = intr_initted s"
    "intr_live s \<Longrightarrow> intr_live t" for t
  proof -
    let ?s4 = "mtc0_status (c0_status t OR (c0_status s AND M_SR_IE)) t"
    have "chains_wf ?cs ?s4" using wf3 that(2,3) by (simp add: chains_wf_def del: assign.simps)
    moreover have "mask_is_union ?cs ?s4" using that(4) by (simp add: mask_is_union_def)
    moreover have "intr_initted ?s4 \<longrightarrow> intr_live ?s4"
      using inv that(6,7) intr_live_cong [of ?s4 t] by (simp add: intr_inv_def)
    ultimately show ?thesis using that(1,5) by (auto simp: intr_inv_def status_bits_pair)
  qed
  show ?thesis
  proof (cases "ih_fpsavemask (ihands s ih) = 0")
    case True
    show ?thesis
    proof (rule finish [of ?s3])
      show "intr_handler_remove i ih s = Inr (mtc0_status (c0_status ?s3 OR (c0_status s AND M_SR_IE)) ?s3)"
        using i nz True by (simp add: intr_handler_remove_def status_bits_eq Let_def walk at
            EXFPSAVEMASK_NONE_def del: assign.simps)
      show "mask_is_union ?cs ?s3"
        using inv True by (intro mask_is_union_sub [where cs = cs and s = s and ih = ih, OF _ _ _ cs]) (simp_all add: intr_inv_def del: assign.simps)
      show "intr_live s \<Longrightarrow> intr_live ?s3" using intr_live_cong [of ?s3 s] by (simp del: assign.simps)
    qed (simp_all del: assign.simps)
  next
    case False
    have "\<forall>i\<in>set [0..<8]. seg (ihands ?s3) (handler_chains ?s3 i) (?cs i) 0"
      using wf3 by (simp add: chains_wf_def del: assign.simps)
    then obtain m where m: "recalc_mask ?s3 [0..<8] 0 = Some m" using recalc_mask_bits by blast
    let ?t = "?s3\<lparr>intr_fpsavemask := m\<rparr>"
    let ?u = "snd (exlib_set_fpsavemask K_CAUSE_EXC_INT (intr_fpsavemask ?t) ?t)"
    show ?thesis
    proof (rule finish [of ?u])
      show "intr_handler_remove i ih s = Inr (mtc0_status (c0_status ?u OR (c0_status s AND M_SR_IE)) ?u)"
        using i nz False m by (simp add: intr_handler_remove_def status_bits_eq Let_def walk at
            EXFPSAVEMASK_NONE_def del: assign.simps)
      show "mask_is_union ?cs ?u"
        using mask_is_union_recalc [OF wf3 m] by (simp add: mask_is_union_def del: assign.simps)
      show "intr_live s \<Longrightarrow> intr_live ?u"
        by (rule intr_live_update)
          (simp add: intr_live_def exlib_get_handler_def del: assign.simps split: if_splits)
    qed (simp_all del: assign.simps)
  qed
qed

lemma intr_handler_remove_correct:
  assumes inv: "intr_inv cs s" and i: "i < 8"
  shows "\<exists>s'. intr_handler_remove i ih s = Inr s' \<and> intr_inv (cs(i := remove1 ih (cs i))) s' \<and>
              c0_status s' = c0_status s"
proof (cases "ih \<in> set (cs i)")
  case True
  then obtain ys zs where cs: "cs i = ys @ ih # zs" and "ih \<notin> set ys" by (meson split_list_first)
  then have "remove1 ih (cs i) = ys @ zs" by (simp add: remove1_append)
  with intr_handler_remove_present [OF inv i cs] show ?thesis by simp
next
  case False
  then have "cs(i := remove1 ih (cs i)) = cs" by (simp add: remove1_idem)
  with intr_handler_remove_absent [OF inv i False] show ?thesis by simp
qed

section \<open>Dispatch over the abstract chains\<close>

fun call_all ::
  "'a intr_sem \<Rightarrow> (u64 \<Rightarrow> ihand) \<Rightarrow> u64 list \<Rightarrow> u32 \<Rightarrow> exframe \<Rightarrow> 'a istate_scheme \<Rightarrow>
   (u32 \<times> exframe \<times> 'a istate_scheme) res" where
  "call_all ifn h [] handled ef s = Inr (handled, ef, s)"
| "call_all ifn h (a # as) handled ef s =
     bind_res (ifn (ih_func (h a)) (ih_arg (h a)) ef s)
       (\<lambda>r. call_all ifn h as (handled OR fst r) (fst (snd r)) (snd (snd r)))"

fun serve_lines ::
  "'a intr_sem \<Rightarrow> (u64 \<Rightarrow> ihand) \<Rightarrow> (nat \<Rightarrow> u64 list) \<Rightarrow> nat list \<Rightarrow> exframe \<Rightarrow> 'a istate_scheme \<Rightarrow>
   (exframe \<times> 'a istate_scheme) res" where
  "serve_lines ifn h cs [] ef s = Inr (ef, s)"
| "serve_lines ifn h cs (i # is) ef s =
     bind_res (call_all ifn h (cs i) 0 ef s) (\<lambda>(handled, ef', s').
       if handled = 0 then exlib_panic ''unhandled interrupt'' (of_nat i)
       else serve_lines ifn h cs is ef' s')"

definition keeps_chains :: "'a intr_sem \<Rightarrow> bool" where
  "keeps_chains ifn = (\<forall>f a ef s r. ifn f a ef s = Inr r \<longrightarrow>
     ihands (snd (snd r)) = ihands s \<and> handler_chains (snd (snd r)) = handler_chains s)"

lemma keeps_chainsD:
  "keeps_chains ifn \<Longrightarrow> ifn f a ef s = Inr r \<Longrightarrow>
     ihands (snd (snd r)) = ihands s \<and> handler_chains (snd (snd r)) = handler_chains s"
  unfolding keeps_chains_def by blast

lemma call_all_keeps:
  "keeps_chains ifn \<Longrightarrow> call_all ifn h xs m ef s = Inr r \<Longrightarrow>
     ihands (snd (snd r)) = ihands s \<and> handler_chains (snd (snd r)) = handler_chains s"
proof (induction xs arbitrary: m ef s)
  case Nil
  then show ?case by auto
next
  case (Cons x xs)
  then obtain q where "ifn (ih_func (h x)) (ih_arg (h x)) ef s = Inr q"
    "call_all ifn h xs (m OR fst q) (fst (snd q)) (snd (snd q)) = Inr r"
    by (auto simp: bind_res_eq_Inr)
  with Cons.IH Cons.prems(1) keeps_chainsD show ?case by metis
qed

lemma intr_chain_loop_eq:
  "keeps_chains ifn \<Longrightarrow> seg (ihands s) p xs 0 \<Longrightarrow>
   intr_chain_loop ifn p m ef s = Some (call_all ifn (ihands s) xs m ef s)"
proof (induction xs arbitrary: p m ef s)
  case Nil
  then show ?case by (subst intr_chain_loop.simps) simp
next
  case (Cons x xs)
  show ?case
  proof (cases "ifn (ih_func (ihands s x)) (ih_arg (ihands s x)) ef s")
    case (Inl e)
    with Cons.prems show ?thesis by (subst intr_chain_loop.simps) simp
  next
    case (Inr r)
    then have h: "ihands (snd (snd r)) = ihands s" using keeps_chainsD [OF Cons.prems(1)] by blast
    then have "seg (ihands (snd (snd r))) (ih_next (ihands s x)) xs 0" using Cons.prems(2) by simp
    from Cons.IH [OF Cons.prems(1) this] Inr Cons.prems(2) h show ?thesis
      by (subst intr_chain_loop.simps) simp
  qed
qed

lemma run_intr_lines_eq:
  "keeps_chains ifn \<Longrightarrow> \<forall>i\<in>set is. seg (ihands s) (handler_chains s i) (cs i) 0 \<Longrightarrow>
   run_intr_lines ifn todo is ef s =
     serve_lines ifn (ihands s) cs (filter (\<lambda>i. todo AND push_bit i 1 \<noteq> 0) is) ef s"
proof (induction "is" arbitrary: ef s)
  case Nil
  then show ?case by simp
next
  case (Cons i "is")
  have chain: "run_intr_chain ifn i ef s = bind_res (call_all ifn (ihands s) (cs i) 0 ef s)
      (\<lambda>(handled, ef', s'). if handled = 0 then exlib_panic ''unhandled interrupt'' (of_nat i)
                           else Inr (ef', s'))"
    using Cons.prems(2) intr_chain_loop_eq [OF Cons.prems(1), of s "handler_chains s i" "cs i"]
    by (simp add: run_intr_chain_def)
  show ?case
  proof (cases "call_all ifn (ihands s) (cs i) 0 ef s")
    case (Inl e)
    then show ?thesis using chain Cons.IH [OF Cons.prems(1), of s] Cons.prems(2) by simp
  next
    case (Inr r)
    have "ihands (snd (snd r)) = ihands s \<and> handler_chains (snd (snd r)) = handler_chains s"
      by (rule call_all_keeps [OF Cons.prems(1) Inr])
    then show ?thesis
      using chain Cons.IH [OF Cons.prems(1), of s] Cons.IH [OF Cons.prems(1), of "snd (snd r)"] Cons.prems(2) Inr
      by (cases r) (simp add: exlib_panic_def)
  qed
qed

lemma intrs_to_process_bit:
  assumes "i < 8"
  shows "(intrs_to_process ef AND push_bit i 1 \<noteq> 0) = (bit (ef_cause ef) (8 + i) \<and> bit (ef_status ef) (8 + i))"
proof -
  have "(intrs_to_process ef AND push_bit i 1 = 0) = (\<not> bit (intrs_to_process ef) i)"
    using mm_makemask1_test [of i "intrs_to_process ef"] assms by (simp add: mm_makemask1_def)
  then show ?thesis using assms
    by (auto simp: intrs_to_process_def Let_def sr_mask_defs bitwise mm_makemask_bit)
qed

section \<open>Initialisation and shutdown\<close>

lemma exlib_set_handler_eq:
  "exlib_set_handler c f s = (if EXCODE_NCODES \<le> c then (-1, s)
      else (0, s\<lparr>handlers := (handlers s)(unat c := (handlers s (unat c))\<lparr>h_func := f\<rparr>)\<rparr>))"
  by (rule exlib_set_handler_def)

lemma set_handler_frame [simp]:
  "ihands (snd (exlib_set_handler c m s)) = ihands s"
  "handler_chains (snd (exlib_set_handler c m s)) = handler_chains s"
  "intr_fpsavemask (snd (exlib_set_handler c m s)) = intr_fpsavemask s"
  "intr_initted (snd (exlib_set_handler c m s)) = intr_initted s"
  "c0_status (snd (exlib_set_handler c m s)) = c0_status s"
  "orig_handler (snd (exlib_set_handler c m s)) = orig_handler s"
  "orig_fpsavemask (snd (exlib_set_handler c m s)) = orig_fpsavemask s"
  "orig_ie_bits (snd (exlib_set_handler c m s)) = orig_ie_bits s"
  "exlib_fpu (snd (exlib_set_handler c m s)) = exlib_fpu s"
  "exlib_mdmx (snd (exlib_set_handler c m s)) = exlib_mdmx s"
  by (simp_all add: exlib_set_handler_eq)

lemma table_cong:
  "handlers s = handlers t \<Longrightarrow> exlib_get_handler c s = exlib_get_handler c t"
  "handlers s = handlers t \<Longrightarrow> exlib_get_fpsavemask c s = exlib_get_fpsavemask c t"
  by (simp_all add: exlib_get_handler_def exlib_get_fpsavemask_def)

lemma INT_code: "(K_CAUSE_EXC_INT :: u32) < 32"
  by (simp add: K_CAUSE_EXC_INT_def)

lemma intr_init_installed:
  assumes "exlib_initted s" and "\<not> intr_initted s" and "intr_init b v s = Inr s1"
  shows "orig_handler s1 = exlib_get_handler K_CAUSE_EXC_INT s"
    and "orig_fpsavemask s1 = exlib_get_fpsavemask K_CAUSE_EXC_INT s"
    and "orig_ie_bits s1 = c0_status s AND (M_SR_IE OR M_SR_IMASK)"
    and "c0_status s1 = c0_status s AND NOT (M_SR_IE OR M_SR_IMASK)"
    and "intr_initted s1" and "intr_live s1"
    and "ihands s1 = ihands s" and "handler_chains s1 = handler_chains s"
    and "intr_fpsavemask s1 = intr_fpsavemask s"
    and "avail_mask s1 = avail_mask s"
    and "\<And>d. d \<noteq> K_CAUSE_EXC_INT \<Longrightarrow> exlib_get_handler d s1 = exlib_get_handler d s"
    and "\<And>d. d \<noteq> K_CAUSE_EXC_INT \<Longrightarrow> exlib_get_fpsavemask d s1 = exlib_get_fpsavemask d s"
proof -
  let ?s2 = "s\<lparr>intr_initted := True, orig_handler := exlib_get_handler K_CAUSE_EXC_INT s,
               orig_fpsavemask := exlib_get_fpsavemask K_CAUSE_EXC_INT s\<rparr>"
  let ?s4 = "(mtc0_status (c0_status s AND NOT (M_SR_IE OR M_SR_IMASK)) ?s2)\<lparr>orig_ie_bits :=
               c0_status s AND (M_SR_IE OR M_SR_IMASK)\<rparr>"
  let ?s5 = "snd (exlib_set_handler K_CAUSE_EXC_INT ExhandlerIntr ?s4)"
  have t: "exlib_get_handler c (s\<lparr>intr_initted := True\<rparr>) = exlib_get_handler c s"
    "exlib_get_fpsavemask c (s\<lparr>intr_initted := True\<rparr>) = exlib_get_fpsavemask c s" for c
    by (simp_all add: exlib_get_handler_def exlib_get_fpsavemask_def)
  have s1: "s1 = snd (exlib_set_fpsavemask K_CAUSE_EXC_INT (intr_fpsavemask ?s5) ?s5)"
    using assms by (simp add: intr_init_def exlib_init_def status_bits_eq Let_def t)
  have h4: "handlers ?s4 = handlers s" by simp
  have a4: "avail_mask ?s4 = avail_mask s" by (rule avail_mask_cong) simp_all
  note tab = table_cong [OF h4]
  show "orig_handler s1 = exlib_get_handler K_CAUSE_EXC_INT s"
    "orig_fpsavemask s1 = exlib_get_fpsavemask K_CAUSE_EXC_INT s"
    "orig_ie_bits s1 = c0_status s AND (M_SR_IE OR M_SR_IMASK)"
    "c0_status s1 = c0_status s AND NOT (M_SR_IE OR M_SR_IMASK)"
    "intr_initted s1" "ihands s1 = ihands s" "handler_chains s1 = handler_chains s"
    "intr_fpsavemask s1 = intr_fpsavemask s"
    unfolding s1 by simp_all
  show "intr_live s1" unfolding s1
    by (rule intr_live_update) (simp add: xt.get_set_handler INT_code)
  show "avail_mask s1 = avail_mask s"
    unfolding s1 using a4 by (simp only: xt.avail_set_mask xt.avail_set_handler)
  show "exlib_get_handler d s1 = exlib_get_handler d s" if "d \<noteq> K_CAUSE_EXC_INT" for d
    unfolding s1 using that tab by (simp only: xt.handler_set_mask xt.get_set_handler INT_code if_False)
  show "exlib_get_fpsavemask d s1 = exlib_get_fpsavemask d s" if "d \<noteq> K_CAUSE_EXC_INT" for d
    unfolding s1 using that tab by (simp only: xt.get_set_mask xt.mask_set_handler INT_code if_False)
qed

lemma intr_shutdown_restores:
  assumes "intr_initted t"
  shows "exlib_get_handler d (intr_shutdown t) =
           (if d = K_CAUSE_EXC_INT then orig_handler t else exlib_get_handler d t)"
    and "exlib_get_fpsavemask d (intr_shutdown t) =
           (if d = K_CAUSE_EXC_INT then avail_mask t (orig_fpsavemask t) else exlib_get_fpsavemask d t)"
    and "c0_status (intr_shutdown t) =
           (c0_status t AND NOT (M_SR_IE OR M_SR_IMASK)) OR orig_ie_bits t"
    and "\<not> intr_initted (intr_shutdown t)"
proof -
  let ?t1 = "t\<lparr>intr_initted := False\<rparr>"
  let ?t2 = "snd (exlib_set_handler K_CAUSE_EXC_INT (orig_handler t) ?t1)"
  let ?t3 = "snd (exlib_set_fpsavemask K_CAUSE_EXC_INT (orig_fpsavemask t) ?t2)"
  let ?v = "(c0_status t AND NOT (M_SR_IE OR M_SR_IMASK))"
  have eq: "intr_shutdown t = mtc0_status (?v OR orig_ie_bits t) (mtc0_status ?v ?t3)"
    using assms by (simp add: intr_shutdown_def status_bits_eq Let_def)
  have tab: "exlib_get_handler c ?t1 = exlib_get_handler c t"
    "exlib_get_fpsavemask c ?t1 = exlib_get_fpsavemask c t" "avail_mask ?t1 = avail_mask t" for c
    by (simp_all add: exlib_get_handler_def exlib_get_fpsavemask_def avail_mask_cong [of ?t1 t])
  have h: "exlib_get_handler c (mtc0_status w x) = exlib_get_handler c x"
    "exlib_get_fpsavemask c (mtc0_status w x) = exlib_get_fpsavemask c x" for c w and x :: "'c xstate_scheme"
    by (simp_all add: exlib_get_handler_def exlib_get_fpsavemask_def mtc0_status_def)
  show "exlib_get_handler d (intr_shutdown t) =
           (if d = K_CAUSE_EXC_INT then orig_handler t else exlib_get_handler d t)"
    unfolding eq h by (simp add: xt.handler_set_mask xt.get_set_handler INT_code tab)
  show "exlib_get_fpsavemask d (intr_shutdown t) =
           (if d = K_CAUSE_EXC_INT then avail_mask t (orig_fpsavemask t) else exlib_get_fpsavemask d t)"
    unfolding eq h
    by (simp add: xt.mask_set_handler xt.get_set_mask xt.avail_set_handler INT_code tab)
  show "c0_status (intr_shutdown t) = ?v OR orig_ie_bits t" "\<not> intr_initted (intr_shutdown t)"
    unfolding eq by simp_all
qed

section \<open>Cyclic chains\<close>

definition next_closed :: "'a istate_scheme \<Rightarrow> u64 set \<Rightarrow> bool" where
  "next_closed s A = (\<forall>a\<in>A. a \<noteq> 0 \<and> ih_next (ihands s a) \<in> A)"

lemma next_closedD:
  "next_closed s A \<Longrightarrow> a \<in> A \<Longrightarrow> a \<noteq> 0" "next_closed s A \<Longrightarrow> a \<in> A \<Longrightarrow> ih_next (ihands s a) \<in> A"
  by (simp_all add: next_closed_def)

lemma add_walk_cyclic:
  assumes "next_closed s A" and "deref s p \<in> A"
  shows "add_walk s p = None"
proof -
  have "next_closed s A \<longrightarrow> deref s p \<notin> A" if "add_walk s p = Some q" for q
    by (rule add_walk.raw_induct [where P = "\<lambda>s p q. next_closed s A \<longrightarrow> deref s p \<notin> A", OF _ that])
      (metis deref.simps(2) next_closedD option.inject)
  with assms show ?thesis by (cases "add_walk s p") auto
qed

lemma intr_chain_loop_cyclic:
  assumes "next_closed s A" and "p \<in> A" and "keeps_chains ifn"
    and "intr_chain_loop ifn p m ef s = Some r"
  shows "\<exists>e. r = Inl e"
proof -
  let ?P = "\<lambda>ifn p m ef s r. keeps_chains ifn \<longrightarrow> next_closed s A \<longrightarrow> p \<in> A \<longrightarrow> (\<exists>e. r = Inl e)"
  have "?P ifn p m ef s r"
  proof (rule intr_chain_loop.raw_induct [where P = ?P, OF _ assms(4)])
    fix loop and ifn :: "'a intr_sem" and ih handled ef and s :: "'a istate_scheme" and r
    assume IH: "\<And>ifn ih handled ef s r. loop ifn ih handled ef s = Some r \<Longrightarrow> ?P ifn ih handled ef s r"
      and eq: "(if ih = 0 then Some (Inr (handled, ef, s))
        else let next_ih = ih_next (ihands s ih)
             in case ifn (ih_func (ihands s ih)) (ih_arg (ihands s ih)) ef s of
                  Inl e \<Rightarrow> Some (Inl e)
                | Inr q \<Rightarrow> loop ifn next_ih (handled OR fst q) (fst (snd q)) (snd (snd q))) = Some r"
    show "?P ifn ih handled ef s r"
    proof (intro impI)
      assume k: "keeps_chains ifn" and c: "next_closed s A" and a: "ih \<in> A"
      show "\<exists>e. r = Inl e"
      proof (cases "ifn (ih_func (ihands s ih)) (ih_arg (ihands s ih)) ef s")
        case (Inl e)
        with eq next_closedD(1) [OF c a] have "Some (Inl e) = Some r" by (simp only: if_False sum.case Let_def)
        then have "r = Inl e" by simp
        then show ?thesis ..
      next
        case (Inr q)
        have "next_closed (snd (snd q)) A"
          using keeps_chainsD [OF k Inr] c by (simp add: next_closed_def)
        then show ?thesis using eq next_closedD [OF c a] Inr IH k by auto
      qed
    qed
  qed
  with assms show ?thesis by blast
qed

lemma chain_closed_after_double_add:
  assumes "seg h p (xs @ [a]) q" and "\<And>b. b \<in> set xs \<Longrightarrow> ih_next (g b) = ih_next (h b)" and "ih_next (g a) = a"
  shows "\<forall>b\<in>set (xs @ [a]). b \<noteq> 0 \<and> ih_next (g b) \<in> set (xs @ [a])"
  using assms
proof (induction xs arbitrary: p)
  case Nil
  then show ?case by simp
next
  case (Cons x xs)
  have "seg h (ih_next (h x)) (xs @ [a]) q" using Cons.prems(1) by simp
  moreover from this have "ih_next (h x) \<in> set (xs @ [a])" by (cases xs) auto
  ultimately show ?case using Cons.IH [of "ih_next (h x)"] Cons.prems by auto
qed

lemma intr_handler_add_again:
  assumes inv: "intr_inv cs s" and i: "i < 8" and cs: "cs i = xs @ [ih]"
  shows "\<exists>s'. intr_handler_add i ih s = Inr s' \<and> next_closed s' (set (cs i)) \<and>
              handler_chains s' i \<in> set (cs i)"
proof -
  let ?s1 = "mtc0_status (c0_status s AND NOT M_SR_IE) s"
  let ?s2 = "assign (loc_after (Chain i) (cs i)) ih (assign (Next ih) 0 ?s1)"
  let ?m = "ih_fpsavemask (ihands s ih)"
  let ?u = "?s2\<lparr>intr_fpsavemask := intr_fpsavemask s OR ?m\<rparr>"
  let ?s3 = "if ?m AND intr_fpsavemask s \<noteq> ?m
             then snd (exlib_set_fpsavemask K_CAUSE_EXC_INT (intr_fpsavemask ?u) ?u) else ?s2"
  let ?s4 = "mtc0_status (c0_status ?s3 OR (c0_status s AND M_SR_IE)) ?s3"
  have seg0: "seg (ihands s) (handler_chains s i) (cs i) 0" and d: "distinct (cs i)"
    using inv i by (simp_all add: intr_inv_def chains_wf_def)
  then have "add_walk ?s1 (Chain i) = Some (loc_after (Chain i) (cs i))"
    by (intro add_walk_end) simp
  then have eq: "intr_handler_add i ih s = Inr ?s4"
    using i by (simp add: intr_handler_add_def status_bits_eq Let_def del: assign.simps)
  have n: "ih_next (ihands ?s4 ih) = ih"
    "\<And>b. b \<in> set xs \<Longrightarrow> ih_next (ihands ?s4 b) = ih_next (ihands s b)"
    "handler_chains ?s4 = handler_chains s"
    using d cs by (auto simp: loc_after_def)
  have "next_closed ?s4 (set (cs i))"
    using chain_closed_after_double_add [of "ihands s" _ xs ih 0 "ihands ?s4", OF _ n(2,1)] seg0
    unfolding next_closed_def cs by blast
  moreover have "handler_chains ?s4 i \<in> set (cs i)"
  proof -
    have "handler_chains s i \<in> set (cs i)" using seg0 cs by (cases xs) auto
    then show ?thesis by (simp only: n(3))
  qed
  ultimately show ?thesis using eq by blast
qed

text \<open>The bit of an interrupt line in Status.\<close>

lemma line_bits:
  fixes x i :: u32
  assumes "i < 8"
  shows "(x AND push_bit (8 + unat i) 1 \<noteq> 0) = bit x (8 + unat i)"
    "x OR push_bit (8 + unat i) 1 = set_bit (8 + unat i) x"
    "x AND NOT (push_bit (8 + unat i) 1) = unset_bit (8 + unat i) x"
  using and_bit_test [of "8 + unat i" x] assms
  by (simp_all add: word_less_nat_alt set_bit_eq_or unset_bit_eq_and_not del: push_bit_of_1)

lemma line_status:
  assumes "i < 8"
  shows "intr_enable_int None i s =
      (c_bool (bit (c0_status s) (8 + unat i)), None, mtc0_status (set_bit (8 + unat i) (c0_status s)) s)"
    "intr_disable_int None i s =
      (c_bool (bit (c0_status s) (8 + unat i)), None, mtc0_status (unset_bit (8 + unat i) (c0_status s)) s)"
  using assms by (simp_all add: intr_enable_int_def intr_disable_int_def mod_status_bits_def S_SR_IMASK_def line_bits
      add.commute [of "unat i"] not_le [symmetric] del: push_bit_of_1)

text \<open>The Int handler over the abstract chains.\<close>

lemma exhandler_intr_lines:
  assumes "chains_wf cs s" and "keeps_chains ifn"
  shows "exhandler_intr ifn code ef s =
    serve_lines ifn (ihands s) cs
      (filter (\<lambda>i. bit (ef_cause ef) (8 + i) \<and> bit (ef_status ef) (8 + i)) [7, 6, 5, 4, 3, 2, 1, 0]) ef s"
proof -
  have "\<forall>i\<in>set (rev [0..<8]). seg (ihands s) (handler_chains s i) (cs i) 0"
    using assms(1) by (simp add: chains_wf_def)
  moreover have "filter (\<lambda>i. intrs_to_process ef AND push_bit i 1 \<noteq> 0) (rev [0..<8]) =
      filter (\<lambda>i. bit (ef_cause ef) (8 + i) \<and> bit (ef_status ef) (8 + i)) (rev [0..<8])"
    by (intro filter_cong refl intrs_to_process_bit) simp
  moreover have "rev [0..<8] = [7, 6, 5, 4, 3, 2, 1, 0 :: nat]" by (simp add: upt_rec)
  ultimately show ?thesis
    unfolding exhandler_intr_def by (simp only: run_intr_lines_eq [OF assms(2)])
qed

section \<open>Properties\<close>

text \<open>The machine of the exception library, with three handler structures in client memory.\<close>

definition sb1_istate :: istate where
  "sb1_istate = xstate.extend (sb1_state\<lparr>exlib_initted := True, exlib_mips64 := True, exlib_fpu := True\<rparr>)
     (istate.fields False NullHandler 0 (\<lambda>_. 0) 0 0
        (\<lambda>a. \<lparr>ih_next = 0, ih_func = unat a, ih_arg = a, ih_fpsavemask = (if a = 0x1000 then 1 else 0)\<rparr>))"

lemmas sb1_istate_defs = sb1_istate_def sb1_state_def xstate.defs istate.defs

lemma sb1_istate_inv: "intr_inv (\<lambda>_. []) sb1_istate"
  by (simp add: intr_inv_def chains_wf_def mask_is_union_def sb1_istate_defs)

text \<open>
  C3: \<open>intr_handler_add\<close> of a handler that is on no chain returns, appends it to the chain of
  its line and leaves every other chain as it was; the chains stay disjoint, acyclic lists, the
  save mask of the Int exception stays the union of the masks of all chained handlers, and
  Status (its IE bit cleared during the update) is as before.
\<close>

theorem handler_add_appends:
  assumes "intr_inv cs s" and "i < 8" and "ih \<noteq> 0" and "\<forall>j<8. ih \<notin> set (cs j)"
  shows "\<exists>s'. intr_handler_add i ih s = Inr s' \<and> intr_inv (cs(i := cs i @ [ih])) s' \<and>
              c0_status s' = c0_status s"
  using assms by (rule intr_handler_add_correct)

lemma handler_add_appends_witness:
  "\<exists>s'. intr_handler_add 3 0x1000 sb1_istate = Inr s' \<and> intr_inv ((\<lambda>_. [])(3 := [0x1000])) s'"
  using handler_add_appends [OF sb1_istate_inv, of 3 "0x1000"] by auto

text \<open>
  C4: \<open>intr_handler_remove\<close> returns for every handler, present or not; it takes the handler out
  of the chain of its line (nothing else changes when it is absent), recomputes the save mask
  as the union of the masks that remain, and restores Status.
\<close>

theorem handler_remove_deletes:
  assumes "intr_inv cs s" and "i < 8"
  shows "\<exists>s'. intr_handler_remove i ih s = Inr s' \<and> intr_inv (cs(i := remove1 ih (cs i))) s' \<and>
              c0_status s' = c0_status s"
  using assms by (rule intr_handler_remove_correct)

lemma handler_remove_deletes_witness:
  "\<exists>(s :: istate) s'. intr_inv ((\<lambda>_. [])(3 := [0x1000])) s \<and> intr_handler_remove 3 0x1000 s = Inr s' \<and>
     intr_inv (((\<lambda>_. [])(3 := [0x1000]))(3 := [])) s'"
proof -
  obtain s :: istate where s: "intr_inv ((\<lambda>_. [])(3 := [0x1000])) s"
    using intr_handler_add_correct [OF sb1_istate_inv, of 3 "0x1000"] by auto
  from handler_remove_deletes [OF this, of 3 "0x1000"] s show ?thesis by auto
qed

text \<open>
  C5: With handlers that leave the chains alone, the Int handler serves exactly the lines that
  are both pending in the frame's Cause and enabled in its Status, from line 7 down to 0, calls
  every handler of such a line once, in the order they were added, and panics after the first
  line none of whose handlers claims the interrupt.
\<close>

theorem interrupt_serves_pending_enabled:
  assumes "chains_wf cs s" and "keeps_chains ifn"
  shows "exhandler_intr ifn code ef s =
    serve_lines ifn (ihands s) cs
      (filter (\<lambda>i. bit (ef_cause ef) (8 + i) \<and> bit (ef_status ef) (8 + i)) [7, 6, 5, 4, 3, 2, 1, 0]) ef s"
  using assms by (rule exhandler_intr_lines)

lemma interrupt_serves_pending_enabled_witness:
  "exhandler_intr (\<lambda>f a ef s. Inr (0, ef, s)) 0
     \<lparr>ef_regs = (\<lambda>_. 0), ef_hi = 0, ef_lo = 0, ef_status = 0x400, ef_cause = 0x600, ef_fpsavemask = 0,
      ef_fcsr = 0, ef_fpregs = (\<lambda>_. 0), ef_mdmxacc = (\<lambda>_. 0)\<rparr> sb1_istate
   = Inl (Panicked ''unhandled interrupt'' 2)"
proof -
  have "chains_wf (\<lambda>_. []) sb1_istate" using sb1_istate_inv by (simp add: intr_inv_def)
  moreover have "keeps_chains (\<lambda>f a ef (s :: istate). Inr (0, ef, s))" by (simp add: keeps_chains_def)
  moreover have "filter (\<lambda>i. bit (0x600 :: u32) (8 + i) \<and> bit (0x400 :: u32) (8 + i)) [7, 6, 5, 4, 3, 2, 1, 0] = [2]"
    by code_simp
  ultimately show ?thesis
    using interrupt_serves_pending_enabled [of "\<lambda>_. []" sb1_istate "\<lambda>f a ef s. Inr (0, ef, s)" 0]
    by (simp add: exlib_panic_def)
qed

text \<open>
  C12: \<open>intr_init\<close> on an initialised exception library masks all eight lines and interrupts
  and takes over the Int exception; \<open>intr_shutdown\<close>, after any use in between that keeps the
  saved values, gives the Int exception its old handler and save mask and every other code its
  current ones, and restores IE and the line enables to what they were before \<open>intr_init\<close>.
\<close>

theorem intr_init_shutdown_roundtrip:
  assumes "exlib_initted s" and "\<not> intr_initted s" and "masks_available s"
    and "intr_init b v s = Inr s1" and "intr_initted t" and "avail_mask t = avail_mask s"
    and "orig_handler t = orig_handler s1" and "orig_fpsavemask t = orig_fpsavemask s1"
    and "orig_ie_bits t = orig_ie_bits s1"
  shows "c0_status s1 AND (M_SR_IE OR M_SR_IMASK) = 0 \<and> intr_live s1 \<and>
    exlib_get_handler K_CAUSE_EXC_INT (intr_shutdown t) = exlib_get_handler K_CAUSE_EXC_INT s \<and>
    exlib_get_fpsavemask K_CAUSE_EXC_INT (intr_shutdown t) = exlib_get_fpsavemask K_CAUSE_EXC_INT s \<and>
    (\<forall>d. d \<noteq> K_CAUSE_EXC_INT \<longrightarrow> exlib_get_handler d (intr_shutdown t) = exlib_get_handler d t \<and>
                         exlib_get_fpsavemask d (intr_shutdown t) = exlib_get_fpsavemask d t) \<and>
    c0_status (intr_shutdown t) AND (M_SR_IE OR M_SR_IMASK) = c0_status s AND (M_SR_IE OR M_SR_IMASK)"
proof -
  note i = intr_init_installed [OF assms(1,2,4)] and d = intr_shutdown_restores [OF assms(5)]
  have "h_fpsavemask (handlers s 0) = avail_mask s (h_fpsavemask (handlers s 0))"
    using assms(3) by (simp add: masks_available_def)
  then have m: "avail_mask t (orig_fpsavemask t) = exlib_get_fpsavemask K_CAUSE_EXC_INT s"
    unfolding assms(6,8) i(2) by (simp add: exlib_get_fpsavemask_def K_CAUSE_EXC_INT_def EXCODE_NCODES_def)
  have c: "c0_status s1 AND (M_SR_IE OR M_SR_IMASK) = 0"
    unfolding i(4) by (rule and_not_and_self)
  have "c0_status (intr_shutdown t) AND (M_SR_IE OR M_SR_IMASK) = c0_status s AND (M_SR_IE OR M_SR_IMASK)"
    unfolding d(3) assms(9) i(3) by (rule word_bit_ext) (auto simp: bitwise)
  then show ?thesis using d(1,2) m c i(6) assms(7) i(1) by auto
qed

lemma intr_init_shutdown_roundtrip_witness:
  "\<exists>s1. intr_init sb1_build sb1_images (sb1_istate\<lparr>c0_status := 0x401\<rparr>) = Inr s1 \<and>
     c0_status (intr_shutdown (s1\<lparr>c0_status := 0x8001\<rparr>)) AND (M_SR_IE OR M_SR_IMASK) = 0x401"
proof -
  let ?s = "sb1_istate\<lparr>c0_status := 0x401\<rparr>"
  have init: "exlib_initted ?s" "\<not> intr_initted ?s" "masks_available ?s"
    by (simp_all add: sb1_istate_defs masks_available_def avail_mask_def EXFPSAVEMASK_MDMXACC_def)
  then obtain s1 where s1: "intr_init sb1_build sb1_images ?s = Inr s1"
    by (auto simp: intr_init_def exlib_init_def Let_def status_bits_eq)
  note i = intr_init_installed [OF init(1,2) s1]
  let ?t = "s1\<lparr>c0_status := 0x8001\<rparr>"
  have "avail_mask ?t = avail_mask ?s"
    using i(10) avail_mask_cong [of ?t s1] by simp
  with intr_init_shutdown_roundtrip [OF init s1, of ?t] i(5)
  have "c0_status (intr_shutdown ?t) AND (M_SR_IE OR M_SR_IMASK) = c0_status ?s AND (M_SR_IE OR M_SR_IMASK)"
    by simp
  then show ?thesis using s1
    by (simp add: sb1_istate_defs sr_mask_defs mm_makemask1_def mm_makemask_def)
qed

text \<open>
  Adding the handler that is last on its chain a second time makes its \<open>ih_next\<close> point to
  itself: from then on an interrupt on that line is never dispatched to completion, and adding
  any handler to the line never returns.
\<close>

theorem handler_add_twice_hangs:
  assumes "intr_inv cs s" and "i < 8" and "cs i = xs @ [ih]" and "keeps_chains ifn"
  shows "\<exists>s'. intr_handler_add i ih s = Inr s' \<and> intr_handler_add i other s' = Inl Hung \<and>
              (\<exists>e. run_intr_chain ifn i ef s' = Inl e)"
proof -
  obtain s' where s': "intr_handler_add i ih s = Inr s'" "next_closed s' (set (cs i))"
      "handler_chains s' i \<in> set (cs i)"
    using intr_handler_add_again [OF assms(1-3)] by blast
  let ?s1 = "mtc0_status (c0_status s' AND NOT M_SR_IE) s'"
  have "add_walk ?s1 (Chain i) = None"
    by (rule add_walk_cyclic [of _ "set (cs i)"]) (use s' in \<open>simp_all add: next_closed_def\<close>)
  then have "intr_handler_add i other s' = Inl Hung"
    using assms(2) by (simp add: intr_handler_add_def status_bits_eq)
  moreover have "\<exists>e. run_intr_chain ifn i ef s' = Inl e"
    using intr_chain_loop_cyclic [OF s'(2,3) assms(4)]
    by (fastforce simp: run_intr_chain_def split: option.splits)
  ultimately show ?thesis using s'(1) by blast
qed

lemma handler_add_twice_hangs_witness:
  "\<exists>(s :: istate) s'. intr_inv ((\<lambda>_. [])(3 := [0x1000])) s \<and> intr_handler_add 3 0x1000 s = Inr s' \<and>
     intr_handler_add 3 0x2000 s' = Inl Hung"
proof -
  obtain s :: istate where s: "intr_inv ((\<lambda>_. [])(3 := [0x1000])) s"
    using intr_handler_add_correct [OF sb1_istate_inv, of 3 "0x1000"] by auto
  have "keeps_chains (\<lambda>f a ef (s :: istate). Inr (1, ef, s))" by (simp add: keeps_chains_def)
  from handler_add_twice_hangs [OF s, of 3 "[]" "0x1000", OF _ _ this] s show ?thesis by fastforce
qed

text \<open>
  The line-enable calls refuse lines from 8 up with result 0 and no effect; below that they
  return the previous enable as 0 or 1 and set or clear exactly bit \<open>8 + i\<close> of Status: of the
  frame's copy, leaving the register alone, when a frame is given, of the register otherwise.
\<close>

theorem line_enable_exact:
  "(8 \<le> i \<longrightarrow> intr_enable_int ef i s = (0, ef, s) \<and> intr_disable_int ef i s = (0, ef, s)) \<and>
   (i < 8 \<longrightarrow>
      intr_enable_int (Some f) i s =
        (c_bool (bit (ef_status f) (8 + unat i)), Some (f\<lparr>ef_status := set_bit (8 + unat i) (ef_status f)\<rparr>), s) \<and>
      intr_disable_int (Some f) i s =
        (c_bool (bit (ef_status f) (8 + unat i)), Some (f\<lparr>ef_status := unset_bit (8 + unat i) (ef_status f)\<rparr>), s) \<and>
      intr_enable_int None i s =
        (c_bool (bit (c0_status s) (8 + unat i)), None, mtc0_status (set_bit (8 + unat i) (c0_status s)) s) \<and>
      intr_disable_int None i s =
        (c_bool (bit (c0_status s) (8 + unat i)), None, mtc0_status (unset_bit (8 + unat i) (c0_status s)) s))"
proof (cases "i < 8")
  case True
  then show ?thesis
    by (simp add: intr_enable_int_def intr_disable_int_def mod_status_bits_def S_SR_IMASK_def line_bits
        add.commute [of "unat i"] not_le [symmetric] del: push_bit_of_1)
next
  case False
  then show ?thesis by (simp add: intr_enable_int_def intr_disable_int_def)
qed

lemma line_enable_exact_witness:
  "fst (intr_enable_int None 9 sb1_state) = 0 \<and>
   c0_status (snd (snd (intr_enable_int None 2 sb1_state))) = 0x401"
  using line_enable_exact [of 9 None sb1_state] line_enable_exact [of 2 None sb1_state]
  by (simp add: sb1_state_def mtc0_status_def set_bit_eq_or)

end
