(* ===== verification/Tlb.thy ===== *)
theory Tlb
  imports Sbmips
begin

text \<open>
  The TLB: \<open>tlb/tlb.h\<close> (the operations), \<open>tlb/tlb_utils.c\<close> (dumping, invalidating,
  \<open>init_tlb\<close>); the self test is theory \<open>Tlbtest\<close>. The hardware is modelled as the repository
  describes it: \<open>tlbtest.c\<close> says which bits of an entry can be written and what becomes of the
  global bits (\<open>set_expectations\<close>), and \<open>tlb_inval.txt\<close> says when entries match and that writing an
  entry that overlaps another is a TLB Shutdown, here the fault \<open>TlbShutdown\<close>.
\<close>

unbundle bit_operations_syntax

section \<open>Entries\<close>

record mips64_tlb_entry =
  entrylo0 :: u64
  entrylo1 :: u64
  entryhi :: u64
  pagemask :: u32

definition writable_entrylo :: u64 where "writable_entrylo = 0x00000003fffffffe"
definition writable_entryhi :: u64 where "writable_entryhi = 0xc0000fffffffe0ff"
definition writable_pagemask :: u32 where "writable_pagemask = 0x07ffe000"

definition set_expectations :: "mips64_tlb_entry \<Rightarrow> mips64_tlb_entry" where
  "set_expectations sp =
     (let lo0 = entrylo0 sp AND writable_entrylo;
          lo1 = entrylo1 sp AND writable_entrylo;
          g = (entrylo0 sp AND entrylo1 sp AND 0x1 \<noteq> 0)
      in \<lparr>entrylo0 = (if g then lo0 OR 0x1 else lo0),
          entrylo1 = (if g then lo1 OR 0x1 else lo1),
          entryhi = entryhi sp AND writable_entryhi,
          pagemask = pagemask sp AND writable_pagemask\<rparr>)"

text \<open>
  The part of an address an entry is compared on, and what it means for an entry to match an
  address in an address space, and for two entries to overlap.
\<close>

definition vpn_mask :: u64 where "vpn_mask = 0xc0000fffffffe000"

definition vpn :: "u64 \<Rightarrow> u64" where "vpn va = va AND vpn_mask"

definition is_global :: "mips64_tlb_entry \<Rightarrow> bool" where
  "is_global e = (entrylo0 e AND 0x1 \<noteq> 0)"

definition asid_of :: "mips64_tlb_entry \<Rightarrow> u64" where
  "asid_of e = entryhi e AND 0xff"

definition tlb_match :: "mips64_tlb_entry \<Rightarrow> u64 \<Rightarrow> u64 \<Rightarrow> bool" where
  "tlb_match e va asid =
     (((vpn (entryhi e) XOR vpn va) AND NOT (ucast (pagemask e)) = 0) \<and>
      (is_global e \<or> asid_of e = asid AND 0xff))"

definition tlb_overlap :: "mips64_tlb_entry \<Rightarrow> mips64_tlb_entry \<Rightarrow> bool" where
  "tlb_overlap e f =
     ((((vpn (entryhi e) XOR vpn (entryhi f)) AND NOT (ucast (pagemask e))) AND NOT (ucast (pagemask f)) = 0) \<and>
      (is_global e \<or> is_global f \<or> asid_of e = asid_of f))"

section \<open>The processor's TLB\<close>

record tlb_state =
  tlb_array :: "nat \<Rightarrow> mips64_tlb_entry"
  tlb_config1 :: u32
  tlb_wired :: u32
  cp0_index :: u32
  cp0_entry :: mips64_tlb_entry   \<comment> \<open>EntryLo0, EntryLo1, EntryHi, PageMask\<close>

definition tlb_size :: "tlb_state \<Rightarrow> nat" where
  "tlb_size s = unat ((drop_bit 25 (tlb_config1 s) AND 0x3f) + 1)"

definition tlbr :: "tlb_state \<Rightarrow> tlb_state" where
  "tlbr s = s\<lparr>cp0_entry := tlb_array s (unat (cp0_index s))\<rparr>"

definition tlbp :: "tlb_state \<Rightarrow> tlb_state" where
  "tlbp s =
     (let hi = entryhi (cp0_entry s)
      in s\<lparr>cp0_index := (case List.find (\<lambda>j. tlb_match (tlb_array s j) hi hi) [0..<tlb_size s] of
                          Some j \<Rightarrow> of_nat j | None \<Rightarrow> 0x80000000)\<rparr>)"

definition tlbwi :: "tlb_state \<Rightarrow> tlb_state res" where
  "tlbwi s =
     (let i = unat (cp0_index s); e = set_expectations (cp0_entry s)
      in if tlb_size s \<le> i then Inl OutOfBounds
         else if list_ex (\<lambda>j. j \<noteq> i \<and> tlb_overlap e (tlb_array s j)) [0..<tlb_size s] then Inl TlbShutdown
         else Inr (s\<lparr>tlb_array := (tlb_array s)(i := e)\<rparr>))"

definition tlb_read :: "nat \<Rightarrow> tlb_state \<Rightarrow> mips64_tlb_entry \<times> tlb_state" where
  "tlb_read i s = (let s' = tlbr (s\<lparr>cp0_index := of_nat i\<rparr>) in (cp0_entry s', s'))"

definition tlb_probe :: "u64 \<Rightarrow> u32 \<Rightarrow> tlb_state \<Rightarrow> int \<times> tlb_state" where
  "tlb_probe va asid s =
     (let hi = (va AND NOT 0x1fff) OR (ucast asid AND 0xff);
          s' = tlbp (s\<lparr>cp0_entry := (cp0_entry s)\<lparr>entryhi := hi\<rparr>\<rparr>)
      in (sint (cp0_index s'), s'))"

definition tlb_write_index :: "nat \<Rightarrow> mips64_tlb_entry \<Rightarrow> tlb_state \<Rightarrow> tlb_state res" where
  "tlb_write_index i e s = tlbwi (s\<lparr>cp0_index := of_nat i, cp0_entry := e\<rparr>)"

text \<open>\<open>tlbwr\<close> writes the entry the Random register names, which the caller does not choose.\<close>

definition tlb_write_random :: "u32 \<Rightarrow> mips64_tlb_entry \<Rightarrow> tlb_state \<Rightarrow> tlb_state res" where
  "tlb_write_random random e s =
     map_sum id (\<lambda>s'. s'\<lparr>cp0_index := cp0_index s\<rparr>) (tlbwi (s\<lparr>cp0_index := random, cp0_entry := e\<rparr>))"

section \<open>\<open>tlb_utils.c\<close>\<close>

definition TLB_INVALID_RANGE :: u64 where "TLB_INVALID_RANGE = 0xffffffffa0000000"
definition TLB_INVALID_ASID :: u32 where "TLB_INVALID_ASID = 0"

definition invalidate_tlb_entry :: "nat \<Rightarrow> u64 \<Rightarrow> tlb_state \<Rightarrow> tlb_state res" where
  "invalidate_tlb_entry i invalid_range_base s =
     tlb_write_index i
       \<lparr>entrylo0 = 0, entrylo1 = 0,
        entryhi = invalid_range_base + 8192 * of_nat i + ucast TLB_INVALID_ASID, pagemask = 0\<rparr> s"

text \<open>The loop that moves the entries to safe addresses, from entry \<open>i\<close> and address \<open>safeaddr\<close>.\<close>

partial_function (option) safe_sweep :: "nat \<Rightarrow> u64 \<Rightarrow> tlb_state \<Rightarrow> tlb_state res option" where
  "safe_sweep i safeaddr s =
     (if i < tlb_size s then
        let (covering_index, s1) = tlb_probe safeaddr TLB_INVALID_ASID s;
            blank = \<lparr>entrylo0 = 0, entrylo1 = 0, entryhi = safeaddr + ucast TLB_INVALID_ASID, pagemask = 0\<rparr>
        in if covering_index \<ge> 0 then
             let (e, s2) = tlb_read (nat covering_index) s1
             in case tlb_write_index (nat covering_index) (e\<lparr>pagemask := 0\<rparr>) s2 of
                  Inl f \<Rightarrow> Some (Inl f)
                | Inr s3 \<Rightarrow>
                    (let (covering_index2, s4) = tlb_probe safeaddr TLB_INVALID_ASID s3
                     in if covering_index2 \<ge> 0 then safe_sweep i (safeaddr + 8192) s4
                        else case tlb_write_index i blank s4 of
                               Inl f \<Rightarrow> Some (Inl f)
                             | Inr s5 \<Rightarrow> safe_sweep (i + 1) (safeaddr + 8192) s5)
           else case tlb_write_index i blank s1 of
                  Inl f \<Rightarrow> Some (Inl f)
                | Inr s5 \<Rightarrow> safe_sweep (i + 1) (safeaddr + 8192) s5
      else Some (Inr s))"

fun invalidate_all :: "u64 \<Rightarrow> nat list \<Rightarrow> tlb_state \<Rightarrow> tlb_state res" where
  "invalidate_all base [] s = Inr s"
| "invalidate_all base (i # is) s = bind_res (invalidate_tlb_entry i base s) (invalidate_all base is)"

definition init_tlb :: "bool \<Rightarrow> u64 \<Rightarrow> tlb_state \<Rightarrow> tlb_state res option" where
  "init_tlb safe invalid_range_base s =
     (let size = tlb_size s
      in case (if safe then safe_sweep 0 (invalid_range_base - of_nat (2 * 8192 * size)) s
               else Some (Inr s)) of
           None \<Rightarrow> None
         | Some r \<Rightarrow> Some (bind_res r (invalidate_all invalid_range_base [0..<size])))"

section \<open>Overlap\<close>

lemma tlb_size_bound: "0 < tlb_size s" "tlb_size s \<le> 64"
proof -
  let ?c = "drop_bit 25 (tlb_config1 s) AND 0x3f"
  have "?c = take_bit 6 (drop_bit 25 (tlb_config1 s))"
    by (simp add: take_bit_eq_mask mask_eq_exp_minus_1)
  then have "unat ?c < 64" by (simp add: unsigned_take_bit_eq take_bit_nat_def)
  then have "unat (?c + 1) = unat ?c + 1"
    by (subst unat_add_lem [THEN iffD1]) simp_all
  with \<open>unat ?c < 64\<close> show "0 < tlb_size s" "tlb_size s \<le> 64" by (simp_all add: tlb_size_def)
qed

lemma tlb_overlap_sym: "tlb_overlap e f = tlb_overlap f e"
proof -
  have "((x XOR y) AND NOT a) AND NOT b = ((y XOR x) AND NOT b) AND NOT a" for x y a b :: u64
    by (rule word_bit_ext) (auto simp: bitwise)
  then show ?thesis by (auto simp: tlb_overlap_def)
qed

lemma match_both_overlap:
  assumes "tlb_match e va asid" and "tlb_match f va asid"
  shows "tlb_overlap e f"
proof -
  have "((x XOR y) AND NOT a) AND NOT b = 0"
    if "(x XOR v) AND NOT a = 0" "(y XOR v) AND NOT b = 0" for x y v a b :: u64
  proof (rule word_bit_ext)
    fix n assume n: "n < LENGTH(64)"
    have "bit ((x XOR v) AND NOT a) n = bit (0 :: u64) n" "bit ((y XOR v) AND NOT b) n = bit (0 :: u64) n"
      using that by simp_all
    with n show "bit (((x XOR y) AND NOT a) AND NOT b) n = bit 0 n"
      by (auto simp: bitwise)
  qed
  with assms show ?thesis by (auto simp: tlb_match_def tlb_overlap_def)
qed

text \<open>Two entries overlap exactly when some address of some address space matches both.\<close>

lemma overlap_match:
  "tlb_overlap e f = (\<exists>va asid. tlb_match e va asid \<and> tlb_match f va asid)"
proof
  assume o: "tlb_overlap e f"
  let ?va = "(entryhi e AND NOT (ucast (pagemask e))) OR (entryhi f AND ucast (pagemask e))"
  let ?asid = "if is_global e then asid_of f else asid_of e"
  have "asid_of x AND 0xff = asid_of x" for x by (simp add: asid_of_def)
  moreover have "(vpn x XOR vpn ((x AND NOT a) OR (y AND a))) AND NOT a = 0" for x y a
    by (rule word_bit_ext) (auto simp: bitwise vpn_def)
  moreover have "(vpn y XOR vpn ((x AND NOT a) OR (y AND a))) AND NOT b =
      ((vpn x XOR vpn y) AND NOT a) AND NOT b" for x y a b
    by (rule word_bit_ext) (auto simp: bitwise vpn_def)
  ultimately have "tlb_match e ?va ?asid \<and> tlb_match f ?va ?asid"
    using o by (auto simp: tlb_match_def tlb_overlap_def)
  then show "\<exists>va asid. tlb_match e va asid \<and> tlb_match f va asid" by blast
qed (auto intro: match_both_overlap)

lemma overlap_shrink:
  assumes "tlb_overlap (e\<lparr>pagemask := 0\<rparr>) f"
  shows "tlb_overlap e f"
proof -
  have "(x AND NOT a) AND NOT b = 0" if "x AND NOT b = 0" for x a b :: u64
  proof -
    have "(x AND NOT a) AND NOT b = (x AND NOT b) AND NOT a"
      by (rule word_bit_ext) (auto simp: bitwise)
    with that show ?thesis by simp
  qed
  with assms show ?thesis by (auto simp: tlb_overlap_def is_global_def asid_of_def)
qed

section \<open>The state\<close>

definition tlb_ok :: "tlb_state \<Rightarrow> bool" where
  "tlb_ok s = (\<forall>i<tlb_size s. \<forall>j<tlb_size s. i \<noteq> j \<longrightarrow> \<not> tlb_overlap (tlb_array s i) (tlb_array s j))"

definition writable_only :: "tlb_state \<Rightarrow> bool" where
  "writable_only s = (\<forall>i<tlb_size s. set_expectations (tlb_array s i) = tlb_array s i)"

definition same_tlb :: "tlb_state \<Rightarrow> tlb_state \<Rightarrow> bool" where
  "same_tlb s t = (tlb_array s = tlb_array t \<and> tlb_config1 s = tlb_config1 t)"

lemma same_tlb_refl [simp]: "same_tlb s s" by (simp add: same_tlb_def)

lemma tlb_size_cong: "tlb_config1 s = tlb_config1 t \<Longrightarrow> tlb_size s = tlb_size t"
  by (simp add: tlb_size_def)

lemma index_roundtrip: "i < 64 \<Longrightarrow> unat (of_nat i :: u32) = i"
  by (simp add: unat_of_nat)

lemma tlb_read_eq:
  "i < 64 \<Longrightarrow> fst (tlb_read i s) = tlb_array s i \<and> same_tlb (snd (tlb_read i s)) s"
  by (simp add: tlb_read_def tlbr_def same_tlb_def index_roundtrip Let_def)

lemma tlb_match_low: "tlb_match e ((va AND NOT 0x1fff) OR (a AND 0xff)) ((va AND NOT 0x1fff) OR (a AND 0xff)) = tlb_match e va a"
proof -
  have l: "(0xff :: u64) = mask 8" "(0x1fff :: u64) = mask 13" by (simp_all add: mask_eq_exp_minus_1)
  have "vpn ((va AND NOT (mask 13)) OR (a AND mask 8)) = vpn va"
  proof -
    have "vpn_mask AND mask 13 = 0" by (simp add: vpn_mask_def mask_eq_exp_minus_1)
    then have "\<not> bit vpn_mask n" if "n < 13" for n
    proof -
      have "\<not> bit (vpn_mask AND mask 13) n" using \<open>vpn_mask AND mask 13 = 0\<close> by simp
      with that show ?thesis by (simp add: bitwise)
    qed
    then show ?thesis unfolding vpn_def by (intro word_bit_ext) (auto simp: bitwise)
  qed
  moreover have "((va AND NOT (mask 13)) OR (a AND mask 8)) AND mask 8 = a AND mask 8"
    by (rule word_bit_ext) (auto simp: bitwise)
  ultimately show ?thesis unfolding l tlb_match_def by (simp del: mask_eq_exp_minus_1)
qed

lemma find_None_upt: "List.find P [0..<n] = None \<longleftrightarrow> (\<forall>j<n. \<not> P j)"
  by (auto simp: find_None_iff)

lemma find_Some_upt: "List.find P [0..<n] = Some j \<Longrightarrow> j < n \<and> P j"
  by (auto simp: find_Some_iff)

lemma tlb_probe_cases:
  obtains (miss) c s1 where "tlb_probe va asid s = (c, s1)" "c < 0" "same_tlb s1 s"
      "\<forall>j<tlb_size s. \<not> tlb_match (tlb_array s j) va (ucast asid)"
  | (hit) j s1 where "tlb_probe va asid s = (int j, s1)" "same_tlb s1 s"
      "j < tlb_size s" "tlb_match (tlb_array s j) va (ucast asid)"
proof -
  let ?hi = "(va AND NOT 0x1fff) OR (ucast asid AND 0xff)"
  let ?s1 = "snd (tlb_probe va asid s)"
  have st: "same_tlb ?s1 s" by (simp add: tlb_probe_def tlbp_def same_tlb_def Let_def)
  show thesis
  proof (cases "List.find (\<lambda>j. tlb_match (tlb_array s j) ?hi ?hi) [0..<tlb_size s]")
    case None
    have "sint (0x80000000 :: u32) < 0" by simp
    then have "tlb_probe va asid s = (sint (0x80000000 :: u32), ?s1)"
      using None by (simp add: tlb_probe_def tlbp_def tlb_size_def Let_def)
    moreover have "\<forall>j<tlb_size s. \<not> tlb_match (tlb_array s j) va (ucast asid)"
      using None unfolding find_None_upt tlb_match_low by blast
    ultimately show thesis using st miss by (metis \<open>sint (0x80000000 :: u32) < 0\<close>)
  next
    case (Some j)
    then have j: "j < tlb_size s" "tlb_match (tlb_array s j) va (ucast asid)"
      using find_Some_upt [OF Some] unfolding tlb_match_low by blast+
    then have "j < 64" using tlb_size_bound(2) [of s] by simp
    then have "sint (of_nat j :: u32) = int j"
      by (simp add: signed_of_nat signed_take_bit_int_eq_self)
    then have "tlb_probe va asid s = (int j, ?s1)"
      using Some by (simp add: tlb_probe_def tlbp_def tlb_size_def Let_def)
    then show thesis using st j hit by blast
  qed
qed

lemma tlb_write_index_eq:
  assumes "i < tlb_size s"
  shows "\<exists>s'. tlb_write_index i e s =
      (if \<exists>j<tlb_size s. j \<noteq> i \<and> tlb_overlap (set_expectations e) (tlb_array s j) then Inl TlbShutdown
       else Inr s') \<and> tlb_array s' = (tlb_array s)(i := set_expectations e) \<and> tlb_config1 s' = tlb_config1 s"
proof -
  have "i < 64" using assms tlb_size_bound(2) [of s] by simp
  then have u: "unat (of_nat i :: u32) = i" by (rule index_roundtrip)
  let ?t = "s\<lparr>cp0_index := of_nat i, cp0_entry := e\<rparr>"
  have t: "tlb_size ?t = tlb_size s" by (rule tlb_size_cong) simp
  have ex: "list_ex P [0..<n] = (\<exists>j<n. P j)" for P n by (auto simp: list_ex_iff)
  show ?thesis
    by (rule exI [of _ "?t\<lparr>tlb_array := (tlb_array s)(i := set_expectations e)\<rparr>"])
      (simp add: tlb_write_index_def tlbwi_def t u not_le [THEN iffD2, OF assms] ex Let_def)
qed

definition blank_at :: "u64 \<Rightarrow> mips64_tlb_entry" where
  "blank_at a = \<lparr>entrylo0 = 0, entrylo1 = 0, entryhi = a AND writable_entryhi, pagemask = 0\<rparr>"

lemma mask_bit_of:
  assumes "NOT m AND (mask b AND NOT (mask a)) = 0" and "a \<le> n" and "n < b" and "n < LENGTH('a)"
  shows "bit (m :: 'a::len word) n"
proof -
  have "\<not> bit (NOT m AND (mask b AND NOT (mask a))) n" using assms(1) by simp
  with assms(2-) show ?thesis by (auto simp: bitwise)
qed

lemma vpn_mask_bit: "13 \<le> n \<Longrightarrow> n < 44 \<Longrightarrow> bit vpn_mask n"
  by (rule mask_bit_of [where a = 13 and b = 44]) (simp_all add: vpn_mask_def mask_eq_exp_minus_1)

lemma blank_facts:
  assumes "a AND 0x1fff = 0"
  shows "vpn (entryhi (blank_at a)) = vpn a" and "asid_of (blank_at a) = 0"
    and "\<not> is_global (blank_at a)" and "set_expectations (blank_at a) = blank_at a"
    and "set_expectations \<lparr>entrylo0 = 0, entrylo1 = 0, entryhi = a + ucast TLB_INVALID_ASID, pagemask = 0\<rparr> = blank_at a"
proof -
  have w: "writable_entryhi AND vpn_mask = vpn_mask" "writable_entryhi AND 0xff = 0xff"
    by (simp_all add: writable_entryhi_def vpn_mask_def)
  show "vpn (entryhi (blank_at a)) = vpn a"
    by (simp add: vpn_def blank_at_def and.assoc w)
  have "a AND 0xff = (a AND 0x1fff) AND 0xff" by (simp add: and.assoc)
  then have "a AND 0xff = 0" using assms by simp
  then show "asid_of (blank_at a) = 0"
    by (simp add: asid_of_def blank_at_def and.assoc w)
  show "\<not> is_global (blank_at a)" by (simp add: is_global_def blank_at_def)
  show "set_expectations (blank_at a) = blank_at a"
    by (simp add: set_expectations_def blank_at_def and.assoc Let_def)
  show "set_expectations \<lparr>entrylo0 = 0, entrylo1 = 0, entryhi = a + ucast TLB_INVALID_ASID, pagemask = 0\<rparr> = blank_at a"
    by (simp add: set_expectations_def blank_at_def TLB_INVALID_ASID_def Let_def)
qed

lemma blank_overlap:
  assumes "a AND 0x1fff = 0"
  shows "tlb_overlap (blank_at a) f = tlb_match f a 0"
proof -
  have "(x XOR y) = (y XOR x)" for x y :: u64 by (rule xor.commute)
  then show ?thesis using blank_facts(1-3) [OF assms]
    by (auto simp: tlb_overlap_def tlb_match_def blank_at_def)
qed

lemma tlb_ok_update:
  assumes "tlb_ok s" and "tlb_array s' = (tlb_array s)(i := e)" and "tlb_config1 s' = tlb_config1 s"
    and "\<forall>j<tlb_size s. j \<noteq> i \<longrightarrow> \<not> tlb_overlap e (tlb_array s j)"
  shows "tlb_ok s'"
  using assms(1,4) tlb_size_cong [OF assms(3)] tlb_overlap_sym
  by (auto simp: tlb_ok_def assms(2))

lemma writable_only_update:
  assumes "writable_only s" and "tlb_array s' = (tlb_array s)(i := e)" and "tlb_config1 s' = tlb_config1 s"
    and "set_expectations e = e"
  shows "writable_only s'"
  using assms(1,4) tlb_size_cong [OF assms(3)] by (simp add: writable_only_def assms(2))

lemma same_tlb_ok: "same_tlb s t \<Longrightarrow> tlb_ok s = tlb_ok t"
  "same_tlb s t \<Longrightarrow> writable_only s = writable_only t" "same_tlb s t \<Longrightarrow> tlb_size s = tlb_size t"
  by (simp_all add: same_tlb_def tlb_ok_def writable_only_def tlb_size_def)

lemma tlb_write_index_ok:
  assumes "i < tlb_size s" and "\<forall>j<tlb_size s. j \<noteq> i \<longrightarrow> \<not> tlb_overlap (set_expectations e) (tlb_array s j)"
  obtains s' where "tlb_write_index i e s = Inr s'"
    and "tlb_array s' = (tlb_array s)(i := set_expectations e)" and "tlb_config1 s' = tlb_config1 s"
proof -
  have n: "\<not> (\<exists>j<tlb_size s. j \<noteq> i \<and> tlb_overlap (set_expectations e) (tlb_array s j))"
    using assms(2) by blast
  from tlb_write_index_eq [OF assms(1), of e] show thesis
    unfolding if_not_P [OF n] using that by blast
qed

lemma put_blank:
  assumes "tlb_ok s" and "writable_only s" and "i < tlb_size s" and "a AND 0x1fff = 0"
    and "\<forall>j<tlb_size s. j \<noteq> i \<longrightarrow> \<not> tlb_match (tlb_array s j) a 0"
  obtains s' where "tlb_write_index i
      \<lparr>entrylo0 = 0, entrylo1 = 0, entryhi = a + ucast TLB_INVALID_ASID, pagemask = 0\<rparr> s = Inr s'"
    and "tlb_array s' = (tlb_array s)(i := blank_at a)" and "tlb_config1 s' = tlb_config1 s"
    and "tlb_ok s'" and "writable_only s'"
proof -
  have no: "\<forall>j<tlb_size s. j \<noteq> i \<longrightarrow> \<not> tlb_overlap (blank_at a) (tlb_array s j)"
    using assms(5) by (simp add: blank_overlap [OF assms(4)])
  obtain s' where s': "tlb_write_index i
      \<lparr>entrylo0 = 0, entrylo1 = 0, entryhi = a + ucast TLB_INVALID_ASID, pagemask = 0\<rparr> s = Inr s'"
    "tlb_array s' = (tlb_array s)(i := blank_at a)" "tlb_config1 s' = tlb_config1 s"
    using tlb_write_index_ok [OF assms(3), of "\<lparr>entrylo0 = 0, entrylo1 = 0,
        entryhi = a + ucast TLB_INVALID_ASID, pagemask = 0\<rparr>"] no
    unfolding blank_facts(5) [OF assms(4)] by blast
  then show thesis
    using tlb_ok_update [OF assms(1) s'(2,3) no] writable_only_update [OF assms(2) s'(2,3) blank_facts(4) [OF assms(4)]]
      that by blast
qed

lemma shrink_entry:
  assumes "tlb_ok s" and "writable_only s" and "c < tlb_size s"
  obtains s' where "tlb_write_index c ((tlb_array s c)\<lparr>pagemask := 0\<rparr>) s = Inr s'"
    and "tlb_array s' = (tlb_array s)(c := (tlb_array s c)\<lparr>pagemask := 0\<rparr>)"
    and "tlb_config1 s' = tlb_config1 s" and "tlb_ok s'" and "writable_only s'"
proof -
  let ?e = "(tlb_array s c)\<lparr>pagemask := 0\<rparr>"
  have "set_expectations (tlb_array s c) = tlb_array s c"
    using assms(2,3) by (simp add: writable_only_def)
  then have e: "set_expectations ?e = ?e"
    by (cases "tlb_array s c") (auto simp: set_expectations_def Let_def)
  have no: "\<forall>j<tlb_size s. j \<noteq> c \<longrightarrow> \<not> tlb_overlap ?e (tlb_array s j)"
    using assms(1,3) overlap_shrink unfolding tlb_ok_def by blast
  obtain s' where s': "tlb_write_index c ?e s = Inr s'"
    "tlb_array s' = (tlb_array s)(c := ?e)" "tlb_config1 s' = tlb_config1 s"
    using tlb_write_index_ok [OF assms(3), of ?e] no unfolding e by blast
  then show thesis
    using tlb_ok_update [OF assms(1) s'(2,3) no] writable_only_update [OF assms(2) s'(2,3) e] that by blast
qed

section \<open>The safe range\<close>

definition safe_addr :: "u64 \<Rightarrow> nat \<Rightarrow> nat \<Rightarrow> u64" where
  "safe_addr base n k = base - of_nat (2 * 8192 * n) + 8192 * of_nat k"

lemma aligned_iff: "a AND 0x1fff = 0 \<longleftrightarrow> take_bit 13 a = 0" for a :: u64
  by (simp add: take_bit_eq_mask mask_eq_exp_minus_1)

lemma safe_addr_aligned:
  assumes "base AND 0x1fff = 0"
  shows "safe_addr base n k AND 0x1fff = 0"
proof -
  have m: "take_bit 13 (8192 * x) = 0" for x :: u64
    using take_bit_push_bit [of 13 13 x] by (simp add: push_bit_eq_mult mult.commute)
  have "base = 8192 * drop_bit 13 base"
    using assms bits_ident [of 13 base] unfolding aligned_iff by (simp add: push_bit_eq_mult mult.commute)
  then have "safe_addr base n k = 8192 * (drop_bit 13 base + (of_nat k - of_nat (2 * n)))"
    by (simp add: safe_addr_def algebra_simps)
  then show ?thesis unfolding aligned_iff by (simp only: m)
qed

lemma vpn_eq_take_bit:
  assumes "vpn a = vpn b" and "a AND 0x1fff = 0" and "b AND 0x1fff = 0"
  shows "take_bit 44 a = take_bit 44 b"
proof (rule word_bit_ext)
  fix i assume "i < LENGTH(64)"
  show "bit (take_bit 44 a) i = bit (take_bit 44 b) i"
  proof (cases "i < 13")
    case True
    have "\<not> bit (take_bit 13 a) i" "\<not> bit (take_bit 13 b) i"
      using assms(2,3) unfolding aligned_iff by simp_all
    with True show ?thesis by (simp add: bit_take_bit_iff)
  next
    case False
    have "bit (vpn a) i = bit (vpn b) i" by (simp add: assms(1))
    then show ?thesis using vpn_mask_bit [of i] False by (auto simp: vpn_def bitwise bit_take_bit_iff)
  qed
qed

lemma diff_take_bit: fixes a b :: u64
  assumes "take_bit 44 a = take_bit 44 b" and "a - b = of_nat m" and "m < 2 ^ 44"
  shows "m = 0"
proof -
  have "a = b + of_nat m" using assms(2) by (simp add: algebra_simps)
  then have "uint a = (uint b + int m) mod 2 ^ 64"
    using assms(3) by (simp add: uint_word_ariths uint_nat [of "of_nat m"] unat_of_nat)
  moreover have "uint a mod 2 ^ 44 = uint b mod 2 ^ 44"
    using assms(1) by (metis take_bit_eq_mod unsigned_take_bit_eq)
  moreover have "(x mod 2 ^ 64) mod 2 ^ 44 = x mod 2 ^ 44" for x :: int
    by (rule mod_mod_cancel) simp
  ultimately have "(uint b + int m) mod 2 ^ 44 = uint b mod 2 ^ 44" by metis
  then have "2 ^ 44 dvd (uint b + int m) - uint b" by (simp only: mod_eq_dvd_iff)
  then have "2 ^ 44 dvd int m" by simp
  then have "2 ^ 44 dvd m" by (metis int_dvd_int_iff of_nat_numeral of_nat_power)
  with assms(3) show ?thesis by (meson dvd_imp_le leD gr0I)
qed
lemma safe_addr_inj:
  assumes "base AND 0x1fff = 0" and "vpn (safe_addr base n p) = vpn (safe_addr base n q)"
    and "p < 2 ^ 20" and "q < 2 ^ 20"
  shows "p = q"
proof -
  have less: "\<not> y < x" if "vpn (safe_addr base n x) = vpn (safe_addr base n y)" "x < 2 ^ 20" "y < 2 ^ 20" for x y
  proof
    assume "y < x"
    let ?d = "safe_addr base n x - safe_addr base n y"
    have "take_bit 44 (safe_addr base n x) = take_bit 44 (safe_addr base n y)"
      by (rule vpn_eq_take_bit [OF that(1)]) (rule safe_addr_aligned [OF assms(1)])+
    moreover have "?d = of_nat (8192 * (x - y))"
      using \<open>y < x\<close> by (simp add: safe_addr_def of_nat_diff algebra_simps)
    ultimately have "8192 * (x - y) = 0"
      using that by (intro diff_take_bit) simp_all
    then show False using \<open>y < x\<close> by simp
  qed
  show ?thesis using less [OF assms(2-4)] less [OF assms(2) [symmetric] assms(4,3)] by simp
qed

section \<open>The sweep\<close>

text \<open>
  The entries still to be moved that sit at a safe address not yet passed: each costs the sweep
  one address, so with the entries left to move they bound the addresses it needs.
\<close>

definition pending :: "u64 \<Rightarrow> nat \<Rightarrow> tlb_state \<Rightarrow> nat \<Rightarrow> nat \<Rightarrow> nat set" where
  "pending base n s i k =
     {j. i \<le> j \<and> j < n \<and> (\<exists>p. k \<le> p \<and> p < 2 * n \<and> vpn (entryhi (tlb_array s j)) = vpn (safe_addr base n p))}"

lemma finite_pending [simp]: "finite (pending base n s i k)"
  by (rule finite_subset [of _ "{..<n}"]) (auto simp: pending_def)

lemma pending_mono:
  assumes "\<And>j. i' \<le> j \<Longrightarrow> j < n \<Longrightarrow> entryhi (tlb_array s' j) = entryhi (tlb_array s j)"
    and "i \<le> i'" and "k \<le> k'"
  shows "pending base n s' i' k' \<subseteq> pending base n s i k"
  using assms by (auto simp: pending_def) (metis le_trans)

definition sweep_inv :: "u64 \<Rightarrow> nat \<Rightarrow> nat \<Rightarrow> nat \<Rightarrow> tlb_state \<Rightarrow> bool" where
  "sweep_inv base n i k s =
     (tlb_ok s \<and> writable_only s \<and> tlb_size s = n \<and> i \<le> n \<and>
      k + card (pending base n s i k) \<le> n + i \<and>
      (\<forall>j<i. \<exists>p<k. tlb_array s j = blank_at (safe_addr base n p)))"

lemma sweep_inv_same: "same_tlb s' s \<Longrightarrow> sweep_inv base n i k s' = sweep_inv base n i k s"
  by (simp add: sweep_inv_def same_tlb_ok [of s' s] pending_def same_tlb_def)

text \<open>Shrinking the covering entry keeps the invariant: no entry changes its address.\<close>

lemma sweep_shrink:
  assumes "sweep_inv base n i k s" and "c < n"
  obtains s' where "tlb_write_index c ((tlb_array s c)\<lparr>pagemask := 0\<rparr>) s = Inr s'"
    and "tlb_array s' = (tlb_array s)(c := (tlb_array s c)\<lparr>pagemask := 0\<rparr>)"
    and "sweep_inv base n i k s'"
proof -
  have s: "tlb_ok s" "writable_only s" "c < tlb_size s" "tlb_size s = n"
    using assms by (simp_all add: sweep_inv_def)
  obtain s' where s': "tlb_write_index c ((tlb_array s c)\<lparr>pagemask := 0\<rparr>) s = Inr s'"
    "tlb_array s' = (tlb_array s)(c := (tlb_array s c)\<lparr>pagemask := 0\<rparr>)"
    "tlb_config1 s' = tlb_config1 s" "tlb_ok s'" "writable_only s'"
    by (rule shrink_entry [OF s(1-3)])
  have "pending base n s' i k = pending base n s i k"
    by (auto simp: pending_def s'(2))
  moreover have "tlb_array s' j = tlb_array s j" if "j < i" for j
    using that assms(1) by (auto simp: sweep_inv_def s'(2) blank_at_def)
  ultimately have "sweep_inv base n i k s'"
    using assms(1) s'(4,5) tlb_size_cong [OF s'(3)] by (simp add: sweep_inv_def)
  with s'(1,2) show thesis by (rule that)
qed

text \<open>Moving entry \<open>i\<close> to a free address, and passing an address that an entry occupies.\<close>

lemma sweep_move:
  assumes "sweep_inv base n i k s" and "i < n" and "base AND 0x1fff = 0"
    and "\<forall>j<n. \<not> tlb_match (tlb_array s j) (safe_addr base n k) 0"
  obtains s' where "tlb_write_index i
      \<lparr>entrylo0 = 0, entrylo1 = 0, entryhi = safe_addr base n k + ucast TLB_INVALID_ASID, pagemask = 0\<rparr> s = Inr s'"
    and "sweep_inv base n (i + 1) (k + 1) s'"
    and "card (pending base n s' (i + 1) (k + 1)) \<le> card (pending base n s i k)"
proof -
  let ?a = "safe_addr base n k"
  have a: "?a AND 0x1fff = 0" by (rule safe_addr_aligned [OF assms(3)])
  have s: "tlb_ok s" "writable_only s" "i < tlb_size s" "tlb_size s = n"
    using assms(1,2) by (simp_all add: sweep_inv_def)
  obtain s' where s': "tlb_write_index i
      \<lparr>entrylo0 = 0, entrylo1 = 0, entryhi = ?a + ucast TLB_INVALID_ASID, pagemask = 0\<rparr> s = Inr s'"
    "tlb_array s' = (tlb_array s)(i := blank_at ?a)" "tlb_config1 s' = tlb_config1 s"
    "tlb_ok s'" "writable_only s'"
    using put_blank [OF s(1-3) a] assms(4) s(4) by metis
  have sub: "pending base n s' (i + 1) (k + 1) \<subseteq> pending base n s i k"
    by (rule pending_mono) (simp_all add: s'(2))
  have c: "card (pending base n s' (i + 1) (k + 1)) \<le> card (pending base n s i k)"
    by (rule card_mono [OF finite_pending sub])
  have p: "\<exists>p<k + 1. tlb_array s' j = blank_at (safe_addr base n p)" if "j < i + 1" for j
  proof (cases "j = i")
    case True
    then show ?thesis by (intro exI [of _ k]) (simp add: s'(2))
  next
    case False
    then have "j < i" using that by simp
    then obtain p where "p < k" "tlb_array s j = blank_at (safe_addr base n p)"
      using assms(1) unfolding sweep_inv_def by blast
    then show ?thesis using False by (intro exI [of _ p]) (simp add: s'(2))
  qed
  have "k + card (pending base n s i k) \<le> n + i" using assms(1) by (simp add: sweep_inv_def)
  with c assms(2) have "k + 1 + card (pending base n s' (i + 1) (k + 1)) \<le> n + (i + 1)" by linarith
  then have "sweep_inv base n (i + 1) (k + 1) s'"
    using p assms(2) s'(4,5) s(4) tlb_size_cong [OF s'(3)] by (simp add: sweep_inv_def)
  with s'(1) show thesis using c by (rule that)
qed

lemma sweep_skip:
  assumes "sweep_inv base n i k s" and "i < n" and "n \<le> 64" and "base AND 0x1fff = 0"
    and "c < n" and "vpn (entryhi (tlb_array s c)) = vpn (safe_addr base n k)"
  shows "sweep_inv base n i (k + 1) s"
    and "card (pending base n s i (k + 1)) < card (pending base n s i k)"
proof -
  have k: "k < 2 * n" using assms(1,2) by (simp add: sweep_inv_def)
  have "\<not> c < i"
  proof
    assume "c < i"
    then obtain p where p: "p < k" "tlb_array s c = blank_at (safe_addr base n p)"
      using assms(1) by (auto simp: sweep_inv_def)
    then have "vpn (safe_addr base n p) = vpn (safe_addr base n k)"
      using assms(6) blank_facts(1) [OF safe_addr_aligned [OF assms(4)]] by simp
    then show False using safe_addr_inj [OF assms(4)] p(1) k assms(3) by fastforce
  qed
  then have "c \<in> pending base n s i k" using assms(5,6) k by (auto simp: pending_def)
  moreover have "c \<notin> pending base n s i (k + 1)"
  proof
    assume "c \<in> pending base n s i (k + 1)"
    then obtain p where p: "k + 1 \<le> p" "p < 2 * n" "vpn (safe_addr base n k) = vpn (safe_addr base n p)"
      using assms(6) by (auto simp: pending_def)
    then show False using safe_addr_inj [OF assms(4) p(3)] k assms(3) by simp
  qed
  moreover have "pending base n s i (k + 1) \<subseteq> pending base n s i k" by (rule pending_mono) simp_all
  ultimately show "card (pending base n s i (k + 1)) < card (pending base n s i k)"
    by (intro psubset_card_mono) auto
  then show "sweep_inv base n i (k + 1) s"
    using assms(1) by (auto simp: sweep_inv_def intro: less_trans)
qed

lemma sweep_done:
  assumes "sweep_inv base n i k s" and "\<not> i < n"
  shows "i = n \<and> (\<forall>j<n. \<exists>p<2 * n. tlb_array s j = blank_at (safe_addr base n p)) \<and> tlb_ok s \<and>
         writable_only s \<and> tlb_size s = n"
proof -
  have "i = n" "k \<le> 2 * n" using assms by (simp_all add: sweep_inv_def)
  then show ?thesis using assms(1) unfolding sweep_inv_def by (meson order_less_le_trans)
qed

lemma safe_addr_Suc: "safe_addr base n k + 8192 = safe_addr base n (k + 1)"
  by (simp add: safe_addr_def algebra_simps)

lemma asid_zero: "ucast TLB_INVALID_ASID = (0 :: u64)"
  by (simp add: TLB_INVALID_ASID_def)

definition sweep_ends :: "u64 \<Rightarrow> nat \<Rightarrow> nat \<Rightarrow> nat \<Rightarrow> tlb_state \<Rightarrow> bool" where
  "sweep_ends base n i k s = (\<exists>s'. safe_sweep i (safe_addr base n k) s = Some (Inr s') \<and>
     (\<forall>j<n. \<exists>p<2 * n. tlb_array s' j = blank_at (safe_addr base n p)) \<and> tlb_ok s' \<and> writable_only s' \<and>
     tlb_size s' = n)"

lemma safe_sweep_ends:
  assumes "n \<le> 64" and "base AND 0x1fff = 0" and "sweep_inv base n i k s"
  shows "sweep_ends base n i k s"
  using assms(3)
proof (induction "(n - i) + card (pending base n s i k)" arbitrary: i k s rule: less_induct)
  case less
  note inv = less.prems
  let ?a = "safe_addr base n k"
  have size: "tlb_size s = n" using inv by (simp add: sweep_inv_def)
  show ?case
  proof (cases "i < n")
    case False
    then show ?thesis using sweep_done [OF inv False] size
      by (simp add: sweep_ends_def) (subst safe_sweep.simps, simp)
  next
    case True
    have move: "\<exists>s5. tlb_write_index i \<lparr>entrylo0 = 0, entrylo1 = 0,
          entryhi = ?a + ucast TLB_INVALID_ASID, pagemask = 0\<rparr> t = Inr s5 \<and> sweep_ends base n (i + 1) (k + 1) s5"
      if t: "sweep_inv base n i k t" "\<forall>j<n. \<not> tlb_match (tlb_array t j) ?a 0"
        "card (pending base n t i k) = card (pending base n s i k)" for t
    proof -
      obtain s5 where s5: "tlb_write_index i \<lparr>entrylo0 = 0, entrylo1 = 0,
          entryhi = ?a + ucast TLB_INVALID_ASID, pagemask = 0\<rparr> t = Inr s5" "sweep_inv base n (i + 1) (k + 1) s5"
        "card (pending base n s5 (i + 1) (k + 1)) \<le> card (pending base n t i k)"
        by (rule sweep_move [OF t(1) True assms(2) t(2)])
      have "n - (i + 1) + card (pending base n s5 (i + 1) (k + 1)) < (n - i) + card (pending base n s i k)"
        using True s5(3) t(3) by linarith
      from less.hyps [OF this s5(2)] s5(1) show ?thesis by blast
    qed
    show ?thesis
    proof (cases rule: tlb_probe_cases [of ?a TLB_INVALID_ASID s])
      case (miss c s1)
      have "sweep_inv base n i k s1" using inv sweep_inv_same [OF miss(3)] by simp
      moreover have "pending base n s1 i k = pending base n s i k"
        using miss(3) by (simp add: pending_def same_tlb_def)
      ultimately obtain s5 where "tlb_write_index i \<lparr>entrylo0 = 0, entrylo1 = 0,
          entryhi = ?a + ucast TLB_INVALID_ASID, pagemask = 0\<rparr> s1 = Inr s5" "sweep_ends base n (i + 1) (k + 1) s5"
        using move [of s1] miss(3,4) unfolding asid_zero size same_tlb_def by auto
      then show ?thesis unfolding sweep_ends_def
        using True miss(1,2) size
        by (subst safe_sweep.simps) (simp add: safe_addr_Suc)
    next
      case (hit c s1)
      have c: "c < n" using hit(3) size by simp
      obtain s2 where s2: "tlb_read c s1 = (tlb_array s c, s2)" "same_tlb s2 s"
        using tlb_read_eq [of c s1] hit(2) c assms(1)
        by (cases "tlb_read c s1") (auto simp: same_tlb_def)
      have inv2: "sweep_inv base n i k s2" using inv sweep_inv_same [OF s2(2)] by simp
      have a2: "tlb_array s2 = tlb_array s" using s2(2) by (simp add: same_tlb_def)
      obtain s3 where s3: "tlb_write_index c ((tlb_array s c)\<lparr>pagemask := 0\<rparr>) s2 = Inr s3"
        "tlb_array s3 = (tlb_array s)(c := (tlb_array s c)\<lparr>pagemask := 0\<rparr>)" "sweep_inv base n i k s3"
        by (rule sweep_shrink [OF inv2 c, unfolded a2])
      have p3: "pending base n s3 i k = pending base n s i k"
        by (auto simp: pending_def s3(2))
      have size3: "tlb_size s3 = n" using s3(3) by (simp add: sweep_inv_def)
      have step: "safe_sweep i ?a s = (let (c2, s4) = tlb_probe ?a TLB_INVALID_ASID s3
          in if c2 \<ge> 0 then safe_sweep i (?a + 8192) s4
             else case tlb_write_index i \<lparr>entrylo0 = 0, entrylo1 = 0,
                         entryhi = ?a + ucast TLB_INVALID_ASID, pagemask = 0\<rparr> s4 of
                    Inl f \<Rightarrow> Some (Inl f)
                  | Inr s5 \<Rightarrow> safe_sweep (i + 1) (?a + 8192) s5)"
        using True size by (subst safe_sweep.simps) (simp add: hit(1) s2(1) s3(1))
      show ?thesis
      proof (cases rule: tlb_probe_cases [of ?a TLB_INVALID_ASID s3])
        case m: (miss d s4)
        have "sweep_inv base n i k s4" using s3(3) sweep_inv_same [OF m(3)] by simp
        moreover have "pending base n s4 i k = pending base n s3 i k"
          using m(3) by (simp add: pending_def same_tlb_def)
        ultimately obtain s5 where "tlb_write_index i \<lparr>entrylo0 = 0, entrylo1 = 0,
            entryhi = ?a + ucast TLB_INVALID_ASID, pagemask = 0\<rparr> s4 = Inr s5" "sweep_ends base n (i + 1) (k + 1) s5"
          using move [of s4] m(3,4) p3 unfolding asid_zero size3 same_tlb_def by auto
        then show ?thesis unfolding sweep_ends_def step
          using m(1,2) by (simp add: safe_addr_Suc)
      next
        case h: (hit d s4)
        have "d = c"
        proof (rule ccontr)
          assume "d \<noteq> c"
          then have "tlb_match (tlb_array s d) ?a 0" using h(4) by (simp add: s3(2) asid_zero)
          moreover have "tlb_match (tlb_array s c) ?a 0" using hit(4) by (simp add: asid_zero)
          ultimately have "tlb_overlap (tlb_array s d) (tlb_array s c)" by (rule match_both_overlap)
          then show False using inv c h(3) size3 \<open>d \<noteq> c\<close> by (simp add: sweep_inv_def tlb_ok_def)
        qed
        have i4: "sweep_inv base n i k s4" using s3(3) sweep_inv_same [OF h(2)] by simp
        have a4: "tlb_array s4 = tlb_array s3" using h(2) by (simp add: same_tlb_def)
        have "vpn (entryhi (tlb_array s4 c)) = vpn ?a"
          using h(4) by (simp add: a4 s3(2) tlb_match_def \<open>d = c\<close> xor_zero_eq)
        note sk = sweep_skip [OF i4 True assms(1,2) c this]
        have "pending base n s4 i k = pending base n s i k"
          using p3 by (simp add: pending_def a4)
        then have "n - i + card (pending base n s4 i (k + 1)) < (n - i) + card (pending base n s i k)"
          using sk(2) by simp
        from less.hyps [OF this sk(1)] show ?thesis
          unfolding sweep_ends_def step using h(1) by (simp add: safe_addr_Suc)
      qed
    qed
  qed
qed

section \<open>The canonical invalid TLB\<close>

lemma blank_match:
  assumes "base AND 0x1fff = 0" and "tlb_match (blank_at (safe_addr base n p)) (safe_addr base n q) 0"
    and "p < 2 ^ 20" and "q < 2 ^ 20"
  shows "p = q"
proof -
  have "pagemask (blank_at (safe_addr base n p)) = 0" by (simp add: blank_at_def)
  then have "vpn (safe_addr base n p) = vpn (safe_addr base n q)"
    using assms(2) blank_facts(1) [OF safe_addr_aligned [OF assms(1)]]
    by (simp add: tlb_match_def xor_zero_eq)
  then show ?thesis by (rule safe_addr_inj [OF assms(1)]) (use assms in simp_all)
qed

lemma canonical_addr: "base + 8192 * of_nat i = safe_addr base n (2 * n + i)"
  by (simp add: safe_addr_def algebra_simps)

definition canonical_upto :: "u64 \<Rightarrow> nat \<Rightarrow> nat \<Rightarrow> tlb_state \<Rightarrow> bool" where
  "canonical_upto base n i s =
     (tlb_ok s \<and> writable_only s \<and> tlb_size s = n \<and>
      (\<forall>j<i. tlb_array s j = blank_at (base + 8192 * of_nat j)) \<and>
      (\<forall>j. i \<le> j \<and> j < n \<longrightarrow> (\<exists>p<2 * n. tlb_array s j = blank_at (safe_addr base n p))))"

lemma invalidate_step:
  assumes "canonical_upto base n i s" and "i < n" and "n \<le> 64" and "base AND 0x1fff = 0"
  obtains s' where "invalidate_tlb_entry i base s = Inr s'" and "canonical_upto base n (i + 1) s'"
proof -
  let ?a = "safe_addr base n (2 * n + i)"
  have s: "tlb_ok s" "writable_only s" "tlb_size s = n" using assms(1) by (simp_all add: canonical_upto_def)
  have none: "\<not> tlb_match (tlb_array s j) ?a 0" if "j < n" "j \<noteq> i" for j
  proof
    assume m: "tlb_match (tlb_array s j) ?a 0"
    obtain p where p: "p < 3 * n" "p \<noteq> 2 * n + i" "tlb_array s j = blank_at (safe_addr base n p)"
    proof (cases "j < i")
      case True
      with assms(1) have "tlb_array s j = blank_at (safe_addr base n (2 * n + j))"
        by (simp add: canonical_upto_def canonical_addr [of base j n])
      with True that assms(2) show ?thesis by (intro that [of "2 * n + j"]) simp_all
    next
      case False
      with assms(1) \<open>j < n\<close> obtain p where "p < 2 * n" "tlb_array s j = blank_at (safe_addr base n p)"
        unfolding canonical_upto_def by (meson not_less)
      then show ?thesis by (intro that [of p]) simp_all
    qed
    then have "p = 2 * n + i"
      using blank_match [OF assms(4), of n p "2 * n + i"] m assms(2,3) by simp
    with p(2) show False ..
  qed
  obtain s' where s': "tlb_write_index i
      \<lparr>entrylo0 = 0, entrylo1 = 0, entryhi = ?a + ucast TLB_INVALID_ASID, pagemask = 0\<rparr> s = Inr s'"
    "tlb_array s' = (tlb_array s)(i := blank_at ?a)" "tlb_config1 s' = tlb_config1 s"
    "tlb_ok s'" "writable_only s'"
    using put_blank [OF s(1,2) _ safe_addr_aligned [OF assms(4)], of i n "2 * n + i"] none assms(2)
    unfolding s(3) by blast
  have "canonical_upto base n (i + 1) s'"
    using assms(1) s' tlb_size_cong [OF s'(3)] unfolding canonical_upto_def
    by (auto simp: canonical_addr [of base _ n] less_Suc_eq)
  moreover have "invalidate_tlb_entry i base s = Inr s'"
    using s'(1) by (simp add: invalidate_tlb_entry_def canonical_addr [of base i n])
  ultimately show thesis using that by blast
qed

lemma invalidate_all_ends:
  assumes "canonical_upto base n i s" and "i \<le> n" and "n \<le> 64" and "base AND 0x1fff = 0"
  shows "\<exists>s'. invalidate_all base [i..<n] s = Inr s' \<and> canonical_upto base n n s'"
  using assms(1,2)
proof (induction "n - i" arbitrary: i s)
  case 0
  then show ?case by simp
next
  case (Suc d)
  then have i: "i < n" by simp
  obtain s1 where s1: "invalidate_tlb_entry i base s = Inr s1" "canonical_upto base n (i + 1) s1"
    by (rule invalidate_step [OF Suc.prems(1) i assms(3,4)])
  moreover have "\<exists>s'. invalidate_all base [i + 1..<n] s1 = Inr s' \<and> canonical_upto base n n s'"
    using Suc.hyps i s1(2) by simp
  ultimately show ?case using i by (simp add: upt_conv_Cons)
qed

lemma init_tlb_safe_ends:
  assumes "tlb_ok s" and "writable_only s" and "base AND 0x1fff = 0"
  shows "\<exists>s'. init_tlb True base s = Some (Inr s') \<and> canonical_upto base (tlb_size s) (tlb_size s) s'"
proof -
  let ?n = "tlb_size s"
  have n: "?n \<le> 64" by (rule tlb_size_bound)
  have "card (pending base ?n s 0 0) \<le> card {..<?n}"
    by (rule card_mono) (auto simp: pending_def)
  then have "sweep_inv base ?n 0 0 s" using assms by (simp add: sweep_inv_def)
  then have "sweep_ends base ?n 0 0 s" by (rule safe_sweep_ends [OF n assms(3)])
  then obtain s1 where s1: "safe_sweep 0 (base - of_nat (2 * 8192 * ?n)) s = Some (Inr s1)"
    "canonical_upto base ?n 0 s1"
    by (auto simp: sweep_ends_def canonical_upto_def safe_addr_def)
  from invalidate_all_ends [OF s1(2) _ n assms(3)] s1(1) show ?thesis
    by (simp add: init_tlb_def Let_def)
qed

section \<open>Properties\<close>

text \<open>
  C13: Started on any TLB without overlapping entries, whatever its entries map and whichever
  page sizes they have, \<open>init_tlb\<close> in safe mode terminates, never writes an entry that overlaps
  another (no TLB Shutdown), and leaves entry \<open>i\<close> invalid at \<open>invalid_range_base + 8192 * i\<close>.
\<close>

theorem init_tlb_safe_no_shutdown:
  assumes "tlb_ok s" and "writable_only s" and "base AND 0x1fff = 0"
  shows "\<exists>s'. init_tlb True base s = Some (Inr s') \<and> tlb_ok s' \<and>
           (\<forall>i<tlb_size s. tlb_array s' i = blank_at (base + 8192 * of_nat i))"
  using init_tlb_safe_ends [OF assms] unfolding canonical_upto_def by blast

text \<open>A TLB of four entries as firmware might leave it: a large global mapping over the safe range.\<close>

definition firmware_tlb :: tlb_state where
  "firmware_tlb =
    \<lparr>tlb_array = (\<lambda>i. if i = 0 then \<lparr>entrylo0 = 7, entrylo1 = 7, entryhi = 0xc0000fff9e000000, pagemask = 0x01ffe000\<rparr>
                     else blank_at (TLB_INVALID_RANGE + 8192 * (of_nat i - 1))),
     tlb_config1 = 0x06000000, tlb_wired = 0, cp0_index = 0,
     cp0_entry = \<lparr>entrylo0 = 0, entrylo1 = 0, entryhi = 0, pagemask = 0\<rparr>\<rparr>"

lemma firmware_tlb_size [simp]: "tlb_size firmware_tlb = 4"
  by (simp add: tlb_size_def firmware_tlb_def)

lemma less4: "(i :: nat) < 4 \<longleftrightarrow> i = 0 \<or> i = 1 \<or> i = 2 \<or> i = 3"
  by auto

lemma firmware_tlb_entries:
  "tlb_array firmware_tlb 0 = \<lparr>entrylo0 = 7, entrylo1 = 7, entryhi = 0xc0000fff9e000000, pagemask = 0x01ffe000\<rparr>"
  "tlb_array firmware_tlb (Suc 0) = \<lparr>entrylo0 = 0, entrylo1 = 0, entryhi = 0xc0000fffa0000000, pagemask = 0\<rparr>"
  "tlb_array firmware_tlb 2 = \<lparr>entrylo0 = 0, entrylo1 = 0, entryhi = 0xc0000fffa0002000, pagemask = 0\<rparr>"
  "tlb_array firmware_tlb 3 = \<lparr>entrylo0 = 0, entrylo1 = 0, entryhi = 0xc0000fffa0004000, pagemask = 0\<rparr>"
  by (simp_all add: firmware_tlb_def blank_at_def TLB_INVALID_RANGE_def writable_entryhi_def)

lemma firmware_tlb_ok: "tlb_ok firmware_tlb" "writable_only firmware_tlb"
  by (simp_all add: tlb_ok_def writable_only_def less4 firmware_tlb_entries tlb_overlap_def vpn_def
      vpn_mask_def is_global_def asid_of_def set_expectations_def writable_entryhi_def
      writable_entrylo_def writable_pagemask_def all_conj_distrib imp_conjL Let_def)

lemma init_tlb_safe_no_shutdown_witness:
  "\<exists>s'. init_tlb True TLB_INVALID_RANGE firmware_tlb = Some (Inr s') \<and>
     tlb_array s' 3 = blank_at 0xffffffffa0006000"
proof -
  have "TLB_INVALID_RANGE AND 0x1fff = 0" by (simp add: TLB_INVALID_RANGE_def)
  from init_tlb_safe_no_shutdown [OF firmware_tlb_ok this] show ?thesis
    by (auto simp: TLB_INVALID_RANGE_def)
qed


end
