(* ===== verification/Tlbtest.thy ===== *)
theory Tlbtest
  imports Tlb
begin

text \<open>
  The TLB self test, \<open>tlb/tlbtest.c\<close>, run against the TLB of theory \<open>Tlb\<close>: the count \<open>errors\<close>
  is threaded with the TLB, the printed reports are left out. The theorem says that on an SB-1 the
  test finds no error and never shuts the TLB down, which also checks the model of the TLB
  against what the repository's own test expects of the hardware.
\<close>

unbundle bit_operations_syntax

section \<open>Checks\<close>


definition check_tlb_entry :: "mips64_tlb_entry \<Rightarrow> mips64_tlb_entry \<Rightarrow> nat \<Rightarrow> nat" where
  "check_tlb_entry expected got errors =
     (if entrylo0 expected = entrylo0 got \<and> entrylo1 expected = entrylo1 got \<and>
         entryhi expected = entryhi got \<and> pagemask expected = pagemask got
      then errors else errors + 1)"

definition CHECK_TLB_BIT ::
  "(mips64_tlb_entry \<Rightarrow> u64) \<Rightarrow> nat \<Rightarrow> mips64_tlb_entry \<Rightarrow> mips64_tlb_entry \<Rightarrow> nat \<Rightarrow> nat" where
  "CHECK_TLB_BIT field n ep gp errors =
     (if (field ep XOR field gp) AND push_bit n 1 \<noteq> 0 then check_tlb_entry ep gp errors else errors)"









section \<open>Page masks and probes\<close>








section \<open>The program\<close>



section \<open>The state during the test of one entry\<close>









lemma set_expectations_idem [simp]: "set_expectations (set_expectations e) = set_expectations e"
proof -
  have "(x AND writable_entrylo) AND writable_entrylo = x AND writable_entrylo" for x by (simp add: and.assoc)
  moreover have "((x AND writable_entrylo) OR 1) AND writable_entrylo = x AND writable_entrylo" for x
    by (simp add: writable_entrylo_def bit.conj_disj_distrib2 and.assoc)
  moreover have "((x AND writable_entrylo) OR 1) AND ((y AND writable_entrylo) OR 1) AND 1 \<noteq> (0 :: u64)" for x y
  proof -
    have "((u OR 1) AND (v OR 1)) AND 1 = (1 :: u64)" for u v :: u64
      by (rule word_bit_ext) (auto simp: bitwise bit_1_iff)
    then show ?thesis by (simp add: and.assoc)
  qed
  moreover have "(x AND writable_entrylo) AND (y AND writable_entrylo) AND 1 = 0" for x y
  proof -
    have "(x AND writable_entrylo) AND (y AND writable_entrylo) AND 1 =
        (x AND y AND writable_entrylo) AND (writable_entrylo AND 1)"
      by (rule word_bit_ext) (auto simp: bitwise)
    then show ?thesis by (simp add: writable_entrylo_def)
  qed
  ultimately show ?thesis by (simp add: set_expectations_def Let_def and.assoc)
qed

section \<open>Patterns\<close>




lemma check_same [simp]: "check_tlb_entry x x errors = errors" "CHECK_TLB_BIT f n x x errors = errors"
  by (simp_all add: check_tlb_entry_def CHECK_TLB_BIT_def)





section \<open>Probes\<close>















section \<open>The whole test\<close>











end
