(* ===== verification/Clib.thy ===== *)
theory Clib
  imports Prelude
begin

text \<open>
  The parts of the C library that the host programs call and that have a model: the numbers that
  \<open>printf\<close> prints and the options that \<open>getopt\<close> reads.
\<close>

section \<open>printf\<close>

definition hex_char :: "nat \<Rightarrow> char" where
  "hex_char n = ''0123456789abcdef'' ! n"

text \<open>The digits of a number in a base, at least one of them; a field is padded to its width.\<close>

function digits_of :: "nat \<Rightarrow> nat \<Rightarrow> string" where
  "digits_of b n = (if b < 2 \<or> n < b then [hex_char n] else digits_of b (n div b) @ [hex_char (n mod b)])"
  by auto
termination
  by (relation "measure snd") (auto intro: div_less_dividend)

declare digits_of.simps [simp del]

definition show_dec :: "'a::len word \<Rightarrow> string" where
  "show_dec x = digits_of 10 (unat x)"

definition pad_left :: "char \<Rightarrow> nat \<Rightarrow> string \<Rightarrow> string" where
  "pad_left c w s = replicate (w - length s) c @ s"

definition pad_right :: "nat \<Rightarrow> string \<Rightarrow> string" where
  "pad_right w s = s @ replicate (w - length s) CHR '' ''"

definition show_hex :: "nat \<Rightarrow> 'a::len word \<Rightarrow> string" where
  "show_hex w x = pad_left CHR ''0'' w (digits_of 16 (unat x))"

section \<open>getopt\<close>

text \<open>
  \<open>argopts\<close> are the letters that take a value, \<open>flagopts\<close> the others. \<open>getopt_cluster\<close> reads the
  letters after one dash; an option that takes a value takes the rest of its word or the next
  word. Whether words that are not options are skipped and kept for later (GNU) or end the
  options (POSIX) is \<open>permute\<close>.
\<close>

datatype opt_event = Opt char string | BadOpt

fun getopt_cluster :: "string \<Rightarrow> string \<Rightarrow> string \<Rightarrow> string list \<Rightarrow> opt_event list \<times> string list" where
  "getopt_cluster argopts flagopts [] args = ([], args)"
| "getopt_cluster argopts flagopts (c # cs) args =
     (if c \<in> set argopts then
        (if cs \<noteq> [] then ([Opt c cs], args)
         else (case args of [] \<Rightarrow> ([BadOpt], []) | a # args' \<Rightarrow> ([Opt c a], args')))
      else let (evs, args') = getopt_cluster argopts flagopts cs args
           in ((if c \<in> set flagopts then Opt c [] else BadOpt) # evs, args'))"

lemma getopt_cluster_length: "length (snd (getopt_cluster ao fo cs args)) \<le> length args"
  by (induction ao fo cs args rule: getopt_cluster.induct) (auto split: list.splits prod.splits)

function getopt :: "string \<Rightarrow> string \<Rightarrow> bool \<Rightarrow> string list \<Rightarrow> opt_event list \<times> string list" where
  "getopt argopts flagopts permute [] = ([], [])"
| "getopt argopts flagopts permute (a # args) =
     (if a = ''--'' then ([], args)
      else if take 1 a = ''-'' \<and> a \<noteq> ''-'' then
        let (evs, args') = getopt_cluster argopts flagopts (drop 1 a) args;
            (evs', operands) = getopt argopts flagopts permute args'
        in (evs @ evs', operands)
      else if permute then (let (evs, operands) = getopt argopts flagopts permute args in (evs, a # operands))
      else ([], a # args))"
  by pat_completeness auto
termination
proof (relation "measure (\<lambda>(ao, fo, p, args). length args)")
  fix ao fo permute a args x evs args'
  assume "x = getopt_cluster ao fo (drop 1 a) args" "(evs, args') = x"
  then show "((ao, fo, permute, args'), ao, fo, permute, a # args) \<in> measure (\<lambda>(ao, fo, p, args). length args)"
    using getopt_cluster_length [of ao fo "drop 1 a" args] by (auto dest: sym)
qed auto

end
