(* ===== verification/TlbConvert.thy ===== *)
theory TlbConvert
  imports Tlb Clib
begin

text \<open>
  The host tool \<open>tlb/tlbconvert.c\<close>: it builds the registers of a TLB entry from addresses and
  attributes, or reads an entry's registers, and prints what they mean. A run is a function from
  the argument list to the values it prints (\<open>tlb_report\<close>, in the order of the \<open>printf\<close> lines) or
  to \<open>exit (EXIT_FAILURE)\<close>. Of the C library it uses \<open>getopt\<close> and \<open>strtoull\<close> with base 0, which
  are written out. Warnings on \<open>stderr\<close> are left out.
\<close>

unbundle bit_operations_syntax

section \<open>Reading numbers\<close>

definition c_isspace :: "char \<Rightarrow> bool" where
  "c_isspace c = (c \<in> set [CHR '' '', CHR 0x09, CHR 0x0A, CHR 0x0B, CHR 0x0C, CHR 0x0D])"

definition digit_of :: "char \<Rightarrow> nat option" where
  "digit_of c =
     (let n = of_char c :: nat
      in if 48 \<le> n \<and> n \<le> 57 then Some (n - 48)
         else if 97 \<le> n \<and> n \<le> 122 then Some (n - 87)
         else if 65 \<le> n \<and> n \<le> 90 then Some (n - 55)
         else None)"

definition digit_in :: "nat \<Rightarrow> char \<Rightarrow> bool" where
  "digit_in base c = (case digit_of c of Some d \<Rightarrow> d < base | None \<Rightarrow> False)"

fun scan_digits :: "nat \<Rightarrow> nat \<Rightarrow> string \<Rightarrow> nat \<times> string" where
  "scan_digits base acc [] = (acc, [])"
| "scan_digits base acc (c # cs) =
     (if digit_in base c then scan_digits base (base * acc + the (digit_of c)) cs else (acc, c # cs))"

text \<open>The base 0 of \<open>strtoull\<close> takes from the text: \<open>0x\<close> before a digit, a leading \<open>0\<close>, or ten.\<close>

fun base_prefix :: "string \<Rightarrow> nat \<times> string" where
  "base_prefix (z # x # d # cs) =
     (if z = CHR ''0'' \<and> (x = CHR ''x'' \<or> x = CHR ''X'') \<and> digit_in 16 d then (16, d # cs)
      else (if z = CHR ''0'' then 8 else 10, z # x # d # cs))"
| "base_prefix (z # cs) = (if z = CHR ''0'' then 8 else 10, z # cs)"
| "base_prefix [] = (10, [])"

fun sign_prefix :: "string \<Rightarrow> bool \<times> string" where
  "sign_prefix (c # cs) =
     (if c = CHR ''-'' then (True, cs) else if c = CHR ''+'' then (False, cs) else (False, c # cs))"
| "sign_prefix [] = (False, [])"

text \<open>The value, what \<open>end\<close> points at, and whether \<open>errno\<close> became \<open>ERANGE\<close>.\<close>

definition strtoull :: "string \<Rightarrow> u64 \<times> string \<times> bool" where
  "strtoull str =
     (let (neg, s) = sign_prefix (dropWhile c_isspace str);
          (base, digits) = base_prefix s
      in case digits of
           [] \<Rightarrow> (0, str, False)
         | d # _ \<Rightarrow>
             if \<not> digit_in base d then (0, str, False)
             else let (n, rest) = scan_digits base 0 digits
                  in if n \<ge> 2 ^ 64 then (- 1, rest, True)
                     else ((if neg then - of_nat n else of_nat n), rest, False))"

definition string_to_ull :: "string \<Rightarrow> u64 \<Rightarrow> u64 \<Rightarrow> u64 res" where
  "string_to_ull str lower upper =
     (let (val, end_ptr, erange) = strtoull str
      in if (val = NOT 0 \<and> erange) \<or> end_ptr \<noteq> [] then Inl Exited
         else if val < lower \<or> val > upper then Inl Exited
         else Inr val)"

section \<open>Registers and fields\<close>

definition MIN_PAGESIZE_INDEX :: nat where "MIN_PAGESIZE_INDEX = 12"
definition MAX_PAGESIZE_INDEX :: nat where "MAX_PAGESIZE_INDEX = 26"
definition ASID_DEFAULT :: u32 where "ASID_DEFAULT = 0"
definition PAGE_SHIFT_DEFAULT :: nat where "PAGE_SHIFT_DEFAULT = 12"
definition CCA_DEFAULT :: u32 where "CCA_DEFAULT = 5"

definition VA_TO_VPN2 :: "u64 \<Rightarrow> u64" where "VA_TO_VPN2 x = drop_bit S_TLBHI_VPN2 x"
definition VPN2_TO_VA :: "u64 \<Rightarrow> u64" where "VPN2_TO_VA x = push_bit S_TLBHI_VPN2 x"
definition PA_TO_PFN :: "u64 \<Rightarrow> u64" where "PA_TO_PFN x = drop_bit MIN_PAGESIZE_INDEX x"
definition PFN_TO_PA :: "u64 \<Rightarrow> u64" where "PFN_TO_PA x = push_bit MIN_PAGESIZE_INDEX x"

text \<open>\<open>PGSIZE_TO_PGMASK\<close> works at the width of the page size, \<open>PGMASK_TO_PGSIZE\<close> at the register's.\<close>

definition PGSIZE_TO_PGMASK :: "u64 \<Rightarrow> u64" where
  "PGSIZE_TO_PGMASK x = push_bit 13 (drop_bit MIN_PAGESIZE_INDEX (x - 1))"

definition PGMASK_TO_PGSIZE :: "u32 \<Rightarrow> u32" where
  "PGMASK_TO_PGSIZE x =
     (push_bit MIN_PAGESIZE_INDEX (G_TLB_PGMSK x) OR (push_bit (MIN_PAGESIZE_INDEX + 1) 1 - 1)) + 1"

definition C0_TLBLO_REG :: "u64 \<Rightarrow> u32 \<Rightarrow> u32 \<Rightarrow> u32 \<Rightarrow> u32 \<Rightarrow> u64" where
  "C0_TLBLO_REG pfn cca d v g =
     V_TLBLO_PFNMASK pfn OR V_TLBLO_CALG (scast cca) OR V_TLBLO_D (scast d) OR V_TLBLO_V (scast v) OR
     V_TLBLO_G (scast g)"

definition C0_TLBHI_REG :: "u64 \<Rightarrow> u32 \<Rightarrow> u64" where
  "C0_TLBHI_REG va asid = V_TLBHI_VPN2 va OR V_TLBHI_ASID (scast asid)"

section \<open>What is printed\<close>

text \<open>\<open>0x%016llx\<close> and \<open>0x%08x\<close>: sixteen and eight digits are as many as the value can have.\<close>

definition print_hex :: "nat \<Rightarrow> 'a::len word \<Rightarrow> string" where
  "print_hex w x =
     ''0x'' @ map (\<lambda>k. hex_char (unat (drop_bit (4 * k) x AND 0xf))) (rev [0..<w])"

record page_report =
  page_pa :: u64
  page_pfn :: u64
  page_cca :: u64
  page_d :: u64
  page_v :: u64

record tlb_report =
  rep_entryhi :: string
  rep_entrylo0 :: string
  rep_entrylo1 :: string
  rep_pagemask :: string
  rep_va :: u64
  rep_asid :: u64
  rep_g :: bool
  rep_page_size :: u32
  rep_page0 :: page_report
  rep_page1 :: page_report

definition report_page :: "u64 \<Rightarrow> page_report" where
  "report_page lo =
     \<lparr>page_pa = PFN_TO_PA (G_TLBLO_PFNMASK lo), page_pfn = G_TLBLO_PFNMASK lo,
      page_cca = G_TLBLO_CALG lo, page_d = G_TLBLO_D lo, page_v = G_TLBLO_V lo\<rparr>"

definition dump_tlb_entry :: "mips64_tlb_entry \<Rightarrow> tlb_report" where
  "dump_tlb_entry e =
     \<lparr>rep_entryhi = print_hex 16 (entryhi e), rep_entrylo0 = print_hex 16 (entrylo0 e),
      rep_entrylo1 = print_hex 16 (entrylo1 e), rep_pagemask = print_hex 8 (pagemask e),
      rep_va = VPN2_TO_VA (G_TLBHI_VPN2 (entryhi e)), rep_asid = G_TLBHI_ASID (entryhi e),
      rep_g = (G_TLBLO_G (entrylo0 e) \<noteq> 0 \<and> G_TLBLO_G (entrylo1 e) \<noteq> 0),
      rep_page_size = PGMASK_TO_PGSIZE (pagemask e),
      rep_page0 = report_page (entrylo0 e), rep_page1 = report_page (entrylo1 e)\<rparr>"

section \<open>Decoding and encoding\<close>

definition decode :: "string \<Rightarrow> string \<Rightarrow> string \<Rightarrow> string option \<Rightarrow> tlb_report res" where
  "decode entryhi_str entrylo0_str entrylo1_str pagemask_str =
     bind_res (string_to_ull entryhi_str 0 0xffffffffffffffff) (\<lambda>hi.
     bind_res (string_to_ull entrylo0_str 0 0xffffffffffffffff) (\<lambda>lo0.
     bind_res (string_to_ull entrylo1_str 0 0xffffffffffffffff) (\<lambda>lo1.
     bind_res (case pagemask_str of None \<Rightarrow> Inr 0
               | Some str \<Rightarrow> string_to_ull str 0 0x00000000ffffffff) (\<lambda>pm.
       Inr (dump_tlb_entry
         \<lparr>entrylo0 = lo0, entrylo1 = lo1, entryhi = hi, pagemask = ucast pm\<rparr>)))))"

definition encode ::
  "string \<Rightarrow> string \<Rightarrow> string option \<Rightarrow> nat \<Rightarrow> u32 \<Rightarrow> u32 \<Rightarrow> u32 \<Rightarrow> u32 \<Rightarrow> u32 \<Rightarrow> tlb_report res" where
  "encode va_str pa0_str pa1_str page_shift cca asid dirty global valid =
     (let page_size = push_bit page_shift 1;
          pa_mask = NOT (page_size - 1);
          va_mask = NOT (2 * page_size - 1)
      in bind_res (string_to_ull va_str 0 0xffffffffffffffff) (\<lambda>va0.
         let va = (if va0 AND va_mask \<noteq> va0 then va0 AND va_mask else va0)
         in bind_res (string_to_ull pa0_str 0 0xffffffffffffffff) (\<lambda>pa00.
            let pa0 = (if pa00 AND pa_mask \<noteq> pa00 then pa00 AND pa_mask else pa00)
            in bind_res (case pa1_str of Some str \<Rightarrow> string_to_ull str 0 0xffffffffffffffff
                         | None \<Rightarrow> Inr (pa0 + page_size)) (\<lambda>pa10.
               let pa1 = (if pa10 AND pa_mask \<noteq> pa10 then pa10 AND pa_mask else pa10)
               in Inr (dump_tlb_entry
                    \<lparr>entrylo0 = C0_TLBLO_REG (PA_TO_PFN pa0) cca dirty valid global,
                     entrylo1 = C0_TLBLO_REG (PA_TO_PFN pa1) cca dirty valid global,
                     entryhi = C0_TLBHI_REG (VA_TO_VPN2 va) asid,
                     pagemask = ucast (PGSIZE_TO_PGMASK page_size)\<rparr>)))))"

section \<open>The program\<close>

record convert_opts =
  dflag :: bool
  eflag :: bool
  Dflag :: bool
  Gflag :: bool
  Vflag :: bool
  aflag :: bool
  cflag :: bool
  sflag :: bool
  opt_page_shift :: nat
  opt_cca :: u32
  opt_asid :: u32
  opt_valid :: u32
  opt_global :: u32
  opt_dirty :: u32

definition convert_defaults :: convert_opts where
  "convert_defaults =
     \<lparr>dflag = False, eflag = False, Dflag = False, Gflag = False, Vflag = False, aflag = False,
      cflag = False, sflag = False, opt_page_shift = PAGE_SHIFT_DEFAULT, opt_cca = CCA_DEFAULT,
      opt_asid = ASID_DEFAULT, opt_valid = 1, opt_global = 1, opt_dirty = 1\<rparr>"

definition convert_opt :: "char \<Rightarrow> string \<Rightarrow> convert_opts \<Rightarrow> convert_opts res" where
  "convert_opt c optarg opts =
     (if c = CHR ''D'' then Inr (opts\<lparr>Dflag := True, opt_dirty := 0\<rparr>)
      else if c = CHR ''G'' then Inr (opts\<lparr>Gflag := True, opt_global := 0\<rparr>)
      else if c = CHR ''V'' then Inr (opts\<lparr>Vflag := True, opt_valid := 0\<rparr>)
      else if c = CHR ''a'' then
        map_sum id (\<lambda>v. opts\<lparr>aflag := True, opt_asid := ucast v\<rparr>) (string_to_ull optarg 0 0xff)
      else if c = CHR ''c'' then
        map_sum id (\<lambda>v. opts\<lparr>cflag := True, opt_cca := ucast v\<rparr>) (string_to_ull optarg 0 7)
      else if c = CHR ''d'' then Inr (opts\<lparr>dflag := True\<rparr>)
      else if c = CHR ''e'' then Inr (opts\<lparr>eflag := True\<rparr>)
      else if c = CHR ''s'' then
        bind_res (string_to_ull optarg (of_nat MIN_PAGESIZE_INDEX) (of_nat MAX_PAGESIZE_INDEX)) (\<lambda>v.
          if unat v mod 2 \<noteq> 0 then Inl Exited
          else Inr (opts\<lparr>sflag := True, opt_page_shift := unat v\<rparr>))
      else Inl Exited)"

fun convert_options :: "opt_event list \<Rightarrow> convert_opts \<Rightarrow> convert_opts res" where
  "convert_options [] opts = Inr opts"
| "convert_options (BadOpt # evs) opts = Inl Exited"
| "convert_options (Opt c optarg # evs) opts =
     bind_res (convert_opt c optarg opts) (convert_options evs)"

text \<open>\<open>main\<close>, on the arguments after the program's name; every call of \<open>usage\<close> exits.\<close>

definition tlbconvert_main :: "bool \<Rightarrow> string list \<Rightarrow> tlb_report res" where
  "tlbconvert_main permute args =
     (let (evs, argv) = getopt ''acs'' ''DGVde'' permute args; argc = length argv
      in bind_res (convert_options evs convert_defaults) (\<lambda>opts.
         if (\<not> dflag opts \<and> \<not> eflag opts) \<or> (dflag opts \<and> eflag opts) then Inl Exited
         else if dflag opts \<and>
                 (Dflag opts \<or> Gflag opts \<or> Vflag opts \<or> aflag opts \<or> cflag opts \<or> sflag opts) then Inl Exited
         else if dflag opts then
           (if argc < 3 \<or> argc > 4 then Inl Exited
            else decode (argv ! 0) (argv ! 1) (argv ! 2) (if argc = 4 then Some (argv ! 3) else None))
         else
           (if argc < 2 \<or> argc > 3 then Inl Exited
            else encode (argv ! 0) (argv ! 1) (if argc = 3 then Some (argv ! 2) else None)
                   (opt_page_shift opts) (opt_cca opts) (opt_asid opts) (opt_dirty opts)
                   (opt_global opts) (opt_valid opts))))"

section \<open>Printing and reading registers\<close>

lemma hex_char_digit:
  assumes "n < 16"
  shows "digit_of (hex_char n) = Some n"
proof -
  have "\<forall>k\<in>set [0..<16]. digit_of (hex_char k) = Some k" by code_simp
  with assms show ?thesis by simp
qed

lemma scan_hex_digits:
  assumes "\<forall>d\<in>set ds. d < 16"
  shows "scan_digits 16 acc (map hex_char ds) = (foldl (\<lambda>a d. 16 * a + d) acc ds, [])"
  using assms by (induction ds arbitrary: acc) (simp_all add: digit_in_def hex_char_digit)

lemma nibble:
  fixes x :: "'a::len word"
  shows "unat (drop_bit (4 * k) x AND 0xf) = unat x div 16 ^ k mod 16"
proof -
  have "(0xf :: 'a word) = mask 4" by (simp add: mask_eq_exp_minus_1)
  then have "drop_bit (4 * k) x AND 0xf = take_bit 4 (drop_bit (4 * k) x)"
    by (simp add: take_bit_eq_mask)
  then have "unat (drop_bit (4 * k) x AND 0xf) = take_bit 4 (drop_bit (4 * k) (unat x))"
    by (simp add: unsigned_take_bit_eq unsigned_drop_bit_eq take_bit_nat_eq_self [OF unsigned_less])
  then show ?thesis by (simp add: take_bit_nat_def drop_bit_nat_def power_mult)
qed

lemma digits_value:
  fixes n :: nat
  shows "foldl (\<lambda>a d. 16 * a + d) acc (map (\<lambda>k. n div 16 ^ k mod 16) (rev [0..<w])) = acc * 16 ^ w + n mod 16 ^ w"
proof (induction w arbitrary: acc)
  case 0
  then show ?case by simp
next
  case (Suc w)
  have "n mod (16 ^ w * 16) = 16 ^ w * (n div 16 ^ w mod 16) + n mod 16 ^ w" by (rule mod_mult2_eq)
  then show ?case using Suc by (simp add: algebra_simps)
qed

lemma strtoull_print_hex:
  fixes x :: "'a::len word"
  assumes "0 < w" and "w \<le> 16" and "unat x < 16 ^ w"
  shows "strtoull (print_hex w x) = (of_nat (unat x), [], False)"
proof -
  define ds where "ds = map (\<lambda>k. unat x div 16 ^ k mod 16) (rev [0..<w])"
  have p: "print_hex w x = CHR ''0'' # CHR ''x'' # map hex_char ds"
    by (simp add: print_hex_def nibble ds_def)
  have ds16: "\<forall>d\<in>set ds. d < 16" by (auto simp: ds_def)
  have "ds \<noteq> []" using assms(1) by (simp add: ds_def)
  then obtain d ds' where c: "ds = d # ds'" by (cases ds) auto
  have d: "digit_in 16 (hex_char d)" using ds16 c by (simp add: digit_in_def hex_char_digit)
  have "foldl (\<lambda>a d. 16 * a + d) 0 ds = unat x"
    using assms(3) unfolding ds_def digits_value by simp
  then have v: "scan_digits 16 0 (map hex_char ds) = (unat x, [])"
    using scan_hex_digits [OF ds16, of 0] by simp
  have "(16 :: nat) ^ w \<le> 16 ^ 16" using assms(2) by (rule power_increasing) simp
  then have n: "\<not> unat x \<ge> 2 ^ 64" using assms(3) by simp
  show ?thesis using v d n unfolding p c
    by (simp add: strtoull_def c_isspace_def)
qed

lemma read_printed_register: "string_to_ull (print_hex 16 (x :: u64)) 0 0xffffffffffffffff = Inr x"
proof -
  have b: "unat x < 2 ^ 64" using unsigned_less [of x] by simp
  then have "strtoull (print_hex 16 x) = (x, [], False)"
    using strtoull_print_hex [of 16 x] by simp
  moreover have "\<not> 0xffffffffffffffff < x" using b by (simp add: word_less_nat_alt not_less)
  ultimately show ?thesis by (simp add: string_to_ull_def)
qed

lemma read_printed_pagemask: "string_to_ull (print_hex 8 (x :: u32)) 0 0x00000000ffffffff = Inr (ucast x)"
proof -
  have b: "unat x < 2 ^ 32" using unsigned_less [of x] by simp
  then have "strtoull (print_hex 8 x) = (ucast x, [], False)"
    using strtoull_print_hex [of 8 x] by (simp add: unsigned_ucast_eq of_nat_unat)
  moreover have "(ucast x :: u64) \<le> 0xffffffff"
    using b by (simp add: word_le_nat_alt unsigned_ucast_eq take_bit_nat_eq_self)
  ultimately show ?thesis by (simp add: string_to_ull_def)
qed

lemma ucast_up_down: "ucast (ucast (x :: u32) :: u64) = x"
  by (rule word_bit_ext) (simp add: bit_ucast_iff)

lemma decode_of_dump:
  "decode (rep_entryhi (dump_tlb_entry e)) (rep_entrylo0 (dump_tlb_entry e))
     (rep_entrylo1 (dump_tlb_entry e)) (Some (rep_pagemask (dump_tlb_entry e))) = Inr (dump_tlb_entry e)"
  by (cases e) (simp add: decode_def dump_tlb_entry_def read_printed_register read_printed_pagemask
      ucast_up_down del: mask_numeral)

lemma print_hex_operand: "take (Suc 0) (print_hex w x) \<noteq> ''-''" "print_hex w x \<noteq> ''--''"
  by (simp_all add: print_hex_def)

lemma getopt_decode:
  "getopt ''acs'' ''DGVde'' p [''-d'', print_hex a x, print_hex b y, print_hex c z, print_hex d t] =
     ([Opt CHR ''d'' []], [print_hex a x, print_hex b y, print_hex c z, print_hex d t])"
  by (simp add: print_hex_operand)

lemma main_decode:
  "tlbconvert_main p [''-d'', rep_entryhi (dump_tlb_entry e), rep_entrylo0 (dump_tlb_entry e),
     rep_entrylo1 (dump_tlb_entry e), rep_pagemask (dump_tlb_entry e)] = Inr (dump_tlb_entry e)"
proof -
  have "getopt ''acs'' ''DGVde'' p [''-d'', rep_entryhi (dump_tlb_entry e), rep_entrylo0 (dump_tlb_entry e),
     rep_entrylo1 (dump_tlb_entry e), rep_pagemask (dump_tlb_entry e)] =
     ([Opt CHR ''d'' []], [rep_entryhi (dump_tlb_entry e), rep_entrylo0 (dump_tlb_entry e),
     rep_entrylo1 (dump_tlb_entry e), rep_pagemask (dump_tlb_entry e)])"
    unfolding dump_tlb_entry_def tlb_report.simps by (rule getopt_decode)
  then show ?thesis
    by (simp add: tlbconvert_main_def convert_opt_def convert_defaults_def decode_of_dump del: getopt.simps)
qed

lemma decode_dumps: "decode a b c d = Inr r \<Longrightarrow> \<exists>e. r = dump_tlb_entry e"
  by (auto simp: decode_def bind_res_eq_Inr)

lemma encode_dumps: "encode a b c ps cca asid d g v = Inr r \<Longrightarrow> \<exists>e. r = dump_tlb_entry e"
  by (auto simp: encode_def Let_def bind_res_eq_Inr)

lemma main_dumps:
  assumes "tlbconvert_main p args = Inr r"
  shows "\<exists>e. r = dump_tlb_entry e"
  using assms decode_dumps encode_dumps
  by (auto simp: tlbconvert_main_def Let_def bind_res_eq_Inr split: prod.splits if_splits)

text \<open>
  C19: Whatever the arguments, the registers a successful run prints can be given back to the
  tool with \<open>-d\<close>, and that run prints the same report: encoding and decoding agree on every
  field, and the printed numbers are read back exactly.
\<close>

theorem tlbconvert_decode_again:
  assumes "tlbconvert_main permute args = Inr r"
  shows "tlbconvert_main permute' [''-d'', rep_entryhi r, rep_entrylo0 r, rep_entrylo1 r, rep_pagemask r] = Inr r"
  using main_dumps [OF assms] main_decode by auto

lemma tlbconvert_decode_again_witness:
  "\<exists>r. tlbconvert_main True [''-e'', ''-s14'', ''0x8000'', ''4096''] = Inr r \<and>
     tlbconvert_main False [''-d'', rep_entryhi r, rep_entrylo0 r, rep_entrylo1 r, rep_pagemask r] = Inr r"
proof -
  have "\<exists>r. tlbconvert_main True [''-e'', ''-s14'', ''0x8000'', ''4096''] = Inr r"
    by (simp add: tlbconvert_main_def convert_opt_def convert_defaults_def encode_def string_to_ull_def
        strtoull_def c_isspace_def digit_in_def digit_of_def MIN_PAGESIZE_INDEX_def
        MAX_PAGESIZE_INDEX_def Let_def)
  then show ?thesis using tlbconvert_decode_again by blast
qed

section \<open>What encoding means\<close>

text \<open>
  The bits of the two kinds of register: an attribute of a few bits never reaches the next
  field, and the page frame number is shifted above all of them.
\<close>

lemma scast_small_bit:
  fixes x :: u32
  assumes "unat x < 2 ^ k" and "k < 32"
  shows "bit (scast x :: u64) i \<longleftrightarrow> i < k \<and> bit x i"
  using small_word_bit [OF assms(1), of i] small_word_bit [OF assms(1), of 31] assms(2)
  by (auto simp: bit_signed_iff min_def not_le intro: ccontr dest: bit_imp_le_length)

lemma tlblo_bit:
  assumes "unat cca < 8" and "unat d < 2" and "unat v < 2" and "unat g < 2"
  shows "bit (C0_TLBLO_REG pfn cca d v g) i \<longleftrightarrow>
    (6 \<le> i \<and> i < 64 \<and> bit pfn (i - 6)) \<or> (3 \<le> i \<and> i < 6 \<and> bit cca (i - 3)) \<or>
    (i = 2 \<and> bit d 0) \<or> (i = 1 \<and> bit v 0) \<or> (i = 0 \<and> bit g 0)"
proof -
  have c: "\<And>j. bit (scast cca :: u64) j \<longleftrightarrow> j < 3 \<and> bit cca j"
    and b: "\<And>j. bit (scast d :: u64) j \<longleftrightarrow> j < 1 \<and> bit d j" "\<And>j. bit (scast v :: u64) j \<longleftrightarrow> j < 1 \<and> bit v j"
      "\<And>j. bit (scast g :: u64) j \<longleftrightarrow> j < 1 \<and> bit g j"
    by (rule scast_small_bit; simp add: assms)+
  show ?thesis
    unfolding C0_TLBLO_REG_def V_TLBLO_PFNMASK_def V_TLBLO_CALG_def V_TLBLO_D_def V_TLBLO_V_def
      V_TLBLO_G_def mm_makevalue_64_bit bit_or_iff c b
    by (cases "i = 0"; cases "i = 1"; cases "i = 2"; cases "i < 6"; simp; linarith?)
qed

lemma tlbhi_bit:
  assumes "unat asid < 256"
  shows "bit (C0_TLBHI_REG va asid) i \<longleftrightarrow> (13 \<le> i \<and> i < 64 \<and> bit va (i - 13)) \<or> (i < 8 \<and> bit asid i)"
proof -
  have a: "\<And>j. bit (scast asid :: u64) j \<longleftrightarrow> j < 8 \<and> bit asid j"
    by (rule scast_small_bit; simp add: assms)
  show ?thesis
    unfolding C0_TLBHI_REG_def V_TLBHI_VPN2_def V_TLBHI_ASID_def S_TLBHI_VPN2_def
      mm_makevalue_64_bit bit_or_iff a
    by (cases "i < 8"; simp)
qed

text \<open>The page that stands for \<open>pa\<close>: rounded down to its page, its frame number the 28 bits of the field.\<close>

definition encoded_page :: "u64 \<Rightarrow> nat \<Rightarrow> u32 \<Rightarrow> u32 \<Rightarrow> u32 \<Rightarrow> page_report" where
  "encoded_page pa shift cca d v =
     (let a = take_bit 40 (pa AND NOT (mask shift))
      in \<lparr>page_pa = a, page_pfn = drop_bit 12 a, page_cca = ucast cca, page_d = ucast d, page_v = ucast v\<rparr>)"

lemma getvalue_bit: "bit (mm_getvalue_64 x n (mm_makemask_64 w n)) i \<longleftrightarrow> i < w \<and> n + i < 64 \<and> bit x (n + i)"
  by (auto simp: word_fold)

lemma getvalue1_bit: "n < 64 \<Longrightarrow> bit (mm_getvalue_64 x n (mm_makemask1_64 n)) i \<longleftrightarrow> i = 0 \<and> bit x n"
  by (auto simp: word_fold mm_makemask1_64_def bitwise bit_1_iff simp del: push_bit_of_1)

lemma tlblo_pfn:
  assumes "unat cca < 8" and "unat d < 2" and "unat v < 2" and "unat g < 2"
  shows "G_TLBLO_PFNMASK (C0_TLBLO_REG pfn cca d v g) = take_bit 28 pfn"
    and "G_TLBLO_CALG (C0_TLBLO_REG pfn cca d v g) = ucast cca"
    and "G_TLBLO_D (C0_TLBLO_REG pfn cca d v g) = ucast d"
    and "G_TLBLO_V (C0_TLBLO_REG pfn cca d v g) = ucast v"
    and "G_TLBLO_G (C0_TLBLO_REG pfn cca d v g) = ucast g"
proof -
  have small: "i < 3" if "bit cca i" for i using small_word_bit [of cca 3 i] assms(1) that by (auto simp: not_le intro: ccontr)
  have small1: "bit x i \<Longrightarrow> i = 0" if "unat x < 2" for x :: u32 and i
    using small_word_bit [of x 1 i] that by (cases i) auto
  note lo = tlblo_bit [OF assms]
  show "G_TLBLO_PFNMASK (C0_TLBLO_REG pfn cca d v g) = take_bit 28 pfn"
    by (rule word_bit_ext) (auto simp: G_TLBLO_PFNMASK_def getvalue_bit lo bit_take_bit_iff)
  show "G_TLBLO_CALG (C0_TLBLO_REG pfn cca d v g) = ucast cca"
    by (rule word_bit_ext) (use small in \<open>fastforce simp: G_TLBLO_CALG_def getvalue_bit lo bit_ucast_iff\<close>)
  show "G_TLBLO_D (C0_TLBLO_REG pfn cca d v g) = ucast d"
    by (rule word_bit_ext) (use small1 [OF assms(2)] in \<open>auto simp: G_TLBLO_D_def getvalue1_bit lo bit_ucast_iff\<close>)
  show "G_TLBLO_V (C0_TLBLO_REG pfn cca d v g) = ucast v"
    by (rule word_bit_ext) (use small1 [OF assms(3)] in \<open>auto simp: G_TLBLO_V_def getvalue1_bit lo bit_ucast_iff\<close>)
  show "G_TLBLO_G (C0_TLBLO_REG pfn cca d v g) = ucast g"
    by (rule word_bit_ext) (use small1 [OF assms(4)] in \<open>auto simp: G_TLBLO_G_def getvalue1_bit lo bit_ucast_iff\<close>)
qed

lemma tlbhi_fields:
  assumes "unat asid < 256"
  shows "G_TLBHI_VPN2 (C0_TLBHI_REG va asid) = take_bit 31 va" and "G_TLBHI_ASID (C0_TLBHI_REG va asid) = ucast asid"
proof -
  have small: "i < 8" if "bit asid i" for i using small_word_bit [of asid 8 i] assms that by (auto simp: not_le intro: ccontr)
  show "G_TLBHI_VPN2 (C0_TLBHI_REG va asid) = take_bit 31 va"
    by (rule word_bit_ext) (auto simp: G_TLBHI_VPN2_def S_TLBHI_VPN2_def getvalue_bit tlbhi_bit [OF assms] bit_take_bit_iff)
  show "G_TLBHI_ASID (C0_TLBHI_REG va asid) = ucast asid"
    by (rule word_bit_ext) (use small in \<open>auto simp: G_TLBHI_ASID_def getvalue_bit tlbhi_bit [OF assms] bit_ucast_iff\<close>)
qed

lemma pa_pfn_roundtrip:
  assumes "12 \<le> shift"
  shows "take_bit 28 (PA_TO_PFN (pa AND NOT (mask shift))) = drop_bit 12 (take_bit 40 (pa AND NOT (mask shift)))"
    and "PFN_TO_PA (drop_bit 12 (take_bit 40 (pa AND NOT (mask shift)))) = take_bit 40 (pa AND NOT (mask shift))"
proof -
  show "take_bit 28 (PA_TO_PFN (pa AND NOT (mask shift))) = drop_bit 12 (take_bit 40 (pa AND NOT (mask shift)))"
    by (rule word_bit_ext) (auto simp: PA_TO_PFN_def MIN_PAGESIZE_INDEX_def bitwise bit_take_bit_iff)
  show "PFN_TO_PA (drop_bit 12 (take_bit 40 (pa AND NOT (mask shift)))) = take_bit 40 (pa AND NOT (mask shift))"
    using assms by (intro word_bit_ext) (auto simp: PFN_TO_PA_def MIN_PAGESIZE_INDEX_def bitwise bit_take_bit_iff le_less_trans)
qed

lemma va_vpn2_roundtrip:
  assumes "12 \<le> shift"
  shows "VPN2_TO_VA (take_bit 31 (VA_TO_VPN2 (va AND NOT (mask (Suc shift))))) = take_bit 44 (va AND NOT (mask (Suc shift)))"
  by (rule word_bit_ext; use assms in \<open>auto simp: VA_TO_VPN2_def VPN2_TO_VA_def S_TLBHI_VPN2_def
      bitwise bit_take_bit_iff\<close>)

lemma report_page_encoded:
  assumes "unat cca < 8" "unat d < 2" "unat v < 2" "unat g < 2" "12 \<le> shift"
  shows "report_page (C0_TLBLO_REG (PA_TO_PFN (pa AND NOT (mask shift))) cca d v g) = encoded_page pa shift cca d v"
  by (simp add: report_page_def encoded_page_def Let_def tlblo_pfn [OF assms(1-4)] pa_pfn_roundtrip [OF assms(5)] del: take_bit_and)

lemma page_size_printed:
  assumes "12 \<le> shift" and "shift \<le> 26"
  shows "PGMASK_TO_PGSIZE (ucast (PGSIZE_TO_PGMASK (push_bit shift 1))) = (if shift = 12 then 0x2000 else 2 ^ shift)"
proof -
  have "shift = 12 \<or> shift = 13 \<or> shift = 14 \<or> shift = 15 \<or> shift = 16 \<or> shift = 17 \<or> shift = 18 \<or>
      shift = 19 \<or> shift = 20 \<or> shift = 21 \<or> shift = 22 \<or> shift = 23 \<or> shift = 24 \<or> shift = 25 \<or> shift = 26"
    using assms by arith
  then show ?thesis
    by (elim disjE)
       (simp_all add: PGMASK_TO_PGSIZE_def PGSIZE_TO_PGMASK_def MIN_PAGESIZE_INDEX_def G_TLB_PGMSK_def
          mm_getvalue_def mm_makemask_def)
qed

lemma masks_of_shift:
  assumes "shift \<le> 26"
  shows "(if x AND NOT (push_bit shift 1 - 1) \<noteq> x then x AND NOT (push_bit shift 1 - 1) else x) =
       (x :: u64) AND NOT (mask shift)"
    and "(if x AND NOT (2 * push_bit shift 1 - 1) \<noteq> x then x AND NOT (2 * push_bit shift 1 - 1) else x) =
       (x :: u64) AND NOT (mask (Suc shift))"
  by (auto simp: mask_eq_exp_minus_1 push_bit_eq_mult)

text \<open>
  When its numbers are accepted, the encoder reports exactly the attributes it was given:
  the virtual address rounded down to a pair of pages and cut to the 44 bits of the SB-1, both
  physical addresses rounded down to a page and cut to 40 bits, the second one by default the
  page after the first, the address space, coherency and flags unchanged, and the page size,
  which for 4K pages is printed as 8K.
\<close>

theorem encode_reports:
  assumes "string_to_ull va_str 0 0xffffffffffffffff = Inr va"
    and "string_to_ull pa0_str 0 0xffffffffffffffff = Inr pa0"
    and "case pa1_str of None \<Rightarrow> pa1 = (pa0 AND NOT (mask shift)) + 2 ^ shift
         | Some str \<Rightarrow> string_to_ull str 0 0xffffffffffffffff = Inr pa1"
    and "12 \<le> shift" and "shift \<le> 26" and "unat cca < 8" and "unat asid < 256"
    and "unat dirty < 2" and "unat global < 2" and "unat valid < 2"
  shows "\<exists>r. encode va_str pa0_str pa1_str shift cca asid dirty global valid = Inr r \<and>
    rep_va r = take_bit 44 (va AND NOT (mask (shift + 1))) \<and> rep_asid r = ucast asid \<and>
    rep_g r = (global \<noteq> 0) \<and> rep_page_size r = (if shift = 12 then 0x2000 else 2 ^ shift) \<and>
    rep_page0 r = encoded_page pa0 shift cca dirty valid \<and>
    rep_page1 r = encoded_page pa1 shift cca dirty valid"
proof -
  have g: "(ucast global :: u64) \<noteq> 0 \<longleftrightarrow> global \<noteq> 0"
    by (metis ucast_up_down ucast_0)
  have p1: "bind_res (case pa1_str of Some str \<Rightarrow> string_to_ull str 0 0xffffffffffffffff
        | None \<Rightarrow> Inr ((pa0 AND NOT (mask shift)) + push_bit shift 1)) f = f pa1" for f :: "u64 \<Rightarrow> tlb_report res"
    using assms(3) by (cases pa1_str) simp_all
  show ?thesis
    unfolding encode_def Let_def assms(1,2) bind_res_simps masks_of_shift [OF assms(5)] p1
    by (simp add: dump_tlb_entry_def tlbhi_fields [OF assms(7)] va_vpn2_roundtrip [OF assms(4)] g
        tlblo_pfn(5) [OF assms(6,8,10,9)] page_size_printed [OF assms(4,5)]
        report_page_encoded [OF assms(6,8,10,9,4)] del: push_bit_of_1)
qed

lemma encode_reports_witness:
  "\<exists>r. encode ''0x10000'' ''4096'' None 14 5 7 1 1 0 = Inr r \<and> rep_va r = 0x10000 \<and>
     rep_page_size r = 0x4000 \<and> page_pa (rep_page1 r) = 0x4000 \<and> page_cca (rep_page0 r) = 5"
proof -
  have va: "string_to_ull ''0x10000'' 0 0xffffffffffffffff = Inr 0x10000"
    and pa: "string_to_ull ''4096'' 0 0xffffffffffffffff = Inr 4096"
    by (simp_all add: string_to_ull_def strtoull_def c_isspace_def digit_in_def digit_of_def)
  show ?thesis
    using encode_reports [OF va pa, where pa1_str = None and ?pa1.0 = "0x4000" and shift = 14 and cca = 5
      and asid = 7 and dirty = 1 and global = 1 and valid = 0]
    by (auto simp: encoded_page_def mask_eq_exp_minus_1)
qed

end
