(* ===== verification/TlbAlloc.thy ===== *)
theory TlbAlloc
  imports TlbConvert "HOL-Library.While_Combinator"
begin

text \<open>
  The TLB-mapped heap, \<open>tlb/tlballoc.c\<close>: \<open>__libcfe_meminit\<close> asks the firmware for the memory
  regions, keeps the program's own memory apart and maps the rest into user space, \<open>sbrk\<close> hands
  it out. What the firmware's \<open>cfe_enummem\<close> reports is a parameter (the list of its answers and the
  code for available memory), as are the end of the program and the stack size it asks for. Pointers and
  \<open>unsigned long\<close> are 64 bits wide. The field macros are those of \<open>TlbConvert\<close>, which the two files share.
\<close>

unbundle bit_operations_syntax

section \<open>The state\<close>

record heap_state =
  heap_start :: u64
  heap_limit :: u64
  heap_end :: u64
  stack_size :: u64
  stack_top :: u64



section \<open>Finding memory\<close>



section \<open>Mapping it\<close>










section \<open>Handing it out\<close>

definition sbrk :: "u64 \<Rightarrow> heap_state \<Rightarrow> u64 \<times> heap_state" where
  "sbrk nbytes h =
     (if sint nbytes \<ge> sint (heap_end h - heap_limit h) \<or> heap_limit h + nbytes < heap_start h
      then (- 1, h)
      else (heap_limit h, h\<lparr>heap_limit := heap_limit h + nbytes\<rparr>))"

section \<open>Page sizes\<close>









section \<open>The addresses of the heap\<close>









section \<open>The entries of the heap\<close>
















section \<open>The loop\<close>




















section \<open>Keeping \<open>sbrk\<close> in bounds\<close>

lemma int_powers: "(2 :: int) ^ 31 = 2147483648" "(2 :: int) ^ 63 = 9223372036854775808"
  "(2 :: int) ^ 64 = 18446744073709551616"
  by simp_all

lemma sint_small:
  fixes x :: u64
  assumes "uint x < 2 ^ 63"
  shows "sint x = uint x"
proof -
  have "sint x = signed_take_bit 63 (uint x)" by (simp add: sint_uint)
  also have "\<dots> = uint x" by (rule signed_take_bit_int_eq_self) (use assms uint_ge_0 [of x] in \<open>unfold int_powers, linarith+\<close>)
  finally show ?thesis .
qed

lemma uint_add_signed:
  fixes x y :: u64
  shows "uint (x + y) = (uint x + sint y) mod 2 ^ 64"
proof -
  have "uint y = sint y mod 2 ^ 64" by (simp add: uint_sint take_bit_eq_mod)
  then show ?thesis by (simp add: uint_word_ariths mod_add_right_eq)
qed

lemma sint_range64: "- (2 ^ 63) \<le> sint (y :: u64)" "sint (y :: u64) < 2 ^ 63"
  using sint_greater_eq [of y] sint_less [of y] by simp_all

definition heap_ok :: "heap_state \<Rightarrow> bool" where
  "heap_ok h = (heap_start h \<le> heap_limit h \<and> heap_limit h \<le> heap_end h \<and> unat (heap_end h) < 2 ^ 31)"

lemma heap_ok_uint:
  assumes "heap_ok h"
  shows "uint (heap_start h) \<le> uint (heap_limit h)" "uint (heap_limit h) \<le> uint (heap_end h)"
    "uint (heap_end h) < 2 ^ 31" "sint (heap_end h - heap_limit h) = uint (heap_end h) - uint (heap_limit h)"
proof -
  show a: "uint (heap_start h) \<le> uint (heap_limit h)" "uint (heap_limit h) \<le> uint (heap_end h)"
    using assms by (simp_all add: heap_ok_def word_le_def)
  show b: "uint (heap_end h) < 2 ^ 31"
  proof -
    have "int (unat (heap_end h)) < int (2 ^ 31)" using assms unfolding heap_ok_def of_nat_less_iff by blast
    then show ?thesis by simp
  qed
  have "uint (heap_end h - heap_limit h) = uint (heap_end h) - uint (heap_limit h)"
    using a(2) by (simp only: uint_sub_if_size if_True)
  then show "sint (heap_end h - heap_limit h) = uint (heap_end h) - uint (heap_limit h)"
    using b uint_ge_0 [of "heap_limit h"] by (subst sint_small) (unfold int_powers, linarith+)
qed

text \<open>
  C21: On a heap within user space \<open>sbrk\<close> moves the limit exactly when the new limit lies between
  the start and, strictly, the end of the heap, and otherwise returns -1 and changes nothing, with
  one exception: a decrement past address zero wraps around and is accepted.
\<close>

theorem sbrk_exact:
  assumes "heap_ok h"
  shows "sbrk nbytes h =
    (if uint (heap_limit h) + sint nbytes < 0 \<or>
        (uint (heap_start h) \<le> uint (heap_limit h) + sint nbytes \<and>
         uint (heap_limit h) + sint nbytes < uint (heap_end h))
     then (heap_limit h, h\<lparr>heap_limit := heap_limit h + nbytes\<rparr>) else (- 1, h))"
proof -
  note u = heap_ok_uint [OF assms]
  let ?s = "uint (heap_limit h) + sint nbytes"
  note r = sint_range64 [of nbytes] uint_ge_0 [of "heap_limit h"] uint_ge_0 [of "heap_start h"]
  have refused: "(heap_limit h + nbytes < heap_start h) = (0 \<le> ?s \<and> ?s < uint (heap_start h))"
  proof (cases "0 \<le> ?s")
    case True
    then have "uint (heap_limit h + nbytes) = ?s"
      using u r by (simp add: uint_add_signed)
    then show ?thesis using True by (simp add: word_less_def)
  next
    case False
    then have "uint (heap_limit h + nbytes) = ?s + 2 ^ 64"
    proof -
      have "(?s + 2 ^ 64) mod 2 ^ 64 = ?s + 2 ^ 64"
        using False r(1,3) by (intro mod_pos_pos_trivial) (unfold int_powers, linarith+)
      then show ?thesis unfolding uint_add_signed mod_add_self2 .
    qed
    then show ?thesis using False u r by (simp add: word_less_def)
  qed
  have "\<not> uint (heap_end h) - uint (heap_limit h) \<le> sint nbytes" if "?s < 0"
    using u r that by linarith
  then show ?thesis unfolding sbrk_def u(4) refused by auto
qed

lemma sbrk_exact_witness:
  "sbrk 0x1000 \<lparr>heap_start = 0x100000, heap_limit = 0x100000, heap_end = 0x180000, stack_size = 0, stack_top = 0\<rparr> =
     (0x100000, \<lparr>heap_start = 0x100000, heap_limit = 0x101000, heap_end = 0x180000, stack_size = 0, stack_top = 0\<rparr>)"
  by (subst sbrk_exact) (simp_all add: heap_ok_def)

text \<open>
  A request that does not reach below address zero keeps the limit between the start and the
  end of the heap, and one that succeeds returns the old limit and moves it by the request.
\<close>

theorem sbrk_keeps_bounds:
  assumes "heap_ok h" and "0 \<le> uint (heap_limit h) + sint nbytes" and "sbrk nbytes h = (base, h')"
  shows "heap_ok h' \<and> heap_start h' = heap_start h \<and> heap_end h' = heap_end h \<and>
    (base = - 1 \<longrightarrow> h' = h) \<and>
    (base \<noteq> - 1 \<longrightarrow> base = heap_limit h \<and> uint (heap_limit h') = uint (heap_limit h) + sint nbytes)"
proof -
  let ?s = "uint (heap_limit h) + sint nbytes"
  note u = heap_ok_uint [OF assms(1)]
  note r = sint_range64 [of nbytes] uint_ge_0 [of "heap_limit h"] uint_ge_0 [of "heap_start h"]
  have l: "uint (heap_limit h + nbytes) = ?s" if "?s < uint (heap_end h)"
    using assms(2) that u(3) by (simp add: uint_add_signed)
  have m: "heap_limit h \<noteq> - 1" using u(2,3) by (auto simp: unsigned_minus_1_eq_mask mask_eq_exp_minus_1)
  show ?thesis
    using assms(1,3) m l u r assms(2) unfolding sbrk_exact [OF assms(1)]
    by (auto simp: heap_ok_def word_le_def split: if_splits)
qed

lemma sbrk_keeps_bounds_witness:
  "\<exists>base h'. sbrk (- 0x1000) \<lparr>heap_start = 0x100000, heap_limit = 0x102000, heap_end = 0x180000, stack_size = 0, stack_top = 0\<rparr> =
     (base, h') \<and> heap_ok h' \<and> base = 0x102000"
proof -
  let ?h = "\<lparr>heap_start = 0x100000, heap_limit = 0x102000, heap_end = 0x180000, stack_size = 0, stack_top = 0\<rparr>"
  obtain base h' where r: "sbrk (- 0x1000) ?h = (base, h')" by (cases "sbrk (- 0x1000) ?h")
  then have b: "base = 0x102000" by (simp add: sbrk_def)
  have "heap_ok ?h" "0 \<le> uint (heap_limit ?h) + sint (- 0x1000 :: u64)" by (simp_all add: heap_ok_def)
  from sbrk_keeps_bounds [OF this r] r b show ?thesis by blast
qed

end
