(* ===== verification/SbprofLog.thy ===== *)
theory SbprofLog
  imports Intr
begin

text \<open>
  The data buffer of the CPU profiler, \<open>libsbprof/libsbprof/sbprof_cpu.c\<close>: the \<open>cpudata_t\<close> with
  the log behind it, and the operations that write messages (contexts and sample groups). A
  write outside the buffer is the fault \<open>OutOfBounds\<close>. The specification is what a
  reader of the buffer sees: a list of messages (\<open>log_at\<close>), and from it the samples with the multiplexing slot
  they belong to. \<open>be\<close> is the byte order of the build.
\<close>

unbundle bit_operations_syntax

section \<open>The data structures\<close>

record event_counter_state =
  ecs_total :: u64
  ecs_dropped :: u64
  ecs_value :: u64
  start_period_low :: u32
  start_period_high :: u8
  ecs_event :: u8
  ecs_hwcode :: u8
  ecs_flags :: u8

definition ECS_INUSE :: u8 where "ECS_INUSE = 1"
definition ECS_USE_PTR :: u8 where "ECS_USE_PTR = 2"

record active_counter_state =
  acs_total :: u32
  acs_dropped :: u32
  acs_start_period :: u64

text \<open>\<open>cpudata_t\<close> and the buffer; \<open>cd_last_event\<close> is an \<open>int32_t\<close>, read with its sign.\<close>

record cpudata =
  cd_next :: u32
  cd_last_event :: u32
  cd_threshold :: u32
  cd_slotid :: u8
  cd_nslots :: u8
  cd_use_ptr :: u8
  cur_slot :: "nat \<Rightarrow> active_counter_state"
  slot :: "nat \<Rightarrow> nat \<Rightarrow> event_counter_state"
  cd_buf :: "nat \<Rightarrow> u8"
  cd_bufsize :: u64

definition DP_D_PID_IMAGE :: u8 where "DP_D_PID_IMAGE = 2"
definition DP_D_CONTEXT :: u8 where "DP_D_CONTEXT = 5"
definition DP_D_EVENTS :: u8 where "DP_D_EVENTS = 6"
definition DP_D_CONFIG :: u8 where "DP_D_CONFIG = 7"
definition EVENT_HDR_MSG_SIZE :: nat where "EVENT_HDR_MSG_SIZE = 4"
definition EVENT_MSG_SIZE :: nat where "EVENT_MSG_SIZE = 4"
definition NEW_CONTEXT_MSG_SIZE :: nat where "NEW_CONTEXT_MSG_SIZE = 12"
definition KERNEL_PID :: u32 where "KERNEL_PID = - 1"

section \<open>Writing the buffer\<close>

definition word_bytes :: "bool \<Rightarrow> nat \<Rightarrow> 'a::len word \<Rightarrow> u8 list" where
  "word_bytes be n w =
     (let l = map (\<lambda>i. ucast (drop_bit (8 * i) w)) [0..<n] in if be then rev l else l)"

definition overlay :: "nat \<Rightarrow> u8 list \<Rightarrow> (nat \<Rightarrow> u8) \<Rightarrow> nat \<Rightarrow> u8" where
  "overlay p bs b = (\<lambda>k. if p \<le> k \<and> k < p + length bs then bs ! (k - p) else b k)"

definition put :: "nat \<Rightarrow> u8 list \<Rightarrow> cpudata \<Rightarrow> cpudata res" where
  "put p bs c =
     (if p + length bs \<le> unat (cd_bufsize c)
      then Inr (c\<lparr>cd_buf := overlay p bs (cd_buf c)\<rparr>)
      else Inl OutOfBounds)"

definition backfill_nevents :: "bool \<Rightarrow> cpudata \<Rightarrow> cpudata res" where
  "backfill_nevents be c =
     (if sint (cd_last_event c) \<ge> 0 then
        bind_res
          (if cd_next c = cd_last_event c
           then Inr (c\<lparr>cd_next := cd_next c - of_nat EVENT_HDR_MSG_SIZE\<rparr>)
           else
             let idx = sint (cd_last_event c) - 2;
                 n = ucast ((cd_next c - cd_last_event c) div of_nat EVENT_MSG_SIZE) :: u16
             in if idx < 0 then Inl OutOfBounds else put (nat idx) (word_bytes be 2 n) c)
          (\<lambda>c'. Inr (c'\<lparr>cd_last_event := - 1\<rparr>))
      else Inr c)"

definition enter_event_hdr :: "nat \<Rightarrow> cpudata \<Rightarrow> cpudata res" where
  "enter_event_hdr p c =
     bind_res (put p [DP_D_EVENTS] c) (\<lambda>c1.
       let n = cd_next c1 + of_nat EVENT_HDR_MSG_SIZE in Inr (c1\<lparr>cd_next := n, cd_last_event := n\<rparr>))"

definition enter_context :: "bool \<Rightarrow> u32 \<Rightarrow> u8 \<Rightarrow> cpudata \<Rightarrow> cpudata res" where
  "enter_context be pid cpuid c =
     (let p = unat (cd_next c)
      in bind_res (put p [DP_D_CONTEXT, cpuid, cd_slotid c] c) (\<lambda>c1.
         bind_res (put (p + 4) (word_bytes be 4 pid) c1) (\<lambda>c2.
         bind_res (put (p + 8) (word_bytes be 4 (0 :: u32)) c2) (\<lambda>c3.
           enter_event_hdr (p + 12) (c3\<lparr>cd_next := cd_next c3 + of_nat NEW_CONTEXT_MSG_SIZE\<rparr>)))))"

definition report_new_context :: "bool \<Rightarrow> u32 \<Rightarrow> u8 \<Rightarrow> cpudata \<Rightarrow> (u32 \<times> cpudata) res" where
  "report_new_context be pid cpuid c =
     bind_res (backfill_nevents be c) (\<lambda>c1.
       if ucast (cd_next c1) > cd_bufsize c1 - of_nat (NEW_CONTEXT_MSG_SIZE + EVENT_HDR_MSG_SIZE + EVENT_MSG_SIZE)
       then Inr (1, c1)
       else bind_res (enter_context be pid cpuid c1) (\<lambda>c2. Inr (0, c2)))"

definition record_sample :: "bool \<Rightarrow> u32 \<Rightarrow> u32 \<Rightarrow> nat \<Rightarrow> u8 \<Rightarrow> cpudata \<Rightarrow> cpudata res" where
  "record_sample be pcv ptr counter_num use_ptr c =
     (let pc' = (if counter_num = 1 \<and> use_ptr \<noteq> 0 then ptr else pcv)
      in if ucast (cd_next c) < cd_bufsize c - 4 then
           bind_res (put (unat (cd_next c)) (word_bytes be 4 (pc' OR of_nat counter_num)) c) (\<lambda>c1.
             let c2 = c1\<lparr>cd_next := cd_next c1 + 4\<rparr>
             in if cd_next c2 mod 0x10000 = 0
                then bind_res (report_new_context be KERNEL_PID 0 c2) (\<lambda>(_, c3). Inr c3)
                else Inr c2)
         else Inr c)"

section \<open>What a reader sees\<close>

datatype message = Context u32 u8 u8 | Events "u32 list"

definition bytes_at :: "(nat \<Rightarrow> u8) \<Rightarrow> nat \<Rightarrow> u8 list \<Rightarrow> bool" where
  "bytes_at b p bs = (\<forall>i<length bs. b (p + i) = bs ! i)"

text \<open>The messages \<open>ms\<close> lie in the buffer from \<open>p\<close> to \<open>q\<close>.\<close>

fun log_at :: "bool \<Rightarrow> (nat \<Rightarrow> u8) \<Rightarrow> nat \<Rightarrow> message list \<Rightarrow> nat \<Rightarrow> bool" where
  "log_at be b p [] q = (p = q)"
| "log_at be b p (Context pid cpu sid # ms) q =
     (bytes_at b p [DP_D_CONTEXT, cpu, sid] \<and> bytes_at b (p + 4) (word_bytes be 4 pid) \<and>
      bytes_at b (p + 8) (word_bytes be 4 (0 :: u32)) \<and> log_at be b (p + 12) ms q)"
| "log_at be b p (Events xs # ms) q =
     (xs \<noteq> [] \<and> length xs < 2 ^ 16 \<and> bytes_at b p [DP_D_EVENTS] \<and>
      bytes_at b (p + 2) (word_bytes be 2 (of_nat (length xs) :: u16)) \<and>
      bytes_at b (p + 4) (concat (map (word_bytes be 4) xs)) \<and>
      log_at be b (p + 4 + 4 * length xs) ms q)"

text \<open>The slot in force after some messages, and the samples with their slots.\<close>

fun last_slot :: "u8 option \<Rightarrow> message list \<Rightarrow> u8 option" where
  "last_slot sid [] = sid"
| "last_slot sid (Context _ _ sid' # ms) = last_slot (Some sid') ms"
| "last_slot sid (Events _ # ms) = last_slot sid ms"

fun samples :: "u8 option \<Rightarrow> message list \<Rightarrow> (u8 option \<times> u32) list" where
  "samples sid [] = []"
| "samples sid (Context _ _ sid' # ms) = samples (Some sid') ms"
| "samples sid (Events xs # ms) = map (Pair sid) xs @ samples sid ms"

section \<open>Bytes\<close>

lemma word_bytes_length [simp]: "length (word_bytes be n w) = n"
  by (simp add: word_bytes_def Let_def)

lemma put_fits: "p + length bs \<le> unat (cd_bufsize c) \<Longrightarrow>
    put p bs c = Inr (c\<lparr>cd_buf := overlay p bs (cd_buf c)\<rparr>)"
  by (simp add: put_def)

lemma bytes_at_same: "(\<And>k. k < p + length bs \<Longrightarrow> b k = b' k) \<Longrightarrow> bytes_at b p bs = bytes_at b' p bs"
  by (simp add: bytes_at_def)

lemma bytes_at_overlay: "bytes_at (overlay p bs b) p bs"
  by (simp add: bytes_at_def overlay_def)

lemma overlay_before [simp]: "k < p \<Longrightarrow> overlay p bs b k = b k"
  and overlay_after [simp]: "p + length bs \<le> k \<Longrightarrow> overlay p bs b k = b k"
  by (simp_all add: overlay_def)

lemma bytes_at_overlay_other:
  "q + length xs \<le> p \<or> p + length bs \<le> q \<Longrightarrow> bytes_at (overlay p bs b) q xs = bytes_at b q xs"
  unfolding bytes_at_def overlay_def by (rule all_cong1) auto

lemma bytes_at_append: "bytes_at b p (xs @ ys) \<longleftrightarrow> bytes_at b p xs \<and> bytes_at b (p + length xs) ys"
proof
  assume a: "bytes_at b p (xs @ ys)"
  have "b (p + length xs + i) = ys ! i" if "i < length ys" for i
    using a that unfolding bytes_at_def by (auto simp: add.assoc dest!: spec [of _ "length xs + i"])
  moreover have "b (p + i) = xs ! i" if "i < length xs" for i
    using a that unfolding bytes_at_def by (auto simp: nth_append dest!: spec [of _ i])
  ultimately show "bytes_at b p xs \<and> bytes_at b (p + length xs) ys" by (simp add: bytes_at_def)
next
  assume a: "bytes_at b p xs \<and> bytes_at b (p + length xs) ys"
  show "bytes_at b p (xs @ ys)"
    unfolding bytes_at_def
  proof (intro allI impI)
    fix i assume "i < length (xs @ ys)"
    then show "b (p + i) = (xs @ ys) ! i"
      using a unfolding bytes_at_def by (cases "i < length xs") (auto simp: nth_append dest!: spec [of _ "i - length xs"])
  qed
qed

lemma concat_words_length [simp]: "length (concat (map (word_bytes be 4) xs)) = 4 * length xs"
  by (induction xs) simp_all

lemma log_at_le: "log_at be b p ms q \<Longrightarrow> p \<le> q"
  by (induction be b p ms q rule: log_at.induct) auto

lemma log_at_same:
  "log_at be b p ms q \<Longrightarrow> (\<And>k. k < q \<Longrightarrow> b k = b' k) \<Longrightarrow> log_at be b' p ms q"
proof (induction ms arbitrary: p)
  case Nil
  then show ?case by simp
next
  case (Cons m ms)
  show ?case
  proof (cases m)
    case (Context pid cpu sid)
    have l: "p + 12 \<le> q" using Cons.prems(1) Context log_at_le by fastforce
    have e: "bytes_at b r bs = bytes_at b' r bs" if "r + length bs \<le> p + 12" for r bs
      using that l Cons.prems(2) by (intro bytes_at_same) simp
    show ?thesis using Cons.prems Cons.IH [of "p + 12"] e Context by simp
  next
    case (Events xs)
    have l: "p + 4 + 4 * length xs \<le> q" using Cons.prems(1) Events log_at_le by fastforce
    have e: "bytes_at b r bs = bytes_at b' r bs" if "r + length bs \<le> p + 4 + 4 * length xs" for r bs
      using that l Cons.prems(2) by (intro bytes_at_same) simp
    show ?thesis using Cons.prems Cons.IH [of "p + 4 + 4 * length xs"] e Events by simp
  qed
qed

lemma log_at_append: "log_at be b p (ms @ ns) q \<longleftrightarrow> (\<exists>r. log_at be b p ms r \<and> log_at be b r ns q)"
proof (induction ms arbitrary: p)
  case (Cons m ms)
  then show ?case by (cases m) auto
qed simp

lemma last_slot_append: "last_slot s (ms @ ns) = last_slot (last_slot s ms) ns"
  by (induction s ms rule: last_slot.induct) auto

lemma samples_append: "samples s (ms @ ns) = samples s ms @ samples (last_slot s ms) ns"
  by (induction s ms rule: samples.induct) auto

section \<open>The states of the log\<close>

text \<open>
  Open: the messages \<open>ms\<close>, then a group header without its count, then the samples \<open>cur\<close>.
  Closed: the messages \<open>ms\<close> up to \<open>q\<close>, then \<open>k\<close> words outside any message.
\<close>

definition log_size_ok :: "cpudata \<Rightarrow> bool" where
  "log_size_ok c = (20 \<le> unat (cd_bufsize c) \<and> unat (cd_bufsize c) < 2 ^ 31)"

definition log_open :: "bool \<Rightarrow> nat \<Rightarrow> cpudata \<Rightarrow> message list \<Rightarrow> nat \<Rightarrow> u32 list \<Rightarrow> bool" where
  "log_open be p0 c ms e cur =
     (4 \<le> e \<and> cd_last_event c = of_nat e \<and> cd_next c = of_nat (e + 4 * length cur) \<and>
      e + 4 * length cur < unat (cd_bufsize c) \<and> e mod 4 = 0 \<and>
      log_at be (cd_buf c) p0 ms (e - 4) \<and> bytes_at (cd_buf c) (e - 4) [DP_D_EVENTS] \<and>
      bytes_at (cd_buf c) e (concat (map (word_bytes be 4) cur)))"

definition log_closed :: "bool \<Rightarrow> nat \<Rightarrow> cpudata \<Rightarrow> message list \<Rightarrow> nat \<Rightarrow> nat \<Rightarrow> bool" where
  "log_closed be p0 c ms q k =
     (cd_last_event c = - 1 \<and> cd_next c = of_nat (q + 4 * k) \<and> q + 4 * k < unat (cd_bufsize c) \<and> q mod 4 = 0 \<and>
      log_at be (cd_buf c) p0 ms q)"

definition grouped :: "u32 list \<Rightarrow> message list" where
  "grouped cur = (if cur = [] then [] else [Events cur])"

text \<open>Only the buffer and the two positions differ.\<close>

definition log_only :: "cpudata \<Rightarrow> cpudata \<Rightarrow> bool" where
  "log_only c c' =
     (cd_threshold c' = cd_threshold c \<and> cd_slotid c' = cd_slotid c \<and> cd_nslots c' = cd_nslots c \<and>
      cd_use_ptr c' = cd_use_ptr c \<and> cur_slot c' = cur_slot c \<and> slot c' = slot c \<and> cd_bufsize c' = cd_bufsize c)"

lemma log_onlyI: "log_only c (c\<lparr>cd_buf := b, cd_next := n, cd_last_event := l\<rparr>)"
  by (simp add: log_only_def)

lemma log_only_update: "log_only c (c\<lparr>cd_buf := b\<rparr>)" "log_only c (c\<lparr>cd_next := n, cd_last_event := l\<rparr>)"
  "log_only c (c\<lparr>cd_next := n\<rparr>)" "log_only c c"
  by (simp_all add: log_only_def)

lemma log_only_trans: "log_only c d \<Longrightarrow> log_only d e \<Longrightarrow> log_only c e"
  by (simp add: log_only_def)

lemma log_onlyD:
  "log_only c d \<Longrightarrow> cd_threshold d = cd_threshold c" "log_only c d \<Longrightarrow> cd_slotid d = cd_slotid c"
  "log_only c d \<Longrightarrow> cd_nslots d = cd_nslots c" "log_only c d \<Longrightarrow> cd_use_ptr d = cd_use_ptr c"
  "log_only c d \<Longrightarrow> cur_slot d = cur_slot c" "log_only c d \<Longrightarrow> slot d = slot c"
  "log_only c d \<Longrightarrow> cd_bufsize d = cd_bufsize c"
  by (simp_all add: log_only_def)

lemma unat_small: "n < 2 ^ 31 \<Longrightarrow> unat (of_nat n :: u32) = n"
  by (simp add: unat_of_nat)

lemma sint_of_small: "n < 2 ^ 31 \<Longrightarrow> sint (of_nat n :: u32) = int n"
  by (simp add: signed_of_nat signed_take_bit_int_eq_self)

lemma of_nat_minus: "m \<le> n \<Longrightarrow> of_nat n - of_nat m = (of_nat (n - m) :: u32)"
  by simp

lemma backfill_open:
  assumes "log_open be p0 c ms e cur" and "log_size_ok c" and "length cur \<le> 16384"
  shows "\<exists>c'. backfill_nevents be c = Inr c' \<and> log_closed be p0 c' (ms @ grouped cur) (if cur = [] then e - 4 else e + 4 * length cur) 0 \<and>
    log_only c c'"
proof -
  let ?B = "unat (cd_bufsize c)"
  have o: "4 \<le> e" "cd_last_event c = of_nat e" "cd_next c = of_nat (e + 4 * length cur)" "e + 4 * length cur < ?B"
    "e mod 4 = 0" "log_at be (cd_buf c) p0 ms (e - 4)" "bytes_at (cd_buf c) (e - 4) [DP_D_EVENTS]"
    "bytes_at (cd_buf c) e (concat (map (word_bytes be 4) cur))"
    using assms(1) by (simp_all add: log_open_def)
  have B: "?B < 2 ^ 31" using assms(2) by (simp add: log_size_ok_def)
  then have e: "sint (cd_last_event c) = int e" using o(2,4) by (simp add: sint_of_small)
  have ee: "e mod 4 = 0 \<Longrightarrow> (e - 4) mod 4 = 0" using o(1) by presburger
  show ?thesis
  proof (cases "cur = []")
    case True
    let ?c = "c\<lparr>cd_next := of_nat (e - 4), cd_last_event := - 1\<rparr>"
    have "backfill_nevents be c = Inr ?c"
      using True e o(1,2,3) by (simp add: backfill_nevents_def EVENT_HDR_MSG_SIZE_def)
    moreover have "log_closed be p0 ?c ms (e - 4) 0"
      using o True ee by (simp add: log_closed_def)
    ultimately show ?thesis using True by (intro exI [of _ ?c]) (simp add: grouped_def log_only_update)
  next
    case False
    let ?b = "overlay (e - 2) (word_bytes be 2 (of_nat (length cur) :: u16)) (cd_buf c)"
    have "unat (cd_next c) = e + 4 * length cur" "unat (cd_last_event c) = e"
      unfolding o(2,3) using o(4) B by (intro unat_small; linarith)+
    then have "cd_next c \<noteq> cd_last_event c" using False by auto
    moreover have n: "ucast ((cd_next c - cd_last_event c) div of_nat EVENT_MSG_SIZE) = (of_nat (length cur) :: u16)"
    proof -
      have "cd_next c - cd_last_event c = of_nat (4 * length cur)" using o(2,3) by simp
      moreover have "unat (of_nat (4 * length cur) :: u32) = 4 * length cur" using o(4) B by (intro unat_small) simp
      ultimately have "unat ((cd_next c - cd_last_event c) div of_nat EVENT_MSG_SIZE) = length cur"
        by (simp add: EVENT_MSG_SIZE_def unat_div del: of_nat_mult)
      then show ?thesis by (metis of_nat_unat)
    qed
    moreover have p: "put (e - 2) (word_bytes be 2 (of_nat (length cur) :: u16)) c = Inr (c\<lparr>cd_buf := ?b\<rparr>)"
      using o(1,4) by (subst put_fits) simp_all
    ultimately have r: "backfill_nevents be c = Inr (c\<lparr>cd_buf := ?b, cd_last_event := - 1\<rparr>)"
      using e o(1) by (simp add: backfill_nevents_def nat_diff_distrib)
    have "log_at be ?b p0 ms (e - 4)" using o(1) by (intro log_at_same [OF o(6)]) simp
    moreover have "bytes_at ?b (e - 4) [DP_D_EVENTS]" using o(1,7) by (subst bytes_at_overlay_other) auto
    moreover have "bytes_at ?b (e - 2) (word_bytes be 2 (of_nat (length cur) :: u16))" by (rule bytes_at_overlay)
    moreover have "bytes_at ?b e (concat (map (word_bytes be 4) cur))" using o(1,8) by (subst bytes_at_overlay_other) auto
    moreover have "e - 4 + 2 = e - 2" "e - 4 + 4 = e" using o(1) by simp_all
    ultimately have "log_at be ?b p0 (ms @ [Events cur]) (e + 4 * length cur)"
      using False assms(3) by (auto simp: log_at_append)
    moreover have "(e + 4 * length cur) mod 4 = 0" using o(5) by presburger
    ultimately show ?thesis using r o(3,4) False
      by (intro exI [of _ "c\<lparr>cd_buf := ?b, cd_last_event := - 1\<rparr>"]) (simp add: grouped_def log_closed_def log_only_def)
  qed
qed

lemma report_closed:
  assumes "log_closed be p0 c ms q 0" and "log_size_ok c"
  shows "\<exists>r c'. report_new_context be pid cpuid c = Inr (r, c') \<and> log_only c c' \<and>
    (if q + 20 \<le> unat (cd_bufsize c) then log_open be p0 c' (ms @ [Context pid cpuid (cd_slotid c)]) (q + 16) []
     else log_closed be p0 c' ms q 0)"
proof -
  let ?B = "unat (cd_bufsize c)"
  have o: "cd_last_event c = - 1" "cd_next c = of_nat q" "q < ?B" "q mod 4 = 0" "log_at be (cd_buf c) p0 ms q"
    using assms(1) by (simp_all add: log_closed_def)
  have B: "20 \<le> ?B" "?B < 2 ^ 31" using assms(2) by (simp_all add: log_size_ok_def)
  have q: "unat (cd_next c) = q" using o(2,3) B by (simp add: unat_small)
  have backfill: "backfill_nevents be c = Inr c" using o(1) by (simp add: backfill_nevents_def)
  have full: "(ucast (cd_next c) > cd_bufsize c - of_nat (NEW_CONTEXT_MSG_SIZE + EVENT_HDR_MSG_SIZE + EVENT_MSG_SIZE)) =
      (\<not> q + 20 \<le> ?B)"
  proof -
    have "unat (cd_bufsize c - 20) = ?B - 20" using B by (simp add: unat_sub word_le_nat_alt)
    moreover have "unat (ucast (cd_next c) :: u64) = q" using q o(3) B by (simp add: unsigned_ucast_eq take_bit_nat_eq_self)
    ultimately show ?thesis using B
      by (auto simp: word_less_nat_alt NEW_CONTEXT_MSG_SIZE_def EVENT_HDR_MSG_SIZE_def EVENT_MSG_SIZE_def)
  qed
  show ?thesis
  proof (cases "q + 20 \<le> ?B")
    case False
    then show ?thesis using full backfill assms(1)
      by (intro exI [of _ 1] exI [of _ c]) (simp add: report_new_context_def log_only_update)
  next
    case True
    define b1 where "b1 = overlay q [DP_D_CONTEXT, cpuid, cd_slotid c] (cd_buf c)"
    define b2 where "b2 = overlay (q + 4) (word_bytes be 4 pid) b1"
    define b3 where "b3 = overlay (q + 8) (word_bytes be 4 (0 :: u32)) b2"
    define b4 where "b4 = overlay (q + 12) [DP_D_EVENTS] b3"
    let ?c = "c\<lparr>cd_buf := b4, cd_next := of_nat (q + 16), cd_last_event := of_nat (q + 16)\<rparr>"
    have "put q [DP_D_CONTEXT, cpuid, cd_slotid c] c = Inr (c\<lparr>cd_buf := b1\<rparr>)"
      "put (q + 4) (word_bytes be 4 pid) (c\<lparr>cd_buf := b1\<rparr>) = Inr (c\<lparr>cd_buf := b2\<rparr>)"
      "put (q + 8) (word_bytes be 4 (0 :: u32)) (c\<lparr>cd_buf := b2\<rparr>) = Inr (c\<lparr>cd_buf := b3\<rparr>)"
      "put (q + 12) [DP_D_EVENTS] (c\<lparr>cd_buf := b3, cd_next := x\<rparr>) = Inr (c\<lparr>cd_buf := b4, cd_next := x\<rparr>)" for x
      using True by (simp_all add: put_def b1_def b2_def b3_def b4_def)
    then have "enter_context be pid cpuid c = Inr ?c"
      using o(2) by (simp add: enter_context_def enter_event_hdr_def q [unfolded o(2)] EVENT_HDR_MSG_SIZE_def NEW_CONTEXT_MSG_SIZE_def Let_def)
    then have r: "report_new_context be pid cpuid c = Inr (0, ?c)"
      using full True backfill by (simp add: report_new_context_def)
    have "log_at be b4 p0 ms q" by (rule log_at_same [OF o(5)]) (simp add: b4_def b3_def b2_def b1_def)
    moreover have "bytes_at b4 q [DP_D_CONTEXT, cpuid, cd_slotid c]"
      by (simp add: bytes_at_overlay bytes_at_overlay_other b4_def b3_def b2_def b1_def)
    moreover have "bytes_at b4 (q + 4) (word_bytes be 4 pid)" "bytes_at b4 (q + 8) (word_bytes be 4 (0 :: u32))"
      by (simp_all add: bytes_at_overlay bytes_at_overlay_other b4_def b3_def b2_def)
    ultimately have "log_at be b4 p0 (ms @ [Context pid cpuid (cd_slotid c)]) (q + 12)"
      by (auto simp: log_at_append)
    moreover have "bytes_at b4 (q + 12) [DP_D_EVENTS]" by (simp add: bytes_at_overlay b4_def)
    moreover have "(q + 16) mod 4 = 0" using o(4) by presburger
    ultimately have "log_open be p0 ?c (ms @ [Context pid cpuid (cd_slotid c)]) (q + 16) []"
      using True by (auto simp: log_open_def add.commute [of 12 q]) (simp add: bytes_at_def)
    then show ?thesis using r True by (intro exI [of _ 0] exI [of _ ?c]) (simp add: log_onlyI)
  qed
qed

text \<open>Recording a sample. A state is live if samples go into a grouped, full if no context fits any more.\<close>

definition log_live :: "bool \<Rightarrow> nat \<Rightarrow> cpudata \<Rightarrow> message list \<Rightarrow> u32 list \<Rightarrow> bool" where
  "log_live be p0 c ms cur =
     (\<exists>e. log_open be p0 c ms e cur \<and> e + 4 * length cur < (e div 0x10000 + 1) * 0x10000 \<and>
          last_slot None ms = Some (cd_slotid c))"

definition log_full :: "bool \<Rightarrow> nat \<Rightarrow> cpudata \<Rightarrow> message list \<Rightarrow> bool" where
  "log_full be p0 c ms = (\<exists>q k. log_closed be p0 c ms q k \<and> unat (cd_bufsize c) < q + 20)"

lemma report_live:
  assumes "log_open be p0 c ms e cur" and "length cur \<le> 16384" and "log_size_ok c"
  shows "\<exists>r c'. report_new_context be pid cpuid c = Inr (r, c') \<and> log_only c c' \<and>
    (log_live be p0 c' (ms @ grouped cur @ [Context pid cpuid (cd_slotid c)]) [] \<and> unat (cd_next c') \<le> unat (cd_next c) + 16 \<or>
     log_full be p0 c' (ms @ grouped cur) \<and> unat (cd_bufsize c) < unat (cd_next c) + 20)"
proof -
  let ?q = "if cur = [] then e - 4 else e + 4 * length cur"
  obtain c1 where c1: "backfill_nevents be c = Inr c1" "log_closed be p0 c1 (ms @ grouped cur) ?q 0" "log_only c c1"
    using backfill_open [OF assms(1,3,2)] by blast
  have again: "backfill_nevents be c1 = Inr c1" using c1(2) by (simp add: log_closed_def backfill_nevents_def)
  have s1: "log_size_ok c1" "cd_slotid c1 = cd_slotid c" using assms(3) c1(3) by (simp_all add: log_size_ok_def log_onlyD)
  obtain r c2 where c2: "report_new_context be pid cpuid c1 = Inr (r, c2)" "log_only c1 c2"
    "if ?q + 20 \<le> unat (cd_bufsize c1) then log_open be p0 c2 ((ms @ grouped cur) @ [Context pid cpuid (cd_slotid c1)]) (?q + 16) []
     else log_closed be p0 c2 (ms @ grouped cur) ?q 0"
    using report_closed [OF c1(2) s1(1)] by blast
  have B: "unat (cd_bufsize c) < 2 ^ 31" using assms(3) by (simp add: log_size_ok_def)
  have "unat (cd_next c) = e + 4 * length cur"
    using assms(1) B unat_small [of "e + 4 * length cur"] by (simp add: log_open_def)
  then have q: "?q \<le> unat (cd_next c)" by simp
  have "report_new_context be pid cpuid c = report_new_context be pid cpuid c1"
    by (simp add: report_new_context_def c1(1) again)
  moreover have "log_live be p0 c2 (ms @ grouped cur @ [Context pid cpuid (cd_slotid c)]) [] \<and> unat (cd_next c2) \<le> unat (cd_next c) + 16 \<or>
     log_full be p0 c2 (ms @ grouped cur) \<and> unat (cd_bufsize c) < unat (cd_next c) + 20"
  proof (cases "?q + 20 \<le> unat (cd_bufsize c1)")
    case True
    then have open2: "log_open be p0 c2 (ms @ grouped cur @ [Context pid cpuid (cd_slotid c)]) (?q + 16) []"
      using c2(3) s1(2) by (simp only: if_True append_assoc)
    have "x < (x div 0x10000 + 1) * 0x10000" for x :: nat
      using dividend_less_div_times [of "0x10000" x] by (simp add: algebra_simps)
    with open2 have "log_live be p0 c2 (ms @ grouped cur @ [Context pid cpuid (cd_slotid c)]) []"
      using log_onlyD(2) [OF c2(2)] s1(2) unfolding log_live_def
      by (intro exI [of _ "?q + 16"] conjI) (simp_all only: list.size mult_0_right add_0_right last_slot_append last_slot.simps)
    moreover have "unat (cd_next c2) = ?q + 16"
      using open2 B log_onlyD(7) [OF c1(3)] log_onlyD(7) [OF c2(2)] unat_small [of "?q + 16"] by (simp add: log_open_def)
    ultimately show ?thesis using q by simp
  next
    case False
    then have "log_closed be p0 c2 (ms @ grouped cur) ?q 0" "unat (cd_bufsize c2) < ?q + 20"
      using c2(3) log_onlyD(7) [OF c2(2)] by (simp_all only: if_False not_le)
    then have "log_full be p0 c2 (ms @ grouped cur)" unfolding log_full_def by blast
    moreover have "unat (cd_bufsize c) < unat (cd_next c) + 20"
      using False q log_onlyD(7) [OF c1(3)] by (metis add_right_mono less_le_trans not_le)
    ultimately show ?thesis by blast
  qed
  ultimately show ?thesis using c2(1) log_only_trans [OF c1(3) c2(2)] by auto
qed

lemma report_full:
  assumes "log_full be p0 c ms" and "log_size_ok c"
  shows "report_new_context be pid cpuid c = Inr (1, c)"
proof -
  obtain q k where o: "cd_last_event c = - 1" "cd_next c = of_nat (q + 4 * k)" "q + 4 * k < unat (cd_bufsize c)"
    "unat (cd_bufsize c) < q + 20"
    using assms(1) by (auto simp: log_full_def log_closed_def)
  have B: "20 \<le> unat (cd_bufsize c)" "unat (cd_bufsize c) < 2 ^ 31" using assms(2) by (simp_all add: log_size_ok_def)
  have "unat (cd_bufsize c - 20) = unat (cd_bufsize c) - 20" using B by (simp add: unat_sub word_le_nat_alt)
  moreover have "unat (cd_next c) = q + 4 * k" unfolding o(2) using o(3) B by (intro unat_small) simp
  then have "unat (ucast (cd_next c) :: u64) = q + 4 * k" using o(3) B by (simp add: unsigned_ucast_eq take_bit_nat_eq_self)
  ultimately have "ucast (cd_next c) > cd_bufsize c - of_nat (NEW_CONTEXT_MSG_SIZE + EVENT_HDR_MSG_SIZE + EVENT_MSG_SIZE)"
    using o(4) B by (simp add: word_less_nat_alt NEW_CONTEXT_MSG_SIZE_def EVENT_HDR_MSG_SIZE_def EVENT_MSG_SIZE_def)
  moreover have "backfill_nevents be c = Inr c" using o(1) by (simp add: backfill_nevents_def)
  ultimately show ?thesis by (simp add: report_new_context_def)
qed

definition sample_word :: "u32 \<Rightarrow> u32 \<Rightarrow> nat \<Rightarrow> u8 \<Rightarrow> u32" where
  "sample_word pcv ptr n use_ptr = (if n = 1 \<and> use_ptr \<noteq> 0 then ptr else pcv) OR of_nat n"

lemma sample_room:
  assumes "log_size_ok c" and "unat (cd_next c) < 2 ^ 32"
  shows "(ucast (cd_next c) < cd_bufsize c - 4) = (unat (cd_next c) + 4 < unat (cd_bufsize c))"
proof -
  have B: "20 \<le> unat (cd_bufsize c)" using assms(1) by (simp add: log_size_ok_def)
  then have "unat (cd_bufsize c - 4) = unat (cd_bufsize c) - 4" by (simp add: unat_sub word_le_nat_alt)
  moreover have "unat (ucast (cd_next c) :: u64) = unat (cd_next c)"
    using assms(2) by (simp add: unsigned_ucast_eq take_bit_nat_eq_self)
  ultimately show ?thesis using B by (auto simp: word_less_nat_alt)
qed

lemma next_mod: "n < 2 ^ 31 \<Longrightarrow> ((of_nat n :: u32) mod 0x10000 = 0) = (n mod 0x10000 = 0)"
  by (simp add: word_arith_nat_mod unat_small flip: of_nat_mod) (simp add: unat_small word_unat_eq_iff unat_mod)

lemma step_to_limit:
  fixes n k :: nat
  assumes "n mod 4 = 0" and "n < k * 0x10000" and "(n + 4) mod 0x10000 \<noteq> 0"
  shows "n + 4 < k * 0x10000"
proof (rule ccontr)
  assume l: "\<not> n + 4 < k * 0x10000"
  obtain a where a: "n = 4 * a" using assms(1) by (auto simp: mod_eq_0_iff_dvd dvd_def)
  have "k * 0x4000 \<le> a + 1" "a < k * 0x4000" using l assms(2) unfolding a by linarith+
  then have "a + 1 = k * 0x4000" by linarith
  then have "n + 4 = k * 0x10000" unfolding a by simp
  then show False using assms(3) by simp
qed

lemma record_live:
  assumes "log_live be p0 c ms cur" and "log_size_ok c"
  shows "\<exists>c'. record_sample be pcv ptr n up c = Inr c' \<and> log_only c c' \<and>
    (\<exists>ms' cur'. (log_live be p0 c' ms' cur' \<and> unat (cd_next c') \<le> unat (cd_next c) + 20 \<or>
         log_full be p0 c' ms' \<and> cur' = [] \<and> unat (cd_bufsize c) < unat (cd_next c) + 24) \<and>
       samples None (ms' @ grouped cur') = samples None (ms @ grouped cur) @
         (if unat (cd_next c) + 4 < unat (cd_bufsize c) then [(Some (cd_slotid c), sample_word pcv ptr n up)] else []))"
proof -
  let ?v = "sample_word pcv ptr n up" and ?B = "unat (cd_bufsize c)"
  obtain e where o: "log_open be p0 c ms e cur" "e + 4 * length cur < (e div 0x10000 + 1) * 0x10000"
    "last_slot None ms = Some (cd_slotid c)"
    using assms(1) by (auto simp: log_live_def)
  let ?n = "e + 4 * length cur"
  have p: "4 \<le> e" "cd_last_event c = of_nat e" "cd_next c = of_nat ?n" "?n < ?B" "e mod 4 = 0"
    "log_at be (cd_buf c) p0 ms (e - 4)" "bytes_at (cd_buf c) (e - 4) [DP_D_EVENTS]"
    "bytes_at (cd_buf c) e (concat (map (word_bytes be 4) cur))"
    using o(1) by (simp_all add: log_open_def)
  have B: "?B < 2 ^ 31" using assms(2) by (simp add: log_size_ok_def)
  have n: "unat (cd_next c) = ?n" unfolding p(3) using p(4) B by (intro unat_small) simp
  have room: "(ucast (cd_next c) < cd_bufsize c - 4) = (?n + 4 < ?B)"
    using sample_room [OF assms(2)] n p(4) B by simp
  show ?thesis
  proof (cases "?n + 4 < ?B")
    case False
    then have "record_sample be pcv ptr n up c = Inr c" using room by (simp add: record_sample_def Let_def)
    then show ?thesis using False n assms(1) by (intro exI [of _ c]) (auto simp: log_only_update)
  next
    case True
    let ?b = "overlay ?n (word_bytes be 4 ?v) (cd_buf c)"
    let ?c = "c\<lparr>cd_buf := ?b, cd_next := of_nat (?n + 4)\<rparr>"
    have w: "put ?n (word_bytes be 4 ?v) c = Inr (c\<lparr>cd_buf := ?b\<rparr>)" using True by (simp add: put_fits)
    have n1: "cd_next c + 4 = of_nat (?n + 4)" using p(3) by simp
    have m: "(of_nat (?n + 4) :: u32) mod 0x10000 = 0 \<longleftrightarrow> (?n + 4) mod 0x10000 = 0"
      using True B by (intro next_mod) simp
    have r: "record_sample be pcv ptr n up c =
      (if (?n + 4) mod 0x10000 = 0 then bind_res (report_new_context be KERNEL_PID 0 ?c) (\<lambda>(_, c3). Inr c3) else Inr ?c)"
      using room True w by (simp add: record_sample_def Let_def n sample_word_def n1 m [symmetric] del: of_nat_add)
    have "log_at be ?b p0 ms (e - 4)" using p(1) by (intro log_at_same [OF p(6)]) simp
    moreover have "bytes_at ?b (e - 4) [DP_D_EVENTS]" using p(1,7) by (subst bytes_at_overlay_other) auto
    moreover have "bytes_at ?b e (concat (map (word_bytes be 4) (cur @ [?v])))"
      using p(8) by (simp add: bytes_at_append bytes_at_overlay bytes_at_overlay_other)
    ultimately have open_c: "log_open be p0 ?c ms e (cur @ [?v])"
      using p True by (simp add: log_open_def algebra_simps)
    have more: "samples None (ms @ grouped (cur @ [?v])) = samples None (ms @ grouped cur) @ [(Some (cd_slotid c), ?v)]"
      using o(3) by (simp add: samples_append grouped_def)
    have n4: "unat (cd_next ?c) = unat (cd_next c) + 4" using n True B unat_small [of "?n + 4"] by simp
    have len: "length (cur @ [?v]) \<le> 16384" using o(2) p(5) by simp
    show ?thesis
    proof (cases "(?n + 4) mod 0x10000 = 0")
      case False
      have "?n + 4 < (e div 0x10000 + 1) * 0x10000"
        using step_to_limit [of ?n "e div 0x10000 + 1"] False o(2) p(5) by fastforce
      then have "log_live be p0 ?c ms (cur @ [?v])"
        using open_c o(3) unfolding log_live_def by (intro exI [of _ e]) simp
      then show ?thesis using r False True n n4 more
        by (intro exI [of _ ?c] conjI exI [of _ ms] exI [of _ "cur @ [?v]"]) (simp_all add: log_only_def)
    next
      case at_limit: True
      have s: "log_size_ok ?c" using assms(2) by (simp add: log_size_ok_def)
      obtain x c' where c': "report_new_context be KERNEL_PID 0 ?c = Inr (x, c')" "log_only ?c c'"
        "log_live be p0 c' (ms @ grouped (cur @ [?v]) @ [Context KERNEL_PID 0 (cd_slotid ?c)]) [] \<and>
           unat (cd_next c') \<le> unat (cd_next ?c) + 16 \<or>
         log_full be p0 c' (ms @ grouped (cur @ [?v])) \<and> unat (cd_bufsize ?c) < unat (cd_next ?c) + 20"
        using report_live [OF open_c len s] by blast
      have "log_only c c'" using log_only_trans [OF _ c'(2), of c] by (simp add: log_only_def)
      moreover have "record_sample be pcv ptr n up c = Inr c'" using r at_limit c'(1) by simp
      moreover have "samples None ((ms @ grouped (cur @ [?v]) @ [Context KERNEL_PID 0 (cd_slotid ?c)]) @ grouped []) =
          samples None (ms @ grouped (cur @ [?v]))" "samples None ((ms @ grouped (cur @ [?v])) @ grouped []) = samples None (ms @ grouped (cur @ [?v]))"
        by (simp_all add: samples_append grouped_def)
      moreover have "log_live be p0 c' (ms @ grouped (cur @ [?v]) @ [Context KERNEL_PID 0 (cd_slotid ?c)]) [] \<and>
           unat (cd_next c') \<le> unat (cd_next c) + 20 \<or>
         log_full be p0 c' (ms @ grouped (cur @ [?v])) \<and> unat (cd_bufsize c) < unat (cd_next c) + 24"
        using c'(3) n4 by (simp del: append.simps) linarith
      ultimately show ?thesis using True n more by (intro exI [of _ c']) fastforce
    qed
  qed
qed

lemma record_full:
  assumes "log_full be p0 c ms" and "log_size_ok c"
  shows "\<exists>c'. record_sample be pcv ptr n up c = Inr c' \<and> log_only c c' \<and> log_full be p0 c' ms"
proof -
  let ?v = "sample_word pcv ptr n up" and ?B = "unat (cd_bufsize c)"
  obtain q k where o: "cd_last_event c = - 1" "cd_next c = of_nat (q + 4 * k)" "q + 4 * k < ?B" "q mod 4 = 0"
    "log_at be (cd_buf c) p0 ms q" "?B < q + 20"
    using assms(1) by (auto simp: log_full_def log_closed_def)
  let ?n = "q + 4 * k"
  have B: "?B < 2 ^ 31" using assms(2) by (simp add: log_size_ok_def)
  have n: "unat (cd_next c) = ?n" unfolding o(2) using o(3) B by (intro unat_small) simp
  have room: "(ucast (cd_next c) < cd_bufsize c - 4) = (?n + 4 < ?B)"
    using sample_room [OF assms(2)] n o(3) B by simp
  show ?thesis
  proof (cases "?n + 4 < ?B")
    case False
    then show ?thesis using assms(1) room
      by (intro exI [of _ c]) (simp add: record_sample_def Let_def log_only_update)
  next
    case True
    let ?c = "c\<lparr>cd_buf := overlay ?n (word_bytes be 4 ?v) (cd_buf c), cd_next := of_nat (?n + 4)\<rparr>"
    have w: "put ?n (word_bytes be 4 ?v) c = Inr (c\<lparr>cd_buf := overlay ?n (word_bytes be 4 ?v) (cd_buf c)\<rparr>)"
      using True by (simp add: put_fits)
    have n1: "cd_next c + 4 = of_nat (?n + 4)" using o(2) by simp
    have "log_at be (overlay ?n (word_bytes be 4 ?v) (cd_buf c)) p0 ms q" by (rule log_at_same [OF o(5)]) simp
    then have f: "log_full be p0 ?c ms"
      unfolding log_full_def using o True by (intro exI [of _ q] exI [of _ "k + 1"]) (simp add: log_closed_def)
    have s: "log_size_ok ?c" using assms(2) by (simp add: log_size_ok_def)
    have "record_sample be pcv ptr n up c = Inr ?c"
      using room True w report_full [OF f s]
      by (simp add: record_sample_def Let_def n sample_word_def n1 del: of_nat_add)
    then show ?thesis using f by (intro exI [of _ ?c]) (simp add: log_only_def)
  qed
qed

text \<open>The profiler's invariant on the log, and the samples recorded so far.\<close>

definition log_samples :: "bool \<Rightarrow> nat \<Rightarrow> cpudata \<Rightarrow> (u8 option \<times> u32) list \<Rightarrow> bool" where
  "log_samples be p0 c xs =
     (\<exists>ms cur. (log_live be p0 c ms cur \<or> log_full be p0 c ms \<and> cur = []) \<and> xs = samples None (ms @ grouped cur))"

definition log_is_full :: "bool \<Rightarrow> nat \<Rightarrow> cpudata \<Rightarrow> bool" where
  "log_is_full be p0 c = (\<exists>ms. log_full be p0 c ms)"


section \<open>The log as a store of samples\<close>

text \<open>
  \<open>log_rep\<close> is the representation relation: the samples recorded so far, each with its slot.
  \<open>log_free\<close> is the room left, 0 once the log has run full.
\<close>

definition log_rep :: "bool \<Rightarrow> nat \<Rightarrow> cpudata \<Rightarrow> (u8 option \<times> u32) list \<Rightarrow> bool" where
  "log_rep be p0 c xs =
     (log_size_ok c \<and>
      (\<exists>ms cur. (log_live be p0 c ms cur \<or> log_full be p0 c ms \<and> cur = []) \<and> xs = samples None (ms @ grouped cur)))"

definition log_free :: "cpudata \<Rightarrow> nat" where
  "log_free c = (if cd_last_event c = - 1 then 0 else unat (cd_bufsize c) - unat (cd_next c))"

lemma live_length: "log_live be p0 c ms cur \<Longrightarrow> length cur \<le> 16384"
  by (auto simp: log_live_def log_open_def)

lemma live_last_event:
  assumes "log_live be p0 c ms cur" and "log_size_ok c"
  shows "cd_last_event c \<noteq> - 1"
proof
  assume n: "cd_last_event c = - 1"
  obtain e where e: "cd_last_event c = of_nat e" "e < unat (cd_bufsize c)"
    using assms(1) by (auto simp: log_live_def log_open_def)
  then have "sint (cd_last_event c) = int e"
    using assms(2) by (simp add: log_size_ok_def sint_of_small)
  then show False unfolding n by simp
qed

lemma log_rep_record:
  assumes "log_rep be p0 c xs"
  shows "\<exists>c' ys. record_sample be pcv ptr n up c = Inr c' \<and> log_rep be p0 c' (xs @ ys) \<and>
    ys \<in> {[], [(Some (cd_slotid c), sample_word pcv ptr n up)]} \<and> (24 \<le> log_free c \<longrightarrow> ys \<noteq> []) \<and>
    log_free c \<le> log_free c' + 24 \<and> log_only c c'"
proof -
  let ?x = "(Some (cd_slotid c), sample_word pcv ptr n up)"
  obtain ms cur where r: "log_size_ok c" "log_live be p0 c ms cur \<or> log_full be p0 c ms \<and> cur = []"
    "xs = samples None (ms @ grouped cur)"
    using assms by (auto simp: log_rep_def)
  show ?thesis
  proof (cases "log_live be p0 c ms cur")
    case True
    obtain c' ms' cur' where c': "record_sample be pcv ptr n up c = Inr c'" "log_only c c'"
      "log_live be p0 c' ms' cur' \<and> unat (cd_next c') \<le> unat (cd_next c) + 20 \<or>
       log_full be p0 c' ms' \<and> cur' = [] \<and> unat (cd_bufsize c) < unat (cd_next c) + 24"
      "samples None (ms' @ grouped cur') = xs @ (if unat (cd_next c) + 4 < unat (cd_bufsize c) then [?x] else [])"
      using record_live [OF True r(1)] r(3) by blast
    have s: "log_size_ok c'" "cd_bufsize c' = cd_bufsize c" using r(1) log_onlyD(7) [OF c'(2)] by (simp_all add: log_size_ok_def)
    have l: "cd_last_event c \<noteq> - 1" by (rule live_last_event [OF True r(1)])
    have "log_free c \<le> log_free c' + 24"
      using c'(3) live_last_event [OF _ s(1)] l s(2) by (auto simp: log_free_def)
    moreover have "log_rep be p0 c' (samples None (ms' @ grouped cur'))" using c'(3) s(1) unfolding log_rep_def by blast
    moreover have "unat (cd_next c) + 4 < unat (cd_bufsize c)" if "24 \<le> log_free c"
      using that l by (simp add: log_free_def)
    ultimately show ?thesis using c'(1,2) unfolding c'(4)
      by (intro exI [of _ c'] exI [of _ "if unat (cd_next c) + 4 < unat (cd_bufsize c) then [?x] else []"]) auto
  next
    case False
    then have f: "log_full be p0 c ms" "cur = []" using r(2) by simp_all
    obtain c' where c': "record_sample be pcv ptr n up c = Inr c'" "log_only c c'" "log_full be p0 c' ms"
      using record_full [OF f(1) r(1)] by blast
    have "log_free c = 0" using f(1) by (auto simp: log_full_def log_closed_def log_free_def)
    moreover have "log_rep be p0 c' xs" using c' r f log_onlyD(7) [OF c'(2)] by (auto simp: log_rep_def log_size_ok_def)
    ultimately show ?thesis using c'(1,2) by (intro exI [of _ c'] exI [of _ "[]"]) simp
  qed
qed

lemma log_rep_switch:
  assumes "log_rep be p0 c xs" and "cd_buf d = cd_buf c" "cd_next d = cd_next c" "cd_last_event d = cd_last_event c"
    "cd_bufsize d = cd_bufsize c"
  shows "\<exists>r d'. report_new_context be pid cpuid d = Inr (r, d') \<and> log_rep be p0 d' xs \<and> log_only d d'"
proof -
  obtain ms cur where r: "log_size_ok c" "log_live be p0 c ms cur \<or> log_full be p0 c ms \<and> cur = []"
    "xs = samples None (ms @ grouped cur)"
    using assms(1) by (auto simp: log_rep_def)
  have s: "log_size_ok d" using r(1) assms(5) by (simp add: log_size_ok_def)
  show ?thesis
  proof (cases "log_live be p0 c ms cur")
    case True
    then obtain e where "log_open be p0 c ms e cur" by (auto simp: log_live_def)
    then have "log_open be p0 d ms e cur" using assms(2-5) by (simp add: log_open_def)
    from report_live [OF this live_length [OF True] s] obtain r' d' where
      d': "report_new_context be pid cpuid d = Inr (r', d')" "log_only d d'"
        "log_live be p0 d' (ms @ grouped cur @ [Context pid cpuid (cd_slotid d)]) [] \<or> log_full be p0 d' (ms @ grouped cur)"
      by blast
    have "log_size_ok d'" using s log_onlyD(7) [OF d'(2)] by (simp add: log_size_ok_def)
    moreover have "samples None ((ms @ grouped cur @ [Context pid cpuid (cd_slotid d)]) @ grouped []) = xs"
      "samples None ((ms @ grouped cur) @ grouped []) = xs"
      using r(3) by (simp_all add: samples_append grouped_def)
    ultimately have "log_rep be p0 d' xs" using d'(3) unfolding log_rep_def by metis
    then show ?thesis using d' by blast
  next
    case False
    then have f: "log_full be p0 d ms" "cur = []" using r(2) assms(2-5) by (auto simp: log_full_def log_closed_def)
    then have "log_rep be p0 d xs" using r(3) s by (auto simp: log_rep_def)
    then show ?thesis using report_full [OF f(1) s] by (intro exI [of _ 1] exI [of _ d]) (simp add: log_only_update)
  qed
qed

text \<open>Closing the log at the end: a reader sees all the samples.\<close>

lemma log_rep_close:
  assumes "log_rep be p0 c xs"
  shows "\<exists>c' ms q k. backfill_nevents be c = Inr c' \<and> log_closed be p0 c' ms q k \<and> samples None ms = xs \<and> k \<le> 4 \<and>
    log_only c c'"
proof -
  obtain ms cur where r: "log_size_ok c" "log_live be p0 c ms cur \<or> log_full be p0 c ms \<and> cur = []"
    "xs = samples None (ms @ grouped cur)"
    using assms by (auto simp: log_rep_def)
  show ?thesis
  proof (cases "log_live be p0 c ms cur")
    case True
    then obtain e where "log_open be p0 c ms e cur" by (auto simp: log_live_def)
    from backfill_open [OF this r(1) live_length [OF True]] show ?thesis using r(3) by blast
  next
    case False
    then obtain q k where "log_closed be p0 c ms q k" "unat (cd_bufsize c) < q + 20" "cur = []"
      using r(2) by (auto simp: log_full_def)
    moreover from this have "k \<le> 4" "backfill_nevents be c = Inr c"
      by (simp_all add: log_closed_def backfill_nevents_def)
    moreover have "log_only c c" by (rule log_only_update)
    ultimately show ?thesis using r(3) by (auto simp: grouped_def)
  qed
qed

lemma log_rep_start:
  assumes "log_size_ok c" and "log_closed be p0 c [] p0 0"
  shows "\<exists>r c'. report_new_context be pid cpuid c = Inr (r, c') \<and> log_rep be p0 c' [] \<and> log_only c c'"
proof -
  obtain r c' where c': "report_new_context be pid cpuid c = Inr (r, c')" "log_only c c'"
    "if p0 + 20 \<le> unat (cd_bufsize c) then log_open be p0 c' ([] @ [Context pid cpuid (cd_slotid c)]) (p0 + 16) []
     else log_closed be p0 c' [] p0 0"
    using report_closed [OF assms(2,1)] by blast
  have s: "log_size_ok c'" "cd_slotid c' = cd_slotid c" "cd_bufsize c' = cd_bufsize c"
    using assms(1) c'(2) by (simp_all add: log_size_ok_def log_onlyD)
  have lim: "x < (x div 0x10000 + 1) * 0x10000" for x :: nat
    using dividend_less_div_times [of "0x10000" x] by (simp add: algebra_simps)
  have "log_rep be p0 c' []"
  proof (cases "p0 + 20 \<le> unat (cd_bufsize c)")
    case True
    then have "log_open be p0 c' [Context pid cpuid (cd_slotid c)] (p0 + 16) []"
      using c'(3) by (simp only: if_True append_Nil)
    then have "log_live be p0 c' [Context pid cpuid (cd_slotid c)] []"
      unfolding log_live_def using lim [of "p0 + 16"] s(2) by (intro exI [of _ "p0 + 16"]) simp
    then show ?thesis unfolding log_rep_def using s(1)
      by (intro conjI exI [of _ "[Context pid cpuid (cd_slotid c)]"] exI [of _ "[]"]) (simp_all add: grouped_def)
  next
    case False
    then have "log_closed be p0 c' [] p0 0" using c'(3) by (simp only: if_False)
    then have "log_full be p0 c' []" unfolding log_full_def using False s(3) by (metis not_le)
    then show ?thesis unfolding log_rep_def using s(1)
      by (intro conjI exI [of _ "[]"]) (simp_all add: grouped_def)
  qed
  then show ?thesis using c' by blast
qed

end
