(* ===== verification/SbprofCpu.thy ===== *)
theory SbprofCpu
  imports SbprofLog "HOL-Library.Sublist"
begin

text \<open>
  The CPU profiler, \<open>libsbprof/libsbprof/sbprof_cpu.c\<close>, on the log of theory \<open>SbprofLog\<close>: the event
  table and the default multiplexing slots, the header of the log, the counters of the processor, the
  interrupt that records samples and moves from slot to slot, and starting and stopping, which
  use the interrupt layer of theory \<open>Intr\<close>. The counters and the register that holds the traced
  address are part of the machine: their values at an interrupt are inputs.
\<close>

unbundle bit_operations_syntax

section \<open>Events\<close>

record sbprof_event_entry =
  ev_name :: string
  ev_event :: u8
  ev_hwcode :: u8
  ev_use_ptr :: bool
  ev_period :: u8
  ev_counters :: u8

definition MAX_COUNTERS :: nat where "MAX_COUNTERS = 4"
definition MAX_SLOTS :: nat where "MAX_SLOTS = 8"
definition CNTRS_0123 :: u8 where "CNTRS_0123 = 0xf"
definition CNTRS_123 :: u8 where "CNTRS_123 = 0xe"
definition CNTRS_1 :: u8 where "CNTRS_1 = 0x2"

definition ev_entry :: "string \<Rightarrow> u8 \<Rightarrow> u8 \<Rightarrow> bool \<Rightarrow> u8 \<Rightarrow> u8 \<Rightarrow> sbprof_event_entry" where
  "ev_entry n e h p k c = \<lparr>ev_name = n, ev_event = e, ev_hwcode = h, ev_use_ptr = p, ev_period = k, ev_counters = c\<rparr>"

definition SB1_event_info :: "sbprof_event_entry list" where
  "SB1_event_info =
    [ev_entry ''cycles'' 0 16 False 17 CNTRS_0123,
     ev_entry ''ibreak'' 1 39 True 19 CNTRS_1,
     ev_entry ''L0'' 2 40 True 19 CNTRS_1,
     ev_entry ''L1'' 3 41 True 19 CNTRS_1,
     ev_entry ''E0'' 4 42 True 19 CNTRS_1,
     ev_entry ''E1'' 5 43 True 19 CNTRS_1,
     ev_entry ''issue4'' 6 32 False 17 CNTRS_123,
     ev_entry ''noinst'' 7 33 False 17 CNTRS_123,
     ev_entry ''dfwait'' 8 34 False 19 CNTRS_123,
     ev_entry ''static'' 9 35 False 19 CNTRS_123,
     ev_entry ''nopipe'' 10 36 False 19 CNTRS_123,
     ev_entry ''ifill'' 11 37 False 19 CNTRS_123,
     ev_entry ''dfill'' 12 38 False 19 CNTRS_123,
     ev_entry ''mispr'' 13 47 True 15 CNTRS_1,
     ev_entry ''mboxrp'' 14 29 False 15 CNTRS_123,
     ev_entry ''dcfrp'' 15 28 False 15 CNTRS_123,
     ev_entry ''deprp'' 16 30 False 15 CNTRS_123,
     ev_entry ''fillrp'' 17 27 False 15 CNTRS_123,
     ev_entry ''replay'' 18 31 False 15 CNTRS_123,
     ev_entry ''br'' 19 44 True 17 CNTRS_1,
     ev_entry ''taken'' 20 45 True 17 CNTRS_1,
     ev_entry ''ptaken'' 21 46 True 17 CNTRS_1,
     ev_entry ''rqlen'' 22 1 False 19 CNTRS_123,
     ev_entry ''urqlen'' 23 2 False 19 CNTRS_123,
     ev_entry ''rdmiss'' 24 3 False 17 CNTRS_123,
     ev_entry ''dfsne'' 25 10 False 17 CNTRS_123,
     ev_entry ''dfs'' 26 11 False 17 CNTRS_123,
     ev_entry ''dfn'' 27 12 False 17 CNTRS_123,
     ev_entry ''if'' 28 15 False 17 CNTRS_123,
     ev_entry ''evict'' 29 13 False 17 CNTRS_123,
     ev_entry ''upgrd'' 30 7 False 17 CNTRS_123,
     ev_entry ''lshpf'' 31 6 False 19 CNTRS_123,
     ev_entry ''pfnop'' 32 5 False 19 CNTRS_123,
     ev_entry ''ldhrq'' 33 4 False 19 CNTRS_123,
     ev_entry ''zbabsy'' 34 17 False 19 CNTRS_123,
     ev_entry ''zbdbsy'' 35 18 False 19 CNTRS_123,
     ev_entry ''zbareq'' 36 19 False 19 CNTRS_123,
     ev_entry ''zbrdn'' 37 20 False 19 CNTRS_123,
     ev_entry ''biubsy'' 38 14 False 19 CNTRS_123,
     ev_entry ''scfail'' 39 26 False 19 CNTRS_123,
     ev_entry ''snphit'' 40 22 False 19 CNTRS_123,
     ev_entry ''snpqfl'' 41 23 False 19 CNTRS_123,
     ev_entry ''steal'' 42 24 False 19 CNTRS_123,
     ev_entry ''steald'' 43 25 False 19 CNTRS_123,
     ev_entry ''ld'' 44 8 False 19 CNTRS_123,
     ev_entry ''st'' 45 9 False 19 CNTRS_123,
     ev_entry ''grad'' 46 0 False 19 CNTRS_123,
     ev_entry ''zbrd'' 47 21 False 19 CNTRS_123]"

definition event_lookup :: "string \<Rightarrow> sbprof_event_entry list \<Rightarrow> sbprof_event_entry option" where
  "event_lookup name tab = List.find (\<lambda>e. ev_name e = name) tab"

definition SB1_default_slots :: "string list list" where
  "SB1_default_slots =
    [[''cycles'', ''ibreak'', ''dfwait'', ''static''],
     [''cycles'', ''mispr'', ''issue4'', ''replay''],
     [''cycles'', ''L0'', ''nopipe'', ''noinst''],
     [''cycles'', ''L1'', ''rqlen'', ''rdmiss''],
     [''cycles'', ''E0'', ''mboxrp'', ''dcfrp''],
     [''cycles'', ''E1'', ''deprp'', ''fillrp''],
     [''cycles'', ''br'', ''grad'', ''rdmiss'']]"

text \<open>\<open>parse_mux_slot\<close>; an event that does not exist or cannot be counted there ends in an endless loop.\<close>

definition set_slot :: "nat \<Rightarrow> nat \<Rightarrow> event_counter_state \<Rightarrow> cpudata \<Rightarrow> cpudata" where
  "set_slot s i x c = c\<lparr>slot := (slot c)(s := (slot c s)(i := x))\<rparr>"

definition parse_counter :: "string list \<Rightarrow> nat \<Rightarrow> sbprof_event_entry list \<Rightarrow> nat \<Rightarrow> cpudata \<Rightarrow> cpudata res" where
  "parse_counter event_names s tab i c =
     (case event_lookup (event_names ! i) tab of
        None \<Rightarrow> Inl Hung
      | Some ev \<Rightarrow>
          if ev_counters ev AND push_bit i 1 = 0 then Inl Hung
          else Inr (set_slot s i
            \<lparr>ecs_total = 0, ecs_dropped = 0, ecs_value = 0, start_period_low = 0, start_period_high = ev_period ev,
             ecs_event = ev_event ev, ecs_hwcode = ev_hwcode ev,
             ecs_flags = ECS_INUSE OR (if ev_use_ptr ev then ECS_USE_PTR else 0)\<rparr> c))"

definition parse_mux_slot :: "string list \<Rightarrow> nat \<Rightarrow> sbprof_event_entry list \<Rightarrow> cpudata \<Rightarrow> cpudata res" where
  "parse_mux_slot event_names s tab = fold_res (parse_counter event_names s tab) [0..<MAX_COUNTERS]"

definition RIPPLE_SIZE :: nat where "RIPPLE_SIZE = 4096"
definition RIPPLE_TABLE_SIZE :: nat where "RIPPLE_TABLE_SIZE = 1024"
definition RIPPLE_GENERATOR :: nat where "RIPPLE_GENERATOR = RIPPLE_SIZE div 5"

definition PERIOD_2_CNTVALUE :: "u64 \<Rightarrow> u64" where
  "PERIOD_2_CNTVALUE p = (- p) AND 0x000000ffffffffff"

text \<open>\<open>adjust_slot_periods\<close>: \<open>occur\<close> counts the uses of an event, then every slot is rewritten.\<close>

definition occur :: "nat \<Rightarrow> cpudata \<Rightarrow> u8 \<Rightarrow> nat" where
  "occur nslots c e =
     length (filter (\<lambda>(s, i). ecs_event (slot c s i) = e) (List.product [0..<nslots] [0..<MAX_COUNTERS]))"

definition adjusted_period :: "nat \<Rightarrow> nat \<Rightarrow> u8 \<Rightarrow> u64" where
  "adjusted_period nslots uses log_period =
     (let period = push_bit (unat log_period) 1 * of_nat uses;
          period = (period + of_nat (nslots div 2)) div of_nat nslots
      in PERIOD_2_CNTVALUE period - of_nat (RIPPLE_SIZE div 2))"

definition adjust_slot :: "(u8 \<Rightarrow> nat) \<Rightarrow> nat \<Rightarrow> nat \<times> nat \<Rightarrow> cpudata \<Rightarrow> cpudata" where
  "adjust_slot occ nslots si c =
     (let x = slot c (fst si) (snd si);
          period = adjusted_period nslots (occ (ecs_event x)) (start_period_high x)
      in set_slot (fst si) (snd si)
           (x\<lparr>start_period_low := ucast period, start_period_high := ucast (drop_bit 32 period)\<rparr>) c)"

definition adjust_slot_periods :: "nat \<Rightarrow> cpudata \<Rightarrow> cpudata" where
  "adjust_slot_periods nslots c =
     fold (adjust_slot (occur nslots c) nslots) (List.product [0..<nslots] [0..<MAX_COUNTERS]) c"

section \<open>The header of the log\<close>

definition MAX_IMAGE_NAME :: nat where "MAX_IMAGE_NAME = 256"

definition ALIGN :: "u64 \<Rightarrow> nat \<Rightarrow> nat \<Rightarrow> nat" where
  "ALIGN base p n =
     (let x = unat ((of_nat n - 1) AND (base + of_nat p)) in if x \<noteq> 0 then p + (n - x) else p)"

definition slot_bytes :: "nat \<Rightarrow> cpudata \<Rightarrow> u8 list" where
  "slot_bytes s c =
     concat (map (\<lambda>i. [ecs_event (slot c s i), start_period_high (slot c s i)]) [0..<MAX_COUNTERS])"

definition sbprof_config_log ::
  "bool \<Rightarrow> u64 \<Rightarrow> u64 \<Rightarrow> u32 \<Rightarrow> string list list \<Rightarrow> sbprof_event_entry list \<Rightarrow> cpudata \<Rightarrow> cpudata res" where
  "sbprof_config_log be base system_rev cpuid default_slots tab c =
     (let num_slots = (if length default_slots > MAX_SLOTS then MAX_SLOTS else length default_slots)
      in bind_res (put 0 [5, 4, 1, (if be then 0 else 1), 0, 1, 3, 0] c) (\<lambda>c.
         bind_res (put 8 (word_bytes be 8 system_rev) c) (\<lambda>c.
         bind_res (put 16 (word_bytes be 4 cpuid) c) (\<lambda>c.
         bind_res (fold_res (\<lambda>s. parse_mux_slot (default_slots ! s) s tab) [0..<num_slots] c) (\<lambda>c.
         bind_res (put 24 (DP_D_CONFIG # of_nat num_slots # concat (map (\<lambda>s. slot_bytes s c) [0..<num_slots])) c) (\<lambda>c.
         let p = ALIGN base (26 + num_slots * (2 * MAX_COUNTERS)) 8;
             c = c\<lparr>cd_nslots := of_nat num_slots\<rparr>
         in bind_res (put p [DP_D_PID_IMAGE] c) (\<lambda>c.
            bind_res (put (p + 4) (word_bytes be 4 (- 1 :: u32)) c) (\<lambda>c.
            bind_res (put (p + 8) (word_bytes be 8 (1 :: u64)) c) (\<lambda>c.
            bind_res (put (p + 16) (word_bytes be 8 (2 :: u64)) c) (\<lambda>c.
            bind_res (put (p + 24) (word_bytes be 4 (3 :: u32)) c) (\<lambda>c.
            bind_res (put (p + 28) (word_bytes be 4 (0 :: u32)) c) (\<lambda>c.
            bind_res (put (p + 32) [0x34, 0] c) (\<lambda>c.
              Inr (adjust_slot_periods num_slots
                (c\<lparr>cd_next := of_nat (p + 32 + MAX_IMAGE_NAME)\<rparr>)))))))))))))))"

section \<open>Counters\<close>

text \<open>
  The static data of the profiler and the performance counters it programs: for each counter the
  control register (\<open>perf_sel\<close>) and the count.
\<close>

record prof =
  cpud :: cpudata
  ripple :: "nat \<Rightarrow> u16"
  ripple_rand :: u64
  perf_sel :: "nat \<Rightarrow> u32"
  perf_count :: "nat \<Rightarrow> u64"

definition arm_counter :: "nat \<Rightarrow> u8 \<Rightarrow> u64 \<Rightarrow> prof \<Rightarrow> prof" where
  "arm_counter n hwcode value p =
     (let code = push_bit 30 1 OR push_bit 5 (ucast hwcode AND 0x3f) OR 0x1f
      in if n < MAX_COUNTERS
         then p\<lparr>perf_sel := (perf_sel p)(n := code), perf_count := (perf_count p)(n := value)\<rparr> else p)"

definition unarm_counters :: "prof \<Rightarrow> prof" where
  "unarm_counters p =
     p\<lparr>perf_sel := (\<lambda>n. if n < MAX_COUNTERS then push_bit 30 1 else perf_sel p n),
       perf_count := (\<lambda>n. if n < MAX_COUNTERS then 0 else perf_count p n)\<rparr>"

definition start_period_of :: "event_counter_state \<Rightarrow> u64" where
  "start_period_of x = ucast (start_period_low x) OR push_bit 32 (ucast (start_period_high x))"

definition enter_counter :: "nat \<Rightarrow> nat \<Rightarrow> prof \<Rightarrow> prof" where
  "enter_counter sid i p =
     (let c = cpud p; x = slot c sid i; a = cur_slot c i
      in if ecs_flags x AND ECS_INUSE \<noteq> 0 then
           let start = start_period_of x
           in arm_counter i (ecs_hwcode x) (max (ecs_value x) start)
                (p\<lparr>cpud := c\<lparr>cur_slot := (cur_slot c)(i :=
                    a\<lparr>acs_total := 0, acs_dropped := 0, acs_start_period := start\<rparr>)\<rparr>\<rparr>)
         else p\<lparr>cpud := c\<lparr>cur_slot := (cur_slot c)(i := a\<lparr>acs_total := 0, acs_dropped := 0\<rparr>)\<rparr>\<rparr>)"

definition slot_enter :: "bool \<Rightarrow> u8 \<Rightarrow> u32 \<Rightarrow> u8 \<Rightarrow> prof \<Rightarrow> prof res" where
  "slot_enter be slotid pid cpuid p =
     (let p1 = fold (enter_counter (unat slotid)) [0..<MAX_COUNTERS] p;
          c = cpud p1
      in bind_res (report_new_context be pid cpuid
             (c\<lparr>cd_slotid := slotid, cd_use_ptr := ecs_flags (slot c (unat slotid) 1) AND ECS_USE_PTR\<rparr>))
           (\<lambda>(_, c'). Inr (p1\<lparr>cpud := c'\<rparr>)))"

definition slot_exit :: "u8 \<Rightarrow> (nat \<Rightarrow> u64) \<Rightarrow> prof \<Rightarrow> prof" where
  "slot_exit slotid counter_val p =
     (let c = cpud p; sid = unat slotid;
          leave = (\<lambda>i. let x = slot c sid i
                       in if i < MAX_COUNTERS \<and> ecs_flags x AND ECS_INUSE \<noteq> 0
                          then x\<lparr>ecs_total := ecs_total x + ucast (acs_total (cur_slot c i)),
                                 ecs_dropped := ecs_dropped x + ucast (acs_dropped (cur_slot c i)),
                                 ecs_value := counter_val i\<rparr>
                          else x)
      in unarm_counters (p\<lparr>cpud := c\<lparr>slot := (slot c)(sid := leave)\<rparr>\<rparr>))"

section \<open>The interrupt\<close>

text \<open>One turn of the loop over the counters, on the profiler's state and the copies \<open>msr\<close> of the counts.\<close>

definition intr_counter ::
  "bool \<Rightarrow> u32 \<Rightarrow> u32 \<Rightarrow> nat \<Rightarrow> prof \<times> (nat \<Rightarrow> u64) \<Rightarrow> (prof \<times> (nat \<Rightarrow> u64)) res" where
  "intr_counter be pcv ptr n pm =
     (let (p, msr) = pm
      in if msr n AND push_bit 40 1 \<noteq> 0 then
           let next_period = acs_start_period (cur_slot (cpud p) n);
               index = unat (drop_bit 3 pcv) mod RIPPLE_TABLE_SIZE
           in bind_res (record_sample be pcv ptr n (cd_use_ptr (cpud p)) (cpud p)) (\<lambda>c.
              let r = ripple p index
              in Inr (p\<lparr>cpud := c, ripple := (ripple p)(index :=
                        (r + of_nat RIPPLE_GENERATOR) AND of_nat (RIPPLE_SIZE - 1))\<rparr>,
                      msr(n := next_period + ucast r)))
         else Inr (p, msr))"

definition sbprof_cpu_intr :: "bool \<Rightarrow> u64 \<Rightarrow> u32 \<Rightarrow> prof \<Rightarrow> prof res" where
  "sbprof_cpu_intr be restartpc ptr0 p =
     (let pcv = ucast restartpc;
          msr = perf_count p;
          ptr = (if ptr0 AND 1 \<noteq> 0 then ptr0 + 3 else ptr0);
          cycles_tick = (msr 0 AND push_bit 40 1 \<noteq> 0)
      in bind_res (fold_res (intr_counter be pcv ptr) [0..<4] (p, msr)) (\<lambda>(p, msr).
         let c = cpud p;
             p' = (if cycles_tick then p\<lparr>cpud := c\<lparr>cd_threshold := cd_threshold c - 1\<rparr>\<rparr> else p);
             c = cpud p'
         in if cycles_tick \<and> cd_nslots c > 1 \<and> cd_threshold c = 0 then
              let p2 = slot_exit (cd_slotid c) msr (p'\<lparr>cpud := c\<lparr>cd_threshold := 16\<rparr>\<rparr>)
              in slot_enter be (of_nat ((unat (cd_slotid c) + 1) mod unat (cd_nslots c))) (- 1) 0 p2
            else Inr (p'\<lparr>perf_count := (\<lambda>n. if n < MAX_COUNTERS then msr n else perf_count p' n)\<rparr>)))"

section \<open>Starting and stopping\<close>

text \<open>
  The profiler with the interrupt layer it runs on. \<open>hnd\<close> is the address of
  \<open>sbprof_intr_handle\<close>, \<open>fnp\<close> the function number of \<open>sbprof_trapfunc\<close>; \<open>cpudata_set\<close> says that the
  buffer has been allocated.
\<close>

record prof_state = istate +
  cpudata_set :: bool
  cpudata_base :: u64
  prof_running :: bool
  prof_int_was_enabled :: u32
  c0_compare :: u32
  the_prof :: prof

definition SBPROF_BUFSIZE_DEFAULT :: u64 where "SBPROF_BUFSIZE_DEFAULT = - 1"
definition SBPROF_CPU_BUFSIZE_DEFAULT :: u64 where "SBPROF_CPU_BUFSIZE_DEFAULT = 24 * 1024 * 1024"
definition sizeof_cpudata :: u64 where "sizeof_cpudata = 1120"

text \<open>\<open>calloc\<close> is a parameter: from the size asked for, the address of cleared memory, 0 if there is none.\<close>

definition zero_cpudata :: "u64 \<Rightarrow> cpudata" where
  "zero_cpudata bufsize =
     \<lparr>cd_next = 0, cd_last_event = 0, cd_threshold = 0, cd_slotid = 0, cd_nslots = 0, cd_use_ptr = 0,
      cur_slot = (\<lambda>_. \<lparr>acs_total = 0, acs_dropped = 0, acs_start_period = 0\<rparr>),
      slot = (\<lambda>_ _. \<lparr>ecs_total = 0, ecs_dropped = 0, ecs_value = 0, start_period_low = 0, start_period_high = 0,
                     ecs_event = 0, ecs_hwcode = 0, ecs_flags = 0\<rparr>),
      cd_buf = (\<lambda>_. 0), cd_bufsize = bufsize\<rparr>"

definition sbprof_cpu_init :: "(u64 \<Rightarrow> u64) \<Rightarrow> u64 \<Rightarrow> 'a prof_state_scheme \<Rightarrow> u32 \<times> 'a prof_state_scheme" where
  "sbprof_cpu_init calloc bufsize s =
     (let size = (if bufsize = SBPROF_BUFSIZE_DEFAULT then SBPROF_CPU_BUFSIZE_DEFAULT else bufsize);
          buf = calloc (size + sizeof_cpudata + 31);
          s1 = s\<lparr>the_prof := (the_prof s)\<lparr>cpud := (cpud (the_prof s))\<lparr>cd_bufsize := size\<rparr>\<rparr>\<rparr>
      in if buf = 0 then (- 1, s1)
         else (0, s1\<lparr>cpudata_set := True, cpudata_base := (buf + 31) AND NOT 31,
                     the_prof := (the_prof s)\<lparr>cpud := zero_cpudata size\<rparr>\<rparr>))"

definition sbprof_get_cpu_buf :: "'a prof_state_scheme \<Rightarrow> u64 \<times> u64" where
  "sbprof_get_cpu_buf s =
     (if \<not> cpudata_set s then (0, 0)
      else (cpudata_base s + sizeof_cpudata, ucast (cd_next (cpud (the_prof s)))))"

definition disable_intr :: "'a machine_scheme \<Rightarrow> 'a machine_scheme" where
  "disable_intr s = snd (snd (intr_clear_ie None s))"

definition enable_intr :: "'a machine_scheme \<Rightarrow> 'a machine_scheme" where
  "enable_intr s = snd (snd (intr_set_ie None s))"

definition next_rand :: "u64 \<Rightarrow> u64" where
  "next_rand r = (r * 0x5deece66d + 0xb) AND 0xffffffffffff"

definition init_ripple :: "nat \<Rightarrow> prof \<Rightarrow> prof" where
  "init_ripple i p =
     p\<lparr>ripple := (ripple p)(i := ucast (ripple_rand p AND of_nat (RIPPLE_SIZE - 1))),
       ripple_rand := next_rand (ripple_rand p)\<rparr>"

definition init_ripples :: "prof \<Rightarrow> prof" where
  "init_ripples = fold init_ripple [0..<RIPPLE_TABLE_SIZE]"

text \<open>What \<open>sbprof_start\<close> does to the profiler's own data.\<close>

definition start_prof :: "bool \<Rightarrow> u64 \<Rightarrow> u64 \<Rightarrow> u32 \<Rightarrow> prof \<Rightarrow> prof res" where
  "start_prof be base system_rev cpuid p0 =
     (let p = init_ripples p0
      in bind_res (sbprof_config_log be base system_rev cpuid SB1_default_slots SB1_event_info (cpud p)) (\<lambda>c.
         slot_enter be 0 KERNEL_PID 0
           (unarm_counters (p\<lparr>cpud := c\<lparr>cd_threshold := 16, cd_slotid := 0, cd_last_event := - 1\<rparr>\<rparr>))))"

definition INIT_IHAND :: "u64 \<Rightarrow> nat \<Rightarrow> u64 \<Rightarrow> u32 \<Rightarrow> 'a istate_scheme \<Rightarrow> 'a istate_scheme" where
  "INIT_IHAND ihp f a sm s =
     s\<lparr>ihands := (ihands s)(ihp := \<lparr>ih_next = 0, ih_func = f, ih_arg = a, ih_fpsavemask = sm\<rparr>)\<rparr>"

definition sbprof_start :: "bool \<Rightarrow> u64 \<Rightarrow> u32 \<Rightarrow> u64 \<Rightarrow> nat \<Rightarrow> prof_state \<Rightarrow> prof_state res" where
  "sbprof_start be system_rev cpuid hnd fnp s =
     (if \<not> cpudata_set s then Inr s
      else
        let s1 = disable_intr s
        in if prof_running s1 then Inr (enable_intr s1)
           else bind_res (start_prof be (cpudata_base s1 + sizeof_cpudata) system_rev cpuid (the_prof s1)) (\<lambda>p.
             let s2 = INIT_IHAND hnd fnp 0 EXFPSAVEMASK_NONE (s1\<lparr>prof_running := True, the_prof := p\<rparr>)
             in bind_res (intr_handler_add 7 hnd s2) (\<lambda>s3.
                let (old, _, s4) = intr_enable_int None 7 s3
                in Inr (enable_intr (s4\<lparr>prof_int_was_enabled := old\<rparr>)))))"

text \<open>What \<open>sbprof_stop\<close> does to it, once the last interrupts have been taken.\<close>

definition stop_prof :: "bool \<Rightarrow> prof \<Rightarrow> prof res" where
  "stop_prof be p =
     (let p1 = slot_exit (cd_slotid (cpud p)) (perf_count p) p
      in bind_res (backfill_nevents be (cpud p1)) (\<lambda>c. Inr (p1\<lparr>cpud := c\<rparr>)))"

text \<open>
  \<open>sbprof_stop\<close> enables interrupts for a moment after disarming the counters; the interrupts taken
  there are the argument \<open>last\<close>.
\<close>

definition sbprof_stop ::
  "bool \<Rightarrow> u64 \<Rightarrow> (prof_state \<Rightarrow> prof_state res) \<Rightarrow> prof_state \<Rightarrow> prof_state res" where
  "sbprof_stop be hnd last_intrs s =
     (let s1 = disable_intr s
      in if \<not> prof_running s1 then Inr (enable_intr s1)
         else
           let s2 = s1\<lparr>prof_running := False, the_prof := unarm_counters (the_prof s1)\<rparr>
           in bind_res (last_intrs (enable_intr s2)) (\<lambda>s3.
              let s4 = disable_intr s3;
                  s5 = (if prof_int_was_enabled s4 = 0 then snd (snd (intr_disable_int None 7 s4)) else s4)
              in bind_res (intr_handler_remove 7 hnd s5) (\<lambda>s6.
                 bind_res (stop_prof be (the_prof s6)) (\<lambda>p. Inr (enable_intr (s6\<lparr>the_prof := p\<rparr>))))))"

text \<open>\<open>sbprof_trapfunc\<close>: \<open>ptr\<close> is the register that holds the traced address.\<close>

definition sbprof_trapfunc ::
  "bool \<Rightarrow> u32 \<Rightarrow> exframe \<Rightarrow> 'a prof_state_scheme \<Rightarrow> (u32 \<times> exframe \<times> 'a prof_state_scheme) res" where
  "sbprof_trapfunc be ptr ef s =
     bind_res (sbprof_cpu_intr be (ef_pc ef + (if ef_cause ef AND push_bit 31 1 \<noteq> 0 then 4 else 0)) ptr (the_prof s))
       (\<lambda>p. let s1 = s\<lparr>the_prof := p\<rparr>; s2 = s1\<lparr>c0_compare := c0_compare s1\<rparr> in Inr (1, ef, s2))"

section \<open>Stores of samples\<close>

text \<open>
  What the interrupt relies on when it records: a sample is appended or dropped, it is not dropped
  while there is room, and each one takes a bounded amount of it.
\<close>

locale sample_log =
  fixes rep :: "'c \<Rightarrow> 'x list \<Rightarrow> bool"
    and free :: "'c \<Rightarrow> nat"
    and rec :: "'s \<Rightarrow> 'c \<Rightarrow> 'c res"
    and val :: "'c \<Rightarrow> 's \<Rightarrow> 'x"
    and need :: nat
  assumes rec_appends: "rep c xs \<Longrightarrow> \<exists>c' ys. rec s c = Inr c' \<and> rep c' (xs @ ys) \<and> ys \<in> {[], [val c s]} \<and>
      (need \<le> free c \<longrightarrow> ys \<noteq> []) \<and> free c \<le> free c' + need"
    and rec_val: "rec s c = Inr c' \<Longrightarrow> val c' = val c"
begin

lemma recs_append:
  assumes "rep c xs"
  shows "\<exists>c' ys. fold_res rec ss c = Inr c' \<and> rep c' (xs @ ys) \<and> subseq ys (map (val c) ss) \<and>
    (length ss * need \<le> free c \<longrightarrow> ys = map (val c) ss) \<and> free c \<le> free c' + length ss * need"
  using assms
proof (induction ss arbitrary: c xs)
  case Nil
  then show ?case by (auto intro: exI [of _ "[]"])
next
  case (Cons s ss)
  obtain c1 ys1 where c1: "rec s c = Inr c1" "rep c1 (xs @ ys1)" "ys1 \<in> {[], [val c s]}"
    "need \<le> free c \<longrightarrow> ys1 \<noteq> []" "free c \<le> free c1 + need"
    using rec_appends [OF Cons.prems, of s] by blast
  obtain c2 ys2 where c2: "fold_res rec ss c1 = Inr c2" "rep c2 ((xs @ ys1) @ ys2)" "subseq ys2 (map (val c1) ss)"
    "length ss * need \<le> free c1 \<longrightarrow> ys2 = map (val c1) ss" "free c1 \<le> free c2 + length ss * need"
    using Cons.IH [OF c1(2)] by blast
  have v: "val c1 = val c" by (rule rec_val [OF c1(1)])
  have "subseq (ys1 @ ys2) (map (val c) (s # ss))" using c1(3) c2(3) v by auto
  moreover have "ys1 @ ys2 = map (val c) (s # ss)" if "length (s # ss) * need \<le> free c"
    using c1(3-5) c2(4) v that by auto
  ultimately show ?case using c1(1,5) c2(1,2,5)
    by (intro exI [of _ c2] exI [of _ "ys1 @ ys2"]) simp
qed

end

lemma put_only: "put p bs c = Inr c' \<Longrightarrow> log_only c c'"
  by (auto simp: put_def log_only_update split: if_splits)

lemma backfill_only: "backfill_nevents be c = Inr c' \<Longrightarrow> log_only c c'"
  by (auto simp: backfill_nevents_def bind_res_eq_Inr Let_def log_only_def dest!: put_only split: if_splits)

lemma event_hdr_only: "enter_event_hdr p c = Inr c' \<Longrightarrow> log_only c c'"
  by (auto simp: enter_event_hdr_def bind_res_eq_Inr Let_def log_only_def dest!: put_only)

lemma context_only: "enter_context be pid cpuid c = Inr c' \<Longrightarrow> log_only c c'"
  unfolding enter_context_def Let_def bind_res_eq_Inr
  by (auto dest!: put_only event_hdr_only) (auto simp: log_only_def)

lemma report_only: "report_new_context be pid cpuid c = Inr (r, c') \<Longrightarrow> log_only c c'"
  unfolding report_new_context_def
  by (auto simp: bind_res_eq_Inr split: if_splits dest!: backfill_only context_only intro: log_only_trans)

lemma record_only: "record_sample be pcv ptr n up c = Inr c' \<Longrightarrow> log_only c c'"
  unfolding record_sample_def Let_def
  by (auto simp: bind_res_eq_Inr log_only_update split: if_splits dest!: put_only report_only)
    (auto simp: log_only_def)

type_synonym sample = "u32 \<times> u32 \<times> nat \<times> u8"

definition record_one :: "bool \<Rightarrow> sample \<Rightarrow> cpudata \<Rightarrow> cpudata res" where
  "record_one be s c = (case s of (pcv, ptr, n, up) \<Rightarrow> record_sample be pcv ptr n up c)"

definition sample_value :: "cpudata \<Rightarrow> sample \<Rightarrow> u8 option \<times> u32" where
  "sample_value c s = (case s of (pcv, ptr, n, up) \<Rightarrow> (Some (cd_slotid c), sample_word pcv ptr n up))"

lemma record_one_pair: "record_one be (pcv, ptr, n, up) c = record_sample be pcv ptr n up c"
  by (simp add: record_one_def)

interpretation cpu_log: sample_log "log_rep be p0" log_free "record_one be" sample_value 24 for be p0
proof
  fix c xs s
  assume "log_rep be p0 c xs"
  then show "\<exists>c' ys. record_one be s c = Inr c' \<and> log_rep be p0 c' (xs @ ys) \<and> ys \<in> {[], [sample_value c s]} \<and>
      (24 \<le> log_free c \<longrightarrow> ys \<noteq> []) \<and> log_free c \<le> log_free c' + 24"
    using log_rep_record [of be p0 c xs] by (cases s) (fastforce simp: record_one_def sample_value_def)
next
  fix s c c'
  assume "record_one be s c = Inr c'"
  then have "cd_slotid c' = cd_slotid c"
    by (cases s) (auto simp: record_one_def dest!: record_only log_onlyD(2))
  then show "sample_value c' = sample_value c" by (simp add: sample_value_def fun_eq_iff)
qed

text \<open>The profiler's loop over the counters records the overflowed ones and reloads them.\<close>

definition next_ripple :: "u16 \<Rightarrow> u16" where
  "next_ripple r = (r + of_nat RIPPLE_GENERATOR) AND of_nat (RIPPLE_SIZE - 1)"

fun reload :: "(nat \<Rightarrow> u64) \<Rightarrow> nat list \<Rightarrow> u16 \<times> (nat \<Rightarrow> u64) \<Rightarrow> u16 \<times> (nat \<Rightarrow> u64)" where
  "reload start [] rm = rm"
| "reload start (n # ns) (r, m) = reload start ns (next_ripple r, m(n := start n + ucast r))"

lemma bit40_test: "((x :: u64) AND push_bit 40 1 \<noteq> 0) = bit x 40"
  using and_bit_test [of 40 x] by (simp del: push_bit_of_1)

lemma intr_counter_eq:
  "intr_counter be pcv ptr n (p, msr) =
     (if bit (msr n) 40 then
        bind_res (record_sample be pcv ptr n (cd_use_ptr (cpud p)) (cpud p)) (\<lambda>c.
          let i = unat (drop_bit 3 pcv) mod RIPPLE_TABLE_SIZE
          in Inr (p\<lparr>cpud := c, ripple := (ripple p)(i := next_ripple (ripple p i))\<rparr>,
                  msr(n := acs_start_period (cur_slot (cpud p) n) + ucast (ripple p i))))
      else Inr (p, msr))"
  unfolding intr_counter_def prod.case Let_def bit40_test next_ripple_def ..

lemma intr_counters_eq:
  assumes "distinct ns"
  shows "fold_res (intr_counter be pcv ptr) ns (p, msr) =
    bind_res (fold_res (record_one be) (map (\<lambda>n. (pcv, ptr, n, cd_use_ptr (cpud p))) (filter (\<lambda>n. bit (msr n) 40) ns)) (cpud p))
      (\<lambda>c. let i = unat (drop_bit 3 pcv) mod RIPPLE_TABLE_SIZE;
               rm = reload (\<lambda>n. acs_start_period (cur_slot (cpud p) n)) (filter (\<lambda>n. bit (msr n) 40) ns) (ripple p i, msr)
           in Inr (p\<lparr>cpud := c, ripple := (ripple p)(i := fst rm)\<rparr>, snd rm))"
  using assms
proof (induction ns arbitrary: p msr)
  case Nil
  show ?case
    by (simp only: fold_res.simps list.map filter.simps reload.simps bind_res_simps Let_def fst_conv snd_conv
        fun_upd_triv) simp
next
  case (Cons n ns)
  let ?i = "unat (drop_bit 3 pcv) mod RIPPLE_TABLE_SIZE"
  show ?case
  proof (cases "bit (msr n) 40")
    case False
    then have "fold_res (intr_counter be pcv ptr) (n # ns) (p, msr) = fold_res (intr_counter be pcv ptr) ns (p, msr)"
      by (simp add: intr_counter_eq)
    then show ?thesis using Cons.IH [of p msr] Cons.prems False by (simp only: distinct.simps filter.simps if_False)
  next
    case True
    show ?thesis
    proof (cases "record_sample be pcv ptr n (cd_use_ptr (cpud p)) (cpud p)")
      case (Inl f)
      then show ?thesis using True by (simp add: intr_counter_eq record_one_def)
    next
      case (Inr c)
      have o: "cd_use_ptr c = cd_use_ptr (cpud p)" "cur_slot c = cur_slot (cpud p)"
        using record_only [OF Inr] by (simp_all add: log_onlyD)
      let ?msr = "msr(n := acs_start_period (cur_slot (cpud p) n) + ucast (ripple p ?i))"
      have f: "filter (\<lambda>k. bit (?msr k) 40) ns = filter (\<lambda>k. bit (msr k) 40) ns"
        using Cons.prems by (intro filter_cong) auto
      let ?p = "p\<lparr>cpud := c, ripple := (ripple p)(?i := next_ripple (ripple p ?i))\<rparr>"
      let ?start = "\<lambda>n. acs_start_period (cur_slot (cpud p) n)"
      have e: "cpud ?p = c" "ripple ?p ?i = next_ripple (ripple p ?i)"
        "?p\<lparr>cpud := c', ripple := (ripple ?p)(?i := x)\<rparr> = p\<lparr>cpud := c', ripple := (ripple p)(?i := x)\<rparr>" for c' x
        by simp_all
      have d: "distinct ns" using Cons.prems by simp
      have "fold_res (intr_counter be pcv ptr) (n # ns) (p, msr) = fold_res (intr_counter be pcv ptr) ns (?p, ?msr)"
        using True Inr by (simp add: intr_counter_eq Let_def)
      also note Cons.IH [OF d, of ?p ?msr, unfolded Let_def f, unfolded e, unfolded e(1) o]
      finally show ?thesis using True Inr
        by (simp only: filter.simps if_True list.map fold_res.simps record_one_pair bind_res_simps reload.simps Let_def)
    qed
  qed
qed

section \<open>The interrupt\<close>

lemma enter_counter_log:
  "cd_buf (cpud (enter_counter sid i p)) = cd_buf (cpud p)"
  "cd_next (cpud (enter_counter sid i p)) = cd_next (cpud p)"
  "cd_last_event (cpud (enter_counter sid i p)) = cd_last_event (cpud p)"
  "cd_bufsize (cpud (enter_counter sid i p)) = cd_bufsize (cpud p)"
  "cd_threshold (cpud (enter_counter sid i p)) = cd_threshold (cpud p)"
  "cd_nslots (cpud (enter_counter sid i p)) = cd_nslots (cpud p)"
  "slot (cpud (enter_counter sid i p)) = slot (cpud p)"
  "ripple (enter_counter sid i p) = ripple p"
  by (simp_all add: enter_counter_def arm_counter_def Let_def)

lemma enter_counters_log:
  "cd_buf (cpud (fold (enter_counter sid) is p)) = cd_buf (cpud p) \<and>
   cd_next (cpud (fold (enter_counter sid) is p)) = cd_next (cpud p) \<and>
   cd_last_event (cpud (fold (enter_counter sid) is p)) = cd_last_event (cpud p) \<and>
   cd_bufsize (cpud (fold (enter_counter sid) is p)) = cd_bufsize (cpud p) \<and>
   cd_threshold (cpud (fold (enter_counter sid) is p)) = cd_threshold (cpud p) \<and>
   cd_nslots (cpud (fold (enter_counter sid) is p)) = cd_nslots (cpud p) \<and>
   slot (cpud (fold (enter_counter sid) is p)) = slot (cpud p) \<and>
   ripple (fold (enter_counter sid) is p) = ripple p"
  by (induction "is" arbitrary: p) (simp_all add: enter_counter_log)

lemma slot_enter_rep:
  assumes "log_rep be p0 (cpud p) xs"
  shows "\<exists>p'. slot_enter be sid pid cpuid p = Inr p' \<and> log_rep be p0 (cpud p') xs \<and>
    cd_slotid (cpud p') = sid \<and> cd_threshold (cpud p') = cd_threshold (cpud p) \<and>
    cd_nslots (cpud p') = cd_nslots (cpud p) \<and> slot (cpud p') = slot (cpud p) \<and> ripple p' = ripple p"
proof -
  let ?p = "fold (enter_counter (unat sid)) [0..<MAX_COUNTERS] p"
  let ?c = "(cpud ?p)\<lparr>cd_slotid := sid, cd_use_ptr := ecs_flags (slot (cpud ?p) (unat sid) 1) AND ECS_USE_PTR\<rparr>"
  note e = enter_counters_log [of "unat sid" "[0..<MAX_COUNTERS]" p]
  obtain r c where c: "report_new_context be pid cpuid ?c = Inr (r, c)" "log_rep be p0 c xs" "log_only ?c c"
    using log_rep_switch [OF assms, of ?c pid cpuid] e by auto
  then show ?thesis using e log_onlyD [OF c(3)]
    by (intro exI [of _ "?p\<lparr>cpud := c\<rparr>"]) (simp add: slot_enter_def Let_def)
qed

lemma slot_exit_log:
  "cd_buf (cpud (slot_exit sid m p)) = cd_buf (cpud p)"
  "cd_next (cpud (slot_exit sid m p)) = cd_next (cpud p)"
  "cd_last_event (cpud (slot_exit sid m p)) = cd_last_event (cpud p)"
  "cd_bufsize (cpud (slot_exit sid m p)) = cd_bufsize (cpud p)"
  "cd_threshold (cpud (slot_exit sid m p)) = cd_threshold (cpud p)"
  "cd_nslots (cpud (slot_exit sid m p)) = cd_nslots (cpud p)"
  "cd_slotid (cpud (slot_exit sid m p)) = cd_slotid (cpud p)"
  "ripple (slot_exit sid m p) = ripple p"
  by (simp_all add: slot_exit_def unarm_counters_def Let_def)

lemma log_rep_cong:
  assumes "log_rep be p0 c xs" and "cd_buf d = cd_buf c" "cd_next d = cd_next c" "cd_last_event d = cd_last_event c"
    "cd_bufsize d = cd_bufsize c" "cd_slotid d = cd_slotid c"
  shows "log_rep be p0 d xs"
  using assms by (simp add: log_rep_def log_size_ok_def log_live_def log_full_def log_open_def log_closed_def)

text \<open>The counters that overflowed, and the samples one interrupt owes the log.\<close>

definition overflowed :: "prof \<Rightarrow> nat list" where
  "overflowed p = filter (\<lambda>n. bit (perf_count p n) 40) [0, 1, 2, 3]"

definition traced_ptr :: "u32 \<Rightarrow> u32" where
  "traced_ptr ptr = (if bit ptr 0 then ptr + 3 else ptr)"

definition owed_samples :: "u64 \<Rightarrow> u32 \<Rightarrow> prof \<Rightarrow> (u8 option \<times> u32) list" where
  "owed_samples restartpc ptr p =
     map (\<lambda>n. (Some (cd_slotid (cpud p)), sample_word (ucast restartpc) (traced_ptr ptr) n (cd_use_ptr (cpud p))))
       (overflowed p)"

definition switches :: "prof \<Rightarrow> bool" where
  "switches p = (bit (perf_count p 0) 40 \<and> cd_nslots (cpud p) > 1 \<and> cd_threshold (cpud p) = 1)"

definition reloaded :: "u64 \<Rightarrow> prof \<Rightarrow> u16 \<times> (nat \<Rightarrow> u64)" where
  "reloaded restartpc p =
     reload (\<lambda>n. acs_start_period (cur_slot (cpud p) n)) (overflowed p)
       (ripple p (unat (drop_bit 3 (ucast restartpc :: u32)) mod RIPPLE_TABLE_SIZE), perf_count p)"

lemma overflowed_le: "length (overflowed p) \<le> 4"
  unfolding overflowed_def by (rule order_trans [OF length_filter_le]) simp

lemma traced_ptr_eq: "(if ptr AND 1 \<noteq> 0 then ptr + 3 else ptr) = traced_ptr ptr"
  by (auto simp: traced_ptr_def and_one_eq bit_0 mod_2_eq_odd)

lemma owed_eq:
  "map (sample_value (cpud p)) (map (\<lambda>n. (ucast rpc, traced_ptr ptr, n, cd_use_ptr (cpud p))) (overflowed p)) =
   owed_samples rpc ptr p"
  by (simp add: owed_samples_def sample_value_def)

text \<open>The state after the loop, and what the rest of the interrupt makes of it.\<close>

definition after_loop :: "u64 \<Rightarrow> prof \<Rightarrow> cpudata \<Rightarrow> prof" where
  "after_loop rpc p c =
     p\<lparr>cpud := c, ripple := (ripple p)(unat (drop_bit 3 (ucast rpc :: u32)) mod RIPPLE_TABLE_SIZE := fst (reloaded rpc p))\<rparr>"

definition ticked :: "bool \<Rightarrow> prof \<Rightarrow> prof" where
  "ticked tick p = (if tick then p\<lparr>cpud := (cpud p)\<lparr>cd_threshold := cd_threshold (cpud p) - 1\<rparr>\<rparr> else p)"

definition after_tick :: "bool \<Rightarrow> bool \<Rightarrow> (nat \<Rightarrow> u64) \<Rightarrow> prof \<Rightarrow> prof res" where
  "after_tick be tick msr p =
     (let c = cpud p
      in if tick \<and> cd_nslots c > 1 \<and> cd_threshold c = 0 then
           slot_enter be (of_nat ((unat (cd_slotid c) + 1) mod unat (cd_nslots c))) (- 1) 0
             (slot_exit (cd_slotid c) msr (p\<lparr>cpud := c\<lparr>cd_threshold := 16\<rparr>\<rparr>))
         else Inr (p\<lparr>perf_count := (\<lambda>n. if n < MAX_COUNTERS then msr n else perf_count p n)\<rparr>))"

lemma intr_eq:
  "sbprof_cpu_intr be rpc ptr p =
     bind_res (fold_res (record_one be) (map (\<lambda>n. (ucast rpc, traced_ptr ptr, n, cd_use_ptr (cpud p))) (overflowed p)) (cpud p))
       (\<lambda>c. after_tick be (bit (perf_count p 0) 40) (snd (reloaded rpc p)) (ticked (bit (perf_count p 0) 40) (after_loop rpc p c)))"
proof -
  have u: "[0..<4] = [0, 1, 2, 3 :: nat]" by (simp add: upt_rec)
  have d: "distinct [0, 1, 2, 3 :: nat]" by simp
  show ?thesis
    unfolding sbprof_cpu_intr_def Let_def bit40_test traced_ptr_eq u intr_counters_eq [OF d] bind_res_assoc
    by (simp add: overflowed_def reloaded_def after_loop_def after_tick_def ticked_def Let_def)
qed

lemma after_tick_rep:
  assumes "log_rep be p0 (cpud p) xs"
  shows "\<exists>p'. after_tick be tick msr (ticked tick p) = Inr p' \<and> log_rep be p0 (cpud p') xs \<and>
    cd_nslots (cpud p') = cd_nslots (cpud p) \<and> ripple p' = ripple p \<and>
    (if tick \<and> cd_nslots (cpud p) > 1 \<and> cd_threshold (cpud p) = 1
     then cd_slotid (cpud p') = of_nat ((unat (cd_slotid (cpud p)) + 1) mod unat (cd_nslots (cpud p))) \<and>
          cd_threshold (cpud p') = 16
     else cd_slotid (cpud p') = cd_slotid (cpud p) \<and> (\<forall>n < MAX_COUNTERS. perf_count p' n = msr n) \<and>
          cd_threshold (cpud p') = cd_threshold (cpud p) - (if tick then 1 else 0))"
proof (cases "tick \<and> cd_nslots (cpud p) > 1 \<and> cd_threshold (cpud p) = 1")
  case True
  let ?q = "slot_exit (cd_slotid (cpud p)) msr (p\<lparr>cpud := (cpud p)\<lparr>cd_threshold := 16\<rparr>\<rparr>)"
  have "log_rep be p0 (cpud ?q) xs" by (rule log_rep_cong [OF assms]) (simp_all add: slot_exit_log)
  from slot_enter_rep [OF this, of "of_nat ((unat (cd_slotid (cpud p)) + 1) mod unat (cd_nslots (cpud p)))" "- 1" 0]
  show ?thesis using True by (auto simp: after_tick_def ticked_def slot_exit_log)
next
  case False
  let ?q = "(ticked tick p)\<lparr>perf_count := (\<lambda>n. if n < MAX_COUNTERS then msr n else perf_count (ticked tick p) n)\<rparr>"
  have n: "\<not> (tick \<and> cd_nslots (cpud p) > 1 \<and> cd_threshold (cpud p) - 1 = 0)" using False by simp
  then have "after_tick be tick msr (ticked tick p) = Inr ?q"
    unfolding after_tick_def ticked_def Let_def by (cases tick) auto
  moreover have "log_rep be p0 (cpud ?q) xs" by (rule log_rep_cong [OF assms]) (simp_all add: ticked_def)
  ultimately show ?thesis using False by (intro exI [of _ ?q]) (simp add: ticked_def)
qed

lemma intr_rep:
  assumes "log_rep be p0 (cpud p) xs"
  shows "\<exists>p' ys. sbprof_cpu_intr be rpc ptr p = Inr p' \<and> log_rep be p0 (cpud p') (xs @ ys) \<and>
    subseq ys (owed_samples rpc ptr p) \<and> (96 \<le> log_free (cpud p) \<longrightarrow> ys = owed_samples rpc ptr p) \<and>
    cd_nslots (cpud p') = cd_nslots (cpud p) \<and>
    ripple p' = (ripple p)(unat (drop_bit 3 (ucast rpc :: u32)) mod RIPPLE_TABLE_SIZE := fst (reloaded rpc p)) \<and>
    (if switches p
     then cd_slotid (cpud p') = of_nat ((unat (cd_slotid (cpud p)) + 1) mod unat (cd_nslots (cpud p))) \<and>
          cd_threshold (cpud p') = 16
     else cd_slotid (cpud p') = cd_slotid (cpud p) \<and>
          (\<forall>n < MAX_COUNTERS. perf_count p' n = snd (reloaded rpc p) n) \<and>
          cd_threshold (cpud p') = cd_threshold (cpud p) - (if bit (perf_count p 0) 40 then 1 else 0))"
proof -
  let ?ss = "map (\<lambda>n. (ucast rpc, traced_ptr ptr, n, cd_use_ptr (cpud p))) (overflowed p) :: sample list"
  obtain c ys where c: "fold_res (record_one be) ?ss (cpud p) = Inr c" "log_rep be p0 c (xs @ ys)"
    "subseq ys (owed_samples rpc ptr p)"
    "length ?ss * 24 \<le> log_free (cpud p) \<longrightarrow> ys = owed_samples rpc ptr p"
    using cpu_log.recs_append [OF assms, of ?ss] unfolding owed_eq by blast
  have "record_one be x d = Inr e \<Longrightarrow> log_only d e" for x d e
    by (cases x) (auto simp: record_one_def dest: record_only)
  from fold_res_keeps [OF c(1), of "log_only (cpud p)"] this have o: "log_only (cpud p) c"
    using log_only_trans log_only_update(4) by blast
  have four: "length ?ss * 24 \<le> 96" using overflowed_le [of p] by simp
  have r: "log_rep be p0 (cpud (after_loop rpc p c)) (xs @ ys)" using c(2) by (simp add: after_loop_def)
  obtain p' where p': "after_tick be (bit (perf_count p 0) 40) (snd (reloaded rpc p))
      (ticked (bit (perf_count p 0) 40) (after_loop rpc p c)) = Inr p'" "log_rep be p0 (cpud p') (xs @ ys)"
    and eff: "cd_nslots (cpud p') = cd_nslots c" "ripple p' = ripple (after_loop rpc p c)"
      "if bit (perf_count p 0) 40 \<and> cd_nslots c > 1 \<and> cd_threshold c = 1
       then cd_slotid (cpud p') = of_nat ((unat (cd_slotid c) + 1) mod unat (cd_nslots c)) \<and> cd_threshold (cpud p') = 16
       else cd_slotid (cpud p') = cd_slotid c \<and> (\<forall>n < MAX_COUNTERS. perf_count p' n = snd (reloaded rpc p) n) \<and>
          cd_threshold (cpud p') = cd_threshold c - (if bit (perf_count p 0) 40 then 1 else 0)"
    using after_tick_rep [OF r, of "bit (perf_count p 0) 40" "snd (reloaded rpc p)"]
    by (auto simp: after_loop_def)
  have "sbprof_cpu_intr be rpc ptr p = Inr p'" using c(1) p'(1) by (simp add: intr_eq)
  then show ?thesis
    using p'(2) c(3,4) four eff log_onlyD [OF o]
    by (intro exI [of _ p'] exI [of _ ys]) (auto simp: switches_def after_loop_def)
qed

section \<open>Configuration\<close>

text \<open>Loops that rewrite every counter of every slot once.\<close>

lemma fold_set_slot:
  assumes "distinct sis"
  shows "\<exists>f. fold (\<lambda>si c. set_slot (fst si) (snd si) (h si (slot c (fst si) (snd si))) c) sis c = c\<lparr>slot := f\<rparr> \<and>
    (\<forall>s i. f s i = (if (s, i) \<in> set sis then h (s, i) (slot c s i) else slot c s i))"
  using assms
proof (induction sis arbitrary: c)
  case Nil
  show ?case by (rule exI [of _ "slot c"]) simp
next
  case (Cons si sis)
  obtain s i where si: "si = (s, i)" by (cases si)
  let ?c = "set_slot s i (h si (slot c s i)) c"
  obtain f where f: "fold (\<lambda>si c. set_slot (fst si) (snd si) (h si (slot c (fst si) (snd si))) c) sis ?c = ?c\<lparr>slot := f\<rparr>"
    "\<forall>s i. f s i = (if (s, i) \<in> set sis then h (s, i) (slot ?c s i) else slot ?c s i)"
    using Cons.IH [of ?c] Cons.prems by auto
  have e: "?c\<lparr>slot := f\<rparr> = c\<lparr>slot := f\<rparr>" "slot ?c = (slot c)(s := (slot c s)(i := h si (slot c s i)))"
    by (simp_all add: set_slot_def)
  have n: "(s, i) \<notin> set sis" using Cons.prems si by simp
  have "f a b = (if (a, b) \<in> set (si # sis) then h (a, b) (slot c a b) else slot c a b)" for a b
    using f(2) n si by (auto simp: set_slot_def)
  moreover have "fold (\<lambda>si c. set_slot (fst si) (snd si) (h si (slot c (fst si) (snd si))) c) (si # sis) c = c\<lparr>slot := f\<rparr>"
    using f(1) si e(1) by simp
  ultimately show ?case by blast
qed

definition counter_of :: "string list list \<Rightarrow> sbprof_event_entry list \<Rightarrow> nat \<times> nat \<Rightarrow> event_counter_state" where
  "counter_of slots tab si =
     (let ev = the (event_lookup (slots ! fst si ! snd si) tab)
      in \<lparr>ecs_total = 0, ecs_dropped = 0, ecs_value = 0, start_period_low = 0, start_period_high = ev_period ev,
          ecs_event = ev_event ev, ecs_hwcode = ev_hwcode ev,
          ecs_flags = ECS_INUSE OR (if ev_use_ptr ev then ECS_USE_PTR else 0)\<rparr>)"

definition countable :: "string list list \<Rightarrow> sbprof_event_entry list \<Rightarrow> nat \<times> nat \<Rightarrow> bool" where
  "countable slots tab si =
     (case event_lookup (slots ! fst si ! snd si) tab of
        None \<Rightarrow> False
      | Some ev \<Rightarrow> ev_counters ev AND push_bit (snd si) 1 \<noteq> 0)"

lemma parse_counter_countable:
  "countable slots tab (s, i) \<Longrightarrow> parse_counter (slots ! s) s tab i c = Inr (set_slot s i (counter_of slots tab (s, i)) c)"
  by (auto simp: countable_def parse_counter_def counter_of_def Let_def split: option.splits)

lemma fold_res_pure:
  "(\<And>x a. x \<in> set xs \<Longrightarrow> f x a = Inr (g x a)) \<Longrightarrow> fold_res f xs a = Inr (fold g xs a)"
  by (induction xs arbitrary: a) simp_all

lemma parse_slots_countable:
  assumes "\<forall>si \<in> set (List.product ss [0..<MAX_COUNTERS]). countable slots tab si"
  shows "fold_res (\<lambda>s. parse_mux_slot (slots ! s) s tab) ss c =
    Inr (fold (\<lambda>si c. set_slot (fst si) (snd si) (counter_of slots tab si) c) (List.product ss [0..<MAX_COUNTERS]) c)"
proof -
  have "parse_mux_slot (slots ! s) s tab a =
      Inr (fold (\<lambda>si c. set_slot (fst si) (snd si) (counter_of slots tab si) c) (map (Pair s) [0..<MAX_COUNTERS]) a)"
    if "s \<in> set ss" for s a
    unfolding parse_mux_slot_def fold_map comp_def fst_conv snd_conv
    by (rule fold_res_pure) (rule parse_counter_countable, use assms that in auto)
  then have "fold_res (\<lambda>s. parse_mux_slot (slots ! s) s tab) ss c =
      Inr (fold (\<lambda>s a. fold (\<lambda>si c. set_slot (fst si) (snd si) (counter_of slots tab si) c) (map (Pair s) [0..<MAX_COUNTERS]) a) ss c)"
    by (rule fold_res_pure)
  also have "fold (\<lambda>s a. fold g (map (Pair s) is) a) ss c = fold g (List.product ss is) c" for g :: "nat \<times> nat \<Rightarrow> 'z \<Rightarrow> 'z" and "is" c
    by (induction ss arbitrary: c) simp_all
  finally show ?thesis .
qed

lemma default_slots_countable:
  "\<forall>si \<in> set (List.product [0..<7] [0..<MAX_COUNTERS]). countable SB1_default_slots SB1_event_info si"
  by code_simp

lemma default_periods:
  "\<forall>si \<in> set (List.product [0..<7] [0..<MAX_COUNTERS]).
     start_period_high (counter_of SB1_default_slots SB1_event_info si) \<in> {15, 17, 19}"
  by code_simp

lemma default_slots_length [simp]: "length SB1_default_slots = 7"
  by (simp add: SB1_default_slots_def)

text \<open>The slots after parsing and adjusting.\<close>

definition configured :: "string list list \<Rightarrow> sbprof_event_entry list \<Rightarrow> nat \<Rightarrow> cpudata \<Rightarrow> cpudata" where
  "configured slots tab n c =
     fold (\<lambda>si c. set_slot (fst si) (snd si) (counter_of slots tab si) c) (List.product [0..<n] [0..<MAX_COUNTERS]) c"

definition period_word :: "nat \<Rightarrow> nat \<Rightarrow> event_counter_state \<Rightarrow> event_counter_state" where
  "period_word nslots uses x =
     (let period = adjusted_period nslots uses (start_period_high x)
      in x\<lparr>start_period_low := ucast period, start_period_high := ucast (drop_bit 32 period)\<rparr>)"

lemma configured_slots:
  "\<exists>f. configured slots tab n c = c\<lparr>slot := f\<rparr> \<and>
    (\<forall>s < n. \<forall>i < MAX_COUNTERS. f s i = counter_of slots tab (s, i))"
proof -
  have "distinct (List.product [0..<n] [0..<MAX_COUNTERS])" by (simp add: distinct_product)
  from fold_set_slot [OF this, of "\<lambda>si _. counter_of slots tab si" c]
  show ?thesis unfolding configured_def by auto
qed

lemma adjusted_slots:
  "\<exists>f. adjust_slot_periods n c = c\<lparr>slot := f\<rparr> \<and>
    (\<forall>s < n. \<forall>i < MAX_COUNTERS. f s i = period_word n (occur n c (ecs_event (slot c s i))) (slot c s i))"
proof -
  have "distinct (List.product [0..<n] [0..<MAX_COUNTERS])" by (simp add: distinct_product)
  from fold_set_slot [OF this, of "\<lambda>_ x. period_word n (occur n c (ecs_event x)) x" c]
  obtain f where f: "fold (\<lambda>si c'. set_slot (fst si) (snd si)
       (period_word n (occur n c (ecs_event (slot c' (fst si) (snd si)))) (slot c' (fst si) (snd si))) c')
       (List.product [0..<n] [0..<MAX_COUNTERS]) c = c\<lparr>slot := f\<rparr>"
    "\<forall>s i. f s i = (if (s, i) \<in> set (List.product [0..<n] [0..<MAX_COUNTERS])
       then period_word n (occur n c (ecs_event (slot c s i))) (slot c s i) else slot c s i)"
    by blast
  moreover have "adjust_slot (occur n c) n = (\<lambda>si c'. set_slot (fst si) (snd si)
       (period_word n (occur n c (ecs_event (slot c' (fst si) (snd si)))) (slot c' (fst si) (snd si))) c')"
    by (simp add: fun_eq_iff adjust_slot_def period_word_def Let_def)
  ultimately show ?thesis unfolding adjust_slot_periods_def by auto
qed

lemma occur_bounds:
  assumes "s < n" and "i < MAX_COUNTERS"
  shows "1 \<le> occur n c (ecs_event (slot c s i))" and "occur n c e \<le> n * MAX_COUNTERS"
proof -
  have "(s, i) \<in> set (filter (\<lambda>(t, j). ecs_event (slot c t j) = ecs_event (slot c s i)) (List.product [0..<n] [0..<MAX_COUNTERS]))"
    using assms by simp
  then show "1 \<le> occur n c (ecs_event (slot c s i))"
    unfolding occur_def by (metis One_nat_def Suc_leI length_pos_if_in_set)
  show "occur n c e \<le> n * MAX_COUNTERS"
    unfolding occur_def by (rule order_trans [OF length_filter_le]) (simp add: length_product)
qed

lemma PERIOD_2_CNTVALUE_value:
  assumes "1 \<le> unat w" and "unat w \<le> 2 ^ 40"
  shows "unat (PERIOD_2_CNTVALUE w) = 2 ^ 40 - unat w"
proof -
  have "(0x000000ffffffffff :: u64) = mask 40" by (simp add: mask_eq_exp_minus_1)
  then have "PERIOD_2_CNTVALUE w = take_bit 40 (- w)" unfolding PERIOD_2_CNTVALUE_def by (simp only: take_bit_eq_mask)
  then have "unat (PERIOD_2_CNTVALUE w) = unat (- w) mod 2 ^ 40" 
    by (simp only: unsigned_take_bit_eq) (rule take_bit_eq_mod)
  also have "unat (- w) = 2 ^ 64 - unat w"
  proof -
    have w: "unat w < 2 ^ 64" using unsigned_less [of w, where 'a = nat] by simp
    have "- w = of_nat (2 ^ 64 - unat w)" using w by (simp add: of_nat_diff less_imp_le)
    then have "unat (- w) = (2 ^ 64 - unat w) mod 2 ^ 64" by (simp only: unat_of_nat) simp
    then show ?thesis using assms(1) by simp
  qed
  also have "(2 ^ 64 - unat w) mod 2 ^ 40 = 2 ^ 40 - unat w"
  proof -
    have "2 ^ 64 - unat w = (2 ^ 40 - unat w) + (2 ^ 24 - 1) * 2 ^ 40"
      using assms(2) by simp
    then have "(2 ^ 64 - unat w) mod 2 ^ 40 = (2 ^ 40 - unat w) mod 2 ^ 40" by (simp only: mod_mult_self1)
    also have "\<dots> = 2 ^ 40 - unat w" using assms(1) by simp
    finally show ?thesis .
  qed
  finally show ?thesis .
qed

lemma adjusted_period_value:
  assumes "k \<le> 19" and "1 \<le> u" and "u \<le> 28" and "15 \<le> k"
  shows "unat (adjusted_period 7 u (of_nat k)) = 2 ^ 40 - (2 ^ k * u + 3) div 7 - 2048"
    and "2 ^ 40 - 2 ^ 22 \<le> 2 ^ 40 - (2 ^ k * u + 3) div 7 - (2048 :: nat)"
    and "2 ^ 40 - (2 ^ k * u + 3) div 7 - 2048 + 4096 \<le> (2 ^ 40 :: nat)"
proof -
  have k: "2 ^ 15 \<le> (2 ^ k :: nat)" "2 ^ k \<le> (2 ^ 19 :: nat)" 
    using power_increasing [OF assms(4), of "2 :: nat"] power_increasing [OF assms(1), of "2 :: nat"] by simp_all
  have u: "2 ^ 15 \<le> 2 ^ k * u" "2 ^ k * u \<le> 2 ^ 19 * 28"
    using mult_le_mono [OF k(1) assms(2)] mult_le_mono [OF k(2) assms(3)] by simp_all
  have kk: "unat (of_nat k :: u8) = k" using assms(1) by (simp add: unat_of_nat)
  have "push_bit k 1 * of_nat u + of_nat (7 div 2) = (of_nat (2 ^ k * u + 3) :: u64)"
    by (simp add: push_bit_eq_mult)
  moreover have "unat (of_nat (2 ^ k * u + 3) :: u64) = 2 ^ k * u + 3"
    unfolding unat_of_nat using u by simp
  ultimately have p: "unat ((push_bit k 1 * of_nat u + of_nat (7 div 2)) div of_nat 7 :: u64) = (2 ^ k * u + 3) div 7"
    by (simp add: unat_div_distrib)
  let ?P = "(2 ^ k * u + 3) div 7"
  have P: "4096 \<le> ?P" "?P \<le> 2 ^ 22 - 2048" using u by (simp_all add: less_eq_div_iff_mult_less_eq)
  have v: "unat (PERIOD_2_CNTVALUE ((push_bit k 1 * of_nat u + of_nat (7 div 2)) div of_nat 7)) = 2 ^ 40 - ?P"
    using PERIOD_2_CNTVALUE_value [of "(push_bit k 1 * of_nat u + of_nat (7 div 2)) div of_nat 7"] P unfolding p by simp
  show "unat (adjusted_period 7 u (of_nat k)) = 2 ^ 40 - ?P - 2048"
    unfolding adjusted_period_def Let_def kk using v P
    by (simp add: unat_sub word_le_nat_alt RIPPLE_SIZE_def)
  show "2 ^ 40 - 2 ^ 22 \<le> 2 ^ 40 - ?P - (2048 :: nat)" "2 ^ 40 - ?P - 2048 + 4096 \<le> (2 ^ 40 :: nat)"
    using P by simp_all
qed

lemma ALIGN_log:
  assumes "base mod 8 = 0"
  shows "ALIGN base 82 8 = 88"
proof -
  have b: "unat base mod 8 = 0" using arg_cong [OF assms, of unat] by (simp add: unat_mod_distrib)
  have "unat (take_bit 3 (base + 82)) = take_bit 3 (unat (base + 82))" by (rule unsigned_take_bit_eq)
  also have "\<dots> = (unat base + 82) mod 2 ^ 64 mod 8"
    by (simp add: unat_word_ariths(1) take_bit_eq_mod)
  also have "\<dots> = (unat base + 82) mod 8" by (rule mod_mod_cancel) simp
  also have "\<dots> = 2" using b by presburger
  finally have t: "take_bit 3 (base + 82) = 2" by (simp add: word_unat_eq_iff)
  have "(of_nat 8 - 1) AND (base + of_nat 82) = take_bit 3 (base + 82)"
    by (simp add: take_bit_eq_mask mask_eq_exp_minus_1 and.commute)
  also note t
  finally show ?thesis by (simp add: ALIGN_def)
qed

lemma slot_bytes_length [simp]: "length (slot_bytes s c) = 8"
  by (simp add: slot_bytes_def MAX_COUNTERS_def upt_rec)

lemma concat_slot_bytes_length [simp]: "length (concat (map (\<lambda>s. slot_bytes s c) ss)) = 8 * length ss"
  by (induction ss) simp_all

definition config_slot :: "nat \<times> nat \<Rightarrow> event_counter_state \<Rightarrow> bool" where
  "config_slot si x =
     (\<exists>u. 1 \<le> u \<and> u \<le> 28 \<and> x = period_word 7 u (counter_of SB1_default_slots SB1_event_info si))"

lemma config_log:
  assumes "base mod 8 = 0" and "122 \<le> unat (cd_bufsize c)"
  shows "\<exists>b f. sbprof_config_log be base system_rev cpuid SB1_default_slots SB1_event_info c =
      Inr (c\<lparr>slot := f, cd_nslots := 7, cd_buf := b, cd_next := 376\<rparr>) \<and>
    (\<forall>s < 7. \<forall>i < MAX_COUNTERS. config_slot (s, i) (f s i))"
proof -
  have p: "fold_res (\<lambda>s. parse_mux_slot (SB1_default_slots ! s) s SB1_event_info) [0..<7] d =
      Inr (configured SB1_default_slots SB1_event_info 7 d)" for d
    unfolding configured_def by (rule parse_slots_countable [OF default_slots_countable])
  let ?b0 = "overlay 16 (word_bytes be 4 cpuid) (overlay 8 (word_bytes be 8 system_rev)
     (overlay 0 [5, 4, 1, (if be then 0 else 1), 0, 1, 3, 0] (cd_buf c)))"
  obtain f where f: "configured SB1_default_slots SB1_event_info 7 (c\<lparr>cd_buf := ?b0\<rparr>) = c\<lparr>cd_buf := ?b0, slot := f\<rparr>"
    "\<forall>s < 7. \<forall>i < MAX_COUNTERS. f s i = counter_of SB1_default_slots SB1_event_info (s, i)"
    using configured_slots [of SB1_default_slots SB1_event_info 7 "c\<lparr>cd_buf := ?b0\<rparr>"] by auto
  let ?b1 = "overlay 120 [0x34, 0] (overlay 116 (word_bytes be 4 (0 :: u32)) (overlay 112 (word_bytes be 4 (3 :: u32))
     (overlay 104 (word_bytes be 8 (2 :: u64)) (overlay 96 (word_bytes be 8 (1 :: u64))
     (overlay 92 (word_bytes be 4 (- 1 :: u32)) (overlay 88 [DP_D_PID_IMAGE]
     (overlay 24 (DP_D_CONFIG # 7 # concat (map (\<lambda>s. slot_bytes s (c\<lparr>cd_buf := ?b0, slot := f\<rparr>)) [0..<7])) ?b0)))))))"
  have b: "sbprof_config_log be base system_rev cpuid SB1_default_slots SB1_event_info c =
      Inr (adjust_slot_periods 7 (c\<lparr>slot := f, cd_nslots := 7, cd_buf := ?b1, cd_next := 376\<rparr>))"
    unfolding sbprof_config_log_def Let_def default_slots_length
    using assms(2) by (simp add: MAX_SLOTS_def MAX_COUNTERS_def MAX_IMAGE_NAME_def put_fits p f(1) ALIGN_log [OF assms(1)]
      del: upt_rec_numeral split del: if_split)
  let ?c = "c\<lparr>slot := f, cd_nslots := 7, cd_buf := ?b1, cd_next := 376\<rparr>"
  obtain g where g: "adjust_slot_periods 7 ?c = ?c\<lparr>slot := g\<rparr>"
    "\<forall>s < 7. \<forall>i < MAX_COUNTERS. g s i = period_word 7 (occur 7 ?c (ecs_event (slot ?c s i))) (slot ?c s i)"
    using adjusted_slots [of 7 ?c] by blast
  have "config_slot (s, i) (g s i)" if "s < 7" "i < MAX_COUNTERS" for s i
    unfolding config_slot_def using g(2) f(2) that occur_bounds [OF that, of ?c]
    by (intro exI [of _ "occur 7 ?c (ecs_event (slot ?c s i))"]) (simp add: MAX_COUNTERS_def)
  then show ?thesis using b g(1) by (intro exI [of _ ?b1] exI [of _ g]) simp
qed

section \<open>The invariant of the running profiler\<close>

definition period_ok :: "u64 \<Rightarrow> bool" where
  "period_ok x = (unat x + 4096 \<le> 2 ^ 40)"

definition counter_inv :: "event_counter_state \<Rightarrow> bool" where
  "counter_inv x = (ecs_flags x AND ECS_INUSE \<noteq> 0 \<and> period_ok (start_period_of x) \<and> unat (ecs_value x) < 2 ^ 40)"

definition ripples_ok :: "(nat \<Rightarrow> u16) \<Rightarrow> bool" where
  "ripples_ok r = (\<forall>i < RIPPLE_TABLE_SIZE. unat (r i) < 4096)"

definition prof_inv :: "prof \<Rightarrow> bool" where
  "prof_inv p =
     (ripples_ok (ripple p) \<and> cd_nslots (cpud p) = 7 \<and> unat (cd_slotid (cpud p)) < 7 \<and>
      (\<forall>s < 7. \<forall>i < MAX_COUNTERS. counter_inv (slot (cpud p) s i)) \<and>
      (\<forall>i < MAX_COUNTERS. period_ok (acs_start_period (cur_slot (cpud p) i))))"

text \<open>No counter waits with its overflow bit set: the interrupt has removed its cause.\<close>

definition quiet :: "prof \<Rightarrow> bool" where
  "quiet p = (\<forall>n < MAX_COUNTERS. unat (perf_count p n) < 2 ^ 40)"

lemma start_period_of_split:
  fixes a :: u64
  assumes "unat a < 2 ^ 40"
  shows "ucast (ucast a :: u32) OR push_bit 32 (ucast (ucast (drop_bit 32 a) :: u8)) = a"
proof -
  have b: "take_bit 40 a = a" using assms
    by (simp add: word_unat_eq_iff unsigned_take_bit_eq take_bit_nat_eq_self)
  have h: "bit a n \<longleftrightarrow> bit a n \<and> n < 40" for n
    using arg_cong [OF b, of "\<lambda>w. bit w n"] by (auto simp: bit_simps)
  show ?thesis
    by (intro word_bit_ext) (auto simp: bit_simps dest: h [THEN iffD1])
qed

lemma config_slot_inv: "config_slot (s, i) x \<Longrightarrow> s < 7 \<Longrightarrow> i < MAX_COUNTERS \<Longrightarrow> counter_inv x"
proof -
  assume c: "config_slot (s, i) x" and b: "s < 7" "i < MAX_COUNTERS"
  let ?x = "counter_of SB1_default_slots SB1_event_info (s, i)"
  obtain u where u: "1 \<le> u" "u \<le> 28" "x = period_word 7 u ?x" using c by (auto simp: config_slot_def)
  have "start_period_high ?x \<in> {15, 17, 19}" using default_periods b by simp
  then obtain k where k: "start_period_high ?x = of_nat k" "15 \<le> k" "k \<le> 19"
    by (elim insertE emptyE) (force intro: that [of 15] that [of 17] that [of 19])+
  note v = adjusted_period_value [OF k(3) u(1,2) k(2)]
  have a: "unat (adjusted_period 7 u (of_nat k)) + 4096 \<le> 2 ^ 40" unfolding v(1) by (rule v(3))
  then have "start_period_of x = adjusted_period 7 u (of_nat k)"
    using start_period_of_split [of "adjusted_period 7 u (of_nat k)"]
    by (simp add: u(3) period_word_def Let_def k(1) start_period_of_def)
  moreover have "ecs_flags x AND ECS_INUSE \<noteq> 0" "ecs_value x = 0"
    by (simp_all add: u(3) period_word_def counter_of_def Let_def ECS_INUSE_def ECS_USE_PTR_def)
  ultimately show "counter_inv x" using a by (simp add: counter_inv_def period_ok_def)
qed

lemma next_ripple_bound: "unat (next_ripple r) < 4096"
proof -
  have "next_ripple r = take_bit 12 (r + of_nat RIPPLE_GENERATOR)"
    by (simp add: next_ripple_def RIPPLE_SIZE_def take_bit_eq_mask mask_eq_exp_minus_1)
  then show ?thesis
    using take_bit_nat_less_exp [of 12 "unat (r + of_nat RIPPLE_GENERATOR)"] by (simp add: unsigned_take_bit_eq)
qed

lemma reload_quiet:
  assumes "unat r < 4096" and "\<forall>n \<in> set ns. period_ok (start n)"
  shows "unat (fst (reload start ns (r, m))) < 4096"
    and "n \<in> set ns \<Longrightarrow> unat (snd (reload start ns (r, m)) n) < 2 ^ 40"
    and "n \<notin> set ns \<Longrightarrow> snd (reload start ns (r, m)) n = m n"
proof -
  have "unat (fst (reload start ns (r, m))) < 4096 \<and>
    (n \<in> set ns \<longrightarrow> unat (snd (reload start ns (r, m)) n) < 2 ^ 40) \<and>
    (n \<notin> set ns \<longrightarrow> snd (reload start ns (r, m)) n = m n)"
    using assms
  proof (induction ns arbitrary: r m)
    case Nil
    then show ?case by simp
  next
    case (Cons k ns)
    let ?m = "m(k := start k + ucast r)"
    have s: "unat (start k) + 4096 \<le> 2 ^ 40" using Cons.prems(2) by (simp add: period_ok_def)
    have "unat (start k + ucast r) = unat (start k) + unat r"
      using s Cons.prems(1) by (simp add: unat_word_ariths(1) unsigned_ucast_eq take_bit_nat_eq_self)
    then have l: "unat (?m k) < 2 ^ 40" using s Cons.prems(1) by simp
    have ih: "unat (fst (reload start ns (next_ripple r, ?m))) < 4096 \<and>
      (n \<in> set ns \<longrightarrow> unat (snd (reload start ns (next_ripple r, ?m)) n) < 2 ^ 40) \<and>
      (n \<notin> set ns \<longrightarrow> snd (reload start ns (next_ripple r, ?m)) n = ?m n)"
      by (rule Cons.IH) (use Cons.prems(2) next_ripple_bound in auto)
    show ?case using ih l by auto
  qed
  then show "unat (fst (reload start ns (r, m))) < 4096"
    and "n \<in> set ns \<Longrightarrow> unat (snd (reload start ns (r, m)) n) < 2 ^ 40"
    and "n \<notin> set ns \<Longrightarrow> snd (reload start ns (r, m)) n = m n" by simp_all
qed

text \<open>The loop of \<open>slot_enter\<close> arms every counter of the slot, below its overflow bit.\<close>

lemma enter_counter_arms:
  assumes "counter_inv (slot (cpud p) sid i)" and "i < MAX_COUNTERS"
  shows "unat (perf_count (enter_counter sid i p) i) < 2 ^ 40"
    and "period_ok (acs_start_period (cur_slot (cpud (enter_counter sid i p)) i))"
    and "k \<noteq> i \<Longrightarrow> perf_count (enter_counter sid i p) k = perf_count p k"
    and "k \<noteq> i \<Longrightarrow> cur_slot (cpud (enter_counter sid i p)) k = cur_slot (cpud p) k"
  using assms
  by (auto simp: enter_counter_def arm_counter_def Let_def counter_inv_def period_ok_def max_def)

lemma enter_counters_arm:
  assumes "distinct is" and "\<forall>i \<in> set is. i < MAX_COUNTERS \<and> counter_inv (slot (cpud p) sid i)"
  shows "(\<forall>i \<in> set is. unat (perf_count (fold (enter_counter sid) is p) i) < 2 ^ 40 \<and>
      period_ok (acs_start_period (cur_slot (cpud (fold (enter_counter sid) is p)) i))) \<and>
    (\<forall>i. i \<notin> set is \<longrightarrow> perf_count (fold (enter_counter sid) is p) i = perf_count p i \<and>
      cur_slot (cpud (fold (enter_counter sid) is p)) i = cur_slot (cpud p) i)"
  using assms
proof (induction "is" arbitrary: p)
  case Nil
  then show ?case by simp
next
  case (Cons i "is")
  have i: "counter_inv (slot (cpud p) sid i)" "i < MAX_COUNTERS" using Cons.prems by simp_all
  note a = enter_counter_arms [OF i]
  have "\<forall>k \<in> set is. k < MAX_COUNTERS \<and> counter_inv (slot (cpud (enter_counter sid i p)) sid k)"
    using Cons.prems(2) by (simp add: enter_counter_log)
  from Cons.IH [OF _ this] Cons.prems(1) a show ?case by auto
qed

lemma slot_enter_inv:
  assumes "slot_enter be sid pid cpuid p = Inr p'" and "unat sid < 7"
    and "ripples_ok (ripple p)" and "cd_nslots (cpud p) = 7"
    and "\<forall>s < 7. \<forall>i < MAX_COUNTERS. counter_inv (slot (cpud p) s i)"
  shows "prof_inv p' \<and> quiet p' \<and> cd_slotid (cpud p') = sid"
proof -
  let ?p = "fold (enter_counter (unat sid)) [0..<MAX_COUNTERS] p"
  let ?c = "(cpud ?p)\<lparr>cd_slotid := sid, cd_use_ptr := ecs_flags (slot (cpud ?p) (unat sid) 1) AND ECS_USE_PTR\<rparr>"
  obtain r c where c: "report_new_context be pid cpuid ?c = Inr (r, c)" "p' = ?p\<lparr>cpud := c\<rparr>"
    using assms(1) by (auto simp: slot_enter_def Let_def bind_res_eq_Inr)
  note o = log_onlyD [OF report_only [OF c(1)]]
  note e = enter_counters_log [of "unat sid" "[0..<MAX_COUNTERS]" p]
  have "\<forall>i \<in> set [0..<MAX_COUNTERS]. i < MAX_COUNTERS \<and> counter_inv (slot (cpud p) (unat sid) i)"
    using assms(2,5) by simp
  from enter_counters_arm [OF _ this] have a:
    "\<forall>i < MAX_COUNTERS. unat (perf_count ?p i) < 2 ^ 40 \<and> period_ok (acs_start_period (cur_slot (cpud ?p) i))"
    by simp
  show ?thesis unfolding prof_inv_def quiet_def c(2) using e a assms(2-5) by (simp add: o)
qed

lemma slot_exit_inv:
  assumes "\<forall>s < 7. \<forall>i < MAX_COUNTERS. counter_inv (slot (cpud p) s i)" and "\<forall>i < MAX_COUNTERS. unat (m i) < 2 ^ 40"
  shows "\<forall>s < 7. \<forall>i < MAX_COUNTERS. counter_inv (slot (cpud (slot_exit sid m p)) s i)"
  using assms by (auto simp: slot_exit_def unarm_counters_def Let_def counter_inv_def start_period_of_def)

text \<open>The counters are forty bits wide and have an overflow bit.\<close>

definition counters_ok :: "(nat \<Rightarrow> u64) \<Rightarrow> bool" where
  "counters_ok m = (\<forall>n. unat (m n) < 2 ^ 41)"

lemma no_overflow_bit: "unat (x :: u64) < 2 ^ 41 \<Longrightarrow> \<not> bit x 40 \<Longrightarrow> unat x < 2 ^ 40"
proof -
  assume l: "unat x < 2 ^ 41" and n: "\<not> bit x 40"
  have "\<not> bit (unat x) 40" using n by (simp add: bit_unsigned_iff)
  then have "even (unat x div 2 ^ 40)" by (simp add: bit_iff_odd)
  moreover have "unat x div 2 ^ 40 < 2" using l by (simp add: div_less_iff_less_mult)
  ultimately have "unat x div 2 ^ 40 = 0" by (auto simp: less_2_cases_iff)
  then show ?thesis by (simp add: div_eq_0_iff)
qed

lemma reloaded_quiet:
  assumes "prof_inv p" and "counters_ok (perf_count p)"
  shows "unat (fst (reloaded rpc p)) < 4096" and "\<forall>n < MAX_COUNTERS. unat (snd (reloaded rpc p) n) < 2 ^ 40"
proof -
  let ?r = "ripple p (unat (drop_bit 3 (ucast rpc :: u32)) mod RIPPLE_TABLE_SIZE)"
  have r: "unat ?r < 4096" using assms(1) by (simp add: prof_inv_def ripples_ok_def RIPPLE_TABLE_SIZE_def)
  have s: "\<forall>n \<in> set (overflowed p). period_ok (acs_start_period (cur_slot (cpud p) n))"
    using assms(1) by (auto simp: overflowed_def prof_inv_def MAX_COUNTERS_def)
  note q = reload_quiet [OF r s, where m = "perf_count p", folded reloaded_def]
  show "unat (fst (reloaded rpc p)) < 4096" by (rule q(1))
  show "\<forall>n < MAX_COUNTERS. unat (snd (reloaded rpc p) n) < 2 ^ 40"
  proof (intro allI impI)
    fix n assume n: "n < MAX_COUNTERS"
    show "unat (snd (reloaded rpc p) n) < 2 ^ 40"
    proof (cases "n \<in> set (overflowed p)")
      case True
      then show ?thesis by (rule q(2))
    next
      case False
      have "n \<in> {0, 1, 2, 3}" using n by (auto simp: MAX_COUNTERS_def)
      then have "\<not> bit (perf_count p n) 40" using False unfolding overflowed_def set_filter by auto
      then show ?thesis using q(3) [OF False] no_overflow_bit assms(2) by (simp add: counters_ok_def)
    qed
  qed
qed

lemma after_tick_inv:
  assumes "after_tick be tick m (ticked tick p) = Inr p'" and "prof_inv p" and "\<forall>n < MAX_COUNTERS. unat (m n) < 2 ^ 40"
  shows "prof_inv p' \<and> quiet p'"
proof (cases "tick \<and> cd_nslots (cpud p) > 1 \<and> cd_threshold (cpud p) = 1")
  case True
  let ?q = "slot_exit (cd_slotid (cpud p)) m (p\<lparr>cpud := (cpud p)\<lparr>cd_threshold := 16\<rparr>\<rparr>)"
  let ?s = "of_nat ((unat (cd_slotid (cpud p)) + 1) mod unat (cd_nslots (cpud p))) :: u8"
  have e: "slot_enter be ?s (- 1) 0 ?q = Inr p'" using assms(1) True by (simp add: after_tick_def ticked_def Let_def)
  have n: "cd_nslots (cpud p) = 7" using assms(2) by (simp add: prof_inv_def)
  have s: "unat ?s < 7" unfolding n by (simp add: unat_of_nat)
  have "ripples_ok (ripple ?q)" "cd_nslots (cpud ?q) = 7"
    using assms(2) n by (simp_all add: slot_exit_log prof_inv_def)
  moreover have "\<forall>s < 7. \<forall>i < MAX_COUNTERS. counter_inv (slot (cpud ?q) s i)"
    by (rule slot_exit_inv) (use assms(2,3) in \<open>simp_all add: prof_inv_def\<close>)
  ultimately show ?thesis using slot_enter_inv [OF e s] by blast
next
  case False
  then have "p' = (ticked tick p)\<lparr>perf_count := (\<lambda>n. if n < MAX_COUNTERS then m n else perf_count (ticked tick p) n)\<rparr>"
    using assms(1) unfolding after_tick_def ticked_def Let_def by (cases tick) (auto split: if_splits)
  then show ?thesis using assms(2,3) by (simp add: prof_inv_def quiet_def ticked_def)
qed

lemma intr_inv_prof:
  assumes "sbprof_cpu_intr be rpc ptr p = Inr p'" and "prof_inv p" and "counters_ok (perf_count p)"
  shows "prof_inv p' \<and> quiet p'"
proof -
  obtain c where c: "fold_res (record_one be) (map (\<lambda>n. (ucast rpc, traced_ptr ptr, n, cd_use_ptr (cpud p))) (overflowed p)) (cpud p) = Inr c"
    "after_tick be (bit (perf_count p 0) 40) (snd (reloaded rpc p)) (ticked (bit (perf_count p 0) 40) (after_loop rpc p c)) = Inr p'"
    using assms(1) by (auto simp: intr_eq bind_res_eq_Inr)
  have "record_one be x d = Inr e \<Longrightarrow> log_only d e" for x d e
    by (cases x) (auto simp: record_one_def dest: record_only)
  from fold_res_keeps [OF c(1), of "log_only (cpud p)"] this have o: "log_only (cpud p) c"
    using log_only_trans log_only_update(4) by blast
  note r = reloaded_quiet [OF assms(2,3), of rpc]
  have "prof_inv (after_loop rpc p c)"
    using assms(2) r(1) log_onlyD [OF o] by (simp add: prof_inv_def after_loop_def ripples_ok_def)
  from after_tick_inv [OF c(2) this r(2)] show ?thesis .
qed

section \<open>Runs of the profiler\<close>

text \<open>
  Between \<open>sbprof_start\<close> and \<open>sbprof_stop\<close> the hardware changes the counts and interrupts are taken.
  A run is labelled with the samples that its interrupts owe the log.
\<close>

inductive prof_run :: "bool \<Rightarrow> prof \<Rightarrow> (u8 option \<times> u32) list \<Rightarrow> prof \<Rightarrow> bool" for be :: bool and p :: prof where
  prof_begin: "prof_run be p [] p"
| prof_counts: "prof_run be p xs q \<Longrightarrow> counters_ok m \<Longrightarrow> prof_run be p xs (q\<lparr>perf_count := m\<rparr>)"
| prof_intr: "prof_run be p xs q \<Longrightarrow> counters_ok (perf_count q) \<Longrightarrow> sbprof_cpu_intr be rpc ptr q = Inr q' \<Longrightarrow>
    prof_run be p (xs @ owed_samples rpc ptr q) q'"

lemma run_keeps:
  assumes "prof_run be p xs q" and "prof_inv p" and "log_rep be p0 (cpud p) []"
  shows "prof_inv q \<and> (\<exists>ys. log_rep be p0 (cpud q) ys \<and> subseq ys xs)"
  using assms(1)
proof (induction rule: prof_run.induct)
  case prof_begin
  then show ?case using assms(2,3) by blast
next
  case (prof_counts xs q m)
  then show ?case by (simp add: prof_inv_def)
next
  case (prof_intr xs q rpc ptr q')
  then obtain ys where ys: "log_rep be p0 (cpud q) ys" "subseq ys xs" by blast
  obtain zs where zs: "log_rep be p0 (cpud q') (ys @ zs)" "subseq zs (owed_samples rpc ptr q)"
    using intr_rep [OF ys(1), of rpc ptr] prof_intr.hyps(3) by auto
  show ?case using intr_inv_prof [OF prof_intr.hyps(3)] prof_intr ys(2) zs list_emb_append_mono by blast
qed

text \<open>\<open>sbprof_start\<close> establishes both.\<close>

lemma init_ripples_ok:
  "cpud (init_ripples p) = cpud p" "ripples_ok (ripple (init_ripples p))"
proof -
  have o: "cpud (init_ripple j p) = cpud p" "unat (ripple (init_ripple j p) j) < 4096"
    "k \<noteq> j \<Longrightarrow> ripple (init_ripple j p) k = ripple p k" for j k p
  proof -
    have "of_nat (RIPPLE_SIZE - 1) = (mask 12 :: u64)" by (simp add: RIPPLE_SIZE_def mask_eq_exp_minus_1)
    then have m: "ripple_rand p AND of_nat (RIPPLE_SIZE - 1) = take_bit 12 (ripple_rand p)" by (simp only: take_bit_eq_mask)
    show "cpud (init_ripple j p) = cpud p" "k \<noteq> j \<Longrightarrow> ripple (init_ripple j p) k = ripple p k"
      by (simp_all add: init_ripple_def)
    show "unat (ripple (init_ripple j p) j) < 4096"
      unfolding init_ripple_def m using take_bit_nat_less_exp [of 12 "unat (ripple_rand p)"]
      by (simp add: unsigned_ucast_eq unsigned_take_bit_eq)
  qed
  have "cpud (fold init_ripple is p) = cpud p \<and>
     (\<forall>i. i \<in> set is \<or> unat (ripple p i) < 4096 \<longrightarrow> unat (ripple (fold init_ripple is p) i) < 4096)" for "is" p
  proof (induction "is" arbitrary: p)
    case (Cons j "is")
    have "unat (ripple (init_ripple j p) i) < 4096" if "i = j \<or> unat (ripple p i) < 4096" for i
      using that o(2) [of j p] o(3) [of i j p] by (cases "i = j") auto
    then show ?case using Cons.IH [of "init_ripple j p"] o(1) by auto
  qed simp
  from this [of "[0..<RIPPLE_TABLE_SIZE]" p]
  show "cpud (init_ripples p) = cpud p" "ripples_ok (ripple (init_ripples p))"
    by (simp_all add: init_ripples_def ripples_ok_def)
qed

lemma start_prof_runs:
  assumes "base mod 8 = 0" and "377 \<le> unat (cd_bufsize (cpud p0))" and "unat (cd_bufsize (cpud p0)) < 2 ^ 31"
  shows "\<exists>p. start_prof be base system_rev cpuid p0 = Inr p \<and> prof_inv p \<and> quiet p \<and>
    log_rep be 376 (cpud p) [] \<and> cd_slotid (cpud p) = 0"
proof -
  let ?p = "init_ripples p0"
  obtain b f where c: "sbprof_config_log be base system_rev cpuid SB1_default_slots SB1_event_info (cpud p0) =
      Inr ((cpud p0)\<lparr>slot := f, cd_nslots := 7, cd_buf := b, cd_next := 376\<rparr>)"
    "\<forall>s < 7. \<forall>i < MAX_COUNTERS. config_slot (s, i) (f s i)"
    using config_log [OF assms(1), of "cpud p0" be system_rev cpuid] assms(2) by auto
  let ?c = "(cpud p0)\<lparr>slot := f, cd_nslots := 7, cd_buf := b, cd_next := 376, cd_threshold := 16, cd_slotid := 0, cd_last_event := - 1\<rparr>"
  let ?q = "unarm_counters (?p\<lparr>cpud := ?c\<rparr>)"
  have s: "start_prof be base system_rev cpuid p0 = slot_enter be 0 KERNEL_PID 0 ?q"
    by (simp add: start_prof_def Let_def init_ripples_ok c(1))
  let ?e = "fold (enter_counter 0) [0..<MAX_COUNTERS] ?q"
  let ?d = "(cpud ?e)\<lparr>cd_slotid := 0, cd_use_ptr := ecs_flags (slot (cpud ?e) 0 1) AND ECS_USE_PTR\<rparr>"
  note e = enter_counters_log [of 0 "[0..<MAX_COUNTERS]" ?q]
  have q: "cpud ?q = ?c" "ripple ?q = ripple ?p" by (simp_all add: unarm_counters_def)
  have "log_size_ok ?d" using assms(2,3) e by (simp add: q log_size_ok_def)
  moreover have "log_closed be 376 ?d [] 376 0" using assms(2) e by (simp add: q log_closed_def)
  ultimately obtain r d where d: "report_new_context be KERNEL_PID 0 ?d = Inr (r, d)" "log_rep be 376 d []"
    using log_rep_start by blast
  then have r: "slot_enter be 0 KERNEL_PID 0 ?q = Inr (?e\<lparr>cpud := d\<rparr>)" by (simp add: slot_enter_def Let_def)
  have ci: "\<forall>s < 7. \<forall>i < MAX_COUNTERS. counter_inv (f s i)" using c(2) config_slot_inv by blast
  have "prof_inv (?e\<lparr>cpud := d\<rparr>) \<and> quiet (?e\<lparr>cpud := d\<rparr>) \<and> cd_slotid (cpud (?e\<lparr>cpud := d\<rparr>)) = 0"
    by (rule slot_enter_inv [OF r]) (use ci init_ripples_ok(2) [of p0] in \<open>auto simp: q\<close>)
  then show ?thesis using s r d(2) by auto
qed

lemma stop_prof_closes:
  assumes "log_rep be p0 (cpud q) ys"
  shows "\<exists>q' ms e k. stop_prof be q = Inr q' \<and> log_closed be p0 (cpud q') ms e k \<and> samples None ms = ys \<and> k \<le> 4"
proof -
  let ?q = "slot_exit (cd_slotid (cpud q)) (perf_count q) q"
  have "log_rep be p0 (cpud ?q) ys" by (rule log_rep_cong [OF assms]) (simp_all add: slot_exit_log)
  then obtain c ms e k where c: "backfill_nevents be (cpud ?q) = Inr c" "log_closed be p0 c ms e k" "samples None ms = ys" "k \<le> 4"
    using log_rep_close by blast
  then show ?thesis
    by (intro exI [of _ "?q\<lparr>cpud := c\<rparr>"] exI [of _ ms] exI [of _ e] exI [of _ k]) (simp add: stop_prof_def Let_def)
qed

section \<open>The ripple\<close>

lemma next_ripples: "unat ((next_ripple ^^ n) r) mod 4096 = (unat r + 819 * n) mod 4096"
proof (induction n)
  case (Suc n)
  have e: "next_ripple x = take_bit 12 (x + 819)" for x
    by (simp add: next_ripple_def RIPPLE_GENERATOR_def RIPPLE_SIZE_def take_bit_eq_mask mask_eq_exp_minus_1)
  have s: "unat (next_ripple x) = (unat x + 819) mod 4096" for x
  proof -
    have "unat (next_ripple x) = take_bit 12 (unat (x + 819))" unfolding e by (rule unsigned_take_bit_eq)
    also have "\<dots> = (unat x + 819) mod 2 ^ 16 mod 2 ^ 12" by (simp add: unat_word_ariths(1) take_bit_eq_mod)
    also have "\<dots> = (unat x + 819) mod 2 ^ 12" by (rule mod_mod_cancel) simp
    finally show ?thesis by simp
  qed
  have "unat ((next_ripple ^^ Suc n) r) mod 4096 = (unat ((next_ripple ^^ n) r) mod 4096 + 819) mod 4096"
    unfolding funpow.simps comp_def s by (simp add: mod_add_left_eq)
  also have "\<dots> = (unat r + 819 * Suc n) mod 4096" unfolding Suc by (simp add: mod_simps algebra_simps)
  finally show ?case .
qed simp

section \<open>The profiler on the interrupt layer\<close>

text \<open>The interrupt layer does not touch the profiler's data.\<close>

lemma layer_frame [simp]:
  "istate.more (assign p v s) = istate.more s"
  "istate.more (mtc0_status w s) = istate.more s"
  "istate.more (snd (exlib_set_fpsavemask c m s)) = istate.more s"
  by (cases p; simp) (simp_all add: mtc0_status_def exlib_set_fpsavemask_eq)

lemma intr_handler_add_frame: "intr_handler_add i ih s = Inr s' \<Longrightarrow> istate.more s' = istate.more s"
  by (auto simp: intr_handler_add_def status_bits_eq Let_def split: if_splits option.splits simp del: assign.simps)

lemma intr_handler_remove_frame: "intr_handler_remove i ih s = Inr s' \<Longrightarrow> istate.more s' = istate.more s"
  by (auto simp: intr_handler_remove_def status_bits_eq Let_def split: if_splits option.splits simp del: assign.simps)

lemma prof_data_cong:
  fixes s t :: prof_state
  assumes "istate.more t = istate.more s"
  shows "the_prof t = the_prof s" "prof_running t = prof_running s" "cpudata_set t = cpudata_set s"
    "cpudata_base t = cpudata_base s" "prof_int_was_enabled t = prof_int_was_enabled s"
  using assms by (cases s; cases t; simp)+

lemma intr_inv_cong:
  assumes "intr_inv cs s" and "ihands t = ihands s" "handler_chains t = handler_chains s" "intr_fpsavemask t = intr_fpsavemask s"
    "intr_initted t = intr_initted s" "handlers t = handlers s" "exlib_fpu t = exlib_fpu s" "exlib_mdmx t = exlib_mdmx s"
  shows "intr_inv cs t"
  using assms chains_wf_cong [of t s cs] intr_live_cong [of t s] by (simp add: intr_inv_def mask_is_union_def)

lemma intr_inv_fresh_handler:
  assumes "intr_inv cs s" and "\<forall>j<8. hnd \<notin> set (cs j)"
  shows "intr_inv cs (INIT_IHAND hnd f a m s)"
proof -
  let ?t = "INIT_IHAND hnd f a m s"
  have t: "handler_chains ?t = handler_chains s" "intr_fpsavemask ?t = intr_fpsavemask s" "intr_initted ?t = intr_initted s"
    "ihands ?t = (ihands s)(hnd := \<lparr>ih_next = 0, ih_func = f, ih_arg = a, ih_fpsavemask = m\<rparr>)"
    by (simp_all add: INIT_IHAND_def)
  have "seg (ihands ?t) p (cs i) q = seg (ihands s) p (cs i) q" if "i < 8" for i p q
    using assms(2) that by (intro seg_cong) (auto simp: t)
  then have "chains_wf cs ?t" using assms(1) by (simp add: intr_inv_def chains_wf_def t)
  moreover have h: "ihands ?t x = ihands s x" if "i < 8" "x \<in> set (cs i)" for i x
    using assms(2) that by (auto simp: t(4))
  have "(\<exists>i<8. \<exists>x\<in>set (cs i). bit (ih_fpsavemask (ihands ?t x)) n) = (\<exists>i<8. \<exists>x\<in>set (cs i). bit (ih_fpsavemask (ihands s x)) n)" for n
    using h by metis
  then have "mask_is_union cs ?t" using assms(1) unfolding intr_inv_def mask_is_union_def t(2) by simp
  moreover have "intr_live ?t = intr_live s" by (rule intr_live_cong) (simp_all add: INIT_IHAND_def)
  ultimately show ?thesis using assms(1) by (simp add: intr_inv_def t)
qed

lemma disable_intr_eq: "disable_intr s = mtc0_status (c0_status s AND NOT M_SR_IE) s"
  by (simp add: disable_intr_def intr_clear_ie_def mod_status_bits_def Let_def)

lemma enable_intr_eq: "enable_intr s = mtc0_status (c0_status s OR M_SR_IE) s"
  by (simp add: enable_intr_def intr_set_ie_def mod_status_bits_def Let_def)

lemma line7_eq:
  "intr_enable_int None 7 s = (c_bool (bit (c0_status s) 15), None, mtc0_status (set_bit 15 (c0_status s)) s)"
  "intr_disable_int None 7 s = (c_bool (bit (c0_status s) 15), None, mtc0_status (unset_bit 15 (c0_status s)) s)"
  using line_status [of 7 s] by simp_all

lemma mtc0_data [simp]:
  fixes s :: prof_state
  shows "the_prof (mtc0_status v s) = the_prof s" "prof_running (mtc0_status v s) = prof_running s"
    "cpudata_set (mtc0_status v s) = cpudata_set s" "cpudata_base (mtc0_status v s) = cpudata_base s"
    "prof_int_was_enabled (mtc0_status v s) = prof_int_was_enabled s" "c0_status (mtc0_status v s) = v"
  by (simp_all add: mtc0_status_def)

lemma mtc0_intr_inv: "intr_inv cs (mtc0_status v s) = intr_inv cs s"
  using intr_inv_cong [of cs s "mtc0_status v s"] intr_inv_cong [of cs "mtc0_status v s" s] by (auto simp: mtc0_status_def)

lemma enable_inv: "intr_inv cs (enable_intr s) = intr_inv cs s" "intr_inv cs (disable_intr s) = intr_inv cs s"
  by (simp_all add: enable_intr_eq disable_intr_eq mtc0_intr_inv)

lemma enable_data [simp]:
  fixes s :: prof_state
  shows "the_prof (enable_intr s) = the_prof s" "prof_running (enable_intr s) = prof_running s"
    "prof_int_was_enabled (enable_intr s) = prof_int_was_enabled s" "cpudata_base (enable_intr s) = cpudata_base s"
    "cpudata_set (enable_intr s) = cpudata_set s"
    "the_prof (disable_intr s) = the_prof s" "prof_running (disable_intr s) = prof_running s"
    "prof_int_was_enabled (disable_intr s) = prof_int_was_enabled s" "cpudata_base (disable_intr s) = cpudata_base s"
    "cpudata_set (disable_intr s) = cpudata_set s"
  by (simp_all add: enable_intr_eq disable_intr_eq)

lemma set_prof_inv: "intr_inv cs s \<Longrightarrow> intr_inv cs (s\<lparr>the_prof := p\<rparr>)"
  by (erule intr_inv_cong) simp_all

lemma ie_not_line7: "\<not> bit (M_SR_IE :: u32) n" if "n \<noteq> 0" for n
  using that by (simp add: M_SR_IE_def mm_makemask1_def bit_1_iff)

lemma start_session:
  fixes s :: prof_state
  assumes "intr_inv cs s" and "hnd \<noteq> 0" and "\<forall>j<8. hnd \<notin> set (cs j)" and "cpudata_set s" and "\<not> prof_running s"
    and "start_prof be (cpudata_base s + sizeof_cpudata) system_rev cpuid (the_prof s) = Inr p"
  shows "\<exists>s'. sbprof_start be system_rev cpuid hnd fnp s = Inr s' \<and> intr_inv (cs(7 := cs 7 @ [hnd])) s' \<and>
    prof_running s' \<and> the_prof s' = p \<and> c0_status s' = set_bit 15 (c0_status s OR M_SR_IE) \<and>
    prof_int_was_enabled s' = c_bool (bit (c0_status s) 15)"
proof -
  let ?s1 = "disable_intr s"
  let ?s2 = "INIT_IHAND hnd fnp 0 EXFPSAVEMASK_NONE (?s1\<lparr>prof_running := True, the_prof := p\<rparr>)"
  have s1: "the_prof ?s1 = the_prof s" "cpudata_base ?s1 = cpudata_base s" "prof_running ?s1 = prof_running s"
    "intr_inv cs ?s1" using assms(1) by (simp_all add: disable_intr_eq mtc0_intr_inv)
  have "intr_inv cs (?s1\<lparr>prof_running := True, the_prof := p\<rparr>)"
    by (rule intr_inv_cong [OF s1(4)]) simp_all
  then have i2: "intr_inv cs ?s2" by (rule intr_inv_fresh_handler [OF _ assms(3)])
  have s2: "prof_running ?s2" "the_prof ?s2 = p" "c0_status ?s2 = c0_status s AND NOT M_SR_IE"
    by (simp_all add: INIT_IHAND_def disable_intr_eq)
  obtain s3 where s3: "intr_handler_add 7 hnd ?s2 = Inr s3" "intr_inv (cs(7 := cs 7 @ [hnd])) s3" "c0_status s3 = c0_status ?s2"
    using intr_handler_add_correct [OF i2 _ assms(2,3), of 7] by auto
  note d = prof_data_cong [OF intr_handler_add_frame [OF s3(1)]]
  let ?s4 = "mtc0_status (set_bit 15 (c0_status s3)) s3"
  let ?r = "enable_intr (?s4\<lparr>prof_int_was_enabled := c_bool (bit (c0_status s3) 15)\<rparr>)"
  have "bit (c0_status s3) 15 = bit (c0_status s) 15" unfolding s3(3) s2(3) by (simp add: bitwise ie_not_line7)
  moreover have "set_bit 15 (c0_status s3) OR M_SR_IE = set_bit 15 (c0_status s OR M_SR_IE)"
    unfolding s3(3) s2(3) by (intro word_bit_ext) (auto simp: bitwise bit_set_bit_iff)
  moreover have "intr_inv (cs(7 := cs 7 @ [hnd])) ?r"
    unfolding enable_intr_eq mtc0_intr_inv
    by (rule intr_inv_cong [OF s3(2)]) (simp_all add: mtc0_status_def)
  moreover have "sbprof_start be system_rev cpuid hnd fnp s = Inr ?r"
    using assms(4-6) s1 s3(1) by (simp add: sbprof_start_def Let_def line7_eq)
  ultimately show ?thesis using s2 d by (intro exI [of _ ?r]) (simp add: enable_intr_eq)
qed

lemma stop_session:
  fixes s :: prof_state
  assumes "intr_inv cs s" and "prof_running s"
    and "\<And>t. intr_inv cs t \<Longrightarrow> the_prof t = unarm_counters (the_prof s) \<Longrightarrow> \<exists>q. last_intrs t = Inr (t\<lparr>the_prof := q\<rparr>) \<and> good q"
    and "\<And>q. good q \<Longrightarrow> \<exists>q'. stop_prof be q = Inr q' \<and> final q'"
  shows "\<exists>s'. sbprof_stop be hnd last_intrs s = Inr s' \<and> intr_inv (cs(7 := remove1 hnd (cs 7))) s' \<and>
    \<not> prof_running s' \<and> final (the_prof s') \<and>
    c0_status s' = (if prof_int_was_enabled s = 0 then unset_bit 15 (c0_status s OR M_SR_IE) else c0_status s OR M_SR_IE)"
proof -
  let ?s1 = "disable_intr s"
  let ?s2 = "enable_intr (?s1\<lparr>prof_running := False, the_prof := unarm_counters (the_prof s)\<rparr>)"
  have i1: "intr_inv cs ?s1" using assms(1) by (simp add: enable_inv)
  have i2: "intr_inv cs ?s2" unfolding enable_inv(1) by (rule intr_inv_cong [OF i1]) simp_all
  have e2: "the_prof ?s2 = unarm_counters (the_prof s)" "prof_int_was_enabled ?s2 = prof_int_was_enabled s"
    "prof_running ?s2 = False" by simp_all
  obtain q where q: "last_intrs ?s2 = Inr (?s2\<lparr>the_prof := q\<rparr>)" "good q" using assms(3) [OF i2 e2(1)] by blast
  let ?s4 = "disable_intr (?s2\<lparr>the_prof := q\<rparr>)"
  let ?s5 = "if prof_int_was_enabled s = 0 then mtc0_status (unset_bit 15 (c0_status ?s4)) ?s4 else ?s4"
  have i4: "intr_inv cs ?s4"
    unfolding enable_inv(2) by (rule set_prof_inv [OF i2])
  have i5: "intr_inv cs ?s5" using i4 by (simp add: mtc0_intr_inv)
  obtain s6 where s6: "intr_handler_remove 7 hnd ?s5 = Inr s6" "intr_inv (cs(7 := remove1 hnd (cs 7))) s6" "c0_status s6 = c0_status ?s5"
    using intr_handler_remove_correct [OF i5, of 7 hnd] by auto
  note d = prof_data_cong [OF intr_handler_remove_frame [OF s6(1)]]
  have p6: "the_prof s6 = q" "\<not> prof_running s6" unfolding d by (simp_all add: e2)
  obtain q' where q': "stop_prof be q = Inr q'" "final q'" using assms(4) [OF q(2)] by blast
  let ?r = "enable_intr (s6\<lparr>the_prof := q'\<rparr>)"
  have w: "prof_int_was_enabled ?s4 = prof_int_was_enabled s" by simp
  have r: "sbprof_stop be hnd last_intrs s = Inr ?r"
    unfolding sbprof_stop_def Let_def using assms(2) q(1) s6(1) q'(1) w p6(1)
    by (simp add: line7_eq cong: if_cong)
  have "intr_inv (cs(7 := remove1 hnd (cs 7))) ?r"
    unfolding enable_inv(1) by (rule set_prof_inv [OF s6(2)])
  moreover have "c0_status ?r = (if prof_int_was_enabled s = 0 then unset_bit 15 (c0_status s OR M_SR_IE) else c0_status s OR M_SR_IE)"
    unfolding enable_intr_eq using s6(3)
    by (auto simp: disable_intr_eq enable_intr_eq intro!: word_bit_ext) (auto simp: bitwise bit_unset_bit_iff ie_not_line7)
  ultimately show ?thesis using r p6(2) q'(2) by (intro exI [of _ ?r]) (simp add: enable_intr_eq)
qed

section \<open>Properties\<close>

text \<open>A processor that has just booted, with a 4 Kbyte buffer for the profiler at \<open>0x20000000\<close>.\<close>

definition idle_prof :: "u64 \<Rightarrow> prof" where
  "idle_prof n =
     \<lparr>cpud = zero_cpudata n, ripple = (\<lambda>_. 0), ripple_rand = 1, perf_sel = (\<lambda>_. 0), perf_count = (\<lambda>_. 0)\<rparr>"

definition sb1_prof :: prof_state where
  "sb1_prof = istate.extend sb1_istate (prof_state.fields True 0x20000000 False 0 0 (idle_prof 0x1000))"

lemma sb1_prof_fields:
  "ihands sb1_prof = ihands sb1_istate" "handler_chains sb1_prof = handler_chains sb1_istate"
  "intr_fpsavemask sb1_prof = intr_fpsavemask sb1_istate" "intr_initted sb1_prof = intr_initted sb1_istate"
  "handlers sb1_prof = handlers sb1_istate" "exlib_fpu sb1_prof = exlib_fpu sb1_istate"
  "exlib_mdmx sb1_prof = exlib_mdmx sb1_istate"
  "the_prof sb1_prof = idle_prof 0x1000" "cpudata_base sb1_prof = 0x20000000" "cpudata_set sb1_prof"
  "\<not> prof_running sb1_prof"
  by (simp_all add: sb1_prof_def prof_state.defs istate.defs sb1_istate_defs)

lemma sb1_prof_inv: "intr_inv (\<lambda>_. []) sb1_prof"
  using sb1_istate_inv unfolding intr_inv_def chains_wf_def mask_is_union_def
  by (simp add: sb1_prof_fields sb1_istate_defs)

lemma remove1_last: "x \<notin> set xs \<Longrightarrow> remove1 x (xs @ [x]) = xs"
  by (simp add: remove1_append)

lemma run_trans:
  assumes "prof_run be q ys r" and "prof_run be p xs q"
  shows "prof_run be p (xs @ ys) r"
  using assms(1)
proof (induction rule: prof_run.induct)
  case prof_begin
  then show ?case using assms(2) by simp
next
  case (prof_counts zs t m)
  then show ?case by (blast intro: prof_run.prof_counts)
next
  case (prof_intr zs t rpc ptr t')
  then show ?case using prof_run.prof_intr [of be p "xs @ zs" t rpc ptr t'] by simp
qed

lemma unarm_keeps:
  "log_rep be p0 (cpud q) xs \<Longrightarrow> log_rep be p0 (cpud (unarm_counters q)) xs"
  "prof_inv q \<Longrightarrow> prof_inv (unarm_counters q)"
  by (simp_all add: unarm_counters_def prof_inv_def)

lemma session_log:
  assumes "prof_inv p" and "log_rep be 376 (cpud p) []" and "prof_run be p xs q" and "prof_run be (unarm_counters q) ys r"
  shows "\<exists>q' ms e k. stop_prof be r = Inr q' \<and> log_closed be 376 (cpud q') ms e k \<and> k \<le> 4 \<and> subseq (samples None ms) (xs @ ys)"
proof -
  obtain us where us: "prof_inv q" "log_rep be 376 (cpud q) us" "subseq us xs"
    using run_keeps [OF assms(3,1,2)] by blast
  have *: "prof_inv t \<and> (\<exists>vs. log_rep be 376 (cpud t) (us @ vs) \<and> subseq vs zs)"
    if "prof_run be (unarm_counters q) zs t" for zs t
    using that
  proof (induction rule: prof_run.induct)
    case prof_begin
    then show ?case using unarm_keeps(1) [OF us(2)] unarm_keeps(2) [OF us(1)]
      by (intro conjI exI [of _ "[]"]) simp_all
  next
    case (prof_counts zs t m)
    then show ?case by (simp add: prof_inv_def)
  next
    case (prof_intr zs t rpc ptr t')
    then obtain vs where vs: "log_rep be 376 (cpud t) (us @ vs)" "subseq vs zs" by blast
    obtain ws where ws: "log_rep be 376 (cpud t') ((us @ vs) @ ws)" "subseq ws (owed_samples rpc ptr t)"
      using intr_rep [OF vs(1), of rpc ptr] prof_intr.hyps(3) by auto
    then have "log_rep be 376 (cpud t') (us @ (vs @ ws))" by simp
    then show ?case using intr_inv_prof [OF prof_intr.hyps(3)] prof_intr vs(2) ws(2) list_emb_append_mono by blast
  qed
  from * [OF assms(4)] obtain vs where vs: "log_rep be 376 (cpud r) (us @ vs)" "subseq vs ys" by blast
  have "subseq (us @ vs) (xs @ ys)" by (rule list_emb_append_mono [OF us(3) vs(2)])
  then show ?thesis using stop_prof_closes [OF vs(1)] by metis
qed

text \<open>
  C22: Profiling the CPU, from start to stop, on any state of the interrupt layer: with at least 377 bytes of
  buffer, \<open>sbprof_start\<close> returns, chains its handler on line 7 alone and enables the line; whatever
  the counters do and whichever interrupts come, \<open>sbprof_stop\<close> returns too, no write having left the
  buffer, unchains the handler, gives the line its old enable, and leaves a log
  that parses from byte 376 to its end, but for at most four stray words, whose samples
  are, in order and each with its multiplexing slot, among those the interrupts owed it.
\<close>

theorem cpu_profile_session:
  assumes "intr_inv cs s" and "hnd \<noteq> 0" and "\<forall>j<8. hnd \<notin> set (cs j)" and "cpudata_set s" and "\<not> prof_running s"
    and "(cpudata_base s + sizeof_cpudata) mod 8 = 0"
    and "377 \<le> unat (cd_bufsize (cpud (the_prof s)))" and "unat (cd_bufsize (cpud (the_prof s))) < 2 ^ 31"
  shows "\<exists>s1. sbprof_start be system_rev cpuid hnd fnp s = Inr s1 \<and> intr_inv (cs(7 := cs 7 @ [hnd])) s1 \<and>
    prof_running s1 \<and> c0_status s1 = set_bit 15 (c0_status s OR M_SR_IE) \<and>
    (\<forall>xs q ys r. prof_run be (the_prof s1) xs q \<and> prof_run be (unarm_counters q) ys r \<longrightarrow>
      (\<exists>s2 ms e k. sbprof_stop be hnd (\<lambda>t. Inr (t\<lparr>the_prof := r\<rparr>)) (s1\<lparr>the_prof := q\<rparr>) = Inr s2 \<and>
        intr_inv cs s2 \<and> \<not> prof_running s2 \<and> c0_status s2 = c0_status s OR M_SR_IE \<and>
        log_closed be 376 (cpud (the_prof s2)) ms e k \<and> k \<le> 4 \<and> subseq (samples None ms) (xs @ ys)))"
proof -
  obtain p where p: "start_prof be (cpudata_base s + sizeof_cpudata) system_rev cpuid (the_prof s) = Inr p" "prof_inv p"
    "log_rep be 376 (cpud p) []"
    using start_prof_runs [OF assms(6-8)] by blast
  obtain s1 where s1: "sbprof_start be system_rev cpuid hnd fnp s = Inr s1" "intr_inv (cs(7 := cs 7 @ [hnd])) s1"
    "prof_running s1" "the_prof s1 = p" "c0_status s1 = set_bit 15 (c0_status s OR M_SR_IE)"
    "prof_int_was_enabled s1 = c_bool (bit (c0_status s) 15)"
    using start_session [OF assms(1-5) p(1)] by blast
  have "\<exists>s2 ms e k. sbprof_stop be hnd (\<lambda>t. Inr (t\<lparr>the_prof := r\<rparr>)) (s1\<lparr>the_prof := q\<rparr>) = Inr s2 \<and>
        intr_inv cs s2 \<and> \<not> prof_running s2 \<and> c0_status s2 = c0_status s OR M_SR_IE \<and>
        log_closed be 376 (cpud (the_prof s2)) ms e k \<and> k \<le> 4 \<and> subseq (samples None ms) (xs @ ys)"
    if run: "prof_run be (the_prof s1) xs q" "prof_run be (unarm_counters q) ys r" for xs q ys r
  proof -
    let ?t = "s1\<lparr>the_prof := q\<rparr>"
    let ?final = "\<lambda>q'. \<exists>ms e k. log_closed be 376 (cpud q') ms e k \<and> k \<le> 4 \<and> subseq (samples None ms) (xs @ ys)"
    obtain s2 where s2: "sbprof_stop be hnd (\<lambda>t. Inr (t\<lparr>the_prof := r\<rparr>)) ?t = Inr s2"
      "intr_inv ((cs(7 := cs 7 @ [hnd]))(7 := remove1 hnd ((cs(7 := cs 7 @ [hnd])) 7))) s2" "\<not> prof_running s2"
      "?final (the_prof s2)"
      "c0_status s2 = (if prof_int_was_enabled ?t = 0 then unset_bit 15 (c0_status ?t OR M_SR_IE) else c0_status ?t OR M_SR_IE)"
    proof (rule exE [OF stop_session [OF set_prof_inv [OF s1(2)], of q "\<lambda>t. Inr (t\<lparr>the_prof := r\<rparr>)" "\<lambda>x. x = r" be ?final hnd]])
      show "prof_running ?t" using s1(3) by simp
      show "\<exists>x. Inr (t\<lparr>the_prof := r\<rparr>) = Inr (t\<lparr>the_prof := x\<rparr>) \<and> x = r" for t :: prof_state by simp
      show "\<exists>q'. stop_prof be x = Inr q' \<and> ?final q'" if "x = r" for x
        unfolding that using session_log [OF p(2,3) run [unfolded s1(4)]] by blast
    qed (elim conjE, rule that)
    have "c0_status s2 = c0_status s OR M_SR_IE"
      unfolding s2(5) using s1(5,6)
      by (auto intro!: word_bit_ext simp: bitwise bit_set_bit_iff bit_unset_bit_iff ie_not_line7 c_bool_def split: if_splits)
    moreover have "hnd \<notin> set (cs 7)" using assms(3) by simp
    ultimately show ?thesis using s2 by (auto simp: remove1_last)
  qed
  then show ?thesis using s1 by blast
qed

lemma cpu_profile_session_witness:
  "\<exists>s1 s2 ms e k. sbprof_start False 0 0 0x3000 0 sb1_prof = Inr s1 \<and>
     sbprof_stop False 0x3000 (\<lambda>t. Inr (t\<lparr>the_prof := unarm_counters (the_prof s1)\<rparr>)) s1 = Inr s2 \<and>
     log_closed False 376 (cpud (the_prof s2)) ms e k \<and> samples None ms = []"
proof -
  obtain s1 where s1: "sbprof_start False 0 0 0x3000 0 sb1_prof = Inr s1"
    and r: "\<And>xs q ys r. prof_run False (the_prof s1) xs q \<and> prof_run False (unarm_counters q) ys r \<longrightarrow>
      (\<exists>s2 ms e k. sbprof_stop False 0x3000 (\<lambda>t. Inr (t\<lparr>the_prof := r\<rparr>)) (s1\<lparr>the_prof := q\<rparr>) = Inr s2 \<and>
        log_closed False 376 (cpud (the_prof s2)) ms e k \<and> subseq (samples None ms) (xs @ ys))"
    using cpu_profile_session [OF sb1_prof_inv, of "0x3000" False 0 0 0]
    by (simp add: sb1_prof_fields sizeof_cpudata_def idle_prof_def zero_cpudata_def) blast
  from r [of "[]" "the_prof s1" "[]" "unarm_counters (the_prof s1)"] prof_begin
  show ?thesis using s1 by (fastforce simp: prof_run.prof_begin dest: list_emb_Nil2)
qed

text \<open>
  C23: One interrupt of the profiler, on any log that holds the samples \<open>xs\<close>: it returns, and appends the value
  of every counter that overflowed (the traced address for counter 1 in a slot that traces, the
  interrupted address otherwise), in counter order, all of them when 96 bytes are free and a
  subsequence otherwise; every sixteenth overflow of the cycle counter moves to the next slot, and
  otherwise the counters that overflowed are reloaded with their period and the ripple of this address,
  the ripple moving on with each.
\<close>

theorem cpu_interrupt_exact:
  assumes "log_rep be p0 (cpud p) xs"
  shows "\<exists>p' ys. sbprof_cpu_intr be rpc ptr p = Inr p' \<and> log_rep be p0 (cpud p') (xs @ ys) \<and>
    subseq ys (owed_samples rpc ptr p) \<and> (96 \<le> log_free (cpud p) \<longrightarrow> ys = owed_samples rpc ptr p) \<and>
    cd_nslots (cpud p') = cd_nslots (cpud p) \<and>
    ripple p' = (ripple p)(unat (drop_bit 3 (ucast rpc :: u32)) mod RIPPLE_TABLE_SIZE := fst (reloaded rpc p)) \<and>
    (if switches p
     then cd_slotid (cpud p') = of_nat ((unat (cd_slotid (cpud p)) + 1) mod unat (cd_nslots (cpud p))) \<and>
          cd_threshold (cpud p') = 16
     else cd_slotid (cpud p') = cd_slotid (cpud p) \<and>
          (\<forall>n < MAX_COUNTERS. perf_count p' n = snd (reloaded rpc p) n) \<and>
          cd_threshold (cpud p') = cd_threshold (cpud p) - (if bit (perf_count p 0) 40 then 1 else 0))"
  using assms by (rule intr_rep)

lemma cpu_interrupt_exact_witness:
  "\<exists>p p'. start_prof False 0 0 0 (idle_prof 0x1000) = Inr p \<and>
     sbprof_cpu_intr False 0x80001000 0 (p\<lparr>perf_count := (\<lambda>n. if n = 2 then 0x10000000005 else 0)\<rparr>) = Inr p' \<and>
     (\<exists>ys. log_rep False 376 (cpud p') ys \<and> subseq ys [(Some 0, 0x80001002)])"
proof -
  obtain p where p: "start_prof False 0 0 0 (idle_prof 0x1000) = Inr p" "log_rep False 376 (cpud p) []" "cd_slotid (cpud p) = 0"
    using start_prof_runs [of 0 "idle_prof 0x1000" False 0 0] by (auto simp: idle_prof_def zero_cpudata_def)
  let ?p = "p\<lparr>perf_count := (\<lambda>n. if n = 2 then 0x10000000005 else 0)\<rparr>"
  have "bit (0x10000000005 :: u64) 40" by code_simp
  then have o: "overflowed ?p = [2]" by (simp add: overflowed_def)
  have s: "owed_samples 0x80001000 0 ?p = [(Some 0, 0x80001002)]"
    unfolding owed_samples_def o by (simp add: sample_word_def p(3))
  have "log_rep False 376 (cpud ?p) []" using p(2) by simp
  from cpu_interrupt_exact [OF this, of "0x80001000" 0] p(1) s show ?thesis by auto
qed

text \<open>
  C24: While the profiler runs, however the forty-bit counters move, every interrupt returns and leaves no
  counter with its overflow bit set: reloading can never overflow at once, for
  any of the seven default slots, so the interrupt line is quiet until the next event is
  counted; the slot stays one of the seven.
\<close>

theorem cpu_interrupt_settles:
  assumes "start_prof be base system_rev cpuid p0 = Inr p" and "base mod 8 = 0"
    and "377 \<le> unat (cd_bufsize (cpud p0))" and "unat (cd_bufsize (cpud p0)) < 2 ^ 31"
    and "prof_run be p xs q" and "counters_ok m"
  shows "\<exists>q'. sbprof_cpu_intr be rpc ptr (q\<lparr>perf_count := m\<rparr>) = Inr q' \<and>
    (\<forall>n < 4. \<not> bit (perf_count q' n) 40) \<and> unat (cd_slotid (cpud q')) < 7"
proof -
  have p: "prof_inv p" "log_rep be 376 (cpud p) []" using start_prof_runs [OF assms(2-4), of be system_rev cpuid] assms(1) by auto
  obtain ys where q: "prof_inv q" "log_rep be 376 (cpud q) ys" using run_keeps [OF assms(5) p] by blast
  let ?q = "q\<lparr>perf_count := m\<rparr>"
  have "log_rep be 376 (cpud ?q) ys" "prof_inv ?q" using q by (simp_all add: prof_inv_def)
  moreover obtain q' where q': "sbprof_cpu_intr be rpc ptr ?q = Inr q'" using intr_rep [OF calculation(1)] by blast
  ultimately have i: "prof_inv q'" "quiet q'" using intr_inv_prof [OF q'] assms(6) by simp_all
  have "\<not> bit (perf_count q' n) 40" if "n < 4" for n
  proof -
    have "unat (perf_count q' n) < 2 ^ 40" using i(2) that by (simp add: quiet_def MAX_COUNTERS_def)
    then have "\<not> bit (unat (perf_count q' n)) 40" by (simp add: bit_iff_odd)
    then show ?thesis by (simp add: bit_unsigned_iff)
  qed
  then show ?thesis using q' i(1) by (auto simp: prof_inv_def)
qed

lemma cpu_interrupt_settles_witness:
  "\<exists>p q. start_prof True 0x1000 0 0 (idle_prof 0x2000) = Inr p \<and>
     sbprof_cpu_intr True 0x80001000 0 (p\<lparr>perf_count := (\<lambda>_. 0x10000000000)\<rparr>) = Inr q \<and> \<not> bit (perf_count q 3) 40"
proof -
  obtain p where p: "start_prof True 0x1000 0 0 (idle_prof 0x2000) = Inr p"
    using start_prof_runs [of "0x1000" "idle_prof 0x2000" True 0 0] by (auto simp: idle_prof_def zero_cpudata_def)
  have "counters_ok (\<lambda>_. 0x10000000000)" by (simp add: counters_ok_def)
  from cpu_interrupt_settles [OF p _ _ _ prof_begin this, of "0x80001000" 0] show ?thesis
    using p by (auto simp: idle_prof_def zero_cpudata_def)
qed

text \<open>
  A buffer too small for the header of the log is written past its end: with fewer than 122
  bytes \<open>sbprof_start\<close> faults, and a size of 0, which the header file
  documents as switching the collection off, is such a size.
\<close>

theorem cpu_small_buffer_overruns:
  assumes "base mod 8 = 0" and "unat (cd_bufsize (cpud p0)) < 122"
  shows "start_prof be base system_rev cpuid p0 = Inl OutOfBounds"
proof -
  let ?c = "cpud p0"
  have put: "bind_res (put q bs c) h =
      (if q + length bs \<le> unat (cd_bufsize c) then h (c\<lparr>cd_buf := overlay q bs (cd_buf c)\<rparr>) else Inl OutOfBounds)"
    for q bs c and h :: "cpudata \<Rightarrow> cpudata res"
    by (simp add: put_def)
  have p: "fold_res (\<lambda>s. parse_mux_slot (SB1_default_slots ! s) s SB1_event_info) [0..<7] d =
      Inr (configured SB1_default_slots SB1_event_info 7 d)" for d
    unfolding configured_def by (rule parse_slots_countable [OF default_slots_countable])
  have b: "cd_bufsize (configured SB1_default_slots SB1_event_info 7 d) = cd_bufsize d" for d
    using configured_slots [of SB1_default_slots SB1_event_info 7 d] by auto
  have "sbprof_config_log be base system_rev cpuid SB1_default_slots SB1_event_info ?c = Inl OutOfBounds"
    unfolding sbprof_config_log_def Let_def default_slots_length put
    using assms(2) by (simp add: MAX_SLOTS_def MAX_COUNTERS_def p b ALIGN_log [OF assms(1)] del: upt_rec_numeral)
  then show ?thesis by (simp add: start_prof_def init_ripples_ok)
qed

lemma cpu_small_buffer_overruns_witness:
  "start_prof False 0 0 0 (idle_prof 0) = Inl OutOfBounds"
  by (rule cpu_small_buffer_overruns) (simp_all add: idle_prof_def zero_cpudata_def)

end
