(* ===== verification/Registers.thy ===== *)
theory Registers
  imports Sbmips
begin

text \<open>
  The convention of the register headers \<open>include/sibyte/sb1250_*.h\<close> and \<open>bcm1480_*.h\<close>: the macros of
  \<open>sb1250_defs.h\<close>, a record for what the macros of one field say, a register as the list of its
  fields, and what makes a field and a register consistent. The theories of the headers hold their registers
  as such lists; names omit the prefix that the header gives to all its macros.
\<close>

unbundle bit_operations_syntax

section \<open>Chips and revisions\<close>

text \<open>The revisions a header can be restricted to; \<open>SIBYTE_HDR_FEATURES\<close> is the argument \<open>ft\<close>.\<close>

datatype chip = BCM1250 | BCM112x | BCM1480

datatype revision = BCM1250_PASS1 | BCM1250_PASS2 | BCM1250_PASS3 | BCM112x_PASS1 | BCM1480_PASS1

fun chip_of :: "revision \<Rightarrow> chip" where
  "chip_of BCM112x_PASS1 = BCM112x"
| "chip_of BCM1480_PASS1 = BCM1480"
| "chip_of _ = BCM1250"

fun pass_of :: "revision \<Rightarrow> nat" where
  "pass_of BCM1250_PASS2 = 2"
| "pass_of BCM1250_PASS3 = 3"
| "pass_of _ = 1"

fun SIBYTE_HDR_FMASK :: "revision \<Rightarrow> u32" where
  "SIBYTE_HDR_FMASK BCM1250_PASS1 = 0x00000001"
| "SIBYTE_HDR_FMASK BCM1250_PASS2 = 0x00000002"
| "SIBYTE_HDR_FMASK BCM1250_PASS3 = 0x00000004"
| "SIBYTE_HDR_FMASK BCM112x_PASS1 = 0x00000100"
| "SIBYTE_HDR_FMASK BCM1480_PASS1 = 0x00001000"

fun SIBYTE_HDR_FMASK_ALLREVS :: "chip \<Rightarrow> u32" where
  "SIBYTE_HDR_FMASK_ALLREVS BCM1250 = 0x000000ff"
| "SIBYTE_HDR_FMASK_ALLREVS BCM112x = 0x00000f00"
| "SIBYTE_HDR_FMASK_ALLREVS BCM1480 = 0x0000f000"

definition SIBYTE_HDR_FMASK_ALL :: u32 where
  "SIBYTE_HDR_FMASK_ALL =
     SIBYTE_HDR_FMASK_ALLREVS BCM1250 OR SIBYTE_HDR_FMASK_ALLREVS BCM112x OR SIBYTE_HDR_FMASK_ALLREVS BCM1480"

definition SIBYTE_HDR_FMASK_BEFORE :: "revision \<Rightarrow> u32" where
  "SIBYTE_HDR_FMASK_BEFORE p = (SIBYTE_HDR_FMASK p - 1) AND SIBYTE_HDR_FMASK_ALLREVS (chip_of p)"

definition SIBYTE_HDR_FMASK_AFTER :: "revision \<Rightarrow> u32" where
  "SIBYTE_HDR_FMASK_AFTER p =
     NOT (SIBYTE_HDR_FMASK p OR (SIBYTE_HDR_FMASK p - 1)) AND SIBYTE_HDR_FMASK_ALLREVS (chip_of p)"

definition SIBYTE_HDR_FEATURE_CHIP :: "u32 \<Rightarrow> chip \<Rightarrow> bool" where
  "SIBYTE_HDR_FEATURE_CHIP ft c \<longleftrightarrow> SIBYTE_HDR_FMASK_ALLREVS c AND ft \<noteq> 0"

definition SIBYTE_HDR_FEATURE_1250_112x :: "u32 \<Rightarrow> bool" where
  "SIBYTE_HDR_FEATURE_1250_112x ft \<longleftrightarrow> SIBYTE_HDR_FEATURE_CHIP ft BCM1250 \<or> SIBYTE_HDR_FEATURE_CHIP ft BCM112x"

definition SIBYTE_HDR_FEATURE :: "u32 \<Rightarrow> revision \<Rightarrow> bool" where
  "SIBYTE_HDR_FEATURE ft p \<longleftrightarrow> (SIBYTE_HDR_FMASK p OR SIBYTE_HDR_FMASK_AFTER p) AND ft \<noteq> 0"

definition SIBYTE_HDR_FEATURE_EXACT :: "u32 \<Rightarrow> revision \<Rightarrow> bool" where
  "SIBYTE_HDR_FEATURE_EXACT ft p \<longleftrightarrow> SIBYTE_HDR_FMASK p AND ft \<noteq> 0"

definition SIBYTE_HDR_FEATURE_UP_TO :: "u32 \<Rightarrow> revision \<Rightarrow> bool" where
  "SIBYTE_HDR_FEATURE_UP_TO ft p \<longleftrightarrow> (SIBYTE_HDR_FMASK p OR SIBYTE_HDR_FMASK_BEFORE p) AND ft \<noteq> 0"

text \<open>The lines between \<open>#if c\<close> and \<open>#endif\<close>.\<close>

definition only_if :: "bool \<Rightarrow> 'a list \<Rightarrow> 'a list" where
  "only_if c xs = (if c then xs else [])"

lemma only_if_simps [simp]: "only_if True xs = xs" "only_if False xs = []"
  by (simp_all add: only_if_def)

lemma feature_chip:
  "SIBYTE_HDR_FEATURE_CHIP (SIBYTE_HDR_FMASK p) c \<longleftrightarrow> chip_of p = c"
  unfolding SIBYTE_HDR_FEATURE_CHIP_def by (cases p; cases c) simp_all

lemma feature_since:
  "SIBYTE_HDR_FEATURE (SIBYTE_HDR_FMASK p) q \<longleftrightarrow> chip_of p = chip_of q \<and> pass_of q \<le> pass_of p"
  unfolding SIBYTE_HDR_FEATURE_def SIBYTE_HDR_FMASK_AFTER_def by (cases p; cases q) simp_all

lemma feature_up_to:
  "SIBYTE_HDR_FEATURE_UP_TO (SIBYTE_HDR_FMASK p) q \<longleftrightarrow> chip_of p = chip_of q \<and> pass_of p \<le> pass_of q"
  unfolding SIBYTE_HDR_FEATURE_UP_TO_def SIBYTE_HDR_FMASK_BEFORE_def by (cases p; cases q) simp_all

lemma feature_exact:
  "SIBYTE_HDR_FEATURE_EXACT (SIBYTE_HDR_FMASK p) q \<longleftrightarrow> p = q"
  unfolding SIBYTE_HDR_FEATURE_EXACT_def by (cases p; cases q) simp_all

lemmas feature_simps = feature_chip feature_since feature_up_to SIBYTE_HDR_FEATURE_1250_112x_def

section \<open>Field macros\<close>

definition SB_MAKEMASK1 :: "nat \<Rightarrow> u64" where "SB_MAKEMASK1 n = push_bit n 1"
definition SB_MAKEMASK :: "nat \<Rightarrow> nat \<Rightarrow> u64" where "SB_MAKEMASK v n = push_bit n (push_bit v 1 - 1)"
definition SB_MAKEVALUE :: "u64 \<Rightarrow> nat \<Rightarrow> u64" where "SB_MAKEVALUE v n = push_bit n v"
definition SB_GETVALUE :: "u64 \<Rightarrow> nat \<Rightarrow> u64 \<Rightarrow> u64" where "SB_GETVALUE v n m = drop_bit n (v AND m)"
definition SB_MAKEMASK1_32 :: "nat \<Rightarrow> u32" where "SB_MAKEMASK1_32 n = push_bit n 1"
definition SB_MAKEMASK_32 :: "nat \<Rightarrow> nat \<Rightarrow> u32" where "SB_MAKEMASK_32 v n = push_bit n (push_bit v 1 - 1)"
definition SB_MAKEVALUE_32 :: "u32 \<Rightarrow> nat \<Rightarrow> u32" where "SB_MAKEVALUE_32 v n = push_bit n v"
definition SB_GETVALUE_32 :: "u32 \<Rightarrow> nat \<Rightarrow> u32 \<Rightarrow> u32" where "SB_GETVALUE_32 v n m = drop_bit n (v AND m)"

lemma SB_MAKEMASK1_test: "n < 64 \<Longrightarrow> (x AND SB_MAKEMASK1 n = 0) = (\<not> bit x n)"
  using and_bit_test [of n x] by (simp add: SB_MAKEMASK1_def del: push_bit_of_1)

lemma SB_MAKEMASK1_eq: "SB_MAKEMASK1 n = SB_MAKEMASK 1 n" "SB_MAKEMASK1_32 n = SB_MAKEMASK_32 1 n"
  by (simp_all add: SB_MAKEMASK1_def SB_MAKEMASK_def SB_MAKEMASK1_32_def SB_MAKEMASK_32_def)

lemma bit_SB_MAKEMASK: "bit (SB_MAKEMASK w s) i \<longleftrightarrow> s \<le> i \<and> i < s + w \<and> i < 64"
proof -
  have "push_bit w 1 - 1 = (mask w :: u64)" by (simp add: mask_eq_decr_exp push_bit_eq_mult)
  then show ?thesis by (auto simp: SB_MAKEMASK_def bit_simps)
qed

lemma bit_SB_MAKEMASK_32: "bit (SB_MAKEMASK_32 w s) i \<longleftrightarrow> s \<le> i \<and> i < s + w \<and> i < 32"
proof -
  have "push_bit w 1 - 1 = (mask w :: u32)" by (simp add: mask_eq_decr_exp push_bit_eq_mult)
  then show ?thesis by (auto simp: SB_MAKEMASK_32_def bit_simps)
qed

text \<open>A 32-bit mask in a 64-bit word: what leaves the word is lost.\<close>

lemma ucast_MAKEMASK_32: "ucast (SB_MAKEMASK_32 w s) = SB_MAKEMASK (min w (32 - s)) s"
  by (rule bit_word_eqI) (auto simp: bit_simps bit_SB_MAKEMASK bit_SB_MAKEMASK_32 less_diff_conv2)

lemma SB_MAKEMASK_disjoint:
  "(SB_MAKEMASK w s AND SB_MAKEMASK v t = 0) \<longleftrightarrow> s + w \<le> max s t \<or> t + v \<le> max s t \<or> 64 \<le> max s t"
proof -
  have "(SB_MAKEMASK w s AND SB_MAKEMASK v t = 0) \<longleftrightarrow> (\<forall>i. \<not> (max s t \<le> i \<and> i < s + w \<and> i < t + v \<and> i < 64))"
    by (auto simp: bit_eq_iff bit_simps bit_SB_MAKEMASK)
  also have "\<dots> \<longleftrightarrow> \<not> (max s t < s + w \<and> max s t < t + v \<and> max s t < 64)"
    by (blast intro: order_le_less_trans)
  finally show ?thesis by (simp only: de_Morgan_conj not_less)
qed

lemma SB_MAKEMASK_zero: "SB_MAKEMASK w s = 0 \<longleftrightarrow> w = 0 \<or> 64 \<le> s"
  using SB_MAKEMASK_disjoint [of w s w s] by simp

lemma SB_MAKEMASK_eq_iff:
  assumes "0 < w" and "s + w \<le> 64"
  shows "SB_MAKEMASK w s = SB_MAKEMASK v t \<longleftrightarrow> s = t \<and> min v (64 - t) = w"
proof
  assume e: "SB_MAKEMASK w s = SB_MAKEMASK v t"
  have b: "s \<le> i \<and> i < s + w \<longleftrightarrow> t \<le> i \<and> i < t + v \<and> i < 64" for i
    using arg_cong [OF e, of "\<lambda>m. bit m i"] assms by (auto simp: bit_SB_MAKEMASK)
  have "s = t" using b [of s] b [of t] assms by (cases "t < s") auto
  then show "s = t \<and> min v (64 - t) = w"
    using b [of "s + w"] b [of "s + w - 1"] assms by auto
next
  assume "s = t \<and> min v (64 - t) = w"
  then show "SB_MAKEMASK w s = SB_MAKEMASK v t"
    using assms by (intro bit_word_eqI) (auto simp: bit_SB_MAKEMASK min_def split: if_splits)
qed

section \<open>Fields\<close>

text \<open>
  What a header says of one field: the width of the arithmetic of its macros (32 or 64), the width it
  gives the field, the shift, the mask \<open>M_\<close>, the shift that \<open>V_\<close> uses, the shift and mask that \<open>G_\<close> uses, and
  the codes of the field: \<open>K\<close> for a constant \<open>K_\<close>, \<open>KV\<close> for one with a constant \<open>V_\<close> as well, with the
  value that this one shifts. A macro is absent, or its body names a macro that no header defines.
\<close>

datatype 'a macro = Absent | Broken | Macro 'a

datatype code = K string u64 | KV string u64 u64

record field =
  fld_bits :: nat
  fld_width :: nat
  fld_shift :: nat
  fld_mask :: u64
  fld_put :: "nat macro"
  fld_get :: "(nat \<times> u64) macro"
  fld_codes :: "code list"

type_synonym register = "(string \<times> field) list"
type_synonym header = "(string \<times> register) list"

text \<open>The usual shapes: a mask alone, of one bit or more, and a mask with \<open>V_\<close> and \<open>G_\<close>.\<close>

definition bits :: "nat \<Rightarrow> nat \<Rightarrow> field" where
  "bits w s =
     \<lparr>fld_bits = 64, fld_width = w, fld_shift = s, fld_mask = SB_MAKEMASK w s,
      fld_put = Absent, fld_get = Absent, fld_codes = []\<rparr>"

definition bits32 :: "nat \<Rightarrow> nat \<Rightarrow> field" where
  "bits32 w s =
     \<lparr>fld_bits = 32, fld_width = w, fld_shift = s, fld_mask = ucast (SB_MAKEMASK_32 w s),
      fld_put = Absent, fld_get = Absent, fld_codes = []\<rparr>"

definition flag :: "nat \<Rightarrow> field" where "flag s = (bits 1 s)\<lparr>fld_mask := SB_MAKEMASK1 s\<rparr>"
definition flag32 :: "nat \<Rightarrow> field" where "flag32 s = (bits32 1 s)\<lparr>fld_mask := ucast (SB_MAKEMASK1_32 s)\<rparr>"

definition field :: "nat \<Rightarrow> nat \<Rightarrow> field" where
  "field w s = (bits w s)\<lparr>fld_put := Macro s, fld_get := Macro (s, SB_MAKEMASK w s)\<rparr>"

definition field32 :: "nat \<Rightarrow> nat \<Rightarrow> field" where
  "field32 w s = (bits32 w s)\<lparr>fld_put := Macro s, fld_get := Macro (s, ucast (SB_MAKEMASK_32 w s))\<rparr>"

definition codes :: "code list \<Rightarrow> field \<Rightarrow> field" where
  "codes ks f = f\<lparr>fld_codes := ks\<rparr>"

definition put_as :: "nat macro \<Rightarrow> field \<Rightarrow> field" where
  "put_as p f = f\<lparr>fld_put := p\<rparr>"

definition get_as :: "(nat \<times> u64) macro \<Rightarrow> field \<Rightarrow> field" where
  "get_as g f = f\<lparr>fld_get := g\<rparr>"

text \<open>The macros \<open>V_\<close> and \<open>G_\<close> of a field.\<close>

definition put_field :: "field \<Rightarrow> u64 \<Rightarrow> u64 option" where
  "put_field f x =
     (case fld_put f of
        Macro s \<Rightarrow> Some (if fld_bits f = 32 then ucast (SB_MAKEVALUE_32 (ucast x) s) else SB_MAKEVALUE x s)
      | _ \<Rightarrow> None)"

definition get_field :: "field \<Rightarrow> u64 \<Rightarrow> u64 option" where
  "get_field f y =
     (case fld_get f of
        Macro (s, m) \<Rightarrow>
          Some (if fld_bits f = 32 then ucast (SB_GETVALUE_32 (ucast y) s (ucast m)) else SB_GETVALUE y s m)
      | _ \<Rightarrow> None)"

section \<open>Consistency\<close>

text \<open>
  The mask has the width and the shift of the field and lies in the word; \<open>V_\<close> and \<open>G_\<close> agree with it; the
  codes fit, and each constant \<open>V_\<close> shifts its own code. A mask as wide as the word is excluded: the macro
  shifts 1 by the width of the word, which C leaves undefined.
\<close>

fun code_ok :: "nat \<Rightarrow> code \<Rightarrow> bool" where
  "code_ok w (K n k) = (unat k < 2 ^ w)"
| "code_ok w (KV n k v) = (unat k < 2 ^ w \<and> v = k)"

definition field_ok :: "field \<Rightarrow> bool" where
  "field_ok f \<longleftrightarrow>
     0 < fld_width f \<and> fld_width f < fld_bits f \<and> fld_shift f + fld_width f \<le> fld_bits f \<and> fld_bits f \<in> {32, 64} \<and>
     fld_mask f = SB_MAKEMASK (fld_width f) (fld_shift f) \<and>
     fld_put f \<in> {Absent, Macro (fld_shift f)} \<and> fld_get f \<in> {Absent, Macro (fld_shift f, fld_mask f)} \<and>
     list_all (code_ok (fld_width f)) (fld_codes f)"

definition bad_fields :: "register \<Rightarrow> string list" where
  "bad_fields r = map fst (filter (\<lambda>(n, f). \<not> field_ok f) r)"

fun overlaps :: "register \<Rightarrow> (string \<times> string) list" where
  "overlaps [] = []"
| "overlaps ((n, f) # r) =
     map (\<lambda>(n', g). (n, n')) (filter (\<lambda>(n', g). fld_mask f AND fld_mask g \<noteq> 0) r) @ overlaps r"

definition register_defects :: "register \<Rightarrow> string list \<times> (string \<times> string) list" where
  "register_defects r = (bad_fields r, overlaps r)"

definition register_ok :: "register \<Rightarrow> bool" where
  "register_ok r \<longleftrightarrow> register_defects r = ([], [])"

text \<open>The registers of a header that are not consistent, with the fields and the pairs of fields at fault.\<close>

definition defects :: "header \<Rightarrow> (string \<times> string list \<times> (string \<times> string) list) list" where
  "defects h = filter (\<lambda>nd. snd nd \<noteq> ([], [])) (map (\<lambda>(n, r). (n, register_defects r)) h)"

lemma field_sels [simp]:
  "fld_bits (bits w s) = 64" "fld_width (bits w s) = w" "fld_shift (bits w s) = s"
  "fld_mask (bits w s) = SB_MAKEMASK w s" "fld_put (bits w s) = Absent" "fld_get (bits w s) = Absent"
  "fld_codes (bits w s) = []"
  "fld_bits (bits32 w s) = 32" "fld_width (bits32 w s) = w" "fld_shift (bits32 w s) = s"
  "fld_mask (bits32 w s) = SB_MAKEMASK (min w (32 - s)) s" "fld_put (bits32 w s) = Absent"
  "fld_get (bits32 w s) = Absent" "fld_codes (bits32 w s) = []"
  by (simp_all add: bits_def bits32_def ucast_MAKEMASK_32)

lemma field_shapes:
  "flag s = (bits 1 s)\<lparr>fld_mask := SB_MAKEMASK 1 s\<rparr>"
  "flag32 s = (bits32 1 s)\<lparr>fld_mask := SB_MAKEMASK (min 1 (32 - s)) s\<rparr>"
  "field w s = (bits w s)\<lparr>fld_put := Macro s, fld_get := Macro (s, SB_MAKEMASK w s)\<rparr>"
  "field32 w s = (bits32 w s)\<lparr>fld_put := Macro s, fld_get := Macro (s, SB_MAKEMASK (min w (32 - s)) s)\<rparr>"
  by (simp_all add: flag_def flag32_def field_def field32_def SB_MAKEMASK1_eq ucast_MAKEMASK_32)

lemmas field_eval = field_sels field_shapes codes_def put_as_def get_as_def

lemma field_ok_shapes [simp]:
  "field_ok (flag s) \<longleftrightarrow> s < 64"
  "field_ok (flag32 s) \<longleftrightarrow> s < 32"
  "field_ok (bits w s) \<longleftrightarrow> 0 < w \<and> w < 64 \<and> s + w \<le> 64"
  "field_ok (bits32 w s) \<longleftrightarrow> 0 < w \<and> w < 32 \<and> s + w \<le> 32"
  "field_ok (field w s) \<longleftrightarrow> 0 < w \<and> w < 64 \<and> s + w \<le> 64"
  "field_ok (field32 w s) \<longleftrightarrow> 0 < w \<and> w < 32 \<and> s + w \<le> 32"
  "field_ok (codes ks (field w s)) \<longleftrightarrow> 0 < w \<and> w < 64 \<and> s + w \<le> 64 \<and> list_all (code_ok w) ks"
  "field_ok (codes ks (field32 w s)) \<longleftrightarrow> 0 < w \<and> w < 32 \<and> s + w \<le> 32 \<and> list_all (code_ok w) ks"
  by (auto simp: field_ok_def field_eval min_def split: if_splits)

lemma field_sel_shapes [simp]:
  "fld_bits (flag s) = 64" "fld_width (flag s) = 1" "fld_shift (flag s) = s"
  "fld_put (flag s) = Absent" "fld_get (flag s) = Absent" "fld_codes (flag s) = []"
  "fld_bits (flag32 s) = 32" "fld_width (flag32 s) = 1" "fld_shift (flag32 s) = s"
  "fld_put (flag32 s) = Absent" "fld_get (flag32 s) = Absent" "fld_codes (flag32 s) = []"
  "fld_bits (field w s) = 64" "fld_width (field w s) = w" "fld_shift (field w s) = s"
  "fld_put (field w s) = Macro s" "fld_get (field w s) = Macro (s, SB_MAKEMASK w s)"
  "fld_codes (field w s) = []" "fld_bits (field32 w s) = 32" "fld_width (field32 w s) = w"
  "fld_shift (field32 w s) = s" "fld_put (field32 w s) = Macro s"
  "fld_get (field32 w s) = Macro (s, SB_MAKEMASK (min w (32 - s)) s)" "fld_codes (field32 w s) = []"
  "fld_bits (codes ks f) = fld_bits f" "fld_width (codes ks f) = fld_width f"
  "fld_shift (codes ks f) = fld_shift f" "fld_put (codes ks f) = fld_put f"
  "fld_get (codes ks f) = fld_get f" "fld_codes (codes ks f) = ks" "fld_bits (put_as p f) = fld_bits f"
  "fld_width (put_as p f) = fld_width f" "fld_shift (put_as p f) = fld_shift f"
  "fld_put (put_as p f) = p" "fld_get (put_as p f) = fld_get f" "fld_codes (put_as p f) = fld_codes f"
  "fld_bits (get_as g f) = fld_bits f" "fld_width (get_as g f) = fld_width f"
  "fld_shift (get_as g f) = fld_shift f" "fld_put (get_as g f) = fld_put f" "fld_get (get_as g f) = g"
  "fld_codes (get_as g f) = fld_codes f"
  by (simp_all add: field_eval)

lemma fld_mask_shapes [simp]:
  "fld_mask (flag s) = SB_MAKEMASK 1 s" "fld_mask (flag32 s) = SB_MAKEMASK (min 1 (32 - s)) s"
  "fld_mask (bits w s) = SB_MAKEMASK w s" "fld_mask (bits32 w s) = SB_MAKEMASK (min w (32 - s)) s"
  "fld_mask (field w s) = SB_MAKEMASK w s" "fld_mask (field32 w s) = SB_MAKEMASK (min w (32 - s)) s"
  "fld_mask (codes ks f) = fld_mask f" "fld_mask (put_as p f) = fld_mask f" "fld_mask (get_as g f) = fld_mask f"
  by (simp_all add: field_eval)

text \<open>Most registers list consistent fields from the lowest upwards: then one pass shows that none overlap.\<close>

fun ascending :: "nat \<Rightarrow> register \<Rightarrow> bool" where
  "ascending k [] \<longleftrightarrow> True"
| "ascending k ((n, f) # r) \<longleftrightarrow> field_ok f \<and> k \<le> fld_shift f \<and> ascending (fld_shift f + fld_width f) r"

lemma ascending_above:
  assumes "ascending k r" and "(n, f) \<in> set r"
  shows "field_ok f" "k \<le> fld_shift f"
  using assms by (induction k r rule: ascending.induct) force+

lemma fld_mask_disjoint:
  assumes "field_ok f" and "field_ok g" and "fld_shift f + fld_width f \<le> fld_shift g"
  shows "fld_mask f AND fld_mask g = 0"
proof -
  have "fld_mask f = SB_MAKEMASK (fld_width f) (fld_shift f)" "fld_mask g = SB_MAKEMASK (fld_width g) (fld_shift g)"
    using assms(1,2) by (simp_all add: field_ok_def)
  moreover have "fld_shift f + fld_width f \<le> max (fld_shift f) (fld_shift g)" using assms(3) by linarith
  ultimately show ?thesis by (simp only: SB_MAKEMASK_disjoint simp_thms)
qed

lemma ascending_ok:
  assumes "ascending k r"
  shows "register_defects r = ([], [])"
proof -
  have "overlaps r = []" using assms
  proof (induction k r rule: ascending.induct)
    case (2 k n f r)
    have "fld_mask f AND fld_mask g = 0" if "(n', g) \<in> set r" for n' g
      using ascending_above [of "fld_shift f + fld_width f" r n' g] that 2(2) by (intro fld_mask_disjoint) simp_all
    then show ?case using 2 by (auto simp: filter_empty_conv)
  qed simp
  moreover have "bad_fields r = []"
    using assms by (auto simp: bad_fields_def filter_empty_conv dest: ascending_above(1))
  ultimately show ?thesis by (simp add: register_defects_def)
qed

text \<open>
  What computes the defects of a register: the masks are compared by their width and shift.
\<close>

lemma upt_from_0:
  "[0..<numeral n] = 0 # [1..<numeral n]" "[Suc 0..<numeral n] = (if 1 < (numeral n :: nat) then 1 # [2..<numeral n] else [])"
  by (simp_all add: upt_conv_Cons numeral_2_eq_2)

declare SIBYTE_HDR_FMASK.simps [simp del]

lemmas field_ok_eval = ucast_MAKEMASK_32 SB_MAKEMASK_zero SB_MAKEMASK_eq_iff feature_simps
  field_ok_def [of "put_as p f" for p f] field_ok_def [of "get_as g f" for g f]
  field_ok_def [of "codes ks (put_as p f)" for ks p f] field_ok_def [of "codes ks (get_as g f)" for ks g f]
  field_ok_def [of "codes ks (bits w s)" for ks w s] field_ok_def [of "codes ks (bits32 w s)" for ks w s]

lemmas ascending_eval = ascending_ok [of 0] field_ok_eval
lemmas register_eval = upt_from_0 register_defects_def bad_fields_def SB_MAKEMASK_disjoint field_ok_eval

section \<open>Reading and updating fields\<close>

lemma bit_MAKEVALUE: "bit (SB_MAKEVALUE v n) i \<longleftrightarrow> n \<le> i \<and> i < 64 \<and> bit v (i - n)"
  by (auto simp: SB_MAKEVALUE_def bit_simps)

lemma bit_GETVALUE: "bit (SB_GETVALUE v n m) i \<longleftrightarrow> bit v (n + i) \<and> bit m (n + i)"
  by (auto simp: SB_GETVALUE_def bit_simps)

lemma bit_MAKEVALUE_32: "bit (SB_MAKEVALUE_32 v n) i \<longleftrightarrow> n \<le> i \<and> i < 32 \<and> bit v (i - n)"
  by (auto simp: SB_MAKEVALUE_32_def bit_simps)

lemma bit_GETVALUE_32: "bit (SB_GETVALUE_32 v n m) i \<longleftrightarrow> bit v (n + i) \<and> bit m (n + i)"
  by (auto simp: SB_GETVALUE_32_def bit_simps)

lemma bit_below:
  assumes "unat (x :: u64) < 2 ^ w" and "bit x i"
  shows "i < w"
proof (rule ccontr)
  assume "\<not> i < w"
  then have "bit (unat x) i = False"
    using assms(1) by (simp add: bit_iff_odd) (metis div_less even_zero less_le_trans not_less one_le_numeral power_increasing)
  then show False using assms(2) by (simp add: bit_unsigned_iff)
qed

lemma field_mask_bits:
  assumes "field_ok f"
  shows "bit (fld_mask f) i \<longleftrightarrow> fld_shift f \<le> i \<and> i < fld_shift f + fld_width f"
  using assms by (auto simp: field_ok_def bit_SB_MAKEMASK)

text \<open>
  A consistent field: \<open>V_\<close> puts a value that fits into the bits of the mask, and \<open>G_\<close> reads it back
  whatever the other bits hold.
\<close>

lemma put_field_bits:
  assumes "field_ok f" and "unat x < 2 ^ fld_width f" and "put_field f x = Some v"
  shows "bit v i \<longleftrightarrow> fld_shift f \<le> i \<and> bit x (i - fld_shift f)"
proof -
  have "i < fld_bits f" if "fld_shift f \<le> i" "bit x (i - fld_shift f)"
    using assms(1) bit_below [OF assms(2) that(2)] that(1) by (auto simp: field_ok_def)
  then show ?thesis
    using assms by (auto simp: put_field_def field_ok_def bit_MAKEVALUE bit_MAKEVALUE_32 bit_simps split: macro.splits if_splits)
qed

lemma put_field_within:
  assumes "field_ok f" and "unat x < 2 ^ fld_width f" and "put_field f x = Some v"
  shows "v AND NOT (fld_mask f) = 0"
proof (rule bit_word_eqI)
  fix i
  have "i < fld_shift f + fld_width f" if "fld_shift f \<le> i" "bit x (i - fld_shift f)"
    using bit_below [OF assms(2) that(2)] that(1) by linarith
  moreover assume "i < LENGTH(64)"
  ultimately show "bit (v AND NOT (fld_mask f)) i = bit 0 i"
    by (auto simp: bit_simps field_mask_bits [OF assms(1)] put_field_bits [OF assms])
qed

lemma get_field_bits:
  assumes "field_ok f" and "get_field f y = Some x"
  shows "bit x i \<longleftrightarrow> i < fld_width f \<and> bit y (fld_shift f + i)"
  using assms
  by (auto simp: get_field_def field_ok_def bit_GETVALUE bit_GETVALUE_32 bit_simps bit_SB_MAKEMASK split: macro.splits if_splits)

lemma get_field_masked:
  assumes "field_ok f" and "y AND fld_mask f = y' AND fld_mask f"
  shows "get_field f y = get_field f y'"
proof (cases "get_field f y")
  case None
  then show ?thesis by (auto simp: get_field_def split: macro.splits)
next
  case (Some x)
  then obtain x' where x': "get_field f y' = Some x'" by (auto simp: get_field_def split: macro.splits)
  have m: "bit y (fld_shift f + i) = bit y' (fld_shift f + i)" if "i < fld_width f" for i
    using that arg_cong [OF assms(2), of "\<lambda>z. bit z (fld_shift f + i)"]
    by (simp add: bit_and_iff field_mask_bits [OF assms(1)])
  have "x = x'"
    by (rule bit_word_eqI) (auto simp: get_field_bits [OF assms(1) Some] get_field_bits [OF assms(1) x'] m)
  then show ?thesis using Some x' by simp
qed

lemma get_put_field:
  assumes "field_ok f" and "unat x < 2 ^ fld_width f" and "put_field f x = Some v" and "fld_get f \<noteq> Absent"
    and "rest AND fld_mask f = 0"
  shows "get_field f (v OR rest) = Some x"
proof -
  obtain z where z: "get_field f (v OR rest) = Some z"
    using assms(1,4) by (cases "fld_get f") (auto simp: get_field_def field_ok_def)
  have r: "\<not> bit rest (fld_shift f + i)" if "i < fld_width f" for i
    using that arg_cong [OF assms(5), of "\<lambda>z. bit z (fld_shift f + i)"]
    by (simp add: bit_and_iff field_mask_bits [OF assms(1)])
  have "z = x"
    by (rule bit_word_eqI)
      (auto simp: get_field_bits [OF assms(1) z] put_field_bits [OF assms(1,2,3)] bit_simps r dest: bit_below [OF assms(2)])
  then show ?thesis using z by simp
qed

lemma overlaps_disjoint:
  assumes "overlaps r = []" and "(n, f) \<in> set r" and "(m, g) \<in> set r" and "(n, f) \<noteq> (m, g)"
  shows "fld_mask f AND fld_mask g = 0"
  using assms by (induction r rule: overlaps.induct) (auto simp: filter_empty_conv and.commute)

end
