(* ===== verification/Sb1250.thy ===== *)
theory Sb1250
  imports Registers
begin

text \<open>
  The registers of the system control and debug unit that the profiling library uses, from
  \<open>include/sibyte/sb1250_regs.h\<close>, \<open>sb1250_scd.h\<close> and \<open>bcm1480_scd.h\<close>, and the access to
  them. The unit itself is hardware: what reading and writing a register does to it is a
  parameter of type \<open>'d scd\<close>, by the virtual address used.
\<close>

unbundle bit_operations_syntax

section \<open>Registers\<close>

definition A_SCD_ZBBUS_CYCLE_COUNT :: u64 where "A_SCD_ZBBUS_CYCLE_COUNT = 0x0010030000"
definition A_SCD_SYSTEM_REVISION :: u64 where "A_SCD_SYSTEM_REVISION = 0x0010020000"
definition A_SCD_SYSTEM_CFG :: u64 where "A_SCD_SYSTEM_CFG = 0x0010020008"
definition A_ADDR_TRAP_UP_0 :: u64 where "A_ADDR_TRAP_UP_0 = 0x0010020400"
definition A_ADDR_TRAP_UP_1 :: u64 where "A_ADDR_TRAP_UP_1 = 0x0010020408"
definition A_ADDR_TRAP_UP_2 :: u64 where "A_ADDR_TRAP_UP_2 = 0x0010020410"
definition A_ADDR_TRAP_UP_3 :: u64 where "A_ADDR_TRAP_UP_3 = 0x0010020418"
definition A_ADDR_TRAP_DOWN_0 :: u64 where "A_ADDR_TRAP_DOWN_0 = 0x0010020420"
definition A_ADDR_TRAP_DOWN_1 :: u64 where "A_ADDR_TRAP_DOWN_1 = 0x0010020428"
definition A_ADDR_TRAP_DOWN_2 :: u64 where "A_ADDR_TRAP_DOWN_2 = 0x0010020430"
definition A_ADDR_TRAP_DOWN_3 :: u64 where "A_ADDR_TRAP_DOWN_3 = 0x0010020438"
definition A_ADDR_TRAP_CFG_0 :: u64 where "A_ADDR_TRAP_CFG_0 = 0x0010020440"
definition A_ADDR_TRAP_CFG_1 :: u64 where "A_ADDR_TRAP_CFG_1 = 0x0010020448"
definition A_ADDR_TRAP_CFG_2 :: u64 where "A_ADDR_TRAP_CFG_2 = 0x0010020450"
definition A_ADDR_TRAP_CFG_3 :: u64 where "A_ADDR_TRAP_CFG_3 = 0x0010020458"
definition A_SCD_TRACE_CFG :: u64 where "A_SCD_TRACE_CFG = 0x0010020A00"
definition A_SCD_TRACE_READ :: u64 where "A_SCD_TRACE_READ = 0x0010020A08"
definition A_SCD_TRACE_EVENT_0 :: u64 where "A_SCD_TRACE_EVENT_0 = 0x0010020A20"
definition A_SCD_TRACE_EVENT_1 :: u64 where "A_SCD_TRACE_EVENT_1 = 0x0010020A28"
definition A_SCD_TRACE_EVENT_2 :: u64 where "A_SCD_TRACE_EVENT_2 = 0x0010020A30"
definition A_SCD_TRACE_EVENT_3 :: u64 where "A_SCD_TRACE_EVENT_3 = 0x0010020A38"
definition A_SCD_TRACE_SEQUENCE_0 :: u64 where "A_SCD_TRACE_SEQUENCE_0 = 0x0010020A40"
definition A_SCD_TRACE_SEQUENCE_1 :: u64 where "A_SCD_TRACE_SEQUENCE_1 = 0x0010020A48"
definition A_SCD_TRACE_SEQUENCE_2 :: u64 where "A_SCD_TRACE_SEQUENCE_2 = 0x0010020A50"
definition A_SCD_TRACE_SEQUENCE_3 :: u64 where "A_SCD_TRACE_SEQUENCE_3 = 0x0010020A58"
definition A_SCD_TRACE_EVENT_4 :: u64 where "A_SCD_TRACE_EVENT_4 = 0x0010020A60"
definition A_SCD_TRACE_EVENT_5 :: u64 where "A_SCD_TRACE_EVENT_5 = 0x0010020A68"
definition A_SCD_TRACE_EVENT_6 :: u64 where "A_SCD_TRACE_EVENT_6 = 0x0010020A70"
definition A_SCD_TRACE_EVENT_7 :: u64 where "A_SCD_TRACE_EVENT_7 = 0x0010020A78"
definition A_SCD_TRACE_SEQUENCE_4 :: u64 where "A_SCD_TRACE_SEQUENCE_4 = 0x0010020A80"
definition A_SCD_TRACE_SEQUENCE_5 :: u64 where "A_SCD_TRACE_SEQUENCE_5 = 0x0010020A88"
definition A_SCD_TRACE_SEQUENCE_6 :: u64 where "A_SCD_TRACE_SEQUENCE_6 = 0x0010020A90"
definition A_SCD_TRACE_SEQUENCE_7 :: u64 where "A_SCD_TRACE_SEQUENCE_7 = 0x0010020A98"

definition M_SPC_CFG_CLEAR :: u64 where "M_SPC_CFG_CLEAR = SB_MAKEMASK1 32"
definition M_SPC_CFG_ENABLE :: u64 where "M_SPC_CFG_ENABLE = SB_MAKEMASK1 33"
definition S_SPC_CFG_SRC1 :: nat where "S_SPC_CFG_SRC1 = 8"
definition V_SPC_CFG_SRC1 :: "u64 \<Rightarrow> u64" where "V_SPC_CFG_SRC1 x = SB_MAKEVALUE x S_SPC_CFG_SRC1"
definition M_SCD_TRACE_CFG_RESET :: u64 where "M_SCD_TRACE_CFG_RESET = SB_MAKEMASK1 0"
definition M_SCD_TRACE_CFG_START_READ :: u64 where "M_SCD_TRACE_CFG_START_READ = SB_MAKEMASK1 1"
definition M_SCD_TRACE_CFG_FREEZE :: u64 where "M_SCD_TRACE_CFG_FREEZE = SB_MAKEMASK1 4"
definition M_SCD_TRACE_CFG_FREEZE_FULL :: u64 where "M_SCD_TRACE_CFG_FREEZE_FULL = SB_MAKEMASK1 5"

definition S_SYS_SOC_TYPE :: nat where "S_SYS_SOC_TYPE = 16"
definition M_SYS_SOC_TYPE :: u64 where "M_SYS_SOC_TYPE = SB_MAKEMASK 4 S_SYS_SOC_TYPE"
definition G_SYS_SOC_TYPE :: "u64 \<Rightarrow> u64" where "G_SYS_SOC_TYPE x = SB_GETVALUE x S_SYS_SOC_TYPE M_SYS_SOC_TYPE"
definition K_SYS_SOC_TYPE_BCM1250 :: u64 where "K_SYS_SOC_TYPE_BCM1250 = 0"
definition K_SYS_SOC_TYPE_BCM1120 :: u64 where "K_SYS_SOC_TYPE_BCM1120 = 1"
definition K_SYS_SOC_TYPE_BCM1250_ALT :: u64 where "K_SYS_SOC_TYPE_BCM1250_ALT = 2"
definition K_SYS_SOC_TYPE_BCM1125 :: u64 where "K_SYS_SOC_TYPE_BCM1125 = 3"
definition K_SYS_SOC_TYPE_BCM1125H :: u64 where "K_SYS_SOC_TYPE_BCM1125H = 4"
definition K_SYS_SOC_TYPE_BCM1250_ALT2 :: u64 where "K_SYS_SOC_TYPE_BCM1250_ALT2 = 5"
definition K_SYS_SOC_TYPE_BCM1x80 :: u64 where "K_SYS_SOC_TYPE_BCM1x80 = 6"
definition K_SYS_SOC_TYPE_BCM1x55 :: u64 where "K_SYS_SOC_TYPE_BCM1x55 = 7"

definition SYS_SOC_TYPE :: "u64 \<Rightarrow> u64" where
  "SYS_SOC_TYPE sysrev =
     (if G_SYS_SOC_TYPE sysrev = K_SYS_SOC_TYPE_BCM1250_ALT \<or> G_SYS_SOC_TYPE sysrev = K_SYS_SOC_TYPE_BCM1250_ALT2
      then K_SYS_SOC_TYPE_BCM1250 else G_SYS_SOC_TYPE sysrev)"

definition S_SYS_PLL_DIV :: nat where "S_SYS_PLL_DIV = 7"
definition M_SYS_PLL_DIV :: u64 where "M_SYS_PLL_DIV = SB_MAKEMASK 5 S_SYS_PLL_DIV"
definition G_SYS_PLL_DIV :: "u64 \<Rightarrow> u64" where "G_SYS_PLL_DIV x = SB_GETVALUE x S_SYS_PLL_DIV M_SYS_PLL_DIV"
definition S_BCM1480_SYS_PLL_DIV :: nat where "S_BCM1480_SYS_PLL_DIV = 6"
definition M_BCM1480_SYS_PLL_DIV :: u64 where "M_BCM1480_SYS_PLL_DIV = SB_MAKEMASK 5 S_BCM1480_SYS_PLL_DIV"
definition G_BCM1480_SYS_PLL_DIV :: "u64 \<Rightarrow> u64" where
  "G_BCM1480_SYS_PLL_DIV x = SB_GETVALUE x S_BCM1480_SYS_PLL_DIV M_BCM1480_SYS_PLL_DIV"

section \<open>Access\<close>

record 'd scd =
  csr_rd :: "u64 \<Rightarrow> 'd \<Rightarrow> u64 \<times> 'd"
  csr_wr :: "u64 \<Rightarrow> u64 \<Rightarrow> 'd \<Rightarrow> 'd"

definition sbprof_read_csr :: "'d scd \<Rightarrow> u64 \<Rightarrow> 'd \<Rightarrow> u64 \<times> 'd" where
  "sbprof_read_csr b va d = csr_rd b va d"

definition sbprof_write_csr :: "'d scd \<Rightarrow> u64 \<Rightarrow> u64 \<Rightarrow> 'd \<Rightarrow> 'd" where
  "sbprof_write_csr b va v d = csr_wr b va v d"

definition SBPROF_READ_CSR :: "'d scd \<Rightarrow> u64 \<Rightarrow> 'd \<Rightarrow> u64 \<times> 'd" where
  "SBPROF_READ_CSR b pa = sbprof_read_csr b (PHYS_TO_K1 pa)"

definition SBPROF_WRITE_CSR :: "'d scd \<Rightarrow> u64 \<Rightarrow> u64 \<Rightarrow> 'd \<Rightarrow> 'd" where
  "SBPROF_WRITE_CSR b pa v = sbprof_write_csr b (PHYS_TO_K1 pa) v"

text \<open>Writes one after the other, and successive reads of one register.\<close>

definition csr_writes :: "'d scd \<Rightarrow> (u64 \<times> u64) list \<Rightarrow> 'd \<Rightarrow> 'd" where
  "csr_writes b = fold (\<lambda>(pa, v). SBPROF_WRITE_CSR b pa v)"

primrec csr_reads :: "'d scd \<Rightarrow> u64 \<Rightarrow> nat \<Rightarrow> 'd \<Rightarrow> u64 list \<times> 'd" where
  "csr_reads b pa 0 d = ([], d)"
| "csr_reads b pa (Suc n) d =
     (let (x, d1) = SBPROF_READ_CSR b pa d; (xs, d2) = csr_reads b pa n d1 in (x # xs, d2))"

lemma csr_reads_length [simp]: "length (fst (csr_reads b pa n d)) = n"
  by (induction n arbitrary: d) (auto simp: split_beta)

section \<open>Speed and time\<close>

text \<open>\<open>sbprof_cpu_speed\<close>: an unknown chip aborts; the product is an \<open>int\<close>, widened on return.\<close>

definition sbprof_cpu_speed :: "'d scd \<Rightarrow> 'd \<Rightarrow> (u64 \<times> 'd) res" where
  "sbprof_cpu_speed b d =
     (let (sysrev, d1) = SBPROF_READ_CSR b A_SCD_SYSTEM_REVISION d;
          (syscfg, d2) = SBPROF_READ_CSR b A_SCD_SYSTEM_CFG d1;
          soc = SYS_SOC_TYPE sysrev;
          speed = (\<lambda>plldiv :: u32. scast (plldiv * 50 * 1000000) :: u64)
      in if soc \<in> {K_SYS_SOC_TYPE_BCM1250, K_SYS_SOC_TYPE_BCM1120, K_SYS_SOC_TYPE_BCM1125, K_SYS_SOC_TYPE_BCM1125H}
         then Inr (speed (ucast (G_SYS_PLL_DIV syscfg)), d2)
         else if soc \<in> {K_SYS_SOC_TYPE_BCM1x80, K_SYS_SOC_TYPE_BCM1x55}
         then Inr (speed (ucast (G_BCM1480_SYS_PLL_DIV syscfg)), d2)
         else Inl Aborted)"

definition sbprof_zbbus_count :: "'d scd \<Rightarrow> 'd \<Rightarrow> u64 \<times> 'd" where
  "sbprof_zbbus_count b d = SBPROF_READ_CSR b A_SCD_ZBBUS_CYCLE_COUNT d"

end
