(* ===== verification/SbprofZb.thy ===== *)
theory SbprofZb
  imports SbprofCpu Sb1250
begin

text \<open>
  The ZBbus profiler, \<open>libsbprof/libsbprof/sbprof_zbbus.c\<close>: the trace buffer is armed to freeze when it
  is full, the interrupt on line 6 reads it out into the next sample of the buffer, and starting
  and stopping use the interrupt layer of theory \<open>Intr\<close>. The state is that of the CPU profiler
  with the static data of this file and the system control and debug unit \<open>bus\<close>, which the
  parameter \<open>b\<close> reads and writes.
\<close>

unbundle bit_operations_syntax

section \<open>State\<close>

text \<open>
  \<open>zb_tbbuf\<close> is the address of the buffer, 0 for none, and \<open>tb_samples\<close> its contents, by the index of the
  sample and of the word in it; \<open>console\<close> is what \<open>printf\<close> has printed.
\<close>

record 'd zb_state = prof_state +
  bus :: 'd
  zb_tbbuf :: u64
  tb_samples :: "nat \<Rightarrow> nat \<Rightarrow> u64"
  next_tb_sample :: u32
  max_tb_samples :: u32
  zbprof_running :: bool
  tb_int_was_enabled :: u32
  console :: string

definition TB_WORDS :: nat where "TB_WORDS = 6 * 256"
definition sizeof_tb_sample :: u64 where "sizeof_tb_sample = of_nat TB_WORDS * 8"

definition SCD_PERFCNT_INT :: nat where "SCD_PERFCNT_INT = 14"
definition TRACE_FREEZE_INT :: nat where "TRACE_FREEZE_INT = 15"
definition SCD_PERFCNT_INT_MAP_0 :: u64 where "SCD_PERFCNT_INT_MAP_0 = 0x10020200 + of_nat SCD_PERFCNT_INT * 8"
definition TRACE_FREEZE_INT_MAP_0 :: u64 where "TRACE_FREEZE_INT_MAP_0 = 0x10020200 + of_nat TRACE_FREEZE_INT * 8"
definition INTERRUPT_MASK_0 :: u64 where "INTERRUPT_MASK_0 = 0x10020028"
definition INTERRUPT_TRACE_0 :: u64 where "INTERRUPT_TRACE_0 = 0x10020038"
definition INTERRUPT_SOURCE_STATUS_0 :: u64 where "INTERRUPT_SOURCE_STATUS_0 = 0x10020040"
definition A_PERF_CNT_CFG :: u64 where "A_PERF_CNT_CFG = 0x100204c0"
definition A_PERF_CNT_1 :: u64 where "A_PERF_CNT_1 = 0x100204d8"
definition TB_PERIOD :: u64 where "TB_PERIOD = 2500000"
definition SBPROF_ZB_BUFSIZE_DEFAULT :: u64 where "SBPROF_ZB_BUFSIZE_DEFAULT = 12 * 1024 * 1024"

section \<open>The buffer\<close>

text \<open>\<open>malloc\<close> is a parameter, as \<open>calloc\<close> of the CPU profiler; the quotient is truncated to an \<open>int\<close>.\<close>

definition sbprof_zb_init :: "(u64 \<Rightarrow> u64) \<Rightarrow> u64 \<Rightarrow> ('d, 'z) zb_state_scheme \<Rightarrow> u32 \<times> ('d, 'z) zb_state_scheme" where
  "sbprof_zb_init malloc bufsize s =
     (let bufsize = (if bufsize = SBPROF_BUFSIZE_DEFAULT then SBPROF_ZB_BUFSIZE_DEFAULT else bufsize);
          s1 = s\<lparr>max_tb_samples := ucast (bufsize div sizeof_tb_sample)\<rparr>;
          buf = malloc (bufsize + 31)
      in if buf = 0 then (- 1, s1) else (0, s1\<lparr>zb_tbbuf := (buf + 31) AND NOT 31\<rparr>))"

definition sbprof_get_zb_buf :: "('d, 'z) zb_state_scheme \<Rightarrow> u64 \<times> u64" where
  "sbprof_get_zb_buf s =
     (zb_tbbuf s, if zb_tbbuf s = 0 then 0 else scast (next_tb_sample s) * sizeof_tb_sample)"

section \<open>The trace buffer\<close>

definition arm_tb :: "'d scd \<Rightarrow> 'd \<Rightarrow> 'd" where
  "arm_tb b d =
     (let next_count = push_bit 40 1 - TB_PERIOD;
          d1 = csr_writes b
            [(A_PERF_CNT_1, 0),
             (A_PERF_CNT_CFG, M_SPC_CFG_ENABLE OR M_SPC_CFG_CLEAR OR V_SPC_CFG_SRC1 1),
             (A_PERF_CNT_1, next_count),
             (A_SCD_TRACE_CFG, M_SCD_TRACE_CFG_RESET),
             (A_SCD_TRACE_CFG, M_SCD_TRACE_CFG_FREEZE_FULL)] d;
          (dummy, d2) = SBPROF_READ_CSR b A_SCD_TRACE_CFG d1
      in d2)"

text \<open>\<open>p[j] = SBPROF_READ_CSR (A_SCD_TRACE_READ)\<close>, where \<open>p\<close> is sample \<open>n\<close>; then one turn of the loop.\<close>

definition read_word :: "'d scd \<Rightarrow> nat \<Rightarrow> nat \<Rightarrow> ('d, 'z) zb_state_scheme \<Rightarrow> ('d, 'z) zb_state_scheme" where
  "read_word b n j s =
     (let (x, d) = SBPROF_READ_CSR b A_SCD_TRACE_READ (bus s)
      in s\<lparr>tb_samples := (tb_samples s)(n := (tb_samples s n)(j := x)), bus := d\<rparr>)"

definition read_bundle :: "'d scd \<Rightarrow> nat \<Rightarrow> nat \<Rightarrow> ('d, 'z) zb_state_scheme \<Rightarrow> ('d, 'z) zb_state_scheme" where
  "read_bundle b n i s =
     read_word b n (i - 6) (read_word b n (i - 5) (read_word b n (i - 4)
       (read_word b n (i - 3) (read_word b n (i - 2) (read_word b n (i - 1) s)))))"

fun read_trace :: "'d scd \<Rightarrow> nat \<Rightarrow> nat \<Rightarrow> ('d, 'z) zb_state_scheme \<Rightarrow> ('d, 'z) zb_state_scheme" where
  "read_trace b n i s = (if i = 0 then s else read_trace b n (i - 6) (read_bundle b n i s))"

declare read_trace.simps [simp del]

section \<open>The interrupt\<close>

definition zbprof_trapfunc ::
  "'d scd \<Rightarrow> u64 \<Rightarrow> exframe \<Rightarrow> ('d, 'z) zb_state_scheme \<Rightarrow> (u32 \<times> exframe \<times> ('d, 'z) zb_state_scheme) res" where
  "zbprof_trapfunc b arg ef s =
     (let (trace_cfg, d1) = SBPROF_READ_CSR b A_SCD_TRACE_CFG (bus s);
          (src_stat, d2) = SBPROF_READ_CSR b INTERRUPT_SOURCE_STATUS_0 d1;
          s = s\<lparr>bus := d2\<rparr>
      in if trace_cfg AND M_SCD_TRACE_CFG_FREEZE = 0 then
           (let s1 = (if src_stat AND push_bit TRACE_FREEZE_INT 1 \<noteq> 0
                      then s\<lparr>console := console s @ ''ZBbus profiling failure'' @ [CHR 0x0A], bus := arm_tb b (bus s)\<rparr>
                      else s)
            in Inr (0, ef, s1))
         else if next_tb_sample s <s max_tb_samples s then
           (let n = unat (next_tb_sample s);
                s1 = s\<lparr>next_tb_sample := next_tb_sample s + 1,
                       bus := csr_writes b [(A_PERF_CNT_CFG, M_SPC_CFG_CLEAR),
                                            (A_SCD_TRACE_CFG, M_SCD_TRACE_CFG_START_READ)] (bus s)\<rparr>;
                s2 = read_trace b n (256 * 6) s1
            in Inr (1, ef, s2\<lparr>bus := arm_tb b (bus s2)\<rparr>))
         else Inr (1, ef, s\<lparr>bus := SBPROF_WRITE_CSR b A_SCD_TRACE_CFG M_SCD_TRACE_CFG_RESET (bus s)\<rparr>))"

section \<open>Starting and stopping\<close>

text \<open>The routing of the two interrupts, and the set-up of the address traps and the trace unit.\<close>

definition route_writes :: "(u64 \<times> u64) list" where
  "route_writes =
     [(TRACE_FREEZE_INT_MAP_0, 4), (SCD_PERFCNT_INT_MAP_0, 3), (INTERRUPT_TRACE_0, push_bit SCD_PERFCNT_INT 1)]"

definition setup_writes :: "(u64 \<times> u64) list" where
  "setup_writes =
     [(A_ADDR_TRAP_UP_0, 0), (A_ADDR_TRAP_UP_1, 0), (A_ADDR_TRAP_UP_2, 0), (A_ADDR_TRAP_UP_3, 0),
      (A_ADDR_TRAP_DOWN_0, 0), (A_ADDR_TRAP_DOWN_1, 0), (A_ADDR_TRAP_DOWN_2, 0), (A_ADDR_TRAP_DOWN_3, 0),
      (A_ADDR_TRAP_CFG_0, 0), (A_ADDR_TRAP_CFG_1, 0), (A_ADDR_TRAP_CFG_2, 0), (A_ADDR_TRAP_CFG_3, 0),
      (A_SCD_TRACE_EVENT_0, push_bit 7 1), (A_SCD_TRACE_EVENT_1, 0), (A_SCD_TRACE_EVENT_2, 0),
      (A_SCD_TRACE_EVENT_3, 0), (A_SCD_TRACE_EVENT_4, 0), (A_SCD_TRACE_EVENT_5, 0),
      (A_SCD_TRACE_EVENT_6, 0), (A_SCD_TRACE_EVENT_7, 0),
      (A_SCD_TRACE_SEQUENCE_0, push_bit 16 1 OR 0x0fff),
      (A_SCD_TRACE_SEQUENCE_1, push_bit 19 1 OR push_bit 18 1 OR 0xffff),
      (A_SCD_TRACE_SEQUENCE_2, 0), (A_SCD_TRACE_SEQUENCE_3, 0), (A_SCD_TRACE_SEQUENCE_4, 0),
      (A_SCD_TRACE_SEQUENCE_5, 0), (A_SCD_TRACE_SEQUENCE_6, 0), (A_SCD_TRACE_SEQUENCE_7, 0)]"

definition mask_interrupts :: "'d scd \<Rightarrow> (u64 \<Rightarrow> u64) \<Rightarrow> 'd \<Rightarrow> 'd" where
  "mask_interrupts b f d =
     (let (m, d1) = SBPROF_READ_CSR b INTERRUPT_MASK_0 d in SBPROF_WRITE_CSR b INTERRUPT_MASK_0 (f m) d1)"

text \<open>\<open>hnd\<close> is the address of \<open>zbprof_intr_handle\<close> and \<open>fnp\<close> the function number of \<open>zbprof_trapfunc\<close>.\<close>

definition sbprof_zbprof_start ::
  "'d scd \<Rightarrow> u64 \<Rightarrow> nat \<Rightarrow> ('d, 'z) zb_state_scheme \<Rightarrow> ('d, 'z) zb_state_scheme res" where
  "sbprof_zbprof_start b hnd fnp s =
     (if zb_tbbuf s = 0 then Inr s
      else
        let s1 = disable_intr s
        in if zbprof_running s1 then Inr (enable_intr s1)
           else
             let d1 = csr_writes b route_writes (bus s1);
                 d2 = mask_interrupts b
                   (\<lambda>m. m AND NOT (push_bit TRACE_FREEZE_INT 1 OR push_bit SCD_PERFCNT_INT 1)) d1;
                 s2 = INIT_IHAND hnd fnp 0 EXFPSAVEMASK_NONE (s1\<lparr>zbprof_running := True, bus := d2\<rparr>)
             in bind_res (intr_handler_add 6 hnd s2) (\<lambda>s3.
                let (old, _, s4) = intr_enable_int None 6 s3;
                    d3 = arm_tb b (csr_writes b setup_writes (bus s4))
                in Inr (enable_intr (s4\<lparr>tb_int_was_enabled := old, bus := d3\<rparr>))))"

text \<open>
  \<open>sbprof_zbprof_stop\<close>; the interrupts taken while it waits are the argument \<open>last_intrs\<close>. Nothing in
  it clears \<open>zbprof_running\<close>.
\<close>

definition sbprof_zbprof_stop ::
  "'d scd \<Rightarrow> u64 \<Rightarrow> (('d, 'z) zb_state_scheme \<Rightarrow> ('d, 'z) zb_state_scheme res) \<Rightarrow>
   ('d, 'z) zb_state_scheme \<Rightarrow> ('d, 'z) zb_state_scheme res" where
  "sbprof_zbprof_stop b hnd last_intrs s =
     (let s1 = disable_intr s
      in if \<not> zbprof_running s1 then Inr (enable_intr s1)
         else
           let d1 = SBPROF_WRITE_CSR b A_PERF_CNT_CFG M_SPC_CFG_CLEAR (bus s1);
               d2 = mask_interrupts b (\<lambda>m. m OR push_bit TRACE_FREEZE_INT 1) d1
           in bind_res (last_intrs (enable_intr (s1\<lparr>bus := d2\<rparr>))) (\<lambda>s3.
              let s4 = disable_intr s3;
                  s5 = (if tb_int_was_enabled s4 = 0 then snd (snd (intr_disable_int None 6 s4)) else s4)
              in bind_res (intr_handler_remove 6 hnd s5) (\<lambda>s6. Inr (enable_intr s6))))"

section \<open>Reading the trace out\<close>

text \<open>The words arrive with the last one first: the reads fill the sample from its end.\<close>

definition filled :: "u64 list \<Rightarrow> (nat \<Rightarrow> u64) \<Rightarrow> nat \<Rightarrow> u64" where
  "filled ws f = (\<lambda>j. if j < length ws then ws ! j else f j)"

lemma filled_Nil [simp]: "filled [] f = f"
  by (rule ext) (simp add: filled_def)

lemma read_words:
  "fold (read_word b n) (rev [0..<m]) s =
     (let (ws, d) = csr_reads b A_SCD_TRACE_READ m (bus s)
      in s\<lparr>tb_samples := (tb_samples s)(n := filled (rev ws) (tb_samples s n)), bus := d\<rparr>)"
proof (induction m arbitrary: s)
  case 0
  have "(tb_samples s)(n := tb_samples s n) = tb_samples s" by (rule fun_upd_triv)
  then show ?case by (cases s) (simp del: fun_upd_apply)
next
  case (Suc m)
  obtain x d where x: "SBPROF_READ_CSR b A_SCD_TRACE_READ (bus s) = (x, d)" by force
  obtain ws d' where ws: "csr_reads b A_SCD_TRACE_READ m d = (ws, d')" by force
  have len: "length ws = m" using csr_reads_length [of b A_SCD_TRACE_READ m d] ws by simp
  have f: "filled (rev ws) ((tb_samples s n)(m := x)) = filled (rev (x # ws)) (tb_samples s n)"
    by (rule ext) (auto simp: filled_def len nth_append less_Suc_eq)
  show ?case
    unfolding upt_Suc_append [OF le0] rev_append fold_append by (simp add: Suc.IH read_word_def x ws f [simplified] fun_upd_same fun_upd_upd del: fun_upd_apply)
qed

lemma read_bundle_words: "read_bundle b n (6 * Suc k) s = fold (read_word b n) (rev [6 * k..<6 * Suc k]) s"
  by (simp add: read_bundle_def eval_nat_numeral)

lemma read_trace_words: "read_trace b n (6 * k) s = fold (read_word b n) (rev [0..<6 * k]) s"
proof (induction k arbitrary: s)
  case 0
  then show ?case by (simp add: read_trace.simps)
next
  case (Suc k)
  have u: "rev [0..<6 * Suc k] = rev [6 * k..<6 * Suc k] @ rev [0..<6 * k]"
    using upt_add_eq_append [of 0 "6 * k" 6] by (simp add: ac_simps)
  have "read_trace b n (6 * Suc k) s = read_trace b n (6 * k) (read_bundle b n (6 * Suc k) s)"
    by (subst read_trace.simps) simp
  then show ?case by (simp only: Suc.IH u fold_append o_apply read_bundle_words)
qed

lemma TRACE_FREEZE_test: "(x AND M_SCD_TRACE_CFG_FREEZE = 0) = (\<not> bit x 4)"
  by (simp add: M_SCD_TRACE_CFG_FREEZE_def SB_MAKEMASK1_test)

section \<open>The buffer holds the samples\<close>

text \<open>
  With \<open>malloc (sz + 31)\<close> at \<open>buf\<close>, a block of the address space: the samples taken and to be taken
  lie in it.
\<close>

definition zb_fits :: "u64 \<Rightarrow> u64 \<Rightarrow> ('d, 'z) zb_state_scheme \<Rightarrow> bool" where
  "zb_fits buf sz s =
     (unat buf + unat sz + 31 < 2 ^ 64 \<and> zb_tbbuf s = (buf + 31) AND NOT 31 \<and>
      unat (max_tb_samples s) * 12288 \<le> unat sz \<and> 0 \<le> sint (next_tb_sample s))"

lemma sizeof_tb_sample_eq: "sizeof_tb_sample = 12288"
  by (simp add: sizeof_tb_sample_def TB_WORDS_def)

lemma zb_init_fits:
  assumes "sbprof_zb_init malloc sz s = (0, s')" and "sz \<noteq> SBPROF_BUFSIZE_DEFAULT"
    and "unat (malloc (sz + 31)) + unat sz + 31 < 2 ^ 64" and "next_tb_sample s = 0"
  shows "zb_fits (malloc (sz + 31)) sz s'"
proof -
  have "unat (ucast (sz div 12288) :: u32) * 12288 \<le> unat (sz div 12288) * 12288"
    by (simp add: unsigned_ucast_eq take_bit_nat_eq_self_iff)
  also have "\<dots> \<le> unat sz" by (simp add: unat_div)
  finally show ?thesis
    using assms by (auto simp: sbprof_zb_init_def Let_def zb_fits_def sizeof_tb_sample_eq split: if_splits)
qed

lemma clear_low_bits: "x AND NOT (mask n) = x - take_bit n (x :: 'a::len word)"
proof -
  have "(x AND NOT (mask n)) AND (x AND mask n) = 0"
    by (rule word_bit_ext) (auto simp: bitwise)
  then have "(x AND NOT (mask n)) + (x AND mask n) = x"
    by (simp add: disjunctive_add_eq_or and_not_or_self)
  then show ?thesis by (simp add: take_bit_eq_mask eq_diff_eq)
qed

lemma align32:
  fixes buf :: u64
  assumes "unat buf + 31 < 2 ^ 64"
  shows "unat buf \<le> unat ((buf + 31) AND NOT 31)" "unat ((buf + 31) AND NOT 31) \<le> unat buf + 31"
proof -
  have n: "unat (buf + 31) = unat buf + 31" using assms by (subst unat_add_lem [THEN iffD1]) simp_all
  have "(31 :: u64) = mask 5" by (simp add: mask_eq_exp_minus_1)
  then have "(buf + 31) AND NOT 31 = (buf + 31) - take_bit 5 (buf + 31)"
    using clear_low_bits [of "buf + 31" 5] by simp
  moreover have "unat (take_bit 5 (buf + 31)) = (unat buf + 31) mod 32"
    unfolding unsigned_take_bit_eq n by (simp add: take_bit_eq_mod)
  moreover have "unat (x - y) = unat x - unat y" if "unat y \<le> unat x" for x y :: u64
    using that by (simp add: unat_sub word_le_nat_alt)
  ultimately have "unat ((buf + 31) AND NOT 31) = unat buf + 31 - (unat buf + 31) mod 32"
    using n by simp
  then show "unat buf \<le> unat ((buf + 31) AND NOT 31)" "unat ((buf + 31) AND NOT 31) \<le> unat buf + 31"
    using mod_less_divisor [of 32 "unat buf + 31"] by linarith+
qed

lemma next_sample_room:
  assumes "zb_fits buf sz s" and "next_tb_sample s <s max_tb_samples s"
  shows "unat buf \<le> unat (zb_tbbuf s)"
    "unat (zb_tbbuf s) + 12288 * (unat (next_tb_sample s) + 1) \<le> unat buf + unat sz + 31"
    "sint (next_tb_sample s + 1) = sint (next_tb_sample s) + 1"
proof -
  have lt: "sint (next_tb_sample s) < sint (max_tb_samples s)" "0 \<le> sint (next_tb_sample s)"
    using assms by (simp_all add: word_sless_alt zb_fits_def)
  then have u: "int (unat (next_tb_sample s)) = sint (next_tb_sample s)" "int (unat (max_tb_samples s)) = sint (max_tb_samples s)"
    using uint_nonneg_sint [of "next_tb_sample s"] uint_nonneg_sint [of "max_tb_samples s"] by linarith+
  then have "unat (next_tb_sample s) + 1 \<le> unat (max_tb_samples s)" using lt by linarith
  then have "12288 * (unat (next_tb_sample s) + 1) \<le> 12288 * unat (max_tb_samples s)"
    by (rule mult_le_mono2)
  also have "\<dots> \<le> unat sz" using assms(1) by (simp add: zb_fits_def)
  finally have "12288 * (unat (next_tb_sample s) + 1) \<le> unat sz" .
  then show "unat buf \<le> unat (zb_tbbuf s)"
    "unat (zb_tbbuf s) + 12288 * (unat (next_tb_sample s) + 1) \<le> unat buf + unat sz + 31"
    using align32 [of buf] assms(1) by (auto simp: zb_fits_def)
  show "sint (next_tb_sample s + 1) = sint (next_tb_sample s) + 1"
    by (rule sint_plus_one [OF lt(1)])
qed

text \<open>The interrupt's three ways: nothing frozen, a sample, no room.\<close>

lemma zb_store:
  assumes "SBPROF_READ_CSR b A_SCD_TRACE_CFG (bus s) = (cfg, d1)" and "bit cfg 4"
    and "SBPROF_READ_CSR b INTERRUPT_SOURCE_STATUS_0 d1 = (src, d2)"
    and "csr_reads b A_SCD_TRACE_READ TB_WORDS
      (csr_writes b [(A_PERF_CNT_CFG, M_SPC_CFG_CLEAR), (A_SCD_TRACE_CFG, M_SCD_TRACE_CFG_START_READ)] d2) = (rev trace, d3)"
    and "next_tb_sample s <s max_tb_samples s"
  shows "zbprof_trapfunc b arg ef s = Inr (1, ef,
      s\<lparr>tb_samples := (tb_samples s)(unat (next_tb_sample s) := filled trace (tb_samples s (unat (next_tb_sample s)))),
        next_tb_sample := next_tb_sample s + 1, bus := arm_tb b d3\<rparr>)" (is "_ = Inr (1, ef, ?r)")
    and "length trace = TB_WORDS"
proof -
  let ?n = "unat (next_tb_sample s)"
  let ?d = "csr_writes b [(A_PERF_CNT_CFG, M_SPC_CFG_CLEAR), (A_SCD_TRACE_CFG, M_SCD_TRACE_CFG_START_READ)] d2"
  let ?s1 = "s\<lparr>next_tb_sample := next_tb_sample s + 1, bus := ?d\<rparr>"
  show "length trace = TB_WORDS"
    using csr_reads_length [of b A_SCD_TRACE_READ TB_WORDS ?d] assms(4) by simp
  have six: "(1536 :: nat) = 6 * 256" "TB_WORDS = 6 * 256" by (simp_all add: TB_WORDS_def)
  have "read_trace b ?n 1536 ?s1 =
      ?s1\<lparr>tb_samples := (tb_samples s)(?n := filled trace (tb_samples s ?n)), bus := d3\<rparr>"
    unfolding six(1) read_trace_words read_words using assms(4) by (simp add: six(2) del: fun_upd_apply)
  moreover have "?s1\<lparr>tb_samples := (tb_samples s)(?n := filled trace (tb_samples s ?n)), bus := arm_tb b d3\<rparr> = ?r"
    by (rule zb_state.equality) simp_all
  ultimately show "zbprof_trapfunc b arg ef s = Inr (1, ef, ?r)"
    using assms(1-3,5) by (simp add: zbprof_trapfunc_def TRACE_FREEZE_test Let_def del: fun_upd_apply)
qed

lemma zb_not_frozen:
  assumes "SBPROF_READ_CSR b A_SCD_TRACE_CFG (bus s) = (cfg, d1)" and "\<not> bit cfg 4"
  shows "\<exists>s'. zbprof_trapfunc b arg ef s = Inr (0, ef, s')"
  using assms by (simp add: zbprof_trapfunc_def TRACE_FREEZE_test split_beta Let_def)

text \<open>The interrupt does not touch the chains it runs on.\<close>

lemma zb_trap_keeps:
  assumes "zbprof_trapfunc b arg ef s = Inr r"
  shows "ihands (snd (snd r)) = ihands s" "handler_chains (snd (snd r)) = handler_chains s"
proof -
  have rt: "ihands (read_trace b n 1536 t) = ihands t" "handler_chains (read_trace b n 1536 t) = handler_chains t"
    for n and t :: "('a, 'b) zb_state_scheme"
    using read_trace_words [of b n 256 t] by (simp_all add: read_words split_beta)
  show "ihands (snd (snd r)) = ihands s" "handler_chains (snd (snd r)) = handler_chains s"
    using assms by (auto simp: zbprof_trapfunc_def split_beta Let_def rt split: if_splits)
qed

section \<open>The profiler on the interrupt layer\<close>

lemma zb_data_cong:
  fixes s t :: "('d, 'z) zb_state_scheme"
  assumes "istate.more t = istate.more s"
  shows "bus t = bus s" "zbprof_running t = zbprof_running s" "tb_int_was_enabled t = tb_int_was_enabled s"
    "zb_tbbuf t = zb_tbbuf s"
  using assms by (cases s; cases t; simp)+

lemma zb_status_data [simp]:
  fixes s :: "('d, 'z) zb_state_scheme"
  shows "bus (mtc0_status v s) = bus s" "zbprof_running (mtc0_status v s) = zbprof_running s"
    "tb_int_was_enabled (mtc0_status v s) = tb_int_was_enabled s" "zb_tbbuf (mtc0_status v s) = zb_tbbuf s"
    "c0_status (mtc0_status v s) = v"
  by (simp_all add: mtc0_status_def)

lemma line6_eq:
  "intr_enable_int None 6 s = (c_bool (bit (c0_status s) 14), None, mtc0_status (set_bit 14 (c0_status s)) s)"
  "intr_disable_int None 6 s = (c_bool (bit (c0_status s) 14), None, mtc0_status (unset_bit 14 (c0_status s)) s)"
  using line_status [of 6 s] by simp_all

lemma zb_start_session:
  fixes s :: "('d, 'z) zb_state_scheme"
  assumes "intr_inv cs s" and "hnd \<noteq> 0" and "\<forall>j<8. hnd \<notin> set (cs j)" and "zb_tbbuf s \<noteq> 0" and "\<not> zbprof_running s"
  shows "\<exists>s'. sbprof_zbprof_start b hnd fnp s = Inr s' \<and> intr_inv (cs(6 := cs 6 @ [hnd])) s' \<and>
    zbprof_running s' \<and> zb_tbbuf s' = zb_tbbuf s \<and> c0_status s' = set_bit 14 (c0_status s OR M_SR_IE) \<and>
    tb_int_was_enabled s' = c_bool (bit (c0_status s) 14)"
proof -
  let ?s1 = "disable_intr s"
  let ?d = "mask_interrupts b (\<lambda>m. m AND NOT (push_bit TRACE_FREEZE_INT 1 OR push_bit SCD_PERFCNT_INT 1))
    (csr_writes b route_writes (bus s))"
  let ?s2 = "INIT_IHAND hnd fnp 0 EXFPSAVEMASK_NONE (?s1\<lparr>zbprof_running := True, bus := ?d\<rparr>)"
  have i1: "intr_inv cs ?s1" using assms(1) by (simp add: enable_inv)
  have "intr_inv cs (?s1\<lparr>zbprof_running := True, bus := ?d\<rparr>)"
    by (rule intr_inv_cong [OF i1]) simp_all
  then have i2: "intr_inv cs ?s2" by (rule intr_inv_fresh_handler [OF _ assms(3)])
  have s2: "zbprof_running ?s2" "zb_tbbuf ?s2 = zb_tbbuf s" "c0_status ?s2 = c0_status s AND NOT M_SR_IE"
    by (simp_all add: INIT_IHAND_def disable_intr_eq)
  obtain s3 where s3: "intr_handler_add 6 hnd ?s2 = Inr s3" "intr_inv (cs(6 := cs 6 @ [hnd])) s3" "c0_status s3 = c0_status ?s2"
    using intr_handler_add_correct [OF i2 _ assms(2,3), of 6] by auto
  note d = zb_data_cong [OF intr_handler_add_frame [OF s3(1)]]
  let ?s4 = "mtc0_status (set_bit 14 (c0_status s3)) s3"
  let ?r = "enable_intr (?s4\<lparr>tb_int_was_enabled := c_bool (bit (c0_status s3) 14),
    bus := arm_tb b (csr_writes b setup_writes (bus s3))\<rparr>)"
  have "bit (c0_status s3) 14 = bit (c0_status s) 14" unfolding s3(3) s2(3) by (simp add: bitwise ie_not_line7)
  moreover have "set_bit 14 (c0_status s3) OR M_SR_IE = set_bit 14 (c0_status s OR M_SR_IE)"
    unfolding s3(3) s2(3) by (intro word_bit_ext) (auto simp: bitwise bit_set_bit_iff)
  moreover have "intr_inv (cs(6 := cs 6 @ [hnd])) ?r"
    unfolding enable_intr_eq mtc0_intr_inv
    by (rule intr_inv_cong [OF s3(2)]) (simp_all add: mtc0_status_def)
  moreover have "sbprof_zbprof_start b hnd fnp s = Inr ?r"
    using assms(4,5) s3(1) by (simp add: sbprof_zbprof_start_def Let_def line6_eq disable_intr_eq)
  ultimately show ?thesis using s2 d by (intro exI [of _ ?r]) (simp add: enable_intr_eq)
qed

text \<open>The interrupts taken while stopping change only the samples, the bus and the console.\<close>

lemma zb_stop_session:
  fixes s :: "('d, 'z) zb_state_scheme"
  assumes "intr_inv cs s" and "zbprof_running s"
    and "\<And>t. \<exists>d ts n c. last_intrs t = Inr (t\<lparr>bus := d, tb_samples := ts, next_tb_sample := n, console := c\<rparr>)"
  shows "\<exists>s'. sbprof_zbprof_stop b hnd last_intrs s = Inr s' \<and> intr_inv (cs(6 := remove1 hnd (cs 6))) s' \<and>
    zbprof_running s' \<and> zb_tbbuf s' = zb_tbbuf s \<and>
    c0_status s' = (if tb_int_was_enabled s = 0 then unset_bit 14 (c0_status s OR M_SR_IE) else c0_status s OR M_SR_IE)"
proof -
  let ?s1 = "disable_intr s"
  let ?d = "mask_interrupts b (\<lambda>m. m OR push_bit TRACE_FREEZE_INT 1)
    (SBPROF_WRITE_CSR b A_PERF_CNT_CFG M_SPC_CFG_CLEAR (bus ?s1))"
  let ?s2 = "enable_intr (?s1\<lparr>bus := ?d\<rparr>)"
  have i1: "intr_inv cs ?s1" using assms(1) by (simp add: enable_inv)
  have i2: "intr_inv cs ?s2" unfolding enable_inv(1) by (rule intr_inv_cong [OF i1]) simp_all
  obtain d ts n c where l: "last_intrs ?s2 = Inr (?s2\<lparr>bus := d, tb_samples := ts, next_tb_sample := n, console := c\<rparr>)"
    using assms(3) by blast
  let ?s4 = "disable_intr (?s2\<lparr>bus := d, tb_samples := ts, next_tb_sample := n, console := c\<rparr>)"
  let ?s5 = "if tb_int_was_enabled s = 0 then mtc0_status (unset_bit 14 (c0_status ?s4)) ?s4 else ?s4"
  have "intr_inv cs ?s4" unfolding enable_inv(2) by (rule intr_inv_cong [OF i2]) simp_all
  then have i5: "intr_inv cs ?s5" by (simp add: mtc0_intr_inv)
  obtain s6 where s6: "intr_handler_remove 6 hnd ?s5 = Inr s6" "intr_inv (cs(6 := remove1 hnd (cs 6))) s6" "c0_status s6 = c0_status ?s5"
    using intr_handler_remove_correct [OF i5, of 6 hnd] by auto
  note f = zb_data_cong [OF intr_handler_remove_frame [OF s6(1)]]
  have w: "tb_int_was_enabled ?s4 = tb_int_was_enabled s" "zbprof_running ?s4" "zb_tbbuf ?s4 = zb_tbbuf s"
    using assms(2) by (simp_all add: disable_intr_eq enable_intr_eq)
  have "sbprof_zbprof_stop b hnd last_intrs s = Inr (enable_intr s6)"
    unfolding sbprof_zbprof_stop_def Let_def using assms(2) l s6(1) w(1)
    by (simp add: line6_eq disable_intr_eq cong: if_cong)
  moreover have "c0_status (enable_intr s6) = (if tb_int_was_enabled s = 0 then unset_bit 14 (c0_status s OR M_SR_IE) else c0_status s OR M_SR_IE)"
    unfolding enable_intr_eq using s6(3)
    by (auto simp: disable_intr_eq enable_intr_eq intro!: word_bit_ext) (auto simp: bitwise bit_unset_bit_iff ie_not_line7)
  moreover have "zbprof_running (enable_intr s6)" "zb_tbbuf (enable_intr s6) = zb_tbbuf s"
    unfolding enable_intr_eq using f w by simp_all
  ultimately show ?thesis using s6(2) enable_inv(1) by blast
qed
section \<open>Properties\<close>

text \<open>
  A unit that hands out the words of a list, whose other registers read as a frozen trace buffer,
  and a processor that has just booted, with room for one sample at \<open>0x30000000\<close>.
\<close>

definition list_scd :: "u64 list scd" where
  "list_scd =
     \<lparr>csr_rd = (\<lambda>va ws. if va = PHYS_TO_K1 A_SCD_TRACE_READ
                        then (case ws of [] \<Rightarrow> (0, []) | w # ws' \<Rightarrow> (w, ws')) else (0x10, ws)),
      csr_wr = (\<lambda>va v ws. ws)\<rparr>"

lemma list_scd_reads: "csr_reads list_scd A_SCD_TRACE_READ (length ws) ws = (ws, [])"
  by (induction ws) (simp_all add: list_scd_def SBPROF_READ_CSR_def sbprof_read_csr_def)

lemma list_scd_writes [simp]: "csr_writes list_scd vs d = d"
  by (induction vs arbitrary: d)
    (auto simp: csr_writes_def list_scd_def SBPROF_WRITE_CSR_def sbprof_write_csr_def)

lemma list_scd_status:
  "SBPROF_READ_CSR list_scd A_SCD_TRACE_CFG ws = (0x10, ws)"
  "SBPROF_READ_CSR list_scd INTERRUPT_SOURCE_STATUS_0 ws = (0x10, ws)"
  by (simp_all add: list_scd_def SBPROF_READ_CSR_def sbprof_read_csr_def PHYS_TO_K1_def K1BASE_def
      A_SCD_TRACE_CFG_def A_SCD_TRACE_READ_def INTERRUPT_SOURCE_STATUS_0_def)

definition sb1_zb :: "'d \<Rightarrow> 'd zb_state" where
  "sb1_zb d = prof_state.extend sb1_prof (zb_state.fields d 0x30000000 (\<lambda>_ _. 0) 0 1 False 0 [])"

lemma sb1_zb_fields:
  "bus (sb1_zb d) = d" "zb_tbbuf (sb1_zb d) = 0x30000000" "next_tb_sample (sb1_zb d) = 0"
  "max_tb_samples (sb1_zb d) = 1" "\<not> zbprof_running (sb1_zb d)" "c0_status (sb1_zb d) = c0_status sb1_prof"
  by (simp_all add: sb1_zb_def prof_state.defs zb_state.defs)

lemma sb1_zb_inv: "intr_inv (\<lambda>_. []) (sb1_zb d)"
  using sb1_istate_inv unfolding intr_inv_def chains_wf_def mask_is_union_def
  by (simp add: sb1_zb_def prof_state.defs zb_state.defs sb1_prof_fields sb1_istate_defs)

text \<open>
  C25: When the trace buffer has frozen and there is room, and the unit then delivers the words of a
  trace with the last one first, the interrupt stores the trace in the order of time as the next
  sample, inside the allocated block, leaves the other samples as they were, counts the sample
  and arms the trace buffer again; without room it only resets the trace buffer.
\<close>

theorem zb_sample_stored:
  assumes "SBPROF_READ_CSR b A_SCD_TRACE_CFG (bus s) = (cfg, d1)" and "bit cfg 4"
    and "SBPROF_READ_CSR b INTERRUPT_SOURCE_STATUS_0 d1 = (src, d2)"
    and "csr_reads b A_SCD_TRACE_READ TB_WORDS
      (csr_writes b [(A_PERF_CNT_CFG, M_SPC_CFG_CLEAR), (A_SCD_TRACE_CFG, M_SCD_TRACE_CFG_START_READ)] d2) = (rev trace, d3)"
    and "zb_fits buf sz s"
  shows "if next_tb_sample s <s max_tb_samples s then
      \<exists>s'. zbprof_trapfunc b arg ef s = Inr (1, ef, s') \<and> zb_fits buf sz s' \<and>
        s' = s\<lparr>tb_samples := (tb_samples s)(unat (next_tb_sample s) := filled trace (tb_samples s (unat (next_tb_sample s)))),
               next_tb_sample := next_tb_sample s + 1, bus := arm_tb b d3\<rparr> \<and>
        length trace = TB_WORDS \<and> unat buf \<le> unat (zb_tbbuf s) \<and>
        unat (zb_tbbuf s) + 8 * TB_WORDS * (unat (next_tb_sample s) + 1) \<le> unat buf + unat sz + 31
    else zbprof_trapfunc b arg ef s =
      Inr (1, ef, s\<lparr>bus := SBPROF_WRITE_CSR b A_SCD_TRACE_CFG M_SCD_TRACE_CFG_RESET d2\<rparr>)"
proof (cases "next_tb_sample s <s max_tb_samples s")
  case True
  show ?thesis
    using zb_store [OF assms(1-4) True] assms(5) next_sample_room [OF assms(5) True] True
    by (simp add: zb_fits_def TB_WORDS_def)
next
  case False
  then show ?thesis using assms(1-3) by (simp add: zbprof_trapfunc_def TRACE_FREEZE_test)
qed

lemma zb_sample_stored_witness:
  "\<forall>ef. \<exists>s'. zbprof_trapfunc list_scd 0 ef (sb1_zb (rev (map of_nat [0..<TB_WORDS]))) = Inr (1, ef, s') \<and>
     next_tb_sample s' = 1 \<and> tb_samples s' 0 7 = 7"
proof
  fix ef
  let ?trace = "map of_nat [0..<TB_WORDS] :: u64 list"
  have len: "length (rev ?trace) = TB_WORDS" by simp
  have "zb_fits 0x30000000 12288 (sb1_zb (rev ?trace))"
    by (simp add: zb_fits_def sb1_zb_fields)
  moreover have "csr_reads list_scd A_SCD_TRACE_READ TB_WORDS (rev ?trace) = (rev ?trace, [])"
    using list_scd_reads [of "rev ?trace"] by (simp only: len)
  ultimately show "\<exists>s'. zbprof_trapfunc list_scd 0 ef (sb1_zb (rev ?trace)) = Inr (1, ef, s') \<and>
     next_tb_sample s' = 1 \<and> tb_samples s' 0 7 = 7"
    using zb_sample_stored [where b = list_scd and s = "sb1_zb (rev ?trace)" and trace = ?trace and arg = "0" and ef = ef
        and buf = "0x30000000" and sz = "12288" and cfg = "0x10" and src = "0x10" and ?d1.0 = "rev ?trace"
        and ?d2.0 = "rev ?trace" and ?d3.0 = "[]"]
    by (auto simp: list_scd_status sb1_zb_fields word_sless_alt filled_def TB_WORDS_def)
qed

text \<open>
  C26: Starting adds the handler to line 6 and enables the line, and stopping, whatever samples are
  taken meanwhile, takes it off again and leaves the line as it was; but the profiler still counts
  as running, so that starting it a second time does nothing but enable interrupts.
\<close>

theorem zb_runs_once:
  fixes s :: "('d, 'z) zb_state_scheme"
  assumes "intr_inv cs s" and "hnd \<noteq> 0" and "\<forall>j<8. hnd \<notin> set (cs j)" and "zb_tbbuf s \<noteq> 0" and "\<not> zbprof_running s"
    and "\<And>t. \<exists>d ts n c. last_intrs t = Inr (t\<lparr>bus := d, tb_samples := ts, next_tb_sample := n, console := c\<rparr>)"
  shows "\<exists>s1 s2. sbprof_zbprof_start b hnd fnp s = Inr s1 \<and> intr_inv (cs(6 := cs 6 @ [hnd])) s1 \<and>
    bit (c0_status s1) 14 \<and> sbprof_zbprof_stop b hnd last_intrs s1 = Inr s2 \<and> intr_inv cs s2 \<and>
    c0_status s2 = c0_status s OR M_SR_IE \<and>
    sbprof_zbprof_start b hnd fnp s2 = Inr (enable_intr (disable_intr s2))"
proof -
  obtain s1 where s1: "sbprof_zbprof_start b hnd fnp s = Inr s1" "intr_inv (cs(6 := cs 6 @ [hnd])) s1"
    "zbprof_running s1" "zb_tbbuf s1 = zb_tbbuf s" "c0_status s1 = set_bit 14 (c0_status s OR M_SR_IE)"
    "tb_int_was_enabled s1 = c_bool (bit (c0_status s) 14)"
    using zb_start_session [OF assms(1-5)] by blast
  obtain s2 where s2: "sbprof_zbprof_stop b hnd last_intrs s1 = Inr s2"
    "intr_inv ((cs(6 := cs 6 @ [hnd]))(6 := remove1 hnd ((cs(6 := cs 6 @ [hnd])) 6))) s2" "zbprof_running s2" "zb_tbbuf s2 = zb_tbbuf s1"
    "c0_status s2 = (if tb_int_was_enabled s1 = 0 then unset_bit 14 (c0_status s1 OR M_SR_IE) else c0_status s1 OR M_SR_IE)"
    using zb_stop_session [OF s1(2,3) assms(6)] by blast
  have "remove1 hnd ((cs(6 := cs 6 @ [hnd])) 6) = cs 6"
    using assms(3) remove1_last [of hnd "cs 6"] by simp
  then have i: "intr_inv cs s2" using s2(2) by simp
  have st: "c0_status s2 = c0_status s OR M_SR_IE"
    unfolding s2(5) s1(5,6)
    by (rule word_bit_ext) (auto simp: bitwise bit_set_bit_iff bit_unset_bit_iff ie_not_line7)
  have "sbprof_zbprof_start b hnd fnp s2 = Inr (enable_intr (disable_intr s2))"
    using assms(4) s1(4) s2(3,4) by (simp add: sbprof_zbprof_start_def Let_def disable_intr_eq)
  moreover have "bit (c0_status s1) 14" unfolding s1(5) by (simp add: bit_set_bit_iff)
  ultimately show ?thesis using s1(1,2) s2(1) i st by auto
qed

lemma zb_runs_once_witness:
  "\<exists>s1 s2. sbprof_zbprof_start list_scd 0x1000 1 (sb1_zb []) = Inr s1 \<and>
     sbprof_zbprof_stop list_scd 0x1000 Inr s1 = Inr s2 \<and> sbprof_zbprof_start list_scd 0x1000 1 s2 = Inr (enable_intr (disable_intr s2))"
proof -
  have keep: "\<exists>d ts n c. Inr t = Inr (t\<lparr>bus := d, tb_samples := ts, next_tb_sample := n, console := c\<rparr>)"
    for t :: "u64 list zb_state"
    by (rule exI [of _ "bus t"], rule exI [of _ "tb_samples t"], rule exI [of _ "next_tb_sample t"],
        rule exI [of _ "console t"]) simp
  have p: "(0x1000 :: u64) \<noteq> 0" "\<forall>j<8. (0x1000 :: u64) \<notin> set ((\<lambda>_. []) (j :: nat))"
    "zb_tbbuf (sb1_zb []) \<noteq> 0" "\<not> zbprof_running (sb1_zb [])"
    by (simp_all add: sb1_zb_fields)
  from zb_runs_once [OF sb1_zb_inv p keep] show ?thesis by blast
qed

end
