(* ===== verification/Sbprof.thy ===== *)
theory Sbprof
  imports SbprofZb Clib
begin

text \<open>
  The start and the end of the profiling library, \<open>libsbprof/libsbprof/sbprof.c\<close>: initialisation, which
  brings up the exception library, the interrupt layer and both profilers, and the message
  printed at exit. The firmware and the C library are the parameter \<open>env\<close>.
\<close>

unbundle bit_operations_syntax

section \<open>State and environment\<close>

text \<open>\<open>exit_registered\<close> records that \<open>atexit (sbprof_exit)\<close> succeeded.\<close>

record 'd lib_state = "'d zb_state" +
  sbprof_initted :: bool
  sbprof_initflags :: u32
  cfe_is_32bit :: bool
  cfe_bootdev :: string
  cfe_bootpath :: string
  exit_registered :: bool

text \<open>
  What the firmware and the C library answer: \<open>cfe_getfwinfo\<close> its status and whether the firmware is
  a 32-bit one, \<open>cfe_getenv\<close> the string it leaves in a buffer of the given size, if any.
\<close>

record env =
  env_fwinfo :: "u32 \<times> bool"
  env_getenv :: "string \<Rightarrow> nat \<Rightarrow> string option"
  env_atexit :: u32
  env_calloc :: "u64 \<Rightarrow> u64"
  env_malloc :: "u64 \<Rightarrow> u64"
  env_build :: build_config
  env_images :: vec_images

definition SBPROF_FLG_QUIET :: u32 where "SBPROF_FLG_QUIET = 1"

section \<open>The message at exit\<close>

definition newline :: string where "newline = [CHR 0x0A]"

text \<open>The two halves of \<open>sbprof_exit\<close> differ in the word \<open>cpu\<close> or \<open>zbbus\<close> and the name of the file.\<close>

definition save_message :: "string \<Rightarrow> string \<Rightarrow> ('d, 'z) lib_state_scheme \<Rightarrow> u64 \<times> u64 \<Rightarrow> string" where
  "save_message kind file s bs =
     (let (buf, sz) = bs
      in if buf = 0 then ''*** libsbprof: no '' @ kind @ '' profiling data buffer'' @ newline
         else if sz = 0 then ''*** libsbprof: no '' @ kind @ '' profiling data recorded'' @ newline
         else ''*** libsbprof: to save '' @ kind @ '' profiling data, use a command like:'' @ newline @
              '' ifconfig '' @ cfe_bootdev s @ '' -auto; save '' @ cfe_bootpath s @ file @ '' '' @
              (if cfe_is_32bit s then ''0x'' @ show_hex 8 (ucast buf :: u32) else ''0x'' @ show_hex 16 buf) @
              '' 0x'' @ digits_of 16 (unat sz) @ newline)"

definition sbprof_exit :: "('d, 'z) lib_state_scheme \<Rightarrow> ('d, 'z) lib_state_scheme" where
  "sbprof_exit s =
     (if sbprof_initflags s AND SBPROF_FLG_QUIET \<noteq> 0 then s
      else s\<lparr>console := console s @ save_message ''cpu'' ''cpu-samples'' s (sbprof_get_cpu_buf s) @
                        save_message ''zbbus'' ''zb-samples'' s (sbprof_get_zb_buf s)\<rparr>)"

section \<open>Initialisation\<close>

text \<open>The part of the boot file up to its last \<open>/\<close>, or else up to its first \<open>:\<close>, if there is one.\<close>

definition boot_directory :: "string \<Rightarrow> string option" where
  "boot_directory f =
     (if CHR ''/'' \<in> set f then Some (rev (dropWhile (\<lambda>c. c \<noteq> CHR ''/'') (rev f)))
      else if CHR '':'' \<in> set f then Some (takeWhile (\<lambda>c. c \<noteq> CHR '':'') f @ '':'')
      else None)"

definition boot_names :: "env \<Rightarrow> ('d, 'z) lib_state_scheme \<Rightarrow> ('d, 'z) lib_state_scheme" where
  "boot_names e s =
     (case env_getenv e ''BOOT_DEVICE'' 256 of
        None \<Rightarrow> s
      | Some dev \<Rightarrow>
          if length dev < 20 \<and> take 3 dev = ''eth'' then
            let s1 = s\<lparr>cfe_bootdev := dev\<rparr>
            in (case env_getenv e ''BOOT_FILE'' 256 of
                  None \<Rightarrow> s1
                | Some file \<Rightarrow>
                    (case boot_directory file of
                       None \<Rightarrow> s1
                     | Some path \<Rightarrow> if length path < 256 then s1\<lparr>cfe_bootpath := path\<rparr> else s1))
          else s)"

text \<open>The buffer of the ZBbus profiler is allocated with \<open>cpu_bufsize\<close>; \<open>zb_bufsize\<close> is not used.\<close>

definition sbprof_init2 ::
  "env \<Rightarrow> u64 \<Rightarrow> u64 \<Rightarrow> u32 \<Rightarrow> ('d, 'z) lib_state_scheme \<Rightarrow> (u32 \<times> ('d, 'z) lib_state_scheme) res" where
  "sbprof_init2 e cpu_bufsize zb_bufsize flags s =
     (if sbprof_initted s then Inr (- 1, s)
      else
        let s1 = s\<lparr>sbprof_initted := True, sbprof_initflags := flags\<rparr>
        in if fst (env_fwinfo e) \<noteq> 0 then Inr (- 1, s1)
        else
          let s2 = s1\<lparr>cfe_is_32bit := snd (env_fwinfo e)\<rparr>
          in if env_atexit e \<noteq> 0 then Inr (- 1, s2)
          else
            bind_res (exlib_init (env_build e) (env_images e) (s2\<lparr>exit_registered := True\<rparr>)) (\<lambda>s3.
            bind_res (intr_init (env_build e) (env_images e) s3) (\<lambda>s4.
              let (r1, s5) = sbprof_cpu_init (env_calloc e) cpu_bufsize s4
              in if r1 \<noteq> 0 then Inr (- 1, s5)
                 else
                   let (r2, s6) = sbprof_zb_init (env_malloc e) cpu_bufsize s5
                   in if r2 \<noteq> 0 then Inr (- 1, s6) else Inr (0, boot_names e s6))))"

definition sbprof_init ::
  "env \<Rightarrow> u64 \<Rightarrow> u64 \<Rightarrow> ('d, 'z) lib_state_scheme \<Rightarrow> (u32 \<times> ('d, 'z) lib_state_scheme) res" where
  "sbprof_init e cpu_bufsize zb_bufsize = sbprof_init2 e cpu_bufsize zb_bufsize 0"

section \<open>Results\<close>

text \<open>The third argument makes no difference.\<close>

lemma init_ignores_zb_bufsize: "sbprof_init2 e n zb flags s = sbprof_init2 e n zb' flags s"
  by (simp add: sbprof_init2_def)

text \<open>A second initialisation, also after a failed one, fails.\<close>

lemma init_twice:
  assumes "sbprof_init2 e n zb flags s = Inr (r, s')" and "\<not> sbprof_initted s" and "fst (env_fwinfo e) \<noteq> 0"
  shows "r = - 1" "sbprof_init2 e' n' zb' flags' s' = Inr (- 1, s')"
  using assms by (auto simp: sbprof_init2_def Let_def)

text \<open>The device and path kept fit their arrays, so neither \<open>strcpy\<close> overruns.\<close>

lemma boot_names_fit:
  assumes "length (cfe_bootdev s) < 20" and "length (cfe_bootpath s) < 256"
  shows "length (cfe_bootdev (boot_names e s)) < 20" "length (cfe_bootpath (boot_names e s)) < 256"
  using assms by (auto simp: boot_names_def Let_def split: option.split)

text \<open>The directory is a prefix of the file name that ends in the separator.\<close>

lemma boot_directory_prefix:
  assumes "boot_directory f = Some p"
  shows "prefix p f" "last p = CHR ''/'' \<or> last p = CHR '':''"
proof -
  have d: "prefix (rev (dropWhile P (rev f))) f" for P
    by (metis rev_rev_ident suffix_dropWhile suffix_to_prefix)
  have l: "CHR ''/'' \<in> set f \<Longrightarrow> last (rev (dropWhile (\<lambda>c. c \<noteq> CHR ''/'') (rev f))) = CHR ''/''"
    using hd_dropWhile [of "\<lambda>c. c \<noteq> CHR ''/''" "rev f"] by (auto simp: last_rev dropWhile_eq_Nil_conv)
  have c: "prefix (takeWhile (\<lambda>c. c \<noteq> CHR '':'') f @ '':'') f" if "CHR '':'' \<in> set f"
  proof -
    have "dropWhile (\<lambda>c. c \<noteq> CHR '':'') f \<noteq> []" using that by (auto simp: dropWhile_eq_Nil_conv)
    then obtain t where "dropWhile (\<lambda>c. c \<noteq> CHR '':'') f = CHR '':'' # t"
      using hd_dropWhile [of "\<lambda>c. c \<noteq> CHR '':''" f] by (cases "dropWhile (\<lambda>c. c \<noteq> CHR '':'') f") auto
    then show ?thesis
      using takeWhile_dropWhile_id [of "\<lambda>c. c \<noteq> CHR '':''" f] by (metis append.assoc append_Cons append_Nil prefixI)
  qed
  show "prefix p f" "last p = CHR ''/'' \<or> last p = CHR '':''"
    using assms d l c by (auto simp: boot_directory_def split: if_splits)
qed

end
