(* ===== verification/TbBundle.thy ===== *)
theory TbBundle
  imports Clib
begin

text \<open>
  The trace buffer bundles of \<open>libsbprof/util/tbanal.c\<close>: sixteen bytes, read as two 64-bit words or as
  one of four structures of bit-fields. A compiler for a little endian host gives the first
  bit-field of a word its lowest bits, one for a big endian host its highest (\<open>le\<close>); the structures
  are here the lists of the fields and widths of their two words, in the source's order, and a
  field is read and written where the host has it. On a little endian host \<open>cbflip\<close> moves
  every field of a bundle from where the hardware has it to where the structures expect it.
\<close>

unbundle bit_operations_syntax

section \<open>The structures\<close>

record raw_t =
  raw_lo :: u64
  raw_hi :: u64

type_synonym layout = "(string \<times> nat) list"

definition rev1_flip_cntrl_bundle :: "layout \<times> layout" where
  "rev1_flip_cntrl_bundle =
     ([(''d_code'', 3), (''d_mod'', 1), (''d_rsp'', 4), (''d_tid'', 6), (''d_aid'', 4), (''r_l2hit'', 1),
       (''r_exc'', 6), (''r_shd'', 6), (''a_l2ca'', 1), (''a_be'', 32)],
      [(''a_l1ca'', 2), (''a_cmd'', 3), (''a_ad'', 35), (''a_tid'', 6), (''a_aid'', 4), (''count'', 12),
       (''dtrig'', 1), (''atrig'', 1)])"

definition rev2_flip_cntrl_bundle :: "layout \<times> layout" where
  "rev2_flip_cntrl_bundle =
     ([(''d_code'', 3), (''d_mod'', 1), (''d_rsp'', 4), (''d_tid'', 6), (''d_aid'', 4), (''r_l2hit'', 1),
       (''r_exc'', 6), (''r_shd'', 6), (''a_l2ca'', 1), (''zero'', 5), (''trtrig1'', 1), (''trtrig0'', 1),
       (''d_valid'', 1), (''a_valid'', 1), (''a_block'', 11), (''a_byt'', 8), (''a_dw'', 4)],
      [(''a_l1ca'', 2), (''a_cmd'', 3), (''a_ad'', 35), (''a_tid'', 6), (''a_aid'', 4), (''count'', 12),
       (''dtrig'', 1), (''atrig'', 1)])"

definition rev1_cntrl_bundle :: "layout \<times> layout" where
  "rev1_cntrl_bundle =
     ([(''a_be'', 32), (''a_l2ca'', 1), (''r_shd'', 6), (''r_exc'', 6), (''r_l2hit'', 1), (''d_aid'', 4),
       (''d_tid'', 6), (''d_rsp'', 4), (''d_mod'', 1), (''d_code'', 3)],
      [(''atrig'', 1), (''dtrig'', 1), (''count'', 12), (''a_aid'', 4), (''a_tid'', 6), (''a_ad'', 35),
       (''a_cmd'', 3), (''a_l1ca'', 2)])"

definition rev2_cntrl_bundle :: "layout \<times> layout" where
  "rev2_cntrl_bundle =
     ([(''a_dw'', 4), (''a_byt'', 8), (''a_block'', 11), (''a_valid'', 1), (''d_valid'', 1), (''trtrig0'', 1),
       (''trtrig1'', 1), (''zero'', 5), (''a_l2ca'', 1), (''r_shd'', 6), (''r_exc'', 6), (''r_l2hit'', 1),
       (''d_aid'', 4), (''d_tid'', 6), (''d_rsp'', 4), (''d_mod'', 1), (''d_code'', 3)],
      [(''atrig'', 1), (''dtrig'', 1), (''count'', 12), (''a_aid'', 4), (''a_tid'', 6), (''a_ad'', 35),
       (''a_cmd'', 3), (''a_l1ca'', 2)])"

section \<open>Bit-fields\<close>

text \<open>The offset and width of a field, counted from the first bit-field of the word.\<close>

fun field_from :: "nat \<Rightarrow> layout \<Rightarrow> string \<Rightarrow> (nat \<times> nat) option" where
  "field_from off [] n = None"
| "field_from off ((m, w) # fs) n = (if m = n then Some (off, w) else field_from (off + w) fs n)"

definition field_pos :: "bool \<Rightarrow> nat \<times> nat \<Rightarrow> nat" where
  "field_pos le f = (if le then fst f else 64 - fst f - snd f)"

text \<open>In which word a field is (the second, if the flag is set), its lowest bit, and its width.\<close>

definition field :: "bool \<Rightarrow> layout \<times> layout \<Rightarrow> string \<Rightarrow> bool \<times> nat \<times> nat" where
  "field le l n =
     (case field_from 0 (fst l) n of
        Some f \<Rightarrow> (False, field_pos le f, snd f)
      | None \<Rightarrow> (case field_from 0 (snd l) n of
            Some f \<Rightarrow> (True, field_pos le f, snd f)
          | None \<Rightarrow> (False, 0, 0)))"

definition raw_word :: "bool \<Rightarrow> raw_t \<Rightarrow> u64" where
  "raw_word h t = (if h then raw_hi t else raw_lo t)"

definition set_word :: "bool \<Rightarrow> u64 \<Rightarrow> raw_t \<Rightarrow> raw_t" where
  "set_word h v t = (if h then t\<lparr>raw_hi := v\<rparr> else t\<lparr>raw_lo := v\<rparr>)"

definition get_bits :: "nat \<Rightarrow> nat \<Rightarrow> u64 \<Rightarrow> u64" where
  "get_bits p w x = take_bit w (drop_bit p x)"

definition set_bits :: "nat \<Rightarrow> nat \<Rightarrow> u64 \<Rightarrow> u64 \<Rightarrow> u64" where
  "set_bits p w v x = (x AND NOT (push_bit p (mask w))) OR push_bit p (take_bit w v)"

definition get :: "bool \<Rightarrow> layout \<times> layout \<Rightarrow> string \<Rightarrow> raw_t \<Rightarrow> u64" where
  "get le l n t = (let (h, p, w) = field le l n in get_bits p w (raw_word h t))"

definition put_field :: "bool \<Rightarrow> layout \<times> layout \<Rightarrow> string \<Rightarrow> u64 \<Rightarrow> raw_t \<Rightarrow> raw_t" where
  "put_field le l n v t = (let (h, p, w) = field le l n in set_word h (set_bits p w v (raw_word h t)) t)"

section \<open>Endian fixup\<close>

text \<open>\<open>bswap8\<close> exchanges the bytes of a doubleword, first with last and so on.\<close>

definition byte :: "nat \<Rightarrow> u64 \<Rightarrow> u64" where
  "byte i x = get_bits (8 * i) 8 x"

definition swap :: "nat \<Rightarrow> nat \<Rightarrow> u64 \<Rightarrow> u64" where
  "swap a b x = set_bits (8 * b) 8 (byte a x) (set_bits (8 * a) 8 (byte b x) x)"

definition bswap8 :: "u64 \<Rightarrow> u64" where
  "bswap8 x = swap 3 4 (swap 2 5 (swap 1 6 (swap 0 7 x)))"

definition flip_names1 :: "string list" where
  "flip_names1 =
     [''d_code'', ''d_mod'', ''d_rsp'', ''d_tid'', ''d_aid'', ''r_l2hit'', ''r_exc'', ''r_shd'', ''a_l2ca'', ''a_be'',
      ''a_l1ca'', ''a_ad'', ''a_cmd'', ''a_tid'', ''a_aid'', ''count'', ''atrig'', ''dtrig'']"

definition flip_names2 :: "string list" where
  "flip_names2 =
     [''d_code'', ''d_mod'', ''d_rsp'', ''d_tid'', ''d_aid'', ''r_l2hit'', ''r_exc'', ''r_shd'', ''a_l2ca'', ''zero'',
      ''trtrig1'', ''trtrig0'', ''d_valid'', ''a_valid'', ''a_block'', ''a_byt'', ''a_dw'',
      ''a_l1ca'', ''a_cmd'', ''a_ad'', ''a_tid'', ''a_aid'', ''count'', ''atrig'', ''dtrig'']"

definition cbflip :: "bool \<Rightarrow> nat \<Rightarrow> raw_t \<Rightarrow> raw_t" where
  "cbflip le soc_pass tmp =
     (if soc_pass = 1
      then fold (\<lambda>n. put_field le rev1_cntrl_bundle n (get le rev1_flip_cntrl_bundle n tmp)) flip_names1 tmp
      else fold (\<lambda>n. put_field le rev2_cntrl_bundle n (get le rev2_flip_cntrl_bundle n tmp)) flip_names2 tmp)"

section \<open>Stores of fields\<close>

text \<open>
  The law of bit-fields: a field that has been written reads as the value, cut to its width, and
  the other fields read as before.
\<close>

locale field_store =
  fixes rd :: "'n \<Rightarrow> 't \<Rightarrow> 'v"
    and wr :: "'n \<Rightarrow> 'v \<Rightarrow> 't \<Rightarrow> 't"
    and cut :: "'n \<Rightarrow> 'v \<Rightarrow> 'v"
    and names :: "'n set"
  assumes read_same: "n \<in> names \<Longrightarrow> rd n (wr n v t) = cut n v"
    and read_other: "n \<in> names \<Longrightarrow> m \<in> names \<Longrightarrow> n \<noteq> m \<Longrightarrow> rd n (wr m v t) = rd n t"
begin

lemma fold_write_other:
  "n \<in> names \<Longrightarrow> set ms \<subseteq> names \<Longrightarrow> n \<notin> set ms \<Longrightarrow> rd n (fold (\<lambda>m. wr m (f m)) ms t) = rd n t"
  by (induction ms arbitrary: t) (auto simp: read_other)

lemma fold_write:
  "set ms \<subseteq> names \<Longrightarrow> distinct ms \<Longrightarrow> n \<in> set ms \<Longrightarrow> rd n (fold (\<lambda>m. wr m (f m)) ms t) = cut n (f n)"
proof (induction ms arbitrary: t)
  case Nil
  then show ?case by simp
next
  case (Cons m ms)
  then show ?case by (cases "n = m") (auto simp: fold_write_other read_same)
qed

end

lemma get_set_bits_same: "p + w \<le> 64 \<Longrightarrow> get_bits p w (set_bits p w v x) = take_bit w v"
  by (intro word_bit_ext) (auto simp: get_bits_def set_bits_def bit_simps)

lemma get_set_bits_other:
  "p + w \<le> q \<or> q + u \<le> p \<Longrightarrow> p + w \<le> 64 \<Longrightarrow> q + u \<le> 64 \<Longrightarrow> get_bits p w (set_bits q u v x) = get_bits p w x"
  by (intro word_bit_ext) (auto simp: get_bits_def set_bits_def bit_simps)

definition fields_apart :: "bool \<times> nat \<times> nat \<Rightarrow> bool \<times> nat \<times> nat \<Rightarrow> bool" where
  "fields_apart f g =
     (case f of (h, p, w) \<Rightarrow> case g of (k, q, u) \<Rightarrow> h \<noteq> k \<or> p + w \<le> q \<or> q + u \<le> p)"

text \<open>All the named fields lie in their words and share no bit.\<close>

definition fields_ok :: "(bool \<times> nat \<times> nat) list \<Rightarrow> bool" where
  "fields_ok fs = (list_all (\<lambda>(h, p, w). p + w \<le> 64) fs \<and> sorted_wrt fields_apart fs)"

lemma fields_apart_sym: "fields_apart f g = fields_apart g f"
  by (cases f; cases g) (auto simp: fields_apart_def)

lemma layouts_ok:
  "fields_ok (map (field True rev1_cntrl_bundle) flip_names1)"
  "fields_ok (map (field True rev2_cntrl_bundle) flip_names2)"
  by (code_simp, code_simp)

lemma layout_store:
  assumes "fields_ok (map (field le l) ns)"
  shows "field_store (get le l) (put_field le l) (\<lambda>n. take_bit (snd (snd (field le l n)))) (set ns)"
proof
  fix n v t assume "n \<in> set ns"
  then show "get le l n (put_field le l n v t) = take_bit (snd (snd (field le l n))) v"
    using assms get_set_bits_same
    by (cases "field le l n") (auto simp: fields_ok_def list_all_iff get_def put_field_def raw_word_def set_word_def)
next
  fix n m v t assume nm: "n \<in> set ns" "m \<in> set ns" "n \<noteq> m"
  obtain h p w where n: "field le l n = (h, p, w)" by (cases "field le l n")
  obtain k q u where m: "field le l m = (k, q, u)" by (cases "field le l m")
  obtain i j where ij: "i < length ns" "ns ! i = n" "j < length ns" "ns ! j = m" using nm by (auto simp: in_set_conv_nth)
  have "fields_apart (field le l n) (field le l m)"
  proof (cases i j rule: linorder_cases)
    case less
    then show ?thesis using assms ij sorted_wrt_nth_less [of fields_apart "map (field le l) ns" i j] by (simp add: fields_ok_def)
  next
    case equal
    then show ?thesis using nm(3) ij by simp
  next
    case greater
    then show ?thesis using assms ij sorted_wrt_nth_less [of fields_apart "map (field le l) ns" j i]
      by (simp add: fields_ok_def fields_apart_sym)
  qed
  then have f: "h \<noteq> k \<or> p + w \<le> q \<or> q + u \<le> p" using n m by (simp add: fields_apart_def)
  have l: "p + w \<le> 64" "q + u \<le> 64" using assms nm n m by (auto simp: fields_ok_def list_all_iff)
  show "get le l n (put_field le l m v t) = get le l n t"
  proof (cases "h = k")
    case True
    then have "p + w \<le> q \<or> q + u \<le> p" using f by simp
    then have "get_bits p w (set_bits q u v x) = get_bits p w x" for x
      using l by (rule get_set_bits_other)
    then show ?thesis using True by (simp add: get_def put_field_def n m raw_word_def set_word_def)
  next
    case False
    then show ?thesis by (auto simp: get_def put_field_def n m raw_word_def set_word_def)
  qed
qed

interpretation r1: field_store "get True rev1_cntrl_bundle" "put_field True rev1_cntrl_bundle"
    "\<lambda>n. take_bit (snd (snd (field True rev1_cntrl_bundle n)))" "set flip_names1"
  by (rule layout_store [OF layouts_ok(1)])

interpretation r2: field_store "get True rev2_cntrl_bundle" "put_field True rev2_cntrl_bundle"
    "\<lambda>n. take_bit (snd (snd (field True rev2_cntrl_bundle n)))" "set flip_names2"
  by (rule layout_store [OF layouts_ok(2)])

text \<open>The flipped structures have every field where a big endian host has it in the others.\<close>

lemma flip_layouts:
  "\<forall>n \<in> set flip_names1. field True rev1_flip_cntrl_bundle n = field False rev1_cntrl_bundle n \<and>
     snd (snd (field True rev1_cntrl_bundle n)) = snd (snd (field False rev1_cntrl_bundle n))"
  "\<forall>n \<in> set flip_names2. field True rev2_flip_cntrl_bundle n = field False rev2_cntrl_bundle n \<and>
     snd (snd (field True rev2_cntrl_bundle n)) = snd (snd (field False rev2_cntrl_bundle n))"
  by code_simp+

lemma flip_names_distinct: "distinct flip_names1" "distinct flip_names2"
  by code_simp+

lemma get_cut: "take_bit (snd (snd (field le l n))) (get le l n t) = get le l n t"
  by (cases "field le l n") (simp add: get_def get_bits_def)

lemma cbflip_fields:
  "n \<in> set flip_names1 \<Longrightarrow> get True rev1_cntrl_bundle n (cbflip True 1 t) = get False rev1_cntrl_bundle n t"
  "pass \<noteq> 1 \<Longrightarrow> n \<in> set flip_names2 \<Longrightarrow>
   get True rev2_cntrl_bundle n (cbflip True pass t) = get False rev2_cntrl_bundle n t"
proof -
  show "get True rev1_cntrl_bundle n (cbflip True 1 t) = get False rev1_cntrl_bundle n t" if n: "n \<in> set flip_names1"
  proof -
    have e: "get True rev1_flip_cntrl_bundle n t = get False rev1_cntrl_bundle n t"
      "snd (snd (field True rev1_cntrl_bundle n)) = snd (snd (field False rev1_cntrl_bundle n))"
      using flip_layouts(1) n by (simp_all add: get_def)
    show ?thesis unfolding cbflip_def using r1.fold_write [OF subset_refl flip_names_distinct(1) n]
      by (simp add: e get_cut)
  qed
  show "get True rev2_cntrl_bundle n (cbflip True pass t) = get False rev2_cntrl_bundle n t"
    if p: "pass \<noteq> 1" and n: "n \<in> set flip_names2"
  proof -
    have e: "get True rev2_flip_cntrl_bundle n t = get False rev2_cntrl_bundle n t"
      "snd (snd (field True rev2_cntrl_bundle n)) = snd (snd (field False rev2_cntrl_bundle n))"
      using flip_layouts(2) n by (simp_all add: get_def)
    show ?thesis unfolding cbflip_def using p r2.fold_write [OF subset_refl flip_names_distinct(2) n]
      by (simp add: e get_cut)
  qed
qed

end
