(* ===== verification/Tbanal.thy ===== *)
theory Tbanal
  imports TbBundle
begin

text \<open>
  The trace buffer analyser, the host tool \<open>libsbprof/util/tbanal.c\<close>: it reads a file of bus trace
  buffers, fixes their byte order, and prints them, histograms of bus idle times and of read
  latencies, and counts of transactions. What it prints is the list \<open>tb_out\<close> of the
  texts and, for the lines with floating point numbers, the operands of the call. A
  failed \<open>assert\<close> is \<open>AssertFailed\<close>, \<open>fatal\<close> is \<open>Exited\<close>, an index outside an array \<open>OutOfBounds\<close>. \<open>le\<close>
  says that the host is little endian.
\<close>

unbundle bit_operations_syntax

section \<open>Fields and names\<close>

definition f1 :: "bool \<Rightarrow> string \<Rightarrow> raw_t \<Rightarrow> u64" where "f1 le n t = get le rev1_cntrl_bundle n t"
definition f2 :: "bool \<Rightarrow> string \<Rightarrow> raw_t \<Rightarrow> u64" where "f2 le n t = get le rev2_cntrl_bundle n t"

datatype trx = TRX_READ_SHD | TRX_READ_EXC | TRX_WRITE | TRX_WR_INV | TRX_INV | TRX_RSRVD5 | TRX_RSRVD6 | TRX_NOP | TRX_COUNT

definition trx_list :: "trx list" where
  "trx_list = [TRX_READ_SHD, TRX_READ_EXC, TRX_WRITE, TRX_WR_INV, TRX_INV, TRX_RSRVD5, TRX_RSRVD6, TRX_NOP, TRX_COUNT]"

fun trx_code :: "trx \<Rightarrow> nat" where
  "trx_code TRX_READ_SHD = 0"
| "trx_code TRX_READ_EXC = 1"
| "trx_code TRX_WRITE = 2"
| "trx_code TRX_WR_INV = 3"
| "trx_code TRX_INV = 4"
| "trx_code TRX_RSRVD5 = 5"
| "trx_code TRX_RSRVD6 = 6"
| "trx_code TRX_NOP = 7"
| "trx_code TRX_COUNT = 8"

text \<open>The enumeration is ordered as C orders it.\<close>

instantiation trx :: linorder
begin

definition less_eq_trx :: "trx \<Rightarrow> trx \<Rightarrow> bool" where "less_eq_trx a b = (trx_code a \<le> trx_code b)"
definition less_trx :: "trx \<Rightarrow> trx \<Rightarrow> bool" where "less_trx a b = (trx_code a < trx_code b)"

instance
proof
  fix a b :: trx
  assume "a \<le> b" "b \<le> a"
  then show "a = b" by (cases a; cases b) (simp_all add: less_eq_trx_def)
qed (auto simp: less_eq_trx_def less_trx_def)

end

definition TRX_READ_COUNT :: nat where "TRX_READ_COUNT = trx_code TRX_READ_EXC + 1"
definition AGT_READER_COUNT :: nat where "AGT_READER_COUNT = 4 + 1"
definition AGT_COUNT :: nat where "AGT_COUNT = 8"
definition NTID :: nat where "NTID = 64"
definition NHIST :: nat where "NHIST = 8192"

definition a_cmd :: "string list" where
  "a_cmd = [''READ_SHD'', ''READ_EXC'', ''WRITE'', ''WR_INV'', ''INV'', ''rsrvd5'', ''rsrvd6'', ''NOP'']"

definition agent :: "string list" where
  "agent = [''cpu0'', ''cpu1'', ''br0'', ''br1'', ''scd'', ''tram'', ''l2'', ''mc'',
     ''agnt8'', ''agnt9'', ''agnt10'', ''agnt11'', ''agnt12'', ''agnt13'', ''agnt14'', ''agnt15'']"

definition blockers :: "string list" where
  "blockers = [''cpu0'', ''cpu1'', ''br0'', ''br1'', ''scd'', ''block[5]'', ''l2'', ''mc'', ''scd-all'', ''mc-all'', ''mc-br1'']"

definition dcode :: "string list" where
  "dcode = [''NOP'', ''DVal'', ''DVal_tagECC'', ''DVal_dataECC'', ''Bus_error'', ''Fatal_bus_error'',
     ''Uncorrectable_ECC_tag_error'', ''Uncorrectable_ECC_data_error'']"

definition l1ca :: "string list" where "l1ca = [''CN'', ''CC'', ''U0'', ''U1'']"
definition l2ca :: "string list" where "l2ca = [''U'', ''C'']"

text \<open>The string of an array at a field's value: the arrays are as long as the fields are wide.\<close>

definition name_of :: "string list \<Rightarrow> u64 \<Rightarrow> string" where
  "name_of names v = names ! unat v"

section \<open>State\<close>

record hist =
  hist_sum :: u64
  hist_count :: u32
  hist_bin :: "nat \<Rightarrow> u32"

record trx_time =
  rd_trans :: trx
  rd_time :: u32

datatype out_item =
    Text string
  | Mean u64 u32
  | Share string string u64 u32

record tbanal_state =
  soc_pass :: nat
  do_print :: bool
  print_raw :: bool
  big_endian_target :: bool
  curtime :: u32
  last_read :: "nat \<Rightarrow> nat \<Rightarrow> trx_time"
  trans_counts :: "nat \<Rightarrow> nat \<Rightarrow> u32"
  idle :: hist
  tb_length :: hist
  read_lat :: "nat \<Rightarrow> nat \<Rightarrow> nat \<Rightarrow> hist"
  tb_out :: "out_item list"

definition say :: "string \<Rightarrow> tbanal_state \<Rightarrow> tbanal_state" where
  "say l s = s\<lparr>tb_out := tb_out s @ [Text l]\<rparr>"

section \<open>Printing a trace buffer\<close>

definition decode_byen_step :: "u32 \<Rightarrow> u32 \<times> u32 \<Rightarrow> u32 \<times> u32" where
  "decode_byen_step byt vd =
     (let (val, dw) = vd;
          val = push_bit 8 val;
          val = (if dw AND 8 \<noteq> 0 then val OR byt else val)
      in (val, push_bit 1 dw))"

definition decode_byen :: "u32 \<Rightarrow> u32 \<Rightarrow> u32" where
  "decode_byen dw byt = fst ((decode_byen_step byt ^^ 4) (0, dw))"

text \<open>\<open>blockstr\<close> has 64 bytes; \<open>strcat\<close> past its end is the fault.\<close>

definition strcat64 :: "string \<Rightarrow> string \<Rightarrow> string res" where
  "strcat64 s t = (if length (s @ t) < 64 then Inr (s @ t) else Inl OutOfBounds)"

function blockers_loop :: "u32 \<Rightarrow> nat \<Rightarrow> bool \<Rightarrow> string \<Rightarrow> (bool \<times> string) res" where
  "blockers_loop block i any_set str =
     (if block = 0 then Inr (any_set, str)
      else
        bind_res
          (if block AND 1 \<noteq> 0 then
             if length blockers \<le> i then Inl OutOfBounds
             else bind_res (if any_set then strcat64 str '', '' else Inr str) (\<lambda>str. strcat64 str (blockers ! i))
           else Inr str)
          (blockers_loop (drop_bit 1 block) (i + 1) (any_set \<or> block AND 1 \<noteq> 0)))"
  by pat_completeness auto
termination
proof (relation "measure (\<lambda>(block, i, a, s). unat block)")
  fix block :: u32 and i any_set str x
  assume "block \<noteq> 0"
  then have "0 < unat block" by (simp add: unat_gt_0)
  then have "unat block div 2 < unat block" by simp
  then show "((drop_bit 1 block, i + 1, any_set \<or> block AND 1 \<noteq> 0, x), block, i, any_set, str) \<in>
      measure (\<lambda>(block, i, a, s). unat block)"
    by (simp add: unat_drop_bit_eq drop_bit_eq_div unat_div_distrib)
qed auto

declare blockers_loop.simps [simp del]

definition print_blockers :: "u32 \<Rightarrow> string res" where
  "print_blockers block =
     bind_res (blockers_loop block 0 False []) (\<lambda>(any_set, str). Inr (if any_set then str else ''(none)''))"

definition nl :: string where "nl = [CHR 0x0A]"

definition yes_no :: "u64 \<Rightarrow> string" where
  "yes_no v = (if v \<noteq> 0 then ''yes'' else ''no'')"

text \<open>\<open>g\<close> reads the fields of the bundle: as \<open>cb.r1\<close> or as \<open>cb.r2\<close>.\<close>

definition dbus_line :: "(string \<Rightarrow> u64) \<Rightarrow> u64 \<Rightarrow> string" where
  "dbus_line g d_mod =
     (if g ''d_rsp'' \<noteq> g ''d_aid'' then
        ''D-bus: '' @ pad_left CHR '' '' 6 (name_of agent (g ''d_rsp'')) @ '' -> '' @
        pad_left CHR '' '' 6 (name_of agent (g ''d_aid'')) @ '':'' @ show_hex 2 (g ''d_tid'') @
        '' dcode: '' @ name_of dcode (g ''d_code'') @ '' dirty? '' @ yes_no (d_mod) @ nl
      else
        ''D-bus: WriteData '' @ pad_left CHR '' '' 6 (name_of agent (g ''d_rsp'')) @ '':'' @
        show_hex 2 (g ''d_tid'') @ '' dcode: '' @ name_of dcode (g ''d_code'') @ '' dirty? '' @
        yes_no (d_mod) @ nl)"

definition abus_line :: "(string \<Rightarrow> u64) \<Rightarrow> u32 \<Rightarrow> string" where
  "abus_line g be =
     ''A-bus:'' @ pad_left CHR '' '' 10 (name_of a_cmd (g ''a_cmd'')) @ '' '' @
     pad_left CHR '' '' 6 (name_of agent (g ''a_aid'')) @ '':'' @ show_hex 2 (g ''a_tid'') @ '' 0x'' @
     show_hex 10 (push_bit 5 (g ''a_ad'')) @ '' be: '' @ show_hex 8 be @ '' '' @
     pad_left CHR '' '' 2 (name_of l1ca (g ''a_l1ca'')) @ ''/'' @
     pad_left CHR '' '' 1 (name_of l2ca (g ''a_l2ca''))"

definition print_cntrl1 :: "bool \<Rightarrow> raw_t \<Rightarrow> tbanal_state \<Rightarrow> tbanal_state" where
  "print_cntrl1 le cb s =
     (let s1 = (if f1 le ''atrig'' cb \<noteq> 0 then say (abus_line (\<lambda>n. f1 le n cb) (ucast (f1 le ''a_be'' cb)) @ nl) s else s)
      in if f1 le ''dtrig'' cb \<noteq> 0 then say (dbus_line (\<lambda>n. f1 le n cb) (f2 le ''d_mod'' cb)) s1 else s1)"

definition print_cntrl2 :: "bool \<Rightarrow> raw_t \<Rightarrow> tbanal_state \<Rightarrow> tbanal_state res" where
  "print_cntrl2 le cb s =
     (if f2 le ''zero'' cb \<noteq> 0 then Inl AssertFailed
      else bind_res (print_blockers (ucast (f2 le ''a_block'' cb))) (\<lambda>b.
        let s1 = say b (say ''Blockers: '' s);
            s2 = say (if f2 le ''trtrig0'' cb \<noteq> 0 \<or> f2 le ''trtrig1'' cb \<noteq> 0
                      then ''  Interrupt triggers: '' @ (if f2 le ''trtrig0'' cb \<noteq> 0 then ''cpu0'' else []) @ '' '' @
                           (if f2 le ''trtrig1'' cb \<noteq> 0 then ''cpu1'' else []) @ nl
                      else nl) s1;
            s3 = (if f2 le ''a_valid'' cb \<noteq> 0 then
                    say (abus_line (\<lambda>n. f2 le n cb) (decode_byen (ucast (f2 le ''a_dw'' cb)) (ucast (f2 le ''a_byt'' cb))) @ '' l2'' @
                         pad_right 4 (if f2 le ''r_l2hit'' cb \<noteq> 0 then ''hit'' else ''miss'') @ '' shd:'' @
                         show_hex 1 (f2 le ''r_shd'' cb) @ '' exc:'' @ show_hex 1 (f2 le ''r_exc'' cb) @ nl) s2
                  else s2)
        in Inr (if f2 le ''d_valid'' cb \<noteq> 0 then say (dbus_line (\<lambda>n. f2 le n cb) (f2 le ''d_mod'' cb)) s3 else s3)))"

definition print_cntrl :: "bool \<Rightarrow> raw_t \<Rightarrow> tbanal_state \<Rightarrow> tbanal_state res" where
  "print_cntrl le cb s =
     (let s1 = say (''delta '' @ show_dec (f1 le ''count'' cb + 1) @ nl) s
      in if soc_pass s1 = 1 then Inr (print_cntrl1 le cb s1) else print_cntrl2 le cb s1)"

definition print_data :: "raw_t \<Rightarrow> raw_t \<Rightarrow> tbanal_state \<Rightarrow> tbanal_state" where
  "print_data t1 t2 s =
     (let u4 = (\<lambda>x :: u64. show_hex 8 (ucast x :: u32))
      in say (''Data _'' @ u4 (drop_bit 32 (raw_hi t2)) @ ''_'' @ u4 (raw_hi t2) @ ''_'' @ u4 (drop_bit 32 (raw_lo t2)) @
              ''_'' @ u4 (raw_lo t2) @ ''_'' @ u4 (drop_bit 32 (raw_hi t1)) @ ''_'' @ u4 (raw_hi t1) @ ''_'' @
              u4 (drop_bit 32 (raw_lo t1)) @ ''_'' @ u4 (raw_lo t1) @ ''_'' @ nl) s)"

text \<open>A trace buffer is its list of 768 bundles, taken by threes. The flag says that the end was found.\<close>

definition print_tbdata :: "bool \<Rightarrow> raw_t \<Rightarrow> raw_t \<Rightarrow> raw_t \<Rightarrow> tbanal_state \<Rightarrow> (bool \<times> tbanal_state) res" where
  "print_tbdata le t0 t1 t2 s =
     (if f1 le ''atrig'' t0 = 0 \<and> f1 le ''dtrig'' t0 = 0 then Inr (True, say (''end of buffer?'' @ nl) s)
      else if f1 le ''dtrig'' t0 \<noteq> 0 then
        bind_res (print_cntrl le t0 s) (\<lambda>s1.
          Inr (False, if soc_pass s1 = 1 \<or> f2 le ''d_valid'' t0 \<noteq> 0 then print_data t1 t2 s1 else s1))
      else
        bind_res (print_cntrl le t0 s) (\<lambda>s1.
          if f1 le ''atrig'' t1 \<noteq> 0 then
            bind_res (print_cntrl le t1 s1) (\<lambda>s2.
              if f1 le ''atrig'' t2 \<noteq> 0 then bind_res (print_cntrl le t2 s2) (\<lambda>s3. Inr (False, s3))
              else Inr (False, s2))
          else Inr (False, s1)))"

definition raw_lines :: "nat \<Rightarrow> raw_t \<Rightarrow> string" where
  "raw_lines j t =
     ''t'' @ digits_of 10 j @ '' hi 0x'' @ show_hex 16 (raw_hi t) @ nl @
     ''t'' @ digits_of 10 j @ '' lo 0x'' @ show_hex 16 (raw_lo t) @ nl"

fun print_tb :: "bool \<Rightarrow> raw_t list \<Rightarrow> tbanal_state \<Rightarrow> tbanal_state res" where
  "print_tb le (t0 # t1 # t2 # tb) s =
     (let s1 = say (replicate 76 CHR ''-'' @ nl) s;
          s2 = (if print_raw s1 then say (raw_lines 2 t2 @ raw_lines 1 t1 @ raw_lines 0 t0) s1 else s1)
      in bind_res (print_tbdata le t0 t1 t2 s2) (\<lambda>(stop, s3). if stop then Inr s3 else print_tb le tb s3))"
| "print_tb le _ s = Inr s"

section \<open>Histograms\<close>

definition hist_init :: hist where
  "hist_init = \<lparr>hist_sum = 0, hist_count = 0, hist_bin = (\<lambda>_. 0)\<rparr>"

definition hist_insert :: "u32 \<Rightarrow> u32 \<Rightarrow> hist \<Rightarrow> hist res" where
  "hist_insert v n h =
     (if unat v < NHIST then
        Inr (h\<lparr>hist_bin := (hist_bin h)(unat v := hist_bin h (unat v) + n), hist_count := hist_count h + n,
               hist_sum := hist_sum h + ucast v * ucast n\<rparr>)
      else Inl AssertFailed)"

definition hist_rows :: "hist \<Rightarrow> out_item list" where
  "hist_rows h =
     concat (map (\<lambda>i. if hist_bin h i > 0
       then [Text (''  '' @ pad_left CHR '' '' 5 (digits_of 10 i) @ ''  '' @ pad_left CHR '' '' 4 (show_dec (hist_bin h i)) @ nl)]
       else []) [0..<NHIST])"

definition hist_print :: "hist \<Rightarrow> string \<Rightarrow> tbanal_state \<Rightarrow> tbanal_state" where
  "hist_print h name s =
     s\<lparr>tb_out := tb_out s @ [Text (nl @ ''histogram of '' @ name @ nl), Text (''  Value  Count'' @ nl)] @
         hist_rows h @ [Mean (hist_sum h) (hist_count h)]\<rparr>"

section \<open>Analysing a trace buffer\<close>

definition valid_a :: "bool \<Rightarrow> nat \<Rightarrow> raw_t \<Rightarrow> bool" where
  "valid_a le pass cb = ((if pass = 1 then f1 le ''atrig'' cb else f2 le ''a_valid'' cb) \<noteq> 0)"

definition valid_d :: "bool \<Rightarrow> nat \<Rightarrow> raw_t \<Rightarrow> bool" where
  "valid_d le pass cb = ((if pass = 1 then f1 le ''dtrig'' cb else f2 le ''d_valid'' cb) \<noteq> 0)"

definition set_last_read :: "nat \<Rightarrow> nat \<Rightarrow> trx_time \<Rightarrow> tbanal_state \<Rightarrow> tbanal_state res" where
  "set_last_read ag tid x s =
     (if ag < AGT_READER_COUNT then Inr (s\<lparr>last_read := (last_read s)(ag := (last_read s ag)(tid := x))\<rparr>)
      else Inl OutOfBounds)"

definition count_trans :: "nat \<Rightarrow> trx \<Rightarrow> tbanal_state \<Rightarrow> tbanal_state res" where
  "count_trans ag tr s =
     (if ag < AGT_COUNT then
        Inr (s\<lparr>trans_counts := (trans_counts s)(ag := (trans_counts s ag)(trx_code tr := trans_counts s ag (trx_code tr) + 1))\<rparr>)
      else Inl OutOfBounds)"

definition analyze_delta :: "bool \<Rightarrow> raw_t \<Rightarrow> tbanal_state \<Rightarrow> tbanal_state res" where
  "analyze_delta le cb s =
     (let d = ucast (f1 le ''count'' cb) + 1; s1 = s\<lparr>curtime := curtime s + d\<rparr>
      in bind_res (hist_insert d 1 (idle s1)) (\<lambda>h. Inr (s1\<lparr>idle := h\<rparr>)))"

definition analyze_a :: "bool \<Rightarrow> raw_t \<Rightarrow> tbanal_state \<Rightarrow> tbanal_state res" where
  "analyze_a le cb s =
     (let ag = unat (f1 le ''a_aid'' cb); tid = unat (f1 le ''a_tid'' cb); tr = trx_list ! unat (f1 le ''a_cmd'' cb)
      in if tr \<in> {TRX_READ_SHD, TRX_READ_EXC} then
           bind_res (set_last_read ag tid \<lparr>rd_trans = tr, rd_time = curtime s\<rparr> s) (count_trans ag tr)
         else if tr \<in> {TRX_WRITE, TRX_WR_INV, TRX_INV, TRX_NOP} then count_trans ag tr s
         else Inl Exited)"

definition read_response :: "nat \<Rightarrow> nat \<Rightarrow> nat \<Rightarrow> tbanal_state \<Rightarrow> tbanal_state res" where
  "read_response reader tid responder s =
     (if AGT_READER_COUNT \<le> reader then Inl OutOfBounds
      else
        let tr = rd_trans (last_read s reader tid)
        in if tr \<noteq> TRX_COUNT then
             let delta = curtime s - rd_time (last_read s reader tid); t = trx_code tr
             in if AGT_COUNT \<le> responder then Inl OutOfBounds
                else bind_res (hist_insert delta 1 (read_lat s reader t responder)) (\<lambda>h.
                  set_last_read reader tid ((last_read s reader tid)\<lparr>rd_trans := TRX_COUNT\<rparr>)
                    (s\<lparr>read_lat := (read_lat s)(reader := (read_lat s reader)(t := (read_lat s reader t)(responder := h)))\<rparr>))
           else Inr s)"

definition analyze_d :: "bool \<Rightarrow> raw_t \<Rightarrow> tbanal_state \<Rightarrow> tbanal_state res" where
  "analyze_d le cb s =
     (if f1 le ''d_rsp'' cb \<noteq> f1 le ''d_aid'' cb then
        if f1 le ''d_code'' cb \<noteq> 1 then
          Inr (say (''Warning: D-bus has a '' @ name_of dcode (f1 le ''d_code'' cb) @ '' phase!'' @ nl) s)
        else read_response (unat (f1 le ''d_aid'' cb)) (unat (f1 le ''d_tid'' cb)) (unat (f1 le ''d_rsp'' cb)) s
      else Inr s)"

definition analyze_cntrl :: "bool \<Rightarrow> raw_t \<Rightarrow> bool \<Rightarrow> tbanal_state \<Rightarrow> tbanal_state res" where
  "analyze_cntrl le cb is_first s =
     bind_res (if \<not> is_first then analyze_delta le cb s else Inr s) (\<lambda>s1.
     bind_res (if valid_a le (soc_pass s1) cb then analyze_a le cb s1 else Inr s1) (\<lambda>s2.
       if valid_d le (soc_pass s2) cb then analyze_d le cb s2 else Inr s2))"

definition analyze_bundle :: "bool \<Rightarrow> raw_t \<Rightarrow> raw_t \<Rightarrow> raw_t \<Rightarrow> bool \<Rightarrow> tbanal_state \<Rightarrow> (bool \<times> tbanal_state) res" where
  "analyze_bundle le t0 t1 t2 is_first s =
     (if f1 le ''atrig'' t0 = 0 \<and> f1 le ''dtrig'' t0 = 0 then Inr (True, s)
      else
        bind_res (analyze_cntrl le t0 is_first s) (\<lambda>s1.
          if f1 le ''dtrig'' t0 = 0 \<and> f1 le ''atrig'' t1 \<noteq> 0 then
            bind_res (analyze_cntrl le t1 False s1) (\<lambda>s2.
              if f1 le ''atrig'' t2 \<noteq> 0 then bind_res (analyze_cntrl le t2 False s2) (\<lambda>s3. Inr (False, s3))
              else Inr (False, s2))
          else Inr (False, s1)))"

fun analyze_bundles :: "bool \<Rightarrow> bool \<Rightarrow> raw_t list \<Rightarrow> tbanal_state \<Rightarrow> tbanal_state res" where
  "analyze_bundles le is_first (t0 # t1 # t2 # tb) s =
     bind_res (analyze_bundle le t0 t1 t2 is_first s) (\<lambda>(stop, s1).
       if stop then Inr s1 else analyze_bundles le False tb s1)"
| "analyze_bundles le is_first _ s = Inr s"

definition reset_reads :: "tbanal_state \<Rightarrow> tbanal_state" where
  "reset_reads s =
     s\<lparr>curtime := 0,
       last_read := (\<lambda>i tid. if i < AGT_READER_COUNT \<and> tid < NTID
         then (last_read s i tid)\<lparr>rd_trans := TRX_COUNT\<rparr> else last_read s i tid)\<rparr>"

definition tbanal :: "bool \<Rightarrow> raw_t list \<Rightarrow> tbanal_state \<Rightarrow> tbanal_state res" where
  "tbanal le tb s =
     bind_res (analyze_bundles le True tb (reset_reads s)) (\<lambda>s1.
       if curtime s1 > 8192 then Inr (say (''not binning tb length '' @ show_dec (curtime s1) @ nl) s1)
       else bind_res (hist_insert (curtime s1) 1 (tb_length s1)) (\<lambda>h. Inr (s1\<lparr>tb_length := h\<rparr>)))"

section \<open>The program\<close>

text \<open>A doubleword as the host reads it, the doublewords of one buffer, and their bundles.\<close>

fun le_dword :: "u8 list \<Rightarrow> u64" where
  "le_dword [] = 0"
| "le_dword (b # bs) = ucast b OR push_bit 8 (le_dword bs)"

definition host_dword :: "bool \<Rightarrow> u8 list \<Rightarrow> u64" where
  "host_dword le bs = le_dword (if le then bs else rev bs)"

fun dwords :: "bool \<Rightarrow> nat \<Rightarrow> u8 list \<Rightarrow> u64 list" where
  "dwords le 0 bs = []"
| "dwords le (Suc n) bs = host_dword le (take 8 bs) # dwords le n (drop 8 bs)"

fun bundles :: "u64 list \<Rightarrow> raw_t list" where
  "bundles (a # b # ws) = \<lparr>raw_lo = a, raw_hi = b\<rparr> # bundles ws"
| "bundles _ = []"

fun cbflips :: "bool \<Rightarrow> nat \<Rightarrow> raw_t list \<Rightarrow> raw_t list" where
  "cbflips le pass (t0 # t1 # t2 # tb) =
     (let t0' = cbflip le pass t0
      in (if f1 le ''dtrig'' t0' = 0 then [t0', cbflip le pass t1, cbflip le pass t2] else [t0', t1, t2]) @
         cbflips le pass tb)"
| "cbflips le pass tb = tb"

definition load_sample :: "bool \<Rightarrow> tbanal_state \<Rightarrow> u8 list \<Rightarrow> raw_t list" where
  "load_sample le s bs =
     (let ws = dwords le (256 * 6) bs;
          ws = (if big_endian_target s = le then map bswap8 ws else ws);
          tb = bundles ws
      in if le then cbflips le (soc_pass s) tb else tb)"

fun process_samples :: "bool \<Rightarrow> nat \<Rightarrow> u8 list \<Rightarrow> tbanal_state \<Rightarrow> tbanal_state res" where
  "process_samples le 0 bs s = Inr s"
| "process_samples le (Suc n) bs s =
     (let tb = load_sample le s bs
      in bind_res (if do_print s then map_sum id (say (nl @ replicate 56 CHR ''#'' @ nl @ nl)) (print_tb le tb s) else Inr s)
           (\<lambda>s1. bind_res (tbanal le tb s1) (process_samples le n (drop (256 * 6 * 8) bs))))"

definition initial_state :: tbanal_state where
  "initial_state =
     \<lparr>soc_pass = 2, do_print = False, print_raw = False, big_endian_target = True, curtime = 0,
      last_read = (\<lambda>_ _. \<lparr>rd_trans = TRX_READ_SHD, rd_time = 0\<rparr>), trans_counts = (\<lambda>_ _. 0), idle = hist_init,
      tb_length = hist_init, read_lat = (\<lambda>_ _ _. hist_init), tb_out = []\<rparr>"

fun tbanal_options :: "opt_event list \<Rightarrow> tbanal_state \<Rightarrow> tbanal_state res" where
  "tbanal_options [] s = Inr s"
| "tbanal_options (BadOpt # evs) s = Inl Exited"
| "tbanal_options (Opt c optarg # evs) s =
     (if c = CHR ''d'' then tbanal_options evs (s\<lparr>do_print := True\<rparr>)
      else if c = CHR ''D'' then tbanal_options evs (s\<lparr>print_raw := True\<rparr>)
      else if c = CHR ''1'' then tbanal_options evs (s\<lparr>soc_pass := 1\<rparr>)
      else if c = CHR ''e'' \<and> take 1 optarg \<in> {''l'', ''b''} then
        tbanal_options evs (s\<lparr>big_endian_target := (take 1 optarg = ''b'')\<rparr>)
      else Inl Exited)"

definition print_latencies :: "tbanal_state \<Rightarrow> tbanal_state" where
  "print_latencies s =
     fold (\<lambda>(ag, tr, rsp) s.
         if hist_count (read_lat s ag tr rsp) > 0 then
           hist_print (read_lat s ag tr rsp)
             (a_cmd ! tr @ '' latency '' @ agent ! ag @ '' <- '' @ agent ! rsp) s
         else s)
       (List.product [0..<AGT_READER_COUNT] (List.product [0..<TRX_READ_COUNT] [0..<AGT_COUNT])) s"

definition sum_aphases :: "tbanal_state \<Rightarrow> u32" where
  "sum_aphases s =
     sum_list (map (\<lambda>(ag, tr). trans_counts s ag tr) (List.product [0..<AGT_COUNT] [0..<trx_code TRX_COUNT])) +
     ucast (hist_sum (idle s))"

definition print_counts :: "tbanal_state \<Rightarrow> tbanal_state" where
  "print_counts s =
     (let total = sum_aphases s;
          rows = map (\<lambda>(ag, tr). Share (agent ! ag) (a_cmd ! tr) (ucast (trans_counts s ag tr)) total)
            (filter (\<lambda>(ag, tr). trans_counts s ag tr > 0)
              (List.product [0..<AGT_COUNT] [0..<trx_code TRX_COUNT]))
      in s\<lparr>tb_out := tb_out s @ rows @ [Share ''idle'' ''NONE'' (hist_sum (idle s)) total]\<rparr>)"

text \<open>\<open>files\<close>: the contents of a file, None if it cannot be opened.\<close>

definition tbanal_main :: "bool \<Rightarrow> bool \<Rightarrow> (string \<Rightarrow> u8 list option) \<Rightarrow> string list \<Rightarrow> out_item list res" where
  "tbanal_main le permute files args =
     (let (evs, argv) = getopt ''e'' ''1dDh'' permute args
      in bind_res (tbanal_options evs initial_state) (\<lambda>s.
         if length argv \<noteq> 1 then Inl Exited
         else case files (argv ! 0) of
             None \<Rightarrow> Inl Exited
           | Some bs \<Rightarrow>
               if length bs mod (256 * 6 * 8) \<noteq> 0 then Inl Exited
               else
                 let samples = length bs div (256 * 6 * 8);
                     s1 = say (''Processing '' @ (if big_endian_target s then ''big'' else ''little'') @
                       '' endian trace of '' @ digits_of 10 samples @
                       '' samples (each sample is a full trace buffer)'' @ nl) s
                 in bind_res (process_samples le samples bs s1) (\<lambda>s2.
                    let s3 = hist_print (idle s2) ''Consecutive Idle A-phase Zclks''
                               (hist_print (tb_length s2) ''Trace Buffer Length (Zclks)'' s2);
                        s4 = say (nl @ ''Transaction counts'' @ nl) (print_latencies s3)
                    in Inr (tb_out (print_counts s4)))))"

section \<open>The printed blockers\<close>

text \<open>The loop over the bits joins the names of the bits that are set.\<close>

fun join_names :: "bool \<Rightarrow> string \<Rightarrow> nat list \<Rightarrow> (bool \<times> string) res" where
  "join_names a str [] = Inr (a, str)"
| "join_names a str (j # js) =
     bind_res (if a then strcat64 str '', '' else Inr str) (\<lambda>s. bind_res (strcat64 s (blockers ! j)) (\<lambda>s. join_names True s js))"

fun joined_length :: "bool \<Rightarrow> nat list \<Rightarrow> nat" where
  "joined_length a [] = 0"
| "joined_length a (j # js) = (if a then 2 else 0) + length (blockers ! j) + joined_length True js"

lemma join_names_overflow:
  "length str < 64 \<Longrightarrow>
   (if length str + joined_length a js < 64 then \<exists>s. join_names a str js = Inr (a \<or> js \<noteq> [], s)
    else join_names a str js = Inl OutOfBounds)"
proof (induction js arbitrary: a str)
  case Nil
  then show ?case by simp
next
  case (Cons j js)
  let ?t = "(if a then str @ '', '' else str) @ blockers ! j"
  show ?case
  proof (cases "length ?t < 64")
    case True
    then have "join_names a str (j # js) = join_names True ?t js" by (cases a) (simp_all add: strcat64_def)
    then show ?thesis using Cons.IH [OF True, of True] by (cases a) (auto simp: add.assoc split: if_splits)
  next
    case False
    then have "join_names a str (j # js) = Inl OutOfBounds" by (cases a) (simp_all add: strcat64_def)
    then show ?thesis using False by (cases a) simp_all
  qed
qed

lemma set_bits_shift:
  fixes b :: u32
  shows "filter (bit b) [0..<Suc n] = (if odd b then [0] else []) @ map Suc (filter (bit (drop_bit 1 b)) [0..<n])"
proof -
  have "[0..<Suc n] = 0 # map Suc [0..<n]" by (simp add: map_Suc_upt upt_conv_Cons del: upt_Suc)
  then show ?thesis by (simp add: filter_map comp_def bit_drop_bit_eq bit_0 del: upt_Suc)
qed

lemma blockers_loop_join:
  "unat b < 2 ^ n \<Longrightarrow> i + n \<le> 11 \<Longrightarrow>
   blockers_loop b i a str = join_names a str (map (\<lambda>j. i + j) (filter (bit b) [0..<n]))"
proof (induction n arbitrary: b i a str)
  case 0
  then have "b = 0" by (simp add: unat_eq_0)
  then show ?case by (subst blockers_loop.simps) simp
next
  case (Suc n)
  show ?case
  proof (cases "b = 0")
    case True
    then show ?thesis by (subst blockers_loop.simps) (simp del: upt_Suc)
  next
    case False
    have d: "unat (drop_bit 1 b) < 2 ^ n" using Suc.prems(1) by (simp add: unat_drop_bit_eq drop_bit_eq_div unat_div_distrib)
    have o: "b AND 1 \<noteq> 0 \<longleftrightarrow> odd b" by (simp add: and_one_eq odd_iff_mod_2_eq_one)
    have l: "\<not> length blockers \<le> i" using Suc.prems(2) by (simp add: blockers_def)
    have "map (\<lambda>j. i + 1 + j) js = map (\<lambda>j. i + j) (map Suc js)" for js by simp
    then have ih: "blockers_loop (drop_bit (Suc 0) b) (Suc i) a' =
        (\<lambda>str'. join_names a' str' (map (\<lambda>j. i + j) (map Suc (filter (bit (drop_bit (Suc 0) b)) [0..<n]))))" for a'
      using Suc.IH [OF d, of "i + 1" a'] Suc.prems(2) by (simp add: fun_eq_iff comp_def)
    show ?thesis
      unfolding set_bits_shift map_append
      using False l by (subst blockers_loop.simps) (auto simp: o ih bind_res_assoc simp del: upt_Suc)
  qed
qed

lemma joined_length_sum:
  "joined_length True js = sum_list (map (\<lambda>j. length (blockers ! j) + 2) js)"
  "joined_length False js = sum_list (map (\<lambda>j. length (blockers ! j) + 2) js) - 2"
proof -
  show *: "joined_length True js = sum_list (map (\<lambda>j. length (blockers ! j) + 2) js)" for js
    by (induction js) simp_all
  show "joined_length False js = sum_list (map (\<lambda>j. length (blockers ! j) + 2) js) - 2"
    by (cases js) (simp_all add: *)
qed

text \<open>
  \<open>print_blockers\<close> on the eleven bits of its field always finds a name for every bit, and
  overruns its string of 64 bytes exactly when all bits are set or all but the one of the
  L2 cache or of the memory controller.
\<close>

theorem print_blockers_overruns:
  assumes "b < 0x800"
  shows "if b \<in> {0x7ff, 0x7bf, 0x77f} then print_blockers b = Inl OutOfBounds else \<exists>s. print_blockers b = Inr s"
proof -
  let ?js = "filter (bit b) [0..<11]"
  have n: "unat b < 2 ^ 11" using assms by (simp add: word_less_nat_alt)
  have u: "[0..<11] = [0, 1, 2, 3, 4, 5, 6, 7, 8, 9, 10 :: nat]" by (simp add: upt_rec)
  have e: "joined_length False ?js < 64 \<longleftrightarrow>
      \<not> (bit b 0 \<and> bit b 1 \<and> bit b 2 \<and> bit b 3 \<and> bit b 4 \<and> bit b 5 \<and> bit b 8 \<and> bit b 9 \<and> bit b 10 \<and>
         (bit b 6 \<or> bit b 7))"
  proof -
    define x where "x j = (if bit b j then length (blockers ! j) + 2 else 0)" for j
    have s: "joined_length False ?js = sum_list (map x [0..<11]) - 2"
      unfolding joined_length_sum sum_list_map_filter' x_def ..
    have l: "length (blockers ! 0) = 4" "length (blockers ! 1) = 4" "length (blockers ! 2) = 3" "length (blockers ! 3) = 3"
      "length (blockers ! 4) = 3" "length (blockers ! 5) = 8" "length (blockers ! 6) = 2" "length (blockers ! 7) = 2"
      "length (blockers ! 8) = 7" "length (blockers ! 9) = 6" "length (blockers ! 10) = 6"
      by (simp_all add: blockers_def)
    have t: "x 0 \<le> 6" "x 1 \<le> 6" "x 2 \<le> 5" "x 3 \<le> 5" "x 4 \<le> 5" "x 5 \<le> 10" "x 6 \<le> 4" "x 7 \<le> 4"
      "x 8 \<le> 9" "x 9 \<le> 8" "x 10 \<le> 8"
      unfolding x_def l by simp_all
    have m: "sum_list (map x [0..<11]) = x 0 + x 1 + x 2 + x 3 + x 4 + x 5 + x 6 + x 7 + x 8 + x 9 + x 10"
      unfolding u by (simp only: list.map sum_list.Cons sum_list.Nil)
    have z: "\<not> bit b j \<Longrightarrow> x j = 0" for j by (simp add: x_def)
    have "x j = 0 \<Longrightarrow> sum_list (map x [0..<11]) < 66" if "j \<in> {0, 1, 2, 3, 4, 5, 8, 9, 10}" for j
      unfolding m using t that by (elim insertE emptyE; hypsubst; linarith)
    then have "\<not> bit b j \<Longrightarrow> sum_list (map x [0..<11]) < 66" if "j \<in> {0, 1, 2, 3, 4, 5, 8, 9, 10}" for j
      using z [of j] that by blast
    moreover have "\<not> bit b 6 \<Longrightarrow> \<not> bit b 7 \<Longrightarrow> sum_list (map x [0..<11]) < 66"
      unfolding m using z [of 6] z [of 7] t by linarith
    moreover have "sum_list (map x [0..<11]) \<ge> 66" if "bit b 0" "bit b 1" "bit b 2" "bit b 3" "bit b 4" "bit b 5" "bit b 8"
        "bit b 9" "bit b 10" "bit b 6 \<or> bit b 7"
      unfolding m x_def l using that by (elim disjE) simp_all
    moreover have "joined_length False ?js < 64 \<longleftrightarrow> sum_list (map x [0..<11]) < 66" unfolding s by linarith
    ultimately show ?thesis by (metis insertI1 insertI2 not_less)
  qed
  have h: "\<not> bit b k" if "11 \<le> k" for k using small_word_bit [OF n that] .
  have w: "b = c \<longleftrightarrow> (\<forall>k < 11. bit b k = bit c k)" if "\<forall>k \<ge> 11. \<not> bit c k" for c :: u32
  proof
    assume e: "\<forall>k < 11. bit b k = bit c k"
    have "bit b k = bit c k" for k using h [of k] that e by (cases "k < 11") (auto simp: not_less)
    then show "b = c" by (intro word_bit_ext) blast
  qed simp
  have a: "(\<forall>k < 11. P k) \<longleftrightarrow> (\<forall>k \<in> set [0..<11]. P k)" for P :: "nat \<Rightarrow> bool" by auto
  have c: "\<forall>k \<ge> 11. \<not> bit (0x7ff :: u32) k" "\<forall>k \<ge> 11. \<not> bit (0x7bf :: u32) k" "\<forall>k \<ge> 11. \<not> bit (0x77f :: u32) k"
    using small_word_bit [of "0x7ff :: u32" 11] small_word_bit [of "0x7bf :: u32" 11] small_word_bit [of "0x77f :: u32" 11]
    by (auto simp: not_less [symmetric])
  have s: "b \<in> {0x7ff, 0x7bf, 0x77f} \<longleftrightarrow> \<not> joined_length False ?js < 64"
    unfolding e insert_iff w [OF c(1)] w [OF c(2)] w [OF c(3)] a unfolding u by simp argo
  have j: "blockers_loop b 0 False [] = join_names False [] ?js"
    using blockers_loop_join [OF n, of 0 False "[]"] by (simp del: upt_rec_numeral)
  show ?thesis
    using join_names_overflow [of "[]" False ?js] unfolding s print_blockers_def j by (auto split: if_splits)
qed

lemma print_blockers_overruns_witness:
  "print_blockers 0x7bf = Inl OutOfBounds"
  using print_blockers_overruns [of "0x7bf"] by simp

section \<open>Histograms as lists of values\<close>

definition hist_rep :: "hist \<Rightarrow> nat list \<Rightarrow> bool" where
  "hist_rep h vs =
     (hist_count h = of_nat (length vs) \<and> hist_sum h = of_nat (sum_list vs) \<and>
      (\<forall>i < NHIST. hist_bin h i = of_nat (count_list vs i)))"

lemma hist_rep_init: "hist_rep hist_init []"
  by (simp add: hist_rep_def hist_init_def)

lemma hist_rep_insert:
  assumes "hist_rep h vs" and "v < NHIST"
  shows "\<exists>h'. hist_insert (of_nat v) 1 h = Inr h' \<and> hist_rep h' (vs @ [v])"
proof -
  have u: "unat (of_nat v :: u32) = v" using assms(2) by (simp add: unat_of_nat NHIST_def)
  have w: "ucast (of_nat v :: u32) = (of_nat v :: u64)"
    by (rule word_unat_eq_iff [THEN iffD2]) (use assms(2) in \<open>simp add: unsigned_ucast_eq u unat_of_nat NHIST_def take_bit_nat_eq_self\<close>)
  let ?h = "h\<lparr>hist_bin := (hist_bin h)(v := hist_bin h v + 1), hist_count := hist_count h + 1, hist_sum := hist_sum h + of_nat v\<rparr>"
  have "hist_insert (of_nat v) 1 h = Inr ?h" using assms(2) by (simp add: hist_insert_def u w)
  moreover have "hist_rep ?h (vs @ [v])" using assms by (auto simp: hist_rep_def)
  ultimately show ?thesis by blast
qed

lemma hist_insert_refused: "\<not> unat v < NHIST \<Longrightarrow> hist_insert v n h = Inl AssertFailed"
  by (simp add: hist_insert_def)

section \<open>The bundles that are analysed\<close>

fun visible :: "bool \<Rightarrow> raw_t list \<Rightarrow> raw_t list" where
  "visible le (t0 # t1 # t2 # tb) =
     (if f1 le ''atrig'' t0 = 0 \<and> f1 le ''dtrig'' t0 = 0 then []
      else t0 # (if f1 le ''dtrig'' t0 = 0 \<and> f1 le ''atrig'' t1 \<noteq> 0
                 then t1 # (if f1 le ''atrig'' t2 \<noteq> 0 then [t2] else []) else []) @ visible le tb)"
| "visible le _ = []"

fun analyze_all :: "bool \<Rightarrow> bool \<Rightarrow> raw_t list \<Rightarrow> tbanal_state \<Rightarrow> tbanal_state res" where
  "analyze_all le is_first [] s = Inr s"
| "analyze_all le is_first (cb # cbs) s = bind_res (analyze_cntrl le cb is_first s) (analyze_all le False cbs)"

lemma analyze_all_append:
  "xs \<noteq> [] \<Longrightarrow> analyze_all le is_first (xs @ ys) s = bind_res (analyze_all le is_first xs s) (analyze_all le False ys)"
proof (induction xs arbitrary: is_first s)
  case Nil
  then show ?case by simp
next
  case (Cons x xs)
  then show ?case by (cases "xs = []") (simp_all add: bind_res_assoc, simp add: bind_res_def split: sum.split)
qed

lemma analyze_bundles_visible:
  "analyze_bundles le is_first tb s = analyze_all le is_first (visible le tb) s"
proof (induction le tb arbitrary: is_first s rule: visible.induct)
  case (1 le t0 t1 t2 tb)
  let ?e = "f1 le ''atrig'' t0 = 0 \<and> f1 le ''dtrig'' t0 = 0"
  let ?ts = "t0 # (if f1 le ''dtrig'' t0 = 0 \<and> f1 le ''atrig'' t1 \<noteq> 0
                 then t1 # (if f1 le ''atrig'' t2 \<noteq> 0 then [t2] else []) else [])"
  have b: "analyze_bundle le t0 t1 t2 is_first s =
      bind_res (analyze_all le is_first ?ts s) (\<lambda>s. Inr (False, s))" if "\<not> ?e"
    using that by (auto simp: analyze_bundle_def bind_res_assoc bind_res_def split: sum.split)
  show ?case
  proof (cases ?e)
    case True
    then show ?thesis by (simp add: analyze_bundle_def)
  next
    case False
    then have v: "visible le (t0 # t1 # t2 # tb) = ?ts @ visible le tb" by auto
    have "analyze_all le is_first (?ts @ visible le tb) s =
        bind_res (analyze_all le is_first ?ts s) (analyze_all le False (visible le tb))"
      by (rule analyze_all_append) simp
    then show ?thesis unfolding v using b [OF False] 1 [OF False]
      by (simp add: bind_res_assoc del: analyze_all.simps)
  qed
qed simp_all

section \<open>What the statistics mean\<close>

text \<open>
  An event is a bundle with its time; histories are lists of events, the last one first. A read
  is outstanding from the address phase that asks for it to the first data phase that answers
  its reader and transaction id.
\<close>

type_synonym event = "nat \<times> raw_t"

definition delta :: "bool \<Rightarrow> raw_t \<Rightarrow> nat" where
  "delta le cb = unat (f1 le ''count'' cb) + 1"

definition command :: "bool \<Rightarrow> raw_t \<Rightarrow> trx" where
  "command le cb = trx_list ! unat (f1 le ''a_cmd'' cb)"

definition reads :: "trx set" where
  "reads = {TRX_READ_SHD, TRX_READ_EXC}"

definition asks :: "bool \<Rightarrow> nat \<Rightarrow> nat \<Rightarrow> nat \<Rightarrow> raw_t \<Rightarrow> bool" where
  "asks le pass r tid cb =
     (valid_a le pass cb \<and> command le cb \<in> reads \<and> unat (f1 le ''a_aid'' cb) = r \<and> unat (f1 le ''a_tid'' cb) = tid)"

definition responds :: "bool \<Rightarrow> nat \<Rightarrow> raw_t \<Rightarrow> bool" where
  "responds le pass cb =
     (valid_d le pass cb \<and> f1 le ''d_rsp'' cb \<noteq> f1 le ''d_aid'' cb \<and> f1 le ''d_code'' cb = 1)"

definition answers :: "bool \<Rightarrow> nat \<Rightarrow> nat \<Rightarrow> nat \<Rightarrow> raw_t \<Rightarrow> bool" where
  "answers le pass r tid cb =
     (responds le pass cb \<and> unat (f1 le ''d_aid'' cb) = r \<and> unat (f1 le ''d_tid'' cb) = tid)"

fun outstanding :: "bool \<Rightarrow> nat \<Rightarrow> nat \<Rightarrow> nat \<Rightarrow> event list \<Rightarrow> (trx \<times> nat) option" where
  "outstanding le pass r tid [] = None"
| "outstanding le pass r tid ((t, cb) # es) =
     (if answers le pass r tid cb then None
      else if asks le pass r tid cb then Some (command le cb, t)
      else outstanding le pass r tid es)"

definition asked :: "bool \<Rightarrow> nat \<Rightarrow> nat \<Rightarrow> nat \<Rightarrow> event \<Rightarrow> event list \<Rightarrow> (trx \<times> nat) option" where
  "asked le pass r tid e es =
     (if asks le pass r tid (snd e) then Some (command le (snd e), fst e) else outstanding le pass r tid es)"

text \<open>The latencies of one reader, kind of read and responder.\<close>

definition latency :: "bool \<Rightarrow> nat \<Rightarrow> nat \<Rightarrow> trx \<Rightarrow> nat \<Rightarrow> event \<Rightarrow> event list \<Rightarrow> nat list" where
  "latency le pass r c a e es =
     (if responds le pass (snd e) \<and> unat (f1 le ''d_aid'' (snd e)) = r \<and> unat (f1 le ''d_rsp'' (snd e)) = a then
        (case asked le pass r (unat (f1 le ''d_tid'' (snd e))) e es of
           None \<Rightarrow> []
         | Some (c', t0) \<Rightarrow> if c' = c then [fst e - t0] else [])
      else [])"

fun latencies :: "bool \<Rightarrow> nat \<Rightarrow> nat \<Rightarrow> trx \<Rightarrow> nat \<Rightarrow> event list \<Rightarrow> nat list" where
  "latencies le pass r c a [] = []"
| "latencies le pass r c a (e # es) = latencies le pass r c a es @ latency le pass r c a e es"

definition counts :: "bool \<Rightarrow> nat \<Rightarrow> nat \<Rightarrow> trx \<Rightarrow> raw_t \<Rightarrow> bool" where
  "counts le pass ag c cb = (valid_a le pass cb \<and> unat (f1 le ''a_aid'' cb) = ag \<and> command le cb = c)"

text \<open>The history of a list of bundles, on top of the history so far.\<close>

definition now :: "event list \<Rightarrow> nat" where
  "now es = (if es = [] then 0 else fst (hd es))"

fun history :: "bool \<Rightarrow> raw_t list \<Rightarrow> event list \<Rightarrow> event list" where
  "history le [] es = es"
| "history le (cb # cbs) es = history le cbs ((if es = [] then 0 else now es + delta le cb, cb) # es)"

text \<open>The bundles the tables have room for.\<close>

definition wf_bundle :: "bool \<Rightarrow> nat \<Rightarrow> raw_t \<Rightarrow> bool" where
  "wf_bundle le pass cb =
     ((valid_a le pass cb \<longrightarrow> unat (f1 le ''a_aid'' cb) < AGT_COUNT \<and> command le cb \<notin> {TRX_RSRVD5, TRX_RSRVD6, TRX_COUNT} \<and>
         (command le cb \<in> reads \<longrightarrow> unat (f1 le ''a_aid'' cb) < AGT_READER_COUNT)) \<and>
      (responds le pass cb \<longrightarrow> unat (f1 le ''d_aid'' cb) < AGT_READER_COUNT \<and> unat (f1 le ''d_rsp'' cb) < AGT_COUNT))"

section \<open>The steps of the analysis\<close>

fun rep_read :: "trx_time \<Rightarrow> (trx \<times> nat) option \<Rightarrow> bool" where
  "rep_read x None = (rd_trans x = TRX_COUNT)"
| "rep_read x (Some (c, t0)) = (c \<in> reads \<and> x = \<lparr>rd_trans = c, rd_time = of_nat t0\<rparr>)"

definition rep_reads :: "tbanal_state \<Rightarrow> (nat \<Rightarrow> nat \<Rightarrow> (trx \<times> nat) option) \<Rightarrow> bool" where
  "rep_reads s f = (\<forall>r < AGT_READER_COUNT. \<forall>tid < NTID. rep_read (last_read s r tid) (f r tid))"

lemma rep_readsD: "rep_reads s f \<Longrightarrow> r < AGT_READER_COUNT \<Longrightarrow> tid < NTID \<Longrightarrow> rep_read (last_read s r tid) (f r tid)"
  by (simp add: rep_reads_def)

definition rep_lats :: "tbanal_state \<Rightarrow> tbanal_state \<Rightarrow> (nat \<Rightarrow> trx \<Rightarrow> nat \<Rightarrow> nat list) \<Rightarrow> bool" where
  "rep_lats s0 s f =
     (\<forall>r < AGT_READER_COUNT. \<forall>c \<in> reads. \<forall>a < AGT_COUNT. \<forall>vs.
        hist_rep (read_lat s0 r (trx_code c) a) vs \<longrightarrow> hist_rep (read_lat s r (trx_code c) a) (vs @ f r c a))"

definition rep_counts :: "tbanal_state \<Rightarrow> tbanal_state \<Rightarrow> (nat \<Rightarrow> trx \<Rightarrow> nat) \<Rightarrow> bool" where
  "rep_counts s0 s f =
     (\<forall>ag < AGT_COUNT. \<forall>c. trans_counts s ag (trx_code c) = trans_counts s0 ag (trx_code c) + of_nat (f ag c))"

definition rep_idle :: "tbanal_state \<Rightarrow> tbanal_state \<Rightarrow> nat list \<Rightarrow> bool" where
  "rep_idle s0 s vs = (\<forall>us. hist_rep (idle s0) us \<longrightarrow> hist_rep (idle s) (us @ vs))"

lemma f1_bound: "unat (f1 le n t) < 2 ^ snd (snd (field le rev1_cntrl_bundle n))"
proof -
  have "unat (f1 le n t) = take_bit (snd (snd (field le rev1_cntrl_bundle n))) (unat (f1 le n t))"
    unfolding f1_def by (subst get_cut [symmetric]) (simp add: unsigned_take_bit_eq)
  then show ?thesis using take_bit_nat_less_exp by metis
qed

lemma widths:
  "snd (snd (field le rev1_cntrl_bundle ''count'')) = 12"
  "snd (snd (field le rev1_cntrl_bundle ''a_tid'')) = 6"
  "snd (snd (field le rev1_cntrl_bundle ''d_tid'')) = 6"
  "snd (snd (field le rev1_cntrl_bundle ''a_cmd'')) = 3"
  by (cases le; code_simp)+

lemma delta_bound: "delta le cb \<le> 4096"
  using f1_bound [of le "''count''" cb] by (simp add: widths delta_def)

lemma tid_bounds: "unat (f1 le ''a_tid'' cb) < NTID" "unat (f1 le ''d_tid'' cb) < NTID"
  using f1_bound [of le "''a_tid''" cb] f1_bound [of le "''d_tid''" cb] by (simp_all add: widths NTID_def)

lemma command_not_count: "command le cb \<noteq> TRX_COUNT"
proof -
  have "unat (f1 le ''a_cmd'' cb) < 8" using f1_bound [of le "''a_cmd''" cb] by (simp add: widths)
  then have "unat (f1 le ''a_cmd'' cb) \<in> {0, 1, 2, 3, 4, 5, 6, 7}" by auto
  then show ?thesis by (auto simp: command_def trx_list_def)
qed

lemma analyze_delta_step:
  "\<exists>h. analyze_delta le cb s = Inr (s\<lparr>curtime := curtime s + of_nat (delta le cb), idle := h\<rparr>) \<and>
     (\<forall>us. hist_rep (idle s) us \<longrightarrow> hist_rep h (us @ [delta le cb]))"
proof -
  have c: "ucast (f1 le ''count'' cb) + 1 = (of_nat (delta le cb) :: u32)"
  proof -
    have "unat (f1 le ''count'' cb) < 4096" using f1_bound [of le "''count''" cb] by (simp add: widths)
    then have "ucast (f1 le ''count'' cb) = (of_nat (unat (f1 le ''count'' cb)) :: u32)"
      by (intro word_unat_eq_iff [THEN iffD2]) (simp add: unsigned_ucast_eq unat_of_nat take_bit_nat_eq_self)
    then show ?thesis by (simp add: delta_def)
  qed
  have v: "delta le cb < NHIST" using delta_bound [of le cb] by (simp add: NHIST_def)
  have u: "unat (of_nat (delta le cb) :: u32) < NHIST"
    using v by (simp add: unat_of_nat NHIST_def)
  obtain h where h: "hist_insert (of_nat (delta le cb)) 1 (idle s) = Inr h" using u by (auto simp: hist_insert_def)
  moreover have "\<forall>us. hist_rep (idle s) us \<longrightarrow> hist_rep h (us @ [delta le cb])"
    using hist_rep_insert [OF _ v, of "idle s"] h by fastforce
  ultimately show ?thesis by (auto simp: analyze_delta_def Let_def c)
qed

lemma trx_code_inj [simp]: "trx_code c = trx_code d \<longleftrightarrow> c = d"
  by (cases c; cases d) simp_all

lemma analyze_a_step:
  assumes "wf_bundle le pass cb" and "valid_a le pass cb" and "rep_reads s f" and "curtime s = of_nat t"
  shows "\<exists>lr tc. analyze_a le cb s = Inr (s\<lparr>last_read := lr, trans_counts := tc\<rparr>) \<and>
    rep_reads (s\<lparr>last_read := lr, trans_counts := tc\<rparr>)
      (\<lambda>r tid. if asks le pass r tid cb then Some (command le cb, t) else f r tid) \<and>
    (\<forall>ag c. tc ag (trx_code c) = trans_counts s ag (trx_code c) + (if counts le pass ag c cb then 1 else 0))"
proof -
  let ?ag = "unat (f1 le ''a_aid'' cb)" and ?tid = "unat (f1 le ''a_tid'' cb)" and ?c = "command le cb"
  let ?tc = "(trans_counts s)(?ag := (trans_counts s ?ag)(trx_code ?c := trans_counts s ?ag (trx_code ?c) + 1))"
  let ?lr = "if ?c \<in> reads then (last_read s)(?ag := (last_read s ?ag)(?tid := \<lparr>rd_trans = ?c, rd_time = curtime s\<rparr>)) else last_read s"
  have w: "?ag < AGT_COUNT" "?c \<notin> {TRX_RSRVD5, TRX_RSRVD6, TRX_COUNT}" "?c \<in> reads \<longrightarrow> ?ag < AGT_READER_COUNT"
    using assms(1,2) by (simp_all add: wf_bundle_def)
  have "analyze_a le cb s = Inr (s\<lparr>last_read := ?lr, trans_counts := ?tc\<rparr>)"
  proof (cases "?c \<in> reads")
    case True
    then show ?thesis using w
      by (simp add: analyze_a_def Let_def command_def reads_def set_last_read_def count_trans_def)
  next
    case False
    then have "?c \<in> {TRX_WRITE, TRX_WR_INV, TRX_INV, TRX_NOP}" using w(2) by (cases ?c) (simp_all add: reads_def)
    then show ?thesis using False w(1)
      by (simp add: analyze_a_def Let_def command_def reads_def count_trans_def)
  qed
  moreover have "rep_reads (s\<lparr>last_read := ?lr, trans_counts := ?tc\<rparr>)
      (\<lambda>r tid. if asks le pass r tid cb then Some (?c, t) else f r tid)"
    using assms(2-4) unfolding rep_reads_def asks_def by simp
  moreover have "\<forall>ag c. ?tc ag (trx_code c) = trans_counts s ag (trx_code c) + (if counts le pass ag c cb then 1 else 0)"
    using assms(2) by (auto simp: counts_def)
  ultimately show ?thesis by blast
qed

lemma analyze_d_silent:
  assumes "\<not> responds le pass cb" and "valid_d le pass cb"
  shows "\<exists>out. analyze_d le cb s = Inr (s\<lparr>tb_out := out\<rparr>)"
proof -
  have "\<exists>out. s = s\<lparr>tb_out := out\<rparr>" by (rule exI [of _ "tb_out s"]) simp
  then show ?thesis using assms by (auto simp: analyze_d_def responds_def say_def)
qed

text \<open>The answer to a read: nothing was outstanding, or its latency is put in a histogram, or is too long for it.\<close>

lemma read_response_step:
  assumes "r < AGT_READER_COUNT" and "tid < NTID" and "a < AGT_COUNT" and "rep_reads s f" and "curtime s = of_nat t"
    and "case f r tid of None \<Rightarrow> True | Some (c, t0) \<Rightarrow> t0 \<le> t" and "t \<le> NHIST"
  shows "(\<exists>lr rl. read_response r tid a s = Inr (s\<lparr>last_read := lr, read_lat := rl\<rparr>) \<and>
      rep_reads (s\<lparr>last_read := lr, read_lat := rl\<rparr>) (\<lambda>r' tid'. if r' = r \<and> tid' = tid then None else f r' tid') \<and>
      (\<forall>r' c' a' vs. hist_rep (read_lat s r' (trx_code c') a') vs \<longrightarrow>
         hist_rep (rl r' (trx_code c') a')
           (vs @ (if r' = r \<and> a' = a then case f r tid of None \<Rightarrow> [] | Some (c, t0) \<Rightarrow> if c = c' then [t - t0] else [] else [])))) \<or>
    (t = NHIST \<and> read_response r tid a s = Inl AssertFailed)"
proof (cases "f r tid")
  case None
  then have n: "rd_trans (last_read s r tid) = TRX_COUNT" using rep_readsD [OF assms(4,1,2)] by simp
  have "s = s\<lparr>last_read := last_read s, read_lat := read_lat s\<rparr>" by simp
  moreover have "read_response r tid a s = Inr s" using n assms(1) by (simp add: read_response_def)
  moreover have "rep_reads s (\<lambda>r' tid'. if r' = r \<and> tid' = tid then None else f r' tid')"
    using assms(4) n by (auto simp: rep_reads_def)
  ultimately show ?thesis using None by (intro disjI1 exI [of _ "last_read s"] exI [of _ "read_lat s"]) simp
next
  case (Some p)
  then obtain c t0 where p: "f r tid = Some (c, t0)" by (cases p) simp
  then have l: "c \<in> reads" "last_read s r tid = \<lparr>rd_trans = c, rd_time = of_nat t0\<rparr>" "t0 \<le> t"
    using rep_readsD [OF assms(4,1,2)] assms(6) by simp_all
  then have nc: "c \<noteq> TRX_COUNT" by (auto simp: reads_def)
  have dl: "curtime s - of_nat t0 = of_nat (t - t0)" using l(3) assms(5) by (simp add: of_nat_diff)
  let ?h = "read_lat s r (trx_code c) a"
  have eq: "read_response r tid a s = bind_res (hist_insert (of_nat (t - t0)) 1 ?h) (\<lambda>h.
      set_last_read r tid \<lparr>rd_trans = TRX_COUNT, rd_time = of_nat t0\<rparr>
        (s\<lparr>read_lat := (read_lat s)(r := (read_lat s r)(trx_code c := (read_lat s r (trx_code c))(a := h)))\<rparr>))"
    using assms(1,3) nc by (simp add: read_response_def Let_def l(2) dl)
  show ?thesis
  proof (cases "t - t0 < NHIST")
    case True
    have u: "unat (of_nat (t - t0) :: u32) < NHIST" using True by (simp add: unat_of_nat NHIST_def)
    obtain h where h: "hist_insert (of_nat (t - t0)) 1 ?h = Inr h" using u by (auto simp: hist_insert_def)
    then have hr: "hist_rep h (vs @ [t - t0])" if "hist_rep ?h vs" for vs using hist_rep_insert [OF that True] by auto
    let ?lr = "(last_read s)(r := (last_read s r)(tid := \<lparr>rd_trans = TRX_COUNT, rd_time = of_nat t0\<rparr>))"
    let ?rl = "(read_lat s)(r := (read_lat s r)(trx_code c := (read_lat s r (trx_code c))(a := h)))"
    have "read_response r tid a s = Inr (s\<lparr>last_read := ?lr, read_lat := ?rl\<rparr>)"
      unfolding eq h using assms(1) by (simp add: set_last_read_def)
    moreover have "rep_reads (s\<lparr>last_read := ?lr, read_lat := ?rl\<rparr>) (\<lambda>r' tid'. if r' = r \<and> tid' = tid then None else f r' tid')"
      using assms(4) by (auto simp: rep_reads_def)
    ultimately show ?thesis using hr p by (intro disjI1 exI [of _ ?lr] exI [of _ ?rl]) auto
  next
    case False
    then have t: "t = NHIST" "t0 = 0" using assms(7) l(3) unfolding NHIST_def by linarith+
    then have "read_response r tid a s = Inl AssertFailed" unfolding eq by (simp add: hist_insert_def NHIST_def)
    then show ?thesis using t by simp
  qed
qed

section \<open>A whole trace buffer\<close>

definition analysed :: "bool \<Rightarrow> tbanal_state \<Rightarrow> event list \<Rightarrow> tbanal_state \<Rightarrow> bool" where
  "analysed le s0 es s =
     (soc_pass s = soc_pass s0 \<and> tb_length s = tb_length s0 \<and> curtime s = of_nat (now es) \<and>
      rep_reads s (\<lambda>r tid. outstanding le (soc_pass s0) r tid es) \<and>
      rep_lats s0 s (\<lambda>r c a. latencies le (soc_pass s0) r c a es) \<and>
      rep_counts s0 s (\<lambda>ag c. length (filter (counts le (soc_pass s0) ag c) (map snd es))) \<and>
      rep_idle s0 s (map (delta le) (tl (rev (map snd es)))))"

lemma outstanding_time:
  "\<forall>e \<in> set es. fst e \<le> t \<Longrightarrow> case outstanding le pass r tid es of None \<Rightarrow> True | Some (c, t0) \<Rightarrow> t0 \<le> t"
  by (induction le pass r tid es rule: outstanding.induct) auto

lemma tl_snoc: "xs \<noteq> [] \<Longrightarrow> tl (xs @ [x]) = tl xs @ [x]"
  by (cases xs) auto

text \<open>The address phase and the clock.\<close>

lemma analyse_first_half:
  fixes s0 s
  defines "pass \<equiv> soc_pass s0"
  assumes "analysed le s0 es s" and "wf_bundle le pass cb"
    and "t = (if es = [] then 0 else now es + delta le cb)"
  shows "\<exists>s2. bind_res (if es \<noteq> [] then analyze_delta le cb s else Inr s)
        (\<lambda>s1. if valid_a le (soc_pass s1) cb then analyze_a le cb s1 else Inr s1) = Inr s2 \<and>
    soc_pass s2 = pass \<and> tb_length s2 = tb_length s0 \<and> curtime s2 = of_nat t \<and>
    rep_reads s2 (\<lambda>r tid. asked le pass r tid (t, cb) es) \<and>
    rep_lats s0 s2 (\<lambda>r c a. latencies le pass r c a es) \<and>
    rep_counts s0 s2 (\<lambda>ag c. length (filter (counts le pass ag c) (map snd ((t, cb) # es)))) \<and>
    rep_idle s0 s2 (map (delta le) (tl (rev (map snd ((t, cb) # es)))))"
proof -
  have an: "soc_pass s = pass" "tb_length s = tb_length s0" "curtime s = of_nat (now es)"
    "rep_reads s (\<lambda>r tid. outstanding le pass r tid es)" "rep_lats s0 s (\<lambda>r c a. latencies le pass r c a es)"
    "rep_counts s0 s (\<lambda>ag c. length (filter (counts le pass ag c) (map snd es)))"
    "rep_idle s0 s (map (delta le) (tl (rev (map snd es))))"
    using assms(2) by (simp_all add: analysed_def pass_def)
  obtain ct h where s1: "(if es \<noteq> [] then analyze_delta le cb s else Inr s) = Inr (s\<lparr>curtime := ct, idle := h\<rparr>)"
    "ct = of_nat t" "rep_idle s0 (s\<lparr>curtime := ct, idle := h\<rparr>) (map (delta le) (tl (rev (map snd ((t, cb) # es)))))"
  proof (cases "es = []")
    case True
    then show ?thesis using that [of "idle s" "curtime s"] an(3,7) assms(4) by (simp add: now_def rep_idle_def)
  next
    case False
    obtain h where h: "analyze_delta le cb s = Inr (s\<lparr>curtime := curtime s + of_nat (delta le cb), idle := h\<rparr>)"
      "\<forall>us. hist_rep (idle s) us \<longrightarrow> hist_rep h (us @ [delta le cb])"
      using analyze_delta_step by blast
    have "tl (rev (map snd ((t, cb) # es))) = tl (rev (map snd es)) @ [cb]" using False by (simp add: tl_snoc)
    then have i: "rep_idle s0 (s\<lparr>curtime := curtime s + of_nat (delta le cb), idle := h\<rparr>) (map (delta le) (tl (rev (map snd ((t, cb) # es)))))"
      using an(7) h(2) by (simp add: rep_idle_def flip: append_assoc)
    show ?thesis using that [OF _ _ i] h(1) False assms(4) an(3) by simp
  qed
  let ?s1 = "s\<lparr>curtime := ct, idle := h\<rparr>"
  have r1: "rep_reads ?s1 (\<lambda>r tid. outstanding le pass r tid es)" using an(4) by (simp add: rep_reads_def)
  show ?thesis
  proof (cases "valid_a le pass cb")
    case True
    obtain lr tc where a: "analyze_a le cb ?s1 = Inr (?s1\<lparr>last_read := lr, trans_counts := tc\<rparr>)"
      "rep_reads (?s1\<lparr>last_read := lr, trans_counts := tc\<rparr>)
        (\<lambda>r tid. if asks le pass r tid cb then Some (command le cb, t) else outstanding le pass r tid es)"
      "\<forall>ag c. tc ag (trx_code c) = trans_counts ?s1 ag (trx_code c) + (if counts le pass ag c cb then 1 else 0)"
      using analyze_a_step [OF assms(3) True r1, of t] s1(2) by auto
    let ?s2 = "?s1\<lparr>last_read := lr, trans_counts := tc\<rparr>"
    have "rep_counts s0 ?s2 (\<lambda>ag c. length (filter (counts le pass ag c) (map snd ((t, cb) # es))))"
      using an(6) a(3) by (simp add: rep_counts_def add.assoc)
    moreover have "rep_lats s0 ?s2 (\<lambda>r c a. latencies le pass r c a es)" using an(5) by (simp add: rep_lats_def)
    moreover have "rep_idle s0 ?s2 (map (delta le) (tl (rev (map snd ((t, cb) # es)))))" using s1(3) by (simp add: rep_idle_def)
    moreover have "rep_reads ?s2 (\<lambda>r tid. asked le pass r tid (t, cb) es)" using a(2) by (simp only: asked_def fst_conv snd_conv)
    ultimately show ?thesis using s1(1,2) a(1) True an(1,2) by (intro exI [of _ ?s2]) simp
  next
    case False
    then have n: "\<not> counts le pass ag c cb" "\<not> asks le pass r tid cb" for ag c r tid by (simp_all add: counts_def asks_def)
    have "rep_counts s0 ?s1 (\<lambda>ag c. length (filter (counts le pass ag c) (map snd ((t, cb) # es))))"
      using an(6) n by (simp add: rep_counts_def)
    moreover have "rep_lats s0 ?s1 (\<lambda>r c a. latencies le pass r c a es)" using an(5) by (simp add: rep_lats_def)
    moreover have "rep_reads ?s1 (\<lambda>r tid. asked le pass r tid (t, cb) es)" using r1 n by (simp add: asked_def)
    ultimately show ?thesis using s1 False an(1,2) by (intro exI [of _ ?s1]) simp
  qed
qed

lemma asked_time:
  assumes "\<forall>e \<in> set es. fst e \<le> t"
  shows "case asked le pass r tid (t, cb) es of None \<Rightarrow> True | Some (c, t0) \<Rightarrow> t0 \<le> t"
  using outstanding_time [OF assms, of le pass r tid] by (simp add: asked_def)

lemma outstanding_Cons:
  "outstanding le pass r tid ((t, cb) # es) = (if answers le pass r tid cb then None else asked le pass r tid (t, cb) es)"
  by (simp add: asked_def)

lemma analyse_event:
  fixes s0 s
  defines "pass \<equiv> soc_pass s0"
  assumes an: "analysed le s0 es s" and wf: "wf_bundle le pass cb"
    and t: "t = (if es = [] then 0 else now es + delta le cb)" and "t \<le> NHIST" and es: "\<forall>e \<in> set es. fst e \<le> t"
  shows "(\<exists>s'. analyze_cntrl le cb (es = []) s = Inr s' \<and> analysed le s0 ((t, cb) # es) s') \<or>
    (t = NHIST \<and> analyze_cntrl le cb (es = []) s = Inl AssertFailed)"
proof -
  obtain s2 where s2: "bind_res (if es \<noteq> [] then analyze_delta le cb s else Inr s)
        (\<lambda>s1. if valid_a le (soc_pass s1) cb then analyze_a le cb s1 else Inr s1) = Inr s2"
    and f: "soc_pass s2 = pass" "tb_length s2 = tb_length s0" "curtime s2 = of_nat t"
    "rep_reads s2 (\<lambda>r tid. asked le pass r tid (t, cb) es)"
    "rep_lats s0 s2 (\<lambda>r c a. latencies le pass r c a es)"
    "rep_counts s0 s2 (\<lambda>ag c. length (filter (counts le pass ag c) (map snd ((t, cb) # es))))"
    "rep_idle s0 s2 (map (delta le) (tl (rev (map snd ((t, cb) # es)))))"
    using analyse_first_half [OF an wf [unfolded pass_def] t] unfolding pass_def by blast
  have eq: "analyze_cntrl le cb (es = []) s = (if valid_d le pass cb then analyze_d le cb s2 else Inr s2)"
    using s2 f(1) by (auto simp: analyze_cntrl_def bind_res_assoc [symmetric] simp del: bind_res_assoc)
  have n: "now ((t, cb) # es) = t" by (simp add: now_def)
  show ?thesis
  proof (cases "responds le pass cb")
    case False
    obtain out where "analyze_cntrl le cb (es = []) s = Inr (s2\<lparr>tb_out := out\<rparr>)"
    proof (cases "valid_d le pass cb")
      case True
      then show ?thesis using analyze_d_silent [OF False True, of s2] that eq by auto
    next
      case nd: False
      have "s2 = s2\<lparr>tb_out := tb_out s2\<rparr>" by simp
      then show ?thesis using that [of "tb_out s2"] eq nd by simp
    qed
    moreover have "analysed le s0 ((t, cb) # es) (s2\<lparr>tb_out := out\<rparr>)" for out
      using f False
      by (simp add: analysed_def n pass_def [symmetric] rep_reads_def rep_lats_def rep_counts_def rep_idle_def
          outstanding_Cons answers_def latency_def del: outstanding.simps list.map)
    ultimately show ?thesis by blast
  next
    case True
    let ?r = "unat (f1 le ''d_aid'' cb)" and ?tid = "unat (f1 le ''d_tid'' cb)" and ?a = "unat (f1 le ''d_rsp'' cb)"
    have b: "?r < AGT_READER_COUNT" "?a < AGT_COUNT" using wf True by (simp_all add: wf_bundle_def)
    have d: "analyze_cntrl le cb (es = []) s = read_response ?r ?tid ?a s2"
      using eq True by (simp add: responds_def analyze_d_def)
    have a: "answers le pass r tid cb = (r = ?r \<and> tid = ?tid)" for r tid using True by (auto simp: answers_def)
    from read_response_step [OF b(1) tid_bounds(2) [of le cb] b(2) f(4,3) asked_time [OF es] assms(5)]
    show ?thesis
    proof (elim disjE exE conjE)
      fix lr rl
      let ?s = "s2\<lparr>last_read := lr, read_lat := rl\<rparr>"
      assume r: "read_response ?r ?tid ?a s2 = Inr ?s"
        and rr: "rep_reads ?s (\<lambda>r' tid'. if r' = ?r \<and> tid' = ?tid then None else asked le pass r' tid' (t, cb) es)"
        and rl: "\<forall>r' c' a' vs. hist_rep (read_lat s2 r' (trx_code c') a') vs \<longrightarrow>
         hist_rep (rl r' (trx_code c') a') (vs @ (if r' = ?r \<and> a' = ?a
           then case asked le pass ?r ?tid (t, cb) es of None \<Rightarrow> [] | Some (c, t0) \<Rightarrow> if c = c' then [t - t0] else [] else []))"
      have l: "latency le pass r c a' (t, cb) es = (if r = ?r \<and> a' = ?a
           then case asked le pass ?r ?tid (t, cb) es of None \<Rightarrow> [] | Some (c', t0) \<Rightarrow> if c' = c then [t - t0] else [] else [])"
        for r c a'
        unfolding latency_def fst_conv snd_conv using True by auto
      have "rep_lats s0 ?s (\<lambda>r c a. latencies le pass r c a ((t, cb) # es))"
        using f(5) rl unfolding rep_lats_def latencies.simps l by (simp flip: append_assoc)
      then have "analysed le s0 ((t, cb) # es) ?s"
        using f rr by (simp add: analysed_def n pass_def [symmetric] rep_counts_def rep_idle_def
          outstanding_Cons a del: outstanding.simps list.map latencies.simps)
      then show ?thesis using r d by auto
    next
      assume "t = NHIST" "read_response ?r ?tid ?a s2 = Inl AssertFailed"
      then show ?thesis using d by simp
    qed
  qed
qed

lemma history_time:
  "es \<noteq> [] \<Longrightarrow> now (history le cbs es) = now es + sum_list (map (delta le) cbs)"
  by (induction le cbs es rule: history.induct) (auto simp: now_def)

lemma history_total:
  "now (history le cbs []) = sum_list (map (delta le) (tl cbs))"
  by (cases cbs) (simp_all add: now_def history_time [unfolded now_def])

lemma history_bundles: "rev (map snd (history le cbs es)) = rev (map snd es) @ cbs"
  by (induction le cbs es rule: history.induct) simp_all

lemma now_history: "now es \<le> now (history le cbs es)"
proof (cases "es = []")
  case True
  then show ?thesis by (simp add: now_def)
next
  case False
  then show ?thesis by (simp add: history_time)
qed

lemma analyse_history:
  assumes "analysed le s0 es s" and "\<forall>cb \<in> set cbs. wf_bundle le (soc_pass s0) cb"
    and "now (history le cbs es) \<le> NHIST" and "\<forall>e \<in> set es. fst e \<le> now es"
  shows "(\<exists>s'. analyze_all le (es = []) cbs s = Inr s' \<and> analysed le s0 (history le cbs es) s') \<or>
    (now (history le cbs es) = NHIST \<and> analyze_all le (es = []) cbs s = Inl AssertFailed)"
  using assms
proof (induction cbs arbitrary: es s)
  case Nil
  then show ?case by simp
next
  case (Cons cb cbs)
  let ?t = "if es = [] then 0 else now es + delta le cb"
  let ?es = "(?t, cb) # es"
  have h: "history le (cb # cbs) es = history le cbs ?es" by simp
  have n: "now ?es = ?t" by (simp add: now_def)
  have t: "?t \<le> now (history le cbs ?es)" using now_history [of ?es le cbs] unfolding n .
  have le: "\<forall>e \<in> set es. fst e \<le> ?t" using Cons.prems(4) by (cases "es = []") auto
  have wf: "wf_bundle le (soc_pass s0) cb" using Cons.prems(2) by simp
  have tb: "?t \<le> NHIST" using t Cons.prems(3) unfolding h by linarith
  from analyse_event [OF Cons.prems(1) wf refl tb le] show ?case
  proof (elim disjE exE conjE)
    fix s' assume s': "analyze_cntrl le cb (es = []) s = Inr s'" "analysed le s0 ?es s'"
    have "\<forall>e \<in> set ?es. fst e \<le> now ?es" using le unfolding n by auto
    from Cons.IH [OF s'(2) _ _ this] Cons.prems(2,3) s'(1) show ?thesis by (simp add: h)
  next
    assume "?t = NHIST" "analyze_cntrl le cb (es = []) s = Inl AssertFailed"
    then show ?thesis using t Cons.prems(3) unfolding h by simp
  qed
qed

lemma no_events: "\<forall>e \<in> set ([] :: event list). fst e \<le> now []"
  by simp

lemma reset_analysed: "analysed le s [] (reset_reads s)"
  by (simp add: analysed_def reset_reads_def now_def rep_reads_def rep_lats_def rep_counts_def rep_idle_def)

text \<open>
  C27: The statistics of a trace buffer whose bundles name agents the tables have room for and use no
  reserved command, and that lasts less than 8192 cycles: the analysis returns; the idle histogram has
  grown by the delta of every bundle but the first; the length histogram by the length
  of the buffer; the latency histogram of every reader, kind of read and responder by the
  time from each request to the first answer that carries its transaction id (answers without a
  request in the buffer are left out); and every transaction count by the number
  of its address phases.
\<close>

theorem tbanal_statistics:
  assumes "\<forall>cb \<in> set (visible le tb). wf_bundle le (soc_pass s) cb"
    and "zclks = sum_list (map (delta le) (tl (visible le tb)))" and "zclks < 8192"
    and "es = history le (visible le tb) []"
  shows "\<exists>s'. tbanal le tb s = Inr s' \<and>
    (\<forall>vs. hist_rep (idle s) vs \<longrightarrow> hist_rep (idle s') (vs @ map (delta le) (tl (visible le tb)))) \<and>
    (\<forall>vs. hist_rep (tb_length s) vs \<longrightarrow> hist_rep (tb_length s') (vs @ [zclks])) \<and>
    (\<forall>r < 5. \<forall>c \<in> {TRX_READ_SHD, TRX_READ_EXC}. \<forall>a < 8. \<forall>vs. hist_rep (read_lat s r (trx_code c) a) vs \<longrightarrow>
       hist_rep (read_lat s' r (trx_code c) a) (vs @ latencies le (soc_pass s) r c a es)) \<and>
    (\<forall>ag < 8. \<forall>c. trans_counts s' ag (trx_code c) = trans_counts s ag (trx_code c) +
       of_nat (length (filter (counts le (soc_pass s) ag c) (visible le tb))))"
proof -
  have n: "now es = zclks" using assms(2,4) by (simp add: history_total)
  have "now (history le (visible le tb) []) \<le> NHIST" using n assms(3,4) by (simp add: NHIST_def)
  from analyse_history [OF reset_analysed assms(1) this] n assms(3,4)
  obtain s1 where s1: "analyze_bundles le True tb (reset_reads s) = Inr s1" "analysed le s es s1"
    by (auto simp: analyze_bundles_visible NHIST_def)
  have ct: "curtime s1 = of_nat zclks" "tb_length s1 = tb_length s" using s1(2) n by (simp_all add: analysed_def)
  have u: "unat (curtime s1) = zclks" using ct(1) assms(3) by (simp add: unat_of_nat)
  obtain h where h: "hist_insert (of_nat zclks) 1 (tb_length s1) = Inr h" using u assms(3) ct(1) by (auto simp: hist_insert_def NHIST_def)
  have hr: "hist_rep h (vs @ [zclks])" if "hist_rep (tb_length s) vs" for vs
    using hist_rep_insert [OF that, of zclks] h assms(3) ct(2) by (auto simp: NHIST_def)
  have l: "\<not> curtime s1 > 8192" using u assms(3) by (simp add: word_less_nat_alt)
  have t: "tbanal le tb s = Inr (s1\<lparr>tb_length := h\<rparr>)" using s1(1) h l ct(1) by (simp add: tbanal_def)
  have v: "rev (map snd es) = visible le tb" using history_bundles [of le "visible le tb" "[]"] assms(4) by simp
  have "length (filter P (map snd es)) = length (filter P (visible le tb))" for P
    unfolding v [symmetric] by (simp add: rev_filter [symmetric])
  then show ?thesis using s1(2) hr t v
    by (intro exI [of _ "s1\<lparr>tb_length := h\<rparr>"])
      (simp add: analysed_def rep_lats_def rep_counts_def rep_idle_def reads_def AGT_READER_COUNT_def AGT_COUNT_def)
qed

text \<open>A read of the memory by CPU 0, the answer ten cycles later, and two long waits.\<close>

definition read_request :: raw_t where
  "read_request = \<lparr>raw_lo = 0x0000010000000000, raw_hi = 0x8000050000000000\<rparr>"

definition read_answer :: raw_t where
  "read_answer = \<lparr>raw_lo = 0x0000008000000571, raw_hi = 0x4024000000000000\<rparr>"

definition long_wait :: raw_t where
  "long_wait = \<lparr>raw_lo = 0, raw_hi = 0x7ffc000000000000\<rparr>"

definition no_bundle :: raw_t where
  "no_bundle = \<lparr>raw_lo = 0, raw_hi = 0\<rparr>"

lemma tbanal_statistics_witness:
  "\<exists>s'. tbanal False [read_request, no_bundle, no_bundle, read_answer, no_bundle, no_bundle] initial_state = Inr s' \<and>
     hist_rep (read_lat s' 0 (trx_code TRX_READ_SHD) 7) [10] \<and> hist_rep (tb_length s') [10]"
proof -
  let ?tb = "[read_request, no_bundle, no_bundle, read_answer, no_bundle, no_bundle]"
  have v: "visible False ?tb = [read_request, read_answer]" by code_simp
  have w: "\<forall>cb \<in> set (visible False ?tb). wf_bundle False (soc_pass initial_state) cb" unfolding v by code_simp
  have d: "10 = sum_list (map (delta False) (tl (visible False ?tb)))" unfolding v by code_simp
  have l: "latencies False (soc_pass initial_state) 0 TRX_READ_SHD 7 (history False (visible False ?tb) []) = [10]"
    unfolding v by code_simp
  have i: "hist_rep (tb_length initial_state) []" "hist_rep (read_lat initial_state 0 (trx_code TRX_READ_SHD) 7) []"
    by (simp_all add: initial_state_def hist_rep_init)
  obtain s' where s': "tbanal False ?tb initial_state = Inr s'"
    "\<forall>vs. hist_rep (tb_length initial_state) vs \<longrightarrow> hist_rep (tb_length s') (vs @ [10])"
    "\<forall>r < 5. \<forall>c \<in> {TRX_READ_SHD, TRX_READ_EXC}. \<forall>a < 8. \<forall>vs. hist_rep (read_lat initial_state r (trx_code c) a) vs \<longrightarrow>
       hist_rep (read_lat s' r (trx_code c) a) (vs @ latencies False (soc_pass initial_state) r c a (history False (visible False ?tb) []))"
    using tbanal_statistics [OF w d _ refl] by auto
  have "hist_rep (tb_length s') [10]" using s'(2) i(1) by fastforce
  moreover have "hist_rep (read_lat s' 0 (trx_code TRX_READ_SHD) 7) [10]"
    using s'(3) [rule_format, of 0 TRX_READ_SHD 7 "[]"] i(2) l by simp
  ultimately show ?thesis using s'(1) by blast
qed

text \<open>
  A buffer of such bundles that lasts exactly 8192 cycles ends in a failed assertion: the
  test before the length is put in its histogram lets 8192 through, which has no bin.
\<close>

theorem tbanal_length_8192:
  assumes "\<forall>cb \<in> set (visible le tb). wf_bundle le (soc_pass s) cb"
    and "sum_list (map (delta le) (tl (visible le tb))) = 8192"
  shows "tbanal le tb s = Inl AssertFailed"
proof -
  have n: "now (history le (visible le tb) []) = 8192" using assms(2) by (simp add: history_total)
  have "now (history le (visible le tb) []) \<le> NHIST" using n by (simp add: NHIST_def)
  from analyse_history [OF reset_analysed assms(1) this no_events]
  show ?thesis
  proof (elim disjE exE conjE)
    fix s1 assume s1: "analyze_all le ([] = []) (visible le tb) (reset_reads s) = Inr s1" "analysed le s (history le (visible le tb) []) s1"
    have "curtime s1 = 8192" using s1(2) n by (simp add: analysed_def)
    then show ?thesis using s1(1) by (simp add: tbanal_def analyze_bundles_visible hist_insert_def NHIST_def)
  next
    assume "analyze_all le ([] = []) (visible le tb) (reset_reads s) = Inl AssertFailed"
    then show ?thesis by (simp add: tbanal_def analyze_bundles_visible)
  qed
qed

lemma tbanal_length_8192_witness:
  "tbanal False [read_request, no_bundle, no_bundle, long_wait, no_bundle, no_bundle, long_wait, no_bundle, no_bundle]
     initial_state = Inl AssertFailed"
proof -
  let ?tb = "[read_request, no_bundle, no_bundle, long_wait, no_bundle, no_bundle, long_wait, no_bundle, no_bundle]"
  have v: "visible False ?tb = [read_request, long_wait, long_wait]" by code_simp
  have w: "\<forall>cb \<in> set (visible False ?tb). wf_bundle False (soc_pass initial_state) cb" unfolding v by code_simp
  have d: "sum_list (map (delta False) (tl (visible False ?tb))) = 8192" unfolding v by code_simp
  show ?thesis by (rule tbanal_length_8192 [OF w d])
qed

section \<open>Hosts of either byte order\<close>

lemma byte_set_same: "i < 8 \<Longrightarrow> get_bits (8 * i) 8 (set_bits (8 * i) 8 v x) = take_bit 8 v"
  by (rule get_set_bits_same) simp

lemma byte_set_other: "i < 8 \<Longrightarrow> j < 8 \<Longrightarrow> i \<noteq> j \<Longrightarrow> get_bits (8 * i) 8 (set_bits (8 * j) 8 v x) = get_bits (8 * i) 8 x"
  by (rule get_set_bits_other) auto

lemma byte_swap:
  assumes "a < 8" and "b < 8" and "k < 8" and "a \<noteq> b"
  shows "byte k (swap a b x) = byte (if k = a then b else if k = b then a else k) x"
proof -
  have t: "take_bit 8 (get_bits p 8 y) = get_bits p 8 y" for p y by (simp add: get_bits_def)
  show ?thesis
    using assms unfolding swap_def byte_def by (auto simp: byte_set_same byte_set_other t)
qed

lemma byte_bswap8:
  assumes "i < 8"
  shows "byte i (bswap8 x) = byte (7 - i) x"
proof -
  have "i \<in> {0, 1, 2, 3, 4, 5, 6, 7}" using assms by auto
  then show ?thesis by (elim insertE emptyE) (simp_all add: bswap8_def byte_swap)
qed

lemma bytes_ext:
  assumes "\<And>i. i < 8 \<Longrightarrow> byte i x = byte i y"
  shows "x = y"
proof (rule word_bit_ext)
  fix n assume n: "n < LENGTH(64)"
  have b: "bit (byte (n div 8) z) (n mod 8) = bit z n" for z
    by (simp add: byte_def get_bits_def bit_take_bit_iff bit_drop_bit_eq)
  have "n div 8 < 8" using n by simp
  then show "bit x n = bit y n" using assms b by metis
qed

lemma byte_le_dword: "i < length bs \<Longrightarrow> length bs \<le> 8 \<Longrightarrow> byte i (le_dword bs) = ucast (bs ! i)"
proof (induction bs arbitrary: i)
  case Nil
  then show ?case by simp
next
  case (Cons b bs)
  show ?case
  proof (cases i)
    case 0
    show ?thesis unfolding 0
      by (rule word_bit_ext) (auto simp: byte_def get_bits_def bit_take_bit_iff bit_drop_bit_eq bitwise bit_ucast_iff bit_push_bit_iff dest: bit_imp_le_length)
  next
    case (Suc j)
    then have "byte j (le_dword bs) = ucast (bs ! j)" using Cons by simp
    moreover have "byte (Suc j) (ucast b OR push_bit 8 (le_dword bs)) = byte j (le_dword bs)"
      by (rule word_bit_ext) (use Cons.prems Suc in \<open>auto simp: byte_def get_bits_def bit_take_bit_iff bit_drop_bit_eq bitwise
        bit_ucast_iff bit_push_bit_iff dest: bit_imp_le_length\<close>)
    ultimately show ?thesis using Suc by simp
  qed
qed

lemma bswap8_dword:
  assumes "length bs = 8"
  shows "bswap8 (le_dword bs) = le_dword (rev bs)"
proof (rule bytes_ext)
  fix i :: nat assume i: "i < 8"
  then show "byte i (bswap8 (le_dword bs)) = byte i (le_dword (rev bs))"
    using assms byte_le_dword [of "7 - i" bs] byte_le_dword [of i "rev bs"] by (simp add: byte_bswap8 rev_nth)
qed

lemma bswapped_dwords:
  "8 * n \<le> length bs \<Longrightarrow> map bswap8 (dwords le n bs) = dwords (\<not> le) n bs"
proof (induction le n bs rule: dwords.induct)
  case (2 le n bs)
  have "length (take 8 bs) = 8" using 2(2) by simp
  then have "bswap8 (host_dword le (take 8 bs)) = host_dword (\<not> le) (take 8 bs)"
    using bswap8_dword [of "take 8 bs"] bswap8_dword [of "rev (take 8 bs)"] by (cases le) (simp_all add: host_dword_def)
  then show ?case using 2 by simp
qed simp

text \<open>The fields the analysis reads as \<open>cb.r1\<close> are where \<open>cb.r2\<close> has them.\<close>

definition shared_names :: "string list" where
  "shared_names = [''atrig'', ''dtrig'', ''count'', ''a_aid'', ''a_tid'', ''a_cmd'', ''d_rsp'', ''d_aid'', ''d_code'', ''d_tid'', ''d_mod'']"

lemma shared_fields:
  "\<forall>n \<in> set shared_names. field le rev1_cntrl_bundle n = field le rev2_cntrl_bundle n \<and> n \<in> set flip_names1 \<and> n \<in> set flip_names2"
  by (cases le; code_simp)

definition same_fields :: "nat \<Rightarrow> raw_t \<Rightarrow> raw_t \<Rightarrow> bool" where
  "same_fields pass t u =
     ((\<forall>n \<in> set shared_names. f1 True n t = f1 False n u \<and> f2 True n t = f2 False n u) \<and>
      (if pass = 1 then \<forall>n \<in> set flip_names1. f1 True n t = f1 False n u
       else \<forall>n \<in> set flip_names2. f2 True n t = f2 False n u))"

lemma same_fields_flip: "same_fields pass (cbflip True pass t) t"
proof -
  have s: "f1 le n x = f2 le n x" if "n \<in> set shared_names" for le n x
    using shared_fields that by (simp add: f1_def f2_def get_def)
  show ?thesis
  proof (cases "pass = 1")
    case True
    have f: "f1 True n (cbflip True 1 t) = f1 False n t" if "n \<in> set flip_names1" for n
      using cbflip_fields(1) [OF that] by (simp add: f1_def)
    then show ?thesis using True shared_fields by (auto simp: same_fields_def s [symmetric])
  next
    case False
    have f: "f2 True n (cbflip True pass t) = f2 False n t" if "n \<in> set flip_names2" for n
      using cbflip_fields(2) [OF False that] by (simp add: f2_def)
    then show ?thesis using False shared_fields by (auto simp: same_fields_def s)
  qed
qed

lemma shared_equal:
  assumes "same_fields pass t u"
  shows "f1 True ''atrig'' t = f1 False ''atrig'' u" "f1 True ''dtrig'' t = f1 False ''dtrig'' u"
    "f1 True ''count'' t = f1 False ''count'' u" "f1 True ''a_aid'' t = f1 False ''a_aid'' u"
    "f1 True ''a_tid'' t = f1 False ''a_tid'' u" "f1 True ''a_cmd'' t = f1 False ''a_cmd'' u"
    "f1 True ''d_rsp'' t = f1 False ''d_rsp'' u" "f1 True ''d_aid'' t = f1 False ''d_aid'' u"
    "f1 True ''d_code'' t = f1 False ''d_code'' u" "f1 True ''d_tid'' t = f1 False ''d_tid'' u"
    "f2 True ''d_mod'' t = f2 False ''d_mod'' u"
  using assms by (simp_all add: same_fields_def shared_names_def)

lemma pass1_equal:
  assumes "same_fields 1 t u"
  shows "f1 True ''a_be'' t = f1 False ''a_be'' u" "f1 True ''a_ad'' t = f1 False ''a_ad'' u"
    "f1 True ''a_l1ca'' t = f1 False ''a_l1ca'' u" "f1 True ''a_l2ca'' t = f1 False ''a_l2ca'' u"
  using assms by (simp_all add: same_fields_def flip_names1_def)

lemma pass2_equal:
  assumes "same_fields pass t u" and "pass \<noteq> 1" and "n \<in> set flip_names2"
  shows "f2 True n t = f2 False n u"
  using assms by (simp add: same_fields_def)

lemma valid_equal:
  assumes "same_fields pass t u"
  shows "valid_a True pass t = valid_a False pass u" "valid_d True pass t = valid_d False pass u"
proof -
  have "pass \<noteq> 1 \<Longrightarrow> f2 True ''a_valid'' t = f2 False ''a_valid'' u" "pass \<noteq> 1 \<Longrightarrow> f2 True ''d_valid'' t = f2 False ''d_valid'' u"
    using assms by (rule pass2_equal; simp add: flip_names2_def)+
  then show "valid_a True pass t = valid_a False pass u" "valid_d True pass t = valid_d False pass u"
    by (simp_all add: valid_a_def valid_d_def shared_equal [OF assms])
qed

text \<open>The settings that the options make do not change.\<close>

definition settings :: "tbanal_state \<Rightarrow> nat \<times> bool \<times> bool \<times> bool" where
  "settings s = (soc_pass s, do_print s, print_raw s, big_endian_target s)"

lemma analyze_settings:
  "analyze_delta le cb s = Inr s' \<Longrightarrow> settings s' = settings s"
  "set_last_read r tid x s = Inr s' \<Longrightarrow> settings s' = settings s"
  "count_trans r c s = Inr s' \<Longrightarrow> settings s' = settings s"
  by (auto simp: analyze_delta_def set_last_read_def count_trans_def bind_res_eq_Inr Let_def settings_def split: if_splits)

lemma analyze_a_settings: "analyze_a le cb s = Inr s' \<Longrightarrow> settings s' = settings s"
  unfolding analyze_a_def Let_def by (auto simp: bind_res_eq_Inr split: if_splits dest!: analyze_settings(2,3))

lemma read_response_settings: "read_response r tid a s = Inr s' \<Longrightarrow> settings s' = settings s"
  unfolding read_response_def Let_def
  by (auto simp: bind_res_eq_Inr split: if_splits dest!: analyze_settings(2)) (simp add: settings_def)

lemma analyze_d_settings: "analyze_d le cb s = Inr s' \<Longrightarrow> settings s' = settings s"
  by (auto simp: analyze_d_def say_def settings_def split: if_splits dest!: read_response_settings)

lemma analyze_cntrl_settings:
  assumes "analyze_cntrl le cb is_first s = Inr s'"
  shows "settings s' = settings s"
proof -
  obtain s1 s2 where s: "(if \<not> is_first then analyze_delta le cb s else Inr s) = Inr s1"
    "(if valid_a le (soc_pass s1) cb then analyze_a le cb s1 else Inr s1) = Inr s2"
    "(if valid_d le (soc_pass s2) cb then analyze_d le cb s2 else Inr s2) = Inr s'"
    using assms by (auto simp: analyze_cntrl_def bind_res_eq_Inr)
  have "settings s1 = settings s" using s(1) by (auto split: if_splits dest: analyze_settings(1))
  moreover have "settings s2 = settings s1" using s(2) by (auto split: if_splits dest: analyze_a_settings)
  moreover have "settings s' = settings s2" using s(3) by (auto split: if_splits dest: analyze_d_settings)
  ultimately show ?thesis by simp
qed

lemma settings_pass: "settings s = settings t \<Longrightarrow> soc_pass s = soc_pass t"
  by (simp add: settings_def)

lemma analyze_cntrl_host:
  assumes "same_fields (soc_pass s) t u"
  shows "analyze_cntrl True t is_first s = analyze_cntrl False u is_first s"
proof -
  have e: "analyze_delta True t s = analyze_delta False u s" "analyze_a True t x = analyze_a False u x"
    "analyze_d True t x = analyze_d False u x" for x
    using shared_equal [OF assms] by (simp_all add: analyze_delta_def analyze_a_def analyze_d_def)
  note v = valid_equal [OF assms]
  show ?thesis
    unfolding analyze_cntrl_def e
  proof (intro bind_res_cong refl)
    fix s1 assume "(if \<not> is_first then analyze_delta False u s else Inr s) = Inr s1"
    then have "soc_pass s1 = soc_pass s" by (auto split: if_splits dest: analyze_settings(1) intro: settings_pass)
    then show "(if valid_a True (soc_pass s1) t then analyze_a False u s1 else Inr s1) =
        (if valid_a False (soc_pass s1) u then analyze_a False u s1 else Inr s1)" using v by simp
    fix s2 assume "(if valid_a False (soc_pass s1) u then analyze_a False u s1 else Inr s1) = Inr s2"
    then have "soc_pass s2 = soc_pass s1" by (auto split: if_splits dest: analyze_a_settings intro: settings_pass)
    then show "(if valid_d True (soc_pass s2) t then analyze_d False u s2 else Inr s2) =
        (if valid_d False (soc_pass s2) u then analyze_d False u s2 else Inr s2)"
      using v \<open>soc_pass s1 = soc_pass s\<close> by simp
  qed
qed

text \<open>Three bundles as the loader leaves them on the two hosts.\<close>

definition same_three :: "nat \<Rightarrow> raw_t \<Rightarrow> raw_t \<Rightarrow> raw_t \<Rightarrow> raw_t \<Rightarrow> raw_t \<Rightarrow> raw_t \<Rightarrow> bool" where
  "same_three pass t0 t1 t2 u0 u1 u2 =
     (same_fields pass t0 u0 \<and>
      (if f1 False ''dtrig'' u0 = 0 then same_fields pass t1 u1 \<and> same_fields pass t2 u2 else t1 = u1 \<and> t2 = u2))"

lemma analyze_bundle_host:
  assumes "same_three (soc_pass s) t0 t1 t2 u0 u1 u2"
  shows "analyze_bundle True t0 t1 t2 is_first s = analyze_bundle False u0 u1 u2 is_first s"
proof -
  have s0: "same_fields (soc_pass s) t0 u0" using assms by (simp add: same_three_def)
  note h0 = shared_equal(1,2) [OF s0]
  show ?thesis
  proof (cases "f1 False ''dtrig'' u0 = 0")
    case True
    have s: "same_fields (soc_pass s) t1 u1" "same_fields (soc_pass s) t2 u2" using assms True by (simp_all add: same_three_def)
    note h = shared_equal(1) [OF s(1)] shared_equal(1) [OF s(2)]
    have k1: "analyze_cntrl True t1 False s1 = analyze_cntrl False u1 False s1" if "settings s1 = settings s" for s1
      using analyze_cntrl_host [of s1 t1 u1 False] s(1) settings_pass [OF that] by simp
    have k2: "analyze_cntrl True t2 False s1 = analyze_cntrl False u2 False s1" if "settings s1 = settings s" for s1
      using analyze_cntrl_host [of s1 t2 u2 False] s(2) settings_pass [OF that] by simp
    show ?thesis unfolding analyze_bundle_def h0 h analyze_cntrl_host [OF s0]
      by (auto intro!: bind_res_cong simp: k1 k2 dest!: analyze_cntrl_settings)
  next
    case False
    then show ?thesis unfolding analyze_bundle_def h0 analyze_cntrl_host [OF s0] by simp
  qed
qed

lemma print_cntrl_host:
  assumes "same_fields (soc_pass s) t u"
  shows "print_cntrl True t s = print_cntrl False u s"
proof -
  note e = shared_equal [OF assms]
  show ?thesis
  proof (cases "soc_pass s = 1")
    case True
    then have "same_fields 1 t u" using assms by simp
    note p = pass1_equal [OF this]
    have "print_cntrl1 True t x = print_cntrl1 False u x" for x
      by (simp add: print_cntrl1_def abus_line_def dbus_line_def e p)
    then show ?thesis using True by (simp add: print_cntrl_def say_def e)
  next
    case False
    note p = pass2_equal [OF assms False]
    have f: "f2 True ''zero'' t = f2 False ''zero'' u" "f2 True ''a_block'' t = f2 False ''a_block'' u"
      "f2 True ''trtrig0'' t = f2 False ''trtrig0'' u" "f2 True ''trtrig1'' t = f2 False ''trtrig1'' u"
      "f2 True ''a_valid'' t = f2 False ''a_valid'' u" "f2 True ''d_valid'' t = f2 False ''d_valid'' u"
      "f2 True ''a_dw'' t = f2 False ''a_dw'' u" "f2 True ''a_byt'' t = f2 False ''a_byt'' u"
      "f2 True ''r_l2hit'' t = f2 False ''r_l2hit'' u" "f2 True ''r_shd'' t = f2 False ''r_shd'' u"
      "f2 True ''r_exc'' t = f2 False ''r_exc'' u" "f2 True ''a_cmd'' t = f2 False ''a_cmd'' u"
      "f2 True ''a_aid'' t = f2 False ''a_aid'' u" "f2 True ''a_tid'' t = f2 False ''a_tid'' u"
      "f2 True ''a_ad'' t = f2 False ''a_ad'' u" "f2 True ''a_l1ca'' t = f2 False ''a_l1ca'' u"
      "f2 True ''a_l2ca'' t = f2 False ''a_l2ca'' u" "f2 True ''d_rsp'' t = f2 False ''d_rsp'' u"
      "f2 True ''d_aid'' t = f2 False ''d_aid'' u" "f2 True ''d_tid'' t = f2 False ''d_tid'' u"
      "f2 True ''d_code'' t = f2 False ''d_code'' u" "f2 True ''d_mod'' t = f2 False ''d_mod'' u"
      by (rule p; simp add: flip_names2_def)+
    have "print_cntrl2 True t x = print_cntrl2 False u x" for x
      unfolding print_cntrl2_def abus_line_def dbus_line_def f ..
    then show ?thesis using False by (simp add: print_cntrl_def say_def e)
  qed
qed

lemma say_settings: "settings (say l s) = settings s"
  by (simp add: say_def settings_def)

lemma print_cntrl_settings:
  assumes "print_cntrl le cb s = Inr s'"
  shows "settings s' = settings s"
proof -
  have 1: "settings (print_cntrl1 le cb x) = settings x" for x by (simp add: print_cntrl1_def Let_def say_settings)
  have 2: "settings y = settings x" if "print_cntrl2 le cb x = Inr y" for x y
    using that by (auto simp: print_cntrl2_def Let_def bind_res_eq_Inr say_settings split: if_splits)
  show ?thesis using assms 1 2 by (auto simp: print_cntrl_def Let_def say_settings split: if_splits)
qed

lemma print_tbdata_host:
  assumes "same_three (soc_pass s) t0 t1 t2 u0 u1 u2"
  shows "print_tbdata True t0 t1 t2 s = print_tbdata False u0 u1 u2 s"
proof -
  have s0: "same_fields (soc_pass s) t0 u0" using assms by (simp add: same_three_def)
  note h0 = shared_equal(1,2) [OF s0]
  show ?thesis
  proof (cases "f1 False ''dtrig'' u0 = 0")
    case True
    have s: "same_fields (soc_pass s) t1 u1" "same_fields (soc_pass s) t2 u2" using assms True by (simp_all add: same_three_def)
    note h = shared_equal(1) [OF s(1)] shared_equal(1) [OF s(2)]
    have k1: "print_cntrl True t1 s1 = print_cntrl False u1 s1" if "settings s1 = settings s" for s1
      using print_cntrl_host [of s1 t1 u1] s(1) settings_pass [OF that] by simp
    have k2: "print_cntrl True t2 s1 = print_cntrl False u2 s1" if "settings s1 = settings s" for s1
      using print_cntrl_host [of s1 t2 u2] s(2) settings_pass [OF that] by simp
    show ?thesis unfolding print_tbdata_def h0 h print_cntrl_host [OF s0] using True
      by (auto intro!: bind_res_cong simp: k1 k2 dest!: print_cntrl_settings)
  next
    case False
    have v: "soc_pass s \<noteq> 1 \<Longrightarrow> f2 True ''d_valid'' t0 = f2 False ''d_valid'' u0"
      using s0 by (rule pass2_equal) (simp_all add: flip_names2_def)
    have t: "t1 = u1" "t2 = u2" using assms False by (simp_all add: same_three_def)
    show ?thesis unfolding print_tbdata_def h0 print_cntrl_host [OF s0] t using False v
      by (auto intro!: bind_res_cong dest!: print_cntrl_settings settings_pass)
  qed
qed

lemma print_tbdata_settings:
  assumes "print_tbdata le t0 t1 t2 s = Inr (stop, s')"
  shows "settings s' = settings s"
  using assms
  by (auto simp: print_tbdata_def bind_res_eq_Inr say_settings print_data_def Let_def split: if_splits dest!: print_cntrl_settings)

text \<open>A whole buffer: \<open>tb\<close> as read, \<open>cbflips\<close> of it on the little endian host.\<close>

lemma cbflips_three:
  "\<exists>t0' t1' t2'. cbflips True pass (t0 # t1 # t2 # tb) = t0' # t1' # t2' # cbflips True pass tb \<and>
     same_three pass t0' t1' t2' t0 t1 t2"
  using shared_equal(2) [OF same_fields_flip [of pass t0]] same_fields_flip [of pass]
  by (auto simp: Let_def same_three_def)

lemma analyze_bundle_settings: "analyze_bundle le t0 t1 t2 f s = Inr (stop, s') \<Longrightarrow> settings s' = settings s"
  by (auto simp: analyze_bundle_def bind_res_eq_Inr split: if_splits dest!: analyze_cntrl_settings)

lemma analyze_bundles_host:
  "analyze_bundles True f (cbflips True (soc_pass s) tb) s = analyze_bundles False f tb s"
proof (induction "False" f tb s rule: analyze_bundles.induct)
  case (1 f t0 t1 t2 tb s)
  obtain t0' t1' t2' where c: "cbflips True (soc_pass s) (t0 # t1 # t2 # tb) = t0' # t1' # t2' # cbflips True (soc_pass s) tb"
    "same_three (soc_pass s) t0' t1' t2' t0 t1 t2"
    using cbflips_three by blast
  have "analyze_bundles True False (cbflips True (soc_pass s) tb) s1 = analyze_bundles False False tb s1"
    if "analyze_bundle False t0 t1 t2 f s = Inr (False, s1)" for s1
    using 1 settings_pass [OF analyze_bundle_settings [OF that]] by metis
  then show ?case
    unfolding c(1) analyze_bundles.simps analyze_bundle_host [OF c(2)]
    by (intro bind_res_cong refl) auto
qed simp_all

lemma print_tb_host:
  assumes "\<not> print_raw s"
  shows "print_tb True (cbflips True (soc_pass s) tb) s = print_tb False tb s"
  using assms
proof (induction "False" tb s rule: print_tb.induct)
  case (1 t0 t1 t2 tb s)
  obtain t0' t1' t2' where c: "cbflips True (soc_pass s) (t0 # t1 # t2 # tb) = t0' # t1' # t2' # cbflips True (soc_pass s) tb"
    "same_three (soc_pass s) t0' t1' t2' t0 t1 t2"
    using cbflips_three by blast
  let ?s = "say (replicate 76 CHR ''-'' @ nl) s"
  have r: "\<not> print_raw ?s" "soc_pass ?s = soc_pass s" using 1(2) by (simp_all add: say_def)
  have d: "print_tbdata True t0' t1' t2' ?s = print_tbdata False t0 t1 t2 ?s" using print_tbdata_host [of ?s] c(2) r(2) by simp
  have "print_tb True (cbflips True (soc_pass s) tb) s3 = print_tb False tb s3"
    if "print_tbdata False t0 t1 t2 ?s = Inr (False, s3)" for s3
  proof -
    have s3: "settings s3 = settings s" using print_tbdata_settings [OF that] say_settings by simp
    then have "\<not> print_raw s3" "soc_pass s3 = soc_pass s" using 1(2) by (simp_all add: settings_def)
    then show ?thesis using 1(1) by metis
  qed
  then show ?case
    unfolding c(1) print_tb.simps Let_def using r(1) d by (auto intro!: bind_res_cong)
qed simp_all

lemma print_tb_settings: "print_tb le tb s = Inr s' \<Longrightarrow> settings s' = settings s"
proof (induction le tb s rule: print_tb.induct)
  case (1 le t0 t1 t2 tb s)
  let ?s = "if print_raw (say (replicate 76 CHR ''-'' @ nl) s)
    then say (raw_lines 2 t2 @ raw_lines 1 t1 @ raw_lines 0 t0) (say (replicate 76 CHR ''-'' @ nl) s)
    else say (replicate 76 CHR ''-'' @ nl) s"
  obtain stop s3 where s3: "print_tbdata le t0 t1 t2 ?s = Inr (stop, s3)"
    "(if stop then Inr s3 else print_tb le tb s3) = Inr s'"
    using 1(2) by (auto simp: Let_def bind_res_eq_Inr)
  have "settings s3 = settings s" using print_tbdata_settings [OF s3(1)] by (simp add: say_settings)
  moreover have "settings s' = settings s3"
  proof (cases stop)
    case True
    then show ?thesis using s3(2) by simp
  next
    case False
    then have "print_tb le tb s3 = Inr s'" using s3(2) by simp
    with 1(1) s3(1) False show ?thesis by (metis (no_types))
  qed
  ultimately show ?case by simp
qed auto

lemma analyze_bundles_settings: "analyze_bundles le f tb s = Inr s' \<Longrightarrow> settings s' = settings s"
proof (induction le f tb s rule: analyze_bundles.induct)
  case (1 le f t0 t1 t2 tb s)
  obtain stop s1 where s1: "analyze_bundle le t0 t1 t2 f s = Inr (stop, s1)"
    "(if stop then Inr s1 else analyze_bundles le False tb s1) = Inr s'"
    using 1(2) by (auto simp: bind_res_eq_Inr)
  then show ?case using 1(1) analyze_bundle_settings [OF s1(1)] by (auto split: if_splits)
qed auto

lemma reset_settings: "settings (reset_reads s) = settings s"
  by (simp add: settings_def reset_reads_def)

lemma settings_length: "settings (s\<lparr>tb_length := h\<rparr>) = settings s"
  by (simp add: settings_def)

lemma tbanal_settings: "tbanal le tb s = Inr s' \<Longrightarrow> settings s' = settings s"
  by (auto simp: tbanal_def bind_res_eq_Inr say_settings reset_settings settings_length split: if_splits dest!: analyze_bundles_settings)

lemma tbanal_host: "tbanal True (cbflips True (soc_pass s) tb) s = tbanal False tb s"
  using analyze_bundles_host [of True "reset_reads s" tb] settings_pass [OF reset_settings [of s]] by (simp add: tbanal_def)

lemma load_sample_host:
  assumes "12288 \<le> length bs"
  shows "load_sample True s bs = cbflips True (soc_pass s) (load_sample False s bs)"
  using bswapped_dwords [of 1536 bs True] bswapped_dwords [of 1536 bs False] assms
  by (simp add: load_sample_def Let_def del: dwords.simps)

lemma process_samples_host:
  "n * 12288 \<le> length bs \<Longrightarrow> \<not> print_raw s \<Longrightarrow> process_samples True n bs s = process_samples False n bs s"
proof (induction n arbitrary: bs s)
  case 0
  then show ?case by simp
next
  case (Suc n)
  let ?tb = "load_sample False s bs"
  have l: "load_sample True s bs = cbflips True (soc_pass s) ?tb" by (rule load_sample_host) (use Suc.prems(1) in simp)
  have p: "map_sum id g (print_tb True (cbflips True (soc_pass s) ?tb) s) = map_sum id g (print_tb False ?tb s)"
    for g :: "tbanal_state \<Rightarrow> tbanal_state"
    using print_tb_host [OF Suc.prems(2)] by simp
  have t: "tbanal True (cbflips True (soc_pass s) ?tb) s1 = tbanal False ?tb s1" if "settings s1 = settings s" for s1
    using tbanal_host [of s1 ?tb] settings_pass [OF that] by simp
  have ih: "process_samples True n (drop (256 * 6 * 8) bs) s2 = process_samples False n (drop (256 * 6 * 8) bs) s2"
    if "settings s2 = settings s" for s2
    using that Suc.prems by (intro Suc.IH) (simp_all add: settings_def)
  show ?case
    unfolding process_samples.simps Let_def l p
  proof (intro bind_res_cong refl)
    fix s1 assume "(if do_print s then map_sum id (say (nl @ replicate 56 CHR ''#'' @ nl @ nl)) (print_tb False ?tb s) else Inr s) = Inr s1"
    then have s1: "settings s1 = settings s"
      by (cases "print_tb False ?tb s") (auto split: if_splits simp: say_settings dest: print_tb_settings)
    show "tbanal True (cbflips True (soc_pass s) ?tb) s1 = tbanal False ?tb s1" by (rule t [OF s1])
    fix s2 assume "tbanal False ?tb s1 = Inr s2"
    then show "process_samples True n (drop (256 * 6 * 8) bs) s2 = process_samples False n (drop (256 * 6 * 8) bs) s2"
      using ih tbanal_settings s1 by simp
  qed
qed

lemma options_no_raw:
  "\<forall>v. Opt CHR ''D'' v \<notin> set evs \<Longrightarrow> \<not> print_raw s \<Longrightarrow> tbanal_options evs s = Inr s' \<Longrightarrow> \<not> print_raw s'"
  by (induction evs s rule: tbanal_options.induct) (auto split: if_splits)

text \<open>
  C28: Without the option \<open>-D\<close>, whose raw dump is of the host's memory, the whole tool prints the same on a
  little endian host as on a big endian one, for every file, byte order of the target and chip revision:
  \<open>bswap8\<close> and \<open>cbflip\<close> make up for all the differences of bytes and bit-fields.
\<close>

theorem tbanal_host_independent:
  assumes "\<forall>v. Opt CHR ''D'' v \<notin> set (fst (getopt ''e'' ''1dDh'' permute args))"
  shows "tbanal_main True permute files args = tbanal_main False permute files args"
proof -
  obtain evs argv where g: "getopt ''e'' ''1dDh'' permute args = (evs, argv)" by (cases "getopt ''e'' ''1dDh'' permute args")
  have n: "\<not> print_raw s" if "tbanal_options evs initial_state = Inr s" for s
    by (rule options_no_raw [OF _ _ that]) (use assms g in \<open>simp_all add: initial_state_def\<close>)
  have p: "process_samples True (length bs div 12288) bs (say l s) = process_samples False (length bs div 12288) bs (say l s)"
    if "\<not> print_raw s" for bs l s
    using that by (intro process_samples_host) (simp_all add: say_def)
  show ?thesis
    unfolding tbanal_main_def g Let_def prod.case
    by (intro bind_res_cong refl) (auto split: option.split intro!: bind_res_cong simp: p [OF n])
qed

lemma tbanal_host_independent_witness:
  "tbanal_main True False (\<lambda>_. Some (replicate 12288 7)) [''-d'', ''-1'', ''trace''] =
   tbanal_main False False (\<lambda>_. Some (replicate 12288 7)) [''-d'', ''-1'', ''trace'']"
  by (rule tbanal_host_independent) simp

end
