(* ===== verification/Atomic.thy ===== *)
theory Atomic
  imports Clib
begin

text \<open>
  The spin locks and counting semaphores of \<open>atomic-ops\<close>. Their routines are inline assembly, so
  the model is the instructions themselves: the seven instructions they use, with the branch
  delay slot, the link of a load-linked and the overflow exception of \<open>addi\<close>. One processor runs
  one instruction at a time; any number of processors share one lock or semaphore word, and the
  instructions of different processors interleave in any order. A store to the word by one
  processor breaks every link, and a link can be lost at any time (an exception, an eviction).
  A word has any width: the 32-bit and the 64-bit routines are the same instructions.
\<close>

section \<open>Instructions\<close>

text \<open>
  \<open>%0\<close> is \<open>tmp\<close>, \<open>%2\<close> is \<open>val\<close>, and \<open>%1\<close> is the address of the one shared word. A branch names the
  index of its target; \<open>nip\<close> is the instruction after the next one, so that the instruction in a
  delay slot runs before the branch takes effect.
\<close>

datatype asm = Ll | Sc | Bnez nat | Beqz nat | MoveVal | MoveZero | Addi int | Nop

record 'w thread =
  ip :: nat
  nip :: nat
  tmp :: 'w
  val :: 'w
  link :: bool

definition entry :: "'a::len word \<Rightarrow> 'a word thread" where
  "entry v = \<lparr>ip = 0, nip = 1, tmp = 0, val = v, link = False\<rparr>"

definition fits :: "'a::len itself \<Rightarrow> int \<Rightarrow> bool" where
  "fits _ x = (- (2 ^ (LENGTH('a) - 1)) \<le> x \<and> x < 2 ^ (LENGTH('a) - 1))"

definition advance :: "'a::len word thread \<Rightarrow> 'a word thread" where
  "advance t = t\<lparr>ip := nip t, nip := nip t + 1\<rparr>"

text \<open>
  An instruction on the shared word: the new word, the new thread and whether the word was stored
  to; \<open>None\<close> is the overflow exception.
\<close>

fun exec_asm :: "asm \<Rightarrow> 'a::len word thread \<Rightarrow> 'a word \<Rightarrow> ('a word \<times> 'a word thread \<times> bool) option" where
  "exec_asm Ll t w = Some (w, (advance t)\<lparr>tmp := w, link := True\<rparr>, False)"
| "exec_asm Sc t w =
     (if link t then Some (tmp t, (advance t)\<lparr>tmp := 1, link := False\<rparr>, True)
      else Some (w, (advance t)\<lparr>tmp := 0\<rparr>, False))"
| "exec_asm (Bnez k) t w = Some (w, (if tmp t \<noteq> 0 then (advance t)\<lparr>nip := k\<rparr> else advance t), False)"
| "exec_asm (Beqz k) t w = Some (w, (if tmp t = 0 then (advance t)\<lparr>nip := k\<rparr> else advance t), False)"
| "exec_asm MoveVal t w = Some (w, (advance t)\<lparr>tmp := val t\<rparr>, False)"
| "exec_asm MoveZero t w = Some (w, (advance t)\<lparr>tmp := 0\<rparr>, False)"
| "exec_asm (Addi k) t w =
     (if fits TYPE('a) (sint (tmp t) + k)
      then Some (w, (advance t)\<lparr>tmp := tmp t + of_int k\<rparr>, False) else None)"
| "exec_asm Nop t w = Some (w, advance t, False)"

section \<open>The routines\<close>

text \<open>\<open>spinlock32_lock\<close> and \<open>spinlock64_lock\<close>: label 1 is instruction 0.\<close>

definition spinlock_lock :: "asm list" where
  "spinlock_lock = [Ll, Bnez 0, MoveVal, Sc, Beqz 0, Nop]"

text \<open>\<open>spinlock32_trylock\<close> and \<open>spinlock64_trylock\<close>: label 2 is the end of the routine.\<close>

definition spinlock_trylock :: "asm list" where
  "spinlock_trylock = [Ll, Bnez 7, Nop, MoveVal, Sc, Beqz 0, MoveZero]"

text \<open>\<open>spinlock32_release\<close> and \<open>spinlock64_release\<close>: one store.\<close>

definition spinlock_release :: "'a::len word" where
  "spinlock_release = 0"

definition sem_take :: "asm list" where
  "sem_take = [Ll, Beqz 0, Addi (- 1), Sc, Beqz 0, Nop]"

definition sem_release :: "asm list" where
  "sem_release = [Ll, Addi 1, Sc, Beqz 0, Nop]"

lemmas routines = spinlock_lock_def spinlock_trylock_def sem_take_def sem_release_def

section \<open>One processor alone\<close>

datatype 'w outcome = Returned 'w "'w thread" | Trapping | Spinning

text \<open>At most \<open>n\<close> instructions of a routine that nothing interrupts.\<close>

fun solo :: "nat \<Rightarrow> asm list \<Rightarrow> 'a::len word thread \<Rightarrow> 'a word \<Rightarrow> 'a word outcome" where
  "solo n p t w =
     (if length p \<le> ip t then Returned w t
      else (case n of 0 \<Rightarrow> Spinning
            | Suc n' \<Rightarrow> (case exec_asm (p ! ip t) t w of None \<Rightarrow> Trapping
                         | Some (w', t', _) \<Rightarrow> solo n' p t' w')))"

declare solo.simps [simp del]

text \<open>The value a routine returns is its \<open>tmp\<close>.\<close>

definition solo_value :: "'a::len word outcome \<Rightarrow> ('a word \<times> 'a word) option" where
  "solo_value r = (case r of Returned w t \<Rightarrow> Some (w, tmp t) | _ \<Rightarrow> None)"

section \<open>Many processors\<close>

text \<open>
  What a processor does with the lock or semaphore: nothing, run one of its routines, be past
  the acquisition, or have taken the overflow exception.
\<close>

datatype 'w agent = Idle | Running "asm list" "'w thread" | Holding | Trapped

fun unlink :: "'a::len word agent \<Rightarrow> 'a word agent" where
  "unlink (Running p t) = Running p (t\<lparr>link := False\<rparr>)"
| "unlink a = a"

text \<open>
  A step of one processor on a spin lock, \<open>L w a w' a' stored\<close>. Callers pass a value that is not
  zero, as the header requires, and release only a lock they hold.
\<close>

inductive lock_local :: "'a::len word \<Rightarrow> 'a word agent \<Rightarrow> 'a word \<Rightarrow> 'a word agent \<Rightarrow> bool \<Rightarrow> bool" where
  call_lock: "v \<noteq> 0 \<Longrightarrow> lock_local w Idle w (Running spinlock_lock (entry v)) False"
| call_trylock: "v \<noteq> 0 \<Longrightarrow> lock_local w Idle w (Running spinlock_trylock (entry v)) False"
| lock_insn: "ip t < length p \<Longrightarrow> exec_asm (p ! ip t) t w = Some (w', t', c) \<Longrightarrow>
    lock_local w (Running p t) w' (Running p t') c"
| lock_trap: "ip t < length p \<Longrightarrow> exec_asm (p ! ip t) t w = None \<Longrightarrow>
    lock_local w (Running p t) w Trapped False"
| ret_lock: "length spinlock_lock \<le> ip t \<Longrightarrow> lock_local w (Running spinlock_lock t) w Holding False"
| ret_trylock: "length spinlock_trylock \<le> ip t \<Longrightarrow>
    lock_local w (Running spinlock_trylock t) w (if tmp t = 0 then Holding else Idle) False"
| release: "lock_local w Holding spinlock_release Idle True"

text \<open>A step of one processor on a semaphore: it releases what it took.\<close>

inductive sem_local :: "'a::len word \<Rightarrow> 'a word agent \<Rightarrow> 'a word \<Rightarrow> 'a word agent \<Rightarrow> bool \<Rightarrow> bool" where
  call_take: "sem_local w Idle w (Running sem_take (entry 0)) False"
| call_release: "sem_local w Holding w (Running sem_release (entry 0)) False"
| sem_insn: "ip t < length p \<Longrightarrow> exec_asm (p ! ip t) t w = Some (w', t', c) \<Longrightarrow>
    sem_local w (Running p t) w' (Running p t') c"
| sem_trap: "ip t < length p \<Longrightarrow> exec_asm (p ! ip t) t w = None \<Longrightarrow>
    sem_local w (Running p t) w Trapped False"
| ret_take: "length sem_take \<le> ip t \<Longrightarrow> sem_local w (Running sem_take t) w Holding False"
| ret_release: "length sem_release \<le> ip t \<Longrightarrow> sem_local w (Running sem_release t) w Idle False"

text \<open>A step of the system: some processor steps, or loses its link.\<close>

inductive sys_step :: "('a::len word \<Rightarrow> 'a word agent \<Rightarrow> 'a word \<Rightarrow> 'a word agent \<Rightarrow> bool \<Rightarrow> bool) \<Rightarrow>
    'a word \<times> 'a word agent list \<Rightarrow> 'a word \<times> 'a word agent list \<Rightarrow> bool"
  for L where
  act: "i < length as \<Longrightarrow> L w (as ! i) w' a' c \<Longrightarrow>
    sys_step L (w, as) (w', (if c then map unlink as else as)[i := a'])"
| lose: "i < length as \<Longrightarrow> sys_step L (w, as) (w, as[i := unlink (as ! i)])"

section \<open>Counting the processors that own the object\<close>

definition tally :: "('x \<Rightarrow> bool) \<Rightarrow> 'x list \<Rightarrow> int" where
  "tally P xs = (\<Sum>x\<leftarrow>xs. of_bool (P x))"

lemma tally_simps [simp]:
  "tally P [] = 0" "tally P (x # xs) = of_bool (P x) + tally P xs"
  by (simp_all add: tally_def)

lemma tally_update: "i < length xs \<Longrightarrow> tally P (xs[i := y]) = tally P xs - of_bool (P (xs ! i)) + of_bool (P y)"
  by (induction xs arbitrary: i) (auto split: nat.split)

lemma tally_nonneg: "0 \<le> tally P xs"
  by (induction xs) auto

lemma tally_member: "i < length xs \<Longrightarrow> of_bool (P (xs ! i)) \<le> tally P xs"
proof (induction xs arbitrary: i)
  case (Cons x xs)
  show ?case
    using Cons.IH [of "i - 1"] Cons.prems tally_nonneg [of P xs] by (cases i) auto
qed simp

lemma tally_map: "(\<And>x. P (f x) = P x) \<Longrightarrow> tally P (map f xs) = tally P xs"
  by (induction xs) auto

lemma tally_mono: "(\<And>x. P x \<Longrightarrow> Q x) \<Longrightarrow> tally P xs \<le> tally Q xs"
  by (induction xs) (auto intro: add_mono)

text \<open>
  The contract a synchronisation object keeps whatever the interleaving: the word is worth a
  number of \<open>credit\<close>s, and each processor's own step moves a credit between the word and
  itself, and never makes the word negative.
\<close>

locale llsc_object =
  fixes L :: "'a::len word \<Rightarrow> 'a word agent \<Rightarrow> 'a word \<Rightarrow> 'a word agent \<Rightarrow> bool \<Rightarrow> bool"
    and ok :: "'a word \<Rightarrow> 'a word agent \<Rightarrow> bool"
    and owner :: "'a word agent \<Rightarrow> bool"
    and credit :: "'a word \<Rightarrow> int"
    and cap :: int
  assumes step_ok: "L w a w' a' c \<Longrightarrow> ok w a \<Longrightarrow> 0 \<le> credit w \<Longrightarrow> credit w + of_bool (owner a) \<le> cap \<Longrightarrow> ok w' a'"
    and step_credit: "L w a w' a' c \<Longrightarrow> ok w a \<Longrightarrow> 0 \<le> credit w \<Longrightarrow> credit w + of_bool (owner a) \<le> cap \<Longrightarrow>
      0 \<le> credit w' \<and> credit w' + of_bool (owner a') = credit w + of_bool (owner a)"
    and step_same: "L w a w' a' False \<Longrightarrow> w' = w"
    and unlink_ok: "ok w a \<Longrightarrow> ok w' (unlink a)"
    and unlink_owner: "owner (unlink a) = owner a"
begin

definition good :: "'a word \<times> 'a word agent list \<Rightarrow> bool" where
  "good s = (list_all (ok (fst s)) (snd s) \<and> 0 \<le> credit (fst s) \<and> credit (fst s) + tally owner (snd s) = cap)"

lemma good_step:
  assumes "sys_step L s s'" and "good s"
  shows "good s'"
  using assms
proof (cases rule: sys_step.cases)
  case (act i as w w' a' c)
  let ?bs = "if c then map unlink as else as"
  have oki: "ok w (as ! i)" "0 \<le> credit w" "credit w + tally owner as = cap"
    using assms(2) act by (auto simp: good_def list_all_length)
  have le: "credit w + of_bool (owner (as ! i)) \<le> cap"
    using tally_member [OF act(3), of owner] oki(3) by simp
  note new = step_ok [OF act(4) oki(1,2) le] and cr = step_credit [OF act(4) oki(1,2) le]
  have "list_all (ok w') ?bs"
  proof (cases c)
    case False
    then have "w' = w" using act(4) step_same by simp
    then show ?thesis using False assms(2) act by (simp add: good_def)
  qed (use assms(2) act unlink_ok in \<open>auto simp: good_def list_all_length\<close>)
  then have "list_all (ok w') (?bs[i := a'])"
    using new act(3) by (auto simp: list_all_length nth_list_update)
  moreover have "tally owner (?bs[i := a']) = tally owner as - of_bool (owner (as ! i)) + of_bool (owner a')"
    using act(3) by (auto simp: tally_update tally_map unlink_owner)
  ultimately show ?thesis using cr oki(3) act(2) by (simp add: good_def)
next
  case (lose i as w)
  then show ?thesis using assms(2)
    by (auto simp: good_def list_all_length nth_list_update unlink_ok tally_update unlink_owner)
qed

lemma good_reach: "(sys_step L)\<^sup>*\<^sup>* s s' \<Longrightarrow> good s \<Longrightarrow> good s'"
  by (induction rule: rtranclp_induct) (auto intro: good_step)

lemma good_member: "good (w, as) \<Longrightarrow> a \<in> set as \<Longrightarrow> ok w a"
  by (auto simp: good_def list_all_iff)

text \<open>Processors that certainly own the object are at most what the word has given out.\<close>

lemma good_count:
  assumes "good (w, as)" and "\<And>a. Q a \<Longrightarrow> owner a"
  shows "credit w + tally Q as \<le> cap" "0 \<le> credit w"
  using assms(1) tally_mono [of Q owner as, OF assms(2)] by (auto simp: good_def)

end

section \<open>The spin lock\<close>

text \<open>
  Where a processor is in a routine: \<open>(ip, nip)\<close>. While its link holds, what it loaded is still
  the word.
\<close>

definition at :: "'w thread \<Rightarrow> nat \<Rightarrow> nat \<Rightarrow> bool" where
  "at t i n = (ip t = i \<and> nip t = n)"

fun lock_ok :: "'a::len word \<Rightarrow> 'a word agent \<Rightarrow> bool" where
  "lock_ok w (Running p t) = (val t \<noteq> 0 \<and>
     (p = spinlock_lock \<and>
        (at t 0 1 \<or> at t 1 2 \<and> (link t \<longrightarrow> tmp t = w) \<or> at t 2 0 \<or> at t 2 3 \<and> (link t \<longrightarrow> w = 0) \<or>
         at t 3 4 \<and> tmp t = val t \<and> (link t \<longrightarrow> w = 0) \<or> at t 4 5 \<or> at t 5 0 \<or> at t 5 6 \<or> at t 6 7) \<or>
      p = spinlock_trylock \<and>
        (at t 0 1 \<or> at t 1 2 \<and> (link t \<longrightarrow> tmp t = w) \<or> at t 2 7 \<and> tmp t \<noteq> 0 \<or>
         at t 2 3 \<and> (link t \<longrightarrow> w = 0) \<or> at t 3 4 \<and> (link t \<longrightarrow> w = 0) \<or>
         at t 4 5 \<and> tmp t = val t \<and> (link t \<longrightarrow> w = 0) \<or> at t 5 6 \<or> at t 6 0 \<or> at t 6 7 \<or> at t 7 8)))"
| "lock_ok w Trapped = False"
| "lock_ok w a = True"

fun lock_owner :: "'a::len word agent \<Rightarrow> bool" where
  "lock_owner (Running p t) =
     (p = spinlock_lock \<and> (at t 4 5 \<and> tmp t \<noteq> 0 \<or> at t 5 6 \<or> at t 6 7) \<or>
      p = spinlock_trylock \<and> (at t 5 6 \<and> tmp t \<noteq> 0 \<or> at t 6 7 \<or> at t 7 8 \<and> tmp t = 0))"
| "lock_owner a = (a = Holding)"

definition lock_free :: "'a::len word \<Rightarrow> int" where
  "lock_free w = of_bool (w = 0)"

lemma routines_differ [simp]:
  "spinlock_lock \<noteq> spinlock_trylock" "spinlock_trylock \<noteq> spinlock_lock"
  "sem_take \<noteq> sem_release" "sem_release \<noteq> sem_take"
  by (simp_all add: routines)

lemma routine_lengths [simp]:
  "length spinlock_lock = 6" "length spinlock_trylock = 7" "length sem_take = 6" "length sem_release = 5"
  by (simp_all add: routines)

lemma lock_insns:
  "spinlock_lock ! 0 = Ll" "spinlock_lock ! Suc 0 = Bnez 0" "spinlock_lock ! 2 = MoveVal"
  "spinlock_lock ! 3 = Sc" "spinlock_lock ! 4 = Beqz 0" "spinlock_lock ! 5 = Nop"
  "spinlock_trylock ! 0 = Ll" "spinlock_trylock ! Suc 0 = Bnez 7" "spinlock_trylock ! 2 = Nop"
  "spinlock_trylock ! 3 = MoveVal" "spinlock_trylock ! 4 = Sc" "spinlock_trylock ! 5 = Beqz 0"
  "spinlock_trylock ! 6 = MoveZero"
  by (simp_all add: routines)

text \<open>What an instruction does to the contract, as a check on its result.\<close>

definition insn_keeps :: "('a::len word \<Rightarrow> 'a word agent \<Rightarrow> bool) \<Rightarrow> ('a word agent \<Rightarrow> bool) \<Rightarrow> ('a word \<Rightarrow> int) \<Rightarrow>
    asm list \<Rightarrow> 'a word thread \<Rightarrow> 'a word \<Rightarrow> bool" where
  "insn_keeps ok owner credit p t w =
     (case exec_asm (p ! ip t) t w of None \<Rightarrow> False
      | Some (w', t', c) \<Rightarrow> ok w' (Running p t') \<and> 0 \<le> credit w' \<and>
          credit w' + of_bool (owner (Running p t')) = credit w + of_bool (owner (Running p t)))"

lemma insn_keepsE:
  assumes "insn_keeps ok owner credit p t w"
  obtains w' t' c where "exec_asm (p ! ip t) t w = Some (w', t', c)" and "ok w' (Running p t')"
    and "0 \<le> credit w'" and "credit w' + of_bool (owner (Running p t')) = credit w + of_bool (owner (Running p t))"
  using assms by (auto simp: insn_keeps_def split: option.splits)

lemma lock_insn_keeps:
  assumes "lock_ok w (Running p t)" and "ip t < length p"
  shows "insn_keeps lock_ok lock_owner lock_free p t w"
  using assms unfolding insn_keeps_def lock_ok.simps at_def
  by (elim conjE disjE; auto simp: lock_insns advance_def lock_free_def at_def)

interpretation spin: llsc_object lock_local lock_ok lock_owner lock_free 1
proof
  fix w w' :: "'a word" and a a' c
  assume s: "lock_local w a w' a' c" and pre: "lock_ok w a" "0 \<le> lock_free w"
    "lock_free w + of_bool (lock_owner a) \<le> 1"
  have "lock_ok w' a' \<and> 0 \<le> lock_free w' \<and>
    lock_free w' + of_bool (lock_owner a') = lock_free w + of_bool (lock_owner a)"
    using s
  proof cases
    case (lock_insn t p t')
    then show ?thesis using pre(1) lock_insn_keeps [of w p t]
      by (auto elim!: insn_keepsE simp del: lock_ok.simps lock_owner.simps)
  next
    case (lock_trap t p)
    then show ?thesis using pre(1) lock_insn_keeps [of w p t]
      by (auto elim!: insn_keepsE simp del: lock_ok.simps lock_owner.simps)
  qed (use pre in \<open>auto simp: entry_def at_def spinlock_release_def lock_free_def\<close>)
  then show "lock_ok w' a'"
    and "0 \<le> lock_free w' \<and> lock_free w' + of_bool (lock_owner a') = lock_free w + of_bool (lock_owner a)"
    by simp_all
next
  fix w w' :: "'a word" and a a'
  assume "lock_local w a w' a' False"
  then show "w' = w"
  proof cases
    case (lock_insn t p t')
    then show ?thesis by (cases "p ! ip t") (auto split: if_splits)
  qed auto
next
  fix w w' :: "'a word" and a
  show "lock_ok w a \<Longrightarrow> lock_ok w' (unlink a)"
    by (cases a) (auto simp: at_def)
  show "lock_owner (unlink a) = lock_owner a"
    by (cases a) (auto simp: at_def)
qed

section \<open>The semaphore\<close>

lemma sint_add_fits: "fits TYPE('a) (sint x + k) \<Longrightarrow> sint (x + of_int k :: 'a::len word) = sint x + k"
  using sint_plus_in_range [of x k] by (simp add: fits_def)

lemma take_fits: "0 \<le> sint (x :: 'a::len word) \<Longrightarrow> fits TYPE('a) (sint x - 1)"
  using sint_in_range(1) [of x] one_le_power [of "2 :: int" "LENGTH('a) - 1"] by (simp add: fits_def)

lemma release_fits: "0 \<le> sint x \<Longrightarrow> sint x < sint (v :: 'a::len word) \<Longrightarrow> fits TYPE('a) (sint (x :: 'a word) + 1)"
  using sint_in_range(1) [of v] by (simp add: fits_def)

lemma fits_minus1: "fits TYPE('a::len) (- 1)"
  using take_fits [of "0 :: 'a word"] by simp

lemma sint_take: "0 \<le> sint x \<Longrightarrow> sint (x - 1 :: 'a::len word) = sint x - 1"
  using sint_add_fits [of x "- 1"] take_fits [of x] by simp

lemma sint_release: "0 \<le> sint x \<Longrightarrow> sint x < sint (v :: 'a::len word) \<Longrightarrow> sint (x + 1 :: 'a word) = sint x + 1"
  using sint_add_fits [of x 1] release_fits [of x v] by simp

fun sem_ok :: "'a::len word \<Rightarrow> 'a word \<Rightarrow> 'a word agent \<Rightarrow> bool" where
  "sem_ok v w (Running p t) =
     (p = sem_take \<and>
        (at t 0 1 \<or> at t 1 2 \<and> 0 \<le> sint (tmp t) \<and> (link t \<longrightarrow> tmp t = w) \<or> at t 2 0 \<and> tmp t = 0 \<or>
         at t 2 3 \<and> 0 < sint (tmp t) \<and> (link t \<longrightarrow> tmp t = w) \<or>
         at t 3 4 \<and> (link t \<longrightarrow> 0 < sint w \<and> tmp t = w - 1) \<or>
         at t 4 5 \<or> at t 5 0 \<or> at t 5 6 \<or> at t 6 7) \<or>
      p = sem_release \<and>
        (at t 0 1 \<or> at t 1 2 \<and> 0 \<le> sint (tmp t) \<and> sint (tmp t) < sint v \<and> (link t \<longrightarrow> tmp t = w) \<or>
         at t 2 3 \<and> (link t \<longrightarrow> sint w < sint v \<and> tmp t = w + 1) \<or>
         at t 3 4 \<or> at t 4 0 \<or> at t 4 5 \<or> at t 5 6))"
| "sem_ok v w Trapped = False"
| "sem_ok v w a = True"

fun sem_owner :: "'a::len word agent \<Rightarrow> bool" where
  "sem_owner (Running p t) =
     (p = sem_take \<and> (at t 4 5 \<and> tmp t \<noteq> 0 \<or> at t 5 6 \<or> at t 6 7) \<or>
      p = sem_release \<and> \<not> (at t 3 4 \<and> tmp t \<noteq> 0 \<or> at t 4 5 \<or> at t 5 6))"
| "sem_owner a = (a = Holding)"

lemma sem_insns:
  "sem_take ! 0 = Ll" "sem_take ! Suc 0 = Beqz 0" "sem_take ! 2 = Addi (- 1)"
  "sem_take ! 3 = Sc" "sem_take ! 4 = Beqz 0" "sem_take ! 5 = Nop"
  "sem_release ! 0 = Ll" "sem_release ! Suc 0 = Addi 1" "sem_release ! 2 = Sc"
  "sem_release ! 3 = Beqz 0" "sem_release ! 4 = Nop"
  by (simp_all add: routines)

lemma sint_pos_iff: "0 \<le> sint x \<Longrightarrow> 0 < sint (x :: 'a::len word) \<longleftrightarrow> x \<noteq> 0"
  by (auto simp: less_le signed_eq_0_iff)

lemma sem_insn_keeps:
  assumes "sem_ok v w (Running p t)" and "ip t < length p" and "0 \<le> sint w"
    and "sint w + of_bool (sem_owner (Running p t)) \<le> sint v"
  shows "insn_keeps (sem_ok v) sem_owner sint p t w"
  using assms unfolding insn_keeps_def sem_ok.simps at_def
  by (elim conjE disjE; auto simp: sem_insns advance_def at_def take_fits release_fits [of _ v] sint_take
      sint_release [of _ v] sint_pos_iff fits_minus1)


lemma sem_ok_release: "sem_ok v w a \<Longrightarrow> sem_ok v w' (unlink a)"
  by (cases a) (auto simp: at_def)

interpretation sem: llsc_object sem_local "sem_ok v" sem_owner sint "sint v" for v
proof
  fix w w' :: "'a word" and a a' c
  assume s: "sem_local w a w' a' c" and pre: "sem_ok v w a" "0 \<le> sint w"
    "sint w + of_bool (sem_owner a) \<le> sint v"
  have "sem_ok v w' a' \<and> 0 \<le> sint w' \<and>
    sint w' + of_bool (sem_owner a') = sint w + of_bool (sem_owner a)"
    using s
  proof cases
    case (sem_insn t p t')
    then show ?thesis using pre sem_insn_keeps [of v w p t]
      by (auto elim!: insn_keepsE simp del: sem_ok.simps sem_owner.simps)
  next
    case (sem_trap t p)
    then show ?thesis using pre sem_insn_keeps [of v w p t]
      by (auto elim!: insn_keepsE simp del: sem_ok.simps sem_owner.simps)
  qed (use pre in \<open>auto simp: entry_def at_def\<close>)
  then show "sem_ok v w' a'"
    and "0 \<le> sint w' \<and> sint w' + of_bool (sem_owner a') = sint w + of_bool (sem_owner a)"
    by simp_all
next
  fix w w' :: "'a word" and a a'
  assume "sem_local w a w' a' False"
  then show "w' = w"
  proof cases
    case (sem_insn t p t')
    then show ?thesis by (cases "p ! ip t") (auto split: if_splits)
  qed auto
next
  fix w w' :: "'a word" and a
  show "sem_ok v w a \<Longrightarrow> sem_ok v w' (unlink a)"
    by (rule sem_ok_release)
  show "sem_owner (unlink a) = sem_owner a"
    by (cases a) (auto simp: at_def)
qed

section \<open>Whatever the interleaving\<close>

abbreviation holders :: "'w agent list \<Rightarrow> nat" where
  "holders as \<equiv> length (filter (\<lambda>a. a = Holding) as)"

lemma tally_holders: "tally (\<lambda>a. a = Holding) as = int (holders as)"
  by (induction as) auto

lemma tally_idle: "tally P (replicate n Idle) = (if P Idle then int n else 0)"
  by (induction n) auto

text \<open>
  C37: However the instructions of any number of processors that share a free lock interleave, and
  whatever links are lost, at most one of them holds the lock, none holds it while the word is
  zero, and none takes an exception.
\<close>

theorem spinlock_mutual_exclusion:
  assumes "(sys_step lock_local)\<^sup>*\<^sup>* (0, replicate n Idle) (w, as)"
  shows "holders as \<le> 1 \<and> (w = 0 \<longrightarrow> Holding \<notin> set as) \<and> Trapped \<notin> set as"
proof -
  have g: "spin.good (w, as)"
    by (rule spin.good_reach [OF assms]) (simp add: spin.good_def lock_free_def tally_idle list_all_length)
  have "lock_free w + int (holders as) \<le> 1"
    using spin.good_count(1) [OF g, of "\<lambda>a. a = Holding"] by (simp add: tally_holders)
  moreover have "Trapped \<notin> set as"
    using spin.good_member [OF g, of Trapped] by auto
  ultimately show ?thesis
    by (cases "w = 0") (auto simp: lock_free_def filter_empty_conv)
qed

text \<open>
  C38: However the instructions of any number of processors that share a semaphore of a value that
  is not negative interleave, the value never becomes negative, the value and the processors that
  hold a unit never exceed the initial value, no trapping add traps, and with no routine under way
  they make up the initial value exactly.
\<close>

theorem semaphore_conserves:
  fixes v w :: u32
  assumes "0 \<le> sint v" and "(sys_step sem_local)\<^sup>*\<^sup>* (v, replicate n Idle) (w, as)"
  shows "0 \<le> sint w \<and> sint w + int (holders as) \<le> sint v \<and> Trapped \<notin> set as \<and>
    ((\<forall>a\<in>set as. a = Idle \<or> a = Holding) \<longrightarrow> sint w + int (holders as) = sint v)"
proof -
  have g: "sem.good v (w, as)"
    by (rule sem.good_reach [OF assms(2)]) (simp add: assms(1) sem.good_def tally_idle list_all_length)
  have "(\<forall>a\<in>set as. a = Idle \<or> a = Holding) \<longrightarrow> tally sem_owner as = tally (\<lambda>a. a = Holding) as"
    by (induction as) auto
  moreover have "Trapped \<notin> set as"
    using sem.good_member [OF g, of Trapped] by auto
  ultimately show ?thesis
    using sem.good_count [OF g, of "\<lambda>a. a = Holding"] g
    by (auto simp: tally_holders sem.good_def)
qed

section \<open>Left alone\<close>

lemma solo_step:
  "length p \<le> ip t \<Longrightarrow> solo n p t w = Returned w t"
  "ip t < length p \<Longrightarrow> solo 0 p t w = Spinning"
  "ip t < length p \<Longrightarrow> solo (Suc n) p t w =
    (case exec_asm (p ! ip t) t w of None \<Rightarrow> Trapping | Some (w', t', _) \<Rightarrow> solo n p t' w')"
  by (simp_all add: solo.simps)

lemmas solo_run = solo_step entry_def advance_def routines solo_value_def eval_nat_numeral

text \<open>A routine that waits goes round its first three instructions.\<close>

lemma lock_waits:
  assumes "w \<noteq> 0" and "at t 0 1 \<or> at t 1 2 \<and> tmp t = w \<or> at t 2 0"
  shows "solo n spinlock_lock t w = Spinning"
  using assms
  by (induction n arbitrary: t) (auto simp: solo_step at_def lock_insns advance_def)

lemma take_waits:
  assumes "at t 0 1 \<or> at t 1 2 \<and> tmp t = 0 \<or> at t 2 0 \<and> tmp t = 0"
  shows "solo n sem_take t (0 :: 'a::len word) = Spinning"
  using assms
  by (induction n arbitrary: t) (auto simp: solo_step at_def sem_insns advance_def fits_minus1)

text \<open>
  C39: A processor that nothing interferes with takes a free lock within six instructions and leaves
  its value in it, and never returns while the lock is taken; \<open>trylock\<close> always returns within
  seven instructions the value the lock had, and takes it when that was zero.
\<close>

theorem spinlock_alone:
  shows "(if w = 0 then solo_value (solo (6 + n) spinlock_lock (entry v) w) = Some (v, 1)
          else solo n spinlock_lock (entry v) w = Spinning) \<and>
    solo_value (solo (7 + n) spinlock_trylock (entry v) w) = Some (if w = 0 then v else w, w)"
  using lock_waits [of w "entry v" n]
  by (auto simp: solo_run at_def)

lemma take_outcome:
  "w \<noteq> 0 \<Longrightarrow> solo (6 + n) sem_take (entry 0) w =
    (if fits TYPE('a) (sint (w :: 'a::len word) - 1)
     then Returned (w - 1) \<lparr>ip = 6, nip = 7, tmp = 1, val = 0, link = False\<rparr> else Trapping)"
  by (simp add: solo_run)

lemma release_outcome:
  "solo (5 + n) sem_release (entry 0) w =
    (if fits TYPE('a) (sint (w :: 'a::len word) + 1)
     then Returned (w + 1) \<lparr>ip = 5, nip = 6, tmp = 1, val = 0, link = False\<rparr> else Trapping)"
  by (simp add: solo_run)
lemma fits32_bounds: "sint (w :: u32) < 0x80000000" "- 0x80000000 \<le> sint w"
  using sint_in_range [of w] by simp_all

lemma fits_take32: "fits TYPE(32) (sint (w :: u32) - 1) \<longleftrightarrow> w \<noteq> 0x80000000"
proof -
  have "w = 0x80000000 \<longleftrightarrow> sint w = - 0x80000000" by (subst word_eq_iff_signed) simp
  then show ?thesis using fits32_bounds [of w] by (auto simp: fits_def)
qed

lemma fits_release32: "fits TYPE(32) (sint (w :: u32) + 1) \<longleftrightarrow> w \<noteq> 0x7FFFFFFF"
proof -
  have "w = 0x7FFFFFFF \<longleftrightarrow> sint w = 0x7FFFFFFF" by (subst word_eq_iff_signed) simp
  then show ?thesis using fits32_bounds [of w] by (auto simp: fits_def)
qed

text \<open>
  A processor that nothing interferes with takes a unit of a semaphore within six instructions,
  waits for ever on a zero, and gives a unit back within five; the trapping adds trap for the most
  negative value and for the largest value only, so a negative semaphore is decremented further.
\<close>

theorem semaphore_alone:
  fixes w :: u32
  shows "(if w = 0 then solo n sem_take (entry 0) w = Spinning
          else if w = 0x80000000 then solo (6 + n) sem_take (entry 0) w = Trapping
          else solo_value (solo (6 + n) sem_take (entry 0) w) = Some (w - 1, 1)) \<and>
    (if w = 0x7FFFFFFF then solo (5 + n) sem_release (entry 0) w = Trapping
     else solo_value (solo (5 + n) sem_release (entry 0) w) = Some (w + 1, 1))"
  using take_waits [of "entry 0 :: u32 thread" n] take_outcome [of w n] release_outcome [of n w]
    fits_take32 [of w] fits_release32 [of w]
  by (cases "w = 0x80000000"; cases "w = 0x7FFFFFFF") (simp_all add: entry_def at_def solo_value_def)

section \<open>The demonstrations\<close>

text \<open>\<open>"%#x"\<close> puts \<open>0x\<close> before everything but a zero.\<close>

definition alt_hex :: "'a::len word \<Rightarrow> string" where
  "alt_hex w = (if w = 0 then ''0'' else ''0x'' @ digits_of 16 (unat w))"

definition print_at :: "nat \<Rightarrow> string \<Rightarrow> 'a::len word \<Rightarrow> string" where
  "print_at line what w = ''@ '' @ digits_of 10 line @ '': '' @ what @ alt_hex w @ [CHR 0x0A]"

text \<open>
  \<open>main\<close> of \<open>spinlock.c\<close> does to \<open>lock64\<close> what it does to \<open>lock32\<close>; \<open>ln\<close> are the line numbers it
  prints. \<open>None\<close> is a call that does not return.
\<close>

definition lock_demo :: "string \<Rightarrow> nat list \<Rightarrow> 'a::len word \<Rightarrow> 'a word \<Rightarrow> string option" where
  "lock_demo bits ln v u =
     (let PRINTLOCK = (\<lambda>i w :: 'a word. print_at (ln ! i) (''lock'' @ bits @ '' = '') w);
          print_try = (\<lambda>i r :: 'a word. print_at (ln ! i) (''spinlock'' @ bits @ ''_trylock returned: '') r)
      in Option.bind (solo_value (solo 6 spinlock_lock (entry v) 0)) (\<lambda>(w1, _).
         Option.bind (solo_value (solo 7 spinlock_trylock (entry u) w1)) (\<lambda>(w2, r2).
         Option.bind (solo_value (solo 7 spinlock_trylock (entry u) spinlock_release)) (\<lambda>(w4, r4).
         Some (PRINTLOCK 0 0 @ PRINTLOCK 1 w1 @ print_try 2 r2 @ PRINTLOCK 3 w2 @ PRINTLOCK 4 spinlock_release @
           print_try 5 r4 @ PRINTLOCK 6 w4 @ PRINTLOCK 7 spinlock_release)))))"

definition spinlock_main :: "string option" where
  "spinlock_main =
     Option.bind (lock_demo ''32'' [64, 66, 67, 69, 71, 72, 74, 76] (0x12345678 :: u32) 0x9abcdef0) (\<lambda>out32.
     Option.bind (lock_demo ''64'' [83, 85, 86, 89, 91, 92, 95, 97] (0x123456789abcdef0 :: u64) 0x0fedcba987654321) (\<lambda>out64.
     Some (out32 @ [CHR 0x0A] @ out64)))"

datatype sem_call = PRINT_SEMAPHORE nat | Take | Release

fun sem_demo :: "string \<Rightarrow> sem_call list \<Rightarrow> u32 \<Rightarrow> string option" where
  "sem_demo x [] w = Some []"
| "sem_demo x (PRINT_SEMAPHORE line # cs) w =
     map_option (\<lambda>out. print_at line (x @ '' = '') w @ out) (sem_demo x cs w)"
| "sem_demo x (Take # cs) w = Option.bind (solo_value (solo 6 sem_take (entry 0) w)) (\<lambda>(w', _). sem_demo x cs w')"
| "sem_demo x (Release # cs) w = Option.bind (solo_value (solo 5 sem_release (entry 0) w)) (\<lambda>(w', _). sem_demo x cs w')"

definition semaphore_main :: "string option" where
  "semaphore_main =
     Option.bind (sem_demo ''s'' [PRINT_SEMAPHORE 55, Take, PRINT_SEMAPHORE 57, Release, PRINT_SEMAPHORE 63] 1) (\<lambda>out_s.
     Option.bind (sem_demo ''t'' [PRINT_SEMAPHORE 67, Take, PRINT_SEMAPHORE 69, Take, PRINT_SEMAPHORE 71, Release,
       PRINT_SEMAPHORE 77, Take, PRINT_SEMAPHORE 79, Release, PRINT_SEMAPHORE 81, Release, PRINT_SEMAPHORE 83] 2) (\<lambda>out_t.
     Some (out_s @ [CHR 0x0A] @ out_t)))"

text \<open>The waits the second program leaves out would indeed never end.\<close>

lemma lock_outcome: "solo_value (solo 6 spinlock_lock (entry v) 0) = Some (v, 1)"
  by (simp add: solo_run)

lemma trylock_outcome: "solo_value (solo 7 spinlock_trylock (entry v) w) = Some (if w = 0 then v else w, w)"
  by (simp add: solo_run)

text \<open>Both demonstrations run to their end; each lock is taken by the first and third attempt only.\<close>

lemma lock_demo_returns: "v \<noteq> 0 \<Longrightarrow> lock_demo bits ln v u \<noteq> None"
  by (simp add: lock_demo_def lock_outcome trylock_outcome)

lemma demos_return: "spinlock_main \<noteq> None" "semaphore_main \<noteq> None"
proof -
  show "spinlock_main \<noteq> None"
    using lock_demo_returns [of "0x12345678 :: u32" "''32''" "[64, 66, 67, 69, 71, 72, 74, 76]" "0x9abcdef0"]
      lock_demo_returns [of "0x123456789abcdef0 :: u64" "''64''" "[83, 85, 86, 89, 91, 92, 95, 97]" "0x0fedcba987654321"]
    unfolding spinlock_main_def by (auto simp del: One_nat_def)
  show "semaphore_main \<noteq> None"
    by (simp add: semaphore_main_def solo_value_def take_outcome [of _ 0, simplified] fits_take32
        release_outcome [of 0, simplified] fits_release32 fits_def)
qed

lemma third_take_waits: "sem_demo ''t'' [Take, Take, Take] 2 = None"
  by code_simp

section \<open>Two runs\<close>

text \<open>A run of two processors in which the first takes the lock, and one in which it takes a unit.\<close>

lemma first_steps: "L w a w' a' c \<Longrightarrow> sys_step L (w, [a, Idle]) (w', [a', Idle])"
  using sys_step.act [of 0 "[a, Idle]" L w w' a' c] by (cases c) auto

lemma first_runs:
  assumes "\<And>t w w' t' c. ip t < length p \<Longrightarrow> exec_asm (p ! ip t) t w = Some (w', t', c) \<Longrightarrow>
      L w (Running p t) w' (Running p t') c"
    and "solo n p t w = Returned w' t'"
  shows "(sys_step L)\<^sup>*\<^sup>* (w, [Running p t, Idle]) (w', [Running p t', Idle])"
  using assms(2)
proof (induction n arbitrary: w t)
  case 0
  then show ?case by (auto simp: solo.simps split: if_splits)
next
  case (Suc n)
  show ?case
  proof (cases "length p \<le> ip t")
    case True
    then show ?thesis using Suc.prems by (auto simp: solo_step(1))
  next
    case False
    then obtain w1 t1 c where "exec_asm (p ! ip t) t w = Some (w1, t1, c)" "solo n p t1 w1 = Returned w' t'"
      using Suc.prems by (auto simp: solo_step(3) split: option.splits)
    moreover have "sys_step L (w, [Running p t, Idle]) (w1, [Running p t1, Idle])"
      by (rule first_steps, rule assms(1)) (use False calculation(1) in auto)
    ultimately show ?thesis using Suc.IH by (blast intro: converse_rtranclp_into_rtranclp)
  qed
qed

lemma first_takes_lock: "(sys_step lock_local)\<^sup>*\<^sup>* (0 :: u32, replicate 2 Idle) (5, [Holding, Idle])"
proof -
  have 1: "sys_step lock_local (0 :: u32, [Idle, Idle]) (0, [Running spinlock_lock (entry 5), Idle])"
    by (rule first_steps, rule call_lock) simp
  have 2: "(sys_step lock_local)\<^sup>*\<^sup>* (0 :: u32, [Running spinlock_lock (entry 5), Idle])
      (5, [Running spinlock_lock \<lparr>ip = 6, nip = 7, tmp = 1, val = 5, link = False\<rparr>, Idle])"
    by (rule first_runs [of _ _ 6]) (simp_all add: lock_insn solo_run)
  have 3: "sys_step lock_local (5 :: u32, [Running spinlock_lock \<lparr>ip = 6, nip = 7, tmp = 1, val = 5, link = False\<rparr>, Idle])
      (5, [Holding, Idle])"
    by (rule first_steps, rule ret_lock) simp
  show ?thesis
    using rtranclp.rtrancl_into_rtrancl [OF converse_rtranclp_into_rtranclp [of "sys_step lock_local", OF 1 2] 3]
    by (simp add: numeral_2_eq_2)
qed

lemma first_takes_unit: "(sys_step sem_local)\<^sup>*\<^sup>* (2 :: u32, replicate 2 Idle) (1, [Holding, Idle])"
proof -
  have 1: "sys_step sem_local (2 :: u32, [Idle, Idle]) (2, [Running sem_take (entry 0), Idle])"
    by (rule first_steps, rule call_take)
  have 2: "(sys_step sem_local)\<^sup>*\<^sup>* (2 :: u32, [Running sem_take (entry 0), Idle])
      (1, [Running sem_take \<lparr>ip = 6, nip = 7, tmp = 1, val = 0, link = False\<rparr>, Idle])"
    by (rule first_runs [of _ _ 6])
      (simp_all add: sem_insn take_outcome [of _ 0, simplified] fits_take32 fits_def)
  have 3: "sys_step sem_local (1 :: u32, [Running sem_take \<lparr>ip = 6, nip = 7, tmp = 1, val = 0, link = False\<rparr>, Idle])
      (1, [Holding, Idle])"
    by (rule first_steps, rule ret_take) simp
  show ?thesis
    using rtranclp.rtrancl_into_rtrancl [OF converse_rtranclp_into_rtranclp [of "sys_step sem_local", OF 1 2] 3]
    by (simp add: numeral_2_eq_2)
qed

theorem spinlock_mutual_exclusion_witness:
  "holders [Holding :: u32 agent, Idle] \<le> 1 \<and> Trapped \<notin> set [Holding :: u32 agent, Idle]"
  using spinlock_mutual_exclusion [OF first_takes_lock] by blast

theorem semaphore_conserves_witness:
  "sint (1 :: u32) + int (holders [Holding :: u32 agent, Idle]) = sint (2 :: u32)"
proof -
  have "0 \<le> sint (2 :: u32)" by simp
  from semaphore_conserves [OF this first_takes_unit] show ?thesis by simp
qed

end
