(* ===== verification/Sb1str.thy ===== *)
theory Sb1str
  imports Prelude
begin

text \<open>
  The string routines of \<open>sb1-opt\<close>, hand-scheduled assembly in the 64-bit expansion (\<open>NBYTES\<close> is 8):
  \<open>ffs.S\<close>, \<open>ffs64.S\<close> and \<open>strcmp.S\<close>. Each label is a function of the registers that are live at it, with the
  instruction in a delay slot executed before the branch takes effect; a backward branch is
  recursion, so that a loop that does not end is None. \<open>be\<close> is the byte order.
\<close>

unbundle bit_operations_syntax

section \<open>Find first set\<close>

text \<open>\<open>clz\<close> and \<open>dclz\<close>: the zero bits above the highest one.\<close>

definition clz :: "'a::len word \<Rightarrow> nat" where
  "clz x = length (takeWhile (\<lambda>i. \<not> bit x i) (rev [0..<LENGTH('a)]))"

definition ffs :: "u32 \<Rightarrow> u32" where
  "ffs a0 =
     (let t0 = 0 - a0;
          a0 = t0 AND a0;
          v0 = 32;
          a0 = of_nat (clz a0)
      in v0 - a0)"

definition ffs64 :: "u64 \<Rightarrow> u32" where
  "ffs64 a0 =
     (let t0 = 0 - a0;
          a0 = t0 AND a0;
          v0 = 64;
          a0 = of_nat (clz a0)
      in v0 - a0)"

lemma odd_and_neg:
  fixes y :: "'a::len word"
  assumes "odd y"
  shows "- y AND y = 1"
proof -
  obtain z where z: "y = 2 * z + 1" using assms by (rule oddE)
  have "push_bit 1 z AND 1 = (0 :: 'a word)"
    by (simp add: and_one_eq mod_2_eq_odd even_push_bit_iff)
  then have y: "y = push_bit 1 z OR 1"
    using z by (simp add: push_bit_eq_mult mult.commute flip: disjunctive_add_eq_or)
  have "- y = NOT (push_bit 1 z)"
    using z by (simp add: minus_eq_not_minus_1 push_bit_eq_mult mult.commute)
  then show ?thesis
    unfolding y by (simp only:) (rule word_bit_ext, auto simp: bitwise bit_1_iff bit_0 simp del: push_bit_Suc)
qed

lemma lowest_bit:
  fixes x :: "'a::len word"
  assumes "bit x k" and "\<And>i. i < k \<Longrightarrow> \<not> bit x i"
  shows "- x AND x = push_bit k 1"
proof -
  let ?y = "drop_bit k x"
  have x: "x = push_bit k ?y"
  proof (rule word_bit_ext)
    fix n
    have "bit x n \<Longrightarrow> k \<le> n" using assms(2) not_le by blast
    then show "n < LENGTH('a) \<Longrightarrow> bit x n = bit (push_bit k ?y) n" by (auto simp: bitwise)
  qed
  have "odd ?y" using assms(1) by (simp flip: bit_0 add: bitwise)
  then have "push_bit k (- ?y) AND push_bit k ?y = push_bit k 1"
    by (simp add: odd_and_neg flip: push_bit_and)
  moreover have "- push_bit k ?y = push_bit k (- ?y)" by (simp add: push_bit_eq_mult)
  ultimately show ?thesis using x by metis
qed

lemma clz_zero: "clz (0 :: 'a::len word) = LENGTH('a)"
proof -
  have "takeWhile (\<lambda>i. \<not> bit (0 :: 'a word) i) xs = xs" for xs by (induction xs) simp_all
  then show ?thesis by (simp only: clz_def length_rev length_upt diff_zero)
qed

lemma clz_push_bit:
  assumes "k < LENGTH('a)"
  shows "clz (push_bit k 1 :: 'a::len word) = LENGTH('a) - 1 - k"
proof -
  have "rev [0..<LENGTH('a)] = rev [Suc k..<LENGTH('a)] @ k # rev [0..<k]"
    using upt_add_eq_append [of 0 k "LENGTH('a) - k"] assms by (simp add: upt_conv_Cons)
  moreover have "\<not> bit (push_bit k 1 :: 'a word) i" if "i \<in> set (rev [Suc k..<LENGTH('a)])" for i
    using that by (auto simp: bitwise bit_1_iff simp del: push_bit_of_1)
  moreover have "bit (push_bit k 1 :: 'a word) k" using assms by (simp add: bitwise bit_1_iff del: push_bit_of_1)
  ultimately have "takeWhile (\<lambda>i. \<not> bit (push_bit k 1 :: 'a word) i) (rev [0..<LENGTH('a)]) = rev [Suc k..<LENGTH('a)]"
    using takeWhile_append2 [of "rev [Suc k..<LENGTH('a)]" "\<lambda>i. \<not> bit (push_bit k 1 :: 'a word) i" "k # rev [0..<k]"]
    by simp
  then show ?thesis by (simp only: clz_def length_rev length_upt)
qed

text \<open>The position of the lowest bit set, counted from one.\<close>

definition first_set :: "'a::len word \<Rightarrow> nat" where
  "first_set x = (if x = 0 then 0 else Suc (LEAST i. bit x i))"

lemma clz_lowest: "clz (- x AND x :: 'a::len word) = LENGTH('a) - first_set x"
proof (cases "x = 0")
  case True
  then show ?thesis by (simp add: clz_zero first_set_def)
next
  case False
  then obtain j where "bit x j" by (auto simp: bit_eq_iff)
  then have k: "bit x (LEAST i. bit x i)" by (rule LeastI)
  then have "(LEAST i. bit x i) < LENGTH('a)" by (rule bit_imp_le_length)
  moreover have "- x AND x = push_bit (LEAST i. bit x i) 1"
    by (rule lowest_bit [OF k]) (auto dest: not_less_Least)
  ultimately show ?thesis using False by (simp add: clz_push_bit first_set_def del: push_bit_of_1)
qed

lemma first_set_le: "first_set x \<le> LENGTH('a)" for x :: "'a::len word"
proof (cases "x = 0")
  case True
  then show ?thesis by (simp add: first_set_def)
next
  case False
  then obtain j where "bit x j" by (auto simp: bit_eq_iff)
  then have "bit x (LEAST i. bit x i)" by (rule LeastI)
  then show ?thesis using bit_imp_le_length by (auto simp: first_set_def Suc_le_eq)
qed

lemma ffs_first_set: "ffs x = of_nat (first_set x)" "ffs64 y = of_nat (first_set y)"
proof -
  have "(of_nat (32 - first_set x) :: u32) = 32 - of_nat (first_set x)"
    "(of_nat (64 - first_set y) :: u32) = 64 - of_nat (first_set y)"
    using first_set_le [of x] first_set_le [of y] by (simp_all add: of_nat_diff)
  then show "ffs x = of_nat (first_set x)" "ffs64 y = of_nat (first_set y)"
    unfolding ffs_def ffs64_def Let_def diff_0 clz_lowest by simp_all
qed

section \<open>String comparison\<close>

text \<open>\<open>ld\<close> of a doubleword: its eight bytes in the processor's byte order.\<close>

definition dword_bytes :: "memory \<Rightarrow> u64 \<Rightarrow> u8 list" where
  "dword_bytes m a = map (\<lambda>k. m (a + of_nat k)) [0..<8]"

definition LOAD :: "bool \<Rightarrow> memory \<Rightarrow> u64 \<Rightarrow> u64" where
  "LOAD be m a = le_value (if be then rev (dword_bytes m a) else dword_bytes m a)"

definition const1 :: u64 where "const1 = 0x8080808080808080"
definition const2 :: u64 where "const2 = 0xfefefefefefefeff"

text \<open>The bytes at \<open>k(a0)\<close> and \<open>k(a1)\<close>: the value to return, or None to go on.\<close>

definition unaligned_unequal :: "u64 \<Rightarrow> u64 \<Rightarrow> u64" where
  "unaligned_unequal t0 t1 = (let t2 = t0 - t1 in if sint t2 < 0 then - 1 else 1)"

definition unaligned_byte :: "memory \<Rightarrow> u64 \<Rightarrow> u64 \<Rightarrow> u64 \<Rightarrow> u64 option" where
  "unaligned_byte m a0 a1 k =
     (let t0 = ucast (m (a0 + k)); t1 = ucast (m (a1 + k)); t2 = t1 AND t0
      in if t1 \<noteq> t0 then Some (unaligned_unequal t0 t1)
         else if t2 = 0 then Some 0 else None)"

partial_function (option) unaligned_loop :: "memory \<Rightarrow> u64 \<Rightarrow> u64 \<Rightarrow> u64 option" where
  "unaligned_loop m a0 a1 =
     (case unaligned_byte m a0 a1 0 of Some v0 \<Rightarrow> Some v0 | None \<Rightarrow>
      case unaligned_byte m a0 a1 1 of Some v0 \<Rightarrow> Some v0 | None \<Rightarrow>
      case unaligned_byte m a0 a1 2 of Some v0 \<Rightarrow> Some v0 | None \<Rightarrow>
      case unaligned_byte m a0 a1 3 of Some v0 \<Rightarrow> Some v0 | None \<Rightarrow>
      unaligned_loop m (a0 + 4) (a1 + 4))"

text \<open>The labels an aligned comparison leaves its loop for; \<open>a0\<close> and \<open>a1\<close> are already past the doubleword.\<close>

definition loop_exit :: "bool \<Rightarrow> u64 option" where
  "loop_exit t2 = Some (if t2 then - 1 else 1)"

definition zero_detected :: "memory \<Rightarrow> u64 \<Rightarrow> u64 \<Rightarrow> u64 \<Rightarrow> u64 \<Rightarrow> u64 option" where
  "zero_detected m a0 a1 t0 t1 = (if t0 \<noteq> t1 then unaligned_loop m (a0 - 8) (a1 - 8) else Some 0)"

definition early_mismatch :: "bool \<Rightarrow> memory \<Rightarrow> u64 \<Rightarrow> u64 \<Rightarrow> u64 \<Rightarrow> u64 \<Rightarrow> u64 \<Rightarrow> u64 option" where
  "early_mismatch be m a0 a1 t0 t1 t3 =
     (if be then
        let t2 = t0 < t1; t3 = t3 AND const1
        in if t3 = 0 then loop_exit t2 else zero_detected m a0 a1 t0 t1
      else zero_detected m a0 a1 t0 t1)"

text \<open>
  One doubleword of \<open>aligned_loop\<close>: where to leave to, or None to go on. The third doubleword of the
  unrolled loop leaves early only in the little-endian byte order.
\<close>

definition aligned_block :: "bool \<Rightarrow> bool \<Rightarrow> memory \<Rightarrow> u64 \<Rightarrow> u64 \<Rightarrow> u64 option option" where
  "aligned_block be third m a0 a1 =
     (let t0 = LOAD be m a0; t3 = t0 + const2; t2 = NOT t0; t1 = LOAD be m a1; t3 = t3 AND t2
      in if t0 \<noteq> t1 \<and> \<not> (be \<and> third) then Some (early_mismatch be m (a0 + 8) (a1 + 8) t0 t1 t3)
         else if t3 AND const1 \<noteq> 0 then Some (zero_detected m (a0 + 8) (a1 + 8) t0 t1)
         else if third \<and> t0 \<noteq> t1 then Some (loop_exit (t0 < t1))
         else None)"

partial_function (option) aligned_loop :: "bool \<Rightarrow> memory \<Rightarrow> u64 \<Rightarrow> u64 \<Rightarrow> u64 option" where
  "aligned_loop be m a0 a1 =
     (case aligned_block be False m a0 a1 of Some r \<Rightarrow> r | None \<Rightarrow>
      case aligned_block be False m (a0 + 8) (a1 + 8) of Some r \<Rightarrow> r | None \<Rightarrow>
      case aligned_block be True m (a0 + 16) (a1 + 16) of Some r \<Rightarrow> r | None \<Rightarrow>
      aligned_loop be m (a0 + 24) (a1 + 24))"

definition strcmp :: "bool \<Rightarrow> memory \<Rightarrow> u64 \<Rightarrow> u64 \<Rightarrow> u64 option" where
  "strcmp be m a0 a1 =
     (let t1 = (a0 OR a1) AND 7
      in if t1 \<noteq> 0 then unaligned_loop m a0 a1 else aligned_loop be m a0 a1)"

section \<open>The specification\<close>

text \<open>The strings at \<open>a\<close> and \<open>b\<close> first differ, or both end, at offset \<open>n\<close>, and how they compare there.\<close>

definition decided_at :: "memory \<Rightarrow> u64 \<Rightarrow> u64 \<Rightarrow> nat \<Rightarrow> bool" where
  "decided_at m a b n =
     ((\<forall>i<n. m (a + of_nat i) = m (b + of_nat i) \<and> m (a + of_nat i) \<noteq> 0) \<and>
      (m (a + of_nat n) = m (b + of_nat n) \<longrightarrow> m (a + of_nat n) = 0))"

definition compare_at :: "memory \<Rightarrow> u64 \<Rightarrow> u64 \<Rightarrow> nat \<Rightarrow> u64" where
  "compare_at m a b n =
     (let x = m (a + of_nat n); y = m (b + of_nat n) in if x = y then 0 else if x < y then - 1 else 1)"

lemma decided_shift:
  assumes "decided_at m a b n" and "k \<le> n"
  shows "decided_at m (a + of_nat k) (b + of_nat k) (n - k)"
    "compare_at m (a + of_nat k) (b + of_nat k) (n - k) = compare_at m a b n"
proof -
  have e: "c + of_nat k + of_nat (n - k) = c + of_nat n" "c + of_nat k + of_nat i = c + of_nat (k + i)"
    for c :: u64 and i using assms(2) by (simp_all add: of_nat_diff add.assoc)
  have "m (a + of_nat (k + i)) = m (b + of_nat (k + i)) \<and> m (a + of_nat (k + i)) \<noteq> 0" if "i < n - k" for i
    using assms(1) that unfolding decided_at_def by (metis add.commute less_diff_conv)
  then show "decided_at m (a + of_nat k) (b + of_nat k) (n - k)"
    using assms(1) unfolding decided_at_def e le_add_diff_inverse [OF assms(2)] by blast
  show "compare_at m (a + of_nat k) (b + of_nat k) (n - k) = compare_at m a b n"
    unfolding compare_at_def e le_add_diff_inverse [OF assms(2)] ..
qed

lemma byte_less: "unat (x :: u8) < 256"
  using unsigned_less [of x] by simp

lemma unat_byte [simp]: "unat (ucast (x :: u8) :: u64) = unat x"
  using byte_less [of x] by (simp add: unsigned_ucast_eq take_bit_nat_eq_self)

lemma byte_equal: "(ucast (x :: u8) :: u64) = ucast y \<longleftrightarrow> x = y"
  by (simp only: word_unat_eq_iff unat_byte)

lemma byte_zero: "(ucast (x :: u8) :: u64) = 0 \<longleftrightarrow> x = 0"
  using byte_equal [of x 0] by simp

lemma unequal_bytes:
  assumes "x \<noteq> y"
  shows "unaligned_unequal (ucast (x :: u8)) (ucast (y :: u8)) = (if x < y then - 1 else 1)"
proof -
  let ?d = "int (unat x) - int (unat y)"
  have "(ucast x - ucast y :: u64) = of_int ?d"
    by (simp only: of_int_diff of_int_of_nat_eq flip: unat_byte) simp
  moreover have "sint (0 + of_int ?d :: u64) = ?d"
    using sint_plus_in_range [of "0 :: u64" ?d] byte_less [of x] byte_less [of y] by (simp del: uint_nat of_nat_unat)
  ultimately have "sint (ucast x - ucast y :: u64) = ?d" by simp
  then show ?thesis by (simp add: unaligned_unequal_def word_less_def Let_def)
qed

lemma unaligned_byte_eq:
  "unaligned_byte m a b (of_nat k) =
     (if m (a + of_nat k) = m (b + of_nat k) \<and> m (a + of_nat k) \<noteq> 0 then None else Some (compare_at m a b k))"
  by (simp add: unaligned_byte_def compare_at_def Let_def byte_equal unequal_bytes byte_zero)

lemma unaligned_loop_eq:
  assumes "decided_at m a b n"
  shows "unaligned_loop m a b = Some (compare_at m a b n)"
  using assms
proof (induction n arbitrary: a b rule: less_induct)
  case (less n)
  have k: "unaligned_byte m a b (of_nat k) = (if k < n then None else Some (compare_at m a b k))" if "k \<le> n" for k
  proof (cases "k = n")
    case True
    then show ?thesis using less.prems by (simp add: unaligned_byte_eq decided_at_def)
  next
    case False
    then have "k < n" using that by simp
    then show ?thesis using less.prems unfolding unaligned_byte_eq decided_at_def by metis
  qed
  show ?case
  proof (cases "n < 4")
    case True
    then have "n = 0 \<or> n = 1 \<or> n = 2 \<or> n = 3" by auto
    then show ?thesis
      using k [of 0] k [of 1] k [of 2] k [of 3] by (subst unaligned_loop.simps) auto
  next
    case False
    have "unaligned_loop m (a + 4) (b + 4) = Some (compare_at m a b n)"
      using less.IH [of "n - 4" "a + 4" "b + 4"] decided_shift [OF less.prems, of 4] False by simp
    then show ?thesis
      using False k [of 0] k [of 1] k [of 2] k [of 3] by (subst unaligned_loop.simps) simp
  qed
qed
section \<open>The test for a zero byte\<close>

text \<open>
  Subtracting \<open>0x01\<close> from every byte at once: byte by byte with a borrow. The borrow out of the
  last byte is lost.
\<close>

fun ones :: "nat \<Rightarrow> u64" where
  "ones 0 = 0"
| "ones (Suc n) = 1 + 256 * ones n"

fun dec_bytes :: "u8 list \<Rightarrow> bool \<Rightarrow> u8 list" where
  "dec_bytes [] c = []"
| "dec_bytes (b # bs) c = (b - 1 - of_bool c) # dec_bytes bs (b = 0 \<or> c \<and> b = 1)"

fun borrow :: "u8 list \<Rightarrow> bool \<Rightarrow> bool" where
  "borrow [] c = c"
| "borrow (b # bs) c = borrow bs (b = 0 \<or> c \<and> b = 1)"

lemma le_value_Cons: "le_value (b # bs) = ucast b + 256 * le_value bs"
proof -
  have "ucast b AND push_bit 8 (le_value bs) = 0"
    by (rule word_bit_ext) (auto simp: bitwise bit_ucast_iff dest: bit_imp_le_length)
  then show ?thesis by (simp add: push_bit_eq_mult mult.commute flip: disjunctive_add_eq_or)
qed

lemma byte_minus_1: "(ucast (- 1 :: u8) :: u64) = 255"
  by code_simp

lemma dec_byte:
  "(ucast (b :: u8) :: u64) - 1 - of_bool c = ucast (b - 1 - of_bool c) - (if b = 0 \<or> c \<and> b = 1 then 256 else 0)"
proof -
  have le: "b \<noteq> 0 \<Longrightarrow> 1 \<le> unat b" "b \<noteq> 0 \<Longrightarrow> b \<noteq> 1 \<Longrightarrow> 2 \<le> unat b"
    using unat_eq_zero [of b] word_unat_eq_iff [of b 1] by force+
  consider "b = 0" "\<not> c" | "b = 0" c | "b = 1" c | "b \<noteq> 0" "\<not> c" | "b \<noteq> 0" "b \<noteq> 1" c by blast
  then show ?thesis
  proof cases
    case 4
    then have "1 \<le> b" using le by (simp add: word_le_nat_alt)
    then have "unat (b - 1) = unat b - 1" by (simp add: unat_sub)
    then have "(ucast (b - 1) :: u64) = ucast b - 1"
      using le 4 by (intro word_unat_eq_iff [THEN iffD2]) (simp add: unat_sub word_le_nat_alt)
    then show ?thesis using 4 by simp
  next
    case 5
    then have "2 \<le> b" using le by (simp add: word_le_nat_alt)
    then have "unat (b - 2) = unat b - 2" by (simp add: unat_sub)
    then have "(ucast (b - 2) :: u64) = ucast b - 2"
      using le 5 by (intro word_unat_eq_iff [THEN iffD2]) (simp add: unat_sub word_le_nat_alt)
    then show ?thesis using 5 by simp
  qed (simp_all add: byte_minus_1)
qed

lemma dec_value:
  "le_value bs - ones (length bs) - of_bool c = le_value (dec_bytes bs c) - of_bool (borrow bs c) * 256 ^ length bs"
proof (induction bs arbitrary: c)
  case Nil
  then show ?case by simp
next
  case (Cons b bs)
  let ?c = "b = 0 \<or> c \<and> b = 1"
  have "le_value (b # bs) - ones (length (b # bs)) - of_bool c =
      (ucast b - 1 - of_bool c) + 256 * (le_value bs - ones (length bs))"
    by (simp add: le_value_Cons algebra_simps del: le_value.simps)
  also have "\<dots> = ucast (b - 1 - of_bool c) + 256 * (le_value bs - ones (length bs) - of_bool ?c)"
    unfolding dec_byte [of b c] by (simp add: algebra_simps)
  also have "\<dots> = le_value (dec_bytes (b # bs) c) - of_bool (borrow (b # bs) c) * 256 ^ length (b # bs)"
    unfolding Cons.IH by (simp add: le_value_Cons algebra_simps del: le_value.simps)
  finally show ?case .
qed

lemma length_dec_bytes [simp]: "length (dec_bytes bs c) = length bs"
  by (induction bs arbitrary: c) auto

lemma dec_bytes_nonzero: "0 \<notin> set bs \<Longrightarrow> dec_bytes bs False = map (\<lambda>b. b - 1) bs"
  by (induction bs) auto

lemma dec_bytes_zero: "0 \<notin> set bs \<Longrightarrow> dec_bytes (bs @ 0 # cs) False ! length bs = 0xff"
  by (induction bs) auto

lemma top_bit: "bit (b :: u8) 7 \<longleftrightarrow> 128 \<le> unat b"
proof -
  have "bit b 7 = odd (unat b div 2 ^ 7)" by (simp add: bit_iff_odd flip: unat_div) (simp add: word_arith_nat_div even_of_nat)
  moreover have "unat b div 2 ^ 7 = 1" if "128 \<le> unat b"
    using that byte_less [of b] by (intro div_nat_eqI) simp_all
  moreover have "unat b div 2 ^ 7 = 0" if "\<not> 128 \<le> unat b"
    using that by simp
  ultimately show ?thesis by (cases "128 \<le> unat b") simp_all
qed

lemma dec_top_bit: "b \<noteq> 0 \<Longrightarrow> bit (b - 1 :: u8) 7 \<Longrightarrow> bit b 7"
  using unat_eq_zero [of b] unfolding top_bit
  by (cases "unat b = 0") (auto simp: unat_sub word_le_nat_alt)

lemma word_nonzero_bit: "x \<noteq> 0 \<longleftrightarrow> (\<exists>i<64. bit x i)" for x :: u64
  using word_bit_ext [of x 0] by auto

lemma zero_byte_test:
  assumes "length bs = 8"
  shows "(le_value bs + const2) AND NOT (le_value bs) AND const1 \<noteq> 0 \<longleftrightarrow> 0 \<in> set bs"
proof -
  have c2: "const2 = - ones 8" by code_simp
  have d: "le_value bs + const2 = le_value (dec_bytes bs False)"
    using dec_value [of bs False] assms by (simp add: c2)
  have c1: "bit const1 i \<longleftrightarrow> i < 64 \<and> i mod 8 = 7" for i
  proof (cases "i < 64")
    case True
    then have "i \<in> set [0..<64]" by simp
    moreover have "\<forall>i \<in> set [0..<64]. bit const1 i = (i mod 8 = 7)" by code_simp
    ultimately show ?thesis using True by blast
  qed (auto dest: bit_imp_le_length)
  have "(le_value (dec_bytes bs False) AND NOT (le_value bs) AND const1 \<noteq> 0) \<longleftrightarrow>
      (\<exists>i<64. i mod 8 = 7 \<and> bit (dec_bytes bs False ! (i div 8)) 7 \<and> \<not> bit (bs ! (i div 8)) 7)"
    using assms by (auto simp: word_nonzero_bit bitwise c1 le_value_bit)
  also have "\<dots> \<longleftrightarrow> (\<exists>j<8. bit (dec_bytes bs False ! j) 7 \<and> \<not> bit (bs ! j) 7)"
  proof
    assume "\<exists>i<64. i mod 8 = 7 \<and> bit (dec_bytes bs False ! (i div 8)) 7 \<and> \<not> bit (bs ! (i div 8)) 7"
    then obtain i where "i < 64" "bit (dec_bytes bs False ! (i div 8)) 7" "\<not> bit (bs ! (i div 8)) 7" by blast
    then show "\<exists>j<8. bit (dec_bytes bs False ! j) 7 \<and> \<not> bit (bs ! j) 7" by (intro exI [of _ "i div 8"]) auto
  next
    assume "\<exists>j<8. bit (dec_bytes bs False ! j) 7 \<and> \<not> bit (bs ! j) 7"
    then obtain j where "j < 8" "bit (dec_bytes bs False ! j) 7" "\<not> bit (bs ! j) 7" by blast
    then show "\<exists>i<64. i mod 8 = 7 \<and> bit (dec_bytes bs False ! (i div 8)) 7 \<and> \<not> bit (bs ! (i div 8)) 7"
      by (intro exI [of _ "8 * j + 7"]) simp
  qed
  also have "\<dots> \<longleftrightarrow> 0 \<in> set bs"
  proof
    assume "\<exists>j<8. bit (dec_bytes bs False ! j) 7 \<and> \<not> bit (bs ! j) 7"
    then show "0 \<in> set bs"
      using assms dec_bytes_nonzero [of bs] dec_top_bit by (metis length_map nth_map nth_mem)
  next
    assume "0 \<in> set bs"
    then obtain xs ys where bs: "bs = xs @ 0 # ys" "0 \<notin> set xs" by (meson split_list_first)
    then have "bit (dec_bytes bs False ! length xs) 7 \<and> \<not> bit (bs ! length xs) 7" "length xs < 8"
      using dec_bytes_zero [of xs ys] assms by (simp_all add: top_bit)
    then show "\<exists>j<8. bit (dec_bytes bs False ! j) 7 \<and> \<not> bit (bs ! j) 7" by blast
  qed
  finally show ?thesis by (simp add: d)
qed
section \<open>Doublewords as strings\<close>

lemma le_value_less: "length bs \<le> 8 \<Longrightarrow> unat (le_value bs) < 256 ^ length bs"
proof -
  assume "length bs \<le> 8"
  then have "take_bit (8 * length bs) (le_value bs) = le_value bs"
    by (intro word_bit_ext) (auto simp: bit_take_bit_iff le_value_bit)
  then have "unat (le_value bs) = take_bit (8 * length bs) (unat (le_value bs))"
    by (metis unsigned_take_bit_eq)
  also have "\<dots> < 2 ^ (8 * length bs)" by simp
  finally show ?thesis by (simp add: power_mult)
qed

lemma le_value_append:
  "length (bs @ cs) \<le> 8 \<Longrightarrow> unat (le_value (bs @ cs)) = unat (le_value bs) + 256 ^ length bs * unat (le_value cs)"
proof (induction bs)
  case Nil
  then show ?case by simp
next
  case (Cons b bs)
  let ?v = "le_value (bs @ cs)"
  have cons: "unat (le_value (b # ds)) = unat b + 256 * unat (le_value ds)" if "length ds < 8" for ds
  proof -
    have "unat (le_value ds) < 256 ^ length ds" using that by (intro le_value_less) simp
    also have "\<dots> \<le> 256 ^ 7" using that by (intro power_increasing) auto
    finally have small: "unat (le_value ds) < 256 ^ 7" .
    then have m: "unat (256 * le_value ds :: u64) = 256 * unat (le_value ds)"
      by (simp add: unat_mult_lem [THEN iffD1])
    have "unat (ucast b + 256 * le_value ds :: u64) = unat b + 256 * unat (le_value ds)"
      using small byte_less [of b] by (subst unat_add_lem [THEN iffD1]) (simp_all add: m)
    then show ?thesis by (simp only: le_value_Cons)
  qed
  show ?case
    using Cons by (simp add: cons algebra_simps del: le_value.simps)
qed

text \<open>With the first byte on top, words compare as the byte strings they hold.\<close>

lemma big_endian_less:
  assumes "length (p @ x # xs) = 8" and "length (p @ y # ys) = 8" and "unat x < unat y"
  shows "le_value (rev (p @ x # xs)) < le_value (rev (p @ y # ys))"
proof -
  have v: "unat (le_value (rev (p @ z # zs))) =
      unat (le_value (rev zs)) + 256 ^ length zs * (unat z + 256 * unat (le_value (rev p)))"
    if "length (p @ z # zs) = 8" for z and zs :: "u8 list"
  proof -
    have "unat (le_value ([z] @ rev p)) = unat (le_value [z]) + 256 ^ length [z] * unat (le_value (rev p))"
      using that by (intro le_value_append) simp
    moreover have "unat (le_value (rev zs @ [z] @ rev p)) =
        unat (le_value (rev zs)) + 256 ^ length (rev zs) * unat (le_value ([z] @ rev p))"
      using that by (intro le_value_append) simp
    ultimately show ?thesis by simp
  qed
  have l: "length xs = length ys" using assms(1,2) by simp
  have "unat (le_value (rev xs)) < 256 ^ length ys"
    using le_value_less [of "rev xs"] assms(1) l by simp
  moreover have "256 ^ length ys * (unat x + 1 + 256 * unat (le_value (rev p))) \<le>
      256 ^ length ys * (unat y + 256 * unat (le_value (rev p)))"
    using assms(3) by (intro mult_le_mono2) simp
  ultimately show ?thesis
    unfolding word_less_nat_alt v [OF assms(1)] v [OF assms(2)] l by (simp add: algebra_simps)
qed

lemma le_value_inj: "length bs = 8 \<Longrightarrow> length cs = 8 \<Longrightarrow> le_value bs = le_value cs \<longleftrightarrow> bs = cs"
proof
  assume l: "length bs = 8" "length cs = 8" and e: "le_value bs = le_value cs"
  show "bs = cs"
  proof (rule nth_equalityI)
    fix i assume "i < length bs"
    show "bs ! i = cs ! i"
    proof (rule word_bit_ext)
      fix k :: nat assume "k < LENGTH(8)"
      then have "bit (le_value bs) (8 * i + k) = bit (le_value cs) (8 * i + k)" by (simp add: e)
      then show "bit (bs ! i) k = bit (cs ! i) k"
        using l \<open>i < length bs\<close> \<open>k < LENGTH(8)\<close> by (simp add: le_value_bit)
    qed
  qed (simp add: l)
qed simp

lemma LOAD_eq_iff: "LOAD be m a = LOAD be m b \<longleftrightarrow> dword_bytes m a = dword_bytes m b"
  by (simp add: LOAD_def le_value_inj dword_bytes_def split: if_splits)

lemma LOAD_zero: "((LOAD be m a + const2) AND NOT (LOAD be m a)) AND const1 \<noteq> 0 \<longleftrightarrow> 0 \<in> set (dword_bytes m a)"
  using zero_byte_test [of "dword_bytes m a"] zero_byte_test [of "rev (dword_bytes m a)"]
  by (cases be) (simp_all add: LOAD_def dword_bytes_def and.assoc)
section \<open>The aligned loop\<close>

lemma dword_bytes_nth: "k < 8 \<Longrightarrow> dword_bytes m a ! k = m (a + of_nat k)"
  by (simp add: dword_bytes_def)

lemma length_dword_bytes [simp]: "length (dword_bytes m a) = 8"
  by (simp add: dword_bytes_def)

lemma same_dwords:
  assumes "decided_at m a b n" and "8 \<le> n"
  shows "dword_bytes m a = dword_bytes m b" "0 \<notin> set (dword_bytes m a)"
proof -
  have p: "m (a + of_nat k) = m (b + of_nat k) \<and> m (a + of_nat k) \<noteq> 0" if "k < 8" for k
    using assms that unfolding decided_at_def by (meson less_le_trans)
  show "dword_bytes m a = dword_bytes m b"
    by (rule nth_equalityI) (simp_all add: dword_bytes_nth p)
  show "0 \<notin> set (dword_bytes m a)"
    using p by (metis dword_bytes_nth in_set_conv_nth length_dword_bytes)
qed

lemma split_dword: "k < 8 \<Longrightarrow> dword_bytes m a = take k (dword_bytes m a) @ m (a + of_nat k) # drop (Suc k) (dword_bytes m a)"
  using id_take_nth_drop [of k "dword_bytes m a"] by (simp add: dword_bytes_nth)

lemma decided_dword:
  assumes "decided_at m a b n" and "n < 8"
  shows "take n (dword_bytes m a) = take n (dword_bytes m b)" "0 \<notin> set (take n (dword_bytes m a))"
proof -
  have p: "m (a + of_nat k) = m (b + of_nat k) \<and> m (a + of_nat k) \<noteq> 0" if "k < n" for k
    using assms that unfolding decided_at_def by meson
  show "take n (dword_bytes m a) = take n (dword_bytes m b)"
    by (rule nth_equalityI) (use assms(2) p in \<open>simp_all add: dword_bytes_nth\<close>)
  show "0 \<notin> set (take n (dword_bytes m a))"
  proof
    assume "0 \<in> set (take n (dword_bytes m a))"
    then obtain k where "k < n" "dword_bytes m a ! k = 0" by (auto simp: in_set_conv_nth)
    then show False using p [of k] assms(2) by (simp add: dword_bytes_nth)
  qed
qed

text \<open>A big-endian comparison of words that hold no zero byte decides as the strings do.\<close>

lemma big_endian_decides:
  assumes "decided_at m a b n" and "n < 8" and "0 \<notin> set (dword_bytes m a)"
  shows "LOAD True m a \<noteq> LOAD True m b"
    and "loop_exit (LOAD True m a < LOAD True m b) = Some (compare_at m a b n)"
proof -
  let ?x = "m (a + of_nat n)" and ?y = "m (b + of_nat n)"
  let ?p = "take n (dword_bytes m a)"
  have a: "dword_bytes m a = ?p @ ?x # drop (Suc n) (dword_bytes m a)"
    and b: "dword_bytes m b = ?p @ ?y # drop (Suc n) (dword_bytes m b)"
    using split_dword [OF assms(2)] decided_dword(1) [OF assms(1,2)] by metis+
  have "?x \<in> set (dword_bytes m a)" using assms(2) by (metis dword_bytes_nth length_dword_bytes nth_mem)
  then have "?x \<noteq> 0" using assms(3) by metis
  then have ne: "?x \<noteq> ?y" using assms(1) by (auto simp: decided_at_def)
  then show "LOAD True m a \<noteq> LOAD True m b"
    unfolding LOAD_eq_iff using assms(2) by (metis dword_bytes_nth)
  have l: "length (?p @ ?x # drop (Suc n) (dword_bytes m a)) = 8" "length (?p @ ?y # drop (Suc n) (dword_bytes m b)) = 8"
    using assms(2) by simp_all
  have "LOAD True m a < LOAD True m b" if "?x < ?y"
    using big_endian_less [OF l] that a b by (simp add: LOAD_def word_less_nat_alt)
  moreover have "LOAD True m b < LOAD True m a" if "?y < ?x"
    using big_endian_less [OF l(2,1)] that a b by (simp add: LOAD_def word_less_nat_alt)
  ultimately show "loop_exit (LOAD True m a < LOAD True m b) = Some (compare_at m a b n)"
    using ne less_le [of ?y ?x] by (cases "?x < ?y") (auto simp: loop_exit_def compare_at_def Let_def not_less)
qed

lemma zero_detected_eq:
  assumes "decided_at m a b n" and "n < 8" and "LOAD be m a = LOAD be m b \<Longrightarrow> 0 \<in> set (dword_bytes m a)"
  shows "zero_detected m (a + 8) (b + 8) (LOAD be m a) (LOAD be m b) = Some (compare_at m a b n)"
proof (cases "LOAD be m a = LOAD be m b")
  case True
  then have "m (a + of_nat n) = m (b + of_nat n)" using assms(2) unfolding LOAD_eq_iff by (metis dword_bytes_nth)
  then show ?thesis using True by (simp add: zero_detected_def compare_at_def)
next
  case False
  then show ?thesis using unaligned_loop_eq [OF assms(1)] by (simp add: zero_detected_def)
qed

lemma aligned_block_eq:
  assumes "decided_at m a b n"
  shows "aligned_block be third m a b = (if n < 8 then Some (Some (compare_at m a b n)) else None)"
proof (cases "n < 8")
  case False
  then have "LOAD be m a = LOAD be m b" "0 \<notin> set (dword_bytes m a)"
    using same_dwords [OF assms] by (simp_all add: LOAD_eq_iff)
  then show ?thesis using False LOAD_zero [of be m a] by (simp add: aligned_block_def Let_def)
next
  case True
  let ?t0 = "LOAD be m a" and ?t1 = "LOAD be m b"
  have eq: "0 \<in> set (dword_bytes m a)" if "?t0 = ?t1"
  proof (rule ccontr)
    assume "0 \<notin> set (dword_bytes m a)"
    moreover have "m (a + of_nat n) = m (b + of_nat n)" using that True unfolding LOAD_eq_iff by (metis dword_bytes_nth)
    then have "m (a + of_nat n) = 0" using assms by (simp add: decided_at_def)
    ultimately show False using True by (metis dword_bytes_nth length_dword_bytes nth_mem)
  qed
  note z = zero_detected_eq [OF assms True, of be, OF eq]
  have e: "early_mismatch be m (a + 8) (b + 8) ?t0 ?t1 ((?t0 + const2) AND NOT ?t0) = Some (compare_at m a b n)"
    using big_endian_decides [OF assms True] LOAD_zero [of be m a] z
    by (cases be) (auto simp: early_mismatch_def Let_def)
  show ?thesis
    using True e z eq LOAD_zero [of be m a] big_endian_decides [OF assms True]
    by (cases be) (auto simp: aligned_block_def Let_def)
qed

lemma aligned_loop_eq:
  assumes "decided_at m a b n"
  shows "aligned_loop be m a b = Some (compare_at m a b n)"
  using assms
proof (induction n arbitrary: a b rule: less_induct)
  case (less n)
  have sh: "decided_at m (a + of_nat k) (b + of_nat k) (n - k) \<and>
      compare_at m (a + of_nat k) (b + of_nat k) (n - k) = compare_at m a b n" if "k \<le> n" for k
    using decided_shift [OF less.prems that] by blast
  have blk: "aligned_block be third m (a + of_nat k) (b + of_nat k) =
      (if n < k + 8 then Some (Some (compare_at m a b n)) else None)" if "k \<le> n" for k third
    using sh [OF that] aligned_block_eq [of m "a + of_nat k" "b + of_nat k" "n - k" be third] that by auto
  show ?case
  proof (cases "n < 24")
    case True
    then consider "n < 8" | "8 \<le> n" "n < 16" | "16 \<le> n" "n < 24" by linarith
    then show ?thesis
      by cases (subst aligned_loop.simps; use blk [of 0] blk [of 8] blk [of 16] in simp)+
  next
    case False
    have "aligned_loop be m (a + 24) (b + 24) = Some (compare_at m a b n)"
      using less.IH [of "n - 24" "a + 24" "b + 24"] sh [of 24] False by simp
    then show ?thesis
      using False blk [of 0] blk [of 8] blk [of 16] by (subst aligned_loop.simps) simp
  qed
qed

section \<open>Properties\<close>

text \<open>
  \<open>ffs\<close> and \<open>ffs64\<close> return the position of the lowest bit that is set, counted from one, and 0 for
  the operand 0.
\<close>

theorem ffs_correct:
  "ffs x = of_nat (first_set x) \<and> ffs64 y = of_nat (first_set y)"
  using ffs_first_set by blast

text \<open>
  C36: In either byte order and whatever the alignment of the two strings, the doubleword routine
  returns what a comparison byte by byte as unsigned characters gives: if the strings first differ, or
  both end, at offset \<open>n\<close>, the routine ends and returns 0, -1 or 1 for the characters there; what lies
  behind the end of the strings does not matter.
\<close>

theorem strcmp_correct:
  assumes "decided_at m a0 a1 n"
  shows "strcmp be m a0 a1 = Some (compare_at m a0 a1 n)"
  using assms by (simp add: strcmp_def Let_def unaligned_loop_eq aligned_loop_eq)

text \<open>Aligned strings of ten characters that differ in the last one, with unequal bytes behind the end.\<close>

theorem strcmp_correct_witness:
  "strcmp True (\<lambda>a. if a = 0x109 then 0x62 else if a = 0x209 then 0xe1 else if a = 0x20a then 0 else
      if a = 0x20b then 0x33 else if a = 0x10a then 0 else 0x61) 0x100 0x200 = Some (- 1)"
proof -
  let ?m = "\<lambda>a :: u64. (if a = 0x109 then 0x62 else if a = 0x209 then 0xe1 else if a = 0x20a then 0 else
      if a = 0x20b then 0x33 else if a = 0x10a then 0 else 0x61) :: u8"
  have "decided_at ?m 0x100 0x200 9" by code_simp
  then have "strcmp True ?m 0x100 0x200 = Some (compare_at ?m 0x100 0x200 9)" by (rule strcmp_correct)
  moreover have "compare_at ?m 0x100 0x200 9 = - 1" by code_simp
  ultimately show ?thesis by simp
qed

end
