(* ===== verification/Sb1mem.thy ===== *)
theory Sb1mem
  imports Sb1str "HOL-Library.Monad_Syntax"
begin

text \<open>
  The \<open>memset.S\<close> of \<open>sb1-opt\<close> and the doubleword accesses it shares with \<open>memcpy.S\<close>, in the 64-bit expansion (\<open>NBYTES\<close> is 8), with the
  conventions of the string routines: a function for each label, the instruction in a delay slot before
  its branch. A doubleword access at an address that is not a multiple of 8 raises an address error and
  makes the result None. Prefetches and the \<open>USE\<close> loads, whose value is thrown away, are left out; they change
  neither memory nor a register that is read.
\<close>

unbundle bit_operations_syntax

section \<open>Doublewords in memory\<close>

text \<open>
  The bytes of a register in the order of memory, and a doubleword made of bytes in that order. \<open>STFIRST\<close> is
  \<open>sdl\<close> on a big-endian and \<open>sdr\<close> on a little-endian machine: it stores the first bytes, up to the next
  doubleword boundary. \<open>LDFIRST\<close> loads those bytes into the same places of the register and keeps
  the others; \<open>LDREST\<close>, given the address of the last byte, loads from the boundary to that byte.
\<close>

definition mem_byte :: "bool \<Rightarrow> u64 \<Rightarrow> nat \<Rightarrow> u8" where
  "mem_byte be v j = ucast (drop_bit (8 * (if be then 7 - j else j)) v)"

definition of_mem_bytes :: "bool \<Rightarrow> (nat \<Rightarrow> u8) \<Rightarrow> u64" where
  "of_mem_bytes be f = le_value (if be then rev (map f [0..<8]) else map f [0..<8])"

definition aligned :: "u64 \<Rightarrow> bool" where
  "aligned a \<longleftrightarrow> a AND 7 = 0"

definition STORE :: "bool \<Rightarrow> u64 \<Rightarrow> u64 \<Rightarrow> memory \<Rightarrow> memory option" where
  "STORE be v a m = (if aligned a then Some (store_bytes a 8 (mem_byte be v) m) else None)"

definition LOAD_aligned :: "bool \<Rightarrow> memory \<Rightarrow> u64 \<Rightarrow> u64 option" where
  "LOAD_aligned be m a = (if aligned a then Some (LOAD be m a) else None)"

definition STFIRST :: "bool \<Rightarrow> u64 \<Rightarrow> u64 \<Rightarrow> memory \<Rightarrow> memory" where
  "STFIRST be v a m = store_bytes a (8 - unat (a AND 7)) (mem_byte be v) m"

definition LDFIRST :: "bool \<Rightarrow> memory \<Rightarrow> u64 \<Rightarrow> u64 \<Rightarrow> u64" where
  "LDFIRST be m r a =
     of_mem_bytes be (\<lambda>j. if j < 8 - unat (a AND 7) then m (a + of_nat j) else mem_byte be r j)"

definition LDREST :: "bool \<Rightarrow> memory \<Rightarrow> u64 \<Rightarrow> u64 \<Rightarrow> u64" where
  "LDREST be m r a =
     of_mem_bytes be (\<lambda>j. if 7 - j \<le> unat (a AND 7) then m (a - of_nat (7 - j)) else mem_byte be r j)"

section \<open>memset\<close>

definition replicate_byte :: "u64 \<Rightarrow> u64" where
  "replicate_byte val =
     (let tmp = push_bit 8 val; val = val OR tmp; tmp = push_bit 16 val; val = val OR tmp;
          tmp = push_bit 32 val
      in val OR tmp)"

text \<open>The unrolled sequences: \<open>STORE val, FIRST(N)(dst)\<close> for each \<open>N\<close> of the list.\<close>

fun store_units :: "bool \<Rightarrow> u64 \<Rightarrow> u64 \<Rightarrow> nat list \<Rightarrow> memory \<Rightarrow> memory option" where
  "store_units be val dst [] m = Some m"
| "store_units be val dst (N # Ns) m =
     do { m \<leftarrow> STORE be val (dst + of_nat (8 * N)) m; store_units be val dst Ns m }"

text \<open>
  The loop of sixteen doublewords; \<open>count\<close> is the number of rounds left after this one. With
  \<open>C1_WORKAROUND\<close> the bottom of the loop branches back early in seven of eight rounds.
\<close>

function set_many :: "bool \<Rightarrow> bool \<Rightarrow> u64 \<Rightarrow> u64 \<Rightarrow> u64 \<Rightarrow> memory \<Rightarrow> (u64 \<times> memory) option" where
  "set_many be c1 val count dst m =
     do {
       m \<leftarrow> store_units be val dst [0..<16] m;
       let dst = dst + 128;
       if c1 \<and> count AND 7 \<noteq> 0 then set_many be c1 val (count - 1) dst m
       else (let count = (if c1 then count - 1 + 1 else count)
             in if 0 < sint count then set_many be c1 val (count - 1) dst m else Some (dst, m))
     }"
  by pat_completeness auto

text \<open>\<open>DO_UNIT\<close>: the store is in the delay slot of the exit.\<close>

fun do_units :: "bool \<Rightarrow> u64 \<Rightarrow> u64 \<Rightarrow> u64 \<Rightarrow> nat list \<Rightarrow> memory \<Rightarrow> memory option" where
  "do_units be val dst count [] m = STORE be val (dst + 112) m"
| "do_units be val dst count (N # Ns) m =
     do {
       m \<leftarrow> STORE be val (dst + of_nat (8 * N)) m;
       if count = 0 then Some m else do_units be val dst (count - 8) Ns m
     }"

fun set_bytes :: "u64 \<Rightarrow> u64 \<Rightarrow> u64 \<Rightarrow> nat list \<Rightarrow> memory \<Rightarrow> memory" where
  "set_bytes val dst len [] m = m"
| "set_bytes val dst len (N # Ns) m =
     (if len = 0 then m else set_bytes val dst (len - 1) Ns (m(dst + of_nat N := ucast val)))"

definition set_bytes_checklen :: "u64 \<Rightarrow> u64 \<Rightarrow> u64 \<Rightarrow> memory \<Rightarrow> memory" where
  "set_bytes_checklen val dst len m = set_bytes val dst len [0..<8] m"

definition set_units :: "bool \<Rightarrow> u64 \<Rightarrow> u64 \<Rightarrow> u64 \<Rightarrow> memory \<Rightarrow> memory option" where
  "set_units be val dst len m =
     (let adjust = len AND 0x7f8; len = len AND 7
      in if adjust = 0 then Some (set_bytes_checklen val dst len m)
         else do {
           let count = adjust - 8;
           m \<leftarrow> do_units be val dst count [0..<14] m;
           let dst = dst + adjust;
           Some (set_bytes_checklen val dst len m)
         })"

definition set_aligned :: "bool \<Rightarrow> bool \<Rightarrow> u64 \<Rightarrow> u64 \<Rightarrow> u64 \<Rightarrow> memory \<Rightarrow> memory option" where
  "set_aligned be c1 val dst len m =
     (let count = drop_bit 7 len; len = len AND 0x7f
      in if count = 0 then set_units be val dst len m
         else do { (dst, m) \<leftarrow> set_many be c1 val (count - 1) dst m; set_units be val dst len m })"

definition set_unaligned :: "bool \<Rightarrow> bool \<Rightarrow> u64 \<Rightarrow> u64 \<Rightarrow> u64 \<Rightarrow> u64 \<Rightarrow> memory \<Rightarrow> memory option" where
  "set_unaligned be c1 val dst modu len m =
     (let tmp = 8 - modu
      in if len < 8 then Some (set_bytes_checklen val dst len m)
         else set_aligned be c1 val (dst + tmp) (len - tmp) (STFIRST be val dst m))"

definition memset_sb1 :: "bool \<Rightarrow> bool \<Rightarrow> u64 \<Rightarrow> u64 \<Rightarrow> u64 \<Rightarrow> memory \<Rightarrow> (u64 \<times> memory) option" where
  "memset_sb1 be c1 dst val len m =
     do {
       let val = val AND 0xff;
       let modu = dst AND 7;
       let val = (if val \<noteq> 0 then replicate_byte val else val);
       let v0 = dst;
       m \<leftarrow> (if modu \<noteq> 0 then set_unaligned be c1 val dst modu len m else set_aligned be c1 val dst len m);
       Some (v0, m)
     }"

lemma sint_positive: "0 < sint (x :: u64) \<Longrightarrow> x \<noteq> 0"
  by auto

lemma unat_pred: "x \<noteq> 0 \<Longrightarrow> unat (x - 1 :: u64) < unat x"
  by (metis unat_minus_one unat_eq_zero diff_less gr0I zero_less_one)

termination set_many
  by (relation "measure (\<lambda>(be, c1, val, count, dst, m). unat count)") (auto intro!: unat_pred dest: sint_positive split: if_splits)

declare set_many.simps [simp del]

section \<open>Blocks one after the other\<close>

lemma unat64: "unat (x :: u64) < 2 ^ 64"
  using unsigned_less [where 'a = nat and w = x] by simp

lemma block_offset:
  fixes a d :: u64
  assumes "k + n \<le> 2 ^ 64" and "n \<noteq> 0"
  shows "unat (a - (d + of_nat k)) < n \<longleftrightarrow> k \<le> unat (a - d) \<and> unat (a - d) < k + n"
    and "k \<le> unat (a - d) \<Longrightarrow> unat (a - (d + of_nat k)) = unat (a - d) - k"
proof -
  have k: "unat (of_nat k :: u64) = k"
    using assms by (simp add: unat_of_nat)
  have e: "a - (d + of_nat k) = (a - d) - of_nat k" by simp
  show "unat (a - (d + of_nat k)) < n \<longleftrightarrow> k \<le> unat (a - d) \<and> unat (a - d) < k + n"
    using assms(1) unfolding e unat_sub_if_size k by (auto simp: word_size)
  show "k \<le> unat (a - d) \<Longrightarrow> unat (a - (d + of_nat k)) = unat (a - d) - k"
    unfolding e unat_sub_if_size k by simp
qed

lemma aligned_take_bit: "aligned a \<longleftrightarrow> take_bit 3 a = 0"
proof -
  have "a AND 7 = take_bit 3 a" by (simp add: take_bit_eq_mask mask_eq_exp_minus_1)
  then show ?thesis by (simp add: aligned_def)
qed

lemma aligned_dvd: "aligned a \<longleftrightarrow> 8 dvd unat a"
proof -
  have "unat (take_bit 3 a) = unat a mod 8"
    by (simp only: unsigned_take_bit_eq) (simp add: take_bit_eq_mod)
  then show ?thesis unfolding aligned_take_bit dvd_eq_mod_eq_0 by (metis unat_eq_zero)
qed

lemma aligned_offset: "aligned b \<Longrightarrow> aligned (a + b) = aligned a" "aligned b \<Longrightarrow> aligned (a - b) = aligned a"
proof -
  have add: "aligned (x + b) = aligned x" if "aligned b" for x
    using that unfolding aligned_dvd by (simp add: unat_word_ariths dvd_mod_iff dvd_add_left_iff)
  then show "aligned b \<Longrightarrow> aligned (a + b) = aligned a" .
  show "aligned b \<Longrightarrow> aligned (a - b) = aligned a"
    using add [of "a - b"] by simp
qed

lemma aligned_of_nat: "8 dvd n \<Longrightarrow> aligned (of_nat n)"
  by (simp add: aligned_take_bit take_bit_of_nat) (simp add: take_bit_eq_mod)

lemma aligned_numerals: "aligned 8" "aligned 16" "aligned 24" "aligned 32" "aligned 40" "aligned 48" "aligned 56" "aligned 64"
  "aligned 128"
  by (simp_all add: aligned_def)

lemma store_bytes_append:
  assumes "k + n \<le> 2 ^ 64" and "\<And>i. i < n \<Longrightarrow> img' i = img (k + i)"
  shows "store_bytes (d + of_nat k) n img' (store_bytes d k img m) = store_bytes d (k + n) img m"
proof (cases "n = 0")
  case False
  show ?thesis
    using block_offset [OF assms(1) False] assms(2) by (intro ext) (auto simp: store_bytes_def)
qed (simp add: store_bytes_def)

lemma store_bytes_upd: "m(a := b) = store_bytes a 1 (\<lambda>j. b) m"
  by (rule ext) (auto simp: store_bytes_def unat_eq_zero)

lemma store_bytes_0: "store_bytes d 0 img m = m"
  by (simp add: store_bytes_def)

lemma store_bytes_cong: "(\<And>i. i < n \<Longrightarrow> img i = img' i) \<Longrightarrow> store_bytes d n img m = store_bytes d n img' m"
  by (rule ext) (simp add: store_bytes_def)

section \<open>memset stores the byte\<close>

text \<open>A register all of whose bytes are \<open>b\<close>.\<close>

definition splat :: "bool \<Rightarrow> u64 \<Rightarrow> u8 \<Rightarrow> bool" where
  "splat be val b \<longleftrightarrow> ucast val = b \<and> (\<forall>j<8. mem_byte be val j = b)"

lemma STORE_splat: "splat be val b \<Longrightarrow> aligned a \<Longrightarrow> STORE be val a m = Some (store_bytes a 8 (\<lambda>j. b) m)"
  by (auto simp: STORE_def splat_def intro!: store_bytes_cong)

lemma STFIRST_splat: "splat be val b \<Longrightarrow> STFIRST be val a m = store_bytes a (8 - unat (a AND 7)) (\<lambda>j. b) m"
  unfolding STFIRST_def by (rule store_bytes_cong) (simp add: splat_def)

lemma fill_append:
  "k + n \<le> 2 ^ 64 \<Longrightarrow>
   store_bytes (d + of_nat k) n (\<lambda>j. b) (store_bytes d k (\<lambda>j. b) m) = store_bytes d (k + n) (\<lambda>j. b) m"
  by (rule store_bytes_append) simp_all

lemma set_bytes_fill:
  assumes "splat be val b"
  shows "unat len \<le> k \<Longrightarrow>
    set_bytes val dst len [n..<n + k] m = store_bytes (dst + of_nat n) (unat len) (\<lambda>j. b) m"
proof (induction k arbitrary: len n m)
  case 0
  then show ?case by (simp add: store_bytes_0)
next
  case (Suc k)
  show ?case
  proof (cases "len = 0")
    case True
    then show ?thesis by (simp add: upt_conv_Cons store_bytes_0 del: upt_Suc)
  next
    case False
    then have l: "unat len = 1 + unat (len - 1)"
      using unat_minus_one [of len] by (simp add: unat_gt_0)
    have v: "ucast val = b" using assms by (simp add: splat_def)
    have "set_bytes val dst len [n..<n + Suc k] m =
        set_bytes val dst (len - 1) [Suc n..<Suc n + k] (store_bytes (dst + of_nat n) 1 (\<lambda>j. b) m)"
      using False by (simp add: upt_conv_Cons v store_bytes_upd del: upt_Suc)
    also have "\<dots> = store_bytes (dst + of_nat n + of_nat 1) (unat (len - 1)) (\<lambda>j. b)
        (store_bytes (dst + of_nat n) 1 (\<lambda>j. b) m)"
      using Suc l by (subst Suc.IH) (simp_all add: ac_simps)
    also have "\<dots> = store_bytes (dst + of_nat n) (unat len) (\<lambda>j. b) m"
      using unat64 [of len] by (subst fill_append) (simp_all add: l)
    finally show ?thesis .
  qed
qed

lemma set_bytes_checklen_fill:
  "splat be val b \<Longrightarrow> len < 8 \<Longrightarrow> set_bytes_checklen val dst len m = store_bytes dst (unat len) (\<lambda>j. b) m"
  using set_bytes_fill [of be val b len 8 dst 0 m] by (simp add: set_bytes_checklen_def word_less_nat_alt)

lemma STORE_units:
  assumes "splat be val b" and "aligned dst"
  shows "STORE be val (dst + of_nat (8 * n)) m = Some (store_bytes (dst + of_nat (8 * n)) 8 (\<lambda>j. b) m)"
  by (simp add: STORE_splat [OF assms(1)] aligned_offset aligned_of_nat assms(2) del: of_nat_mult)

lemma unit_fill:
  "8 * (n + k) \<le> 1000 \<Longrightarrow>
   store_bytes (dst + of_nat (8 * Suc n)) (8 * k) (\<lambda>j. b) (store_bytes (dst + of_nat (8 * n)) 8 (\<lambda>j. b) m) =
   store_bytes (dst + of_nat (8 * n)) (8 * Suc k) (\<lambda>j. b) m"
  using fill_append [of 8 "8 * k" "dst + of_nat (8 * n)" b m] by (simp add: ac_simps)

lemma store_units_fill:
  assumes "splat be val b" and "aligned dst"
  shows "n + k \<le> 16 \<Longrightarrow>
    store_units be val dst [n..<n + k] m = Some (store_bytes (dst + of_nat (8 * n)) (8 * k) (\<lambda>j. b) m)"
proof (induction k arbitrary: n m)
  case 0
  then show ?case by (simp add: store_bytes_0)
next
  case (Suc k)
  have "store_units be val dst [n..<n + Suc k] m =
      store_units be val dst [Suc n..<Suc n + k] (store_bytes (dst + of_nat (8 * n)) 8 (\<lambda>j. b) m)"
    by (simp add: upt_conv_Cons STORE_units [OF assms] del: upt_Suc of_nat_mult)
  also have "\<dots> = Some (store_bytes (dst + of_nat (8 * Suc n)) (8 * k) (\<lambda>j. b)
      (store_bytes (dst + of_nat (8 * n)) 8 (\<lambda>j. b) m))"
    using Suc.prems by (subst Suc.IH) simp_all
  also have "\<dots> = Some (store_bytes (dst + of_nat (8 * n)) (8 * Suc k) (\<lambda>j. b) m)"
    using Suc.prems by (subst unit_fill) simp_all
  finally show ?case .
qed

lemma do_units_fill:
  assumes "splat be val b" and "aligned dst"
  shows "n + k = 14 \<Longrightarrow> c \<le> k \<Longrightarrow>
    do_units be val dst (of_nat (8 * c)) [n..<n + k] m =
      Some (store_bytes (dst + of_nat (8 * n)) (8 * (c + 1)) (\<lambda>j. b) m)"
proof (induction k arbitrary: n c m)
  case 0
  then show ?case using STORE_units [OF assms, of 14] by simp
next
  case (Suc k)
  have z: "(of_nat (8 * c) :: u64) = 0 \<longleftrightarrow> c = 0"
    using Suc.prems by (simp add: word_unat_eq_iff unat_of_nat del: of_nat_mult)
  show ?case
  proof (cases c)
    case 0
    then show ?thesis using z
      by (simp add: upt_conv_Cons STORE_units [OF assms] del: upt_Suc of_nat_mult)
  next
    case (Suc d)
    then have d: "of_nat (8 * c) - 8 = (of_nat (8 * d) :: u64)" by simp
    have "do_units be val dst (of_nat (8 * c)) [n..<n + Suc k] m =
        do_units be val dst (of_nat (8 * d)) [Suc n..<Suc n + k] (store_bytes (dst + of_nat (8 * n)) 8 (\<lambda>j. b) m)"
      using z Suc d by (simp add: upt_conv_Cons STORE_units [OF assms] del: upt_Suc of_nat_mult of_nat_Suc)
    also have "\<dots> = Some (store_bytes (dst + of_nat (8 * Suc n)) (8 * (d + 1)) (\<lambda>j. b)
        (store_bytes (dst + of_nat (8 * n)) 8 (\<lambda>j. b) m))"
      using Suc.prems Suc by (subst Suc.IH) simp_all
    also have "\<dots> = Some (store_bytes (dst + of_nat (8 * n)) (8 * (c + 1)) (\<lambda>j. b) m)"
      using Suc.prems Suc by (subst unit_fill) simp_all
    finally show ?thesis .
  qed
qed

lemma and_low:
  fixes x :: u64
  shows "unat (x AND 7) = unat x mod 8" and "unat (x AND 0x7f) = unat x mod 128"
    and "unat (drop_bit 7 x) = unat x div 128" and "unat (drop_bit 3 x) = unat x div 8"
proof -
  have "x AND 7 = take_bit 3 x" "x AND 0x7f = take_bit 7 x"
    by (simp_all add: take_bit_eq_mask mask_eq_exp_minus_1)
  then show "unat (x AND 7) = unat x mod 8" "unat (x AND 0x7f) = unat x mod 128"
    by (simp_all add: unsigned_take_bit_eq take_bit_nat_def)
  have "take_bit 64 (unat x) = unat x"
    using unat64 [of x] by (simp add: take_bit_nat_eq_self)
  then show "unat (drop_bit 7 x) = unat x div 128" "unat (drop_bit 3 x) = unat x div 8"
    by (simp_all add: unsigned_drop_bit_eq drop_bit_nat_def)
qed

lemma and_units:
  fixes x :: u64
  assumes "unat x < 128"
  shows "x AND 0x7f8 = of_nat (8 * (unat x div 8))"
proof -
  have m: "(0x7f8 :: u64) = push_bit 3 (mask 8)" by (simp add: mask_eq_exp_minus_1)
  have "bit x n \<Longrightarrow> n < 7" for n
    using small_word_bit [of x 7 n] assms by (auto simp: not_le [symmetric])
  then have "x AND 0x7f8 = push_bit 3 (drop_bit 3 x)"
    unfolding m by (intro word_bit_ext) (fastforce simp: bitwise)
  moreover have "drop_bit 3 x = of_nat (unat x div 8)"
    by (simp flip: and_low(4))
  ultimately show ?thesis by (simp add: push_bit_eq_mult mult.commute)
qed

lemma set_units_fill:
  assumes "splat be val b" and "aligned dst" and "unat len < 128"
  shows "set_units be val dst len m = Some (store_bytes dst (unat len) (\<lambda>j. b) m)"
proof -
  let ?q = "unat len div 8"
  have adj: "len AND 0x7f8 = of_nat (8 * ?q)" by (rule and_units [OF assms(3)])
  have small: "len AND 7 < 8" by (simp add: word_less_nat_alt and_low)
  have z: "(of_nat (8 * ?q) :: u64) = 0 \<longleftrightarrow> ?q = 0"
    using assms(3) by (simp add: word_unat_eq_iff unat_of_nat del: of_nat_mult)
  note tail = set_bytes_checklen_fill [OF assms(1) small]
  show ?thesis
  proof (cases "?q = 0")
    case True
    then show ?thesis using z by (simp add: set_units_def adj tail and_low del: of_nat_mult)
  next
    case False
    have c: "of_nat (8 * ?q) - 8 = (of_nat (8 * (?q - 1)) :: u64)"
      using False by (cases ?q) simp_all
    have "do_units be val dst (of_nat (8 * (?q - 1))) [0..<14] m = Some (store_bytes dst (8 * ?q) (\<lambda>j. b) m)"
      using do_units_fill [OF assms(1,2), of 0 14 "?q - 1" m] assms(3) False
      by (simp del: upt_rec_numeral of_nat_mult)
    then have "set_units be val dst len m =
        Some (store_bytes (dst + of_nat (8 * ?q)) (unat len mod 8) (\<lambda>j. b) (store_bytes dst (8 * ?q) (\<lambda>j. b) m))"
      using False z by (simp add: set_units_def adj c tail and_low Let_def del: of_nat_mult upt_rec_numeral)
    also have "\<dots> = Some (store_bytes dst (8 * ?q + unat len mod 8) (\<lambda>j. b) m)"
      using assms(3) by (subst fill_append) simp_all
    finally show ?thesis by simp
  qed
qed

lemma set_many_step:
  assumes "unat count < 2 ^ 63"
  shows "set_many be c1 val count dst m =
    do { m \<leftarrow> store_units be val dst [0..<16] m;
         if count \<noteq> 0 then set_many be c1 val (count - 1) (dst + 128) m else Some (dst + 128, m) }"
proof -
  have "int (unat count) < int (2 ^ 63)"
    using assms by (simp only: of_nat_less_iff)
  then have "uint count < 2 ^ 63"
    by simp
  then have "sint count = uint count"
    using signed_take_bit_int_eq_self [of 63 "uint count"] order_trans [OF _ uint_ge_0, of "- (2 ^ 63)" count]
    by (simp add: sint_uint)
  then have "0 < sint count \<longleftrightarrow> count \<noteq> 0"
    by (simp add: uint_nat unat_gt_0 del: of_nat_unat)
  then show ?thesis by (subst set_many.simps) (auto simp: Let_def intro!: bind_option_cong)
qed

lemma set_many_fill:
  assumes "splat be val b"
  shows "unat count < 2 ^ 57 \<Longrightarrow> aligned dst \<Longrightarrow>
    set_many be c1 val count dst m =
      Some (dst + of_nat (128 * (unat count + 1)), store_bytes dst (128 * (unat count + 1)) (\<lambda>j. b) m)"
proof (induction "unat count" arbitrary: count dst m)
  case 0
  then have "count = 0" by (simp add: unat_eq_zero)
  then show ?case
    using store_units_fill [OF assms 0(3), of 0 16 m] by (simp add: set_many_step del: upt_rec_numeral)
next
  case (Suc k)
  then have c: "count \<noteq> 0" by auto
  then have k: "unat (count - 1) = k"
    using unat_minus_one [of count] Suc.hyps(2) by simp
  have a: "aligned (dst + 128)"
    using Suc.prems(2) by (simp add: aligned_offset aligned_numerals)
  have "set_many be c1 val count dst m =
      set_many be c1 val (count - 1) (dst + 128) (store_bytes dst 128 (\<lambda>j. b) m)"
    using Suc.prems(1) c k store_units_fill [OF assms Suc.prems(2), of 0 16 m]
    by (subst set_many_step) (simp_all add: Let_def del: upt_rec_numeral)
  also have "\<dots> = Some (dst + 128 + of_nat (128 * (k + 1)),
      store_bytes (dst + of_nat 128) (128 * (k + 1)) (\<lambda>j. b) (store_bytes dst 128 (\<lambda>j. b) m))"
    using Suc.hyps(1) [of "count - 1"] Suc.prems Suc.hyps(2) [symmetric] k a by simp
  also have "\<dots> = Some (dst + of_nat (128 * (unat count + 1)),
      store_bytes dst (128 * (unat count + 1)) (\<lambda>j. b) m)"
    using Suc.prems unfolding Suc.hyps(2) [symmetric] by (subst fill_append) (simp_all add: algebra_simps)
  finally show ?case .
qed

lemma set_aligned_fill:
  assumes "splat be val b" and "aligned dst"
  shows "set_aligned be c1 val dst len m = Some (store_bytes dst (unat len) (\<lambda>j. b) m)"
proof -
  let ?q = "unat len div 128"
  have tail: "set_units be val d (len AND 0x7f) m = Some (store_bytes d (unat len mod 128) (\<lambda>j. b) m)"
    if "aligned d" for d m
    by (simp add: set_units_fill [OF assms(1) that] and_low)
  have z: "drop_bit 7 len = 0 \<longleftrightarrow> ?q = 0"
    by (simp add: word_unat_eq_iff and_low)
  show ?thesis
  proof (cases "?q = 0")
    case True
    then show ?thesis using z by (simp add: set_aligned_def tail assms(2))
  next
    case False
    then have c: "unat (drop_bit 7 len - 1) + 1 = ?q"
      using z unat_minus_one [of "drop_bit 7 len"] by (simp add: and_low)
    moreover have "unat len < 2 ^ 64" using unat64 [of len] by simp
    ultimately have "unat (drop_bit 7 len - 1) < 2 ^ 57" by auto
    moreover have "aligned (dst + of_nat (128 * ?q))"
      by (simp add: aligned_offset aligned_of_nat assms(2) del: of_nat_mult)
    ultimately have "set_aligned be c1 val dst len m =
        Some (store_bytes (dst + of_nat (128 * ?q)) (unat len mod 128) (\<lambda>j. b) (store_bytes dst (128 * ?q) (\<lambda>j. b) m))"
      using False z c by (simp add: set_aligned_def set_many_fill [OF assms(1)] assms(2) tail del: of_nat_mult)
    also have "\<dots> = Some (store_bytes dst (128 * ?q + unat len mod 128) (\<lambda>j. b) m)"
      using unat64 [of len] by (subst fill_append) simp_all
    finally show ?thesis by simp
  qed
qed

lemma align_up:
  shows "(8 :: u64) - (d AND 7) = of_nat (8 - unat (d AND 7))" and "aligned (d + (8 - (d AND 7)))"
proof -
  have "unat (d AND 7) < 8" by (simp add: and_low)
  then show "(8 :: u64) - (d AND 7) = of_nat (8 - unat (d AND 7))" by (simp add: of_nat_diff)
  have "d + (8 - (d AND 7)) = (d - (d AND 7)) + 8" by simp
  moreover have "d AND 7 = take_bit 3 d" by (simp add: take_bit_eq_mask mask_eq_exp_minus_1)
  moreover have "d - take_bit 3 d = push_bit 3 (drop_bit 3 d)"
    using bits_ident [of 3 d] by (metis add_diff_cancel_right')
  moreover have "take_bit 3 (push_bit 3 (drop_bit 3 d)) = 0"
    by (simp only: take_bit_push_bit diff_self_eq_0 take_bit_0 push_bit_of_0)
  ultimately have "aligned (d - (d AND 7))" and "d + (8 - (d AND 7)) = (d - (d AND 7)) + 8"
    unfolding aligned_take_bit by simp_all
  then show "aligned (d + (8 - (d AND 7)))"
    by (simp only: aligned_offset(1) [OF aligned_numerals(1)])
qed

lemma set_unaligned_fill:
  assumes "splat be val b"
  shows "set_unaligned be c1 val dst (dst AND 7) len m = Some (store_bytes dst (unat len) (\<lambda>j. b) m)"
proof (cases "len < 8")
  case True
  then show ?thesis by (simp add: set_unaligned_def set_bytes_checklen_fill [OF assms(1)])
next
  case False
  let ?k = "8 - unat (dst AND 7)"
  have l: "unat (len - of_nat ?k) = unat len - ?k"
    using False by (simp add: unat_sub_if_size unat_of_nat word_less_nat_alt)
  have "set_unaligned be c1 val dst (dst AND 7) len m =
      Some (store_bytes (dst + of_nat ?k) (unat len - ?k) (\<lambda>j. b) (store_bytes dst ?k (\<lambda>j. b) m))"
    using False align_up [of dst]
    by (simp add: set_unaligned_def set_aligned_fill [OF assms(1)] l STFIRST_splat [OF assms(1)] del: of_nat_diff)
  also have "\<dots> = Some (store_bytes dst (?k + (unat len - ?k)) (\<lambda>j. b) m)"
    using unat64 [of len] by (subst fill_append) simp_all
  also have "?k + (unat len - ?k) = unat len"
    using False by (simp add: word_less_nat_alt)
  finally show ?thesis .
qed

lemma bit_double:
  assumes "\<And>n. bit (x :: u64) n \<longleftrightarrow> n < k \<and> bit (val :: u64) (n mod 8)" and "8 dvd k" and "2 * k \<le> 64"
  shows "bit (x OR push_bit k x) n \<longleftrightarrow> n < 2 * k \<and> bit val (n mod 8)"
proof -
  have "k \<le> n \<Longrightarrow> (n - k) mod 8 = n mod 8"
    using assms(2) by (metis dvd_minus_self mod_eq_dvd_iff_nat le_add_diff_inverse2 mod_add_self2 dvd_def mod_mult_self1 mult.commute)
  then show ?thesis
    using assms(3) by (auto simp: bitwise assms(1))
qed

lemma bit_low_byte: "bit ((val :: u64) AND 0xff) n \<longleftrightarrow> n < 8 \<and> bit val n"
proof -
  have "val AND 0xff = take_bit 8 val" by (simp add: take_bit_eq_mask mask_eq_exp_minus_1)
  then show ?thesis by (simp add: bit_take_bit_iff)
qed

lemma bit_replicate: "bit (replicate_byte (val AND 0xff)) n \<longleftrightarrow> n < 64 \<and> bit val (n mod 8)"
proof -
  have 0: "bit (val AND 0xff) n \<longleftrightarrow> n < 8 \<and> bit val (n mod 8)" for n
    by (auto simp: bit_low_byte)
  note 1 = bit_double [OF 0, simplified]
  note 2 = bit_double [OF 1, simplified]
  show ?thesis using bit_double [OF 2] by (simp add: replicate_byte_def Let_def)
qed

lemma replicate_splat: "splat be (replicate_byte (val AND 0xff)) (ucast val)"
  unfolding splat_def
proof (intro conjI allI impI)
  show "ucast (replicate_byte (val AND 0xff)) = (ucast val :: u8)"
    by (rule word_bit_ext) (simp add: bit_ucast_iff bit_replicate)
  fix j :: nat assume "j < 8"
  then show "mem_byte be (replicate_byte (val AND 0xff)) j = ucast val"
    unfolding mem_byte_def by (intro word_bit_ext) (auto simp: bit_ucast_iff bitwise bit_replicate)
qed

lemma zero_splat: "splat be 0 0"
  by (simp add: splat_def mem_byte_def)

lemma memset_sb1_eq:
  "memset_sb1 be c1 dst val len m = Some (dst, store_bytes dst (unat len) (\<lambda>j. ucast val) m)"
proof -
  let ?v = "if val AND 0xff \<noteq> 0 then replicate_byte (val AND 0xff) else val AND 0xff"
  have "val AND 0xff = 0 \<Longrightarrow> (ucast val :: u8) = 0"
    using bit_low_byte [of val] by (intro word_bit_ext) (simp add: bit_ucast_iff)
  then have s: "splat be ?v (ucast val)"
    using replicate_splat zero_splat by auto
  show ?thesis
    unfolding memset_sb1_def Let_def using set_aligned_fill [OF s] set_unaligned_fill [OF s]
    by (simp add: aligned_def)
qed

text \<open>
  C29: \<open>memset\<close>, whatever the alignment of the destination, the length, the byte order of the machine and the workaround
  it is built with, returns without an address error, stores the low byte of its second argument into each of the
  \<open>len\<close> bytes from \<open>dst\<close> on, changes no other byte, and gives back \<open>dst\<close>.
\<close>

theorem memset_correct:
  "memset_sb1 be c1 dst val len m = Some (dst, store_bytes dst (unat len) (\<lambda>j. ucast val) m)"
  by (rule memset_sb1_eq)

end
