(* ===== verification/Sb1copy.thy ===== *)
theory Sb1copy
  imports Sb1mem
begin

text \<open>
  The \<open>memcpy.S\<close> of \<open>sb1-opt\<close>, in the 64-bit expansion, with the conventions of \<open>memset\<close>: a function for each
  label, None for an address error. \<open>pass1\<close> is the macro \<open>PASS1\<close>, which selects another schedule of the main
  loop. \<open>r\<close> is what the registers hold into which the first half of an unaligned load is merged.
\<close>

unbundle bit_operations_syntax

section \<open>The routine\<close>

subsection \<open>Source and destination aligned\<close>

text \<open>One round of the main loop, 64 bytes: the registers \<open>src\<close>, \<open>dst\<close>, \<open>dst2\<close> (64 bytes past \<open>dst\<close>) and memory.\<close>

definition copy_round_pass1 ::
  "bool \<Rightarrow> u64 \<Rightarrow> u64 \<Rightarrow> u64 \<Rightarrow> memory \<Rightarrow> (u64 \<times> u64 \<times> u64 \<times> memory) option" where
  "copy_round_pass1 be src dst dst2 m =
     do {
       t0 \<leftarrow> LOAD_aligned be m src;
       t1 \<leftarrow> LOAD_aligned be m (src + 8);
       t2 \<leftarrow> LOAD_aligned be m (src + 16);
       t3 \<leftarrow> LOAD_aligned be m (src + 24);
       t4 \<leftarrow> LOAD_aligned be m (src + 32);
       t5 \<leftarrow> LOAD_aligned be m (src + 40);
       m \<leftarrow> STORE be t0 (dst2 - 64) m;
       m \<leftarrow> STORE be t1 (dst2 - 56) m;
       t6 \<leftarrow> LOAD_aligned be m (src + 48);
       t7 \<leftarrow> LOAD_aligned be m (src + 56);
       let src = src + 64;
       let dst2 = dst2 + 64;
       m \<leftarrow> STORE be t2 (dst + 16) m;
       m \<leftarrow> STORE be t3 (dst + 24) m;
       m \<leftarrow> STORE be t4 (dst + 32) m;
       m \<leftarrow> STORE be t5 (dst + 40) m;
       m \<leftarrow> STORE be t6 (dst + 48) m;
       m \<leftarrow> STORE be t7 (dst + 56) m;
       let dst = dst + 64;
       Some (src, dst, dst2, m)
     }"

definition copy_round_pass2 ::
  "bool \<Rightarrow> u64 \<Rightarrow> u64 \<Rightarrow> u64 \<Rightarrow> memory \<Rightarrow> (u64 \<times> u64 \<times> u64 \<times> memory) option" where
  "copy_round_pass2 be src dst dst2 m =
     do {
       t0 \<leftarrow> LOAD_aligned be m src;
       m \<leftarrow> STORE be t0 (dst2 - 64) m;
       let src2 = src;
       t0 \<leftarrow> LOAD_aligned be m (src + 8);
       m \<leftarrow> STORE be t0 (dst2 - 56) m;
       t0 \<leftarrow> LOAD_aligned be m (src + 16);
       m \<leftarrow> STORE be t0 (dst2 - 48) m;
       let dst2 = dst2 + 64;
       t0 \<leftarrow> LOAD_aligned be m (src + 24);
       m \<leftarrow> STORE be t0 (dst + 24) m;
       t0 \<leftarrow> LOAD_aligned be m (src + 32);
       m \<leftarrow> STORE be t0 (dst + 32) m;
       let src = src + 64;
       t0 \<leftarrow> LOAD_aligned be m (src2 + 40);
       m \<leftarrow> STORE be t0 (dst + 40) m;
       t0 \<leftarrow> LOAD_aligned be m (src2 + 48);
       m \<leftarrow> STORE be t0 (dst + 48) m;
       t0 \<leftarrow> LOAD_aligned be m (src2 + 56);
       m \<leftarrow> STORE be t0 (dst + 56) m;
       let dst = dst + 64;
       Some (src, dst, dst2, m)
     }"

lemma unat_pred2: "count \<noteq> 1 \<Longrightarrow> unat (count - 2 :: u64) < unat (count - 1)"
  using unat_pred [of "count - 1"] by simp

text \<open>The loops test \<open>count\<close> after counting it down.\<close>

function copy_rounds ::
  "bool \<Rightarrow> bool \<Rightarrow> u64 \<Rightarrow> u64 \<Rightarrow> u64 \<Rightarrow> u64 \<Rightarrow> memory \<Rightarrow> (u64 \<times> u64 \<times> u64 \<times> memory) option" where
  "copy_rounds be pass1 count src dst dst2 m =
     do {
       (src, dst, dst2, m) \<leftarrow> (if pass1 then copy_round_pass1 be src dst dst2 m else copy_round_pass2 be src dst dst2 m);
       if count - 1 \<noteq> 0 then copy_rounds be pass1 (count - 1) src dst dst2 m else Some (src, dst, dst2, m)
     }"
  by pat_completeness auto
termination
  by (relation "measure (\<lambda>(be, pass1, count, src, dst, dst2, m). unat (count - 1))") (auto intro!: unat_pred2)

text \<open>The last \<open>rem\<close> bytes, less than a doubleword: read both doublewords, merge under a mask, write back.\<close>

definition copy_bytes_aligned :: "bool \<Rightarrow> u64 \<Rightarrow> u64 \<Rightarrow> u64 \<Rightarrow> memory \<Rightarrow> memory option" where
  "copy_bytes_aligned be rm src dst m =
     do {
       let msk = 0 - (1 :: u64);
       let rm = push_bit 3 rm;
       t0 \<leftarrow> LOAD_aligned be m src;
       t1 \<leftarrow> LOAD_aligned be m dst;
       let msk = (if be then drop_bit (unat (rm AND 63)) msk else push_bit (unat (rm AND 63)) msk);
       let mask2 = NOT msk;
       let t1 = msk AND t1;
       let t0 = mask2 AND t0;
       let t0 = t0 OR t1;
       STORE be t0 dst m
     }"

function copy_units_aligned :: "bool \<Rightarrow> u64 \<Rightarrow> u64 \<Rightarrow> u64 \<Rightarrow> u64 \<Rightarrow> memory \<Rightarrow> memory option" where
  "copy_units_aligned be count rm src dst m =
     do {
       t0 \<leftarrow> LOAD_aligned be m src;
       let src = src + 8;
       m \<leftarrow> STORE be t0 dst m;
       let dst = dst + 8;
       if count - 1 \<noteq> 0 then copy_units_aligned be (count - 1) rm src dst m
       else if rm = 0 then Some m
       else copy_bytes_aligned be rm src dst m
     }"
  by pat_completeness auto
termination
  by (relation "measure (\<lambda>(be, count, rm, src, dst, m). unat (count - 1))") (auto intro!: unat_pred2)

definition less_than_4units :: "bool \<Rightarrow> u64 \<Rightarrow> u64 \<Rightarrow> u64 \<Rightarrow> u64 \<Rightarrow> memory \<Rightarrow> memory option" where
  "less_than_4units be count rm src dst m =
     (if count = 0 then copy_bytes_aligned be rm src dst m else copy_units_aligned be count rm src dst m)"

definition cleanup_both_aligned :: "bool \<Rightarrow> bool \<Rightarrow> u64 \<Rightarrow> u64 \<Rightarrow> u64 \<Rightarrow> u64 \<Rightarrow> memory \<Rightarrow> memory option" where
  "cleanup_both_aligned be t7 len src dst dst2 m =
     (let rm = len AND 7; count = drop_bit 3 len
      in if len = 0 then Some m
         else if t7 then less_than_4units be count rm src dst m
         else do {
           t0 \<leftarrow> LOAD_aligned be m src;
           t1 \<leftarrow> LOAD_aligned be m (src + 8);
           let len = len - 32;
           t2 \<leftarrow> LOAD_aligned be m (src + 16);
           let count = count - 4;
           let dst = dst + 32;
           t3 \<leftarrow> LOAD_aligned be m (src + 24);
           let src = src + 32;
           m \<leftarrow> STORE be t0 (dst2 - 64) m;
           m \<leftarrow> STORE be t1 (dst2 - 56) m;
           m \<leftarrow> STORE be t2 (dst2 - 48) m;
           m \<leftarrow> STORE be t3 (dst2 - 40) m;
           if len = 0 then Some m else less_than_4units be count rm src dst m
         })"

definition both_aligned :: "bool \<Rightarrow> bool \<Rightarrow> u64 \<Rightarrow> u64 \<Rightarrow> u64 \<Rightarrow> memory \<Rightarrow> memory option" where
  "both_aligned be pass1 len src dst m =
     (let count = drop_bit 6 len; dst2 = dst + 64; t7 = len < 32
      in if count = 0 then cleanup_both_aligned be t7 len src dst dst2 m
         else do {
           let len = len AND 63;
           (src, dst, dst2, m) \<leftarrow> copy_rounds be pass1 count src dst dst2 m;
           let t7 = len < 32;
           cleanup_both_aligned be t7 len src dst dst2 m
         })"

subsection \<open>Byte by byte\<close>

text \<open>\<open>copy_bytes\<close>: the store is in the delay slot of the exit; the last byte is not tested.\<close>

fun copy_bytes :: "u64 \<Rightarrow> u64 \<Rightarrow> u64 \<Rightarrow> nat list \<Rightarrow> memory \<Rightarrow> memory" where
  "copy_bytes len src dst [] m = m(dst + 7 := m (src + 7))"
| "copy_bytes len src dst (N # Ns) m =
     (let t0 = m (src + of_nat N); len = len - 1; m = m(dst + of_nat N := t0)
      in if len = 0 then m else copy_bytes len src dst Ns m)"

definition copy_bytes_checklen :: "u64 \<Rightarrow> u64 \<Rightarrow> u64 \<Rightarrow> memory \<Rightarrow> memory" where
  "copy_bytes_checklen len src dst m = (if len = 0 then m else copy_bytes len src dst [0..<7] m)"

subsection \<open>Source not aligned\<close>

definition LOAD_unaligned :: "bool \<Rightarrow> memory \<Rightarrow> u64 \<Rightarrow> u64 \<Rightarrow> u64" where
  "LOAD_unaligned be m r a = (let t = LDFIRST be m r a in LDREST be m t (a + 7))"

function copy_units_src_unaligned :: "bool \<Rightarrow> u64 \<Rightarrow> u64 \<Rightarrow> u64 \<Rightarrow> u64 \<Rightarrow> u64 \<Rightarrow> memory \<Rightarrow> memory option" where
  "copy_units_src_unaligned be r count len src dst m =
     do {
       let t0 = LOAD_unaligned be m r src;
       let src = src + 8;
       m \<leftarrow> STORE be t0 dst m;
       let dst = dst + 8;
       let len = len - 8;
       if count - 1 \<noteq> 0 then copy_units_src_unaligned be t0 (count - 1) len src dst m
       else Some (copy_bytes_checklen len src dst m)
     }"
  by pat_completeness auto
termination
  by (relation "measure (\<lambda>(be, r, count, len, src, dst, m). unat (count - 1))") (auto intro!: unat_pred2)

definition cleanup_src_unaligned :: "bool \<Rightarrow> u64 \<Rightarrow> u64 \<Rightarrow> u64 \<Rightarrow> u64 \<Rightarrow> memory \<Rightarrow> memory option" where
  "cleanup_src_unaligned be r len src dst m =
     (let count = drop_bit 3 len
      in if len = 0 then Some m
         else if count = 0 then Some (copy_bytes len src dst [0..<7] m)
         else copy_units_src_unaligned be r count len src dst m)"

function copy_src_unaligned :: "bool \<Rightarrow> u64 \<Rightarrow> u64 \<Rightarrow> u64 \<Rightarrow> u64 \<Rightarrow> u64 \<Rightarrow> memory \<Rightarrow> (u64 \<times> u64 \<times> u64 \<times> memory) option" where
  "copy_src_unaligned be r count len src dst m =
     do {
       let t0 = LOAD_unaligned be m r src;
       let t1 = LOAD_unaligned be m r (src + 8);
       let len = len - 32;
       let t2 = LOAD_unaligned be m r (src + 16);
       let t3 = LOAD_unaligned be m r (src + 24);
       let src = src + 32;
       m \<leftarrow> STORE be t0 dst m;
       m \<leftarrow> STORE be t1 (dst + 8) m;
       m \<leftarrow> STORE be t2 (dst + 16) m;
       m \<leftarrow> STORE be t3 (dst + 24) m;
       let dst = dst + 32;
       if count - 1 \<noteq> 0 then copy_src_unaligned be r (count - 1) len src dst m else Some (len, src, dst, m)
     }"
  by pat_completeness auto
termination
  by (relation "measure (\<lambda>(be, r, count, len, src, dst, m). unat (count - 1))") (auto intro!: unat_pred2)

definition src_unaligned_dst_aligned :: "bool \<Rightarrow> u64 \<Rightarrow> u64 \<Rightarrow> u64 \<Rightarrow> u64 \<Rightarrow> memory \<Rightarrow> memory option" where
  "src_unaligned_dst_aligned be r len src dst m =
     (let count = drop_bit 5 len
      in if count = 0 then cleanup_src_unaligned be r len src dst m
         else do {
           (len, src, dst, m) \<leftarrow> copy_src_unaligned be r count len src dst m;
           cleanup_src_unaligned be r len src dst m
         })"

subsection \<open>Destination not aligned, and the entry\<close>

definition dst_unaligned :: "bool \<Rightarrow> bool \<Rightarrow> u64 \<Rightarrow> u64 \<Rightarrow> u64 \<Rightarrow> u64 \<Rightarrow> u64 \<Rightarrow> u64 \<Rightarrow> memory \<Rightarrow> memory option" where
  "dst_unaligned be pass1 r t0 t1 len src dst m =
     (let t3 = LOAD_unaligned be m r src; t2 = 8 - t1; mtch = t0 XOR t1; len = len - t2; m = STFIRST be t3 dst m
      in if len = 0 then Some m
         else let dst = dst + t2; src = src + t2
              in if mtch = 0 then both_aligned be pass1 len src dst m
                 else src_unaligned_dst_aligned be r len src dst m)"

definition memcpy_sb1 :: "bool \<Rightarrow> bool \<Rightarrow> u64 \<Rightarrow> u64 \<Rightarrow> u64 \<Rightarrow> u64 \<Rightarrow> memory \<Rightarrow> (u64 \<times> memory) option" where
  "memcpy_sb1 be pass1 r dst src len m =
     do {
       let t1 = dst AND 7;
       let v0 = dst;
       let t0 = src AND 7;
       m \<leftarrow> (if len < 8 then Some (copy_bytes_checklen len src dst m)
             else if t1 \<noteq> 0 then dst_unaligned be pass1 r t0 t1 len src dst m
             else if t0 \<noteq> 0 then src_unaligned_dst_aligned be r len src dst m
             else both_aligned be pass1 len src dst m);
       Some (v0, m)
     }"

declare copy_rounds.simps [simp del] copy_units_aligned.simps [simp del] copy_units_src_unaligned.simps [simp del]
  copy_src_unaligned.simps [simp del]

section \<open>Bytes of registers\<close>

lemma bit_mem_byte: "bit (mem_byte be v j) i \<longleftrightarrow> i < 8 \<and> bit v (8 * (if be then 7 - j else j) + i)"
  by (auto simp: mem_byte_def bit_ucast_iff bitwise)

lemma mem_byte_of_mem_bytes:
  assumes "j < 8"
  shows "mem_byte be (of_mem_bytes be f) j = f j"
proof (rule word_bit_ext)
  fix i :: nat assume i: "i < LENGTH(8)"
  let ?p = "if be then 7 - j else j"
  have p: "?p < 8" "(8 * ?p + i) div 8 = ?p" "(8 * ?p + i) mod 8 = i" using assms i by auto
  have "(if be then rev (map f [0..<8]) else map f [0..<8]) ! ?p = f j"
    using assms by (auto simp: rev_nth simp del: upt_rec_numeral)
  then show "bit (mem_byte be (of_mem_bytes be f) j) i = bit (f j) i"
    using p i unfolding bit_mem_byte of_mem_bytes_def le_value_bit by (auto simp del: upt_rec_numeral split: if_splits)
qed

lemma of_mem_bytes_cong: "(\<And>j. j < 8 \<Longrightarrow> f j = g j) \<Longrightarrow> of_mem_bytes be f = of_mem_bytes be g"
  by (auto simp: of_mem_bytes_def simp del: upt_rec_numeral intro!: arg_cong [of _ _ le_value])

lemma LOAD_bytes: "LOAD be m a = of_mem_bytes be (load_bytes a m)"
  by (simp add: LOAD_def dword_bytes_def of_mem_bytes_def load_bytes_def comp_def)

lemma LOAD_unaligned_eq: "LOAD_unaligned be m r a = LOAD be m a"
proof -
  have n: "unat ((a + 7) AND 7) = (unat a + 7) mod 8" "unat (a AND 7) = unat a mod 8"
    unfolding and_low unat_word_ariths by (simp_all add: mod_mod_cancel)
  have "(if 7 - j \<le> unat ((a + 7) AND 7) then m (a + 7 - of_nat (7 - j)) else mem_byte be (LDFIRST be m r a) j) =
      m (a + of_nat j)" if j: "j < 8" for j
  proof (cases "7 - j \<le> unat ((a + 7) AND 7)")
    case True
    have "(7 :: u64) = of_nat (7 - j) + of_nat j"
      using j by (simp flip: of_nat_add)
    moreover have "a + (x + y) - x = a + y" for x y :: u64 by simp
    ultimately have "a + 7 - of_nat (7 - j) = a + of_nat j" by (simp only:)
    with True show ?thesis by (simp only: if_True)
  next
    case False
    moreover have "(unat a + 7) mod 8 = (unat a mod 8 + 7) mod 8" by (simp add: mod_simps)
    moreover have "(x + 7) mod 8 = (if x = 0 then 7 else x - 1)" if "x < 8" for x :: nat
      using that by (cases x) auto
    ultimately have "j < 8 - unat (a AND 7)"
      unfolding n using j by (auto split: if_splits)
    then show ?thesis using False j by (simp add: LDFIRST_def mem_byte_of_mem_bytes)
  qed
  then show ?thesis
    unfolding LOAD_unaligned_def Let_def LDREST_def LOAD_bytes by (intro of_mem_bytes_cong) (simp add: load_bytes_def)
qed

section \<open>Copies of blocks\<close>

definition copied :: "memory \<Rightarrow> u64 \<Rightarrow> u64 \<Rightarrow> nat \<Rightarrow> memory" where
  "copied m d s n = store_bytes d n (load_bytes s m) m"

text \<open>The source and the destination have no byte in common.\<close>

definition apart :: "u64 \<Rightarrow> u64 \<Rightarrow> nat \<Rightarrow> bool" where
  "apart d s n \<longleftrightarrow> (\<forall>i<n. \<forall>j<n. s + of_nat i \<noteq> d + of_nat j)"

lemma apart_outside:
  assumes "apart d s n" and "i < n" and "k \<le> n"
  shows "copied m d s k (s + of_nat i) = m (s + of_nat i)"
proof -
  have "\<not> in_block d k (s + of_nat i)"
  proof
    assume "in_block d k (s + of_nat i)"
    then have "unat (s + of_nat i - d) < n" using assms(3) by (simp add: in_block_def)
    moreover have "s + of_nat i = d + of_nat (unat (s + of_nat i - d))" by simp
    ultimately show False using assms(1,2) unfolding apart_def by metis
  qed
  then show ?thesis by (simp add: copied_def store_bytes_outside)
qed

lemma apart_mono: "apart d s n \<Longrightarrow> k \<le> n \<Longrightarrow> apart d s k"
  by (simp add: apart_def)

lemma apart_shift: "apart d s (k + n) \<Longrightarrow> apart (d + of_nat k) (s + of_nat k) n"
  unfolding apart_def
proof (intro allI impI)
  fix i j assume "\<forall>i<k + n. \<forall>j<k + n. s + of_nat i \<noteq> d + of_nat j" "i < n" "j < n"
  then have "s + of_nat (k + i) \<noteq> d + of_nat (k + j)" by simp
  then show "s + of_nat k + of_nat i \<noteq> d + of_nat k + of_nat j" by (simp add: add.assoc)
qed

lemma copied_append:
  assumes "apart d s (k + n)" and "k + n \<le> 2 ^ 64"
  shows "copied (copied m d s k) (d + of_nat k) (s + of_nat k) n = copied m d s (k + n)"
proof -
  have "load_bytes (s + of_nat k) (copied m d s k) i = load_bytes s m (k + i)" if "i < n" for i
    using apart_outside [OF assms(1), of "k + i" k m] that by (simp add: load_bytes_def add.assoc)
  then show ?thesis
    unfolding copied_def [of _ "d + of_nat k"] by (subst (2) copied_def, subst store_bytes_append [OF assms(2)])
      (simp_all add: copied_def)
qed

lemma copied_0: "copied m d s 0 = m"
  by (simp add: copied_def store_bytes_0)

text \<open>Loading from the copied source, and storing what was loaded.\<close>

lemma LOAD_copied:
  assumes "apart d s n" and "i + 8 \<le> n" and "k \<le> n"
  shows "LOAD be (copied m d s k) (s + of_nat i) = LOAD be m (s + of_nat i)"
  unfolding LOAD_bytes
proof (rule of_mem_bytes_cong)
  fix j :: nat assume "j < 8"
  then show "load_bytes (s + of_nat i) (copied m d s k) j = load_bytes (s + of_nat i) m j"
    using apart_outside [OF assms(1), of "i + j" k m] assms(2,3) by (simp add: load_bytes_def add.assoc)
qed

lemma STORE_copied:
  assumes "aligned (d + of_nat k)" and "k + 8 \<le> 2 ^ 64"
  shows "STORE be (LOAD be m (s + of_nat k)) (d + of_nat k) (copied m d s k) = Some (copied m d s (k + 8))"
proof -
  have "store_bytes (d + of_nat k) 8 (mem_byte be (LOAD be m (s + of_nat k))) (store_bytes d k (load_bytes s m) m) =
      store_bytes d (k + 8) (load_bytes s m) m"
    by (rule store_bytes_append [OF assms(2)]) (simp add: LOAD_bytes mem_byte_of_mem_bytes load_bytes_def add.assoc)
  then show ?thesis using assms(1) by (simp add: STORE_def copied_def)
qed

section \<open>The blocks of each label\<close>

text \<open>
  The offsets of the unrolled code, as numerals. \<open>n\<close> is the number of bytes that source and destination are
  known to be apart for.
\<close>

lemmas load_offsets =
  LOAD_copied [of _ _ _ 0, simplified] LOAD_copied [of _ _ _ 8, simplified] LOAD_copied [of _ _ _ 16, simplified]
  LOAD_copied [of _ _ _ 24, simplified] LOAD_copied [of _ _ _ 32, simplified] LOAD_copied [of _ _ _ 40, simplified]
  LOAD_copied [of _ _ _ 48, simplified] LOAD_copied [of _ _ _ 56, simplified]

lemmas store_offsets =
  STORE_copied [of _ 0, simplified, unfolded copied_0] STORE_copied [of _ 8, simplified] STORE_copied [of _ 16, simplified]
  STORE_copied [of _ 24, simplified] STORE_copied [of _ 32, simplified] STORE_copied [of _ 40, simplified]
  STORE_copied [of _ 48, simplified] STORE_copied [of _ 56, simplified]

lemma LOAD_aligned_eq: "aligned a \<Longrightarrow> LOAD_aligned be m a = Some (LOAD be m a)"
  by (simp add: LOAD_aligned_def)

lemma copied_doubleword:
  "apart d s n \<Longrightarrow> k + 8 \<le> n \<Longrightarrow> n \<le> 64 \<Longrightarrow>
   copied (copied m d s k) (d + of_nat k) (s + of_nat k) 8 = copied m d s (k + 8)"
  by (rule copied_append [OF apart_mono]) auto

lemmas append_offsets =
  copied_doubleword [of _ _ _ 8, simplified] copied_doubleword [of _ _ _ 16, simplified]
  copied_doubleword [of _ _ _ 24, simplified] copied_doubleword [of _ _ _ 32, simplified]
  copied_doubleword [of _ _ _ 40, simplified] copied_doubleword [of _ _ _ 48, simplified]
  copied_doubleword [of _ _ _ 56, simplified]

lemma back_offsets: "x + 64 - 56 = x + (8 :: u64)" "x + 64 - 48 = x + (16 :: u64)" "x + 64 - 40 = x + (24 :: u64)"
  by simp_all

lemmas copy_simps = LOAD_aligned_eq aligned_offset aligned_numerals store_offsets back_offsets

lemma copy_round_pass2_eq:
  assumes "aligned src" and "aligned dst" and "apart dst src 64"
  shows "copy_round_pass2 be src dst (dst + 64) m =
    Some (src + 64, dst + 64, dst + 128, copied m dst src 64)"
  using assms by (simp add: copy_round_pass2_def Let_def copy_simps load_offsets [OF assms(3)]
      append_offsets [OF assms(3)])

lemma copy_round_pass1_eq:
  assumes "aligned src" and "aligned dst" and "apart dst src 64"
  shows "copy_round_pass1 be src dst (dst + 64) m =
    Some (src + 64, dst + 64, dst + 128, copied m dst src 64)"
  using assms by (simp add: copy_round_pass1_def Let_def copy_simps load_offsets [OF assms(3)]
      append_offsets [OF assms(3)])

lemma copied_bound: "apart d s (64 * c) \<Longrightarrow> c = Suc k \<Longrightarrow> apart (d + 64) (s + 64) (64 * k) \<and> apart d s 64"
  using apart_shift [of d s 64 "64 * k"] apart_mono [of d s "64 * c" 64] by simp

lemma copy_rounds_eq:
  assumes "unat count \<noteq> 0"
  shows "aligned src \<Longrightarrow> aligned dst \<Longrightarrow> apart dst src (64 * unat count) \<Longrightarrow> unat count \<le> 2 ^ 58 \<Longrightarrow>
    copy_rounds be pass1 count src dst (dst + 64) m =
      Some (src + of_nat (64 * unat count), dst + of_nat (64 * unat count), dst + of_nat (64 * unat count) + 64,
        copied m dst src (64 * unat count))"
  using assms
proof (induction "unat count - 1" arbitrary: count src dst m)
  case 0
  then have c: "unat count = 1" by simp
  then have "count = 1" by (simp add: word_unat_eq_iff)
  then show ?case
    using 0 c by (subst copy_rounds.simps) (simp add: copy_round_pass1_eq copy_round_pass2_eq)
next
  case (Suc k)
  have "count \<noteq> 0" using Suc.hyps(2) by auto
  then have c: "unat (count - 1) = Suc k" "unat count = Suc (Suc k)"
    using Suc.hyps(2) unat_minus_one [of count] by simp_all
  then have nz: "count - 1 \<noteq> 0" by auto
  have a: "aligned (src + 64)" "aligned (dst + 64)"
    using Suc.prems by (simp_all add: aligned_offset aligned_numerals)
  have p: "apart (dst + 64) (src + 64) (64 * Suc k)" "apart dst src 64"
    using copied_bound [OF Suc.prems(3) c(2)] by auto
  have "copy_rounds be pass1 count src dst (dst + 64) m =
      copy_rounds be pass1 (count - 1) (src + 64) (dst + 64) (dst + 128) (copied m dst src 64)"
    using c nz Suc.prems(1,2) p(2) by (subst copy_rounds.simps) (simp add: copy_round_pass1_eq copy_round_pass2_eq)
  also have "\<dots> = Some (src + 64 + of_nat (64 * Suc k), dst + 64 + of_nat (64 * Suc k), dst + 64 + of_nat (64 * Suc k) + 64,
      copied (copied m dst src 64) (dst + 64) (src + 64) (64 * Suc k))"
    using Suc.hyps(1) [of "count - 1" "src + 64" "dst + 64"] Suc.prems(4) c a p(1) by (simp add: add.commute [of 128])
  also have "copied (copied m dst src 64) (dst + 64) (src + 64) (64 * Suc k) = copied m dst src (64 * unat count)"
    using copied_append [of dst src 64 "64 * Suc k" m] Suc.prems(3,4) c(2) by simp
  finally show ?case by (simp add: c(2) algebra_simps)
qed

lemma merge_bytes:
  assumes "r < 8" and "msk = (if be then drop_bit (8 * r) (- 1) else push_bit (8 * r) (- 1))"
  shows "store_bytes d 8 (mem_byte be ((NOT msk AND LOAD be m s) OR (msk AND LOAD be m d))) m = copied m d s r"
proof -
  let ?v = "(NOT msk AND LOAD be m s) OR (msk AND LOAD be m d)"
  have "bit msk (8 * (if be then 7 - j else j) + i) = (r \<le> j)" if "j < 8" "i < 8" for i j
    unfolding assms(2) using assms(1) that by (auto simp: bitwise bit_minus_1_iff)
  then have "mem_byte be ?v j = (if j < r then mem_byte be (LOAD be m s) j else mem_byte be (LOAD be m d) j)"
    if "j < 8" for j
    using that by (intro word_bit_ext) (auto simp: bit_mem_byte bitwise)
  then have v: "mem_byte be ?v j = (if j < r then load_bytes s m j else m (d + of_nat j))" if "j < 8" for j
    using that by (simp add: LOAD_bytes mem_byte_of_mem_bytes load_bytes_def)
  show ?thesis
    unfolding copied_def store_bytes_def using assms(1) by (intro ext) (auto simp: v)
qed

lemma copy_bytes_aligned_eq:
  assumes "aligned src" and "aligned dst" and "unat rm < 8"
  shows "copy_bytes_aligned be rm src dst m = Some (copied m dst src (unat rm))"
proof -
  have "unat (push_bit 3 rm) = 8 * unat rm"
    using assms(3) by (simp add: push_bit_eq_mult unat_mult_lem [THEN iffD1] mult.commute)
  moreover have "push_bit 3 rm AND 63 = take_bit 6 (push_bit 3 rm)"
    by (simp add: take_bit_eq_mask mask_eq_exp_minus_1)
  ultimately have "unat (push_bit 3 rm AND 63) = 8 * unat rm"
    using assms(3) by (simp only: unsigned_take_bit_eq) (simp add: take_bit_nat_eq_self)
  then show ?thesis
    using merge_bytes [OF assms(3) refl, where be = be and d = dst and m = m and s = src] assms(1,2)
    by (simp add: copy_bytes_aligned_def LOAD_aligned_eq STORE_def Let_def split: if_splits)
qed

lemma copied_unit:
  "aligned dst \<Longrightarrow> STORE be (LOAD be m src) dst m = Some (copied m dst src 8)"
  using store_offsets(1) by blast

lemma copy_units_aligned_eq:
  assumes "unat count \<noteq> 0" and "unat rm < 8"
  shows "aligned src \<Longrightarrow> aligned dst \<Longrightarrow> apart dst src (8 * unat count + unat rm) \<Longrightarrow> unat count < 2 ^ 60 \<Longrightarrow>
    copy_units_aligned be count rm src dst m = Some (copied m dst src (8 * unat count + unat rm))"
  using assms(1)
proof (induction "unat count - 1" arbitrary: count src dst m)
  case 0
  then have c: "unat count = 1" by simp
  then have "count = 1" by (simp add: word_unat_eq_iff)
  moreover have "copied (copied m dst src 8) (dst + 8) (src + 8) (unat rm) = copied m dst src (8 + unat rm)"
    using copied_append [of dst src 8 "unat rm" m] 0(4) c assms(2) by simp
  moreover have "rm = 0 \<Longrightarrow> copied m dst src (8 + unat rm) = copied m dst src 8" by simp
  ultimately show ?case
    using 0(2,3) by (subst copy_units_aligned.simps)
      (simp add: LOAD_aligned_eq copied_unit copy_bytes_aligned_eq aligned_offset aligned_numerals assms(2))
next
  case (Suc k)
  have "count \<noteq> 0" using Suc.hyps(2) by auto
  then have c: "unat (count - 1) = Suc k" "unat count = Suc (Suc k)"
    using Suc.hyps(2) unat_minus_one [of count] by simp_all
  then have nz: "count - 1 \<noteq> 0" by auto
  let ?n = "8 * Suc k + unat rm"
  have n: "8 * unat count + unat rm = 8 + ?n" by (simp add: c(2))
  have a: "aligned (src + 8)" "aligned (dst + 8)"
    using Suc.prems by (simp_all add: aligned_offset aligned_numerals)
  have p: "apart (dst + 8) (src + 8) ?n"
    using apart_shift [of dst src 8 ?n] Suc.prems(3) unfolding n by simp
  have "copy_units_aligned be count rm src dst m =
      copy_units_aligned be (count - 1) rm (src + 8) (dst + 8) (copied m dst src 8)"
    using nz Suc.prems(1,2) by (subst copy_units_aligned.simps) (simp add: LOAD_aligned_eq copied_unit)
  also have "\<dots> = Some (copied (copied m dst src 8) (dst + 8) (src + 8) ?n)"
    using Suc.hyps(1) [of "count - 1" "src + 8" "dst + 8"] Suc.prems(4) c a p by simp
  also have "copied (copied m dst src 8) (dst + 8) (src + 8) ?n = copied m dst src (8 * unat count + unat rm)"
    using copied_append [of dst src 8 ?n m] Suc.prems(3,4) assms(2) c(2) unfolding n by simp
  finally show ?case .
qed

lemma copy_byte:
  assumes "apart d s (Suc n)" and "n < 100"
  shows "(copied m d s n)(d + of_nat n := copied m d s n (s + of_nat n)) = copied m d s (Suc n)"
proof -
  have "store_bytes (d + of_nat n) 1 (\<lambda>j. m (s + of_nat n)) (store_bytes d n (load_bytes s m) m) =
      store_bytes d (n + 1) (load_bytes s m) m"
    using assms(2) by (intro store_bytes_append) (simp_all add: load_bytes_def)
  then show ?thesis
    using apart_outside [OF assms(1), of n n m] by (simp add: store_bytes_upd copied_def)
qed

lemma copy_bytes_eq:
  "n + k = 7 \<Longrightarrow> unat len \<noteq> 0 \<Longrightarrow> unat len \<le> k + 1 \<Longrightarrow> apart d s (n + unat len) \<Longrightarrow>
   copy_bytes len s d [n..<n + k] (copied m d s n) = copied m d s (n + unat len)"
proof (induction k arbitrary: n len)
  case 0
  then have "unat len = 1" "n = 7" by simp_all
  then show ?case using copy_byte [of d s 7 m] 0(4) by simp
next
  case (Suc k)
  have b: "(copied m d s n)(d + of_nat n := copied m d s n (s + of_nat n)) = copied m d s (Suc n)"
    using Suc.prems by (intro copy_byte) (auto elim: apart_mono)
  have nz: "len \<noteq> 0" using Suc.prems(2) by auto
  then have l: "unat (len - 1) = unat len - 1" using unat_minus_one [of len] by simp
  show ?case
  proof (cases "len - 1 = 0")
    case True
    then have "unat len = 1" using l nz by (simp add: word_unat_eq_iff)
    then show ?thesis using True b by (simp add: upt_conv_Cons Let_def del: upt_Suc)
  next
    case False
    then have "unat (len - 1) \<noteq> 0" by (simp add: unat_eq_zero)
    then have "copy_bytes (len - 1) s d [Suc n..<Suc n + k] (copied m d s (Suc n)) = copied m d s (Suc n + unat (len - 1))"
      using Suc.prems l by (intro Suc.IH) auto
    then show ?thesis using False b l Suc.prems(2) by (simp add: upt_conv_Cons Let_def del: upt_Suc)
  qed
qed

lemma copy_bytes_checklen_eq:
  assumes "unat len < 8" and "apart d s (unat len)"
  shows "copy_bytes_checklen len s d m = copied m d s (unat len)"
  using copy_bytes_eq [of 0 7 len d s m] assms
  by (cases "len = 0") (auto simp: copy_bytes_checklen_def copied_0 unat_eq_zero simp del: upt_rec_numeral)

lemma copy_units_src_unaligned_eq:
  assumes "unat count \<noteq> 0"
  shows "aligned dst \<Longrightarrow> unat len div 8 = unat count \<Longrightarrow> apart dst src (unat len) \<Longrightarrow>
    copy_units_src_unaligned be r count len src dst m = Some (copied m dst src (unat len))"
  using assms
proof (induction "unat count - 1" arbitrary: r count len src dst m)
  case 0
  then have c: "unat count = 1" by simp
  then have c1: "count = 1" by (simp add: word_unat_eq_iff)
  have l: "unat (len - 8) = unat len - 8" "unat len - 8 < 8" "8 \<le> unat len"
    using 0(3) c by (auto simp: unat_sub_if_size)
  have "apart (dst + 8) (src + 8) (unat len - 8)"
    using apart_shift [of dst src 8 "unat len - 8"] 0(4) l by simp
  then have "copy_bytes_checklen (len - 8) (src + 8) (dst + 8) (copied m dst src 8) =
      copied (copied m dst src 8) (dst + 8) (src + 8) (unat len - 8)"
    using l by (simp add: copy_bytes_checklen_eq)
  also have "\<dots> = copied m dst src (unat len)"
    using copied_append [of dst src 8 "unat len - 8" m] 0(4) l unat64 [of len] by simp
  finally show ?case
    using 0(2) c1 by (subst copy_units_src_unaligned.simps) (simp add: LOAD_unaligned_eq copied_unit Let_def)
next
  case (Suc k)
  have "count \<noteq> 0" using Suc.hyps(2) by auto
  then have c: "unat (count - 1) = Suc k" "unat count = Suc (Suc k)"
    using Suc.hyps(2) unat_minus_one [of count] by simp_all
  then have nz: "count - 1 \<noteq> 0" by auto
  have l: "unat (len - 8) = unat len - 8" "8 \<le> unat len" "unat (len - 8) div 8 = Suc k"
    using Suc.prems(2) c by (auto simp: unat_sub_if_size)
  have p: "apart (dst + 8) (src + 8) (unat (len - 8))"
    using apart_shift [of dst src 8 "unat len - 8"] Suc.prems(3) l by simp
  have "copy_units_src_unaligned be r count len src dst m =
      copy_units_src_unaligned be (LOAD be m src) (count - 1) (len - 8) (src + 8) (dst + 8) (copied m dst src 8)"
    using nz Suc.prems(1) by (subst copy_units_src_unaligned.simps) (simp add: LOAD_unaligned_eq copied_unit Let_def)
  also have "\<dots> = Some (copied (copied m dst src 8) (dst + 8) (src + 8) (unat (len - 8)))"
    using Suc.hyps(1) [of "count - 1" "dst + 8" "len - 8" "src + 8"] Suc.prems(1) c l p
    by (simp add: aligned_offset aligned_numerals)
  also have "copied (copied m dst src 8) (dst + 8) (src + 8) (unat (len - 8)) = copied m dst src (unat len)"
    using copied_append [of dst src 8 "unat len - 8" m] Suc.prems(3) l unat64 [of len] by simp
  finally show ?case .
qed

lemma cleanup_src_unaligned_eq:
  assumes "aligned dst" and "apart dst src (unat len)"
  shows "cleanup_src_unaligned be r len src dst m = Some (copied m dst src (unat len))"
proof (cases "drop_bit 3 len = 0")
  case True
  then have "unat len < 8" using and_low(4) [of len] by (simp add: div_eq_0_iff)
  then show ?thesis
    using True copy_bytes_checklen_eq [of len dst src m] assms(2)
    by (auto simp: cleanup_src_unaligned_def copy_bytes_checklen_def copied_0 Let_def simp del: upt_rec_numeral split: if_splits)
next
  case False
  then have nz: "unat (drop_bit 3 len) \<noteq> 0" "len \<noteq> 0" by (auto simp: unat_eq_zero)
  have "copy_units_src_unaligned be r (drop_bit 3 len) len src dst m = Some (copied m dst src (unat len))"
    by (rule copy_units_src_unaligned_eq [OF nz(1) assms(1) and_low(4) [symmetric] assms(2)])
  then show ?thesis using False nz(2) by (simp only: cleanup_src_unaligned_def Let_def if_False)
qed

lemma copy_src_unaligned_eq:
  assumes "unat count \<noteq> 0"
  shows "aligned dst \<Longrightarrow> 32 * unat count \<le> unat len \<Longrightarrow> apart dst src (32 * unat count) \<Longrightarrow>
    copy_src_unaligned be r count len src dst m =
      Some (len - of_nat (32 * unat count), src + of_nat (32 * unat count), dst + of_nat (32 * unat count),
        copied m dst src (32 * unat count))"
  using assms
proof (induction "unat count - 1" arbitrary: count len src dst m)
  case 0
  then have c: "unat count = 1" by simp
  then have "count = 1" by (simp add: word_unat_eq_iff)
  then show ?case
    using 0(2) c by (subst copy_src_unaligned.simps) (simp add: LOAD_unaligned_eq copy_simps Let_def)
next
  case (Suc k)
  have "count \<noteq> 0" using Suc.hyps(2) by auto
  then have c: "unat (count - 1) = Suc k" "unat count = Suc (Suc k)"
    using Suc.hyps(2) unat_minus_one [of count] by simp_all
  then have nz: "count - 1 \<noteq> 0" by auto
  have l: "unat (len - 32) = unat len - 32"
    using Suc.prems(2) c by (auto simp: unat_sub_if_size)
  have p: "apart (dst + 32) (src + 32) (32 * Suc k)"
    using apart_shift [of dst src 32 "32 * Suc k"] Suc.prems(3) c by simp
  have "copy_src_unaligned be r count len src dst m =
      copy_src_unaligned be r (count - 1) (len - 32) (src + 32) (dst + 32) (copied m dst src 32)"
    using nz Suc.prems(1) by (subst copy_src_unaligned.simps) (simp add: LOAD_unaligned_eq copy_simps Let_def)
  also have "\<dots> = Some (len - 32 - of_nat (32 * Suc k), src + 32 + of_nat (32 * Suc k), dst + 32 + of_nat (32 * Suc k),
      copied (copied m dst src 32) (dst + 32) (src + 32) (32 * Suc k))"
    using Suc.hyps(1) [of "count - 1" "dst + 32" "len - 32" "src + 32"] Suc.prems(1,2) c l p
    by (simp add: aligned_offset aligned_numerals)
  also have "copied (copied m dst src 32) (dst + 32) (src + 32) (32 * Suc k) = copied m dst src (32 * unat count)"
    using copied_append [of dst src 32 "32 * Suc k" m] Suc.prems(2,3) c(2) unat64 [of len] by simp
  finally show ?case by (simp add: c(2) algebra_simps)
qed

lemma src_unaligned_dst_aligned_eq:
  assumes "aligned dst" and "apart dst src (unat len)"
  shows "src_unaligned_dst_aligned be r len src dst m = Some (copied m dst src (unat len))"
proof (cases "drop_bit 5 len = 0")
  case True
  then show ?thesis using assms by (simp add: src_unaligned_dst_aligned_def Let_def cleanup_src_unaligned_eq)
next
  case False
  then have nz: "unat (drop_bit 5 len) \<noteq> 0" by (simp add: unat_eq_zero)
  let ?k = "32 * unat (drop_bit 5 len)"
  have "unat (drop_bit 5 len) = unat len div 32"
    using unat64 [of len] by (simp add: unsigned_drop_bit_eq take_bit_nat_eq_self drop_bit_nat_def)
  then have k: "?k \<le> unat len" by simp
  then have l: "unat (len - of_nat ?k) = unat len - ?k"
    using unat64 [of len] by (simp add: unat_sub_if_size unat_of_nat del: of_nat_mult)
  have p: "apart dst src ?k" "apart (dst + of_nat ?k) (src + of_nat ?k) (unat (len - of_nat ?k))"
    using apart_mono [OF assms(2) k] apart_shift [of dst src ?k "unat len - ?k"] assms(2) k unfolding l by simp_all
  have a: "aligned (dst + of_nat ?k)"
    by (simp add: aligned_offset aligned_of_nat assms(1) del: of_nat_mult)
  note rounds = copy_src_unaligned_eq [OF nz assms(1) k p(1), of be r m]
  note cleanup = cleanup_src_unaligned_eq [OF a p(2), of be r "copied m dst src ?k"]
  have "copied (copied m dst src ?k) (dst + of_nat ?k) (src + of_nat ?k) (unat (len - of_nat ?k)) = copied m dst src (unat len)"
    using copied_append [of dst src ?k "unat len - ?k" m] assms(2) k unat64 [of len] unfolding l by simp
  then show ?thesis
    unfolding src_unaligned_dst_aligned_def Let_def rounds if_not_P [OF False] bind.bind_lunit prod.case cleanup
    by (rule arg_cong)
qed

lemma less_than_4units_eq:
  assumes "aligned src" and "aligned dst" and "unat rm < 8" and "unat count < 2 ^ 60"
    and "n = 8 * unat count + unat rm" and "apart dst src n"
  shows "less_than_4units be count rm src dst m = Some (copied m dst src n)"
proof (cases "count = 0")
  case True
  then show ?thesis using assms by (simp add: less_than_4units_def copy_bytes_aligned_eq)
next
  case False
  then have "unat count \<noteq> 0" by (simp add: unat_eq_zero)
  then show ?thesis
    using False copy_units_aligned_eq [of count rm src dst be m] assms by (simp add: less_than_4units_def)
qed

lemma cleanup_both_aligned_eq:
  assumes "aligned src" and "aligned dst" and "apart dst src (unat len)" and "unat len < 64"
  shows "cleanup_both_aligned be (len < 32) len src dst (dst + 64) m = Some (copied m dst src (unat len))"
proof -
  have len: "unat len = 8 * unat (drop_bit 3 len) + unat (len AND 7)" and r: "unat (len AND 7) < 8"
    by (simp_all add: and_low)
  have q: "unat (drop_bit 3 len) < 8" using assms(4) by (simp add: and_low)
  consider "len = 0" | "len \<noteq> 0" "len < 32" | "32 \<le> unat len" "\<not> len < 32" "len \<noteq> 0"
    by (cases "len = 0"; cases "unat len < 32") (auto simp: word_less_nat_alt not_less)
  then show ?thesis
  proof cases
    case 1
    then show ?thesis by (simp add: cleanup_both_aligned_def copied_0)
  next
    case 2
    have "less_than_4units be (drop_bit 3 len) (len AND 7) src dst m = Some (copied m dst src (unat len))"
      by (rule less_than_4units_eq [OF assms(1,2) r _ len assms(3)]) (use q in simp)
    then show ?thesis using 2 by (simp add: cleanup_both_aligned_def Let_def)
  next
    case 3
    have p: "apart dst src 32" using apart_mono [OF assms(3)] 3(1) by simp
    have c: "unat (drop_bit 3 len - 4) = unat (drop_bit 3 len) - 4"
      using 3(1) by (simp add: unat_sub_if_size and_low)
    have l: "unat (len - 32) = unat len - 32"
      using 3(1) by (simp add: unat_sub_if_size)
    have a: "aligned (src + 32)" "aligned (dst + 32)"
      using assms(1,2) by (simp_all add: aligned_offset aligned_numerals)
    have p': "apart (dst + 32) (src + 32) (unat len - 32)"
      using apart_shift [of dst src 32 "unat len - 32"] assms(3) 3(1) by simp
    have "less_than_4units be (drop_bit 3 len - 4) (len AND 7) (src + 32) (dst + 32) (copied m dst src 32) =
        Some (copied (copied m dst src 32) (dst + 32) (src + 32) (unat len - 32))"
      by (rule less_than_4units_eq [OF a r _ _ p']) (use q c 3(1) len r in simp_all)
    also have "copied (copied m dst src 32) (dst + 32) (src + 32) (unat len - 32) = copied m dst src (unat len)"
      using copied_append [of dst src 32 "unat len - 32" m] assms(3,4) 3(1) by simp
    finally have rest: "less_than_4units be (drop_bit 3 len - 4) (len AND 7) (src + 32) (dst + 32) (copied m dst src 32) =
        Some (copied m dst src (unat len))" .
    have "len = 32 \<Longrightarrow> unat len = 32" by simp
    then have fin: "len - 32 = 0 \<Longrightarrow> copied m dst src 32 = copied m dst src (unat len)" by simp
    have "cleanup_both_aligned be (len < 32) len src dst (dst + 64) m =
        (if len - 32 = 0 then Some (copied m dst src 32)
         else less_than_4units be (drop_bit 3 len - 4) (len AND 7) (src + 32) (dst + 32) (copied m dst src 32))"
      using 3 assms(1,2) by (simp add: cleanup_both_aligned_def Let_def copy_simps)
    then show ?thesis using rest fin by simp
  qed
qed

lemma both_aligned_eq:
  assumes "aligned src" and "aligned dst" and "apart dst src (unat len)"
  shows "both_aligned be pass1 len src dst m = Some (copied m dst src (unat len))"
proof -
  let ?q = "unat len div 64"
  have q: "unat (drop_bit 6 len) = ?q"
    using unat64 [of len] by (simp add: unsigned_drop_bit_eq take_bit_nat_eq_self drop_bit_nat_def)
  have "len AND 63 = take_bit 6 len" by (simp add: take_bit_eq_mask mask_eq_exp_minus_1)
  then have l: "unat (len AND 63) = unat len mod 64"
    by (simp only: unsigned_take_bit_eq) (simp add: take_bit_nat_def)
  show ?thesis
  proof (cases "drop_bit 6 len = 0")
    case True
    then have "unat len < 64" using q by (simp add: div_eq_0_iff)
    then show ?thesis using True cleanup_both_aligned_eq [OF assms] by (simp add: both_aligned_def Let_def)
  next
    case False
    then have nz: "unat (drop_bit 6 len) \<noteq> 0" by (simp add: unat_eq_zero)
    let ?k = "64 * unat (drop_bit 6 len)"
    have k: "?k + unat (len AND 63) = unat len" unfolding q l by simp
    have p: "apart dst src ?k" "apart (dst + of_nat ?k) (src + of_nat ?k) (unat (len AND 63))"
      using apart_mono [OF assms(3), of ?k] apart_shift [of dst src ?k "unat (len AND 63)"] assms(3)
      unfolding k using k by simp_all
    have a: "aligned (src + of_nat ?k)" "aligned (dst + of_nat ?k)"
      by (simp_all add: aligned_offset aligned_of_nat assms(1,2) del: of_nat_mult)
    have "unat (drop_bit 6 len) \<le> 2 ^ 58" using q unat64 [of len] by simp
    note rounds = copy_rounds_eq [OF nz assms(1,2) p(1) this, of be pass1 m]
    have "unat (len AND 63) < 64" unfolding l by simp
    note cleanup = cleanup_both_aligned_eq [OF a p(2) this, of be "copied m dst src ?k"]
    have "copied (copied m dst src ?k) (dst + of_nat ?k) (src + of_nat ?k) (unat (len AND 63)) = copied m dst src (unat len)"
      using copied_append [of dst src ?k "unat (len AND 63)" m] assms(3) unat64 [of len] unfolding k by simp
    then have "both_aligned be pass1 len src dst m = Some (copied m dst src (unat len))"
      unfolding both_aligned_def Let_def rounds if_not_P [OF False] bind.bind_lunit prod.case cleanup by (rule arg_cong)
    then show ?thesis .
  qed
qed

lemma dst_unaligned_eq:
  assumes "apart dst src (unat len)" and "8 \<le> unat len"
  shows "dst_unaligned be pass1 r (src AND 7) (dst AND 7) len src dst m = Some (copied m dst src (unat len))"
proof -
  let ?k = "8 - unat (dst AND 7)"
  let ?m = "copied m dst src ?k" and ?d = "dst + of_nat ?k" and ?s = "src + of_nat ?k" and ?n = "unat len - ?k"
  have k: "?k \<le> 8" "0 < ?k" by (simp_all add: and_low)
  have l: "unat (len - of_nat ?k) = ?n"
    using k assms(2) by (simp add: unat_sub_if_size unat_of_nat)
  have d: "aligned ?d" using align_up [of dst] by simp
  have s: "aligned ?s" if "src AND 7 = dst AND 7"
  proof -
    have "src + (8 - (src AND 7)) = ?s" using align_up(1) [of dst] by (simp only: that)
    then show ?thesis using align_up(2) [of src] by simp
  qed
  have p: "apart ?d ?s ?n"
    using apart_shift [of dst src ?k ?n] assms k(1) by simp
  have "store_bytes dst ?k (mem_byte be (LOAD be m src)) m = ?m"
    unfolding copied_def by (rule store_bytes_cong) (use k in \<open>simp add: LOAD_bytes mem_byte_of_mem_bytes\<close>)
  then have first: "STFIRST be (LOAD_unaligned be m r src) dst m = ?m"
    by (simp add: STFIRST_def LOAD_unaligned_eq)
  have all: "copied ?m ?d ?s ?n = copied m dst src (unat len)"
    using copied_append [of dst src ?k ?n m] assms k(1) unat64 [of len] by simp
  have fin: "?m = copied m dst src (unat len)" if "len - of_nat ?k = 0"
  proof -
    have "?n = 0" using l unfolding that by simp
    then show ?thesis using all by (simp only: copied_0)
  qed
  have x: "((src AND 7) XOR (dst AND 7) = 0) = (src AND 7 = dst AND 7)"
    by (rule xor_zero_eq)
  have "both_aligned be pass1 (len - of_nat ?k) ?s ?d ?m = Some (copied m dst src (unat len))"
    if "src AND 7 = dst AND 7"
    using both_aligned_eq [OF s [OF that] d, of "len - of_nat ?k"] p all unfolding l by (simp only:)
  moreover have "src_unaligned_dst_aligned be r (len - of_nat ?k) ?s ?d ?m = Some (copied m dst src (unat len))"
    using src_unaligned_dst_aligned_eq [OF d, of ?s "len - of_nat ?k"] p all unfolding l by (simp only:)
  moreover have "dst_unaligned be pass1 r (src AND 7) (dst AND 7) len src dst m =
      (if len - of_nat ?k = 0 then Some ?m
       else if src AND 7 = dst AND 7 then both_aligned be pass1 (len - of_nat ?k) ?s ?d ?m
       else src_unaligned_dst_aligned be r (len - of_nat ?k) ?s ?d ?m)"
    unfolding dst_unaligned_def Let_def first x align_up(1) ..
  ultimately show ?thesis using fin by presburger
qed

lemma memcpy_sb1_eq:
  assumes "apart dst src (unat len)"
  shows "memcpy_sb1 be pass1 r dst src len m = Some (dst, store_bytes dst (unat len) (load_bytes src m) m)"
proof -
  have small: "len < 8 \<Longrightarrow> copy_bytes_checklen len src dst m = copied m dst src (unat len)"
    using copy_bytes_checklen_eq [OF _ assms] by (simp add: word_less_nat_alt)
  have "\<not> len < 8 \<Longrightarrow> 8 \<le> unat len" by (simp add: word_less_nat_alt)
  then show ?thesis
    using small dst_unaligned_eq [OF assms] both_aligned_eq [OF _ _ assms] src_unaligned_dst_aligned_eq [OF _ assms]
    by (auto simp: memcpy_sb1_def Let_def aligned_def copied_def)
qed

text \<open>
  C30: \<open>memcpy\<close> between blocks that do not overlap, whatever the alignment of either, the length, the byte order of
  the machine and the schedule of the main loop, returns without an address error, leaves each byte of the
  source in the same place of the destination and every other byte of memory as it was, and gives
  back \<open>dst\<close>.
\<close>

theorem memcpy_correct:
  assumes "apart dst src (unat len)"
  shows "memcpy_sb1 be pass1 r dst src len m = Some (dst, store_bytes dst (unat len) (load_bytes src m) m)"
  using assms by (rule memcpy_sb1_eq)

text \<open>A copy whose ends are not aligned alike: 11 bytes from 0x1003 to 0x2005.\<close>

theorem memcpy_correct_witness:
  "map_option (\<lambda>(v, m). (v, m 0x2005, m 0x200c, m 0x200f, m 0x2010)) (memcpy_sb1 True False 0 0x2005 0x1003 11 ucast) =
     Some (0x2005, 0x03, 0x0a, 0x0d, 0x10)"
proof -
  have "apart 0x2005 0x1003 (unat (11 :: u64))"
    unfolding apart_def
  proof (intro allI impI)
    fix i j :: nat assume "i < unat (11 :: u64)" "j < unat (11 :: u64)"
    then have "unat (0x1003 + of_nat i :: u64) < 0x2000" "0x2000 \<le> unat (0x2005 + of_nat j :: u64)"
      by (simp_all add: unat_word_ariths unat_of_nat)
    then show "(0x1003 + of_nat i :: u64) \<noteq> 0x2005 + of_nat j" by auto
  qed
  from memcpy_correct [OF this, of True False 0 ucast] show ?thesis
    by (simp add: store_bytes_def load_bytes_def)
qed

end
