(* ===== verification/Memfuncs.thy ===== *)
theory Memfuncs
  imports Sb1copy Clib
begin

text \<open>
  \<open>libsbprof/examples/memfuncs.c\<close>: the tests that the profiling example runs on the \<open>memset\<close> and \<open>memcpy\<close> of
  \<open>sb1-opt\<close>, linked under the names \<open>memset_sb1\<close> and \<open>memcpy_sb1\<close>, before it measures them, and the figures it
  prints of the measurement. The routines under test are arguments of the tests. \<open>X\<close> is the address of the
  program's static structure \<open>x\<close>.
\<close>

unbundle bit_operations_syntax

section \<open>The buffers\<close>

definition SIZE :: nat where "SIZE = 4 * 1024 * 1024"

definition x_src :: "u64 \<Rightarrow> u64" where "x_src X = X + 8"
definition x_dst :: "u64 \<Rightarrow> u64" where "x_dst X = x_src X + of_nat (SIZE + 1024)"
definition x_back :: "u64 \<Rightarrow> u64" where "x_back X = x_dst X + of_nat (SIZE + 1024)"

text \<open>\<open>memset\<close> of the C library, and the \<open>memcpy\<close> of one \<open>unsigned int\<close> into the buffer.\<close>

definition libc_memset :: "u64 \<Rightarrow> u8 \<Rightarrow> nat \<Rightarrow> memory \<Rightarrow> memory" where
  "libc_memset d v n m = store_bytes d n (\<lambda>j. v) m"

definition store_uint :: "bool \<Rightarrow> u64 \<Rightarrow> u32 \<Rightarrow> memory \<Rightarrow> memory" where
  "store_uint be d v m = store_bytes d 4 (\<lambda>j. ucast (drop_bit (8 * (if be then 3 - j else j)) v)) m"

section \<open>memcheck\<close>

fun memcheck_loop :: "memory \<Rightarrow> u64 \<Rightarrow> u64 \<Rightarrow> bool \<Rightarrow> nat list \<Rightarrow> int \<Rightarrow> string \<Rightarrow> int \<times> string" where
  "memcheck_loop m a b print [] fail out = (fail, out)"
| "memcheck_loop m a b print (i # is) fail out =
     (if m (a + of_nat i) \<noteq> m (b + of_nat i) then
        memcheck_loop m a b print is (if fail < 0 then int i else fail) (if print then out @ ''X'' else out)
      else memcheck_loop m a b print is fail (if print then out @ ''.'' else out))"

definition memcheck :: "memory \<Rightarrow> u64 \<Rightarrow> u64 \<Rightarrow> int \<Rightarrow> bool \<Rightarrow> int \<times> string" where
  "memcheck m a b n print =
     (let (fail, out) = memcheck_loop m a b print [0..<nat n] (- 1) []
      in (fail, if print then out @ [CHR 0x0A] else out))"

section \<open>The tests\<close>

fun fold_opt :: "('x \<Rightarrow> 'a \<Rightarrow> 'a option) \<Rightarrow> 'x list \<Rightarrow> 'a \<Rightarrow> 'a option" where
  "fold_opt f [] a = Some a"
| "fold_opt f (x # xs) a = do { a \<leftarrow> f x a; fold_opt f xs a }"

text \<open>The three checks of one call, and what they print; \<open>what\<close> is the routine's name.\<close>

definition check_call :: "string \<Rightarrow> memory \<Rightarrow> u64 \<Rightarrow> u64 \<Rightarrow> nat \<Rightarrow> nat \<Rightarrow> string list" where
  "check_call what m X src doff i =
     (let test_size = 256 :: int; dst = x_dst X + of_nat doff;
          diff1 = fst (memcheck m dst src (int i) False);
          diff2 = fst (memcheck m (x_dst X) (x_back X) (int doff) False);
          diff3 = fst (memcheck m (dst + of_nat i) (x_back X + of_nat i) (test_size - int doff - int i) False)
      in (if 0 \<le> diff1 then [what @ '' failed for size '' @ digits_of 10 i @ '' at byte '' @ digits_of 10 (nat diff1) @ [CHR 0x0A]] else []) @
         (if 0 \<le> diff2 then [what @ '' started too soon for size '' @ digits_of 10 i @ [CHR 0x0A]] else []) @
         (if 0 \<le> diff3 then [what @ '' went too far for size '' @ digits_of 10 i @ [CHR 0x0A]] else []))"

definition memset_case ::
  "(u64 \<Rightarrow> u64 \<Rightarrow> u64 \<Rightarrow> memory \<Rightarrow> (u64 \<times> memory) option) \<Rightarrow> u64 \<Rightarrow> nat \<Rightarrow> nat \<Rightarrow>
   memory \<times> string list \<Rightarrow> (memory \<times> string list) option" where
  "memset_case memset_f X doff i s =
     do {
       let (m, out) = s;
       let dst = x_dst X + of_nat doff;
       let m = libc_memset (x_dst X) 0xbd 256 m;
       (v, m) \<leftarrow> memset_f dst 0x5a (of_nat i) m;
       Some (m, out @ check_call ''memset'' m X (x_src X) doff i)
     }"

definition test_memset ::
  "(u64 \<Rightarrow> u64 \<Rightarrow> u64 \<Rightarrow> memory \<Rightarrow> (u64 \<times> memory) option) \<Rightarrow> u64 \<Rightarrow> memory \<Rightarrow> (memory \<times> string list) option" where
  "test_memset memset_f X m =
     (let test_size = 256
      in if test_size > SIZE then Some (m, [''SIZE too small to test'' @ [CHR 0x0A]])
         else let m = libc_memset (x_src X) 0x5a test_size m;
                  m = libc_memset (x_dst X) 0xbd test_size m;
                  m = libc_memset (x_back X) 0xbd test_size m
              in fold_opt (\<lambda>doff. fold_opt (memset_case memset_f X doff) [0..<test_size - doff + 1]) [0..<16] (m, []))"

definition memcpy_case ::
  "(u64 \<Rightarrow> u64 \<Rightarrow> u64 \<Rightarrow> memory \<Rightarrow> (u64 \<times> memory) option) \<Rightarrow> u64 \<Rightarrow> nat \<Rightarrow> nat \<Rightarrow> nat \<Rightarrow>
   memory \<times> string list \<Rightarrow> (memory \<times> string list) option" where
  "memcpy_case memcpy_f X soff doff i s =
     do {
       let (m, out) = s;
       let src = x_src X + of_nat soff;
       let dst = x_dst X + of_nat doff;
       let m = libc_memset (x_dst X) 0xbd 256 m;
       (v, m) \<leftarrow> memcpy_f dst src (of_nat i) m;
       Some (m, out @ check_call ''memcpy'' m X src doff i)
     }"

text \<open>\<open>rnd n\<close> is what the \<open>n\<close>th call of \<open>rand\<close> returns.\<close>

definition test_memcpy ::
  "bool \<Rightarrow> (nat \<Rightarrow> u32) \<Rightarrow> (u64 \<Rightarrow> u64 \<Rightarrow> u64 \<Rightarrow> memory \<Rightarrow> (u64 \<times> memory) option) \<Rightarrow> u64 \<Rightarrow> memory \<Rightarrow>
   (memory \<times> string list) option" where
  "test_memcpy be rnd memcpy_f X m =
     (let test_size = 256
      in if test_size > SIZE then Some (m, [''SIZE too small to test'' @ [CHR 0x0A]])
         else let m = libc_memset (x_dst X) 0xbd test_size m;
                  m = libc_memset (x_back X) 0xbd test_size m;
                  m = fold (\<lambda>n. store_uint be (x_src X + of_nat (4 * n)) (rnd n)) [0..<test_size div 4] m
              in fold_opt (\<lambda>soff. fold_opt (\<lambda>doff.
                   let maxoff = (if soff > doff then soff else doff)
                   in fold_opt (memcpy_case memcpy_f X soff doff) [0..<test_size - maxoff + 1]) [0..<16]) [0..<16] (m, []))"

section \<open>The measurement\<close>

text \<open>
  The repetitions, the bytes they process and the figures printed of them: half-speed clocks for each cache line and
  megabytes per second, from the bus clocks the repetitions took.
\<close>

definition copy_size :: u64 where "copy_size = 1024"

definition reps :: "bool \<Rightarrow> u64" where
  "reps mips64 = (if mips64 then (push_bit 17 1 * 128 * 200) div copy_size else (push_bit 17 1 * 32 * 200) div copy_size)"

definition measured_bytes :: "bool \<Rightarrow> u64" where
  "measured_bytes mips64 = copy_size * reps mips64"

definition clocks_per_line :: "bool \<Rightarrow> u64 \<Rightarrow> u64" where
  "clocks_per_line mips64 zclks = (zclks * 2 * 32) div measured_bytes mips64"

definition mb_per_second :: "bool \<Rightarrow> u64 \<Rightarrow> u64 \<Rightarrow> u64" where
  "mb_per_second mips64 cpu_speed zclks =
     (measured_bytes mips64 * cpu_speed) div (1000 * 1000 * (zclks + 1) * 2)"

definition memfuncs_report :: "bool \<Rightarrow> u64 \<Rightarrow> u64 \<Rightarrow> u64 \<Rightarrow> string" where
  "memfuncs_report mips64 cpu_speed starttime endtime =
     (let zclks = endtime - starttime
      in pad_left CHR '' '' 8 (show_dec copy_size) @ '' '' @
         ''  '' @ pad_left CHR '' '' 8 (show_dec (clocks_per_line mips64 zclks)) @ ''    '' @
         ''  '' @ pad_left CHR '' '' 8 (show_dec (mb_per_second mips64 cpu_speed zclks)) @
         ''  '' @ pad_left CHR '' '' 10 (show_dec zclks) @ '' '' @ pad_left CHR '' '' 10 (show_dec (reps mips64)) @ [CHR 0x0A])"

section \<open>What memcheck returns\<close>

lemma memcheck_loop_quiet:
  "fst (memcheck_loop m a b print is fail out) =
     (if 0 \<le> fail then fail
      else case find (\<lambda>i. m (a + of_nat i) \<noteq> m (b + of_nat i)) is of None \<Rightarrow> fail | Some i \<Rightarrow> int i)"
  by (induction m a b print "is" fail out rule: memcheck_loop.induct) auto

lemma find_from_zero:
  "(case find P [0..<n] of None \<Rightarrow> - 1 | Some i \<Rightarrow> int i) = (if \<exists>i<n. P i then int (LEAST i. P i) else - 1)"
  for P :: "nat \<Rightarrow> bool"
proof (cases "\<exists>i<n. P i")
  case True
  then have l: "P (LEAST i. P i)" "(LEAST i. P i) < n"
    by (auto intro: LeastI_ex elim: order.strict_trans1 [OF Least_le])
  then have "find P [0..<n] = Some (LEAST i. P i)"
    by (auto simp: find_Some_iff intro!: exI [of _ "LEAST i. P i"] dest: not_less_Least)
  then show ?thesis using True by simp
next
  case False
  then have "find P [0..<n] = None" by (simp add: find_None_iff)
  then show ?thesis using False by simp
qed

lemma memcheck_first:
  "fst (memcheck m a b (int n) False) =
     (if \<exists>i<n. m (a + of_nat i) \<noteq> m (b + of_nat i) then int (LEAST i. m (a + of_nat i) \<noteq> m (b + of_nat i)) else - 1)"
  using find_from_zero [where P = "\<lambda>i. m (a + of_nat i) \<noteq> m (b + of_nat i)"]
  by (simp add: memcheck_def memcheck_loop_quiet split_def)

lemma memcheck_equal:
  "(\<And>i. i < n \<Longrightarrow> m (a + of_nat i) = m (b + of_nat i)) \<Longrightarrow> fst (memcheck m a b (int n) False) = - 1"
  by (simp add: memcheck_first)

section \<open>The tests find nothing\<close>

lemma fold_opt_inv:
  assumes "P a" and "\<And>x a. x \<in> set xs \<Longrightarrow> P a \<Longrightarrow> \<exists>b. f x a = Some b \<and> P b"
  shows "\<exists>b. fold_opt f xs a = Some b \<and> P b"
  using assms
proof (induction xs arbitrary: a)
  case (Cons x xs)
  then obtain b where "f x a = Some b" "P b" by (metis list.set_intros(1))
  then show ?case using Cons.IH [of b] Cons.prems(2) by simp
qed simp

lemma check_call_silent:
  assumes "doff + i \<le> 256"
    and "\<And>k. k < i \<Longrightarrow> m (x_dst X + of_nat (doff + k)) = m (src + of_nat k)"
    and "\<And>k. k < doff \<or> doff + i \<le> k \<Longrightarrow> k < 256 \<Longrightarrow> m (x_dst X + of_nat k) = v"
    and "\<And>k. k < 256 \<Longrightarrow> m (x_back X + of_nat k) = v"
  shows "check_call what m X src doff i = []"
proof -
  have n: "256 - int doff - int i = int (256 - doff - i)" using assms(1) by simp
  have "fst (memcheck m (x_dst X + of_nat doff) src (int i) False) = - 1"
    by (rule memcheck_equal) (use assms(2) in \<open>simp add: add.assoc\<close>)
  moreover have "fst (memcheck m (x_dst X) (x_back X) (int doff) False) = - 1"
    by (rule memcheck_equal) (use assms(1,3,4) in simp)
  moreover have "fst (memcheck m (x_dst X + of_nat doff + of_nat i) (x_back X + of_nat i) (int (256 - doff - i)) False) = - 1"
  proof (rule memcheck_equal)
    fix k assume "k < 256 - doff - i"
    then have "m (x_dst X + of_nat (doff + i + k)) = v" "m (x_back X + of_nat (i + k)) = v"
      using assms(3) [of "doff + i + k"] assms(4) [of "i + k"] by auto
    then show "m (x_dst X + of_nat doff + of_nat i + of_nat k) = m (x_back X + of_nat i + of_nat k)"
      by (simp add: add.assoc)
  qed
  ultimately show ?thesis by (simp add: check_call_def Let_def n)
qed

text \<open>A call whose effect is wrong at any byte of the window is reported.\<close>

lemma check_call_reports:
  assumes "doff + i \<le> 256" and "check_call what m X src doff i = []"
  shows "k < i \<Longrightarrow> m (x_dst X + of_nat (doff + k)) = m (src + of_nat k)"
    and "k < doff \<Longrightarrow> m (x_dst X + of_nat k) = m (x_back X + of_nat k)"
    and "k < 256 - doff - i \<Longrightarrow> m (x_dst X + of_nat (doff + i + k)) = m (x_back X + of_nat (i + k))"
proof -
  have n: "256 - int doff - int i = int (256 - doff - i)" using assms(1) by simp
  have c: "fst (memcheck m (x_dst X + of_nat doff) src (int i) False) < 0"
    "fst (memcheck m (x_dst X) (x_back X) (int doff) False) < 0"
    "fst (memcheck m (x_dst X + of_nat doff + of_nat i) (x_back X + of_nat i) (int (256 - doff - i)) False) < 0"
    using assms(2) by (simp_all add: check_call_def Let_def n split: if_splits)
  have e: "j < l \<Longrightarrow> m (a + of_nat j) = m (b + of_nat j)"
    if "fst (memcheck m a b (int l) False) < 0" for a b j l
    using that by (auto simp: memcheck_first split: if_splits)
  show "k < i \<Longrightarrow> m (x_dst X + of_nat (doff + k)) = m (src + of_nat k)"
    using e [OF c(1)] by (simp add: add.assoc)
  show "k < doff \<Longrightarrow> m (x_dst X + of_nat k) = m (x_back X + of_nat k)"
    by (rule e [OF c(2)])
  show "k < 256 - doff - i \<Longrightarrow> m (x_dst X + of_nat (doff + i + k)) = m (x_back X + of_nat (i + k))"
    using e [OF c(3)] by (simp add: add.assoc)
qed

text \<open>The memory after the window of 256 bytes is filled and a block in it is written.\<close>

lemma window_value:
  assumes "doff + i \<le> 256"
  shows "store_bytes (d + of_nat doff) i img (store_bytes d 256 (\<lambda>j. v) m) a =
    (if doff \<le> unat (a - d) \<and> unat (a - d) < doff + i then img (unat (a - d) - doff)
     else if unat (a - d) < 256 then v else m a)"
proof (cases "i = 0")
  case False
  then show ?thesis using block_offset [of doff i a d] assms by (auto simp: store_bytes_def)
qed (auto simp: store_bytes_def)

lemma window_offsets:
  assumes "k < 256"
  shows "unat (x_dst X + of_nat k - x_dst X) = k"
    and "256 \<le> unat (x_src X + of_nat k - x_dst X)" and "256 \<le> unat (x_back X + of_nat k - x_dst X)"
proof -
  show "unat (x_dst X + of_nat k - x_dst X) = k" using assms by (simp add: unat_of_nat)
  have s: "x_src X + of_nat k - x_dst X = of_nat k - of_nat (SIZE + 1024)" by (simp add: x_dst_def)
  have "unat (of_nat k :: u64) = k" "unat (of_nat (SIZE + 1024) :: u64) = SIZE + 1024"
    using assms by (simp_all only: unat_of_nat) (simp_all add: SIZE_def)
  then show "256 \<le> unat (x_src X + of_nat k - x_dst X)"
    unfolding s unat_sub_if_size using assms by (simp add: word_size SIZE_def)
  have "x_back X + of_nat k - x_dst X = of_nat (SIZE + 1024 + k)" by (simp add: x_back_def)
  then show "256 \<le> unat (x_back X + of_nat k - x_dst X)"
    using assms by (simp only: unat_of_nat) (simp add: SIZE_def)
qed

text \<open>The buffer \<open>back\<close> holds the byte the window is filled with.\<close>

definition back_ok :: "u64 \<Rightarrow> memory \<times> string list \<Rightarrow> bool" where
  "back_ok X s \<longleftrightarrow> snd s = [] \<and> (\<forall>k<256. fst s (x_back X + of_nat k) = 0xbd)"

lemma window_checked:
  assumes "doff + i \<le> 256" and "soff + i \<le> 256" and "back_ok X (m, out)"
    and "m' = store_bytes (x_dst X + of_nat doff) i img (libc_memset (x_dst X) 0xbd 256 m)"
    and "\<And>k. k < i \<Longrightarrow> img k = m (x_src X + of_nat (soff + k))"
  shows "check_call what m' X (x_src X + of_nat soff) doff i = []" and "back_ok X (m', out)"
    and "k < 256 \<Longrightarrow> m' (x_src X + of_nat k) = m (x_src X + of_nat k)"
proof -
  note cell = window_value [OF assms(1), of "x_dst X" img "0xbd" m]
  have bk: "m' (x_back X + of_nat k) = 0xbd" if "k < 256" for k
    using window_offsets(3) [OF that, of X] assms(1,3) that unfolding assms(4) libc_memset_def cell
    by (simp add: back_ok_def)
  have src: "m' (x_src X + of_nat k) = m (x_src X + of_nat k)" if "k < 256" for k
    using window_offsets(2) [OF that, of X] assms(1) unfolding assms(4) libc_memset_def cell by simp
  show "check_call what m' X (x_src X + of_nat soff) doff i = []"
  proof (rule check_call_silent [where v = "0xbd"])
    show "doff + i \<le> 256" by (rule assms(1))
    show "k < 256 \<Longrightarrow> m' (x_back X + of_nat k) = 0xbd" for k by (rule bk)
  next
    fix k assume k: "k < i"
    then have "m' (x_dst X + of_nat (doff + k)) = img k"
      using window_offsets(1) [of "doff + k" X] assms(1) unfolding assms(4) libc_memset_def cell by simp
    then show "m' (x_dst X + of_nat (doff + k)) = m' (x_src X + of_nat soff + of_nat k)"
      using src [of "soff + k"] k assms(2,5) by (simp add: add.assoc)
  next
    fix k assume "k < doff \<or> doff + i \<le> k" "k < 256"
    then show "m' (x_dst X + of_nat k) = 0xbd"
      using window_offsets(1) [of k X] assms(1) unfolding assms(4) libc_memset_def cell by auto
  qed
  show "back_ok X (m', out)" using bk assms(3) by (simp add: back_ok_def)
  show "k < 256 \<Longrightarrow> m' (x_src X + of_nat k) = m (x_src X + of_nat k)" by (rule src)
qed

definition src_filled :: "u64 \<Rightarrow> memory \<times> string list \<Rightarrow> bool" where
  "src_filled X s \<longleftrightarrow> back_ok X s \<and> (\<forall>k<256. fst s (x_src X + of_nat k) = 0x5a)"

lemma memset_case_silent:
  assumes "doff + i \<le> 256" and "src_filled X s"
  shows "\<exists>s'. memset_case (memset_sb1 be c1) X doff i s = Some s' \<and> src_filled X s'"
proof -
  obtain m out where s: "s = (m, out)" by (cases s)
  let ?m = "store_bytes (x_dst X + of_nat doff) i (\<lambda>j. 0x5a) (libc_memset (x_dst X) 0xbd 256 m)"
  have f: "back_ok X (m, out)" "\<And>k. k < 256 \<Longrightarrow> m (x_src X + of_nat k) = 0x5a" "out = []"
    using assms(2) by (auto simp: s src_filled_def back_ok_def)
  have "unat (of_nat i :: u64) = i" using assms(1) by (simp add: unat_of_nat)
  then have "memset_case (memset_sb1 be c1) X doff i s = Some (?m, out @ check_call ''memset'' ?m X (x_src X) doff i)"
    by (simp add: s memset_case_def memset_sb1_eq Let_def)
  moreover have "check_call ''memset'' ?m X (x_src X) doff i = []" "back_ok X (?m, out)"
    "\<And>k. k < 256 \<Longrightarrow> ?m (x_src X + of_nat k) = m (x_src X + of_nat k)"
    using window_checked [of doff i 0 X m out ?m "\<lambda>j. 0x5a"] assms(1) f(1,2) by auto
  ultimately show ?thesis using f by (auto simp: src_filled_def)
qed

lemma memcpy_case_silent:
  assumes "doff + i \<le> 256" and "soff + i \<le> 256" and "back_ok X s"
  shows "\<exists>s'. memcpy_case (memcpy_sb1 be pass1 r) X soff doff i s = Some s' \<and> back_ok X s'"
proof -
  obtain m out where s: "s = (m, out)" by (cases s)
  let ?w = "libc_memset (x_dst X) 0xbd 256 m" and ?src = "x_src X + of_nat soff" and ?dst = "x_dst X + of_nat doff"
  let ?m = "store_bytes ?dst i (load_bytes ?src ?w) ?w"
  have n: "unat (of_nat i :: u64) = i" using assms(1) by (simp add: unat_of_nat)
  have "?src + of_nat j \<noteq> ?dst + of_nat k" if "j < i" "k < i" for j k
  proof
    assume "?src + of_nat j = ?dst + of_nat k"
    then have "x_src X + of_nat (soff + j) - x_dst X = x_dst X + of_nat (doff + k) - x_dst X" by (simp add: add.assoc)
    then show False
      using window_offsets(1) [of "doff + k" X] window_offsets(2) [of "soff + j" X] assms(1,2) that by simp
  qed
  then have "apart ?dst ?src i" by (simp add: apart_def)
  then have "memcpy_case (memcpy_sb1 be pass1 r) X soff doff i s = Some (?m, out @ check_call ''memcpy'' ?m X ?src doff i)"
    by (simp add: s memcpy_case_def memcpy_sb1_eq n Let_def)
  moreover have "load_bytes ?src ?w k = m (x_src X + of_nat (soff + k))" if "k < i" for k
    using window_offsets(2) [of "soff + k" X] assms(2) that
    by (simp add: load_bytes_def libc_memset_def store_bytes_def add.assoc)
  then have "check_call ''memcpy'' ?m X ?src doff i = []" "back_ok X (?m, out)"
    using window_checked(1,2) [OF assms(1,2) assms(3) [unfolded s], of ?m "load_bytes ?src ?w"] by auto
  moreover have "out = []" using assms(3) by (simp add: s back_ok_def)
  ultimately show ?thesis by auto
qed

lemma back_filled: "back_ok X (libc_memset (x_back X) 0xbd 256 m, [])"
proof -
  have "unat (x_back X + of_nat k - x_back X) = k" if "k < 256" for k
    using that by (simp add: unat_of_nat)
  then show ?thesis by (simp add: back_ok_def libc_memset_def store_bytes_def)
qed

lemma src_filled_init:
  "src_filled X (libc_memset (x_back X) 0xbd 256 (libc_memset (x_dst X) 0xbd 256 (libc_memset (x_src X) 0x5a 256 m)), [])"
proof -
  have "unat (x_src X + of_nat k - x_src X) = k" if "k < 256" for k
    using that by (simp add: unat_of_nat)
  moreover have "\<not> unat (x_src X + of_nat k - x_back X) < 256" if "k < 256" for k
  proof -
    have e: "x_src X + of_nat k - x_back X = of_nat k - of_nat (2 * (SIZE + 1024))" by (simp add: x_dst_def x_back_def)
    have "unat (of_nat k :: u64) = k" "unat (of_nat (2 * (SIZE + 1024)) :: u64) = 2 * (SIZE + 1024)"
      using that by (simp_all only: unat_of_nat) (simp_all add: SIZE_def)
    then show ?thesis unfolding e unat_sub_if_size using that by (simp add: word_size SIZE_def)
  qed
  ultimately show ?thesis
    using window_offsets(2) [of _ X] back_filled
    unfolding src_filled_def by (fastforce simp: libc_memset_def store_bytes_def not_less)
qed

lemma store_uint_back:
  assumes "n < 64" and "back_ok X (m, out)"
  shows "back_ok X (store_uint be (x_src X + of_nat (4 * n)) v m, out)"
proof -
  have "\<not> unat (x_back X + of_nat k - (x_src X + of_nat (4 * n))) < 4" if "k < 256" for k
  proof -
    have "x_back X + of_nat k - (x_src X + of_nat (4 * n)) = of_nat (2 * (SIZE + 1024) + k) - of_nat (4 * n)"
      by (simp add: x_dst_def x_back_def)
    also have "\<dots> = of_nat (2 * (SIZE + 1024) + k - 4 * n)"
      using assms(1) by (subst of_nat_diff) (simp_all add: SIZE_def)
    finally have e: "x_back X + of_nat k - (x_src X + of_nat (4 * n)) = of_nat (2 * (SIZE + 1024) + k - 4 * n)" .
    show ?thesis unfolding e unat_of_nat using assms(1) that by (simp add: SIZE_def)
  qed
  then show ?thesis using assms(2) by (simp add: back_ok_def store_uint_def store_bytes_def)
qed

lemma stores_back:
  "list_all (\<lambda>n. n < 64) ns \<Longrightarrow> back_ok X (m, out) \<Longrightarrow>
   back_ok X (fold (\<lambda>n. store_uint be (x_src X + of_nat (4 * n)) (rnd n)) ns m, out)"
  by (induction ns arbitrary: m) (auto intro: store_uint_back simp del: of_nat_mult)

text \<open>
  C31: The tests accept the routines they were written for: run on the \<open>memset\<close> and the \<open>memcpy\<close> of \<open>sb1-opt\<close>, for every
  offset of the buffers and every length up to the end of the 256 bytes, in either byte order, with any
  workaround or schedule, and whatever \<open>rand\<close> returns, they end without an address error and print nothing.
\<close>

theorem memory_tests_silent:
  "(\<exists>m'. test_memset (memset_sb1 be c1) X m = Some (m', [])) \<and>
   (\<exists>m'. test_memcpy be rnd (memcpy_sb1 be pass1 r) X m = Some (m', []))"
proof
  have s: "\<not> 256 > SIZE" by (simp add: SIZE_def)
  let ?m = "libc_memset (x_back X) 0xbd 256 (libc_memset (x_dst X) 0xbd 256 (libc_memset (x_src X) 0x5a 256 m))"
  have "\<exists>s'. fold_opt (\<lambda>doff. fold_opt (memset_case (memset_sb1 be c1) X doff) [0..<256 - doff + 1]) [0..<16] (?m, []) =
      Some s' \<and> src_filled X s'"
    by (intro fold_opt_inv src_filled_init memset_case_silent) auto
  then show "\<exists>m'. test_memset (memset_sb1 be c1) X m = Some (m', [])"
    using s by (auto simp: test_memset_def Let_def src_filled_def back_ok_def)
next
  have s: "\<not> 256 > SIZE" by (simp add: SIZE_def)
  let ?m = "fold (\<lambda>n. store_uint be (x_src X + of_nat (4 * n)) (rnd n)) [0..<256 div 4]
    (libc_memset (x_back X) 0xbd 256 (libc_memset (x_dst X) 0xbd 256 m))"
  have i: "back_ok X (?m, [])"
    by (intro stores_back back_filled) (auto simp: list_all_iff)
  have "\<exists>s'. fold_opt (\<lambda>soff. fold_opt (\<lambda>doff. let maxoff = (if soff > doff then soff else doff)
      in fold_opt (memcpy_case (memcpy_sb1 be pass1 r) X soff doff) [0..<256 - maxoff + 1]) [0..<16]) [0..<16] (?m, []) =
      Some s' \<and> back_ok X s'"
    unfolding Let_def by (intro fold_opt_inv i memcpy_case_silent) (auto split: if_splits)
  then show "\<exists>m'. test_memcpy be rnd (memcpy_sb1 be pass1 r) X m = Some (m', [])"
    using s by (auto simp: test_memcpy_def Let_def back_ok_def)
qed

end
