(* ===== verification/Csum.thy ===== *)
theory Csum
  imports Prelude "HOL-Library.Monad_Syntax"
begin

text \<open>
  The \<open>csum_partial\<close> of \<open>sb1-opt/csum_partial.S\<close>, the checksum of the Internet protocols. The file is always assembled
  for 32-bit registers, so addresses, lengths and sums are \<open>u32\<close> and memory is indexed by them; there is a function for
  each label, in both byte orders, with the instruction in a delay slot before its branch. A halfword load at an odd
  address raises an address error and makes the result None; so does a loop that does not end. Prefetches are
  left out. The lemmas compare the sums as numbers with the sum of the bytes, modulo 65535.
\<close>

unbundle bit_operations_syntax

section \<open>The routine\<close>

type_synonym memory32 = "u32 \<Rightarrow> u8"

definition lbu :: "memory32 \<Rightarrow> u32 \<Rightarrow> u32" where
  "lbu m a = ucast (m a)"

definition lhu :: "bool \<Rightarrow> memory32 \<Rightarrow> u32 \<Rightarrow> u32 option" where
  "lhu be m a =
     (if a AND 1 = 0
      then Some (if be then push_bit 8 (ucast (m a)) OR ucast (m (a + 1)) else push_bit 8 (ucast (m (a + 1))) OR ucast (m a))
      else None)"

text \<open>\<open>CSUM_UNIT(n)\<close> for each \<open>n\<close> of the list.\<close>

fun csum_units :: "bool \<Rightarrow> memory32 \<Rightarrow> u32 \<Rightarrow> nat list \<Rightarrow> u32 \<times> u32 \<Rightarrow> (u32 \<times> u32) option" where
  "csum_units be m src [] s = Some s"
| "csum_units be m src (n # ns) (sum0, sum1) =
     do {
       t0 \<leftarrow> lhu be m (src + of_nat (4 * n));
       t1 \<leftarrow> lhu be m (src + of_nat (4 * n + 2));
       csum_units be m src ns (sum0 + t0, sum1 + t1)
     }"

lemma unat_minus_2:
  assumes "count \<noteq> 0" and "count \<noteq> 1"
  shows "2 \<le> unat count \<and> unat (count - 2 :: u32) = unat count - 2"
proof -
  have "unat count \<noteq> unat (0 :: u32)" "unat count \<noteq> unat (1 :: u32)"
    using assms unfolding unsigned_word_eqI [symmetric] by (metis word_unat_eq_iff)+
  then have "2 \<le> unat count" by simp
  then show ?thesis by (simp add: unat_sub word_le_nat_alt)
qed

text \<open>The main loop, unrolled twice; \<open>count\<close> is counted down in the delay slots.\<close>

function big_csum :: "bool \<Rightarrow> memory32 \<Rightarrow> u32 \<Rightarrow> u32 \<Rightarrow> u32 \<times> u32 \<Rightarrow> (u32 \<times> u32 \<times> u32) option" where
  "big_csum be m count src s =
     do {
       s \<leftarrow> csum_units be m src [0, 1, 2, 3, 4, 5, 6, 7] s;
       let src = src + 32;
       if count = 0 then Some (src, s)
       else do {
         let count = count - 1;
         s \<leftarrow> csum_units be m src [0, 1, 2, 3, 4, 5, 6, 7] s;
         let src = src + 32;
         if count \<noteq> 0 then big_csum be m (count - 1) src s else Some (src, s)
       }
     }"
  by pat_completeness auto
termination
  by (relation "measure (\<lambda>(be, m, count, src, s). unat count)") (auto dest: unat_minus_2 simp del: csum_units.simps)

partial_function (option) csum_halfwords :: "bool \<Rightarrow> memory32 \<Rightarrow> u32 \<Rightarrow> u32 \<Rightarrow> u32 \<Rightarrow> (u32 \<times> u32) option" where
  "csum_halfwords be m limithw src sum0 =
     do {
       t0 \<leftarrow> lhu be m src;
       let src = src + 2;
       let sum0 = sum0 + t0;
       if src = limithw then Some (src, sum0)
       else do {
         t0 \<leftarrow> lhu be m src;
         let src = src + 2;
         let sum0 = sum0 + t0;
         if src \<noteq> limithw then csum_halfwords be m limithw src sum0 else Some (src, sum0)
       }
     }"

declare csum_halfwords.simps [code]

definition final_swap :: "u32 \<Rightarrow> u32" where
  "final_swap sum0 = (let t1 = drop_bit 8 sum0; t0 = push_bit 24 sum0 in t0 OR t1)"

definition cleanup_byte :: "bool \<Rightarrow> memory32 \<Rightarrow> u32 \<Rightarrow> u32 \<Rightarrow> u32 \<Rightarrow> u32 \<Rightarrow> u32 \<Rightarrow> u32" where
  "cleanup_byte be m byteswap limit src sum0 sum1 =
     (let sum0 = sum0 + sum1
      in if src \<noteq> limit then
           let t0 = lbu m src; t0 = (if be then push_bit 8 t0 else t0); sum0 = sum0 + t0
           in if byteswap = 0 then sum0 else final_swap sum0
         else if byteswap \<noteq> 0 then final_swap sum0 else sum0)"

definition csum_cleanup :: "bool \<Rightarrow> memory32 \<Rightarrow> u32 \<Rightarrow> u32 \<Rightarrow> u32 \<Rightarrow> u32 \<Rightarrow> u32 \<times> u32 \<Rightarrow> u32 option" where
  "csum_cleanup be m byteswap limit limithw src s =
     do {
       let (sum0, sum1) = s;
       (src, sum0) \<leftarrow> (if src = limithw then Some (src, sum0) else csum_halfwords be m limithw src sum0);
       Some (cleanup_byte be m byteswap limit src sum0 sum1)
     }"

text \<open>The label \<open>1\<close>, where the two cases of the address meet.\<close>

definition csum_start :: "bool \<Rightarrow> memory32 \<Rightarrow> u32 \<Rightarrow> u32 \<Rightarrow> u32 \<Rightarrow> u32 \<Rightarrow> u32 \<Rightarrow> u32 \<Rightarrow> u32 option" where
  "csum_start be m byteswap limit src len partial_sum t0 =
     (let sum0 = partial_sum AND 0xffff; sum1 = drop_bit 16 partial_sum; sum0 = sum0 + t0;
          count = drop_bit 5 len; limithw = push_bit 1 (- 1); limithw = limit AND limithw
      in if count = 0 then csum_cleanup be m byteswap limit limithw src (sum0, sum1)
         else do {
           (src, s) \<leftarrow> big_csum be m (count - 1) src (sum0, sum1);
           csum_cleanup be m byteswap limit limithw src s
         })"

definition csum_partial :: "bool \<Rightarrow> memory32 \<Rightarrow> u32 \<Rightarrow> u32 \<Rightarrow> u32 \<Rightarrow> u32 option" where
  "csum_partial be m src len partial_sum =
     (let t0 = 0; byteswap = src AND 1
      in if len = 0 then Some partial_sum
         else
           let limit = src + len
           in if byteswap = 0 then csum_start be m byteswap limit src len partial_sum t0
              else
                let t0 = lbu m src; src = src + 1; t2 = drop_bit 8 partial_sum; t3 = push_bit 24 partial_sum;
                    partial_sum = t2 OR t3; len = len - 1; t0 = (if be then t0 else push_bit 8 t0)
                in csum_start be m byteswap limit src len partial_sum t0)"

declare big_csum.simps [simp del]

section \<open>Sums of halfwords and of bytes\<close>

definition hw :: "bool \<Rightarrow> memory32 \<Rightarrow> u32 \<Rightarrow> nat" where
  "hw be m a = (if be then 256 * unat (m a) + unat (m (a + 1)) else unat (m a) + 256 * unat (m (a + 1)))"

definition halves :: "bool \<Rightarrow> memory32 \<Rightarrow> u32 \<Rightarrow> nat \<Rightarrow> nat" where
  "halves be m a k = (\<Sum>i<k. hw be m (a + of_nat (2 * i)))"

text \<open>The sum of \<open>n\<close> bytes, each in the half of a halfword that its place, counted from \<open>p\<close>, gives it.\<close>

definition byte_sum :: "bool \<Rightarrow> memory32 \<Rightarrow> nat \<Rightarrow> u32 \<Rightarrow> nat \<Rightarrow> nat" where
  "byte_sum be m p a n = (\<Sum>i<n. (if even (p + i) = be then 256 else 1) * unat (m (a + of_nat i)))"

lemma u8_less: "unat (b :: u8) < 256"
  using unsigned_less [of b] by simp

lemma and_1_even: "a AND 1 = 0 \<longleftrightarrow> even a" for a :: u32
  by (simp add: and_one_eq even_iff_mod_2_eq_zero)

lemma hw_less: "hw be m a \<le> 65535"
  using u8_less [of "m a"] u8_less [of "m (a + 1)"] by (auto simp: hw_def)

lemma unat_ucast_byte: "unat (ucast b :: u32) = unat b" for b :: u8
  using u8_less [of b] by (simp add: unsigned_ucast_eq take_bit_nat_eq_self)

lemma two_bytes: "unat (push_bit 8 (ucast x) OR ucast y :: u32) = 256 * unat x + unat y" for x y :: u8
proof -
  have "push_bit 8 (ucast x) OR ucast y = (push_bit 8 (ucast x) + ucast y :: u32)"
    by (rule disjunctive_add [symmetric]) (auto simp: bit_push_bit_iff bit_ucast_iff dest: bit_imp_le_length)
  moreover have "unat (push_bit 8 (ucast x) :: u32) = 256 * unat x"
    using u8_less [of x] by (simp add: push_bit_eq_mult unat_word_ariths unat_ucast_byte)
  ultimately show ?thesis
    using u8_less [of x] u8_less [of y] by (simp add: unat_word_ariths unat_ucast_byte)
qed

lemma lhu_hw: "even a \<Longrightarrow> \<exists>h. lhu be m a = Some h \<and> unat h = hw be m a"
  by (simp add: lhu_def and_1_even hw_def two_bytes)

lemma unat_sum: "unat x + unat y < 2 ^ 32 \<Longrightarrow> unat (x + y) = unat x + unat y" for x y :: u32
  by (simp add: unat_word_ariths)

lemma halves_append: "halves be m a (j + k) = halves be m a j + halves be m (a + of_nat (2 * j)) k"
  by (induction k) (simp_all add: halves_def add.assoc)

lemma halves_Suc: "halves be m a (Suc k) = hw be m a + halves be m (a + 2) k"
  using halves_append [of be m a 1 k] by (simp add: halves_def)

lemma halves_bytes: "halves be m a k = byte_sum be m 0 a (2 * k)"
  by (induction k) (auto simp: halves_def byte_sum_def hw_def add_ac)

section \<open>The loops\<close>

lemma csum_units_sum:
  assumes "even src" and "unat s0 + unat s1 + 65535 * (2 * n) < 2 ^ 32"
  shows "\<exists>s0' s1'. csum_units be m src [j..<j + n] (s0, s1) = Some (s0', s1') \<and>
    unat s0' + unat s1' = unat s0 + unat s1 + halves be m (src + of_nat (4 * j)) (2 * n)"
  using assms(2)
proof (induction n arbitrary: j s0 s1)
  case 0
  then show ?case by (simp add: halves_def)
next
  case (Suc n)
  let ?a = "src + of_nat (4 * j)"
  have e: "even ?a" "even (src + of_nat (4 * j + 2))" "src + of_nat (4 * j + 2) = ?a + 2"
    using assms(1) by (simp_all add: add_ac)
  obtain t0 where t0: "lhu be m ?a = Some t0" "unat t0 = hw be m ?a" using lhu_hw [OF e(1)] by blast
  obtain t1 where t1: "lhu be m (src + of_nat (4 * j + 2)) = Some t1" "unat t1 = hw be m (?a + 2)"
    using lhu_hw [OF e(2)] e(3) by metis
  have b: "hw be m ?a \<le> 65535" "hw be m (?a + 2) \<le> 65535" by (rule hw_less)+
  have s: "unat (s0 + t0) = unat s0 + hw be m ?a" "unat (s1 + t1) = unat s1 + hw be m (?a + 2)"
    using Suc.prems b t0(2) t1(2) by (subst unat_sum; simp)+
  obtain s0' s1' where r: "csum_units be m src [Suc j..<Suc j + n] (s0 + t0, s1 + t1) = Some (s0', s1')"
    "unat s0' + unat s1' = unat (s0 + t0) + unat (s1 + t1) + halves be m (src + of_nat (4 * Suc j)) (2 * n)"
    using Suc.IH [of "s0 + t0" "s1 + t1" "Suc j"] Suc.prems b s by auto
  have l: "[j..<j + Suc n] = j # [Suc j..<Suc j + n]" by (simp add: upt_rec)
  have "src + of_nat (4 * Suc j) = ?a + 2 + 2" by (simp add: algebra_simps)
  then have "halves be m ?a (2 * Suc n) = hw be m ?a + hw be m (?a + 2) + halves be m (src + of_nat (4 * Suc j)) (2 * n)"
    by (simp add: halves_Suc add_ac del: of_nat_mult of_nat_Suc)
  then show ?case using r s t0(1) t1(1) unfolding l by simp
qed

lemma upt_eight: "[0, 1, 2, 3, 4, 5, 6, 7] = [0..<0 + 8 :: nat]"
  by (simp add: upt_rec)

lemma big_csum_sum:
  assumes "even src" and "unat s0 + unat s1 + 65535 * (16 * Suc (unat count)) < 2 ^ 32"
  shows "\<exists>s0' s1'. big_csum be m count src (s0, s1) = Some (src + 32 * of_nat (Suc (unat count)), s0', s1') \<and>
    unat s0' + unat s1' = unat s0 + unat s1 + halves be m src (16 * Suc (unat count))"
  using assms
proof (induction "unat count" arbitrary: count src s0 s1 rule: less_induct)
  case less
  have blk: "\<exists>s0' s1'. csum_units be m a [0, 1, 2, 3, 4, 5, 6, 7] (x0, x1) = Some (s0', s1') \<and>
      unat s0' + unat s1' = unat x0 + unat x1 + halves be m a 16"
    if "even a" "unat x0 + unat x1 + 65535 * 16 < 2 ^ 32" for a x0 x1
    using csum_units_sum [of a x0 x1 8 be m 0] that unfolding upt_eight by simp
  note csum_units.simps [simp del]
  have h: "halves be m a 16 \<le> 65535 * 16" for a
    unfolding halves_def using sum_bounded_above [of "{..<16}" "\<lambda>i. hw be m (a + of_nat (2 * i))" 65535] hw_less by simp
  obtain a0 a1 where a: "csum_units be m src [0, 1, 2, 3, 4, 5, 6, 7] (s0, s1) = Some (a0, a1)"
    "unat a0 + unat a1 = unat s0 + unat s1 + halves be m src 16"
    using blk [of src s0 s1] less.prems by auto
  show ?case
  proof (cases "count = 0")
    case True
    then show ?thesis using a by (simp add: big_csum.simps)
  next
    case False
    then have c: "unat (count - 1) = unat count - 1" "unat count \<noteq> 0" by (auto simp: unat_minus_one unat_eq_zero)
    obtain b0 b1 where b: "csum_units be m (src + 32) [0, 1, 2, 3, 4, 5, 6, 7] (a0, a1) = Some (b0, b1)"
      "unat b0 + unat b1 = unat a0 + unat a1 + halves be m (src + 32) 16"
      using blk [of "src + 32" a0 a1] less.prems a(2) c(2) h [of src] by auto
    have two: "halves be m src 32 = halves be m src 16 + halves be m (src + 32) 16"
      using halves_append [of be m src 16 16] by simp
    show ?thesis
    proof (cases "count = 1")
      case True
      then show ?thesis using a b two by (simp add: big_csum.simps add.assoc)
    next
      case False
      with \<open>count \<noteq> 0\<close> have d: "2 \<le> unat count" "unat (count - 2) = unat count - 2" using unat_minus_2 by auto
      have "unat b0 + unat b1 + 65535 * (16 * Suc (unat (count - 2))) < 2 ^ 32"
        using less.prems(2) a(2) b(2) h [of src] h [of "src + 32"] d by simp
      then obtain r0 r1 where r: "big_csum be m (count - 2) (src + 64) (b0, b1) =
          Some (src + 64 + 32 * of_nat (Suc (unat (count - 2))), r0, r1)"
        "unat r0 + unat r1 = unat b0 + unat b1 + halves be m (src + 64) (16 * Suc (unat (count - 2)))"
        using less.hyps [of "count - 2" "src + 64" b0 b1] less.prems(1) d by auto
      have n: "Suc (unat count) = 2 + Suc (unat (count - 2))" using d by simp
      have "halves be m src (16 * Suc (unat count)) = halves be m src 32 + halves be m (src + 64) (16 * Suc (unat (count - 2)))"
        using halves_append [of be m src 32 "16 * Suc (unat (count - 2))"] unfolding n by simp
      moreover have "src + 32 * of_nat (Suc (unat count)) = src + 64 + 32 * of_nat (Suc (unat (count - 2)))"
        unfolding n by (simp add: algebra_simps)
      moreover have "big_csum be m count src (s0, s1) = big_csum be m (count - 2) (src + 64) (b0, b1)"
        using \<open>count \<noteq> 0\<close> False a(1) b(1) by (subst big_csum.simps) (simp add: add.assoc)
      ultimately show ?thesis using r a(2) b(2) two by simp
    qed
  qed
qed

lemma of_nat_eq32: "i < 2 ^ 32 \<Longrightarrow> j < 2 ^ 32 \<Longrightarrow> (of_nat i :: u32) = of_nat j \<longleftrightarrow> i = j"
  by (simp add: word_of_nat_eq_iff take_bit_nat_eq_self)

lemma csum_halfwords_sum:
  assumes "even src" and "0 < k" and "2 * k < 2 ^ 32" and "unat sum0 + 65535 * k < 2 ^ 32"
  shows "\<exists>s'. csum_halfwords be m (src + of_nat (2 * k)) src sum0 = Some (src + of_nat (2 * k), s') \<and>
    unat s' = unat sum0 + halves be m src k"
  using assms
proof (induction k arbitrary: src sum0 rule: less_induct)
  case (less k)
  obtain t where t: "lhu be m src = Some t" "unat t = hw be m src" using lhu_hw [OF less.prems(1)] by blast
  obtain u where u: "lhu be m (src + 2) = Some u" "unat u = hw be m (src + 2)"
    using lhu_hw [of "src + 2"] less.prems(1) by auto
  have b: "hw be m src \<le> 65535" "hw be m (src + 2) \<le> 65535" by (rule hw_less)+
  have at: "src + of_nat (2 * j) = src + of_nat (2 * k) \<longleftrightarrow> j = k" if "j \<le> k" for j
    using of_nat_eq32 [of "2 * j" "2 * k"] less.prems(3) that by (simp del: of_nat_mult)
  have st: "unat (sum0 + t) = unat sum0 + hw be m src"
    using less.prems(2,4) t(2) b by (subst unat_sum) auto
  consider "k = 1" | "k = 2" | "2 < k" using less.prems(2) by linarith
  then show ?case
  proof cases
    case 1
    then show ?thesis using t(1) st by (subst csum_halfwords.simps) (simp add: halves_def)
  next
    case 2
    have "unat (sum0 + t + u) = unat sum0 + hw be m src + hw be m (src + 2)"
      using less.prems(4) 2 u(2) b st by (subst unat_sum) auto
    moreover have "src + 2 \<noteq> src + 4" by simp
    ultimately show ?thesis using t(1) u(1) 2 by (subst csum_halfwords.simps) (simp add: halves_def numeral_2_eq_2)
  next
    case 3
    have su: "unat (sum0 + t + u) = unat sum0 + hw be m src + hw be m (src + 2)"
      using less.prems(4) 3 u(2) b st by (subst unat_sum) auto
    have lim: "src + of_nat (2 * k) = src + 4 + of_nat (2 * (k - 2))"
      using 3 by (simp add: of_nat_diff algebra_simps)
    have n: "src + 2 \<noteq> src + of_nat (2 * k)" "src + 4 \<noteq> src + of_nat (2 * k)"
      using at [of 1] at [of 2] 3 by simp_all
    have i: "\<exists>s'. csum_halfwords be m (src + 4 + of_nat (2 * (k - 2))) (src + 4) (sum0 + t + u) =
        Some (src + 4 + of_nat (2 * (k - 2)), s') \<and> unat s' = unat (sum0 + t + u) + halves be m (src + 4) (k - 2)"
      by (rule less.IH) (use 3 less.prems su b in auto)
    have "halves be m src k = hw be m src + hw be m (src + 2) + halves be m (src + 4) (k - 2)"
      using halves_Suc [of be m src "Suc (k - 2)"] halves_Suc [of be m "src + 2" "k - 2"] 3
      by (simp add: Suc_diff_Suc numeral_2_eq_2 add.assoc)
    then show ?thesis
      using i t(1) u(1) n su unfolding lim
      by (subst csum_halfwords.simps) (auto simp: add.assoc simp del: of_nat_mult)
  qed
qed

section \<open>The rest of the buffer\<close>

lemma and_even:
  assumes "even a"
  shows "(a + of_nat n) AND push_bit 1 (- 1) = (a + of_nat (2 * (n div 2)) :: u32)"
proof -
  have e: "b AND push_bit 1 (- 1) = b" if "even b" for b :: u32
  proof -
    have p: "0 < i" if "bit b i" for i using that \<open>even b\<close> by (cases i) (simp_all add: bit_0)
    show ?thesis
    proof (rule word_bit_ext)
      fix i show "bit (b AND push_bit 1 (- 1)) i = bit b i" if "i < LENGTH(32)"
        using p [of i] that by (auto simp: bitwise Suc_le_eq)
    qed
  qed
  have o: "(b + 1) AND push_bit 1 (- 1) = b" if "even b" for b :: u32
  proof -
    have "b + 1 = b OR 1"
      using that by (intro disjunctive_add) (metis bit_0 bit_1_iff)
    then show ?thesis using e [OF that] by (simp add: bit.conj_disj_distrib2)
  qed
  show ?thesis
  proof (cases "even n")
    case True
    then show ?thesis using e [of "a + of_nat n"] assms by simp
  next
    case False
    then have "n = 2 * (n div 2) + 1" by simp
    then have "a + of_nat n = a + of_nat (2 * (n div 2)) + 1" by (metis of_nat_1 of_nat_add add.assoc)
    then show ?thesis using o [of "a + of_nat (2 * (n div 2))"] assms by (simp add: add.assoc)
  qed
qed

lemma halves_le: "halves be m a k \<le> 65535 * k"
  unfolding halves_def
  using sum_bounded_above [of "{..<k}" "\<lambda>i. hw be m (a + of_nat (2 * i))" 65535] hw_less by (simp add: mult.commute)

lemma csum_cleanup_sum:
  assumes "even src" and "n < 2 ^ 32" and "unat s0 + unat s1 + 65535 * (n div 2) + 65280 < 2 ^ 32"
  shows "\<exists>r. csum_cleanup be m byteswap (src + of_nat n) ((src + of_nat n) AND push_bit 1 (- 1)) src (s0, s1) =
      Some (if byteswap = 0 then r else final_swap r) \<and>
    unat r = unat s0 + unat s1 + byte_sum be m 0 src n"
proof -
  let ?k = "n div 2" and ?lim = "src + of_nat (2 * (n div 2))"
  obtain s' where s': "(if src = ?lim then Some (src, s0) else csum_halfwords be m ?lim src s0) = Some (?lim, s')"
    "unat s' = unat s0 + halves be m src ?k"
  proof (cases "?k = 0")
    case False
    have "2 * ?k < 2 ^ 32" using assms(2) by linarith
    then have "src \<noteq> ?lim"
      using of_nat_eq32 [of 0 "2 * ?k"] False by (auto simp del: of_nat_mult)
    moreover obtain s' where "csum_halfwords be m ?lim src s0 = Some (?lim, s')" "unat s' = unat s0 + halves be m src ?k"
      using csum_halfwords_sum [OF assms(1), of ?k s0 be m] False assms(3) \<open>2 * ?k < 2 ^ 32\<close> by auto
    ultimately show ?thesis using that by simp
  qed (use that in \<open>simp add: halves_def\<close>)
  have t: "unat (s' + s1) = unat s0 + unat s1 + halves be m src ?k"
    using assms(3) s'(2) halves_le [of be m src ?k] by (subst unat_sum) auto
  show ?thesis
  proof (cases "even n")
    case True
    then have "?lim = src + of_nat n" "halves be m src ?k = byte_sum be m 0 src n" by (simp_all add: halves_bytes)
    then show ?thesis
      using s' t and_even [OF assms(1), of n] by (auto simp: csum_cleanup_def cleanup_byte_def Let_def)
  next
    case False
    then have n: "n = Suc (2 * ?k)" by simp
    let ?b = "m ?lim"
    let ?t = "if be then push_bit 8 (lbu m ?lim) else lbu m ?lim"
    have l: "?lim \<noteq> src + of_nat n"
      using n by (metis add_left_cancel of_nat_Suc add_cancel_left_left zero_neq_one)
    have tb: "unat ?t = (if be then 256 else 1) * unat ?b"
      using two_bytes [of ?b 0] unat_ucast_byte [of ?b] by (simp add: lbu_def)
    have "byte_sum be m 0 src n = byte_sum be m 0 src (2 * ?k) + (if be then 256 else 1) * unat ?b"
      by (subst n) (simp add: byte_sum_def)
    moreover have "unat (s' + s1 + ?t) = unat s0 + unat s1 + halves be m src ?k + unat ?t"
      using assms(3) t tb u8_less [of ?b] halves_le [of be m src ?k] by (subst unat_sum) auto
    ultimately show ?thesis
      using s' l tb and_even [OF assms(1), of n] by (auto simp: csum_cleanup_def cleanup_byte_def Let_def halves_bytes)
  qed
qed

section \<open>Rotations modulo 65535\<close>

lemma rotate_unat: "unat (final_swap x) = unat x div 256 + unat x mod 256 * 2 ^ 24"
proof -
  have "push_bit 24 x OR drop_bit 8 x = push_bit 24 x + drop_bit 8 x"
    by (rule disjunctive_add [symmetric]) (auto simp: bit_push_bit_iff bit_drop_bit_eq dest: bit_imp_le_length)
  moreover have "unat (push_bit 24 x) = unat x mod 256 * 2 ^ 24"
    using mult_mod_left [of "unat x" 256 "2 ^ 24"] by (simp add: push_bit_eq_mult unat_word_ariths mult.commute)
  moreover have "unat (drop_bit 8 x) = unat x div 256" by (simp add: unat_drop_bit_eq drop_bit_eq_div [where 'a = nat])
  moreover have "unat x div 256 < 2 ^ 24" using unsigned_less [where 'a = nat and w = x] by simp
  moreover have "unat x mod 256 * 2 ^ 24 \<le> 255 * 2 ^ 24" by simp
  ultimately show ?thesis by (simp add: final_swap_def unat_word_ariths)
qed

text \<open>A rotation by 8 exchanges the bytes of both halfwords, which multiplies by 256; twice is nothing.\<close>

lemma rotate_mod: "(256 * unat (final_swap x)) mod 65535 = unat x mod 65535"
proof -
  have "256 * unat (final_swap x) = unat x + 65535 * (65537 * (unat x mod 256))"
    unfolding rotate_unat using div_mult_mod_eq [of "unat x" 256] by (simp add: algebra_simps)
  then show ?thesis by (simp only: mod_mult_self2)
qed

lemma twice_mod: "(256 * (256 * a)) mod 65535 = a mod (65535 :: nat)"
proof -
  have "256 * (256 * a) = a + 65535 * a" by simp
  then show ?thesis by (simp only: mod_mult_self2)
qed

lemma cancel_256: "(256 * a) mod 65535 = (256 * b) mod (65535 :: nat) \<Longrightarrow> a mod 65535 = b mod 65535"
  using mod_mult_cong [OF refl, of "256 * a" 65535 "256 * b" 256] by (simp only: twice_mod)

lemma swap_mod: "unat (final_swap x) mod 65535 = (256 * unat x) mod 65535"
  by (rule cancel_256) (simp only: rotate_mod twice_mod)

lemma halves_of_word: "(unat x mod 65536 + unat x div 65536) mod 65535 = unat x mod (65535 :: nat)"
proof -
  have "unat x = unat x mod 65536 + unat x div 65536 + 65535 * (unat x div 65536)"
    using div_mult_mod_eq [of "unat x" 65536] by simp
  then show ?thesis by (metis mod_mult_self2)
qed

lemma byte_sum_Suc: "byte_sum be m p a (Suc n) = (if even p = be then 256 else 1) * unat (m a) + byte_sum be m (Suc p) (a + 1) n"
  unfolding byte_sum_def by (subst sum.lessThan_Suc_shift) (simp add: add_ac)

lemma byte_sum_append:
  "byte_sum be m p a (j + n) = byte_sum be m p a j + byte_sum be m (p + j) (a + of_nat j) n"
  by (induction n) (simp_all add: byte_sum_def add.assoc del: even_add)

lemma byte_sum_even: "even j \<Longrightarrow> byte_sum be m (p + j) a n = byte_sum be m p a n"
  by (simp add: byte_sum_def)

text \<open>Counting the places from one on exchanges the halves.\<close>

lemma byte_sum_swap: "(256 * byte_sum be m p a n) mod 65535 = byte_sum be m (Suc p) a n mod 65535"
proof (induction n)
  case (Suc n)
  have "(256 * ((if even (p + n) = be then 256 else 1) * u)) mod 65535 =
      ((if even (Suc p + n) = be then 256 else 1) * u) mod (65535 :: nat)" for u
    using twice_mod [of u] by auto
  from mod_add_cong [OF Suc this, of "unat (m (a + of_nat n))"] show ?case
    unfolding byte_sum_def sum.lessThan_Suc distrib_left .
qed (simp add: byte_sum_def)

section \<open>The checksum\<close>

lemma start_bound:
  "a < 65536 \<Longrightarrow> t \<le> 65280 \<Longrightarrow> b < 65536 \<Longrightarrow> 65535 * (4 + k) < 2 ^ 32 \<Longrightarrow> a + t + b + 65535 * k + 65280 < (2 ^ 32 :: nat)"
  by simp

lemma csum_start_sum:
  assumes "even src" and "n < 2 ^ 32" and "unat t \<le> 65280" and "65535 * (4 + n div 2) < 2 ^ 32"
  shows "\<exists>r. csum_start be m byteswap (src + of_nat n) src (of_nat n) p t = Some (if byteswap = 0 then r else final_swap r) \<and>
    unat r = unat p mod 65536 + unat p div 65536 + unat t + byte_sum be m 0 src n"
proof -
  let ?s0 = "(p AND 0xffff) + t" and ?s1 = "drop_bit 16 p" and ?count = "drop_bit 5 (of_nat n) :: u32"
  have c: "unat ?count = n div 32"
    using assms(2) by (simp add: unat_drop_bit_eq drop_bit_eq_div [where 'a = nat] unat_of_nat)
  have f: "p AND 0xffff = take_bit 16 p" by (simp add: take_bit_eq_mask mask_eq_exp_minus_1)
  have l: "unat (p AND 0xffff) = unat p mod 65536"
    unfolding f by (simp only: unsigned_take_bit_eq) (simp add: take_bit_eq_mod)
  have s0: "unat ?s0 = unat p mod 65536 + unat t"
    using assms(3) l by (subst unat_sum) auto
  have s1: "unat ?s1 = unat p div 65536"
    by (simp add: unat_drop_bit_eq drop_bit_eq_div [where 'a = nat])
  have p: "unat p div 65536 < 65536" using unsigned_less [where 'a = nat and w = p] by simp
  have b: "unat ?s0 + unat ?s1 + 65535 * (n div 2) + 65280 < 2 ^ 32"
    unfolding s0 s1 by (rule start_bound [OF _ assms(3) p assms(4)]) simp
  show ?thesis
  proof (cases "?count = 0")
    case True
    then show ?thesis
      using csum_cleanup_sum [OF assms(1,2) b, of be m byteswap] s0 s1 by (auto simp: csum_start_def Let_def)
  next
    case False
    then have d: "Suc (unat (?count - 1)) = n div 32" using c by (simp add: unat_minus_one unat_eq_zero [symmetric])
    let ?k = "16 * (n div 32)" and ?a = "src + 32 * of_nat (n div 32)"
    have k: "2 * ?k \<le> n" by simp
    have room: "unat ?s0 + unat ?s1 + 65535 * (16 * (n div 32)) < 2 ^ 32"
    proof -
      have "16 * (n div 32) \<le> n div 2" by simp
      then have "65535 * (16 * (n div 32)) \<le> 65535 * (n div 2)" by (rule mult_le_mono2)
      then show ?thesis using b by linarith
    qed
    obtain a0 a1 where a: "big_csum be m (?count - 1) src (?s0, ?s1) = Some (?a, a0, a1)"
      "unat a0 + unat a1 = unat ?s0 + unat ?s1 + halves be m src ?k"
      using big_csum_sum [OF assms(1), of ?s0 ?s1 "?count - 1" be m] room unfolding d by auto
    have lim: "src + of_nat n = ?a + of_nat (n - 2 * ?k)"
      using k by (simp add: of_nat_diff)
    have "unat a0 + unat a1 + 65535 * ((n - 2 * ?k) div 2) + 65280 < 2 ^ 32"
    proof -
      have "n div 2 = (2 * ?k + (n - 2 * ?k)) div 2" using k by simp
      also have "\<dots> = ?k + (n - 2 * ?k) div 2" by (simp add: div_mult_self4 [symmetric] del: div_mult_self4)
      finally have "65535 * (n div 2) = 65535 * ?k + 65535 * ((n - 2 * ?k) div 2)" by (simp only: distrib_left)
      then show ?thesis using b a(2) halves_le [of be m src ?k] by linarith
    qed
    then obtain r where r: "csum_cleanup be m byteswap (src + of_nat n) ((src + of_nat n) AND push_bit 1 (- 1)) ?a (a0, a1) =
        Some (if byteswap = 0 then r else final_swap r)"
      "unat r = unat a0 + unat a1 + byte_sum be m 0 ?a (n - 2 * ?k)"
      using csum_cleanup_sum [of ?a "n - 2 * ?k" a0 a1 be m byteswap] assms(1) less_imp_diff_less [OF assms(2)]
      unfolding lim by auto
    have "byte_sum be m 0 src n = halves be m src ?k + byte_sum be m 0 ?a (n - 2 * ?k)"
      using byte_sum_append [of be m 0 src "2 * ?k" "n - 2 * ?k"] byte_sum_even [of "2 * ?k" be m 0] k
      by (simp add: halves_bytes)
    then show ?thesis using False a r s0 s1 by (auto simp: csum_start_def Let_def)
  qed
qed

lemma csum_partial_even:
  assumes "unat len \<le> 131066" and "len \<noteq> 0" and "even src"
  shows "\<exists>r. csum_partial be m src len partial_sum = Some r \<and>
    unat r mod 65535 = (unat partial_sum + byte_sum be m 0 src (unat len)) mod 65535"
proof -
  have "unat len < 2 ^ 32" "65535 * (4 + unat len div 2) < 2 ^ 32" using assms(1) by auto
  moreover have "csum_partial be m src len partial_sum = csum_start be m 0 (src + len) src len partial_sum 0"
    using assms(2,3) by (simp add: csum_partial_def Let_def and_1_even [THEN iffD2])
  ultimately obtain r where r: "csum_partial be m src len partial_sum = Some r"
    "unat r = unat partial_sum mod 65536 + unat partial_sum div 65536 + byte_sum be m 0 src (unat len)"
    using csum_start_sum [OF assms(3), of "unat len" 0 be m 0 partial_sum] by auto
  have "unat r mod 65535 = (unat partial_sum + byte_sum be m 0 src (unat len)) mod 65535"
    unfolding r(2) by (rule mod_add_cong [OF halves_of_word refl])
  then show ?thesis using r(1) by blast
qed

lemma csum_partial_odd:
  assumes "unat len \<le> 131066" and "len \<noteq> 0" and "odd src"
  shows "\<exists>r. csum_partial be m src len partial_sum = Some r \<and>
    unat r mod 65535 = (unat partial_sum + byte_sum be m 0 src (unat len)) mod 65535"
proof -
  let ?n = "unat (len - 1)" and ?b = "lbu m src"
  let ?t = "if be then ?b else push_bit 8 ?b"
  have n: "unat len = Suc ?n" using assms(2) by (simp add: unat_minus_one unat_eq_zero [symmetric])
  have e: "even (src + 1)" using assms(3) by simp
  have i: "src AND 1 \<noteq> 0" using assms(3) by (simp add: and_1_even)
  have t: "unat ?t = (if be then 1 else 256) * unat (m src)"
    using two_bytes [of "m src" 0] by (simp add: lbu_def unat_ucast_byte)
  then have "unat ?t \<le> 65280" using u8_less [of "m src"] by auto
  moreover have "?n < 2 ^ 32" "65535 * (4 + ?n div 2) < 2 ^ 32" using assms(1) n by auto
  moreover have "src + len = src + 1 + of_nat ?n" by simp
  then have "csum_partial be m src len partial_sum =
      csum_start be m (src AND 1) (src + 1 + of_nat ?n) (src + 1) (of_nat ?n) (final_swap partial_sum) ?t"
    using assms(2) i by (simp add: csum_partial_def Let_def final_swap_def or.commute [of "push_bit 24 partial_sum"])
  ultimately obtain r where r: "csum_partial be m src len partial_sum = Some (final_swap r)"
    "unat r = unat (final_swap partial_sum) mod 65536 + unat (final_swap partial_sum) div 65536 + unat ?t +
      byte_sum be m 0 (src + 1) ?n"
    using csum_start_sum [OF e, of ?n ?t be m "src AND 1" "final_swap partial_sum"] i by auto
  have "unat (final_swap r) mod 65535 = (256 * unat r) mod 65535" by (rule swap_mod)
  also have "\<dots> = (256 * (unat (final_swap partial_sum) mod 65536 + unat (final_swap partial_sum) div 65536) +
      256 * unat ?t + 256 * byte_sum be m 0 (src + 1) ?n) mod 65535"
    unfolding r(2) by (simp add: distrib_left)
  also have "\<dots> = (unat partial_sum + (if be then 256 else 1) * unat (m src) + byte_sum be m 1 (src + 1) ?n) mod 65535"
  proof (intro mod_add_cong)
    show "(256 * (unat (final_swap partial_sum) mod 65536 + unat (final_swap partial_sum) div 65536)) mod 65535 =
        unat partial_sum mod 65535"
      by (subst mod_mult_right_eq [symmetric], subst halves_of_word, subst mod_mult_right_eq) (rule rotate_mod)
    show "(256 * unat ?t) mod 65535 = ((if be then 256 else 1) * unat (m src)) mod 65535"
      unfolding t using twice_mod [of "unat (m src)"] by simp
    show "(256 * byte_sum be m 0 (src + 1) ?n) mod 65535 = byte_sum be m 1 (src + 1) ?n mod 65535"
      using byte_sum_swap [of be m 0] by simp
  qed
  also have "\<dots> = (unat partial_sum + byte_sum be m 0 src (unat len)) mod 65535"
    unfolding n byte_sum_Suc by (simp add: add.assoc)
  finally show ?thesis using r(1) by blast
qed

text \<open>
  C33: \<open>csum_partial\<close> of a buffer of up to 131066 bytes, at an even or an odd address, in either byte order, returns without an
  address error a sum that is congruent, modulo 65535, to \<open>partial_sum\<close> plus the sum of the buffer's 16-bit
  words, the last one padded with a zero byte: what the Internet checksum folds the result to.
\<close>

theorem csum_partial_correct:
  assumes "unat len \<le> 131066"
  shows "\<exists>r. csum_partial be m src len partial_sum = Some r \<and>
    unat r mod 65535 = (unat partial_sum + byte_sum be m 0 src (unat len)) mod 65535"
proof (cases "len = 0")
  case True
  then show ?thesis by (simp add: csum_partial_def byte_sum_def)
next
  case False
  then show ?thesis by (cases "even src") (rule csum_partial_even [OF assms], assumption+, rule csum_partial_odd [OF assms])
qed

text \<open>Five bytes at an odd address, on a machine of each byte order.\<close>

theorem csum_partial_correct_witness:
  "(\<exists>r. csum_partial True (\<lambda>a. ucast a) 0x1001 5 0x30000 = Some r \<and> unat r mod 65535 = 0x909) \<and>
   (\<exists>r. csum_partial False (\<lambda>a. ucast a) 0x1001 5 0x30000 = Some r \<and> unat r mod 65535 = 0x060c)"
  using csum_partial_correct [of 5 True "\<lambda>a. ucast a" "0x1001" "0x30000"]
    csum_partial_correct [of 5 False "\<lambda>a. ucast a" "0x1001" "0x30000"]
  by (simp add: byte_sum_def lessThan_nat_numeral lessThan_Suc)

end
