(* ===== verification/CsumCopy.thy ===== *)
theory CsumCopy
  imports Csum
begin

text \<open>
  The \<open>csum_partial_copy_user\<close> of \<open>sb1-opt/csum_partial.S\<close>: it copies a buffer and computes its checksum, and an access
  to user memory that faults goes on at the handler the exception table names for the instruction. There is a
  function for each label and for the body of each loop, in both byte orders, in the 32-bit expansion, with the
  instruction in a delay slot before its branch. What is readable and writable is a parameter. An access that is
  not in the exception table and faults, or is not aligned, makes the result None, and so would a loop that does not
  end. Prefetches are left out.
\<close>

unbundle bit_operations_syntax

section \<open>Words in memory\<close>

text \<open>
  The bytes of a register in the order of memory and a word made of bytes in that order; \<open>LDFIRST\<close>, \<open>LDREST\<close>,
  \<open>STFIRST\<close> and \<open>STREST\<close> access the bytes up to the next and from the last word boundary.
\<close>

definition word_byte :: "bool \<Rightarrow> u32 \<Rightarrow> nat \<Rightarrow> u8" where
  "word_byte be v j = ucast (drop_bit (8 * (if be then 3 - j else j)) v)"

definition of_word_bytes :: "bool \<Rightarrow> (nat \<Rightarrow> u8) \<Rightarrow> u32" where
  "of_word_bytes be f =
     (if be then push_bit 24 (ucast (f 0)) OR push_bit 16 (ucast (f 1)) OR push_bit 8 (ucast (f 2)) OR ucast (f 3)
      else push_bit 24 (ucast (f 3)) OR push_bit 16 (ucast (f 2)) OR push_bit 8 (ucast (f 1)) OR ucast (f 0))"

definition store32 :: "u32 \<Rightarrow> nat \<Rightarrow> (nat \<Rightarrow> u8) \<Rightarrow> memory32 \<Rightarrow> memory32" where
  "store32 d n img m = (\<lambda>a. if unat (a - d) < n then img (unat (a - d)) else m a)"

definition lw :: "bool \<Rightarrow> memory32 \<Rightarrow> u32 \<Rightarrow> u32" where
  "lw be m a = of_word_bytes be (\<lambda>j. m (a + of_nat j))"

definition ldfirst :: "bool \<Rightarrow> memory32 \<Rightarrow> u32 \<Rightarrow> u32 \<Rightarrow> u32" where
  "ldfirst be m r a = of_word_bytes be (\<lambda>j. if j < 4 - unat (a AND 3) then m (a + of_nat j) else word_byte be r j)"

definition ldrest :: "bool \<Rightarrow> memory32 \<Rightarrow> u32 \<Rightarrow> u32 \<Rightarrow> u32" where
  "ldrest be m r a = of_word_bytes be (\<lambda>j. if 3 - j \<le> unat (a AND 3) then m (a - of_nat (3 - j)) else word_byte be r j)"

definition stfirst :: "bool \<Rightarrow> u32 \<Rightarrow> u32 \<Rightarrow> memory32 \<Rightarrow> memory32" where
  "stfirst be v a m = store32 a (4 - unat (a AND 3)) (word_byte be v) m"

definition strest :: "bool \<Rightarrow> u32 \<Rightarrow> u32 \<Rightarrow> memory32 \<Rightarrow> memory32" where
  "strest be v a m = (let n = unat (a AND 3) in store32 (a - of_nat n) (n + 1) (\<lambda>i. word_byte be v (3 - n + i)) m)"

section \<open>Accesses with a handler\<close>

text \<open>
  The environment of a call: the byte order, the readable and the writable addresses, \<open>err_ptr\<close>, and what the
  registers hold into which the first half of an unaligned load is merged.
\<close>

record csum_env =
  big_endian :: bool
  readable :: "u32 \<Rightarrow> bool"
  writable :: "u32 \<Rightarrow> bool"
  err_ptr :: u32
  old_reg :: u32

text \<open>The registers that the handlers use: \<open>src\<close>, \<open>dst\<close>, \<open>len\<close>, \<open>sum0\<close>; and memory.\<close>

type_synonym exc_regs = "u32 \<times> u32 \<times> u32 \<times> u32 \<times> memory32"

datatype csum_exc = Oops | L_exc exc_regs | L_exc_copy exc_regs | S_exc exc_regs

type_synonym 'a access = "csum_exc + 'a"

definition EXC_LOAD :: "csum_env \<Rightarrow> (exc_regs \<Rightarrow> csum_exc) \<Rightarrow> exc_regs \<Rightarrow> u32 \<Rightarrow> (u32 \<Rightarrow> 'a access) \<Rightarrow> 'a access" where
  "EXC_LOAD E h x a k =
     (let (src, dst, len, sum0, m) = x
      in if a AND 3 \<noteq> 0 then Inl Oops
         else if \<forall>j<4. readable E (a + of_nat j) then k (lw (big_endian E) m a) else Inl (h x))"

definition EXC_LBU :: "csum_env \<Rightarrow> (exc_regs \<Rightarrow> csum_exc) \<Rightarrow> exc_regs \<Rightarrow> u32 \<Rightarrow> (u32 \<Rightarrow> 'a access) \<Rightarrow> 'a access" where
  "EXC_LBU E h x a k =
     (let (src, dst, len, sum0, m) = x in if readable E a then k (lbu m a) else Inl (h x))"

definition EXC_LDFIRST ::
  "csum_env \<Rightarrow> (exc_regs \<Rightarrow> csum_exc) \<Rightarrow> exc_regs \<Rightarrow> u32 \<Rightarrow> (u32 \<Rightarrow> 'a access) \<Rightarrow> 'a access" where
  "EXC_LDFIRST E h x a k =
     (let (src, dst, len, sum0, m) = x
      in if \<forall>j < 4 - unat (a AND 3). readable E (a + of_nat j) then k (ldfirst (big_endian E) m (old_reg E) a)
         else Inl (h x))"

definition EXC_LDREST ::
  "csum_env \<Rightarrow> (exc_regs \<Rightarrow> csum_exc) \<Rightarrow> exc_regs \<Rightarrow> u32 \<Rightarrow> u32 \<Rightarrow> (u32 \<Rightarrow> 'a access) \<Rightarrow> 'a access" where
  "EXC_LDREST E h x t a k =
     (let (src, dst, len, sum0, m) = x
      in if \<forall>j \<le> unat (a AND 3). readable E (a - of_nat j) then k (ldrest (big_endian E) m t a) else Inl (h x))"

definition EXC_STORE :: "csum_env \<Rightarrow> exc_regs \<Rightarrow> u32 \<Rightarrow> u32 \<Rightarrow> (memory32 \<Rightarrow> 'a access) \<Rightarrow> 'a access" where
  "EXC_STORE E x v a k =
     (let (src, dst, len, sum0, m) = x
      in if a AND 3 \<noteq> 0 then Inl Oops
         else if \<forall>j<4. writable E (a + of_nat j) then k (store32 a 4 (word_byte (big_endian E) v) m) else Inl (S_exc x))"

definition EXC_SB :: "csum_env \<Rightarrow> exc_regs \<Rightarrow> u32 \<Rightarrow> u32 \<Rightarrow> (memory32 \<Rightarrow> 'a access) \<Rightarrow> 'a access" where
  "EXC_SB E x v a k =
     (let (src, dst, len, sum0, m) = x in if writable E a then k (m(a := ucast v)) else Inl (S_exc x))"

definition EXC_STFIRST :: "csum_env \<Rightarrow> exc_regs \<Rightarrow> u32 \<Rightarrow> u32 \<Rightarrow> (memory32 \<Rightarrow> 'a access) \<Rightarrow> 'a access" where
  "EXC_STFIRST E x v a k =
     (let (src, dst, len, sum0, m) = x
      in if \<forall>j < 4 - unat (a AND 3). writable E (a + of_nat j) then k (stfirst (big_endian E) v a m) else Inl (S_exc x))"

definition EXC_STREST :: "csum_env \<Rightarrow> exc_regs \<Rightarrow> u32 \<Rightarrow> u32 \<Rightarrow> (memory32 \<Rightarrow> 'a access) \<Rightarrow> 'a access" where
  "EXC_STREST E x v a k =
     (let (src, dst, len, sum0, m) = x
      in if \<forall>j \<le> unat (a AND 3). writable E (a - of_nat j) then k (strest (big_endian E) v a m) else Inl (S_exc x))"

text \<open>An \<open>LDFIRST\<close> and an \<open>LDREST\<close> that the exception table does not list.\<close>

definition PLAIN_LDFIRST :: "csum_env \<Rightarrow> exc_regs \<Rightarrow> u32 \<Rightarrow> (u32 \<Rightarrow> 'a access) \<Rightarrow> 'a access" where
  "PLAIN_LDFIRST E x a k = EXC_LDFIRST E (\<lambda>x. Oops) x a k"

definition PLAIN_LDREST :: "csum_env \<Rightarrow> exc_regs \<Rightarrow> u32 \<Rightarrow> u32 \<Rightarrow> (u32 \<Rightarrow> 'a access) \<Rightarrow> 'a access" where
  "PLAIN_LDREST E x t a k = EXC_LDREST E (\<lambda>x. Oops) x t a k"

section \<open>The handlers\<close>

text \<open>\<open>s_exc\<close> and \<open>l_exc\<close> store \<open>-EFAULT\<close>; \<open>l_exc\<close> then leaves with \<open>memset\<close>, which returns \<open>dst\<close>.\<close>

definition EFAULT :: u32 where "EFAULT = 14"

definition store_error :: "csum_env \<Rightarrow> memory32 \<Rightarrow> memory32 option" where
  "store_error E m =
     (if err_ptr E AND 3 = 0 \<and> (\<forall>j<4. writable E (err_ptr E + of_nat j))
      then Some (store32 (err_ptr E) 4 (word_byte (big_endian E) (- EFAULT)) m) else None)"

definition s_exc :: "csum_env \<Rightarrow> exc_regs \<Rightarrow> (u32 \<times> memory32) option" where
  "s_exc E x = (let (src, dst, len, sum0, m) = x in do { m \<leftarrow> store_error E m; Some (sum0, m) })"

definition l_exc :: "csum_env \<Rightarrow> exc_regs \<Rightarrow> (u32 \<times> memory32) option" where
  "l_exc E x =
     (let (src, dst, len, sum0, m) = x
      in do {
        m \<leftarrow> store_error E m;
        if \<forall>j < unat len. writable E (dst + of_nat j) then Some (dst, store32 dst (unat len) (\<lambda>j. 0) m) else None
      })"

lemma unat_pred32: "x \<noteq> 0 \<Longrightarrow> unat (x - 1 :: u32) < unat x"
  by (metis unat_minus_one unat_eq_zero diff_less gr0I zero_less_one)

lemma unat_pred_less: "len \<noteq> 1 \<Longrightarrow> unat (len - 2 :: u32) < unat (len - 1)"
  using unat_pred32 [of "len - 1"] by simp

function l_exc_copy :: "csum_env \<Rightarrow> exc_regs \<Rightarrow> (u32 \<times> memory32) option" where
  "l_exc_copy E (src, dst, len, sum0, m) =
     (if \<not> readable E src then l_exc E (src, dst, len, sum0, m)
      else
        let t0 = m src; src = src + 1
        in if \<not> writable E dst then None
           else
             let m = m(dst := t0); len = len - 1; dst = dst + 1
             in if len \<noteq> 0 then l_exc_copy E (src, dst, len, sum0, m) else l_exc E (src, dst, len, sum0, m))"
  by pat_completeness auto
termination
  by (relation "measure (\<lambda>(E, src, dst, len, sum0, m). unat (len - 1))") (auto intro!: unat_pred_less)

declare l_exc_copy.simps [simp del]

section \<open>The end of the sum\<close>

definition sltu :: "u32 \<Rightarrow> u32 \<Rightarrow> u32" where
  "sltu x y = (if x < y then 1 else 0)"

type_synonym sums = "u32 \<times> u32 \<times> u32 \<times> u32"

definition csum_finish :: "u32 \<Rightarrow> sums \<Rightarrow> u32" where
  "csum_finish byteswap s =
     (let (sum0, sum1, carry0, carry1) = s;
          sum0 = sum0 + sum1; carry0 = carry0 + carry1; sum1 = sltu sum0 sum1;
          sum1 = carry0 + sum1;
          sum0 = sum0 + sum1;
          sum1 = sltu sum0 sum1;
          sum0 = sum0 + sum1
      in if byteswap = 0 then sum0
         else let t1 = drop_bit 8 sum0; t0 = push_bit 24 sum0 in t0 OR t1)"

section \<open>Byte by byte\<close>

definition SHIFT_EVEN_CSUM :: "bool \<Rightarrow> u32 \<Rightarrow> u32 \<Rightarrow> u32 \<Rightarrow> u32 \<times> u32" where
  "SHIFT_EVEN_CSUM be reg sm carry =
     (if be then let tmp = push_bit 8 reg; sm = sm + tmp; tmp = sltu sm tmp in (sm, carry + tmp)
      else let sm = sm + reg; tmp = sltu sm reg in (sm, carry + tmp))"

definition SHIFT_ODD_CSUM :: "bool \<Rightarrow> u32 \<Rightarrow> u32 \<Rightarrow> u32 \<Rightarrow> u32 \<times> u32" where
  "SHIFT_ODD_CSUM be reg sm carry =
     (if be then let sm = sm + reg; tmp = sltu sm reg in (sm, carry + tmp)
      else let tmp = push_bit 8 reg; sm = sm + tmp; tmp = sltu sm tmp in (sm, carry + tmp))"

text \<open>\<open>csum_bytes\<close> for the bytes of the list: the store is in the delay slot of the exit.\<close>

fun csum_bytes :: "csum_env \<Rightarrow> u32 \<Rightarrow> u32 \<Rightarrow> u32 \<Rightarrow> sums \<Rightarrow> memory32 \<Rightarrow> nat list \<Rightarrow> (sums \<times> memory32) access" where
  "csum_bytes E src dst len s m [] = Inr (s, m)"
| "csum_bytes E src dst len (sum0, sum1, carry0, carry1) m (n # ns) =
     EXC_LBU E (if n = 0 then L_exc else L_exc_copy) (src, dst, len, sum0, m) (src + of_nat n) (\<lambda>t0.
     let len = len - 1;
         (sum0, carry0) = (if even n then SHIFT_EVEN_CSUM (big_endian E) t0 sum0 carry0
                           else SHIFT_ODD_CSUM (big_endian E) t0 sum0 carry0)
     in EXC_SB E (src, dst, len, sum0, m) t0 (dst + of_nat n) (\<lambda>m.
     if len = 0 then Inr ((sum0, sum1, carry0, carry1), m)
     else csum_bytes E src dst len (sum0, sum1, carry0, carry1) m ns))"

text \<open>Where a label's code goes on after its accesses: at a handler or at the next label.\<close>

definition after :: "csum_env \<Rightarrow> 'a access \<Rightarrow> ('a \<Rightarrow> (u32 \<times> memory32) option) \<Rightarrow> (u32 \<times> memory32) option" where
  "after E r k =
     (case r of
        Inl Oops \<Rightarrow> None
      | Inl (L_exc x) \<Rightarrow> l_exc E x
      | Inl (L_exc_copy x) \<Rightarrow> l_exc_copy E x
      | Inl (S_exc x) \<Rightarrow> s_exc E x
      | Inr y \<Rightarrow> k y)"

definition finish :: "u32 \<Rightarrow> sums \<times> memory32 \<Rightarrow> (u32 \<times> memory32) option" where
  "finish byteswap r = (let (s, m) = r in Some (csum_finish byteswap s, m))"

definition copy_csum_bytes :: "csum_env \<Rightarrow> u32 \<Rightarrow> u32 \<Rightarrow> u32 \<Rightarrow> u32 \<Rightarrow> sums \<Rightarrow> memory32 \<Rightarrow> (u32 \<times> memory32) option" where
  "copy_csum_bytes E byteswap src dst len s m = after E (csum_bytes E src dst len s m [0, 1, 2, 3]) (finish byteswap)"

definition csum_bytes_checklen ::
  "csum_env \<Rightarrow> u32 \<Rightarrow> u32 \<Rightarrow> u32 \<Rightarrow> u32 \<Rightarrow> sums \<Rightarrow> memory32 \<Rightarrow> (u32 \<times> memory32) option" where
  "csum_bytes_checklen E byteswap src dst len s m =
     (if len = 0 then finish byteswap (s, m) else copy_csum_bytes E byteswap src dst len s m)"

section \<open>Source and destination aligned\<close>

text \<open>\<open>SHIFT_DISCARD\<close> and \<open>UNSHIFT_DISCARD\<close>, shifts by a register, which use its low five bits.\<close>

definition SHIFT_DISCARD :: "bool \<Rightarrow> u32 \<Rightarrow> u32 \<Rightarrow> u32" where
  "SHIFT_DISCARD be x n = (if be then drop_bit (unat (n AND 31)) x else push_bit (unat (n AND 31)) x)"

definition UNSHIFT_DISCARD :: "bool \<Rightarrow> u32 \<Rightarrow> u32 \<Rightarrow> u32" where
  "UNSHIFT_DISCARD be x n = (if be then push_bit (unat (n AND 31)) x else drop_bit (unat (n AND 31)) x)"

definition csum_last_bytes :: "csum_env \<Rightarrow> u32 \<Rightarrow> u32 \<Rightarrow> u32 \<Rightarrow> sums \<Rightarrow> memory32 \<Rightarrow> (sums \<times> memory32) access" where
  "csum_last_bytes E src dst len s m =
     (let (sum0, sum1, carry0, carry1) = s; t1 = dst + len; bits = 8 * 4; rm = push_bit 3 len
      in EXC_LOAD E L_exc (src, dst, len, sum0, m) src (\<lambda>t0.
         let bits = bits - rm;
             t3 = SHIFT_DISCARD (big_endian E) t0 bits;
             t0 = UNSHIFT_DISCARD (big_endian E) t3 bits;
             sum0 = sum0 + t0;
             t0 = sltu sum0 t0
         in EXC_STREST E (src, dst, len, sum0, m) t3 (t1 - 1) (\<lambda>m.
         let carry0 = carry0 + t0
         in Inr ((sum0, sum1, carry0, carry1), m))))"

definition cleanup_bytes_both_aligned ::
  "csum_env \<Rightarrow> u32 \<Rightarrow> u32 \<Rightarrow> u32 \<Rightarrow> u32 \<Rightarrow> sums \<Rightarrow> memory32 \<Rightarrow> (u32 \<times> memory32) option" where
  "cleanup_bytes_both_aligned E byteswap src dst len s m =
     (if len = 0 then finish byteswap (s, m) else after E (csum_last_bytes E src dst len s m) (finish byteswap))"

text \<open>The registers of a loop, and memory.\<close>

type_synonym copy_regs = "u32 \<times> u32 \<times> u32 \<times> sums \<times> memory32"

definition csum_unit :: "csum_env \<Rightarrow> copy_regs \<Rightarrow> copy_regs access" where
  "csum_unit E x =
     (let (src, dst, len, (sum0, sum1, carry0, carry1), m) = x
      in EXC_LOAD E L_exc (src, dst, len, sum0, m) src (\<lambda>t0.
         let dst = dst + 4; sum0 = sum0 + t0; len = len - 4; t2 = sltu sum0 t0; src = src + 4; carry0 = carry0 + t2
         in EXC_STORE E (src, dst, len, sum0, m) t0 (dst - 4) (\<lambda>m.
         Inr (src, dst, len, (sum0, sum1, carry0, carry1), m))))"

text \<open>The loops end with \<open>len\<close>, which \<open>get_len\<close> takes from the registers, at \<open>rem\<close>.\<close>

partial_function (option) csum_loop :: "('a \<Rightarrow> u32) \<Rightarrow> ('a \<Rightarrow> 'a access) \<Rightarrow> u32 \<Rightarrow> 'a \<Rightarrow> 'a access option" where
  "csum_loop get_len body rm x =
     (case body x of
        Inl e \<Rightarrow> Some (Inl e)
      | Inr y \<Rightarrow> if get_len y \<noteq> rm then csum_loop get_len body rm y else Some (Inr y))"

definition regs_len :: "copy_regs \<Rightarrow> u32" where
  "regs_len x = (let (src, dst, len, s, m) = x in len)"

definition csum_cleanup_both_aligned ::
  "csum_env \<Rightarrow> u32 \<Rightarrow> u32 \<Rightarrow> u32 \<Rightarrow> u32 \<Rightarrow> sums \<Rightarrow> memory32 \<Rightarrow> (u32 \<times> memory32) option" where
  "csum_cleanup_both_aligned E byteswap src dst len s m =
     (let rm = len AND 3
      in if len = rm then cleanup_bytes_both_aligned E byteswap src dst len s m
         else do {
           r \<leftarrow> csum_loop regs_len (csum_unit E) rm (src, dst, len, s, m);
           after E r (\<lambda>(src, dst, len, s, m). cleanup_bytes_both_aligned E byteswap src dst len s m)
         })"

text \<open>The main loop, eight words in a round.\<close>

definition csum_round :: "csum_env \<Rightarrow> copy_regs \<Rightarrow> copy_regs access" where
  "csum_round E x =
     (let (src, dst, len, (sum0, sum1, carry0, carry1), m) = x
      in EXC_LOAD E L_exc (src, dst, len, sum0, m) src (\<lambda>t0.
         EXC_LOAD E L_exc_copy (src, dst, len, sum0, m) (src + 4) (\<lambda>t1.
         let sum0 = sum0 + t0; sum1 = sum1 + t1
         in EXC_LOAD E L_exc_copy (src, dst, len, sum0, m) (src + 8) (\<lambda>t2.
         EXC_LOAD E L_exc_copy (src, dst, len, sum0, m) (src + 12) (\<lambda>t3.
         let c0 = sltu sum0 t0; sum0 = sum0 + t2; c1 = sltu sum1 t1; sum1 = sum1 + t3;
             carry0 = carry0 + c0; c0 = sltu sum0 t2; carry1 = carry1 + c1; c1 = sltu sum1 t3;
             carry0 = carry0 + c0; carry1 = carry1 + c1
         in EXC_STORE E (src, dst, len, sum0, m) t0 dst (\<lambda>m.
         EXC_STORE E (src, dst, len, sum0, m) t1 (dst + 4) (\<lambda>m.
         EXC_STORE E (src, dst, len, sum0, m) t2 (dst + 8) (\<lambda>m.
         EXC_STORE E (src, dst, len, sum0, m) t3 (dst + 12) (\<lambda>m.
         EXC_LOAD E L_exc_copy (src, dst, len, sum0, m) (src + 16) (\<lambda>t0.
         EXC_LOAD E L_exc_copy (src, dst, len, sum0, m) (src + 20) (\<lambda>t1.
         let sum0 = sum0 + t0; sum1 = sum1 + t1
         in EXC_LOAD E L_exc_copy (src, dst, len, sum0, m) (src + 24) (\<lambda>t2.
         EXC_LOAD E L_exc_copy (src, dst, len, sum0, m) (src + 28) (\<lambda>t3.
         let c0 = sltu sum0 t0; sum0 = sum0 + t2; dst = dst + 32; c1 = sltu sum1 t1; sum1 = sum1 + t3;
             src = src + 32; carry0 = carry0 + c0; c0 = sltu sum0 t2; len = len - 32;
             carry1 = carry1 + c1; c1 = sltu sum1 t3; carry0 = carry0 + c0; carry1 = carry1 + c1
         in EXC_STORE E (src, dst, len, sum0, m) t0 (dst - 16) (\<lambda>m.
         EXC_STORE E (src, dst, len, sum0, m) t1 (dst - 12) (\<lambda>m.
         EXC_STORE E (src, dst, len, sum0, m) t2 (dst - 8) (\<lambda>m.
         EXC_STORE E (src, dst, len, sum0, m) t3 (dst - 4) (\<lambda>m.
         Inr (src, dst, len, (sum0, sum1, carry0, carry1), m))))))))))))))))))"

definition csum_both_aligned ::
  "csum_env \<Rightarrow> u32 \<Rightarrow> u32 \<Rightarrow> u32 \<Rightarrow> u32 \<Rightarrow> sums \<Rightarrow> memory32 \<Rightarrow> (u32 \<times> memory32) option" where
  "csum_both_aligned E byteswap src dst len s m =
     (let t0 = drop_bit 5 len; rm = len AND 31
      in if t0 = 0 then csum_cleanup_both_aligned E byteswap src dst len s m
         else do {
           r \<leftarrow> csum_loop regs_len (csum_round E) rm (src, dst, len, s, m);
           after E r (\<lambda>(src, dst, len, s, m). csum_cleanup_both_aligned E byteswap src dst len s m)
         })"

section \<open>Source not aligned\<close>

text \<open>
  The main loop: \<open>c3\<close> is the carry that the round before left. The halves of the words it loads overlap in a way
  that some of the loads cannot fault; these are not in the exception table.
\<close>

type_synonym unaligned_regs = "u32 \<times> copy_regs"

definition csum_unaligned_round :: "csum_env \<Rightarrow> unaligned_regs \<Rightarrow> unaligned_regs access" where
  "csum_unaligned_round E x =
     (let (c3, src, dst, len, (sum0, sum1, carry0, carry1), m) = x
      in EXC_LDFIRST E L_exc (src, dst, len, sum0, m) src (\<lambda>t0.
         EXC_LDFIRST E L_exc_copy (src, dst, len, sum0, m) (src + 4) (\<lambda>t1.
         PLAIN_LDREST E (src, dst, len, sum0, m) t0 (src + 3) (\<lambda>t0.
         EXC_LDREST E L_exc_copy (src, dst, len, sum0, m) t1 (src + 7) (\<lambda>t1.
         let sum0 = sum0 + t0; sum1 = sum1 + t1
         in PLAIN_LDFIRST E (src, dst, len, sum0, m) (src + 8) (\<lambda>t2.
         EXC_LDFIRST E L_exc_copy (src, dst, len, sum0, m) (src + 12) (\<lambda>t3.
         let carry1 = carry1 + c3; c0 = sltu sum0 t0
         in PLAIN_LDREST E (src, dst, len, sum0, m) t2 (src + 11) (\<lambda>t2.
         EXC_LDREST E L_exc_copy (src, dst, len, sum0, m) t3 (src + 15) (\<lambda>t3.
         let c1 = sltu sum1 t1; sum0 = sum0 + t2; c2 = sltu sum0 t2; sum1 = sum1 + t3; carry0 = carry0 + c0;
             c3 = sltu sum1 t3
         in EXC_STORE E (src, dst, len, sum0, m) t0 dst (\<lambda>m.
         EXC_STORE E (src, dst, len, sum0, m) t1 (dst + 4) (\<lambda>m.
         PLAIN_LDFIRST E (src, dst, len, sum0, m) (src + 16) (\<lambda>t0.
         EXC_LDFIRST E L_exc_copy (src, dst, len, sum0, m) (src + 20) (\<lambda>t1.
         let carry1 = carry1 + c1; carry0 = carry0 + c2
         in EXC_STORE E (src, dst, len, sum0, m) t2 (dst + 8) (\<lambda>m.
         EXC_STORE E (src, dst, len, sum0, m) t3 (dst + 12) (\<lambda>m.
         PLAIN_LDREST E (src, dst, len, sum0, m) t0 (src + 19) (\<lambda>t0.
         EXC_LDREST E L_exc_copy (src, dst, len, sum0, m) t1 (src + 23) (\<lambda>t1.
         let sum0 = sum0 + t0; sum1 = sum1 + t1
         in PLAIN_LDFIRST E (src, dst, len, sum0, m) (src + 24) (\<lambda>t2.
         EXC_LDFIRST E L_exc_copy (src, dst, len, sum0, m) (src + 28) (\<lambda>t3.
         let carry1 = carry1 + c3; c0 = sltu sum0 t0
         in PLAIN_LDREST E (src, dst, len, sum0, m) t2 (src + 27) (\<lambda>t2.
         EXC_LDREST E L_exc_copy (src, dst, len, sum0, m) t3 (src + 31) (\<lambda>t3.
         let c1 = sltu sum1 t1; sum0 = sum0 + t2; c2 = sltu sum0 t2; src = src + 32; sum1 = sum1 + t3;
             len = len - 32; carry0 = carry0 + c0; c3 = sltu sum1 t3
         in EXC_STORE E (src, dst, len, sum0, m) t0 (dst + 16) (\<lambda>m.
         EXC_STORE E (src, dst, len, sum0, m) t1 (dst + 20) (\<lambda>m.
         let dst = dst + 32; carry1 = carry1 + c1; carry0 = carry0 + c2
         in EXC_STORE E (src, dst, len, sum0, m) t2 (dst - 8) (\<lambda>m.
         EXC_STORE E (src, dst, len, sum0, m) t3 (dst - 4) (\<lambda>m.
         Inr (c3, src, dst, len, (sum0, sum1, carry0, carry1), m))))))))))))))))))))))))))"

definition unaligned_len :: "unaligned_regs \<Rightarrow> u32" where
  "unaligned_len x = (let (c3, src, dst, len, s, m) = x in len)"

definition csum_unaligned_unit :: "csum_env \<Rightarrow> copy_regs \<Rightarrow> copy_regs access" where
  "csum_unaligned_unit E x =
     (let (src, dst, len, (sum0, sum1, carry0, carry1), m) = x
      in EXC_LDFIRST E L_exc (src, dst, len, sum0, m) src (\<lambda>t0.
         EXC_LDREST E L_exc_copy (src, dst, len, sum0, m) t0 (src + 3) (\<lambda>t0.
         let src = src + 4; sum0 = sum0 + t0; len = len - 4; t2 = sltu sum0 t0; dst = dst + 4; carry0 = carry0 + t2
         in EXC_STORE E (src, dst, len, sum0, m) t0 (dst - 4) (\<lambda>m.
         Inr (src, dst, len, (sum0, sum1, carry0, carry1), m)))))"

text \<open>
  The branch to \<open>csum_bytes\<close> has the first load of the loop in its delay slot: the word it loads is not used, but it
  can fault.
\<close>

definition csum_cleanup_src_unaligned ::
  "csum_env \<Rightarrow> u32 \<Rightarrow> u32 \<Rightarrow> u32 \<Rightarrow> u32 \<Rightarrow> sums \<Rightarrow> memory32 \<Rightarrow> (u32 \<times> memory32) option" where
  "csum_cleanup_src_unaligned E byteswap src dst len s m =
     (let rm = len AND 3
      in if len = 0 then finish byteswap (s, m)
         else if rm = len then
           after E (EXC_LDFIRST E L_exc (src, dst, len, fst s, m) src (\<lambda>t0. Inr ()))
             (\<lambda>_. copy_csum_bytes E byteswap src dst len s m)
         else do {
           r \<leftarrow> csum_loop regs_len (csum_unaligned_unit E) rm (src, dst, len, s, m);
           after E r (\<lambda>(src, dst, len, s, m). csum_bytes_checklen E byteswap src dst len s m)
         })"

definition csum_src_unaligned_dst_aligned ::
  "csum_env \<Rightarrow> u32 \<Rightarrow> u32 \<Rightarrow> u32 \<Rightarrow> u32 \<Rightarrow> sums \<Rightarrow> memory32 \<Rightarrow> (u32 \<times> memory32) option" where
  "csum_src_unaligned_dst_aligned E byteswap src dst len s m =
     (let rm = len AND 31; c3 = 0
      in if rm = len then csum_cleanup_src_unaligned E byteswap src dst len s m
         else do {
           r \<leftarrow> csum_loop unaligned_len (csum_unaligned_round E) rm (c3, src, dst, len, s, m);
           after E r (\<lambda>(c3, src, dst, len, (sum0, sum1, carry0, carry1), m).
             csum_cleanup_src_unaligned E byteswap src dst len (sum0, sum1, carry0, carry1 + c3) m)
         })"

section \<open>Destination not aligned, and the entry\<close>

definition csum_first_bytes :: "csum_env \<Rightarrow> u32 \<Rightarrow> copy_regs \<Rightarrow> copy_regs access" where
  "csum_first_bytes E t1 x =
     (let (src, dst, len, (sum0, sum1, carry0, carry1), m) = x
      in EXC_LDFIRST E L_exc (src, dst, len, sum0, m) src (\<lambda>t3.
         let t2 = 4 - t1
         in EXC_LDREST E L_exc_copy (src, dst, len, sum0, m) t3 (src + 3) (\<lambda>t3.
         let t4 = push_bit 3 t1; src = src + t2; t4 = SHIFT_DISCARD (big_endian E) t3 t4; len = len - t2;
             sum0 = sum0 + t4; t4 = sltu sum0 t4
         in EXC_STFIRST E (src, dst, len, sum0, m) t3 dst (\<lambda>m.
         let carry0 = carry0 + t4
         in Inr (src, dst + t2, len, (sum0, sum1, carry0, carry1), m)))))"

definition csum_dst_unaligned ::
  "csum_env \<Rightarrow> u32 \<Rightarrow> u32 \<Rightarrow> u32 \<Rightarrow> u32 \<Rightarrow> u32 \<Rightarrow> u32 \<Rightarrow> sums \<Rightarrow> memory32 \<Rightarrow> (u32 \<times> memory32) option" where
  "csum_dst_unaligned E byteswap t0 t1 src dst len s m =
     (let mtch = t0 XOR t1
      in after E (csum_first_bytes E t1 (src, dst, len, s, m)) (\<lambda>(src, dst, len, s, m).
           if len = 0 then finish byteswap (s, m)
           else if mtch = 0 then csum_both_aligned E byteswap src dst len s m
           else csum_src_unaligned_dst_aligned E byteswap src dst len s m))"

definition csum_partial_copy_user ::
  "csum_env \<Rightarrow> u32 \<Rightarrow> u32 \<Rightarrow> u32 \<Rightarrow> u32 \<Rightarrow> memory32 \<Rightarrow> (u32 \<times> memory32) option" where
  "csum_partial_copy_user E src dst len partial_sum m =
     (let byteswap = dst AND 1
      in if len < 4 then csum_bytes_checklen E 0 src dst len (0, partial_sum, 0, 0) m
         else
           let t1 = dst AND 3; t0 = src AND 3;
               sum1 = (if byteswap = 0 then partial_sum
                       else let t3 = drop_bit 8 partial_sum; t2 = push_bit 24 partial_sum in t2 OR t3);
               s = (0, sum1, 0, 0)
           in if t1 \<noteq> 0 then csum_dst_unaligned E byteswap t0 t1 src dst len s m
              else if t0 \<noteq> 0 then csum_src_unaligned_dst_aligned E byteswap src dst len s m
              else csum_both_aligned E byteswap src dst len s m)"

declare csum_loop.simps [code]

end
