(* ===== verification/CsumCorrect.thy ===== *)
theory CsumCorrect
  imports CsumCopy
begin

text \<open>
  What \<open>csum_partial_copy_user\<close> of theory \<open>CsumCopy\<close> computes, and what is left in memory when a load faults. A call
  is described by \<open>copying\<close>: the source and the destination, the length and the first byte of the source that
  is not readable. Each label keeps the invariant \<open>copied_to\<close>: how far the copy has come, and what the sum is, modulo
  65535.
\<close>

unbundle bit_operations_syntax

section \<open>The bytes of words\<close>

lemma bit_word_byte: "bit (word_byte be v j) i \<longleftrightarrow> i < 8 \<and> bit v (8 * (if be then 3 - j else j) + i)"
  by (auto simp: word_byte_def bit_ucast_iff bitwise)

lemma bit_byte: "bit (b :: u8) i \<Longrightarrow> i < 8"
  using bit_imp_le_length by fastforce

lemma byte_of_word:
  fixes a b c d :: u8
  defines "w \<equiv> push_bit 24 (ucast a) OR push_bit 16 (ucast b) OR push_bit 8 (ucast c) OR ucast d :: u32"
  shows "ucast (drop_bit 24 w) = a" and "ucast (drop_bit 16 w) = b" and "ucast (drop_bit 8 w) = c" and "ucast w = d"
  unfolding w_def by (rule word_bit_ext, force simp: bit_ucast_iff bitwise dest: bit_byte)+

lemma word_byte_of_bytes: "j < 4 \<Longrightarrow> word_byte be (of_word_bytes be f) j = f j"
proof -
  assume "j < 4"
  then have "j = 0 \<or> j = 1 \<or> j = 2 \<or> j = 3" by auto
  then show ?thesis
    by (elim disjE; cases be; simp add: word_byte_def of_word_bytes_def byte_of_word del: drop_bit_or)
qed

lemma of_word_bytes_cong: "(\<And>j. j < 4 \<Longrightarrow> f j = g j) \<Longrightarrow> of_word_bytes be f = of_word_bytes be g"
  by (simp add: of_word_bytes_def)

lemma or_word: "x AND y = 0 \<Longrightarrow> unat x + unat y < 2 ^ 32 \<Longrightarrow> unat (x OR y) = unat x + unat y" for x y :: u32
  using word_plus_and_or [of x y] by (simp add: unat_sum)

lemma of_word_bytes_unat:
  "unat (of_word_bytes be f) =
     (if be then 2 ^ 24 * unat (f 0) + 2 ^ 16 * unat (f 1) + 256 * unat (f 2) + unat (f 3)
      else 2 ^ 24 * unat (f 3) + 2 ^ 16 * unat (f 2) + 256 * unat (f 1) + unat (f 0))"
proof -
  have p: "unat (push_bit 24 (ucast b) :: u32) = 2 ^ 24 * unat b" "unat (push_bit 16 (ucast b) :: u32) = 2 ^ 16 * unat b"
    "unat (push_bit 8 (ucast b) :: u32) = 256 * unat b" for b :: u8
    using u8_less [of b] by (simp_all add: push_bit_eq_mult unat_word_ariths unat_ucast_byte)
  have z: "push_bit 8 (ucast c) AND ucast d = (0 :: u32)"
    "push_bit 16 (ucast b) AND (push_bit 8 (ucast c) OR ucast d) = (0 :: u32)"
    "push_bit 24 (ucast a) AND (push_bit 16 (ucast b) OR push_bit 8 (ucast c) OR ucast d) = (0 :: u32)" for a b c d :: u8
    by (rule word_bit_ext; auto simp: bitwise bit_ucast_iff dest: bit_byte)+
  have "unat (push_bit 24 (ucast a) OR push_bit 16 (ucast b) OR push_bit 8 (ucast c) OR ucast d :: u32) =
      2 ^ 24 * unat a + 2 ^ 16 * unat b + 256 * unat c + unat d" for a b c d :: u8
  proof -
    note l = u8_less [of a] u8_less [of b] u8_less [of c] u8_less [of d]
    have 1: "unat (push_bit 8 (ucast c) OR ucast d :: u32) = 256 * unat c + unat d"
      using l by (subst or_word [OF z(1)]) (simp_all add: p unat_ucast_byte)
    have 2: "unat (push_bit 16 (ucast b) OR push_bit 8 (ucast c) OR ucast d :: u32) = 2 ^ 16 * unat b + 256 * unat c + unat d"
      using l by (subst or_word [OF z(2)]) (simp_all only: 1 p, simp_all)
    show ?thesis
      using l by (subst or_word [OF z(3)]) (simp_all only: 2 p, simp_all)
  qed
  then show ?thesis by (simp add: of_word_bytes_def)
qed

text \<open>The low two bits of an address.\<close>

lemma and_3: "unat (a AND 3) = unat a mod 4" for a :: u32
proof -
  have "a AND 3 = take_bit 2 a" by (simp add: take_bit_eq_mask mask_eq_exp_minus_1)
  then show ?thesis by (simp only: unsigned_take_bit_eq) (simp add: take_bit_eq_mod)
qed

definition at4 :: "u32 \<Rightarrow> nat" where
  "at4 a = unat a mod 4"

lemma at4_less: "at4 a < 4"
  by (simp add: at4_def)

lemma at4_add: "at4 (a + of_nat n) = (at4 a + n) mod 4"
  by (simp add: at4_def unat_word_ariths unat_of_nat mod_mod_cancel mod_simps)

lemma and_3_zero: "a AND 3 = 0 \<longleftrightarrow> at4 a = 0"
  using and_3 [of a] unfolding at4_def by (metis unat_eq_zero)

section \<open>Copying\<close>

definition copied32 :: "memory32 \<Rightarrow> u32 \<Rightarrow> u32 \<Rightarrow> nat \<Rightarrow> memory32" where
  "copied32 m d s n = store32 d n (\<lambda>j. m (s + of_nat j)) m"

lemma offset32:
  fixes a d :: u32
  assumes "k + n \<le> 2 ^ 32" and "n \<noteq> 0"
  shows "unat (a - (d + of_nat k)) < n \<longleftrightarrow> k \<le> unat (a - d) \<and> unat (a - d) < k + n"
    and "k \<le> unat (a - d) \<Longrightarrow> unat (a - (d + of_nat k)) = unat (a - d) - k"
proof -
  have k: "unat (of_nat k :: u32) = k"
    using assms by (simp add: unat_of_nat)
  have e: "a - (d + of_nat k) = (a - d) - of_nat k" by simp
  show "unat (a - (d + of_nat k)) < n \<longleftrightarrow> k \<le> unat (a - d) \<and> unat (a - d) < k + n"
    using assms(1) unfolding e unat_sub_if_size k by (auto simp: word_size)
  show "k \<le> unat (a - d) \<Longrightarrow> unat (a - (d + of_nat k)) = unat (a - d) - k"
    unfolding e unat_sub_if_size k by simp
qed

lemma store32_append:
  assumes "k + n \<le> 2 ^ 32" and "\<And>i. i < n \<Longrightarrow> img' i = img (k + i)"
  shows "store32 (d + of_nat k) n img' (store32 d k img m) = store32 d (k + n) img m"
proof (cases "n = 0")
  case False
  show ?thesis
    using offset32 [OF assms(1) False] assms(2) by (intro ext) (auto simp: store32_def)
qed (simp add: store32_def)

lemma store32_again:
  assumes "k + n \<le> j" and "j \<le> 2 ^ 32" and "\<And>i. i < n \<Longrightarrow> img' i = img (k + i)"
  shows "store32 (d + of_nat k) n img' (store32 d j img m) = store32 d j img m"
proof (cases "n = 0")
  case False
  have "k + n \<le> 2 ^ 32" using assms by simp
  then show ?thesis
    using offset32 [OF _ False, of k] assms by (intro ext) (auto simp: store32_def)
qed (simp add: store32_def)

lemma store32_upd: "m(a := b) = store32 a 1 (\<lambda>j. b) m"
  by (rule ext) (auto simp: store32_def unat_eq_zero)

lemma copied32_0: "copied32 m d s 0 = m"
  by (simp add: copied32_def store32_def)

text \<open>
  A call: the buffers are apart and shorter than 2 GB, the destination and \<open>err_ptr\<close> can be written, what can be read is a
  set of whole words, and \<open>k\<close> is the number of bytes of the source up to the first that cannot.
\<close>

definition copying :: "csum_env \<Rightarrow> u32 \<Rightarrow> u32 \<Rightarrow> nat \<Rightarrow> nat \<Rightarrow> bool" where
  "copying E S D N k \<longleftrightarrow>
     N < 2 ^ 31 \<and> (\<forall>i<N. \<forall>j<N. S + of_nat i \<noteq> D + of_nat j) \<and>
     (\<forall>j<N. writable E (D + of_nat j)) \<and>
     err_ptr E AND 3 = 0 \<and> (\<forall>j<4. writable E (err_ptr E + of_nat j)) \<and>
     (\<forall>a b. a AND NOT 3 = b AND NOT 3 \<longrightarrow> readable E a = readable E b) \<and>
     k \<le> N \<and> (\<forall>i<k. readable E (S + of_nat i)) \<and> (k < N \<longrightarrow> \<not> readable E (S + of_nat k))"

lemma same_word:
  assumes "at4 a + n < 4"
  shows "(a + of_nat n) AND NOT 3 = a AND NOT 3"
proof -
  have lo: "unat (b AND 3) = at4 b" for b by (simp add: and_3 at4_def)
  have "at4 (a + of_nat n) = at4 a + n" using assms by (simp add: at4_add)
  then have "unat ((a + of_nat n) AND 3) = unat ((a AND 3) + of_nat n)"
    using assms lo [of a] lo [of "a + of_nat n"] by (simp add: unat_word_ariths unat_of_nat)
  then have "(a + of_nat n) AND 3 = (a AND 3) + of_nat n" by (simp only: word_unat_eq_iff)
  moreover have "(b AND NOT 3) = b - (b AND 3)" for b :: u32
  proof -
    have "(b AND NOT m) AND (b AND m) = 0" for m
      by (rule word_bit_ext) (auto simp: bitwise)
    then have "(b AND NOT 3) + (b AND 3) = b"
      using word_plus_and_or [of "b AND NOT 3" "b AND 3"] unfolding and_not_or_self by (simp only: add_0)
    then show ?thesis by (simp only: eq_diff_eq)
  qed
  ultimately show ?thesis by simp
qed

lemma at4_back:
  assumes "at4 (a + of_nat n) = 0" and "0 < n" and "n \<le> 4"
  shows "at4 a = 4 - n"
proof -
  have "(at4 a + n) mod 4 = 0" using assms(1) by (simp add: at4_add)
  then show ?thesis using assms(2,3) at4_less [of a] by presburger
qed

text \<open>The word that ends at byte \<open>e\<close> of the source is readable or not, as any of its bytes is.\<close>

lemma readable_word:
  assumes "copying E S D N k" and "at4 (S + of_nat e) = 0" and "i < e" and "e \<le> i + 4" and "j < e" and "e \<le> j + 4"
  shows "readable E (S + of_nat i) = readable E (S + of_nat j)"
proof -
  have *: "(S + of_nat x) AND NOT 3 = (S + of_nat y) AND NOT 3" if "x \<le> y" "y < e" "e \<le> x + 4" for x y
  proof -
    have "at4 (S + of_nat x + of_nat (e - x)) = 0" using that assms(2) by simp
    then have "at4 (S + of_nat x) = 4 - (e - x)"
      using that by (intro at4_back) auto
    then have "(S + of_nat x + of_nat (y - x)) AND NOT 3 = (S + of_nat x) AND NOT 3"
      using that by (intro same_word) auto
    then show ?thesis using that by simp
  qed
  have "(S + of_nat i) AND NOT 3 = (S + of_nat j) AND NOT 3"
  proof (cases "i \<le> j")
    case True
    then show ?thesis using * [OF True assms(5,4)] by simp
  next
    case False
    then show ?thesis using * [OF _ assms(3,6)] by simp
  qed
  then show ?thesis using assms(1) unfolding copying_def by blast
qed

lemma access_word:
  assumes "copying E S D N k" and "at4 (S + of_nat e) = 0" and "e \<le> k + 4" and "j < e" and "e \<le> j + 4" and "j < N"
  shows "readable E (S + of_nat j) \<Longrightarrow> min e N \<le> k"
    and "\<not> readable E (S + of_nat j) \<Longrightarrow> k \<le> j \<and> k < N"
proof -
  have c: "k \<le> N" "\<forall>i<k. readable E (S + of_nat i)" "k < N \<longrightarrow> \<not> readable E (S + of_nat k)"
    using assms(1) unfolding copying_def by blast+
  show "\<not> readable E (S + of_nat j) \<Longrightarrow> k \<le> j \<and> k < N"
    using c(2) assms(6) by (meson le_less_trans not_le)
  assume r: "readable E (S + of_nat j)"
  show "min e N \<le> k"
  proof (rule ccontr)
    assume "\<not> min e N \<le> k"
    then have "k < e" "k < N" by auto
    then show False using readable_word [OF assms(1,2), of k j] assms(3,4,5) r c(3) by auto
  qed
qed

section \<open>Rules for the accesses\<close>

text \<open>\<open>access_ends Q F r\<close>: the accesses end well with \<open>Q\<close> of their value, or at a handler with \<open>F\<close>.\<close>

definition access_ends :: "('a \<Rightarrow> bool) \<Rightarrow> (csum_exc \<Rightarrow> bool) \<Rightarrow> 'a access \<Rightarrow> bool" where
  "access_ends Q F r = (case r of Inl e \<Rightarrow> F e | Inr y \<Rightarrow> Q y)"

lemma access_ends_Inr: "Q y \<Longrightarrow> access_ends Q F (Inr y)"
  by (simp add: access_ends_def)

text \<open>Memory that has the source as it was.\<close>

definition source_kept :: "memory32 \<Rightarrow> u32 \<Rightarrow> nat \<Rightarrow> memory32 \<Rightarrow> bool" where
  "source_kept M S N m \<longleftrightarrow> (\<forall>j<N. m (S + of_nat j) = M (S + of_nat j))"

definition source_word :: "bool \<Rightarrow> memory32 \<Rightarrow> u32 \<Rightarrow> nat \<Rightarrow> u32" where
  "source_word be M S j = of_word_bytes be (\<lambda>x. M (S + of_nat (j + x)))"

lemma copied_source_kept:
  assumes "copying E S D N k" and "i \<le> N"
  shows "source_kept M S N (copied32 M D S i)"
  unfolding source_kept_def
proof (intro allI impI)
  fix j assume j: "j < N"
  have "\<not> unat (S + of_nat j - D) < i"
  proof
    assume "unat (S + of_nat j - D) < i"
    then have "unat (S + of_nat j - D) < N" using assms(2) by simp
    moreover have "S + of_nat j = D + of_nat (unat (S + of_nat j - D))" by simp
    ultimately show False using assms(1) j unfolding copying_def by metis
  qed
  then show "copied32 M D S i (S + of_nat j) = M (S + of_nat j)" by (simp add: copied32_def store32_def)
qed

lemma lw_source:
  "source_kept M S N m \<Longrightarrow> j + 4 \<le> N \<Longrightarrow> lw be m (S + of_nat j) = source_word be M S j"
  unfolding lw_def source_word_def source_kept_def by (intro of_word_bytes_cong) (simp add: add.assoc flip: of_nat_add)

lemma unaligned_source:
  assumes "source_kept M S N m" and "source_kept M S N m'" and "j + 4 \<le> N"
  shows "ldrest be m (ldfirst be m' r (S + of_nat j)) (S + of_nat (j + 3)) = source_word be M S j"
  unfolding ldrest_def source_word_def
proof (rule of_word_bytes_cong)
  fix x :: nat assume x: "x < 4"
  have a: "S + of_nat (j + 3) - of_nat (3 - x) = S + of_nat (j + x)"
    using x by (simp add: of_nat_diff algebra_simps)
  have n: "unat ((S + of_nat (j + 3)) AND 3) = (at4 (S + of_nat j) + 3) mod 4" "unat ((S + of_nat j) AND 3) = at4 (S + of_nat j)"
    using at4_add [of "S + of_nat j" 3] by (simp_all add: and_3 at4_def add.assoc)
  have k: "m (S + of_nat (j + x)) = M (S + of_nat (j + x))" "m' (S + of_nat (j + x)) = M (S + of_nat (j + x))"
    using assms x by (auto simp: source_kept_def simp del: of_nat_add)
  show "(if 3 - x \<le> unat ((S + of_nat (j + 3)) AND 3) then m (S + of_nat (j + 3) - of_nat (3 - x))
      else word_byte be (ldfirst be m' r (S + of_nat j)) x) = M (S + of_nat (j + x))"
  proof (cases "3 - x \<le> unat ((S + of_nat (j + 3)) AND 3)")
    case True
    then show ?thesis unfolding a by (simp only: if_True k)
  next
    case False
    then have "x < 4 - unat ((S + of_nat j) AND 3)"
      unfolding n using x at4_less [of "S + of_nat j"] by presburger
    then show ?thesis using False x k(2) by (simp add: ldfirst_def word_byte_of_bytes add.assoc)
  qed
qed

lemma all_same: "n \<noteq> 0 \<Longrightarrow> (\<And>j. j < n \<Longrightarrow> P j = Q) \<Longrightarrow> (\<forall>j<n. P j) = Q" for n :: nat
  by blast

lemma LOAD_ends:
  assumes "copying E S D N k" and "at4 (S + of_nat j) = 0" and "source_kept M S N m" and "j \<le> k" and "j < N"
    and "a = S + of_nat j" and "x = (s, d, l, u, m)"
    and "min (j + 4) N \<le> k \<Longrightarrow> access_ends Q F (f (lw (big_endian E) m (S + of_nat j)))"
    and "k = j \<Longrightarrow> k < N \<Longrightarrow> F (h x)"
  shows "access_ends Q F (EXC_LOAD E h x a f)"
proof -
  have e: "at4 (S + of_nat (j + 4)) = 0" using assms(2) at4_add [of "S + of_nat j" 4] by (simp add: add.assoc)
  have "(\<forall>i<4. readable E (a + of_nat i)) = readable E (S + of_nat j)"
  proof (rule all_same)
    fix i :: nat assume "i < 4"
    then show "readable E (a + of_nat i) = readable E (S + of_nat j)"
      using readable_word [OF assms(1) e, of "j + i" j] assms(6) by (simp add: add.assoc)
  qed simp
  then show ?thesis
    using access_word [OF assms(1) e, of j] assms(2,4-9) and_3_zero [of a]
    by (auto simp: EXC_LOAD_def access_ends_def)
qed

lemma LDFIRST_ends:
  assumes "copying E S D N k" and "at4 (S + of_nat e) = 0" and "e \<le> k + 4" and "j < e" and "e \<le> j + 4" and "j < N"
    and "a = S + of_nat j" and "x = (s, d, l, u, m)"
    and "min e N \<le> k \<Longrightarrow> access_ends Q F (f (ldfirst (big_endian E) m (old_reg E) (S + of_nat j)))"
    and "k \<le> j \<Longrightarrow> k < N \<Longrightarrow> F (h x)"
  shows "access_ends Q F (EXC_LDFIRST E h x a f)"
proof -
  have n: "unat (a AND 3) = 4 - (e - j)"
    using at4_back [of "S + of_nat j" "e - j"] assms(2,4,5,7) by (simp add: and_3 at4_def flip: of_nat_add)
  have "(\<forall>i < 4 - unat (a AND 3). readable E (a + of_nat i)) = readable E (S + of_nat j)"
  proof (rule all_same)
    fix i assume "i < 4 - unat (a AND 3)"
    then have "j + i < e" using n assms(4) by linarith
    then show "readable E (a + of_nat i) = readable E (S + of_nat j)"
      using readable_word [OF assms(1,2), of "j + i" j] assms(4,5,7) by (simp add: add.assoc)
  qed (use n assms(4) in simp)
  then show ?thesis
    using access_word [OF assms(1-6)] assms(7-10) by (auto simp: EXC_LDFIRST_def access_ends_def)
qed

lemma LDREST_ends:
  assumes "copying E S D N k" and "at4 (S + of_nat e) = 0" and "e \<le> k + 4" and "j < e" and "e \<le> j + 4" and "j < N" and "4 \<le> e"
    and "a = S + of_nat j" and "x = (s, d, l, u, m)"
    and "min e N \<le> k \<Longrightarrow> access_ends Q F (f (ldrest (big_endian E) m t (S + of_nat j)))"
    and "k \<le> j \<Longrightarrow> k < N \<Longrightarrow> F (h x)"
  shows "access_ends Q F (EXC_LDREST E h x t a f)"
proof -
  have n: "unat (a AND 3) = 4 - (e - j)"
    using at4_back [of "S + of_nat j" "e - j"] assms(2,4,5,8) by (simp add: and_3 at4_def flip: of_nat_add)
  have "(\<forall>i < Suc (unat (a AND 3)). readable E (a - of_nat i)) = readable E (S + of_nat j)"
  proof (rule all_same)
    fix i assume "i < Suc (unat (a AND 3))"
    then have i: "e \<le> j - i + 4" "i \<le> j" "j - i < e" using n assms(4,5,7) by linarith+
    have "a - of_nat i = S + of_nat (j - i)" using i(2) assms(8) by (simp add: of_nat_diff)
    then show "readable E (a - of_nat i) = readable E (S + of_nat j)"
      using readable_word [OF assms(1,2) i(3,1) assms(4,5)] by simp
  qed simp
  then show ?thesis
    using access_word [OF assms(1-6)] assms(8-11) by (auto simp: EXC_LDREST_def access_ends_def less_Suc_eq_le)
qed

lemma copied32_append:
  assumes "j + n \<le> 2 ^ 32" and "\<And>x. x < n \<Longrightarrow> img x = M (S + of_nat (j + x))"
  shows "store32 (D + of_nat j) n img (copied32 M D S j) = copied32 M D S (j + n)"
  unfolding copied32_def by (rule store32_append) (use assms in simp_all)

lemma STORE_ends:
  assumes "copying E S D N k" and "at4 (D + of_nat j) = 0" and "j + 4 \<le> N" and "v = source_word (big_endian E) M S j"
    and "a = D + of_nat j" and "x = (s, d, l, u, copied32 M D S j)"
    and "access_ends Q F (f (copied32 M D S (j + 4)))"
  shows "access_ends Q F (EXC_STORE E x v a f)"
proof -
  have "\<forall>i<4. writable E (a + of_nat i)"
  proof (intro allI impI)
    fix i :: nat assume "i < 4"
    moreover have "\<forall>j<N. writable E (D + of_nat j)" using assms(1) unfolding copying_def by blast
    ultimately have "writable E (D + of_nat (j + i))" using assms(3) by (simp del: of_nat_add)
    then show "writable E (a + of_nat i)" using assms(5) by (simp add: add.assoc)
  qed
  moreover have "store32 a 4 (word_byte (big_endian E) v) (copied32 M D S j) = copied32 M D S (j + 4)"
    unfolding assms(4,5) using assms(1,3)
    by (intro copied32_append) (auto simp: copying_def source_word_def word_byte_of_bytes)
  ultimately show ?thesis
    using assms(2,5-7) and_3_zero [of a] by (simp add: EXC_STORE_def)
qed

lemma copied_upd:
  assumes "i \<le> i'" and "i' < 2 ^ 32"
  shows "(copied32 M D S i')(D + of_nat i := M (S + of_nat i)) = copied32 M D S (max i' (i + 1))"
proof (cases "i = i'")
  case True
  then show ?thesis using copied32_append [of i 1 "\<lambda>j. M (S + of_nat i)" M S D] assms(2) by (simp add: store32_upd max_def)
next
  case False
  then have "max i' (i + 1) = i'" using assms(1) by simp
  then show ?thesis
    using store32_again [of i 1 i' "\<lambda>j. M (S + of_nat i)" "\<lambda>j. M (S + of_nat j)" D M] assms False
    by (simp add: store32_upd copied32_def)
qed

section \<open>The handlers\<close>

text \<open>
  What is left when byte \<open>k\<close> cannot be read: the bytes before it are copied, the error is stored, and the
  rest is zero, but for as many bytes at its end as had been taken one by one, from \<open>B\<close> on.
\<close>

definition fault_left ::
  "csum_env \<Rightarrow> u32 \<Rightarrow> u32 \<Rightarrow> nat \<Rightarrow> memory32 \<Rightarrow> nat \<Rightarrow> nat \<Rightarrow> (u32 \<times> memory32) option \<Rightarrow> bool" where
  "fault_left E S D N M k B r \<longleftrightarrow>
     (\<exists>v. r = Some (v, store32 (D + of_nat k) (N - k - (k - B)) (\<lambda>j. 0)
       (store32 (err_ptr E) 4 (word_byte (big_endian E) (- EFAULT)) (copied32 M D S k))))"

definition faults :: "csum_env \<Rightarrow> u32 \<Rightarrow> u32 \<Rightarrow> nat \<Rightarrow> memory32 \<Rightarrow> nat \<Rightarrow> nat \<Rightarrow> csum_exc \<Rightarrow> bool" where
  "faults E S D N M k B e \<longleftrightarrow> k < N \<and> fault_left E S D N M k B (after E (Inl e) (\<lambda>_ :: unit. None))"

lemma l_exc_eq:
  assumes "copying E S D N k" and "i + L \<le> N"
  shows "l_exc E (s, D + of_nat i, of_nat L, u, m) =
    Some (D + of_nat i, store32 (D + of_nat i) L (\<lambda>j. 0) (store32 (err_ptr E) 4 (word_byte (big_endian E) (- EFAULT)) m))"
proof -
  have c: "N < 2 ^ 31" "\<forall>j<N. writable E (D + of_nat j)" "err_ptr E AND 3 = 0" "\<forall>j<4. writable E (err_ptr E + of_nat j)"
    using assms(1) unfolding copying_def by blast+
  have "unat (of_nat L :: u32) = L" using c(1) assms(2) by (simp add: unat_of_nat)
  moreover have "\<forall>j<L. writable E (D + of_nat i + of_nat j)"
  proof (intro allI impI)
    fix j assume "j < L"
    then show "writable E (D + of_nat i + of_nat j)" using c(2) [rule_format, of "i + j"] assms(2) by (simp add: add.assoc)
  qed
  ultimately show ?thesis using c(3,4) by (simp add: l_exc_def store_error_def)
qed

lemma l_exc_copy_run:
  assumes "copying E S D N k" and "k < N" and "i \<le> i'" and "i' \<le> k" and "0 < L" and "i + L \<le> N"
  shows "\<exists>s. l_exc_copy E (S + of_nat i, D + of_nat i, of_nat L, u, copied32 M D S i') =
    l_exc E (s, D + of_nat (i + min L (k - i)), of_nat (L - min L (k - i)), u, copied32 M D S (max i' (i + min L (k - i))))"
  using assms(3-6)
proof (induction L arbitrary: i i')
  case (Suc L)
  have c: "N < 2 ^ 31" "\<forall>j<N. writable E (D + of_nat j)" "\<forall>j<k. readable E (S + of_nat j)" "\<not> readable E (S + of_nat k)"
    using assms(1,2) unfolding copying_def by blast+
  show ?case
  proof (cases "i = k")
    case True
    then show ?thesis using c(4) Suc.prems by (subst l_exc_copy.simps) (auto simp: max_def)
  next
    case False
    then have i: "i < k" using Suc.prems by simp
    have kept: "copied32 M D S i' (S + of_nat i) = M (S + of_nat i)"
      using copied_source_kept [OF assms(1), of i' M] Suc.prems i assms(2) by (auto simp: source_kept_def)
    have upd: "(copied32 M D S i')(D + of_nat i := M (S + of_nat i)) = copied32 M D S (max i' (i + 1))"
      by (rule copied_upd) (use Suc.prems assms(2) c(1) in auto)
    have l: "of_nat (Suc L) - 1 = (of_nat L :: u32)" "(of_nat L :: u32) = 0 \<longleftrightarrow> L = 0"
      using of_nat_eq32 [of L 0] c(1) Suc.prems by auto
    have one: "l_exc_copy E (S + of_nat i, D + of_nat i, of_nat (Suc L), u, copied32 M D S i') =
        (if L \<noteq> 0 then l_exc_copy E (S + of_nat (i + 1), D + of_nat (i + 1), of_nat L, u, copied32 M D S (max i' (i + 1)))
         else l_exc E (S + of_nat (i + 1), D + of_nat (i + 1), of_nat L, u, copied32 M D S (max i' (i + 1))))"
      using c(2,3) i assms(2) l by (subst l_exc_copy.simps) (simp add: kept upd Let_def add_ac)
    show ?thesis
    proof (cases "L = 0")
      case True
      then show ?thesis using one i by auto
    next
      case L: False
      have q: "i + 1 + min L (k - (i + 1)) = i + min (Suc L) (k - i)"
        "L - min L (k - (i + 1)) = Suc L - min (Suc L) (k - i)" using i by auto
      have t: "max (max i' (i + 1)) (i + min (Suc L) (k - i)) = max i' (i + min (Suc L) (k - i))"
        using i by auto
      have "\<exists>s. l_exc_copy E (S + of_nat (i + 1), D + of_nat (i + 1), of_nat L, u, copied32 M D S (max i' (i + 1))) =
          l_exc E (s, D + of_nat (i + 1 + min L (k - (i + 1))), of_nat (L - min L (k - (i + 1))), u,
            copied32 M D S (max (max i' (i + 1)) (i + 1 + min L (k - (i + 1)))))"
        by (rule Suc.IH) (use Suc.prems i L in auto)
      with one L show ?thesis unfolding q t by (simp only: not_False_eq_True if_True)
    qed
  qed
qed simp

lemma L_exc_faults:
  assumes "copying E S D N k" and "k = i" and "k < N" and "k \<le> B"
  shows "faults E S D N M k B (L_exc (s, D + of_nat i, of_nat (N - i), u, copied32 M D S i))"
  using assms l_exc_eq [OF assms(1), of k "N - k"] by (simp add: faults_def fault_left_def after_def)

lemma L_exc_copy_faults:
  assumes "copying E S D N k" and "k < N" and "k \<le> B" and "i \<le> i'" and "i' \<le> k"
  shows "faults E S D N M k B (L_exc_copy (S + of_nat i, D + of_nat i, of_nat (N - i), u, copied32 M D S i'))"
proof -
  have m: "min (N - i) (k - i) = k - i" "i + (k - i) = k" "N - i - (k - i) = N - k" "max i' k = k"
    using assms by auto
  obtain s where "l_exc_copy E (S + of_nat i, D + of_nat i, of_nat (N - i), u, copied32 M D S i') =
      l_exc E (s, D + of_nat k, of_nat (N - k), u, copied32 M D S k)"
    using l_exc_copy_run [OF assms(1,2,4,5), of "N - i" u M] assms unfolding m by auto
  then show ?thesis
    using assms l_exc_eq [OF assms(1), of k "N - k"] by (simp add: faults_def fault_left_def after_def)
qed

text \<open>In the tail, \<open>len\<close> has been counted down by the bytes taken when the handler starts over.\<close>

lemma tail_faults:
  assumes "copying E S D N k" and "k < N" and "B \<le> k"
  shows "faults E S D N M k B (L_exc_copy (S + of_nat B, D + of_nat B, of_nat (N - k), u, copied32 M D S k))"
proof -
  let ?q = "min (N - k) (k - B)"
  have l: "0 < N - k" "B + (N - k) \<le> N" using assms(2,3) by auto
  have "\<exists>s. l_exc_copy E (S + of_nat B, D + of_nat B, of_nat (N - k), u, copied32 M D S k) =
      l_exc E (s, D + of_nat (B + ?q), of_nat (N - k - ?q), u, copied32 M D S (max k (B + ?q)))"
    by (rule l_exc_copy_run [OF assms(1,2,3) order.refl l])
  then obtain s where s: "l_exc_copy E (S + of_nat B, D + of_nat B, of_nat (N - k), u, copied32 M D S k) =
      l_exc E (s, D + of_nat (B + ?q), of_nat (N - k - ?q), u, copied32 M D S (max k (B + ?q)))" ..
  have x: "max k (B + ?q) = k" "B + ?q + (N - k - ?q) \<le> N" using assms(2,3) by auto
  have "store32 (D + of_nat (B + ?q)) (N - k - ?q) (\<lambda>j. 0) m = store32 (D + of_nat k) (N - k - (k - B)) (\<lambda>j. 0) m" for m
  proof (cases "k - B \<le> N - k")
    case True
    then have "B + ?q = k" "?q = k - B" using assms(3) by auto
    then show ?thesis by simp
  next
    case False
    then have "N - k - ?q = 0" "N - k - (k - B) = 0" by auto
    then show ?thesis by (simp add: store32_def)
  qed
  then show ?thesis
    using assms(2) s l_exc_eq [OF assms(1) x(2)] by (simp add: faults_def fault_left_def after_def x(1))
qed

section \<open>Sums with their carries\<close>

definition total2 :: "u32 \<times> u32 \<Rightarrow> nat" where
  "total2 x = unat (fst x) + 2 ^ 32 * unat (snd x)"

definition acc2 :: "u32 \<times> u32 \<Rightarrow> u32 \<Rightarrow> u32 \<times> u32" where
  "acc2 x t = (fst x + t, snd x + sltu (fst x + t) t)"

definition total :: "sums \<Rightarrow> nat" where
  "total s = (let (sum0, sum1, carry0, carry1) = s in total2 (sum0, carry0) + total2 (sum1, carry1))"

lemma unat32: "unat (x :: u32) < 2 ^ 32"
  using unsigned_less [where 'a = nat and w = x] by simp

lemma sltu_exact: "unat (x + y) + 2 ^ 32 * unat (sltu (x + y) y) = unat x + unat y"
proof (cases "unat x + unat y < 2 ^ 32")
  case True
  then show ?thesis by (simp add: unat_sum sltu_def word_less_nat_alt)
next
  case False
  then have "unat (x + y) = unat x + unat y - 2 ^ 32"
    using unat32 [of x] unat32 [of y] by (simp add: unat_word_ariths le_mod_geq)
  then show ?thesis using False unat32 [of x] unat32 [of y] by (simp add: sltu_def word_less_nat_alt)
qed

lemma acc2_total:
  assumes "total2 x < 2 ^ 32 * (2 ^ 32 - 1)"
  shows "total2 (acc2 x t) = total2 x + unat t"
proof -
  have "2 ^ 32 * unat (snd x) < 2 ^ 32 * (2 ^ 32 - 1)" using assms unfolding total2_def by linarith
  then have "unat (snd x) < 2 ^ 32 - 1" by (simp only: nat_mult_less_cancel_disj)
  moreover have "unat (sltu (fst x + t) t) \<le> 1" by (simp add: sltu_def)
  ultimately have "unat (snd x + sltu (fst x + t) t) = unat (snd x) + unat (sltu (fst x + t) t)"
    by (subst unat_sum) auto
  then show ?thesis using sltu_exact [of "fst x" t] by (simp add: total2_def acc2_def)
qed

lemma accs_total:
  "total2 x + 2 ^ 32 * length ts \<le> 2 ^ 32 * (2 ^ 32 - 1) \<Longrightarrow> total2 (foldl acc2 x ts) = total2 x + sum_list (map unat ts)"
proof (induction ts arbitrary: x)
  case (Cons t ts)
  have "total2 (acc2 x t) = total2 x + unat t" by (rule acc2_total) (use Cons.prems in simp)
  moreover have "total2 (acc2 x t) + 2 ^ 32 * length ts \<le> 2 ^ 32 * (2 ^ 32 - 1)"
    using calculation Cons.prems unat32 [of t] by simp
  ultimately show ?case using Cons.IH [of "acc2 x t"] by simp
qed simp

lemma finish_mod:
  assumes "unat carry0 + unat carry1 + 1 < 2 ^ 32"
  shows "unat (csum_finish 0 (sum0, sum1, carry0, carry1)) mod 65535 = total (sum0, sum1, carry0, carry1) mod 65535"
proof -
  define a where "a = sum0 + sum1"
  define c where "c = carry0 + carry1 + sltu a sum1"
  define b where "b = a + c"
  have l: "unat (sltu x y) \<le> 1" for x y by (simp add: sltu_def)
  have c: "unat c = unat carry0 + unat carry1 + unat (sltu a sum1)"
    unfolding c_def using assms l [of a sum1] by (subst unat_sum; subst unat_sum) auto
  have r: "unat (b + sltu b c) = unat b + unat (sltu b c)"
  proof (rule unat_sum)
    show "unat b + unat (sltu b c) < 2 ^ 32"
      using unat32 [of b] unat32 [of c] by (auto simp: sltu_def word_less_nat_alt)
  qed
  have "total (sum0, sum1, carry0, carry1) = unat (b + sltu b c) +
      65535 * (65537 * (unat carry0 + unat carry1 + unat (sltu a sum1) + unat (sltu b c)))"
    using sltu_exact [of sum0 sum1] sltu_exact [of a c] c r
    unfolding a_def [symmetric] b_def [symmetric] by (simp add: total_def total2_def)
  moreover have "csum_finish 0 (sum0, sum1, carry0, carry1) = b + sltu b c"
    by (simp add: csum_finish_def Let_def a_def b_def c_def)
  ultimately show ?thesis by (simp only: mod_mult_self2)
qed

lemma finish_swap: "byteswap \<noteq> 0 \<Longrightarrow> csum_finish byteswap s = final_swap (csum_finish 0 s)"
  by (simp add: csum_finish_def final_swap_def Let_def split: prod.split)

section \<open>Words of the source\<close>

lemma LOAD_word:
  assumes "copying E S D N k" and "at4 (S + of_nat j) = 0" and "i \<le> N" and "j \<le> k" and "j + 4 \<le> N"
    and "a = S + of_nat j" and "x = (s, d, l, u, copied32 M D S i)"
    and "j + 4 \<le> k \<Longrightarrow> access_ends Q F (f (source_word (big_endian E) M S j))"
    and "k = j \<Longrightarrow> k < N \<Longrightarrow> F (h x)"
  shows "access_ends Q F (EXC_LOAD E h x a f)"
  using copied_source_kept [OF assms(1,3), of M] assms
  by (intro LOAD_ends [OF assms(1,2)]) (auto simp: lw_source)

lemma LDREST_word:
  assumes "copying E S D N k" and "at4 (S + of_nat e) = 0" and "e \<le> k + 4" and "j + 3 < e" and "e \<le> j + 7" and "j + 4 \<le> N"
    and "i \<le> N" and "i' \<le> N" and "t = ldfirst (big_endian E) (copied32 M D S i') r (S + of_nat j)"
    and "a = S + of_nat (j + 3)" and "x = (s, d, l, u, copied32 M D S i)"
    and "min e N \<le> k \<Longrightarrow> access_ends Q F (f (source_word (big_endian E) M S j))"
    and "k \<le> j + 3 \<Longrightarrow> k < N \<Longrightarrow> F (h x)"
  shows "access_ends Q F (EXC_LDREST E h x t a f)"
proof (rule LDREST_ends [OF assms(1,2,3,4) _ _ _ assms(10,11)])
  show "min e N \<le> k \<Longrightarrow> access_ends Q F (f (ldrest (big_endian E) (copied32 M D S i) t (S + of_nat (j + 3))))"
    unfolding assms(9) unaligned_source [OF copied_source_kept [OF assms(1,7)] copied_source_kept [OF assms(1,8)] assms(6)]
    by (rule assms(12))
qed (use assms(4-6,13) in auto)

text \<open>The sum of a word is, modulo 65535, that of its bytes.\<close>

lemma source_word_mod:
  assumes "even q"
  shows "unat (source_word be M S j) mod 65535 = byte_sum be M q (S + of_nat j) 4 mod 65535"
proof -
  define b where "b x = unat (M (S + of_nat (j + x)))" for x
  have s: "byte_sum be M q (S + of_nat j) 4 = (if be then 256 * b 0 + b 1 + 256 * b 2 + b 3 else b 0 + 256 * b 1 + b 2 + 256 * b 3)"
  proof -
    have f: "{..<4 :: nat} = {0, 1, 2, 3}" by auto
    show ?thesis using assms unfolding byte_sum_def f by (simp add: b_def add_ac)
  qed
  have "unat (source_word be M S j) = byte_sum be M q (S + of_nat j) 4 +
      65535 * (if be then 256 * b 0 + b 1 + 256 * 0 else 256 * b 3 + b 2)"
    unfolding source_word_def of_word_bytes_unat s by (simp add: b_def)
  then show ?thesis by (simp only: mod_mult_self2)
qed

section \<open>The rounds\<close>

text \<open>The round has copied the \<open>n\<close> bytes from \<open>i\<close> on; \<open>ws\<close> and \<open>vs\<close> are the words added to the two sums.\<close>

definition round_done ::
  "csum_env \<Rightarrow> u32 \<Rightarrow> u32 \<Rightarrow> nat \<Rightarrow> memory32 \<Rightarrow> nat \<Rightarrow> nat \<Rightarrow> sums \<Rightarrow> u32 list \<Rightarrow> u32 list \<Rightarrow> copy_regs \<Rightarrow> bool" where
  "round_done E S D N M k i s ws vs x \<longleftrightarrow>
     (\<exists>sum0 sum1 carry0 carry1. x = (S + of_nat i, D + of_nat i, of_nat (N - i), (sum0, sum1, carry0, carry1), copied32 M D S i) \<and>
       i \<le> k \<and> (sum0, carry0) = foldl acc2 (fst s, fst (snd (snd s))) ws \<and>
       (sum1, carry1) = foldl acc2 (fst (snd s), snd (snd (snd s))) vs)"

lemma at4_offset: "at4 (a + of_nat i) = 0 \<Longrightarrow> n mod 4 = 0 \<Longrightarrow> at4 (a + of_nat (i + n)) = 0"
  using at4_add [of "a + of_nat i" n] by (auto simp: add.assoc)

text \<open>The rules for loads and stores at offset \<open>n\<close> from \<open>i\<close>, which \<open>intro\<close> applies along a round.\<close>

lemma LOAD_offset:
  assumes "copying E S D N k" and "at4 (S + of_nat i) = 0" and "n mod 4 = 0" and "a = S + of_nat (i + n)"
    and "m = copied32 M D S j" and "j \<le> N" and "i + n \<le> k" and "i + n + 4 \<le> N"
    and "k = i + n \<Longrightarrow> k < N \<Longrightarrow> F (h (s, d, l, u, m))"
    and "i + n + 4 \<le> k \<Longrightarrow> access_ends Q F (f (source_word (big_endian E) M S (i + n)))"
  shows "access_ends Q F (EXC_LOAD E h (s, d, l, u, m) a f)"
  by (rule LOAD_word [OF assms(1) at4_offset [OF assms(2,3)] assms(6-8)]) (use assms in auto)

lemma STORE_offset:
  assumes "copying E S D N k" and "at4 (D + of_nat i) = 0" and "n mod 4 = 0" and "a = D + of_nat (i + n)"
    and "m = copied32 M D S (i + n)" and "i + n + 4 \<le> N" and "v = source_word (big_endian E) M S (i + n)"
    and "access_ends Q F (f (copied32 M D S (i + n + 4)))"
  shows "access_ends Q F (EXC_STORE E (s, d, l, u, m) v a f)"
  by (rule STORE_ends [OF assms(1) at4_offset [OF assms(2,3)] assms(6,7)]) (use assms in auto)

lemma csum_round_ends:
  assumes c: "copying E S D N k" and al: "at4 (S + of_nat i) = 0" "at4 (D + of_nat i) = 0"
    and b: "i + 32 \<le> N" "i \<le> k" "i + 32 \<le> B"
  shows "access_ends
    (round_done E S D N M k (i + 32) (s0, s1, c0, c1) (map (\<lambda>n. source_word (big_endian E) M S (i + n)) [0, 8, 16, 24])
      (map (\<lambda>n. source_word (big_endian E) M S (i + n)) [4, 12, 20, 28]))
    (faults E S D N M k B)
    (csum_round E (S + of_nat i, D + of_nat i, of_nat (N - i), (s0, s1, c0, c1), copied32 M D S i))"
proof -
  let ?s = "S + of_nat i" and ?d = "D + of_nat i"
  note ld = LOAD_offset [OF c al(1), where M = M] and st = STORE_offset [OF c al(2), where M = M]
  note lds = ld [of 0 "?s" _ "i"] ld [of 4 "?s + 4" _ "i"] ld [of 8 "?s + 8" _ "i"] ld [of 12 "?s + 12" _ "i"] 
    ld [of 16 "?s + 16" _ "i + 16"] ld [of 20 "?s + 20" _ "i + 16"] ld [of 24 "?s + 24" _ "i + 16"] ld [of 28 "?s + 28" _ "i + 16"]
  note sts = st [of 0 "?d"] st [of 4 "?d + 4"] st [of 8 "?d + 8"] st [of 12 "?d + 12"] 
    st [of 16 "?d + 32 - 16"] st [of 20 "?d + 32 - 12"] st [of 24 "?d + 32 - 8"] st [of 28 "?d + 32 - 4"]
  show ?thesis
    unfolding csum_round_def Let_def prod.case
    apply (intro lds sts access_ends_Inr L_exc_faults [OF c] L_exc_copy_faults [OF c])
    using b by (simp_all add: add.commute [of _ i] round_done_def acc2_def)
qed

lemma LDFIRST_offset:
  assumes "copying E S D N k" and "at4 (S + of_nat (i + al)) = 0" and "0 < al" and "al < 4" and "n mod 4 = 0" and "a = S + of_nat (i + n)"
    and "m = copied32 M D S j" and "i + n + al \<le> k + 4" and "i + n + 4 \<le> N"
    and "k \<le> i + n \<Longrightarrow> k < N \<Longrightarrow> F (h (s, d, l, u, m))"
    and "i + n + al \<le> k \<Longrightarrow>
      access_ends Q F (f (ldfirst (big_endian E) (copied32 M D S j) (old_reg E) (S + of_nat (i + n))))"
  shows "access_ends Q F (EXC_LDFIRST E h (s, d, l, u, m) a f)"
proof (rule LDFIRST_ends [OF assms(1) _ assms(8) _ _ _ assms(6) refl])
  show "at4 (S + of_nat (i + n + al)) = 0"
    using at4_offset [OF assms(2,5)] by (simp add: add_ac)
qed (use assms in auto)

lemma LDREST_offset:
  assumes "copying E S D N k" and "at4 (S + of_nat (i + al)) = 0" and "0 < al" and "al < 4" and "n mod 4 = 0"
    and "a = S + of_nat (i + n + 3)" and "t = ldfirst (big_endian E) (copied32 M D S j') r (S + of_nat (i + n))"
    and "m = copied32 M D S j" and "j \<le> N" and "j' \<le> N" and "i + n + al \<le> k" and "i + n + 4 \<le> N"
    and "k \<le> i + n + 3 \<Longrightarrow> k < N \<Longrightarrow> F (h (s, d, l, u, m))"
    and "i + n + 4 \<le> k \<Longrightarrow> i + n + 4 < N \<longrightarrow> i + n + 4 < k \<Longrightarrow> access_ends Q F (f (source_word (big_endian E) M S (i + n)))"
  shows "access_ends Q F (EXC_LDREST E h (s, d, l, u, m) t a f)"
proof (rule LDREST_word [OF assms(1) _ _ _ _ assms(12,9,10,7,6)])
  show "at4 (S + of_nat (i + n + 4 + al)) = 0"
    using at4_offset [OF assms(2), of "n + 4"] assms(5) by (simp add: add_ac)
  show "access_ends Q F (f (source_word (big_endian E) M S (i + n)))" if "min (i + n + 4 + al) N \<le> k"
    by (rule assms(14)) (use that assms(3,12) in \<open>auto simp: min_le_iff_disj\<close>)
qed (use assms in auto)

lemma PLAIN_LDFIRST_offset:
  assumes "copying E S D N k" and "at4 (S + of_nat (i + al)) = 0" and "0 < al" and "al < 4" and "n mod 4 = 0" and "a = S + of_nat (i + n)"
    and "m = copied32 M D S j" and "i + n < k" and "i + n + 4 \<le> N"
    and "i + n + al \<le> k \<Longrightarrow>
      access_ends Q F (f (ldfirst (big_endian E) (copied32 M D S j) (old_reg E) (S + of_nat (i + n))))"
  shows "access_ends Q F (PLAIN_LDFIRST E (s, d, l, u, m) a f)"
  unfolding PLAIN_LDFIRST_def
  by (rule LDFIRST_offset [OF assms(1-7)]) (use assms(4,8-) in auto)

lemma PLAIN_LDREST_offset:
  assumes "copying E S D N k" and "at4 (S + of_nat (i + al)) = 0" and "0 < al" and "al < 4" and "n mod 4 = 0"
    and "a = S + of_nat (i + n + 3)" and "t = ldfirst (big_endian E) (copied32 M D S j') r (S + of_nat (i + n))"
    and "m = copied32 M D S j" and "j \<le> N" and "j' \<le> N" and "i + n + 4 \<le> N" and "i + n + al \<le> k" and "i + n + 3 < k"
    and "access_ends Q F (f (source_word (big_endian E) M S (i + n)))"
  shows "access_ends Q F (PLAIN_LDREST E (s, d, l, u, m) t a f)"
  unfolding PLAIN_LDREST_def
  by (rule LDREST_offset [OF assms(1-10)]) (use assms(11-) in auto)

definition unaligned_done ::
  "csum_env \<Rightarrow> u32 \<Rightarrow> u32 \<Rightarrow> nat \<Rightarrow> memory32 \<Rightarrow> nat \<Rightarrow> nat \<Rightarrow> u32 \<Rightarrow> sums \<Rightarrow> u32 list \<Rightarrow> u32 list \<Rightarrow> unaligned_regs \<Rightarrow> bool" where
  "unaligned_done E S D N M k i c3 s ws vs x \<longleftrightarrow>
     (\<exists>d3 sum0 sum1 carry0 carry1.
       x = (d3, S + of_nat i, D + of_nat i, of_nat (N - i), (sum0, sum1, carry0, carry1), copied32 M D S i) \<and>
       i \<le> k \<and> (sum0, carry0) = foldl acc2 (fst s, fst (snd (snd s))) ws \<and>
       (sum1, carry1 + d3) = foldl acc2 (fst (snd s), snd (snd (snd s)) + c3) vs)"

lemma csum_unaligned_round_ends:
  assumes c: "copying E S D N k" and al: "at4 (S + of_nat (i + al)) = 0" "0 < al" "al < 4" "at4 (D + of_nat i) = 0"
    and b: "i + 32 \<le> N" "i \<le> k" "i + 32 \<le> B"
  shows "access_ends
    (unaligned_done E S D N M k (i + 32) c3 (s0, s1, c0, c1) (map (\<lambda>n. source_word (big_endian E) M S (i + n)) [0, 8, 16, 24])
      (map (\<lambda>n. source_word (big_endian E) M S (i + n)) [4, 12, 20, 28]))
    (faults E S D N M k B)
    (csum_unaligned_round E (c3, S + of_nat i, D + of_nat i, of_nat (N - i), (s0, s1, c0, c1), copied32 M D S i))"
proof -
  let ?s = "S + of_nat i" and ?d = "D + of_nat i"
  note lf = LDFIRST_offset [OF c al(1-3), where M = M] and lr = LDREST_offset [OF c al(1-3), where M = M]
    and pf = PLAIN_LDFIRST_offset [OF c al(1-3), where M = M] and pr = PLAIN_LDREST_offset [OF c al(1-3), where M = M]
    and st = STORE_offset [OF c al(4), where M = M]
  note lds = lf [of 0 "?s" _ "i"] pr [of 0 "?s + 3" _ "i" _ _ "i"] lf [of 4 "?s + 4" _ "i"]
    lr [of 4 "?s + 7" _ "i" _ _ "i"] pf [of 8 "?s + 8" _ "i"] pr [of 8 "?s + 11" _ "i" _ _ "i"]
    lf [of 12 "?s + 12" _ "i"] lr [of 12 "?s + 15" _ "i" _ _ "i"] pf [of 16 "?s + 16" _ "i + 8"]
    pr [of 16 "?s + 19" _ "i + 8" _ _ "i + 16"] lf [of 20 "?s + 20" _ "i + 8"] lr [of 20 "?s + 23" _ "i + 8" _ _ "i + 16"]
    pf [of 24 "?s + 24" _ "i + 16"] pr [of 24 "?s + 27" _ "i + 16" _ _ "i + 16"] lf [of 28 "?s + 28" _ "i + 16"]
    lr [of 28 "?s + 31" _ "i + 16" _ _ "i + 16"]
  note sts = st [of 0 "?d"] st [of 4 "?d + 4"] st [of 8 "?d + 8"]
    st [of 12 "?d + 12"] st [of 16 "?d + 16"] st [of 20 "?d + 20"]
    st [of 24 "?d + 32 - 8"] st [of 28 "?d + 32 - 4"]
  show ?thesis
    unfolding csum_unaligned_round_def Let_def prod.case
    apply (intro lds sts access_ends_Inr L_exc_faults [OF c] L_exc_copy_faults [OF c])
    using b al by (simp_all add: add.commute [of _ i] unaligned_done_def acc2_def)
qed

text \<open>The loops of one word.\<close>

lemma csum_unit_ends:
  assumes c: "copying E S D N k" and al: "at4 (S + of_nat i) = 0" "at4 (D + of_nat i) = 0"
    and b: "i + 4 \<le> N" "i \<le> k" "i + 4 \<le> B"
  shows "access_ends (round_done E S D N M k (i + 4) (s0, s1, c0, c1) [source_word (big_endian E) M S i] [])
    (faults E S D N M k B)
    (csum_unit E (S + of_nat i, D + of_nat i, of_nat (N - i), (s0, s1, c0, c1), copied32 M D S i))"
proof -
  note rules = LOAD_offset [OF c al(1), where M = M, of 0 "S + of_nat i" _ i]
    STORE_offset [OF c al(2), where M = M, of 0 "D + of_nat i + 4 - 4"]
  show ?thesis
    unfolding csum_unit_def Let_def prod.case
    apply (intro rules access_ends_Inr L_exc_faults [OF c])
    using b by (simp_all add: round_done_def acc2_def)
qed

lemma csum_unaligned_unit_ends:
  assumes c: "copying E S D N k" and al: "at4 (S + of_nat (i + al)) = 0" "0 < al" "al < 4" "at4 (D + of_nat i) = 0"
    and b: "i + 4 \<le> N" "i \<le> k" "i + 4 \<le> B"
  shows "access_ends (round_done E S D N M k (i + 4) (s0, s1, c0, c1) [source_word (big_endian E) M S i] [])
    (faults E S D N M k B)
    (csum_unaligned_unit E (S + of_nat i, D + of_nat i, of_nat (N - i), (s0, s1, c0, c1), copied32 M D S i))"
proof -
  let ?s = "S + of_nat i"
  note rules = LDFIRST_offset [OF c al(1-3), where M = M, of 0 "?s" _ i]
    LDREST_offset [OF c al(1-3), where M = M, of 0 "?s + 3" _ i _ _ i]
    STORE_offset [OF c al(4), where M = M, of 0 "D + of_nat i + 4 - 4"]
  show ?thesis
    unfolding csum_unaligned_unit_def Let_def prod.case
    apply (intro rules access_ends_Inr L_exc_faults [OF c] L_exc_copy_faults [OF c])
    using b al by (simp_all add: round_done_def acc2_def)
qed

section \<open>The loops\<close>

lemma loop_ends:
  assumes body: "\<And>x i. P i x \<Longrightarrow> i + w \<le> lim \<Longrightarrow> access_ends (P (i + w)) F (body x)"
    and len: "\<And>x i. P i x \<Longrightarrow> get_len x = of_nat (N - i)"
    and "lim \<le> N" and "N < 2 ^ 32" and "0 < w" and "0 < q" and "P i x" and "i + w * q = lim"
  shows "\<exists>r. csum_loop get_len body (of_nat (N - lim)) x = Some r \<and> access_ends (P lim) F r"
  using assms(6-8)
proof (induction q arbitrary: i x)
  case (Suc q)
  have e: "access_ends (P (i + w)) F (body x)" by (rule body) (use Suc.prems in auto)
  show ?case
  proof (cases "body x")
    case (Inl e)
    then show ?thesis using e by (subst csum_loop.simps) (simp add: access_ends_def)
  next
    case (Inr y)
    then have y: "P (i + w) y" using e by (simp add: access_ends_def)
    have "get_len y = of_nat (N - lim) \<longleftrightarrow> i + w = lim"
      unfolding len [OF y] using Suc.prems(3) assms(3-5) by (subst of_nat_eq32; cases q) auto
    then have "csum_loop get_len body (of_nat (N - lim)) x =
        (if i + w \<noteq> lim then csum_loop get_len body (of_nat (N - lim)) y else Some (Inr y))"
      using Inr by (subst csum_loop.simps) simp
    moreover have "q = 0 \<longleftrightarrow> i + w = lim" using Suc.prems(3) assms(5) by auto
    ultimately show ?thesis
      using Suc.IH [OF _ y] Suc.prems(3) y by (cases "q = 0") (auto simp: access_ends_def)
  qed
qed simp

section \<open>The invariant\<close>

definition copied_to :: "bool \<Rightarrow> memory32 \<Rightarrow> u32 \<Rightarrow> nat \<Rightarrow> nat \<Rightarrow> nat \<Rightarrow> sums \<Rightarrow> bool" where
  "copied_to be M S p P i s \<longleftrightarrow>
     total s \<le> 2 ^ 32 * (i + 1) \<and> total s mod 65535 = (P + byte_sum be M p S i) mod 65535"

lemma copied_to_step:
  assumes "copied_to be M S p P i s" and "total s' = total s + t" and "t \<le> 2 ^ 32 * n"
    and "t mod 65535 = byte_sum be M (p + i) (S + of_nat i) n mod 65535"
  shows "copied_to be M S p P (i + n) s'"
proof -
  have "(total s + t) mod 65535 = (P + byte_sum be M p S i + byte_sum be M (p + i) (S + of_nat i) n) mod 65535"
    using assms(1,4) by (intro mod_add_cong) (simp_all add: copied_to_def)
  then show ?thesis
    using assms(1,2,3) by (simp add: copied_to_def byte_sum_append add.assoc algebra_simps)
qed

lemma words_mod:
  assumes "even q"
  shows "(\<Sum>j<n. unat (source_word be M S (i + 4 * j))) mod 65535 = byte_sum be M q (S + of_nat i) (4 * n) mod 65535"
proof (induction n)
  case (Suc n)
  have "byte_sum be M q (S + of_nat i) (4 * Suc n) =
      byte_sum be M q (S + of_nat i) (4 * n) + byte_sum be M (q + 4 * n) (S + of_nat (i + 4 * n)) 4"
    using byte_sum_append [of be M q "S + of_nat i" "4 * n" 4] by (simp add: add_ac)
  moreover have "unat (source_word be M S (i + 4 * n)) mod 65535 = byte_sum be M (q + 4 * n) (S + of_nat (i + 4 * n)) 4 mod 65535"
    by (rule source_word_mod) (use assms in simp)
  ultimately show ?case using mod_add_cong [OF Suc] by (simp del: of_nat_add)
qed (simp add: byte_sum_def)

lemma copied_to_words:
  assumes "copied_to be M S p P i s" and "even (p + i)"
    and "total s' = total s + (\<Sum>j<n. unat (source_word be M S (i + 4 * j)))"
  shows "copied_to be M S p P (i + 4 * n) s'"
proof (rule copied_to_step [OF assms(1,3)])
  have "(\<Sum>j<n. unat (source_word be M S (i + 4 * j))) \<le> (\<Sum>j<n. 2 ^ 32)"
    by (intro sum_mono) (use unat32 in \<open>auto intro: less_imp_le\<close>)
  also have "\<dots> \<le> 2 ^ 32 * (4 * n)" by simp
  finally show "(\<Sum>j<n. unat (source_word be M S (i + 4 * j))) \<le> 2 ^ 32 * (4 * n)" .
qed (rule words_mod [OF assms(2)])

text \<open>What the call returns: the copy and the sum, or what a fault leaves.\<close>

definition csum_result ::
  "csum_env \<Rightarrow> u32 \<Rightarrow> u32 \<Rightarrow> nat \<Rightarrow> memory32 \<Rightarrow> nat \<Rightarrow> nat \<Rightarrow> nat \<Rightarrow> (u32 \<times> memory32) option \<Rightarrow> bool" where
  "csum_result E S D N M k B G r \<longleftrightarrow>
     (k = N \<longrightarrow> (\<exists>v. r = Some (v, copied32 M D S N) \<and> unat v mod 65535 = G mod 65535)) \<and>
     (k < N \<longrightarrow> fault_left E S D N M k B r)"

lemma after_Inl: "after E (Inl e) f = after E (Inl e) g"
  by (simp add: after_def split: csum_exc.split)

lemma after_result:
  assumes "access_ends Q (faults E S D N M k B) r" and "\<And>y. Q y \<Longrightarrow> csum_result E S D N M k B G (f y)"
  shows "csum_result E S D N M k B G (after E r f)"
proof (cases r)
  case (Inl e)
  then have "after E r f = after E (Inl e) (\<lambda>_ :: unit. None)" by (simp add: after_Inl [of E e f "\<lambda>_. None"])
  then show ?thesis using assms(1) Inl by (simp add: access_ends_def faults_def csum_result_def)
next
  case (Inr y)
  then show ?thesis using assms by (simp add: access_ends_def after_def)
qed

text \<open>The sum of the whole buffer, \<open>T\<close>, is the one asked for, \<open>G\<close>, up to the final exchange of bytes.\<close>

definition swapped_goal :: "u32 \<Rightarrow> nat \<Rightarrow> nat \<Rightarrow> bool" where
  "swapped_goal byteswap T G \<longleftrightarrow> (if byteswap = 0 then T else 256 * T) mod 65535 = G mod 65535"

lemma finish_result:
  assumes "copying E S D N k" and "k = N" and "copied_to be M S p P N s"
    and "swapped_goal byteswap (P + byte_sum be M p S N) G"
  shows "csum_result E S D N M k B G (finish byteswap (s, copied32 M D S N))"
proof -
  obtain sum0 sum1 carry0 carry1 where s: "s = (sum0, sum1, carry0, carry1)" by (cases s) auto
  have "N < 2 ^ 31" using assms(1) unfolding copying_def by blast
  moreover have "2 ^ 32 * (unat carry0 + unat carry1) \<le> 2 ^ 32 * (N + 1)"
    using assms(3) by (simp add: s copied_to_def total_def total2_def)
  ultimately have "unat carry0 + unat carry1 + 1 < 2 ^ 32" by simp
  then have f: "unat (csum_finish 0 s) mod 65535 = (P + byte_sum be M p S N) mod 65535"
    using finish_mod assms(3) by (simp add: s copied_to_def)
  have "unat (csum_finish byteswap s) mod 65535 = G mod 65535"
  proof (cases "byteswap = 0")
    case True
    then show ?thesis using f assms(4) by (simp add: swapped_goal_def)
  next
    case False
    have "unat (csum_finish byteswap s) mod 65535 = (256 * (P + byte_sum be M p S N)) mod 65535"
      unfolding finish_swap [OF False] swap_mod by (rule mod_mult_cong [OF refl f])
    then show ?thesis using assms(4) False by (simp add: swapped_goal_def)
  qed
  then show ?thesis using assms(2) by (simp add: csum_result_def finish_def)
qed

section \<open>The tail, byte by byte\<close>

lemma SHIFT_CSUM:
  "SHIFT_EVEN_CSUM be t a c = acc2 (a, c) (if be then push_bit 8 t else t)"
  "SHIFT_ODD_CSUM be t a c = acc2 (a, c) (if be then t else push_bit 8 t)"
  by (simp_all add: SHIFT_EVEN_CSUM_def SHIFT_ODD_CSUM_def acc2_def Let_def)

lemma byte_value: "unat (push_bit 8 (lbu m a)) = 256 * unat (m a)" "unat (lbu m a) = unat (m a)"
  using two_bytes [of "m a" 0] by (simp_all add: lbu_def unat_ucast_byte)

lemma ucast_byte: "ucast (ucast b :: u32) = (b :: u8)"
  by (rule word_bit_ext) (simp add: bit_ucast_iff)

lemma total_acc2:
  assumes "copied_to be M S p P i (a0, a1, c0, c1)" and "i < 2 ^ 31"
  shows "total (fst (acc2 (a0, c0) t), a1, snd (acc2 (a0, c0) t), c1) = total (a0, a1, c0, c1) + unat t"
proof -
  have "total2 (a0, c0) \<le> 2 ^ 32 * (i + 1)" using assms(1) by (simp add: copied_to_def total_def)
  also have "\<dots> < 2 ^ 32 * (2 ^ 32 - 1)" using assms(2) by simp
  finally show ?thesis using acc2_total [of "(a0, c0)" t] by (simp add: total_def)
qed

lemma csum_bytes_ends:
  assumes c: "copying E S D N k" and ev: "even (p + b)"
    and "copied_to (big_endian E) M S p P (b + n) s" and "b + n < N" and "N \<le> b + 4" and "n \<le> 4" and "b + n \<le> k"
  shows "access_ends (\<lambda>(s', m'). m' = copied32 M D S N \<and> k = N \<and> copied_to (big_endian E) M S p P N s') (faults E S D N M k b)
    (csum_bytes E (S + of_nat b) (D + of_nat b) (of_nat (N - (b + n))) s (copied32 M D S (b + n)) [n..<4])"
  using assms(3-7)
proof (induction "4 - n" arbitrary: n s)
  case (Suc j)
  obtain a0 a1 c0 c1 where s: "s = (a0, a1, c0, c1)" by (cases s) auto
  have cc: "N < 2 ^ 31" "\<forall>j<N. writable E (D + of_nat j)" "\<forall>i<k. readable E (S + of_nat i)" "k < N \<longrightarrow> \<not> readable E (S + of_nat k)"
    using c unfolding copying_def by blast+
  have l: "[n..<4] = n # [Suc n..<4]" using Suc.hyps(2) by (simp add: upt_rec)
  let ?m = "copied32 M D S (b + n)" and ?i = "b + n"
  have ad: "S + of_nat b + of_nat n = S + of_nat ?i" "D + of_nat b + of_nat n = D + of_nat ?i" by (simp_all add: add.assoc)
  show ?case
  proof (cases "?i = k")
    case True
    then have "\<not> readable E (S + of_nat ?i)" using cc(4) Suc.prems(2) by simp
    then have e: "csum_bytes E (S + of_nat b) (D + of_nat b) (of_nat (N - ?i)) s ?m [n..<4] =
        Inl ((if n = 0 then L_exc else L_exc_copy) (S + of_nat b, D + of_nat b, of_nat (N - ?i), a0, ?m))"
      unfolding l s csum_bytes.simps ad EXC_LBU_def by simp
    show ?thesis
    proof (cases "n = 0")
      case n: True
      have "faults E S D N M k b (L_exc (S + of_nat b, D + of_nat b, of_nat (N - b), a0, copied32 M D S b))"
        by (rule L_exc_faults [OF c]) (use True n Suc.prems in auto)
      then show ?thesis using e n by (simp add: access_ends_def)
    next
      case False
      have "faults E S D N M k b (L_exc_copy (S + of_nat b, D + of_nat b, of_nat (N - k), a0, copied32 M D S k))"
        by (rule tail_faults [OF c]) (use True Suc.prems in auto)
      then show ?thesis using e False True by (simp add: access_ends_def)
    qed
  next
    case False
    then have i: "?i < k" using Suc.prems(5) by simp
    let ?t = "lbu ?m (S + of_nat ?i)"
    let ?w = "if even n = big_endian E then push_bit 8 ?t else ?t"
    let ?s = "(fst (acc2 (a0, c0) ?w), a1, snd (acc2 (a0, c0) ?w), c1)"
    have kept: "?m (S + of_nat ?i) = M (S + of_nat ?i)"
      using copied_source_kept [OF c, of ?i M] Suc.prems(2) by (auto simp: source_kept_def)
    have r: "readable E (S + of_nat ?i)" "writable E (D + of_nat ?i)" using cc(2,3) i Suc.prems(2) by (simp_all del: of_nat_add)
    have upd: "?m(D + of_nat ?i := ucast ?t) = copied32 M D S (Suc ?i)"
      using copied_upd [of ?i ?i M D S] cc(1) Suc.prems(2) by (simp add: lbu_def kept ucast_byte del: of_nat_add)
    have ct: "copied_to (big_endian E) M S p P (?i + 1) ?s"
    proof (rule copied_to_step [OF Suc.prems(1) [unfolded s]])
      show "total ?s = total (a0, a1, c0, c1) + unat ?w"
        by (rule total_acc2 [OF Suc.prems(1) [unfolded s]]) (use cc(1) Suc.prems(2) in simp)
      show "unat ?w \<le> 2 ^ 32 * 1" using unat32 [of ?w] by simp
      show "unat ?w mod 65535 = byte_sum (big_endian E) M (p + ?i) (S + of_nat ?i) 1 mod 65535"
        using ev by (auto simp: byte_sum_def byte_value kept simp del: of_nat_add)
    qed
    have z: "of_nat (N - ?i) - 1 = (of_nat (N - Suc ?i) :: u32)" using Suc.prems(2) by (simp add: of_nat_diff)
    have z0: "(of_nat (N - Suc ?i) :: u32) = 0 \<longleftrightarrow> N = Suc ?i"
      using of_nat_eq32 [of "N - Suc ?i" 0] cc(1) Suc.prems(2) by auto
    have e: "csum_bytes E (S + of_nat b) (D + of_nat b) (of_nat (N - ?i)) s ?m [n..<4] =
        (if N = Suc ?i then Inr (?s, copied32 M D S (Suc ?i))
         else csum_bytes E (S + of_nat b) (D + of_nat b) (of_nat (N - Suc ?i)) ?s (copied32 M D S (Suc ?i)) [Suc n..<4])"
      unfolding l s csum_bytes.simps ad EXC_LBU_def EXC_SB_def z SHIFT_CSUM
      using r upd z0 by (auto simp: Let_def split_def simp del: of_nat_add of_nat_diff)
    show ?thesis
    proof (cases "N = Suc ?i")
      case True
      then show ?thesis using e ct i c by (auto simp: access_ends_def copying_def)
    next
      case False
      then show ?thesis
        using e Suc.hyps(1) [of "Suc n" ?s] Suc.hyps(2) Suc.prems ct i by auto
    qed
  qed
qed simp

lemma copy_csum_bytes_result:
  assumes c: "copying E S D N k" and "even (p + b)" and "copied_to (big_endian E) M S p P b s" and "b < N" and "N \<le> b + 4" and "b \<le> k"
    and g: "swapped_goal byteswap (P + byte_sum (big_endian E) M p S N) G"
  shows "csum_result E S D N M k b G
    (copy_csum_bytes E byteswap (S + of_nat b) (D + of_nat b) (of_nat (N - b)) s (copied32 M D S b))"
  unfolding copy_csum_bytes_def
proof (rule after_result)
  have u: "[0, 1, 2, 3] = [0..<4 :: nat]" by (simp add: upt_rec)
  show "access_ends (\<lambda>(s', m'). m' = copied32 M D S N \<and> k = N \<and> copied_to (big_endian E) M S p P N s') (faults E S D N M k b)
      (csum_bytes E (S + of_nat b) (D + of_nat b) (of_nat (N - b)) s (copied32 M D S b) [0, 1, 2, 3])"
    using csum_bytes_ends [OF c assms(2), of M P 0 s] assms(3-6) unfolding u by simp
qed (use finish_result [OF c _ _ g] in auto)

lemma checklen_result:
  assumes c: "copying E S D N k" and "even (p + b)" and ct: "copied_to (big_endian E) M S p P b s" and "b \<le> N" and "N \<le> b + 4" and "b \<le> k"
    and g: "swapped_goal byteswap (P + byte_sum (big_endian E) M p S N) G"
  shows "csum_result E S D N M k b G
    (csum_bytes_checklen E byteswap (S + of_nat b) (D + of_nat b) (of_nat (N - b)) s (copied32 M D S b))"
proof (cases "b = N")
  case True
  then have "k = N" using c assms(6) by (auto simp: copying_def)
  then show ?thesis using True ct finish_result [OF c _ _ g, of s b] by (simp add: csum_bytes_checklen_def)
next
  case False
  moreover have "N < 2 ^ 31" using c by (simp add: copying_def)
  then have "(of_nat (N - b) :: u32) \<noteq> 0" using of_nat_eq32 [of "N - b" 0] False assms(4) by auto
  ultimately show ?thesis using copy_csum_bytes_result [OF assms(1-3) _ assms(5,6) g] assms(4) by (simp add: csum_bytes_checklen_def)
qed

section \<open>Parts of words\<close>

lemma word_eq_bytes:
  assumes "\<And>j. j < 4 \<Longrightarrow> word_byte be v j = word_byte be w j"
  shows "v = w"
proof (rule word_bit_ext)
  fix n :: nat assume n: "n < LENGTH(32)"
  let ?j = "if be then 3 - n div 8 else n div 8"
  have "?j < 4" "(if be then 3 - ?j else ?j) = n div 8" using n by auto
  then show "bit v n = bit w n"
    using arg_cong [OF assms [of ?j], of "\<lambda>b. bit b (n mod 8)"] by (simp add: bit_word_byte split: if_splits)
qed

lemma shift_count:
  assumes "q < 4"
  shows "SHIFT_DISCARD be v (of_nat (8 * q)) = (if be then drop_bit (8 * q) v else push_bit (8 * q) v)"
    and "UNSHIFT_DISCARD be v (of_nat (8 * q)) = (if be then push_bit (8 * q) v else drop_bit (8 * q) v)"
proof -
  have "q = 0 \<or> q = 1 \<or> q = 2 \<or> q = 3" using assms by auto
  then have n: "unat ((of_nat (8 * q) :: u32) AND 31) = 8 * q" by auto
  show "SHIFT_DISCARD be v (of_nat (8 * q)) = (if be then drop_bit (8 * q) v else push_bit (8 * q) v)"
    "UNSHIFT_DISCARD be v (of_nat (8 * q)) = (if be then push_bit (8 * q) v else drop_bit (8 * q) v)"
    unfolding SHIFT_DISCARD_def UNSHIFT_DISCARD_def n by (rule refl)+
qed

lemma bit_beyond: "\<not> bit v (32 + i)" "\<not> bit v (40 + i)" "\<not> bit v (48 + i)" for v :: u32
  using bit_imp_le_length [of v] by fastforce+

lemma shifted_byte:
  assumes "q < 4" and "j < 4"
  shows "word_byte True (drop_bit (8 * q) v) j = (if q \<le> j then word_byte True v (j - q) else 0)"
    and "word_byte False (push_bit (8 * q) v) j = (if q \<le> j then word_byte False v (j - q) else 0)"
    and "word_byte True (push_bit (8 * q) v) j = (if j + q < 4 then word_byte True v (j + q) else 0)"
    and "word_byte False (drop_bit (8 * q) v) j = (if j + q < 4 then word_byte False v (j + q) else 0)"
proof -
  have "q = 0 \<or> q = 1 \<or> q = 2 \<or> q = 3" "j = 0 \<or> j = 1 \<or> j = 2 \<or> j = 3" using assms by auto
  note c = this
  show "word_byte True (drop_bit (8 * q) v) j = (if q \<le> j then word_byte True v (j - q) else 0)"
    using c by (elim disjE; intro word_bit_ext; simp add: bit_word_byte bit_drop_bit_eq bit_beyond)
  show "word_byte False (push_bit (8 * q) v) j = (if q \<le> j then word_byte False v (j - q) else 0)"
    using c by (elim disjE; intro word_bit_ext; simp add: bit_word_byte bit_push_bit_iff bit_beyond)
  show "word_byte True (push_bit (8 * q) v) j = (if j + q < 4 then word_byte True v (j + q) else 0)"
    using c by (elim disjE; intro word_bit_ext; simp add: bit_word_byte bit_push_bit_iff bit_beyond)
  show "word_byte False (drop_bit (8 * q) v) j = (if j + q < 4 then word_byte False v (j + q) else 0)"
    using c by (elim disjE; intro word_bit_ext; simp add: bit_word_byte bit_drop_bit_eq bit_beyond)
qed

lemma SHIFT_DISCARD_byte:
  assumes "q < 4" and "j < 4"
  shows "word_byte be (SHIFT_DISCARD be v (of_nat (8 * q))) j = (if q \<le> j then word_byte be v (j - q) else 0)"
    and "word_byte be (UNSHIFT_DISCARD be v (of_nat (8 * q))) j = (if j + q < 4 then word_byte be v (j + q) else 0)"
  unfolding shift_count [OF assms(1)] by (cases be; simp only: if_True if_False shifted_byte [OF assms])+

lemma of_word_bytes_eq: "(\<And>j. j < 4 \<Longrightarrow> word_byte be v j = f j) \<Longrightarrow> v = of_word_bytes be f"
  by (rule word_eq_bytes [of be]) (simp add: word_byte_of_bytes)

lemma of_word_bytes_mod:
  "unat (of_word_bytes be f) mod 65535 =
     (if be then 256 * unat (f 0) + unat (f 1) + 256 * unat (f 2) + unat (f 3)
      else unat (f 0) + 256 * unat (f 1) + unat (f 2) + 256 * unat (f 3)) mod 65535"
proof -
  have "unat (of_word_bytes be f) =
      (if be then 256 * unat (f 0) + unat (f 1) + 256 * unat (f 2) + unat (f 3)
       else unat (f 0) + 256 * unat (f 1) + unat (f 2) + 256 * unat (f 3)) +
      65535 * (if be then 256 * unat (f 0) + unat (f 1) else 256 * unat (f 3) + unat (f 2))"
    unfolding of_word_bytes_unat by simp
  then show ?thesis by (simp only: mod_mult_self2)
qed

text \<open>The last \<open>n\<close> bytes of a word from byte \<open>q\<close> on, or the first \<open>n\<close>, with zeros for the others.\<close>

lemma part_mod:
  assumes "q + n = 4 \<or> q = 0" and "q + n \<le> 4" and "even r"
  shows "unat (of_word_bytes be (\<lambda>j. if q \<le> j \<and> j < q + n then m (a + of_nat (j - q)) else 0)) mod 65535 =
    byte_sum be m (r + q) a n mod 65535"
proof -
  let ?g = "\<lambda>j. if q \<le> j \<and> j < q + n then m (a + of_nat (j - q)) else 0"
  have l: "{..<2 :: nat} = {0, 1}" "{..<3 :: nat} = {0, 1, 2}" "{..<4 :: nat} = {0, 1, 2, 3}" by auto
  have "q = 0 \<and> n = 0 \<or> q = 0 \<and> n = 1 \<or> q = 0 \<and> n = 2 \<or> q = 0 \<and> n = 3 \<or> q = 0 \<and> n = 4 \<or>
      q = 1 \<and> n = 3 \<or> q = 2 \<and> n = 2 \<or> q = 3 \<and> n = 1 \<or> q = 4 \<and> n = 0"
  proof (cases "q = 0")
    case True
    then have "n = 0 \<or> n = 1 \<or> n = 2 \<or> n = 3 \<or> n = 4" using assms(2) by linarith
    then show ?thesis using True by simp
  next
    case False
    then have "n = 4 - q" "q = 1 \<or> q = 2 \<or> q = 3 \<or> q = 4" using assms(1,2) by linarith+
    then show ?thesis by auto
  qed
  then have "(if be then 256 * unat (?g 0) + unat (?g 1) + 256 * unat (?g 2) + unat (?g 3)
      else unat (?g 0) + 256 * unat (?g 1) + unat (?g 2) + 256 * unat (?g 3)) = byte_sum be m (r + q) a n"
    by (elim disjE conjE) (simp_all add: byte_sum_def l assms(3) add_ac cong: if_cong)
  then show ?thesis by (simp only: of_word_bytes_mod)
qed

end
