(* ===== verification/CsumUser.thy ===== *)
theory CsumUser
  imports CsumCorrect
begin

text \<open>
  That the \<open>csum_partial_copy_user\<close> of \<open>CsumCopy\<close> copies and sums its source, and what it leaves when the source
  cannot be read to its end: each round of a loop carries the invariant \<open>at_byte\<close> on or leaves for a handler, each
  label ends in \<open>csum_result\<close>, and the two theorems are its two cases.
\<close>

unbundle bit_operations_syntax

section \<open>The rounds\<close>

lemma acc2_bound: "copied_to be M S p P i s \<Longrightarrow> i < 2 ^ 31 \<Longrightarrow> total s < 2 ^ 63 + 2 ^ 32"
  by (simp add: copied_to_def)

lemma acc2_empty: "total2 (foldl acc2 x ts) = total2 x + sum_list (map unat ts)" if "total2 x < 2 ^ 63 + 2 ^ 32" "length ts \<le> 8"
  by (rule accs_total) (use that in simp)

lemma round_done_step:
  assumes "round_done E S D N M k i' s ws vs x" and "copied_to be M S p P i s" and "i < 2 ^ 31" and "length ws \<le> 8" and "length vs \<le> 8"
  shows "\<exists>s'. x = (S + of_nat i', D + of_nat i', of_nat (N - i'), s', copied32 M D S i') \<and> i' \<le> k \<and>
    total s' = total s + sum_list (map unat ws) + sum_list (map unat vs)"
proof -
  obtain a0 a1 c0 c1 where s: "s = (a0, a1, c0, c1)" by (cases s) auto
  obtain b0 b1 d0 d1 where x: "x = (S + of_nat i', D + of_nat i', of_nat (N - i'), (b0, b1, d0, d1), copied32 M D S i')"
    "i' \<le> k" "(b0, d0) = foldl acc2 (a0, c0) ws" "(b1, d1) = foldl acc2 (a1, c1) vs"
    using assms(1) by (auto simp: round_done_def s)
  have "total s < 2 ^ 63 + 2 ^ 32" by (rule acc2_bound [OF assms(2,3)])
  then have "total2 (b0, d0) = total2 (a0, c0) + sum_list (map unat ws)" "total2 (b1, d1) = total2 (a1, c1) + sum_list (map unat vs)"
    unfolding x(3,4) by (intro acc2_empty; use assms(4,5) in \<open>simp add: s total_def\<close>)+
  then show ?thesis using x(1,2) by (intro exI [of _ "(b0, b1, d0, d1)"]) (simp add: s total_def)
qed

lemma eight_words:
  "sum_list (map unat (map (\<lambda>n. w (i + n)) [0, 8, 16, 24])) + sum_list (map unat (map (\<lambda>n. w (i + n)) [4, 12, 20, 28])) =
   (\<Sum>j<8. unat (w (i + 4 * j :: nat) :: u32))"
proof -
  have "{..<8 :: nat} = {0, 1, 2, 3, 4, 5, 6, 7}" by auto
  then show ?thesis by simp
qed

text \<open>The state of the loops at byte \<open>i\<close>, with both buffers, or only the destination, on a word boundary.\<close>

definition at_byte ::
  "csum_env \<Rightarrow> u32 \<Rightarrow> u32 \<Rightarrow> nat \<Rightarrow> memory32 \<Rightarrow> nat \<Rightarrow> nat \<Rightarrow> nat \<Rightarrow> nat \<Rightarrow> copy_regs \<Rightarrow> bool" where
  "at_byte E S D N M k p P i x \<longleftrightarrow>
     (\<exists>s. x = (S + of_nat i, D + of_nat i, of_nat (N - i), s, copied32 M D S i) \<and> i \<le> k \<and> i \<le> N \<and>
       copied_to (big_endian E) M S p P i s \<and> at4 (D + of_nat i) = 0 \<and> even (p + i))"

lemma at_byte_round:
  assumes "round_done E S D N M k (i + 4 * n) s ws vs x" and "copied_to (big_endian E) M S p P i s"
    and "copying E S D N k" and "i + 4 * n \<le> N" and "at4 (D + of_nat i) = 0" and "even (p + i)" and "length ws \<le> 8" and "length vs \<le> 8"
    and "sum_list (map unat ws) + sum_list (map unat vs) = (\<Sum>j<n. unat (source_word (big_endian E) M S (i + 4 * j)))"
  shows "at_byte E S D N M k p P (i + 4 * n) x"
proof -
  have "i < 2 ^ 31" using assms(3,4) by (auto simp: copying_def)
  then obtain s' where s': "x = (S + of_nat (i + 4 * n), D + of_nat (i + 4 * n), of_nat (N - (i + 4 * n)), s', copied32 M D S (i + 4 * n))"
    "i + 4 * n \<le> k" "total s' = total s + sum_list (map unat ws) + sum_list (map unat vs)"
    using round_done_step [OF assms(1,2) _ assms(7,8)] by blast
  then have "copied_to (big_endian E) M S p P (i + 4 * n) s'"
    using copied_to_words [OF assms(2,6), of s' n] assms(9) by (simp add: add.assoc)
  moreover have "at4 (D + of_nat (i + 4 * n)) = 0" by (rule at4_offset [OF assms(5)]) simp
  moreover have "even (p + (i + 4 * n))" using assms(6) by (simp add: add.assoc [symmetric])
  ultimately show ?thesis using s'(1,2) assms(4) unfolding at_byte_def by blast
qed

lemma access_ends_mono: "access_ends Q F r \<Longrightarrow> (\<And>y. Q y \<Longrightarrow> Q' y) \<Longrightarrow> access_ends Q' F r"
  by (auto simp: access_ends_def split: sum.split)

lemma round_keeps:
  assumes c: "copying E S D N k" and x: "at_byte E S D N M k p P i x" and "at4 (S + of_nat i) = 0" and "i + 32 \<le> N" and "i + 32 \<le> B"
  shows "access_ends (at_byte E S D N M k p P (i + 32)) (faults E S D N M k B) (csum_round E x)"
proof -
  obtain a0 a1 c0 c1 where s: "x = (S + of_nat i, D + of_nat i, of_nat (N - i), (a0, a1, c0, c1), copied32 M D S i)"
    "i \<le> k" "copied_to (big_endian E) M S p P i (a0, a1, c0, c1)" "at4 (D + of_nat i) = 0" "even (p + i)"
    using x unfolding at_byte_def by auto
  show ?thesis
    unfolding s(1)
    by (rule access_ends_mono [OF csum_round_ends [OF c assms(3) s(4) assms(4) s(2) assms(5)]])
      (use at_byte_round [OF _ s(3) c _ s(4,5), of 8] assms(4) eight_words [of "source_word (big_endian E) M S" i] in auto)
qed

lemma unit_keeps:
  assumes c: "copying E S D N k" and x: "at_byte E S D N M k p P i x" and "at4 (S + of_nat i) = 0" and "i + 4 \<le> N" and "i + 4 \<le> B"
  shows "access_ends (at_byte E S D N M k p P (i + 4)) (faults E S D N M k B) (csum_unit E x)"
proof -
  obtain a0 a1 c0 c1 where s: "x = (S + of_nat i, D + of_nat i, of_nat (N - i), (a0, a1, c0, c1), copied32 M D S i)"
    "i \<le> k" "copied_to (big_endian E) M S p P i (a0, a1, c0, c1)" "at4 (D + of_nat i) = 0" "even (p + i)"
    using x unfolding at_byte_def by auto
  show ?thesis
    unfolding s(1)
    by (rule access_ends_mono [OF csum_unit_ends [OF c assms(3) s(4) assms(4) s(2) assms(5)]])
      (use at_byte_round [OF _ s(3) c _ s(4,5), of 1] assms(4) in auto)
qed

lemma unaligned_unit_keeps:
  assumes c: "copying E S D N k" and x: "at_byte E S D N M k p P i x" and al: "at4 (S + of_nat (i + al)) = 0" "0 < al" "al < 4"
    and "i + 4 \<le> N" and "i + 4 \<le> B"
  shows "access_ends (at_byte E S D N M k p P (i + 4)) (faults E S D N M k B) (csum_unaligned_unit E x)"
proof -
  obtain a0 a1 c0 c1 where s: "x = (S + of_nat i, D + of_nat i, of_nat (N - i), (a0, a1, c0, c1), copied32 M D S i)"
    "i \<le> k" "copied_to (big_endian E) M S p P i (a0, a1, c0, c1)" "at4 (D + of_nat i) = 0" "even (p + i)"
    using x unfolding at_byte_def by auto
  show ?thesis
    unfolding s(1)
    by (rule access_ends_mono [OF csum_unaligned_unit_ends [OF c al s(4) assms(6) s(2) assms(7)]])
      (use at_byte_round [OF _ s(3) c _ s(4,5), of 1] assms(6) in auto)
qed

text \<open>In the loop on an unaligned source the carry of the round before is still to be added.\<close>

definition at_byte_unaligned ::
  "csum_env \<Rightarrow> u32 \<Rightarrow> u32 \<Rightarrow> nat \<Rightarrow> memory32 \<Rightarrow> nat \<Rightarrow> nat \<Rightarrow> nat \<Rightarrow> nat \<Rightarrow> unaligned_regs \<Rightarrow> bool" where
  "at_byte_unaligned E S D N M k p P i x \<longleftrightarrow>
     (\<exists>c3 s d l a0 a1 c0 c1 m. x = (c3, s, d, l, (a0, a1, c0, c1), m) \<and> at_byte E S D N M k p P i (s, d, l, (a0, a1, c0, c1 + c3), m))"

lemma unaligned_round_keeps:
  assumes c: "copying E S D N k" and x: "at_byte_unaligned E S D N M k p P i x" and al: "at4 (S + of_nat (i + al)) = 0" "0 < al" "al < 4"
    and "i + 32 \<le> N" and "i + 32 \<le> B"
  shows "access_ends (at_byte_unaligned E S D N M k p P (i + 32)) (faults E S D N M k B) (csum_unaligned_round E x)"
proof -
  obtain c3 a0 a1 c0 c1 where s: "x = (c3, S + of_nat i, D + of_nat i, of_nat (N - i), (a0, a1, c0, c1), copied32 M D S i)"
    "i \<le> k" "copied_to (big_endian E) M S p P i (a0, a1, c0, c1 + c3)" "at4 (D + of_nat i) = 0" "even (p + i)"
    using x unfolding at_byte_unaligned_def at_byte_def by auto
  have "at_byte_unaligned E S D N M k p P (i + 32) y"
    if d: "unaligned_done E S D N M k (i + 32) c3 (a0, a1, c0, c1) (map (\<lambda>n. source_word (big_endian E) M S (i + n)) [0, 8, 16, 24])
      (map (\<lambda>n. source_word (big_endian E) M S (i + n)) [4, 12, 20, 28]) y" for y
  proof -
    obtain d3 b0 b1 d0 d1 where y: "y = (d3, S + of_nat (i + 32), D + of_nat (i + 32), of_nat (N - (i + 32)), (b0, b1, d0, d1), copied32 M D S (i + 32))"
      and r: "i + 32 \<le> k" "(b0, d0) = foldl acc2 (a0, c0) (map (\<lambda>n. source_word (big_endian E) M S (i + n)) [0, 8, 16, 24])"
        "(b1, d1 + d3) = foldl acc2 (a1, c1 + c3) (map (\<lambda>n. source_word (big_endian E) M S (i + n)) [4, 12, 20, 28])"
      using d unfolding unaligned_done_def fst_conv snd_conv by blast
    have "round_done E S D N M k (i + 32) (a0, a1, c0, c1 + c3) (map (\<lambda>n. source_word (big_endian E) M S (i + n)) [0, 8, 16, 24])
        (map (\<lambda>n. source_word (big_endian E) M S (i + n)) [4, 12, 20, 28])
        (S + of_nat (i + 32), D + of_nat (i + 32), of_nat (N - (i + 32)), (b0, b1, d0, d1 + d3), copied32 M D S (i + 32))"
      unfolding round_done_def fst_conv snd_conv using r by blast
    then have "at_byte E S D N M k p P (i + 32)
        (S + of_nat (i + 32), D + of_nat (i + 32), of_nat (N - (i + 32)), (b0, b1, d0, d1 + d3), copied32 M D S (i + 32))"
      using at_byte_round [OF _ s(3) c _ s(4,5), of 8] assms(6) eight_words [of "source_word (big_endian E) M S" i] by auto
    then show ?thesis using y(1) unfolding at_byte_unaligned_def by blast
  qed
  then show ?thesis
    unfolding s(1) by (rule access_ends_mono [OF csum_unaligned_round_ends [OF c al s(4) assms(6) s(2) assms(7)]])
qed

lemma of_nat_low:
  assumes "n < 2 ^ 32"
  shows "(of_nat n :: u32) AND 3 = of_nat (n mod 4)" and "(of_nat n :: u32) AND 31 = of_nat (n mod 32)"
    and "drop_bit 5 (of_nat n :: u32) = of_nat (n div 32)"
proof -
  have a: "unat ((of_nat n :: u32) AND 31) = unat (of_nat n :: u32) mod 32"
  proof -
    have "(of_nat n :: u32) AND 31 = take_bit 5 (of_nat n)" by (simp add: take_bit_eq_mask mask_eq_exp_minus_1)
    then show ?thesis by (simp only: unsigned_take_bit_eq) (simp add: take_bit_eq_mod)
  qed
  show "(of_nat n :: u32) AND 3 = of_nat (n mod 4)" "(of_nat n :: u32) AND 31 = of_nat (n mod 32)"
    using assms unfolding word_unat_eq_iff and_3 a unat_of_nat by simp_all
  show "drop_bit 5 (of_nat n :: u32) = of_nat (n div 32)"
    using assms le_less_trans [OF div_le_dividend assms, of 32]
    by (simp add: word_unat_eq_iff unat_drop_bit_eq drop_bit_eq_div [where 'a = nat] unat_of_nat)
qed

text \<open>The last bytes of a word, between aligned buffers.\<close>

lemma csum_last_bytes_ends:
  assumes c: "copying E S D N k" and al: "at4 (S + of_nat i) = 0" "at4 (D + of_nat i) = 0"
    and ct: "copied_to (big_endian E) M S p P i s" and ev: "even (p + i)" and i: "i < N" "N < i + 4" "i \<le> k" and B: "N \<le> B"
  shows "access_ends (\<lambda>(s', m'). m' = copied32 M D S N \<and> k = N \<and> copied_to (big_endian E) M S p P N s') (faults E S D N M k B)
    (csum_last_bytes E (S + of_nat i) (D + of_nat i) (of_nat (N - i)) s (copied32 M D S i))"
proof -
  obtain a0 a1 c0 c1 where s: "s = (a0, a1, c0, c1)" by (cases s) auto
  have cc: "N < 2 ^ 31" "\<forall>j<N. writable E (D + of_nat j)" "k \<le> N" using c unfolding copying_def by blast+
  let ?n = "N - i" and ?q = "4 - (N - i)" and ?be = "big_endian E" and ?m = "copied32 M D S i"
  let ?w = "lw ?be ?m (S + of_nat i)"
  let ?t3 = "SHIFT_DISCARD ?be ?w (of_nat (8 * ?q))"
  let ?t0 = "UNSHIFT_DISCARD ?be ?t3 (of_nat (8 * ?q))"
  have n: "0 < ?n" "?n < 4" "?q < 4" "i + ?n = N" using i by auto
  have wb: "word_byte ?be ?w j = M (S + of_nat i + of_nat j)" if "j < ?n" for j
    using copied_source_kept [OF c, of i M] that n(2) i
    by (auto simp: lw_def word_byte_of_bytes source_kept_def add.assoc simp flip: of_nat_add)
  have t3: "word_byte ?be ?t3 (4 - ?n + x) = M (S + of_nat i + of_nat x)" if "x < ?n" for x
  proof -
    have "4 - ?n + x < 4" "?q \<le> 4 - ?n + x" "4 - ?n + x - ?q = x" using that n(2) by linarith+
    then show ?thesis using SHIFT_DISCARD_byte(1) [OF n(3), of "4 - ?n + x" ?be ?w] wb [OF that] by (simp only: if_True)
  qed
  have "?t0 = of_word_bytes ?be (\<lambda>j. if 0 \<le> j \<and> j < 0 + ?n then M (S + of_nat i + of_nat (j - 0)) else 0)"
  proof (rule of_word_bytes_eq)
    fix j :: nat assume j: "j < 4"
    show "word_byte ?be ?t0 j = (if 0 \<le> j \<and> j < 0 + ?n then M (S + of_nat i + of_nat (j - 0)) else 0)"
      using SHIFT_DISCARD_byte(2) [OF n(3) j, of ?be ?t3] t3 [of j] n(2) by (auto simp: add.commute)
  qed
  then have t0: "unat ?t0 mod 65535 = byte_sum ?be M (p + i) (S + of_nat i) ?n mod 65535"
    using part_mod [of 0 ?n "p + i" ?be M "S + of_nat i"] n(2) ev by simp
  have ct': "copied_to ?be M S p P (i + ?n) (fst (acc2 (a0, c0) ?t0), a1, snd (acc2 (a0, c0) ?t0), c1)"
  proof (rule copied_to_step [OF ct _ _ t0])
    show "total (fst (acc2 (a0, c0) ?t0), a1, snd (acc2 (a0, c0) ?t0), c1) = total s + unat ?t0"
      unfolding s by (rule total_acc2 [OF ct [unfolded s]]) (use cc(1) i in simp)
    have "2 ^ 32 * 1 \<le> 2 ^ 32 * ?n" using n(1) by (intro mult_le_mono2) simp
    then show "unat ?t0 \<le> 2 ^ 32 * ?n" using unat32 [of ?t0] by linarith
  qed
  have a: "D + of_nat i + of_nat ?n - 1 = D + of_nat (N - 1)" using i by (simp add: of_nat_diff)
  have lo: "unat ((D + of_nat (N - 1)) AND 3) = ?n - 1"
  proof -
    have d: "D + of_nat (N - 1) = D + of_nat i + of_nat (?n - 1)" using n by (simp add: add.assoc flip: of_nat_add)
    have "at4 (D + of_nat (N - 1)) = ?n - 1" unfolding d at4_add [of "D + of_nat i"] al(2) using n(2) by simp
    then show ?thesis by (simp only: and_3 at4_def)
  qed
  have wr: "\<forall>j \<le> ?n - 1. writable E (D + of_nat (N - 1) - of_nat j)"
  proof (intro allI impI)
    fix j assume "j \<le> ?n - 1"
    then have "D + of_nat (N - 1) - of_nat j = D + of_nat (N - 1 - j)" using i by (simp add: of_nat_diff)
    moreover have "N - 1 - j < N" using i by simp
    ultimately show "writable E (D + of_nat (N - 1) - of_nat j)" using cc(2) by (simp only:)
  qed
  have st: "strest ?be ?t3 (D + of_nat (N - 1)) ?m = copied32 M D S N"
  proof -
    have d: "D + of_nat (N - 1) - of_nat (?n - 1) = D + of_nat i" using i by (simp add: of_nat_diff)
    have "store32 (D + of_nat i) ?n (\<lambda>x. word_byte ?be ?t3 (3 - (?n - 1) + x)) ?m = copied32 M D S (i + ?n)"
    proof (rule copied32_append)
      show "i + ?n \<le> 2 ^ 32" using cc(1) i by simp
      fix x assume "x < ?n"
      moreover have "3 - (?n - 1) = 4 - ?n" using n by simp
      ultimately show "word_byte ?be ?t3 (3 - (?n - 1) + x) = M (S + of_nat (i + x))" using t3 [of x] by (simp add: add.assoc)
    qed
    moreover have "?n - 1 + 1 = ?n" using n by simp
    ultimately show ?thesis unfolding strest_def Let_def lo d by (simp only: n(4))
  qed
  have b: "8 * 4 - push_bit 3 (of_nat ?n) = (of_nat (8 * ?q) :: u32)"
    using n by (simp add: push_bit_eq_mult of_nat_diff)
  show ?thesis
    unfolding csum_last_bytes_def Let_def s prod.case b
  proof (rule LOAD_ends [OF c al(1) copied_source_kept [OF c] i(3,1) refl refl])
    assume "min (i + 4) N \<le> k"
    then have k: "k = N" using cc(3) i by simp
    have r: "(\<lambda>(s', m'). m' = copied32 M D S N \<and> k = N \<and> copied_to ?be M S p P N s')
        ((a0 + ?t0, a1, c0 + sltu (a0 + ?t0) ?t0, c1), copied32 M D S N)"
      using k ct' n(4) by (simp add: acc2_def)
    show "access_ends (\<lambda>(s', m'). m' = copied32 M D S N \<and> k = N \<and> copied_to ?be M S p P N s') (faults E S D N M k B)
      (EXC_STREST E (S + of_nat i, D + of_nat i, of_nat (N - i), a0 + ?t0, ?m) ?t3 (D + of_nat i + of_nat (N - i) - 1)
        (\<lambda>m. Inr ((a0 + ?t0, a1, c0 + sltu (a0 + ?t0) ?t0, c1), m)))"
      unfolding EXC_STREST_def Let_def prod.case a lo st using wr r by (simp add: access_ends_Inr)
  next
    show "k = i \<Longrightarrow> k < N \<Longrightarrow> faults E S D N M k B (L_exc (S + of_nat i, D + of_nat i, of_nat (N - i), a0, ?m))"
      by (rule L_exc_faults [OF c]) (use B in auto)
  qed (use i in simp)
qed

text \<open>The first bytes, up to the first word boundary of the destination.\<close>

lemma csum_first_bytes_ends:
  assumes c: "copying E S D N k" and d: "at4 D \<noteq> 0" and N: "4 \<le> N" and P: "total s = P" "P < 2 ^ 32" and B: "k < 4 \<Longrightarrow> N \<le> B"
  shows "access_ends (\<lambda>x. at_byte E S D N M k (at4 D) P (4 - at4 D) x \<and> 4 \<le> k) (faults E S D N M k B)
    (csum_first_bytes E (D AND 3) (S, D, of_nat N, s, M))"
proof -
  obtain a0 a1 c0 c1 where s: "s = (a0, a1, c0, c1)" by (cases s) auto
  have cc: "N < 2 ^ 31" "\<forall>j<N. writable E (D + of_nat j)" "k \<le> N" using c unfolding copying_def by blast+
  let ?q = "at4 D" and ?n = "4 - at4 D" and ?be = "big_endian E" and ?e = "4 - at4 S"
  let ?e' = "if at4 S = 0 then 4 else 8 - at4 S"
  have q: "?q < 4" "0 < ?n" "?n < 4" using at4_less [of D] d by auto
  have e: "at4 (S + of_nat ?e) = 0" "0 < ?e" "?e \<le> 4" using at4_less [of S] unfolding at4_add by simp_all
  have e': "at4 (S + of_nat ?e') = 0" "3 < ?e'" "?e' \<le> 7" using at4_less [of S] unfolding at4_add by (simp_all, linarith+)
  have dq: "D AND 3 = of_nat ?q" by (simp add: word_unat_eq_iff and_3 at4_def unat_of_nat)
  have m0: "copied32 M D S 0 = M" by (rule copied32_0)
  let ?t3 = "source_word ?be M S 0"
  let ?t4 = "SHIFT_DISCARD ?be ?t3 (of_nat (8 * ?q))"
  have "?t4 = of_word_bytes ?be (\<lambda>j. if ?q \<le> j \<and> j < ?q + ?n then M (S + of_nat (j - ?q)) else 0)"
  proof (rule of_word_bytes_eq)
    fix j :: nat assume j: "j < 4"
    show "word_byte ?be ?t4 j = (if ?q \<le> j \<and> j < ?q + ?n then M (S + of_nat (j - ?q)) else 0)"
      unfolding SHIFT_DISCARD_byte(1) [OF q(1) j] using j q by (auto simp: source_word_def word_byte_of_bytes)
  qed
  then have t4: "unat ?t4 mod 65535 = byte_sum ?be M (?q + 0) (S + of_nat 0) ?n mod 65535"
    using part_mod [of ?q ?n 0 ?be M S] q by simp
  have ct0: "copied_to ?be M S ?q P 0 s" using P by (simp add: copied_to_def byte_sum_def)
  have ct: "copied_to ?be M S ?q P ?n (fst (acc2 (a0, c0) ?t4), a1, snd (acc2 (a0, c0) ?t4), c1)"
  proof -
    have "copied_to ?be M S ?q P (0 + ?n) (fst (acc2 (a0, c0) ?t4), a1, snd (acc2 (a0, c0) ?t4), c1)"
    proof (rule copied_to_step [OF ct0 _ _ t4])
      show "total (fst (acc2 (a0, c0) ?t4), a1, snd (acc2 (a0, c0) ?t4), c1) = total s + unat ?t4"
        unfolding s by (rule total_acc2 [OF ct0 [unfolded s]]) simp
      have "2 ^ 32 * 1 \<le> 2 ^ 32 * ?n" using q(2) by (intro mult_le_mono2) simp
      then show "unat ?t4 \<le> 2 ^ 32 * ?n" using unat32 [of ?t4] by linarith
    qed
    then show ?thesis by simp
  qed
  have n: "4 - (D AND 3) = of_nat ?n" "push_bit 3 (D AND 3) = of_nat (8 * ?q)"
    unfolding dq using q by (simp_all add: of_nat_diff push_bit_eq_mult)
  have st: "stfirst ?be ?t3 D M = copied32 M D S ?n"
  proof -
    have "store32 (D + of_nat 0) ?n (word_byte ?be ?t3) (copied32 M D S 0) = copied32 M D S (0 + ?n)"
      by (rule copied32_append) (use q in \<open>auto simp: source_word_def word_byte_of_bytes\<close>)
    then show ?thesis by (simp add: stfirst_def m0 and_3 at4_def)
  qed
  have wr: "\<forall>j < 4 - unat (D AND 3). writable E (D + of_nat j)" using cc(2) N by (auto simp: and_3)
  have l: "of_nat N - of_nat ?n = (of_nat (N - ?n) :: u32)" using N by (simp add: of_nat_diff)
  have r: "at_byte E S D N M k ?q P ?n (S + of_nat ?n, D + of_nat ?n, of_nat (N - ?n),
      (a0 + ?t4, a1, c0 + sltu (a0 + ?t4) ?t4, c1), copied32 M D S ?n)" if "4 \<le> k"
  proof -
    have "at4 (D + of_nat ?n) = 0" "even (?q + ?n)" using q unfolding at4_add by simp_all
    moreover have "?n \<le> k" "?n \<le> N" using that N by simp_all
    ultimately show ?thesis using ct unfolding at_byte_def acc2_def fst_conv snd_conv prod.case by blast
  qed
  have x0: "L_exc_copy (S, D, of_nat N, a0, M) = L_exc_copy (S + of_nat 0, D + of_nat 0, of_nat (N - 0), a0, copied32 M D S 0)"
    "L_exc (S, D, of_nat N, a0, M) = L_exc (S + of_nat 0, D + of_nat 0, of_nat (N - 0), a0, copied32 M D S 0)"
    by (simp_all add: m0)
  show ?thesis
    unfolding csum_first_bytes_def Let_def s prod.case
  proof (rule LDFIRST_ends [OF c e(1), where j = 0 and s = S and d = D and l = "of_nat N" and u = a0 and m = M])
    assume "min ?e N \<le> k"
    moreover have "?e' \<le> ?e + 4" by (simp, linarith)
    ultimately have ek: "?e' \<le> k + 4" using e'(3) N by linarith
    show "access_ends (\<lambda>x. at_byte E S D N M k ?q P ?n x \<and> 4 \<le> k) (faults E S D N M k B)
      (EXC_LDREST E L_exc_copy (S, D, of_nat N, a0, M) (ldfirst ?be M (old_reg E) (S + of_nat 0)) (S + 3)
        (\<lambda>t3. EXC_STFIRST E (S + (4 - (D AND 3)), D, of_nat N - (4 - (D AND 3)),
            a0 + SHIFT_DISCARD ?be t3 (push_bit 3 (D AND 3)), M) t3 D
          (\<lambda>m. Inr (S + (4 - (D AND 3)), D + (4 - (D AND 3)), of_nat N - (4 - (D AND 3)),
            (a0 + SHIFT_DISCARD ?be t3 (push_bit 3 (D AND 3)), a1,
             c0 + sltu (a0 + SHIFT_DISCARD ?be t3 (push_bit 3 (D AND 3))) (SHIFT_DISCARD ?be t3 (push_bit 3 (D AND 3))), c1), m))))"
    proof (rule LDREST_word [OF c e'(1), where j = 0 and i = 0 and i' = 0 and M = M and s = S and d = D and l = "of_nat N" and u = a0 and r = "old_reg E"])
      assume "min ?e' N \<le> k"
      then have "4 \<le> k" using e'(2) N by linarith
      then show "access_ends (\<lambda>x. at_byte E S D N M k ?q P ?n x \<and> 4 \<le> k) (faults E S D N M k B)
        (EXC_STFIRST E (S + (4 - (D AND 3)), D, of_nat N - (4 - (D AND 3)),
            a0 + SHIFT_DISCARD ?be ?t3 (push_bit 3 (D AND 3)), M) ?t3 D
          (\<lambda>m. Inr (S + (4 - (D AND 3)), D + (4 - (D AND 3)), of_nat N - (4 - (D AND 3)),
            (a0 + SHIFT_DISCARD ?be ?t3 (push_bit 3 (D AND 3)), a1,
             c0 + sltu (a0 + SHIFT_DISCARD ?be ?t3 (push_bit 3 (D AND 3))) (SHIFT_DISCARD ?be ?t3 (push_bit 3 (D AND 3))), c1), m)))"
        unfolding EXC_STFIRST_def Let_def prod.case st n l using wr r by (simp add: access_ends_Inr del: of_nat_mult)
    next
      assume k: "k \<le> 0 + 3" "k < N"
      show "faults E S D N M k B (L_exc_copy (S, D, of_nat N, a0, M))"
        unfolding x0 by (rule L_exc_copy_faults [OF c k(2)]) (use k B N in auto)
    qed (use e' ek N m0 in \<open>simp_all del: of_nat_diff split del: if_split\<close>)
  next
    assume k: "k \<le> 0" "k < N"
    show "faults E S D N M k B (L_exc (S, D, of_nat N, a0, M))"
      unfolding x0 by (rule L_exc_faults [OF c]) (use k B N in auto)
  qed (use e N in auto)
qed

section \<open>The labels\<close>

lemma at_byte_regs:
  assumes "at_byte E S D N M k p P i (src, dst, len, s, m)"
  shows "src = S + of_nat i" "dst = D + of_nat i" "len = of_nat (N - i)" "m = copied32 M D S i" "i \<le> k" "i \<le> N"
    "copied_to (big_endian E) M S p P i s" "at4 (D + of_nat i) = 0" "even (p + i)"
  using assms unfolding at_byte_def prod.inject by blast+

lemma at_byte_len: "at_byte E S D N M k p P i x \<Longrightarrow> regs_len x = of_nat (N - i)"
  by (auto simp: at_byte_def regs_len_def)

lemma at_byte_unaligned_len: "at_byte_unaligned E S D N M k p P i x \<Longrightarrow> unaligned_len x = of_nat (N - i)"
  by (auto simp: at_byte_unaligned_def at_byte_def unaligned_len_def)

lemma len_rest:
  assumes "copying E S D N k"
  shows "(of_nat (N - i) :: u32) = 0 \<longleftrightarrow> N \<le> i" and "(of_nat (N - i) :: u32) AND 3 = of_nat ((N - i) mod 4)"
    and "(of_nat (N - i) :: u32) AND 31 = of_nat ((N - i) mod 32)"
    and "drop_bit 5 (of_nat (N - i) :: u32) = of_nat ((N - i) div 32)"
    and "a \<le> N \<Longrightarrow> b \<le> N \<Longrightarrow> (of_nat a :: u32) = of_nat b \<longleftrightarrow> a = b"
proof -
  have n: "N < 2 ^ 31" using assms unfolding copying_def by blast
  then have l: "N - i < 2 ^ 32" by simp
  show "(of_nat (N - i) :: u32) = 0 \<longleftrightarrow> N \<le> i" using of_nat_eq32 [OF l, of 0] by (simp del: of_nat_diff)
  show "(of_nat (N - i) :: u32) AND 3 = of_nat ((N - i) mod 4)" "(of_nat (N - i) :: u32) AND 31 = of_nat ((N - i) mod 32)"
    "drop_bit 5 (of_nat (N - i) :: u32) = of_nat ((N - i) div 32)"
    by (rule of_nat_low [OF l])+
  show "a \<le> N \<Longrightarrow> b \<le> N \<Longrightarrow> (of_nat a :: u32) = of_nat b \<longleftrightarrow> a = b"
    using n by (intro of_nat_eq32) simp_all
qed

lemma mod_rest:
  assumes "copying E S D N k" and "0 < w"
  shows "i \<le> N \<Longrightarrow> (of_nat ((N - i) mod w) :: u32) = of_nat (N - i) \<longleftrightarrow> N < i + w"
proof -
  assume i: "i \<le> N"
  have l: "(N - i) mod w \<le> N - i" by (rule mod_less_eq_dividend)
  have "(of_nat ((N - i) mod w) :: u32) = of_nat (N - i) \<longleftrightarrow> (N - i) mod w = N - i"
    by (rule len_rest(5) [OF assms(1)]) (use l in linarith)+
  also have "\<dots> \<longleftrightarrow> N - i < w" using assms(2) by (metis mod_less mod_less_divisor)
  finally show ?thesis using i by linarith
qed

text \<open>A loop that takes \<open>w\<close> bytes in a round and leaves the others to what follows.\<close>

lemma copy_loop:
  assumes c: "copying E S D N k"
    and step: "\<And>j y. Pr j y \<Longrightarrow> at4 (S + of_nat (j + al)) = 0 \<Longrightarrow> j + w \<le> N - (N - i) mod w \<Longrightarrow>
      access_ends (Pr (j + w)) (faults E S D N M k B) (body y)"
    and len: "\<And>j y. Pr j y \<Longrightarrow> get_len y = of_nat (N - j)"
    and w: "w mod 4 = 0" "0 < w" "i + w \<le> N" and start: "Pr i x" "at4 (S + of_nat (i + al)) = 0"
    and cont: "\<And>y. Pr (N - (N - i) mod w) y \<Longrightarrow> at4 (S + of_nat (N - (N - i) mod w + al)) = 0 \<Longrightarrow>
      csum_result E S D N M k B G (f y)"
  shows "csum_result E S D N M k B G (do { r \<leftarrow> csum_loop get_len body (of_nat ((N - i) mod w)) x; after E r f })"
proof -
  let ?lim = "N - (N - i) mod w" and ?q = "(N - i) div w"
  let ?P = "\<lambda>j y. Pr j y \<and> at4 (S + of_nat (j + al)) = 0"
  have "(N - i) mod w \<le> N - i" by (rule mod_less_eq_dividend)
  then have l: "N - ?lim = (N - i) mod w" by linarith
  have "w * ?q + (N - i) mod w = N - i" by (rule mult_div_mod_eq)
  then have q: "i + w * ?q = ?lim" using w(3) by linarith
  have q0: "0 < ?q" using w by (simp add: div_greater_zero_iff)
  have n: "N < 2 ^ 32" using c by (simp add: copying_def)
  have "\<exists>r. csum_loop get_len body (of_nat (N - ?lim)) x = Some r \<and> access_ends (?P ?lim) (faults E S D N M k B) r"
  proof (rule loop_ends [where w = w and q = ?q and i = i])
    fix y j assume y: "?P j y" "j + w \<le> ?lim"
    have "at4 (S + of_nat al + of_nat (j + w)) = 0"
      by (rule at4_offset) (use y w(1) in \<open>simp_all add: add_ac\<close>)
    then have "at4 (S + of_nat (j + w + al)) = 0" by (simp add: add_ac)
    then show "access_ends (?P (j + w)) (faults E S D N M k B) (body y)"
      using y by (intro access_ends_mono [OF step]) auto
  qed (use start q q0 n w len in auto)
  then obtain r where "csum_loop get_len body (of_nat ((N - i) mod w)) x = Some r" "access_ends (?P ?lim) (faults E S D N M k B) r"
    unfolding l by blast
  then show ?thesis using cont by (auto intro: after_result)
qed


lemma cleanup_bytes_both_aligned_result:
  assumes c: "copying E S D N k" and x: "at_byte E S D N M k p P i (src, dst, len, s, m)" and al: "at4 (S + of_nat i) = 0"
    and n: "N < i + 4" "N \<le> B" and g: "swapped_goal byteswap (P + byte_sum (big_endian E) M p S N) G"
  shows "csum_result E S D N M k B G (cleanup_bytes_both_aligned E byteswap src dst len s m)"
proof (cases "i = N")
  case True
  then have "k = N" using c at_byte_regs(5) [OF x] by (auto simp: copying_def)
  then show ?thesis
    using finish_result [OF c _ _ g] at_byte_regs [OF x] True by (simp add: cleanup_bytes_both_aligned_def)
next
  case False
  then have i: "i < N" using at_byte_regs(6) [OF x] by simp
  have l: "(of_nat (N - i) :: u32) \<noteq> 0" unfolding len_rest(1) [OF c] using i by simp
  show ?thesis
    unfolding cleanup_bytes_both_aligned_def at_byte_regs(1-4) [OF x] if_not_P [OF l]
    by (rule after_result [OF csum_last_bytes_ends [OF c al at_byte_regs(8,7,9) [OF x] i n(1) at_byte_regs(5) [OF x] n(2)]])
      (use finish_result [OF c _ _ g] in auto)
qed

lemma csum_cleanup_both_aligned_result:
  assumes c: "copying E S D N k" and x: "at_byte E S D N M k p P i (src, dst, len, s, m)" and al: "at4 (S + of_nat i) = 0"
    and n: "N \<le> B" and g: "swapped_goal byteswap (P + byte_sum (big_endian E) M p S N) G"
  shows "csum_result E S D N M k B G (csum_cleanup_both_aligned E byteswap src dst len s m)"
proof -
  have i: "i \<le> N" by (rule at_byte_regs(6) [OF x])
  have b: "len AND 3 = of_nat ((N - i) mod 4)" "len = len AND 3 \<longleftrightarrow> N < i + 4"
    unfolding at_byte_regs(3) [OF x] len_rest(2) [OF c] using mod_rest [OF c _ i, of 4] by auto
  show ?thesis
  proof (cases "N < i + 4")
    case True
    then show ?thesis
      using cleanup_bytes_both_aligned_result [OF c x al True n g] b(2) by (simp add: csum_cleanup_both_aligned_def)
  next
    case False
    then have "csum_result E S D N M k B G
        (do { r \<leftarrow> csum_loop regs_len (csum_unit E) (of_nat ((N - i) mod 4)) (src, dst, len, s, m);
              after E r (\<lambda>(src, dst, len, s, m). cleanup_bytes_both_aligned E byteswap src dst len s m) })"
    proof (intro copy_loop [OF c, where Pr = "at_byte E S D N M k p P" and al = 0])
      fix y assume y: "at_byte E S D N M k p P (N - (N - i) mod 4) y" "at4 (S + of_nat (N - (N - i) mod 4 + 0)) = 0"
      obtain src dst len s m where "y = (src, dst, len, s, m)" by (cases y) auto
      moreover have "N < N - (N - i) mod 4 + 4" using mod_less_divisor [of 4 "N - i"] by linarith
      ultimately show "csum_result E S D N M k B G (case y of (src, dst, len, s, m) \<Rightarrow> cleanup_bytes_both_aligned E byteswap src dst len s m)"
        using y cleanup_bytes_both_aligned_result [OF c _ _ _ n g] by simp
    next
      fix j y assume j: "at_byte E S D N M k p P j y" "at4 (S + of_nat (j + 0)) = 0" "j + 4 \<le> N - (N - i) mod 4"
      show "access_ends (at_byte E S D N M k p P (j + 4)) (faults E S D N M k B) (csum_unit E y)"
        by (rule unit_keeps [OF c j(1)]) (use j n in auto)
    qed (use x al at_byte_len in auto)
    then show ?thesis using False b by (simp add: csum_cleanup_both_aligned_def Let_def)
  qed
qed

lemma csum_both_aligned_result:
  assumes c: "copying E S D N k" and x: "at_byte E S D N M k p P i (src, dst, len, s, m)" and al: "at4 (S + of_nat i) = 0"
    and n: "N \<le> B" and g: "swapped_goal byteswap (P + byte_sum (big_endian E) M p S N) G"
  shows "csum_result E S D N M k B G (csum_both_aligned E byteswap src dst len s m)"
proof -
  have i: "i \<le> N" by (rule at_byte_regs(6) [OF x])
  have b: "len AND 31 = of_nat ((N - i) mod 32)" "drop_bit 5 len = 0 \<longleftrightarrow> N < i + 32"
    unfolding at_byte_regs(3) [OF x] len_rest(3,4) [OF c]
    using len_rest(5) [OF c, of "(N - i) div 32" 0] i div_le_dividend [of "N - i" 32] div_eq_0_iff [of "N - i" 32]
    by (simp_all del: div_eq_0_iff) linarith
  show ?thesis
  proof (cases "N < i + 32")
    case True
    then show ?thesis using csum_cleanup_both_aligned_result [OF c x al n g] b(2) by (simp add: csum_both_aligned_def)
  next
    case False
    then have "csum_result E S D N M k B G
        (do { r \<leftarrow> csum_loop regs_len (csum_round E) (of_nat ((N - i) mod 32)) (src, dst, len, s, m);
              after E r (\<lambda>(src, dst, len, s, m). csum_cleanup_both_aligned E byteswap src dst len s m) })"
    proof (intro copy_loop [OF c, where Pr = "at_byte E S D N M k p P" and al = 0])
      fix y assume y: "at_byte E S D N M k p P (N - (N - i) mod 32) y" "at4 (S + of_nat (N - (N - i) mod 32 + 0)) = 0"
      obtain src dst len s m where "y = (src, dst, len, s, m)" by (cases y) auto
      then show "csum_result E S D N M k B G (case y of (src, dst, len, s, m) \<Rightarrow> csum_cleanup_both_aligned E byteswap src dst len s m)"
        using y csum_cleanup_both_aligned_result [OF c _ _ n g] by simp
    next
      fix j y assume j: "at_byte E S D N M k p P j y" "at4 (S + of_nat (j + 0)) = 0" "j + 32 \<le> N - (N - i) mod 32"
      show "access_ends (at_byte E S D N M k p P (j + 32)) (faults E S D N M k B) (csum_round E y)"
        by (rule round_keeps [OF c j(1)]) (use j n in auto)
    qed (use x al at_byte_len in auto)
    then show ?thesis using False b by (simp add: csum_both_aligned_def Let_def)
  qed
qed

lemma csum_cleanup_src_unaligned_result:
  assumes c: "copying E S D N k" and x: "at_byte E S D N M k p P i (src, dst, len, s, m)"
    and al: "at4 (S + of_nat (i + al)) = 0" "0 < al" "al < 4"
    and n: "B = N - (N - i) mod 4" and g: "swapped_goal byteswap (P + byte_sum (big_endian E) M p S N) G"
  shows "csum_result E S D N M k B G (csum_cleanup_src_unaligned E byteswap src dst len s m)"
proof -
  have i: "i \<le> k" "i \<le> N" by (rule at_byte_regs(5,6) [OF x])+
  have b: "len AND 3 = of_nat ((N - i) mod 4)" "len AND 3 = len \<longleftrightarrow> N < i + 4" "len = 0 \<longleftrightarrow> N = i"
    unfolding at_byte_regs(3) [OF x] len_rest(1,2) [OF c] using mod_rest [OF c _ i(2), of 4] i by auto
  consider "N = i" | "i < N" "N < i + 4" | "i + 4 \<le> N" using i by linarith
  then show ?thesis
  proof cases
    case 1
    then have "k = N" using c i by (auto simp: copying_def)
    then show ?thesis
      using finish_result [OF c _ _ g] at_byte_regs [OF x] 1 by (simp add: csum_cleanup_src_unaligned_def)
  next
    case 2
    then have B: "B = i" using n by simp
    have l: "csum_cleanup_src_unaligned E byteswap src dst len s m =
        after E (EXC_LDFIRST E L_exc (src, dst, len, fst s, m) src (\<lambda>t0. Inr ())) (\<lambda>_. copy_csum_bytes E byteswap src dst len s m)"
      using 2 b by (simp add: csum_cleanup_src_unaligned_def)
    show ?thesis
      unfolding l
    proof (rule after_result)
      show "access_ends (\<lambda>_. True) (faults E S D N M k B) (EXC_LDFIRST E L_exc (src, dst, len, fst s, m) src (\<lambda>t0. Inr ()))"
      proof (rule LDFIRST_ends [OF c al(1)])
        assume "k \<le> i" "k < N"
        then show "faults E S D N M k B (L_exc (src, dst, len, fst s, m))"
          unfolding at_byte_regs(2-4) [OF x] by (intro L_exc_faults [OF c]) (use i B in auto)
      qed (use al i 2 at_byte_regs [OF x] in \<open>auto simp: access_ends_def\<close>)
    next
      fix y :: unit
      show "csum_result E S D N M k B G (copy_csum_bytes E byteswap src dst len s m)"
        unfolding at_byte_regs(1-4) [OF x] B
        by (rule copy_csum_bytes_result [OF c at_byte_regs(9,7) [OF x] 2(1) _ i(1) g]) (use 2 in simp)
    qed
  next
    case 3
    have "csum_result E S D N M k B G
        (do { r \<leftarrow> csum_loop regs_len (csum_unaligned_unit E) (of_nat ((N - i) mod 4)) (src, dst, len, s, m);
              after E r (\<lambda>(src, dst, len, s, m). csum_bytes_checklen E byteswap src dst len s m) })"
    proof (intro copy_loop [OF c, where Pr = "at_byte E S D N M k p P" and al = al])
      fix y assume y: "at_byte E S D N M k p P (N - (N - i) mod 4) y"
      obtain src dst len s m where e: "y = (src, dst, len, s, m)" by (cases y) auto
      have "N \<le> B + 4" using n mod_less_divisor [of 4 "N - i"] by linarith
      then show "csum_result E S D N M k B G (case y of (src, dst, len, s, m) \<Rightarrow> csum_bytes_checklen E byteswap src dst len s m)"
        using y checklen_result [OF c _ _ _ _ _ g, of B s] at_byte_regs [of E S D N M k p P B src dst len s m]
        unfolding e n [symmetric] by simp
    next
      fix j y assume j: "at_byte E S D N M k p P j y" "at4 (S + of_nat (j + al)) = 0" "j + 4 \<le> N - (N - i) mod 4"
      show "access_ends (at_byte E S D N M k p P (j + 4)) (faults E S D N M k B) (csum_unaligned_unit E y)"
        by (rule unaligned_unit_keeps [OF c j(1,2) al(2,3)]) (use j n in auto)
    qed (use 3 x al at_byte_len in auto)
    then show ?thesis using 3 b al by (simp add: csum_cleanup_src_unaligned_def Let_def)
  qed
qed

lemma csum_src_unaligned_dst_aligned_result:
  assumes c: "copying E S D N k" and x: "at_byte E S D N M k p P i (src, dst, len, s, m)" and al: "at4 (S + of_nat i) \<noteq> 0"
    and n: "B = N - (N - i) mod 4" and g: "swapped_goal byteswap (P + byte_sum (big_endian E) M p S N) G"
  shows "csum_result E S D N M k B G (csum_src_unaligned_dst_aligned E byteswap src dst len s m)"
proof -
  let ?al = "4 - at4 (S + of_nat i)"
  have "at4 (S + of_nat i + of_nat ?al) = 0" unfolding at4_add using at4_less [of "S + of_nat i"] by simp
  then have al: "at4 (S + of_nat (i + ?al)) = 0" "0 < ?al" "?al < 4"
    using al at4_less [of "S + of_nat i"] unfolding of_nat_add add.assoc by linarith+
  have i: "i \<le> N" by (rule at_byte_regs(6) [OF x])
  have b: "len AND 31 = of_nat ((N - i) mod 32)" "len AND 31 = len \<longleftrightarrow> N < i + 32"
    unfolding at_byte_regs(3) [OF x] len_rest(3) [OF c] using mod_rest [OF c _ i, of 32] by auto
  show ?thesis
  proof (cases "N < i + 32")
    case True
    then show ?thesis
      using csum_cleanup_src_unaligned_result [OF c x al n g] b(2) by (simp add: csum_src_unaligned_dst_aligned_def)
  next
    case False
    let ?f = "\<lambda>(c3, src, dst, len, (sum0, sum1, carry0, carry1), m).
      csum_cleanup_src_unaligned E byteswap src dst len (sum0, sum1, carry0, carry1 + c3) m"
    have "csum_result E S D N M k B G
        (do { r \<leftarrow> csum_loop unaligned_len (csum_unaligned_round E) (of_nat ((N - i) mod 32)) (0, src, dst, len, s, m);
              after E r ?f })"
    proof (intro copy_loop [OF c, where Pr = "at_byte_unaligned E S D N M k p P" and al = ?al])
      fix y assume y: "at_byte_unaligned E S D N M k p P (N - (N - i) mod 32) y" "at4 (S + of_nat (N - (N - i) mod 32 + ?al)) = 0"
      obtain c3 s' d l a0 a1 c0 c1 m' where e: "y = (c3, s', d, l, (a0, a1, c0, c1), m')"
        "at_byte E S D N M k p P (N - (N - i) mod 32) (s', d, l, (a0, a1, c0, c1 + c3), m')"
        using y(1) unfolding at_byte_unaligned_def by blast
      have "(N - i) mod 32 \<le> N" using mod_less_eq_dividend [of "N - i" 32] by linarith
      then have "B = N - (N - (N - (N - i) mod 32)) mod 4" by (simp add: n mod_mod_cancel)
      then show "csum_result E S D N M k B G (?f y)"
        using csum_cleanup_src_unaligned_result [OF c e(2) y(2) al(2,3) _ g] by (simp add: e(1))
    next
      have B: "N - (N - i) mod 32 \<le> B"
        using mod_less_eq_dividend [of "(N - i) mod 32" 4] by (simp add: n mod_mod_cancel diff_le_mono2)
      fix j y assume j: "at_byte_unaligned E S D N M k p P j y" "at4 (S + of_nat (j + ?al)) = 0" "j + 32 \<le> N - (N - i) mod 32"
      show "access_ends (at_byte_unaligned E S D N M k p P (j + 32)) (faults E S D N M k B) (csum_unaligned_round E y)"
        by (rule unaligned_round_keeps [OF c j(1,2) al(2,3)]) (use j(3) B in auto)
    next
      obtain a0 a1 c0 c1 where s: "s = (a0, a1, c0, c1)" by (cases s) auto
      show "at_byte_unaligned E S D N M k p P i (0, src, dst, len, s, m)"
        using x unfolding at_byte_unaligned_def s by auto
    qed (use False al at_byte_unaligned_len in auto)
    then show ?thesis using False b by (simp add: csum_src_unaligned_dst_aligned_def Let_def)
  qed
qed

text \<open>The bytes before the tail: those that a fault in the tail leaves out of the count.\<close>

definition tail_start :: "u32 \<Rightarrow> u32 \<Rightarrow> nat \<Rightarrow> nat \<Rightarrow> nat" where
  "tail_start S D N k =
     (if N < 4 then 0
      else if at4 S = at4 D \<or> at4 D \<noteq> 0 \<and> k < 4 then N
      else N - (N - (4 - at4 D) mod 4) mod 4)"

lemma same_alignment: "(a AND 3) XOR (b AND 3) = 0 \<longleftrightarrow> at4 a = at4 b" for a b :: u32
  by (simp only: xor_zero_eq word_unat_eq_iff [of "a AND 3"] and_3 at4_def)

lemma csum_dst_unaligned_result:
  assumes c: "copying E S D N k" and d: "at4 D \<noteq> 0" and N: "4 \<le> N" and P: "total s = P" "P < 2 ^ 32"
    and g: "swapped_goal byteswap (P + byte_sum (big_endian E) M (at4 D) S N) G"
  shows "csum_result E S D N M k (tail_start S D N k) G
    (csum_dst_unaligned E byteswap (S AND 3) (D AND 3) S D (of_nat N) s M)"
  unfolding csum_dst_unaligned_def Let_def
proof (rule after_result [OF csum_first_bytes_ends [OF c d N P]])
  fix y assume "at_byte E S D N M k (at4 D) P (4 - at4 D) y \<and> 4 \<le> k"
  moreover obtain src dst len s m where y: "y = (src, dst, len, s, m)" by (cases y) auto
  ultimately have x: "at_byte E S D N M k (at4 D) P (4 - at4 D) (src, dst, len, s, m)" and k: "4 \<le> k" by simp_all
  have q: "0 < at4 D" "at4 D < 4" using d at4_less by auto
  have l: "len \<noteq> 0" unfolding at_byte_regs(3) [OF x] len_rest(1) [OF c] using N q by simp
  have a: "at4 (S + of_nat (4 - at4 D)) = 0 \<longleftrightarrow> at4 S = at4 D"
    unfolding at4_add using q at4_less [of S] by presburger
  show "csum_result E S D N M k (tail_start S D N k) G
    (case y of (src, dst, len, s, m) \<Rightarrow>
      if len = 0 then finish byteswap (s, m)
      else if (S AND 3) XOR (D AND 3) = 0 then csum_both_aligned E byteswap src dst len s m
      else csum_src_unaligned_dst_aligned E byteswap src dst len s m)"
  proof (cases "at4 S = at4 D")
    case True
    then have "csum_result E S D N M k (tail_start S D N k) G (csum_both_aligned E byteswap src dst len s m)"
      using N by (intro csum_both_aligned_result [OF c x _ _ g]) (simp_all add: a tail_start_def del: of_nat_diff)
    then show ?thesis using l True by (simp add: y same_alignment)
  next
    case False
    then have "csum_result E S D N M k (tail_start S D N k) G (csum_src_unaligned_dst_aligned E byteswap src dst len s m)"
      using N k q by (intro csum_src_unaligned_dst_aligned_result [OF c x _ _ g]) (simp_all add: a tail_start_def del: of_nat_diff)
    then show ?thesis using l False by (simp add: y same_alignment)
  qed
qed (use d N in \<open>simp add: tail_start_def\<close>)

lemma even_at4: "even (at4 a) \<longleftrightarrow> even a" for a :: u32
proof -
  have "even (unat a) \<longleftrightarrow> even a" using bit_unsigned_iff [where ?'b = 32 and ?'a = nat and w = a and n = 0] by (simp add: bit_0)
  then show ?thesis by (simp add: at4_def even_iff_mod_2_eq_zero [where 'a = nat] mod_mod_cancel)
qed

lemma csum_partial_copy_user_result:
  assumes c: "copying E S D N k"
  shows "csum_result E S D N M k (tail_start S D N k) (unat partial_sum + byte_sum (big_endian E) M 0 S N)
    (csum_partial_copy_user E S D (of_nat N) partial_sum M)"
proof (cases "N < 4")
  case True
  let ?G = "unat partial_sum + byte_sum (big_endian E) M 0 S N"
  have "(of_nat N :: u32) < 4" using True by (simp add: word_less_nat_alt unat_of_nat)
  moreover have "copied_to (big_endian E) M S 0 (unat partial_sum) 0 (0, partial_sum, 0, 0)"
    using unat32 [of partial_sum] by (simp add: copied_to_def total_def total2_def byte_sum_def)
  then have "csum_result E S D N M k 0 ?G
      (csum_bytes_checklen E 0 (S + of_nat 0) (D + of_nat 0) (of_nat (N - 0)) (0, partial_sum, 0, 0) (copied32 M D S 0))"
    by (intro checklen_result [OF c, where p = 0 and P = "unat partial_sum"]) (use True in \<open>auto simp: swapped_goal_def\<close>)
  ultimately show ?thesis using True by (simp add: csum_partial_copy_user_def Let_def tail_start_def copied32_0)
next
  case N: False
  have n: "N < 2 ^ 31" using c by (simp add: copying_def)
  let ?G = "unat partial_sum + byte_sum (big_endian E) M 0 S N" and ?be = "big_endian E"
  let ?bs = "D AND 1" and ?sum1 = "if D AND 1 = 0 then partial_sum else push_bit 24 partial_sum OR drop_bit 8 partial_sum"
  let ?s = "(0, ?sum1, 0, 0) :: sums" and ?P = "unat ?sum1"
  have l: "\<not> (of_nat N :: u32) < 4" using N n by (simp add: word_less_nat_alt unat_of_nat)
  have P: "total ?s = ?P" "?P < 2 ^ 32" using unat32 [of ?sum1] by (simp_all add: total_def total2_def)
  have g: "swapped_goal ?bs (?P + byte_sum ?be M (at4 D) S N) ?G"
  proof (cases "even D")
    case True
    then have "byte_sum ?be M (at4 D) S N = byte_sum ?be M 0 S N" using byte_sum_even [of "at4 D" ?be M 0] by (simp add: even_at4)
    then show ?thesis using True by (simp add: swapped_goal_def and_1_even)
  next
    case False
    have f: "?sum1 = final_swap partial_sum" using False by (simp add: and_1_even final_swap_def Let_def)
    obtain j where j: "at4 D = Suc j" "even j" using False even_at4 [of D] by (cases "at4 D") auto
    have "byte_sum ?be M (at4 D) S N = byte_sum ?be M 1 S N" using byte_sum_even [OF j(2), of ?be M 1] j(1) by simp
    then have "(256 * byte_sum ?be M (at4 D) S N) mod 65535 = byte_sum ?be M 0 S N mod 65535"
      using byte_sum_swap [of ?be M 1 S N] byte_sum_even [of 2 ?be M 0] by (simp add: numeral_2_eq_2)
    from mod_add_cong [OF rotate_mod this, of partial_sum] show ?thesis
      using False unfolding swapped_goal_def f distrib_left by (simp add: and_1_even)
  qed
  have e: "csum_partial_copy_user E S D (of_nat N) partial_sum M =
      (if D AND 3 \<noteq> 0 then csum_dst_unaligned E ?bs (S AND 3) (D AND 3) S D (of_nat N) ?s M
       else if S AND 3 \<noteq> 0 then csum_src_unaligned_dst_aligned E ?bs S D (of_nat N) ?s M
       else csum_both_aligned E ?bs S D (of_nat N) ?s M)"
    using l by (simp add: csum_partial_copy_user_def Let_def)
  show ?thesis
  proof (cases "at4 D = 0")
    case False
    then show ?thesis unfolding e using csum_dst_unaligned_result [OF c False _ P g] N by (simp add: and_3_zero)
  next
    case True
    have x: "at_byte E S D N M k (at4 D) ?P 0 (S, D, of_nat N, ?s, M)"
      using P True by (simp add: at_byte_def copied32_0 copied_to_def byte_sum_def del: total_def)
    show ?thesis
    proof (cases "at4 S = 0")
      case s: True
      have "csum_result E S D N M k (tail_start S D N k) ?G (csum_both_aligned E ?bs S D (of_nat N) ?s M)"
        by (rule csum_both_aligned_result [OF c x _ _ g]) (use s True N in \<open>simp_all add: tail_start_def\<close>)
      then show ?thesis unfolding e using True s by (simp add: and_3_zero)
    next
      case s: False
      have "csum_result E S D N M k (tail_start S D N k) ?G (csum_src_unaligned_dst_aligned E ?bs S D (of_nat N) ?s M)"
        by (rule csum_src_unaligned_dst_aligned_result [OF c x _ _ g]) (use s True N in \<open>simp_all add: tail_start_def\<close>)
      then show ?thesis unfolding e using True s by (simp add: and_3_zero)
    qed
  qed
qed

section \<open>The copy and its checksum\<close>

text \<open>
  C34: When everything can be read, \<open>csum_partial_copy_user\<close> copies exactly the bytes asked for, for every alignment of
  source and destination and either byte order, and returns a sum that is congruent, modulo 65535, to
  \<open>partial_sum\<close> plus the sum of the source's 16-bit words, the last one padded with a zero byte. No access is misaligned
  outside a handler's reach, and every loop ends.
\<close>

theorem csum_copy_user_correct:
  assumes "copying E S D N N"
  shows "\<exists>v. csum_partial_copy_user E S D (of_nat N) partial_sum M = Some (v, copied32 M D S N) \<and>
    unat v mod 65535 = (unat partial_sum + byte_sum (big_endian E) M 0 S N) mod 65535"
  using csum_partial_copy_user_result [OF assms] by (simp add: csum_result_def)

text \<open>Seven bytes between addresses of different alignment, both odd, on a big-endian machine.\<close>

theorem csum_copy_user_correct_witness:
  "\<exists>v m. csum_partial_copy_user \<lparr>big_endian = True, readable = \<lambda>a. True, writable = \<lambda>a. True, err_ptr = 0x3000, old_reg = 0\<rparr>
      0x1001 0x2003 7 0x30000 (\<lambda>a. ucast a) = Some (v, m) \<and> m 0x2009 = 7 \<and> unat v mod 65535 = 0x100f"
proof -
  let ?E = "\<lparr>big_endian = True, readable = \<lambda>a. True, writable = \<lambda>a. True, err_ptr = 0x3000, old_reg = 0\<rparr> :: csum_env"
  have "\<forall>i\<in>{..<7}. \<forall>j\<in>{..<7}. (0x1001 :: u32) + of_nat i \<noteq> 0x2003 + of_nat j" by (simp add: lessThan_nat_numeral lessThan_Suc)
  then have "copying ?E 0x1001 0x2003 7 7" by (simp add: copying_def Ball_def)
  from csum_copy_user_correct [OF this, where partial_sum = "0x30000" and M = "\<lambda>a. ucast a", unfolded of_nat_numeral]
  obtain v where v: "csum_partial_copy_user ?E 0x1001 0x2003 7 0x30000 (\<lambda>a. ucast a) =
      Some (v, copied32 (\<lambda>a. ucast a) 0x2003 0x1001 7)"
    "unat v mod 65535 = (unat (0x30000 :: u32) + byte_sum (big_endian ?E) (\<lambda>a. ucast a) 0 0x1001 7) mod 65535"
    by blast
  show ?thesis
    by (intro exI conjI, rule v(1))
      (simp_all add: v(2) copied32_def store32_def byte_sum_def lessThan_nat_numeral lessThan_Suc)
qed

text \<open>
  C35: When byte \<open>k\<close> of the source is the first that cannot be read, \<open>csum_partial_copy_user\<close> returns with
  the \<open>k\<close> bytes before it copied, \<open>-EFAULT\<close> stored where \<open>err_ptr\<close> points, and the rest of the destination
  zeroed when \<open>k\<close> is not past the start of the byte by byte tail; past it, as many bytes at the end of the
  destination keep their old values as the tail has copied.
\<close>

theorem csum_copy_user_fault:
  assumes "copying E S D N k" and "k < N"
  shows "\<exists>v. csum_partial_copy_user E S D (of_nat N) partial_sum M =
    Some (v, store32 (D + of_nat k) (N - k - (k - tail_start S D N k)) (\<lambda>j. 0)
      (store32 (err_ptr E) 4 (word_byte (big_endian E) (- EFAULT)) (copied32 M D S k)))"
  using csum_partial_copy_user_result [OF assms(1)] assms(2) by (simp add: csum_result_def fault_left_def)

text \<open>
  Three bytes of which the third cannot be read: two are copied, the error is stored, and the third byte of the destination
  is not zeroed.
\<close>

theorem csum_copy_user_fault_witness:
  "\<exists>v m. csum_partial_copy_user
      \<lparr>big_endian = True, readable = \<lambda>a. a AND NOT 3 = 0x1000, writable = \<lambda>a. True, err_ptr = 0x3000, old_reg = 0\<rparr>
      0x1002 0x2002 3 0 (\<lambda>a. ucast a) = Some (v, m) \<and>
    m 0x2002 = 2 \<and> m 0x2003 = 3 \<and> m 0x2004 = 4 \<and> m 0x3000 = 0xff \<and> m 0x3003 = 0xf2"
proof -
  let ?E = "\<lparr>big_endian = True, readable = \<lambda>a. a AND NOT 3 = 0x1000, writable = \<lambda>a. True, err_ptr = 0x3000, old_reg = 0\<rparr> :: csum_env"
  have "\<forall>i\<in>{..<3}. \<forall>j\<in>{..<3}. (0x1002 :: u32) + of_nat i \<noteq> 0x2002 + of_nat j" by (simp add: lessThan_nat_numeral lessThan_Suc)
  moreover have "\<forall>i\<in>{..<2}. ((0x1002 :: u32) + of_nat i) AND NOT 3 = 0x1000" by (simp add: lessThan_nat_numeral lessThan_Suc)
  ultimately have "copying ?E 0x1002 0x2002 3 2" by (simp add: copying_def Ball_def)
  from csum_copy_user_fault [OF this, where partial_sum = "0" and M = "\<lambda>a. ucast a", unfolded of_nat_numeral]
  obtain v where v: "csum_partial_copy_user ?E 0x1002 0x2002 3 0 (\<lambda>a. ucast a) =
      Some (v, store32 (0x2002 + 2) (3 - 2 - (2 - tail_start 0x1002 0x2002 3 2)) (\<lambda>j. 0)
        (store32 (err_ptr ?E) 4 (word_byte (big_endian ?E) (- EFAULT)) (copied32 (\<lambda>a. ucast a) 0x2002 0x1002 2)))"
    by auto
  show ?thesis
    by (intro exI conjI, rule v) (simp_all add: copied32_def store32_def tail_start_def word_byte_def EFAULT_def)
qed

end
