(* ===== verification/SbmipsRegs.thy ===== *)
theory SbmipsRegs
  imports Registers
begin

text \<open>
  The registers of coprocessor 0, from \<open>include/sibyte/sbmips.h\<close>, one list of fields for each
  register the header describes. Fields that share the bits of others, because they are
  another view of the register or belong to another register of the same description, are in a
  list of their own.
\<close>

unbundle bit_operations_syntax

subsection \<open>32-bit address map\<close>

definition mips_32_bit_address_map :: "(string \<times> u64) list" where
  "mips_32_bit_address_map =
     [(''UBASE'', 0), (''USIZE'', 0x80000000), (''K0SIZE'', 0x20000000), (''K1SIZE'', 0x20000000),
      (''KSSIZE'', 0x20000000), (''K3SIZE'', 0x20000000)]"

subsection \<open>CP0 Registers\<close>

definition mips_cp0 :: "(string \<times> u64) list" where
  "mips_cp0 =
     [(''C0_INX'', 0), (''C0_RAND'', 1), (''C0_TLBLO0'', 2), (''C0_TLBLO'', 2), (''C0_TLBLO1'', 3),
      (''C0_CTEXT'', 4), (''C0_PGMASK'', 5), (''C0_WIRED'', 6), (''C0_BADVADDR'', 8), (''C0_COUNT'', 9),
      (''C0_TLBHI'', 10), (''C0_COMPARE'', 11), (''C0_SR'', 12), (''C0_CAUSE'', 13), (''C0_EPC'', 14),
      (''C0_PRID'', 15), (''C0_CONFIG'', 16), (''C0_LLADDR'', 17), (''C0_WATCHLO'', 18), (''C0_WATCHHI'', 19),
      (''C0_XCTEXT'', 20), (''C0_PTR'', 22), (''C0_DEBUG'', 23), (''C0_DEPC'', 24), (''C0_PERFCONT'', 25),
      (''C0_ERRCTL'', 26), (''C0_CERR'', 27), (''C0_TAGLO'', 28), (''C0_TAGHI'', 29), (''C0_ERREPC'', 30),
      (''C0_DESAVE'', 31)]"

subsection \<open>Aliases to match MIPS manuals.\<close>

definition mips_aliases_to_match_mips_manuals :: "(string \<times> u64) list" where
  "mips_aliases_to_match_mips_manuals =
     [(''C0_INDEX'', 0), (''C0_RANDOM'', 1), (''C0_ENTRYLO0'', 2), (''C0_ENTRYLO1'', 3), (''C0_CONTEXT'', 4),
      (''C0_PAGEMASK'', 5), (''C0_ENTRYHI'', 10), (''C0_STATUS'', 12), (''C0_XCONTEXT'', 20), (''C0_PERFCNT'',
        25),
      (''C0_ERROREPC'', 30)]"

subsection \<open>CP1 (floating point) control registers\<close>

definition mips_cp1_control :: "(string \<times> u64) list" where
  "mips_cp1_control =
     [(''FPA_IRR'', 0), (''FPA_CSR'', 31)]"

subsection \<open>Floating-Point Control register bits\<close>

definition mips_floating_point_control_bits :: "(string \<times> u64) list" where
  "mips_floating_point_control_bits =
     [(''CSR_C'', 0x800000), (''CSR_EXC'', 0x3f000), (''CSR_EE'', 0x20000), (''CSR_EV'', 0x10000),
      (''CSR_EZ'', 0x8000), (''CSR_EO'', 0x4000), (''CSR_EU'', 0x2000), (''CSR_EI'', 0x1000), (''CSR_TV'',
        0x800),
      (''CSR_TZ'', 0x400), (''CSR_TO'', 512), (''CSR_TU'', 256), (''CSR_TI'', 128), (''CSR_SV'', 64),
      (''CSR_SZ'', 32), (''CSR_SO'', 16), (''CSR_SU'', 8), (''CSR_SI'', 4), (''CSR_RM'', 3)]"

subsection \<open>Status\<close>

definition mips_status :: register where
  "mips_status =
     [(''SR_CU3'', flag32 31),
      (''SR_CU2'', flag32 30),
      (''SR_CU1'', flag32 29),
      (''SR_CU0'', flag32 28),
      (''SR_RP'', get_as (Macro (27, ucast (SB_MAKEMASK_32 1 27))) (flag32 27)),
      (''SR_FR'', get_as (Macro (26, ucast (SB_MAKEMASK_32 1 26))) (flag32 26)),
      (''SR_RE'', get_as (Macro (25, ucast (SB_MAKEMASK_32 1 25))) (flag32 25)),
      (''SR_MX'', get_as (Macro (24, ucast (SB_MAKEMASK_32 1 24))) (flag32 24)),
      (''SR_PX'', get_as (Macro (23, ucast (SB_MAKEMASK_32 1 23))) (flag32 23)),
      (''SR_BEV'', get_as (Macro (22, ucast (SB_MAKEMASK_32 1 22))) (flag32 22)),
      (''SR_TS'', get_as (Macro (21, ucast (SB_MAKEMASK_32 1 21))) (flag32 21)),
      (''SR_SR'', get_as (Macro (20, ucast (SB_MAKEMASK_32 1 20))) (flag32 20)),
      (''SR_NMI'', get_as (Macro (19, ucast (SB_MAKEMASK_32 1 19))) (flag32 19)),
      (''SR_IBIT8'', flag32 15),
      (''SR_IBIT7'', flag32 14),
      (''SR_IBIT6'', flag32 13),
      (''SR_IBIT5'', flag32 12),
      (''SR_IBIT4'', flag32 11),
      (''SR_IBIT3'', flag32 10),
      (''SR_IBIT2'', flag32 9),
      (''SR_IBIT1'', flag32 8),
      (''SR_KX'', get_as (Macro (7, ucast (SB_MAKEMASK_32 1 7))) (flag32 7)),
      (''SR_SX'', get_as (Macro (6, ucast (SB_MAKEMASK_32 1 6))) (flag32 6)),
      (''SR_UX'', get_as (Macro (5, ucast (SB_MAKEMASK_32 1 5))) (flag32 5)),
      (''SR_UM'', flag32 4),
      (''SR_ERL'', get_as (Macro (2, ucast (SB_MAKEMASK_32 1 2))) (flag32 2)),
      (''SR_EXL'', get_as (Macro (1, ucast (SB_MAKEMASK_32 1 1))) (flag32 1)),
      (''SR_IE'', get_as (Macro (0, ucast (SB_MAKEMASK_32 1 0))) (flag32 0))]"

definition mips_status_whole :: register where
  "mips_status_whole =
     [(''SR_CUMASK'', get_as (Macro (28, ucast (SB_MAKEMASK_32 4 28))) (bits32 4 28)),
      (''SR_IMASK'', get_as (Macro (8, ucast (SB_MAKEMASK_32 8 8))) (bits32 8 8)),
      (''SR_KSU'', codes [K ''KERNEL'' 0, K ''SUPR'' 1, K ''USER'' 2] (field32 2 3))]"

definition mips_status_nested :: "(string \<times> u64) list" where
  "mips_status_nested =
     [(''SR_IMASK8'', 0), (''SR_IMASK7'', ucast (SB_MAKEMASK_32 1 15)), (''SR_IMASK6'',
        ucast (SB_MAKEMASK_32 2 14)), (''SR_IMASK5'', ucast (SB_MAKEMASK_32 3 13)), (''SR_IMASK4'',
        ucast (SB_MAKEMASK_32 4 12)), (''SR_IMASK3'', ucast (SB_MAKEMASK_32 5 11)), (''SR_IMASK2'',
        ucast (SB_MAKEMASK_32 6 10)), (''SR_IMASK1'', ucast (SB_MAKEMASK_32 7 9)), (''SR_IMASK0'',
        ucast (SB_MAKEMASK_32 8 8))]"

subsection \<open>Cause Register\<close>

definition mips_cause :: register where
  "mips_cause =
     [(''CAUSE_BD'', flag32 31),
      (''CAUSE_CE'', field32 2 28),
      (''CAUSE_IV'', flag32 23),
      (''CAUSE_WP'', flag32 22),
      (''CAUSE_IP8'', flag32 15),
      (''CAUSE_IP7'', flag32 14),
      (''CAUSE_IP6'', flag32 13),
      (''CAUSE_IP5'', flag32 12),
      (''CAUSE_IP4'', flag32 11),
      (''CAUSE_IP3'', flag32 10),
      (''CAUSE_SW2'', flag32 9),
      (''CAUSE_SW1'', flag32 8),
      (''CAUSE_EXC'', field32 5 2)]"

definition mips_cause_whole :: register where
  "mips_cause_whole =
     [(''CAUSE_IPMASK'', bits32 8 8)]"

subsection \<open>Exception Code\<close>

definition mips_exception_code :: "(string \<times> u64) list" where
  "mips_exception_code =
     [(''K_CAUSE_EXC_INT'', 0), (''K_CAUSE_EXC_MOD'', 1), (''K_CAUSE_EXC_TLBL'', 2), (''K_CAUSE_EXC_TLBS'', 3),
      (''K_CAUSE_EXC_ADEL'', 4), (''K_CAUSE_EXC_ADES'', 5), (''K_CAUSE_EXC_IBE'', 6), (''K_CAUSE_EXC_DBE'', 7),
      (''K_CAUSE_EXC_SYS'', 8), (''K_CAUSE_EXC_BP'', 9), (''K_CAUSE_EXC_RI'', 10), (''K_CAUSE_EXC_CPU'', 11),
      (''K_CAUSE_EXC_OVF'', 12), (''K_CAUSE_EXC_TRAP'', 13), (''K_CAUSE_EXC_VCEI'', 14), (''K_CAUSE_EXC_FPE'',
        15),
      (''K_CAUSE_EXC_CP2'', 16), (''K_CAUSE_EXC_WATCH'', 23), (''K_CAUSE_EXC_VCED'', 31), (''K_NTLBENTRIES'',
        64)]"

subsection \<open>FPU control and status\<close>

definition mips_fpu_control_status :: register where
  "mips_fpu_control_status =
     [(''FCSR_CAUSE'', field32 5 12),
      (''FCSR_ENABLES'', field32 5 7),
      (''FCSR_FLAGS'', field32 5 2)]"

definition mips_fpu_control_status_consts :: "(string \<times> u64) list" where
  "mips_fpu_control_status_consts =
     [(''C1_CSR'', 31), (''C1_FRID'', 0)]"

subsection \<open>Config register\<close>

definition mips_config :: register where
  "mips_config =
     [(''CFG_CFG1'', get_as (Macro (31, ucast (SB_MAKEMASK_32 1 31))) (flag32 31)),
      (''CFG_MK1'', field32 1 21),
      (''CFG_MK0'', field32 1 20),
      (''CFG_MPV'', field32 4 16),
      (''CFG_BE'', get_as (Macro (15, ucast (SB_MAKEMASK_32 1 15))) (flag32 15)),
      (''CFG_AT'', codes [K ''MIPS32'' 0, K ''MIPS64_32'' 1, K ''MIPS64'' 2] (field32 2 13)),
      (''CFG_AR'', codes [K ''REV1'' 0] (field32 3 10)),
      (''CFG_MMU'', codes [K ''NONE'' 0, K ''TLB'' 1, K ''BAT'' 2, K ''FIXED'' 3] (field32 3 7)),
      (''CFG_K0COH'', codes [K ''UNCACHED'' 2, K ''CACHEABLE'' 3, K ''COHERENT'' 5] (field32 3 0))]"

subsection \<open>Config register select 1\<close>

definition mips_config_select_1 :: register where
  "mips_config_select_1 =
     [(''CFG_CFG2'', flag32 31),
      (''CFG_MMUSIZE'', get_as (Macro (25, ucast (SB_MAKEMASK_32 6 25))) (bits32 6 25)),
      (''CFG_IS'', field32 3 22),
      (''CFG_IL'', field32 3 19),
      (''CFG_IA'', field32 3 16),
      (''CFG_DS'', field32 3 13),
      (''CFG_DL'', field32 3 10),
      (''CFG_DA'', field32 3 7),
      (''CFG_PC'', get_as (Macro (4, ucast (SB_MAKEMASK_32 1 4))) (flag32 4)),
      (''CFG_WR'', get_as (Macro (3, ucast (SB_MAKEMASK_32 1 3))) (flag32 3)),
      (''CFG_CA'', get_as (Macro (2, ucast (SB_MAKEMASK_32 1 2))) (flag32 2)),
      (''CFG_EP'', get_as (Macro (1, ucast (SB_MAKEMASK_32 1 1))) (flag32 1)),
      (''CFG_FP'', get_as (Macro (0, ucast (SB_MAKEMASK_32 1 0))) (flag32 0))]"

subsection \<open>Primary Cache TagLo\<close>

definition mips_primary_cache_taglo :: register where
  "mips_primary_cache_taglo =
     [(''TAGLO_PTAG'', bits32 56 8),
      (''TAGLO_PSTATE'', codes [K ''INVAL'' 0, K ''SHARED'' 1, K ''CLEAN_EXCL'' 2,
        K ''DIRTY_EXCL'' 3] (field32 2 6)),
      (''TAGLO_LOCK'', flag32 5),
      (''TAGLO_PARITY'', flag32 0)]"

subsection \<open>CP0 ErrCtl register\<close>

definition mips_cp0_errctl :: register where
  "mips_cp0_errctl =
     [(''ERRCTL_RECOVERABLE'', flag32 31),
      (''ERRCTL_DCACHE'', flag32 30),
      (''ERRCTL_ICACHE'', flag32 29),
      (''ERRCTL_MULTIBUS'', flag32 23),
      (''ERRCTL_MC_TLB'', flag32 15),
      (''ERRCTL_MC_TIMEOUT'', flag32 14)]"

subsection \<open>CP0 CacheErr-I register\<close>

definition mips_cp0_cacheerr_i :: register where
  "mips_cp0_cacheerr_i =
     [(''CERRI_TAG_PARITY'', flag32 29),
      (''CERRI_DATA_PARITY'', flag32 28),
      (''CERRI_EXTERNAL'', flag32 26)]"

subsection \<open>CP0 CacheErr-D register\<close>

definition mips_cp0_cacheerr_d :: register where
  "mips_cp0_cacheerr_d =
     [(''CERRD_MULTIPLE'', flag32 31),
      (''CERRD_TAG_STATE'', flag32 30),
      (''CERRD_TAG_ADDRESS'', flag32 29),
      (''CERRD_DATA_SBE'', flag32 28),
      (''CERRD_DATA_DBE'', flag32 27),
      (''CERRD_EXTERNAL'', flag32 26),
      (''CERRD_LOAD'', flag32 25),
      (''CERRD_STORE'', flag32 24),
      (''CERRD_FILLWB'', flag32 23),
      (''CERRD_COHERENCY'', flag32 22),
      (''CERRD_DUPTAG'', flag32 21)]"

subsection \<open>Primary Cache operations\<close>

definition mips_primary_cache_operations :: "(string \<times> u64) list" where
  "mips_primary_cache_operations =
     [(''Index_Invalidate_I'', 0), (''Index_Writeback_Inv_D'', 1), (''Index_Invalidate_SI'', 2),
      (''Index_Writeback_Inv_SD'', 3), (''Index_Load_Tag_I'', 4), (''Index_Load_Tag_D'', 5),
      (''Index_Load_Tag_SI'', 6), (''Index_Load_Tag_SD'', 7), (''Index_Store_Tag_I'', 8),
      (''Index_Store_Tag_D'', 9), (''Index_Store_Tag_SI'', 10), (''Index_Store_Tag_SD'', 11),
      (''Create_Dirty_Exc_D'', 13), (''Create_Dirty_Exc_SD'', 15), (''Hit_Invalidate_I'', 16),
      (''Hit_Invalidate_D'', 17), (''Hit_Invalidate_SI'', 18), (''Hit_Invalidate_SD'', 19), (''Fill_I'', 20),
      (''Hit_Writeback_Inv_D'', 21), (''Hit_Writeback_Inv_SD'', 23), (''Hit_Writeback_I'', 24),
      (''Hit_Writeback_D'', 25), (''Hit_Writeback_SD'', 27), (''Hit_Set_Virtual_SI'', 30),
      (''Hit_Set_Virtual_SD'', 31)]"

subsection \<open>Watchpoint Register\<close>

definition M_WATCH_PA :: u64 where
  "M_WATCH_PA = 0xfffffff8"

definition M_WATCH_R :: u64 where
  "M_WATCH_R = 2"

definition M_WATCH_W :: u64 where
  "M_WATCH_W = 1"

subsection \<open>TLB entries\<close>

definition mips_tlb_entries :: register where
  "mips_tlb_entries =
     [(''TLBLO_G'', field 1 0),
      (''TLBLO_V'', field 1 1),
      (''TLBLO_D'', field 1 2),
      (''TLBLO_CALG'', field 3 3),
      (''TLBLO_PFNMASK'', field 28 6)]"

definition mips_tlb_entries_hi :: register where
  "mips_tlb_entries_hi =
     [(''TLBHI_ASID'', field 8 0),
      (''TLBHI_VPN2'', field 31 13)]"

subsection \<open>TLB page mask\<close>

definition mips_tlb_page_mask :: register where
  "mips_tlb_page_mask =
     [(''TLB_PGMSK'', field32 14 13)]"

definition mips_tlb_page_mask_consts :: "(string \<times> u64) list" where
  "mips_tlb_page_mask_consts =
     [(''K_CALG_COH_EXCL1_NOL2'', 0), (''K_CALG_COH_SHRL1_NOL2'', 1), (''K_CALG_UNCACHED'', 2),
      (''K_CALG_NONCOHERENT'', 3), (''K_CALG_COH_EXCL'', 4), (''K_CALG_COH_SHAREABLE'', 5),
      (''K_CALG_NOTUSED'', 6), (''K_CALG_UNCACHED_ACCEL'', 7)]"

subsection \<open>The header\<close>

definition sbmips :: "header" where
  "sbmips =
     [(''status'', mips_status),
      (''status_whole'', mips_status_whole),
      (''cause'', mips_cause),
      (''cause_whole'', mips_cause_whole),
      (''fpu_control_status'', mips_fpu_control_status),
      (''config'', mips_config),
      (''config_select_1'', mips_config_select_1),
      (''primary_cache_taglo'', mips_primary_cache_taglo),
      (''cp0_errctl'', mips_cp0_errctl),
      (''cp0_cacheerr_i'', mips_cp0_cacheerr_i),
      (''cp0_cacheerr_d'', mips_cp0_cacheerr_d),
      (''tlb_entries'', mips_tlb_entries),
      (''tlb_entries_hi'', mips_tlb_entries_hi),
      (''tlb_page_mask'', mips_tlb_page_mask)]"

lemmas sbmips_defs = sbmips_def
    mips_status_def mips_status_whole_def mips_cause_def mips_cause_whole_def mips_fpu_control_status_def 
    mips_config_def mips_config_select_1_def mips_primary_cache_taglo_def mips_cp0_errctl_def 
    mips_cp0_cacheerr_i_def mips_cp0_cacheerr_d_def mips_tlb_entries_def mips_tlb_entries_hi_def 
    mips_tlb_page_mask_def

lemma sbmips_ascending:
  "register_defects mips_cause_whole = ([], [])"
  "register_defects mips_tlb_entries = ([], [])"
  "register_defects mips_tlb_entries_hi = ([], [])"
  "register_defects mips_tlb_page_mask = ([], [])"
  by (simp_all add: ascending_eval sbmips_defs)

lemma sbmips_others:
  "register_defects mips_status = ([], [])"
  "register_defects mips_status_whole = ([], [])"
  "register_defects mips_cause = ([], [])"
  "register_defects mips_fpu_control_status = ([], [])"
  "register_defects mips_config = ([], [])"
  "register_defects mips_config_select_1 = ([], [])"
  "register_defects mips_primary_cache_taglo = ([''TAGLO_PTAG''], [])"
  "register_defects mips_cp0_errctl = ([], [])"
  "register_defects mips_cp0_cacheerr_i = ([], [])"
  "register_defects mips_cp0_cacheerr_d = ([], [])"
  by (simp_all add: register_eval sbmips_defs)

lemma sbmips_defects:
  "defects sbmips =
     [(''primary_cache_taglo'', [''TAGLO_PTAG''], [])]"
  by (simp add: defects_def sbmips_def sbmips_ascending sbmips_others)

end
