(* ===== verification/Cp0.thy ===== *)
theory Cp0
  imports SbmipsRegs Sbmips Clib
begin

text \<open>
  The address spaces and the coprocessor 0 access functions of \<open>include/sibyte/sbmips.h\<close>, and the two
  programs over them: \<open>cp0/cp0dump.c\<close>, which reads every register, writes the value back and prints
  whether it reads the same, and \<open>cp0/prid_decode.c\<close>, which decodes the processor's identification.
  Coprocessor 0 is a parameter of the access functions, as what its four move instructions do.
\<close>

unbundle bit_operations_syntax

section \<open>Address spaces\<close>

text \<open>
  The macros in C that \<open>Sbmips\<close> does not have yet, for a program with 64-bit addresses: an address of the
  32-bit map is widened with its sign (\<open>_ACAST32_\<close>).
\<close>

definition ACAST32 :: "u32 \<Rightarrow> u64" where "ACAST32 x = scast x"

definition KSBASE :: u64 where "KSBASE = ACAST32 0xc0000000"
definition K3BASE :: u64 where "K3BASE = ACAST32 0xe0000000"
definition GEN_VECT :: u64 where "GEN_VECT = ACAST32 0x80000080"
definition UTLB_VECT :: u64 where "UTLB_VECT = ACAST32 0x80000000"

definition PHYS_TO_XK1 :: "u64 \<Rightarrow> u64" where "PHYS_TO_XK1 p = 0xffffffffa0000000 OR p"
definition XK1_TO_PHYS :: "u64 \<Rightarrow> u64" where "XK1_TO_PHYS p = p AND (K1SIZE - 1)"
definition PHYS_TO_XKPHYS :: "u64 \<Rightarrow> u64 \<Rightarrow> u64" where
  "PHYS_TO_XKPHYS cca p = SB_MAKEMASK1 63 OR push_bit 59 cca OR p"
definition XKPHYS_TO_PHYS :: "u64 \<Rightarrow> u64" where "XKPHYS_TO_PHYS p = p AND SB_MAKEMASK 0 59"

definition ISK0SEG :: "u64 \<Rightarrow> bool" where
  "ISK0SEG va = (K0BASE \<le> va \<and> va \<le> K0BASE + K0SIZE - 1)"
definition ISK1SEG :: "u64 \<Rightarrow> bool" where
  "ISK1SEG va = (K1BASE \<le> va \<and> va \<le> K1BASE + K1SIZE - 1)"

definition HI_HALF :: "u32 \<Rightarrow> u32" where "HI_HALF x = drop_bit 16 x"
definition LO_HALF :: "u32 \<Rightarrow> u32" where "LO_HALF x = x AND 0xffff"

section \<open>The access functions\<close>











section \<open>cp0dump\<close>















section \<open>prid_decode\<close>

definition adjust_prid :: "u32 \<Rightarrow> u32" where
  "adjust_prid raw =
     (if raw AND 0xf000 \<noteq> 0 then raw
      else (raw AND 0xffff0000) OR push_bit 4 (raw AND 0x0fff))"

definition microarch_str :: "u32 \<Rightarrow> string" where
  "microarch_str microarch = (if microarch \<noteq> 0 then [char_of (0x41 + unat microarch - 1)] else [])"

definition decode_lines :: "u32 \<Rightarrow> string list" where
  "decode_lines adjusted =
     (let arch = drop_bit 12 (adjusted AND 0xf000); microarch = drop_bit 8 (adjusted AND 0x0f00);
          major_rev = drop_bit 4 (adjusted AND 0x00f0); minor_rev = adjusted AND 0x000f
      in (''SB-'' @ show_dec arch @ microarch_str microarch @ '' rev '' @ show_dec major_rev @ ''.'' @
            show_dec minor_rev @ [CHR 0x0A]) #
         (if arch = 1 then
            [(if drop_bit 24 adjusted AND 1 \<noteq> 0 then ''Multi'' else ''Uni'') @ ''processor, CPU ID '' @
               show_dec (drop_bit 25 adjusted AND 7) @ [CHR 0x0A]]
          else []))"

definition prid_main :: "u32 \<Rightarrow> string list" where
  "prid_main raw =
     (''Raw PRID value:      0x'' @ show_hex 8 raw @ [CHR 0x0A]) #
     (if drop_bit 16 raw AND 0xff \<noteq> 4 then [''Not a SiByte CPU.'' @ [CHR 0x0A]]
      else (''Adjusted PrID value: 0x'' @ show_hex 8 (adjust_prid raw) @ [CHR 0x0A]) #
             decode_lines (adjust_prid raw))"

section \<open>The address spaces are one\<close>

lemma K0BASE_widened: "K0BASE = ACAST32 0x80000000" "K1BASE = ACAST32 0xa0000000"
  by (simp_all add: K0BASE_def K1BASE_def ACAST32_def)

lemma cp0_segments:
  "K0BASE = 0xffffffff80000000" "K1BASE = 0xffffffffa0000000" "K0SIZE = 0x20000000"
  "K1SIZE = 0x20000000"
  by (simp_all add: K0BASE_def K1BASE_def K0SIZE_def K1SIZE_def ACAST32_def)

lemma low29: "pa < 0x20000000 \<Longrightarrow> pa AND mask 29 = (pa :: u64)"
  by (simp add: word_eq_iff_unsigned [where 'a = int] unsigned_take_bit_eq take_bit_int_eq_self_iff
      word_less_def flip: take_bit_eq_mask)

lemma or_offset:
  fixes b pa :: u64
  assumes "b AND mask 29 = 0" and "pa < 0x20000000"
  shows "b OR pa = b + pa" and "(b OR pa) AND mask 29 = pa"
proof -
  note pa = low29 [OF assms(2)]
  have "b AND pa = (b AND mask 29) AND pa"
    by (metis pa and.assoc and.commute)
  then have "b AND pa = 0"
    using assms(1) by simp
  then show "b OR pa = b + pa"
    using word_plus_and_or [of b pa] by simp
  show "(b OR pa) AND mask 29 = pa"
    by (simp add: bit.conj_disj_distrib2 assms(1) pa)
qed

lemma segment_bounds:
  fixes b va :: u64
  assumes "b AND mask 29 = 0" and "uint b + 0x20000000 < 2 ^ 64"
  shows "(b \<le> va \<and> va \<le> b + 0x20000000 - 1) = (\<exists>pa < 0x20000000. va = b OR pa)"
proof
  have ub: "uint (b + 0x20000000 - 1) = uint b + 0x1fffffff"
  proof -
    have "b + 0x20000000 - 1 = b + 0x1fffffff" by simp
    moreover have "uint (b + 0x1fffffff) = uint b + 0x1fffffff"
      using assms(2) by (simp add: uint_plus_if')
    ultimately show ?thesis by (simp only:)
  qed
  { assume va: "b \<le> va \<and> va \<le> b + 0x20000000 - 1"
    then have "uint b \<le> uint va" and "uint va \<le> uint b + 0x1fffffff"
      using ub by (simp_all add: word_le_def)
    then have "uint (va - b) < 0x20000000"
      by (simp add: uint_sub_if')
    then have "va - b < 0x20000000"
      by (simp add: word_less_def)
    then show "\<exists>pa < 0x20000000. va = b OR pa"
      using or_offset(1) [OF assms(1)] by (intro exI [of _ "va - b"]) auto }
  { assume "\<exists>pa < 0x20000000. va = b OR pa"
    then obtain pa where pa: "pa < 0x20000000" "va = b + pa"
      using or_offset(1) [OF assms(1)] by auto
    then have "uint va = uint b + uint pa" and "uint pa < 0x20000000"
      using assms(2) by (simp_all add: uint_plus_if' word_less_def)
    then show "b \<le> va \<and> va \<le> b + 0x20000000 - 1"
      unfolding word_le_def ub by simp }
qed

lemma segment_masks: "(0xffffffff80000000 :: u64) AND mask 29 = 0" "(0xffffffffa0000000 :: u64) AND mask 29 = 0"
  "(0x1fffffff :: u64) = mask 29"
  by (simp_all add: mask_eq_exp_minus_1)

lemma segment_bit: "(0xffffffff80000000 :: u64) OR 0x20000000 = 0xffffffffa0000000"
  "(0xffffffffa0000000 :: u64) AND NOT 0x20000000 = 0xffffffff80000000"
  by (simp_all add: word_eq_iff_unsigned)

lemma segment_disjoint: "ISK0SEG va \<Longrightarrow> \<not> ISK1SEG va"
  by (simp add: ISK0SEG_def ISK1SEG_def cp0_segments word_le_def)

text \<open>
  C40: The two unmapped segments of the 32-bit address map are the images of the low 512 MB of the physical
  addresses: an address passes \<open>ISK0SEG\<close> (\<open>ISK1SEG\<close>) exactly when it is \<open>PHYS_TO_K0\<close> (\<open>PHYS_TO_K1\<close>) of
  such an address, the conversions back and between the segments undo and commute with these, and
  no address is in both; \<open>XKPHYS_TO_PHYS\<close>, whose mask has its two arguments swapped, gives 0 for every
  address.
\<close>

theorem segment_roundtrip:
  assumes "pa < 0x20000000"
  shows "K0_TO_PHYS (PHYS_TO_K0 pa) = pa \<and> K1_TO_PHYS (PHYS_TO_K1 pa) = pa \<and>
    K0_TO_K1 (PHYS_TO_K0 pa) = PHYS_TO_K1 pa \<and> K1_TO_K0 (PHYS_TO_K1 pa) = PHYS_TO_K0 pa \<and>
    ISK0SEG va = (\<exists>p < 0x20000000. va = PHYS_TO_K0 p) \<and>
    ISK1SEG va = (\<exists>p < 0x20000000. va = PHYS_TO_K1 p) \<and>
    \<not> (ISK0SEG va \<and> ISK1SEG va) \<and> XKPHYS_TO_PHYS va = 0"
proof (intro conjI)
  note segs = PHYS_TO_K0_def PHYS_TO_K1_def cp0_segments
  show "K0_TO_PHYS (PHYS_TO_K0 pa) = pa" "K1_TO_PHYS (PHYS_TO_K1 pa) = pa"
    using or_offset(2) [OF segment_masks(1) assms] or_offset(2) [OF segment_masks(2) assms]
    by (simp_all add: K0_TO_PHYS_def K1_TO_PHYS_def segs segment_masks(3))
  show "K0_TO_K1 (PHYS_TO_K0 pa) = PHYS_TO_K1 pa"
    by (simp add: K0_TO_K1_def segs or.commute or.left_commute flip: or.assoc)
  have "pa AND NOT 0x20000000 = (pa AND mask 29) AND NOT 0x20000000"
    by (simp only: low29 [OF assms])
  also have "\<dots> = pa AND (mask 29 AND NOT 0x20000000)"
    by (simp only: and.assoc)
  also have "mask 29 AND NOT (0x20000000 :: u64) = mask 29"
    by (simp flip: segment_masks(3))
  finally have "pa AND NOT 0x20000000 = pa"
    by (simp only: low29 [OF assms])
  then show "K1_TO_K0 (PHYS_TO_K1 pa) = PHYS_TO_K0 pa"
    by (simp only: K1_TO_K0_def segs bit.conj_disj_distrib2 segment_bit)
  show "ISK0SEG va = (\<exists>p < 0x20000000. va = PHYS_TO_K0 p)"
    using segment_bounds [OF segment_masks(1)] by (simp add: ISK0SEG_def segs)
  show "ISK1SEG va = (\<exists>p < 0x20000000. va = PHYS_TO_K1 p)"
    using segment_bounds [OF segment_masks(2)] by (simp add: ISK1SEG_def segs)
  show "\<not> (ISK0SEG va \<and> ISK1SEG va)"
    using segment_disjoint by blast
  show "XKPHYS_TO_PHYS va = 0"
    by (simp add: XKPHYS_TO_PHYS_def SB_MAKEMASK_def)
qed

text \<open>The hypothesis is satisfiable: an address in both images, and its two views.\<close>

theorem segment_roundtrip_witness:
  "K0_TO_PHYS (PHYS_TO_K0 0x1fc00000) = 0x1fc00000 \<and> ISK1SEG (PHYS_TO_K1 0x1fc00000)"
  using segment_roundtrip [where pa = "0x1fc00000" and va = "PHYS_TO_K1 0x1fc00000"]
  by (auto intro: exI [of _ "0x1fc00000 :: u64"])

section \<open>What cp0dump does to the registers\<close>



















section \<open>What prid_decode prints\<close>

lemma prid_masks:
  "(0xf000 :: u32) = push_bit 12 (mask 4)" "(0x0f00 :: u32) = push_bit 8 (mask 4)"
  "(0x00f0 :: u32) = push_bit 4 (mask 4)" "(0x000f :: u32) = mask 4"
  "(0x0fff :: u32) = mask 12" "(0xffff0000 :: u32) = push_bit 16 (mask 16)" "(0xff :: u32) = mask 8"
  by (simp_all add: mask_eq_exp_minus_1)

lemma adjust_prid_bit:
  assumes "raw AND 0xf000 = 0"
  shows "bit (adjust_prid raw) n \<longleftrightarrow> n < 32 \<and> (if 16 \<le> n then bit raw n else 4 \<le> n \<and> bit raw (n - 4))"
proof -
  have "adjust_prid raw = (raw AND 0xffff0000) OR push_bit 4 (raw AND 0x0fff)"
    using assms unfolding adjust_prid_def by (simp only: not_True_eq_False if_False simp_thms)
  then show ?thesis
    unfolding prid_masks by (auto simp: bit_simps dest: bit_imp_le_length)
qed

lemma adjust_prid_fields:
  assumes "raw AND 0xf000 = 0"
  shows "drop_bit 12 (adjust_prid raw AND 0xf000) = drop_bit 8 (raw AND 0x0f00)"
    and "drop_bit 8 (adjust_prid raw AND 0x0f00) = drop_bit 4 (raw AND 0x00f0)"
    and "drop_bit 4 (adjust_prid raw AND 0x00f0) = raw AND 0x000f"
    and "adjust_prid raw AND 0x000f = 0"
    and "drop_bit 16 (adjust_prid raw) = drop_bit 16 raw"
    and "drop_bit 24 (adjust_prid raw) = drop_bit 24 raw"
    and "drop_bit 25 (adjust_prid raw) = drop_bit 25 raw"
  unfolding prid_masks by (auto simp: bit_eq_iff bit_simps adjust_prid_bit [OF assms] dest: bit_imp_le_length)

lemma adjust_prid_new:
  assumes "raw AND 0xf000 = 0" and "raw AND 0x0f00 \<noteq> 0"
  shows "adjust_prid raw AND 0xf000 \<noteq> 0"
proof
  assume "adjust_prid raw AND 0xf000 = 0"
  then have "drop_bit 8 (raw AND 0x0f00) = 0"
    using adjust_prid_fields(1) [OF assms(1)] by simp
  then have "push_bit 8 (drop_bit 8 (raw AND 0x0f00)) = 0"
    by simp
  moreover have "push_bit 8 (drop_bit 8 (raw AND 0x0f00)) = raw AND 0x0f00"
    unfolding prid_masks by (auto simp: bit_eq_iff bit_simps)
  ultimately show False using assms(2) by simp
qed

text \<open>
  For a SiByte identification in the old format (no major version in bits 15:12) that names an
  architecture, the program prints what it prints for the value it is converted to, and that is
  the architecture, the microarchitecture's letter and the major revision from the old places, with minor
  revision 0; the kind of processor and the CPU ID of an SB-1 are read from the bits the conversion
  leaves alone.
\<close>

theorem prid_old_format:
  assumes "drop_bit 16 raw AND 0xff = 4" and "raw AND 0xf000 = 0" and "raw AND 0x0f00 \<noteq> 0"
  shows "tl (prid_main raw) = tl (prid_main (adjust_prid raw)) \<and>
    tl (tl (prid_main raw)) =
      (''SB-'' @ show_dec (drop_bit 8 (raw AND 0x0f00)) @ microarch_str (drop_bit 4 (raw AND 0x00f0)) @
         '' rev '' @ show_dec (raw AND 0x000f) @ ''.0'' @ [CHR 0x0A]) #
      (if drop_bit 8 (raw AND 0x0f00) = 1 then
         [(if drop_bit 24 raw AND 1 \<noteq> 0 then ''Multi'' else ''Uni'') @ ''processor, CPU ID '' @
            show_dec (drop_bit 25 raw AND 7) @ [CHR 0x0A]]
       else [])"
proof -
  note fields = adjust_prid_fields [OF assms(2)]
  have "show_dec (0 :: u32) = ''0''"
    by (simp add: show_dec_def digits_of.simps hex_char_def)
  then have "decode_lines (adjust_prid raw) =
      (''SB-'' @ show_dec (drop_bit 8 (raw AND 0x0f00)) @ microarch_str (drop_bit 4 (raw AND 0x00f0)) @
         '' rev '' @ show_dec (raw AND 0x000f) @ ''.0'' @ [CHR 0x0A]) #
      (if drop_bit 8 (raw AND 0x0f00) = 1 then
         [(if drop_bit 24 raw AND 1 \<noteq> 0 then ''Multi'' else ''Uni'') @ ''processor, CPU ID '' @
            show_dec (drop_bit 25 raw AND 7) @ [CHR 0x0A]]
       else [])"
    unfolding decode_lines_def Let_def fields by simp
  moreover have "adjust_prid (adjust_prid raw) = adjust_prid raw"
    using adjust_prid_new [OF assms(2,3)] by (simp add: adjust_prid_def)
  ultimately show ?thesis
    using assms(1) by (simp add: prid_main_def fields(5))
qed

theorem prid_old_format_witness:
  "prid_main 0x01040102 =
     [''Raw PRID value:      0x01040102'' @ [CHR 0x0A], ''Adjusted PrID value: 0x01041020'' @ [CHR 0x0A],
      ''SB-1 rev 2.0'' @ [CHR 0x0A], ''Multiprocessor, CPU ID 0'' @ [CHR 0x0A]]"
  using prid_old_format [where raw = "0x01040102"]
  by (simp add: prid_main_def adjust_prid_def show_hex_def show_dec_def digits_of.simps hex_char_def pad_left_def
      microarch_str_def decode_lines_def)

end
