(* ===== verification/MipsFpu.thy ===== *)
theory MipsFpu
  imports Registers
begin

text \<open>
  The registers of the floating point coprocessor (its control registers), from \<open>libmips_fpu/libmips_fpu/mips_fpu.h\<close>, one list of fields for each
  register the header describes.
\<close>

unbundle bit_operations_syntax

subsection \<open>Values for rounding mode (RM) field in FCSR and FENR.\<close>

definition fpu_values_rounding_mode_field_in_fcsr :: "(string \<times> u64) list" where
  "fpu_values_rounding_mode_field_in_fcsr =
     [(''K_RM_RN'', 0), (''K_RM_RZ'', 1), (''K_RM_RP'', 2), (''K_RM_RM'', 3)]"

subsection \<open>Masks for bits in Flags, Enables, and Cause in FCSR, FENR, and FEXR.\<close>

definition fpu_masks_bits_in_flags_enables_cause :: register where
  "fpu_masks_bits_in_flags_enables_cause =
     [(''FEX_I'', flag32 0),
      (''FEX_U'', flag32 1),
      (''FEX_O'', flag32 2),
      (''FEX_Z'', flag32 3),
      (''FEX_V'', flag32 4),
      (''FEX_E'', flag32 5)]"

subsection \<open>FIR fields.\<close>

definition fpu_fir_fields :: register where
  "fpu_fir_fields =
     [(''FIR_REVISION'', get_as (Macro (0, ucast (SB_MAKEMASK_32 8 0))) (bits32 8 0)),
      (''FIR_PROCESSORID'', get_as (Macro (8, ucast (SB_MAKEMASK_32 8 8))) (bits32 8 8)),
      (''FIR_S'', get_as (Macro (16, ucast (SB_MAKEMASK_32 1 16))) (bits32 1 16)),
      (''FIR_D'', get_as (Macro (17, ucast (SB_MAKEMASK_32 1 17))) (bits32 1 17)),
      (''FIR_PS'', get_as (Macro (18, ucast (SB_MAKEMASK_32 1 18))) (bits32 1 18)),
      (''FIR_3D'', get_as (Macro (19, ucast (SB_MAKEMASK_32 1 19))) (bits32 1 19)),
      (''FIR_IMPL'', get_as (Macro (24, ucast (SB_MAKEMASK_32 4 24))) (bits32 4 24))]"

definition fpu_fir_fields_consts :: "(string \<times> u64) list" where
  "fpu_fir_fields_consts =
     [(''W_FIR_REVISION'', 8), (''W_FIR_PROCESSORID'', 8), (''W_FIR_S'', 1), (''W_FIR_D'', 1), (''W_FIR_PS'',
        1),
      (''W_FIR_3D'', 1), (''W_FIR_IMPL'', 4)]"

subsection \<open>FCSR fields.\<close>

definition fpu_fcsr_fields :: register where
  "fpu_fcsr_fields =
     [(''FCSR_RM'', field32 2 0),
      (''FCSR_FLAGS'', field32 5 2),
      (''FCSR_ENABLES'', field32 5 7),
      (''FCSR_CAUSE'', field32 6 12),
      (''FCSR_FCC0'', field32 1 23),
      (''FCSR_FS'', field32 1 24),
      (''FCSR_FCC17'', field32 7 25)]"

definition fpu_fcsr_fields_consts :: "(string \<times> u64) list" where
  "fpu_fcsr_fields_consts =
     [(''W_FCSR_RM'', 2), (''W_FCSR_FLAGS'', 5), (''W_FCSR_ENABLES'', 5), (''W_FCSR_CAUSE'', 6),
      (''W_FCSR_FCC0'', 1), (''W_FCSR_FS'', 1), (''W_FCSR_FCC17'', 7)]"

subsection \<open>FCCR fields.\<close>

definition fpu_fccr_fields :: register where
  "fpu_fccr_fields =
     [(''FCCR_FCC'', field32 8 0)]"

definition fpu_fccr_fields_consts :: "(string \<times> u64) list" where
  "fpu_fccr_fields_consts =
     [(''W_FCCR_FCC'', 8)]"

subsection \<open>FEXR fields.\<close>

definition fpu_fexr_fields :: register where
  "fpu_fexr_fields =
     [(''FEXR_FLAGS'', field32 5 2),
      (''FEXR_CAUSE'', field32 6 12)]"

definition fpu_fexr_fields_consts :: "(string \<times> u64) list" where
  "fpu_fexr_fields_consts =
     [(''W_FEXR_FLAGS'', 5), (''W_FEXR_CAUSE'', 6)]"

subsection \<open>FENR fields.\<close>

definition fpu_fenr_fields :: register where
  "fpu_fenr_fields =
     [(''FENR_RM'', field32 2 0),
      (''FENR_FS'', field32 1 2),
      (''FENR_ENABLES'', field32 5 7)]"

definition fpu_fenr_fields_consts :: "(string \<times> u64) list" where
  "fpu_fenr_fields_consts =
     [(''W_FENR_RM'', 2), (''W_FENR_FS'', 1), (''W_FENR_ENABLES'', 5)]"

subsection \<open>The header\<close>

definition mips_fpu :: "header" where
  "mips_fpu =
     [(''masks_bits_in_flags_enables_cause'', fpu_masks_bits_in_flags_enables_cause),
      (''fir_fields'', fpu_fir_fields),
      (''fcsr_fields'', fpu_fcsr_fields),
      (''fccr_fields'', fpu_fccr_fields),
      (''fexr_fields'', fpu_fexr_fields),
      (''fenr_fields'', fpu_fenr_fields)]"

lemmas mips_fpu_defs = mips_fpu_def
    fpu_masks_bits_in_flags_enables_cause_def fpu_fir_fields_def fpu_fcsr_fields_def fpu_fccr_fields_def 
    fpu_fexr_fields_def fpu_fenr_fields_def

lemma mips_fpu_ascending:
  "register_defects fpu_masks_bits_in_flags_enables_cause = ([], [])"
  "register_defects fpu_fir_fields = ([], [])"
  "register_defects fpu_fcsr_fields = ([], [])"
  "register_defects fpu_fccr_fields = ([], [])"
  "register_defects fpu_fexr_fields = ([], [])"
  "register_defects fpu_fenr_fields = ([], [])"
  by (simp_all add: ascending_eval mips_fpu_defs)

lemma mips_fpu_defects:
  "defects mips_fpu =
     []"
  by (simp add: defects_def mips_fpu_def mips_fpu_ascending)

end
