(* ===== verification/Fpu.thy ===== *)
theory Fpu
  imports MipsFpu
begin

text \<open>
  The FPU control registers, \<open>libmips_fpu/libmips_fpu/mips_fpu.h\<close>: the access functions that its macros
  build, and the constructors \<open>auto_fpu_set_fs\<close> and \<open>auto_fpu_clear_enables\<close> that a program links to have
  FCSR set up at its start. FCCR, FEXR and FENR have no state of their own in a MIPS FPU: each is
  a view of some bits of FCSR, which \<open>cfc1\<close> gathers and \<open>ctc1\<close> scatters.
\<close>

unbundle bit_operations_syntax

section \<open>The control registers\<close>

record fpu_state =
  fir :: u32
  fcsr :: u32

text \<open>The fields of a view: width, position in the view and position in FCSR.\<close>

type_synonym fcsr_view = "(nat \<times> nat \<times> nat) list"

definition fccr_view :: fcsr_view where "fccr_view = [(1, 0, 23), (7, 1, 25)]"
definition fexr_view :: fcsr_view where "fexr_view = [(5, 2, 2), (6, 12, 12)]"
definition fenr_view :: fcsr_view where "fenr_view = [(2, 0, 0), (1, 2, 24), (5, 7, 7)]"

fun gather :: "fcsr_view \<Rightarrow> u32 \<Rightarrow> u32" where
  "gather [] x = 0"
| "gather ((w, p, q) # vs) x = push_bit p (drop_bit q x AND mask w) OR gather vs x"

fun scatter :: "fcsr_view \<Rightarrow> u32 \<Rightarrow> u32 \<Rightarrow> u32" where
  "scatter [] v x = x"
| "scatter ((w, p, q) # vs) v x =
     scatter vs v ((x AND NOT (push_bit q (mask w))) OR push_bit q (drop_bit p v AND mask w))"

definition cfc1 :: "nat \<Rightarrow> fpu_state \<Rightarrow> u32" where
  "cfc1 r s =
     (if r = 0 then fir s
      else if r = 25 then gather fccr_view (fcsr s)
      else if r = 26 then gather fexr_view (fcsr s)
      else if r = 28 then gather fenr_view (fcsr s)
      else fcsr s)"

definition ctc1 :: "nat \<Rightarrow> u32 \<Rightarrow> fpu_state \<Rightarrow> fpu_state" where
  "ctc1 r v s =
     (if r = 0 then s
      else if r = 25 then s\<lparr>fcsr := scatter fccr_view v (fcsr s)\<rparr>
      else if r = 26 then s\<lparr>fcsr := scatter fexr_view v (fcsr s)\<rparr>
      else if r = 28 then s\<lparr>fcsr := scatter fenr_view v (fcsr s)\<rparr>
      else s\<lparr>fcsr := v\<rparr>)"

definition fpu_get_fir :: "fpu_state \<Rightarrow> u32" where "fpu_get_fir = cfc1 0"
definition fpu_get_fccr :: "fpu_state \<Rightarrow> u32" where "fpu_get_fccr = cfc1 25"
definition fpu_set_fccr :: "u32 \<Rightarrow> fpu_state \<Rightarrow> fpu_state" where "fpu_set_fccr = ctc1 25"
definition fpu_get_fexr :: "fpu_state \<Rightarrow> u32" where "fpu_get_fexr = cfc1 26"
definition fpu_set_fexr :: "u32 \<Rightarrow> fpu_state \<Rightarrow> fpu_state" where "fpu_set_fexr = ctc1 26"
definition fpu_get_fenr :: "fpu_state \<Rightarrow> u32" where "fpu_get_fenr = cfc1 28"
definition fpu_set_fenr :: "u32 \<Rightarrow> fpu_state \<Rightarrow> fpu_state" where "fpu_set_fenr = ctc1 28"
definition fpu_get_fcsr :: "fpu_state \<Rightarrow> u32" where "fpu_get_fcsr = cfc1 31"
definition fpu_set_fcsr :: "u32 \<Rightarrow> fpu_state \<Rightarrow> fpu_state" where "fpu_set_fcsr = ctc1 31"

lemmas fpu_access = fpu_get_fir_def fpu_get_fccr_def fpu_set_fccr_def fpu_get_fexr_def fpu_set_fexr_def
  fpu_get_fenr_def fpu_set_fenr_def fpu_get_fcsr_def fpu_set_fcsr_def cfc1_def ctc1_def

section \<open>The constructors and the condition codes\<close>

definition M_FENR_FS :: u32 where "M_FENR_FS = SB_MAKEMASK_32 1 2"
definition M_FENR_ENABLES :: u32 where "M_FENR_ENABLES = SB_MAKEMASK_32 5 7"

definition auto_fpu_set_fs :: "fpu_state \<Rightarrow> fpu_state" where
  "auto_fpu_set_fs s = fpu_set_fenr (fpu_get_fenr s OR M_FENR_FS) s"

definition auto_fpu_clear_enables :: "fpu_state \<Rightarrow> fpu_state" where
  "auto_fpu_clear_enables s = fpu_set_fenr (fpu_get_fenr s AND NOT M_FENR_ENABLES) s"

definition V_FCSR_FCC :: "u32 \<Rightarrow> u32" where
  "V_FCSR_FCC x = SB_MAKEVALUE_32 (drop_bit 1 (x AND 0xfe)) 25 OR SB_MAKEVALUE_32 (x AND 1) 23"

definition G_FCSR_FCC :: "u32 \<Rightarrow> u32" where
  "G_FCSR_FCC x =
     push_bit 1 (SB_GETVALUE_32 x 25 (SB_MAKEMASK_32 7 25)) OR SB_GETVALUE_32 x 23 (SB_MAKEMASK_32 1 23)"

section \<open>Bits\<close>

lemma bit_gather:
  "bit (gather vs x) i \<longleftrightarrow> i < 32 \<and> (\<exists>(w, p, q) \<in> set vs. p \<le> i \<and> i < p + w \<and> bit x (q + (i - p)))"
  by (induction vs x rule: gather.induct) (auto simp: bit_simps dest: bit_imp_le_length)

text \<open>A register accepts what a view says of it, and keeps the bits that the view does not show.\<close>

definition view_ok :: "fcsr_view \<Rightarrow> bool" where
  "view_ok vs \<longleftrightarrow> sorted_wrt (\<lambda>(w, p, q) (w', p', q'). p + w \<le> p' \<and> (q + w \<le> q' \<or> q' + w' \<le> q)) vs \<and>
     (\<forall>(w, p, q) \<in> set vs. p + w \<le> 32 \<and> q + w \<le> 32)"

lemma bit_scatter_outside:
  "\<forall>(w, p, q) \<in> set vs. \<not> (q \<le> i \<and> i < q + w) \<Longrightarrow> bit (scatter vs v x) i = bit x i"
  by (induction vs v x rule: scatter.induct) (auto simp: bit_simps dest: bit_imp_le_length)

lemma bit_scatter_inside:
  assumes "view_ok vs" and "(w, p, q) \<in> set vs" and "q \<le> i" and "i < q + w"
  shows "bit (scatter vs v x) i = bit v (p + (i - q))"
  using assms
proof (induction vs v x rule: scatter.induct)
  case (2 w' p' q' vs v x)
  have ok: "view_ok vs" using 2(2) by (auto simp: view_ok_def)
  show ?case
  proof (cases "(w, p, q) \<in> set vs")
    case True
    then show ?thesis using 2(1) ok 2(4,5) by simp
  next
    case False
    then have e: "w = w'" "p = p'" "q = q'" using 2(3) by auto
    have "\<forall>(a, b, c) \<in> set vs. \<not> (c \<le> i \<and> i < c + a)"
      using 2(2,4,5) e by (fastforce simp: view_ok_def)
    then have "bit (scatter ((w', p', q') # vs) v x) i =
        bit ((x AND NOT (push_bit q' (mask w'))) OR push_bit q' (drop_bit p' v AND mask w')) i"
      by (simp add: bit_scatter_outside)
    moreover have "i < 32" using 2(2,5) e by (auto simp: view_ok_def)
    ultimately show ?thesis using 2(4,5) e by (auto simp: bit_simps)
  qed
qed simp

lemma views_ok: "view_ok fccr_view" "view_ok fexr_view" "view_ok fenr_view"
  by (simp_all add: view_ok_def fccr_view_def fexr_view_def fenr_view_def)

text \<open>Reading a view of what was written through it gives the bits the view has.\<close>

lemma gather_scatter:
  assumes "view_ok vs"
  shows "gather vs (scatter vs v x) = v AND gather vs (- 1)"
proof (rule bit_word_eqI)
  fix i assume i: "i < LENGTH(32)"
  have "bit (scatter vs v x) (q + (i - p)) = bit v i" if "(w, p, q) \<in> set vs" "p \<le> i" "i < p + w" for w p q
    using bit_scatter_inside [OF assms that(1), of "q + (i - p)"] that by simp
  moreover have "q + (i - p) < 32" if "(w, p, q) \<in> set vs" "p \<le> i" "i < p + w" for w p q
    using that assms by (fastforce simp: view_ok_def)
  ultimately show "bit (gather vs (scatter vs v x)) i = bit (v AND gather vs (- 1)) i"
    using i by (fastforce simp: bit_gather bit_and_iff)
qed

text \<open>Bit 24 of FCSR is bit 2 of FENR, and the enables are bits 11 to 7 of both.\<close>

lemma scatter_fenr_bit:
  "bit (scatter fenr_view v x) i =
     (if i < 2 \<or> 7 \<le> i \<and> i < 12 then bit v i else if i = 24 then bit v 2 else bit x i)"
proof -
  have "i = 24 \<or> i < 2 \<or> 7 \<le> i \<and> i < 12 \<or> (\<forall>(w, p, q) \<in> set fenr_view. \<not> (q \<le> i \<and> i < q + w))"
    by (auto simp: fenr_view_def)
  then show ?thesis
    using bit_scatter_inside [OF views_ok(3), of 1 2 24 i v x] bit_scatter_inside [OF views_ok(3), of 2 0 0 i v x]
      bit_scatter_inside [OF views_ok(3), of 5 7 7 i v x] bit_scatter_outside [of fenr_view i v x]
    by (auto simp: fenr_view_def)
qed

lemma gather_fenr_bit:
  "bit (gather fenr_view x) i \<longleftrightarrow> (i < 2 \<or> 7 \<le> i \<and> i < 12) \<and> bit x i \<or> i = 2 \<and> bit x 24"
proof -
  have "i = 2 \<longleftrightarrow> 2 \<le> i \<and> i < 3" by auto
  then show ?thesis by (auto simp: bit_gather fenr_view_def simp del: gather.simps)
qed

section \<open>Properties\<close>

text \<open>The constructor \<open>auto_fpu_set_fs\<close> sets the flush bit FS of FCSR and changes nothing else, and
  \<open>auto_fpu_clear_enables\<close> clears the five exception enables of FCSR and changes nothing else, although both
  only write the view FENR.\<close>

theorem fpu_constructors_exact:
  "auto_fpu_set_fs s = s\<lparr>fcsr := fcsr s OR SB_MAKEMASK_32 1 24\<rparr> \<and>
   auto_fpu_clear_enables s = s\<lparr>fcsr := fcsr s AND NOT (SB_MAKEMASK_32 5 7)\<rparr>"
proof -
  have "scatter fenr_view (gather fenr_view (fcsr s) OR M_FENR_FS) (fcsr s) = fcsr s OR SB_MAKEMASK_32 1 24"
    by (rule bit_word_eqI)
      (auto simp: scatter_fenr_bit gather_fenr_bit bit_or_iff M_FENR_FS_def bit_SB_MAKEMASK_32)
  moreover have "scatter fenr_view (gather fenr_view (fcsr s) AND NOT M_FENR_ENABLES) (fcsr s) =
      fcsr s AND NOT (SB_MAKEMASK_32 5 7)"
    by (rule bit_word_eqI)
      (auto simp: scatter_fenr_bit gather_fenr_bit bit_and_iff bit_not_iff M_FENR_ENABLES_def bit_SB_MAKEMASK_32)
  ultimately show ?thesis
    by (simp add: auto_fpu_set_fs_def auto_fpu_clear_enables_def fpu_access)
qed

text \<open>What is written through FCCR, FEXR or FENR is read back in the bits that the register has, 0xff, 0x3f07c
  and 0xf87, and the macro \<open>G_FCSR_FCC\<close> of FCSR reads what FCCR holds; \<open>V_FCSR_FCC\<close> puts eight condition
  codes where \<open>G_FCSR_FCC\<close> reads them.\<close>

theorem fpu_views_roundtrip:
  "fpu_get_fccr (fpu_set_fccr v s) = v AND 0xff \<and>
   fpu_get_fexr (fpu_set_fexr v s) = v AND 0x3f07c \<and>
   fpu_get_fenr (fpu_set_fenr v s) = v AND 0xf87 \<and>
   G_FCSR_FCC (fpu_get_fcsr s) = fpu_get_fccr s \<and>
   G_FCSR_FCC (V_FCSR_FCC v) = v AND 0xff"
proof -
  have "gather fccr_view (- 1) = 0xff" "gather fexr_view (- 1) = 0x3f07c" "gather fenr_view (- 1) = 0xf87"
    by (simp_all add: fccr_view_def fexr_view_def fenr_view_def mask_eq_exp_minus_1)
  moreover have g: "bit (G_FCSR_FCC x) i \<longleftrightarrow> (if i = 0 then bit x 23 else i < 8 \<and> bit x (24 + i))" for x i
    unfolding G_FCSR_FCC_def bit_or_iff bit_push_bit_iff bit_GETVALUE_32 bit_SB_MAKEMASK_32 by auto
  have "bit (gather fccr_view x) i \<longleftrightarrow> (if i = 0 then bit x 23 else i < 8 \<and> bit x (24 + i))" for x i
    by (auto simp: bit_gather fccr_view_def simp del: gather.simps)
  then have "G_FCSR_FCC (fcsr s) = gather fccr_view (fcsr s)" by (intro bit_word_eqI) (simp only: g)
  moreover have m: "bit (0xff :: u32) i \<longleftrightarrow> i < 8" "bit (0xfe :: u32) i \<longleftrightarrow> 1 \<le> i \<and> i < 8" for i
  proof -
    have e: "(0xff :: u32) = mask 8" "(0xfe :: u32) = push_bit 1 (mask 7)"
      by (simp_all add: mask_eq_exp_minus_1)
    show "bit (0xff :: u32) i \<longleftrightarrow> i < 8" "bit (0xfe :: u32) i \<longleftrightarrow> 1 \<le> i \<and> i < 8"
      unfolding e bit_mask_iff bit_push_bit_iff by auto
  qed
  have "bit (V_FCSR_FCC v) i \<longleftrightarrow> (if i = 23 then bit v 0 else 25 \<le> i \<and> i < 32 \<and> bit v (i - 24))" for i
  proof -
    have "25 \<le> i \<Longrightarrow> Suc (i - 25) = i - 24" by simp
    then show ?thesis
      unfolding V_FCSR_FCC_def bit_or_iff bit_MAKEVALUE_32 bit_drop_bit_eq bit_and_iff m comp_def bit_1_iff by auto
  qed
  then have "bit (G_FCSR_FCC (V_FCSR_FCC v)) i \<longleftrightarrow> bit (v AND 0xff) i" for i
    unfolding g bit_and_iff m by auto
  then have "G_FCSR_FCC (V_FCSR_FCC v) = v AND 0xff" by (intro bit_word_eqI) blast
  ultimately show ?thesis
    by (simp add: fpu_access gather_scatter views_ok)
qed

end
