(* ===== verification/Bcm1480Hr.thy ===== *)
theory Bcm1480Hr
  imports Registers
begin

text \<open>
  The registers of the hash and route unit of the BCM1480 and BCM1280, from \<open>include/sibyte/bcm1480_hr.h\<close>, one list of fields for each
  register the header describes. Fields that share the bits of others, because they are
  another view of the register or belong to another register of the same description, are in a
  list of their own.
\<close>

unbundle bit_operations_syntax

subsection \<open>H R Configuration Register (Table 283)\<close>

definition bcm_hr_h_r_configuration :: register where
  "bcm_hr_h_r_configuration =
     [(''HEADER_PTR'', field 8 0),
      (''HDR_PTR_IMMD'', flag 8),
      (''SELECT_PTNUM_TO_TAG'', flag 9),
      (''PT_UNMATCH_ENABLE'', flag 10),
      (''PT_MULTIMATCH_ENABLE'', flag 11)]"

subsection \<open>Rule Operand Configuration Entry (Table 284)\<close>

definition bcm_hr_rule_operand_configuration_entry :: register where
  "bcm_hr_rule_operand_configuration_entry =
     [(''RULE_OP_OPERAND_3'', field 8 0),
      (''RULE_OP_OPERAND_2'', field 8 8),
      (''RULE_OP_OPERAND_1'', field 8 16),
      (''RULE_OP_OPERAND_0'', field 8 24),
      (''RULE_OP_ENABLE_3'', field 8 32),
      (''RULE_OP_ENABLE_2'', field 8 40),
      (''RULE_OP_ENABLE_1'', field 8 48),
      (''RULE_OP_ENABLE_0'', field 8 56)]"

subsection \<open>Rule operand fields that clash\<close>

definition bcm_hr_rule_operand_fields_that_clash :: register where
  "bcm_hr_rule_operand_fields_that_clash =
     [(''RULE_TYPE_WORD_OFST_0'', field 6 0),
      (''RULE_TYPE_SEL_0'', flag 8)]"

subsection \<open>Path Definition Entry (Table 286)\<close>

definition bcm_hr_path_definition_entry :: register where
  "bcm_hr_path_definition_entry =
     [(''ENABLE'', field 16 0),
      (''TEST'', field 16 16),
      (''PATH_DATA'', field 16 32),
      (''PATH_TYPE'', codes [K ''OVC'' 0, K ''RTI'' 1, K ''HA_LEAF0'' 2, K ''EX_LEAF0'' 4] (field 3 48))]"

definition bcm_hr_path_definition_entry_next_dest :: register where
  "bcm_hr_path_definition_entry_next_dest =
     [(''PATH_DATA_DEST'', field 2 44),
      (''PATH_DATA_VC'', field 4 36),
      (''PATH_DATA_NDEST'', field 4 32)]"

subsection \<open>Hash leaf0 Data Word Definition Entry (Table 287)\<close>

definition bcm_hr_hash_leaf0_data_word_definition_entry :: register where
  "bcm_hr_hash_leaf0_data_word_definition_entry =
     [(''ENABLE_3'', field 8 0),
      (''ENABLE_2'', field 8 8),
      (''ENABLE_1'', field 8 16),
      (''ENABLE_0'', field 8 24),
      (''WORD_OFFSET'', field 6 32),
      (''SELECT'', flag 40)]"

subsection \<open>Extract leaf0 Extract Definition Register (Table 288)\<close>

definition bcm_hr_extract_leaf0_extract_definition :: register where
  "bcm_hr_extract_leaf0_extract_definition =
     [(''WORD_OFFSET_LOW'', field 6 0),
      (''SELECT_LOW'', flag 8),
      (''ENABLE_LOW'', field 4 16),
      (''NIB_OFFSET_LOW'', field 3 20),
      (''WORD_OFFSET_HIGH'', field 6 32),
      (''SELECT_HIGH'', flag 40),
      (''ENABLE_HIGH'', field 4 48),
      (''NIB_OFFSET_HIGH'', field 3 52)]"

subsection \<open>RX0 Route Table Definition Entry (Table 289)\<close>

definition bcm_hr_rx0_route_definition_entry :: register where
  "bcm_hr_rx0_route_definition_entry =
     [(''NEXT_DEST'', field 4 0),
      (''OVC_IQ'', field 4 4),
      (''DEST'', codes [K ''TX0'' 0, K ''TX1'' 1, K ''TX2'' 2, K ''PMI'' 3] (field 2 12))]"

subsection \<open>The header\<close>

definition bcm1480_hr :: "header" where
  "bcm1480_hr =
     [(''h_r_configuration'', bcm_hr_h_r_configuration),
      (''rule_operand_configuration_entry'', bcm_hr_rule_operand_configuration_entry),
      (''rule_operand_fields_that_clash'', bcm_hr_rule_operand_fields_that_clash),
      (''path_definition_entry'', bcm_hr_path_definition_entry),
      (''path_definition_entry_next_dest'', bcm_hr_path_definition_entry_next_dest),
      (''hash_leaf0_data_word_definition_entry'', bcm_hr_hash_leaf0_data_word_definition_entry),
      (''extract_leaf0_extract_definition'', bcm_hr_extract_leaf0_extract_definition),
      (''rx0_route_definition_entry'', bcm_hr_rx0_route_definition_entry)]"

lemmas bcm1480_hr_defs = bcm1480_hr_def
    bcm_hr_h_r_configuration_def bcm_hr_rule_operand_configuration_entry_def 
    bcm_hr_rule_operand_fields_that_clash_def bcm_hr_path_definition_entry_def 
    bcm_hr_path_definition_entry_next_dest_def bcm_hr_hash_leaf0_data_word_definition_entry_def 
    bcm_hr_extract_leaf0_extract_definition_def bcm_hr_rx0_route_definition_entry_def

lemma bcm1480_hr_ascending:
  "register_defects bcm_hr_h_r_configuration = ([], [])"
  "register_defects bcm_hr_rule_operand_configuration_entry = ([], [])"
  "register_defects bcm_hr_rule_operand_fields_that_clash = ([], [])"
  "register_defects bcm_hr_path_definition_entry = ([], [])"
  "register_defects bcm_hr_hash_leaf0_data_word_definition_entry = ([], [])"
  "register_defects bcm_hr_extract_leaf0_extract_definition = ([], [])"
  "register_defects bcm_hr_rx0_route_definition_entry = ([], [])"
  by (simp_all add: ascending_eval bcm1480_hr_defs)

lemma bcm1480_hr_others:
  "register_defects bcm_hr_path_definition_entry_next_dest = ([], [])"
  by (simp_all add: register_eval bcm1480_hr_defs)

lemma bcm1480_hr_defects:
  "defects bcm1480_hr =
     []"
  by (simp add: defects_def bcm1480_hr_def bcm1480_hr_ascending bcm1480_hr_others)

end
