(* ===== verification/Bcm1480Hsp.thy ===== *)
theory Bcm1480Hsp
  imports Registers
begin

text \<open>
  The registers of the high-speed ports of the BCM1480 and BCM1280, from \<open>include/sibyte/bcm1480_hsp.h\<close>, one list of fields for each
  register the header describes. Fields that share the bits of others, because they are
  another view of the register or belong to another register of the same description, are in a
  list of their own.
\<close>

unbundle bit_operations_syntax

subsection \<open>RX SPI-4 Configuration 0 Register (Table 334)\<close>

definition bcm_hsp_rx_spi_4_configuration_0 :: register where
  "bcm_hsp_rx_spi_4_configuration_0 =
     [(''RX_PORT_RESET'', flag 0),
      (''RX_PLL_DIV_4'', flag 2),
      (''RX_PLL_MULTIPLIER'', field 5 3),
      (''TRAIN_CYCLE_COUNT'', field 8 8),
      (''DIP4_ERR_CLEAR'', field 4 16),
      (''BCM1480_DIP4_ERR_LIMIT'', field 4 20),
      (''RSTAT_POLARITY'', flag 24),
      (''LINK_MODE'', codes [K ''HT'' 0, K ''NOTCONN'' 1, K ''SPI4'' 3] (field 2 62))]"

subsection \<open>RX SPI-4 Data Path and Deskew Configuration Register (Table 336)\<close>

definition bcm_hsp_rx_spi_4_data_path_deskew :: register where
  "bcm_hsp_rx_spi_4_data_path_deskew =
     [(''RX_DESKEW_PER_BIT'', field 4 0),
      (''RX_STATIC_DESKEW_EN'', flag 4),
      (''RX_DESKEW_DISA'', flag 5),
      (''RX_RETRAIN_EN'', flag 8)]"

subsection \<open>TX SPI-4 Configuration 0 Register (Table 337)\<close>

definition bcm_hsp_tx_spi_4_configuration_0 :: register where
  "bcm_hsp_tx_spi_4_configuration_0 =
     [(''TX_PORT_RESET'', flag 0),
      (''TX_PLL_MULTIPLIER'', field 5 1),
      (''TX_RST_TRAINCNT'', field 16 8),
      (''TX_RST_STATCNT'', field 4 24),
      (''TX_FORCE_ERR'', flag 32),
      (''TX_TSTAT_SLOW_MODE'', flag 33),
      (''TX_TX_PLL_DIV_4'', flag 34),
      (''TX_DIP2_ERRLIMIT'', field 4 36),
      (''TX_TSTAT_POLARITY'', flag 40),
      (''TX_TX_OFF'', flag 41)]"

subsection \<open>TX SPI-4 Training and Packet Configuration Register (Table 338)\<close>

definition bcm_hsp_tx_spi_4_training_packet_configuration :: register where
  "bcm_hsp_tx_spi_4_training_packet_configuration =
     [(''TX_DATA_MAX_T'', field 16 0),
      (''TX_TXPREFBURSTSZ'', field 8 32),
      (''TX_TXMAXBURSTSZ'', field 8 40),
      (''TX_NO_INTERLEAVE_MODE'', flag 48)]"

subsection \<open>RX SPI4 Interrupt enable and Interrupt Status (tables 339, 340)\<close>

definition bcm_hsp_rx_spi4_interrupt_enable_interrupt_status :: register where
  "bcm_hsp_rx_spi4_interrupt_enable_interrupt_status =
     [(''RX_INT_PERVCERR'', flag 0),
      (''RX_INT_EOPABORT'', flag 1),
      (''RX_INT_SPI4PROTOERR'', flag 2),
      (''RX_INT_ESTOREOVERFLOW'', flag 3),
      (''RX_INT_ALPHATRAINERR'', flag 4),
      (''RX_INT_DIP4ERROR'', flag 5),
      (''RX_INT_HRERROR'', flag 6),
      (''RX_INT_INTOVERFLOW'', flag 7)]"

subsection \<open>RX HT Diagnostic CRC Error (tables 341, 342)\<close>

definition bcm_hsp_rx_ht_diagnostic_crc_error :: register where
  "bcm_hsp_rx_ht_diagnostic_crc_error =
     [(''RX_BAD_CRC_LANE'', field 32 0),
      (''RX_EXPECTED_CRC_LANE'', field 32 32)]"

subsection \<open>RX Diagnsostic Packet Protocol (Table 344)\<close>

definition bcm_hsp_rx_diagnsostic_packet_protocol :: register where
  "bcm_hsp_rx_diagnsostic_packet_protocol =
     [(''RX_DIAG_VC'', field 8 0),
      (''RX_DIAG_EOP'', flag 8),
      (''RX_DIAG_SOP'', flag 9),
      (''RX_DIAG_CONTROL'', field 4 10),
      (''RX_STRADDLING_CMD'', flag 14),
      (''RX_DIAG_ERR_CODE_1'', field 4 16),
      (''RX_DIAG_ERR_CODE_2'', field 4 20)]"

subsection \<open>RX Diagnostic Detail (Table 345)\<close>

definition bcm_hsp_rx_diagnostic_detail :: register where
  "bcm_hsp_rx_diagnostic_detail =
     [(''RX_DIAGDET_PERVCERR'', flag 0),
      (''RX_DIAGDET_ALPHATRAINERR'', flag 2),
      (''RX_DIAGDET_SPI4PROTOERR'', flag 4),
      (''RX_DIAGDET_DIP4ERROR'', flag 6),
      (''RX_DIAGDET_ESTOREOVERFLOW'', flag 7),
      (''RX_DIAGDET_SPI4_DATANOSOP'', flag 32),
      (''RX_DIAGDET_SPI4_SOPAFTERSOP'', flag 33),
      (''RX_DIAGDET_SPI4_EOPNOSOP'', flag 34),
      (''RX_DIAGDET_SPI4_EOPABORT'', flag 35),
      (''RX_DIAGDET_SPI4_BADDATA'', flag 36),
      (''RX_DIAGDET_SPI4_RESCMD'', flag 37),
      (''RX_DIAGDET_SPI4_BADSOP'', flag 38),
      (''RX_DIAGDET_SPI4_BADEOP'', flag 39),
      (''RX_DIAGDET_SPI4_BADCTL'', flag 40),
      (''RX_DIAGDET_SPI4_BADIDLE'', flag 41),
      (''RX_DIAGDET_SPI4_BADTRAINING'', flag 42),
      (''RX_DIAGDET_SPI4_ALPHATRAINING'', flag 43),
      (''RX_DIAGDET_SPI4_DIP4IDLE'', flag 44),
      (''RX_DIAGDET_SPI4_DIP4EOP'', flag 45),
      (''RX_DIAGDET_SPI4_DIP4DEAD'', flag 46),
      (''RX_DIAGDET_SPI4_HRNOMATCH'', flag 47),
      (''RX_DIAGDET_SPI4_HRMULTMATCH'', flag 48),
      (''RX_DIAGDET_SPI4_ESTOREOVR'', flag 49),
      (''RX_DIAGDET_SPI4_INTOVR'', flag 51),
      (''RX_DIAGDET_PUSHPOP_DISTANCE'', field 4 56),
      (''RX_DIAGDET_ESTORE_DISTANCE'', field 4 60)]"

definition bcm_hsp_rx_diagnostic_detail_status :: register where
  "bcm_hsp_rx_diagnostic_detail_status =
     [(''RX_DIAGDET_STATUS'', field 20 32)]"

subsection \<open>TX SPI4 Interrupt Enable and Interrupt Status (Table 346, 347)\<close>

definition bcm_hsp_tx_spi4_interrupt_enable_interrupt_status :: register where
  "bcm_hsp_tx_spi4_interrupt_enable_interrupt_status =
     [(''TX_INT_TSTATTIMEOUT'', flag 0),
      (''TX_INT_DIP2RXERR'', flag 1),
      (''TX_INT_SPI4RESET'', flag 2)]"

subsection \<open>RX packet buffer allocation\<close>

definition bcm_hsp_rx_packet_buffer_allocation :: register where
  "bcm_hsp_rx_packet_buffer_allocation =
     [(''RX_RAMCEILING_0'', field 10 0),
      (''RX_RAMFLOOR_0'', field 10 16),
      (''RX_RAMCEILING_1'', field 10 32),
      (''RX_RAMFLOOR_1'', field 10 48)]"

subsection \<open>RX HT RAM Allocation Register 0 (Table 350 + Errata)\<close>

definition bcm_hsp_rx_ht_ram_allocation_0 :: register where
  "bcm_hsp_rx_ht_ram_allocation_0 =
     [(''RX_NPC_CMD_CEILING'', field 10 0),
      (''RX_NPC_CMD_FLOOR'', field 10 16)]"

subsection \<open>RX HT RAM Allocation Register 1 (Table 351 + Errata)\<close>

definition bcm_hsp_rx_ht_ram_allocation_1 :: register where
  "bcm_hsp_rx_ht_ram_allocation_1 =
     [(''RX_PC_CMD_CEILING'', field 10 0),
      (''RX_PC_CMD_FLOOR'', field 10 16),
      (''RX_PRB_CEILING'', field 10 32),
      (''RX_PRB_FLOOR'', field 10 48)]"

subsection \<open>RX HT RAM Allocation Register 2 (Table 352 + Errata)\<close>

definition bcm_hsp_rx_ht_ram_allocation_2 :: register where
  "bcm_hsp_rx_ht_ram_allocation_2 =
     [(''RX_ACK_CEILING'', field 10 0),
      (''RX_ACK_FLOOR'', field 10 16),
      (''RX_WB_CEILING'', field 10 32),
      (''RX_WB_FLOOR'', field 10 48)]"

subsection \<open>RX HT RAM Allocation Register 3 (Table 353 + Errata)\<close>

definition bcm_hsp_rx_ht_ram_allocation_3 :: register where
  "bcm_hsp_rx_ht_ram_allocation_3 =
     [(''RX_CFILL_CEILING'', field 10 0),
      (''RX_CFILL_FLOOR'', field 10 16),
      (''RX_CRD_CEILING'', field 10 32),
      (''RX_CRD_FLOOR'', field 10 48)]"

subsection \<open>RX HT RAM Allocation Register 4 (Table 354 + Errata)\<close>

definition bcm_hsp_rx_ht_ram_allocation_4 :: register where
  "bcm_hsp_rx_ht_ram_allocation_4 =
     [(''RX_NPC_DAT_CEILING'', field 10 0),
      (''RX_NPC_DAT_FLOOR'', field 10 16),
      (''RX_RSP_DAT_CEILING'', field 10 32),
      (''RX_RSP_DAT_FLOOR'', field 10 48)]"

subsection \<open>RX HT RAM Allocation Register 5 (Table 355 + Errata)\<close>

definition bcm_hsp_rx_ht_ram_allocation_5 :: register where
  "bcm_hsp_rx_ht_ram_allocation_5 =
     [(''RX_PC_DAT_CEILING'', field 10 0),
      (''RX_PC_DAT_FLOOR'', field 10 16)]"

subsection \<open>TX Packet Buffer Allocation Registers (Table 356)\<close>

definition bcm_hsp_tx_packet_buffer_allocation :: register where
  "bcm_hsp_tx_packet_buffer_allocation =
     [(''TX_RAMCEILING_0'', field 8 0),
      (''TX_RAMFLOOR_0'', field 8 16),
      (''TX_RAMCEILING_1'', field 8 32),
      (''TX_RAMFLOOR_1'', field 8 48)]"

subsection \<open>TX Non-Posted Command (NPC) Allocation Register (Table 357)\<close>

definition bcm_hsp_tx_non_posted_command_allocation :: register where
  "bcm_hsp_tx_non_posted_command_allocation =
     [(''TX_NPC_CEILING'', field 8 0),
      (''TX_NPC_FLOOR'', field 8 16)]"

subsection \<open>TX Response (RSP) Allocation Register (Table 358)\<close>

definition bcm_hsp_tx_response_allocation :: register where
  "bcm_hsp_tx_response_allocation =
     [(''TX_RSP_CEILING'', field 8 0),
      (''TX_RSP_FLOOR'', field 8 16)]"

subsection \<open>TX Posted Command (PC) Allocation Register (Table 359)\<close>

definition bcm_hsp_tx_posted_command_allocation :: register where
  "bcm_hsp_tx_posted_command_allocation =
     [(''TX_PC_CEILING'', field 8 0),
      (''TX_PC_FLOOR'', field 8 16)]"

subsection \<open>RX SPI4 Config Register 1 (Table 363)\<close>

definition bcm_hsp_rx_spi4_config_1 :: register where
  "bcm_hsp_rx_spi4_config_1 =
     [(''RX_CALENDAR_LEN'', field 8 0),
      (''RX_CALENDAR_M'', field 8 16),
      (''RX_ALPHA'', field 12 40)]"

subsection \<open>RX SPI4 Calendar registers (Table 364) Use these macros for both the\<close>

definition BCM1480_HSP_RX_CALENDAR_X :: "nat \<Rightarrow> field" where "BCM1480_HSP_RX_CALENDAR_X c = field 12 ((c mod 8) * 8)"

subsection \<open>RX SPI4 Watermark registers (Table 365)\<close>

definition bcm_hsp_rx_spi4_watermark :: register where
  "bcm_hsp_rx_spi4_watermark =
     [(''RX_ALMOSTEMPTY_EVEN'', field 10 0),
      (''RX_ALMOSTFULL_EVEN'', field 10 16),
      (''RX_ALMOSTEMPTY_ODD'', field 10 32),
      (''RX_ALMOSTFULL_ODD'', field 10 48)]"

subsection \<open>TX SPI4 Configuration Register 1 (Table 366)\<close>

definition bcm_hsp_tx_spi4_configuration_1 :: register where
  "bcm_hsp_tx_spi4_configuration_1 =
     [(''TX_CALENDAR_LEN'', field 8 0),
      (''TX_CALENDAR_M'', field 8 16),
      (''TX_MAXBURST1'', field 8 24),
      (''TX_MAXBURST2'', field 8 32),
      (''TX_ALPHA'', field 12 40),
      (''TX_ACTIVE_CHANNELS'', field 8 56)]"

subsection \<open>TX SPI4 Calendar registers (Table 367) Use these macros for both the\<close>

definition BCM1480_HSP_TX_CALENDAR_X :: "nat \<Rightarrow> field" where "BCM1480_HSP_TX_CALENDAR_X c = field 12 ((c mod 8) * 8)"

subsection \<open>TX Packet Buffer Allocation Physical Unit Count Registers (Table 368)\<close>

definition bcm_hsp_tx_packet_buffer_allocation_physical_unit :: register where
  "bcm_hsp_tx_packet_buffer_allocation_physical_unit =
     [(''RX_PHITCNT_0'', field 10 0),
      (''RX_PHITCNT_1'', field 10 16),
      (''RX_PHITCNT_2'', field 10 32),
      (''RX_PHITCNT_3'', field 10 48)]"

subsection \<open>TX HT I O Physical Unit Count Register (Table 369)\<close>

definition bcm_hsp_tx_ht_i_o_physical_unit :: register where
  "bcm_hsp_tx_ht_i_o_physical_unit =
     [(''RX_NPC_CMD_PHITCNT'', field 8 0),
      (''RX_NPC_DAT_PHITCNT'', field 8 8),
      (''RX_RSP_DAT_PHITCNT'', field 8 24),
      (''RX_PC_CMD_PHITCNT'', field 8 32),
      (''RX_PC_DAT_PHITCNT'', field 8 48)]"

subsection \<open>TX HTCC Buffer Allocation Registers (Table 370)\<close>

definition bcm_hsp_tx_htcc_buffer_allocation :: register where
  "bcm_hsp_tx_htcc_buffer_allocation =
     [(''TX_HTCC_PRB_PHITCNT'', field 8 0),
      (''TX_HTCC_ACK_PHITCNT'', field 8 8),
      (''TX_HTCC_WB_PHITCNT'', field 8 24),
      (''TX_HTCC_CFILL_PHITCNT'', field 8 32),
      (''TX_HTCC_CRD_PHITCNT'', field 8 40)]"

subsection \<open>TX Packet Buffer Allocation Registers (Table 371)\<close>

definition bcm_hsp_tx_packet_buffer_allocation_2 :: register where
  "bcm_hsp_tx_packet_buffer_allocation_2 =
     [(''TX_PHITCNT_0'', field 8 0),
      (''TX_PHITCNT_1'', put_as (Macro 16) (get_as Broken (bits 8 16))),
      (''TX_PHITCNT_2'', field 8 32),
      (''TX_PHITCNT_3'', put_as (Macro 48) (get_as Broken (bits 8 48)))]"

subsection \<open>TX Non-Posted Command (NPC) Allocation Register (Table 372)\<close>

definition bcm_hsp_tx_non_posted_command_allocation_2 :: register where
  "bcm_hsp_tx_non_posted_command_allocation_2 =
     [(''TX_NPC_PHITCNT'', field 8 0),
      (''TX_RSP_PHITCNT'', field 8 24),
      (''TX_PC_PHITCNT'', field 8 48)]"

definition bcm_hsp_tx_non_posted_command_allocation_2_next_addr :: register where
  "bcm_hsp_tx_non_posted_command_allocation_2_next_addr =
     [(''TX_NEXT_ADDR_EVEN'', field 32 0),
      (''TX_NEXT_ADDR_ODD'', field 32 32)]"

subsection \<open>RX PLL Config (Table 374) BROADCOM USE ONLY\<close>

definition bcm_hsp_rx_pll_config :: register where
  "bcm_hsp_rx_pll_config =
     [(''RXPLL_FREQF_SEL'', field 4 0),
      (''RXPLL_FDBK_SEL'', field 4 4),
      (''RXPLL_VCO_RANGE'', field 2 8),
      (''RXPLL_DIV4'', flag 10),
      (''RXPLL_PLLOVERRIDE'', flag 12),
      (''RXPLL_VCOOVERRIDE'', flag 13),
      (''RXPLL_RX_PLLTEST'', field 2 14),
      (''RXPLL_RX_PLLCTRL'', field 6 16)]"

subsection \<open>TX PLL Config (Table 375) BROADCOM USE ONLY\<close>

definition bcm_hsp_tx_pll_config :: register where
  "bcm_hsp_tx_pll_config =
     [(''TXPLL_FREQF_SEL'', field 4 0),
      (''TXPLL_FDBK_SEL'', field 4 4),
      (''TXPLL_VCO_RANGE'', field 2 8),
      (''TXPLL_DIV4'', flag 10),
      (''TXPLL_ESTOREDEPTH8'', flag 11),
      (''TXPLL_PLLOVERRIDE'', flag 12),
      (''TXPLL_VCOOVERRIDE'', flag 13),
      (''TXPLL_TX_PLLTEST'', field 2 14),
      (''TXPLL_TX_PLLCTRL'', field 6 16)]"

subsection \<open>RX and TX calibration registers (Table 376) BROADCOM USE ONLY\<close>

definition bcm_hsp_rx_tx_calibration :: register where
  "bcm_hsp_rx_tx_calibration =
     [(''CAL_STARTCAL2'', flag 0),
      (''CAL_PDTEST'', flag 1),
      (''CAL_CALFIN'', flag 2),
      (''CAL_S100M66M'', flag 3),
      (''CAL_NO_CALIB'', flag 4),
      (''CAL_BMODE'', field 2 5),
      (''CAL_CALSETP'', field 4 8),
      (''CAL_CALSETN'', field 4 12),
      (''CAL_CALPSTAT'', field 4 16),
      (''CAL_CALNSTAT'', field 4 20)]"

subsection \<open>RX Testability (Table 377) BROADCOM USE ONLY\<close>

definition bcm_hsp_rx_testability :: register where
  "bcm_hsp_rx_testability =
     [(''RXTST_EWRAP'', field 2 1),
      (''RXTST_RXDLL_FREEZE'', flag 4),
      (''RXTST_TX_PLL_BYPASS'', flag 5),
      (''RXTST_RX_PLL_BYPASS'', flag 6),
      (''RXTST_DLL_CHRESET_ENABLE'', flag 7),
      (''RXTST_RX_ICNTRL'', field 12 8),
      (''RXTST_RX_RCNTRL'', field 3 20),
      (''RXTST_RX_GCNTRL'', field 3 24),
      (''RXTST_RX_OORCNTRL'', field 2 28),
      (''RXTST_RX_CNTRL'', field 3 32),
      (''RXTST_RX_LPBK_PHASE_SEL_RXA'', field 3 35),
      (''RXTST_DIP4_CHECK_DISABLE'', flag 38),
      (''RXTST_EBUF_WREN'', flag 40),
      (''RXTST_DIGITAL_LOOPBACK'', flag 41),
      (''RXTST_EBUF_BURST_MODE'', flag 42),
      (''RXTST_RESET_STOP_STREAM'', flag 43),
      (''RXTST_RX_BIAS'', field 2 44)]"

subsection \<open>TX Testability (Table 378) BROADCOM USE ONLY\<close>

definition bcm_hsp_tx_testability :: register where
  "bcm_hsp_tx_testability =
     [(''TXTST_CTL'', field 3 0),
      (''TXTST_BIAS'', field 4 4),
      (''TXTST_VCOM_CTL'', field 4 8),
      (''TXTST_MUX_CTL'', field 4 12),
      (''TXTST_SLEWP_CTL'', field 2 16),
      (''TXTST_SLEWN_CTL'', field 2 18),
      (''TXTST_CURR_CTL'', field 2 20)]"

subsection \<open>RX RAM Visibility (Table 382, 383) BROADCOM USE ONLY\<close>

definition bcm_hsp_rx_ram_visibility :: register where
  "bcm_hsp_rx_ram_visibility =
     [(''RXVIS_RAM'', codes [K ''ERAM'' 0, K ''HRAM'' 1, K ''DRAM_0_63'' 3, K ''DRAM_64_127'' 4,
        K ''DRAM_128_151'' 5] (field 3 0)),
      (''RXVIS_RAM_ADDR'', field 16 16)]"

subsection \<open>RX RF RAM Visibility (Table 384, 385) BROADCOM USE ONLY\<close>

definition bcm_hsp_rx_rf_ram_visibility :: register where
  "bcm_hsp_rx_rf_ram_visibility =
     [(''RXRFVIS_RAM'', codes [K ''REASS_0_63'' 0, K ''REASS_64_127'' 1, K ''REASS_META'' 2, K ''PL12_RF'' 3,
        K ''PL12_FLOPS'' 4, K ''HEADPTRARRAY'' 5, K ''TAILPTRARRAY'' 6, K ''PRECABVAL'' 7,
        K ''PHITCNTARRAY'' 8] (field 4 0)),
      (''RXRFVIS_RAM_ADDR'', field 8 8)]"

subsection \<open>TX RAM Visibility (Table 390, 391) BROADCOM USE ONLY\<close>

definition bcm_hsp_tx_ram_visibility :: register where
  "bcm_hsp_tx_ram_visibility =
     [(''TXVIS_RAM'', codes [K ''DRAM_0_63'' 0, K ''DRAM_64_127'' 1, K ''DRAM_128_151'' 2] (field 3 0)),
      (''TXVIS_RAM_ADDR'', field 16 16)]"

subsection \<open>TX RF RAM Visibility (Table 392,393) BROADCOM USE ONLY\<close>

definition bcm_hsp_tx_rf_ram_visibility :: register where
  "bcm_hsp_tx_rf_ram_visibility =
     [(''TXRFVIS_RAM'', codes [K ''HEADPTRARRAY'' 0, K ''TAILPTRARRAY'' 1, K ''RFEVENDATA_0_63'' 2,
        K ''RFEVENDATA_64_71'' 3, K ''RFEVENMETADATA'' 4, K ''RFODDDATA_0_63'' 5, K ''RFODDDATA_64_71'' 6,
        K ''RFODDMETADATA'' 7, K ''PHITCNTARRAY'' 8, K ''PUSHPOP'' 9, K ''IVCOK'' 10] (field 4 0)),
      (''TXRFVIS_RAM_ADDR'', field 8 8)]"

definition hsp_rx_spi4_calendar :: register where
  "hsp_rx_spi4_calendar = map (\<lambda>c. (''RX_CALENDAR'', BCM1480_HSP_RX_CALENDAR_X c)) [0..<8]"

definition hsp_tx_spi4_calendar :: register where
  "hsp_tx_spi4_calendar = map (\<lambda>c. (''TX_CALENDAR'', BCM1480_HSP_TX_CALENDAR_X c)) [0..<8]"

subsection \<open>The header\<close>

definition bcm1480_hsp :: "header" where
  "bcm1480_hsp =
     [(''rx_spi_4_configuration_0'', bcm_hsp_rx_spi_4_configuration_0),
      (''rx_spi_4_data_path_deskew'', bcm_hsp_rx_spi_4_data_path_deskew),
      (''tx_spi_4_configuration_0'', bcm_hsp_tx_spi_4_configuration_0),
      (''tx_spi_4_training_packet_configuration'', bcm_hsp_tx_spi_4_training_packet_configuration),
      (''rx_spi4_interrupt_enable_interrupt_status'', bcm_hsp_rx_spi4_interrupt_enable_interrupt_status),
      (''rx_ht_diagnostic_crc_error'', bcm_hsp_rx_ht_diagnostic_crc_error),
      (''rx_diagnsostic_packet_protocol'', bcm_hsp_rx_diagnsostic_packet_protocol),
      (''rx_diagnostic_detail'', bcm_hsp_rx_diagnostic_detail),
      (''rx_diagnostic_detail_status'', bcm_hsp_rx_diagnostic_detail_status),
      (''tx_spi4_interrupt_enable_interrupt_status'', bcm_hsp_tx_spi4_interrupt_enable_interrupt_status),
      (''rx_packet_buffer_allocation'', bcm_hsp_rx_packet_buffer_allocation),
      (''rx_ht_ram_allocation_0'', bcm_hsp_rx_ht_ram_allocation_0),
      (''rx_ht_ram_allocation_1'', bcm_hsp_rx_ht_ram_allocation_1),
      (''rx_ht_ram_allocation_2'', bcm_hsp_rx_ht_ram_allocation_2),
      (''rx_ht_ram_allocation_3'', bcm_hsp_rx_ht_ram_allocation_3),
      (''rx_ht_ram_allocation_4'', bcm_hsp_rx_ht_ram_allocation_4),
      (''rx_ht_ram_allocation_5'', bcm_hsp_rx_ht_ram_allocation_5),
      (''tx_packet_buffer_allocation'', bcm_hsp_tx_packet_buffer_allocation),
      (''tx_non_posted_command_allocation'', bcm_hsp_tx_non_posted_command_allocation),
      (''tx_response_allocation'', bcm_hsp_tx_response_allocation),
      (''tx_posted_command_allocation'', bcm_hsp_tx_posted_command_allocation),
      (''rx_spi4_config_1'', bcm_hsp_rx_spi4_config_1),
      (''rx_spi4_watermark'', bcm_hsp_rx_spi4_watermark),
      (''tx_spi4_configuration_1'', bcm_hsp_tx_spi4_configuration_1),
      (''tx_packet_buffer_allocation_physical_unit'', bcm_hsp_tx_packet_buffer_allocation_physical_unit),
      (''tx_ht_i_o_physical_unit'', bcm_hsp_tx_ht_i_o_physical_unit),
      (''tx_htcc_buffer_allocation'', bcm_hsp_tx_htcc_buffer_allocation),
      (''tx_packet_buffer_allocation_2'', bcm_hsp_tx_packet_buffer_allocation_2),
      (''tx_non_posted_command_allocation_2'', bcm_hsp_tx_non_posted_command_allocation_2),
      (''tx_non_posted_command_allocation_2_next_addr'', bcm_hsp_tx_non_posted_command_allocation_2_next_addr),
      (''rx_pll_config'', bcm_hsp_rx_pll_config),
      (''tx_pll_config'', bcm_hsp_tx_pll_config),
      (''rx_tx_calibration'', bcm_hsp_rx_tx_calibration),
      (''rx_testability'', bcm_hsp_rx_testability),
      (''tx_testability'', bcm_hsp_tx_testability),
      (''rx_ram_visibility'', bcm_hsp_rx_ram_visibility),
      (''rx_rf_ram_visibility'', bcm_hsp_rx_rf_ram_visibility),
      (''tx_ram_visibility'', bcm_hsp_tx_ram_visibility),
      (''tx_rf_ram_visibility'', bcm_hsp_tx_rf_ram_visibility),
      (''hsp_rx_spi4_calendar'', hsp_rx_spi4_calendar),
      (''hsp_tx_spi4_calendar'', hsp_tx_spi4_calendar)]"

lemmas bcm1480_hsp_defs = bcm1480_hsp_def
    bcm_hsp_rx_spi_4_configuration_0_def bcm_hsp_rx_spi_4_data_path_deskew_def 
    bcm_hsp_tx_spi_4_configuration_0_def bcm_hsp_tx_spi_4_training_packet_configuration_def 
    bcm_hsp_rx_spi4_interrupt_enable_interrupt_status_def bcm_hsp_rx_ht_diagnostic_crc_error_def 
    bcm_hsp_rx_diagnsostic_packet_protocol_def bcm_hsp_rx_diagnostic_detail_def 
    bcm_hsp_rx_diagnostic_detail_status_def bcm_hsp_tx_spi4_interrupt_enable_interrupt_status_def 
    bcm_hsp_rx_packet_buffer_allocation_def bcm_hsp_rx_ht_ram_allocation_0_def 
    bcm_hsp_rx_ht_ram_allocation_1_def bcm_hsp_rx_ht_ram_allocation_2_def bcm_hsp_rx_ht_ram_allocation_3_def 
    bcm_hsp_rx_ht_ram_allocation_4_def bcm_hsp_rx_ht_ram_allocation_5_def 
    bcm_hsp_tx_packet_buffer_allocation_def bcm_hsp_tx_non_posted_command_allocation_def 
    bcm_hsp_tx_response_allocation_def bcm_hsp_tx_posted_command_allocation_def bcm_hsp_rx_spi4_config_1_def 
    bcm_hsp_rx_spi4_watermark_def bcm_hsp_tx_spi4_configuration_1_def 
    bcm_hsp_tx_packet_buffer_allocation_physical_unit_def bcm_hsp_tx_ht_i_o_physical_unit_def 
    bcm_hsp_tx_htcc_buffer_allocation_def bcm_hsp_tx_packet_buffer_allocation_2_def 
    bcm_hsp_tx_non_posted_command_allocation_2_def bcm_hsp_tx_non_posted_command_allocation_2_next_addr_def 
    bcm_hsp_rx_pll_config_def bcm_hsp_tx_pll_config_def bcm_hsp_rx_tx_calibration_def 
    bcm_hsp_rx_testability_def bcm_hsp_tx_testability_def bcm_hsp_rx_ram_visibility_def 
    bcm_hsp_rx_rf_ram_visibility_def bcm_hsp_tx_ram_visibility_def bcm_hsp_tx_rf_ram_visibility_def 
    hsp_rx_spi4_calendar_def hsp_tx_spi4_calendar_def BCM1480_HSP_RX_CALENDAR_X_def 
    BCM1480_HSP_TX_CALENDAR_X_def

lemma bcm1480_hsp_ascending:
  "register_defects bcm_hsp_rx_spi_4_configuration_0 = ([], [])"
  "register_defects bcm_hsp_rx_spi_4_data_path_deskew = ([], [])"
  "register_defects bcm_hsp_tx_spi_4_configuration_0 = ([], [])"
  "register_defects bcm_hsp_tx_spi_4_training_packet_configuration = ([], [])"
  "register_defects bcm_hsp_rx_spi4_interrupt_enable_interrupt_status = ([], [])"
  "register_defects bcm_hsp_rx_ht_diagnostic_crc_error = ([], [])"
  "register_defects bcm_hsp_rx_diagnsostic_packet_protocol = ([], [])"
  "register_defects bcm_hsp_rx_diagnostic_detail = ([], [])"
  "register_defects bcm_hsp_rx_diagnostic_detail_status = ([], [])"
  "register_defects bcm_hsp_tx_spi4_interrupt_enable_interrupt_status = ([], [])"
  "register_defects bcm_hsp_rx_packet_buffer_allocation = ([], [])"
  "register_defects bcm_hsp_rx_ht_ram_allocation_0 = ([], [])"
  "register_defects bcm_hsp_rx_ht_ram_allocation_1 = ([], [])"
  "register_defects bcm_hsp_rx_ht_ram_allocation_2 = ([], [])"
  "register_defects bcm_hsp_rx_ht_ram_allocation_3 = ([], [])"
  "register_defects bcm_hsp_rx_ht_ram_allocation_4 = ([], [])"
  "register_defects bcm_hsp_rx_ht_ram_allocation_5 = ([], [])"
  "register_defects bcm_hsp_tx_packet_buffer_allocation = ([], [])"
  "register_defects bcm_hsp_tx_non_posted_command_allocation = ([], [])"
  "register_defects bcm_hsp_tx_response_allocation = ([], [])"
  "register_defects bcm_hsp_tx_posted_command_allocation = ([], [])"
  "register_defects bcm_hsp_rx_spi4_config_1 = ([], [])"
  "register_defects bcm_hsp_rx_spi4_watermark = ([], [])"
  "register_defects bcm_hsp_tx_spi4_configuration_1 = ([], [])"
  "register_defects bcm_hsp_tx_packet_buffer_allocation_physical_unit = ([], [])"
  "register_defects bcm_hsp_tx_ht_i_o_physical_unit = ([], [])"
  "register_defects bcm_hsp_tx_htcc_buffer_allocation = ([], [])"
  "register_defects bcm_hsp_tx_non_posted_command_allocation_2 = ([], [])"
  "register_defects bcm_hsp_tx_non_posted_command_allocation_2_next_addr = ([], [])"
  "register_defects bcm_hsp_rx_pll_config = ([], [])"
  "register_defects bcm_hsp_tx_pll_config = ([], [])"
  "register_defects bcm_hsp_rx_tx_calibration = ([], [])"
  "register_defects bcm_hsp_rx_testability = ([], [])"
  "register_defects bcm_hsp_tx_testability = ([], [])"
  "register_defects bcm_hsp_rx_ram_visibility = ([], [])"
  "register_defects bcm_hsp_rx_rf_ram_visibility = ([], [])"
  "register_defects bcm_hsp_tx_ram_visibility = ([], [])"
  "register_defects bcm_hsp_tx_rf_ram_visibility = ([], [])"
  by (simp_all add: ascending_eval bcm1480_hsp_defs)

lemma bcm1480_hsp_others:
  "register_defects bcm_hsp_tx_packet_buffer_allocation_2 = ([''TX_PHITCNT_1'', ''TX_PHITCNT_3''], [])"
  "register_defects hsp_rx_spi4_calendar = ([''RX_CALENDAR''], [(''RX_CALENDAR'', ''RX_CALENDAR''), (''RX_CALENDAR'', ''RX_CALENDAR''), (''RX_CALENDAR'',
        ''RX_CALENDAR''), (''RX_CALENDAR'', ''RX_CALENDAR''), (''RX_CALENDAR'', ''RX_CALENDAR''),
        (''RX_CALENDAR'', ''RX_CALENDAR''), (''RX_CALENDAR'', ''RX_CALENDAR'')])"
  "register_defects hsp_tx_spi4_calendar = ([''TX_CALENDAR''], [(''TX_CALENDAR'', ''TX_CALENDAR''), (''TX_CALENDAR'', ''TX_CALENDAR''), (''TX_CALENDAR'',
        ''TX_CALENDAR''), (''TX_CALENDAR'', ''TX_CALENDAR''), (''TX_CALENDAR'', ''TX_CALENDAR''),
        (''TX_CALENDAR'', ''TX_CALENDAR''), (''TX_CALENDAR'', ''TX_CALENDAR'')])"
  by (simp_all add: register_eval bcm1480_hsp_defs)

lemma bcm1480_hsp_defects:
  "defects bcm1480_hsp =
     [(''tx_packet_buffer_allocation_2'', [''TX_PHITCNT_1'', ''TX_PHITCNT_3''], []),
      (''hsp_rx_spi4_calendar'', [''RX_CALENDAR''], [(''RX_CALENDAR'', ''RX_CALENDAR''), (''RX_CALENDAR'',
        ''RX_CALENDAR''), (''RX_CALENDAR'', ''RX_CALENDAR''), (''RX_CALENDAR'', ''RX_CALENDAR''),
        (''RX_CALENDAR'', ''RX_CALENDAR''), (''RX_CALENDAR'', ''RX_CALENDAR''), (''RX_CALENDAR'',
        ''RX_CALENDAR'')]),
      (''hsp_tx_spi4_calendar'', [''TX_CALENDAR''], [(''TX_CALENDAR'', ''TX_CALENDAR''), (''TX_CALENDAR'',
        ''TX_CALENDAR''), (''TX_CALENDAR'', ''TX_CALENDAR''), (''TX_CALENDAR'', ''TX_CALENDAR''),
        (''TX_CALENDAR'', ''TX_CALENDAR''), (''TX_CALENDAR'', ''TX_CALENDAR''), (''TX_CALENDAR'',
        ''TX_CALENDAR'')])]"
  by (simp add: defects_def bcm1480_hsp_def bcm1480_hsp_ascending bcm1480_hsp_others)

end
