(* ===== verification/Bcm1480Ht.thy ===== *)
theory Bcm1480Ht
  imports Registers
begin

text \<open>
  The registers of the HyperTransport interface of the BCM1480 and BCM1280, from \<open>include/sibyte/bcm1480_ht.h\<close>, one list of fields for each
  register the header describes.
\<close>

unbundle bit_operations_syntax

subsection \<open>HT Interface Device Configuration Header (Table 130) The first 64 byte\<close>

definition bcm_ht_interface_device_configuration_header_first :: "(string \<times> u64) list" where
  "bcm_ht_interface_device_configuration_header_first =
     [(''HTD_ERRORINT'', 132), (''HTD_SPECCMDSTAT'', 136), (''HTD_SUBSYSSET'', 140), (''HTD_TGTDONE'', 144),
      (''HTD_VENDORIDSET'', 156), (''HTD_CLASSREVSET'', 160), (''HTD_ISOCBAR'', 164), (''HTD_ISOCBARMASK'',
        168),
      (''HTD_MAPBASE'', 176), (''HTD_MAPENTRIES'', 16), (''HTD_INTBUSCTRL'', 240), (''HTD_PORTSCTRL'', 244)]"

definition R_BCM1480_HTD_MAP :: "u64 \<Rightarrow> u64" where "R_BCM1480_HTD_MAP n = 0xb0 + n * 4"

subsection \<open>HT Device Error and Interrupt Register (Table 133)\<close>

definition bcm_ht_device_error_interrupt :: register where
  "bcm_ht_device_error_interrupt =
     [(''HTD_INT_BUS_ERR'', flag32 0),
      (''HTD_PORT0_DOWN_ERR'', flag32 8),
      (''HTD_PORT1_DOWN_ERR'', flag32 9),
      (''HTD_PORT2_DOWN_ERR'', flag32 10),
      (''HTD_INT_BUS_DOWN_ERR'', flag32 12),
      (''HTD_INT_BUS_ERR_INT_EN'', flag32 16),
      (''HTD_PORT0_DOWN_INT_EN'', flag32 24),
      (''HTD_PORT1_DOWN_INT_EN'', flag32 25),
      (''HTD_PORT2_DOWN_INT_EN'', flag32 26),
      (''HTD_INT_BUS_DOWN_INT_EN'', flag32 28)]"

subsection \<open>HT Device Specific Command and Status Register (Table 134)\<close>

definition bcm_ht_device_specific_command_status :: register where
  "bcm_ht_device_specific_command_status =
     [(''HTD_CMD_LOW_RANGE_EN'', flag32 0),
      (''HTD_CMD_LOW_RANGE_SPLIT'', flag32 1),
      (''HTD_CMD_FULL_BAR_EN'', flag32 2),
      (''HTD_CMD_FULL_BAR_SPLIT'', flag32 3),
      (''HTD_CMD_MSTR_ABORT_MODE'', flag32 5)]"

subsection \<open>HT Device Target Done Register (Table 135)\<close>

definition bcm_ht_device_target_done :: register where
  "bcm_ht_device_target_done =
     [(''HTD_TGT_DONE_COUNTER'', field32 8 0)]"

subsection \<open>HT Device Isochronous BAR Register (Table 136)\<close>

definition bcm_ht_device_isochronous_bar :: register where
  "bcm_ht_device_isochronous_bar =
     [(''HTD_ISOC_BAR_EN'', flag32 0),
      (''HTD_ISOC_BAR'', field32 31 1)]"

subsection \<open>HT Device Isochronous Ignore Mask Register (Table 137)\<close>

definition bcm_ht_device_isochronous_ignore_mask :: register where
  "bcm_ht_device_isochronous_ignore_mask =
     [(''HTD_ISOC_IGN_MASK'', put_as (Macro 1) (get_as Broken (bits32 31 1)))]"

subsection \<open>HT Device BAR0 Map Table Entry (Table 138)\<close>

definition bcm_ht_device_bar0_map_entry :: register where
  "bcm_ht_device_bar0_map_entry =
     [(''HTD_BAR0MAP_ENABLE'', flag32 0),
      (''HTD_BAR0MAP_L2CA'', flag32 2),
      (''HTD_BAR0MAP_ENDIAN'', flag32 3),
      (''HTD_BAR0MAP_ADDR'', field32 20 12)]"

subsection \<open>HT Device Internal Bus Control and Status Register (Table 139)\<close>

definition bcm_ht_device_internal_bus_control_status :: register where
  "bcm_ht_device_internal_bus_control_status =
     [(''HTD_INTBUS_WARM_R'', flag32 2),
      (''HTD_INTBUS_RESET'', flag32 3),
      (''HTD_INTBUS_WARM_R_STATUS'', flag32 4),
      (''HTD_INTBUS_RESET_STATUS'', flag32 5),
      (''HTD_INTBUS_DET_SERR'', flag32 8)]"

subsection \<open>HT Device Ports Control and Status Register (Table 140)\<close>

definition bcm_ht_device_ports_control_status :: register where
  "bcm_ht_device_ports_control_status =
     [(''HTD_PORTCTRL_PORT0'', field32 8 0),
      (''HTD_PORTCTRL_PORT1'', field32 8 8),
      (''HTD_PORTCTRL_PORT2'', field32 8 16)]"

definition BCM1480_HTD_PORTCTRL_PORTX :: "nat \<Rightarrow> field" where "BCM1480_HTD_PORTCTRL_PORTX p = field32 8 (p * 8)"

subsection \<open>The following fields are per port\<close>

definition bcm_ht_following_fields_are_per_port :: register where
  "bcm_ht_following_fields_are_per_port =
     [(''HTD_PORT_ACTIVE'', flag32 0),
      (''HTD_PORT_IS_PRIMARY'', flag32 1),
      (''HTD_PORT_LINK_WARM_R'', flag32 2),
      (''HTD_PORT_LINK_RESET'', flag32 3),
      (''HTD_PORT_LINKWARMR_STATUS'', flag32 4),
      (''HTD_PORT_LINKRESET_STATUS'', flag32 5)]"

subsection \<open>HT Internal Bridge HTB Configuration Header (Tables 141 and 163). The\<close>

definition bcm_ht_internal_bridge_htb_configuration_header :: "(string \<times> u64) list" where
  "bcm_ht_internal_bridge_htb_configuration_header =
     [(''HTB_LINKCAP'', 64), (''HTB_SWITCHCAP'', 92), (''HTB_VCSETCAP'', 116), (''HTB_SPECBRCTRL'', 136),
      (''HTB_SPECLINKFREQ'', 144), (''HTB_VENDORIDSET'', 156), (''HTB_NODEROUTING0'', 176),
      (''HTB_NODEROUTING1'', 180)]"

subsection \<open>HT Bridge Specific Bridge Control Register (Tables 160 and 181)\<close>

definition bcm_ht_bridge_specific_bridge_control :: register where
  "bcm_ht_bridge_specific_bridge_control =
     [(''HTB_SPBRCTRL_SOUTH'', flag32 0),
      (''HTB_SPBRCTRL_NO_INTR_FORWARD'', flag32 8)]"

subsection \<open>HT Bridge Specific Link Frequency Control Register (Table 160)\<close>

definition bcm_ht_bridge_specific_link_frequency_control :: register where
  "bcm_ht_bridge_specific_link_frequency_control =
     [(''HTB_SPLINKFREQ_PLLFREQ'', field32 5 0),
      (''HTB_SPLINKFREQ_PLLDIV4'', flag32 5),
      (''HTB_SPLINKFREQ_PLLCOMPAT'', flag32 6),
      (''HTB_SPLINKFREQ_SEQSTEP'', flag32 7),
      (''HTB_SPLINKFREQ_FREQCAPSET'', field32 16 16)]"

subsection \<open>HT Bridge Node Routing Registers (Table 161)\<close>

definition BCM1480_HTB_NODEROUTE :: "nat \<Rightarrow> field" where "BCM1480_HTB_NODEROUTE n = field32 4 (4 * n)"

subsection \<open>The following fields are per nibble\<close>

definition bcm_ht_following_fields_are_per_nibble :: register where
  "bcm_ht_following_fields_are_per_nibble =
     [(''HTB_ROUTE_IS_ON_SEC_FOR_IO'', flag32 0),
      (''HTB_ROUTE_OVERRIDE_FOR_IO'', flag32 1),
      (''HTB_ROUTE_IS_ON_SEC_FOR_CC'', flag32 2),
      (''HTB_ROUTE_OVERRIDE_FOR_CC'', flag32 3)]"

definition ht_port_control_by_port :: register where
  "ht_port_control_by_port = map (\<lambda>p. (''PORTX'', BCM1480_HTD_PORTCTRL_PORTX p)) [0..<3]"

definition ht_node_routes :: register where
  "ht_node_routes = map (\<lambda>n. (''NODEROUTE'', BCM1480_HTB_NODEROUTE n)) [0..<8]"

subsection \<open>The header\<close>

definition bcm1480_ht :: "header" where
  "bcm1480_ht =
     [(''device_error_interrupt'', bcm_ht_device_error_interrupt),
      (''device_specific_command_status'', bcm_ht_device_specific_command_status),
      (''device_target_done'', bcm_ht_device_target_done),
      (''device_isochronous_bar'', bcm_ht_device_isochronous_bar),
      (''device_isochronous_ignore_mask'', bcm_ht_device_isochronous_ignore_mask),
      (''device_bar0_map_entry'', bcm_ht_device_bar0_map_entry),
      (''device_internal_bus_control_status'', bcm_ht_device_internal_bus_control_status),
      (''device_ports_control_status'', bcm_ht_device_ports_control_status),
      (''following_fields_are_per_port'', bcm_ht_following_fields_are_per_port),
      (''bridge_specific_bridge_control'', bcm_ht_bridge_specific_bridge_control),
      (''bridge_specific_link_frequency_control'', bcm_ht_bridge_specific_link_frequency_control),
      (''following_fields_are_per_nibble'', bcm_ht_following_fields_are_per_nibble),
      (''ht_port_control_by_port'', ht_port_control_by_port),
      (''ht_node_routes'', ht_node_routes)]"

lemmas bcm1480_ht_defs = bcm1480_ht_def
    bcm_ht_device_error_interrupt_def bcm_ht_device_specific_command_status_def bcm_ht_device_target_done_def 
    bcm_ht_device_isochronous_bar_def bcm_ht_device_isochronous_ignore_mask_def 
    bcm_ht_device_bar0_map_entry_def bcm_ht_device_internal_bus_control_status_def 
    bcm_ht_device_ports_control_status_def bcm_ht_following_fields_are_per_port_def 
    bcm_ht_bridge_specific_bridge_control_def bcm_ht_bridge_specific_link_frequency_control_def 
    bcm_ht_following_fields_are_per_nibble_def ht_port_control_by_port_def ht_node_routes_def 
    BCM1480_HTD_PORTCTRL_PORTX_def BCM1480_HTB_NODEROUTE_def

lemma bcm1480_ht_ascending:
  "register_defects bcm_ht_device_error_interrupt = ([], [])"
  "register_defects bcm_ht_device_specific_command_status = ([], [])"
  "register_defects bcm_ht_device_target_done = ([], [])"
  "register_defects bcm_ht_device_isochronous_bar = ([], [])"
  "register_defects bcm_ht_device_bar0_map_entry = ([], [])"
  "register_defects bcm_ht_device_internal_bus_control_status = ([], [])"
  "register_defects bcm_ht_device_ports_control_status = ([], [])"
  "register_defects bcm_ht_following_fields_are_per_port = ([], [])"
  "register_defects bcm_ht_bridge_specific_bridge_control = ([], [])"
  "register_defects bcm_ht_bridge_specific_link_frequency_control = ([], [])"
  "register_defects bcm_ht_following_fields_are_per_nibble = ([], [])"
  by (simp_all add: ascending_eval bcm1480_ht_defs)

lemma bcm1480_ht_others:
  "register_defects bcm_ht_device_isochronous_ignore_mask = ([''HTD_ISOC_IGN_MASK''], [])"
  "register_defects ht_port_control_by_port = ([], [])"
  "register_defects ht_node_routes = ([], [])"
  by (simp_all add: register_eval bcm1480_ht_defs)

lemma bcm1480_ht_defects:
  "defects bcm1480_ht =
     [(''device_isochronous_ignore_mask'', [''HTD_ISOC_IGN_MASK''], [])]"
  by (simp add: defects_def bcm1480_ht_def bcm1480_ht_ascending bcm1480_ht_others)

end
