(* ===== verification/Bcm1480Int.thy ===== *)
theory Bcm1480Int
  imports Registers
begin

text \<open>
  The registers of the interrupt mapper of the BCM1480 and BCM1280, from \<open>include/sibyte/bcm1480_int.h\<close>, one list of fields for each
  register the header describes.
\<close>

unbundle bit_operations_syntax

subsection \<open>Interrupt sources (Table 22)\<close>

definition bcm_int_interrupt_sources :: "(string \<times> u64) list" where
  "bcm_int_interrupt_sources =
     [(''ADDR_TRAP'', 1), (''GPIO_0'', 4), (''GPIO_1'', 5), (''GPIO_2'', 6), (''GPIO_3'', 7), (''PCI_INTA'', 8),
      (''PCI_INTB'', 9), (''PCI_INTC'', 10), (''PCI_INTD'', 11), (''CYCLE_CP0'', 12), (''CYCLE_CP1'', 13),
      (''CYCLE_CP2'', 14), (''CYCLE_CP3'', 15), (''TIMER_0'', 20), (''TIMER_1'', 21), (''TIMER_2'', 22),
      (''TIMER_3'', 23), (''DM_CH_0'', 28), (''DM_CH_1'', 29), (''DM_CH_2'', 30), (''DM_CH_3'', 31),
      (''MAC_0'', 36), (''MAC_0_CH1'', 37), (''MAC_1'', 38), (''MAC_1_CH1'', 39), (''MAC_2'', 40),
      (''MAC_2_CH1'', 41), (''MAC_3'', 42), (''MAC_3_CH1'', 43), (''PMI_LOW'', 52), (''PMI_HIGH'', 53),
      (''PMO_LOW'', 54), (''PMO_HIGH'', 55), (''MBOX_0_0'', 56), (''MBOX_0_1'', 57), (''MBOX_0_2'', 58),
      (''MBOX_0_3'', 59), (''MBOX_1_0'', 60), (''MBOX_1_1'', 61), (''MBOX_1_2'', 62), (''MBOX_1_3'', 63),
      (''BAD_ECC'', 65), (''COR_ECC'', 66), (''IO_BUS'', 67), (''PERF_CNT'', 68), (''SW_PERF_CNT'', 69),
      (''TRACE_FREEZE'', 70), (''SW_TRACE_FREEZE'', 71), (''WATCHDOG_TIMER_0'', 72), (''WATCHDOG_TIMER_1'', 73),
      (''WATCHDOG_TIMER_2'', 74), (''WATCHDOG_TIMER_3'', 75), (''PCI_ERROR'', 80), (''PCI_RESET'', 81),
      (''NODE_CONTROLLER'', 82), (''HOST_BRIDGE'', 83), (''PORT_0_FATAL'', 84), (''PORT_0_NONFATAL'', 85),
      (''PORT_1_FATAL'', 86), (''PORT_1_NONFATAL'', 87), (''PORT_2_FATAL'', 88), (''PORT_2_NONFATAL'', 89),
      (''LDT_SMI'', 96), (''LDT_NMI'', 97), (''LDT_INIT'', 98), (''LDT_STARTUP'', 99), (''LDT_EXT'', 100),
      (''SMB_0'', 104), (''SMB_1'', 105), (''PCMCIA'', 106), (''UART_0'', 108), (''UART_1'', 109),
      (''UART_2'', 110), (''UART_3'', 111), (''GPIO_4'', 116), (''GPIO_5'', 117), (''GPIO_6'', 118),
      (''GPIO_7'', 119), (''GPIO_8'', 120), (''GPIO_9'', 121), (''GPIO_10'', 122), (''GPIO_11'', 123),
      (''GPIO_12'', 124), (''GPIO_13'', 125), (''GPIO_14'', 126), (''GPIO_15'', 127)]"

definition BCM1480_INT_HIGH :: "u64 \<Rightarrow> u64" where "BCM1480_INT_HIGH k = k"

definition BCM1480_INT_LOW :: "u64 \<Rightarrow> u64" where "BCM1480_INT_LOW k = k + 64"

subsection \<open>Mask values in the high register\<close>

definition bcm_int_mask_values_in_high :: register where
  "bcm_int_mask_values_in_high =
     [(''CASCADE'', flag 0),
      (''ADDR_TRAP'', flag 1),
      (''GPIO_0'', flag 4),
      (''GPIO_1'', flag 5),
      (''GPIO_2'', flag 6),
      (''GPIO_3'', flag 7),
      (''PCI_INTA'', flag 8),
      (''PCI_INTB'', flag 9),
      (''PCI_INTC'', flag 10),
      (''PCI_INTD'', flag 11),
      (''CYCLE_CP0'', flag 12),
      (''CYCLE_CP1'', flag 13),
      (''CYCLE_CP2'', flag 14),
      (''CYCLE_CP3'', flag 15),
      (''TIMER_0'', flag 20),
      (''TIMER_1'', flag 21),
      (''TIMER_2'', flag 22),
      (''TIMER_3'', flag 23),
      (''DM_CH_0'', flag 28),
      (''DM_CH_1'', flag 29),
      (''DM_CH_2'', flag 30),
      (''DM_CH_3'', flag 31),
      (''MAC_0'', flag 36),
      (''MAC_0_CH1'', flag 37),
      (''MAC_1'', flag 38),
      (''MAC_1_CH1'', flag 39),
      (''MAC_2'', flag 40),
      (''MAC_2_CH1'', flag 41),
      (''MAC_3'', flag 42),
      (''MAC_3_CH1'', flag 43),
      (''PMI_LOW'', flag 52),
      (''PMI_HIGH'', flag 53),
      (''PMO_LOW'', flag 54),
      (''PMO_HIGH'', flag 55),
      (''MBOX_0_0'', flag 56),
      (''MBOX_0_1'', flag 57),
      (''MBOX_0_2'', flag 58),
      (''MBOX_0_3'', flag 59),
      (''MBOX_1_0'', flag 60),
      (''MBOX_1_1'', flag 61),
      (''MBOX_1_2'', flag 62),
      (''MBOX_1_3'', flag 63)]"

definition BCM1480_INT_MASK1 :: "u64 \<Rightarrow> u64" where "BCM1480_INT_MASK1 n = SB_MAKEMASK1 (unat (n AND 0x3f))"

definition BCM1480_INT_OFFSET :: "u64 \<Rightarrow> u64" where "BCM1480_INT_OFFSET n = push_bit 6 (n AND 0x40)"

subsection \<open>Mask values in the low register\<close>

definition bcm_int_mask_values_in_low :: register where
  "bcm_int_mask_values_in_low =
     [(''BAD_ECC'', flag 1),
      (''COR_ECC'', flag 2),
      (''IO_BUS'', flag 3),
      (''PERF_CNT'', flag 4),
      (''SW_PERF_CNT'', flag 5),
      (''TRACE_FREEZE'', flag 6),
      (''SW_TRACE_FREEZE'', flag 7),
      (''WATCHDOG_TIMER_0'', flag 8),
      (''WATCHDOG_TIMER_1'', flag 9),
      (''WATCHDOG_TIMER_2'', flag 10),
      (''WATCHDOG_TIMER_3'', flag 11),
      (''PCI_ERROR'', flag 16),
      (''PCI_RESET'', flag 17),
      (''NODE_CONTROLLER'', flag 18),
      (''HOST_BRIDGE'', flag 19),
      (''PORT_0_FATAL'', flag 20),
      (''PORT_0_NONFATAL'', flag 21),
      (''PORT_1_FATAL'', flag 22),
      (''PORT_1_NONFATAL'', flag 23),
      (''PORT_2_FATAL'', flag 24),
      (''PORT_2_NONFATAL'', flag 25),
      (''LDT_SMI'', flag 32),
      (''LDT_NMI'', flag 33),
      (''LDT_INIT'', flag 34),
      (''LDT_STARTUP'', flag 35),
      (''LDT_EXT'', flag 36),
      (''SMB_0'', flag 40),
      (''SMB_1'', flag 41),
      (''PCMCIA'', flag 42),
      (''UART_0'', flag 44),
      (''UART_1'', flag 45),
      (''UART_2'', flag 46),
      (''UART_3'', flag 47),
      (''GPIO_4'', flag 52),
      (''GPIO_5'', flag 53),
      (''GPIO_6'', flag 54),
      (''GPIO_7'', flag 55),
      (''GPIO_8'', flag 56),
      (''GPIO_9'', flag 57),
      (''GPIO_10'', flag 58),
      (''GPIO_11'', flag 59),
      (''GPIO_12'', flag 60),
      (''GPIO_13'', flag 61),
      (''GPIO_14'', flag 62),
      (''GPIO_15'', flag 63)]"

subsection \<open>Interrupt mappings (Table 18)\<close>

definition bcm_int_interrupt_mappings :: "(string \<times> u64) list" where
  "bcm_int_interrupt_mappings =
     [(''MAP_I0'', 0), (''MAP_I1'', 1), (''MAP_I2'', 2), (''MAP_I3'', 3), (''MAP_I4'', 4), (''MAP_I5'', 5),
      (''MAP_NMI'', 6), (''MAP_DINT'', 7)]"

subsection \<open>Interrupt LDT Set Register (Table 19)\<close>

definition bcm_int_interrupt_ldt_set :: register where
  "bcm_int_interrupt_ldt_set =
     [(''HT_INTMSG'', codes [K ''FIXED'' 0, K ''ARBITRATED'' 1, K ''SMI'' 2, K ''NMI'' 3, K ''INIT'' 4,
        K ''STARTUP'' 5, K ''EXTINT'' 6, K ''RESERVED'' 7] (field 3 0)),
      (''HT_TRIGGERMODE'', flag 3),
      (''HT_DESTMODE'', flag 4),
      (''HT_INTDEST'', field 8 5),
      (''HT_VECTOR'', field 8 13)]"

definition V_BCM1480_INT_HT_EDGETRIGGER :: u64 where
  "V_BCM1480_INT_HT_EDGETRIGGER = 0"

definition V_BCM1480_INT_HT_LEVELTRIGGER :: u64 where
  "V_BCM1480_INT_HT_LEVELTRIGGER = SB_MAKEMASK1 3"

definition V_BCM1480_INT_HT_PHYSICALDEST :: u64 where
  "V_BCM1480_INT_HT_PHYSICALDEST = 0"

definition V_BCM1480_INT_HT_LOGICALDEST :: u64 where
  "V_BCM1480_INT_HT_LOGICALDEST = SB_MAKEMASK1 4"

subsection \<open>Vector prefix (Table 4-7)\<close>

definition M_BCM1480_HTVECT_RAISE_INTLDT_HIGH :: u64 where
  "M_BCM1480_HTVECT_RAISE_INTLDT_HIGH = 0"

definition M_BCM1480_HTVECT_RAISE_MBOX_0 :: u64 where
  "M_BCM1480_HTVECT_RAISE_MBOX_0 = 64"

definition M_BCM1480_HTVECT_RAISE_INTLDT_LO :: u64 where
  "M_BCM1480_HTVECT_RAISE_INTLDT_LO = 128"

definition M_BCM1480_HTVECT_RAISE_MBOX_1 :: u64 where
  "M_BCM1480_HTVECT_RAISE_MBOX_1 = 192"

subsection \<open>The header\<close>

definition bcm1480_int :: "header" where
  "bcm1480_int =
     [(''mask_values_in_high'', bcm_int_mask_values_in_high),
      (''mask_values_in_low'', bcm_int_mask_values_in_low),
      (''interrupt_ldt_set'', bcm_int_interrupt_ldt_set)]"

lemmas bcm1480_int_defs = bcm1480_int_def
    bcm_int_mask_values_in_high_def bcm_int_mask_values_in_low_def bcm_int_interrupt_ldt_set_def

lemma bcm1480_int_ascending:
  "register_defects bcm_int_mask_values_in_high = ([], [])"
  "register_defects bcm_int_mask_values_in_low = ([], [])"
  "register_defects bcm_int_interrupt_ldt_set = ([], [])"
  by (simp_all add: ascending_eval bcm1480_int_defs)

lemma bcm1480_int_defects:
  "defects bcm1480_int =
     []"
  by (simp add: defects_def bcm1480_int_def bcm1480_int_ascending)

end
