(* ===== verification/Bcm1480Jtag.thy ===== *)
theory Bcm1480Jtag
  imports Registers
begin

text \<open>
  The registers of the JTAG chains of the BCM1480 and BCM1280, from \<open>include/sibyte/bcm1480_jtag.h\<close>, one list of fields for each
  register the header describes. A field of the second word of a chain
  has a mask and a shift in that word; its \<open>S_\<close> macro counts from the start of the chain, 64 bits before.
\<close>

unbundle bit_operations_syntax

subsection \<open>JTAG Instruction Register values\<close>

definition bcm_jtag_instruction_values :: "(string \<times> u64) list" where
  "bcm_jtag_instruction_values =
     [(''BCM1480_CPU0OSC'', 38), (''BCM1480_CPU0DSC'', 39), (''BCM1480_CPU0TSC'', 40), (''BCM1480_CPU1OSC'',
        42),
      (''BCM1480_CPU1DSC'', 43), (''BCM1480_CPU1TSC'', 44), (''BCM1480_CPU2OSC'', 48), (''BCM1480_CPU2DSC'',
        49),
      (''BCM1480_CPU2TSC'', 50), (''BCM1480_CPU3OSC'', 52), (''BCM1480_CPU3DSC'', 53), (''BCM1480_CPU3TSC'',
        54),
      (''BCM1480_AGENTSEL'', 55), (''BCM1480_AGENTSCAN'', 56), (''BCM1480_AGENTCLK'', 57),
      (''BCM1480_MBISTCTRL'', 80), (''BCM1480_MBISTDATA'', 81), (''BCM1480_BSRMODE'', 82),
      (''BCM1480_SCANTRCCNT'', 83), (''BCM1480_CLAMP'', 84), (''BCM1480_SAMPLE'', 85), (''BCM1480_INTEST'', 86),
      (''BCM1480_FUSECMD'', 87), (''BCM1480_FUSEDATA'', 88), (''BCM1480_PLLCTRL'', 89), (''BCM1480_PLLSTOP'',
        90),
      (''BCM1480_SCANNCTKR'', 91), (''BCM1480_BYPASS'', 127)]"

subsection \<open>Agent Select Code:\<close>

definition bcm_jtag_agent_select_code :: "(string \<times> u64) list" where
  "bcm_jtag_agent_select_code =
     [(''BCM1480_IOB_BR_AGENT_SEL'', 0x21000), (''BCM1480_IOB_EIF_AGENT_SEL'', 0x28000),
      (''BCM1480_IOB_MISC_AGENT_SEL'', 0x22000), (''BCM1480_IOB_PCIX_AGENT_SEL'', 0x24000),
      (''BCM1480_L2C_AGENT_SEL'', 0x20400), (''BCM1480_L2D_AGENT_SEL'', 0x20800),
      (''BCM1480_MC_AGENT_SEL'', 0x20200), (''BCM1480_NC_AGENT_SEL'', 0x20080),
      (''BCM1480_PM_AGENT_SEL'', 0x20100), (''BCM1480_RX0_AGENT_SEL'', 0x20001),
      (''BCM1480_RX1_AGENT_SEL'', 0x20002), (''BCM1480_RX2_AGENT_SEL'', 0x20004),
      (''BCM1480_SCD_AGENT_SEL'', 0x30000), (''BCM1480_SW_AGENT_SEL'', 0x20040),
      (''BCM1480_TX0_AGENT_SEL'', 0x20008), (''BCM1480_TX1_AGENT_SEL'', 0x20010),
      (''BCM1480_TX2_AGENT_SEL'', 0x20020)]"

subsection \<open>EJTAG Control Register (Table 502)\<close>

definition bcm_jtag_ejtag_control :: register where
  "bcm_jtag_ejtag_control =
     [(''JTAG_CR_DM0'', flag 0),
      (''JTAG_CR_DM1'', flag 1),
      (''JTAG_CR_DM2'', flag 2),
      (''JTAG_CR_DM3'', flag 3),
      (''JTAG_CR_EJTAGBreak0'', flag 4),
      (''JTAG_CR_EJTAGBreak1'', flag 5),
      (''JTAG_CR_EJTAGBreak2'', flag 6),
      (''JTAG_CR_EJTAGBreak3'', flag 7),
      (''JTAG_CR_PrTrap0'', flag 8),
      (''JTAG_CR_PrTrap1'', flag 9),
      (''JTAG_CR_PrTrap2'', flag 10),
      (''JTAG_CR_PrTrap3'', flag 11),
      (''JTAG_CR_ProbEn'', flag 12),
      (''JTAG_CR_PrAcc'', flag 13),
      (''JTAG_CR_PW'', flag 14),
      (''JTAG_CR_PbAcc'', flag 15),
      (''JTAG_CR_MaSl'', flag 16),
      (''JTAG_CR_ClkStopped'', flag 17)]"

definition G_BCM1480_JTAG_CR_EJTAGBreak :: "nat \<Rightarrow> u64" where "G_BCM1480_JTAG_CR_EJTAGBreak cpu = push_bit cpu (SB_MAKEMASK1 4)"

definition G_BCM1480_JTAG_CR_PrTrap :: "nat \<Rightarrow> u64" where "G_BCM1480_JTAG_CR_PrTrap cpu = push_bit cpu (SB_MAKEMASK1 8)"

subsection \<open>PLLCTRL chain\<close>

definition bcm_jtag_pllctrl_chain :: register where
  "bcm_jtag_pllctrl_chain =
     [(''PLLCTRL_CLKSTOP'', flag 0),
      (''PLLCTRL_CLKSTEP'', flag 1),
      (''PLLCTRL_CLKCOUNT'', field 8 2),
      (''PLLCTRL_BYPASS'', flag 10),
      (''PLLCTRL_PLL_IREF'', bits 2 11),
      (''PLLCTRL_PLL_VCO'', bits 4 13),
      (''PLLCTRL_PLLPHASE'', codes [KV ''A'' 1 1, KV ''B'' 3 3] (field 2 19)),
      (''PLLCTRL_STOPCOUNT'', field 48 21)]"

subsection \<open>these bits are in the second 64-bit word. mask values are 64 bits wide\<close>

definition bcm_jtag_these_bits_are_in_second_64 :: register where
  "bcm_jtag_these_bits_are_in_second_64 =
     [(''PLLCTRL_PLLSTOP'', flag 5),
      (''PLLCTRL_STOPSTRETCH'', flag 6),
      (''PLLCTRL_STARTCOND'', flag 7),
      (''PLLCTRL_STOPPING'', flag 8),
      (''PLLCTRL_STOPSTRDONE'', flag 9),
      (''PLLCTRL_STRETCHMODE'', field 2 10),
      (''PLLCTRL_REG_ADJ'', field 3 12),
      (''PLLCTRL_REG_AD'', field 3 15),
      (''PLLCTRL_GAP_RR'', field 3 18),
      (''PLLCTRL_GAP_RS'', field 3 21),
      (''PLLCTRL_VOLT_BYPASS'', flag 24)]"

definition bcm_jtag_these_bits_are_in_second_64_consts :: "(string \<times> u64) list" where
  "bcm_jtag_these_bits_are_in_second_64_consts =
     [(''BCM1480_PLLCTRL_CHAIN_LENGTH'', 89)]"

subsection \<open>System Config chain\<close>

definition bcm_jtag_system_config_chain :: register where
  "bcm_jtag_system_config_chain =
     [(''SYSCFG_BIG_ENDIAN'', flag 22),
      (''SYSCFG_CPU_RESET_0'', flag 52),
      (''SYSCFG_CPU_RESET_1'', flag 53),
      (''SYSCFG_CPU_RESET_2'', flag 54),
      (''SYSCFG_CPU_RESET_3'', flag 55),
      (''SYSCFG_CPU_DISABLE_0'', flag 56),
      (''SYSCFG_CPU_DISABLE_1'', flag 57),
      (''SYSCFG_CPU_DISABLE_2'', flag 58),
      (''SYSCFG_CPU_DISABLE_3'', flag 59),
      (''SYSCFG_SYSTEM_RESET'', flag 62)]"

definition bcm_jtag_system_config_chain_consts :: "(string \<times> u64) list" where
  "bcm_jtag_system_config_chain_consts =
     [(''S_SYSCFG_SB_SOFTRES'', 60)]"

definition BCM1480_SYSCFG_CPU_RESET :: "nat \<Rightarrow> u64" where "BCM1480_SYSCFG_CPU_RESET n = push_bit n (SB_MAKEMASK1 52)"

subsection \<open>these bits are in the second 64-bit word. mask values are 64 bits wide\<close>

definition bcm_jtag_these_bits_are_in_second_64_2 :: register where
  "bcm_jtag_these_bits_are_in_second_64_2 =
     [(''SYSCFG_SERZB_ARD'', flag 0),
      (''SYSCFG_SERZB_AR'', flag 1),
      (''SYSCFG_MISR_MODE'', flag 2),
      (''SYSCFG_SCD_FTM'', flag 3),
      (''SYSCFG_SCD_RST'', flag 4),
      (''SYSCFG_IOB_RST'', flag 5),
      (''SYSCFG_L2C_RST'', flag 6),
      (''SYSCFG_MC_RST'', flag 7),
      (''SYSCFG_TX0_RST'', flag 8),
      (''SYSCFG_TX1_RST'', flag 9),
      (''SYSCFG_TX2_RST'', flag 10),
      (''SYSCFG_RX0_RST'', flag 11),
      (''SYSCFG_RX1_RST'', flag 12),
      (''SYSCFG_RX2_RST'', flag 13),
      (''SYSCFG_PM_RST'', flag 14),
      (''SYSCFG_NC_RST'', flag 15),
      (''SYSCFG_SW_RST'', flag 16)]"

subsection \<open>RESERVED 81\<close>

definition bcm_jtag_reserved_81 :: "(string \<times> u64) list" where
  "bcm_jtag_reserved_81 =
     [(''BCM1480_SYSCFG_CHAIN_LENGTH'', 82)]"

subsection \<open>ZBbus definitions (1x55 1x80-specific)\<close>

definition bcm_jtag_zbbus_definitions :: "(string \<times> u64) list" where
  "bcm_jtag_zbbus_definitions =
     [(''ZB_CMD_READ_SHD'', 0), (''ZB_CMD_READ_EXC'', 1), (''ZB_CMD_WRITE'', 2), (''ZB_CMD_WRITE_INV'', 3),
      (''ZB_CMD_READ_KILL'', 4), (''ZB_CMD_READ_INV'', 5), (''ZB_CMD_WRITE_FL'', 6), (''ZB_CMD_NOP'', 7)]"

subsection \<open>The header\<close>

definition bcm1480_jtag :: "header" where
  "bcm1480_jtag =
     [(''ejtag_control'', bcm_jtag_ejtag_control),
      (''pllctrl_chain'', bcm_jtag_pllctrl_chain),
      (''these_bits_are_in_second_64'', bcm_jtag_these_bits_are_in_second_64),
      (''system_config_chain'', bcm_jtag_system_config_chain),
      (''these_bits_are_in_second_64_2'', bcm_jtag_these_bits_are_in_second_64_2)]"

lemmas bcm1480_jtag_defs = bcm1480_jtag_def
    bcm_jtag_ejtag_control_def bcm_jtag_pllctrl_chain_def bcm_jtag_these_bits_are_in_second_64_def 
    bcm_jtag_system_config_chain_def bcm_jtag_these_bits_are_in_second_64_2_def

lemma bcm1480_jtag_ascending:
  "register_defects bcm_jtag_ejtag_control = ([], [])"
  "register_defects bcm_jtag_these_bits_are_in_second_64 = ([], [])"
  "register_defects bcm_jtag_system_config_chain = ([], [])"
  "register_defects bcm_jtag_these_bits_are_in_second_64_2 = ([], [])"
  by (simp_all add: ascending_eval bcm1480_jtag_defs)

lemma bcm1480_jtag_others:
  "register_defects bcm_jtag_pllctrl_chain = ([''PLLCTRL_STOPCOUNT''], [])"
  by (simp_all add: register_eval bcm1480_jtag_defs)

lemma bcm1480_jtag_defects:
  "defects bcm1480_jtag =
     [(''pllctrl_chain'', [''PLLCTRL_STOPCOUNT''], [])]"
  by (simp add: defects_def bcm1480_jtag_def bcm1480_jtag_ascending bcm1480_jtag_others)

end
