(* ===== verification/Bcm1480L2c.thy ===== *)
theory Bcm1480L2c
  imports Registers
begin

text \<open>
  The registers of the level 2 cache of the BCM1480 and BCM1280, from \<open>include/sibyte/bcm1480_l2c.h\<close>, one list of fields for each
  register the header describes.
\<close>

unbundle bit_operations_syntax

subsection \<open>Format of level 2 cache management address (Table 55)\<close>

definition bcm_l2c_format_level_2_cache_management_address :: register where
  "bcm_l2c_format_level_2_cache_management_address =
     [(''MGMT_INDEX'', field 12 5),
      (''MGMT_WAY'', field 3 17),
      (''MGMT_DIRTY'', flag 20),
      (''MGMT_VALID'', flag 21),
      (''MGMT_ECC_DIAG'', field 2 22)]"

definition bcm_l2c_format_level_2_cache_management_address_consts :: "(string \<times> u64) list" where
  "bcm_l2c_format_level_2_cache_management_address_consts =
     [(''MGMT_TAG_BASE'', 0xd0000000), (''BCM1480_L2C_ENTRIES_PER_WAY'', 0x1000), (''BCM1480_L2C_NUM_WAYS'',
        8)]"

subsection \<open>Level 2 Cache Tag register (Table 59)\<close>

definition bcm_l2c_level_2_cache_tag :: register where
  "bcm_l2c_level_2_cache_tag =
     [(''TAG_MBZ'', bits 5 0),
      (''TAG_INDEX'', field 12 5),
      (''TAG_TAG'', field 23 17),
      (''TAG_ECC'', field 6 40),
      (''TAG_WAY'', field 3 46),
      (''TAG_DIRTY'', flag 49),
      (''TAG_VALID'', flag 50),
      (''DATA_ECC'', field 10 51)]"

subsection \<open>L2 Misc0 Value Register (Table 60)\<close>

definition bcm_l2c_l2_misc0_value :: register where
  "bcm_l2c_l2_misc0_value =
     [(''MISC0_WAY_REMOTE'', get_as (Macro (0, SB_MAKEMASK 8 0)) (bits 8 0)),
      (''MISC0_WAY_LOCAL'', get_as (Macro (8, SB_MAKEMASK 8 8)) (bits 8 8)),
      (''MISC0_WAY_ENABLE'', get_as (Macro (16, SB_MAKEMASK 8 16)) (bits 8 16)),
      (''MISC0_CACHE_DISABLE'', get_as (Macro (24, SB_MAKEMASK 2 24)) (bits 2 24)),
      (''MISC0_CACHE_QUAD'', get_as (Macro (26, SB_MAKEMASK 2 26)) (bits 2 26)),
      (''MISC0_MC_PRIORITY'', flag 30),
      (''MISC0_ECC_CLEANUP'', flag 31)]"

subsection \<open>L2 Misc1 Value Register (Table 60)\<close>

definition bcm_l2c_l2_misc1_value :: register where
  "bcm_l2c_l2_misc1_value =
     [(''MISC1_WAY_AGENT_0'', get_as (Macro (0, SB_MAKEMASK 8 0)) (bits 8 0)),
      (''MISC1_WAY_AGENT_1'', get_as (Macro (8, SB_MAKEMASK 8 8)) (bits 8 8)),
      (''MISC1_WAY_AGENT_2'', get_as (Macro (16, SB_MAKEMASK 8 16)) (bits 8 16)),
      (''MISC1_WAY_AGENT_3'', get_as (Macro (24, SB_MAKEMASK 8 24)) (bits 8 24)),
      (''MISC1_WAY_AGENT_4'', get_as (Macro (32, SB_MAKEMASK 8 32)) (bits 8 32))]"

subsection \<open>L2 Misc2 Value Register (Table 60)\<close>

definition bcm_l2c_l2_misc2_value :: register where
  "bcm_l2c_l2_misc2_value =
     [(''MISC2_WAY_AGENT_8'', get_as (Macro (0, SB_MAKEMASK 8 0)) (bits 8 0)),
      (''MISC2_WAY_AGENT_9'', get_as (Macro (8, SB_MAKEMASK 8 8)) (bits 8 8)),
      (''MISC2_WAY_AGENT_A'', get_as (Macro (16, SB_MAKEMASK 8 16)) (bits 8 16))]"

subsection \<open>The header\<close>

definition bcm1480_l2c :: "header" where
  "bcm1480_l2c =
     [(''format_level_2_cache_management_address'', bcm_l2c_format_level_2_cache_management_address),
      (''level_2_cache_tag'', bcm_l2c_level_2_cache_tag),
      (''l2_misc0_value'', bcm_l2c_l2_misc0_value),
      (''l2_misc1_value'', bcm_l2c_l2_misc1_value),
      (''l2_misc2_value'', bcm_l2c_l2_misc2_value)]"

lemmas bcm1480_l2c_defs = bcm1480_l2c_def
    bcm_l2c_format_level_2_cache_management_address_def bcm_l2c_level_2_cache_tag_def 
    bcm_l2c_l2_misc0_value_def bcm_l2c_l2_misc1_value_def bcm_l2c_l2_misc2_value_def

lemma bcm1480_l2c_ascending:
  "register_defects bcm_l2c_format_level_2_cache_management_address = ([], [])"
  "register_defects bcm_l2c_level_2_cache_tag = ([], [])"
  "register_defects bcm_l2c_l2_misc0_value = ([], [])"
  "register_defects bcm_l2c_l2_misc1_value = ([], [])"
  "register_defects bcm_l2c_l2_misc2_value = ([], [])"
  by (simp_all add: ascending_eval bcm1480_l2c_defs)

lemma bcm1480_l2c_defects:
  "defects bcm1480_l2c =
     []"
  by (simp add: defects_def bcm1480_l2c_def bcm1480_l2c_ascending)

end
