(* ===== verification/Bcm1480Mc.thy ===== *)
theory Bcm1480Mc
  imports Registers
begin

text \<open>
  The registers of the memory controller of the BCM1480 and BCM1280, from \<open>include/sibyte/bcm1480_mc.h\<close>, one list of fields for each
  register the header describes.
\<close>

unbundle bit_operations_syntax

subsection \<open>Memory Channel Configuration Register (Table 81)\<close>

definition bcm_mc_memory_channel_configuration :: register where
  "bcm_mc_memory_channel_configuration =
     [(''INTLV0'', field 6 0),
      (''INTLV1'', field 6 8),
      (''INTLV2'', field 6 16),
      (''CS_MODE'', field 8 32)]"

definition bcm_mc_memory_channel_configuration_consts :: "(string \<times> u64) list" where
  "bcm_mc_memory_channel_configuration_consts =
     [(''CS01_MODE'', 3), (''CS02_MODE'', 5), (''CS0123_MODE'', 15), (''CS0246_MODE'', 85), (''CS0145_MODE'',
        51),
      (''CS0167_MODE'', 195), (''CSFULL_MODE'', 255)]"

definition V_BCM1480_MC_INTLV0_DEFAULT :: u64 where
  "V_BCM1480_MC_INTLV0_DEFAULT = SB_MAKEVALUE 0 0"

definition V_BCM1480_MC_INTLV1_DEFAULT :: u64 where
  "V_BCM1480_MC_INTLV1_DEFAULT = SB_MAKEVALUE 0 8"

definition V_BCM1480_MC_INTLV2_DEFAULT :: u64 where
  "V_BCM1480_MC_INTLV2_DEFAULT = SB_MAKEVALUE 0 16"

definition V_BCM1480_MC_CS_MODE_DEFAULT :: u64 where
  "V_BCM1480_MC_CS_MODE_DEFAULT = SB_MAKEVALUE 0 32"

definition V_BCM1480_MC_CONFIG_DEFAULT :: u64 where
  "V_BCM1480_MC_CONFIG_DEFAULT = V_BCM1480_MC_INTLV0_DEFAULT OR
     V_BCM1480_MC_INTLV1_DEFAULT OR
     V_BCM1480_MC_INTLV2_DEFAULT OR
     V_BCM1480_MC_CS_MODE_DEFAULT"

subsection \<open>Chip Select Start Address Register (Table 82)\<close>

definition bcm_mc_chip_select_start_address :: register where
  "bcm_mc_chip_select_start_address =
     [(''CS0_START'', field 12 0),
      (''CS1_START'', field 12 16),
      (''CS2_START'', field 12 32),
      (''CS3_START'', field 12 48)]"

subsection \<open>Chip Select End Address Register (Table 83)\<close>

definition bcm_mc_chip_select_end_address :: register where
  "bcm_mc_chip_select_end_address =
     [(''CS0_END'', field 12 0),
      (''CS1_END'', field 12 16),
      (''CS2_END'', field 12 32),
      (''CS3_END'', field 12 48)]"

subsection \<open>Row Address Bit Select Register 0 (Table 84)\<close>

definition bcm_mc_row_address_bit_select_0 :: register where
  "bcm_mc_row_address_bit_select_0 =
     [(''ROW00'', field 6 0),
      (''ROW01'', field 6 8),
      (''ROW02'', field 6 16),
      (''ROW03'', field 6 24),
      (''ROW04'', field 6 32),
      (''ROW05'', field 6 40),
      (''ROW06'', field 6 48),
      (''ROW07'', field 6 56)]"

subsection \<open>Row Address Bit Select Register 1 (Table 85)\<close>

definition bcm_mc_row_address_bit_select_1 :: register where
  "bcm_mc_row_address_bit_select_1 =
     [(''ROW08'', field 6 0),
      (''ROW09'', field 6 8),
      (''ROW10'', field 6 16),
      (''ROW11'', field 6 24),
      (''ROW12'', field 6 32),
      (''ROW13'', field 6 40),
      (''ROW14'', field 6 48)]"

definition bcm_mc_row_address_bit_select_1_consts :: "(string \<times> u64) list" where
  "bcm_mc_row_address_bit_select_1_consts =
     [(''ROWX_BIT_SPACING'', 8)]"

subsection \<open>Column Address Bit Select Register 0 (Table 86)\<close>

definition bcm_mc_column_address_bit_select_0 :: register where
  "bcm_mc_column_address_bit_select_0 =
     [(''COL00'', field 6 0),
      (''COL01'', field 6 8),
      (''COL02'', field 6 16),
      (''COL03'', field 6 24),
      (''COL04'', field 6 32),
      (''COL05'', field 6 40),
      (''COL06'', field 6 48),
      (''COL07'', field 6 56)]"

subsection \<open>Column Address Bit Select Register 1 (Table 87)\<close>

definition bcm_mc_column_address_bit_select_1 :: register where
  "bcm_mc_column_address_bit_select_1 =
     [(''COL08'', field 6 0),
      (''COL09'', field 6 8),
      (''COL11'', field 6 24),
      (''COL12'', field 6 32),
      (''COL13'', field 6 40),
      (''COL14'', field 6 48)]"

definition bcm_mc_column_address_bit_select_1_consts :: "(string \<times> u64) list" where
  "bcm_mc_column_address_bit_select_1_consts =
     [(''S_COL10'', 16), (''COLX_BIT_SPACING'', 8)]"

subsection \<open>CS0 and CS1 Bank Address Bit Select Register (Table 88)\<close>

definition bcm_mc_cs0_cs1_bank_address_bit_select :: register where
  "bcm_mc_cs0_cs1_bank_address_bit_select =
     [(''CS01_BANK0'', field 6 0),
      (''CS01_BANK1'', field 6 8),
      (''CS01_BANK2'', field 6 16)]"

subsection \<open>CS2 and CS3 Bank Address Bit Select Register (Table 89)\<close>

definition bcm_mc_cs2_cs3_bank_address_bit_select :: register where
  "bcm_mc_cs2_cs3_bank_address_bit_select =
     [(''CS23_BANK0'', field 6 0),
      (''CS23_BANK1'', field 6 8),
      (''CS23_BANK2'', field 6 16)]"

definition bcm_mc_cs2_cs3_bank_address_bit_select_consts :: "(string \<times> u64) list" where
  "bcm_mc_cs2_cs3_bank_address_bit_select_consts =
     [(''CSXX_BANKX_BIT_SPACING'', 8)]"

subsection \<open>DRAM Command Register (Table 90)\<close>

definition bcm_mc_dram_command :: register where
  "bcm_mc_dram_command =
     [(''COMMAND'', codes [KV ''EMRS'' 0 0, KV ''MRS'' 1 1, KV ''PRE'' 2 2, KV ''AR'' 3 3, KV ''SETRFSH'' 4 4,
        KV ''CLRRFSH'' 5 5, KV ''SETPWRDN'' 6 6, KV ''CLRPWRDN'' 7 7] (field 4 0)),
      (''CS0'', flag 4),
      (''CS1'', flag 5),
      (''CS2'', flag 6),
      (''CS3'', flag 7),
      (''CS4'', flag 8),
      (''CS5'', flag 9),
      (''CS6'', flag 10),
      (''CS7'', flag 11),
      (''CMD_ACTIVE'', flag 16)]"

subsection \<open>DRAM Mode Register (Table 91)\<close>

definition bcm_mc_dram_mode :: register where
  "bcm_mc_dram_mode =
     [(''EMODE'', field 15 0),
      (''MODE'', field 15 16),
      (''DRAM_TYPE'', codes [KV ''JEDEC'' 0 0, KV ''FCRAM'' 1 1] (field 4 32)),
      (''GANGED'', flag 36),
      (''BY9_INTF'', flag 37),
      (''FORCE_ECC64'', flag 38),
      (''ECC_DISABLE'', flag 39),
      (''PG_POLICY'', codes [KV ''CLOSED'' 0 0, KV ''CAS_TIME_CHK'' 1 1] (field 2 40))]"

definition V_BCM1480_MC_EMODE_DEFAULT :: u64 where
  "V_BCM1480_MC_EMODE_DEFAULT = SB_MAKEVALUE 0 0"

definition V_BCM1480_MC_MODE_DEFAULT :: u64 where
  "V_BCM1480_MC_MODE_DEFAULT = SB_MAKEVALUE 0 16"

definition V_BCM1480_MC_DRAMMODE_DEFAULT :: u64 where
  "V_BCM1480_MC_DRAMMODE_DEFAULT = V_BCM1480_MC_EMODE_DEFAULT OR
     V_BCM1480_MC_MODE_DEFAULT OR
     SB_MAKEVALUE 0 32 OR
     SB_MAKEVALUE 1 40"

subsection \<open>Memory Clock Configuration Register (Table 92)\<close>

definition bcm_mc_memory_clock_configuration :: register where
  "bcm_mc_memory_clock_configuration =
     [(''CLK_RATIO'', field 6 0),
      (''REF_RATE'', codes [KV ''100MHz'' 49 49, KV ''200MHz'' 98 98, KV ''400MHz'' 196 196] (field 8 8))]"

definition V_BCM1480_MC_CLK_RATIO_DEFAULT :: u64 where
  "V_BCM1480_MC_CLK_RATIO_DEFAULT = SB_MAKEVALUE 10 0"

definition V_BCM1480_MC_REF_RATE_DEFAULT :: u64 where
  "V_BCM1480_MC_REF_RATE_DEFAULT = SB_MAKEVALUE 196 8"

subsection \<open>Memory DLL Configuration Register (Table 93)\<close>

definition bcm_mc_memory_dll_configuration :: register where
  "bcm_mc_memory_dll_configuration =
     [(''ADDR_COARSE_ADJ'', field 6 0),
      (''ADDR_FINE_ADJ'', field 4 8),
      (''DQI_COARSE_ADJ'', field 6 16),
      (''DQI_FINE_ADJ'', field 4 24),
      (''DQO_COARSE_ADJ'', field 6 32),
      (''DQO_FINE_ADJ'', field 4 40),
      (''DLL_DEFAULT'', field 6 48),
      (''DLL_STEP_SIZE'', field 4 56),
      (''DLL_BYPASS'', flag 63)]"

definition V_BCM1480_MC_ADDR_COARSE_ADJ_DEFAULT :: u64 where
  "V_BCM1480_MC_ADDR_COARSE_ADJ_DEFAULT = SB_MAKEVALUE 0 0"

definition V_BCM1480_MC_ADDR_FINE_ADJ_DEFAULT :: u64 where
  "V_BCM1480_MC_ADDR_FINE_ADJ_DEFAULT = SB_MAKEVALUE 8 8"

definition V_BCM1480_MC_DQI_COARSE_ADJ_DEFAULT :: u64 where
  "V_BCM1480_MC_DQI_COARSE_ADJ_DEFAULT = SB_MAKEVALUE 0 16"

definition V_BCM1480_MC_DQI_FINE_ADJ_DEFAULT :: u64 where
  "V_BCM1480_MC_DQI_FINE_ADJ_DEFAULT = SB_MAKEVALUE 8 24"

definition V_BCM1480_MC_DQO_COARSE_ADJ_DEFAULT :: u64 where
  "V_BCM1480_MC_DQO_COARSE_ADJ_DEFAULT = SB_MAKEVALUE 0 32"

definition V_BCM1480_MC_DQO_FINE_ADJ_DEFAULT :: u64 where
  "V_BCM1480_MC_DQO_FINE_ADJ_DEFAULT = SB_MAKEVALUE 8 40"

definition V_BCM1480_MC_DLL_DEFAULT_DEFAULT :: u64 where
  "V_BCM1480_MC_DLL_DEFAULT_DEFAULT = SB_MAKEVALUE 16 48"

definition V_BCM1480_MC_DLL_STEP_SIZE_DEFAULT :: u64 where
  "V_BCM1480_MC_DLL_STEP_SIZE_DEFAULT = SB_MAKEVALUE 8 56"

subsection \<open>Memory Drive Configuration Register (Table 94)\<close>

definition bcm_mc_memory_drive_configuration :: register where
  "bcm_mc_memory_drive_configuration =
     [(''RTT_BYP_PULLDOWN'', field 3 0),
      (''RTT_BYP_PULLUP'', field 3 6),
      (''RTT_BYPASS'', flag 8),
      (''RTT_COMP_MOV_AVG'', flag 9),
      (''PVT_BYP_C1_PULLDOWN'', field 4 10),
      (''PVT_BYP_C1_PULLUP'', field 4 15),
      (''PVT_BYP_C2_PULLDOWN'', field 4 20),
      (''PVT_BYP_C2_PULLUP'', field 4 25),
      (''PVT_BYPASS'', flag 30),
      (''PVT_COMP_MOV_AVG'', flag 31),
      (''CLK_CLASS'', flag 34),
      (''DATA_CLASS'', flag 35),
      (''ADDR_CLASS'', flag 36),
      (''DQ_ODT_75'', flag 37),
      (''DQ_ODT_150'', flag 38),
      (''DQS_ODT_75'', flag 39),
      (''DQS_ODT_150'', flag 40),
      (''DQS_DIFF'', flag 41)]"

subsection \<open>ECC Test Data Register (Table 95)\<close>

definition bcm_mc_ecc_test_data :: register where
  "bcm_mc_ecc_test_data =
     [(''DATA_ECC_INVERT'', bits 64 0)]"

definition bcm_mc_ecc_test_data_consts :: "(string \<times> u64) list" where
  "bcm_mc_ecc_test_data_consts =
     [(''S_DATA_INVERT'', 0)]"

subsection \<open>ECC Test ECC Register (Table 96)\<close>

definition bcm_mc_ecc_test_ecc :: register where
  "bcm_mc_ecc_test_ecc =
     [(''ECC_INVERT'', bits 8 0)]"

subsection \<open>SDRAM Timing Register (Table 97)\<close>

definition bcm_mc_sdram_timing :: register where
  "bcm_mc_sdram_timing =
     [(''tRCD'', codes [KV ''DEFAULT'' 3 3] (field 4 0)),
      (''tCL'', codes [KV ''DEFAULT'' 2 2] (field 4 4)),
      (''tCrDh'', flag 8),
      (''tWR'', codes [KV ''DEFAULT'' 2 2] (field 3 9)),
      (''tCwD'', codes [KV ''DEFAULT'' 1 1] (field 4 12)),
      (''tRP'', codes [KV ''DEFAULT'' 4 4] (field 4 16)),
      (''tRRD'', codes [KV ''DEFAULT'' 2 2] (field 4 20)),
      (''tRCw'', codes [KV ''DEFAULT'' 10 10] (field 5 24)),
      (''tRCr'', codes [KV ''DEFAULT'' 9 9] (field 5 32)),
      (''tRFC'', codes [KV ''DEFAULT'' 12 12] (field 6 48)),
      (''tFIFO'', codes [KV ''DEFAULT'' 0 0] (field 2 56)),
      (''tW2R'', codes [KV ''DEFAULT'' 1 1] (field 2 58)),
      (''tR2W'', codes [KV ''DEFAULT'' 0 0] (field 2 60)),
      (''tR2R'', flag 62)]"

definition V_BCM1480_MC_TIMING_DEFAULT :: u64 where
  "V_BCM1480_MC_TIMING_DEFAULT = SB_MAKEMASK1 62 OR
     SB_MAKEVALUE 0 56 OR
     SB_MAKEVALUE 0 60 OR
     SB_MAKEVALUE 1 58 OR
     SB_MAKEVALUE 12 48 OR
     SB_MAKEVALUE 9 32 OR
     SB_MAKEVALUE 10 24 OR
     SB_MAKEVALUE 2 20 OR
     SB_MAKEVALUE 4 16 OR
     SB_MAKEVALUE 1 12 OR
     SB_MAKEVALUE 2 9 OR
     SB_MAKEMASK1 8 OR
     SB_MAKEVALUE 2 4 OR
     SB_MAKEVALUE 3 0"

subsection \<open>Global Configuration Register (Table 99)\<close>

definition bcm_mc_global_configuration :: register where
  "bcm_mc_global_configuration =
     [(''BLK_SET_MARK'', field 4 8),
      (''BLK_CLR_MARK'', field 4 12),
      (''PKT_PRIORITY'', flag 16),
      (''MAX_AGE'', field 4 20),
      (''BERR_DISABLE'', flag 29),
      (''FORCE_SEQ'', flag 30),
      (''VGEN'', flag 32),
      (''SLEW'', field 2 33),
      (''SSTL_VOLTAGE'', flag 35)]"

subsection \<open>Global Channel Interleave Register (Table 100)\<close>

definition bcm_mc_global_channel_interleave :: register where
  "bcm_mc_global_channel_interleave =
     [(''INTLV0'', field 6 0),
      (''INTLV1'', field 6 8),
      (''INTLV_MODE'', codes [KV ''NONE'' 0 0, KV ''01'' 1 1, KV ''23'' 2 2, KV ''01_23'' 3 3,
        KV ''0123'' 4 4] (field 3 16))]"

subsection \<open>Global ECC Status Register (Table 101)\<close>

definition bcm_mc_global_ecc_status :: register where
  "bcm_mc_global_ecc_status =
     [(''ECC_ERR_ADDR'', field 37 0),
      (''ECC_MULT_ERR_DET'', flag 61),
      (''ECC_UERR_DET'', flag 62),
      (''ECC_CERR_DET'', flag 63)]"

subsection \<open>Global ECC Address Register (Table 102)\<close>

definition bcm_mc_global_ecc_address :: register where
  "bcm_mc_global_ecc_address =
     [(''ECC_CORR_ADDR'', field 37 0)]"

subsection \<open>Global ECC Correction Register (Table 103)\<close>

definition bcm_mc_global_ecc_correction :: register where
  "bcm_mc_global_ecc_correction =
     [(''ECC_CORRECT'', field 64 0)]"

subsection \<open>Global ECC Performance Counters Control Register (Table 104)\<close>

definition bcm_mc_global_ecc_performance_counters_control :: register where
  "bcm_mc_global_ecc_performance_counters_control =
     [(''CHANNEL_SELECT'', codes [K ''0'' 1, K ''1'' 2, K ''2'' 4, K ''3'' 8] (field 4 0))]"

subsection \<open>The header\<close>

definition bcm1480_mc :: "header" where
  "bcm1480_mc =
     [(''memory_channel_configuration'', bcm_mc_memory_channel_configuration),
      (''chip_select_start_address'', bcm_mc_chip_select_start_address),
      (''chip_select_end_address'', bcm_mc_chip_select_end_address),
      (''row_address_bit_select_0'', bcm_mc_row_address_bit_select_0),
      (''row_address_bit_select_1'', bcm_mc_row_address_bit_select_1),
      (''column_address_bit_select_0'', bcm_mc_column_address_bit_select_0),
      (''column_address_bit_select_1'', bcm_mc_column_address_bit_select_1),
      (''cs0_cs1_bank_address_bit_select'', bcm_mc_cs0_cs1_bank_address_bit_select),
      (''cs2_cs3_bank_address_bit_select'', bcm_mc_cs2_cs3_bank_address_bit_select),
      (''dram_command'', bcm_mc_dram_command),
      (''dram_mode'', bcm_mc_dram_mode),
      (''memory_clock_configuration'', bcm_mc_memory_clock_configuration),
      (''memory_dll_configuration'', bcm_mc_memory_dll_configuration),
      (''memory_drive_configuration'', bcm_mc_memory_drive_configuration),
      (''ecc_test_data'', bcm_mc_ecc_test_data),
      (''ecc_test_ecc'', bcm_mc_ecc_test_ecc),
      (''sdram_timing'', bcm_mc_sdram_timing),
      (''global_configuration'', bcm_mc_global_configuration),
      (''global_channel_interleave'', bcm_mc_global_channel_interleave),
      (''global_ecc_status'', bcm_mc_global_ecc_status),
      (''global_ecc_address'', bcm_mc_global_ecc_address),
      (''global_ecc_correction'', bcm_mc_global_ecc_correction),
      (''global_ecc_performance_counters_control'', bcm_mc_global_ecc_performance_counters_control)]"

lemmas bcm1480_mc_defs = bcm1480_mc_def
    bcm_mc_memory_channel_configuration_def bcm_mc_chip_select_start_address_def 
    bcm_mc_chip_select_end_address_def bcm_mc_row_address_bit_select_0_def 
    bcm_mc_row_address_bit_select_1_def bcm_mc_column_address_bit_select_0_def 
    bcm_mc_column_address_bit_select_1_def bcm_mc_cs0_cs1_bank_address_bit_select_def 
    bcm_mc_cs2_cs3_bank_address_bit_select_def bcm_mc_dram_command_def bcm_mc_dram_mode_def 
    bcm_mc_memory_clock_configuration_def bcm_mc_memory_dll_configuration_def 
    bcm_mc_memory_drive_configuration_def bcm_mc_ecc_test_data_def bcm_mc_ecc_test_ecc_def 
    bcm_mc_sdram_timing_def bcm_mc_global_configuration_def bcm_mc_global_channel_interleave_def 
    bcm_mc_global_ecc_status_def bcm_mc_global_ecc_address_def bcm_mc_global_ecc_correction_def 
    bcm_mc_global_ecc_performance_counters_control_def

lemma bcm1480_mc_ascending:
  "register_defects bcm_mc_memory_channel_configuration = ([], [])"
  "register_defects bcm_mc_chip_select_start_address = ([], [])"
  "register_defects bcm_mc_chip_select_end_address = ([], [])"
  "register_defects bcm_mc_row_address_bit_select_0 = ([], [])"
  "register_defects bcm_mc_row_address_bit_select_1 = ([], [])"
  "register_defects bcm_mc_column_address_bit_select_0 = ([], [])"
  "register_defects bcm_mc_column_address_bit_select_1 = ([], [])"
  "register_defects bcm_mc_cs0_cs1_bank_address_bit_select = ([], [])"
  "register_defects bcm_mc_cs2_cs3_bank_address_bit_select = ([], [])"
  "register_defects bcm_mc_dram_command = ([], [])"
  "register_defects bcm_mc_dram_mode = ([], [])"
  "register_defects bcm_mc_memory_clock_configuration = ([], [])"
  "register_defects bcm_mc_memory_dll_configuration = ([], [])"
  "register_defects bcm_mc_ecc_test_ecc = ([], [])"
  "register_defects bcm_mc_sdram_timing = ([], [])"
  "register_defects bcm_mc_global_configuration = ([], [])"
  "register_defects bcm_mc_global_channel_interleave = ([], [])"
  "register_defects bcm_mc_global_ecc_status = ([], [])"
  "register_defects bcm_mc_global_ecc_address = ([], [])"
  "register_defects bcm_mc_global_ecc_performance_counters_control = ([], [])"
  by (simp_all add: ascending_eval bcm1480_mc_defs)

lemma bcm1480_mc_others:
  "register_defects bcm_mc_memory_drive_configuration = ([], [(''RTT_BYP_PULLUP'', ''RTT_BYPASS'')])"
  "register_defects bcm_mc_ecc_test_data = ([''DATA_ECC_INVERT''], [])"
  "register_defects bcm_mc_global_ecc_correction = ([''ECC_CORRECT''], [])"
  by (simp_all add: register_eval bcm1480_mc_defs)

lemma bcm1480_mc_defects:
  "defects bcm1480_mc =
     [(''memory_drive_configuration'', [], [(''RTT_BYP_PULLUP'', ''RTT_BYPASS'')]),
      (''ecc_test_data'', [''DATA_ECC_INVERT''], []),
      (''global_ecc_correction'', [''ECC_CORRECT''], [])]"
  by (simp add: defects_def bcm1480_mc_def bcm1480_mc_ascending bcm1480_mc_others)

end
