(* ===== verification/Bcm1480Pci.thy ===== *)
theory Bcm1480Pci
  imports Registers
begin

text \<open>
  The registers of the PCI host bridge of the BCM1480 and BCM1280, from \<open>include/sibyte/bcm1480_pci.h\<close>, one list of fields for each
  register the header describes. Fields that share the bits of others, because they are
  another view of the register or belong to another register of the same description, are in a
  list of their own.
\<close>

unbundle bit_operations_syntax

subsection \<open>PCI Reset Register (Table 108)\<close>

definition bcm_pci_reset :: register where
  "bcm_pci_reset =
     [(''PCI_RESET_PIN'', flag 0),
      (''PCI_INTERNAL_RESET'', flag 1),
      (''PCI_TIMEOUT_RESET'', flag 2),
      (''PCI_RESET_INTR'', flag 4),
      (''PCI_M66EN_STATUS'', flag 8),
      (''PCI_M66EN_DRIVE_LOW'', flag 11),
      (''PCI_PCIXCAP_STATUS'', flag 12),
      (''PCI_PCIXCAP_PULLUP'', flag 15),
      (''PCI_PERR_RST_ASSERT'', flag 16),
      (''PCI_DEVSEL_RST_ASSERT'', flag 17),
      (''PCI_STOP_RST_ASSERT'', flag 18),
      (''PCI_TRDY_RST_ASSERT'', flag 19),
      (''PCI_PERR_RST_STATUS'', flag 20),
      (''PCI_DEVSEL_RST_STATUS'', flag 21),
      (''PCI_STOP_RST_STATUS'', flag 22),
      (''PCI_TRDY_RST_STATUS'', flag 23)]"

subsection \<open>PCI DLL Register (Table 110)\<close>

definition bcm_pci_dll :: register where
  "bcm_pci_dll =
     [(''PCI_DLL_BYPASS_MODE'', field 2 0),
      (''PCI_DLL_FIXED_VALUE_EN'', flag 3),
      (''PCI_DLL_FIXED_VALUE'', field 6 4),
      (''PCI_DLL_DELAY'', field 4 12),
      (''PCI_DLL_STEP_SIZE'', field 4 16)]"

definition bcm_pci_dll_consts :: "(string \<times> u64) list" where
  "bcm_pci_dll_consts =
     [(''PCI_DLL_AUTO'', 0), (''PCI_DLL_FORCE_BYPASS'', 1), (''PCI_DLL_FORCE_USE'', 2)]"

subsection \<open>The following definitions refer to PCI Configuration Space of the PCI-\<close>

definition bcm_pci_following_definitions_refer_to_pci_configuration :: "(string \<times> u64) list" where
  "bcm_pci_following_definitions_refer_to_pci_configuration =
     [(''PHB_VENDOR_SIBYTE'', 0x166d), (''PHB_DEVICE_BCM1480'', 18)]"

subsection \<open>PHB configuration header\<close>

definition bcm_pci_phb_configuration_header :: "(string \<times> u64) list" where
  "bcm_pci_phb_configuration_header =
     [(''PHB_FCTRL'', 64), (''PHB_MAPBASE'', 68), (''BCM1480_PHB_MAPENTRIES'', 16), (''PHB_ERRORADDR'', 132),
      (''PHB_ADDSTATCMD'', 140), (''PHB_SUBSYSSET'', 144), (''PHB_SIGNALINTA'', 148), (''PHB_EXTCONFIGDIS'',
        152),
      (''PHB_VENDORIDSET'', 156), (''PHB_CLASSREVSET'', 160), (''PHB_TIMEOUT'', 164), (''PHB_XACTCTRL'', 168),
      (''PHB_TESTDEBUG'', 172), (''PHB_OMAPBASE'', 176), (''BCM1480_PHB_OMAPENTRIES'', 4), (''PHB_MSICAP'',
        208),
      (''PHB_PCIXCAP'', 224), (''PHB_TGTDONE'', 232)]"

definition R_BCM1480_PHB_MAP :: "u64 \<Rightarrow> u64" where "R_BCM1480_PHB_MAP n = 0x44 + n * 4"

definition R_BCM1480_PHB_OMAP :: "u64 \<Rightarrow> u64" where "R_BCM1480_PHB_OMAP n = 0xb4 + n * 8"

subsection \<open>PHB Feature Control Register (Table 116)\<close>

definition bcm_pci_phb_feature_control :: register where
  "bcm_pci_phb_feature_control =
     [(''PHB_FCTRL_FULL_BAR_EN'', flag32 0),
      (''PHB_FCTRL_FULL_BAR_SPLIT'', flag32 1),
      (''PHB_FCTRL_LOW_MEM_EN'', flag32 2),
      (''PHB_FCTRL_UPPER_MEM_EN'', flag32 3),
      (''PHB_FCTRL_EXP_MEM_EN'', flag32 4),
      (''PHB_FCTRL_EXP_MEM_SPLIT'', flag32 5),
      (''PHB_FCTRL_TOP_ACC_EN'', flag32 6),
      (''PHB_FCTRL_TOP_ACC_SPLIT'', flag32 7),
      (''PHB_FCTRL_USE_NODE_ID'', flag32 8),
      (''PHB_FCTRL_UPPER_MEM_TR'', flag32 12)]"

definition V_BCM1480_PHB_FCTRL_DEFAULT :: u64 where
  "V_BCM1480_PHB_FCTRL_DEFAULT = 0"

subsection \<open>PHB BAR0 1 Map Table Entry (Offsets 0x44-0x80) (Table 117)\<close>

definition bcm_pci_phb_bar0_1_map_entry :: register where
  "bcm_pci_phb_bar0_1_map_entry =
     [(''PHB_MAP_ENABLE'', flag32 0),
      (''PHB_MAP_L2CA'', flag32 2),
      (''PHB_MAP_ENDIAN'', flag32 3),
      (''PHB_MAP_ADDR'', field32 20 12)]"

subsection \<open>PHB Additional Status and Command Register (Table 118)\<close>

definition bcm_pci_phb_additional_status_command :: register where
  "bcm_pci_phb_additional_status_command =
     [(''PHB_ASTCMD_HOTPLUG_EN'', flag32 0),
      (''PHB_ASTCMD_SERR_DET'', flag32 1),
      (''PHB_ASTCMD_TRDY_ERR'', flag32 2),
      (''PHB_ASTCMD_RETRY_ERR'', flag32 3),
      (''PHB_ASTCMD_TRDY_INT_EN'', flag32 4),
      (''PHB_ASTCMD_RETRY_INT_EN'', flag32 5),
      (''PHB_ASTCMD_COMPL_TO_ERR'', flag32 6),
      (''PHB_ASTCMD_COMPL_TO_INT_EN'', flag32 7),
      (''PHB_ASTCMD_64B_DEVICE_SET'', flag32 16),
      (''PHB_ASTCMD_133MHZ_CAP_SET'', flag32 17)]"

definition V_BCM1480_PHB_ASTCMD_DEFAULT :: u64 where
  "V_BCM1480_PHB_ASTCMD_DEFAULT = ucast (SB_MAKEMASK1_32 16) OR ucast (SB_MAKEMASK1_32 17)"

subsection \<open>PHB INTA Control Register (Table 119)\<close>

definition bcm_pci_phb_inta_control :: register where
  "bcm_pci_phb_inta_control =
     [(''PHB_SIGNAL_INTA'', flag32 0)]"

subsection \<open>PHB External Configuratation Disable Register (Table 120)\<close>

definition bcm_pci_phb_external_configuratation_disable :: register where
  "bcm_pci_phb_external_configuratation_disable =
     [(''PHB_EXT_CONFIG_DIS'', flag32 0)]"

subsection \<open>PHB Timeout Register (Table 121)\<close>

definition bcm_pci_phb_timeout :: register where
  "bcm_pci_phb_timeout =
     [(''PHB_TIMEOUT_TRDY'', field32 8 0),
      (''PHB_TIMEOUT_RETRY'', field32 8 8),
      (''PHB_TIMEOUT_COMPL'', field32 4 16),
      (''PHB_TIMEOUT_INB_RD_PREF'', field32 4 20),
      (''PHB_TIMEOUT_INB_RD_OUTB_WR'', flag32 24),
      (''PHB_TIMEOUT_INB_RD_OUTB_RD'', flag32 25),
      (''PHB_TIMEOUT_INB_RD_INB_WR'', flag32 25),
      (''PHB_TIMEOUT_OUTB_FWD_PROG'', field32 4 28)]"

definition V_BCM1480_PHB_TIMEOUT_DEFAULT :: u64 where
  "V_BCM1480_PHB_TIMEOUT_DEFAULT = ucast (SB_MAKEVALUE_32 128 0) OR
     ucast (SB_MAKEVALUE_32 128 8) OR
     ucast (SB_MAKEVALUE_32 10 16)"

subsection \<open>PHB Transaction Control Register (Table 122)\<close>

definition bcm_pci_phb_transaction_control :: register where
  "bcm_pci_phb_transaction_control =
     [(''PHB_XACT_WR_COMBINE_TMR'', field32 8 0),
      (''PHB_XACT_OUTB_NP_ORDER'', field32 2 8),
      (''PHB_XACT_SET_WR_RLX_ORDER'', flag32 10),
      (''PHB_XACT_SET_RSP_RLX_ORDER'', flag32 11),
      (''PHB_XACT_SET_WR_NO_SNOOP'', flag32 12),
      (''PHB_XACT_SET_RD_NO_SNOOP'', flag32 13),
      (''PHB_XACT_SET_OUTB_RD_PREF_DIS'', flag32 14),
      (''PHB_XACT_SET_OUTB_RSP_WR_ORD_DIS'', flag32 15),
      (''PHB_XACT_INB_RD_MAX_PREF'', field32 3 20),
      (''PHB_XACT_INB_RD_LN_MAX_PREF'', field32 3 24),
      (''PHB_XACT_INB_RD_MUL_MAX_PREF'', field32 3 28)]"

definition bcm_pci_phb_transaction_control_consts :: "(string \<times> u64) list" where
  "bcm_pci_phb_transaction_control_consts =
     [(''PHB_PREF_256B'', 0), (''PHB_PREF_32B'', 1), (''PHB_PREF_64B'', 2), (''PHB_PREF_96B'', 3),
      (''PHB_PREF_128B'', 4), (''PHB_PREF_192B'', 6)]"

definition V_BCM1480_PHB_XACT_DEFAULT :: u64 where
  "V_BCM1480_PHB_XACT_DEFAULT = ucast (SB_MAKEVALUE_32 32 0) OR
     ucast (SB_MAKEVALUE_32 1 8) OR
     ucast (SB_MAKEVALUE_32 1 20) OR
     ucast (SB_MAKEVALUE_32 1 24) OR
     ucast (SB_MAKEVALUE_32 4 28)"

subsection \<open>PHB Test and Debug Register (Table 123)\<close>

definition bcm_pci_phb_test_debug :: register where
  "bcm_pci_phb_test_debug =
     [(''PHB_TEST_LOOPBACK'', flag32 0),
      (''PHB_TEST_32BIT_MODE'', flag32 1),
      (''PHB_TEST_QUICK_TEST'', flag32 2)]"

subsection \<open>PHB Outbound Map Table Entries (Lower, Upper) (Tables 124 and 125)\<close>

definition bcm_pci_phb_outbound_map_entries :: register where
  "bcm_pci_phb_outbound_map_entries =
     [(''PHB_OMAP_L_ENABLE'', flag32 0),
      (''PHB_OMAP_L_ADDR'', field32 12 20)]"

definition bcm_pci_phb_outbound_map_entries_upper :: register where
  "bcm_pci_phb_outbound_map_entries_upper =
     [(''PHB_OMAP_U_ADDR'', field32 32 0)]"

subsection \<open>PHB Target Done Register (Table 129)\<close>

definition bcm_pci_phb_target_done :: register where
  "bcm_pci_phb_target_done =
     [(''PHB_TGT_DONE_COUNTER'', field32 8 0)]"

subsection \<open>The header\<close>

definition bcm1480_pci :: "header" where
  "bcm1480_pci =
     [(''reset'', bcm_pci_reset),
      (''dll'', bcm_pci_dll),
      (''phb_feature_control'', bcm_pci_phb_feature_control),
      (''phb_bar0_1_map_entry'', bcm_pci_phb_bar0_1_map_entry),
      (''phb_additional_status_command'', bcm_pci_phb_additional_status_command),
      (''phb_inta_control'', bcm_pci_phb_inta_control),
      (''phb_external_configuratation_disable'', bcm_pci_phb_external_configuratation_disable),
      (''phb_timeout'', bcm_pci_phb_timeout),
      (''phb_transaction_control'', bcm_pci_phb_transaction_control),
      (''phb_test_debug'', bcm_pci_phb_test_debug),
      (''phb_outbound_map_entries'', bcm_pci_phb_outbound_map_entries),
      (''phb_outbound_map_entries_upper'', bcm_pci_phb_outbound_map_entries_upper),
      (''phb_target_done'', bcm_pci_phb_target_done)]"

lemmas bcm1480_pci_defs = bcm1480_pci_def
    bcm_pci_reset_def bcm_pci_dll_def bcm_pci_phb_feature_control_def bcm_pci_phb_bar0_1_map_entry_def 
    bcm_pci_phb_additional_status_command_def bcm_pci_phb_inta_control_def 
    bcm_pci_phb_external_configuratation_disable_def bcm_pci_phb_timeout_def 
    bcm_pci_phb_transaction_control_def bcm_pci_phb_test_debug_def bcm_pci_phb_outbound_map_entries_def 
    bcm_pci_phb_outbound_map_entries_upper_def bcm_pci_phb_target_done_def

lemma bcm1480_pci_ascending:
  "register_defects bcm_pci_reset = ([], [])"
  "register_defects bcm_pci_dll = ([], [])"
  "register_defects bcm_pci_phb_feature_control = ([], [])"
  "register_defects bcm_pci_phb_bar0_1_map_entry = ([], [])"
  "register_defects bcm_pci_phb_additional_status_command = ([], [])"
  "register_defects bcm_pci_phb_inta_control = ([], [])"
  "register_defects bcm_pci_phb_external_configuratation_disable = ([], [])"
  "register_defects bcm_pci_phb_transaction_control = ([], [])"
  "register_defects bcm_pci_phb_test_debug = ([], [])"
  "register_defects bcm_pci_phb_outbound_map_entries = ([], [])"
  "register_defects bcm_pci_phb_target_done = ([], [])"
  by (simp_all add: ascending_eval bcm1480_pci_defs)

lemma bcm1480_pci_others:
  "register_defects bcm_pci_phb_timeout = ([], [(''PHB_TIMEOUT_INB_RD_OUTB_RD'', ''PHB_TIMEOUT_INB_RD_INB_WR'')])"
  "register_defects bcm_pci_phb_outbound_map_entries_upper = ([''PHB_OMAP_U_ADDR''], [])"
  by (simp_all add: register_eval bcm1480_pci_defs)

lemma bcm1480_pci_defects:
  "defects bcm1480_pci =
     [(''phb_timeout'', [], [(''PHB_TIMEOUT_INB_RD_OUTB_RD'', ''PHB_TIMEOUT_INB_RD_INB_WR'')]),
      (''phb_outbound_map_entries_upper'', [''PHB_OMAP_U_ADDR''], [])]"
  by (simp add: defects_def bcm1480_pci_def bcm1480_pci_ascending bcm1480_pci_others)

end
