(* ===== verification/Bcm1480Pm.thy ===== *)
theory Bcm1480Pm
  imports Registers
begin

text \<open>
  The registers of the packet manager and the switch of the BCM1480 and BCM1280, from \<open>include/sibyte/bcm1480_pm.h\<close>, one list of fields for each
  register the header describes.
\<close>

unbundle bit_operations_syntax

subsection \<open>Base and Size Register (Table 294)\<close>

definition bcm_pm_base_size :: register where
  "bcm_pm_base_size =
     [(''BASE'', field 40 0),
      (''SIZE'', field 20 40)]"

subsection \<open>Descriptor Merge Timer (Table 295)\<close>

definition bcm_pm_descriptor_merge_timer :: register where
  "bcm_pm_descriptor_merge_timer =
     [(''DS_MT_CNT'', field 6 0)]"

subsection \<open>L2 Cache Attribute (Table 296)\<close>

definition bcm_pm_l2_cache_attribute :: register where
  "bcm_pm_l2_cache_attribute =
     [(''HDR_SIZE'', field 9 0)]"

subsection \<open>Descriptor Count Register (Table 297)\<close>

definition bcm_pm_descriptor_count :: register where
  "bcm_pm_descriptor_count =
     [(''COUNT'', field 20 0)]"

subsection \<open>Current Descriptor Index Register (Table 298)\<close>

definition bcm_pm_current_descriptor_index :: register where
  "bcm_pm_current_descriptor_index =
     [(''LAST'', field 20 0)]"

subsection \<open>Packet Manager Queue Configuration (Table 299)\<close>

definition bcm_pm_packet_manager_queue_configuration :: register where
  "bcm_pm_packet_manager_queue_configuration =
     [(''QUEUE_ENABLE'', flag 0),
      (''DS_CACHE_EN'', flag 1),
      (''HW_ASSERT'', flag 2),
      (''HW_ERROR'', flag 3),
      (''SW_ERROR'', codes [K ''NONE'' 0, K ''HWBIT'' 1] (field 3 4)),
      (''FLUSH'', flag 7)]"

subsection \<open>Interrupt Configuration (Table 300)\<close>

definition bcm_pm_interrupt_configuration :: register where
  "bcm_pm_interrupt_configuration =
     [(''INT_CORE_ID'', field 2 0),
      (''INT_PRIORITY'', flag 4),
      (''INT_TIMEOUT'', field 5 5),
      (''INT_PKT_CNT'', field 12 11)]"

subsection \<open>Interrupt Watermark (Table 301)\<close>

definition bcm_pm_interrupt_watermark :: register where
  "bcm_pm_interrupt_watermark =
     [(''LOW_WATERMARK'', field 20 0),
      (''HIGH_WATERMARK'', field 20 20)]"

subsection \<open>NOTE: Interrupt Bits (Tables 9-36 to 9-38) are packed 8 per word per T\<close>

definition BCM1480_PM_INT :: "nat \<Rightarrow> field" where "BCM1480_PM_INT q = field 8 (push_bit 8 (q mod 8))"

subsection \<open>Input Output Queue Interrupt Status Register (Table 302)\<close>

definition bcm_pm_input_output_queue_interrupt_status :: register where
  "bcm_pm_input_output_queue_interrupt_status =
     [(''EOP_COUNT'', flag 0),
      (''EOP_SEEN'', flag 1),
      (''RCV_TIMER'', flag 2),
      (''DE'', flag 3),
      (''HWM'', flag 4),
      (''LWM'', flag 5),
      (''RX_ERR'', flag 6),
      (''PE_ERR'', flag 7)]"

subsection \<open>Input Output Queue Interrupt Mask Register (Table 303)\<close>

definition bcm_pm_input_output_queue_interrupt_mask :: register where
  "bcm_pm_input_output_queue_interrupt_mask =
     [(''EOP_COUNT_MSK'', flag 0),
      (''EOP_SEEN_MSK'', flag 1),
      (''RCV_TIMER_MSK'', flag 2),
      (''DE_MSK'', flag 3),
      (''HWM_MSK'', flag 4),
      (''LWM_MSK'', flag 5),
      (''RX_ERR_MSK'', flag 6),
      (''PE_ERR_MSK'', flag 7)]"

subsection \<open>Input Output Queue Interrupt Clear Register (Table 304)\<close>

definition bcm_pm_input_output_queue_interrupt_clear :: register where
  "bcm_pm_input_output_queue_interrupt_clear =
     [(''EOP_COUNT_CLR'', flag 0),
      (''EOP_SEEN_CLR'', flag 1),
      (''RCV_TIMER_CLR'', flag 2),
      (''DE_CLR'', flag 3),
      (''RX_ERR_CLR'', flag 6),
      (''PE_ERR_CLR'', flag 7)]"

subsection \<open>Merged Interrupt Status Register (Table 306)\<close>

definition M_INT_N :: "nat \<Rightarrow> field" where "M_INT_N n = flag n"

subsection \<open>PMO Mapping Register (Table 279)\<close>

definition bcm_pm_pmo_mapping :: register where
  "bcm_pm_pmo_mapping =
     [(''MAP_DEST_ID0'', field 2 0),
      (''MAP_DEST_ID8'', field 2 4),
      (''MAP_DEST_ID16'', field 2 8),
      (''MAP_DEST_ID24'', field 2 12),
      (''MAP_DEST_HALF0'', flag 2),
      (''MAP_DEST_HALF8'', flag 6),
      (''MAP_DEST_HALF16'', flag 10),
      (''MAP_DEST_HALF24'', flag 14)]"

definition bcm_pm_pmo_mapping_consts :: "(string \<times> u64) list" where
  "bcm_pm_pmo_mapping_consts =
     [(''MAP_DEST_ID_TX0'', 0), (''MAP_DEST_ID_TX1'', 1), (''MAP_DEST_ID_TX2'', 2)]"

subsection \<open>Global Debug Mode Register (Table 307)\<close>

definition bcm_pm_global_debug_mode :: register where
  "bcm_pm_global_debug_mode =
     [(''DEBUG_MODE'', flag 0),
      (''READ_PRIORITY'', flag 1),
      (''WRITE_PRIORITY'', flag 2)]"

subsection \<open>Prefetch Count Register (Table 314)\<close>

definition bcm_pm_prefetch_count :: register where
  "bcm_pm_prefetch_count =
     [(''PREF_COUNT'', field 20 0)]"

subsection \<open>Descriptor Prefetch Index Register (Table 315)\<close>

definition bcm_pm_descriptor_prefetch_index :: register where
  "bcm_pm_descriptor_prefetch_index =
     [(''PREFETCH'', field 20 0)]"

subsection \<open>Packet Manager descriptor, doubleword 0 (Figure 74)\<close>

definition bcm_pm_packet_manager_descriptor_doubleword_0 :: register where
  "bcm_pm_packet_manager_descriptor_doubleword_0 =
     [(''DSCR0_RSVD'', bits 32 0),
      (''DSCR0_BUFFER_LENGTH'', field 16 32)]"

subsection \<open>status control (Table 292)\<close>

definition bcm_pm_status_control :: register where
  "bcm_pm_status_control =
     [(''DSCR0_PE'', flag 55),
      (''DSCR0_SE'', flag 56),
      (''DSCR0_LE'', flag 57),
      (''DSCR0_INT'', flag 60),
      (''DSCR0_EOP'', flag 61),
      (''DSCR0_SOP'', flag 62),
      (''DSCR0_HW'', flag 63)]"

subsection \<open>source port (rx only)\<close>

definition bcm_pm_source_port :: register where
  "bcm_pm_source_port =
     [(''DSCR0_SWID'', codes [K ''RX0'' 0, K ''RX1'' 1, K ''RX2'' 2] (put_as Broken (get_as (Macro (58,
        SB_MAKEMASK 2 58)) (bits 2 58))))]"

subsection \<open>Packet Manager descriptor, doubleword 1 (Figure 74)\<close>

definition bcm_pm_packet_manager_descriptor_doubleword_1 :: register where
  "bcm_pm_packet_manager_descriptor_doubleword_1 =
     [(''DSCR1_BUFFER_ADDR'', field 40 0),
      (''DSCR1_IVC'', field 8 40),
      (''DSCR1_NEXT_DEST'', field 4 48),
      (''DSCR1_RSVD'', bits 12 52)]"

subsection \<open>Switch performance counters\<close>

definition bcm_pm_switch_performance_counters :: register where
  "bcm_pm_switch_performance_counters =
     [(''SWPERF_CFG_CLEAR'', flag 62),
      (''SWPERF_CFG_ENABLE'', flag 63),
      (''SWPERF_CFG_C0SRC'', field 8 0),
      (''SWPERF_CFG_C0FILT'', field 3 8),
      (''SWPERF_CFG_C0FENA'', flag 11),
      (''SWPERF_CFG_C1SRC'', field 8 16),
      (''SWPERF_CFG_C1FILT'', field 3 24),
      (''SWPERF_CFG_C1FENA'', flag 27),
      (''SWPERF_CFG_C2SRC'', field 8 32),
      (''SWPERF_CFG_C2FILT'', field 3 40),
      (''SWPERF_CFG_C2FENA'', flag 43),
      (''SWPERF_CFG_C3SRC'', field 8 48),
      (''SWPERF_CFG_C3FILT'', field 3 56),
      (''SWPERF_CFG_C3FENA'', flag 59)]"

subsection \<open>This macro lets you specify counters by index\<close>

definition BCM1480_SWPERF_CFG_CXSRC :: "nat \<Rightarrow> field" where "BCM1480_SWPERF_CFG_CXSRC c = field 8 (0 + c * 16)"

definition BCM1480_SWPERF_CFG_CXFILT :: "nat \<Rightarrow> field" where "BCM1480_SWPERF_CFG_CXFILT c = field 3 (8 + c * 16)"

definition BCM1480_SWPERF_CFG_CXFENA :: "nat \<Rightarrow> field" where "BCM1480_SWPERF_CFG_CXFENA c = flag (11 + c * 16)"

subsection \<open>List of available counters\<close>

definition bcm_pm_list_available_counters :: "(string \<times> u64) list" where
  "bcm_pm_list_available_counters =
     [(''SWPERF_CFG_CXSRC_NONE'', 0), (''SWPERF_CFG_CXSRC_SWCYCLES'', 1), (''SWPERF_CFG_CXSRC_FILTPORTS'', 2),
      (''SWPERF_CFG_CXSRC_SGNT'', 3), (''SWPERF_CFG_CXSRC_SREQ'', 4), (''SWPERF_CFG_CXSRC_SRELOA'', 5),
      (''SWPERF_CFG_CXSRC_DGNT'', 6), (''SWPERF_CFG_CXSRC_DREQ'', 7), (''SWPERF_CFG_CXSRC_DRELOAD'', 8)]"

subsection \<open>Switch agents\<close>

definition bcm_pm_switch_agents :: "(string \<times> u64) list" where
  "bcm_pm_switch_agents =
     [(''SWAGENT_HSP0'', 0), (''SWAGENT_HSP1'', 1), (''SWAGENT_HSP2'', 2), (''SWAGENT_NC'', 4),
      (''SWAGENT_HT'', 5), (''SWAGENT_PM'', 6)]"

subsection \<open>Switch trigger control match (Table 322)\<close>

definition bcm_pm_switch_trigger_control_match :: register where
  "bcm_pm_switch_trigger_control_match =
     [(''SWTRC_MATCHCTL_VC'', field 32 0),
      (''SWTRC_MATCHCTL_SRC'', field 8 32),
      (''SWTRC_MATCHCTL_DEST'', field 8 40),
      (''SWTRC_MATCHCTL_TYPE'', codes [K ''NONE'' 0, K ''PKTS'' 1, K ''HT'' 2, K ''PKTS_HT'' 3] (field 2 48)),
      (''SWTRC_MATCHCTL_SOP'', codes [K ''NONE'' 0, K ''NOTSOP'' 1, K ''ISSOP'' 2,
        K ''IGNORE'' 3] (field 2 50)),
      (''SWTRC_MATCHCTL_EOP'', codes [K ''NONE'' 0, K ''NOTEOP'' 1, K ''ISEOP'' 2,
        K ''IGNORE'' 3] (field 2 52)),
      (''SWTRC_MATCHCTL_BCAST'', codes [K ''NONE'' 0, K ''NOTBCAST'' 1, K ''ISBCAST'' 2,
        K ''IGNORE'' 3] (field 2 54))]"

subsection \<open>Switch Trigger Event Register (Table 325)\<close>

definition bcm_pm_switch_trigger_event :: register where
  "bcm_pm_switch_trigger_event =
     [(''SWTRC_EVT_MATCH_CTL'', field 8 0),
      (''SWTRC_EVT_MATCH_DATA'', field 4 8),
      (''SWTRC_EVT_MATCH_TAG'', field 4 12),
      (''SWTRC_EVT_MATCH_EN'', flag 16),
      (''SWTRC_EVT_DEBUG_PIN'', flag 20),
      (''SWTRC_EVT_INTERRUPT'', flag 21),
      (''SWTRC_EVT_COUNT'', field 8 24)]"

subsection \<open>Switch Trace Sequence Control (Table 326) NOTE: Event select fields ar\<close>

definition bcm_pm_switch_trace_sequence_control :: register where
  "bcm_pm_switch_trace_sequence_control =
     [(''SWTRC_SEQ_EVSEL_3'', field 4 0),
      (''SWTRC_SEQ_EVSEL_2'', field 4 4),
      (''SWTRC_SEQ_EVSEL_1'', field 4 8),
      (''SWTRC_SEQ_EVSEL_0'', field 4 12),
      (''SWTRC_SEQ_FUNCTION'', codes [K ''NOP'' 0, K ''START'' 1, K ''STOP'' 2, K ''FREEZE'' 3] (field 2 16)),
      (''SWTRC_SEQ_DSAMPLE'', flag 18),
      (''SWTRC_SEQ_CSAMPLE'', flag 19),
      (''SWTRC_SEQ_DEBUGPIN'', flag 20),
      (''SWTRC_SEQ_DEBUGCPU'', flag 21),
      (''SWTRC_SEQ_CLEARUSE'', flag 22),
      (''SWTRC_SEQ_ZBBUSFUNC'', codes [K ''NOP'' 0, K ''START'' 1, K ''STOP'' 2, K ''FREEZE'' 3] (field 2 26)),
      (''SWTRC_SEQ_DSAMPFILT'', field 3 28)]"

subsection \<open>Switch Trace Config Register (Table 327)\<close>

definition bcm_pm_switch_trace_config :: register where
  "bcm_pm_switch_trace_config =
     [(''SWTRC_CFG_RESET'', flag 0),
      (''SWTRC_CFG_STARTREAD'', flag 1),
      (''SWTRC_CFG_START'', flag 2),
      (''SWTRC_CFG_STOP'', flag 3),
      (''SWTRC_CFG_FREEZE'', flag 4),
      (''SWTRC_CFG_FREEZEFULL'', flag 5),
      (''SWTRC_CFG_DEBUGFULL'', flag 6),
      (''SWTRC_CFG_TRCFULL'', flag 7),
      (''SWTRC_CFG_FORCECNT'', flag 8),
      (''SWTRC_CFG_TRCADDR'', field 10 10)]"

subsection \<open>Switch trace buffer entry (3 64-bit words per entry) (Table 328)\<close>

definition bcm_pm_switch_trace_buffer_entry :: register where
  "bcm_pm_switch_trace_buffer_entry =
     [(''SWENT_VALID'', flag 63),
      (''SWENT_FMT'', flag 62),
      (''SWENT_MULTI'', flag 61),
      (''SWENT_BCAST'', flag 60),
      (''SWENT_CYCDIFF'', field 12 48),
      (''SWENT_DRELOAD'', flag 47),
      (''SWENT_SRELOAD'', flag 46),
      (''SWENT_EOP'', flag 45),
      (''SWENT_SOP'', flag 44),
      (''SWENT_VC'', field 5 39),
      (''SWENT_TYPE'', flag 38),
      (''SWENT_DEST'', field 3 35),
      (''SWENT_SRC'', field 3 32),
      (''SWENT_CNT'', field 4 28),
      (''SWENT_TAG'', field 28 0)]"

definition pm_interrupt_bits :: register where
  "pm_interrupt_bits = map (\<lambda>q. (''INT'', BCM1480_PM_INT q)) [0..<8]"

definition pm_switch_counters_by_index :: register where
  "pm_switch_counters_by_index = concat (map (\<lambda>c. [(''CXSRC'', BCM1480_SWPERF_CFG_CXSRC c), (''CXFILT'', BCM1480_SWPERF_CFG_CXFILT c), (''CXFENA'', BCM1480_SWPERF_CFG_CXFENA c)]) [0..<4])"

subsection \<open>The header\<close>

definition bcm1480_pm :: "header" where
  "bcm1480_pm =
     [(''base_size'', bcm_pm_base_size),
      (''descriptor_merge_timer'', bcm_pm_descriptor_merge_timer),
      (''l2_cache_attribute'', bcm_pm_l2_cache_attribute),
      (''descriptor_count'', bcm_pm_descriptor_count),
      (''current_descriptor_index'', bcm_pm_current_descriptor_index),
      (''packet_manager_queue_configuration'', bcm_pm_packet_manager_queue_configuration),
      (''interrupt_configuration'', bcm_pm_interrupt_configuration),
      (''interrupt_watermark'', bcm_pm_interrupt_watermark),
      (''input_output_queue_interrupt_status'', bcm_pm_input_output_queue_interrupt_status),
      (''input_output_queue_interrupt_mask'', bcm_pm_input_output_queue_interrupt_mask),
      (''input_output_queue_interrupt_clear'', bcm_pm_input_output_queue_interrupt_clear),
      (''pmo_mapping'', bcm_pm_pmo_mapping),
      (''global_debug_mode'', bcm_pm_global_debug_mode),
      (''prefetch_count'', bcm_pm_prefetch_count),
      (''descriptor_prefetch_index'', bcm_pm_descriptor_prefetch_index),
      (''packet_manager_descriptor_doubleword_0'', bcm_pm_packet_manager_descriptor_doubleword_0),
      (''status_control'', bcm_pm_status_control),
      (''source_port'', bcm_pm_source_port),
      (''packet_manager_descriptor_doubleword_1'', bcm_pm_packet_manager_descriptor_doubleword_1),
      (''switch_performance_counters'', bcm_pm_switch_performance_counters),
      (''switch_trigger_control_match'', bcm_pm_switch_trigger_control_match),
      (''switch_trigger_event'', bcm_pm_switch_trigger_event),
      (''switch_trace_sequence_control'', bcm_pm_switch_trace_sequence_control),
      (''switch_trace_config'', bcm_pm_switch_trace_config),
      (''switch_trace_buffer_entry'', bcm_pm_switch_trace_buffer_entry),
      (''pm_interrupt_bits'', pm_interrupt_bits),
      (''pm_switch_counters_by_index'', pm_switch_counters_by_index)]"

lemmas bcm1480_pm_defs = bcm1480_pm_def
    bcm_pm_base_size_def bcm_pm_descriptor_merge_timer_def bcm_pm_l2_cache_attribute_def 
    bcm_pm_descriptor_count_def bcm_pm_current_descriptor_index_def 
    bcm_pm_packet_manager_queue_configuration_def bcm_pm_interrupt_configuration_def 
    bcm_pm_interrupt_watermark_def bcm_pm_input_output_queue_interrupt_status_def 
    bcm_pm_input_output_queue_interrupt_mask_def bcm_pm_input_output_queue_interrupt_clear_def 
    bcm_pm_pmo_mapping_def bcm_pm_global_debug_mode_def bcm_pm_prefetch_count_def 
    bcm_pm_descriptor_prefetch_index_def bcm_pm_packet_manager_descriptor_doubleword_0_def 
    bcm_pm_status_control_def bcm_pm_source_port_def bcm_pm_packet_manager_descriptor_doubleword_1_def 
    bcm_pm_switch_performance_counters_def bcm_pm_switch_trigger_control_match_def 
    bcm_pm_switch_trigger_event_def bcm_pm_switch_trace_sequence_control_def bcm_pm_switch_trace_config_def 
    bcm_pm_switch_trace_buffer_entry_def pm_interrupt_bits_def pm_switch_counters_by_index_def 
    BCM1480_PM_INT_def M_INT_N_def BCM1480_SWPERF_CFG_CXSRC_def BCM1480_SWPERF_CFG_CXFILT_def 
    BCM1480_SWPERF_CFG_CXFENA_def

lemma bcm1480_pm_ascending:
  "register_defects bcm_pm_base_size = ([], [])"
  "register_defects bcm_pm_descriptor_merge_timer = ([], [])"
  "register_defects bcm_pm_l2_cache_attribute = ([], [])"
  "register_defects bcm_pm_descriptor_count = ([], [])"
  "register_defects bcm_pm_current_descriptor_index = ([], [])"
  "register_defects bcm_pm_packet_manager_queue_configuration = ([], [])"
  "register_defects bcm_pm_interrupt_configuration = ([], [])"
  "register_defects bcm_pm_interrupt_watermark = ([], [])"
  "register_defects bcm_pm_input_output_queue_interrupt_status = ([], [])"
  "register_defects bcm_pm_input_output_queue_interrupt_mask = ([], [])"
  "register_defects bcm_pm_input_output_queue_interrupt_clear = ([], [])"
  "register_defects bcm_pm_global_debug_mode = ([], [])"
  "register_defects bcm_pm_prefetch_count = ([], [])"
  "register_defects bcm_pm_descriptor_prefetch_index = ([], [])"
  "register_defects bcm_pm_packet_manager_descriptor_doubleword_0 = ([], [])"
  "register_defects bcm_pm_status_control = ([], [])"
  "register_defects bcm_pm_packet_manager_descriptor_doubleword_1 = ([], [])"
  "register_defects bcm_pm_switch_trigger_control_match = ([], [])"
  "register_defects bcm_pm_switch_trigger_event = ([], [])"
  "register_defects bcm_pm_switch_trace_sequence_control = ([], [])"
  "register_defects bcm_pm_switch_trace_config = ([], [])"
  by (simp_all add: ascending_eval bcm1480_pm_defs)

lemma bcm1480_pm_others:
  "register_defects bcm_pm_pmo_mapping = ([], [])"
  "register_defects bcm_pm_source_port = ([''DSCR0_SWID''], [])"
  "register_defects bcm_pm_switch_performance_counters = ([], [])"
  "register_defects bcm_pm_switch_trace_buffer_entry = ([], [])"
  "register_defects pm_interrupt_bits = ([''INT'', ''INT'', ''INT'', ''INT'', ''INT'', ''INT'', ''INT''], [])"
  "register_defects pm_switch_counters_by_index = ([], [])"
  by (simp_all add: register_eval bcm1480_pm_defs)

lemma bcm1480_pm_defects:
  "defects bcm1480_pm =
     [(''source_port'', [''DSCR0_SWID''], []),
      (''pm_interrupt_bits'', [''INT'', ''INT'', ''INT'', ''INT'', ''INT'', ''INT'', ''INT''], [])]"
  by (simp add: defects_def bcm1480_pm_def bcm1480_pm_ascending bcm1480_pm_others)

end
