(* ===== verification/Bcm1480Rld.thy ===== *)
theory Bcm1480Rld
  imports Registers
begin

text \<open>
  The registers of the rate-limiting unit of the BCM1480 and BCM1280, from \<open>include/sibyte/bcm1480_rld.h\<close>, one list of fields for each
  register the header describes.
\<close>

unbundle bit_operations_syntax

subsection \<open>RLD Field Way Enable Register (Table 185)\<close>

definition bcm_rld_field_way_enable :: register where
  "bcm_rld_field_way_enable =
     [(''WAY_ENABLE'', field 8 0)]"

subsection \<open>RLD Random LFSR Seed Register (Table 186)\<close>

definition bcm_rld_random_lfsr_seed :: register where
  "bcm_rld_random_lfsr_seed =
     [(''RANDOM_SEED'', field 8 0)]"

subsection \<open>RLD Field Register (Table 187)\<close>

definition bcm_rld_field :: register where
  "bcm_rld_field =
     [(''FIELD_OFFSET'', field 5 0),
      (''FIELD_INDEX'', field 11 5),
      (''FIELD_TAG'', field 20 16),
      (''FIELD_WAY_SELECT'', field 3 36),
      (''FIELD_VALID'', flag 39),
      (''FIELD_MODIFIED'', flag 40),
      (''FIELD_NODE_VECTOR'', field 11 41),
      (''FIELD_ECC_BITS'', field 7 52),
      (''FIELD_NEW_ECC'', flag 59),
      (''FIELD_CHECK_ECC'', flag 60)]"

subsection \<open>RLD Trigger Register (Table 188)\<close>

definition bcm_rld_trigger :: register where
  "bcm_rld_trigger =
     [(''TRIGGER_TAG'', field 20 0),
      (''TRIGGER_VALID'', flag 20),
      (''TRIGGER_MODIFIED'', flag 21),
      (''TRIGGER_NODE_VECTOR'', field 11 22),
      (''TRIGGER_ECC_BITS'', field 7 33),
      (''TRIGGER_S_BERR'', flag 40),
      (''TRIGGER_D_BERR'', flag 41)]"

subsection \<open>RLD Uncorrectable ECC Error Counter (Table 189)\<close>

definition bcm_rld_uncorrectable_ecc_error_counter :: register where
  "bcm_rld_uncorrectable_ecc_error_counter =
     [(''BAD_ECC'', field 8 0)]"

subsection \<open>RLD Correctable ECC Error Counter (Table 190)\<close>

definition bcm_rld_correctable_ecc_error_counter :: register where
  "bcm_rld_correctable_ecc_error_counter =
     [(''COR_ERR'', field 8 0)]"

subsection \<open>RLD ECC Content Status Register (Table 191)\<close>

definition bcm_rld_ecc_content_status :: register where
  "bcm_rld_ecc_content_status =
     [(''ECC_CS_OFFSET'', field 5 0),
      (''ECC_CS_INDEX'', field 11 5),
      (''ECC_CS_TAG'', field 20 16),
      (''ECC_CS_WAY_SELECT'', field 3 36),
      (''ECC_CS_VALID'', flag 39),
      (''ECC_CS_MODIFIED'', flag 40),
      (''ECC_CS_NODE_VECTOR'', field 11 41),
      (''ECC_CS_ECC_BITS'', field 7 52),
      (''ECC_CS_SINGLE_BIT_ERR'', flag 59),
      (''ECC_CS_DOUBLE_BIT_ERR'', flag 60)]"

subsection \<open>The header\<close>

definition bcm1480_rld :: "header" where
  "bcm1480_rld =
     [(''field_way_enable'', bcm_rld_field_way_enable),
      (''random_lfsr_seed'', bcm_rld_random_lfsr_seed),
      (''field'', bcm_rld_field),
      (''trigger'', bcm_rld_trigger),
      (''uncorrectable_ecc_error_counter'', bcm_rld_uncorrectable_ecc_error_counter),
      (''correctable_ecc_error_counter'', bcm_rld_correctable_ecc_error_counter),
      (''ecc_content_status'', bcm_rld_ecc_content_status)]"

lemmas bcm1480_rld_defs = bcm1480_rld_def
    bcm_rld_field_way_enable_def bcm_rld_random_lfsr_seed_def bcm_rld_field_def bcm_rld_trigger_def 
    bcm_rld_uncorrectable_ecc_error_counter_def bcm_rld_correctable_ecc_error_counter_def 
    bcm_rld_ecc_content_status_def

lemma bcm1480_rld_ascending:
  "register_defects bcm_rld_field_way_enable = ([], [])"
  "register_defects bcm_rld_random_lfsr_seed = ([], [])"
  "register_defects bcm_rld_field = ([], [])"
  "register_defects bcm_rld_trigger = ([], [])"
  "register_defects bcm_rld_uncorrectable_ecc_error_counter = ([], [])"
  "register_defects bcm_rld_correctable_ecc_error_counter = ([], [])"
  "register_defects bcm_rld_ecc_content_status = ([], [])"
  by (simp_all add: ascending_eval bcm1480_rld_defs)

lemma bcm1480_rld_defects:
  "defects bcm1480_rld =
     []"
  by (simp add: defects_def bcm1480_rld_def bcm1480_rld_ascending)

end
