(* ===== verification/Bcm1480Scd.thy ===== *)
theory Bcm1480Scd
  imports Registers
begin

text \<open>
  The registers of the system control and debug unit of the BCM1480 and BCM1280, from \<open>include/sibyte/bcm1480_scd.h\<close>, one list of fields for each
  register the header describes. Fields that share the bits of others, because they are
  another view of the register or belong to another register of the same description, are in a
  list of their own.
\<close>

unbundle bit_operations_syntax

subsection \<open>New part definitions\<close>

definition bcm_scd_new_part_definitions :: "(string \<times> u64) list" where
  "bcm_scd_new_part_definitions =
     [(''K_SYS_PART_BCM1480'', 0x1406), (''K_SYS_PART_BCM1280'', 0x1206), (''K_SYS_PART_BCM1455'', 0x1407),
      (''K_SYS_PART_BCM1255'', 0x1257)]"

subsection \<open>System Configuration Register (Table 15) Register: SCD SYSTEM CFG Enti\<close>

definition bcm_scd_system_configuration_scd_system_cfg_entire :: register where
  "bcm_scd_system_configuration_scd_system_cfg_entire =
     [(''SYS_RESERVED0'', flag 0),
      (''SYS_HT_MINRSTCNT'', flag 1),
      (''SYS_RESERVED2'', flag 2),
      (''SYS_RESERVED3'', flag 3),
      (''SYS_RESERVED4'', flag 4),
      (''SYS_IOB_DIV'', flag 5),
      (''SYS_PLL_DIV'', field 5 6),
      (''SYS_SW_DIV'', field 5 11),
      (''SYS_PCMCIA_ENABLE'', flag 16),
      (''SYS_DUART1_ENABLE'', flag 17),
      (''SYS_BOOT_MODE'', codes [K ''ROM32'' 0, K ''ROM8'' 1, K ''SMBUS_SMALL'' 2,
        K ''SMBUS_BIG'' 3] (field 2 18)),
      (''SYS_PCI_HOST'', flag 20),
      (''SYS_PCI_ARBITER'', flag 21),
      (''SYS_BIG_ENDIAN'', flag 22),
      (''SYS_GENCLK_EN'', flag 23),
      (''SYS_GEN_PARITY_EN'', flag 24),
      (''SYS_RESERVED25'', flag 25),
      (''SYS_CONFIG'', field 6 26),
      (''SYS_RESERVED32'', bits 32 15),
      (''SYS_NODEID'', field 4 47),
      (''SYS_CCNUMA_EN'', flag 51),
      (''SYS_CPU_RESET_0'', flag 52),
      (''SYS_CPU_RESET_1'', flag 53),
      (''SYS_CPU_RESET_2'', flag 54),
      (''SYS_CPU_RESET_3'', flag 55),
      (''SYS_DISABLECPU0'', flag 56),
      (''SYS_DISABLECPU1'', flag 57),
      (''SYS_DISABLECPU2'', flag 58),
      (''SYS_DISABLECPU3'', flag 59),
      (''SYS_SB_SOFTRES'', flag 60),
      (''SYS_EXT_RESET'', flag 61),
      (''SYS_SYSTEM_RESET'', flag 62),
      (''SYS_SW_FLAG'', flag 63)]"

definition bcm_scd_system_configuration_scd_system_cfg_entire_smbus :: register where
  "bcm_scd_system_configuration_scd_system_cfg_entire_smbus =
     [(''SYS_BOOT_MODE_SMBUS'', flag 19)]"

subsection \<open>Watchdog Timer Configuration Registers (Table 25) Registers: SCD WDOG\<close>

definition bcm_scd_watchdog_timer_configuration_scd_wdog_cfg :: register where
  "bcm_scd_watchdog_timer_configuration_scd_wdog_cfg =
     [(''SCD_WDOG_ENABLE'', flag 0),
      (''SCD_WDOG_RESET_TYPE'', field 5 2),
      (''SCD_WDOG_HAS_RESET'', flag 8)]"

definition bcm_scd_watchdog_timer_configuration_scd_wdog_cfg_consts :: "(string \<times> u64) list" where
  "bcm_scd_watchdog_timer_configuration_scd_wdog_cfg_consts =
     [(''SCD_WDOG_RESET_FULL'', 0), (''SCD_WDOG_RESET_SOFT'', 1), (''SCD_WDOG_RESET_CPU0'', 3),
      (''SCD_WDOG_RESET_CPU1'', 5), (''SCD_WDOG_RESET_CPU2'', 9), (''SCD_WDOG_RESET_CPU3'', 17),
      (''SCD_WDOG_RESET_ALL_CPUS'', 31)]"

subsection \<open>System Performance Counter Configuration Register (Table 31) Register:\<close>

definition bcm_scd_system_performance_counter_configuration_perf_cnt :: register where
  "bcm_scd_system_performance_counter_configuration_perf_cnt =
     [(''SPC_CFG_SRC0'', field 8 0),
      (''SPC_CFG_SRC1'', field 8 8),
      (''SPC_CFG_SRC2'', field 8 16),
      (''SPC_CFG_SRC3'', field 8 24),
      (''SPC_CFG_SRC4'', field 8 32),
      (''SPC_CFG_SRC5'', field 8 40),
      (''SPC_CFG_SRC6'', field 8 48),
      (''SPC_CFG_SRC7'', field 8 56)]"

subsection \<open>System Performance Counter Control Register (Table 32) Register: PERF\<close>

definition bcm_scd_system_performance_counter_control_perf_cnt :: register where
  "bcm_scd_system_performance_counter_control_perf_cnt =
     [(''SPC_CFG_CLEAR'', flag 0),
      (''SPC_CFG_ENABLE'', flag 1)]"

subsection \<open>System Performance Counters (Table 33) Registers: PERF CNT x\<close>

definition bcm_scd_system_performance_counters_perf_cnt_x :: register where
  "bcm_scd_system_performance_counters_perf_cnt_x =
     [(''SPC_CNT_COUNT'', field 40 0),
      (''SPC_CNT_OFLOW'', flag 40)]"

subsection \<open>Address Trap Registers Register layout same as BCM1250, almost. The bu\<close>

definition bcm_scd_address_trap_layout_same_as_bcm1250 :: register where
  "bcm_scd_address_trap_layout_same_as_bcm1250 =
     [(''ATRAP_CFG_CNT'', field 3 0),
      (''ATRAP_CFG_WRITE'', flag 3),
      (''ATRAP_CFG_ALL'', flag 4),
      (''ATRAP_CFG_INV'', flag 5),
      (''ATRAP_CFG_USESRC'', flag 6),
      (''ATRAP_CFG_SRCINV'', flag 7),
      (''ATRAP_CFG_AGENTID'', field 4 8),
      (''ATRAP_CFG_CATTR'', codes [K ''IGNORE'' 0, K ''UNC'' 1, K ''NONCOH'' 2, K ''COHERENT'' 3] (field 2 12)),
      (''ATRAP_CFG_CATTRINV'', flag 14)]"

definition bcm_scd_address_trap_layout_same_as_bcm1250_index :: register where
  "bcm_scd_address_trap_layout_same_as_bcm1250_index =
     [(''ATRAP_INDEX'', bits 4 0)]"

definition bcm_scd_address_trap_layout_same_as_bcm1250_address :: register where
  "bcm_scd_address_trap_layout_same_as_bcm1250_address =
     [(''ATRAP_ADDRESS'', bits 40 0)]"

definition bcm_scd_address_trap_layout_same_as_bcm1250_consts :: "(string \<times> u64) list" where
  "bcm_scd_address_trap_layout_same_as_bcm1250_consts =
     [(''BUS_AGENT_CPU0'', 0), (''BUS_AGENT_CPU1'', 1), (''BUS_AGENT_NC'', 2), (''BUS_AGENT_IOB'', 3),
      (''BUS_AGENT_SCD'', 4), (''BUS_AGENT_L2C'', 6), (''BUS_AGENT_MC'', 7), (''BUS_AGENT_CPU2'', 8),
      (''BUS_AGENT_CPU3'', 9), (''BUS_AGENT_PM'', 10)]"

subsection \<open>Trace Sequence Control Registers (Table 48) Registers: TRACE SEQUENCE\<close>

definition bcm_scd_trace_sequence_control_trace_sequence_x :: register where
  "bcm_scd_trace_sequence_control_trace_sequence_x =
     [(''SCD_TRSEQ_TID_MATCH_EN'', flag 25),
      (''SCD_TRSEQ_SWFUNC'', field 2 26)]"

subsection \<open>Trace Control Register (Table 49) Register: TRACE CFG Bits 0..8 are th\<close>

definition bcm_scd_trace_control_trace_cfg_bits_0 :: register where
  "bcm_scd_trace_control_trace_cfg_bits_0 =
     [(''SCD_TRACE_CFG_RESET'', flag 0),
      (''SCD_TRACE_CFG_START_READ'', flag 1),
      (''SCD_TRACE_CFG_START'', flag 2),
      (''SCD_TRACE_CFG_STOP'', flag 3),
      (''SCD_TRACE_CFG_FREEZE'', flag 4),
      (''SCD_TRACE_CFG_FREEZE_FULL'', flag 5),
      (''SCD_TRACE_CFG_DEBUG_FULL'', flag 6),
      (''SCD_TRACE_CFG_FULL'', flag 7),
      (''SCD_TRACE_CFG_FORCE_CNT'', flag 8),
      (''SCD_TRACE_CFG_MODE'', field 2 16),
      (''SCD_TRACE_CFG_CUR_ADDR'', field 8 24)]"

subsection \<open>The header\<close>

definition bcm1480_scd :: "header" where
  "bcm1480_scd =
     [(''system_configuration_scd_system_cfg_entire'', bcm_scd_system_configuration_scd_system_cfg_entire),
      (''system_configuration_scd_system_cfg_entire_smbus'',
        bcm_scd_system_configuration_scd_system_cfg_entire_smbus),
      (''watchdog_timer_configuration_scd_wdog_cfg'', bcm_scd_watchdog_timer_configuration_scd_wdog_cfg),
      (''system_performance_counter_configuration_perf_cnt'',
        bcm_scd_system_performance_counter_configuration_perf_cnt),
      (''system_performance_counter_control_perf_cnt'', bcm_scd_system_performance_counter_control_perf_cnt),
      (''system_performance_counters_perf_cnt_x'', bcm_scd_system_performance_counters_perf_cnt_x),
      (''address_trap_layout_same_as_bcm1250'', bcm_scd_address_trap_layout_same_as_bcm1250),
      (''address_trap_layout_same_as_bcm1250_index'', bcm_scd_address_trap_layout_same_as_bcm1250_index),
      (''address_trap_layout_same_as_bcm1250_address'', bcm_scd_address_trap_layout_same_as_bcm1250_address),
      (''trace_sequence_control_trace_sequence_x'', bcm_scd_trace_sequence_control_trace_sequence_x),
      (''trace_control_trace_cfg_bits_0'', bcm_scd_trace_control_trace_cfg_bits_0)]"

lemmas bcm1480_scd_defs = bcm1480_scd_def
    bcm_scd_system_configuration_scd_system_cfg_entire_def 
    bcm_scd_system_configuration_scd_system_cfg_entire_smbus_def 
    bcm_scd_watchdog_timer_configuration_scd_wdog_cfg_def 
    bcm_scd_system_performance_counter_configuration_perf_cnt_def 
    bcm_scd_system_performance_counter_control_perf_cnt_def 
    bcm_scd_system_performance_counters_perf_cnt_x_def bcm_scd_address_trap_layout_same_as_bcm1250_def 
    bcm_scd_address_trap_layout_same_as_bcm1250_index_def 
    bcm_scd_address_trap_layout_same_as_bcm1250_address_def 
    bcm_scd_trace_sequence_control_trace_sequence_x_def bcm_scd_trace_control_trace_cfg_bits_0_def

lemma bcm1480_scd_ascending:
  "register_defects bcm_scd_system_configuration_scd_system_cfg_entire_smbus = ([], [])"
  "register_defects bcm_scd_watchdog_timer_configuration_scd_wdog_cfg = ([], [])"
  "register_defects bcm_scd_system_performance_counter_configuration_perf_cnt = ([], [])"
  "register_defects bcm_scd_system_performance_counter_control_perf_cnt = ([], [])"
  "register_defects bcm_scd_system_performance_counters_perf_cnt_x = ([], [])"
  "register_defects bcm_scd_address_trap_layout_same_as_bcm1250 = ([], [])"
  "register_defects bcm_scd_address_trap_layout_same_as_bcm1250_index = ([], [])"
  "register_defects bcm_scd_address_trap_layout_same_as_bcm1250_address = ([], [])"
  "register_defects bcm_scd_trace_sequence_control_trace_sequence_x = ([], [])"
  "register_defects bcm_scd_trace_control_trace_cfg_bits_0 = ([], [])"
  by (simp_all add: ascending_eval bcm1480_scd_defs)

lemma bcm1480_scd_others:
  "register_defects bcm_scd_system_configuration_scd_system_cfg_entire = ([], [(''SYS_SW_DIV'', ''SYS_RESERVED32''), (''SYS_PCMCIA_ENABLE'', ''SYS_RESERVED32''),
        (''SYS_DUART1_ENABLE'', ''SYS_RESERVED32''), (''SYS_BOOT_MODE'', ''SYS_RESERVED32''),
        (''SYS_PCI_HOST'', ''SYS_RESERVED32''), (''SYS_PCI_ARBITER'', ''SYS_RESERVED32''), (''SYS_BIG_ENDIAN'',
        ''SYS_RESERVED32''), (''SYS_GENCLK_EN'', ''SYS_RESERVED32''), (''SYS_GEN_PARITY_EN'',
        ''SYS_RESERVED32''), (''SYS_RESERVED25'', ''SYS_RESERVED32''), (''SYS_CONFIG'', ''SYS_RESERVED32'')])"
  by (simp_all add: register_eval bcm1480_scd_defs)

lemma bcm1480_scd_defects:
  "defects bcm1480_scd =
     [(''system_configuration_scd_system_cfg_entire'', [], [(''SYS_SW_DIV'', ''SYS_RESERVED32''),
        (''SYS_PCMCIA_ENABLE'', ''SYS_RESERVED32''), (''SYS_DUART1_ENABLE'', ''SYS_RESERVED32''),
        (''SYS_BOOT_MODE'', ''SYS_RESERVED32''), (''SYS_PCI_HOST'', ''SYS_RESERVED32''), (''SYS_PCI_ARBITER'',
        ''SYS_RESERVED32''), (''SYS_BIG_ENDIAN'', ''SYS_RESERVED32''), (''SYS_GENCLK_EN'', ''SYS_RESERVED32''),
        (''SYS_GEN_PARITY_EN'', ''SYS_RESERVED32''), (''SYS_RESERVED25'', ''SYS_RESERVED32''), (''SYS_CONFIG'',
        ''SYS_RESERVED32'')])]"
  by (simp add: defects_def bcm1480_scd_def bcm1480_scd_ascending bcm1480_scd_others)

end
