(* ===== verification/Sb1250Dma.thy ===== *)
theory Sb1250Dma
  imports Registers
begin

text \<open>
  The registers of the DMA controllers of the BCM1250 and BCM112x, from \<open>include/sibyte/sb1250_dma.h\<close>, one list of fields for each
  register the header describes. Fields that share the bits of others, because they are
  another view of the register or belong to another register of the same description, are in a
  list of their own.
\<close>

unbundle bit_operations_syntax

subsection \<open>Ethernet and Serial DMA Configuration Register 0 (Table 7-4) Registers\<close>

definition sb_dma_ethernet_serial_dma_configuration_0_dma :: "u32 \<Rightarrow> register" where
  "sb_dma_ethernet_serial_dma_configuration_0_dma ft =
     [(''DROP'', flag 0),
      (''DESC_TYPE'', codes ([K ''RING_AL'' 0,
        K ''CHAIN_AL'' 1] @ only_if (SIBYTE_HDR_FEATURE ft BCM1250_PASS3 \<or> SIBYTE_HDR_FEATURE ft BCM112x_PASS1 \<or> SIBYTE_HDR_FEATURE_CHIP ft BCM1480) [K ''RING_UAL_WI'' 2, K ''RING_UAL_RMW'' 3]) (field 2 1)),
      (''EOP_INT_EN'', flag 3),
      (''HWM_INT_EN'', flag 4),
      (''LWM_INT_EN'', flag 5),
      (''TBX_EN'', flag 6),
      (''TDX_EN'', flag 7),
      (''INT_PKTCNT'', field 8 8),
      (''RINGSZ'', field 16 16),
      (''HIGH_WATERMARK'', field 16 32),
      (''LOW_WATERMARK'', field 16 48)]"

definition sb_dma_ethernet_serial_dma_configuration_0_dma_chain :: register where
  "sb_dma_ethernet_serial_dma_configuration_0_dma_chain =
     [(''CHAIN_SEL'', flag 1),
      (''RESERVED1'', flag 2)]"

subsection \<open>Ethernet and Serial DMA Configuration Register 1 (Table 7-5) Registers\<close>

definition sb_dma_ethernet_serial_dma_configuration_1_dma :: "u32 \<Rightarrow> register" where
  "sb_dma_ethernet_serial_dma_configuration_1_dma ft =
     [(''HDR_CF_EN'', flag 0),
      (''ASIC_XFR_EN'', flag 1),
      (''PRE_ADDR_EN'', flag 2),
      (''FLOW_CTL_EN'', flag 3),
      (''NO_DSCR_UPDT'', flag 4),
      (''L2CA'', flag 5)]
     @ only_if (SIBYTE_HDR_FEATURE ft BCM1250_PASS3 \<or> SIBYTE_HDR_FEATURE ft BCM112x_PASS1 \<or> SIBYTE_HDR_FEATURE_CHIP ft BCM1480)
     [(''RX_XTRA_STATUS'', flag 6)]
     @ [(''MBZ1'', bits 6 15),
      (''HDR_SIZE'', field 9 21),
      (''MBZ2'', bits 5 32),
      (''ASICXFR_SIZE'', field 9 37),
      (''INT_TIMEOUT'', field 16 48)]"

definition sb_dma_ethernet_serial_dma_configuration_1_dma_tx :: "u32 \<Rightarrow> register" where
  "sb_dma_ethernet_serial_dma_configuration_1_dma_tx ft =
     only_if (SIBYTE_HDR_FEATURE ft BCM1250_PASS3 \<or> SIBYTE_HDR_FEATURE ft BCM112x_PASS1 \<or> SIBYTE_HDR_FEATURE_CHIP ft BCM1480)
     [(''TX_CPU_PAUSE'', flag 6),
      (''TX_FC_PAUSE_EN'', flag 7)]"

subsection \<open>Ethernet and Serial DMA Descriptor base address (Table 7-6)\<close>

definition sb_dma_ethernet_serial_dma_descriptor_base_address :: register where
  "sb_dma_ethernet_serial_dma_descriptor_base_address =
     [(''DSCRBASE_MBZ'', bits 4 0)]"

subsection \<open>ASIC Mode Base Address (Table 7-7)\<close>

definition sb_dma_asic_mode_base_address :: register where
  "sb_dma_asic_mode_base_address =
     [(''ASIC_BASE_MBZ'', bits 20 0)]"

subsection \<open>Current Descriptor Address Register (Table 7-11)\<close>

definition sb_dma_current_descriptor_address :: "u32 \<Rightarrow> register" where
  "sb_dma_current_descriptor_address ft =
     [(''CURDSCR_ADDR'', bits 40 0),
      (''CURDSCR_COUNT'', bits 16 40)]
     @ only_if (SIBYTE_HDR_FEATURE ft BCM1250_PASS3 \<or> SIBYTE_HDR_FEATURE ft BCM112x_PASS1 \<or> SIBYTE_HDR_FEATURE_CHIP ft BCM1480)
     [(''TX_CH_PAUSE_ON'', flag 56)]"

subsection \<open>Receive Packet Drop Registers\<close>

definition sb_dma_receive_packet_drop :: "u32 \<Rightarrow> register" where
  "sb_dma_receive_packet_drop ft =
     only_if (SIBYTE_HDR_FEATURE ft BCM1250_PASS3 \<or> SIBYTE_HDR_FEATURE ft BCM112x_PASS1 \<or> SIBYTE_HDR_FEATURE_CHIP ft BCM1480)
     [(''OODLOST_RX'', get_as (Macro (0, SB_MAKEMASK 16 0)) (bits 16 0)),
      (''EOP_COUNT_RX'', get_as (Macro (16, SB_MAKEMASK 8 16)) (bits 8 16))]"

subsection \<open>Descriptor doubleword  A  (Table 7-12)\<close>

definition sb_dma_descriptor_doubleword :: register where
  "sb_dma_descriptor_doubleword =
     [(''DSCRA_OFFSET'', field 5 0),
      (''DSCRA_A_ADDR'', bits 35 5),
      (''DSCRA_A_SIZE'', field 9 40),
      (''DSCRA_INTERRUPT'', flag 49),
      (''DSCRA_OFFSETB'', flag 50),
      (''DSCRA_STATUS'', field 13 51)]"

definition sb_dma_descriptor_doubleword_unaligned :: "u32 \<Rightarrow> register" where
  "sb_dma_descriptor_doubleword_unaligned ft =
     only_if (SIBYTE_HDR_FEATURE ft BCM1250_PASS3 \<or> SIBYTE_HDR_FEATURE ft BCM112x_PASS1 \<or> SIBYTE_HDR_FEATURE_CHIP ft BCM1480)
     [(''DSCRA_A_ADDR_UA'', bits 40 0),
      (''DSCRA_DSCR_CNT'', get_as (Macro (40, SB_MAKEMASK 8 40)) (bits 8 40))]"

definition M_DMA_DSCRA_A_ADDR_OFFSET :: u64 where
  "M_DMA_DSCRA_A_ADDR_OFFSET = SB_MAKEMASK 5 0 OR SB_MAKEMASK 35 5"

subsection \<open>Descriptor doubleword  B  (Table 7-13)\<close>

definition sb_dma_descriptor_doubleword_b :: register where
  "sb_dma_descriptor_doubleword_b =
     [(''DSCRB_OPTIONS'', field 4 0),
      (''DSCRB_B_ADDR'', bits 35 5),
      (''DSCRB_B_SIZE'', field 9 40),
      (''DSCRB_B_VALID'', flag 49),
      (''DSCRB_PKT_SIZE'', field 14 50)]"

definition sb_dma_descriptor_doubleword_b_unaligned :: "u32 \<Rightarrow> register" where
  "sb_dma_descriptor_doubleword_b_unaligned ft =
     only_if (SIBYTE_HDR_FEATURE ft BCM1250_PASS3 \<or> SIBYTE_HDR_FEATURE ft BCM112x_PASS1 \<or> SIBYTE_HDR_FEATURE_CHIP ft BCM1480)
     [(''DSCRB_A_SIZE'', field 14 8),
      (''DSCRB_PKT_SIZE_MSB'', field 2 48)]"

definition sb_dma_descriptor_doubleword_b_consts :: "(string \<times> u64) list" where
  "sb_dma_descriptor_doubleword_b_consts =
     [(''DSCRB_ADDR'', 16)]"

subsection \<open>Descriptor doubleword B status\<close>

definition sb_dma_descriptor_doubleword_b_status :: register where
  "sb_dma_descriptor_doubleword_b_status =
     [(''DSCRB_STATUS'', field 1 0)]"

subsection \<open>Ethernet descriptor status\<close>

definition sb_dma_ethernet_descriptor_status :: "u32 \<Rightarrow> register" where
  "sb_dma_ethernet_descriptor_status ft =
     [(''ETHRX_BADIP4CS'', flag 51),
      (''ETHRX_DSCRERR'', flag 52)]
     @ only_if (SIBYTE_HDR_FEATURE ft BCM1250_PASS2 \<or> SIBYTE_HDR_FEATURE ft BCM112x_PASS1 \<or> SIBYTE_HDR_FEATURE_CHIP ft BCM1480)
     [(''ETHRX_BADTCPCS'', flag 0)]
     @ only_if (SIBYTE_HDR_FEATURE ft BCM1250_PASS3 \<or> SIBYTE_HDR_FEATURE ft BCM112x_PASS1 \<or> SIBYTE_HDR_FEATURE_CHIP ft BCM1480)
     [(''ETH_VLAN_FLAG'', flag 1),
      (''ETH_CRC_FLAG'', flag 2)]
     @ [(''ETHRX_RXCH'', field 2 53),
      (''ETHRX_PKTTYPE'', codes [K ''IPV4'' 0, K ''ARPV4'' 1, K ''802'' 2, K ''OTHER'' 3, K ''USER0'' 4,
        K ''USER1'' 5, K ''USER2'' 6, K ''USER3'' 7] (field 3 55)),
      (''ETHRX_MATCH_HASH'', flag 58),
      (''ETHRX_MATCH_EXACT'', flag 59),
      (''ETHRX_BCAST'', flag 60),
      (''ETHRX_MCAST'', flag 61),
      (''ETHRX_BAD'', flag 62),
      (''ETHRX_SOP'', flag 63)]"

subsection \<open>Ethernet Transmit Status Bits (Table 7-16)\<close>

definition sb_dma_ethernet_transmit_status_bits :: register where
  "sb_dma_ethernet_transmit_status_bits =
     [(''ETHTX_SOP'', flag 63)]"

subsection \<open>Ethernet Transmit Options (Table 7-17)\<close>

definition sb_dma_ethernet_transmit_options :: "(string \<times> u64) list" where
  "sb_dma_ethernet_transmit_options =
     [(''ETHTX_NOTSOP'', 0), (''ETHTX_APPENDCRC'', 1), (''ETHTX_REPLACECRC'', 2),
      (''ETHTX_APPENDCRC_APPENDPAD'', 3), (''ETHTX_APPENDVLAN_REPLACECRC'', 4),
      (''ETHTX_REMOVEVLAN_REPLACECRC'', 5), (''ETHTX_REPLACEVLAN_REPLACECRC'', 6), (''ETHTX_NOMODS'', 7),
      (''ETHTX_RESERVED1'', 8), (''ETHTX_REPLACESADDR_APPENDCRC'', 9), (''ETHTX_REPLACESADDR_REPLACECRC'', 10),
      (''ETHTX_REPLACESADDR_APPENDCRC_APPENDPAD'', 11), (''ETHTX_REPLACESADDR_APPENDVLAN_REPLACECRC'', 12),
      (''ETHTX_REPLACESADDR_REMOVEVLAN_REPLACECRC'', 13), (''ETHTX_REPLACESADDR_REPLACEVLAN_REPLACECRC'', 14),
      (''ETHTX_RESERVED2'', 15)]"

subsection \<open>Serial Receive Options (Table 7-18)\<close>

definition sb_dma_serial_receive_options :: register where
  "sb_dma_serial_receive_options =
     [(''SERRX_CRC_ERROR'', flag 56),
      (''SERRX_ABORT'', flag 57),
      (''SERRX_OCTET_ERROR'', flag 58),
      (''SERRX_LONGFRAME_ERROR'', flag 59),
      (''SERRX_SHORTFRAME_ERROR'', flag 60),
      (''SERRX_OVERRUN_ERROR'', flag 61),
      (''SERRX_GOOD'', flag 62),
      (''SERRX_SOP'', flag 63)]"

subsection \<open>Serial Transmit Status Bits (Table 7-20)\<close>

definition sb_dma_serial_transmit_status_bits :: register where
  "sb_dma_serial_transmit_status_bits =
     [(''SERTX_FLAG'', flag 63)]"

subsection \<open>Serial Transmit Options (Table 7-21)\<close>

definition K_DMA_SERTX_RESERVED :: u64 where
  "K_DMA_SERTX_RESERVED = SB_MAKEMASK1 0"

definition K_DMA_SERTX_APPENDCRC :: u64 where
  "K_DMA_SERTX_APPENDCRC = SB_MAKEMASK1 1"

definition K_DMA_SERTX_APPENDPAD :: u64 where
  "K_DMA_SERTX_APPENDPAD = SB_MAKEMASK1 2"

definition K_DMA_SERTX_ABORT :: u64 where
  "K_DMA_SERTX_ABORT = SB_MAKEMASK1 3"

subsection \<open>Data Mover Descriptor Base Address Register (Table 7-22) Register: DM\<close>

definition sb_dma_data_mover_descriptor_base_address_dm :: register where
  "sb_dma_data_mover_descriptor_base_address_dm =
     [(''DM_DSCR_BASE_MBZ'', bits 4 0),
      (''DM_DSCR_BASE_ADDR'', bits 36 4),
      (''DM_DSCR_BASE_RINGSZ'', field 16 40),
      (''DM_DSCR_BASE_PRIORITY'', codes [K ''1'' 0, K ''2'' 1, K ''4'' 2, K ''8'' 3, K ''16'' 4] (field 3 56)),
      (''DM_DSCR_BASE_ACTIVE'', flag 59),
      (''DM_DSCR_BASE_INTERRUPT'', flag 60),
      (''DM_DSCR_BASE_RESET'', flag 61),
      (''DM_DSCR_BASE_ABORT'', flag 62),
      (''DM_DSCR_BASE_ENABL'', flag 63)]"

definition sb_dma_data_mover_descriptor_base_address_dm_read :: register where
  "sb_dma_data_mover_descriptor_base_address_dm_read =
     [(''DM_DSCR_BASE_ERROR'', flag 61)]"

subsection \<open>Data Mover Current Descriptor Address (Table 7-24) Register: DM CUR DS\<close>

definition sb_dma_data_mover_current_descriptor_address_dm :: register where
  "sb_dma_data_mover_current_descriptor_address_dm =
     [(''DM_CUR_DSCR_DSCR_ADDR'', bits 40 0),
      (''DM_CUR_DSCR_DSCR_COUNT'', field 16 48)]"

subsection \<open>Data Mover Channel Partial Result Registers Register: DM PARTIAL 0 Reg\<close>

definition sb_dma_data_mover_channel_partial_result_dm :: "u32 \<Rightarrow> register" where
  "sb_dma_data_mover_channel_partial_result_dm ft =
     only_if (SIBYTE_HDR_FEATURE ft BCM1250_PASS3 \<or> SIBYTE_HDR_FEATURE ft BCM112x_PASS1 \<or> SIBYTE_HDR_FEATURE_CHIP ft BCM1480)
     [(''DM_PARTIAL_CRC_PARTIAL'', field 32 0),
      (''DM_PARTIAL_TCPCS_PARTIAL'', field 16 32),
      (''DM_PARTIAL_ODD_BYTE'', flag 48)]"

subsection \<open>Data Mover CRC Definition Registers Register: CRC DEF 0 Register: CRC\<close>

definition sb_dma_data_mover_crc_definition_crc_def :: "u32 \<Rightarrow> register" where
  "sb_dma_data_mover_crc_definition_crc_def ft =
     only_if (SIBYTE_HDR_FEATURE ft BCM1250_PASS3 \<or> SIBYTE_HDR_FEATURE ft BCM112x_PASS1 \<or> SIBYTE_HDR_FEATURE_CHIP ft BCM1480)
     [(''CRC_DEF_CRC_INIT'', field 32 0),
      (''CRC_DEF_CRC_POLY'', field 32 32)]"

subsection \<open>Data Mover CRC Checksum Definition Registers Register: CTCP DEF 0 Regi\<close>

definition sb_dma_data_mover_crc_checksum_definition_ctcp :: "u32 \<Rightarrow> register" where
  "sb_dma_data_mover_crc_checksum_definition_ctcp ft =
     only_if (SIBYTE_HDR_FEATURE ft BCM1250_PASS3 \<or> SIBYTE_HDR_FEATURE ft BCM112x_PASS1 \<or> SIBYTE_HDR_FEATURE_CHIP ft BCM1480)
     [(''CTCP_DEF_CRC_TXOR'', field 32 0),
      (''CTCP_DEF_TCPCS_INIT'', field 16 32),
      (''CTCP_DEF_CRC_WIDTH'', codes [K ''4'' 0, K ''2'' 1, K ''1'' 2] (field 2 48)),
      (''CTCP_DEF_CRC_BIT_ORDER'', flag 50)]"

subsection \<open>Data Mover Descriptor Doubleword  A  (Table 7-26)\<close>

definition sb_dma_data_mover_descriptor_doubleword :: "u32 \<Rightarrow> register" where
  "sb_dma_data_mover_descriptor_doubleword ft =
     [(''DM_DSCRA_DST_ADDR'', bits 40 0),
      (''DM_DSCRA_UN_DEST'', flag 40),
      (''DM_DSCRA_UN_SRC'', flag 41),
      (''DM_DSCRA_INTERRUPT'', flag 42)]
     @ only_if (SIBYTE_HDR_FEATURE_UP_TO ft BCM1250_PASS1)
     [(''DM_DSCRA_THROTTLE'', flag 43)]
     @ [(''DM_DSCRA_DIR_DEST'', codes [KV ''INCR'' 0 0, KV ''DECR'' 1 1, KV ''CONST'' 2 2] (field 2 44)),
      (''DM_DSCRA_DIR_SRC'', codes [KV ''INCR'' 0 0, KV ''DECR'' 1 1, KV ''CONST'' 2 2] (field 2 46)),
      (''DM_DSCRA_ZERO_MEM'', flag 48),
      (''DM_DSCRA_PREFETCH'', flag 49),
      (''DM_DSCRA_L2C_DEST'', flag 50),
      (''DM_DSCRA_L2C_SRC'', flag 51)]
     @ only_if (SIBYTE_HDR_FEATURE ft BCM1250_PASS2 \<or> SIBYTE_HDR_FEATURE ft BCM112x_PASS1 \<or> SIBYTE_HDR_FEATURE_CHIP ft BCM1480)
     [(''DM_DSCRA_RD_BKOFF'', flag 52),
      (''DM_DSCRA_WR_BKOFF'', flag 53)]
     @ only_if (SIBYTE_HDR_FEATURE ft BCM1250_PASS3 \<or> SIBYTE_HDR_FEATURE ft BCM112x_PASS1 \<or> SIBYTE_HDR_FEATURE_CHIP ft BCM1480)
     [(''DM_DSCRA_TCPCS_EN'', flag 54),
      (''DM_DSCRA_TCPCS_RES'', flag 55),
      (''DM_DSCRA_TCPCS_AP'', flag 56),
      (''DM_DSCRA_CRC_EN'', flag 57),
      (''DM_DSCRA_CRC_RES'', flag 58),
      (''DM_DSCRA_CRC_AP'', flag 59),
      (''DM_DSCRA_CRC_DFN'', flag 60),
      (''DM_DSCRA_CRC_XBIT'', flag 61)]
     @ [(''DM_DSCRA_RESERVED2'', bits 3 61)]"

subsection \<open>Data Mover Descriptor Doubleword  B  (Table 7-25)\<close>

definition sb_dma_data_mover_descriptor_doubleword_b :: register where
  "sb_dma_data_mover_descriptor_doubleword_b =
     [(''DM_DSCRB_SRC_ADDR'', bits 40 0),
      (''DM_DSCRB_SRC_LENGTH'', field 20 40)]"

subsection \<open>The header\<close>

definition sb1250_dma :: "u32 \<Rightarrow> header" where
  "sb1250_dma ft =
     [(''ethernet_serial_dma_configuration_0_dma'', sb_dma_ethernet_serial_dma_configuration_0_dma ft),
      (''ethernet_serial_dma_configuration_0_dma_chain'', sb_dma_ethernet_serial_dma_configuration_0_dma_chain),
      (''ethernet_serial_dma_configuration_1_dma'', sb_dma_ethernet_serial_dma_configuration_1_dma ft),
      (''ethernet_serial_dma_configuration_1_dma_tx'', sb_dma_ethernet_serial_dma_configuration_1_dma_tx ft),
      (''ethernet_serial_dma_descriptor_base_address'', sb_dma_ethernet_serial_dma_descriptor_base_address),
      (''asic_mode_base_address'', sb_dma_asic_mode_base_address),
      (''current_descriptor_address'', sb_dma_current_descriptor_address ft),
      (''receive_packet_drop'', sb_dma_receive_packet_drop ft),
      (''descriptor_doubleword'', sb_dma_descriptor_doubleword),
      (''descriptor_doubleword_unaligned'', sb_dma_descriptor_doubleword_unaligned ft),
      (''descriptor_doubleword_b'', sb_dma_descriptor_doubleword_b),
      (''descriptor_doubleword_b_unaligned'', sb_dma_descriptor_doubleword_b_unaligned ft),
      (''descriptor_doubleword_b_status'', sb_dma_descriptor_doubleword_b_status),
      (''ethernet_descriptor_status'', sb_dma_ethernet_descriptor_status ft),
      (''ethernet_transmit_status_bits'', sb_dma_ethernet_transmit_status_bits),
      (''serial_receive_options'', sb_dma_serial_receive_options),
      (''serial_transmit_status_bits'', sb_dma_serial_transmit_status_bits),
      (''data_mover_descriptor_base_address_dm'', sb_dma_data_mover_descriptor_base_address_dm),
      (''data_mover_descriptor_base_address_dm_read'', sb_dma_data_mover_descriptor_base_address_dm_read),
      (''data_mover_current_descriptor_address_dm'', sb_dma_data_mover_current_descriptor_address_dm),
      (''data_mover_channel_partial_result_dm'', sb_dma_data_mover_channel_partial_result_dm ft),
      (''data_mover_crc_definition_crc_def'', sb_dma_data_mover_crc_definition_crc_def ft),
      (''data_mover_crc_checksum_definition_ctcp'', sb_dma_data_mover_crc_checksum_definition_ctcp ft),
      (''data_mover_descriptor_doubleword'', sb_dma_data_mover_descriptor_doubleword ft),
      (''data_mover_descriptor_doubleword_b'', sb_dma_data_mover_descriptor_doubleword_b)]"

lemmas sb1250_dma_defs = sb1250_dma_def
    sb_dma_ethernet_serial_dma_configuration_0_dma_def 
    sb_dma_ethernet_serial_dma_configuration_0_dma_chain_def 
    sb_dma_ethernet_serial_dma_configuration_1_dma_def sb_dma_ethernet_serial_dma_configuration_1_dma_tx_def 
    sb_dma_ethernet_serial_dma_descriptor_base_address_def sb_dma_asic_mode_base_address_def 
    sb_dma_current_descriptor_address_def sb_dma_receive_packet_drop_def sb_dma_descriptor_doubleword_def 
    sb_dma_descriptor_doubleword_unaligned_def sb_dma_descriptor_doubleword_b_def 
    sb_dma_descriptor_doubleword_b_unaligned_def sb_dma_descriptor_doubleword_b_status_def 
    sb_dma_ethernet_descriptor_status_def sb_dma_ethernet_transmit_status_bits_def 
    sb_dma_serial_receive_options_def sb_dma_serial_transmit_status_bits_def 
    sb_dma_data_mover_descriptor_base_address_dm_def sb_dma_data_mover_descriptor_base_address_dm_read_def 
    sb_dma_data_mover_current_descriptor_address_dm_def sb_dma_data_mover_channel_partial_result_dm_def 
    sb_dma_data_mover_crc_definition_crc_def_def sb_dma_data_mover_crc_checksum_definition_ctcp_def 
    sb_dma_data_mover_descriptor_doubleword_def sb_dma_data_mover_descriptor_doubleword_b_def

lemma sb1250_dma_ascending:
  "register_defects sb_dma_ethernet_serial_dma_configuration_0_dma_chain = ([], [])"
  "register_defects sb_dma_ethernet_serial_dma_descriptor_base_address = ([], [])"
  "register_defects sb_dma_asic_mode_base_address = ([], [])"
  "register_defects sb_dma_descriptor_doubleword = ([], [])"
  "register_defects sb_dma_descriptor_doubleword_b = ([], [])"
  "register_defects sb_dma_descriptor_doubleword_b_status = ([], [])"
  "register_defects sb_dma_ethernet_transmit_status_bits = ([], [])"
  "register_defects sb_dma_serial_receive_options = ([], [])"
  "register_defects sb_dma_serial_transmit_status_bits = ([], [])"
  "register_defects sb_dma_data_mover_descriptor_base_address_dm = ([], [])"
  "register_defects sb_dma_data_mover_descriptor_base_address_dm_read = ([], [])"
  "register_defects sb_dma_data_mover_current_descriptor_address_dm = ([], [])"
  "register_defects sb_dma_data_mover_descriptor_doubleword_b = ([], [])"
  by (simp_all add: ascending_eval sb1250_dma_defs)

lemma sb1250_dma_ascending_revisions:
  "register_defects (sb_dma_ethernet_serial_dma_configuration_0_dma (SIBYTE_HDR_FMASK p)) = ([], [])"
  "register_defects (sb_dma_ethernet_serial_dma_configuration_1_dma (SIBYTE_HDR_FMASK p)) = ([], [])"
  "register_defects (sb_dma_ethernet_serial_dma_configuration_1_dma_tx (SIBYTE_HDR_FMASK p)) = ([], [])"
  "register_defects (sb_dma_current_descriptor_address (SIBYTE_HDR_FMASK p)) = ([], [])"
  "register_defects (sb_dma_receive_packet_drop (SIBYTE_HDR_FMASK p)) = ([], [])"
  "register_defects (sb_dma_descriptor_doubleword_unaligned (SIBYTE_HDR_FMASK p)) = ([], [])"
  "register_defects (sb_dma_descriptor_doubleword_b_unaligned (SIBYTE_HDR_FMASK p)) = ([], [])"
  "register_defects (sb_dma_data_mover_channel_partial_result_dm (SIBYTE_HDR_FMASK p)) = ([], [])"
  "register_defects (sb_dma_data_mover_crc_definition_crc_def (SIBYTE_HDR_FMASK p)) = ([], [])"
  "register_defects (sb_dma_data_mover_crc_checksum_definition_ctcp (SIBYTE_HDR_FMASK p)) = ([], [])"
  by (induction p) (simp_all add: ascending_eval sb1250_dma_defs)

lemma sb1250_dma_other_revisions:
  "register_defects (sb_dma_ethernet_descriptor_status (SIBYTE_HDR_FMASK p)) = ([], [])"
  "register_defects (sb_dma_data_mover_descriptor_doubleword (SIBYTE_HDR_FMASK p)) = (if p \<in> {BCM1250_PASS1, BCM1250_PASS2} then ([], [])
      else ([], [(''DM_DSCRA_CRC_XBIT'', ''DM_DSCRA_RESERVED2'')]))"
  by (induction p) (simp_all add: register_eval sb1250_dma_defs)

lemma sb1250_dma_defects:
  "defects (sb1250_dma (SIBYTE_HDR_FMASK p)) =
     (if p \<in> {BCM1250_PASS1, BCM1250_PASS2} then []
      else [(''data_mover_descriptor_doubleword'', [], [(''DM_DSCRA_CRC_XBIT'', ''DM_DSCRA_RESERVED2'')])])"
  by (simp add: defects_def sb1250_dma_def sb1250_dma_ascending sb1250_dma_ascending_revisions sb1250_dma_other_revisions)

end
