(* ===== verification/Sb1250Genbus.thy ===== *)
theory Sb1250Genbus
  imports Registers
begin

text \<open>
  The registers of the generic bus, PCMCIA and GPIO of the BCM1250 and BCM112x, from \<open>include/sibyte/sb1250_genbus.h\<close>, one list of fields for each
  register the header describes.
\<close>

unbundle bit_operations_syntax

subsection \<open>Generic Bus Region Configuration Registers (Table 11-4)\<close>

definition sb_genbus_generic_bus_region_configuration :: "u32 \<Rightarrow> register" where
  "sb_genbus_generic_bus_region_configuration ft =
     [(''IO_RDY_ACTIVE'', flag 0),
      (''IO_ENA_RDY'', flag 1),
      (''IO_WIDTH_SEL'', codes ([K ''1'' 0,
        K ''2'' 1] @ only_if (SIBYTE_HDR_FEATURE ft BCM1250_PASS2 \<or> SIBYTE_HDR_FEATURE ft BCM112x_PASS1 \<or> SIBYTE_HDR_FEATURE_CHIP ft BCM1480) [K ''1L'' 2] @ [K ''4'' 3]) (field 2 2)),
      (''IO_PARITY_ENA'', flag 4)]
     @ only_if (SIBYTE_HDR_FEATURE ft BCM1250_PASS2 \<or> SIBYTE_HDR_FEATURE ft BCM112x_PASS1 \<or> SIBYTE_HDR_FEATURE_CHIP ft BCM1480)
     [(''IO_BURST_EN'', flag 5)]
     @ [(''IO_PARITY_ODD'', flag 6),
      (''IO_NONMUX'', flag 7),
      (''IO_TIMEOUT'', field 8 8)]"

subsection \<open>Generic Bus Region Size register (Table 11-5)\<close>

definition sb_genbus_generic_bus_region_size :: register where
  "sb_genbus_generic_bus_region_size =
     [(''IO_MULT_SIZE'', field 12 0)]"

definition sb_genbus_generic_bus_region_size_consts :: "(string \<times> u64) list" where
  "sb_genbus_generic_bus_region_size_consts =
     [(''S_IO_REGSIZE'', 16)]"

subsection \<open>Generic Bus Region Address (Table 11-6)\<close>

definition sb_genbus_generic_bus_region_address :: register where
  "sb_genbus_generic_bus_region_address =
     [(''IO_START_ADDR'', field 14 0),
      (''IO_BLK_CACHE'', flag 15)]"

definition sb_genbus_generic_bus_region_address_consts :: "(string \<times> u64) list" where
  "sb_genbus_generic_bus_region_address_consts =
     [(''S_IO_ADDRBASE'', 16)]"

subsection \<open>Generic Bus Timing 0 Registers (Table 11-7)\<close>

definition sb_genbus_generic_bus_timing_0 :: "u32 \<Rightarrow> register" where
  "sb_genbus_generic_bus_timing_0 ft =
     [(''IO_ALE_WIDTH'', field 3 0)]
     @ only_if (SIBYTE_HDR_FEATURE ft BCM1250_PASS2 \<or> SIBYTE_HDR_FEATURE ft BCM112x_PASS1 \<or> SIBYTE_HDR_FEATURE_CHIP ft BCM1480)
     [(''IO_EARLY_CS'', flag 3)]
     @ [(''IO_ALE_TO_CS'', field 2 4)]
     @ only_if (SIBYTE_HDR_FEATURE ft BCM1250_PASS2 \<or> SIBYTE_HDR_FEATURE ft BCM112x_PASS1 \<or> SIBYTE_HDR_FEATURE_CHIP ft BCM1480)
     [(''IO_BURST_WIDTH'', field 2 6)]
     @ [(''IO_CS_WIDTH'', field 5 8),
      (''IO_RDY_SMPLE'', field 3 13)]"

subsection \<open>Generic Bus Timing 1 Registers (Table 11-8)\<close>

definition sb_genbus_generic_bus_timing_1 :: "u32 \<Rightarrow> register" where
  "sb_genbus_generic_bus_timing_1 ft =
     [(''IO_ALE_TO_WRITE'', field 3 0)]
     @ only_if (SIBYTE_HDR_FEATURE ft BCM1250_PASS2 \<or> SIBYTE_HDR_FEATURE ft BCM112x_PASS1 \<or> SIBYTE_HDR_FEATURE_CHIP ft BCM1480)
     [(''IO_RDY_SYNC'', flag 3)]
     @ [(''IO_WRITE_WIDTH'', field 4 4),
      (''IO_IDLE_CYCLE'', field 4 8),
      (''IO_OE_TO_CS'', field 2 12),
      (''IO_CS_TO_OE'', field 2 14)]"

subsection \<open>Generic Bus Interrupt Status Register (Table 11-9)\<close>

definition sb_genbus_generic_bus_interrupt_status :: "u32 \<Rightarrow> register" where
  "sb_genbus_generic_bus_interrupt_status ft =
     [(''IO_CS_ERR_INT'', bits 0 8),
      (''IO_CS0_ERR_INT'', flag 0),
      (''IO_CS1_ERR_INT'', flag 1),
      (''IO_CS2_ERR_INT'', flag 2),
      (''IO_CS3_ERR_INT'', flag 3),
      (''IO_CS4_ERR_INT'', flag 4),
      (''IO_CS5_ERR_INT'', flag 5),
      (''IO_CS6_ERR_INT'', flag 6),
      (''IO_CS7_ERR_INT'', flag 7),
      (''IO_RD_PAR_INT'', flag 9),
      (''IO_TIMEOUT_INT'', flag 10),
      (''IO_ILL_ADDR_INT'', flag 11),
      (''IO_MULT_CS_INT'', flag 12)]
     @ only_if (SIBYTE_HDR_FEATURE ft BCM1250_PASS2 \<or> SIBYTE_HDR_FEATURE ft BCM112x_PASS1 \<or> SIBYTE_HDR_FEATURE_CHIP ft BCM1480)
     [(''IO_COH_ERR'', flag 14)]"

subsection \<open>Generic Bus Output Drive Control Register 0 (Table 14-18)\<close>

definition sb_genbus_generic_bus_output_drive_control_0 :: register where
  "sb_genbus_generic_bus_output_drive_control_0 =
     [(''IO_SLEW0'', field 2 0),
      (''IO_DRV_A'', field 2 2),
      (''IO_DRV_B'', field 2 6),
      (''IO_DRV_C'', field 2 10),
      (''IO_DRV_D'', field 2 14)]"

subsection \<open>Generic Bus Output Drive Control Register 1 (Table 14-19)\<close>

definition sb_genbus_generic_bus_output_drive_control_1 :: register where
  "sb_genbus_generic_bus_output_drive_control_1 =
     [(''IO_DRV_E'', field 2 2),
      (''IO_DRV_F'', field 2 6),
      (''IO_SLEW1'', field 2 8),
      (''IO_DRV_G'', field 2 10),
      (''IO_SLEW2'', field 2 12),
      (''IO_DRV_H'', field 2 14)]"

subsection \<open>Generic Bus Output Drive Control Register 2 (Table 14-20)\<close>

definition sb_genbus_generic_bus_output_drive_control_2 :: register where
  "sb_genbus_generic_bus_output_drive_control_2 =
     [(''IO_DRV_J'', field 2 2),
      (''IO_DRV_K'', field 2 6),
      (''IO_DRV_L'', field 2 10),
      (''IO_DRV_M'', field 2 14)]"

subsection \<open>Generic Bus Output Drive Control Register 3 (Table 14-21)\<close>

definition sb_genbus_generic_bus_output_drive_control_3 :: register where
  "sb_genbus_generic_bus_output_drive_control_3 =
     [(''IO_SLEW3'', field 2 0),
      (''IO_DRV_N'', field 2 2),
      (''IO_DRV_P'', field 2 6),
      (''IO_DRV_Q'', field 2 10),
      (''IO_DRV_R'', field 2 14)]"

subsection \<open>PCMCIA configuration register (Table 12-6)\<close>

definition sb_genbus_pcmcia_configuration :: "u32 \<Rightarrow> register" where
  "sb_genbus_pcmcia_configuration ft =
     [(''PCMCIA_CFG_ATTRMEM'', flag 0),
      (''PCMCIA_CFG_3VEN'', flag 1),
      (''PCMCIA_CFG_5VEN'', flag 2),
      (''PCMCIA_CFG_VPPEN'', flag 3),
      (''PCMCIA_CFG_RESET'', flag 4),
      (''PCMCIA_CFG_APWRONEN'', flag 5),
      (''PCMCIA_CFG_CDMASK'', flag 6),
      (''PCMCIA_CFG_WPMASK'', flag 7),
      (''PCMCIA_CFG_RDYMASK'', flag 8),
      (''PCMCIA_CFG_PWRCTL'', flag 9)]
     @ only_if (SIBYTE_HDR_FEATURE_CHIP ft BCM1480)
     [(''PCMCIA_MODE'', codes [K ''PCMA_NOB'' 0, K ''IDEA_NOB'' 1, K ''PCMIOA_NOB'' 2, K ''PCMA_PCMB'' 4,
        K ''IDEA_PCMB'' 5, K ''PCMA_IDEB'' 6, K ''IDEA_IDEB'' 7] (field 3 16))]"

subsection \<open>PCMCIA status register (Table 12-7)\<close>

definition sb_genbus_pcmcia_status :: register where
  "sb_genbus_pcmcia_status =
     [(''PCMCIA_STATUS_CD1'', flag 0),
      (''PCMCIA_STATUS_CD2'', flag 1),
      (''PCMCIA_STATUS_VS1'', flag 2),
      (''PCMCIA_STATUS_VS2'', flag 3),
      (''PCMCIA_STATUS_WP'', flag 4),
      (''PCMCIA_STATUS_RDY'', flag 5),
      (''PCMCIA_STATUS_3VEN'', flag 6),
      (''PCMCIA_STATUS_5VEN'', flag 7),
      (''PCMCIA_STATUS_CDCHG'', flag 8),
      (''PCMCIA_STATUS_WPCHG'', flag 9),
      (''PCMCIA_STATUS_RDYCHG'', flag 10)]"

subsection \<open>GPIO Interrupt Type Register (table 13-3)\<close>

definition sb_genbus_gpio_interrupt_type :: register where
  "sb_genbus_gpio_interrupt_type =
     [(''GPIO_INTR_TYPE0'', field 2 0),
      (''GPIO_INTR_TYPE2'', field 2 2),
      (''GPIO_INTR_TYPE4'', field 2 4),
      (''GPIO_INTR_TYPE6'', field 2 6),
      (''GPIO_INTR_TYPE8'', field 2 8),
      (''GPIO_INTR_TYPE10'', field 2 10),
      (''GPIO_INTR_TYPE12'', field 2 12),
      (''GPIO_INTR_TYPE14'', field 2 14)]"

definition sb_genbus_gpio_interrupt_type_consts :: "(string \<times> u64) list" where
  "sb_genbus_gpio_interrupt_type_consts =
     [(''K_GPIO_INTR_DISABLE'', 0), (''K_GPIO_INTR_EDGE'', 1), (''K_GPIO_INTR_LEVEL'', 2),
      (''K_GPIO_INTR_SPLIT'', 3)]"

definition GPIO_INTR_TYPEX :: "nat \<Rightarrow> field" where "GPIO_INTR_TYPEX n = field 2 (n div 2 * 2)"

subsection \<open>GPIO Interrupt Additional Type Register\<close>

definition sb_genbus_gpio_interrupt_additional_type :: "u32 \<Rightarrow> register" where
  "sb_genbus_gpio_interrupt_additional_type ft =
     only_if (SIBYTE_HDR_FEATURE_CHIP ft BCM1480)
     [(''GPIO_INTR_ATYPE0'', field 2 0),
      (''GPIO_INTR_ATYPE2'', field 2 2),
      (''GPIO_INTR_ATYPE4'', field 2 4),
      (''GPIO_INTR_ATYPE6'', field 2 6),
      (''GPIO_INTR_ATYPE8'', field 2 8),
      (''GPIO_INTR_ATYPE10'', field 2 10),
      (''GPIO_INTR_ATYPE12'', field 2 12),
      (''GPIO_INTR_ATYPE14'', field 2 14)]"

definition sb_genbus_gpio_interrupt_additional_type_consts :: "u32 \<Rightarrow> (string \<times> u64) list" where
  "sb_genbus_gpio_interrupt_additional_type_consts ft =
     only_if (SIBYTE_HDR_FEATURE_CHIP ft BCM1480)
     [(''K_GPIO_INTR_BOTHEDGE'', 0), (''K_GPIO_INTR_RISEEDGE'', 1), (''K_GPIO_INTR_UNPRED1'', 2),
      (''K_GPIO_INTR_UNPRED2'', 3)]"

definition GPIO_INTR_ATYPEX :: "nat \<Rightarrow> field" where "GPIO_INTR_ATYPEX n = field 2 (n div 2 * 2)"

definition genbus_gpio_types_by_pin :: register where
  "genbus_gpio_types_by_pin = map (\<lambda>n. (''INTR_TYPEX'', GPIO_INTR_TYPEX (2 * n))) [0..<8]"

definition genbus_gpio_additional_types_by_pin :: register where
  "genbus_gpio_additional_types_by_pin = map (\<lambda>n. (''INTR_ATYPEX'', GPIO_INTR_ATYPEX (2 * n))) [0..<8]"

subsection \<open>The header\<close>

definition sb1250_genbus :: "u32 \<Rightarrow> header" where
  "sb1250_genbus ft =
     [(''generic_bus_region_configuration'', sb_genbus_generic_bus_region_configuration ft),
      (''generic_bus_region_size'', sb_genbus_generic_bus_region_size),
      (''generic_bus_region_address'', sb_genbus_generic_bus_region_address),
      (''generic_bus_timing_0'', sb_genbus_generic_bus_timing_0 ft),
      (''generic_bus_timing_1'', sb_genbus_generic_bus_timing_1 ft),
      (''generic_bus_interrupt_status'', sb_genbus_generic_bus_interrupt_status ft),
      (''generic_bus_output_drive_control_0'', sb_genbus_generic_bus_output_drive_control_0),
      (''generic_bus_output_drive_control_1'', sb_genbus_generic_bus_output_drive_control_1),
      (''generic_bus_output_drive_control_2'', sb_genbus_generic_bus_output_drive_control_2),
      (''generic_bus_output_drive_control_3'', sb_genbus_generic_bus_output_drive_control_3),
      (''pcmcia_configuration'', sb_genbus_pcmcia_configuration ft),
      (''pcmcia_status'', sb_genbus_pcmcia_status),
      (''gpio_interrupt_type'', sb_genbus_gpio_interrupt_type),
      (''gpio_interrupt_additional_type'', sb_genbus_gpio_interrupt_additional_type ft),
      (''genbus_gpio_types_by_pin'', genbus_gpio_types_by_pin),
      (''genbus_gpio_additional_types_by_pin'', genbus_gpio_additional_types_by_pin)]"

lemmas sb1250_genbus_defs = sb1250_genbus_def
    sb_genbus_generic_bus_region_configuration_def sb_genbus_generic_bus_region_size_def 
    sb_genbus_generic_bus_region_address_def sb_genbus_generic_bus_timing_0_def 
    sb_genbus_generic_bus_timing_1_def sb_genbus_generic_bus_interrupt_status_def 
    sb_genbus_generic_bus_output_drive_control_0_def sb_genbus_generic_bus_output_drive_control_1_def 
    sb_genbus_generic_bus_output_drive_control_2_def sb_genbus_generic_bus_output_drive_control_3_def 
    sb_genbus_pcmcia_configuration_def sb_genbus_pcmcia_status_def sb_genbus_gpio_interrupt_type_def 
    sb_genbus_gpio_interrupt_additional_type_def genbus_gpio_types_by_pin_def 
    genbus_gpio_additional_types_by_pin_def GPIO_INTR_TYPEX_def GPIO_INTR_ATYPEX_def

lemma sb1250_genbus_ascending:
  "register_defects sb_genbus_generic_bus_region_size = ([], [])"
  "register_defects sb_genbus_generic_bus_region_address = ([], [])"
  "register_defects sb_genbus_generic_bus_output_drive_control_0 = ([], [])"
  "register_defects sb_genbus_generic_bus_output_drive_control_1 = ([], [])"
  "register_defects sb_genbus_generic_bus_output_drive_control_2 = ([], [])"
  "register_defects sb_genbus_generic_bus_output_drive_control_3 = ([], [])"
  "register_defects sb_genbus_pcmcia_status = ([], [])"
  "register_defects sb_genbus_gpio_interrupt_type = ([], [])"
  by (simp_all add: ascending_eval sb1250_genbus_defs)

lemma sb1250_genbus_others:
  "register_defects genbus_gpio_types_by_pin = ([], [])"
  "register_defects genbus_gpio_additional_types_by_pin = ([], [])"
  by (simp_all add: register_eval sb1250_genbus_defs)

lemma sb1250_genbus_ascending_revisions:
  "register_defects (sb_genbus_generic_bus_region_configuration (SIBYTE_HDR_FMASK p)) = ([], [])"
  "register_defects (sb_genbus_generic_bus_timing_0 (SIBYTE_HDR_FMASK p)) = ([], [])"
  "register_defects (sb_genbus_generic_bus_timing_1 (SIBYTE_HDR_FMASK p)) = ([], [])"
  "register_defects (sb_genbus_pcmcia_configuration (SIBYTE_HDR_FMASK p)) = ([], [])"
  "register_defects (sb_genbus_gpio_interrupt_additional_type (SIBYTE_HDR_FMASK p)) = ([], [])"
  by (induction p) (simp_all add: ascending_eval sb1250_genbus_defs)

lemma sb1250_genbus_other_revisions:
  "register_defects (sb_genbus_generic_bus_interrupt_status (SIBYTE_HDR_FMASK p)) = ([''IO_CS_ERR_INT''], [])"
  by (induction p) (simp_all add: register_eval sb1250_genbus_defs)

lemma sb1250_genbus_defects:
  "defects (sb1250_genbus (SIBYTE_HDR_FMASK p)) =
     [(''generic_bus_interrupt_status'', [''IO_CS_ERR_INT''], [])]"
  by (simp add: defects_def sb1250_genbus_def sb1250_genbus_ascending sb1250_genbus_others sb1250_genbus_ascending_revisions sb1250_genbus_other_revisions)

end
