(* ===== verification/Sb1250Int.thy ===== *)
theory Sb1250Int
  imports Registers
begin

text \<open>
  The registers of the interrupt mapper of the BCM1250 and BCM112x, from \<open>include/sibyte/sb1250_int.h\<close>, one list of fields for each
  register the header describes.
\<close>

unbundle bit_operations_syntax

subsection \<open>Interrupt sources\<close>

definition sb_int_interrupt_sources :: "u32 \<Rightarrow> (string \<times> u64) list" where
  "sb_int_interrupt_sources ft =
     only_if (SIBYTE_HDR_FEATURE_1250_112x ft)
     [(''SOURCES'', 64), (''WATCHDOG_TIMER_0'', 0), (''WATCHDOG_TIMER_1'', 1), (''TIMER_0'', 2), (''TIMER_1'',
        3),
      (''TIMER_2'', 4), (''TIMER_3'', 5), (''SMB_0'', 6), (''SMB_1'', 7), (''UART_0'', 8), (''UART_1'', 9),
      (''SER_0'', 10), (''SER_1'', 11), (''PCMCIA'', 12), (''ADDR_TRAP'', 13), (''PERF_CNT'', 14),
      (''TRACE_FREEZE'', 15), (''BAD_ECC'', 16), (''COR_ECC'', 17), (''IO_BUS'', 18), (''MAC_0'', 19),
      (''MAC_1'', 20), (''MAC_2'', 21), (''DM_CH_0'', 22), (''DM_CH_1'', 23), (''DM_CH_2'', 24), (''DM_CH_3'',
        25),
      (''MBOX_0'', 26), (''MBOX_1'', 27), (''MBOX_2'', 28), (''MBOX_3'', 29)]
     @ only_if (SIBYTE_HDR_FEATURE_1250_112x ft \<and> (SIBYTE_HDR_FEATURE ft BCM1250_PASS2 \<or> SIBYTE_HDR_FEATURE ft BCM112x_PASS1))
     [(''CYCLE_CP0_INT'', 30), (''CYCLE_CP1_INT'', 31)]
     @ only_if (SIBYTE_HDR_FEATURE_1250_112x ft)
     [(''GPIO_0'', 32), (''GPIO_1'', 33), (''GPIO_2'', 34), (''GPIO_3'', 35), (''GPIO_4'', 36), (''GPIO_5'',
        37),
      (''GPIO_6'', 38), (''GPIO_7'', 39), (''GPIO_8'', 40), (''GPIO_9'', 41), (''GPIO_10'', 42), (''GPIO_11'',
        43),
      (''GPIO_12'', 44), (''GPIO_13'', 45), (''GPIO_14'', 46), (''GPIO_15'', 47), (''LDT_FATAL'', 48),
      (''LDT_NONFATAL'', 49), (''LDT_SMI'', 50), (''LDT_NMI'', 51), (''LDT_INIT'', 52), (''LDT_STARTUP'', 53),
      (''LDT_EXT'', 54), (''PCI_ERROR'', 55), (''PCI_INTA'', 56), (''PCI_INTB'', 57), (''PCI_INTC'', 58),
      (''PCI_INTD'', 59), (''SPARE_2'', 60)]
     @ only_if (SIBYTE_HDR_FEATURE_1250_112x ft \<and> (SIBYTE_HDR_FEATURE ft BCM1250_PASS2 \<or> SIBYTE_HDR_FEATURE ft BCM112x_PASS1))
     [(''MAC_0_CH1'', 61), (''MAC_1_CH1'', 62), (''MAC_2_CH1'', 63)]"

subsection \<open>Mask values for each interrupt\<close>

definition sb_int_mask_values_each_interrupt :: "u32 \<Rightarrow> register" where
  "sb_int_mask_values_each_interrupt ft =
     only_if (SIBYTE_HDR_FEATURE_1250_112x ft)
     [(''WATCHDOG_TIMER_0'', flag 0),
      (''WATCHDOG_TIMER_1'', flag 1),
      (''TIMER_0'', flag 2),
      (''TIMER_1'', flag 3),
      (''TIMER_2'', flag 4),
      (''TIMER_3'', flag 5),
      (''SMB_0'', flag 6),
      (''SMB_1'', flag 7),
      (''UART_0'', flag 8),
      (''UART_1'', flag 9),
      (''SER_0'', flag 10),
      (''SER_1'', flag 11),
      (''PCMCIA'', flag 12),
      (''ADDR_TRAP'', flag 13),
      (''PERF_CNT'', flag 14),
      (''TRACE_FREEZE'', flag 15),
      (''BAD_ECC'', flag 16),
      (''COR_ECC'', flag 17),
      (''IO_BUS'', flag 18),
      (''MAC_0'', flag 19),
      (''MAC_1'', flag 20),
      (''MAC_2'', flag 21),
      (''DM_CH_0'', flag 22),
      (''DM_CH_1'', flag 23),
      (''DM_CH_2'', flag 24),
      (''DM_CH_3'', flag 25),
      (''MBOX_0'', flag 26),
      (''MBOX_1'', flag 27),
      (''MBOX_2'', flag 28),
      (''MBOX_3'', flag 29)]
     @ only_if (SIBYTE_HDR_FEATURE_1250_112x ft \<and> (SIBYTE_HDR_FEATURE ft BCM1250_PASS2 \<or> SIBYTE_HDR_FEATURE ft BCM112x_PASS1))
     [(''CYCLE_CP0_INT'', flag 30),
      (''CYCLE_CP1_INT'', flag 31)]
     @ only_if (SIBYTE_HDR_FEATURE_1250_112x ft)
     [(''GPIO_0'', flag 32),
      (''GPIO_1'', flag 33),
      (''GPIO_2'', flag 34),
      (''GPIO_3'', flag 35),
      (''GPIO_4'', flag 36),
      (''GPIO_5'', flag 37),
      (''GPIO_6'', flag 38),
      (''GPIO_7'', flag 39),
      (''GPIO_8'', flag 40),
      (''GPIO_9'', flag 41),
      (''GPIO_10'', flag 42),
      (''GPIO_11'', flag 43),
      (''GPIO_12'', flag 44),
      (''GPIO_13'', flag 45),
      (''GPIO_14'', flag 46),
      (''GPIO_15'', flag 47),
      (''LDT_FATAL'', flag 48),
      (''LDT_NONFATAL'', flag 49),
      (''LDT_SMI'', flag 50),
      (''LDT_NMI'', flag 51),
      (''LDT_INIT'', flag 52),
      (''LDT_STARTUP'', flag 53),
      (''LDT_EXT'', flag 54),
      (''PCI_ERROR'', flag 55),
      (''PCI_INTA'', flag 56),
      (''PCI_INTB'', flag 57),
      (''PCI_INTC'', flag 58),
      (''PCI_INTD'', flag 59),
      (''SPARE_2'', flag 60)]
     @ only_if (SIBYTE_HDR_FEATURE_1250_112x ft \<and> (SIBYTE_HDR_FEATURE ft BCM1250_PASS2 \<or> SIBYTE_HDR_FEATURE ft BCM112x_PASS1))
     [(''MAC_0_CH1'', flag 61),
      (''MAC_1_CH1'', flag 62),
      (''MAC_2_CH1'', flag 63)]"

subsection \<open>Interrupt mappings\<close>

definition sb_int_interrupt_mappings :: "u32 \<Rightarrow> (string \<times> u64) list" where
  "sb_int_interrupt_mappings ft =
     only_if (SIBYTE_HDR_FEATURE_1250_112x ft)
     [(''MAP_I0'', 0), (''MAP_I1'', 1), (''MAP_I2'', 2), (''MAP_I3'', 3), (''MAP_I4'', 4), (''MAP_I5'', 5),
      (''MAP_NMI'', 6), (''MAP_DINT'', 7)]"

subsection \<open>LDT Interrupt Set Register (table 4-5)\<close>

definition sb_int_ldt_interrupt_set :: "u32 \<Rightarrow> register" where
  "sb_int_ldt_interrupt_set ft =
     only_if (SIBYTE_HDR_FEATURE_1250_112x ft)
     [(''LDT_INTMSG'', codes [K ''FIXED'' 0, K ''ARBITRATED'' 1, K ''SMI'' 2, K ''NMI'' 3, K ''INIT'' 4,
        K ''STARTUP'' 5, K ''EXTINT'' 6, K ''RESERVED'' 7] (field 3 0)),
      (''LDT_LEVELTRIGGER'', flag 3),
      (''LDT_LOGICALDEST'', flag 4),
      (''LDT_INTDEST'', field 10 5),
      (''LDT_VECTOR'', field 8 13)]"

definition M_INT_LDT_EDGETRIGGER :: u64 where
  "M_INT_LDT_EDGETRIGGER = 0"

definition M_INT_LDT_PHYSICALDEST :: u64 where
  "M_INT_LDT_PHYSICALDEST = 0"

subsection \<open>Vector format (Table 4-6)\<close>

definition M_LDTVECT_RAISEINT :: u64 where
  "M_LDTVECT_RAISEINT = 0"

definition M_LDTVECT_RAISEMBOX :: u64 where
  "M_LDTVECT_RAISEMBOX = 64"

subsection \<open>The header\<close>

definition sb1250_int :: "u32 \<Rightarrow> header" where
  "sb1250_int ft =
     [(''mask_values_each_interrupt'', sb_int_mask_values_each_interrupt ft),
      (''ldt_interrupt_set'', sb_int_ldt_interrupt_set ft)]"

lemmas sb1250_int_defs = sb1250_int_def
    sb_int_mask_values_each_interrupt_def sb_int_ldt_interrupt_set_def

lemma sb1250_int_ascending_revisions:
  "register_defects (sb_int_mask_values_each_interrupt (SIBYTE_HDR_FMASK p)) = ([], [])"
  by (induction p) (simp_all add: ascending_eval sb1250_int_defs)

lemma sb1250_int_other_revisions:
  "register_defects (sb_int_ldt_interrupt_set (SIBYTE_HDR_FMASK p)) = (if p \<in> {BCM1480_PASS1} then ([], [])
      else ([], [(''LDT_INTDEST'', ''LDT_VECTOR'')]))"
  by (induction p) (simp_all add: register_eval sb1250_int_defs)

lemma sb1250_int_defects:
  "defects (sb1250_int (SIBYTE_HDR_FMASK p)) =
     (if p \<in> {BCM1480_PASS1} then []
      else [(''ldt_interrupt_set'', [], [(''LDT_INTDEST'', ''LDT_VECTOR'')])])"
  by (simp add: defects_def sb1250_int_def sb1250_int_ascending_revisions sb1250_int_other_revisions)

end
