(* ===== verification/Sb1250Jtag.thy ===== *)
theory Sb1250Jtag
  imports Registers
begin

text \<open>
  The registers of the JTAG chains of the BCM1250 and BCM112x, from \<open>include/sibyte/sb1250_jtag.h\<close>, one list of fields for each
  register the header describes.
\<close>

unbundle bit_operations_syntax

subsection \<open>JTAG identification values\<close>

definition sb_jtag_identification_values :: "(string \<times> u64) list" where
  "sb_jtag_identification_values =
     [(''SB1250_IDCODE_VAL'', 0x112502a1), (''SIBYTE_IMPCODE_VAL'', 0x21404001),
      (''SIBYTE_IMPCODE_VAL_OLD'', 0x20814001)]"

subsection \<open>JTAG Memory region\<close>

definition sb_jtag_memory_region :: "(string \<times> u64) list" where
  "sb_jtag_memory_region =
     [(''K_SCD_JTAG_MEMBASE'', 0x10000000), (''K_SCD_JTAG_MEMSIZE'', 0x20000), (''K_SCD_JTAG_MEMTOP'',
        0x10020000)]"

subsection \<open>JTAG Instruction Register values\<close>

definition sb_jtag_instruction_values :: "u32 \<Rightarrow> (string \<times> u64) list" where
  "sb_jtag_instruction_values ft =
     [(''SIBYTE_EXTEST'', 0), (''SIBYTE_IDCODE'', 1), (''SIBYTE_IMPCODE'', 3), (''SIBYTE_ADDRESS'', 8),
      (''SIBYTE_DATA'', 9), (''SIBYTE_CONTROL'', 10), (''SIBYTE_EJTAGALL'', 11), (''SIBYTE_EJTAGBOOT'', 12),
      (''SIBYTE_NORMALBOOT'', 13), (''SIBYTE_SYSCTRL'', 32), (''SIBYTE_TRACE'', 33), (''SIBYTE_PERF'', 34),
      (''SIBYTE_TRCTRL'', 35), (''SIBYTE_WAFERID'', 36), (''SIBYTE_PMON'', 37)]
     @ only_if (SIBYTE_HDR_FEATURE_1250_112x ft)
     [(''SB1250_CPU0OSC'', 38), (''SB1250_CPU0DSC'', 39), (''SB1250_CPU0TSC'', 40), (''SB1250_CPU1OSC'', 42),
      (''SB1250_CPU1DSC'', 43), (''SB1250_CPU1TSC'', 44), (''SB1250_SCANIOB0'', 46), (''SB1250_SCANIOB1'', 48),
      (''SB1250_SCANL2C'', 50), (''SB1250_SCANMC'', 52), (''SB1250_SCANSCD'', 54), (''SB1250_SCANALL'', 56),
      (''SB1250_BSRMODE'', 58), (''SB1250_SCANTRCCNT'', 59), (''SB1250_CLAMP'', 60), (''SB1250_SAMPLE'', 61),
      (''SB1250_INTEST'', 62), (''SB1250_BYPASS'', 63)]"

subsection \<open>IDCODE\<close>

definition sb_jtag_idcode :: register where
  "sb_jtag_idcode =
     [(''JTAG_REVISION'', field 4 28),
      (''JTAG_PARTNUM'', field 16 12)]"

subsection \<open>These  PART  fields assume PARTNUM has been extracted (and shifted to\<close>

definition sb_jtag_these_part_fields_assume_partnum_has :: register where
  "sb_jtag_these_part_fields_assume_partnum_has =
     [(''JTAG_PART_TYPE'', field 4 0),
      (''JTAG_PART_L2'', codes [K ''1024'' 0, K ''512'' 5, K ''256'' 2, K ''128'' 1] (field 4 4)),
      (''JTAG_PART_CPUS'', field 4 8),
      (''JTAG_PART_CORE'', codes [K ''SB1'' 1] (field 4 12))]"

subsection \<open>EJTAG Control Register (Table 15-14)\<close>

definition sb_jtag_ejtag_control :: "u32 \<Rightarrow> register" where
  "sb_jtag_ejtag_control ft =
     only_if (SIBYTE_HDR_FEATURE_1250_112x ft)
     [(''JTAG_1250_CR_DM0'', flag 0),
      (''JTAG_1250_CR_DM1'', flag 1),
      (''JTAG_1250_CR_EJTAGBreak0'', flag 2),
      (''JTAG_1250_CR_EJTAGBreak1'', flag 3),
      (''JTAG_1250_CR_PrTrap0'', flag 4),
      (''JTAG_1250_CR_PrTrap1'', flag 5),
      (''JTAG_1250_CR_ProbEn'', flag 6),
      (''JTAG_1250_CR_PrAcc'', flag 7),
      (''JTAG_1250_CR_PW'', flag 8),
      (''JTAG_1250_CR_PbAcc'', flag 9),
      (''JTAG_1250_CR_MaSl'', flag 10),
      (''JTAG_1250_CR_ClkStopped'', flag 11),
      (''SYSCFG_1250_BIG_ENDIAN'', flag 22),
      (''SYSCFG_1250_CPU_RESET_0'', flag 54),
      (''SYSCFG_1250_CPU_RESET_1'', flag 55)]"

definition G_JTAG_1250_CR_EJTAGBreak :: "nat \<Rightarrow> u64" where "G_JTAG_1250_CR_EJTAGBreak cpu = push_bit cpu (SB_MAKEMASK1 2)"

definition G_JTAG_1250_CR_PrTrap :: "nat \<Rightarrow> u64" where "G_JTAG_1250_CR_PrTrap cpu = push_bit cpu (SB_MAKEMASK1 4)"

definition M_SYSCFG_1250_CPU_RESET :: "nat \<Rightarrow> u64" where "M_SYSCFG_1250_CPU_RESET n = push_bit n (SB_MAKEMASK1 54)"

subsection \<open>System Config  extension  bits 104:64 (Table 15-5)\<close>

definition sb_jtag_system_config_extension_bits_104_64 :: "u32 \<Rightarrow> register" where
  "sb_jtag_system_config_extension_bits_104_64 ft =
     only_if (SIBYTE_HDR_FEATURE_1250_112x ft)
     [(''SYSCFG_1250_CLKSTOP'', flag 32),
      (''SYSCFG_1250_CLKSTEP'', flag 33),
      (''SYSCFG_1250_CLKCOUNT'', field 8 34),
      (''SYSCFG_1250_PLL_BYPASS'', flag 42),
      (''SYSCFG_1250_SB_SOFTRES'', flag 58),
      (''SYSCFG_1250_SYSTEM_RESET'', flag 60)]"

subsection \<open>These masks are in the second double-word\<close>

definition sb_jtag_these_masks_are_in_second_double :: "u32 \<Rightarrow> register" where
  "sb_jtag_these_masks_are_in_second_double ft =
     only_if (SIBYTE_HDR_FEATURE_1250_112x ft)
     [(''SYSCFG_1250_PLLPHASE'', codes [KV ''A'' 1 1, KV ''B'' 3 3] (field 2 0)),
      (''SYSCFG_1250_PLLCOUNT'', field 30 2),
      (''SYSCFG_1250_PLLSTOP'', flag 32),
      (''SYSCFG_1250_STOPSTRETCH'', flag 33),
      (''SYSCFG_1250_STARTCOND'', flag 34),
      (''SYSCFG_1250_STOPPING'', flag 35),
      (''SYSCFG_1250_STOPSTRDONE'', flag 36),
      (''SYSCFG_1250_SERZB_ARD'', flag 37),
      (''SYSCFG_1250_SERZB_AR'', flag 38),
      (''SYSCFG_1250_STRETCHMODE'', field 2 39)]"

subsection \<open>ZBbus definitions\<close>

definition sb_jtag_zbbus_definitions :: "u32 \<Rightarrow> (string \<times> u64) list" where
  "sb_jtag_zbbus_definitions ft =
     only_if (SIBYTE_HDR_FEATURE_1250_112x ft)
     [(''K_ZB_CMD_READ_SHD'', 0), (''K_ZB_CMD_READ_EXC'', 1), (''K_ZB_CMD_WRITE'', 2), (''K_ZB_CMD_WRITEINV'',
        3),
      (''K_ZB_CMD_INV'', 4), (''K_ZB_CMD_NOP'', 7)]
     @ [(''K_ZB_L1CA_CNCOH'', 0), (''K_ZB_L1CA_CCOH'', 1), (''K_ZB_L1CA_UNC'', 2), (''K_ZB_L1CA_UNC1'', 3),
      (''K_ZB_L2CA_NOALLOC'', 0), (''K_ZB_L2CA_ALLOC'', 1), (''K_ZB_DMOD_CLEAN'', 0), (''K_ZB_DMOD_DIRTY'', 1),
      (''K_ZB_DCODE_NOP'', 0), (''K_ZB_DCODE_VLD'', 1), (''K_ZB_DCODE_VLD_TCORR'', 2),
      (''K_ZB_DCODE_VLD_DCORR'', 3), (''K_ZB_DCODE_BUSERR'', 4), (''K_ZB_DCODE_FATAL_BUSERR'', 5),
      (''K_ZB_DCODE_TAG_UNCORR'', 6), (''K_ZB_DCODE_DATA_UNCORR'', 7)]"

subsection \<open>The header\<close>

definition sb1250_jtag :: "u32 \<Rightarrow> header" where
  "sb1250_jtag ft =
     [(''idcode'', sb_jtag_idcode),
      (''these_part_fields_assume_partnum_has'', sb_jtag_these_part_fields_assume_partnum_has),
      (''ejtag_control'', sb_jtag_ejtag_control ft),
      (''system_config_extension_bits_104_64'', sb_jtag_system_config_extension_bits_104_64 ft),
      (''these_masks_are_in_second_double'', sb_jtag_these_masks_are_in_second_double ft)]"

lemmas sb1250_jtag_defs = sb1250_jtag_def
    sb_jtag_idcode_def sb_jtag_these_part_fields_assume_partnum_has_def sb_jtag_ejtag_control_def 
    sb_jtag_system_config_extension_bits_104_64_def sb_jtag_these_masks_are_in_second_double_def

lemma sb1250_jtag_ascending:
  "register_defects sb_jtag_these_part_fields_assume_partnum_has = ([], [])"
  by (simp_all add: ascending_eval sb1250_jtag_defs)

lemma sb1250_jtag_others:
  "register_defects sb_jtag_idcode = ([], [])"
  by (simp_all add: register_eval sb1250_jtag_defs)

lemma sb1250_jtag_ascending_revisions:
  "register_defects (sb_jtag_ejtag_control (SIBYTE_HDR_FMASK p)) = ([], [])"
  "register_defects (sb_jtag_system_config_extension_bits_104_64 (SIBYTE_HDR_FMASK p)) = ([], [])"
  "register_defects (sb_jtag_these_masks_are_in_second_double (SIBYTE_HDR_FMASK p)) = ([], [])"
  by (induction p) (simp_all add: ascending_eval sb1250_jtag_defs)

lemma sb1250_jtag_defects:
  "defects (sb1250_jtag (SIBYTE_HDR_FMASK p)) =
     []"
  by (simp add: defects_def sb1250_jtag_def sb1250_jtag_ascending sb1250_jtag_others sb1250_jtag_ascending_revisions)

end
