(* ===== verification/Sb1250L2c.thy ===== *)
theory Sb1250L2c
  imports Registers
begin

text \<open>
  The registers of the level 2 cache of the BCM1250 and BCM112x, from \<open>include/sibyte/sb1250_l2c.h\<close>, one list of fields for each
  register the header describes. Fields that share the bits of others, because they are
  another view of the register or belong to another register of the same description, are in a
  list of their own.
\<close>

unbundle bit_operations_syntax

subsection \<open>Level 2 Cache Tag register (Table 5-3)\<close>

definition sb_l2c_level_2_cache_tag :: register where
  "sb_l2c_level_2_cache_tag =
     [(''TAG_MBZ'', bits 5 0),
      (''TAG_INDEX'', field 12 5),
      (''TAG_TAG'', field 23 17),
      (''TAG_ECC'', field 6 40),
      (''TAG_WAY'', field 2 46),
      (''TAG_DIRTY'', flag 48),
      (''TAG_VALID'', flag 49)]"

subsection \<open>Format of level 2 cache management address (table 5-2)\<close>

definition sb_l2c_format_level_2_cache_management_address :: register where
  "sb_l2c_format_level_2_cache_management_address =
     [(''MGMT_INDEX'', field 12 5),
      (''MGMT_WAY'', field 2 17),
      (''MGMT_ECC_DIAG'', field 2 21),
      (''MGMT_TAG'', field 4 23),
      (''MGMT_DIRTY'', flag 19),
      (''MGMT_VALID'', flag 20)]"

definition sb_l2c_format_level_2_cache_management_address_quadrant :: register where
  "sb_l2c_format_level_2_cache_management_address_quadrant =
     [(''MGMT_QUADRANT'', field 2 15)]"

definition sb_l2c_format_level_2_cache_management_address_half :: register where
  "sb_l2c_format_level_2_cache_management_address_half =
     [(''MGMT_HALF'', bits 1 16)]"

definition sb_l2c_format_level_2_cache_management_address_consts :: "(string \<times> u64) list" where
  "sb_l2c_format_level_2_cache_management_address_consts =
     [(''MGMT_TAG_BASE'', 0xd0000000), (''L2C_ENTRIES_PER_WAY'', 0x1000), (''L2C_NUM_WAYS'', 4)]"

subsection \<open>L2 Read Misc. register (A L2 READ MISC)\<close>

definition sb_l2c_l2_read_misc :: "u32 \<Rightarrow> register" where
  "sb_l2c_l2_read_misc ft =
     only_if (SIBYTE_HDR_FEATURE ft BCM1250_PASS3 \<or> SIBYTE_HDR_FEATURE ft BCM112x_PASS1)
     [(''MISC_NO_WAY'', field 4 10),
      (''MISC_ECC_CLEANUP_DIS'', flag 9),
      (''MISC_MC_PRIO_LOW'', flag 8),
      (''MISC_SOFT_DISABLE_T'', flag 7),
      (''MISC_SOFT_DISABLE_B'', flag 6),
      (''MISC_SOFT_DISABLE_R'', flag 5),
      (''MISC_SOFT_DISABLE_L'', flag 4),
      (''MISC_SCACHE_DISABLE_T'', flag 3),
      (''MISC_SCACHE_DISABLE_B'', flag 2),
      (''MISC_SCACHE_DISABLE_R'', flag 1),
      (''MISC_SCACHE_DISABLE_L'', flag 0)]"

subsection \<open>The header\<close>

definition sb1250_l2c :: "u32 \<Rightarrow> header" where
  "sb1250_l2c ft =
     [(''level_2_cache_tag'', sb_l2c_level_2_cache_tag),
      (''format_level_2_cache_management_address'', sb_l2c_format_level_2_cache_management_address),
      (''format_level_2_cache_management_address_quadrant'',
        sb_l2c_format_level_2_cache_management_address_quadrant),
      (''format_level_2_cache_management_address_half'', sb_l2c_format_level_2_cache_management_address_half),
      (''l2_read_misc'', sb_l2c_l2_read_misc ft)]"

lemmas sb1250_l2c_defs = sb1250_l2c_def
    sb_l2c_level_2_cache_tag_def sb_l2c_format_level_2_cache_management_address_def 
    sb_l2c_format_level_2_cache_management_address_quadrant_def 
    sb_l2c_format_level_2_cache_management_address_half_def sb_l2c_l2_read_misc_def

lemma sb1250_l2c_ascending:
  "register_defects sb_l2c_level_2_cache_tag = ([], [])"
  "register_defects sb_l2c_format_level_2_cache_management_address_quadrant = ([], [])"
  "register_defects sb_l2c_format_level_2_cache_management_address_half = ([], [])"
  by (simp_all add: ascending_eval sb1250_l2c_defs)

lemma sb1250_l2c_others:
  "register_defects sb_l2c_format_level_2_cache_management_address = ([], [])"
  by (simp_all add: register_eval sb1250_l2c_defs)

lemma sb1250_l2c_other_revisions:
  "register_defects (sb_l2c_l2_read_misc (SIBYTE_HDR_FMASK p)) = ([], [])"
  by (induction p) (simp_all add: register_eval sb1250_l2c_defs)

lemma sb1250_l2c_defects:
  "defects (sb1250_l2c (SIBYTE_HDR_FMASK p)) =
     []"
  by (simp add: defects_def sb1250_l2c_def sb1250_l2c_ascending sb1250_l2c_others sb1250_l2c_other_revisions)

end
