(* ===== verification/Sb1250Ldt.thy ===== *)
theory Sb1250Ldt
  imports Registers
begin

text \<open>
  The registers of the LDT (HyperTransport) interface of the BCM1250 and BCM112x, from \<open>include/sibyte/sb1250_ldt.h\<close>, one list of fields for each
  register the header describes.
\<close>

unbundle bit_operations_syntax

subsection \<open>LDT vendor and device\<close>

definition sb_ldt_vendor_device :: "(string \<times> u64) list" where
  "sb_ldt_vendor_device =
     [(''VENDOR_SIBYTE'', 0x166d), (''DEVICE_SB1250'', 2)]"

subsection \<open>LDT Interface Type 1 (bridge) configuration header\<close>

definition sb_ldt_interface_type_1_configuration_header :: "u32 \<Rightarrow> (string \<times> u64) list" where
  "sb_ldt_interface_type_1_configuration_header ft =
     [(''TYPE1_DEVICEID'', 0), (''TYPE1_CMDSTATUS'', 4), (''TYPE1_CLASSREV'', 8), (''TYPE1_DEVHDR'', 12),
      (''TYPE1_BAR0'', 16), (''TYPE1_BAR1'', 20), (''TYPE1_BUSID'', 24), (''TYPE1_SECSTATUS'', 28),
      (''TYPE1_MEMLIMIT'', 32), (''TYPE1_PREFETCH'', 36), (''TYPE1_PREF_BASE'', 40), (''TYPE1_PREF_LIMIT'', 44),
      (''TYPE1_IOLIMIT'', 48), (''TYPE1_CAPPTR'', 52), (''TYPE1_ROMADDR'', 56), (''TYPE1_BRCTL'', 60),
      (''TYPE1_CMD'', 64), (''TYPE1_LINKCTRL'', 68), (''TYPE1_LINKFREQ'', 72), (''TYPE1_RESERVED1'', 76),
      (''TYPE1_SRICMD'', 80), (''TYPE1_SRITXNUM'', 84), (''TYPE1_SRIRXNUM'', 88), (''TYPE1_ERRSTATUS'', 104),
      (''TYPE1_SRICTRL'', 108)]
     @ only_if (SIBYTE_HDR_FEATURE ft BCM1250_PASS2 \<or> SIBYTE_HDR_FEATURE ft BCM112x_PASS1)
     [(''TYPE1_ADDSTATUS'', 112)]
     @ [(''TYPE1_TXBUFCNT'', 200), (''TYPE1_EXPCRC'', 220), (''TYPE1_RXCRC'', 240)]"

subsection \<open>LDT Device ID register\<close>

definition sb_ldt_device_id :: register where
  "sb_ldt_device_id =
     [(''DEVICEID_VENDOR'', field32 16 0),
      (''DEVICEID_DEVICEID'', field32 16 16)]"

subsection \<open>LDT Command Register (Table 8-13)\<close>

definition sb_ldt_command :: register where
  "sb_ldt_command =
     [(''CMD_IOSPACE_EN'', flag32 0),
      (''CMD_MEMSPACE_EN'', flag32 1),
      (''CMD_MASTER_EN'', flag32 2),
      (''CMD_SPECCYC_EN'', flag32 3),
      (''CMD_MEMWRINV_EN'', flag32 4),
      (''CMD_VGAPALSNP_EN'', flag32 5),
      (''CMD_PARERRRESP'', flag32 6),
      (''CMD_WAITCYCCTRL'', flag32 7),
      (''CMD_SERR_EN'', flag32 8),
      (''CMD_FASTB2B_EN'', flag32 9)]"

subsection \<open>LDT class and revision registers\<close>

definition sb_ldt_class_revision :: register where
  "sb_ldt_class_revision =
     [(''CLASSREV_REV'', field32 8 0),
      (''CLASSREV_CLASS'', field32 24 8)]"

definition sb_ldt_class_revision_consts :: "(string \<times> u64) list" where
  "sb_ldt_class_revision_consts =
     [(''REV'', 1), (''CLASS'', 0x60000)]"

subsection \<open>Device Header (offset 0x0C)\<close>

definition sb_ldt_device_header :: register where
  "sb_ldt_device_header =
     [(''DEVHDR_CLINESZ'', field32 8 0),
      (''DEVHDR_LATTMR'', field32 8 8),
      (''DEVHDR_HDRTYPE'', codes [K ''TYPE1'' 1] (field32 8 16)),
      (''DEVHDR_BIST'', field32 8 24)]"

subsection \<open>LDT Status Register (Table 8-14). Note that these constants assume you\<close>

definition sb_ldt_status_note_that_these_constants :: "u32 \<Rightarrow> register" where
  "sb_ldt_status_note_that_these_constants ft =
     only_if (SIBYTE_HDR_FEATURE ft BCM1250_PASS2 \<or> SIBYTE_HDR_FEATURE ft BCM112x_PASS1)
     [(''STATUS_VGAEN'', flag32 3)]
     @ [(''STATUS_CAPLIST'', flag32 20),
      (''STATUS_66MHZCAP'', flag32 21),
      (''STATUS_RESERVED2'', flag32 22),
      (''STATUS_FASTB2BCAP'', flag32 23),
      (''STATUS_MSTRDPARERR'', flag32 24),
      (''STATUS_DEVSELTIMING'', field32 2 25),
      (''STATUS_SIGDTGTABORT'', flag32 27),
      (''STATUS_RCVDTGTABORT'', flag32 28),
      (''STATUS_RCVDMSTRABORT'', flag32 29),
      (''STATUS_SIGDSERR'', flag32 30),
      (''STATUS_DETPARERR'', flag32 31)]"

subsection \<open>Bridge Control Register (Table 8-16). Note that these constants assume\<close>

definition sb_ldt_bridge_control_note_that_these_constants :: register where
  "sb_ldt_bridge_control_note_that_these_constants =
     [(''BRCTL_PARERRRESP_EN'', flag32 16),
      (''BRCTL_SERR_EN'', flag32 17),
      (''BRCTL_ISA_EN'', flag32 18),
      (''BRCTL_VGA_EN'', flag32 19),
      (''BRCTL_MSTRABORTMODE'', flag32 21),
      (''BRCTL_SECBUSRESET'', flag32 22),
      (''BRCTL_FASTB2B_EN'', flag32 23),
      (''BRCTL_PRIDISCARD'', flag32 24),
      (''BRCTL_SECDISCARD'', flag32 25),
      (''BRCTL_DISCARDSTAT'', flag32 26),
      (''BRCTL_DISCARDSERR_EN'', flag32 27)]"

subsection \<open>LDT Command Register (Table 8-17). Note that these constants assume yo\<close>

definition sb_ldt_command_note_that_these_constants :: register where
  "sb_ldt_command_note_that_these_constants =
     [(''CMD_WARMRESET'', flag32 16),
      (''CMD_DOUBLEENDED'', flag32 17),
      (''CMD_CAPTYPE'', field32 3 29)]"

subsection \<open>LDT link control register (Table 8-18), and (Table 8-19)\<close>

definition sb_ldt_link_control :: register where
  "sb_ldt_link_control =
     [(''LINKCTRL_CAPSYNCFLOOD_EN'', flag32 1),
      (''LINKCTRL_CRCSTARTTEST'', flag32 2),
      (''LINKCTRL_CRCFORCEERR'', flag32 3),
      (''LINKCTRL_LINKFAIL'', flag32 4),
      (''LINKCTRL_INITDONE'', flag32 5),
      (''LINKCTRL_EOC'', flag32 6),
      (''LINKCTRL_XMITOFF'', flag32 7),
      (''LINKCTRL_CRCERR'', field32 4 8),
      (''LINKCTRL_MAXIN'', field32 3 16),
      (''LINKCTRL_DWFCLN'', flag32 19),
      (''LINKCTRL_MAXOUT'', field32 3 20),
      (''LINKCTRL_DWFCOUT'', flag32 23),
      (''LINKCTRL_WIDTHIN'', field32 3 24),
      (''LINKCTRL_DWFCLIN_EN'', flag32 27),
      (''LINKCTRL_WIDTHOUT'', field32 3 28),
      (''LINKCTRL_DWFCOUT_EN'', flag32 31)]"

subsection \<open>LDT Link frequency register (Table 8-20) offset 0x48\<close>

definition sb_ldt_link_frequency_offset_0x48 :: register where
  "sb_ldt_link_frequency_offset_0x48 =
     [(''LINKFREQ_FREQ'', field32 4 8)]"

definition sb_ldt_link_frequency_offset_0x48_consts :: "(string \<times> u64) list" where
  "sb_ldt_link_frequency_offset_0x48_consts =
     [(''LINKFREQ_200MHZ'', 0), (''LINKFREQ_300MHZ'', 1), (''LINKFREQ_400MHZ'', 2), (''LINKFREQ_500MHZ'', 3),
      (''LINKFREQ_600MHZ'', 4), (''LINKFREQ_800MHZ'', 5), (''LINKFREQ_1000MHZ'', 6)]"

subsection \<open>LDT SRI Command Register (Table 8-21). Note that these constants assum\<close>

definition sb_ldt_sri_command_note_that_these :: "u32 \<Rightarrow> register" where
  "sb_ldt_sri_command_note_that_these ft =
     [(''SRICMD_SIPREADY'', flag32 16),
      (''SRICMD_SYNCPTRCTL'', flag32 17),
      (''SRICMD_REDUCESYNCZERO'', flag32 18)]
     @ only_if (SIBYTE_HDR_FEATURE_UP_TO ft BCM1250_PASS1)
     [(''SRICMD_DISSTARVATIONCNT'', flag32 19)]
     @ only_if (SIBYTE_HDR_FEATURE ft BCM1250_PASS2 \<or> SIBYTE_HDR_FEATURE ft BCM112x_PASS1)
     [(''SRICMD_DISMULTTXVLD'', flag32 19),
      (''SRICMD_EXPENDIAN'', flag32 26)]
     @ [(''SRICMD_RXMARGIN'', field32 5 20),
      (''SRICMD_LDTPLLCOMPAT'', flag32 25),
      (''SRICMD_TXINITIALOFFSET'', field32 3 28),
      (''SRICMD_LINKFREQDIRECT'', flag32 31)]"

subsection \<open>LDT Error control and status register (Table 8-22) (Table 8-23)\<close>

definition sb_ldt_error_control_status :: register where
  "sb_ldt_error_control_status =
     [(''ERRCTL_PROTFATAL_EN'', flag32 0),
      (''ERRCTL_PROTNONFATAL_EN'', flag32 1),
      (''ERRCTL_PROTSYNCFLOOD_EN'', flag32 2),
      (''ERRCTL_OVFFATAL_EN'', flag32 3),
      (''ERRCTL_OVFNONFATAL_EN'', flag32 4),
      (''ERRCTL_OVFSYNCFLOOD_EN'', flag32 5),
      (''ERRCTL_EOCNXAFATAL_EN'', flag32 6),
      (''ERRCTL_EOCNXANONFATAL_EN'', flag32 7),
      (''ERRCTL_EOCNXASYNCFLOOD_EN'', flag32 8),
      (''ERRCTL_CRCFATAL_EN'', flag32 9),
      (''ERRCTL_CRCNONFATAL_EN'', flag32 10),
      (''ERRCTL_SERRFATAL_EN'', flag32 11),
      (''ERRCTL_SRCTAGFATAL_EN'', flag32 12),
      (''ERRCTL_SRCTAGNONFATAL_EN'', flag32 13),
      (''ERRCTL_SRCTAGSYNCFLOOD_EN'', flag32 14),
      (''ERRCTL_MAPNXAFATAL_EN'', flag32 15),
      (''ERRCTL_MAPNXANONFATAL_EN'', flag32 16),
      (''ERRCTL_MAPNXASYNCFLOOD_EN'', flag32 17),
      (''ERRCTL_PROTOERR'', flag32 24),
      (''ERRCTL_OVFERR'', flag32 25),
      (''ERRCTL_EOCNXAERR'', flag32 26),
      (''ERRCTL_SRCTAGERR'', flag32 27),
      (''ERRCTL_MAPNXAERR'', flag32 28)]"

subsection \<open>SRI Control register (Table 8-24, 8-25) Offset 0x6C\<close>

definition sb_ldt_sri_control_offset_0x6c :: register where
  "sb_ldt_sri_control_offset_0x6c =
     [(''SRICTRL_NEEDRESP'', field32 2 0),
      (''SRICTRL_NEEDNPREQ'', field32 2 2),
      (''SRICTRL_NEEDPREQ'', field32 2 4),
      (''SRICTRL_WANTRESP'', field32 2 8),
      (''SRICTRL_WANTNPREQ'', field32 2 10),
      (''SRICTRL_WANTPREQ'', field32 2 12),
      (''SRICTRL_BUFRELSPACE'', field32 4 16)]"

subsection \<open>LDT SRI Transmit Buffer Count register (Table 8-26)\<close>

definition sb_ldt_sri_transmit_buffer_count :: register where
  "sb_ldt_sri_transmit_buffer_count =
     [(''TXBUFCNT_PCMD'', field32 4 0),
      (''TXBUFCNT_PDATA'', field32 4 4),
      (''TXBUFCNT_NPCMD'', field32 4 8),
      (''TXBUFCNT_NPDATA'', field32 4 12),
      (''TXBUFCNT_RCMD'', field32 4 16),
      (''TXBUFCNT_RDATA'', field32 4 20)]"

subsection \<open>Additional Status Register\<close>

definition sb_ldt_additional_status :: "u32 \<Rightarrow> register" where
  "sb_ldt_additional_status ft =
     only_if (SIBYTE_HDR_FEATURE ft BCM1250_PASS2 \<or> SIBYTE_HDR_FEATURE ft BCM112x_PASS1)
     [(''ADDSTATUS_TGTDONE'', field32 8 0)]"

subsection \<open>The header\<close>

definition sb1250_ldt :: "u32 \<Rightarrow> header" where
  "sb1250_ldt ft =
     [(''device_id'', sb_ldt_device_id),
      (''command'', sb_ldt_command),
      (''class_revision'', sb_ldt_class_revision),
      (''device_header'', sb_ldt_device_header),
      (''status_note_that_these_constants'', sb_ldt_status_note_that_these_constants ft),
      (''bridge_control_note_that_these_constants'', sb_ldt_bridge_control_note_that_these_constants),
      (''command_note_that_these_constants'', sb_ldt_command_note_that_these_constants),
      (''link_control'', sb_ldt_link_control),
      (''link_frequency_offset_0x48'', sb_ldt_link_frequency_offset_0x48),
      (''sri_command_note_that_these'', sb_ldt_sri_command_note_that_these ft),
      (''error_control_status'', sb_ldt_error_control_status),
      (''sri_control_offset_0x6c'', sb_ldt_sri_control_offset_0x6c),
      (''sri_transmit_buffer_count'', sb_ldt_sri_transmit_buffer_count),
      (''additional_status'', sb_ldt_additional_status ft)]"

lemmas sb1250_ldt_defs = sb1250_ldt_def
    sb_ldt_device_id_def sb_ldt_command_def sb_ldt_class_revision_def sb_ldt_device_header_def 
    sb_ldt_status_note_that_these_constants_def sb_ldt_bridge_control_note_that_these_constants_def 
    sb_ldt_command_note_that_these_constants_def sb_ldt_link_control_def 
    sb_ldt_link_frequency_offset_0x48_def sb_ldt_sri_command_note_that_these_def 
    sb_ldt_error_control_status_def sb_ldt_sri_control_offset_0x6c_def sb_ldt_sri_transmit_buffer_count_def 
    sb_ldt_additional_status_def

lemma sb1250_ldt_ascending:
  "register_defects sb_ldt_device_id = ([], [])"
  "register_defects sb_ldt_command = ([], [])"
  "register_defects sb_ldt_class_revision = ([], [])"
  "register_defects sb_ldt_device_header = ([], [])"
  "register_defects sb_ldt_bridge_control_note_that_these_constants = ([], [])"
  "register_defects sb_ldt_command_note_that_these_constants = ([], [])"
  "register_defects sb_ldt_link_control = ([], [])"
  "register_defects sb_ldt_link_frequency_offset_0x48 = ([], [])"
  "register_defects sb_ldt_error_control_status = ([], [])"
  "register_defects sb_ldt_sri_control_offset_0x6c = ([], [])"
  "register_defects sb_ldt_sri_transmit_buffer_count = ([], [])"
  by (simp_all add: ascending_eval sb1250_ldt_defs)

lemma sb1250_ldt_ascending_revisions:
  "register_defects (sb_ldt_status_note_that_these_constants (SIBYTE_HDR_FMASK p)) = ([], [])"
  "register_defects (sb_ldt_additional_status (SIBYTE_HDR_FMASK p)) = ([], [])"
  by (induction p) (simp_all add: ascending_eval sb1250_ldt_defs)

lemma sb1250_ldt_other_revisions:
  "register_defects (sb_ldt_sri_command_note_that_these (SIBYTE_HDR_FMASK p)) = ([], [])"
  by (induction p) (simp_all add: register_eval sb1250_ldt_defs)

lemma sb1250_ldt_defects:
  "defects (sb1250_ldt (SIBYTE_HDR_FMASK p)) =
     []"
  by (simp add: defects_def sb1250_ldt_def sb1250_ldt_ascending sb1250_ldt_ascending_revisions sb1250_ldt_other_revisions)

end
