(* ===== verification/Sb1250Mac.thy ===== *)
theory Sb1250Mac
  imports Registers
begin

text \<open>
  The registers of the Ethernet interfaces of the BCM1250 and BCM112x, from \<open>include/sibyte/sb1250_mac.h\<close>, one list of fields for each
  register the header describes. Fields that share the bits of others, because they are
  another view of the register or belong to another register of the same description, are in a
  list of their own.
\<close>

unbundle bit_operations_syntax

subsection \<open>MAC configuration\<close>

definition sb_mac_configuration :: "u32 \<Rightarrow> register" where
  "sb_mac_configuration ft =
     [(''RESERVED0'', flag 0),
      (''TX_HOLD_SOP_EN'', flag 1),
      (''RETRY_EN'', flag 2),
      (''RET_DRPREQ_EN'', flag 3),
      (''RET_UFL_EN'', flag 4),
      (''BURST_EN'', flag 5),
      (''TX_PAUSE_CNT'', codes [KV ''512'' 0 0, KV ''1K'' 1 1, KV ''2K'' 2 2, KV ''4K'' 3 3, KV ''8K'' 4 4,
        KV ''16K'' 5 5, KV ''32K'' 6 6, KV ''64K'' 7 7] (put_as (Macro 6) (bits 3 6))),
      (''RESERVED1'', bits 8 9),
      (''AP_STAT_EN'', flag 17)]
     @ only_if (SIBYTE_HDR_FEATURE_CHIP ft BCM1480)
     [(''TIMESTAMP'', flag 18)]
     @ [(''DRP_ERRPKT_EN'', flag 19),
      (''DRP_FCSERRPKT_EN'', flag 20),
      (''DRP_CODEERRPKT_EN'', flag 21),
      (''DRP_DRBLERRPKT_EN'', flag 22),
      (''DRP_RNTPKT_EN'', flag 23),
      (''DRP_OSZPKT_EN'', flag 24),
      (''DRP_LENERRPKT_EN'', flag 25),
      (''RESERVED3'', bits 6 26),
      (''BYPASS_SEL'', flag 32),
      (''HDX_EN'', flag 33),
      (''SPEED_SEL'', codes [KV ''10MBPS'' 0 0, KV ''100MBPS'' 1 1, KV ''1000MBPS'' 2 2,
        KV ''RESERVED'' 3 3] (field 2 34)),
      (''TX_CLK_EDGE_SEL'', flag 36),
      (''LOOPBACK_SEL'', flag 37),
      (''FAST_SYNC'', flag 38),
      (''SS_EN'', flag 39),
      (''BYPASS_CFG'', field 2 40),
      (''BYPASS_16'', flag 42),
      (''BYPASS_FCS_CHK'', flag 43)]
     @ only_if (SIBYTE_HDR_FEATURE ft BCM1250_PASS2 \<or> SIBYTE_HDR_FEATURE ft BCM112x_PASS1)
     [(''RX_CH_SEL_MSB'', flag 44)]
     @ only_if (SIBYTE_HDR_FEATURE ft BCM1250_PASS3 \<or> SIBYTE_HDR_FEATURE ft BCM112x_PASS1 \<or> SIBYTE_HDR_FEATURE_CHIP ft BCM1480)
     [(''SPLIT_CH_SEL'', flag 45)]
     @ [(''BYPASS_IFG'', field 8 46),
      (''FC_SEL'', flag 54),
      (''FC_CMD'', codes [KV ''DISABLED'' 0 0, KV ''ENABLED'' 1 1, KV ''ENAB_FALSECARR'' 2 2] (field 2 55)),
      (''RX_CH_SEL'', field 7 57)]"

definition sb_mac_configuration_consts :: "(string \<times> u64) list" where
  "sb_mac_configuration_consts =
     [(''S_TX_PAUSE'', 6), (''BYPASS_GMII'', 0), (''BYPASS_ENCODED'', 1), (''BYPASS_SOP'', 2), (''BYPASS_EOP'',
        3)]"

subsection \<open>MAC Enable Registers Register: MAC ENABLE 0 Register: MAC ENABLE 1 Reg\<close>

definition sb_mac_enable_mac_enable_0_mac :: "u32 \<Rightarrow> register" where
  "sb_mac_enable_mac_enable_0_mac ft =
     [(''RXDMA_EN0'', flag 0),
      (''RXDMA_EN1'', flag 1),
      (''TXDMA_EN0'', flag 4),
      (''TXDMA_EN1'', flag 5),
      (''PORT_RESET'', flag 8)]
     @ only_if (SIBYTE_HDR_FEATURE_CHIP ft BCM1250 \<or> SIBYTE_HDR_FEATURE_CHIP ft BCM112x)
     [(''RX_ENABLE'', flag 10),
      (''TX_ENABLE'', flag 11),
      (''BYP_RX_ENABLE'', flag 12),
      (''BYP_TX_ENABLE'', flag 13)]"

subsection \<open>MAC reset information register (1280 1255)\<close>

definition sb_mac_reset_information :: "u32 \<Rightarrow> register" where
  "sb_mac_reset_information ft =
     only_if (SIBYTE_HDR_FEATURE_CHIP ft BCM1480)
     [(''RX_CH0_PAUSE_ON'', flag 8),
      (''RX_CH1_PAUSE_ON'', flag 16),
      (''TX_CH0_PAUSE_ON'', flag 24),
      (''TX_CH1_PAUSE_ON'', flag 32)]"

subsection \<open>MAC DMA Control Register Register: MAC TXD CTL 0 Register: MAC TXD CTL\<close>

definition sb_mac_dma_control_mac_txd_ctl :: register where
  "sb_mac_dma_control_mac_txd_ctl =
     [(''TXD_WEIGHT0'', field 4 0),
      (''TXD_WEIGHT1'', field 4 4)]"

subsection \<open>MAC fifo threshold configuration\<close>

definition sb_mac_fifo_threshold_configuration :: "u32 \<Rightarrow> register" where
  "sb_mac_fifo_threshold_configuration ft =
     only_if (SIBYTE_HDR_FEATURE ft BCM1250_PASS2 \<or> SIBYTE_HDR_FEATURE ft BCM112x_PASS1)
     [(''TX_WR_THRSH'', field 7 0),
      (''TX_RD_THRSH'', field 7 8)]
     @ [(''TX_RL_THRSH'', field 4 16),
      (''RX_PL_THRSH'', field 6 24),
      (''RX_RD_THRSH'', field 6 32),
      (''RX_RL_THRSH'', field 6 40)]
     @ only_if (SIBYTE_HDR_FEATURE ft BCM1250_PASS2 \<or> SIBYTE_HDR_FEATURE ft BCM112x_PASS1)
     [(''ENC_FC_THRSH'', field 6 56)]"

subsection \<open>MAC frame configuration\<close>

definition sb_mac_frame_configuration :: register where
  "sb_mac_frame_configuration =
     [(''IFG_RX'', field 6 0),
      (''IFG_TX'', field 6 6),
      (''IFG_THRSH'', field 6 12),
      (''BACKOFF_SEL'', field 4 18),
      (''LFSR_SEED'', field 8 22),
      (''SLOT_SIZE'', field 10 30),
      (''MIN_FRAMESZ'', field 8 40),
      (''MAX_FRAMESZ'', field 16 48)]"

definition sb_mac_frame_configuration_preamble :: "u32 \<Rightarrow> register" where
  "sb_mac_frame_configuration_preamble ft =
     only_if (SIBYTE_HDR_FEATURE ft BCM1250_PASS3 \<or> SIBYTE_HDR_FEATURE ft BCM112x_PASS1 \<or> SIBYTE_HDR_FEATURE_CHIP ft BCM1480)
     [(''PRE_LEN'', field 6 0)]"

subsection \<open>Frame configuration values\<close>

definition sb_mac_frame_configuration_values :: "(string \<times> u64) list" where
  "sb_mac_frame_configuration_values =
     [(''IFG_RX_10'', 0), (''IFG_RX_100'', 0), (''IFG_RX_1000'', 0), (''IFG_TX_10'', 20), (''IFG_TX_100'', 20),
      (''IFG_TX_1000'', 8), (''IFG_THRSH_10'', 4), (''IFG_THRSH_100'', 4), (''IFG_THRSH_1000'', 0),
      (''SLOT_SIZE_10'', 0), (''SLOT_SIZE_100'', 0), (''SLOT_SIZE_1000'', 0), (''MIN_FRAMESZ_FIFO'', 9),
      (''MIN_FRAMESZ_DEFAULT'', 64), (''MAX_FRAMESZ_DEFAULT'', 0x5ee), (''MAX_FRAMESZ_JUMBO'', 0x2400)]"

definition V_MAC_IFG_RX_10 :: u64 where
  "V_MAC_IFG_RX_10 = SB_MAKEVALUE 0 0"

definition V_MAC_IFG_RX_100 :: u64 where
  "V_MAC_IFG_RX_100 = SB_MAKEVALUE 0 0"

definition V_MAC_IFG_RX_1000 :: u64 where
  "V_MAC_IFG_RX_1000 = SB_MAKEVALUE 0 0"

definition V_MAC_IFG_TX_10 :: u64 where
  "V_MAC_IFG_TX_10 = SB_MAKEVALUE 20 6"

definition V_MAC_IFG_TX_100 :: u64 where
  "V_MAC_IFG_TX_100 = SB_MAKEVALUE 20 6"

definition V_MAC_IFG_TX_1000 :: u64 where
  "V_MAC_IFG_TX_1000 = SB_MAKEVALUE 8 6"

definition V_MAC_IFG_THRSH_10 :: u64 where
  "V_MAC_IFG_THRSH_10 = SB_MAKEVALUE 4 12"

definition V_MAC_IFG_THRSH_100 :: u64 where
  "V_MAC_IFG_THRSH_100 = SB_MAKEVALUE 4 12"

definition V_MAC_IFG_THRSH_1000 :: u64 where
  "V_MAC_IFG_THRSH_1000 = SB_MAKEVALUE 0 12"

definition V_MAC_SLOT_SIZE_10 :: u64 where
  "V_MAC_SLOT_SIZE_10 = SB_MAKEVALUE 0 30"

definition V_MAC_SLOT_SIZE_100 :: u64 where
  "V_MAC_SLOT_SIZE_100 = SB_MAKEVALUE 0 30"

definition V_MAC_SLOT_SIZE_1000 :: u64 where
  "V_MAC_SLOT_SIZE_1000 = SB_MAKEVALUE 0 30"

definition V_MAC_MIN_FRAMESZ_FIFO :: u64 where
  "V_MAC_MIN_FRAMESZ_FIFO = SB_MAKEVALUE 9 40"

definition V_MAC_MIN_FRAMESZ_DEFAULT :: u64 where
  "V_MAC_MIN_FRAMESZ_DEFAULT = SB_MAKEVALUE 64 40"

definition V_MAC_MAX_FRAMESZ_DEFAULT :: u64 where
  "V_MAC_MAX_FRAMESZ_DEFAULT = SB_MAKEVALUE 0x5ee 48"

definition V_MAC_MAX_FRAMESZ_JUMBO :: u64 where
  "V_MAC_MAX_FRAMESZ_JUMBO = SB_MAKEVALUE 0x2400 48"

subsection \<open>MAC VLAN Tag Registers (Table 9-16) Register: MAC VLANTAG 0 Register:\<close>

definition sb_mac_vlan_tag_mac_vlantag_0 :: "u32 \<Rightarrow> register" where
  "sb_mac_vlan_tag_mac_vlantag_0 ft =
     [(''VLAN_TAG'', field 32 0)]
     @ only_if (SIBYTE_HDR_FEATURE ft BCM1250_PASS3 \<or> SIBYTE_HDR_FEATURE ft BCM112x_PASS1)
     [(''TX_PKT_OFFSET'', field 8 32),
      (''TX_CRC_OFFSET'', field 8 40),
      (''CH_BASE_FC_EN'', flag 48)]"

subsection \<open>MAC status channel positions\<close>

definition sb_mac_status_channel_positions :: "(string \<times> u64) list" where
  "sb_mac_status_channel_positions =
     [(''S_RX_CH0'', 0), (''S_RX_CH1'', 8), (''S_TX_CH0'', 16), (''S_TX_CH1'', 24), (''S_TXCHANNELS'', 16),
      (''S_CHANWIDTH'', 8)]"

subsection \<open>MAC status channel\<close>

definition sb_mac_status_channel :: register where
  "sb_mac_status_channel =
     [(''INT_EOP_COUNT'', flag 0),
      (''INT_EOP_TIMER'', flag 1),
      (''INT_EOP_SEEN'', flag 2),
      (''INT_HWM'', flag 3),
      (''INT_LWM'', flag 4),
      (''INT_DSCR'', flag 5),
      (''INT_ERR'', flag 6),
      (''INT_DZERO'', flag 7)]"

definition sb_mac_status_channel_whole :: register where
  "sb_mac_status_channel_whole =
     [(''INT_CHANNEL'', bits 8 0)]"

definition sb_mac_status_channel_rx :: register where
  "sb_mac_status_channel_rx =
     [(''INT_DROP'', flag 7)]"

subsection \<open>MAC status\<close>

definition sb_mac_status :: "u32 \<Rightarrow> register" where
  "sb_mac_status ft =
     [(''RX_UNDRFL'', flag 40),
      (''RX_OVRFL'', flag 41),
      (''TX_UNDRFL'', flag 42),
      (''TX_OVRFL'', flag 43),
      (''LTCOL_ERR'', flag 44),
      (''EXCOL_ERR'', flag 45),
      (''CNTR_OVRFL_ERR'', flag 46),
      (''COUNTER_ADDR'', field 5 47)]
     @ only_if (SIBYTE_HDR_FEATURE ft BCM1250_PASS3 \<or> SIBYTE_HDR_FEATURE ft BCM112x_PASS1 \<or> SIBYTE_HDR_FEATURE_CHIP ft BCM1480)
     [(''TX_PAUSE_ON'', flag 52)]"

definition sb_mac_status_mask :: "u32 \<Rightarrow> register" where
  "sb_mac_status_mask ft =
     only_if (SIBYTE_HDR_FEATURE ft BCM1250_PASS2 \<or> SIBYTE_HDR_FEATURE ft BCM112x_PASS1)
     [(''SPLIT_EN'', flag 47)]"

definition M_MAC_STATUS_OTHER_ERR :: u64 where
  "M_MAC_STATUS_OTHER_ERR = SB_MAKEVALUE (SB_MAKEMASK 7 0) 40"

subsection \<open>MAC Fifo Pointer Registers (Table 9-19)  Debug register  Register: MAC\<close>

definition sb_mac_fifo_pointer_debug_mac_fifo :: register where
  "sb_mac_fifo_pointer_debug_mac_fifo =
     [(''TX_WRPTR'', field 6 0),
      (''TX_RDPTR'', field 6 8),
      (''RX_WRPTR'', put_as (Macro 16) (get_as (Macro (16, SB_MAKEMASK 6 0)) (bits 6 16))),
      (''RX_RDPTR'', put_as (Macro 24) (get_as (Macro (24, SB_MAKEMASK 6 8)) (bits 6 24)))]"

subsection \<open>MAC Fifo End Of Packet Count Registers (Table 9-20)  Debug register  R\<close>

definition sb_mac_fifo_end_packet_count_debug :: register where
  "sb_mac_fifo_end_packet_count_debug =
     [(''TX_EOP_COUNTER'', field 6 0),
      (''RX_EOP_COUNTER'', field 6 8)]"

subsection \<open>MAC Packet Type Configuration Register Register: MAC TYPE CFG 0 Regist\<close>

definition sb_mac_packet_type_configuration_mac_type :: register where
  "sb_mac_packet_type_configuration_mac_type =
     [(''TYPECFG_TYPE0'', field 16 0),
      (''TYPECFG_TYPE1'', field 16 0),
      (''TYPECFG_TYPE2'', field 16 0),
      (''TYPECFG_TYPE3'', field 16 0)]"

definition sb_mac_packet_type_configuration_mac_type_consts :: "(string \<times> u64) list" where
  "sb_mac_packet_type_configuration_mac_type_consts =
     [(''S_TYPECFG_TYPESIZE'', 16)]"

subsection \<open>MAC Receive Address Filter Control Registers (Table 9-24) Register: MA\<close>

definition sb_mac_receive_address_filter_control_mac :: "u32 \<Rightarrow> register" where
  "sb_mac_receive_address_filter_control_mac ft =
     [(''ALLPKT_EN'', flag 0),
      (''UCAST_EN'', flag 1),
      (''UCAST_INV'', flag 2),
      (''MCAST_EN'', flag 3),
      (''MCAST_INV'', flag 4),
      (''BCAST_EN'', flag 5),
      (''DIRECT_INV'', flag 6)]
     @ only_if (SIBYTE_HDR_FEATURE ft BCM1250_PASS2 \<or> SIBYTE_HDR_FEATURE ft BCM112x_PASS1)
     [(''ALLMCAST_EN'', flag 7)]
     @ [(''IPHDR_OFFSET'', field 8 8)]
     @ only_if (SIBYTE_HDR_FEATURE ft BCM1250_PASS3 \<or> SIBYTE_HDR_FEATURE ft BCM112x_PASS1 \<or> SIBYTE_HDR_FEATURE_CHIP ft BCM1480)
     [(''RX_CRC_OFFSET'', field 8 16),
      (''RX_PKT_OFFSET'', field 8 24),
      (''FWDPAUSE_EN'', flag 32),
      (''VLAN_DET_EN'', flag 33),
      (''RX_CH_MSN_SEL'', field 8 34)]"

subsection \<open>MAC MII Management Interface Registers (Table 9-26) Register: MAC MDIO\<close>

definition sb_mac_mii_management_interface_mac_mdio :: register where
  "sb_mac_mii_management_interface_mac_mdio =
     [(''MDC'', flag 0),
      (''MDIO_DIR'', flag 1),
      (''MDIO_OUT'', flag 2),
      (''GENC'', flag 3),
      (''MDIO_IN'', flag 4)]"

definition sb_mac_mii_management_interface_mac_mdio_input :: register where
  "sb_mac_mii_management_interface_mac_mdio_input =
     [(''MDIO_DIR_INPUT'', flag 1)]"

subsection \<open>The header\<close>

definition sb1250_mac :: "u32 \<Rightarrow> header" where
  "sb1250_mac ft =
     [(''configuration'', sb_mac_configuration ft),
      (''enable_mac_enable_0_mac'', sb_mac_enable_mac_enable_0_mac ft),
      (''reset_information'', sb_mac_reset_information ft),
      (''dma_control_mac_txd_ctl'', sb_mac_dma_control_mac_txd_ctl),
      (''fifo_threshold_configuration'', sb_mac_fifo_threshold_configuration ft),
      (''frame_configuration'', sb_mac_frame_configuration),
      (''frame_configuration_preamble'', sb_mac_frame_configuration_preamble ft),
      (''vlan_tag_mac_vlantag_0'', sb_mac_vlan_tag_mac_vlantag_0 ft),
      (''status_channel'', sb_mac_status_channel),
      (''status_channel_whole'', sb_mac_status_channel_whole),
      (''status_channel_rx'', sb_mac_status_channel_rx),
      (''status'', sb_mac_status ft),
      (''status_mask'', sb_mac_status_mask ft),
      (''fifo_pointer_debug_mac_fifo'', sb_mac_fifo_pointer_debug_mac_fifo),
      (''fifo_end_packet_count_debug'', sb_mac_fifo_end_packet_count_debug),
      (''packet_type_configuration_mac_type'', sb_mac_packet_type_configuration_mac_type),
      (''receive_address_filter_control_mac'', sb_mac_receive_address_filter_control_mac ft),
      (''mii_management_interface_mac_mdio'', sb_mac_mii_management_interface_mac_mdio),
      (''mii_management_interface_mac_mdio_input'', sb_mac_mii_management_interface_mac_mdio_input)]"

lemmas sb1250_mac_defs = sb1250_mac_def
    sb_mac_configuration_def sb_mac_enable_mac_enable_0_mac_def sb_mac_reset_information_def 
    sb_mac_dma_control_mac_txd_ctl_def sb_mac_fifo_threshold_configuration_def sb_mac_frame_configuration_def 
    sb_mac_frame_configuration_preamble_def sb_mac_vlan_tag_mac_vlantag_0_def sb_mac_status_channel_def 
    sb_mac_status_channel_whole_def sb_mac_status_channel_rx_def sb_mac_status_def sb_mac_status_mask_def 
    sb_mac_fifo_pointer_debug_mac_fifo_def sb_mac_fifo_end_packet_count_debug_def 
    sb_mac_packet_type_configuration_mac_type_def sb_mac_receive_address_filter_control_mac_def 
    sb_mac_mii_management_interface_mac_mdio_def sb_mac_mii_management_interface_mac_mdio_input_def

lemma sb1250_mac_ascending:
  "register_defects sb_mac_dma_control_mac_txd_ctl = ([], [])"
  "register_defects sb_mac_frame_configuration = ([], [])"
  "register_defects sb_mac_status_channel = ([], [])"
  "register_defects sb_mac_status_channel_whole = ([], [])"
  "register_defects sb_mac_status_channel_rx = ([], [])"
  "register_defects sb_mac_fifo_end_packet_count_debug = ([], [])"
  "register_defects sb_mac_mii_management_interface_mac_mdio = ([], [])"
  "register_defects sb_mac_mii_management_interface_mac_mdio_input = ([], [])"
  by (simp_all add: ascending_eval sb1250_mac_defs)

lemma sb1250_mac_others:
  "register_defects sb_mac_fifo_pointer_debug_mac_fifo = ([''RX_WRPTR'', ''RX_RDPTR''], [])"
  "register_defects sb_mac_packet_type_configuration_mac_type = ([], [(''TYPECFG_TYPE0'', ''TYPECFG_TYPE1''), (''TYPECFG_TYPE0'', ''TYPECFG_TYPE2''), (''TYPECFG_TYPE0'',
        ''TYPECFG_TYPE3''), (''TYPECFG_TYPE1'', ''TYPECFG_TYPE2''), (''TYPECFG_TYPE1'', ''TYPECFG_TYPE3''),
        (''TYPECFG_TYPE2'', ''TYPECFG_TYPE3'')])"
  by (simp_all add: register_eval sb1250_mac_defs)

lemma sb1250_mac_ascending_revisions:
  "register_defects (sb_mac_configuration (SIBYTE_HDR_FMASK p)) = ([], [])"
  "register_defects (sb_mac_enable_mac_enable_0_mac (SIBYTE_HDR_FMASK p)) = ([], [])"
  "register_defects (sb_mac_reset_information (SIBYTE_HDR_FMASK p)) = ([], [])"
  "register_defects (sb_mac_fifo_threshold_configuration (SIBYTE_HDR_FMASK p)) = ([], [])"
  "register_defects (sb_mac_frame_configuration_preamble (SIBYTE_HDR_FMASK p)) = ([], [])"
  "register_defects (sb_mac_vlan_tag_mac_vlantag_0 (SIBYTE_HDR_FMASK p)) = ([], [])"
  "register_defects (sb_mac_status (SIBYTE_HDR_FMASK p)) = ([], [])"
  "register_defects (sb_mac_status_mask (SIBYTE_HDR_FMASK p)) = ([], [])"
  "register_defects (sb_mac_receive_address_filter_control_mac (SIBYTE_HDR_FMASK p)) = ([], [])"
  by (induction p) (simp_all add: ascending_eval sb1250_mac_defs)

lemma sb1250_mac_defects:
  "defects (sb1250_mac (SIBYTE_HDR_FMASK p)) =
     [(''fifo_pointer_debug_mac_fifo'', [''RX_WRPTR'', ''RX_RDPTR''], []),
      (''packet_type_configuration_mac_type'', [], [(''TYPECFG_TYPE0'', ''TYPECFG_TYPE1''), (''TYPECFG_TYPE0'',
        ''TYPECFG_TYPE2''), (''TYPECFG_TYPE0'', ''TYPECFG_TYPE3''), (''TYPECFG_TYPE1'', ''TYPECFG_TYPE2''),
        (''TYPECFG_TYPE1'', ''TYPECFG_TYPE3''), (''TYPECFG_TYPE2'', ''TYPECFG_TYPE3'')])]"
  by (simp add: defects_def sb1250_mac_def sb1250_mac_ascending sb1250_mac_others sb1250_mac_ascending_revisions)

end
