(* ===== verification/Sb1250Mc.thy ===== *)
theory Sb1250Mc
  imports Registers
begin

text \<open>
  The registers of the memory controllers of the BCM1250 and BCM112x, from \<open>include/sibyte/sb1250_mc.h\<close>, one list of fields for each
  register the header describes.
\<close>

unbundle bit_operations_syntax

subsection \<open>Memory Channel Config Register (table 6-14)\<close>

definition sb_mc_memory_channel_config :: register where
  "sb_mc_memory_channel_config =
     [(''RESERVED0'', bits 8 0),
      (''CHANNEL_SEL'', field 8 8),
      (''BANK0_MAP'', codes [KV ''DEFAULT'' 0 0] (field 4 16)),
      (''BANK1_MAP'', codes [KV ''DEFAULT'' 8 8] (field 4 20)),
      (''BANK2_MAP'', codes [KV ''DEFAULT'' 9 9] (field 4 24)),
      (''BANK3_MAP'', codes [KV ''DEFAULT'' 12 12] (field 4 28)),
      (''RESERVED1'', bits 8 32),
      (''QUEUE_SIZE'', field 4 40),
      (''AGE_LIMIT'', field 4 44),
      (''WR_LIMIT'', field 4 48),
      (''IOB1HIGHPRIORITY'', flag 52),
      (''RESERVED2'', bits 3 53),
      (''CS_MODE'', codes [KV ''MSB_CS'' 0 0, KV ''INTLV_CS'' 15 15, KV ''MIXED_CS_10'' 12 12,
        KV ''MIXED_CS_30'' 6 6, KV ''MIXED_CS_32'' 3 3] (field 4 56)),
      (''ECC_DISABLE'', flag 60),
      (''BERR_DISABLE'', flag 61),
      (''FORCE_SEQ'', flag 62),
      (''DEBUG'', flag 63)]"

definition V_MC_QUEUE_SIZE_DEFAULT :: u64 where
  "V_MC_QUEUE_SIZE_DEFAULT = SB_MAKEVALUE 10 40"

definition V_MC_AGE_LIMIT_DEFAULT :: u64 where
  "V_MC_AGE_LIMIT_DEFAULT = SB_MAKEVALUE 8 44"

definition V_MC_WR_LIMIT_DEFAULT :: u64 where
  "V_MC_WR_LIMIT_DEFAULT = SB_MAKEVALUE 5 48"

definition V_MC_CONFIG_DEFAULT :: u64 where
  "V_MC_CONFIG_DEFAULT = V_MC_WR_LIMIT_DEFAULT OR
     V_MC_AGE_LIMIT_DEFAULT OR
     SB_MAKEVALUE 0 16 OR
     SB_MAKEVALUE 8 20 OR
     SB_MAKEVALUE 9 24 OR
     SB_MAKEVALUE 12 28 OR
     SB_MAKEVALUE 0 8 OR
     SB_MAKEMASK1 52 OR
     V_MC_QUEUE_SIZE_DEFAULT"

subsection \<open>Memory clock configuration\<close>

definition sb_mc_memory_clock_configuration :: "u32 \<Rightarrow> register" where
  "sb_mc_memory_clock_configuration ft =
     [(''CLK_RATIO'', codes [KV ''2X'' 4 4, KV ''25X'' 5 5, KV ''3X'' 6 6, KV ''35X'' 7 7, KV ''4X'' 8 8,
        KV ''45X'' 9 9] (field 4 0)),
      (''REF_RATE'', codes [KV ''100MHz'' 98 98, KV ''133MHz'' 129 129, KV ''200MHz'' 196 196] (field 8 8)),
      (''CLOCK_DRIVE'', field 4 16),
      (''DATA_DRIVE'', field 4 20),
      (''ADDR_DRIVE'', field 4 24)]
     @ only_if (SIBYTE_HDR_FEATURE ft BCM1250_PASS3 \<or> SIBYTE_HDR_FEATURE ft BCM112x_PASS1)
     [(''REF_DISABLE'', flag 30)]
     @ [(''DLL_BYPASS'', flag 31),
      (''DQI_SKEW'', field 8 32),
      (''DQO_SKEW'', field 8 40),
      (''ADDR_SKEW'', field 8 48),
      (''DLL_DEFAULT'', field 8 56)]"

definition V_MC_CLK_RATIO_DEFAULT :: u64 where
  "V_MC_CLK_RATIO_DEFAULT = SB_MAKEVALUE 5 0"

definition V_MC_REF_RATE_DEFAULT :: u64 where
  "V_MC_REF_RATE_DEFAULT = SB_MAKEVALUE 98 8"

definition V_MC_CLOCK_DRIVE_DEFAULT :: u64 where
  "V_MC_CLOCK_DRIVE_DEFAULT = SB_MAKEVALUE 15 16"

definition V_MC_DATA_DRIVE_DEFAULT :: u64 where
  "V_MC_DATA_DRIVE_DEFAULT = SB_MAKEVALUE 0 20"

definition V_MC_ADDR_DRIVE_DEFAULT :: u64 where
  "V_MC_ADDR_DRIVE_DEFAULT = SB_MAKEVALUE 0 24"

definition V_MC_DQI_SKEW_DEFAULT :: u64 where
  "V_MC_DQI_SKEW_DEFAULT = SB_MAKEVALUE 0 32"

definition V_MC_DQO_SKEW_DEFAULT :: u64 where
  "V_MC_DQO_SKEW_DEFAULT = SB_MAKEVALUE 0 40"

definition V_MC_ADDR_SKEW_DEFAULT :: u64 where
  "V_MC_ADDR_SKEW_DEFAULT = SB_MAKEVALUE 15 48"

definition V_MC_DLL_DEFAULT_DEFAULT :: u64 where
  "V_MC_DLL_DEFAULT_DEFAULT = SB_MAKEVALUE 16 56"

definition V_MC_CLKCONFIG_DEFAULT :: u64 where
  "V_MC_CLKCONFIG_DEFAULT = V_MC_DLL_DEFAULT_DEFAULT OR
     V_MC_ADDR_SKEW_DEFAULT OR
     V_MC_DQO_SKEW_DEFAULT OR
     V_MC_DQI_SKEW_DEFAULT OR
     V_MC_ADDR_DRIVE_DEFAULT OR
     V_MC_DATA_DRIVE_DEFAULT OR
     V_MC_CLOCK_DRIVE_DEFAULT OR
     V_MC_REF_RATE_DEFAULT"

subsection \<open>DRAM Command Register (Table 6-13)\<close>

definition sb_mc_dram_command :: register where
  "sb_mc_dram_command =
     [(''COMMAND'', codes [KV ''EMRS'' 0 0, KV ''MRS'' 1 1, KV ''PRE'' 2 2, KV ''AR'' 3 3, KV ''SETRFSH'' 4 4,
        KV ''CLRRFSH'' 5 5, KV ''SETPWRDN'' 6 6, KV ''CLRPWRDN'' 7 7] (field 4 0)),
      (''CS0'', flag 4),
      (''CS1'', flag 5),
      (''CS2'', flag 6),
      (''CS3'', flag 7)]"

subsection \<open>DRAM Mode Register (Table 6-14)\<close>

definition sb_mc_dram_mode :: "u32 \<Rightarrow> register" where
  "sb_mc_dram_mode ft =
     [(''EMODE'', field 15 0),
      (''MODE'', field 15 16),
      (''DRAM_TYPE'', codes [KV ''JEDEC'' 0 0, KV ''FCRAM'' 1 1, KV ''SGRAM'' 2 2] (field 3 32)),
      (''EXTERNALDECODE'', flag 35)]
     @ only_if (SIBYTE_HDR_FEATURE ft BCM1250_PASS3 \<or> SIBYTE_HDR_FEATURE ft BCM112x_PASS1)
     [(''PRE_ON_A8'', flag 36),
      (''RAM_WITH_A13'', flag 38)]"

definition V_MC_EMODE_DEFAULT :: u64 where
  "V_MC_EMODE_DEFAULT = SB_MAKEVALUE 0 0"

definition V_MC_MODE_DEFAULT :: u64 where
  "V_MC_MODE_DEFAULT = SB_MAKEVALUE 34 16"

subsection \<open>SDRAM Timing Register (Table 6-15)\<close>

definition sb_mc_sdram_timing :: "u32 \<Rightarrow> register" where
  "sb_mc_sdram_timing ft =
     [(''w2rIDLE_TWOCYCLES'', flag 60),
      (''r2wIDLE_TWOCYCLES'', flag 61),
      (''r2rIDLE_TWOCYCLES'', flag 62),
      (''tFIFO'', codes [KV ''DEFAULT'' 1 1] (field 4 56)),
      (''tRFC'', codes [KV ''DEFAULT'' 12 12] (field 4 52))]
     @ only_if (SIBYTE_HDR_FEATURE ft BCM1250_PASS3)
     [(''tRFC_PLUS16'', flag 51)]
     @ [(''tCwCr'', codes [KV ''DEFAULT'' 4 4] (field 4 40)),
      (''tRCr'', codes [KV ''DEFAULT'' 9 9] (field 4 28)),
      (''tRCw'', codes [KV ''DEFAULT'' 10 10] (field 4 24)),
      (''tRRD'', codes [KV ''DEFAULT'' 2 2] (field 4 20)),
      (''tRP'', codes [KV ''DEFAULT'' 4 4] (field 4 16)),
      (''tCwD'', codes [KV ''DEFAULT'' 1 1] (field 4 8)),
      (''tCrDh'', flag 7),
      (''tCrD'', codes [KV ''DEFAULT'' 2 2] (field 3 4)),
      (''tRCD'', codes [KV ''DEFAULT'' 3 3] (field 4 0))]"

definition V_MC_TIMING_DEFAULT :: u64 where
  "V_MC_TIMING_DEFAULT = SB_MAKEVALUE 1 56 OR
     SB_MAKEVALUE 12 52 OR
     SB_MAKEVALUE 4 40 OR
     SB_MAKEVALUE 9 28 OR
     SB_MAKEVALUE 10 24 OR
     SB_MAKEVALUE 2 20 OR
     SB_MAKEVALUE 4 16 OR
     SB_MAKEVALUE 1 8 OR
     SB_MAKEVALUE 2 4 OR
     SB_MAKEVALUE 3 0 OR
     SB_MAKEMASK1 62"

subsection \<open>Chip Select Start Address Register (Table 6-17)\<close>

definition sb_mc_chip_select_start_address :: register where
  "sb_mc_chip_select_start_address =
     [(''CS0_START'', field 16 0),
      (''CS1_START'', field 16 16),
      (''CS2_START'', field 16 32),
      (''CS3_START'', field 16 48)]"

subsection \<open>Chip Select End Address Register (Table 6-18)\<close>

definition sb_mc_chip_select_end_address :: register where
  "sb_mc_chip_select_end_address =
     [(''CS0_END'', field 16 0),
      (''CS1_END'', field 16 16),
      (''CS2_END'', field 16 32),
      (''CS3_END'', field 16 48)]"

subsection \<open>Chip Select Interleave Register (Table 6-19)\<close>

definition sb_mc_chip_select_interleave :: register where
  "sb_mc_chip_select_interleave =
     [(''INTLV_RESERVED'', bits 5 0),
      (''INTERLEAVE'', put_as (Macro 7) (bits 18 7)),
      (''INTLV_MBZ'', bits 39 25)]"

subsection \<open>Row Address Bits Register (Table 6-20)\<close>

definition sb_mc_row_address_bits :: register where
  "sb_mc_row_address_bits =
     [(''RAS_RESERVED'', bits 5 0),
      (''RAS_SELECT'', put_as (Macro 12) (bits 25 12)),
      (''RAS_MBZ'', bits 27 37)]"

subsection \<open>Column Address Bits Register (Table 6-21)\<close>

definition sb_mc_column_address_bits :: register where
  "sb_mc_column_address_bits =
     [(''CAS_RESERVED'', bits 5 0),
      (''CAS_SELECT'', put_as (Macro 5) (bits 18 5)),
      (''CAS_MBZ'', bits 41 23)]"

subsection \<open>Bank Address Address Bits Register (Table 6-22)\<close>

definition sb_mc_bank_address_address_bits :: register where
  "sb_mc_bank_address_address_bits =
     [(''BA_RESERVED'', bits 5 0),
      (''BA_SELECT'', put_as (Macro 5) (bits 20 5)),
      (''BA_MBZ'', bits 39 25)]"

subsection \<open>Chip Select Attribute Register (Table 6-23)\<close>

definition sb_mc_chip_select_attribute :: register where
  "sb_mc_chip_select_attribute =
     [(''CS0_PAGE'', field 2 0),
      (''CS1_PAGE'', field 2 16),
      (''CS2_PAGE'', field 2 32),
      (''CS3_PAGE'', field 2 48)]"

definition sb_mc_chip_select_attribute_consts :: "(string \<times> u64) list" where
  "sb_mc_chip_select_attribute_consts =
     [(''CS_ATTR_CLOSED'', 0), (''CS_ATTR_CASCHECK'', 1), (''CS_ATTR_HINT'', 2), (''CS_ATTR_OPEN'', 3)]"

subsection \<open>ECC Test ECC Register (Table 6-25)\<close>

definition sb_mc_ecc_test_ecc :: register where
  "sb_mc_ecc_test_ecc =
     [(''ECC_INVERT'', bits 8 0)]"

subsection \<open>The header\<close>

definition sb1250_mc :: "u32 \<Rightarrow> header" where
  "sb1250_mc ft =
     [(''memory_channel_config'', sb_mc_memory_channel_config),
      (''memory_clock_configuration'', sb_mc_memory_clock_configuration ft),
      (''dram_command'', sb_mc_dram_command),
      (''dram_mode'', sb_mc_dram_mode ft),
      (''sdram_timing'', sb_mc_sdram_timing ft),
      (''chip_select_start_address'', sb_mc_chip_select_start_address),
      (''chip_select_end_address'', sb_mc_chip_select_end_address),
      (''chip_select_interleave'', sb_mc_chip_select_interleave),
      (''row_address_bits'', sb_mc_row_address_bits),
      (''column_address_bits'', sb_mc_column_address_bits),
      (''bank_address_address_bits'', sb_mc_bank_address_address_bits),
      (''chip_select_attribute'', sb_mc_chip_select_attribute),
      (''ecc_test_ecc'', sb_mc_ecc_test_ecc)]"

lemmas sb1250_mc_defs = sb1250_mc_def
    sb_mc_memory_channel_config_def sb_mc_memory_clock_configuration_def sb_mc_dram_command_def 
    sb_mc_dram_mode_def sb_mc_sdram_timing_def sb_mc_chip_select_start_address_def 
    sb_mc_chip_select_end_address_def sb_mc_chip_select_interleave_def sb_mc_row_address_bits_def 
    sb_mc_column_address_bits_def sb_mc_bank_address_address_bits_def sb_mc_chip_select_attribute_def 
    sb_mc_ecc_test_ecc_def

lemma sb1250_mc_ascending:
  "register_defects sb_mc_memory_channel_config = ([], [])"
  "register_defects sb_mc_dram_command = ([], [])"
  "register_defects sb_mc_chip_select_start_address = ([], [])"
  "register_defects sb_mc_chip_select_end_address = ([], [])"
  "register_defects sb_mc_chip_select_interleave = ([], [])"
  "register_defects sb_mc_row_address_bits = ([], [])"
  "register_defects sb_mc_column_address_bits = ([], [])"
  "register_defects sb_mc_bank_address_address_bits = ([], [])"
  "register_defects sb_mc_chip_select_attribute = ([], [])"
  "register_defects sb_mc_ecc_test_ecc = ([], [])"
  by (simp_all add: ascending_eval sb1250_mc_defs)

lemma sb1250_mc_ascending_revisions:
  "register_defects (sb_mc_memory_clock_configuration (SIBYTE_HDR_FMASK p)) = ([], [])"
  "register_defects (sb_mc_dram_mode (SIBYTE_HDR_FMASK p)) = ([], [])"
  by (induction p) (simp_all add: ascending_eval sb1250_mc_defs)

lemma sb1250_mc_other_revisions:
  "register_defects (sb_mc_sdram_timing (SIBYTE_HDR_FMASK p)) = ([], [])"
  by (induction p) (simp_all add: register_eval sb1250_mc_defs)

lemma sb1250_mc_defects:
  "defects (sb1250_mc (SIBYTE_HDR_FMASK p)) =
     []"
  by (simp add: defects_def sb1250_mc_def sb1250_mc_ascending sb1250_mc_ascending_revisions sb1250_mc_other_revisions)

end
