(* ===== verification/Sb1250Pci.thy ===== *)
theory Sb1250Pci
  imports Registers
begin

text \<open>
  The registers of the PCI interface of the BCM1250 and BCM112x, from \<open>include/sibyte/sb1250_pci.h\<close>, one list of fields for each
  register the header describes.
\<close>

unbundle bit_operations_syntax

subsection \<open>PCI vendor and device\<close>

definition sb_pci_vendor_device :: "(string \<times> u64) list" where
  "sb_pci_vendor_device =
     [(''VENDOR_SIBYTE'', 0x166d), (''DEVICE_SB1250'', 1)]"

subsection \<open>PCI Interface Type 0 configuration header\<close>

definition sb_pci_interface_type_0_configuration_header :: "u32 \<Rightarrow> (string \<times> u64) list" where
  "sb_pci_interface_type_0_configuration_header ft =
     [(''TYPE0_DEVICEID'', 0), (''TYPE0_CMDSTATUS'', 4), (''TYPE0_CLASSREV'', 8), (''TYPE0_DEVHDR'', 12),
      (''TYPE0_BAR0'', 16), (''TYPE0_BAR1'', 20), (''TYPE0_BAR2'', 24), (''TYPE0_BAR3'', 28), (''TYPE0_BAR4'',
        32),
      (''TYPE0_BAR5'', 36), (''TYPE0_CARDBUSCIS'', 40), (''TYPE0_SUBSYSID'', 44), (''TYPE0_ROMBASE'', 48),
      (''TYPE0_CAPPTR'', 52), (''TYPE0_RESERVED1'', 56), (''TYPE0_INTGRANT'', 60), (''TYPE0_TIMEOUT'', 64),
      (''TYPE0_FCONTROL'', 64), (''TYPE0_MAPBASE'', 68), (''PCI_TYPE0_MAPENTRIES'', 32),
      (''TYPE0_ERRORADDR'', 132), (''TYPE0_ADDSTATUS'', 136), (''TYPE0_SUBSYSSET'', 140)]
     @ only_if (SIBYTE_HDR_FEATURE ft BCM1250_PASS2 \<or> SIBYTE_HDR_FEATURE ft BCM112x_PASS1)
     [(''TYPE0_READHOST'', 148), (''TYPE0_ADXTEND'', 152)]"

subsection \<open>PCI Device ID register\<close>

definition sb_pci_device_id :: register where
  "sb_pci_device_id =
     [(''DEVICEID_VENDOR'', field32 16 0),
      (''DEVICEID_DEVICEID'', field32 16 16)]"

subsection \<open>PCI Command Register (Table 8-4)\<close>

definition sb_pci_command :: register where
  "sb_pci_command =
     [(''CMD_IOSPACE_EN'', flag32 0),
      (''CMD_MEMSPACE_EN'', flag32 1),
      (''CMD_MASTER_EN'', flag32 2),
      (''CMD_SPECCYC_EN'', flag32 3),
      (''CMD_MEMWRINV_EN'', flag32 4),
      (''CMD_VGAPALSNP_EN'', flag32 5),
      (''CMD_PARERRRESP'', flag32 6),
      (''CMD_STEPCTRL'', flag32 7),
      (''CMD_SERR_EN'', flag32 8),
      (''CMD_FASTB2B_EN'', flag32 9)]"

subsection \<open>PCI class and revision registers\<close>

definition sb_pci_class_revision :: register where
  "sb_pci_class_revision =
     [(''CLASSREV_REV'', field32 8 0),
      (''CLASSREV_CLASS'', field32 24 8)]"

definition sb_pci_class_revision_consts :: "(string \<times> u64) list" where
  "sb_pci_class_revision_consts =
     [(''REV'', 1), (''CLASS'', 0x60000)]"

subsection \<open>Device Header (offset 0x0C)\<close>

definition sb_pci_device_header :: register where
  "sb_pci_device_header =
     [(''DEVHDR_CLINESZ'', field32 8 0),
      (''DEVHDR_LATTMR'', field32 8 8),
      (''DEVHDR_HDRTYPE'', codes [K ''TYPE0'' 0] (field32 8 16)),
      (''DEVHDR_BIST'', field32 8 24)]"

subsection \<open>PCI Status Register (Table 8-5). Note that these constants assume you\<close>

definition sb_pci_status_note_that_these_constants :: register where
  "sb_pci_status_note_that_these_constants =
     [(''STATUS_CAPLIST'', flag32 20),
      (''STATUS_66MHZCAP'', flag32 21),
      (''STATUS_RESERVED2'', flag32 22),
      (''STATUS_FASTB2BCAP'', flag32 23),
      (''STATUS_MSTRDPARERR'', flag32 24),
      (''STATUS_DEVSELTIMING'', field32 2 25),
      (''STATUS_SIGDTGTABORT'', flag32 27),
      (''STATUS_RCVDTGTABORT'', flag32 28),
      (''STATUS_RCVDMSTRABORT'', flag32 29),
      (''STATUS_SIGDSERR'', flag32 30),
      (''STATUS_DETPARERR'', flag32 31)]"

subsection \<open>Device Header Register (Table 8-6, Table 8-7)\<close>

definition sb_pci_device_header_2 :: register where
  "sb_pci_device_header_2 =
     [(''DEVHDR_CLINESZ'', field32 8 0),
      (''DEVHDR_LATTIME'', field32 8 8),
      (''DEVHDR_HDRTYPE'', field32 8 16),
      (''DEVHDR_BIST'', field32 8 24)]"

subsection \<open>Timeout and feature control Register (Table 8-8) (Table 8-9) Note that\<close>

definition sb_pci_timeout_feature_control_note_that_these :: register where
  "sb_pci_timeout_feature_control_note_that_these =
     [(''TIMEOUT_TRDY'', field32 8 0),
      (''TIMEOUT_RETRY'', field32 8 8),
      (''FCONTROL_BAR4_EN'', flag32 16),
      (''FCONTROL_BAR5_EN'', flag32 17),
      (''FCONTROL_PTP_EN'', flag32 18),
      (''FCONTROL_ADAPT_RETRY_EN'', flag32 19),
      (''FCONTROL_MIN_TAR_RETRY'', field32 3 20),
      (''FCONTROL_NOM_TAR_RETRY'', field32 4 23),
      (''FCONTROL_MAX_TAR_RETRY'', field32 5 27)]"

subsection \<open>BAR0 Map Table Entry (Offsets 0x40-0x80) (Table 8-10)\<close>

definition sb_pci_bar0_map_entry :: register where
  "sb_pci_bar0_map_entry =
     [(''BAR0MAP_ENABLE'', flag32 0),
      (''BAR0MAP_SENDLDT'', flag32 1),
      (''BAR0MAP_ADDR'', bits32 20 12)]"

subsection \<open>Additional Status Register (Table 8-11)\<close>

definition sb_pci_additional_status :: register where
  "sb_pci_additional_status =
     [(''ASTATUS_HOTPLUG_EN'', flag32 0),
      (''ASTATUS_SERR_DET'', flag32 1),
      (''ASTATUS_TRDYERR'', flag32 2),
      (''ASTATUS_RETRTYERR'', flag32 3),
      (''ASTATUS_TRDYINTMASK'', flag32 4),
      (''ASTATUS_RETRYINTMASK'', flag32 5),
      (''ASTATUS_SIGNALINTA'', flag32 6)]"

subsection \<open>Read Host Register\<close>

definition sb_pci_read_host :: "u32 \<Rightarrow> register" where
  "sb_pci_read_host ft =
     only_if (SIBYTE_HDR_FEATURE ft BCM1250_PASS2 \<or> SIBYTE_HDR_FEATURE ft BCM112x_PASS1)
     [(''READHOST_RDHOST'', flag32 0)]"

subsection \<open>Adaptive Extend Register\<close>

definition sb_pci_adaptive_extend :: "u32 \<Rightarrow> register" where
  "sb_pci_adaptive_extend ft =
     only_if (SIBYTE_HDR_FEATURE ft BCM1250_PASS2 \<or> SIBYTE_HDR_FEATURE ft BCM112x_PASS1)
     [(''ADXTEND_NOM_TAR_RETRY'', field32 3 1),
      (''ADXTEND_MAX_TAR_RETRY'', field32 2 4),
      (''ADXTEND_DIS_DMAR_IOW_DEP'', flag32 6),
      (''ADXTEND_DIS_MEMRD_BE'', flag32 6)]"

subsection \<open>The header\<close>

definition sb1250_pci :: "u32 \<Rightarrow> header" where
  "sb1250_pci ft =
     [(''device_id'', sb_pci_device_id),
      (''command'', sb_pci_command),
      (''class_revision'', sb_pci_class_revision),
      (''device_header'', sb_pci_device_header),
      (''status_note_that_these_constants'', sb_pci_status_note_that_these_constants),
      (''device_header_2'', sb_pci_device_header_2),
      (''timeout_feature_control_note_that_these'', sb_pci_timeout_feature_control_note_that_these),
      (''bar0_map_entry'', sb_pci_bar0_map_entry),
      (''additional_status'', sb_pci_additional_status),
      (''read_host'', sb_pci_read_host ft),
      (''adaptive_extend'', sb_pci_adaptive_extend ft)]"

lemmas sb1250_pci_defs = sb1250_pci_def
    sb_pci_device_id_def sb_pci_command_def sb_pci_class_revision_def sb_pci_device_header_def 
    sb_pci_status_note_that_these_constants_def sb_pci_device_header_2_def 
    sb_pci_timeout_feature_control_note_that_these_def sb_pci_bar0_map_entry_def sb_pci_additional_status_def 
    sb_pci_read_host_def sb_pci_adaptive_extend_def

lemma sb1250_pci_ascending:
  "register_defects sb_pci_device_id = ([], [])"
  "register_defects sb_pci_command = ([], [])"
  "register_defects sb_pci_class_revision = ([], [])"
  "register_defects sb_pci_device_header = ([], [])"
  "register_defects sb_pci_status_note_that_these_constants = ([], [])"
  "register_defects sb_pci_device_header_2 = ([], [])"
  "register_defects sb_pci_timeout_feature_control_note_that_these = ([], [])"
  "register_defects sb_pci_bar0_map_entry = ([], [])"
  "register_defects sb_pci_additional_status = ([], [])"
  by (simp_all add: ascending_eval sb1250_pci_defs)

lemma sb1250_pci_ascending_revisions:
  "register_defects (sb_pci_read_host (SIBYTE_HDR_FMASK p)) = ([], [])"
  by (induction p) (simp_all add: ascending_eval sb1250_pci_defs)

lemma sb1250_pci_other_revisions:
  "register_defects (sb_pci_adaptive_extend (SIBYTE_HDR_FMASK p)) = (if p \<in> {BCM1250_PASS1, BCM1480_PASS1} then ([], [])
      else ([], [(''ADXTEND_DIS_DMAR_IOW_DEP'', ''ADXTEND_DIS_MEMRD_BE'')]))"
  by (induction p) (simp_all add: register_eval sb1250_pci_defs)

lemma sb1250_pci_defects:
  "defects (sb1250_pci (SIBYTE_HDR_FMASK p)) =
     (if p \<in> {BCM1250_PASS1, BCM1480_PASS1} then []
      else [(''adaptive_extend'', [], [(''ADXTEND_DIS_DMAR_IOW_DEP'', ''ADXTEND_DIS_MEMRD_BE'')])])"
  by (simp add: defects_def sb1250_pci_def sb1250_pci_ascending sb1250_pci_ascending_revisions sb1250_pci_other_revisions)

end
