(* ===== verification/Sb1250Scd.thy ===== *)
theory Sb1250Scd
  imports Registers
begin

text \<open>
  The registers of the system control and debug unit of the BCM1250 and BCM112x, from \<open>include/sibyte/sb1250_scd.h\<close>, one list of fields for each
  register the header describes. Fields that share the bits of others, because they are
  another view of the register or belong to another register of the same description, are in a
  list of their own.
\<close>

unbundle bit_operations_syntax

subsection \<open>System revision\<close>

definition sb_scd_system_revision :: "u32 \<Rightarrow> register" where
  "sb_scd_system_revision ft =
     [(''SYS_RESERVED'', bits 8 0),
      (''SYS_REVISION'', codes ([K ''BCM1250_PASS1'' 1, K ''BCM1250_PASS2'' 3, K ''BCM1250_A1'' 3,
        K ''BCM1250_A2'' 4, K ''BCM1250_A3'' 5, K ''BCM1250_A4'' 6, K ''BCM1250_A6'' 7, K ''BCM1250_A8'' 11,
        K ''BCM1250_A9'' 8, K ''BCM1250_A10'' 11, K ''BCM1250_PASS2_2'' 16, K ''BCM1250_B0'' 16,
        K ''BCM1250_B1'' 16, K ''BCM1250_B2'' 17, K ''BCM1250_C0'' 32, K ''BCM1250_C1'' 33,
        K ''BCM1250_C2'' 34,
        K ''BCM1250_C3'' 35] @ only_if (SIBYTE_HDR_FEATURE_CHIP ft BCM1250) [K ''PASS1'' 1, K ''PASS2'' 3,
        K ''PASS2_2'' 16, K ''PASS3'' 32, K ''BCM1250_PASS3'' 32] @ [K ''BCM112x_A1'' 32, K ''BCM112x_A2'' 33,
        K ''BCM112x_A3'' 34, K ''BCM112x_A4'' 35, K ''BCM1480_S0'' 1]) (field 8 8)),
      (''SYS_PART'', codes [K ''SB1250'' 0x1250, K ''BCM1120'' 0x1121, K ''BCM1125'' 0x1123,
        K ''BCM1125H'' 0x1124, K ''BCM1122'' 0x1113] (field 16 16)),
      (''SYS_WID'', field 32 32)]"

definition sb_scd_system_revision_fields_of_part :: register where
  "sb_scd_system_revision_fields_of_part =
     [(''SYS_L2C_SIZE'', codes [K ''1MB'' 0, K ''512KB'' 5, K ''256KB'' 2, K ''128KB'' 1, K ''BCM1250'' 5,
        K ''BCM1125'' 2, K ''BCM1122'' 1] (field 4 20)),
      (''SYS_NUM_CPUS'', field 4 24),
      (''SYS_SOC_TYPE'', codes [K ''BCM1250'' 0, K ''BCM1120'' 1, K ''BCM1250_ALT'' 2, K ''BCM1125'' 3,
        K ''BCM1125H'' 4, K ''BCM1250_ALT2'' 5, K ''BCM1x80'' 6, K ''BCM1x55'' 7] (field 4 16))]"

subsection \<open>Wafer id\<close>

definition sb_scd_wafer_id :: "u32 \<Rightarrow> register" where
  "sb_scd_wafer_id ft =
     only_if (SIBYTE_HDR_FEATURE_1250_112x ft)
     [(''SYS_WAFERID1_200'', field 32 0),
      (''SYS_BIN'', field 4 32),
      (''SYS_WAFERID2_200'', field 4 36)]"

subsection \<open>Wafer id of 300 mm wafers\<close>

definition sb_scd_wafer_id_300_mm_wafers :: "u32 \<Rightarrow> register" where
  "sb_scd_wafer_id_300_mm_wafers ft =
     only_if (SIBYTE_HDR_FEATURE_1250_112x ft)
     [(''SYS_WAFERID_300'', field 40 0),
      (''SYS_XPOS'', field 6 40),
      (''SYS_YPOS'', field 6 46)]"

subsection \<open>System Config Register (Table 4-2) Register: SCD SYSTEM CFG\<close>

definition sb_scd_system_config_scd_system_cfg :: "u32 \<Rightarrow> register" where
  "sb_scd_system_config_scd_system_cfg ft =
     only_if (SIBYTE_HDR_FEATURE_1250_112x ft)
     [(''SYS_LDT_PLL_BYP'', flag 3),
      (''SYS_PCI_SYNC_TEST_MODE'', flag 4),
      (''SYS_IOB0_DIV'', flag 5),
      (''SYS_IOB1_DIV'', flag 6),
      (''SYS_PLL_DIV'', field 5 7),
      (''SYS_SER0_ENABLE'', flag 12),
      (''SYS_SER0_RSTB_EN'', flag 13),
      (''SYS_SER1_ENABLE'', flag 14),
      (''SYS_SER1_RSTB_EN'', flag 15),
      (''SYS_PCMCIA_ENABLE'', flag 16),
      (''SYS_BOOT_MODE'', codes [K ''ROM32'' 0, K ''ROM8'' 1, K ''SMBUS_SMALL'' 2,
        K ''SMBUS_BIG'' 3] (field 2 17)),
      (''SYS_PCI_HOST'', flag 19),
      (''SYS_PCI_ARBITER'', flag 20),
      (''SYS_SOUTH_ON_LDT'', flag 21),
      (''SYS_BIG_ENDIAN'', flag 22),
      (''SYS_GENCLK_EN'', flag 23),
      (''SYS_LDT_TEST_EN'', flag 24),
      (''SYS_GEN_PARITY_EN'', flag 25),
      (''SYS_CONFIG'', field 6 26),
      (''SYS_CLKSTOP'', flag 32),
      (''SYS_CLKSTEP'', flag 33),
      (''SYS_CLKCOUNT'', field 8 34),
      (''SYS_PLL_BYPASS'', flag 42),
      (''SYS_PLL_IREF'', bits 2 43),
      (''SYS_PLL_VCO'', bits 2 45),
      (''SYS_PLL_VREG'', bits 2 47),
      (''SYS_MEM_RESET'', flag 49),
      (''SYS_L2C_RESET'', flag 50),
      (''SYS_IO_RESET_0'', flag 51),
      (''SYS_IO_RESET_1'', flag 52),
      (''SYS_SCD_RESET'', flag 53),
      (''SYS_CPU_RESET_0'', flag 54),
      (''SYS_CPU_RESET_1'', flag 55),
      (''SYS_UNICPU0'', flag 56),
      (''SYS_UNICPU1'', flag 57),
      (''SYS_SB_SOFTRES'', flag 58),
      (''SYS_EXT_RESET'', flag 59),
      (''SYS_SYSTEM_RESET'', flag 60),
      (''SYS_MISR_MODE'', flag 61),
      (''SYS_MISR_RESET'', flag 62)]
     @ only_if (SIBYTE_HDR_FEATURE_1250_112x ft \<and> (SIBYTE_HDR_FEATURE ft BCM1250_PASS2 \<or> SIBYTE_HDR_FEATURE ft BCM112x_PASS1))
     [(''SYS_SW_FLAG'', flag 63)]"

subsection \<open>Mailbox Registers (Table 4-3) Registers: SCD MBOX CPU x\<close>

definition sb_scd_mailbox_scd_mbox_cpu_x :: register where
  "sb_scd_mailbox_scd_mbox_cpu_x =
     [(''MBOX_INT_3'', bits 16 0),
      (''MBOX_INT_2'', bits 16 16),
      (''MBOX_INT_1'', bits 16 32),
      (''MBOX_INT_0'', bits 16 48)]"

subsection \<open>Watchdog Registers (Table 4-8) (Table 4-9) (Table 4-10) Registers: SCD\<close>

definition sb_scd_watchdog_scd_wdog_init_cnt_x :: register where
  "sb_scd_watchdog_scd_wdog_init_cnt_x =
     [(''WDOG_INIT'', bits 23 0)]"

definition sb_scd_watchdog_scd_wdog_init_cnt_x_count :: register where
  "sb_scd_watchdog_scd_wdog_init_cnt_x_count =
     [(''WDOG_CNT'', bits 23 0)]"

definition sb_scd_watchdog_scd_wdog_init_cnt_x_config :: register where
  "sb_scd_watchdog_scd_wdog_init_cnt_x_config =
     [(''WDOG_ENABLE'', flag 0),
      (''WDOG_RESET_TYPE'', field 3 2)]"

definition sb_scd_watchdog_scd_wdog_init_cnt_x_consts :: "(string \<times> u64) list" where
  "sb_scd_watchdog_scd_wdog_init_cnt_x_consts =
     [(''WDOG_RESET_FULL'', 0), (''WDOG_RESET_SOFT'', 1), (''WDOG_RESET_CPU0'', 3), (''WDOG_RESET_CPU1'', 5),
      (''WDOG_RESET_BOTH_CPUS'', 7)]"

definition V_SCD_WDOG_FREQ :: u64 where
  "V_SCD_WDOG_FREQ = 0xf4240"

subsection \<open>Watchdog reset flag\<close>

definition sb_scd_watchdog_reset_flag :: "u32 \<Rightarrow> register" where
  "sb_scd_watchdog_reset_flag ft =
     only_if (SIBYTE_HDR_FEATURE ft BCM1250_PASS3)
     [(''WDOG_HAS_RESET'', flag 8)]"

subsection \<open>Timer Registers (Table 4-11) (Table 4-12) (Table 4-13)\<close>

definition sb_scd_timer :: register where
  "sb_scd_timer =
     [(''TIMER_INIT'', field 20 0)]"

definition sb_scd_timer_count :: register where
  "sb_scd_timer_count =
     [(''TIMER_CNT'', field 20 0)]"

definition sb_scd_timer_config :: register where
  "sb_scd_timer_config =
     [(''TIMER_ENABLE'', flag 0),
      (''TIMER_MODE'', flag 1)]"

definition V_SCD_TIMER_FREQ :: u64 where
  "V_SCD_TIMER_FREQ = 0xf4240"

definition M_SCD_TIMER_MODE_CONTINUOUS :: u64 where
  "M_SCD_TIMER_MODE_CONTINUOUS = SB_MAKEMASK1 1"

subsection \<open>System Performance Counters\<close>

definition sb_scd_system_performance_counters :: "u32 \<Rightarrow> register" where
  "sb_scd_system_performance_counters ft =
     only_if (SIBYTE_HDR_FEATURE_1250_112x ft)
     [(''SPC_CFG_SRC0'', field 8 0),
      (''SPC_CFG_SRC1'', field 8 8),
      (''SPC_CFG_SRC2'', field 8 16),
      (''SPC_CFG_SRC3'', field 8 24),
      (''SPC_CFG_CLEAR'', flag 32),
      (''SPC_CFG_ENABLE'', flag 33)]"

subsection \<open>Bus Watcher\<close>

definition sb_scd_bus_watcher :: register where
  "sb_scd_bus_watcher =
     [(''BERR_TID'', field 10 8),
      (''BERR_RID'', field 4 18),
      (''BERR_DCODE'', field 3 22),
      (''BERR_MULTERRS'', flag 30)]"

definition sb_scd_bus_watcher_l2 :: register where
  "sb_scd_bus_watcher_l2 =
     [(''L2ECC_CORR_D'', field 8 0),
      (''L2ECC_BAD_D'', field 8 8),
      (''L2ECC_CORR_T'', field 8 16),
      (''L2ECC_BAD_T'', field 8 24)]"

definition sb_scd_bus_watcher_mem :: register where
  "sb_scd_bus_watcher_mem =
     [(''MEM_ECC_CORR'', field 8 0),
      (''MEM_ECC_BAD'', field 8 8),
      (''MEM_BUSERR'', field 8 16)]"

subsection \<open>Address Trap Registers\<close>

definition sb_scd_address_trap :: "u32 \<Rightarrow> register" where
  "sb_scd_address_trap ft =
     only_if (SIBYTE_HDR_FEATURE_1250_112x ft)
     [(''ATRAP_CFG_CNT'', field 3 0),
      (''ATRAP_CFG_WRITE'', flag 3),
      (''ATRAP_CFG_ALL'', flag 4),
      (''ATRAP_CFG_INV'', flag 5),
      (''ATRAP_CFG_USESRC'', flag 6),
      (''ATRAP_CFG_SRCINV'', flag 7),
      (''ATRAP_CFG_AGENTID'', field 4 8),
      (''ATRAP_CFG_CATTR'', codes [K ''IGNORE'' 0, K ''UNC'' 1, K ''CACHEABLE'' 2, K ''NONCOH'' 3,
        K ''COHERENT'' 4, K ''NOTUNC'' 5, K ''NOTNONCOH'' 6, K ''NOTCOHERENT'' 7] (field 3 12))]"

definition sb_scd_address_trap_index :: "u32 \<Rightarrow> register" where
  "sb_scd_address_trap_index ft =
     only_if (SIBYTE_HDR_FEATURE_1250_112x ft)
     [(''ATRAP_INDEX'', bits 4 0)]"

definition sb_scd_address_trap_address :: "u32 \<Rightarrow> register" where
  "sb_scd_address_trap_address ft =
     only_if (SIBYTE_HDR_FEATURE_1250_112x ft)
     [(''ATRAP_ADDRESS'', bits 40 0)]"

definition sb_scd_address_trap_consts :: "u32 \<Rightarrow> (string \<times> u64) list" where
  "sb_scd_address_trap_consts ft =
     only_if (SIBYTE_HDR_FEATURE_1250_112x ft)
     [(''K_BUS_AGENT_CPU0'', 0), (''K_BUS_AGENT_CPU1'', 1), (''K_BUS_AGENT_IOB0'', 2), (''K_BUS_AGENT_IOB1'',
        3),
      (''K_BUS_AGENT_SCD'', 4), (''K_BUS_AGENT_L2C'', 6), (''K_BUS_AGENT_MC'', 7)]"

subsection \<open>Trace Buffer Config register\<close>

definition sb_scd_trace_buffer_config :: "u32 \<Rightarrow> register" where
  "sb_scd_trace_buffer_config ft =
     [(''TRACE_CFG_RESET'', flag 0),
      (''TRACE_CFG_START_READ'', flag 1),
      (''TRACE_CFG_START'', flag 2),
      (''TRACE_CFG_STOP'', flag 3),
      (''TRACE_CFG_FREEZE'', flag 4),
      (''TRACE_CFG_FREEZE_FULL'', flag 5),
      (''TRACE_CFG_DEBUG_FULL'', flag 6),
      (''TRACE_CFG_FULL'', flag 7)]
     @ only_if (SIBYTE_HDR_FEATURE ft BCM1250_PASS2 \<or> SIBYTE_HDR_FEATURE ft BCM112x_PASS1)
     [(''TRACE_CFG_FORCECNT'', flag 8)]
     @ [(''TRACE_CFG_CUR_ADDR'', field 8 10)]"

subsection \<open>Trace Event registers\<close>

definition sb_scd_trace_event :: register where
  "sb_scd_trace_event =
     [(''TREVT_ADDR_MATCH'', field 4 0),
      (''TREVT_REQID_MATCH'', flag 4),
      (''TREVT_DATAID_MATCH'', flag 5),
      (''TREVT_RESPID_MATCH'', flag 6),
      (''TREVT_INTERRUPT'', flag 7),
      (''TREVT_DEBUG_PIN'', flag 9),
      (''TREVT_WRITE'', flag 10),
      (''TREVT_READ'', flag 11),
      (''TREVT_REQID'', field 4 12),
      (''TREVT_RESPID'', field 4 16),
      (''TREVT_DATAID'', put_as (Macro 20) (get_as Broken (bits 4 20))),
      (''TREVT_COUNT'', field 8 24)]"

subsection \<open>Trace Sequence registers\<close>

definition sb_scd_trace_sequence :: "u32 \<Rightarrow> register" where
  "sb_scd_trace_sequence ft =
     only_if (SIBYTE_HDR_FEATURE_1250_112x ft)
     [(''TRSEQ_EVENT4'', field 4 0),
      (''TRSEQ_EVENT3'', field 4 4),
      (''TRSEQ_EVENT2'', field 4 8),
      (''TRSEQ_EVENT1'', field 4 12),
      (''TRSEQ_FUNCTION'', codes [KV ''SCD_TRSEQ_FUNC_NOP'' 0 0, KV ''SCD_TRSEQ_FUNC_START'' 1 1,
        KV ''SCD_TRSEQ_FUNC_STOP'' 2 2, KV ''SCD_TRSEQ_FUNC_FREEZE'' 3 3] (field 4 16)),
      (''TRSEQ_ASAMPLE'', flag 18),
      (''TRSEQ_DSAMPLE'', flag 19),
      (''TRSEQ_DEBUGPIN'', flag 20),
      (''TRSEQ_DEBUGCPU'', flag 21),
      (''TRSEQ_CLEARUSE'', flag 22),
      (''TRSEQ_ALLD_A'', flag 23),
      (''TRSEQ_ALL_A'', flag 24)]"

definition sb_scd_trace_sequence_consts :: "u32 \<Rightarrow> (string \<times> u64) list" where
  "sb_scd_trace_sequence_consts ft =
     only_if (SIBYTE_HDR_FEATURE_1250_112x ft)
     [(''TRSEQ_E0'', 0), (''TRSEQ_E1'', 1), (''TRSEQ_E2'', 2), (''TRSEQ_E3'', 3), (''TRSEQ_E0_E1'', 4),
      (''TRSEQ_E1_E2'', 5), (''TRSEQ_E2_E3'', 6), (''TRSEQ_E0_E1_E2'', 7), (''TRSEQ_E0_E1_E2_E3'', 8),
      (''TRSEQ_E0E1'', 9), (''TRSEQ_E0E1E2'', 10), (''TRSEQ_E0E1E2E3'', 11), (''TRSEQ_E0E1_E2'', 12),
      (''TRSEQ_E0E1_E2E3'', 13), (''TRSEQ_E0E1_E2_E3'', 14), (''TRSEQ_IGNORED'', 15), (''TRSEQ_FUNC_NOP'', 0),
      (''TRSEQ_FUNC_START'', 1), (''TRSEQ_FUNC_STOP'', 2), (''TRSEQ_FUNC_FREEZE'', 3)]"

definition K_SCD_TRSEQ_TRIGGER_ALL :: u64 where
  "K_SCD_TRSEQ_TRIGGER_ALL = SB_MAKEVALUE 15 12 OR
     SB_MAKEVALUE 15 8 OR
     SB_MAKEVALUE 15 4 OR
     SB_MAKEVALUE 15 0"

subsection \<open>The header\<close>

definition sb1250_scd :: "u32 \<Rightarrow> header" where
  "sb1250_scd ft =
     [(''system_revision'', sb_scd_system_revision ft),
      (''system_revision_fields_of_part'', sb_scd_system_revision_fields_of_part),
      (''wafer_id'', sb_scd_wafer_id ft),
      (''wafer_id_300_mm_wafers'', sb_scd_wafer_id_300_mm_wafers ft),
      (''system_config_scd_system_cfg'', sb_scd_system_config_scd_system_cfg ft),
      (''mailbox_scd_mbox_cpu_x'', sb_scd_mailbox_scd_mbox_cpu_x),
      (''watchdog_scd_wdog_init_cnt_x'', sb_scd_watchdog_scd_wdog_init_cnt_x),
      (''watchdog_scd_wdog_init_cnt_x_count'', sb_scd_watchdog_scd_wdog_init_cnt_x_count),
      (''watchdog_scd_wdog_init_cnt_x_config'', sb_scd_watchdog_scd_wdog_init_cnt_x_config),
      (''watchdog_reset_flag'', sb_scd_watchdog_reset_flag ft),
      (''timer'', sb_scd_timer),
      (''timer_count'', sb_scd_timer_count),
      (''timer_config'', sb_scd_timer_config),
      (''system_performance_counters'', sb_scd_system_performance_counters ft),
      (''bus_watcher'', sb_scd_bus_watcher),
      (''bus_watcher_l2'', sb_scd_bus_watcher_l2),
      (''bus_watcher_mem'', sb_scd_bus_watcher_mem),
      (''address_trap'', sb_scd_address_trap ft),
      (''address_trap_index'', sb_scd_address_trap_index ft),
      (''address_trap_address'', sb_scd_address_trap_address ft),
      (''trace_buffer_config'', sb_scd_trace_buffer_config ft),
      (''trace_event'', sb_scd_trace_event),
      (''trace_sequence'', sb_scd_trace_sequence ft)]"

lemmas sb1250_scd_defs = sb1250_scd_def
    sb_scd_system_revision_def sb_scd_system_revision_fields_of_part_def sb_scd_wafer_id_def 
    sb_scd_wafer_id_300_mm_wafers_def sb_scd_system_config_scd_system_cfg_def 
    sb_scd_mailbox_scd_mbox_cpu_x_def sb_scd_watchdog_scd_wdog_init_cnt_x_def 
    sb_scd_watchdog_scd_wdog_init_cnt_x_count_def sb_scd_watchdog_scd_wdog_init_cnt_x_config_def 
    sb_scd_watchdog_reset_flag_def sb_scd_timer_def sb_scd_timer_count_def sb_scd_timer_config_def 
    sb_scd_system_performance_counters_def sb_scd_bus_watcher_def sb_scd_bus_watcher_l2_def 
    sb_scd_bus_watcher_mem_def sb_scd_address_trap_def sb_scd_address_trap_index_def 
    sb_scd_address_trap_address_def sb_scd_trace_buffer_config_def sb_scd_trace_event_def 
    sb_scd_trace_sequence_def

lemma sb1250_scd_ascending:
  "register_defects sb_scd_mailbox_scd_mbox_cpu_x = ([], [])"
  "register_defects sb_scd_watchdog_scd_wdog_init_cnt_x = ([], [])"
  "register_defects sb_scd_watchdog_scd_wdog_init_cnt_x_count = ([], [])"
  "register_defects sb_scd_watchdog_scd_wdog_init_cnt_x_config = ([], [])"
  "register_defects sb_scd_timer = ([], [])"
  "register_defects sb_scd_timer_count = ([], [])"
  "register_defects sb_scd_timer_config = ([], [])"
  "register_defects sb_scd_bus_watcher = ([], [])"
  "register_defects sb_scd_bus_watcher_l2 = ([], [])"
  "register_defects sb_scd_bus_watcher_mem = ([], [])"
  by (simp_all add: ascending_eval sb1250_scd_defs)

lemma sb1250_scd_others:
  "register_defects sb_scd_system_revision_fields_of_part = ([], [])"
  "register_defects sb_scd_trace_event = ([''TREVT_DATAID''], [])"
  by (simp_all add: register_eval sb1250_scd_defs)

lemma sb1250_scd_ascending_revisions:
  "register_defects (sb_scd_system_revision (SIBYTE_HDR_FMASK p)) = ([], [])"
  "register_defects (sb_scd_wafer_id (SIBYTE_HDR_FMASK p)) = ([], [])"
  "register_defects (sb_scd_wafer_id_300_mm_wafers (SIBYTE_HDR_FMASK p)) = ([], [])"
  "register_defects (sb_scd_system_config_scd_system_cfg (SIBYTE_HDR_FMASK p)) = ([], [])"
  "register_defects (sb_scd_watchdog_reset_flag (SIBYTE_HDR_FMASK p)) = ([], [])"
  "register_defects (sb_scd_system_performance_counters (SIBYTE_HDR_FMASK p)) = ([], [])"
  "register_defects (sb_scd_address_trap (SIBYTE_HDR_FMASK p)) = ([], [])"
  "register_defects (sb_scd_address_trap_index (SIBYTE_HDR_FMASK p)) = ([], [])"
  "register_defects (sb_scd_address_trap_address (SIBYTE_HDR_FMASK p)) = ([], [])"
  "register_defects (sb_scd_trace_buffer_config (SIBYTE_HDR_FMASK p)) = ([], [])"
  by (induction p) (simp_all add: ascending_eval sb1250_scd_defs)

lemma sb1250_scd_other_revisions:
  "register_defects (sb_scd_trace_sequence (SIBYTE_HDR_FMASK p)) = (if p \<in> {BCM1480_PASS1} then ([], [])
      else ([], [(''TRSEQ_FUNCTION'', ''TRSEQ_ASAMPLE''), (''TRSEQ_FUNCTION'', ''TRSEQ_DSAMPLE'')]))"
  by (induction p) (simp_all add: register_eval sb1250_scd_defs)

lemma sb1250_scd_defects:
  "defects (sb1250_scd (SIBYTE_HDR_FMASK p)) =
     (if p \<in> {BCM1480_PASS1} then [(''trace_event'', [''TREVT_DATAID''], [])]
      else [(''trace_event'', [''TREVT_DATAID''], []),
      (''trace_sequence'', [], [(''TRSEQ_FUNCTION'', ''TRSEQ_ASAMPLE''), (''TRSEQ_FUNCTION'',
        ''TRSEQ_DSAMPLE'')])])"
  by (simp add: defects_def sb1250_scd_def sb1250_scd_ascending sb1250_scd_others sb1250_scd_ascending_revisions sb1250_scd_other_revisions)

end
