(* ===== verification/Sb1250Smbus.thy ===== *)
theory Sb1250Smbus
  imports Registers
begin

text \<open>
  The registers of the SMBus interface of the BCM1250 and BCM112x, from \<open>include/sibyte/sb1250_smbus.h\<close>, one list of fields for each
  register the header describes. Fields that share the bits of others, because they are
  another view of the register or belong to another register of the same description, are in a
  list of their own.
\<close>

unbundle bit_operations_syntax

subsection \<open>SMBus Clock Frequency Register (Table 14-2)\<close>

definition sb_smbus_clock_frequency :: register where
  "sb_smbus_clock_frequency =
     [(''SMB_FREQ_DIV'', put_as (Macro 0) (bits 13 0))]"

definition sb_smbus_clock_frequency_command :: register where
  "sb_smbus_clock_frequency_command =
     [(''SMB_CMD'', put_as (Macro 0) (bits 8 0))]"

definition sb_smbus_clock_frequency_consts :: "(string \<times> u64) list" where
  "sb_smbus_clock_frequency_consts =
     [(''K_SMB_FREQ_400KHZ'', 31), (''K_SMB_FREQ_100KHZ'', 125), (''K_SMB_FREQ_10KHZ'', 0x4e2)]"

subsection \<open>SMBus control register (Table 14-4)\<close>

definition sb_smbus_control :: register where
  "sb_smbus_control =
     [(''SMB_ERR_INTR'', flag 0),
      (''SMB_FINISH_INTR'', flag 1),
      (''SMB_DATA_OUT'', put_as (Macro 4) (flag 4)),
      (''SMB_DATA_DIR'', flag 5),
      (''SMB_CLK_OUT'', flag 6),
      (''SMB_DIRECT_ENABLE'', flag 7)]"

definition M_SMB_DATA_DIR_OUTPUT :: u64 where
  "M_SMB_DATA_DIR_OUTPUT = SB_MAKEMASK1 5"

subsection \<open>SMBus status registers (Table 14-5)\<close>

definition sb_smbus_status :: "u32 \<Rightarrow> register" where
  "sb_smbus_status ft =
     [(''SMB_BUSY'', flag 0),
      (''SMB_ERROR'', flag 1),
      (''SMB_ERROR_TYPE'', flag 2)]
     @ only_if (SIBYTE_HDR_FEATURE ft BCM1250_PASS3 \<or> SIBYTE_HDR_FEATURE ft BCM112x_PASS1 \<or> SIBYTE_HDR_FEATURE_CHIP ft BCM1480)
     [(''SMB_SCL_IN'', field 1 5)]
     @ [(''SMB_REF'', field 1 6),
      (''SMB_DATA_IN'', field 1 7)]"

subsection \<open>SMBus Start Command registers (Table 14-9)\<close>

definition sb_smbus_start_command :: register where
  "sb_smbus_start_command =
     [(''SMB_ADDR'', field 7 0),
      (''SMB_QDATA'', flag 7),
      (''SMB_TT'', codes [KV ''WR1BYTE'' 0 0, KV ''WR2BYTE'' 1 1, KV ''WR3BYTE'' 2 2, KV ''CMD_RD1BYTE'' 3 3,
        KV ''CMD_RD2BYTE'' 4 4, KV ''RD1BYTE'' 5 5, KV ''QUICKCMD'' 6 6, KV ''EEPROMREAD'' 7 7] (field 3 8)),
      (''SMB_PEC'', flag 15)]"

subsection \<open>SMBus Data Register (Table 14-6) and SMBus Extra Register (Table 14-7)\<close>

definition sb_smbus_data_smbus_extra :: register where
  "sb_smbus_data_smbus_extra =
     [(''SMB_LB'', put_as (Macro 0) (bits 8 0)),
      (''SMB_MB'', put_as (Macro 8) (bits 8 8))]"

subsection \<open>SMBus Packet Error Check register (Table 14-8)\<close>

definition sb_smbus_packet_error_check :: "u32 \<Rightarrow> register" where
  "sb_smbus_packet_error_check ft =
     [(''SPEC_PEC'', bits 8 0)]
     @ only_if (SIBYTE_HDR_FEATURE ft BCM1250_PASS2 \<or> SIBYTE_HDR_FEATURE ft BCM112x_PASS1 \<or> SIBYTE_HDR_FEATURE_CHIP ft BCM1480)
     [(''SMB_EXTEND'', flag 14),
      (''SMB_DFMT'', codes [KV ''1BYTE'' 0 0, KV ''2BYTE'' 1 1, KV ''3BYTE'' 2 2, KV ''4BYTE'' 3 3,
        KV ''NODATA'' 4 4, KV ''CMD4BYTE'' 5 5, KV ''CMD5BYTE'' 6 6, KV ''RESERVED'' 7 7] (field 3 8)),
      (''SMB_AFMT'', codes [KV ''NONE'' 0 0, KV ''ADDR'' 1 1, KV ''ADDR_CMD1BYTE'' 2 2,
        KV ''ADDR_CMD2BYTE'' 3 3] (field 2 11)),
      (''SMB_DIR'', flag 13)]"

definition sb_smbus_packet_error_check_high :: "u32 \<Rightarrow> register" where
  "sb_smbus_packet_error_check_high ft =
     only_if (SIBYTE_HDR_FEATURE ft BCM1250_PASS2 \<or> SIBYTE_HDR_FEATURE ft BCM112x_PASS1 \<or> SIBYTE_HDR_FEATURE_CHIP ft BCM1480)
     [(''SMB_CMDH'', put_as (Macro 8) (bits 8 8))]"

subsection \<open>The header\<close>

definition sb1250_smbus :: "u32 \<Rightarrow> header" where
  "sb1250_smbus ft =
     [(''clock_frequency'', sb_smbus_clock_frequency),
      (''clock_frequency_command'', sb_smbus_clock_frequency_command),
      (''control'', sb_smbus_control),
      (''status'', sb_smbus_status ft),
      (''start_command'', sb_smbus_start_command),
      (''data_smbus_extra'', sb_smbus_data_smbus_extra),
      (''packet_error_check'', sb_smbus_packet_error_check ft),
      (''packet_error_check_high'', sb_smbus_packet_error_check_high ft)]"

lemmas sb1250_smbus_defs = sb1250_smbus_def
    sb_smbus_clock_frequency_def sb_smbus_clock_frequency_command_def sb_smbus_control_def 
    sb_smbus_status_def sb_smbus_start_command_def sb_smbus_data_smbus_extra_def 
    sb_smbus_packet_error_check_def sb_smbus_packet_error_check_high_def

lemma sb1250_smbus_ascending:
  "register_defects sb_smbus_clock_frequency = ([], [])"
  "register_defects sb_smbus_clock_frequency_command = ([], [])"
  "register_defects sb_smbus_control = ([], [])"
  "register_defects sb_smbus_start_command = ([], [])"
  "register_defects sb_smbus_data_smbus_extra = ([], [])"
  by (simp_all add: ascending_eval sb1250_smbus_defs)

lemma sb1250_smbus_ascending_revisions:
  "register_defects (sb_smbus_status (SIBYTE_HDR_FMASK p)) = ([], [])"
  "register_defects (sb_smbus_packet_error_check_high (SIBYTE_HDR_FMASK p)) = ([], [])"
  by (induction p) (simp_all add: ascending_eval sb1250_smbus_defs)

lemma sb1250_smbus_other_revisions:
  "register_defects (sb_smbus_packet_error_check (SIBYTE_HDR_FMASK p)) = ([], [])"
  by (induction p) (simp_all add: register_eval sb1250_smbus_defs)

lemma sb1250_smbus_defects:
  "defects (sb1250_smbus (SIBYTE_HDR_FMASK p)) =
     []"
  by (simp add: defects_def sb1250_smbus_def sb1250_smbus_ascending sb1250_smbus_ascending_revisions sb1250_smbus_other_revisions)

end
