(* ===== verification/Sb1250Syncser.thy ===== *)
theory Sb1250Syncser
  imports Registers
begin

text \<open>
  The registers of the synchronous serial ports of the BCM1250 and BCM112x, from \<open>include/sibyte/sb1250_syncser.h\<close>, one list of fields for each
  register the header describes.
\<close>

unbundle bit_operations_syntax

subsection \<open>Serial Mode Configuration Register\<close>

definition sb_syncser_serial_mode_configuration :: register where
  "sb_syncser_serial_mode_configuration =
     [(''CRC_MODE'', flag 0),
      (''MSB_FIRST'', flag 1),
      (''FLAG_NUM'', bits 4 2),
      (''FLAG_EN'', flag 6),
      (''HDLC_EN'', flag 7),
      (''LOOP_MODE'', flag 8),
      (''LOOPBACK'', flag 9)]"

subsection \<open>Serial Clock Source and Line Interface Mode Register\<close>

definition sb_syncser_serial_clock_source_line_interface_mode :: register where
  "sb_syncser_serial_clock_source_line_interface_mode =
     [(''RXCLK_INV'', flag 0),
      (''RXCLK_EXT'', flag 1),
      (''RXSYNC_DLY'', put_as (Macro 2) (bits 2 2)),
      (''RXSYNC_LOW'', flag 4),
      (''RXSTRB_LOW'', flag 5),
      (''RXSYNC_EDGE'', flag 6),
      (''RXSYNC_INT'', flag 7),
      (''TXCLK_INV'', flag 8),
      (''TXCLK_EXT'', flag 9),
      (''TXSYNC_DLY'', put_as (Macro 10) (bits 2 10)),
      (''TXSYNC_LOW'', flag 12),
      (''TXSTRB_LOW'', flag 13),
      (''TXSYNC_EDGE'', flag 14),
      (''TXSYNC_INT'', flag 15)]"

subsection \<open>Serial Command Register\<close>

definition sb_syncser_serial_command :: register where
  "sb_syncser_serial_command =
     [(''CMD_RX_EN'', flag 0),
      (''CMD_TX_EN'', flag 1),
      (''CMD_RX_RESET'', flag 2),
      (''CMD_TX_RESET'', flag 3),
      (''CMD_TX_PAUSE'', flag 5)]"

subsection \<open>Serial DMA Enable Register\<close>

definition sb_syncser_serial_dma_enable :: register where
  "sb_syncser_serial_dma_enable =
     [(''DMA_RX_EN'', flag 0),
      (''DMA_TX_EN'', flag 4)]"

subsection \<open>Serial Status Register\<close>

definition sb_syncser_serial_status :: register where
  "sb_syncser_serial_status =
     [(''RX_CRCERR'', flag 0),
      (''RX_ABORT'', flag 1),
      (''RX_OCTET'', flag 2),
      (''RX_LONGFRM'', flag 3),
      (''RX_SHORTFRM'', flag 4),
      (''RX_OVERRUN'', flag 5),
      (''RX_SYNC_ERR'', flag 6),
      (''TX_CRCERR'', flag 8),
      (''TX_UNDERRUN'', flag 9),
      (''TX_SYNC_ERR'', flag 10),
      (''TX_PAUSE_COMPLETE'', flag 11),
      (''RX_EOP_COUNT'', flag 16),
      (''RX_EOP_TIMER'', flag 17),
      (''RX_EOP_SEEN'', flag 18),
      (''RX_HWM'', flag 19),
      (''RX_LWM'', flag 20),
      (''RX_DSCR'', flag 21),
      (''RX_DERR'', flag 22),
      (''TX_EOP_COUNT'', flag 24),
      (''TX_EOP_TIMER'', flag 25),
      (''TX_EOP_SEEN'', flag 26),
      (''TX_HWM'', flag 27),
      (''TX_LWM'', flag 28),
      (''TX_DSCR'', flag 29),
      (''TX_DERR'', flag 30),
      (''TX_DZERO'', flag 31)]"

subsection \<open>Sequencer Table Entry format\<close>

definition sb_syncser_sequencer_entry_format :: register where
  "sb_syncser_sequencer_entry_format =
     [(''SEQ_LAST'', flag 0),
      (''SEQ_BYTE'', flag 1),
      (''SEQ_COUNT'', put_as (Macro 2) (bits 4 2)),
      (''SEQ_ENABLE'', flag 6),
      (''SEQ_STROBE'', flag 7)]"

subsection \<open>The header\<close>

definition sb1250_syncser :: "header" where
  "sb1250_syncser =
     [(''serial_mode_configuration'', sb_syncser_serial_mode_configuration),
      (''serial_clock_source_line_interface_mode'', sb_syncser_serial_clock_source_line_interface_mode),
      (''serial_command'', sb_syncser_serial_command),
      (''serial_dma_enable'', sb_syncser_serial_dma_enable),
      (''serial_status'', sb_syncser_serial_status),
      (''sequencer_entry_format'', sb_syncser_sequencer_entry_format)]"

lemmas sb1250_syncser_defs = sb1250_syncser_def
    sb_syncser_serial_mode_configuration_def sb_syncser_serial_clock_source_line_interface_mode_def 
    sb_syncser_serial_command_def sb_syncser_serial_dma_enable_def sb_syncser_serial_status_def 
    sb_syncser_sequencer_entry_format_def

lemma sb1250_syncser_ascending:
  "register_defects sb_syncser_serial_mode_configuration = ([], [])"
  "register_defects sb_syncser_serial_clock_source_line_interface_mode = ([], [])"
  "register_defects sb_syncser_serial_command = ([], [])"
  "register_defects sb_syncser_serial_dma_enable = ([], [])"
  "register_defects sb_syncser_serial_status = ([], [])"
  "register_defects sb_syncser_sequencer_entry_format = ([], [])"
  by (simp_all add: ascending_eval sb1250_syncser_defs)

lemma sb1250_syncser_defects:
  "defects sb1250_syncser =
     []"
  by (simp add: defects_def sb1250_syncser_def sb1250_syncser_ascending)

end
