(* ===== verification/Sb1250Uart.thy ===== *)
theory Sb1250Uart
  imports Registers
begin

text \<open>
  The registers of the serial ports of the BCM1250 and BCM112x, from \<open>include/sibyte/sb1250_uart.h\<close>, one list of fields for each
  register the header describes. Fields that share the bits of others, because they are
  another view of the register or belong to another register of the same description, are in a
  list of their own.
\<close>

unbundle bit_operations_syntax

subsection \<open>DUART Mode Register  1 (Table 10-3) Register: DUART MODE REG 1 A Regis\<close>

definition sb_uart_duart_mode_1_duart_mode_reg :: register where
  "sb_uart_duart_mode_1_duart_mode_reg =
     [(''BITS_PER_CHAR'', codes [KV ''RSV0'' 0 0, KV ''RSV1'' 1 1, KV ''7'' 2 2,
        KV ''8'' 3 3] (put_as (Macro 0) (bits 2 0))),
      (''PARITY_TYPE_ODD'', flag 2),
      (''PARITY_MODE'', codes [KV ''ADD'' 0 0, KV ''ADD_FIXED'' 1 1,
        KV ''NONE'' 2 2] (put_as (Macro 3) (bits 2 3))),
      (''ERR_MODE'', flag 5),
      (''RX_IRQ_SEL_RXFULL'', flag 6),
      (''RX_RTS_ENA'', flag 7)]"

definition M_DUART_PARITY_TYPE_EVEN :: u64 where
  "M_DUART_PARITY_TYPE_EVEN = 0"

definition M_DUART_RX_IRQ_SEL_RXRDY :: u64 where
  "M_DUART_RX_IRQ_SEL_RXRDY = 0"

subsection \<open>DUART Mode Register  2 (Table 10-4) Register: DUART MODE REG 2 A Regis\<close>

definition sb_uart_duart_mode_2_duart_mode_reg :: register where
  "sb_uart_duart_mode_2_duart_mode_reg =
     [(''MODE_RESERVED1'', bits 3 0),
      (''STOP_BIT_LEN_2'', flag 3),
      (''TX_CTS_ENA'', flag 4),
      (''MODE_RESERVED2'', flag 5),
      (''CHAN_MODE'', codes [KV ''NORMAL'' 0 0, KV ''LCL_LOOP'' 2 2,
        KV ''REM_LOOP'' 3 3] (put_as (Macro 6) (bits 2 6)))]"

definition M_DUART_STOP_BIT_LEN_1 :: u64 where
  "M_DUART_STOP_BIT_LEN_1 = 0"

subsection \<open>DUART Command Register (Table 10-5) Register: DUART CMD A Register: DU\<close>

definition sb_uart_duart_command_duart_cmd_duart_cmd :: register where
  "sb_uart_duart_command_duart_cmd_duart_cmd =
     [(''RX_EN'', flag 0),
      (''RX_DIS'', flag 1),
      (''TX_EN'', flag 2),
      (''TX_DIS'', flag 3),
      (''MISC_CMD'', codes [KV ''NOACTION0'' 0 0, KV ''NOACTION1'' 1 1, KV ''RESET_RX'' 2 2,
        KV ''RESET_TX'' 3 3, KV ''NOACTION4'' 4 4, KV ''RESET_BREAK_INT'' 5 5, KV ''START_BREAK'' 6 6,
        KV ''STOP_BREAK'' 7 7] (put_as (Macro 4) (bits 3 4))),
      (''CMD_RESERVED'', flag 7)]"

subsection \<open>DUART Status Register (Table 10-6) Register: DUART STATUS A Register:\<close>

definition sb_uart_duart_status_duart_status_duart_status :: register where
  "sb_uart_duart_status_duart_status_duart_status =
     [(''RX_RDY'', flag 0),
      (''RX_FFUL'', flag 1),
      (''TX_RDY'', flag 2),
      (''TX_EMT'', flag 3),
      (''OVRUN_ERR'', flag 4),
      (''PARITY_ERR'', flag 5),
      (''FRM_ERR'', flag 6),
      (''RCVD_BRK'', flag 7)]"

subsection \<open>DUART Baud Rate Register (Table 10-7) Register: DUART CLK SEL A Regist\<close>

definition sb_uart_duart_baud_rate_duart_clk_sel :: register where
  "sb_uart_duart_baud_rate_duart_clk_sel =
     [(''CLK_COUNTER'', bits 12 0)]"

definition V_DUART_BAUD_RATE :: "u32 \<Rightarrow> u32" where "V_DUART_BAUD_RATE x = 100000000 div (x * 20) - 1"

subsection \<open>DUART Data Registers (Table 10-8 and 10-9) Register: DUART RX HOLD A R\<close>

definition sb_uart_duart_data_duart_rx_hold_duart :: register where
  "sb_uart_duart_data_duart_rx_hold_duart =
     [(''RX_DATA'', bits 8 0)]"

definition sb_uart_duart_data_duart_rx_hold_duart_tx :: register where
  "sb_uart_duart_data_duart_rx_hold_duart_tx =
     [(''TX_DATA'', bits 8 0)]"

subsection \<open>DUART Input Port Register (Table 10-10) Register: DUART IN PORT\<close>

definition sb_uart_duart_input_port_duart_in_port :: register where
  "sb_uart_duart_input_port_duart_in_port =
     [(''IN_PIN0_VAL'', flag 0),
      (''IN_PIN1_VAL'', flag 1),
      (''IN_PIN2_VAL'', flag 2),
      (''IN_PIN3_VAL'', flag 3),
      (''IN_PIN4_VAL'', flag 4),
      (''IN_PIN5_VAL'', flag 5),
      (''RIN0_PIN'', flag 6),
      (''RIN1_PIN'', flag 7)]"

subsection \<open>DUART Input Port Change Status Register (Tables 10-11, 10-12, and 10-1\<close>

definition sb_uart_duart_input_port_change_status_duart :: register where
  "sb_uart_duart_input_port_change_status_duart =
     [(''IN_PIN_VAL'', bits 4 0),
      (''IN_PIN_CHNG'', bits 4 4)]"

subsection \<open>DUART Output port control register (Table 10-14) Register: DUART OPCR\<close>

definition sb_uart_duart_output_port_control_duart_opcr :: register where
  "sb_uart_duart_output_port_control_duart_opcr =
     [(''OPCR_RESERVED0'', flag 0),
      (''OPC2_SEL'', flag 1),
      (''OPCR_RESERVED1'', flag 2),
      (''OPC3_SEL'', flag 3),
      (''OPCR_RESERVED2'', bits 4 4)]"

subsection \<open>DUART Aux Control Register (Table 10-15) Register: DUART AUX CTRL\<close>

definition sb_uart_duart_aux_control_duart_aux_ctrl :: register where
  "sb_uart_duart_aux_control_duart_aux_ctrl =
     [(''IP0_CHNG_ENA'', flag 0),
      (''IP1_CHNG_ENA'', flag 1),
      (''IP2_CHNG_ENA'', flag 2),
      (''IP3_CHNG_ENA'', flag 3),
      (''ACR_RESERVED'', bits 4 4)]"

definition sb_uart_duart_aux_control_duart_aux_ctrl_modem :: register where
  "sb_uart_duart_aux_control_duart_aux_ctrl_modem =
     [(''CTS_CHNG_ENA'', flag 0),
      (''CIN_CHNG_ENA'', flag 2)]"

subsection \<open>DUART Interrupt Status Register (Table 10-16) Register: DUART ISR\<close>

definition sb_uart_duart_interrupt_status_duart_isr :: register where
  "sb_uart_duart_interrupt_status_duart_isr =
     [(''ISR_TX_A'', flag 0),
      (''ISR_RX_A'', field 1 1),
      (''ISR_BRK_A'', flag 2),
      (''ISR_IN_A'', flag 3),
      (''ISR_TX_B'', flag 4),
      (''ISR_RX_B'', flag 5),
      (''ISR_BRK_B'', flag 6),
      (''ISR_IN_B'', flag 7)]"

subsection \<open>DUART Channel A Interrupt Status Register (Table 10-17) DUART Channel\<close>

definition sb_uart_duart_channel_interrupt_status_duart_channel :: register where
  "sb_uart_duart_channel_interrupt_status_duart_channel =
     [(''ISR_TX'', flag 0),
      (''ISR_RX'', flag 1),
      (''ISR_BRK'', flag 2),
      (''ISR_IN'', flag 3),
      (''ISR_RESERVED'', bits 4 4)]"

subsection \<open>DUART Interrupt Mask Register (Table 10-19) Register: DUART IMR\<close>

definition sb_uart_duart_interrupt_mask_duart_imr :: register where
  "sb_uart_duart_interrupt_mask_duart_imr =
     [(''IMR_TX_A'', flag 0),
      (''IMR_RX_A'', flag 1),
      (''IMR_BRK_A'', flag 2),
      (''IMR_IN_A'', flag 3),
      (''IMR_TX_B'', flag 4),
      (''IMR_RX_B'', flag 5),
      (''IMR_BRK_B'', flag 6),
      (''IMR_IN_B'', flag 7)]"

definition sb_uart_duart_interrupt_mask_duart_imr_all :: register where
  "sb_uart_duart_interrupt_mask_duart_imr_all =
     [(''IMR_ALL_A'', bits 4 0),
      (''IMR_ALL_B'', bits 4 4)]"

subsection \<open>DUART Channel A Interrupt Mask Register (Table 10-20) DUART Channel B\<close>

definition sb_uart_duart_channel_interrupt_mask_duart_channel :: register where
  "sb_uart_duart_channel_interrupt_mask_duart_channel =
     [(''IMR_TX'', flag 0),
      (''IMR_RX'', flag 1),
      (''IMR_BRK'', flag 2),
      (''IMR_IN'', flag 3),
      (''IMR_RESERVED'', bits 4 4)]"

definition sb_uart_duart_channel_interrupt_mask_duart_channel_all :: register where
  "sb_uart_duart_channel_interrupt_mask_duart_channel_all =
     [(''IMR_ALL'', bits 4 0)]"

subsection \<open>DUART Output Port Set Register (Table 10-22) Register: DUART SET OPR\<close>

definition sb_uart_duart_output_port_set_duart_set :: register where
  "sb_uart_duart_output_port_set_duart_set =
     [(''SET_OPR0'', flag 0),
      (''SET_OPR1'', flag 1),
      (''SET_OPR2'', flag 2),
      (''SET_OPR3'', flag 3),
      (''OPSR_RESERVED'', bits 4 4)]"

subsection \<open>DUART Output Port Clear Register (Table 10-23) Register: DUART CLEAR O\<close>

definition sb_uart_duart_output_port_clear_duart_clear :: register where
  "sb_uart_duart_output_port_clear_duart_clear =
     [(''CLR_OPR0'', flag 0),
      (''CLR_OPR1'', flag 1),
      (''CLR_OPR2'', flag 2),
      (''CLR_OPR3'', flag 3),
      (''OPCR_RESERVED'', bits 4 4)]"

subsection \<open>DUART Output Port RTS Register (Table 10-24) Register: DUART OUT PORT\<close>

definition sb_uart_duart_output_port_rts_duart_out :: register where
  "sb_uart_duart_output_port_rts_duart_out =
     [(''OUT_PIN_SET0'', flag 0),
      (''OUT_PIN_SET1'', flag 1),
      (''OUT_PIN_CLR0'', flag 2),
      (''OUT_PIN_CLR1'', flag 3),
      (''OPRR_RESERVED'', bits 4 4)]"

definition M_DUART_OUT_PIN_SET :: "nat \<Rightarrow> u64" where
  "M_DUART_OUT_PIN_SET chan = (if chan = 0 then SB_MAKEMASK1 0 else SB_MAKEMASK1 1)"

definition M_DUART_OUT_PIN_CLR :: "nat \<Rightarrow> u64" where
  "M_DUART_OUT_PIN_CLR chan = (if chan = 0 then SB_MAKEMASK1 2 else SB_MAKEMASK1 3)"

subsection \<open>Full Interrupt Control Register\<close>

definition sb_uart_full_interrupt_control :: "u32 \<Rightarrow> register" where
  "sb_uart_full_interrupt_control ft =
     only_if (SIBYTE_HDR_FEATURE ft BCM1250_PASS2 \<or> SIBYTE_HDR_FEATURE ft BCM112x_PASS1 \<or> SIBYTE_HDR_FEATURE_CHIP ft BCM1480)
     [(''SIG_FULL'', field 4 0),
      (''INT_TIME'', field 4 4)]"

subsection \<open>The header\<close>

definition sb1250_uart :: "u32 \<Rightarrow> header" where
  "sb1250_uart ft =
     [(''duart_mode_1_duart_mode_reg'', sb_uart_duart_mode_1_duart_mode_reg),
      (''duart_mode_2_duart_mode_reg'', sb_uart_duart_mode_2_duart_mode_reg),
      (''duart_command_duart_cmd_duart_cmd'', sb_uart_duart_command_duart_cmd_duart_cmd),
      (''duart_status_duart_status_duart_status'', sb_uart_duart_status_duart_status_duart_status),
      (''duart_baud_rate_duart_clk_sel'', sb_uart_duart_baud_rate_duart_clk_sel),
      (''duart_data_duart_rx_hold_duart'', sb_uart_duart_data_duart_rx_hold_duart),
      (''duart_data_duart_rx_hold_duart_tx'', sb_uart_duart_data_duart_rx_hold_duart_tx),
      (''duart_input_port_duart_in_port'', sb_uart_duart_input_port_duart_in_port),
      (''duart_input_port_change_status_duart'', sb_uart_duart_input_port_change_status_duart),
      (''duart_output_port_control_duart_opcr'', sb_uart_duart_output_port_control_duart_opcr),
      (''duart_aux_control_duart_aux_ctrl'', sb_uart_duart_aux_control_duart_aux_ctrl),
      (''duart_aux_control_duart_aux_ctrl_modem'', sb_uart_duart_aux_control_duart_aux_ctrl_modem),
      (''duart_interrupt_status_duart_isr'', sb_uart_duart_interrupt_status_duart_isr),
      (''duart_channel_interrupt_status_duart_channel'', sb_uart_duart_channel_interrupt_status_duart_channel),
      (''duart_interrupt_mask_duart_imr'', sb_uart_duart_interrupt_mask_duart_imr),
      (''duart_interrupt_mask_duart_imr_all'', sb_uart_duart_interrupt_mask_duart_imr_all),
      (''duart_channel_interrupt_mask_duart_channel'', sb_uart_duart_channel_interrupt_mask_duart_channel),
      (''duart_channel_interrupt_mask_duart_channel_all'',
        sb_uart_duart_channel_interrupt_mask_duart_channel_all),
      (''duart_output_port_set_duart_set'', sb_uart_duart_output_port_set_duart_set),
      (''duart_output_port_clear_duart_clear'', sb_uart_duart_output_port_clear_duart_clear),
      (''duart_output_port_rts_duart_out'', sb_uart_duart_output_port_rts_duart_out),
      (''full_interrupt_control'', sb_uart_full_interrupt_control ft)]"

lemmas sb1250_uart_defs = sb1250_uart_def
    sb_uart_duart_mode_1_duart_mode_reg_def sb_uart_duart_mode_2_duart_mode_reg_def 
    sb_uart_duart_command_duart_cmd_duart_cmd_def sb_uart_duart_status_duart_status_duart_status_def 
    sb_uart_duart_baud_rate_duart_clk_sel_def sb_uart_duart_data_duart_rx_hold_duart_def 
    sb_uart_duart_data_duart_rx_hold_duart_tx_def sb_uart_duart_input_port_duart_in_port_def 
    sb_uart_duart_input_port_change_status_duart_def sb_uart_duart_output_port_control_duart_opcr_def 
    sb_uart_duart_aux_control_duart_aux_ctrl_def sb_uart_duart_aux_control_duart_aux_ctrl_modem_def 
    sb_uart_duart_interrupt_status_duart_isr_def sb_uart_duart_channel_interrupt_status_duart_channel_def 
    sb_uart_duart_interrupt_mask_duart_imr_def sb_uart_duart_interrupt_mask_duart_imr_all_def 
    sb_uart_duart_channel_interrupt_mask_duart_channel_def 
    sb_uart_duart_channel_interrupt_mask_duart_channel_all_def sb_uart_duart_output_port_set_duart_set_def 
    sb_uart_duart_output_port_clear_duart_clear_def sb_uart_duart_output_port_rts_duart_out_def 
    sb_uart_full_interrupt_control_def

lemma sb1250_uart_ascending:
  "register_defects sb_uart_duart_mode_1_duart_mode_reg = ([], [])"
  "register_defects sb_uart_duart_mode_2_duart_mode_reg = ([], [])"
  "register_defects sb_uart_duart_command_duart_cmd_duart_cmd = ([], [])"
  "register_defects sb_uart_duart_status_duart_status_duart_status = ([], [])"
  "register_defects sb_uart_duart_baud_rate_duart_clk_sel = ([], [])"
  "register_defects sb_uart_duart_data_duart_rx_hold_duart = ([], [])"
  "register_defects sb_uart_duart_data_duart_rx_hold_duart_tx = ([], [])"
  "register_defects sb_uart_duart_input_port_duart_in_port = ([], [])"
  "register_defects sb_uart_duart_input_port_change_status_duart = ([], [])"
  "register_defects sb_uart_duart_output_port_control_duart_opcr = ([], [])"
  "register_defects sb_uart_duart_aux_control_duart_aux_ctrl = ([], [])"
  "register_defects sb_uart_duart_aux_control_duart_aux_ctrl_modem = ([], [])"
  "register_defects sb_uart_duart_interrupt_status_duart_isr = ([], [])"
  "register_defects sb_uart_duart_channel_interrupt_status_duart_channel = ([], [])"
  "register_defects sb_uart_duart_interrupt_mask_duart_imr = ([], [])"
  "register_defects sb_uart_duart_interrupt_mask_duart_imr_all = ([], [])"
  "register_defects sb_uart_duart_channel_interrupt_mask_duart_channel = ([], [])"
  "register_defects sb_uart_duart_channel_interrupt_mask_duart_channel_all = ([], [])"
  "register_defects sb_uart_duart_output_port_set_duart_set = ([], [])"
  "register_defects sb_uart_duart_output_port_clear_duart_clear = ([], [])"
  "register_defects sb_uart_duart_output_port_rts_duart_out = ([], [])"
  by (simp_all add: ascending_eval sb1250_uart_defs)

lemma sb1250_uart_ascending_revisions:
  "register_defects (sb_uart_full_interrupt_control (SIBYTE_HDR_FMASK p)) = ([], [])"
  by (induction p) (simp_all add: ascending_eval sb1250_uart_defs)

lemma sb1250_uart_defects:
  "defects (sb1250_uart (SIBYTE_HDR_FMASK p)) =
     []"
  by (simp add: defects_def sb1250_uart_def sb1250_uart_ascending sb1250_uart_ascending_revisions)

end
