(* ===== verification/Sb1250Wid.thy ===== *)
theory Sb1250Wid
  imports Registers
begin

text \<open>
  The registers of the wafer id fuses of the BCM1250 and BCM112x, from \<open>include/sibyte/sb1250_wid.h\<close>, one list of fields for each
  register the header describes. Fields that share the bits of others, because they are
  another view of the register or belong to another register of the same description, are in a
  list of their own.
\<close>

unbundle bit_operations_syntax

subsection \<open>Wafer id bin\<close>

definition sb_wid_wafer_id_bin :: register where
  "sb_wid_wafer_id_bin =
     [(''BIN'', field 3 0)]"

subsection \<open>Wafer id bins\<close>

definition sb_wid_wafer_id_bins :: "(string \<times> u64) list" where
  "sb_wid_wafer_id_bins =
     [(''BIN_2CPU_FI_1D_H2'', 0), (''BIN_2CPU_FI_FD_F2'', 1), (''BIN_2CPU_FI_FD_H2'', 2),
      (''BIN_2CPU_3I_3D_F2'', 3), (''BIN_2CPU_3I_3D_H2'', 4), (''BIN_1CPU_FI_FD_F2'', 5),
      (''BIN_1CPU_FI_FD_H2'', 6), (''BIN_2CPU_1I_1D_Q2'', 7)]"

subsection \<open>1  bits in this mask represent bins with only one CPU\<close>

definition M_WID_BIN_1CPU :: u64 where
  "M_WID_BIN_1CPU = SB_MAKEMASK1 5 OR SB_MAKEMASK1 6"

subsection \<open>1  bits in this mask represent bins with a good L2\<close>

definition M_WID_BIN_F2 :: u64 where
  "M_WID_BIN_F2 = SB_MAKEMASK1 1 OR SB_MAKEMASK1 3 OR SB_MAKEMASK1 5"

subsection \<open>1  bits in this mask represent bins with 1 2 L2\<close>

definition M_WID_BIN_H2 :: u64 where
  "M_WID_BIN_H2 = SB_MAKEMASK1 0 OR SB_MAKEMASK1 2 OR SB_MAKEMASK1 4 OR SB_MAKEMASK1 6"

subsection \<open>1  bits in this mask represent bins with 1 4 L2\<close>

definition sb_wid_1_bits_in_this_mask_represent_4 :: register where
  "sb_wid_1_bits_in_this_mask_represent_4 =
     [(''BIN_Q2'', flag 7)]"

subsection \<open>1  bits in this mask represent bins with 3 4 L1\<close>

definition M_WID_BIN_3ID :: u64 where
  "M_WID_BIN_3ID = SB_MAKEMASK1 3 OR SB_MAKEMASK1 4"

subsection \<open>1  bits in this mask represent bins with a full L1I\<close>

definition M_WID_BIN_FI :: u64 where
  "M_WID_BIN_FI = SB_MAKEMASK1 0 OR
     SB_MAKEMASK1 1 OR
     SB_MAKEMASK1 2 OR
     SB_MAKEMASK1 5 OR
     SB_MAKEMASK1 6"

subsection \<open>1  bits in this mask represent bins with a full L1D\<close>

definition M_WID_BIN_FD :: u64 where
  "M_WID_BIN_FD = SB_MAKEMASK1 1 OR SB_MAKEMASK1 2 OR SB_MAKEMASK1 5 OR SB_MAKEMASK1 6"

subsection \<open>Wafer id word\<close>

definition sb_wid_wafer_id_word :: register where
  "sb_wid_wafer_id_word =
     [(''L2QTR'', field 2 3),
      (''CPU0_L1I'', field 2 5),
      (''CPU0_L1D'', field 2 7),
      (''CPU1_L1I'', field 2 9),
      (''CPU1_L1D'', field 2 11)]"

definition sb_wid_wafer_id_word_half :: register where
  "sb_wid_wafer_id_word_half =
     [(''L2HALF'', flag 4)]"

definition M_WID_BIN_FID :: u64 where
  "M_WID_BIN_FID = SB_MAKEMASK1 1 OR SB_MAKEMASK1 2 OR SB_MAKEMASK1 5 OR SB_MAKEMASK1 6"

subsection \<open>Wafer id of one CPU\<close>

definition sb_wid_wafer_id_one_cpu :: register where
  "sb_wid_wafer_id_one_cpu =
     [(''CPUX_L1I'', field 2 0),
      (''CPUX_L1D'', field 2 2),
      (''WAFERID'', field 5 13),
      (''LOTID'', field 14 18)]"

definition sb_wid_wafer_id_one_cpu_consts :: "(string \<times> u64) list" where
  "sb_wid_wafer_id_one_cpu_consts =
     [(''S_CPU0'', 5), (''S_CPU1'', 9)]"

subsection \<open>Now, to make things even more confusing, the fuses on the chip don t e\<close>

definition M_WID_SWAPBITS :: u64 where
  "M_WID_SWAPBITS =
     SB_MAKEMASK1 2 OR SB_MAKEMASK1 4 OR SB_MAKEMASK1 10 OR SB_MAKEMASK1 20 OR SB_MAKEMASK1 18 OR SB_MAKEMASK1 26"

definition WID_UNCONVOLUTE :: "u64 \<Rightarrow> u64" where
  "WID_UNCONVOLUTE wid =
     (wid AND NOT (M_WID_SWAPBITS OR push_bit 1 M_WID_SWAPBITS)) OR
     push_bit 1 (wid AND M_WID_SWAPBITS) OR
     drop_bit 1 (wid AND push_bit 1 M_WID_SWAPBITS)"

subsection \<open>The header\<close>

definition sb1250_wid :: "header" where
  "sb1250_wid =
     [(''wafer_id_bin'', sb_wid_wafer_id_bin),
      (''1_bits_in_this_mask_represent_4'', sb_wid_1_bits_in_this_mask_represent_4),
      (''wafer_id_word'', sb_wid_wafer_id_word),
      (''wafer_id_word_half'', sb_wid_wafer_id_word_half),
      (''wafer_id_one_cpu'', sb_wid_wafer_id_one_cpu)]"

lemmas sb1250_wid_defs = sb1250_wid_def
    sb_wid_wafer_id_bin_def sb_wid_1_bits_in_this_mask_represent_4_def sb_wid_wafer_id_word_def 
    sb_wid_wafer_id_word_half_def sb_wid_wafer_id_one_cpu_def

lemma sb1250_wid_ascending:
  "register_defects sb_wid_wafer_id_bin = ([], [])"
  "register_defects sb_wid_1_bits_in_this_mask_represent_4 = ([], [])"
  "register_defects sb_wid_wafer_id_word = ([], [])"
  "register_defects sb_wid_wafer_id_word_half = ([], [])"
  "register_defects sb_wid_wafer_id_one_cpu = ([], [])"
  by (simp_all add: ascending_eval sb1250_wid_defs)

lemma sb1250_wid_defects:
  "defects sb1250_wid =
     []"
  by (simp add: defects_def sb1250_wid_def sb1250_wid_ascending)

end
