(* ===== verification/PciCfg.thy ===== *)
theory PciCfg
  imports Registers
begin

text \<open>
  The registers of the PCI configuration space and of the HyperTransport capabilities, from \<open>include/sibyte/pci_cfg.h\<close>, one list of fields for each
  register the header describes. Fields that share the bits of others, because they are
  another view of the register or belong to another register of the same description, are in a
  list of their own.
\<close>

unbundle bit_operations_syntax

subsection \<open>PCI Configuration Header Common Registers\<close>

definition pci_configuration_header_common :: "(string \<times> u64) list" where
  "pci_configuration_header_common =
     [(''DEVICEID'', 0), (''CMDSTATUS'', 4), (''CLASSREV'', 8), (''DEVHDR'', 12)]"

subsection \<open>PCI Configuration Header, Type 0 (Device)\<close>

definition pci_configuration_header_type_0 :: "(string \<times> u64) list" where
  "pci_configuration_header_type_0 =
     [(''BAR0'', 16), (''BAR1'', 20), (''BAR2'', 24), (''BAR3'', 28), (''BAR4'', 32), (''BAR5'', 36),
      (''CARDBUSCIS'', 40), (''SUBSYSID'', 44), (''ROMBASE'', 48), (''CAPPTR'', 52), (''RESERVED1'', 56),
      (''INTGRANT'', 60)]"

subsection \<open>PCI Configuration Header, Type 1 (Bridge)\<close>

definition pci_configuration_header_type_1 :: "(string \<times> u64) list" where
  "pci_configuration_header_type_1 =
     [(''R_PPB_BAR0'', 16), (''R_PPB_BAR1'', 20), (''R_PPB_BUSID'', 24), (''R_PPB_SECSTATUS'', 28),
      (''R_PPB_MEM'', 32), (''R_PPB_PREFETCH'', 36), (''R_PPB_PREFBASE'', 40), (''R_PPB_PREFLIMIT'', 44),
      (''R_PPB_IOUPPER'', 48), (''R_PPB_CAPPTR'', 52), (''R_PPB_ROMBASE'', 56), (''R_PPB_BRCTRL'', 60)]"

subsection \<open>PCI Device ID register\<close>

definition pci_device_id :: register where
  "pci_device_id =
     [(''DEVICE_VENDORID'', field32 16 0),
      (''DEVICE_DEVICEID'', field32 16 16)]"

subsection \<open>PCI Command Register\<close>

definition pci_command :: register where
  "pci_command =
     [(''CMD_IOSPACE_EN'', flag32 0),
      (''CMD_MEMSPACE_EN'', flag32 1),
      (''CMD_MASTER_EN'', flag32 2),
      (''CMD_SPECCYC_EN'', flag32 3),
      (''CMD_MEMWRINV_EN'', flag32 4),
      (''CMD_VGAPALSNP_EN'', flag32 5),
      (''CMD_PARERRRESP'', flag32 6),
      (''CMD_STEPCTRL'', flag32 7),
      (''CMD_SERR_EN'', flag32 8),
      (''CMD_FASTB2B_EN'', flag32 9),
      (''CMD_INTR_DIS'', flag32 10)]"

definition M_PCI_CMD_DATAERRRESP :: u64 where
  "M_PCI_CMD_DATAERRRESP = ucast (SB_MAKEMASK1_32 6)"

subsection \<open>PCI status\<close>

definition pci_status :: register where
  "pci_status =
     [(''STATUS_INTRSTAT'', flag32 19),
      (''STATUS_CAPLIST'', flag32 20),
      (''STATUS_66MHZCAP'', flag32 21),
      (''STATUS_FASTB2BCAP'', flag32 23),
      (''STATUS_MSTRDPARERR'', flag32 24),
      (''STATUS_DEVSELTIMING'', field32 2 25),
      (''STATUS_SIGDTGTABORT'', flag32 27),
      (''STATUS_RCVDTGTABORT'', flag32 28),
      (''STATUS_RCVDMSTRABORT'', flag32 29),
      (''STATUS_SIGDSERR'', flag32 30),
      (''STATUS_DETPARERR'', flag32 31)]"

definition M_PCI_STATUS_MSTRDATAERR :: u64 where
  "M_PCI_STATUS_MSTRDATAERR = ucast (SB_MAKEMASK1_32 24)"

definition M_PCI_STATUS_DATAERRDET :: u64 where
  "M_PCI_STATUS_DATAERRDET = ucast (SB_MAKEMASK1_32 31)"

subsection \<open>PCI Class Revision Register\<close>

definition pci_class_revision :: register where
  "pci_class_revision =
     [(''CLASSREV_REVID'', field32 8 0),
      (''CLASSREV_CLASS'', field32 24 8)]"

subsection \<open>PCI Device Header Register\<close>

definition pci_device_header :: register where
  "pci_device_header =
     [(''DEVHDR_CLINESZ'', field32 8 0),
      (''DEVHDR_LATTIMER'', field32 8 8),
      (''DEVHDR_HDRTYPE'', codes [K ''TYPE0'' 0] (field32 8 16)),
      (''DEVHDR_BIST'', field32 8 24)]"

subsection \<open>PCI Device Interrupt Grant Register (Type 0)\<close>

definition pci_device_interrupt_grant :: register where
  "pci_device_interrupt_grant =
     [(''INTGRANT_INTLINE'', field32 8 0),
      (''INTGRANT_INTPIN'', field32 8 8),
      (''INTGRANT_MINGNT'', field32 8 16),
      (''INTGRANT_MAXLAT'', field32 8 24)]"

subsection \<open>Bridge Bus Number Sec Latency Register\<close>

definition pci_bridge_bus_number_sec_latency :: register where
  "pci_bridge_bus_number_sec_latency =
     [(''PPB_BUSID_PRI'', field32 8 0),
      (''PPB_BUSID_SEC'', field32 8 8),
      (''PPB_BUSID_SUBORD'', field32 8 16),
      (''PPB_BUSID_SECLATTIMER'', field32 8 24)]"

subsection \<open>Bridge I O Base Limit Register\<close>

definition pci_bridge_i_o_base_limit :: register where
  "pci_bridge_i_o_base_limit =
     [(''PPB_IO_BASE'', field32 8 0),
      (''PPB_IO_LIMIT'', field32 8 8)]"

subsection \<open>Bridge secondary status\<close>

definition pci_bridge_secondary_status :: register where
  "pci_bridge_secondary_status =
     [(''PPB_SSTATUS_DETSERR'', flag32 30)]"

subsection \<open>Bridge Interrupt Line and Pin Register\<close>

definition pci_bridge_interrupt_line_pin :: register where
  "pci_bridge_interrupt_line_pin =
     [(''PPB_INT_LINE'', field32 8 0),
      (''PPB_INT_PIN'', field32 8 8)]"

subsection \<open>Bridge control\<close>

definition pci_bridge_control :: register where
  "pci_bridge_control =
     [(''PPB_BRCTL_DATAERRRESP'', flag32 16),
      (''PPB_BRCTL_SERR_EN'', flag32 17),
      (''PPB_BRCTL_ISA_EN'', flag32 18),
      (''PPB_BRCTL_VGA_EN'', flag32 19),
      (''PPB_BRCTL_MSTRABORTMODE'', flag32 21),
      (''PPB_BRCTL_SECBUSRESET'', flag32 22),
      (''PPB_BRCTL_FASTB2B_EN'', flag32 23),
      (''PPB_BRCTL_PRIDISCARD'', flag32 24),
      (''PPB_BRCTL_SECDISCARD'', flag32 25),
      (''PPB_BRCTL_DISCARDSTAT'', flag32 26),
      (''PPB_BRCTL_DISCARDSERR_EN'', flag32 27)]"

subsection \<open>Capability ids\<close>

definition pci_capability_ids :: "(string \<times> u64) list" where
  "pci_capability_ids =
     [(''PCI_CAP_PM'', 1), (''PCI_CAP_AGP'', 2), (''PCI_CAP_VPD'', 3), (''PCI_CAP_SI'', 4), (''PCI_CAP_MSI'',
        5),
      (''PCI_CAP_HS'', 6), (''PCI_CAP_PCIX'', 7), (''PCI_CAP_HT'', 8)]"

subsection \<open>MSI capability\<close>

definition pci_msi_capability :: register where
  "pci_msi_capability =
     [(''MSI_CTRL_MSI_EN'', flag32 16),
      (''MSI_CTRL_MULTCAP'', field32 3 17),
      (''MSI_CTRL_MULT_EN'', field32 3 20),
      (''MSI_CTRL_64BITCAP'', flag32 23),
      (''MSI_DATA_MSG'', field32 16 0)]"

definition pci_msi_capability_consts :: "(string \<times> u64) list" where
  "pci_msi_capability_consts =
     [(''MSICTRL'', 0), (''MSIADDR'', 4), (''MSIDATA'', 12)]"

subsection \<open>PCI-X command\<close>

definition pci_x_command :: register where
  "pci_x_command =
     [(''PCIX_CMD_DPERRREC_EN'', flag32 0),
      (''PCIX_CMD_RELAXORDER'', flag32 1),
      (''PCIX_CMD_MAXRD'', field32 2 2),
      (''PCIX_CMD_MAXSPLIT'', field32 3 4)]"

definition pci_x_command_status :: register where
  "pci_x_command_status =
     [(''PCIX_STAT_FN'', field32 3 0),
      (''PCIX_STAT_DEV'', field32 5 3),
      (''PCIX_STAT_BUS'', field32 8 8),
      (''PCIX_STAT_64BDEVICE'', flag32 16),
      (''PCIX_STAT_133MHZCAP'', flag32 17),
      (''PCIX_STAT_SPLITDISC'', flag32 18),
      (''PCIX_STAT_UNEXPSPLIT'', flag32 19),
      (''PCIX_STAT_DEVCOMPLX'', flag32 20),
      (''PCIX_STAT_MAXRD'', field32 2 21),
      (''PCIX_STAT_MAXSPLIT'', field32 3 23),
      (''PCIX_STAT_MAXCUMRD'', field32 3 26),
      (''PCIX_STAT_RCVSPLITERR'', flag32 29)]"

definition pci_x_command_consts :: "(string \<times> u64) list" where
  "pci_x_command_consts =
     [(''PCIXCMD'', 0), (''PCIXSTAT'', 4)]"

definition M_PCIX_STAT_RC :: u64 where
  "M_PCIX_STAT_RC = ucast (SB_MAKEMASK1_32 18) OR
     ucast (SB_MAKEMASK1_32 19) OR
     ucast (SB_MAKEMASK1_32 29)"

subsection \<open>HT capability type\<close>

definition pci_ht_capability_type :: register where
  "pci_ht_capability_type =
     [(''HT_CMD_CAPTYPE'', field32 3 29),
      (''HT_CMD_SUBTYPE'', field32 2 27)]"

definition pci_ht_capability_type_consts :: "(string \<times> u64) list" where
  "pci_ht_capability_type_consts =
     [(''K_HT_CAPTYPE_SLAVE'', 0), (''K_HT_CAPTYPE_HOST'', 1), (''K_HT_CAPTYPE_SWITCH'', 2),
      (''K_HT_SUBTYPE_SWITCH'', 0), (''K_HT_SUBTYPE_VCSET'', 3)]"

subsection \<open>HT slave capability\<close>

definition pci_ht_slave_capability :: "(string \<times> u64) list" where
  "pci_ht_slave_capability =
     [(''R_HTP_CMD'', 0), (''R_HTP_LINKCTRL0'', 4), (''R_HTP_LINKCTRL1'', 8), (''R_HTP_LINKFREQ0'', 12),
      (''R_HTP_LINKFREQ1'', 16), (''R_HTP_ERROR'', 20), (''R_HTP_MEMUPPER'', 24)]"

subsection \<open>HT host capability\<close>

definition pci_ht_host_capability :: "(string \<times> u64) list" where
  "pci_ht_host_capability =
     [(''R_HTS_CMD'', 0), (''R_HTS_LINKCTRL'', 4), (''R_HTS_LINKFREQ'', 8), (''R_HTS_FEATURE'', 12),
      (''R_HTS_ERROR'', 16), (''R_HTS_MEMUPPER'', 20)]"

subsection \<open>HT command of a device\<close>

definition pci_ht_command_device :: register where
  "pci_ht_command_device =
     [(''HT_CMD_BASEUNITID'', field32 5 16),
      (''HT_CMD_UNITCOUNT'', field32 5 21),
      (''HT_CMD_MASTERHOST'', flag32 26),
      (''HT_CMD_DEFAULTDIR'', flag32 27),
      (''HT_CMD_DROPUNINIT'', flag32 28)]"

subsection \<open>HT command of a host\<close>

definition pci_ht_command_host :: register where
  "pci_ht_command_host =
     [(''HTS_CMD_WARMRESET'', flag32 16),
      (''HTS_CMD_DOUBLEENDED'', flag32 17),
      (''HTS_CMD_DEVICENUM'', field32 5 18),
      (''HTS_CMD_CHAINSIDE'', flag32 23),
      (''HTS_CMD_HOSTHIDE'', flag32 24),
      (''HTS_CMD_ACTASSLAVE'', flag32 26),
      (''HTS_CMD_HOSTEOCERR'', flag32 27),
      (''HTS_CMD_DROPUNINIT'', flag32 28)]"

subsection \<open>HT link control\<close>

definition pci_ht_link_control :: register where
  "pci_ht_link_control =
     [(''HT_LINKCTRL_CRCSYNCFLOOD_EN'', flag32 1),
      (''HT_LINKCTRL_CRCSTARTTEST'', flag32 2),
      (''HT_LINKCTRL_CRCFORCEERR'', flag32 3),
      (''HT_LINKCTRL_LINKFAIL'', flag32 4),
      (''HT_LINKCTRL_INITCOMPLETE'', flag32 5),
      (''HT_LINKCTRL_EOC'', flag32 6),
      (''HT_LINKCTRL_XMITOFF'', flag32 7),
      (''HT_LINKCTRL_CRCERR'', field32 4 8),
      (''HT_LINKCTRL_ISOCFC_EN'', flag32 12),
      (''HT_LINKCTRL_LDTSTOPTRI_EN'', flag32 13),
      (''HT_LINKCTRL_EXTCTLTIME'', flag32 14),
      (''HT_LINKCTRL_64BADDR_EN'', flag32 15)]"

subsection \<open>HT link configuration\<close>

definition pci_ht_link_configuration :: register where
  "pci_ht_link_configuration =
     [(''HT_LINKCFG_MAXIN'', field32 3 16),
      (''HT_LINKCFG_DWFCIN'', flag32 19),
      (''HT_LINKCFG_MAXOUT'', field32 3 20),
      (''HT_LINKCFG_DWFCOUT'', flag32 23),
      (''HT_LINKCFG_WIDTHIN'', field32 3 24),
      (''HT_LINKCFG_DWFCIN_EN'', flag32 27),
      (''HT_LINKCFG_WIDTHOUT'', field32 3 28),
      (''HT_LINKCFG_DWFCOUT_EN'', flag32 31)]"

subsection \<open>HT link 0\<close>

definition pci_ht_link_0 :: register where
  "pci_ht_link_0 =
     [(''HT_LINKFREQ_HTREVID'', field32 8 8)]"

subsection \<open>HT features of link 1\<close>

definition pci_ht_features_link_1 :: register where
  "pci_ht_features_link_1 =
     [(''HT_LINKFREQ_ISOCFC'', flag32 0),
      (''HT_LINKFREQ_LDTSTOP'', flag32 1),
      (''HT_LINKFREQ_CRCTST'', flag32 2),
      (''HT_LINKFREQ_EXTCTL'', flag32 3),
      (''HT_LINKFREQ_64BADDR'', flag32 4),
      (''HT_LINKFREQ_UIDREODIS'', flag32 5)]"

subsection \<open>HT features of a host\<close>

definition pci_ht_features_host :: register where
  "pci_ht_features_host =
     [(''HT_LINKFREQ_EXTREGSET'', flag32 8),
      (''HT_LINKFREQ_UPSTCFGEN'', flag32 9)]"

subsection \<open>HT frequency and errors of a host\<close>

definition pci_ht_frequency_errors_host :: register where
  "pci_ht_frequency_errors_host =
     [(''HT_LINKFREQ_FREQ'', field32 4 8),
      (''HT_LINKFREQ_PROTERR'', flag32 12),
      (''HT_LINKFREQ_OVFLERR'', flag32 13),
      (''HT_LINKFREQ_EOCERR'', flag32 14),
      (''HT_LINKFREQ_CTLTO'', flag32 15)]"

definition pci_ht_frequency_errors_host_consts :: "(string \<times> u64) list" where
  "pci_ht_frequency_errors_host_consts =
     [(''K_HT_LINKFREQ_200MHZ'', 0), (''K_HT_LINKFREQ_300MHZ'', 1), (''K_HT_LINKFREQ_400MHZ'', 2),
      (''K_HT_LINKFREQ_500MHZ'', 3), (''K_HT_LINKFREQ_600MHZ'', 4), (''K_HT_LINKFREQ_800MHZ'', 5),
      (''K_HT_LINKFREQ_1000MHZ'', 6), (''K_HT_LINKFREQ_VENDOR'', 15)]"

subsection \<open>HT frequency capability\<close>

definition pci_ht_frequency_capability :: register where
  "pci_ht_frequency_capability =
     [(''HT_LINKFREQ_CAP'', field32 16 16)]"

subsection \<open>HT error handling\<close>

definition pci_ht_error_handling :: register where
  "pci_ht_error_handling =
     [(''HT_SCRATCHPAD'', field32 16 0),
      (''HT_ERRHNDL_PROFL_EN'', flag32 16),
      (''HT_ERRHNDL_OVFFL_EN'', flag32 17),
      (''HT_ERRHNDL_PROFT_EN'', flag32 18),
      (''HT_ERRHNDL_OVFFT_EN'', flag32 19),
      (''HT_ERRHNDL_EOCFT_EN'', flag32 20),
      (''HT_ERRHNDL_RSPFT_EN'', flag32 21),
      (''HT_ERRHNDL_CRCFT_EN'', flag32 22),
      (''HT_ERRHNDL_SYSFTL_EN'', flag32 23),
      (''HT_ERRHNDL_CHNFAIL'', flag32 24),
      (''HT_ERRHNDL_RSPERR'', flag32 25),
      (''HT_ERRHNDL_PRONF_EN'', flag32 26),
      (''HT_ERRHNDL_OVFNF_EN'', flag32 27),
      (''HT_ERRHNDL_EOCNF_EN'', flag32 28),
      (''HT_ERRHNDL_RSPNF_EN'', flag32 29),
      (''HT_ERRHNDL_CRCNF_EN'', flag32 30),
      (''HT_ERRHNDL_SYSNF_EN'', flag32 31)]"

subsection \<open>HT switch command\<close>

definition pci_ht_switch_command :: register where
  "pci_ht_switch_command =
     [(''HT_SWCMD_VIBERR'', flag32 23),
      (''HT_SWCMD_VIBFI_EN'', flag32 23),
      (''HT_SWCMD_VIBFT_EN'', flag32 23),
      (''HT_SWCMD_VIBNF_EN'', flag32 23),
      (''HT_SWCMD_CAPTYPE'', field32 5 27)]"

subsection \<open>HT switch partition\<close>

definition pci_ht_switch_partition :: register where
  "pci_ht_switch_partition =
     [(''HT_SWPAR_PORT0INPARTITION'', flag32 0),
      (''HT_SWPAR_PORT1INPARTITION'', flag32 1),
      (''HT_SWPAR_PORT2INPARTITION'', flag32 2)]"

subsection \<open>HT switch info\<close>

definition pci_ht_switch_info :: register where
  "pci_ht_switch_info =
     [(''HT_SWINFO_DEFPORT'', field32 5 0),
      (''HT_SWINFO_DECODEEN'', flag32 5),
      (''HT_SWINFO_COLDRESET'', flag32 6),
      (''HT_SWINFO_PERFINDEX'', field32 4 8),
      (''HT_SWINFO_BLRINDEX'', field32 6 16),
      (''HT_SWINFO_HOTPLUG'', flag32 22),
      (''HT_SWINFO_HIDEPORT'', flag32 23)]"

subsection \<open>VCSet command\<close>

definition pci_vcset_command :: register where
  "pci_vcset_command =
     [(''HT_VCCMD_CAPTYPE'', field32 5 27)]"

subsection \<open>VCSet Configuration and Capability Register\<close>

definition pci_vcset_configuration_capability :: register where
  "pci_vcset_configuration_capability =
     [(''HT_VCCFG_VCSETSUP'', field32 8 0),
      (''HT_VCCFG_L1ENBVCSET'', field32 8 8),
      (''HT_VCCFG_L0ENBVCSET'', field32 8 16),
      (''HT_VCCFG_VCSETEOC'', field32 8 24)]"

subsection \<open>VCSet Stream Configuration Register\<close>

definition pci_vcset_stream_configuration :: register where
  "pci_vcset_stream_configuration =
     [(''HT_VCSTRM_STRMBUCKDEPTH'', field32 8 0),
      (''HT_VCSTRM_STRMINTERVAL'', field32 8 8),
      (''HT_VCSTRM_STRMSUP'', field32 8 16)]"

subsection \<open>VCSet NonFC Configuration Register\<close>

definition pci_vcset_nonfc_configuration :: register where
  "pci_vcset_nonfc_configuration =
     [(''HT_VCNONFC_NONFCBUCKDEPTH'', field32 8 0),
      (''HT_VCNONFC_NONFCINTERVAL'', field32 8 8)]"

subsection \<open>The header\<close>

definition pci_cfg :: "header" where
  "pci_cfg =
     [(''device_id'', pci_device_id),
      (''command'', pci_command),
      (''status'', pci_status),
      (''class_revision'', pci_class_revision),
      (''device_header'', pci_device_header),
      (''device_interrupt_grant'', pci_device_interrupt_grant),
      (''bridge_bus_number_sec_latency'', pci_bridge_bus_number_sec_latency),
      (''bridge_i_o_base_limit'', pci_bridge_i_o_base_limit),
      (''bridge_secondary_status'', pci_bridge_secondary_status),
      (''bridge_interrupt_line_pin'', pci_bridge_interrupt_line_pin),
      (''bridge_control'', pci_bridge_control),
      (''msi_capability'', pci_msi_capability),
      (''x_command'', pci_x_command),
      (''x_command_status'', pci_x_command_status),
      (''ht_capability_type'', pci_ht_capability_type),
      (''ht_command_device'', pci_ht_command_device),
      (''ht_command_host'', pci_ht_command_host),
      (''ht_link_control'', pci_ht_link_control),
      (''ht_link_configuration'', pci_ht_link_configuration),
      (''ht_link_0'', pci_ht_link_0),
      (''ht_features_link_1'', pci_ht_features_link_1),
      (''ht_features_host'', pci_ht_features_host),
      (''ht_frequency_errors_host'', pci_ht_frequency_errors_host),
      (''ht_frequency_capability'', pci_ht_frequency_capability),
      (''ht_error_handling'', pci_ht_error_handling),
      (''ht_switch_command'', pci_ht_switch_command),
      (''ht_switch_partition'', pci_ht_switch_partition),
      (''ht_switch_info'', pci_ht_switch_info),
      (''vcset_command'', pci_vcset_command),
      (''vcset_configuration_capability'', pci_vcset_configuration_capability),
      (''vcset_stream_configuration'', pci_vcset_stream_configuration),
      (''vcset_nonfc_configuration'', pci_vcset_nonfc_configuration)]"

lemmas pci_cfg_defs = pci_cfg_def
    pci_device_id_def pci_command_def pci_status_def pci_class_revision_def pci_device_header_def 
    pci_device_interrupt_grant_def pci_bridge_bus_number_sec_latency_def pci_bridge_i_o_base_limit_def 
    pci_bridge_secondary_status_def pci_bridge_interrupt_line_pin_def pci_bridge_control_def 
    pci_msi_capability_def pci_x_command_def pci_x_command_status_def pci_ht_capability_type_def 
    pci_ht_command_device_def pci_ht_command_host_def pci_ht_link_control_def pci_ht_link_configuration_def 
    pci_ht_link_0_def pci_ht_features_link_1_def pci_ht_features_host_def pci_ht_frequency_errors_host_def 
    pci_ht_frequency_capability_def pci_ht_error_handling_def pci_ht_switch_command_def 
    pci_ht_switch_partition_def pci_ht_switch_info_def pci_vcset_command_def 
    pci_vcset_configuration_capability_def pci_vcset_stream_configuration_def 
    pci_vcset_nonfc_configuration_def

lemma pci_cfg_ascending:
  "register_defects pci_device_id = ([], [])"
  "register_defects pci_command = ([], [])"
  "register_defects pci_status = ([], [])"
  "register_defects pci_class_revision = ([], [])"
  "register_defects pci_device_header = ([], [])"
  "register_defects pci_device_interrupt_grant = ([], [])"
  "register_defects pci_bridge_bus_number_sec_latency = ([], [])"
  "register_defects pci_bridge_i_o_base_limit = ([], [])"
  "register_defects pci_bridge_secondary_status = ([], [])"
  "register_defects pci_bridge_interrupt_line_pin = ([], [])"
  "register_defects pci_bridge_control = ([], [])"
  "register_defects pci_x_command = ([], [])"
  "register_defects pci_x_command_status = ([], [])"
  "register_defects pci_ht_command_device = ([], [])"
  "register_defects pci_ht_command_host = ([], [])"
  "register_defects pci_ht_link_control = ([], [])"
  "register_defects pci_ht_link_configuration = ([], [])"
  "register_defects pci_ht_link_0 = ([], [])"
  "register_defects pci_ht_features_link_1 = ([], [])"
  "register_defects pci_ht_features_host = ([], [])"
  "register_defects pci_ht_frequency_errors_host = ([], [])"
  "register_defects pci_ht_frequency_capability = ([], [])"
  "register_defects pci_ht_error_handling = ([], [])"
  "register_defects pci_ht_switch_partition = ([], [])"
  "register_defects pci_ht_switch_info = ([], [])"
  "register_defects pci_vcset_command = ([], [])"
  "register_defects pci_vcset_configuration_capability = ([], [])"
  "register_defects pci_vcset_stream_configuration = ([], [])"
  "register_defects pci_vcset_nonfc_configuration = ([], [])"
  by (simp_all add: ascending_eval pci_cfg_defs)

lemma pci_cfg_others:
  "register_defects pci_msi_capability = ([], [])"
  "register_defects pci_ht_capability_type = ([], [])"
  "register_defects pci_ht_switch_command = ([], [(''HT_SWCMD_VIBERR'', ''HT_SWCMD_VIBFI_EN''), (''HT_SWCMD_VIBERR'', ''HT_SWCMD_VIBFT_EN''),
        (''HT_SWCMD_VIBERR'', ''HT_SWCMD_VIBNF_EN''), (''HT_SWCMD_VIBFI_EN'', ''HT_SWCMD_VIBFT_EN''),
        (''HT_SWCMD_VIBFI_EN'', ''HT_SWCMD_VIBNF_EN''), (''HT_SWCMD_VIBFT_EN'', ''HT_SWCMD_VIBNF_EN'')])"
  by (simp_all add: register_eval pci_cfg_defs)

lemma pci_cfg_defects:
  "defects pci_cfg =
     [(''ht_switch_command'', [], [(''HT_SWCMD_VIBERR'', ''HT_SWCMD_VIBFI_EN''), (''HT_SWCMD_VIBERR'',
        ''HT_SWCMD_VIBFT_EN''), (''HT_SWCMD_VIBERR'', ''HT_SWCMD_VIBNF_EN''), (''HT_SWCMD_VIBFI_EN'',
        ''HT_SWCMD_VIBFT_EN''), (''HT_SWCMD_VIBFI_EN'', ''HT_SWCMD_VIBNF_EN''), (''HT_SWCMD_VIBFT_EN'',
        ''HT_SWCMD_VIBNF_EN'')])]"
  by (simp add: defects_def pci_cfg_def pci_cfg_ascending pci_cfg_others)

end
