(* ===== verification/Headers.thy ===== *)
theory Headers
  imports Bcm1480Hr Bcm1480Hsp Bcm1480Ht Bcm1480Int Bcm1480Jtag Bcm1480L2c Bcm1480Mc Bcm1480Pci Bcm1480Pm
    Bcm1480Rld Bcm1480Scd Sb1250Dma Sb1250Genbus Sb1250Int Sb1250Jtag Sb1250L2c Sb1250Ldt Sb1250Mac Sb1250Mc
    Sb1250Pci Sb1250Scd Sb1250Smbus Sb1250Syncser Sb1250Uart Sb1250Wid PciCfg SbmipsRegs MipsFpu
begin

text \<open>
  All the register headers of \<open>include/sibyte\<close> together: which of their registers are consistent, what
  follows for software that reads and updates them through the macros, and the facts that relate one part of
  a header to another (feature tests, interrupt numbers and masks, default words, the wafer id fuses).
\<close>

unbundle bit_operations_syntax

section \<open>The headers\<close>







section \<open>Registers that can be updated field by field\<close>











section \<open>Chips and revisions\<close>

text \<open>Compiled for one revision of one chip, \<open>SIBYTE_HDR_FEATURE_CHIP\<close> selects the code for that chip,
  \<open>SIBYTE_HDR_FEATURE\<close> the features of that revision and of earlier ones of the same chip, \<open>_UP_TO\<close> those
  that last at least to that revision, \<open>_EXACT\<close> that revision alone; with the default, all revisions, every
  feature is there.\<close>

theorem feature_macros_select:
  "SIBYTE_HDR_FEATURE_CHIP (SIBYTE_HDR_FMASK p) c = (chip_of p = c) \<and>
   SIBYTE_HDR_FEATURE_1250_112x (SIBYTE_HDR_FMASK p) = (chip_of p \<in> {BCM1250, BCM112x}) \<and>
   SIBYTE_HDR_FEATURE (SIBYTE_HDR_FMASK p) q = (chip_of p = chip_of q \<and> pass_of q \<le> pass_of p) \<and>
   SIBYTE_HDR_FEATURE_UP_TO (SIBYTE_HDR_FMASK p) q = (chip_of p = chip_of q \<and> pass_of p \<le> pass_of q) \<and>
   SIBYTE_HDR_FEATURE_EXACT (SIBYTE_HDR_FMASK p) q = (p = q) \<and>
   SIBYTE_HDR_FEATURE_CHIP SIBYTE_HDR_FMASK_ALL c \<and> SIBYTE_HDR_FEATURE SIBYTE_HDR_FMASK_ALL q \<and>
   SIBYTE_HDR_FEATURE_UP_TO SIBYTE_HDR_FMASK_ALL q \<and> SIBYTE_HDR_FEATURE_EXACT SIBYTE_HDR_FMASK_ALL q"
proof -
  have "SIBYTE_HDR_FEATURE_CHIP SIBYTE_HDR_FMASK_ALL c"
    unfolding SIBYTE_HDR_FEATURE_CHIP_def SIBYTE_HDR_FMASK_ALL_def by (cases c) simp_all
  moreover have e: "SIBYTE_HDR_FEATURE_EXACT SIBYTE_HDR_FMASK_ALL q"
    unfolding SIBYTE_HDR_FEATURE_EXACT_def SIBYTE_HDR_FMASK_ALL_def
    by (cases q) (simp_all add: SIBYTE_HDR_FMASK.simps)
  moreover have "(m OR n) AND ft \<noteq> 0" if "m AND ft \<noteq> 0" for m n ft :: u32
    using that by (auto simp: bit_eq_iff bit_simps)
  then have "SIBYTE_HDR_FEATURE SIBYTE_HDR_FMASK_ALL q" "SIBYTE_HDR_FEATURE_UP_TO SIBYTE_HDR_FMASK_ALL q"
    using e unfolding SIBYTE_HDR_FEATURE_EXACT_def SIBYTE_HDR_FEATURE_def SIBYTE_HDR_FEATURE_UP_TO_def by blast+
  ultimately show ?thesis
    by (simp add: feature_chip feature_since feature_up_to feature_exact SIBYTE_HDR_FEATURE_1250_112x_def)
qed

section \<open>The registers of each header\<close>



section \<open>Interrupt numbers and masks\<close>

lemma successively_less_distinct:
  assumes "successively (<) (xs :: 'a::linorder list)"
  shows "distinct xs"
  using assms strict_sorted_iff [of xs] by (simp add: successively_conv_sorted_wrt)

lemma sb_int_masks:
  "map (\<lambda>(n, f). (n, fld_mask f)) (sb_int_mask_values_each_interrupt (SIBYTE_HDR_FMASK p)) =
     map (\<lambda>(n, k). (n, SB_MAKEMASK1 (unat k))) (tl (sb_int_interrupt_sources (SIBYTE_HDR_FMASK p)))"
  by (cases p) (simp_all add: sb_int_mask_values_each_interrupt_def sb_int_interrupt_sources_def feature_simps SB_MAKEMASK1_eq)

lemma sb_int_numbers:
  "distinct (map snd (sb_int_interrupt_sources (SIBYTE_HDR_FMASK p)))"
  "list_all (\<lambda>(n, k). k < 64) (tl (sb_int_interrupt_sources (SIBYTE_HDR_FMASK p)))"
proof -
  let ?xs = "sb_int_interrupt_sources (SIBYTE_HDR_FMASK p)"
  have "successively (<) (map snd (tl ?xs))"
    by (cases p) (simp_all add: sb_int_interrupt_sources_def feature_simps)
  then have "distinct (map snd (tl ?xs))" by (rule successively_less_distinct)
  moreover show l: "list_all (\<lambda>(n, k). k < 64) (tl ?xs)"
    by (cases p) (simp_all add: sb_int_interrupt_sources_def feature_simps)
  moreover have "?xs = [] \<or> hd ?xs = (''SOURCES'', 64)"
    by (cases p) (simp_all add: sb_int_interrupt_sources_def feature_simps)
  ultimately show "distinct (map snd ?xs)"
    by (cases ?xs) (auto simp: list_all_iff)
qed

lemma bcm_int_high_masks:
  "map (\<lambda>(n, f). (n, fld_mask f)) bcm_int_mask_values_in_high =
     (''CASCADE'', 1) # map (\<lambda>(n, k). (n, BCM1480_INT_MASK1 k)) (filter (\<lambda>(n, k). BCM1480_INT_OFFSET k = 0) bcm_int_interrupt_sources)"
  by (simp add: bcm_int_mask_values_in_high_def bcm_int_interrupt_sources_def BCM1480_INT_OFFSET_def
      BCM1480_INT_MASK1_def SB_MAKEMASK1_eq SB_MAKEMASK_def)

lemma bcm_int_low_masks:
  "map (\<lambda>(n, f). (n, fld_mask f)) bcm_int_mask_values_in_low =
     map (\<lambda>(n, k). (n, BCM1480_INT_MASK1 k)) (filter (\<lambda>(n, k). BCM1480_INT_OFFSET k = 0x1000) bcm_int_interrupt_sources)"
  by (simp add: bcm_int_mask_values_in_low_def bcm_int_interrupt_sources_def BCM1480_INT_OFFSET_def
      BCM1480_INT_MASK1_def SB_MAKEMASK1_eq SB_MAKEMASK_def)

lemma bcm_int_numbers:
  "distinct (map snd bcm_int_interrupt_sources)" "list_all (\<lambda>(n, k). k < 128) bcm_int_interrupt_sources"
proof -
  have "successively (<) (map snd bcm_int_interrupt_sources)" by (simp add: bcm_int_interrupt_sources_def)
  then show "distinct (map snd bcm_int_interrupt_sources)" by (rule successively_less_distinct)
  show "list_all (\<lambda>(n, k). k < 128) bcm_int_interrupt_sources" by (simp add: bcm_int_interrupt_sources_def)
qed

text \<open>The interrupts of the BCM1250 and BCM112x have distinct numbers below 64 and the mask of each is the
  bit of its number; those of the BCM1480 have distinct numbers below 128, and the masks of the high and of
  the low register, after the cascade bit, are those that \<open>BCM1480_INT_MASK1\<close> computes for the numbers that
  \<open>BCM1480_INT_OFFSET\<close> sends to that register.\<close>

theorem interrupt_masks_match_sources:
  "map (\<lambda>(n, f). (n, fld_mask f)) (sb_int_mask_values_each_interrupt (SIBYTE_HDR_FMASK p)) =
     map (\<lambda>(n, k). (n, SB_MAKEMASK1 (unat k))) (tl (sb_int_interrupt_sources (SIBYTE_HDR_FMASK p))) \<and>
   distinct (map snd (sb_int_interrupt_sources (SIBYTE_HDR_FMASK p))) \<and>
   list_all (\<lambda>(n, k). k < 64) (tl (sb_int_interrupt_sources (SIBYTE_HDR_FMASK p))) \<and>
   map (\<lambda>(n, f). (n, fld_mask f)) bcm_int_mask_values_in_high =
     (''CASCADE'', 1) # map (\<lambda>(n, k). (n, BCM1480_INT_MASK1 k)) (filter (\<lambda>(n, k). BCM1480_INT_OFFSET k = 0) bcm_int_interrupt_sources) \<and>
   map (\<lambda>(n, f). (n, fld_mask f)) bcm_int_mask_values_in_low =
     map (\<lambda>(n, k). (n, BCM1480_INT_MASK1 k)) (filter (\<lambda>(n, k). BCM1480_INT_OFFSET k = 0x1000) bcm_int_interrupt_sources) \<and>
   distinct (map snd bcm_int_interrupt_sources) \<and> list_all (\<lambda>(n, k). k < 128) bcm_int_interrupt_sources"
  using sb_int_masks [of p] sb_int_numbers [of p] bcm_int_high_masks bcm_int_low_masks bcm_int_numbers by blast

section \<open>Default words\<close>

definition default_code :: "field \<Rightarrow> u64 option" where
  "default_code f = find (\<lambda>k. True) (concat (map (\<lambda>c. case c of KV n k v \<Rightarrow> if n = ''DEFAULT'' then [k] else [] | _ \<Rightarrow> []) (fld_codes f)))"

definition holds_defaults :: "register \<Rightarrow> u64 \<Rightarrow> bool" where
  "holds_defaults r y \<longleftrightarrow> (\<forall>(n, f) \<in> set r. default_code f \<in> {None, get_field f y})"

lemma get_field_shape:
  "get_field (codes ks (field w s)) y = Some (SB_GETVALUE y s (SB_MAKEMASK w s))"
  by (simp add: get_field_def)

lemmas default_eval = holds_defaults_def default_code_def get_field_shape SB_GETVALUE_def SB_MAKEMASK_def SB_MAKEVALUE_def
  SB_MAKEMASK1_def

lemma sb_timing_default:
  "holds_defaults (sb_mc_sdram_timing (SIBYTE_HDR_FMASK p)) V_MC_TIMING_DEFAULT"
  by (cases p) (simp_all add: default_eval sb_mc_sdram_timing_def V_MC_TIMING_DEFAULT_def feature_simps)

lemma sb_config_default: "holds_defaults sb_mc_memory_channel_config V_MC_CONFIG_DEFAULT"
  by (simp add: default_eval sb_mc_memory_channel_config_def V_MC_CONFIG_DEFAULT_def V_MC_WR_LIMIT_DEFAULT_def
      V_MC_AGE_LIMIT_DEFAULT_def V_MC_QUEUE_SIZE_DEFAULT_def)

lemma bcm_timing_default: "holds_defaults bcm_mc_sdram_timing V_BCM1480_MC_TIMING_DEFAULT"
  by (simp add: default_eval bcm_mc_sdram_timing_def V_BCM1480_MC_TIMING_DEFAULT_def)

text \<open>The default words of the memory controllers give every field that has a default code that code: the
  SDRAM timing and the channel configuration of the BCM1250, the SDRAM timing of the BCM1480.\<close>

theorem timing_defaults_decode:
  "holds_defaults (sb_mc_sdram_timing (SIBYTE_HDR_FMASK p)) V_MC_TIMING_DEFAULT \<and>
   holds_defaults sb_mc_memory_channel_config V_MC_CONFIG_DEFAULT \<and>
   holds_defaults bcm_mc_sdram_timing V_BCM1480_MC_TIMING_DEFAULT"
  using sb_timing_default [of p] sb_config_default bcm_timing_default by blast

section \<open>Wafer id\<close>

lemma bit_MAKEMASK1: "bit (SB_MAKEMASK1 n) i \<longleftrightarrow> i = n \<and> n < 64"
  by (auto simp: SB_MAKEMASK1_eq bit_SB_MAKEMASK)

lemma bit_swapbits: "bit M_WID_SWAPBITS i \<longleftrightarrow> i \<in> {2, 4, 10, 18, 20, 26}"
  by (simp add: M_WID_SWAPBITS_def bit_or_iff bit_MAKEMASK1 del: insert_iff) auto

lemma bit_exchange:
  fixes w m :: u64
  shows "bit ((w AND NOT (m OR push_bit n m)) OR push_bit n (w AND m) OR drop_bit n (w AND push_bit n m)) i \<longleftrightarrow>
    bit w i \<and> \<not> bit m i \<and> \<not> (n \<le> i \<and> bit m (i - n)) \<or> i < 64 \<and> n \<le> i \<and> bit w (i - n) \<and> bit m (i - n) \<or>
    bit w (n + i) \<and> bit m i"
  by (auto simp: bit_simps not_less dest: bit_imp_le_length)

text \<open>The bit that each bit of the result is taken from.\<close>

definition wid_bit :: "nat \<Rightarrow> nat" where
  "wid_bit i = (if i \<in> {2, 4, 10, 18, 20, 26} then i + 1 else if i \<in> {3, 5, 11, 19, 21, 27} then i - 1 else i)"

lemma wid_bit_involution: "wid_bit (wid_bit i) = i"
  by (auto simp: wid_bit_def)

lemma bit_unconvolute: "bit (WID_UNCONVOLUTE w) i = bit w (wid_bit i)"
proof -
  let ?S = "{2, 4, 10, 18, 20, 26 :: nat}" and ?T = "{3, 5, 11, 19, 21, 27 :: nat}"
  have t: "1 \<le> i \<and> i - 1 \<in> ?S \<longleftrightarrow> i \<in> ?T" by auto
  have e: "bit (WID_UNCONVOLUTE w) i \<longleftrightarrow>
      bit w i \<and> i \<notin> ?S \<and> i \<notin> ?T \<or> i < 64 \<and> bit w (i - 1) \<and> i \<in> ?T \<or> bit w (1 + i) \<and> i \<in> ?S"
    unfolding WID_UNCONVOLUTE_def bit_exchange bit_swapbits using t by blast
  have d: "\<not> (i \<in> ?S \<and> i \<in> ?T)" and l: "i \<in> ?T \<Longrightarrow> i < 64" by auto
  have c: "X = bit w (if P then i + 1 else if Q then i - 1 else i)"
    if "X \<longleftrightarrow> bit w i \<and> \<not> P \<and> \<not> Q \<or> i < 64 \<and> bit w (i - 1) \<and> Q \<or> bit w (1 + i) \<and> P"
      "\<not> (P \<and> Q)" "Q \<Longrightarrow> i < 64" for X P Q
    using that by (cases P; cases Q) auto
  show ?thesis unfolding wid_bit_def by (rule c [OF e d l])
qed

text \<open>Reading the wafer id fuses in the order of the chip exchanges bits 2 and 3, 4 and 5, 10 and 11, 18 and 19,
  20 and 21, 26 and 27 and no others, so that doing it twice gives the word back.\<close>

theorem wid_unconvolute_involution:
  "WID_UNCONVOLUTE (WID_UNCONVOLUTE w) = w \<and>
   bit (WID_UNCONVOLUTE w) i =
     bit w (if i \<in> {2, 4, 10, 18, 20, 26} then i + 1 else if i \<in> {3, 5, 11, 19, 21, 27} then i - 1 else i)"
proof -
  have "WID_UNCONVOLUTE (WID_UNCONVOLUTE w) = w"
    by (rule bit_word_eqI) (simp only: bit_unconvolute wid_bit_involution)
  then show ?thesis using bit_unconvolute [of w i] unfolding wid_bit_def by blast
qed

end
