(* ===== verification/Spec2Isabelle.thy ===== *)
theory Spec2Isabelle
  imports Unaligned Intr Tlbtest TlbAlloc TlbConvert Sbprof Tbanal Atomic Memfuncs CsumUser Cp0 Fpu Headers
begin

text \<open>
  The development of the SiByte sample software: what \<open>src/\<close> holds for the BCM1250 and BCM1480 families of
  MIPS64 processors, as far as it is code of its own. The model follows the files one by one. A C function, or the code
  between two labels of an assembly routine, is a definition with the name it has in the source; a structure is a
  record, an enumeration a datatype, a C integer a word of its width, and an effect an update of an explicit state.

  The parts and how they interact:

    \<^item> The exception library (\<open>libexception\<close>). \<open>Exlib\<close>: \<open>exlib.c\<close>, the table of handlers and save masks,
      installation and removal of the vectors. \<open>Exdispatch\<close>: \<open>exlib_vectors.S\<close> and the \<open>exhandler_*.c\<close>, from the
      exception through frame, dispatch and handler to the return. \<open>Intr\<close>: \<open>intr.c\<close>, a handler for the Int
      exception that walks eight linked chains of client handlers; \<open>chains_wf\<close> relates the links in memory
      to the abstract chains, and the operations on the list are shown to be insertion at the end and deletion of it. A client's
      handler is an argument (\<open>ext\<close>, \<open>ifn\<close>).
    \<^item> The clients of the exception library. \<open>Unaligned\<close>: \<open>unaligned/unhandler.c\<close>, the emulation of unaligned loads and
      stores, branch delay slots included, against the architecture's definition of a branch and of an
      access. \<open>SbprofLog\<close>, \<open>SbprofCpu\<close>, \<open>SbprofZb\<close>, \<open>Sbprof\<close> with \<open>Sb1250\<close>: \<open>libsbprof\<close>, whose two profilers
      share one interrupt of \<open>Intr\<close> on two lines, which this theory brings together. The log of the CPU profiler is
      specified by what a reader finds in it (\<open>log_rep\<close>), the state of a session by its invariant.
    \<^item> The TLB (\<open>tlb\<close>). \<open>Tlb\<close>: \<open>tlb.h\<close> and \<open>tlb_utils.c\<close> over a model of the hardware in which writing an entry that overlaps
      another is a shutdown. \<open>Tlbtest\<close>: the self test, which passes on that model. \<open>TlbConvert\<close>: the host tool. \<open>TlbAlloc\<close>:
      the heap mapped by the TLB, with \<open>sbrk\<close>.
    \<^item> The trace analyser (\<open>libsbprof/util/tbanal.c\<close>). \<open>TbBundle\<close>: the bit-field structures in both byte orders and the
      conversions between them. \<open>Tbanal\<close>: the tool, with what it prints.
    \<^item> Synchronisation (\<open>atomic-ops\<close>). \<open>Atomic\<close>: the instructions of the locks and semaphores, as a step relation of any
      number of processors.
    \<^item> The assembly routines (\<open>sb1-opt\<close>). \<open>Sb1str\<close>: \<open>ffs\<close>, \<open>ffs64\<close>, \<open>strcmp\<close>. \<open>Sb1mem\<close>: \<open>memset\<close>. \<open>Sb1copy\<close>: \<open>memcpy\<close>.
      \<open>Memfuncs\<close>: the tests of \<open>libsbprof/examples/memfuncs.c\<close>, run on the last two. \<open>Csum\<close>: \<open>csum_partial\<close>.
      \<open>CsumCopy\<close>: \<open>csum_partial_copy_user\<close> with its exception handlers; \<open>CsumCorrect\<close> and \<open>CsumUser\<close> prove it.
    \<^item> Coprocessors. \<open>Cp0\<close>: the address spaces and access functions of \<open>sbmips.h\<close>, \<open>cp0dump.c\<close> and \<open>prid_decode.c\<close>.
      \<open>Fpu\<close>: the access functions of \<open>mips_fpu.h\<close> and the two constructors of \<open>libmips_fpu\<close>.
    \<^item> The register headers (\<open>include/sibyte\<close>, and \<open>mips_fpu.h\<close>). \<open>Registers\<close>: the conventions of \<open>sb1250_defs.h\<close> and a record for what
      the macros of a field say. \<open>Bcm1480*\<close>, \<open>Sb1250*\<close>, \<open>PciCfg\<close>, \<open>SbmipsRegs\<close>, \<open>MipsFpu\<close>: one header each, a list of
      fields for each register. \<open>Headers\<close>: which registers are consistent, and all that are not.
    \<^item> \<open>Prelude\<close>: word types, faults and results, byte memories and lemmas on words. \<open>Sbmips\<close>: the field
      macros. \<open>Clib\<close>: \<open>printf\<close> of numbers and \<open>getopt\<close>.

  What the lemmas show. For the exception library, that an exception is delivered to the handler of its code and, when
  the handler leaves its frame alone, undone without a trace; that adding and removing handlers
  keeps the chains and the save mask; that a line's handlers are called exactly when the line is pending and enabled, in
  order; that \<open>exlib_shutdown\<close> and \<open>intr_shutdown\<close> undo what their counterparts did. For its clients,
  equivalence with the architecture and with the specification of the log. For the TLB, that the safe initialisation never shuts
  the TLB down and the direct one can; that the heap is mapped as the
  firmware's answers allow. For the tools, exact outputs, and independence of the byte order of the host. For the locks and semaphores, mutual
  exclusion and conservation over every interleaving. For the assembly routines, the contract of the C
  function for every alignment and length, without address errors and with every loop ending. For the headers, the laws of
  reading and updating a field, for every register but those listed.

  Contracts between the parts are locales: \<open>exc_table\<close> (the handler table, interpreted in \<open>Exlib\<close>),
  \<open>sample_log\<close> (the log, interpreted on \<open>log_rep\<close> in \<open>SbprofCpu\<close>), \<open>field_store\<close> (bit fields, interpreted on the two
  structures in both byte orders in \<open>TbBundle\<close>), and \<open>llsc_object\<close> (a word shared by load-linked and
  store-conditional, interpreted on the locks and the semaphores in \<open>Atomic\<close>).

  Failure and termination. A fault of the modelled C code (panic, exit, failed assertion, access outside an object, TLB
  shutdown) is a value of type \<open>fault\<close>; a call that does not return is None. There is no fuel: a loop is a recursion on
  data, a recursion with a measure, or a \<open>partial_function\<close> whose result is shown to exist where a
  property says that the code returns. Address errors are None in \<open>memset\<close>, \<open>memcpy\<close> and the checksums; \<open>strcmp\<close>
  reads aligned doublewords of a memory without holes. The bounds that properties have are those of the
  code: 131066 bytes for \<open>csum_partial\<close>, whose two sums have no place for more carries, and 2 GB for
  \<open>csum_partial_copy_user\<close>, whose length is an int.

  Assumptions. The 64-bit expansions of the assembly sources, except for \<open>csum_partial.S\<close>, which is always assembled in 32-bit words;
  prefetches, and loads whose value is thrown away, are left out there, as they change nothing the code reads. Memory is
  sequentially consistent in \<open>Atomic\<close>; the routines have no \<open>sync\<close>. The system control and debug unit, coprocessor 0, the performance counters,
  the firmware and the vectors' machine code are parameters. In \<open>csum_partial_copy_user\<close> what is readable and writable is a
  parameter too, readable in whole words as memory protection is, and \<open>memset\<close> of the C library has its documented
  effect. In \<open>Tbanal\<close>, the shift of the 35-bit address field is carried out at 64 bits, and floating point results are
  printed as the operands of the call. The tables of the headers omit the prefix of the macro names; a macro that cannot
  be expanded has no entry; a register with two meanings has two lists; and consistency is stated for
  one revision of a chip at a time.

  Not modelled: the 32-bit variant of the vectors and \<open>exframe_dump.c\<close>, which repeat or print what is modelled; the
  example programs that only call the libraries; the ports of the unaligned handlers to other systems; \<open>cache-err\<close>, \<open>mdmx\<close> and
  \<open>psingle\<close>, which are wrappers for or tests of instructions and caches that the repository does not define; the address maps
  \<open>sb1250_regs.h\<close> and \<open>bcm1480_regs.h\<close> beyond what the libraries use; and the build files.

  This theory shows what holds of both profilers together.
\<close>

unbundle bit_operations_syntax

section \<open>Both profilers on one interrupt\<close>

text \<open>
  The function pointers of the two interrupt handles: function \<open>f7\<close> is \<open>sbprof_trapfunc\<close>, every other
  one \<open>zbprof_trapfunc\<close>. Then the CPU profiler's interrupt leaves the chains and the other profiler
  alone, and the contract of the chains' clients holds.
\<close>

definition profiler_interrupts ::
  "bool \<Rightarrow> u32 \<Rightarrow> 'd scd \<Rightarrow> nat \<Rightarrow> nat \<Rightarrow> u64 \<Rightarrow> exframe \<Rightarrow> ('d, 'z) zb_state_scheme \<Rightarrow>
   (u32 \<times> exframe \<times> ('d, 'z) zb_state_scheme) res" where
  "profiler_interrupts be ptr b f7 f arg ef s =
     (if f = f7 then sbprof_trapfunc be ptr ef s else zbprof_trapfunc b arg ef s)"

lemma profiler_interrupts_keep: "keeps_chains (profiler_interrupts be ptr b f7)"
  unfolding keeps_chains_def
proof (intro allI impI)
  fix f a ef s r
  assume "profiler_interrupts be ptr b f7 f a ef s = Inr r"
  then show "ihands (snd (snd r)) = ihands s \<and> handler_chains (snd (snd r)) = handler_chains s"
    using zb_trap_keeps [of b a ef s r]
    by (auto simp: profiler_interrupts_def sbprof_trapfunc_def bind_res_eq_Inr Let_def split: if_splits)
qed

definition restart_pc :: "exframe \<Rightarrow> u64" where
  "restart_pc ef = ef_pc ef + (if ef_cause ef AND push_bit 31 1 \<noteq> 0 then 4 else 0)"

lemma trapfunc_eq:
  "sbprof_cpu_intr be (restart_pc ef) ptr (the_prof s) = Inr p' \<Longrightarrow>
   sbprof_trapfunc be ptr ef s = Inr (1, ef, s\<lparr>the_prof := p'\<rparr>)"
  by (simp add: sbprof_trapfunc_def restart_pc_def)

lemma two_lines:
  assumes "\<forall>i<8. (bit c (8 + i) \<and> bit t (8 + i)) = (i = 7 \<or> i = 6)"
  shows "filter (\<lambda>i. bit c (8 + i) \<and> bit t (8 + i)) [7, 6, 5, 4, 3, 2, 1, 0] = [7, 6 :: nat]"
proof -
  have "filter (\<lambda>i. bit c (8 + i) \<and> bit t (8 + i)) [7, 6, 5, 4, 3, 2, 1, 0] =
      filter (\<lambda>i. i = 7 \<or> i = 6) [7, 6, 5, 4, 3, 2, 1, 0 :: nat]"
  proof (intro filter_cong refl)
    fix i assume "i \<in> set [7, 6, 5, 4, 3, 2, 1, 0 :: nat]"
    then have "i < 8" by auto
    with assms show "(bit c (8 + i) \<and> bit t (8 + i)) = (i = 7 \<or> i = 6)" by blast
  qed
  then show ?thesis by simp
qed

text \<open>
  C6: When lines 7 and 6 are the pending, enabled ones and each has its profiler's handle as its only
  handler, the Int exception handler records the samples of the overflowed counters in the CPU
  profiler's log, and then: if the trace buffer has frozen and there is room, stores its trace as
  the next ZBbus sample and returns with both profilers' data so updated; if it has not frozen,
  nobody claims the interrupt of line 6 and the program panics.
\<close>

theorem profilers_share_interrupt:
  fixes s :: "('d, 'z) zb_state_scheme"
  assumes "intr_inv cs s" and "cs 7 = [h7]" and "cs 6 = [h6]"
    and "ih_func (ihands s h7) = f7" and "ih_func (ihands s h6) = f6" and "f6 \<noteq> f7"
    and "\<forall>i<8. (bit (ef_cause ef) (8 + i) \<and> bit (ef_status ef) (8 + i)) = (i = 7 \<or> i = 6)"
    and "log_rep be p0 (cpud (the_prof s)) xs"
    and "SBPROF_READ_CSR b A_SCD_TRACE_CFG (bus s) = (cfg, d1)"
    and "SBPROF_READ_CSR b INTERRUPT_SOURCE_STATUS_0 d1 = (src, d2)"
    and "csr_reads b A_SCD_TRACE_READ TB_WORDS
      (csr_writes b [(A_PERF_CNT_CFG, M_SPC_CFG_CLEAR), (A_SCD_TRACE_CFG, M_SCD_TRACE_CFG_START_READ)] d2) = (rev trace, d3)"
    and "next_tb_sample s <s max_tb_samples s"
  shows "\<exists>p ys. log_rep be p0 (cpud p) (xs @ ys) \<and> subseq ys (owed_samples (restart_pc ef) ptr (the_prof s)) \<and>
    (96 \<le> log_free (cpud (the_prof s)) \<longrightarrow> ys = owed_samples (restart_pc ef) ptr (the_prof s)) \<and>
    exhandler_intr (profiler_interrupts be ptr b f7) K_CAUSE_EXC_INT ef s =
      (if bit cfg 4
       then Inr (ef, s\<lparr>the_prof := p,
         tb_samples := (tb_samples s)(unat (next_tb_sample s) := filled trace (tb_samples s (unat (next_tb_sample s)))),
         next_tb_sample := next_tb_sample s + 1, bus := arm_tb b d3\<rparr>)
       else Inl (Panicked ''unhandled interrupt'' 6))"
proof -
  obtain p ys where p: "sbprof_cpu_intr be (restart_pc ef) ptr (the_prof s) = Inr p"
    "log_rep be p0 (cpud p) (xs @ ys)" "subseq ys (owed_samples (restart_pc ef) ptr (the_prof s))"
    "96 \<le> log_free (cpud (the_prof s)) \<longrightarrow> ys = owed_samples (restart_pc ef) ptr (the_prof s)"
    using intr_rep [OF assms(8), of "restart_pc ef" ptr] by blast
  let ?t = "s\<lparr>the_prof := p\<rparr>"
  let ?i = "profiler_interrupts be ptr b f7"
  have f: "?i f7 (ih_arg (ihands s h7)) ef s = Inr (1, ef, ?t)"
    by (simp add: profiler_interrupts_def trapfunc_eq [OF p(1)])
  have wf: "chains_wf cs s" using assms(1) by (simp add: intr_inv_def)
  have e: "exhandler_intr ?i K_CAUSE_EXC_INT ef s = serve_lines ?i (ihands s) cs [7, 6] ef s"
    unfolding exhandler_intr_lines [OF wf profiler_interrupts_keep] two_lines [OF assms(7)] ..
  have e2: "serve_lines ?i (ihands s) cs [7, 6] ef s =
      bind_res (?i f6 (ih_arg (ihands s h6)) ef ?t) (\<lambda>(r, ef', s').
        if r = 0 then Inl (Panicked ''unhandled interrupt'' 6) else Inr (ef', s'))"
    using assms(2-5) f by (auto simp: bind_res_assoc split_beta exlib_panic_def bind_res_def split: sum.split)
  have i6: "?i f6 (ih_arg (ihands s h6)) ef ?t = zbprof_trapfunc b (ih_arg (ihands s h6)) ef ?t"
    using assms(6) by (simp add: profiler_interrupts_def)
  have r: "SBPROF_READ_CSR b A_SCD_TRACE_CFG (bus ?t) = (cfg, d1)" "next_tb_sample ?t <s max_tb_samples ?t"
    using assms(9,12) by simp_all
  have "exhandler_intr ?i K_CAUSE_EXC_INT ef s = Inl (Panicked ''unhandled interrupt'' 6)" if "\<not> bit cfg 4"
    using zb_not_frozen [OF r(1) that, of "ih_arg (ihands s h6)" ef] unfolding e e2 i6 by auto
  moreover have "exhandler_intr ?i K_CAUSE_EXC_INT ef s = Inr (ef, ?t\<lparr>
      tb_samples := (tb_samples s)(unat (next_tb_sample s) := filled trace (tb_samples s (unat (next_tb_sample s)))),
      next_tb_sample := next_tb_sample s + 1, bus := arm_tb b d3\<rparr>)" if "bit cfg 4"
    unfolding e e2 i6 zb_store(1) [OF r(1) that assms(10,11) r(2)] by simp
  ultimately show ?thesis using p(2-4) by auto
qed
text \<open>A processor whose two profilers' handles are at \<open>0x1000\<close> and \<open>0x2000\<close>.\<close>

definition both_profiling :: "prof \<Rightarrow> u64 list \<Rightarrow> u64 list zb_state" where
  "both_profiling p ws = (sb1_zb ws)
     \<lparr>handler_chains := (\<lambda>i. if i = 7 then 0x1000 else if i = 6 then 0x2000 else 0),
      ihands := (\<lambda>a. \<lparr>ih_next = 0, ih_func = (if a = 0x1000 then 7 else 6), ih_arg = 0, ih_fpsavemask = 0\<rparr>),
      the_prof := p\<rparr>"

lemma both_profiling_inv:
  "intr_inv (\<lambda>i. if i = 7 then [0x1000] else if i = 6 then [0x2000] else []) (both_profiling p ws)"
  using sb1_zb_inv [of ws]
  by (auto simp: both_profiling_def intr_inv_def chains_wf_def mask_is_union_def sb1_zb_def prof_state.defs
      zb_state.defs sb1_prof_fields sb1_istate_defs)

definition both_pending :: exframe where
  "both_pending = \<lparr>ef_regs = (\<lambda>_. 0), ef_hi = 0, ef_lo = 0, ef_status = 0xC000, ef_cause = 0xC000, ef_fpsavemask = 0,
     ef_fcsr = 0, ef_fpregs = (\<lambda>_. 0), ef_mdmxacc = (\<lambda>_. 0)\<rparr>"

lemma profilers_share_interrupt_witness:
  "\<exists>p ys s'. start_prof False 0 0 0 (idle_prof 0x1000) = Inr p \<and>
     exhandler_intr (profiler_interrupts False 0 list_scd 7) K_CAUSE_EXC_INT both_pending
       (both_profiling p (rev (map of_nat [0..<TB_WORDS]))) = Inr (both_pending, s') \<and>
     log_rep False 376 (cpud (the_prof s')) ys \<and> next_tb_sample s' = 1 \<and> tb_samples s' 0 7 = 7"
proof -
  let ?trace = "map of_nat [0..<TB_WORDS] :: u64 list"
  have len: "length (rev ?trace) = TB_WORDS" by simp
  obtain p where p: "start_prof False 0 0 0 (idle_prof 0x1000) = Inr p" "log_rep False 376 (cpud p) []"
    using start_prof_runs [of 0 "idle_prof 0x1000" False 0 0] by (auto simp: idle_prof_def zero_cpudata_def)
  let ?s = "both_profiling p (rev ?trace)"
  have f: "the_prof ?s = p" "bus ?s = rev ?trace" "next_tb_sample ?s = 0" "max_tb_samples ?s = 1"
    "ih_func (ihands ?s 0x1000) = 7" "ih_func (ihands ?s 0x2000) = 6"
    by (simp_all add: both_profiling_def sb1_zb_fields)
  have pend: "\<forall>i<8. (bit (ef_cause both_pending) (8 + i) \<and> bit (ef_status both_pending) (8 + i)) = (i = 7 \<or> i = 6)"
  proof (intro allI impI)
    fix i :: nat assume "i < 8"
    then have "i \<in> {0, 1, 2, 3, 4, 5, 6, 7}" by auto
    then show "(bit (ef_cause both_pending) (8 + i) \<and> bit (ef_status both_pending) (8 + i)) = (i = 7 \<or> i = 6)"
      by (elim insertE emptyE; simp add: both_pending_def; code_simp)
  qed
  have r: "csr_reads list_scd A_SCD_TRACE_READ TB_WORDS (csr_writes list_scd
      [(A_PERF_CNT_CFG, M_SPC_CFG_CLEAR), (A_SCD_TRACE_CFG, M_SCD_TRACE_CFG_START_READ)] (rev ?trace)) = (rev ?trace, [])"
    using list_scd_reads [of "rev ?trace"] by (simp only: len list_scd_writes)
  have "log_rep False 376 (cpud (the_prof ?s)) []" using p(2) f(1) by simp
  from profilers_share_interrupt [OF both_profiling_inv _ _ f(5,6) _ pend this, where b = list_scd and cfg = "0x10"
      and ?d1.0 = "rev ?trace" and src = "0x10" and ?d2.0 = "rev ?trace" and trace = ?trace and ?d3.0 = "[]" and ptr = "0"] p(1) r f
  show ?thesis
    by (auto simp: list_scd_status word_sless_alt filled_def TB_WORDS_def)
qed

end
